(* ===== verification/Prelude.thy ===== *)
theory Prelude
  imports Complex_Main "HOL-Library.Word" "HOL-Library.Char_ord" "HOL-Library.List_Lexorder"
    "HOL-Library.Sublist"
begin

text \<open>
  What the component theories share: the names of the model's base types, the Python idioms
  that occur all over \<^verbatim>\<open>src/src/vulnloom\<close> (an early \<^verbatim>\<open>raise\<close>, \<^verbatim>\<open>dict.fromkeys\<close>, a
  dictionary comprehension, \<^verbatim>\<open>tuple(sorted(set(...)))\<close>, the field patterns of the
  Pydantic models), and the facts about them that the component proofs rest on.

  A computation that may raise has type \<open>'e + 'a\<close>: \<open>Inl e\<close> is the exception, \<open>Inr x\<close> the
  returned value. An aware datetime is its UTC instant, an integer number of microseconds.
\<close>

section \<open>Base types\<close>

type_synonym uuid = "128 word"
type_synonym instant = int
type_synonym digest = string

abbreviation seconds :: "int \<Rightarrow> int" where
  "seconds n \<equiv> n * 1000000"

named_theorems result_simps \<open>case analysis on computations that may raise\<close>
named_theorems idiom_simps \<open>set and membership views of the Python idioms\<close>

section \<open>Computations that may raise\<close>

fun bind_result :: "'e + 'a \<Rightarrow> ('a \<Rightarrow> 'e + 'b) \<Rightarrow> 'e + 'b" where
  "bind_result (Inl e) f = Inl e"
| "bind_result (Inr x) f = f x"

fun is_ok :: "'e + 'a \<Rightarrow> bool" where
  "is_ok (Inl e) = False"
| "is_ok (Inr x) = True"

lemma bind_result_Inr_iff [result_simps]:
  "bind_result r f = Inr y \<longleftrightarrow> (\<exists>x. r = Inr x \<and> f x = Inr y)"
  by (cases r) auto

lemma bind_result_Inl_iff [result_simps]:
  "bind_result r f = Inl e \<longleftrightarrow> r = Inl e \<or> (\<exists>x. r = Inr x \<and> f x = Inl e)"
  by (cases r) auto

lemma is_ok_iff [result_simps]: "is_ok r \<longleftrightarrow> (\<exists>x. r = Inr x)"
  by (cases r) auto

lemma if_raise_Inr_iff [result_simps]:
  "(if b then Inl e else r) = Inr y \<longleftrightarrow> \<not> b \<and> r = Inr y"
  by auto

text \<open>A \<^verbatim>\<open>for\<close> loop whose body may raise.\<close>

fun all_ok :: "('a \<Rightarrow> 'e + unit) \<Rightarrow> 'a list \<Rightarrow> 'e + unit" where
  "all_ok f [] = Inr ()"
| "all_ok f (x # xs) = bind_result (f x) (\<lambda>_. all_ok f xs)"

lemma all_ok_Inr_iff [result_simps]:
  "all_ok f xs = Inr u \<longleftrightarrow> list_all (\<lambda>x. f x = Inr ()) xs"
  by (induction xs) (auto simp: result_simps)

section \<open>Dictionaries, sets and sequences\<close>

text \<open>\<^verbatim>\<open>tuple(dict.fromkeys(xs))\<close>: the distinct items in the order of their first occurrence.\<close>

definition fromkeys :: "'a list \<Rightarrow> 'a list" where
  "fromkeys xs = rev (remdups (rev xs))"

lemma set_fromkeys [simp]: "set (fromkeys xs) = set xs"
  by (simp add: fromkeys_def)

lemma distinct_fromkeys [simp]: "distinct (fromkeys xs)"
  by (simp add: fromkeys_def)

lemma fromkeys_eq_Nil [simp]: "fromkeys xs = [] \<longleftrightarrow> xs = []"
  by (simp add: fromkeys_def)

lemma fromkeys_distinct_id: "distinct xs \<Longrightarrow> fromkeys xs = xs"
  by (simp add: fromkeys_def distinct_remdups_id)

text \<open>\<^verbatim>\<open>{key(x): x for x in xs}\<close>: a later item replaces an earlier one with the same key.\<close>

definition dict_by :: "('a \<Rightarrow> 'k) \<Rightarrow> 'a list \<Rightarrow> ('k \<rightharpoonup> 'a)" where
  "dict_by key xs = map_of (rev (map (\<lambda>x. (key x, x)) xs))"

lemma dict_by_Some: "dict_by key xs k = Some x \<Longrightarrow> x \<in> set xs \<and> key x = k"
  unfolding dict_by_def by (auto dest!: map_of_SomeD)

lemma dict_by_None [idiom_simps]: "dict_by key xs k = None \<longleftrightarrow> k \<notin> key ` set xs"
  unfolding dict_by_def by (force simp: map_of_eq_None_iff image_iff)

lemma dict_by_distinct:
  assumes "distinct (map key xs)" and "x \<in> set xs"
  shows "dict_by key xs (key x) = Some x"
proof -
  have "distinct (map fst (rev (map (\<lambda>y. (key y, y)) xs)))"
    using assms(1) by (simp add: rev_map [symmetric] comp_def)
  moreover have "(key x, x) \<in> set (rev (map (\<lambda>y. (key y, y)) xs))"
    using assms(2) by auto
  ultimately show ?thesis unfolding dict_by_def by (rule map_of_is_SomeI)
qed

lemma dict_by_map: "(\<And>x. key (f x) = key x) \<Longrightarrow> dict_by key (map f xs) k = map_option f (dict_by key xs k)"
proof -
  assume "\<And>x. key (f x) = key x"
  then have "rev (map (\<lambda>x. (key x, x)) (map f xs)) = map (\<lambda>(k, x). (k, f x)) (rev (map (\<lambda>x. (key x, x)) xs))"
    by (simp add: comp_def rev_map [symmetric])
  then show ?thesis by (simp add: dict_by_def map_of_map)
qed

lemma find_SomeD: "List.find P xs = Some x \<Longrightarrow> x \<in> set xs \<and> P x"
  by (induction xs) (auto split: if_splits)

lemma find_append: "List.find P (xs @ ys) = (case List.find P xs of None \<Rightarrow> List.find P ys | Some x \<Rightarrow> Some x)"
  by (induction xs) auto

text \<open>\<^verbatim>\<open>tuple(sorted(set(xs)))\<close>\<close>

definition sorted_set :: "'a::linorder list \<Rightarrow> 'a list" where
  "sorted_set xs = sort (remdups xs)"

lemma sorted_set_fixpoint [idiom_simps]:
  "xs = sorted_set xs \<longleftrightarrow> sorted xs \<and> distinct xs"
proof
  assume *: "xs = sorted_set xs"
  have "sorted (sorted_set xs)" "distinct (sorted_set xs)"
    by (simp_all add: sorted_set_def)
  with * show "sorted xs \<and> distinct xs" by simp
next
  assume "sorted xs \<and> distinct xs"
  then show "xs = sorted_set xs"
    by (simp add: sorted_set_def distinct_remdups_id sorted_sort_id)
qed

text \<open>\<^verbatim>\<open>ORDER BY revision DESC LIMIT 1\<close> on the selected rows of a checkpoint table.\<close>

fun highest_revision :: "('a \<Rightarrow> int) \<Rightarrow> 'a list \<Rightarrow> 'a option" where
  "highest_revision rev_of [] = None"
| "highest_revision rev_of (c # cs) =
     (case highest_revision rev_of cs of
        None \<Rightarrow> Some c
      | Some d \<Rightarrow> if rev_of d \<le> rev_of c then Some c else Some d)"

lemma highest_revision_snoc:
  "highest_revision rev_of (cs @ [d]) =
     (case highest_revision rev_of cs of
        None \<Rightarrow> Some d | Some c \<Rightarrow> if rev_of d \<le> rev_of c then Some c else Some d)"
  by (induction cs) (auto split: option.splits)

lemma highest_revision_mem: "highest_revision rev_of cs = Some c \<Longrightarrow> c \<in> set cs"
  by (induction cs arbitrary: c) (auto split: option.splits if_splits)

section \<open>Field patterns of the Pydantic models\<close>

text \<open>\<^verbatim>\<open>^[0-9a-f]{64}$\<close>\<close>

definition hex_char :: "char \<Rightarrow> bool" where
  "hex_char c \<longleftrightarrow> c \<in> set ''0123456789abcdef''"

definition is_digest :: "string \<Rightarrow> bool" where
  "is_digest s \<longleftrightarrow> length s = 64 \<and> list_all hex_char s"

text \<open>\<^verbatim>\<open>^[a-z][a-z0-9_.-]{0,127}$\<close>\<close>

definition lower_char :: "char \<Rightarrow> bool" where
  "lower_char c \<longleftrightarrow> c \<in> set ''abcdefghijklmnopqrstuvwxyz''"

text \<open>The character classes by their bits, for evaluation.\<close>

lemma hex_char_code [code]:
  "hex_char (Char b0 b1 b2 b3 b4 b5 b6 b7) \<longleftrightarrow>
     \<not> b7 \<and> b5 \<and> (if b6 then \<not> b4 \<and> \<not> b3 \<and> (b0 \<or> b1 \<or> b2) \<and> \<not> (b0 \<and> b1 \<and> b2)
                       else b4 \<and> \<not> (b3 \<and> (b1 \<or> b2)))"
  by (cases b0; cases b1; cases b2; cases b3; cases b4; cases b5; cases b6; cases b7) (simp_all add: hex_char_def)

lemma lower_char_code [code]:
  "lower_char (Char b0 b1 b2 b3 b4 b5 b6 b7) \<longleftrightarrow>
     \<not> b7 \<and> b6 \<and> b5 \<and> (if b4 then \<not> (b3 \<and> (b2 \<or> b1 \<and> b0)) else b0 \<or> b1 \<or> b2 \<or> b3)"
  by (cases b0; cases b1; cases b2; cases b3; cases b4; cases b5; cases b6; cases b7) (simp_all add: lower_char_def)

definition reason_char :: "char \<Rightarrow> bool" where
  "reason_char c \<longleftrightarrow> lower_char c \<or> c \<in> set ''0123456789_.-''"

definition is_reason_code :: "string \<Rightarrow> bool" where
  "is_reason_code s \<longleftrightarrow>
     (case s of [] \<Rightarrow> False | c # cs \<Rightarrow> lower_char c \<and> length cs \<le> 127 \<and> list_all reason_char cs)"

definition opt_all :: "('a \<Rightarrow> bool) \<Rightarrow> 'a option \<Rightarrow> bool" where
  "opt_all P x = (case x of None \<Rightarrow> True | Some y \<Rightarrow> P y)"

lemma opt_all_simps [simp]: "opt_all P None" "opt_all P (Some x) \<longleftrightarrow> P x"
  by (simp_all add: opt_all_def)

section \<open>State machines with a revision counter\<close>

text \<open>
  The lifecycles of the control plane share one contract: a checkpoint is replaced by a
  successor whose revision is one larger, a terminal checkpoint has no successor, and the
  identity of the plan it belongs to never changes. The consequences are proved once here and
  reused by every machine that is shown to meet the contract.
\<close>

inductive steps :: "('s \<Rightarrow> 's \<Rightarrow> bool) \<Rightarrow> 's \<Rightarrow> nat \<Rightarrow> 's \<Rightarrow> bool" for step where
  steps_refl: "steps step s 0 s"
| steps_step: "steps step s n t \<Longrightarrow> step t u \<Longrightarrow> steps step s (Suc n) u"

inductive_cases steps_zeroE: "steps step s 0 t"
inductive_cases steps_SucE: "steps step s (Suc n) t"

lemma steps_invariant:
  assumes "steps step s n t" and "P s" and "\<And>x y. P x \<Longrightarrow> step x y \<Longrightarrow> P y"
  shows "P t"
  using assms by (induction rule: steps.induct) auto

locale revision_machine =
  fixes step :: "'s \<Rightarrow> 's \<Rightarrow> bool"
    and revision_of :: "'s \<Rightarrow> int"
    and owner_of :: "'s \<Rightarrow> 'o"
    and terminal :: "'s \<Rightarrow> bool"
  assumes step_revision: "step s t \<Longrightarrow> revision_of t = revision_of s + 1"
    and step_owner: "step s t \<Longrightarrow> owner_of t = owner_of s"
    and terminal_stuck: "terminal s \<Longrightarrow> \<not> step s t"
begin

lemma steps_revision: "steps step s n t \<Longrightarrow> revision_of t = revision_of s + int n"
  by (induction rule: steps.induct) (auto dest: step_revision)

lemma steps_owner: "steps step s n t \<Longrightarrow> owner_of t = owner_of s"
  by (induction rule: steps.induct) (auto dest: step_owner)

lemma steps_from_terminal:
  assumes "steps step s n t" and "terminal s"
  shows "n = 0 \<and> t = s"
  using assms by (induction rule: steps.induct) (auto dest: terminal_stuck)

lemma steps_never_return: "steps step s n t \<Longrightarrow> 0 < n \<Longrightarrow> t \<noteq> s"
  by (auto dest: steps_revision)

end

text \<open>
  A machine with a budget: every step keeps an invariant and uses up some of a quantity that the
  invariant keeps non-negative, so no run is longer than the budget it starts with.
\<close>

locale budgeted_machine =
  fixes step :: "'s \<Rightarrow> 's \<Rightarrow> bool"
    and inv :: "'s \<Rightarrow> bool"
    and fuel :: "'s \<Rightarrow> int"
  assumes inv_step: "inv s \<Longrightarrow> step s t \<Longrightarrow> inv t"
    and fuel_step: "inv s \<Longrightarrow> step s t \<Longrightarrow> fuel t < fuel s"
    and fuel_nonneg: "inv s \<Longrightarrow> 0 \<le> fuel s"
begin

lemma steps_fuel: "steps step s n t \<Longrightarrow> inv s \<Longrightarrow> inv t \<and> fuel t + int n \<le> fuel s"
proof (induction rule: steps.induct)
  case (steps_step s n t u)
  then show ?case using fuel_step [of t u] inv_step [of t u] by auto
qed simp

lemma steps_bounded: "steps step s n t \<Longrightarrow> inv s \<Longrightarrow> int n \<le> fuel s"
  using steps_fuel [of s n t] fuel_nonneg [of t] by auto

end

section \<open>Implementing an abstract machine\<close>

text \<open>
  A detailed machine implements an abstract one when, under its invariant, every step is a step of the abstract machine seen
  through an abstraction function.
\<close>

locale implementation =
  fixes step :: "'s \<Rightarrow> 's \<Rightarrow> bool"
    and inv :: "'s \<Rightarrow> bool"
    and abs :: "'s \<Rightarrow> 'a"
    and astep :: "'a \<Rightarrow> 'a \<Rightarrow> bool"
  assumes inv_kept: "inv s \<Longrightarrow> step s t \<Longrightarrow> inv t"
    and simulated: "inv s \<Longrightarrow> step s t \<Longrightarrow> astep (abs s) (abs t)"
begin

lemma steps_simulated: "steps step s n t \<Longrightarrow> inv s \<Longrightarrow> inv t \<and> steps astep (abs s) n (abs t)"
  by (induction rule: steps.induct) (auto intro: steps.intros inv_kept simulated)

lemma invariant_transfers:
  assumes "steps step s n t" and "inv s" and "P (abs s)" and "\<And>a b. P a \<Longrightarrow> astep a b \<Longrightarrow> P b"
  shows "P (abs t)"
  using steps_simulated [OF assms(1,2)] assms(3,4) steps_invariant [of astep "abs s" n "abs t" P] by blast

end

end
