(* ===== verification/Digests.thy ===== *)
theory Digests
  imports Prelude "HOL-Library.Multiset"
begin

text \<open>
  The canonical content digest of \<^verbatim>\<open>src/src/vulnloom/domain/digests.py\<close>: Python values, their
  canonical JSON form, the JSON text, and the digest of that text. SHA-256, the ISO
  rendering of a datetime and the representation of a float belong to the standard library
  and are the fields of \<open>digest_env\<close>. The theory states the contract of a content-addressed
  model, which the sealed records of the later theories meet, and shows that the digest does not
  depend on the iteration order of dictionaries and sets.
\<close>

section \<open>Python values and JSON values\<close>

datatype pyval =
    PNone
  | PBool bool
  | PInt int
  | PFloat rat
  | PStr string
  | PUuid uuid
  | PTime instant
  | PEnum string
  | PList "pyval list"
  | PSet "pyval list"
  | PDict "(string \<times> pyval) list"

datatype jval =
    JNull
  | JBool bool
  | JInt int
  | JFloat rat
  | JStr string
  | JArr "jval list"
  | JObj "(string \<times> jval) list"

record digest_env =
  de_sha256 :: "string \<Rightarrow> string"
  de_isoformat :: "instant \<Rightarrow> string"
  de_float_repr :: "rat \<Rightarrow> string"

section \<open>JSON text\<close>

definition hex_digit :: "int \<Rightarrow> char" where
  "hex_digit n = ''0123456789abcdef'' ! nat (n mod 16)"

fun hex_digits :: "nat \<Rightarrow> int \<Rightarrow> string" where
  "hex_digits 0 n = []"
| "hex_digits (Suc k) n = hex_digits k (n div 16) @ [hex_digit n]"

text \<open>\<^verbatim>\<open>json.encoder\<close>: the quotation mark, the backslash and the control characters are
  escaped; with \<^verbatim>\<open>ensure_ascii\<close> so is everything outside the printable ASCII range.\<close>

lemma hex_digit_char: "hex_char (hex_digit n)"
proof -
  have "nat (n mod 16) < 16" by (simp add: nat_less_iff)
  then have "nat (n mod 16) \<in> set [0..<16]" by simp
  then show ?thesis
    by (auto simp: hex_digit_def hex_char_def upt_rec numeral_eq_Suc)
qed

lemma hex_digits_digest: "is_digest (hex_digits 64 n)"
proof -
  have "length (hex_digits k n) = k \<and> list_all hex_char (hex_digits k n)" for k
    by (induction k arbitrary: n) (simp_all add: hex_digit_char)
  then show ?thesis by (simp add: is_digest_def)
qed

definition escape_char :: "bool \<Rightarrow> char \<Rightarrow> string" where
  "escape_char ascii c =
     (let n = of_char c :: int in
      if n = 34 then [CHR 0x5C, CHR 0x22]
      else if n = 92 then [CHR 0x5C, CHR 0x5C]
      else if n = 8 then [CHR 0x5C, CHR ''b'']
      else if n = 12 then [CHR 0x5C, CHR ''f'']
      else if n = 10 then [CHR 0x5C, CHR ''n'']
      else if n = 13 then [CHR 0x5C, CHR ''r'']
      else if n = 9 then [CHR 0x5C, CHR ''t'']
      else if n < 32 \<or> (ascii \<and> 126 < n) then [CHR 0x5C, CHR ''u''] @ hex_digits 4 n
      else [c])"

definition dumps_str :: "bool \<Rightarrow> string \<Rightarrow> string" where
  "dumps_str ascii s = CHR 0x22 # concat (map (escape_char ascii) s) @ [CHR 0x22]"

text \<open>The decimal digits of a non-negative integer.\<close>

function dec_digits :: "int \<Rightarrow> string" where
  "dec_digits n =
     (if n < 10 then [hex_digit n] else dec_digits (n div 10) @ [hex_digit (n mod 10)])"
  by pat_completeness auto
termination by (relation "measure nat") auto

declare dec_digits.simps [simp del]

definition dumps_int :: "int \<Rightarrow> string" where
  "dumps_int i = (if i < 0 then CHR ''-'' # dec_digits (- i) else dec_digits i)"

fun join_with :: "string \<Rightarrow> string list \<Rightarrow> string" where
  "join_with s [] = []"
| "join_with s [x] = x"
| "join_with s (x # y # zs) = x @ s @ join_with s (y # zs)"

text \<open>\<^verbatim>\<open>json.dumps(value, sort_keys=True, separators=(isep, ksep), ensure_ascii=ascii)\<close>\<close>

fun json_dumps :: "digest_env \<Rightarrow> bool \<Rightarrow> string \<Rightarrow> string \<Rightarrow> jval \<Rightarrow> string" where
  "json_dumps E ascii isep ksep JNull = ''null''"
| "json_dumps E ascii isep ksep (JBool b) = (if b then ''true'' else ''false'')"
| "json_dumps E ascii isep ksep (JInt i) = dumps_int i"
| "json_dumps E ascii isep ksep (JFloat r) = de_float_repr E r"
| "json_dumps E ascii isep ksep (JStr s) = dumps_str ascii s"
| "json_dumps E ascii isep ksep (JArr xs) =
     CHR ''['' # join_with isep (map (json_dumps E ascii isep ksep) xs) @ '']''"
| "json_dumps E ascii isep ksep (JObj kvs) =
     CHR ''{'' # join_with isep
        (map (\<lambda>kv. dumps_str ascii (fst kv) @ ksep @ snd kv)
           (sort_key fst (map (\<lambda>kv. (fst kv, json_dumps E ascii isep ksep (snd kv))) kvs)))
      @ ''}''"

text \<open>\<^verbatim>\<open>str(uuid)\<close>: 8-4-4-4-12 hexadecimal digits.\<close>

definition uuid_str :: "uuid \<Rightarrow> string" where
  "uuid_str u =
     (let h = hex_digits 32 (uint u) in
      take 8 h @ ''-'' @ take 4 (drop 8 h) @ ''-'' @ take 4 (drop 12 h) @ ''-'' @
      take 4 (drop 16 h) @ ''-'' @ drop 20 h)"

section \<open>Canonical form and digest\<close>

text \<open>\<^verbatim>\<open>_canonicalize\<close>. The items of a set are sorted by their own JSON text, written with the
  default separators and with \<^verbatim>\<open>ensure_ascii\<close>. Every value of the type \<open>pyval\<close> is supported, so the
  \<^verbatim>\<open>TypeError\<close> branch has no counterpart.\<close>

fun canonicalize :: "digest_env \<Rightarrow> pyval \<Rightarrow> jval" where
  "canonicalize E (PDict kvs) = JObj (map (\<lambda>kv. (fst kv, canonicalize E (snd kv))) kvs)"
| "canonicalize E (PSet xs) =
     JArr (sort_key (json_dumps E True '', '' '': '') (map (canonicalize E) xs))"
| "canonicalize E (PList xs) = JArr (map (canonicalize E) xs)"
| "canonicalize E (PTime t) = JStr (de_isoformat E t)"
| "canonicalize E (PUuid u) = JStr (uuid_str u)"
| "canonicalize E (PEnum s) = JStr s"
| "canonicalize E PNone = JNull"
| "canonicalize E (PStr s) = JStr s"
| "canonicalize E (PInt i) = JInt i"
| "canonicalize E (PFloat r) = JFloat r"
| "canonicalize E (PBool b) = JBool b"

definition canonical_text :: "digest_env \<Rightarrow> pyval \<Rightarrow> string" where
  "canonical_text E v = json_dumps E False '','' '':'' (canonicalize E v)"

definition canonical_digest :: "digest_env \<Rightarrow> pyval \<Rightarrow> digest" where
  "canonical_digest E v = de_sha256 E (canonical_text E v)"

section \<open>Content-addressed models\<close>

text \<open>
  Nearly every model of the program is sealed: its identifier is the digest of its content
  without the identifier. \<open>H\<close> is the digest function, \<open>content\<close> the dump the digest is taken of.
\<close>

definition sealed_by :: "(pyval \<Rightarrow> digest) \<Rightarrow> ('a \<Rightarrow> pyval) \<Rightarrow> ('a \<Rightarrow> digest) \<Rightarrow> 'a \<Rightarrow> bool" where
  "sealed_by H content ident x \<longleftrightarrow> ident x = H (content x)"

text \<open>Every digest is a lower-case SHA-256 hex digest.\<close>

definition hex_valued :: "(pyval \<Rightarrow> digest) \<Rightarrow> bool" where
  "hex_valued H \<longleftrightarrow> (\<forall>v. is_digest (H v))"

locale sealed_model =
  fixes content :: "'a \<Rightarrow> pyval"
    and ident :: "'a \<Rightarrow> digest"
    and set_ident :: "digest \<Rightarrow> 'a \<Rightarrow> 'a"
  assumes content_set_ident: "content (set_ident i x) = content x"
    and ident_set_ident: "ident (set_ident i x) = i"
    and content_ident_inj: "content x = content y \<Longrightarrow> ident x = ident y \<Longrightarrow> x = y"
begin

lemma create_is_sealed: "sealed_by H content ident (set_ident (H (content x)) x)"
  by (simp add: sealed_by_def content_set_ident ident_set_ident)

lemma sealed_unique:
  assumes "sealed_by H content ident x" and "sealed_by H content ident y"
    and "ident x = ident y" and "inj_on H S" and "content x \<in> S" and "content y \<in> S"
  shows "x = y"
proof -
  from assms(1-3) have "H (content x) = H (content y)"
    by (simp add: sealed_by_def)
  with assms(4-6) have "content x = content y"
    by (auto dest: inj_onD)
  then show ?thesis using assms(3) by (rule content_ident_inj)
qed

text \<open>Changing the content under a kept identifier is detected, up to a collision.\<close>

lemma tampering_detected:
  assumes "sealed_by H content ident x" and "ident y = ident x" and "content y \<noteq> content x"
    and "inj_on H S" and "content x \<in> S" and "content y \<in> S"
  shows "\<not> sealed_by H content ident y"
proof
  assume "sealed_by H content ident y"
  with assms have "H (content y) = H (content x)" by (simp add: sealed_by_def)
  with assms(3-6) show False by (auto dest: inj_onD)
qed

end

section \<open>Independence of iteration order\<close>

lemma insort_key_map: "insort_key f (g x) (map g xs) = map g (insort_key (\<lambda>a. f (g a)) x xs)"
  by (induction xs) auto

lemma sort_key_map: "sort_key f (map g xs) = map g (sort_key (\<lambda>a. f (g a)) xs)"
  by (induction xs) (simp_all add: insort_key_map)

lemma insort_key_agree:
  "(\<And>y. y \<in> insert x (set xs) \<Longrightarrow> f y = g y) \<Longrightarrow> insort_key f x xs = insort_key g x xs"
  by (induction xs) auto

lemma sort_key_agree: "(\<And>x. x \<in> set xs \<Longrightarrow> f x = g x) \<Longrightarrow> sort_key f xs = sort_key g xs"
proof (induction xs)
  case (Cons x xs)
  then have "sort_key f xs = sort_key g xs" by simp
  moreover have "insort_key f x (sort_key g xs) = insort_key g x (sort_key g xs)"
    by (rule insort_key_agree) (use Cons.prems in auto)
  ultimately show ?case by simp
qed simp

text \<open>The value with the entries of every dictionary in it sorted by key.\<close>

fun sort_dicts :: "pyval \<Rightarrow> pyval" where
  "sort_dicts (PDict kvs) = PDict (sort_key fst (map (\<lambda>kv. (fst kv, sort_dicts (snd kv))) kvs))"
| "sort_dicts (PSet xs) = PSet (map sort_dicts xs)"
| "sort_dicts (PList xs) = PList (map sort_dicts xs)"
| "sort_dicts v = v"

lemma sort_key_fst_map:
  "sort_key fst (map (\<lambda>kv. (fst kv, f (snd kv))) xs) = map (\<lambda>kv. (fst kv, f (snd kv))) (sort_key fst xs)"
  using sort_key_map [of fst "\<lambda>kv. (fst kv, f (snd kv))"] by simp

lemma sort_key_fst_idem [simp]: "sort_key fst (sort_key fst xs) = sort_key fst xs"
  by (rule sort_key_id_if_sorted) simp

lemma sort_key_fst_absorb:
  "sort_key fst (map (\<lambda>kv. (fst kv, f (snd kv))) (sort_key fst xs)) = sort_key fst (map (\<lambda>kv. (fst kv, f (snd kv))) xs)"
  by (simp only: sort_key_fst_map sort_key_fst_idem)

lemma json_dumps_sort_dicts:
  "json_dumps E ascii isep ksep (canonicalize E (sort_dicts v)) = json_dumps E ascii isep ksep (canonicalize E v)"
proof (induction v arbitrary: ascii isep ksep rule: sort_dicts.induct)
  case (1 kvs)
  have "map (\<lambda>kv. (fst kv, json_dumps E ascii isep ksep (canonicalize E (sort_dicts (snd kv))))) kvs =
      map (\<lambda>kv. (fst kv, json_dumps E ascii isep ksep (canonicalize E (snd kv)))) kvs"
    using "1.IH" by (auto intro!: map_cong)
  then show ?case
    using sort_key_fst_absorb [of "\<lambda>v. json_dumps E ascii isep ksep (canonicalize E v)"
        "map (\<lambda>kv. (fst kv, sort_dicts (snd kv))) kvs"]
    by (simp only: sort_dicts.simps canonicalize.simps json_dumps.simps map_map comp_def fst_conv snd_conv)
next
  case (2 xs)
  let ?t = "\<lambda>a i k v. json_dumps E a i k (canonicalize E v)"
  have t: "sort_key (\<lambda>v. ?t True '', '' '': '' (sort_dicts v)) xs = sort_key (?t True '', '' '': '') xs"
    by (rule sort_key_agree) (simp_all add: "2.IH")
  have "map (\<lambda>v. ?t ascii isep ksep (sort_dicts v)) (sort_key (?t True '', '' '': '') xs) =
      map (?t ascii isep ksep) (sort_key (?t True '', '' '': '') xs)"
    using "2.IH" by (intro map_cong) auto
  with t show ?case
    by (simp only: sort_dicts.simps canonicalize.simps json_dumps.simps sort_key_map map_map comp_def)
next
  case (3 xs)
  then have "map (\<lambda>v. json_dumps E ascii isep ksep (canonicalize E (sort_dicts v))) xs =
      map (\<lambda>v. json_dumps E ascii isep ksep (canonicalize E v)) xs" by (intro map_cong) auto
  then show ?case
    by (simp only: sort_dicts.simps canonicalize.simps json_dumps.simps map_map comp_def)
qed simp_all

lemma canonical_text_sort_dicts: "canonical_text E (sort_dicts v) = canonical_text E v"
  by (simp add: canonical_text_def json_dumps_sort_dicts)

lemma sort_dicts_idem: "sort_dicts (sort_dicts v) = sort_dicts v"
proof (induction v rule: sort_dicts.induct)
  case (1 kvs)
  have "map (\<lambda>kv. (fst kv, sort_dicts (sort_dicts (snd kv)))) kvs = map (\<lambda>kv. (fst kv, sort_dicts (snd kv))) kvs"
    using "1.IH" by (auto intro!: map_cong)
  then show ?case
    using sort_key_fst_absorb [of sort_dicts "map (\<lambda>kv. (fst kv, sort_dicts (snd kv))) kvs"]
    by (simp only: sort_dicts.simps map_map comp_def fst_conv snd_conv)
qed simp_all

text \<open>What the digest function gives every component that dumps a dictionary or stores it as JSON.\<close>

definition order_independent :: "(pyval \<Rightarrow> digest) \<Rightarrow> bool" where
  "order_independent H \<longleftrightarrow> (\<forall>v. H (sort_dicts v) = H v)"

lemma canonical_digest_order_independent: "order_independent (canonical_digest E)"
  by (simp add: order_independent_def canonical_digest_def canonical_text_sort_dicts)

lemma order_independentD: "order_independent H \<Longrightarrow> sort_dicts v = sort_dicts w \<Longrightarrow> H v = H w"
  unfolding order_independent_def by metis

end
