(* ===== verification/Domain.thy ===== *)
theory Domain
  imports Digests
begin

text \<open>
  The domain objects of \<^verbatim>\<open>src/src/vulnloom/domain/models.py\<close> that the modelled components exchange.
  A Pydantic model is a record with its fields; \<open>X_valid\<close> is the conjunction of its declared field
  constraints and its validators, which Pydantic checks whenever an object is constructed or
  re-validated (and does not check in \<^verbatim>\<open>model_copy(update=...)\<close>). A frozenset field is the list of its
  items in iteration order. \<open>X_dump\<close> is \<^verbatim>\<open>model_dump(mode="python")\<close>. \<^verbatim>\<open>uuid5(NAMESPACE_URL, .)\<close> is a
  parameter of the validators that use it.
\<close>

section \<open>Enumerations\<close>

datatype ScopeState = Scope_DRAFT | Scope_APPROVED | Scope_REVOKED

datatype CandidateState =
    Cand_PROPOSED | Cand_REJECTED | Cand_DUPLICATE | Cand_VALIDATION_PENDING
  | Cand_VALIDATION_RUNNING | Cand_VALIDATED | Cand_INCONCLUSIVE | Cand_CRITIC_REVIEWED
  | Cand_PROMOTED

datatype ValidationResult =
    VR_REPRODUCED | VR_NOT_REPRODUCED | VR_INCONCLUSIVE | VR_POLICY_STOPPED | VR_TIMED_OUT

datatype CriticVerdict = CV_ACCEPTED | CV_REJECTED | CV_INCONCLUSIVE

datatype ApprovalStatus = Appr_PENDING | Appr_GRANTED | Appr_DENIED | Appr_REVOKED

datatype ApprovalAction =
    RUN_VALIDATION | RUN_CRITIC | RUN_UNTRUSTED_BUILD | MUTATE_TARGET_STATE
  | USE_REAL_CREDENTIALS | EXTERNAL_CALLBACK | SUBMIT_REPORT | REVIEW_REPORT | EXPORT_REPORT
  | EXECUTE_RED_TEAM_ACTION | ADVANCE_CAMPAIGN_PHASE | CREATE_CAMPAIGN_CANDIDATE
  | QUEUE_CAMPAIGN_CANDIDATE_VALIDATION | QUEUE_CAMPAIGN_CANDIDATE_CRITIC

datatype ReportChannel = RC_GENERIC | RC_EDUSRC | RC_CNVD | RC_VENDOR | RC_CVE_DRAFT

datatype ReportSectionKind =
    RS_SUMMARY | RS_CODE_LOCATION | RS_REQUEST_RESPONSE | RS_REPRODUCTION | RS_IMPACT
  | RS_REMEDIATION

datatype RedactionStatus = Red_PASSED | Red_FAILED

datatype ReportReviewStatus =
    RR_DRAFT | RR_CHANGES_REQUESTED | RR_REJECTED | RR_HUMAN_APPROVED | RR_EXPORTED | RR_SUBMITTED

fun scope_state_value :: "ScopeState \<Rightarrow> string" where
  "scope_state_value Scope_DRAFT = ''draft''"
| "scope_state_value Scope_APPROVED = ''approved''"
| "scope_state_value Scope_REVOKED = ''revoked''"

fun candidate_state_value :: "CandidateState \<Rightarrow> string" where
  "candidate_state_value Cand_PROPOSED = ''proposed''"
| "candidate_state_value Cand_REJECTED = ''rejected''"
| "candidate_state_value Cand_DUPLICATE = ''duplicate''"
| "candidate_state_value Cand_VALIDATION_PENDING = ''validation_pending''"
| "candidate_state_value Cand_VALIDATION_RUNNING = ''validation_running''"
| "candidate_state_value Cand_VALIDATED = ''validated''"
| "candidate_state_value Cand_INCONCLUSIVE = ''inconclusive''"
| "candidate_state_value Cand_CRITIC_REVIEWED = ''critic_reviewed''"
| "candidate_state_value Cand_PROMOTED = ''promoted''"

fun validation_result_value :: "ValidationResult \<Rightarrow> string" where
  "validation_result_value VR_REPRODUCED = ''reproduced''"
| "validation_result_value VR_NOT_REPRODUCED = ''not_reproduced''"
| "validation_result_value VR_INCONCLUSIVE = ''inconclusive''"
| "validation_result_value VR_POLICY_STOPPED = ''policy_stopped''"
| "validation_result_value VR_TIMED_OUT = ''timed_out''"

fun approval_action_value :: "ApprovalAction \<Rightarrow> string" where
  "approval_action_value RUN_VALIDATION = ''run_validation''"
| "approval_action_value RUN_CRITIC = ''run_critic''"
| "approval_action_value RUN_UNTRUSTED_BUILD = ''run_untrusted_build''"
| "approval_action_value MUTATE_TARGET_STATE = ''mutate_target_state''"
| "approval_action_value USE_REAL_CREDENTIALS = ''use_real_credentials''"
| "approval_action_value EXTERNAL_CALLBACK = ''external_callback''"
| "approval_action_value SUBMIT_REPORT = ''submit_report''"
| "approval_action_value REVIEW_REPORT = ''review_report''"
| "approval_action_value EXPORT_REPORT = ''export_report''"
| "approval_action_value EXECUTE_RED_TEAM_ACTION = ''execute_red_team_action''"
| "approval_action_value ADVANCE_CAMPAIGN_PHASE = ''advance_campaign_phase''"
| "approval_action_value CREATE_CAMPAIGN_CANDIDATE = ''create_campaign_candidate''"
| "approval_action_value QUEUE_CAMPAIGN_CANDIDATE_VALIDATION = ''queue_campaign_candidate_validation''"
| "approval_action_value QUEUE_CAMPAIGN_CANDIDATE_CRITIC = ''queue_campaign_candidate_critic''"

fun report_channel_value :: "ReportChannel \<Rightarrow> string" where
  "report_channel_value RC_GENERIC = ''generic''"
| "report_channel_value RC_EDUSRC = ''edusrc''"
| "report_channel_value RC_CNVD = ''cnvd''"
| "report_channel_value RC_VENDOR = ''vendor''"
| "report_channel_value RC_CVE_DRAFT = ''cve-draft''"

definition DETERMINISTIC_CRITIC_RULESET_DIGEST :: digest where
  "DETERMINISTIC_CRITIC_RULESET_DIGEST =
     ''89818c9526464c4df3152e49bc33d8166245ebcb3ce589302b09fbf157f09c11''"

section \<open>Dumping helpers\<close>

definition p_opt :: "('a \<Rightarrow> pyval) \<Rightarrow> 'a option \<Rightarrow> pyval" where
  "p_opt f x = (case x of None \<Rightarrow> PNone | Some y \<Rightarrow> f y)"

definition p_strs :: "string list \<Rightarrow> pyval" where
  "p_strs xs = PList (map PStr xs)"

lemma p_opt_inj: "inj f \<Longrightarrow> PNone \<notin> range f \<Longrightarrow> inj (p_opt f)"
  unfolding p_opt_def inj_def by (auto split: option.splits simp: image_iff eq_commute [of PNone])

lemma p_strs_inject [simp]: "p_strs xs = p_strs ys \<longleftrightarrow> xs = ys"
proof -
  have "inj (map PStr)" by (rule inj_mapI) (simp add: inj_def)
  then show ?thesis by (auto simp: p_strs_def dest: injD)
qed

lemma p_opt_inject:
  assumes "p_opt f x = p_opt f y" and "inj f" and "PNone \<notin> range f"
  shows "x = y"
  using p_opt_inj [OF assms(2,3)] assms(1) by (auto dest: injD)

lemma candidate_state_value_inject [simp]:
  "candidate_state_value a = candidate_state_value b \<longleftrightarrow> a = b"
  by (cases a; cases b) simp_all

lemma validation_result_value_inject [simp]:
  "validation_result_value a = validation_result_value b \<longleftrightarrow> a = b"
  by (cases a; cases b) simp_all

lemma approval_action_value_inject [simp]:
  "approval_action_value a = approval_action_value b \<longleftrightarrow> a = b"
  by (cases a; cases b) simp_all

lemma scope_state_value_inject [simp]: "scope_state_value a = scope_state_value b \<longleftrightarrow> a = b"
  by (cases a; cases b) simp_all

section \<open>Scope\<close>

record RepositoryScope =
  repo_url :: string
  repo_commit :: string

record ArtifactScope =
  as_kind :: string
  as_sha256 :: digest
  as_source_name :: string

record NetworkTargetScope =
  nt_host :: string
  nt_ports :: "int list"
  nt_schemes :: "string list"

record Scope =
  scope_id :: uuid
  sc_engagement_id :: uuid
  sc_version :: int
  sc_authority_reference :: string
  valid_from :: instant
  valid_until :: instant
  repositories :: "RepositoryScope list"
  sc_artifacts :: "ArtifactScope list"
  network_targets :: "NetworkTargetScope list"
  allowed_identities :: "string list"
  allowed_test_classes :: "string list"
  denied_actions :: "string list"
  rate_limits :: "(string \<times> int) list"
  approval_requirements :: "ApprovalAction list"
  sc_state :: ScopeState
  sc_approved_by :: "string option"
  sc_approved_at :: "instant option"

text \<open>The field constraints: a commit of 7 to 64 hexadecimal digits in either case, a SHA-256 digest, texts that are
  not empty.\<close>

definition RepositoryScope_valid :: "RepositoryScope \<Rightarrow> bool" where
  "RepositoryScope_valid r \<longleftrightarrow>
     repo_url r \<noteq> [] \<and> 7 \<le> length (repo_commit r) \<and> length (repo_commit r) \<le> 64 \<and>
     list_all (\<lambda>c. hex_char c \<or> c \<in> set ''ABCDEF'') (repo_commit r)"

definition ArtifactScope_valid :: "ArtifactScope \<Rightarrow> bool" where
  "ArtifactScope_valid a \<longleftrightarrow>
     as_kind a \<in> {''source_archive'', ''iac_bundle'', ''git_repository'', ''oci_image''} \<and>
     is_digest (as_sha256 a) \<and> as_source_name a \<noteq> []"

text \<open>\<^verbatim>\<open>NetworkTargetScope.supported_schemes\<close>, on schemes that are already lower case.\<close>

definition NetworkTargetScope_valid :: "NetworkTargetScope \<Rightarrow> bool" where
  "NetworkTargetScope_valid t \<longleftrightarrow>
     nt_host t \<noteq> [] \<and> list_all (\<lambda>p. 1 \<le> p \<and> p \<le> 65535) (nt_ports t) \<and>
     nt_schemes t \<noteq> [] \<and> set (nt_schemes t) \<subseteq> {''http'', ''https''}"

definition Scope_valid :: "Scope \<Rightarrow> bool" where
  "Scope_valid s \<longleftrightarrow>
     1 \<le> sc_version s \<and> sc_authority_reference s \<noteq> [] \<and>
     list_all (\<lambda>kv. 1 \<le> snd kv) (rate_limits s) \<and>
     list_all RepositoryScope_valid (repositories s) \<and> list_all ArtifactScope_valid (sc_artifacts s) \<and>
     list_all NetworkTargetScope_valid (network_targets s) \<and>
     valid_from s < valid_until s"

definition RepositoryScope_dump :: "RepositoryScope \<Rightarrow> pyval" where
  "RepositoryScope_dump r = PDict [(''url'', PStr (repo_url r)), (''commit'', PStr (repo_commit r))]"

definition ArtifactScope_dump :: "ArtifactScope \<Rightarrow> pyval" where
  "ArtifactScope_dump a = PDict [(''kind'', PEnum (as_kind a)), (''sha256'', PStr (as_sha256 a)),
     (''source_name'', PStr (as_source_name a))]"

definition NetworkTargetScope_dump :: "NetworkTargetScope \<Rightarrow> pyval" where
  "NetworkTargetScope_dump t = PDict [(''host'', PStr (nt_host t)),
     (''ports'', PSet (map PInt (nt_ports t))), (''schemes'', PSet (map PStr (nt_schemes t)))]"

definition Scope_dump :: "Scope \<Rightarrow> pyval" where
  "Scope_dump s = PDict
     [(''scope_id'', PUuid (scope_id s)), (''engagement_id'', PUuid (sc_engagement_id s)),
      (''version'', PInt (sc_version s)), (''authority_reference'', PStr (sc_authority_reference s)),
      (''valid_from'', PTime (valid_from s)), (''valid_until'', PTime (valid_until s)),
      (''repositories'', PList (map RepositoryScope_dump (repositories s))),
      (''artifacts'', PList (map ArtifactScope_dump (sc_artifacts s))),
      (''network_targets'', PList (map NetworkTargetScope_dump (network_targets s))),
      (''allowed_identities'', PSet (map PStr (allowed_identities s))),
      (''allowed_test_classes'', PSet (map PStr (allowed_test_classes s))),
      (''denied_actions'', PSet (map PStr (denied_actions s))),
      (''rate_limits'', PDict (map (\<lambda>kv. (fst kv, PInt (snd kv))) (rate_limits s))),
      (''approval_requirements'', PSet (map (\<lambda>a. PEnum (approval_action_value a)) (approval_requirements s))),
      (''state'', PEnum (scope_state_value (sc_state s))),
      (''approved_by'', p_opt PStr (sc_approved_by s)),
      (''approved_at'', p_opt PTime (sc_approved_at s))]"

text \<open>The guard \<^verbatim>\<open>scope.valid_from <= now < scope.valid_until\<close> that several components share.\<close>

definition in_validity_window :: "Scope \<Rightarrow> instant \<Rightarrow> bool" where
  "in_validity_window s now \<longleftrightarrow> valid_from s \<le> now \<and> now < valid_until s"

section \<open>Candidates, runs, evidence, reviews and findings\<close>

record SourceLocation =
  loc_path :: string
  loc_line :: int
  loc_symbol :: "string option"

record Candidate =
  candidate_id :: uuid
  cand_target_id :: uuid
  cand_target_version :: string
  source_graph_id :: digest
  cand_scope_id :: uuid
  cand_scope_version :: int
  cand_title :: string
  cwe :: string
  entry_point :: SourceLocation
  cand_sink :: SourceLocation
  code_path :: "SourceLocation list"
  preconditions :: "string list"
  security_invariant :: string
  cand_hypothesis :: string
  signal_ids :: "digest list"
  cheapest_disproof :: string
  duplicate_fingerprint :: digest
  confidence :: rat
  cand_state :: CandidateState

text \<open>The declared constraints of \<^verbatim>\<open>SourceLocation\<close> and \<^verbatim>\<open>Candidate\<close>; \<open>is_cwe\<close> is the pattern
  \<^verbatim>\<open>^CWE-[1-9][0-9]*$\<close>.\<close>

definition SourceLocation_valid :: "SourceLocation \<Rightarrow> bool" where
  "SourceLocation_valid l \<longleftrightarrow> loc_path l \<noteq> [] \<and> 1 \<le> loc_line l"

definition is_cwe :: "string \<Rightarrow> bool" where
  "is_cwe s \<longleftrightarrow> take 4 s = ''CWE-'' \<and>
     (case drop 4 s of [] \<Rightarrow> False
      | c # cs \<Rightarrow> c \<in> set ''123456789'' \<and> list_all (\<lambda>d. d \<in> set ''0123456789'') cs)"

definition Candidate_valid :: "Candidate \<Rightarrow> bool" where
  "Candidate_valid c \<longleftrightarrow>
     cand_target_version c \<noteq> [] \<and> is_digest (source_graph_id c) \<and> 1 \<le> cand_scope_version c \<and>
     cand_title c \<noteq> [] \<and> is_cwe (cwe c) \<and> SourceLocation_valid (entry_point c) \<and>
     SourceLocation_valid (cand_sink c) \<and> code_path c \<noteq> [] \<and>
     list_all SourceLocation_valid (code_path c) \<and> security_invariant c \<noteq> [] \<and>
     cand_hypothesis c \<noteq> [] \<and> signal_ids c \<noteq> [] \<and> list_all is_digest (signal_ids c) \<and>
     cheapest_disproof c \<noteq> [] \<and> is_digest (duplicate_fingerprint c) \<and>
     0 \<le> confidence c \<and> confidence c \<le> 1"

definition SourceLocation_dump :: "SourceLocation \<Rightarrow> pyval" where
  "SourceLocation_dump l = PDict [(''path'', PStr (loc_path l)), (''line'', PInt (loc_line l)),
     (''symbol'', p_opt PStr (loc_symbol l))]"

definition Candidate_dump :: "Candidate \<Rightarrow> pyval" where
  "Candidate_dump c = PDict
     [(''candidate_id'', PUuid (candidate_id c)), (''target_id'', PUuid (cand_target_id c)),
      (''target_version'', PStr (cand_target_version c)), (''source_graph_id'', PStr (source_graph_id c)),
      (''scope_id'', PUuid (cand_scope_id c)), (''scope_version'', PInt (cand_scope_version c)),
      (''title'', PStr (cand_title c)), (''cwe'', PStr (cwe c)),
      (''entry_point'', SourceLocation_dump (entry_point c)), (''sink'', SourceLocation_dump (cand_sink c)),
      (''code_path'', PList (map SourceLocation_dump (code_path c))),
      (''preconditions'', p_strs (preconditions c)), (''security_invariant'', PStr (security_invariant c)),
      (''hypothesis'', PStr (cand_hypothesis c)), (''signal_ids'', p_strs (signal_ids c)),
      (''cheapest_disproof'', PStr (cheapest_disproof c)),
      (''duplicate_fingerprint'', PStr (duplicate_fingerprint c)),
      (''confidence'', PFloat (confidence c)), (''state'', PEnum (candidate_state_value (cand_state c)))]"

record ApprovalRequest =
  approval_id :: uuid
  appr_engagement_id :: uuid
  appr_target_id :: "uuid option"
  appr_action :: ApprovalAction
  action_digest :: digest
  appr_expected_side_effects :: "string list"
  appr_evidence_summary :: string
  policy_version :: int
  expires_at :: instant
  appr_status :: ApprovalStatus
  appr_decided_by :: "string option"
  appr_decided_at :: "instant option"

definition is_valid_for :: "ApprovalRequest \<Rightarrow> ApprovalAction \<Rightarrow> digest \<Rightarrow> instant \<Rightarrow> bool" where
  "is_valid_for a act dig now \<longleftrightarrow>
     appr_status a = Appr_GRANTED \<and> appr_action a = act \<and> action_digest a = dig \<and> now < expires_at a"

record ValidationRun =
  run_id :: uuid
  run_candidate_id :: uuid
  run_target_version :: string
  run_scope_version :: int
  sandbox_image_digest :: string
  run_policy_digest :: digest
  run_plan :: "string list"
  started_at :: instant
  finished_at :: instant
  run_result :: ValidationResult
  run_side_effects :: "string list"
  run_evidence_refs :: "digest list"
  resource_usage :: "(string \<times> pyval) list"

definition ValidationRun_valid :: "ValidationRun \<Rightarrow> bool" where
  "ValidationRun_valid r \<longleftrightarrow>
     run_target_version r \<noteq> [] \<and> 1 \<le> run_scope_version r \<and>
     take 7 (sandbox_image_digest r) = ''sha256:'' \<and> is_digest (drop 7 (sandbox_image_digest r)) \<and>
     is_digest (run_policy_digest r) \<and> started_at r \<le> finished_at r"

definition ValidationRun_dump :: "ValidationRun \<Rightarrow> pyval" where
  "ValidationRun_dump r = PDict
     [(''run_id'', PUuid (run_id r)), (''candidate_id'', PUuid (run_candidate_id r)),
      (''target_version'', PStr (run_target_version r)), (''scope_version'', PInt (run_scope_version r)),
      (''sandbox_image_digest'', PStr (sandbox_image_digest r)),
      (''policy_digest'', PStr (run_policy_digest r)), (''plan'', p_strs (run_plan r)),
      (''started_at'', PTime (started_at r)), (''finished_at'', PTime (finished_at r)),
      (''result'', PEnum (validation_result_value (run_result r))),
      (''side_effects'', p_strs (run_side_effects r)), (''evidence_refs'', p_strs (run_evidence_refs r)),
      (''resource_usage'', PDict (resource_usage r))]"

datatype EvidenceKind = Ev_SOURCE | Ev_HTTP | Ev_LOG | Ev_SCREENSHOT | Ev_TEST | Ev_POLICY | Ev_TLS

record Evidence =
  evidence_id :: digest
  ev_kind :: EvidenceKind
  ev_source_ref :: string
  ev_captured_at :: instant
  ev_producer :: string
  ev_target_version :: string
  ev_redaction_policy :: string
  ev_content_ref :: string
  ev_summary :: string

definition Evidence_valid :: "Evidence \<Rightarrow> bool" where
  "Evidence_valid e \<longleftrightarrow>
     is_digest (evidence_id e) \<and> ev_source_ref e \<noteq> [] \<and> ev_producer e \<noteq> [] \<and> ev_target_version e \<noteq> [] \<and>
     ev_redaction_policy e \<noteq> [] \<and> ev_content_ref e \<noteq> [] \<and> ev_summary e \<noteq> []"

record EvidenceBundle =
  bundle_id :: uuid
  eb_candidate_id :: uuid
  eb_evidence_refs :: "digest list"
  sealed_at :: instant

definition EvidenceBundle_dump :: "EvidenceBundle \<Rightarrow> pyval" where
  "EvidenceBundle_dump b = PDict
     [(''bundle_id'', PUuid (bundle_id b)), (''candidate_id'', PUuid (eb_candidate_id b)),
      (''evidence_refs'', p_strs (eb_evidence_refs b)), (''sealed_at'', PTime (sealed_at b))]"

record CriticReview =
  review_id :: uuid
  rev_plan_id :: digest
  rev_candidate_id :: uuid
  rev_validation_run_id :: uuid
  rev_evidence_bundle_id :: uuid
  rev_validation_context_id :: digest
  rev_review_context_id :: digest
  rev_ruleset_digest :: digest
  rev_verdict :: CriticVerdict
  counterevidence_refs :: "digest list"
  rev_rationale_code :: string
  reviewed_at :: instant

text \<open>\<^verbatim>\<open>CriticReview.independent_and_evidence_bound\<close>\<close>

definition CriticReview_valid :: "(string \<Rightarrow> uuid) \<Rightarrow> CriticReview \<Rightarrow> bool" where
  "CriticReview_valid uuid5 r \<longleftrightarrow>
     review_id r = uuid5 (''vulnloom:critic-review:'' @ rev_plan_id r) \<and>
     rev_ruleset_digest r = DETERMINISTIC_CRITIC_RULESET_DIGEST \<and>
     rev_validation_context_id r \<noteq> rev_review_context_id r \<and>
     \<not> (rev_verdict r = CV_ACCEPTED \<and> counterevidence_refs r \<noteq> []) \<and>
     \<not> (rev_verdict r = CV_REJECTED \<and> counterevidence_refs r = []) \<and>
     is_reason_code (rev_rationale_code r)"

definition accepted :: "CriticReview \<Rightarrow> bool" where
  "accepted r \<longleftrightarrow> rev_verdict r = CV_ACCEPTED"

record Finding =
  finding_id :: uuid
  fnd_candidate_id :: uuid
  root_cause :: string
  affected_versions :: "string list"
  fnd_preconditions :: "string list"
  fnd_impact :: string
  severity_assessment :: "(string \<times> pyval) list"
  validation_run_ids :: "uuid list"
  fnd_evidence_bundle_id :: uuid
  duplicate_family_id :: "uuid option"
  fnd_state :: string

definition Finding_valid :: "Finding \<Rightarrow> bool" where
  "Finding_valid f \<longleftrightarrow> root_cause f \<noteq> [] \<and> fnd_impact f \<noteq> []"

section \<open>Reports\<close>

record ReportSection =
  sec_kind :: ReportSectionKind
  sec_text :: string
  sec_evidence_refs :: "digest list"

definition ReportSection_valid :: "ReportSection \<Rightarrow> bool" where
  "ReportSection_valid s \<longleftrightarrow>
     1 \<le> length (sec_text s) \<and> length (sec_text s) \<le> 8192 \<and>
     \<not> (sec_kind s \<in> {RS_CODE_LOCATION, RS_REQUEST_RESPONSE, RS_REPRODUCTION, RS_IMPACT} \<and>
        sec_evidence_refs s = [])"

record Report =
  report_id :: uuid
  report_family_id :: uuid
  draft_plan_id :: digest
  rep_finding_id :: uuid
  rep_candidate_id :: uuid
  rep_evidence_bundle_id :: uuid
  rep_target_version :: string
  rep_scope_id :: uuid
  rep_scope_version :: int
  channel :: ReportChannel
  rep_version :: int
  rep_title :: string
  rep_summary :: string
  reproduction :: "string list"
  rep_impact :: string
  remediation :: string
  rep_sections :: "ReportSection list"
  rep_evidence_refs :: "digest list"
  redaction_status :: RedactionStatus
  review_status :: ReportReviewStatus

definition all_section_kinds :: "ReportSectionKind list" where
  "all_section_kinds =
     [RS_SUMMARY, RS_CODE_LOCATION, RS_REQUEST_RESPONSE, RS_REPRODUCTION, RS_IMPACT, RS_REMEDIATION]"

definition section_count :: "ReportSection list \<Rightarrow> ReportSectionKind \<Rightarrow> nat" where
  "section_count ss k = length (filter (\<lambda>s. sec_kind s = k) ss)"

definition section_text :: "ReportSection list \<Rightarrow> ReportSectionKind \<Rightarrow> string option" where
  "section_text ss k = map_option sec_text (dict_by sec_kind ss k)"

text \<open>\<^verbatim>\<open>Report.deterministic_draft_is_consistent\<close>\<close>

definition Report_valid :: "(string \<Rightarrow> uuid) \<Rightarrow> Report \<Rightarrow> bool" where
  "Report_valid uuid5 r \<longleftrightarrow>
     6 \<le> length (rep_sections r) \<and> length (rep_sections r) \<le> 32 \<and>
     list_all ReportSection_valid (rep_sections r) \<and>
     report_id r = uuid5 (''vulnloom:report:'' @ draft_plan_id r) \<and>
     report_family_id r = uuid5 (''vulnloom:report-family:'' @ uuid_str (rep_finding_id r) @ '':'' @
        report_channel_value (channel r)) \<and>
     \<not> (list_ex (\<lambda>k. k \<noteq> RS_REPRODUCTION \<and> section_count (rep_sections r) k \<noteq> 1) all_section_kinds \<or>
        section_count (rep_sections r) RS_REPRODUCTION < 1) \<and>
     fromkeys (concat (map sec_evidence_refs (rep_sections r))) = rep_evidence_refs r \<and>
     Some (rep_summary r) = section_text (rep_sections r) RS_SUMMARY \<and>
     reproduction r = map sec_text (filter (\<lambda>s. sec_kind s = RS_REPRODUCTION) (rep_sections r)) \<and>
     Some (rep_impact r) = section_text (rep_sections r) RS_IMPACT \<and>
     Some (remediation r) = section_text (rep_sections r) RS_REMEDIATION \<and>
     redaction_status r = Red_PASSED"

end
