(* ===== verification/Candidate_Lifecycle.thy ===== *)
theory Candidate_Lifecycle
  imports Domain
begin

text \<open>
  The Candidate and Finding lifecycle of \<^verbatim>\<open>src/src/vulnloom/domain/state_machine.py\<close> and the Campaign
  variant of \<^verbatim>\<open>src/src/vulnloom/red_team/campaign_candidate_state_machine.py\<close>: the transition table,
  the guarded operations over it, and the deterministic gate from a Candidate to a Finding.
\<close>

section \<open>The transition table\<close>

datatype lifecycle_error = TransitionRejected string | FindingInvalid

fun CANDIDATE_TRANSITIONS :: "CandidateState \<Rightarrow> CandidateState list" where
  "CANDIDATE_TRANSITIONS Cand_PROPOSED = [Cand_REJECTED, Cand_DUPLICATE, Cand_VALIDATION_PENDING]"
| "CANDIDATE_TRANSITIONS Cand_VALIDATION_PENDING = [Cand_VALIDATION_RUNNING]"
| "CANDIDATE_TRANSITIONS Cand_VALIDATION_RUNNING = [Cand_VALIDATED, Cand_INCONCLUSIVE]"
| "CANDIDATE_TRANSITIONS Cand_VALIDATED = [Cand_CRITIC_REVIEWED]"
| "CANDIDATE_TRANSITIONS Cand_CRITIC_REVIEWED = [Cand_REJECTED, Cand_PROMOTED]"
| "CANDIDATE_TRANSITIONS _ = []"

definition transition_candidate :: "Candidate \<Rightarrow> CandidateState \<Rightarrow> lifecycle_error + Candidate" where
  "transition_candidate c target =
     (if target \<notin> set (CANDIDATE_TRANSITIONS (cand_state c))
      then Inl (TransitionRejected (''illegal candidate transition: '' @
             candidate_state_value (cand_state c) @ '' -> '' @ candidate_state_value target))
      else Inr (c\<lparr>cand_state := target\<rparr>))"

section \<open>Guarded operations\<close>

definition queue_validation :: "Candidate \<Rightarrow> Scope \<Rightarrow> instant \<Rightarrow> lifecycle_error + Candidate" where
  "queue_validation c s now =
     (if sc_state s \<noteq> Scope_APPROVED
      then Inl (TransitionRejected ''validation requires an approved Scope'')
      else if \<not> in_validity_window s now
      then Inl (TransitionRejected ''validation is outside the Scope validity window'')
      else if cand_scope_id c \<noteq> scope_id s \<or> cand_scope_version c \<noteq> sc_version s
      then Inl (TransitionRejected ''Candidate is bound to another Scope version'')
      else transition_candidate c Cand_VALIDATION_PENDING)"

definition complete_validation :: "Candidate \<Rightarrow> ValidationRun \<Rightarrow> lifecycle_error + Candidate" where
  "complete_validation c run =
     (if run_candidate_id run \<noteq> candidate_id c
      then Inl (TransitionRejected ''ValidationRun belongs to another Candidate'')
      else if run_target_version run \<noteq> cand_target_version c
            \<or> run_scope_version run \<noteq> cand_scope_version c
      then Inl (TransitionRejected ''ValidationRun is bound to another Target or Scope version'')
      else transition_candidate c
             (if run_result run = VR_REPRODUCED then Cand_VALIDATED else Cand_INCONCLUSIVE))"

text \<open>The arguments of \<^verbatim>\<open>promote_candidate\<close> that describe the Finding; \<open>fresh_id\<close> is the value of
  the \<^verbatim>\<open>uuid4\<close> default factory, used when no \<^verbatim>\<open>finding_id\<close> is given.\<close>

record finding_values =
  fv_root_cause :: string
  fv_affected_versions :: "string list"
  fv_impact :: string
  fv_severity :: "(string \<times> pyval) list"
  fv_finding_id :: "uuid option"
  fv_fresh_id :: uuid

definition reproduced_runs :: "Candidate \<Rightarrow> ValidationRun list \<Rightarrow> ValidationRun list" where
  "reproduced_runs c runs =
     filter (\<lambda>run. run_candidate_id run = candidate_id c
        \<and> run_target_version run = cand_target_version c
        \<and> run_scope_version run = cand_scope_version c
        \<and> run_result run = VR_REPRODUCED
        \<and> run_evidence_refs run \<noteq> []) runs"

definition promote_candidate ::
  "Candidate \<Rightarrow> Scope \<Rightarrow> instant \<Rightarrow> finding_values \<Rightarrow> ValidationRun list \<Rightarrow> EvidenceBundle
   \<Rightarrow> CriticReview \<Rightarrow> bool \<Rightarrow> lifecycle_error + Candidate \<times> Finding" where
  "promote_candidate c s now fv runs bundle review duplicate_checked =
     (let reproduced = reproduced_runs c runs in
      if cand_state c \<noteq> Cand_CRITIC_REVIEWED
      then Inl (TransitionRejected ''only a critic-reviewed Candidate can become a Finding'')
      else if sc_state s \<noteq> Scope_APPROVED \<or> \<not> in_validity_window s now
      then Inl (TransitionRejected ''Finding promotion requires a currently approved Scope'')
      else if cand_scope_id c \<noteq> scope_id s \<or> cand_scope_version c \<noteq> sc_version s
      then Inl (TransitionRejected ''Finding promotion is bound to another Scope version'')
      else if reproduced = []
      then Inl (TransitionRejected ''Finding requires a reproduced ValidationRun with evidence'')
      else if eb_candidate_id bundle \<noteq> candidate_id c \<or> eb_evidence_refs bundle = []
      then Inl (TransitionRejected ''Finding requires a non-empty EvidenceBundle for this Candidate'')
      else if list_ex (\<lambda>run. \<not> set (run_evidence_refs run) \<subseteq> set (eb_evidence_refs bundle)) reproduced
      then Inl (TransitionRejected ''Finding EvidenceBundle does not cover reproduced run Evidence'')
      else if rev_candidate_id review \<noteq> candidate_id c
            \<or> rev_validation_run_id review \<notin> set (map run_id reproduced)
            \<or> rev_evidence_bundle_id review \<noteq> bundle_id bundle
            \<or> now < reviewed_at review
            \<or> \<not> accepted review
      then Inl (TransitionRejected ''Critic rejected or did not review this Candidate'')
      else if \<not> duplicate_checked
      then Inl (TransitionRejected ''duplicate-family check is required'')
      else bind_result (transition_candidate c Cand_PROMOTED) (\<lambda>promoted.
        let finding =
          \<lparr>finding_id = (case fv_finding_id fv of Some i \<Rightarrow> i | None \<Rightarrow> fv_fresh_id fv),
           fnd_candidate_id = candidate_id c, root_cause = fv_root_cause fv,
           affected_versions = fv_affected_versions fv, fnd_preconditions = preconditions c,
           fnd_impact = fv_impact fv, severity_assessment = fv_severity fv,
           validation_run_ids = map run_id reproduced,
           fnd_evidence_bundle_id = bundle_id bundle, duplicate_family_id = None,
           fnd_state = ''verified''\<rparr>
        in if Finding_valid finding then Inr (promoted, finding) else Inl FindingInvalid))"

section \<open>The Campaign variant\<close>

datatype campaign_error = CampaignCandidateTransitionRejected string

datatype CampaignCandidateCriticLifecycleState = Critic_PENDING

definition admit_campaign_candidate_validation :: "CandidateState \<Rightarrow> campaign_error + CandidateState" where
  "admit_campaign_candidate_validation current =
     (if current \<noteq> Cand_PROPOSED
      then Inl (CampaignCandidateTransitionRejected
             ''only a proposed Campaign Candidate may enter Validation Intake'')
      else Inr Cand_VALIDATION_PENDING)"

definition start_campaign_candidate_validation :: "CandidateState \<Rightarrow> campaign_error + CandidateState" where
  "start_campaign_candidate_validation current =
     (if current \<noteq> Cand_VALIDATION_PENDING
      then Inl (CampaignCandidateTransitionRejected
             ''Campaign Candidate validation can only start from validation_pending'')
      else Inr Cand_VALIDATION_RUNNING)"

definition complete_campaign_candidate_validation ::
  "CandidateState \<Rightarrow> ValidationResult \<Rightarrow> campaign_error + CandidateState" where
  "complete_campaign_candidate_validation current result =
     (if current \<noteq> Cand_VALIDATION_RUNNING
      then Inl (CampaignCandidateTransitionRejected
             ''Campaign Candidate validation can only complete from validation_running'')
      else Inr (if result = VR_REPRODUCED then Cand_VALIDATED else Cand_INCONCLUSIVE))"

definition admit_campaign_candidate_critic ::
  "CandidateState \<Rightarrow> campaign_error + CampaignCandidateCriticLifecycleState" where
  "admit_campaign_candidate_critic current =
     (if current \<noteq> Cand_VALIDATED
      then Inl (CampaignCandidateTransitionRejected
             ''Campaign Candidate Critic can only be queued from validated'')
      else Inr Critic_PENDING)"

section \<open>The lifecycle as a step relation\<close>

text \<open>One step is one accepted call of any operation that changes a Candidate.\<close>

inductive candidate_step :: "Candidate \<Rightarrow> Candidate \<Rightarrow> bool" where
  direct: "transition_candidate c target = Inr c' \<Longrightarrow> candidate_step c c'"
| queued: "queue_validation c s now = Inr c' \<Longrightarrow> candidate_step c c'"
| completed: "complete_validation c run = Inr c' \<Longrightarrow> candidate_step c c'"
| promoted: "promote_candidate c s now fv runs bundle review dup = Inr (c', f) \<Longrightarrow> candidate_step c c'"

text \<open>The specification: the state may move along the table and nothing else changes.\<close>

definition lifecycle_spec :: "Candidate \<Rightarrow> Candidate \<Rightarrow> bool" where
  "lifecycle_spec c c' \<longleftrightarrow>
     cand_state c' \<in> set (CANDIDATE_TRANSITIONS (cand_state c)) \<and> c' = c\<lparr>cand_state := cand_state c'\<rparr>"

lemma transition_candidate_Inr_iff [result_simps]:
  "transition_candidate c target = Inr c' \<longleftrightarrow>
     target \<in> set (CANDIDATE_TRANSITIONS (cand_state c)) \<and> c' = c\<lparr>cand_state := target\<rparr>"
  by (auto simp: transition_candidate_def)

lemma promote_candidate_Inr_iff:
  "promote_candidate c s now fv runs bundle review dup = Inr (c', f) \<longleftrightarrow>
     cand_state c = Cand_CRITIC_REVIEWED \<and>
     sc_state s = Scope_APPROVED \<and> in_validity_window s now \<and>
     cand_scope_id c = scope_id s \<and> cand_scope_version c = sc_version s \<and>
     reproduced_runs c runs \<noteq> [] \<and>
     eb_candidate_id bundle = candidate_id c \<and> eb_evidence_refs bundle \<noteq> [] \<and>
     (\<forall>run\<in>set (reproduced_runs c runs). set (run_evidence_refs run) \<subseteq> set (eb_evidence_refs bundle)) \<and>
     rev_candidate_id review = candidate_id c \<and>
     rev_validation_run_id review \<in> run_id ` set (reproduced_runs c runs) \<and>
     rev_evidence_bundle_id review = bundle_id bundle \<and> reviewed_at review \<le> now \<and>
     accepted review \<and> dup \<and> fv_root_cause fv \<noteq> [] \<and> fv_impact fv \<noteq> [] \<and>
     c' = c\<lparr>cand_state := Cand_PROMOTED\<rparr> \<and>
     f = \<lparr>finding_id = (case fv_finding_id fv of Some i \<Rightarrow> i | None \<Rightarrow> fv_fresh_id fv),
          fnd_candidate_id = candidate_id c, root_cause = fv_root_cause fv,
          affected_versions = fv_affected_versions fv, fnd_preconditions = preconditions c,
          fnd_impact = fv_impact fv, severity_assessment = fv_severity fv,
          validation_run_ids = map run_id (reproduced_runs c runs),
          fnd_evidence_bundle_id = bundle_id bundle, duplicate_family_id = None,
          fnd_state = ''verified''\<rparr>"
  unfolding promote_candidate_def Let_def list_ex_iff
  by (auto simp: result_simps Finding_valid_def not_less split: if_splits)

lemma candidate_step_spec: "candidate_step c c' \<Longrightarrow> lifecycle_spec c c'"
  by (induction rule: candidate_step.induct)
    (auto simp: lifecycle_spec_def result_simps queue_validation_def complete_validation_def
       promote_candidate_Inr_iff split: if_splits)

lemma candidate_step_iff_spec: "candidate_step c c' \<longleftrightarrow> lifecycle_spec c c'"
proof
  assume "lifecycle_spec c c'"
  then have "transition_candidate c (cand_state c') = Inr c'"
    by (auto simp: lifecycle_spec_def result_simps)
  then show "candidate_step c c'" by (rule candidate_step.direct)
qed (rule candidate_step_spec)

section \<open>Progress of a Candidate through the lifecycle\<close>

fun stage :: "CandidateState \<Rightarrow> nat" where
  "stage Cand_PROPOSED = 0"
| "stage Cand_VALIDATION_PENDING = 1"
| "stage Cand_VALIDATION_RUNNING = 2"
| "stage Cand_VALIDATED = 3"
| "stage Cand_CRITIC_REVIEWED = 4"
| "stage _ = 5"

lemma transitions_advance: "t \<in> set (CANDIDATE_TRANSITIONS s) \<Longrightarrow> stage s < stage t"
  by (cases s) auto

lemma transitions_empty_iff:
  "CANDIDATE_TRANSITIONS s = [] \<longleftrightarrow>
     s \<in> {Cand_REJECTED, Cand_DUPLICATE, Cand_INCONCLUSIVE, Cand_PROMOTED}"
  by (cases s) auto

lemma steps_stage:
  assumes "steps candidate_step c n c'"
  shows "stage (cand_state c) + n \<le> stage (cand_state c')"
  using assms
proof (induction rule: steps.induct)
  case (steps_step s n t u)
  then have "stage (cand_state t) < stage (cand_state u)"
    by (auto dest!: candidate_step_spec simp: lifecycle_spec_def intro: transitions_advance)
  with steps_step.IH show ?case by simp
qed simp

end
