(* ===== verification/Urls.thy ===== *)
theory Urls
  imports Prelude
begin

text \<open>
  \<^verbatim>\<open>urllib.parse.urlsplit\<close> and the attributes of its result that the policy engine, the tool broker
  and the red-team target model read. Two checks of the library that reach into other modules,
  the IPv6 literal check of a bracketed host (\<^verbatim>\<open>ipaddress\<close>) and the NFKC check of a non-ASCII
  network location (\<^verbatim>\<open>unicodedata\<close>), are the fields of \<open>url_env\<close>.
\<close>

record url_env =
  ue_bracket_ok :: "string \<Rightarrow> bool"
  ue_nfkc_ok :: "string \<Rightarrow> bool"

record split_url =
  su_scheme :: string
  su_netloc :: string
  su_path :: string
  su_query :: string
  su_fragment :: string

datatype url_error = UrlValueError string

definition char_code :: "char \<Rightarrow> nat" where
  "char_code c = of_char c"

definition ascii_lower :: "char \<Rightarrow> char" where
  "ascii_lower c = (if 65 \<le> char_code c \<and> char_code c \<le> 90 then char_of (char_code c + 32) else c)"

text \<open>\<^verbatim>\<open>str.lower\<close> on the characters below 256: besides the ASCII letters it maps those of Latin-1.\<close>

definition char_lower :: "char \<Rightarrow> char" where
  "char_lower c =
     (if 192 \<le> char_code c \<and> char_code c \<le> 222 \<and> char_code c \<noteq> 215 then char_of (char_code c + 32)
      else ascii_lower c)"

definition lower :: "string \<Rightarrow> string" where
  "lower s = map char_lower s"

definition is_ascii_alpha :: "char \<Rightarrow> bool" where
  "is_ascii_alpha c \<longleftrightarrow> lower_char (ascii_lower c)"

definition is_digit_char :: "char \<Rightarrow> bool" where
  "is_digit_char c \<longleftrightarrow> 48 \<le> char_code c \<and> char_code c \<le> 57"

definition is_ascii_str :: "string \<Rightarrow> bool" where
  "is_ascii_str s \<longleftrightarrow> list_all (\<lambda>c. char_code c < 128) s"

definition decimal_value :: "string \<Rightarrow> int" where
  "decimal_value s = foldl (\<lambda>n c. 10 * n + int (char_code c - 48)) 0 s"

text \<open>\<^verbatim>\<open>s.partition(c)\<close> and \<^verbatim>\<open>s.rpartition(c)\<close>; the middle component says whether \<open>c\<close> was found.\<close>

definition partition_at :: "char \<Rightarrow> string \<Rightarrow> string \<times> bool \<times> string" where
  "partition_at c s =
     (if c \<in> set s then (takeWhile (\<lambda>x. x \<noteq> c) s, True, tl (dropWhile (\<lambda>x. x \<noteq> c) s))
      else (s, False, []))"

definition rpartition_at :: "char \<Rightarrow> string \<Rightarrow> string \<times> bool \<times> string" where
  "rpartition_at c s =
     (if c \<in> set s
      then (rev (tl (dropWhile (\<lambda>x. x \<noteq> c) (rev s))), True, rev (takeWhile (\<lambda>x. x \<noteq> c) (rev s)))
      else ([], False, s))"

definition scheme_char :: "char \<Rightarrow> bool" where
  "scheme_char c \<longleftrightarrow> is_ascii_alpha c \<or> is_digit_char c \<or> c \<in> set ''+-.''"

definition strip_unsafe :: "string \<Rightarrow> string" where
  "strip_unsafe s =
     filter (\<lambda>c. char_code c \<notin> {9, 10, 13}) (dropWhile (\<lambda>c. char_code c \<le> 32) s)"

definition split_scheme :: "string \<Rightarrow> string \<times> string" where
  "split_scheme s =
     (let (pre, found, post) = partition_at (CHR '':'') s in
      if found \<and> pre \<noteq> [] \<and> is_ascii_alpha (hd pre) \<and> list_all scheme_char pre
      then (lower pre, post) else ([], s))"

definition split_netloc :: "string \<Rightarrow> string \<times> string" where
  "split_netloc s =
     (if take 2 s = ''//''
      then (takeWhile (\<lambda>c. c \<notin> set ''/?#'') (drop 2 s), dropWhile (\<lambda>c. c \<notin> set ''/?#'') (drop 2 s))
      else ([], s))"

definition urlsplit :: "url_env \<Rightarrow> string \<Rightarrow> url_error + split_url" where
  "urlsplit U raw =
     (let (scheme, s1) = split_scheme (strip_unsafe raw);
          (netloc, s2) = split_netloc s1
      in if (CHR ''['' \<in> set netloc) \<noteq> (CHR '']'' \<in> set netloc)
         then Inl (UrlValueError ''Invalid IPv6 URL'')
         else if CHR ''['' \<in> set netloc \<and> \<not> ue_bracket_ok U netloc
         then Inl (UrlValueError ''Invalid bracketed host'')
         else if \<not> is_ascii_str netloc \<and> \<not> ue_nfkc_ok U netloc
         then Inl (UrlValueError ''netloc contains invalid characters under NFKC normalization'')
         else let (s3, _, fragment) = partition_at (CHR ''#'') s2;
                  (path, _, query) = partition_at (CHR ''?'') s3
              in Inr \<lparr>su_scheme = scheme, su_netloc = netloc, su_path = path,
                      su_query = query, su_fragment = fragment\<rparr>)"

definition url_userinfo :: "split_url \<Rightarrow> string option \<times> string option" where
  "url_userinfo p =
     (let (userinfo, have_info, _) = rpartition_at (CHR ''@'') (su_netloc p) in
      if have_info
      then let (user, have_pw, pw) = partition_at (CHR '':'') userinfo
           in (Some user, if have_pw then Some pw else None)
      else (None, None))"

definition url_hostinfo :: "split_url \<Rightarrow> string \<times> string option" where
  "url_hostinfo p =
     (let (_, _, hostinfo) = rpartition_at (CHR ''@'') (su_netloc p);
          (_, have_open, bracketed) = partition_at (CHR ''['') hostinfo;
          (host, port) =
            (if have_open
             then let (h, _, r) = partition_at (CHR '']'') bracketed;
                      (_, _, q) = partition_at (CHR '':'') r in (h, q)
             else let (h, _, q) = partition_at (CHR '':'') hostinfo in (h, q))
      in (host, if port = [] then None else Some port))"

definition url_username :: "split_url \<Rightarrow> string option" where
  "url_username p = fst (url_userinfo p)"

definition url_password :: "split_url \<Rightarrow> string option" where
  "url_password p = snd (url_userinfo p)"

definition url_hostname :: "split_url \<Rightarrow> string option" where
  "url_hostname p =
     (let host = fst (url_hostinfo p); (h, pct, zone) = partition_at (CHR 0x25) host in
      if host = [] then None else Some (lower h @ (if pct then [CHR 0x25] else []) @ zone))"

definition url_port :: "split_url \<Rightarrow> url_error + int option" where
  "url_port p =
     (case snd (url_hostinfo p) of
        None \<Rightarrow> Inr None
      | Some s \<Rightarrow>
          if \<not> list_all is_digit_char s
          then Inl (UrlValueError ''Port could not be cast to integer value'')
          else if decimal_value s > 65535 then Inl (UrlValueError ''Port out of range 0-65535'')
          else Inr (Some (decimal_value s)))"

text \<open>\<^verbatim>\<open>if parsed.username\<close>: an absent and an empty component are both false.\<close>

definition truthy :: "string option \<Rightarrow> bool" where
  "truthy x \<longleftrightarrow> x \<noteq> None \<and> x \<noteq> Some []"

section \<open>Facts\<close>

lemma decimal_value_nonneg: "0 \<le> decimal_value s"
proof -
  have "0 \<le> n \<Longrightarrow> 0 \<le> foldl (\<lambda>n c. 10 * n + int (char_code c - 48)) n s" for n :: int
    by (induction s arbitrary: n) auto
  then show ?thesis by (simp add: decimal_value_def)
qed

lemma url_port_range: "url_port p = Inr (Some n) \<Longrightarrow> 0 \<le> n \<and> n \<le> 65535"
  by (auto simp: url_port_def decimal_value_nonneg split: option.splits if_splits)

lemma url_hostname_nonempty: "url_hostname p = Some h \<Longrightarrow> h \<noteq> []"
  by (auto simp: url_hostname_def Let_def lower_def partition_at_def split: if_splits prod.splits)

lemma char_lower_idem: "char_lower (char_lower c) = char_lower c"
  by (auto simp: char_lower_def ascii_lower_def char_code_def)

lemma lower_idem [simp]: "lower (lower s) = lower s"
  by (simp add: lower_def char_lower_idem)

end
