(* ===== verification/Policy.thy ===== *)
theory Policy
  imports Domain Urls
begin

text \<open>
  The Scope policy engine of \<^verbatim>\<open>src/src/vulnloom/policy/engine.py\<close>. \<open>H\<close> is the canonical digest. The
  set of required approvals is a frozenset in the source, whose iteration order is not
  specified; the model lists it without repetition in one fixed order, and the properties speak
  of its members only.
\<close>

section \<open>Requests and decisions\<close>

datatype DecisionEffect = ALLOW | DENY | APPROVAL_REQUIRED

record ActionRequest =
  req_engagement_id :: uuid
  req_target_id :: "uuid option"
  req_action :: string
  requested_at :: instant
  repository_url :: "string option"
  repository_commit :: "string option"
  req_url :: "string option"
  req_test_class :: "string option"
  mutates_state :: bool
  uses_real_credentials :: bool
  external_callback :: bool
  submits_report :: bool
  runs_untrusted_build :: bool
  authorization_context_digest :: "digest option"

record Decision =
  effect :: DecisionEffect
  reasons :: "string list"
  obligations :: "string list"
  dec_policy_digest :: digest

definition intent_payload :: "ActionRequest \<Rightarrow> (string \<times> pyval) list" where
  "intent_payload r =
     [(''engagement_id'', PUuid (req_engagement_id r)), (''target_id'', p_opt PUuid (req_target_id r)),
      (''action'', PStr (req_action r)), (''repository_url'', p_opt PStr (repository_url r)),
      (''repository_commit'', p_opt PStr (repository_commit r)), (''url'', p_opt PStr (req_url r)),
      (''test_class'', p_opt PStr (req_test_class r)), (''mutates_state'', PBool (mutates_state r)),
      (''uses_real_credentials'', PBool (uses_real_credentials r)),
      (''external_callback'', PBool (external_callback r)),
      (''submits_report'', PBool (submits_report r)),
      (''runs_untrusted_build'', PBool (runs_untrusted_build r))]"

definition request_payload :: "ActionRequest \<Rightarrow> pyval" where
  "request_payload r = PDict (intent_payload r @
     (case authorization_context_digest r of
        None \<Rightarrow> [] | Some d \<Rightarrow> [(''authorization_context_digest'', PStr d)]))"

definition request_digest :: "(pyval \<Rightarrow> digest) \<Rightarrow> ActionRequest \<Rightarrow> digest" where
  "request_digest H r = H (request_payload r)"

definition intent_digest :: "(pyval \<Rightarrow> digest) \<Rightarrow> ActionRequest \<Rightarrow> digest" where
  "intent_digest H r = H (PDict (intent_payload r))"

definition policy_digest :: "(pyval \<Rightarrow> digest) \<Rightarrow> Scope \<Rightarrow> digest" where
  "policy_digest H s = H (Scope_dump s)"

section \<open>The decision procedure\<close>

definition boundary_reasons :: "Scope \<Rightarrow> ActionRequest \<Rightarrow> string list" where
  "boundary_reasons s r =
     (if sc_state s \<noteq> Scope_APPROVED then [''scope_not_approved''] else []) @
     (if req_engagement_id r \<noteq> sc_engagement_id s then [''engagement_mismatch''] else []) @
     (if \<not> in_validity_window s (requested_at r) then [''scope_outside_validity_window''] else []) @
     (if req_action r \<in> set (denied_actions s) then [''action_explicitly_denied''] else []) @
     (if truthy (req_test_class r) \<and> the (req_test_class r) \<notin> set (allowed_test_classes s)
      then [''test_class_not_allowed''] else [])"

definition repository_reasons :: "Scope \<Rightarrow> ActionRequest \<Rightarrow> string list" where
  "repository_reasons s r =
     (case repository_url r of
        None \<Rightarrow> []
      | Some u \<Rightarrow>
          if list_ex (\<lambda>repo. repo_url repo = u \<and> Some (repo_commit repo) = repository_commit r)
               (repositories s)
          then [] else [''repository_or_commit_out_of_scope''])"

definition default_port :: "string \<Rightarrow> int" where
  "default_port scheme = (if scheme = ''https'' then 443 else if scheme = ''http'' then 80 else 0)"

definition effective_port :: "string \<Rightarrow> int option \<Rightarrow> int" where
  "effective_port scheme p =
     (case p of None \<Rightarrow> default_port scheme | Some n \<Rightarrow> if n = 0 then default_port scheme else n)"

definition network_match :: "Scope \<Rightarrow> string \<Rightarrow> string \<Rightarrow> int \<Rightarrow> bool" where
  "network_match s host scheme port \<longleftrightarrow>
     list_ex (\<lambda>t. lower host = lower (nt_host t) \<and> scheme \<in> set (nt_schemes t) \<and> port \<in> set (nt_ports t))
       (network_targets s)"

text \<open>The block on \<^verbatim>\<open>request.url\<close>: the reasons and the obligations it adds. \<^verbatim>\<open>urlsplit\<close> and
  \<^verbatim>\<open>parsed.port\<close> may raise, and \<^verbatim>\<open>decide\<close> lets that exception through.\<close>

definition url_check ::
  "url_env \<Rightarrow> Scope \<Rightarrow> ActionRequest \<Rightarrow> url_error + string list \<times> string list" where
  "url_check U s r =
     (case req_url r of
        None \<Rightarrow> Inr ([], [])
      | Some u \<Rightarrow>
          bind_result (urlsplit U u) (\<lambda>parsed.
            if truthy (url_username parsed) \<or> truthy (url_password parsed) \<or> url_hostname parsed = None
            then Inr ([''invalid_or_credentialed_url''], [])
            else bind_result (url_port parsed) (\<lambda>p.
              let scheme = lower (su_scheme parsed) in
              if network_match s (the (url_hostname parsed)) scheme (effective_port scheme p)
              then Inr ([], [''resolve_and_pin_ip'', ''recheck_each_redirect''])
              else Inr ([''network_target_out_of_scope''], []))))"

definition supplied_reasons :: "ActionRequest \<Rightarrow> string list" where
  "supplied_reasons r =
     (if repository_url r = None \<and> req_url r = None then [''target_boundary_not_supplied''] else [])"

definition required_approvals :: "Scope \<Rightarrow> ActionRequest \<Rightarrow> ApprovalAction list" where
  "required_approvals s r =
     fromkeys ((if mutates_state r then [MUTATE_TARGET_STATE] else []) @
       (if uses_real_credentials r then [USE_REAL_CREDENTIALS] else []) @
       (if external_callback r then [EXTERNAL_CALLBACK] else []) @
       (if submits_report r then [SUBMIT_REPORT] else []) @
       (if runs_untrusted_build r then [RUN_UNTRUSTED_BUILD] else []) @
       approval_requirements s)"

definition approval_covers ::
  "(pyval \<Rightarrow> digest) \<Rightarrow> Scope \<Rightarrow> ActionRequest \<Rightarrow> ApprovalAction \<Rightarrow> ApprovalRequest \<Rightarrow> bool" where
  "approval_covers H s r act a \<longleftrightarrow>
     appr_engagement_id a = req_engagement_id r \<and> appr_target_id a = req_target_id r \<and>
     policy_version a = sc_version s \<and> is_valid_for a act (request_digest H r) (requested_at r)"

definition missing_approvals ::
  "(pyval \<Rightarrow> digest) \<Rightarrow> Scope \<Rightarrow> ActionRequest \<Rightarrow> ApprovalRequest list \<Rightarrow> ApprovalAction list" where
  "missing_approvals H s r approvals =
     filter (\<lambda>act. \<not> list_ex (approval_covers H s r act) approvals) (required_approvals s r)"

definition decide ::
  "(pyval \<Rightarrow> digest) \<Rightarrow> url_env \<Rightarrow> Scope \<Rightarrow> ActionRequest \<Rightarrow> ApprovalRequest list
   \<Rightarrow> url_error + Decision" where
  "decide H U s r approvals =
     bind_result (url_check U s r) (\<lambda>(url_reasons, obls).
       let rs = boundary_reasons s r @ repository_reasons s r @ url_reasons @ supplied_reasons r;
           missing = missing_approvals H s r approvals
       in if rs \<noteq> []
          then Inr \<lparr>effect = DENY, reasons = rs, obligations = obls, dec_policy_digest = policy_digest H s\<rparr>
          else if missing \<noteq> []
          then Inr \<lparr>effect = APPROVAL_REQUIRED,
                    reasons = map (\<lambda>a. ''missing_approval:'' @ approval_action_value a) missing,
                    obligations = obls, dec_policy_digest = policy_digest H s\<rparr>
          else Inr \<lparr>effect = ALLOW, reasons = [''scope_policy_satisfied''],
                    obligations = obls, dec_policy_digest = policy_digest H s\<rparr>)"

section \<open>The specification of an authorised action\<close>

text \<open>What the engine promises, as one predicate over the Scope: the action lies inside the
  approved boundary, and every approval it needs has been granted for exactly this action.\<close>

definition within_boundary :: "Scope \<Rightarrow> ActionRequest \<Rightarrow> bool" where
  "within_boundary s r \<longleftrightarrow>
     sc_state s = Scope_APPROVED \<and> req_engagement_id r = sc_engagement_id s \<and>
     in_validity_window s (requested_at r) \<and> req_action r \<notin> set (denied_actions s) \<and>
     (\<forall>t. req_test_class r = Some t \<longrightarrow> t = [] \<or> t \<in> set (allowed_test_classes s)) \<and>
     (\<forall>u. repository_url r = Some u \<longrightarrow>
        (\<exists>repo\<in>set (repositories s). repo_url repo = u \<and> repository_commit r = Some (repo_commit repo))) \<and>
     (repository_url r \<noteq> None \<or> req_url r \<noteq> None)"

definition url_in_scope :: "url_env \<Rightarrow> Scope \<Rightarrow> string \<Rightarrow> bool" where
  "url_in_scope U s u \<longleftrightarrow>
     (\<exists>parsed host p. urlsplit U u = Inr parsed \<and> url_hostname parsed = Some host \<and>
        url_port parsed = Inr p \<and> \<not> truthy (url_username parsed) \<and> \<not> truthy (url_password parsed) \<and>
        (\<exists>t\<in>set (network_targets s). lower host = lower (nt_host t) \<and>
           lower (su_scheme parsed) \<in> set (nt_schemes t) \<and>
           effective_port (lower (su_scheme parsed)) p \<in> set (nt_ports t)))"

definition approvals_granted ::
  "(pyval \<Rightarrow> digest) \<Rightarrow> Scope \<Rightarrow> ActionRequest \<Rightarrow> ApprovalRequest list \<Rightarrow> bool" where
  "approvals_granted H s r approvals \<longleftrightarrow>
     (\<forall>act\<in>set (required_approvals s r). \<exists>a\<in>set approvals. approval_covers H s r act a)"

lemma boundary_reasons_Nil_iff:
  "boundary_reasons s r = [] \<and> repository_reasons s r = [] \<and> supplied_reasons r = [] \<longleftrightarrow>
     within_boundary s r"
  by (auto simp: boundary_reasons_def repository_reasons_def supplied_reasons_def within_boundary_def
      truthy_def list_ex_iff split: if_splits option.splits)

lemma missing_approvals_Nil_iff:
  "missing_approvals H s r approvals = [] \<longleftrightarrow> approvals_granted H s r approvals"
  by (auto simp: missing_approvals_def approvals_granted_def list_ex_iff filter_empty_conv)

lemma url_check_clean_iff:
  "(\<exists>obls. url_check U s r = Inr ([], obls)) \<longleftrightarrow> (\<forall>u. req_url r = Some u \<longrightarrow> url_in_scope U s u)"
proof (cases "req_url r")
  case None
  then show ?thesis by (simp add: url_check_def)
next
  case (Some u)
  show ?thesis
  proof (cases "urlsplit U u")
    case (Inl e)
    with Some show ?thesis by (simp add: url_check_def url_in_scope_def)
  next
    case (Inr parsed)
    show ?thesis
    proof (cases "url_port parsed")
      case (Inl e)
      with Some Inr show ?thesis by (auto simp: url_check_def url_in_scope_def)
    next
      case (Inr p)
      with Some \<open>urlsplit U u = Inr parsed\<close> show ?thesis
        by (auto simp: url_check_def url_in_scope_def network_match_def list_ex_iff Let_def)
    qed
  qed
qed

lemma decide_effect_cases:
  assumes "decide H U s r approvals = Inr d"
  obtains us obls where "url_check U s r = Inr (us, obls)"
    and "effect d = DENY \<longleftrightarrow> \<not> (within_boundary s r \<and> us = [])"
    and "effect d = APPROVAL_REQUIRED \<longleftrightarrow>
           within_boundary s r \<and> us = [] \<and> \<not> approvals_granted H s r approvals"
    and "effect d = ALLOW \<longleftrightarrow>
           within_boundary s r \<and> us = [] \<and> approvals_granted H s r approvals"
proof -
  from assms obtain us obls where c: "url_check U s r = Inr (us, obls)"
    by (auto simp: decide_def result_simps)
  let ?rs = "boundary_reasons s r @ repository_reasons s r @ us @ supplied_reasons r"
  have rs: "?rs = [] \<longleftrightarrow> within_boundary s r \<and> us = []"
    using boundary_reasons_Nil_iff [of s r] by auto
  have m: "missing_approvals H s r approvals = [] \<longleftrightarrow> approvals_granted H s r approvals"
    by (rule missing_approvals_Nil_iff)
  show thesis
  proof (rule that [OF c])
    show "effect d = DENY \<longleftrightarrow> \<not> (within_boundary s r \<and> us = [])"
      using assms c rs by (auto simp: decide_def Let_def split: if_splits)
    show "effect d = APPROVAL_REQUIRED \<longleftrightarrow>
        within_boundary s r \<and> us = [] \<and> \<not> approvals_granted H s r approvals"
      using assms c rs m by (auto simp: decide_def Let_def split: if_splits)
    show "effect d = ALLOW \<longleftrightarrow>
        within_boundary s r \<and> us = [] \<and> approvals_granted H s r approvals"
      using assms c rs m by (auto simp: decide_def Let_def split: if_splits)
  qed
qed

lemma decide_ALLOW_iff:
  "(\<exists>d. decide H U s r approvals = Inr d \<and> effect d = ALLOW) \<longleftrightarrow>
     within_boundary s r \<and> (\<forall>u. req_url r = Some u \<longrightarrow> url_in_scope U s u) \<and>
     approvals_granted H s r approvals" (is "?L \<longleftrightarrow> ?R")
proof
  assume ?L
  then obtain d where d: "decide H U s r approvals = Inr d" "effect d = ALLOW" by blast
  from d(1) show ?R
    by (rule decide_effect_cases) (use d(2) url_check_clean_iff in auto)
next
  assume R: ?R
  then obtain obls where c: "url_check U s r = Inr ([], obls)"
    using url_check_clean_iff by blast
  then obtain d where d: "decide H U s r approvals = Inr d"
    by (cases "decide H U s r approvals") (auto simp: decide_def Let_def split: if_splits)
  then have "effect d = ALLOW"
    by (rule decide_effect_cases) (use R c in auto)
  with d show ?L by blast
qed

lemma request_payload_intent:
  "request_payload r = request_payload r' \<longleftrightarrow>
     r\<lparr>requested_at := 0\<rparr> = r'\<lparr>requested_at := 0\<rparr>"
proof -
  have inj: "inj PUuid" "inj PStr" by (auto simp: inj_def)
  have no: "PNone \<notin> range PUuid" "PNone \<notin> range PStr" by auto
  show ?thesis
    by (cases r; cases r')
      (auto simp: request_payload_def intent_payload_def split: option.splits
        dest: p_opt_inject [OF _ inj(1) no(1)] p_opt_inject [OF _ inj(2) no(2)])
qed

end
