(* ===== verification/Audit_Chain.thy ===== *)
theory Audit_Chain
  imports Domain
begin

text \<open>
  The authoritative audit chain of \<^verbatim>\<open>src/src/vulnloom/storage/audit_chain.py\<close>: the sealed plans, records
  and checkpoints, the two SQLite tables as a state record, the verification scan and the
  append operation with its transaction. Outside code is a field of \<open>audit_env\<close>: the canonical
  digest, Pydantic's JSON writer and reader for records over a type \<open>'j\<close> of stored JSON documents,
  their size in bytes, and the two limits of the store's constructor. \<open>ae_parse\<close> is the reader
  before the model's validators run.
\<close>

section \<open>Contracts\<close>

datatype AuditOutcome = AO_COMMITTED | AO_REJECTED | AO_TIMED_OUT | AO_CLEANUP_FAILED

datatype AuditVerificationStatus =
    AV_VERIFIED | AV_CORRUPTION_DETECTED | AV_ROLLBACK_DETECTED | AV_FORK_DETECTED

fun audit_outcome_value :: "AuditOutcome \<Rightarrow> string" where
  "audit_outcome_value AO_COMMITTED = ''committed''"
| "audit_outcome_value AO_REJECTED = ''rejected''"
| "audit_outcome_value AO_TIMED_OUT = ''timed_out''"
| "audit_outcome_value AO_CLEANUP_FAILED = ''cleanup_failed''"

fun audit_status_value :: "AuditVerificationStatus \<Rightarrow> string" where
  "audit_status_value AV_VERIFIED = ''verified''"
| "audit_status_value AV_CORRUPTION_DETECTED = ''corruption_detected''"
| "audit_status_value AV_ROLLBACK_DETECTED = ''rollback_detected''"
| "audit_status_value AV_FORK_DETECTED = ''fork_detected''"

definition AUDIT_CHAIN_CONTRACT_DIGEST :: "(pyval \<Rightarrow> digest) \<Rightarrow> digest" where
  "AUDIT_CHAIN_CONTRACT_DIGEST H = H (PDict
     [(''contract'', PStr ''vulnloom-authoritative-audit-chain-s1.4-v1''),
      (''hash'', PStr ''sha256-canonical-json''),
      (''recovery'', PStr ''fail-closed-restore-verified-copy''),
      (''projection'', PStr ''digest-only'')])"

definition AUDIT_GENESIS_DIGEST :: "(pyval \<Rightarrow> digest) \<Rightarrow> digest" where
  "AUDIT_GENESIS_DIGEST H =
     H (PDict [(''contract'', PStr (AUDIT_CHAIN_CONTRACT_DIGEST H)), (''record'', PStr ''genesis'')])"

record AuditStateBindings =
  sb_engagement_id :: uuid
  sb_scope_id :: uuid
  sb_scope_version :: int
  sb_policy_digest :: digest
  sb_sandbox_profile_digest :: digest
  sb_context_digest :: digest
  sb_tool_registry_digest :: digest
  sb_provider_revision_digest :: digest
  sb_input_digests :: "digest list"

definition AuditStateBindings_valid :: "AuditStateBindings \<Rightarrow> bool" where
  "AuditStateBindings_valid b \<longleftrightarrow>
     1 \<le> sb_scope_version b \<and>
     is_digest (sb_policy_digest b) \<and> is_digest (sb_sandbox_profile_digest b) \<and>
     is_digest (sb_context_digest b) \<and> is_digest (sb_tool_registry_digest b) \<and>
     is_digest (sb_provider_revision_digest b) \<and> list_all is_digest (sb_input_digests b) \<and>
     1 \<le> length (sb_input_digests b) \<and> length (sb_input_digests b) \<le> 64 \<and>
     sb_input_digests b = sorted_set (sb_input_digests b)"

definition AuditStateBindings_dump :: "AuditStateBindings \<Rightarrow> pyval" where
  "AuditStateBindings_dump b = PDict
     [(''engagement_id'', PUuid (sb_engagement_id b)), (''scope_id'', PUuid (sb_scope_id b)),
      (''scope_version'', PInt (sb_scope_version b)), (''policy_digest'', PStr (sb_policy_digest b)),
      (''sandbox_profile_digest'', PStr (sb_sandbox_profile_digest b)),
      (''context_digest'', PStr (sb_context_digest b)),
      (''tool_registry_digest'', PStr (sb_tool_registry_digest b)),
      (''provider_revision_digest'', PStr (sb_provider_revision_digest b)),
      (''input_digests'', p_strs (sb_input_digests b))]"

record AuditAppendPlan =
  ap_plan_id :: digest
  ap_contract_digest :: digest
  ap_stream_id :: digest
  ap_event_type :: string
  ap_aggregate_id :: digest
  ap_transition_digest :: digest
  ap_bindings :: AuditStateBindings
  ap_outcome :: AuditOutcome
  ap_cleanup_verified :: bool
  ap_occurred_at :: instant
  ap_deadline :: instant
  ap_idempotency_digest :: digest

definition AuditAppendPlan_content :: "AuditAppendPlan \<Rightarrow> pyval" where
  "AuditAppendPlan_content p = PDict
     [(''contract_digest'', PStr (ap_contract_digest p)), (''stream_id'', PStr (ap_stream_id p)),
      (''event_type'', PStr (ap_event_type p)), (''aggregate_id'', PStr (ap_aggregate_id p)),
      (''transition_digest'', PStr (ap_transition_digest p)),
      (''bindings'', AuditStateBindings_dump (ap_bindings p)),
      (''outcome'', PEnum (audit_outcome_value (ap_outcome p))),
      (''cleanup_verified'', PBool (ap_cleanup_verified p)),
      (''occurred_at'', PTime (ap_occurred_at p)), (''deadline'', PTime (ap_deadline p)),
      (''idempotency_digest'', PStr (ap_idempotency_digest p))]"

text \<open>The declared constraints and \<^verbatim>\<open>AuditAppendPlan.sealed_and_bounded\<close>\<close>

definition AuditAppendPlan_valid :: "(pyval \<Rightarrow> digest) \<Rightarrow> AuditAppendPlan \<Rightarrow> bool" where
  "AuditAppendPlan_valid H p \<longleftrightarrow>
     is_digest (ap_stream_id p) \<and> is_reason_code (ap_event_type p) \<and> is_digest (ap_aggregate_id p) \<and>
     is_digest (ap_transition_digest p) \<and> AuditStateBindings_valid (ap_bindings p) \<and>
     is_digest (ap_idempotency_digest p) \<and>
     ap_contract_digest p = AUDIT_CHAIN_CONTRACT_DIGEST H \<and>
     ap_occurred_at p < ap_deadline p \<and>
     ap_deadline p - ap_occurred_at p \<le> seconds 300 \<and>
     sealed_by H AuditAppendPlan_content ap_plan_id p"

text \<open>\<^verbatim>\<open>AuditAppendPlan.create\<close>: the identifier is computed and the result is validated.\<close>

definition AuditAppendPlan_create ::
  "(pyval \<Rightarrow> digest) \<Rightarrow> AuditAppendPlan \<Rightarrow> AuditAppendPlan option" where
  "AuditAppendPlan_create H v =
     (let p = v\<lparr>ap_contract_digest := AUDIT_CHAIN_CONTRACT_DIGEST H\<rparr>;
          q = p\<lparr>ap_plan_id := H (AuditAppendPlan_content p)\<rparr>
      in if AuditAppendPlan_valid H q then Some q else None)"

record AuditRecord =
  ar_record_digest :: digest
  ar_contract_digest :: digest
  ar_stream_id :: digest
  ar_sequence :: int
  ar_previous_digest :: digest
  ar_plan_id :: digest
  ar_event_type :: string
  ar_aggregate_id :: digest
  ar_transition_digest :: digest
  ar_bindings :: AuditStateBindings
  ar_outcome :: AuditOutcome
  ar_cleanup_verified :: bool
  ar_occurred_at :: instant
  ar_sealed_at :: instant

definition AuditRecord_content :: "AuditRecord \<Rightarrow> pyval" where
  "AuditRecord_content r = PDict
     [(''contract_digest'', PStr (ar_contract_digest r)), (''stream_id'', PStr (ar_stream_id r)),
      (''sequence'', PInt (ar_sequence r)), (''previous_digest'', PStr (ar_previous_digest r)),
      (''plan_id'', PStr (ar_plan_id r)), (''event_type'', PStr (ar_event_type r)),
      (''aggregate_id'', PStr (ar_aggregate_id r)),
      (''transition_digest'', PStr (ar_transition_digest r)),
      (''bindings'', AuditStateBindings_dump (ar_bindings r)),
      (''outcome'', PEnum (audit_outcome_value (ar_outcome r))),
      (''cleanup_verified'', PBool (ar_cleanup_verified r)),
      (''occurred_at'', PTime (ar_occurred_at r)), (''sealed_at'', PTime (ar_sealed_at r))]"

definition AuditRecord_valid :: "(pyval \<Rightarrow> digest) \<Rightarrow> AuditRecord \<Rightarrow> bool" where
  "AuditRecord_valid H r \<longleftrightarrow>
     is_digest (ar_stream_id r) \<and> 1 \<le> ar_sequence r \<and> is_digest (ar_previous_digest r) \<and>
     is_digest (ar_plan_id r) \<and> is_reason_code (ar_event_type r) \<and> is_digest (ar_aggregate_id r) \<and>
     is_digest (ar_transition_digest r) \<and> AuditStateBindings_valid (ar_bindings r) \<and>
     ar_contract_digest r = AUDIT_CHAIN_CONTRACT_DIGEST H \<and>
     ar_occurred_at r \<le> ar_sealed_at r \<and>
     sealed_by H AuditRecord_content ar_record_digest r"

record AuditCheckpoint =
  cp_checkpoint_id :: digest
  cp_contract_digest :: digest
  cp_stream_id :: digest
  cp_sequence :: int
  cp_head_digest :: digest
  cp_issued_at :: instant

definition AuditCheckpoint_content :: "AuditCheckpoint \<Rightarrow> pyval" where
  "AuditCheckpoint_content c = PDict
     [(''contract_digest'', PStr (cp_contract_digest c)), (''stream_id'', PStr (cp_stream_id c)),
      (''sequence'', PInt (cp_sequence c)), (''head_digest'', PStr (cp_head_digest c)),
      (''issued_at'', PTime (cp_issued_at c))]"

definition AuditCheckpoint_valid :: "(pyval \<Rightarrow> digest) \<Rightarrow> AuditCheckpoint \<Rightarrow> bool" where
  "AuditCheckpoint_valid H c \<longleftrightarrow>
     is_digest (cp_stream_id c) \<and> 0 \<le> cp_sequence c \<and> is_digest (cp_head_digest c) \<and>
     cp_contract_digest c = AUDIT_CHAIN_CONTRACT_DIGEST H \<and>
     \<not> (cp_sequence c = 0 \<and> cp_head_digest c \<noteq> AUDIT_GENESIS_DIGEST H) \<and>
     sealed_by H AuditCheckpoint_content cp_checkpoint_id c"

record AuditVerificationResult =
  avr_result_id :: digest
  avr_stream_id :: digest
  avr_status :: AuditVerificationStatus
  avr_record_count :: int
  avr_head_digest :: digest
  avr_trusted_checkpoint_id :: "digest option"
  avr_failure_code :: "string option"
  avr_checked_at :: instant

definition AuditVerificationResult_content :: "AuditVerificationResult \<Rightarrow> pyval" where
  "AuditVerificationResult_content v = PDict
     [(''stream_id'', PStr (avr_stream_id v)), (''status'', PEnum (audit_status_value (avr_status v))),
      (''record_count'', PInt (avr_record_count v)), (''head_digest'', PStr (avr_head_digest v)),
      (''trusted_checkpoint_id'', p_opt PStr (avr_trusted_checkpoint_id v)),
      (''failure_code'', p_opt PStr (avr_failure_code v)), (''checked_at'', PTime (avr_checked_at v))]"

text \<open>\<^verbatim>\<open>AuditVerificationResult.sealed_result\<close>\<close>

definition AuditVerificationResult_valid :: "(pyval \<Rightarrow> digest) \<Rightarrow> AuditVerificationResult \<Rightarrow> bool" where
  "AuditVerificationResult_valid H v \<longleftrightarrow>
     0 \<le> avr_record_count v \<and>
     \<not> ((avr_status v = AV_VERIFIED) = (avr_failure_code v \<noteq> None)) \<and>
     sealed_by H AuditVerificationResult_content avr_result_id v"

text \<open>\<^verbatim>\<open>f"{verification.failure_code}"\<close>\<close>

definition failure_text :: "AuditVerificationResult \<Rightarrow> string" where
  "failure_text v = (case avr_failure_code v of None \<Rightarrow> ''None'' | Some code \<Rightarrow> code)"

record AuditRecordProjection =
  pr_record_digest :: digest
  pr_stream_id :: digest
  pr_sequence :: int
  pr_previous_digest :: digest
  pr_event_type :: string
  pr_aggregate_id :: digest
  pr_transition_digest :: digest
  pr_scope_id :: uuid
  pr_scope_version :: int
  pr_policy_digest :: digest
  pr_sandbox_profile_digest :: digest
  pr_context_digest :: digest
  pr_tool_registry_digest :: digest
  pr_provider_revision_digest :: digest
  pr_outcome :: AuditOutcome
  pr_cleanup_verified :: bool
  pr_occurred_at :: instant

section \<open>The store\<close>

datatype audit_error =
    AuditIntegrityError string
  | AuditAppendExpired
  | AuditIdempotencyConflict
  | AuditValueError
  | SqliteIntegrityError

record 'j audit_env =
  ae_digest :: "pyval \<Rightarrow> digest"
  ae_json :: "AuditRecord \<Rightarrow> 'j"
  ae_parse :: "'j \<Rightarrow> AuditRecord option"
  ae_size :: "'j \<Rightarrow> int"
  ae_max_records :: int
  ae_max_bytes :: int

record 'j audit_row =
  row_stream_id :: digest
  row_sequence :: int
  row_record_digest :: digest
  row_previous_digest :: digest
  row_plan_id :: digest
  row_idempotency_digest :: digest
  row_record_json :: 'j

record 'j audit_db =
  db_records :: "'j audit_row list"
  db_heads :: "digest \<rightharpoonup> int \<times> digest"

text \<open>\<^verbatim>\<open>_create_schema\<close>: both tables start empty.\<close>

definition empty_audit :: "'j audit_db" where
  "empty_audit = \<lparr>db_records = [], db_heads = Map.empty\<rparr>"

text \<open>\<^verbatim>\<open>AuditRecord.model_validate_json\<close>: parse, then run the validators; \<open>None\<close> is the raised
  \<^verbatim>\<open>ValueError\<close>.\<close>

definition decode_record :: "'j audit_env \<Rightarrow> 'j \<Rightarrow> AuditRecord option" where
  "decode_record A json =
     (case ae_parse A json of
        None \<Rightarrow> None
      | Some r \<Rightarrow> if AuditRecord_valid (ae_digest A) r then Some r else None)"

text \<open>\<^verbatim>\<open>SELECT * FROM authoritative_audit_records WHERE stream_id = ? ORDER BY sequence\<close>\<close>

definition stream_rows :: "'j audit_db \<Rightarrow> digest \<Rightarrow> 'j audit_row list" where
  "stream_rows db sid = sort_key row_sequence (filter (\<lambda>r. row_stream_id r = sid) (db_records db))"

definition contains_idempotency :: "'j audit_db \<Rightarrow> digest \<Rightarrow> digest \<Rightarrow> bool" where
  "contains_idempotency db sid idem \<longleftrightarrow>
     list_ex (\<lambda>r. row_stream_id r = sid \<and> row_idempotency_digest r = idem) (db_records db)"

definition row_binds :: "digest \<Rightarrow> int \<Rightarrow> digest \<Rightarrow> 'j audit_row \<Rightarrow> AuditRecord \<Rightarrow> bool" where
  "row_binds sid expected_sequence expected_previous row r \<longleftrightarrow>
     \<not> (ar_stream_id r \<noteq> sid \<or> ar_sequence r \<noteq> expected_sequence \<or>
        ar_record_digest r \<noteq> row_record_digest row \<or>
        ar_previous_digest r \<noteq> row_previous_digest row \<or>
        ar_plan_id r \<noteq> row_plan_id row \<or>
        ar_previous_digest r \<noteq> expected_previous)"

text \<open>The \<^verbatim>\<open>for expected_sequence, row in enumerate(rows, start=1)\<close> loop: the records accepted so
  far, and whether the loop ended without a \<^verbatim>\<open>ValueError\<close>.\<close>

fun scan_rows ::
  "'j audit_env \<Rightarrow> digest \<Rightarrow> int \<Rightarrow> digest \<Rightarrow> 'j audit_row list \<Rightarrow> AuditRecord list \<times> bool" where
  "scan_rows A sid expected_sequence expected_previous [] = ([], True)"
| "scan_rows A sid expected_sequence expected_previous (row # rows) =
     (case decode_record A (row_record_json row) of
        None \<Rightarrow> ([], False)
      | Some r \<Rightarrow>
          if row_binds sid expected_sequence expected_previous row r
          then (let (rs, ok) = scan_rows A sid (expected_sequence + 1) (ar_record_digest r) rows
                in (r # rs, ok))
          else ([], False))"

definition head_digest_of :: "'j audit_env \<Rightarrow> AuditRecord list \<Rightarrow> digest" where
  "head_digest_of A rs =
     (if rs = [] then AUDIT_GENESIS_DIGEST (ae_digest A) else ar_record_digest (last rs))"

definition head_binds :: "'j audit_db \<Rightarrow> digest \<Rightarrow> AuditRecord list \<Rightarrow> bool" where
  "head_binds db sid rs \<longleftrightarrow>
     (if rs \<noteq> []
      then (case db_heads db sid of
              None \<Rightarrow> False
            | Some (n, d) \<Rightarrow> n = int (length rs) \<and> d = ar_record_digest (last rs))
      else db_heads db sid = None)"

text \<open>The comparison with the trusted checkpoint, for a locally sound chain.\<close>

definition checkpoint_failure ::
  "'j audit_env \<Rightarrow> digest \<Rightarrow> instant \<Rightarrow> AuditRecord list \<Rightarrow> AuditCheckpoint
   \<Rightarrow> (AuditVerificationStatus \<times> string) option" where
  "checkpoint_failure A sid now rs c =
     (if now < cp_issued_at c then Some (AV_FORK_DETECTED, ''checkpoint_from_future'')
      else if cp_stream_id c \<noteq> sid then Some (AV_FORK_DETECTED, ''checkpoint_stream_mismatch'')
      else if int (length rs) < cp_sequence c
      then Some (AV_ROLLBACK_DETECTED, ''checkpoint_ahead_of_chain'')
      else if (if cp_sequence c = 0 then AUDIT_GENESIS_DIGEST (ae_digest A)
               else ar_record_digest (rs ! nat (cp_sequence c - 1))) \<noteq> cp_head_digest c
      then Some (AV_FORK_DETECTED, ''checkpoint_head_mismatch'')
      else None)"

definition seal_verification ::
  "'j audit_env \<Rightarrow> AuditVerificationResult \<Rightarrow> AuditVerificationResult" where
  "seal_verification A v = v\<lparr>avr_result_id := ae_digest A (AuditVerificationResult_content v)\<rparr>"

definition limits_exceeded :: "'j audit_env \<Rightarrow> 'j audit_db \<Rightarrow> digest \<Rightarrow> bool" where
  "limits_exceeded A db sid \<longleftrightarrow>
     int (length (stream_rows db sid)) > ae_max_records A \<or>
     list_ex (\<lambda>row. ae_size A (row_record_json row) > ae_max_bytes A) (stream_rows db sid)"

text \<open>\<^verbatim>\<open>_verify_locked\<close>\<close>

definition verify_locked ::
  "'j audit_env \<Rightarrow> 'j audit_db \<Rightarrow> digest \<Rightarrow> instant \<Rightarrow> AuditCheckpoint option \<Rightarrow> AuditVerificationResult" where
  "verify_locked A db sid now trusted =
     (if limits_exceeded A db sid
      then seal_verification A
        \<lparr>avr_result_id = [], avr_stream_id = sid, avr_status = AV_CORRUPTION_DETECTED,
         avr_record_count = int (length (stream_rows db sid)),
         avr_head_digest = AUDIT_GENESIS_DIGEST (ae_digest A),
         avr_trusted_checkpoint_id = map_option cp_checkpoint_id trusted,
         avr_failure_code = Some ''local_chain_limits_exceeded'', avr_checked_at = now\<rparr>
      else
        let (rs, scanned) =
              scan_rows A sid 1 (AUDIT_GENESIS_DIGEST (ae_digest A)) (stream_rows db sid);
            sound = (scanned \<and> head_binds db sid rs);
            failure =
              (if \<not> sound then Some (AV_CORRUPTION_DETECTED, ''local_chain_corrupt'')
               else (case trusted of None \<Rightarrow> None | Some c \<Rightarrow> checkpoint_failure A sid now rs c))
        in seal_verification A
          \<lparr>avr_result_id = [], avr_stream_id = sid,
           avr_status = (case failure of None \<Rightarrow> AV_VERIFIED | Some (st, _) \<Rightarrow> st),
           avr_record_count = int (length rs), avr_head_digest = head_digest_of A rs,
           avr_trusted_checkpoint_id = map_option cp_checkpoint_id trusted,
           avr_failure_code = map_option snd failure, avr_checked_at = now\<rparr>)"

text \<open>\<^verbatim>\<open>AuditCheckpoint.model_validate\<close> on the optional trusted checkpoint.\<close>

definition trusted_valid :: "'j audit_env \<Rightarrow> AuditCheckpoint option \<Rightarrow> bool" where
  "trusted_valid A trusted = opt_all (AuditCheckpoint_valid (ae_digest A)) trusted"

text \<open>\<^verbatim>\<open>verify\<close>. Of the validators of the result only the pattern of the stream identifier can fail, which the
  caller supplies; a plan's identifier has been validated, so \<open>verify_locked\<close> does without.\<close>

definition verify ::
  "'j audit_env \<Rightarrow> 'j audit_db \<Rightarrow> digest \<Rightarrow> instant \<Rightarrow> AuditCheckpoint option
   \<Rightarrow> audit_error + AuditVerificationResult" where
  "verify A db sid now trusted =
     (if trusted_valid A trusted \<and> is_digest sid then Inr (verify_locked A db sid now trusted)
      else Inl AuditValueError)"

definition same_transition :: "AuditRecord \<Rightarrow> AuditAppendPlan \<Rightarrow> bool" where
  "same_transition r p \<longleftrightarrow>
     ar_stream_id r = ap_stream_id p \<and> ar_event_type r = ap_event_type p \<and>
     ar_aggregate_id r = ap_aggregate_id p \<and> ar_transition_digest r = ap_transition_digest p \<and>
     ar_bindings r = ap_bindings p \<and> ar_outcome r = ap_outcome p \<and>
     ar_cleanup_verified r = ap_cleanup_verified p \<and> ar_occurred_at r = ap_occurred_at p"

definition build_record ::
  "'j audit_env \<Rightarrow> AuditAppendPlan \<Rightarrow> instant \<Rightarrow> int \<Rightarrow> digest \<Rightarrow> AuditRecord" where
  "build_record A p now sequence previous =
     (let r = \<lparr>ar_record_digest = [], ar_contract_digest = AUDIT_CHAIN_CONTRACT_DIGEST (ae_digest A),
               ar_stream_id = ap_stream_id p, ar_sequence = sequence, ar_previous_digest = previous,
               ar_plan_id = ap_plan_id p, ar_event_type = ap_event_type p,
               ar_aggregate_id = ap_aggregate_id p, ar_transition_digest = ap_transition_digest p,
               ar_bindings = ap_bindings p, ar_outcome = ap_outcome p,
               ar_cleanup_verified = ap_cleanup_verified p, ar_occurred_at = ap_occurred_at p,
               ar_sealed_at = now\<rparr>
      in r\<lparr>ar_record_digest := ae_digest A (AuditRecord_content r)\<rparr>)"

text \<open>The \<^verbatim>\<open>INSERT\<close> into the records table, with its primary key and its two uniqueness
  constraints, and the upsert of the head.\<close>

definition insert_conflict :: "'j audit_db \<Rightarrow> 'j audit_row \<Rightarrow> bool" where
  "insert_conflict db row \<longleftrightarrow>
     list_ex (\<lambda>r. (row_stream_id r = row_stream_id row \<and> row_sequence r = row_sequence row) \<or>
        row_record_digest r = row_record_digest row \<or>
        (row_stream_id r = row_stream_id row \<and> row_idempotency_digest r = row_idempotency_digest row))
       (db_records db)"

definition row_of_record :: "'j audit_env \<Rightarrow> AuditRecord \<Rightarrow> digest \<Rightarrow> 'j audit_row" where
  "row_of_record A r idem =
     \<lparr>row_stream_id = ar_stream_id r, row_sequence = ar_sequence r,
      row_record_digest = ar_record_digest r, row_previous_digest = ar_previous_digest r,
      row_plan_id = ar_plan_id r, row_idempotency_digest = idem, row_record_json = ae_json A r\<rparr>"

definition insert_record :: "'j audit_env \<Rightarrow> 'j audit_db \<Rightarrow> AuditRecord \<Rightarrow> digest \<Rightarrow> audit_error + 'j audit_db" where
  "insert_record A db r idem =
     (let row = row_of_record A r idem in
      if insert_conflict db row then Inl SqliteIntegrityError
      else Inr (db\<lparr>db_records := db_records db @ [row],
                   db_heads := (db_heads db)(ar_stream_id r \<mapsto> (ar_sequence r, ar_record_digest r))\<rparr>))"

text \<open>The engagement check against the predecessor record.\<close>

definition predecessor_check ::
  "'j audit_env \<Rightarrow> 'j audit_db \<Rightarrow> AuditAppendPlan \<Rightarrow> int \<Rightarrow> audit_error + unit" where
  "predecessor_check A db p record_count =
     (if record_count = 0 then Inr ()
      else case List.find (\<lambda>r. row_stream_id r = ap_stream_id p \<and> row_sequence r = record_count) (db_records db) of
        None \<Rightarrow> Inl (AuditIntegrityError ''audit predecessor became unavailable'')
      | Some row \<Rightarrow>
          (case decode_record A (row_record_json row) of
             None \<Rightarrow> Inl AuditValueError
           | Some r \<Rightarrow>
               if sb_engagement_id (ar_bindings r) \<noteq> sb_engagement_id (ap_bindings p)
               then Inl (AuditIntegrityError ''audit stream cannot cross Engagement boundaries'')
               else Inr ()))"

text \<open>\<^verbatim>\<open>_append_locked\<close>\<close>

definition append_locked ::
  "'j audit_env \<Rightarrow> 'j audit_db \<Rightarrow> AuditAppendPlan \<Rightarrow> instant \<Rightarrow> AuditCheckpoint option
   \<Rightarrow> audit_error + AuditRecord \<times> 'j audit_db" where
  "append_locked A db p now trusted =
     (let v = verify_locked A db (ap_stream_id p) now trusted in
      if avr_status v \<noteq> AV_VERIFIED
      then Inl (AuditIntegrityError (''audit chain refused append: '' @ failure_text v))
      else case List.find (\<lambda>r. row_stream_id r = ap_stream_id p \<and>
                  row_idempotency_digest r = ap_idempotency_digest p) (db_records db) of
        Some row \<Rightarrow>
          (case decode_record A (row_record_json row) of
             None \<Rightarrow> Inl AuditValueError
           | Some r \<Rightarrow>
               if row_plan_id row \<noteq> ap_plan_id p \<and> \<not> same_transition r p
               then Inl AuditIdempotencyConflict else Inr (r, db))
      | None \<Rightarrow>
          if ap_deadline p \<le> now then Inl AuditAppendExpired
          else bind_result (predecessor_check A db p (avr_record_count v)) (\<lambda>_.
            let r = build_record A p now (avr_record_count v + 1) (avr_head_digest v) in
            if \<not> AuditRecord_valid (ae_digest A) r then Inl AuditValueError
            else if ae_size A (ae_json A r) > ae_max_bytes A
            then Inl (AuditIntegrityError ''sealed audit record exceeds storage limit'')
            else bind_result (insert_record A db r (ap_idempotency_digest p)) (\<lambda>db'. Inr (r, db'))))"

text \<open>\<^verbatim>\<open>append\<close>: an immediate transaction that is rolled back on any exception, so the second
  component is the database afterwards.\<close>

definition append_audit ::
  "'j audit_env \<Rightarrow> 'j audit_db \<Rightarrow> AuditAppendPlan \<Rightarrow> instant \<Rightarrow> AuditCheckpoint option
   \<Rightarrow> (audit_error + AuditRecord) \<times> 'j audit_db" where
  "append_audit A db p now trusted =
     (if \<not> AuditAppendPlan_valid (ae_digest A) p \<or> \<not> trusted_valid A trusted
      then (Inl AuditValueError, db)
      else case append_locked A db p now trusted of
        Inl e \<Rightarrow> (Inl e, db)
      | Inr (r, db') \<Rightarrow> (Inr r, db'))"

text \<open>\<^verbatim>\<open>checkpoint\<close>\<close>

definition checkpoint :: "'j audit_env \<Rightarrow> 'j audit_db \<Rightarrow> digest \<Rightarrow> instant \<Rightarrow> audit_error + AuditCheckpoint" where
  "checkpoint A db sid now =
     bind_result (verify A db sid now None) (\<lambda>v.
       if avr_status v \<noteq> AV_VERIFIED then Inl (AuditIntegrityError (''audit checkpoint refused: '' @ failure_text v))
       else
         let c = \<lparr>cp_checkpoint_id = [], cp_contract_digest = AUDIT_CHAIN_CONTRACT_DIGEST (ae_digest A),
                  cp_stream_id = sid, cp_sequence = avr_record_count v,
                  cp_head_digest = avr_head_digest v, cp_issued_at = now\<rparr>;
             c' = c\<lparr>cp_checkpoint_id := ae_digest A (AuditCheckpoint_content c)\<rparr>
         in if AuditCheckpoint_valid (ae_digest A) c' then Inr c' else Inl AuditValueError)"

definition project_record :: "AuditRecord \<Rightarrow> AuditRecordProjection" where
  "project_record r =
     \<lparr>pr_record_digest = ar_record_digest r, pr_stream_id = ar_stream_id r, pr_sequence = ar_sequence r,
      pr_previous_digest = ar_previous_digest r, pr_event_type = ar_event_type r,
      pr_aggregate_id = ar_aggregate_id r, pr_transition_digest = ar_transition_digest r,
      pr_scope_id = sb_scope_id (ar_bindings r), pr_scope_version = sb_scope_version (ar_bindings r),
      pr_policy_digest = sb_policy_digest (ar_bindings r),
      pr_sandbox_profile_digest = sb_sandbox_profile_digest (ar_bindings r),
      pr_context_digest = sb_context_digest (ar_bindings r),
      pr_tool_registry_digest = sb_tool_registry_digest (ar_bindings r),
      pr_provider_revision_digest = sb_provider_revision_digest (ar_bindings r),
      pr_outcome = ar_outcome r, pr_cleanup_verified = ar_cleanup_verified r,
      pr_occurred_at = ar_occurred_at r\<rparr>"

text \<open>\<^verbatim>\<open>projections\<close>: \<^verbatim>\<open>WHERE sequence >= ? ORDER BY sequence LIMIT ?\<close> after verification.\<close>

fun decode_all :: "'j audit_env \<Rightarrow> 'j audit_row list \<Rightarrow> AuditRecord list option" where
  "decode_all A [] = Some []"
| "decode_all A (row # rows) =
     (case decode_record A (row_record_json row) of
        None \<Rightarrow> None
      | Some r \<Rightarrow> map_option (Cons r) (decode_all A rows))"

definition projections ::
  "'j audit_env \<Rightarrow> 'j audit_db \<Rightarrow> digest \<Rightarrow> AuditCheckpoint \<Rightarrow> instant \<Rightarrow> int \<Rightarrow> int
   \<Rightarrow> audit_error + AuditRecordProjection list" where
  "projections A db sid trusted now start_sequence limit =
     (if start_sequence < 1 \<or> \<not> (1 \<le> limit \<and> limit \<le> 1000) then Inl AuditValueError
      else bind_result (verify A db sid now (Some trusted)) (\<lambda>v.
        if avr_status v \<noteq> AV_VERIFIED then Inl (AuditIntegrityError (''audit projection refused: '' @ failure_text v))
        else case decode_all A (take (nat limit)
                    (filter (\<lambda>row. start_sequence \<le> row_sequence row) (stream_rows db sid))) of
          None \<Rightarrow> Inl AuditValueError
        | Some rs \<Rightarrow> Inr (map project_record rs)))"

end
