(* ===== verification/Examples.thy ===== *)
theory Examples
  imports Audit_Chain
begin

text \<open>
  Concrete parameters for the closed examples of the development: a small digest function with the
  shape of a SHA-256 hex digest, and an audit store whose JSON documents are the records
  themselves. They only serve to evaluate examples; no property is about them.
\<close>

definition mix :: "int \<Rightarrow> int \<Rightarrow> int" where
  "mix h x = (h * 31 + x) mod 65521"

fun checksum :: "pyval \<Rightarrow> int" where
  "checksum PNone = 3"
| "checksum (PBool b) = (if b then 5 else 7)"
| "checksum (PInt i) = i mod 65521"
| "checksum (PFloat r) = 11"
| "checksum (PStr s) = foldr (\<lambda>c h. mix h (of_char c)) (take 4 (rev s)) 13"
| "checksum (PUuid u) = mix 17 (uint u)"
| "checksum (PTime t) = mix 19 t"
| "checksum (PEnum s) = foldr (\<lambda>c h. mix h (of_char c)) (take 4 s) 23"
| "checksum (PList xs) = foldr (\<lambda>x h. mix h (checksum x)) xs 29"
| "checksum (PSet xs) = foldr (\<lambda>x h. mix h (checksum x)) xs 31"
| "checksum (PDict kvs) = foldr (\<lambda>kv h. mix h (checksum (snd kv))) kvs 37"

definition demo_digest :: "pyval \<Rightarrow> digest" where
  "demo_digest v = hex_digits 64 (checksum v)"

text \<open>A cheaper digest of the right shape, for a small number.\<close>

definition pad_digest :: "int \<Rightarrow> digest" where
  "pad_digest k = replicate 63 (CHR ''a'') @ hex_digits 1 k"

lemma pad_digest_digest: "is_digest (pad_digest k)"
  by (simp add: pad_digest_def is_digest_def hex_digit_char) (simp add: hex_char_def list_all_iff)

definition demo_audit :: "int \<Rightarrow> AuditRecord audit_env" where
  "demo_audit m = \<lparr>ae_digest = demo_digest, ae_json = (\<lambda>r. r), ae_parse = Some, ae_size = (\<lambda>r. 512),
     ae_max_records = m, ae_max_bytes = 65536\<rparr>"

definition demo_bindings :: AuditStateBindings where
  "demo_bindings = \<lparr>sb_engagement_id = 7, sb_scope_id = 8, sb_scope_version = 1,
     sb_policy_digest = hex_digits 64 1, sb_sandbox_profile_digest = hex_digits 64 2,
     sb_context_digest = hex_digits 64 3, sb_tool_registry_digest = hex_digits 64 4,
     sb_provider_revision_digest = hex_digits 64 5, sb_input_digests = [hex_digits 64 6]\<rparr>"

definition demo_plan :: "int \<Rightarrow> AuditAppendPlan" where
  "demo_plan k =
     (let p = \<lparr>ap_plan_id = [], ap_contract_digest = AUDIT_CHAIN_CONTRACT_DIGEST demo_digest,
               ap_stream_id = hex_digits 64 99, ap_event_type = ''demo.event'',
               ap_aggregate_id = hex_digits 64 50, ap_transition_digest = hex_digits 64 (60 + k),
               ap_bindings = demo_bindings, ap_outcome = AO_COMMITTED, ap_cleanup_verified = True,
               ap_occurred_at = 1000, ap_deadline = 2000,
               ap_idempotency_digest = hex_digits 64 (70 + k)\<rparr>
      in p\<lparr>ap_plan_id := demo_digest (AuditAppendPlan_content p)\<rparr>)"

end
