(* ===== verification/Digest_Order.thy ===== *)
theory Digest_Order
  imports Digests
begin

text \<open>
  The canonical digest of \<^verbatim>\<open>src/src/vulnloom/domain/digests.py\<close> identifies a value up to the iteration order
  of the dictionaries and sets in it, at any depth. The items of a set are sorted by a text that is written
  with other separators and escapes than the final one (\<^verbatim>\<open>json.dumps\<close> with its defaults); \<open>squeeze\<close>
  rewrites the one text to the other, so items with equal sort keys have equal final texts.
\<close>

section \<open>Values that differ in iteration order\<close>

inductive same_value :: "pyval \<Rightarrow> pyval \<Rightarrow> bool" where
  same_refl: "same_value v v"
| same_list: "list_all2 same_value xs ys \<Longrightarrow> same_value (PList xs) (PList ys)"
| same_set: "list_all2 same_value xs ys \<Longrightarrow> mset ys = mset zs \<Longrightarrow> same_value (PSet xs) (PSet zs)"
| same_dict: "distinct (map fst kvs) \<Longrightarrow>
    list_all2 (\<lambda>kv kv'. fst kv = fst kv' \<and> same_value (snd kv) (snd kv')) kvs kvs' \<Longrightarrow>
    mset kvs' = mset kvs'' \<Longrightarrow> same_value (PDict kvs) (PDict kvs'')"
  monos list_all2_mono

text \<open>The sort key of a value as an item of a set.\<close>

definition sort_text :: "digest_env \<Rightarrow> pyval \<Rightarrow> string" where
  "sort_text E v = json_dumps E True '', '' '': '' (canonicalize E v)"

lemma sort_texts: "map g (sort_key g xs) = sort (map g xs)"
  using sort_key_map [of "\<lambda>x. x" g xs] by simp

lemma mset_eq_sort: "mset xs = mset ys \<Longrightarrow> sort xs = sort ys"
  by (metis sorted_list_of_multiset_mset)

lemma sort_text_simps:
  "sort_text E (PList xs) = CHR ''['' # join_with '', '' (map (sort_text E) xs) @ '']''"
  "sort_text E (PSet xs) = CHR ''['' # join_with '', '' (sort (map (sort_text E) xs)) @ '']''"
  "sort_text E (PDict kvs) = CHR ''{'' # join_with '', ''
     (map (\<lambda>kv. dumps_str True (fst kv) @ '': '' @ snd kv)
        (sort_key fst (map (\<lambda>kv. (fst kv, sort_text E (snd kv))) kvs))) @ ''}''"
  by (simp_all add: sort_text_def [abs_def] comp_def sort_texts)

lemma map_eq_list_all2: "map f xs = map g ys \<longleftrightarrow> list_all2 (\<lambda>x y. f x = g y) xs ys"
  by (auto simp: list_all2_conv_all_nth list_eq_iff_nth_eq)

lemma same_value_sort_text: "same_value v w \<Longrightarrow> sort_text E v = sort_text E w"
proof (induction rule: same_value.induct)
  case (same_list xs ys)
  then have "map (sort_text E) xs = map (sort_text E) ys" by (auto simp: map_eq_list_all2 elim: list_all2_mono)
  then show ?case by (simp add: sort_text_simps)
next
  case (same_set xs ys zs)
  then have "map (sort_text E) xs = map (sort_text E) ys" by (auto simp: map_eq_list_all2 elim: list_all2_mono)
  moreover have "sort (map (sort_text E) ys) = sort (map (sort_text E) zs)"
    using same_set(2) by (intro mset_eq_sort) simp
  ultimately show ?case by (simp add: sort_text_simps)
next
  case (same_dict kvs kvs' kvs'')
  let ?t = "\<lambda>kv. (fst kv, sort_text E (snd kv))"
  have eq: "map ?t kvs = map ?t kvs'" 
    unfolding map_eq_list_all2 using same_dict by (auto elim!: list_all2_mono)
  have "distinct (map fst (map ?t kvs'))" 
    using same_dict unfolding eq [symmetric] by (simp add: comp_def)
  then have "inj_on fst (set (map ?t kvs'))" by (metis distinct_map)
  then have "sort_key fst (map ?t kvs') = sort_key fst (map ?t kvs'')"
    using \<open>mset kvs' = mset kvs''\<close> by (intro sort_key_inj_key_eq) simp_all
  with eq show ?case by (simp add: sort_text_simps)
qed simp

section \<open>From the sort key to the canonical text\<close>

definition digit_value :: "char \<Rightarrow> int" where
  "digit_value c = (let n = of_char c in if n \<le> 57 then n - 48 else n - 87)"

definition hex_number :: "string \<Rightarrow> int" where
  "hex_number s = foldl (\<lambda>n c. n * 16 + digit_value c) 0 s"

text \<open>Spaces outside of string literals are dropped, and escapes of characters above the printable ASCII range
  inside of them are undone.\<close>

function squeeze :: "bool \<Rightarrow> string \<Rightarrow> string" where
  "squeeze quoted [] = []"
| "squeeze quoted (c # s) =
     (if c = CHR 0x22 then c # squeeze (\<not> quoted) s
      else if \<not> quoted then (if c = CHR '' '' then [] else [c]) @ squeeze quoted s
      else if c = CHR 0x5C \<and> take 1 s = ''u''
      then (let h = take 4 (tl s) in
            (if 126 < hex_number h then [char_of (hex_number h)] else c # CHR ''u'' # h) @ squeeze quoted (drop 4 (tl s)))
      else if c = CHR 0x5C then c # take 1 s @ squeeze quoted (drop 1 s)
      else c # squeeze quoted s)"
  by pat_completeness auto
termination by (relation "measure (\<lambda>(quoted, s). length s)") auto

declare squeeze.simps(2) [simp del]

lemma digit_value_hex_digit: "digit_value (hex_digit n) = n mod 16"
proof -
  have "n mod 16 \<in> set [0..15]" by simp
  moreover have "list_all (\<lambda>k. digit_value (''0123456789abcdef'' ! nat k) = k) [0..15]" by code_simp
  ultimately show ?thesis by (simp add: hex_digit_def list_all_iff)
qed

lemma hex_number_digits: "0 \<le> n \<Longrightarrow> n < 65536 \<Longrightarrow> hex_number (hex_digits 4 n) = n"
  by (simp add: hex_number_def numeral_eq_Suc digit_value_hex_digit)

lemma length_hex_digits [simp]: "length (hex_digits k n) = k"
  by (induction k arbitrary: n) simp_all

lemma squeeze_escape: "squeeze True (escape_char True c @ rest) = escape_char False c @ squeeze True rest"
proof (cases "escape_char True c = [CHR 0x5C, CHR ''u''] @ hex_digits 4 (of_char c)")
  case True
  have n: "(of_char c :: int) < 256" "0 \<le> (of_char c :: int)" by (simp_all add: of_char_def)
  then have h: "hex_number (hex_digits 4 (of_char c)) = of_char c" by (intro hex_number_digits) simp_all
  show ?thesis using True h by (auto simp: escape_char_def Let_def squeeze.simps(2) split: if_splits)
next
  case False
  then show ?thesis by (auto simp: escape_char_def Let_def squeeze.simps(2) split: if_splits)
qed

lemma squeeze_dumps_str: "squeeze False (dumps_str True s @ rest) = dumps_str False s @ squeeze False rest"
proof -
  have "squeeze True (concat (map (escape_char True) s) @ CHR 0x22 # rest) =
      concat (map (escape_char False) s) @ CHR 0x22 # squeeze False rest"
    by (induction s) (simp_all add: squeeze_escape squeeze.simps(2) [of True "CHR 0x22"])
  then show ?thesis by (simp add: dumps_str_def squeeze.simps(2) [of False "CHR 0x22"])
qed

text \<open>A text without quotation marks and spaces is kept.\<close>

definition plain_text :: "string \<Rightarrow> bool" where
  "plain_text s \<longleftrightarrow> CHR 0x22 \<notin> set s \<and> CHR '' '' \<notin> set s"

definition plain_floats :: "digest_env \<Rightarrow> bool" where
  "plain_floats E \<longleftrightarrow> (\<forall>r. plain_text (de_float_repr E r))"

lemma squeeze_plain: "plain_text s \<Longrightarrow> squeeze False (s @ rest) = s @ squeeze False rest"
  by (induction s) (auto simp: plain_text_def squeeze.simps(2))

lemma hex_digit_plain: "CHR 0x22 \<noteq> hex_digit n" "CHR '' '' \<noteq> hex_digit n"
  using hex_digit_char [of n] by (auto simp: hex_char_def)

lemma dec_digits_plain: "plain_text (dec_digits n)"
proof (induction n rule: dec_digits.induct)
  case (1 n)
  then show ?case using hex_digit_plain by (subst dec_digits.simps) (auto simp: plain_text_def)
qed

lemma dumps_int_plain: "plain_text (dumps_int i)"
  using dec_digits_plain by (simp add: dumps_int_def plain_text_def)

lemma squeeze_join:
  assumes "\<And>x rest. x \<in> set xs \<Longrightarrow> squeeze False (f x @ rest) = g x @ squeeze False rest"
  shows "squeeze False (join_with '', '' (map f xs) @ rest) = join_with '','' (map g xs) @ squeeze False rest"
  using assms
proof (induction xs)
  case (Cons x xs)
  have "squeeze False (CHR '','' # CHR '' '' # r) = CHR '','' # squeeze False r" for r
    by (simp add: squeeze.simps(2))
  with Cons show ?case by (cases xs) simp_all
qed simp

lemma squeeze_json:
  assumes "plain_floats E"
  shows "squeeze False (json_dumps E True '', '' '': '' j @ rest) = json_dumps E False '','' '':'' j @ squeeze False rest"
proof (induction j arbitrary: rest)
  case (JArr xs)
  then show ?case by (simp add: squeeze_join squeeze.simps(2))
next
  case (JObj kvs)
  let ?T = "json_dumps E True '', '' '': ''" and ?F = "json_dumps E False '','' '':''"
  have col: "squeeze False (CHR '':'' # CHR '' '' # r) = CHR '':'' # squeeze False r" for r
    by (simp add: squeeze.simps(2))
  have "squeeze False ((dumps_str True (fst kv) @ '': '' @ ?T (snd kv)) @ r) =
      (dumps_str False (fst kv) @ '':'' @ ?F (snd kv)) @ squeeze False r" if "kv \<in> set (sort_key fst kvs)" for kv r
  proof -
    have "kv \<in> set kvs" "snd kv \<in> Basic_BNFs.snds kv" using that by (simp_all add: snds.simps)
    then show ?thesis by (simp add: JObj squeeze_dumps_str col)
  qed
  then have "squeeze False (join_with '', '' (map (\<lambda>kv. dumps_str True (fst kv) @ '': '' @ ?T (snd kv)) (sort_key fst kvs)) @ r) =
      join_with '','' (map (\<lambda>kv. dumps_str False (fst kv) @ '':'' @ ?F (snd kv)) (sort_key fst kvs)) @ squeeze False r" for r
    by (rule squeeze_join)
  then show ?case
    by (simp add: sort_key_fst_map comp_def squeeze.simps(2))
qed (use assms in \<open>simp_all add: squeeze_plain plain_floats_def dumps_int_plain squeeze_dumps_str squeeze.simps(2)\<close>)

lemma canonical_text_squeeze: "plain_floats E \<Longrightarrow> canonical_text E v = squeeze False (sort_text E v)"
  using squeeze_json [of E _ "[]"] by (simp add: canonical_text_def sort_text_def)

lemma same_value_text: "plain_floats E \<Longrightarrow> same_value v w \<Longrightarrow> canonical_text E v = canonical_text E w"
  by (simp add: canonical_text_squeeze same_value_sort_text)

end
