(* ===== verification/Core_Properties.thy ===== *)
theory Core_Properties
  imports Candidate_Lifecycle Policy Examples Digest_Order
begin

text \<open>
  The properties of the Candidate lifecycle and of the policy engine, each with a closed example where it
  has hypotheses: a Candidate, an approved Scope, a reproduced run with its EvidenceBundle and an
  accepting CriticReview.
\<close>

section \<open>Example values\<close>

definition demo_location :: SourceLocation where
  "demo_location = \<lparr>loc_path = ''app.py'', loc_line = 3, loc_symbol = None\<rparr>"

definition demo_candidate :: "CandidateState \<Rightarrow> Candidate" where
  "demo_candidate st =
     \<lparr>candidate_id = 21, cand_target_id = 22, cand_target_version = ''v1'',
      source_graph_id = hex_digits 64 23, cand_scope_id = 8, cand_scope_version = 1,
      cand_title = ''SQL injection'', cwe = ''CWE-89'', entry_point = demo_location,
      cand_sink = demo_location, code_path = [demo_location], preconditions = [],
      security_invariant = ''no injection'', cand_hypothesis = ''id is concatenated'',
      signal_ids = [hex_digits 64 24], cheapest_disproof = ''send a quote'',
      duplicate_fingerprint = hex_digits 64 25, confidence = 1/2, cand_state = st\<rparr>"

definition demo_scope :: Scope where
  "demo_scope =
     \<lparr>scope_id = 8, sc_engagement_id = 7, sc_version = 1, sc_authority_reference = ''contract'',
      valid_from = 0, valid_until = 5000,
      repositories = [\<lparr>repo_url = ''https://git.test/app'', repo_commit = ''abc''\<rparr>], sc_artifacts = [],
      network_targets = [\<lparr>nt_host = ''app.test'', nt_ports = [443], nt_schemes = [''https'']\<rparr>],
      allowed_identities = [], allowed_test_classes = [''sqli''], denied_actions = [''delete_data''],
      rate_limits = [], approval_requirements = [RUN_VALIDATION], sc_state = Scope_APPROVED,
      sc_approved_by = Some ''lead'', sc_approved_at = Some 0\<rparr>"

definition demo_run :: ValidationRun where
  "demo_run =
     \<lparr>run_id = 31, run_candidate_id = 21, run_target_version = ''v1'', run_scope_version = 1,
      sandbox_image_digest = ''sha256:'' @ hex_digits 64 32, run_policy_digest = hex_digits 64 33,
      run_plan = [], started_at = 100, finished_at = 200, run_result = VR_REPRODUCED,
      run_side_effects = [], run_evidence_refs = [hex_digits 64 34], resource_usage = []\<rparr>"

definition demo_bundle :: EvidenceBundle where
  "demo_bundle = \<lparr>bundle_id = 41, eb_candidate_id = 21, eb_evidence_refs = [hex_digits 64 34], sealed_at = 300\<rparr>"

definition demo_review :: CriticReview where
  "demo_review =
     \<lparr>review_id = 51, rev_plan_id = hex_digits 64 52, rev_candidate_id = 21, rev_validation_run_id = 31,
      rev_evidence_bundle_id = 41, rev_validation_context_id = hex_digits 64 53,
      rev_review_context_id = hex_digits 64 54, rev_ruleset_digest = DETERMINISTIC_CRITIC_RULESET_DIGEST,
      rev_verdict = CV_ACCEPTED, counterevidence_refs = [], rev_rationale_code = ''ok'', reviewed_at = 400\<rparr>"

definition demo_values :: finding_values where
  "demo_values = \<lparr>fv_root_cause = ''unescaped id'', fv_affected_versions = [''v1''], fv_impact = ''read'',
     fv_severity = [], fv_finding_id = None, fv_fresh_id = 61\<rparr>"

definition demo_env :: url_env where
  "demo_env = \<lparr>ue_bracket_ok = (\<lambda>_. True), ue_nfkc_ok = (\<lambda>_. True)\<rparr>"

definition demo_request :: ActionRequest where
  "demo_request =
     \<lparr>req_engagement_id = 7, req_target_id = Some 22, req_action = ''probe'', requested_at = 1000,
      repository_url = None, repository_commit = None, req_url = Some ''https://app.test/login'',
      req_test_class = Some ''sqli'', mutates_state = False, uses_real_credentials = False,
      external_callback = False, submits_report = False, runs_untrusted_build = False,
      authorization_context_digest = None\<rparr>"

definition demo_approval :: ApprovalRequest where
  "demo_approval =
     \<lparr>approval_id = 71, appr_engagement_id = 7, appr_target_id = Some 22, appr_action = RUN_VALIDATION,
      action_digest = request_digest demo_digest demo_request, appr_expected_side_effects = [], appr_evidence_summary = ''plan'',
      policy_version = 1, expires_at = 2000, appr_status = Appr_GRANTED, appr_decided_by = Some ''owner'', appr_decided_at = Some 0\<rparr>"

section \<open>The lifecycle\<close>

text \<open>What has to be established before a Candidate becomes a Finding.\<close>

definition promotion_grounds ::
  "Candidate \<Rightarrow> Scope \<Rightarrow> instant \<Rightarrow> ValidationRun list \<Rightarrow> EvidenceBundle \<Rightarrow> CriticReview \<Rightarrow> bool" where
  "promotion_grounds c s now runs bundle review \<longleftrightarrow>
     sc_state s = Scope_APPROVED \<and> valid_from s \<le> now \<and> now < valid_until s \<and>
     cand_scope_id c = scope_id s \<and> cand_scope_version c = sc_version s \<and>
     eb_candidate_id bundle = candidate_id c \<and> eb_evidence_refs bundle \<noteq> [] \<and>
     rev_candidate_id review = candidate_id c \<and> rev_evidence_bundle_id review = bundle_id bundle \<and>
     rev_verdict review = CV_ACCEPTED \<and> reviewed_at review \<le> now \<and>
     (\<exists>run\<in>set (reproduced_runs c runs). rev_validation_run_id review = run_id run) \<and>
     (\<forall>run\<in>set (reproduced_runs c runs). set (run_evidence_refs run) \<subseteq> set (eb_evidence_refs bundle))"

text \<open>C6. The promotion gate: a Candidate becomes a Finding exactly when it was critic-reviewed, its
  duplicate check was done, and there is a reproduced run of this Candidate, target and Scope version whose
  evidence the sealed bundle covers, reviewed and accepted by the Critic within a valid approved Scope;
  then only its state changes and the Finding names exactly the reproduced runs and the bundle.\<close>

theorem promotion_gate:
  "promote_candidate c s now fv runs bundle review dup = Inr (c', f) \<longleftrightarrow>
     cand_state c = Cand_CRITIC_REVIEWED \<and> dup \<and> promotion_grounds c s now runs bundle review \<and>
     fv_root_cause fv \<noteq> [] \<and> fv_impact fv \<noteq> [] \<and> c' = c\<lparr>cand_state := Cand_PROMOTED\<rparr> \<and>
     f = \<lparr>finding_id = (case fv_finding_id fv of Some i \<Rightarrow> i | None \<Rightarrow> fv_fresh_id fv),
          fnd_candidate_id = candidate_id c, root_cause = fv_root_cause fv,
          affected_versions = fv_affected_versions fv, fnd_preconditions = preconditions c,
          fnd_impact = fv_impact fv, severity_assessment = fv_severity fv,
          validation_run_ids = map run_id (reproduced_runs c runs),
          fnd_evidence_bundle_id = bundle_id bundle, duplicate_family_id = None,
          fnd_state = ''verified''\<rparr>"
  unfolding promote_candidate_Inr_iff promotion_grounds_def in_validity_window_def accepted_def
  by (auto simp: image_iff)

theorem promotion_gate_witness:
  "promote_candidate (demo_candidate Cand_CRITIC_REVIEWED) demo_scope 500 demo_values [demo_run] demo_bundle
     demo_review True =
   Inr (demo_candidate Cand_PROMOTED,
     \<lparr>finding_id = 61, fnd_candidate_id = 21, root_cause = ''unescaped id'', affected_versions = [''v1''],
      fnd_preconditions = [], fnd_impact = ''read'', severity_assessment = [], validation_run_ids = [31],
      fnd_evidence_bundle_id = 41, duplicate_family_id = None, fnd_state = ''verified''\<rparr>)"
  unfolding promotion_gate
  by (simp add: promotion_grounds_def reproduced_runs_def demo_candidate_def demo_scope_def demo_run_def
      demo_bundle_def demo_review_def demo_values_def)

text \<open>Only promotion-bound states raise the stage by exactly one.\<close>

lemma transitions_stage_exact:
  "t \<in> set (CANDIDATE_TRANSITIONS s) \<Longrightarrow> t \<notin> {Cand_REJECTED, Cand_DUPLICATE, Cand_INCONCLUSIVE} \<Longrightarrow>
   stage t = Suc (stage s) \<and> s \<notin> {Cand_REJECTED, Cand_DUPLICATE, Cand_INCONCLUSIVE}"
  by (cases s) auto

lemma steps_stage_exact:
  assumes "steps candidate_step c n c'" and "cand_state c' \<notin> {Cand_REJECTED, Cand_DUPLICATE, Cand_INCONCLUSIVE}"
  shows "stage (cand_state c') = stage (cand_state c) + n"
  using assms
proof (induction rule: steps.induct)
  case (steps_step s n t u)
  then have "cand_state u \<in> set (CANDIDATE_TRANSITIONS (cand_state t))"
    by (auto dest!: candidate_step_spec simp: lifecycle_spec_def)
  from transitions_stage_exact [OF this steps_step.prems] steps_step.IH show ?case by simp
qed simp

lemma steps_only_state: "steps candidate_step c n c' \<Longrightarrow> \<exists>st. c' = c\<lparr>cand_state := st\<rparr>"
proof (induction rule: steps.induct)
  case (steps_refl s)
  have "s = s\<lparr>cand_state := cand_state s\<rparr>" by simp
  then show ?case by blast
next
  case (steps_step s n t u)
  then obtain st where t: "t = s\<lparr>cand_state := st\<rparr>" by blast
  from steps_step have "lifecycle_spec t u" by (simp add: candidate_step_spec)
  then obtain st' where "u = t\<lparr>cand_state := st'\<rparr>" by (auto simp: lifecycle_spec_def)
  with t have "u = s\<lparr>cand_state := st'\<rparr>" by simp
  then show ?case by blast
qed

text \<open>C27. The lifecycle is finite and strict: however the accepted operations are interleaved, a Candidate
  takes at most five of them, nothing but its state ever changes, and one that ends promoted from proposed took
  exactly the five transitions of the table; so no operation can skip validation or the Critic.\<close>

theorem lifecycle_bounded:
  assumes "steps candidate_step c n c'"
  shows "n \<le> 5 \<and> (\<exists>st. c' = c\<lparr>cand_state := st\<rparr>) \<and>
     (cand_state c = Cand_PROPOSED \<and> cand_state c' = Cand_PROMOTED \<longrightarrow> n = 5)"
proof -
  have "stage st \<le> 5" for st by (cases st) auto
  with steps_stage [OF assms] have "n \<le> 5" by (meson add_leD2 le_trans)
  moreover have "cand_state c = Cand_PROPOSED \<and> cand_state c' = Cand_PROMOTED \<longrightarrow> n = 5"
    using steps_stage_exact [OF assms] by auto
  ultimately show ?thesis using steps_only_state [OF assms] by blast
qed

lemma demo_lifecycle_steps:
  "steps candidate_step (demo_candidate Cand_PROPOSED) 2 (demo_candidate Cand_VALIDATION_RUNNING)"
proof -
  have step: "candidate_step (demo_candidate a) (demo_candidate b)" if "b \<in> set (CANDIDATE_TRANSITIONS a)" for a b
    using that by (simp add: candidate_step_iff_spec lifecycle_spec_def demo_candidate_def)
  have "steps candidate_step (demo_candidate Cand_PROPOSED) (Suc (Suc 0)) (demo_candidate Cand_VALIDATION_RUNNING)"
    by (rule steps_step [of candidate_step _ _ "demo_candidate Cand_VALIDATION_PENDING"],
        rule steps_step [of candidate_step _ _ "demo_candidate Cand_PROPOSED"])
      (simp_all add: steps_refl step)
  then show ?thesis by (simp add: numeral_2_eq_2)
qed

theorem lifecycle_bounded_witness:
  "(2::nat) \<le> 5 \<and> (\<exists>st. demo_candidate Cand_VALIDATION_RUNNING = (demo_candidate Cand_PROPOSED)\<lparr>cand_state := st\<rparr>)"
  using lifecycle_bounded [OF demo_lifecycle_steps] by simp

definition campaign_run :: "CandidateState \<Rightarrow> ValidationResult \<Rightarrow> campaign_error + CandidateState" where
  "campaign_run st result =
     bind_result (admit_campaign_candidate_validation st) (\<lambda>a.
       bind_result (start_campaign_candidate_validation a) (\<lambda>b.
         complete_campaign_candidate_validation b result))"

text \<open>The Campaign variant agrees with the table: driving a state through the Campaign functions in
  order succeeds exactly from proposed, follows transitions of the shared table, and lets the Critic be
  queued exactly when the validation reproduced.\<close>

theorem campaign_follows_table:
  "(admit_campaign_candidate_validation st = Inr st' \<or> start_campaign_candidate_validation st = Inr st' \<or>
    complete_campaign_candidate_validation st result = Inr st' \<longrightarrow> st' \<in> set (CANDIDATE_TRANSITIONS st)) \<and>
   (campaign_run st result = Inr st' \<longleftrightarrow>
      st = Cand_PROPOSED \<and> st' = (if result = VR_REPRODUCED then Cand_VALIDATED else Cand_INCONCLUSIVE)) \<and>
   (is_ok (bind_result (campaign_run st result) admit_campaign_candidate_critic) \<longleftrightarrow>
      st = Cand_PROPOSED \<and> result = VR_REPRODUCED)"
  by (cases st; cases result)
    (auto simp: campaign_run_def admit_campaign_candidate_validation_def start_campaign_candidate_validation_def
      complete_campaign_candidate_validation_def admit_campaign_candidate_critic_def)

theorem campaign_follows_table_witness:
  "Cand_VALIDATION_PENDING \<in> set (CANDIDATE_TRANSITIONS Cand_PROPOSED) \<and>
   campaign_run Cand_PROPOSED VR_REPRODUCED = Inr Cand_VALIDATED"
  using campaign_follows_table [of Cand_PROPOSED Cand_VALIDATION_PENDING VR_TIMED_OUT]
    campaign_follows_table [of Cand_PROPOSED Cand_VALIDATED VR_REPRODUCED]
  by (simp add: admit_campaign_candidate_validation_def)

section \<open>The policy engine\<close>

text \<open>C5. The decision is ALLOW exactly for an authorised action: the Scope is approved, current and of the same
  engagement, the action is not denied, its test class and its repository commit are in scope, its URL (if
  any) has no credentials and hits an allowed host, scheme and port, and every required approval has been
  granted, unexpired, for this very request, target and policy version.\<close>

theorem allow_iff_authorised:
  "(\<exists>d. decide H U s r approvals = Inr d \<and> effect d = ALLOW) \<longleftrightarrow>
     within_boundary s r \<and> (req_url r = None \<or> url_in_scope U s (the (req_url r))) \<and>
     approvals_granted H s r approvals"
  unfolding decide_ALLOW_iff by (cases "req_url r") auto

text \<open>Approvals only lift the approval requirement: adding approvals never changes a denial, never turns an
  allowed action into another effect, and never changes the obligations.\<close>

theorem approvals_monotone:
  assumes "decide H U s r approvals = Inr d" and "set approvals \<subseteq> set extra"
  shows "\<exists>d'. decide H U s r extra = Inr d' \<and> obligations d' = obligations d \<and>
           (effect d = DENY \<longrightarrow> d' = d) \<and> (effect d = ALLOW \<longrightarrow> d' = d) \<and>
           (effect d = APPROVAL_REQUIRED \<longrightarrow> effect d' \<noteq> DENY)"
proof -
  have "missing_approvals H s r extra = []" if "missing_approvals H s r approvals = []"
    using that assms(2) by (auto simp: missing_approvals_Nil_iff approvals_granted_def)
  moreover from assms(1) obtain us obls where "url_check U s r = Inr (us, obls)"
    by (cases "url_check U s r") (auto simp: decide_def)
  ultimately show ?thesis using assms(1) by (auto simp: decide_def Let_def split: if_splits)
qed

lemma demo_decisions:
  "decide demo_digest demo_env demo_scope demo_request [] =
     Inr \<lparr>effect = APPROVAL_REQUIRED, reasons = [''missing_approval:run_validation''],
          obligations = [''resolve_and_pin_ip'', ''recheck_each_redirect''],
          dec_policy_digest = policy_digest demo_digest demo_scope\<rparr>"
  by code_simp

theorem approvals_monotone_witness:
  "\<exists>d'. decide demo_digest demo_env demo_scope demo_request [demo_approval] = Inr d' \<and>
     obligations d' = [''resolve_and_pin_ip'', ''recheck_each_redirect''] \<and> effect d' \<noteq> DENY"
  using approvals_monotone [OF demo_decisions, of "[demo_approval]"] by auto

text \<open>An approval is spent on one action only: if one approval covers two requests, they agree in every
  field but the time of the request, unless the digest collides on them.\<close>

theorem approval_binds_one_action:
  assumes "approval_covers H s r act a" and "approval_covers H s' r' act' a"
    and "inj_on H {request_payload r, request_payload r'}"
  shows "r' = r\<lparr>requested_at := requested_at r'\<rparr> \<and> act' = act"
proof -
  from assms(1,2) have "H (request_payload r) = H (request_payload r')" "act' = act"
    by (auto simp: approval_covers_def is_valid_for_def request_digest_def)
  with assms(3) have "request_payload r = request_payload r'" by (auto dest: inj_onD)
  then have "r\<lparr>requested_at := 0\<rparr> = r'\<lparr>requested_at := 0\<rparr>" by (simp add: request_payload_intent)
  then have "r' = r\<lparr>requested_at := requested_at r'\<rparr>"
    by (cases r; cases r') simp
  with \<open>act' = act\<close> show ?thesis by simp
qed

lemma demo_covered:
  "approval_covers demo_digest demo_scope demo_request RUN_VALIDATION demo_approval"
  "approval_covers demo_digest demo_scope (demo_request\<lparr>requested_at := 1200\<rparr>) RUN_VALIDATION demo_approval"
  by code_simp+

theorem approval_binds_one_action_witness:
  "approval_covers demo_digest demo_scope (demo_request\<lparr>requested_at := 1200\<rparr>) RUN_VALIDATION demo_approval \<and>
   (demo_request\<lparr>requested_at := 1200\<rparr>)\<lparr>requested_at := 1000\<rparr> = demo_request"
  using approval_binds_one_action [OF demo_covered(2,1)] demo_covered(2)
  by (simp add: request_payload_def intent_payload_def demo_request_def)

section \<open>The canonical digest\<close>

text \<open>C29. The digest of any value is independent of iteration order: two values that differ only in the order of the
  entries of dictionaries and of the items of sets, at any depth, have the same canonical digest, provided that
  the representation of a float contains neither a quotation mark nor a space, as documented.\<close>

theorem canonical_digest_order_free:
  assumes "plain_floats E" and "same_value v w"
  shows "canonical_digest E v = canonical_digest E w"
  by (simp add: canonical_digest_def same_value_text [OF assms])

definition demo_denv :: digest_env where
  "demo_denv = \<lparr>de_sha256 = (\<lambda>s. hex_digits 64 (foldr (\<lambda>c h. mix h (of_char c)) s 7)),
     de_isoformat = (\<lambda>t. dumps_int t), de_float_repr = (\<lambda>r. ''0.5'')\<rparr>"

lemma demo_same_value:
  "same_value
     (PDict [(''b'', PSet [PDict [(''x y'', PInt 2), (''a'', PNone)], PFloat (1 / 2)]), (''a'', PInt 1)])
     (PDict [(''a'', PInt 1), (''b'', PSet [PFloat (1 / 2), PDict [(''a'', PNone), (''x y'', PInt 2)]])])"
proof -
  have "same_value (PDict [(''x y'', PInt 2), (''a'', PNone)]) (PDict [(''a'', PNone), (''x y'', PInt 2)])"
    by (rule same_dict [where kvs' = "[(''x y'', PInt 2), (''a'', PNone)]"]) (simp_all add: same_refl)
  then have "same_value (PSet [PDict [(''x y'', PInt 2), (''a'', PNone)], PFloat (1 / 2)])
      (PSet [PFloat (1 / 2), PDict [(''a'', PNone), (''x y'', PInt 2)]])" (is "same_value _ ?s")
    by (intro same_set [where ys = "[PDict [(''a'', PNone), (''x y'', PInt 2)], PFloat (1 / 2)]"]) (simp_all add: same_refl)
  then show ?thesis
    by (intro same_dict [where kvs' = "[(''b'', ?s), (''a'', PInt 1)]"]) (simp_all add: same_refl)
qed

theorem canonical_digest_order_free_witness:
  "canonical_digest demo_denv
     (PDict [(''b'', PSet [PDict [(''x y'', PInt 2), (''a'', PNone)], PFloat (1 / 2)]), (''a'', PInt 1)]) =
   canonical_digest demo_denv
     (PDict [(''a'', PInt 1), (''b'', PSet [PFloat (1 / 2), PDict [(''a'', PNone), (''x y'', PInt 2)]])])"
  by (rule canonical_digest_order_free [OF _ demo_same_value])
    (simp add: plain_floats_def plain_text_def demo_denv_def)

end
