(* ===== verification/Audit_Chain_Facts.thy ===== *)
theory Audit_Chain_Facts
  imports Audit_Chain
begin

text \<open>
  What the audit chain guarantees. \<open>linked\<close> is the abstract chain: consecutive sequence numbers and
  each record naming the digest of its predecessor. A verification succeeds exactly when the
  stored rows decode to such a chain, the head matches it, and the trusted checkpoint is one of
  its prefixes; an append extends the chain by one record; and two chains that agree with one
  checkpoint agree on everything up to it.
\<close>

section \<open>Sealed models of the chain\<close>

lemma audit_outcome_value_inject [simp]:
  "audit_outcome_value a = audit_outcome_value b \<longleftrightarrow> a = b"
  by (cases a; cases b) simp_all

lemma AuditStateBindings_dump_inject [simp]:
  "AuditStateBindings_dump a = AuditStateBindings_dump b \<longleftrightarrow> a = b"
  by (cases a; cases b) (auto simp: AuditStateBindings_dump_def)

interpretation plan_seal: sealed_model AuditAppendPlan_content ap_plan_id "\<lambda>i p. p\<lparr>ap_plan_id := i\<rparr>"
proof (unfold_locales)
  fix x y :: AuditAppendPlan
  assume "AuditAppendPlan_content x = AuditAppendPlan_content y" and "ap_plan_id x = ap_plan_id y"
  then show "x = y" by (cases x; cases y) (auto simp: AuditAppendPlan_content_def)
qed (simp_all add: AuditAppendPlan_content_def)

interpretation record_seal: sealed_model AuditRecord_content ar_record_digest
  "\<lambda>i r. r\<lparr>ar_record_digest := i\<rparr>"
proof (unfold_locales)
  fix x y :: AuditRecord
  assume "AuditRecord_content x = AuditRecord_content y" and "ar_record_digest x = ar_record_digest y"
  then show "x = y" by (cases x; cases y) (auto simp: AuditRecord_content_def)
qed (simp_all add: AuditRecord_content_def)

interpretation checkpoint_seal: sealed_model AuditCheckpoint_content cp_checkpoint_id
  "\<lambda>i c. c\<lparr>cp_checkpoint_id := i\<rparr>"
proof (unfold_locales)
  fix x y :: AuditCheckpoint
  assume "AuditCheckpoint_content x = AuditCheckpoint_content y"
    and "cp_checkpoint_id x = cp_checkpoint_id y"
  then show "x = y" by (cases x; cases y) (auto simp: AuditCheckpoint_content_def)
qed (simp_all add: AuditCheckpoint_content_def)

section \<open>The abstract chain\<close>

fun linked :: "digest \<Rightarrow> int \<Rightarrow> digest \<Rightarrow> AuditRecord list \<Rightarrow> bool" where
  "linked sid n prev [] \<longleftrightarrow> True"
| "linked sid n prev (r # rs) \<longleftrightarrow>
     ar_stream_id r = sid \<and> ar_sequence r = n \<and> ar_previous_digest r = prev \<and>
     linked sid (n + 1) (ar_record_digest r) rs"

definition row_holds :: "'j audit_env \<Rightarrow> 'j audit_row \<Rightarrow> AuditRecord \<Rightarrow> bool" where
  "row_holds A row r \<longleftrightarrow>
     decode_record A (row_record_json row) = Some r \<and> row_record_digest row = ar_record_digest r \<and>
     row_previous_digest row = ar_previous_digest r \<and> row_plan_id row = ar_plan_id r"

definition chain_of :: "'j audit_env \<Rightarrow> 'j audit_db \<Rightarrow> digest \<Rightarrow> AuditRecord list \<Rightarrow> bool" where
  "chain_of A db sid rs \<longleftrightarrow>
     list_all2 (row_holds A) (stream_rows db sid) rs \<and>
     linked sid 1 (AUDIT_GENESIS_DIGEST (ae_digest A)) rs \<and> head_binds db sid rs"

lemma scan_rows_True_iff:
  "scan_rows A sid n prev rows = (rs, True) \<longleftrightarrow>
     list_all2 (row_holds A) rows rs \<and> linked sid n prev rs"
proof (induction A sid n prev rows arbitrary: rs rule: scan_rows.induct)
  case (1 A sid n prev)
  then show ?case by auto
next
  case (2 A sid n prev row rows)
  show ?case
  proof (cases "decode_record A (row_record_json row)")
    case None
    then show ?thesis by (auto simp: list_all2_Cons1 row_holds_def)
  next
    case (Some r)
    show ?thesis
    proof (cases "row_binds sid n prev row r")
      case False
      then have "\<not> (row_holds A row r \<and> ar_stream_id r = sid \<and> ar_sequence r = n \<and> ar_previous_digest r = prev)"
        by (auto simp: row_binds_def row_holds_def)
      with False Some show ?thesis
        by (cases rs) (auto simp: row_holds_def)
    next
      case True
      then have hold: "row_holds A row r" "ar_stream_id r = sid" "ar_sequence r = n" "ar_previous_digest r = prev"
        using Some by (auto simp: row_binds_def row_holds_def)
      have uniq: "row_holds A row x \<longleftrightarrow> x = r" for x
        using Some hold(1) by (auto simp: row_holds_def)
      obtain rs0 ok where scan: "scan_rows A sid (n + 1) (ar_record_digest r) rows = (rs0, ok)"
        by fastforce
      have IH: "rs0 = xs \<and> ok \<longleftrightarrow> list_all2 (row_holds A) rows xs \<and> linked sid (n + 1) (ar_record_digest r) xs" for xs
        using "2.IH" [OF Some True, of xs] by (simp add: scan)
      show ?thesis
      proof (cases rs)
        case Nil
        then show ?thesis by (simp add: Some True scan)
      next
        case (Cons x xs)
        have "scan_rows A sid n prev (row # rows) = (rs, True) \<longleftrightarrow> x = r \<and> rs0 = xs \<and> ok"
          using Cons by (auto simp: Some True scan)
        also have "\<dots> \<longleftrightarrow> x = r \<and> list_all2 (row_holds A) rows xs \<and> linked sid (n + 1) (ar_record_digest r) xs"
          by (simp add: IH)
        also have "\<dots> \<longleftrightarrow> list_all2 (row_holds A) (row # rows) rs \<and> linked sid n prev rs"
          by (simp add: Cons uniq) (use hold(2-4) in blast)
        finally show ?thesis .
      qed
    qed
  qed
qed

lemma list_all2_functional:
  assumes "list_all2 P xs ys" and "list_all2 P xs zs"
    and "\<And>x y z. P x y \<Longrightarrow> P x z \<Longrightarrow> y = z"
  shows "ys = zs"
  using assms
proof (induction xs ys arbitrary: zs rule: list_all2_induct)
  case (Cons x xs y ys)
  from Cons.prems(1) obtain z zs' where z: "zs = z # zs'" "P x z" "list_all2 P xs zs'"
    by (auto simp: list_all2_Cons1)
  from Cons.prems(2) [OF Cons.hyps(1) z(2)] Cons.IH [OF z(3) Cons.prems(2)] z(1) show ?case
    by simp
qed simp

lemma chain_of_unique:
  assumes "chain_of A db sid rs" and "chain_of A db sid rs'"
  shows "rs = rs'"
proof (rule list_all2_functional)
  show "list_all2 (row_holds A) (stream_rows db sid) rs" using assms(1) by (simp add: chain_of_def)
  show "list_all2 (row_holds A) (stream_rows db sid) rs'" using assms(2) by (simp add: chain_of_def)
qed (simp add: row_holds_def)

text \<open>The checkpoint comparison as a condition on the chain.\<close>

definition anchored :: "'j audit_env \<Rightarrow> digest \<Rightarrow> instant \<Rightarrow> AuditRecord list \<Rightarrow> AuditCheckpoint \<Rightarrow> bool" where
  "anchored A sid now rs c \<longleftrightarrow>
     cp_issued_at c \<le> now \<and> cp_stream_id c = sid \<and> cp_sequence c \<le> int (length rs) \<and>
     head_digest_of A (take (nat (cp_sequence c)) rs) = cp_head_digest c"

lemma checkpoint_failure_None_iff:
  assumes "0 \<le> cp_sequence c"
  shows "checkpoint_failure A sid now rs c = None \<longleftrightarrow> anchored A sid now rs c"
proof (cases "cp_sequence c = 0")
  case True
  then show ?thesis by (simp add: checkpoint_failure_def anchored_def head_digest_of_def)
next
  case False
  show ?thesis
  proof (cases "int (length rs) < cp_sequence c")
    case True
    with False show ?thesis by (simp add: checkpoint_failure_def anchored_def)
  next
    case short: False
    define k where "k = nat (cp_sequence c - 1)"
    with False assms short have k: "nat (cp_sequence c) = Suc k" "k < length rs" "rs \<noteq> []"
      by auto
    then have "head_digest_of A (take (nat (cp_sequence c)) rs) = ar_record_digest (rs ! k)"
      by (simp add: head_digest_of_def take_Suc_conv_app_nth)
    with False short k_def show ?thesis
      by (simp add: checkpoint_failure_def anchored_def)
  qed
qed

section \<open>Verification\<close>

lemma seal_verification_simps [simp]:
  "avr_status (seal_verification A v) = avr_status v"
  "avr_record_count (seal_verification A v) = avr_record_count v"
  "avr_head_digest (seal_verification A v) = avr_head_digest v"
  "avr_failure_code (seal_verification A v) = avr_failure_code v"
  by (simp_all add: seal_verification_def)

lemma seal_verification_sealed:
  "sealed_by (ae_digest A) AuditVerificationResult_content avr_result_id (seal_verification A v)"
  by (simp add: seal_verification_def sealed_by_def AuditVerificationResult_content_def)

lemma verify_verified_iff:
  assumes "trusted_valid A trusted"
  shows "avr_status (verify_locked A db sid now trusted) = AV_VERIFIED \<longleftrightarrow>
     \<not> limits_exceeded A db sid \<and>
     (\<exists>rs. chain_of A db sid rs \<and> opt_all (anchored A sid now rs) trusted)"
proof -
  obtain rs ok where scan:
    "scan_rows A sid 1 (AUDIT_GENESIS_DIGEST (ae_digest A)) (stream_rows db sid) = (rs, ok)"
    by fastforce
  have chain: "chain_of A db sid rs' \<longleftrightarrow> rs' = rs \<and> ok \<and> head_binds db sid rs" for rs'
    unfolding chain_of_def scan_rows_True_iff [symmetric] conj_assoc [symmetric] scan by auto
  have no: "checkpoint_failure A sid now rs c = Some (st, f) \<Longrightarrow> st \<noteq> AV_VERIFIED" for c st f
    by (auto simp: checkpoint_failure_def split: if_splits)
  show ?thesis
  proof (cases trusted)
    case None
    then show ?thesis by (auto simp: verify_locked_def scan chain)
  next
    case (Some c)
    with assms have "0 \<le> cp_sequence c"
      by (simp add: trusted_valid_def AuditCheckpoint_valid_def)
    from checkpoint_failure_None_iff [OF this, of A sid now rs] show ?thesis
      using Some no by (auto simp: verify_locked_def scan chain split: option.splits)
  qed
qed

lemma verify_counts:
  assumes "avr_status (verify_locked A db sid now trusted) = AV_VERIFIED" and "trusted_valid A trusted"
    and "chain_of A db sid rs"
  shows "avr_record_count (verify_locked A db sid now trusted) = int (length rs)"
    and "avr_head_digest (verify_locked A db sid now trusted) = head_digest_of A rs"
proof -
  from assms(3) have "scan_rows A sid 1 (AUDIT_GENESIS_DIGEST (ae_digest A)) (stream_rows db sid) = (rs, True)"
    by (simp add: chain_of_def scan_rows_True_iff)
  moreover from assms(1,2) have "\<not> limits_exceeded A db sid"
    using verify_verified_iff by blast
  ultimately show "avr_record_count (verify_locked A db sid now trusted) = int (length rs)"
    and "avr_head_digest (verify_locked A db sid now trusted) = head_digest_of A rs"
    by (simp_all add: verify_locked_def Let_def)
qed

text \<open>The result object of a verification always passes its own validator.\<close>

lemma verify_result_valid: "AuditVerificationResult_valid (ae_digest A) (verify_locked A db sid now trusted)"
proof -
  have "st \<noteq> AV_VERIFIED" if "checkpoint_failure A sid now rs c = Some (st, f)" for rs c st f
    using that by (auto simp: checkpoint_failure_def split: if_splits)
  then show ?thesis
    by (auto simp: AuditVerificationResult_valid_def seal_verification_sealed verify_locked_def
        Let_def split: option.splits prod.splits)
qed

section \<open>Tamper evidence\<close>

lemma linked_nth_previous:
  assumes "linked sid n prev rs" and "Suc k < length rs"
  shows "ar_previous_digest (rs ! Suc k) = ar_record_digest (rs ! k)"
  using assms
proof (induction rs arbitrary: n prev k)
  case (Cons r rs)
  then show ?case by (cases rs; cases k) auto
qed simp

lemma linked_nth_sequence:
  "linked sid n prev rs \<Longrightarrow> k < length rs \<Longrightarrow> ar_sequence (rs ! k) = n + int k \<and> ar_stream_id (rs ! k) = sid"
proof (induction rs arbitrary: n prev k)
  case (Cons r rs)
  then show ?case by (cases k) fastforce+
qed simp

text \<open>Two linked chains of sealed records that agree on one digest agree on everything before it.\<close>

lemma linked_prefix_unique:
  assumes "linked sid 1 g rs" and "linked sid 1 g rs'"
    and "\<forall>r\<in>set rs. sealed_by H AuditRecord_content ar_record_digest r"
    and "\<forall>r\<in>set rs'. sealed_by H AuditRecord_content ar_record_digest r"
    and "inj_on H (AuditRecord_content ` (set rs \<union> set rs'))"
    and "k < length rs" and "k < length rs'"
    and "ar_record_digest (rs ! k) = ar_record_digest (rs' ! k)"
  shows "take (Suc k) rs = take (Suc k) rs'"
  using assms(6-8)
proof (induction k)
  case 0
  then have "rs ! 0 = rs' ! 0"
    by (intro record_seal.sealed_unique [OF _ _ _ assms(5)]) (use assms(3,4) in auto)
  with "0.prems" show ?case by (simp add: take_Suc_conv_app_nth)
next
  case (Suc k)
  have eq: "rs ! Suc k = rs' ! Suc k"
    by (rule record_seal.sealed_unique [OF _ _ Suc.prems(3) assms(5)])
      (use Suc.prems assms(3,4) in auto)
  have "ar_record_digest (rs ! k) = ar_record_digest (rs' ! k)"
    using linked_nth_previous [OF assms(1) Suc.prems(1)] linked_nth_previous [OF assms(2) Suc.prems(2)] eq
    by simp
  with Suc have "take (Suc k) rs = take (Suc k) rs'" by simp
  with eq Suc.prems show ?case by (simp add: take_Suc_conv_app_nth)
qed

lemma row_holds_valid: "row_holds A row r \<Longrightarrow> AuditRecord_valid (ae_digest A) r"
  by (auto simp: row_holds_def decode_record_def split: option.splits if_splits)

lemma chain_of_records_valid:
  assumes "chain_of A db sid rs" and "r \<in> set rs"
  shows "AuditRecord_valid (ae_digest A) r"
proof -
  from assms have "list_all2 (row_holds A) (stream_rows db sid) rs" by (simp add: chain_of_def)
  with assms(2) obtain row where "row_holds A row r"
    by (auto simp: list_all2_conv_all_nth in_set_conv_nth)
  then show ?thesis by (rule row_holds_valid)
qed

lemma chain_of_records_sealed:
  assumes "chain_of A db sid rs"
  shows "\<forall>r\<in>set rs. sealed_by (ae_digest A) AuditRecord_content ar_record_digest r"
  using chain_of_records_valid [OF assms] by (simp add: AuditRecord_valid_def)

lemma anchored_prefix_unique:
  assumes "chain_of A db sid rs" and "chain_of A db' sid rs'"
    and "anchored A sid now rs c" and "anchored A sid now' rs' c" and "0 \<le> cp_sequence c"
    and "inj_on (ae_digest A) (AuditRecord_content ` (set rs \<union> set rs'))"
  shows "take (nat (cp_sequence c)) rs = take (nat (cp_sequence c)) rs'"
proof (cases "nat (cp_sequence c)")
  case 0
  then show ?thesis by simp
next
  case (Suc k)
  with assms(3-5) have len: "k < length rs" "k < length rs'"
    by (auto simp: anchored_def)
  have "ar_record_digest (rs ! k) = ar_record_digest (rs' ! k)"
    using assms(3,4) len Suc by (auto simp: anchored_def head_digest_of_def take_Suc_conv_app_nth)
  then have "take (Suc k) rs = take (Suc k) rs'"
    using assms(1,2) len
    by (intro linked_prefix_unique [OF _ _ chain_of_records_sealed [OF assms(1)]
          chain_of_records_sealed [OF assms(2)] assms(6)]) (auto simp: chain_of_def)
  with Suc show ?thesis by simp
qed


section \<open>Appending\<close>

lemma insort_key_last:
  "(\<forall>y\<in>set ys. f y \<le> f x) \<Longrightarrow> (\<forall>y\<in>set ys. f y = f x \<longrightarrow> False) \<Longrightarrow> insort_key f x ys = ys @ [x]"
  by (induction ys) force+

lemma insort_key_append_last:
  "f x < f y \<Longrightarrow> insort_key f x (xs @ [y]) = insort_key f x xs @ [y]"
  by (induction xs) auto

lemma sort_key_snoc:
  "\<forall>x\<in>set xs. f x < f y \<Longrightarrow> sort_key f (xs @ [y]) = sort_key f xs @ [y]"
  by (induction xs) (auto simp: insort_key_append_last)

lemma set_stream_rows: "set (stream_rows db sid) = {row \<in> set (db_records db). row_stream_id row = sid}"
  by (auto simp: stream_rows_def)

lemma linked_snoc:
  "linked sid n prev (rs @ [r]) \<longleftrightarrow>
     linked sid n prev rs \<and> ar_stream_id r = sid \<and> ar_sequence r = n + int (length rs) \<and>
     ar_previous_digest r = (if rs = [] then prev else ar_record_digest (last rs))"
  by (induction rs arbitrary: n prev) (auto simp: algebra_simps)

text \<open>A stream as the store itself maintains it: beside the chain, the ordering column agrees with
  the sealed sequence numbers, and every record belongs to one Engagement.\<close>

definition one_engagement :: "AuditRecord list \<Rightarrow> bool" where
  "one_engagement rs \<longleftrightarrow>
     (\<forall>r\<in>set rs. \<forall>r'\<in>set rs. sb_engagement_id (ar_bindings r) = sb_engagement_id (ar_bindings r'))"

definition stream_inv :: "'j audit_env \<Rightarrow> 'j audit_db \<Rightarrow> digest \<Rightarrow> AuditRecord list \<Rightarrow> bool" where
  "stream_inv A db sid rs \<longleftrightarrow>
     chain_of A db sid rs \<and> map row_sequence (stream_rows db sid) = map ar_sequence rs \<and>
     one_engagement rs"

definition audit_inv :: "'j audit_env \<Rightarrow> 'j audit_db \<Rightarrow> bool" where
  "audit_inv A db \<longleftrightarrow>
     (\<forall>sid. \<exists>rs. stream_inv A db sid rs) \<and>
     (\<forall>row\<in>set (db_records db). ae_size A (row_record_json row) \<le> ae_max_bytes A)"

definition codec_ok :: "'j audit_env \<Rightarrow> bool" where
  "codec_ok A \<longleftrightarrow> (\<forall>r. ae_parse A (ae_json A r) = Some r)"

lemma stream_inv_length: "stream_inv A db sid rs \<Longrightarrow> length (stream_rows db sid) = length rs"
  unfolding stream_inv_def chain_of_def by (auto dest: list_all2_lengthD)

lemma stream_inv_row_at:
  assumes "stream_inv A db sid rs" and "row \<in> set (db_records db)" and "row_stream_id row = sid"
  obtains k where "k < length rs" and "row_sequence row = int k + 1" and "row_holds A row (rs ! k)"
proof -
  from assms(2,3) have "row \<in> set (stream_rows db sid)" by (simp add: set_stream_rows)
  then obtain k where k: "k < length (stream_rows db sid)" "stream_rows db sid ! k = row"
    by (auto simp: in_set_conv_nth)
  have len: "length (stream_rows db sid) = length rs" by (rule stream_inv_length [OF assms(1)])
  have "row_sequence row = ar_sequence (rs ! k)"
    using assms(1) k len unfolding stream_inv_def by (metis nth_map)
  also have "\<dots> = int k + 1"
    using assms(1) k len linked_nth_sequence [of sid 1 _ rs k] by (auto simp: stream_inv_def chain_of_def)
  finally have "row_sequence row = int k + 1" .
  moreover have "row_holds A row (rs ! k)"
    using assms(1) k by (auto simp: stream_inv_def chain_of_def list_all2_conv_all_nth)
  ultimately show thesis using that k len by simp
qed

lemma stream_rows_insert_record:
  assumes "insert_record A db r idem = Inr db'" and "stream_inv A db sid rs"
    and "ar_stream_id r = sid" and "ar_sequence r = int (length rs) + 1"
  shows "stream_rows db' sid = stream_rows db sid @ [row_of_record A r idem]"
proof -
  have "\<forall>row \<in> set (filter (\<lambda>r. row_stream_id r = sid) (db_records db)).
      row_sequence row < row_sequence (row_of_record A r idem)"
  proof
    fix row assume "row \<in> set (filter (\<lambda>r. row_stream_id r = sid) (db_records db))"
    then have "row \<in> set (db_records db)" "row_stream_id row = sid" by auto
    then obtain k where "k < length rs" "row_sequence row = int k + 1"
      by (rule stream_inv_row_at [OF assms(2)])
    then show "row_sequence row < row_sequence (row_of_record A r idem)"
      using assms(4) by (simp add: row_of_record_def)
  qed
  moreover have "db_records db' = db_records db @ [row_of_record A r idem]"
    using assms(1) by (auto simp: insert_record_def Let_def split: if_splits)
  moreover have "row_stream_id (row_of_record A r idem) = sid"
    using assms(3) by (simp add: row_of_record_def)
  ultimately show ?thesis by (simp add: stream_rows_def sort_key_snoc)
qed

lemma insert_record_other_stream:
  assumes "insert_record A db r idem = Inr db'" and "sid \<noteq> ar_stream_id r"
  shows "stream_rows db' sid = stream_rows db sid" and "db_heads db' sid = db_heads db sid"
  using assms by (auto simp: insert_record_def stream_rows_def row_of_record_def Let_def split: if_splits)

lemma chain_of_other_stream:
  assumes "insert_record A db r idem = Inr db'" and "sid \<noteq> ar_stream_id r"
  shows "chain_of A db' sid rs \<longleftrightarrow> chain_of A db sid rs"
  unfolding chain_of_def head_binds_def insert_record_other_stream [OF assms] ..

lemma build_record_simps [simp]:
  "ar_stream_id (build_record A p now n d) = ap_stream_id p"
  "ar_sequence (build_record A p now n d) = n"
  "ar_previous_digest (build_record A p now n d) = d"
  "ar_bindings (build_record A p now n d) = ap_bindings p"
  "ar_plan_id (build_record A p now n d) = ap_plan_id p"
  "ar_sealed_at (build_record A p now n d) = now"
  by (simp_all add: build_record_def Let_def)

text \<open>The two ways an append succeeds.\<close>

lemma append_locked_cases:
  assumes "append_locked A db p now trusted = Inr (r, db')"
  obtains (replay) row where "db' = db" and "row \<in> set (db_records db)"
      and "row_stream_id row = ap_stream_id p" and "row_idempotency_digest row = ap_idempotency_digest p"
      and "decode_record A (row_record_json row) = Some r"
      and "row_plan_id row = ap_plan_id p \<or> same_transition r p"
  | (fresh) v where "v = verify_locked A db (ap_stream_id p) now trusted" and "avr_status v = AV_VERIFIED"
      and "\<not> contains_idempotency db (ap_stream_id p) (ap_idempotency_digest p)"
      and "now < ap_deadline p"
      and "predecessor_check A db p (avr_record_count v) = Inr ()"
      and "r = build_record A p now (avr_record_count v + 1) (avr_head_digest v)"
      and "AuditRecord_valid (ae_digest A) r" and "ae_size A (ae_json A r) \<le> ae_max_bytes A"
      and "insert_record A db r (ap_idempotency_digest p) = Inr db'"
proof (cases "List.find (\<lambda>r. row_stream_id r = ap_stream_id p \<and>
    row_idempotency_digest r = ap_idempotency_digest p) (db_records db)")
  case (Some row)
  then have "row \<in> set (db_records db)" "row_stream_id row = ap_stream_id p"
    "row_idempotency_digest row = ap_idempotency_digest p"
    by (auto simp: find_Some_iff in_set_conv_nth)
  with assms Some show thesis
    by (auto simp: append_locked_def Let_def split: if_splits option.splits intro: replay)
next
  case None
  then have "\<not> contains_idempotency db (ap_stream_id p) (ap_idempotency_digest p)"
    by (auto simp: find_None_iff contains_idempotency_def list_ex_iff)
  with assms None show thesis
    by (intro fresh [of "verify_locked A db (ap_stream_id p) now trusted"])
      (auto simp: append_locked_def Let_def result_simps split: if_splits)
qed

lemma append_locked_fresh:
  assumes "avr_status (verify_locked A db (ap_stream_id p) now trusted) = AV_VERIFIED"
    and "\<not> contains_idempotency db (ap_stream_id p) (ap_idempotency_digest p)"
    and "now < ap_deadline p"
    and "predecessor_check A db p (avr_record_count (verify_locked A db (ap_stream_id p) now trusted)) = Inr ()"
    and "r = build_record A p now (avr_record_count (verify_locked A db (ap_stream_id p) now trusted) + 1)
           (avr_head_digest (verify_locked A db (ap_stream_id p) now trusted))"
    and "AuditRecord_valid (ae_digest A) r" and "ae_size A (ae_json A r) \<le> ae_max_bytes A"
    and "insert_record A db r (ap_idempotency_digest p) = Inr db'"
  shows "append_locked A db p now trusted = Inr (r, db')"
proof -
  have "List.find (\<lambda>r. row_stream_id r = ap_stream_id p \<and>
      row_idempotency_digest r = ap_idempotency_digest p) (db_records db) = None"
    using assms(2) by (auto simp: find_None_iff contains_idempotency_def list_ex_iff)
  with assms show ?thesis by (simp add: append_locked_def Let_def)
qed

lemma append_audit_Inr_iff:
  "append_audit A db p now trusted = (Inr r, db') \<longleftrightarrow>
     AuditAppendPlan_valid (ae_digest A) p \<and> trusted_valid A trusted \<and>
     append_locked A db p now trusted = Inr (r, db')"
  by (auto simp: append_audit_def split: sum.splits)

lemma append_audit_error_unchanged: "append_audit A db p now trusted = (Inl e, db') \<Longrightarrow> db' = db"
  by (auto simp: append_audit_def split: if_splits sum.splits)

lemma stream_inv_insert:
  assumes inv: "stream_inv A db sid rs" and ins: "insert_record A db r idem = Inr db'"
    and r: "ar_stream_id r = sid" "ar_sequence r = int (length rs) + 1"
      "ar_previous_digest r = head_digest_of A rs"
    and dec: "decode_record A (ae_json A r) = Some r"
    and eng: "one_engagement (rs @ [r])"
  shows "stream_inv A db' sid (rs @ [r])"
proof -
  have rows: "stream_rows db' sid = stream_rows db sid @ [row_of_record A r idem]"
    by (rule stream_rows_insert_record [OF ins inv r(1,2)])
  have "row_holds A (row_of_record A r idem) r"
    using dec by (simp add: row_holds_def row_of_record_def)
  moreover have "db_heads db' sid = Some (ar_sequence r, ar_record_digest r)"
    using ins r(1) by (auto simp: insert_record_def Let_def split: if_splits)
  ultimately show ?thesis
    using inv r eng rows
    by (auto simp: stream_inv_def chain_of_def linked_snoc head_binds_def head_digest_of_def
        row_of_record_def intro: list_all2_appendI)
qed

lemma predecessor_engagement:
  assumes inv: "stream_inv A db (ap_stream_id p) rs"
    and chk: "predecessor_check A db p (int (length rs)) = Inr ()" and rs: "rs \<noteq> []"
  shows "sb_engagement_id (ar_bindings (last rs)) = sb_engagement_id (ap_bindings p)"
proof -
  from chk rs obtain row r where row: "List.find (\<lambda>r. row_stream_id r = ap_stream_id p \<and>
        row_sequence r = int (length rs)) (db_records db) = Some row"
      "decode_record A (row_record_json row) = Some r"
      "sb_engagement_id (ar_bindings r) = sb_engagement_id (ap_bindings p)"
    by (auto simp: predecessor_check_def split: option.splits if_splits)
  then have "row \<in> set (db_records db)" "row_stream_id row = ap_stream_id p"
    "row_sequence row = int (length rs)"
    by (auto simp: find_Some_iff in_set_conv_nth)
  then obtain k where k: "k < length rs" "row_sequence row = int k + 1" "row_holds A row (rs ! k)"
    using stream_inv_row_at [OF inv] by blast
  with \<open>row_sequence row = int (length rs)\<close> have "k = length rs - 1" by simp
  then have "rs ! k = last rs" using rs by (simp add: last_conv_nth)
  with k(3) row(2,3) show ?thesis by (auto simp: row_holds_def)
qed

text \<open>An accepted append either replays a stored record or extends the stream by one record.\<close>

lemma append_locked_stream:
  assumes inv: "stream_inv A db (ap_stream_id p) rs" and codec: "codec_ok A"
    and tv: "trusted_valid A trusted" and app: "append_locked A db p now trusted = Inr (r, db')"
  shows "(db' = db \<and> r \<in> set rs) \<or>
         (stream_inv A db' (ap_stream_id p) (rs @ [r]) \<and>
          insert_record A db r (ap_idempotency_digest p) = Inr db' \<and>
          ae_size A (ae_json A r) \<le> ae_max_bytes A \<and>
          r = build_record A p now (int (length rs) + 1) (head_digest_of A rs))"
  using app
proof (cases rule: append_locked_cases)
  case (replay row)
  from replay(2,3) obtain k where "k < length rs" "row_holds A row (rs ! k)"
    by (rule stream_inv_row_at [OF inv])
  with replay(1,5) show ?thesis by (auto simp: row_holds_def)
next
  case (fresh v)
  have chain: "chain_of A db (ap_stream_id p) rs" using inv by (simp add: stream_inv_def)
  have cnt: "avr_record_count v = int (length rs)" "avr_head_digest v = head_digest_of A rs"
    using verify_counts [OF _ tv chain] fresh(1,2) by auto
  have "one_engagement (rs @ [r])"
  proof (cases "rs = []")
    case True
    then show ?thesis by (simp add: one_engagement_def)
  next
    case False
    from predecessor_engagement [OF inv _ False] fresh(5) cnt
    have last: "sb_engagement_id (ar_bindings (last rs)) = sb_engagement_id (ap_bindings p)" by simp
    have "one_engagement rs" using inv by (simp add: stream_inv_def)
    then have "sb_engagement_id (ar_bindings x) = sb_engagement_id (ap_bindings p)" if "x \<in> set rs" for x
      using that last_in_set [OF False] last unfolding one_engagement_def by metis
    then show ?thesis using fresh(6) unfolding one_engagement_def by simp
  qed
  moreover have "decode_record A (ae_json A r) = Some r"
    using codec fresh(7) by (simp add: decode_record_def codec_ok_def)
  ultimately have "stream_inv A db' (ap_stream_id p) (rs @ [r])"
    using cnt fresh(6) by (intro stream_inv_insert [OF inv fresh(9)]) simp_all
  then show ?thesis using fresh cnt by simp
qed

lemma audit_inv_append:
  assumes "audit_inv A db" and "codec_ok A" and "append_audit A db p now trusted = (res, db')"
  shows "audit_inv A db'"
proof (cases res)
  case (Inl e)
  with assms show ?thesis by (auto dest: append_audit_error_unchanged)
next
  case (Inr r)
  with assms(3) have app: "append_locked A db p now trusted = Inr (r, db')" and tv: "trusted_valid A trusted"
    by (auto simp: append_audit_Inr_iff)
  from assms(1) obtain rs where rs: "stream_inv A db (ap_stream_id p) rs" by (auto simp: audit_inv_def)
  from append_locked_stream [OF rs assms(2) tv app] show ?thesis
  proof
    assume "db' = db \<and> r \<in> set rs"
    with assms(1) show ?thesis by simp
  next
    assume f: "stream_inv A db' (ap_stream_id p) (rs @ [r]) \<and>
       insert_record A db r (ap_idempotency_digest p) = Inr db' \<and>
       ae_size A (ae_json A r) \<le> ae_max_bytes A \<and>
       r = build_record A p now (int (length rs) + 1) (head_digest_of A rs)"
    then have sid: "ar_stream_id r = ap_stream_id p"
      and ins: "insert_record A db r (ap_idempotency_digest p) = Inr db'"
      by (metis build_record_simps(1), blast)
    have "\<exists>rs. stream_inv A db' sid rs" for sid
    proof (cases "sid = ap_stream_id p")
      case False
      from assms(1) obtain rs' where "stream_inv A db sid rs'" by (auto simp: audit_inv_def)
      moreover from False sid have "sid \<noteq> ar_stream_id r" by simp
      ultimately have "stream_inv A db' sid rs'"
        by (simp add: stream_inv_def chain_of_other_stream [OF ins] insert_record_other_stream [OF ins])
      then show ?thesis ..
    qed (use f in blast)
    moreover have "\<forall>row\<in>set (db_records db'). ae_size A (row_record_json row) \<le> ae_max_bytes A"
      using f assms(1) by (auto simp: insert_record_def audit_inv_def row_of_record_def Let_def split: if_splits)
    ultimately show ?thesis by (simp add: audit_inv_def)
  qed
qed

lemma audit_inv_limits:
  assumes "audit_inv A db" and "stream_inv A db sid rs"
  shows "limits_exceeded A db sid \<longleftrightarrow> ae_max_records A < int (length rs)"
proof -
  have "ae_size A (row_record_json row) \<le> ae_max_bytes A" if "row \<in> set (stream_rows db sid)" for row
    using that assms(1) by (simp add: set_stream_rows audit_inv_def)
  then show ?thesis
    using stream_inv_length [OF assms(2)] by (force simp: limits_exceeded_def list_ex_iff)
qed

section \<open>Reachable stores\<close>

inductive audit_step :: "'j audit_env \<Rightarrow> 'j audit_db \<Rightarrow> 'j audit_db \<Rightarrow> bool" for A where
  appended: "append_audit A db p now trusted = (res, db') \<Longrightarrow> audit_step A db db'"

definition audit_reachable :: "'j audit_env \<Rightarrow> 'j audit_db \<Rightarrow> bool" where
  "audit_reachable A db \<longleftrightarrow> (\<exists>n. steps (audit_step A) empty_audit n db)"

lemma audit_inv_empty: "audit_inv A empty_audit"
  by (auto simp: audit_inv_def stream_inv_def chain_of_def head_binds_def one_engagement_def
      stream_rows_def empty_audit_def intro!: exI [of _ "[]"])

lemma audit_inv_step: "audit_inv A db \<Longrightarrow> codec_ok A \<Longrightarrow> audit_step A db db' \<Longrightarrow> audit_inv A db'"
  by (auto elim!: audit_step.cases dest: audit_inv_append)

lemma audit_inv_steps:
  assumes "steps (audit_step A) db n db'" and "audit_inv A db" and "codec_ok A"
  shows "audit_inv A db'"
  using steps_invariant [OF assms(1), of "audit_inv A"] assms(2,3) audit_inv_step by blast

lemma audit_reachable_inv: "audit_reachable A db \<Longrightarrow> codec_ok A \<Longrightarrow> audit_inv A db"
  unfolding audit_reachable_def using audit_inv_steps audit_inv_empty by blast

text \<open>Appends only ever extend a stream.\<close>

lemma audit_step_extends:
  assumes "audit_step A db db'" and "codec_ok A" and "stream_inv A db sid rs"
  shows "\<exists>xs. stream_inv A db' sid (rs @ xs)"
  using assms(1)
proof cases
  case (appended p now trusted res)
  show ?thesis
  proof (cases res)
    case (Inl e)
    with appended have "db' = db" by (auto dest: append_audit_error_unchanged)
    with assms(3) show ?thesis by (auto intro: exI [of _ "[]"])
  next
    case (Inr r)
    with appended have app: "append_locked A db p now trusted = Inr (r, db')"
      and tv: "trusted_valid A trusted" by (auto simp: append_audit_Inr_iff)
    show ?thesis
    proof (cases "sid = ap_stream_id p")
      case True
      with append_locked_stream [OF _ assms(2) tv app] assms(3) show ?thesis
        by (metis append_Nil2)
    next
      case False
      from app show ?thesis
      proof (cases rule: append_locked_cases)
        case (replay row)
        with assms(3) show ?thesis by (auto intro: exI [of _ "[]"])
      next
        case (fresh v)
        then have "sid \<noteq> ar_stream_id r" using False by simp
        then have "stream_inv A db' sid rs"
          using assms(3) by (simp add: stream_inv_def chain_of_other_stream [OF fresh(9)]
              insert_record_other_stream [OF fresh(9)])
        then show ?thesis by (auto intro: exI [of _ "[]"])
      qed
    qed
  qed
qed

lemma audit_steps_extend:
  assumes "steps (audit_step A) db n db'" and "codec_ok A" and "stream_inv A db sid rs"
  shows "\<exists>xs. stream_inv A db' sid (rs @ xs)"
  using assms(1,3)
proof (induction rule: steps.induct)
  case (steps_step s n t u)
  then show ?case using audit_step_extends [OF _ assms(2)] by (metis append_assoc)
qed (metis append_Nil2)

lemma chain_of_decode_all: "chain_of A db sid rs \<Longrightarrow> decode_all A (stream_rows db sid) = Some rs"
proof -
  have "list_all2 (row_holds A) rows rs \<Longrightarrow> decode_all A rows = Some rs" for rows
    by (induction rows rs rule: list_all2_induct) (auto simp: row_holds_def)
  then show "chain_of A db sid rs \<Longrightarrow> decode_all A (stream_rows db sid) = Some rs"
    by (simp add: chain_of_def)
qed

lemma anchored_extend: "anchored A sid now rs c \<Longrightarrow> now \<le> now' \<Longrightarrow> anchored A sid now' (rs @ xs) c"
  by (auto simp: anchored_def)

lemma checkpoint_Inr:
  assumes "checkpoint A db sid now = Inr c"
  shows "AuditCheckpoint_valid (ae_digest A) c" and "is_digest sid"
    and "\<exists>rs. chain_of A db sid rs \<and> cp_sequence c = int (length rs) \<and> anchored A sid now rs c"
proof -
  let ?v = "verify_locked A db sid now None"
  from assms show "AuditCheckpoint_valid (ae_digest A) c" "is_digest sid"
    by (auto simp: checkpoint_def verify_def Let_def split: if_splits)
  from assms have ok: "avr_status ?v = AV_VERIFIED"
    and c: "cp_stream_id c = sid" "cp_sequence c = avr_record_count ?v"
      "cp_head_digest c = avr_head_digest ?v" "cp_issued_at c = now"
    by (auto simp: checkpoint_def verify_def trusted_valid_def Let_def split: if_splits)
  have tv: "trusted_valid A None" by (simp add: trusted_valid_def)
  from ok obtain rs where rs: "chain_of A db sid rs"
    using verify_verified_iff [OF tv] by blast
  with verify_counts [OF ok tv rs] c show
    "\<exists>rs. chain_of A db sid rs \<and> cp_sequence c = int (length rs) \<and> anchored A sid now rs c"
    by (auto simp: anchored_def)
qed

lemma reachable_verified:
  assumes "codec_ok A" and "audit_reachable A db"
    and "int (length (stream_rows db sid)) \<le> ae_max_records A"
  shows "avr_status (verify_locked A db sid now None) = AV_VERIFIED"
proof -
  from assms(1,2) have inv: "audit_inv A db" by (simp add: audit_reachable_inv)
  then obtain rs where rs: "stream_inv A db sid rs" by (auto simp: audit_inv_def)
  then have "\<not> limits_exceeded A db sid"
    using audit_inv_limits [OF inv rs] assms(3) stream_inv_length [OF rs] by simp
  with rs show ?thesis
    by (subst verify_verified_iff) (auto simp: trusted_valid_def stream_inv_def)
qed

lemma audit_reachable_append:
  assumes "audit_reachable A db" and "append_audit A db p now trusted = (res, db')"
  shows "audit_reachable A db'"
  using assms unfolding audit_reachable_def by (meson audit_step.appended steps_step)

lemma audit_reachable_empty: "audit_reachable A empty_audit"
  unfolding audit_reachable_def by (blast intro: steps_refl)

lemma insert_record_rows:
  "insert_record A db r idem = Inr db' \<Longrightarrow> db_records db' = db_records db @ [row_of_record A r idem]"
  by (auto simp: insert_record_def Let_def split: if_splits)

lemma append_not_contained:
  assumes "audit_inv A db" and "codec_ok A" and "append_audit A db p now trusted = (Inr r, db')"
    and "\<not> contains_idempotency db (ap_stream_id p) (ap_idempotency_digest p)"
  obtains rs where "stream_inv A db (ap_stream_id p) rs" and "stream_inv A db' (ap_stream_id p) (rs @ [r])"
    and "r = build_record A p now (int (length rs) + 1) (head_digest_of A rs)"
    and "insert_record A db r (ap_idempotency_digest p) = Inr db'"
proof -
  from assms(1) obtain rs where rs: "stream_inv A db (ap_stream_id p) rs" by (auto simp: audit_inv_def)
  from assms(3) have tv: "trusted_valid A trusted" and app: "append_locked A db p now trusted = Inr (r, db')"
    by (auto simp: append_audit_Inr_iff)
  have "db' \<noteq> db"
  proof -
    from app show ?thesis
    proof (cases rule: append_locked_cases)
      case (replay row)
      with assms(4) show ?thesis by (auto simp: contains_idempotency_def list_ex_iff)
    next
      case (fresh v)
      then have "length (db_records db') = Suc (length (db_records db))"
        by (auto dest: insert_record_rows)
      then show ?thesis by auto
    qed
  qed
  with append_locked_stream [OF rs assms(2) tv app] rs that show ?thesis by blast
qed

text \<open>The records a database holds in decodable form.\<close>

definition stored_records :: "'j audit_env \<Rightarrow> 'j audit_db \<Rightarrow> AuditRecord set" where
  "stored_records A db = {r. \<exists>row\<in>set (db_records db). decode_record A (row_record_json row) = Some r}"

lemma chain_of_stored: "chain_of A db sid rs \<Longrightarrow> set rs \<subseteq> stored_records A db"
proof
  fix r assume chain: "chain_of A db sid rs" and "r \<in> set rs"
  then obtain k where k: "k < length rs" "r = rs ! k" by (auto simp: in_set_conv_nth)
  with chain have "k < length (stream_rows db sid)" "row_holds A (stream_rows db sid ! k) r"
    by (auto simp: chain_of_def list_all2_conv_all_nth)
  moreover from this(1) have "stream_rows db sid ! k \<in> set (db_records db)"
    using nth_mem [of k "stream_rows db sid"] by (simp add: set_stream_rows)
  ultimately show "r \<in> stored_records A db" by (auto simp: stored_records_def row_holds_def)
qed

text \<open>Replacing a column that the scan does not read.\<close>

definition retag :: "('j audit_row \<Rightarrow> digest) \<Rightarrow> 'j audit_row \<Rightarrow> 'j audit_row" where
  "retag f row = row\<lparr>row_idempotency_digest := f row\<rparr>"

lemma retag_simps [simp]:
  "row_stream_id (retag f row) = row_stream_id row" "row_sequence (retag f row) = row_sequence row"
  "row_record_digest (retag f row) = row_record_digest row"
  "row_previous_digest (retag f row) = row_previous_digest row"
  "row_plan_id (retag f row) = row_plan_id row" "row_record_json (retag f row) = row_record_json row"
  by (simp_all add: retag_def)

lemma stream_rows_retag:
  "stream_rows (db\<lparr>db_records := map (retag f) (db_records db)\<rparr>) sid = map (retag f) (stream_rows db sid)"
  by (simp add: stream_rows_def filter_map comp_def sort_key_map)

lemma scan_rows_retag: "scan_rows A sid n prev (map (retag f) rows) = scan_rows A sid n prev rows"
  by (induction A sid n prev rows rule: scan_rows.induct)
    (auto simp: row_binds_def split: option.splits)

end
