(* ===== verification/Audit_Acceptance.thy ===== *)
theory Audit_Acceptance
  imports Audit_Chain_Facts
begin

text \<open>
  When the audit store of \<^verbatim>\<open>src/src/vulnloom/storage/audit_chain.py\<close> accepts an append: on a verified stream of
  a database that the store can reach, a valid plan within its deadline and under a new key is stored, as
  the record \<open>next_record\<close>, unless its digest collides with that of a stored record.
\<close>

section \<open>An append is accepted\<close>

lemma head_digest_is_digest:
  assumes "hex_valued (ae_digest A)" and "chain_of A db sid rs"
  shows "is_digest (head_digest_of A rs)"
proof (cases "rs = []")
  case True
  with assms(1) show ?thesis by (simp add: head_digest_of_def hex_valued_def AUDIT_GENESIS_DIGEST_def)
next
  case False
  then have "last rs \<in> set rs" by simp
  with assms(2) obtain row where "row_holds A row (last rs)"
    by (auto simp: chain_of_def list_all2_conv_all_nth in_set_conv_nth)
  then have "AuditRecord_valid (ae_digest A) (last rs)"
    by (auto simp: row_holds_def decode_record_def split: option.splits if_splits)
  then show ?thesis
    using assms(1) False by (simp add: head_digest_of_def AuditRecord_valid_def sealed_by_def hex_valued_def)
qed

lemma stored_digest_content:
  assumes "audit_inv A db" and "row \<in> set (db_records db)"
  obtains r where "decode_record A (row_record_json row) = Some r" and "row_record_digest row = ar_record_digest r"
    and "ar_record_digest r = ae_digest A (AuditRecord_content r)" and "ar_stream_id r = row_stream_id row"
    and "ar_sequence r = row_sequence row"
proof -
  from assms(1) obtain rs where rs: "stream_inv A db (row_stream_id row) rs" by (auto simp: audit_inv_def)
  obtain k where k: "k < length rs" "row_sequence row = int k + 1" "row_holds A row (rs ! k)"
    by (rule stream_inv_row_at [OF rs assms(2)]) simp
  have "ar_stream_id (rs ! k) = row_stream_id row" "ar_sequence (rs ! k) = 1 + int k"
    using rs linked_nth_sequence [of "row_stream_id row" 1 _ rs k] k(1) by (auto simp: stream_inv_def chain_of_def)
  moreover have "AuditRecord_valid (ae_digest A) (rs ! k)"
    using k(3) by (auto simp: row_holds_def decode_record_def split: option.splits if_splits)
  ultimately show thesis
    using k by (intro that [of "rs ! k"]) (auto simp: row_holds_def AuditRecord_valid_def sealed_by_def)
qed

lemma predecessor_check_ok:
  assumes "stream_inv A db (ap_stream_id p) rs"
    and "\<And>r. r \<in> set rs \<Longrightarrow> sb_engagement_id (ar_bindings r) = sb_engagement_id (ap_bindings p)"
  shows "predecessor_check A db p (int (length rs)) = Inr ()"
proof (cases "rs = []")
  case False
  let ?P = "\<lambda>r. row_stream_id r = ap_stream_id p \<and> row_sequence r = int (length rs)"
  let ?rows = "stream_rows db (ap_stream_id p)"
  have len: "length ?rows = length rs" by (rule stream_inv_length [OF assms(1)])
  have seqs: "map row_sequence ?rows = map ar_sequence rs" using assms(1) by (simp add: stream_inv_def)
  have "ar_sequence (rs ! (length rs - 1)) = 1 + int (length rs - 1)"
    using assms(1) linked_nth_sequence [of "ap_stream_id p" 1 _ rs "length rs - 1"] False
    by (auto simp: stream_inv_def chain_of_def)
  then have "row_sequence (?rows ! (length rs - 1)) = int (length rs)"
    using seqs len False by (metis One_nat_def Suc_pred add.commute diff_less length_greater_0_conv lessI nth_map of_nat_Suc)
  moreover have "?rows ! (length rs - 1) \<in> set ?rows" using False len by (intro nth_mem) simp
  ultimately obtain row where f: "List.find ?P (db_records db) = Some row"
    by (cases "List.find ?P (db_records db)") (auto simp: find_None_iff set_stream_rows)
  then have row: "row \<in> set (db_records db)" "row_stream_id row = ap_stream_id p"
    by (auto simp: find_Some_iff in_set_conv_nth)
  obtain k where "k < length rs" "row_holds A row (rs ! k)" by (rule stream_inv_row_at [OF assms(1) row]) blast
  with f assms(2) show ?thesis by (simp add: predecessor_check_def row_holds_def)
qed (simp add: predecessor_check_def)

lemma insert_record_accepts:
  assumes "audit_inv A db" and "stream_inv A db (ar_stream_id r) rs" and "ar_sequence r = int (length rs) + 1"
    and "\<not> contains_idempotency db (ar_stream_id r) idem"
    and "ar_record_digest r = ae_digest A (AuditRecord_content r)"
    and "inj_on (ae_digest A) (AuditRecord_content ` insert r (stored_records A db))"
  shows "\<exists>db'. insert_record A db r idem = Inr db'"
proof -
  have seq: "row_sequence row \<noteq> int (length rs) + 1" if "row \<in> set (db_records db)" "row_stream_id row = ar_stream_id r" for row
  proof -
    from that obtain k where "k < length rs" "row_sequence row = int k + 1"
      by (rule stream_inv_row_at [OF assms(2)])
    then show ?thesis by simp
  qed
  have "row_record_digest row \<noteq> ar_record_digest r" if row: "row \<in> set (db_records db)" for row
  proof
    assume eq: "row_record_digest row = ar_record_digest r"
    obtain r0 where r0: "decode_record A (row_record_json row) = Some r0" "row_record_digest row = ar_record_digest r0"
      "ar_record_digest r0 = ae_digest A (AuditRecord_content r0)" "ar_stream_id r0 = row_stream_id row"
      "ar_sequence r0 = row_sequence row"
      by (rule stored_digest_content [OF assms(1) row])
    have "r0 \<in> stored_records A db" using r0(1) row by (auto simp: stored_records_def)
    moreover have "ae_digest A (AuditRecord_content r0) = ae_digest A (AuditRecord_content r)"
      using eq r0(2,3) assms(5) by simp
    ultimately have "AuditRecord_content r0 = AuditRecord_content r"
      by (intro inj_onD [OF assms(6)]) auto
    then have "row_stream_id row = ar_stream_id r" "row_sequence row = int (length rs) + 1"
      using r0(4,5) assms(3) by (auto simp: AuditRecord_content_def)
    with seq row show False by blast
  qed
  then show ?thesis
    using seq assms(3,4)
    by (auto simp: insert_record_def insert_conflict_def row_of_record_def Let_def list_ex_iff contains_idempotency_def)
qed

text \<open>The record that an accepted append seals.\<close>

definition next_record :: "'j audit_env \<Rightarrow> 'j audit_db \<Rightarrow> AuditAppendPlan \<Rightarrow> instant \<Rightarrow> AuditRecord" where
  "next_record A db p now =
     (let v = verify_locked A db (ap_stream_id p) now None
      in build_record A p now (avr_record_count v + 1) (avr_head_digest v))"

text \<open>Every valid record fits the size limit of the store.\<close>

definition fits :: "'j audit_env \<Rightarrow> bool" where
  "fits A \<longleftrightarrow> (\<forall>r. AuditRecord_valid (ae_digest A) r \<longrightarrow> ae_size A (ae_json A r) \<le> ae_max_bytes A)"

lemma append_locked_succeeds:
  assumes inv: "audit_inv A db" and rs: "stream_inv A db (ap_stream_id p) rs" and hex: "hex_valued (ae_digest A)"
    and tv: "trusted_valid A trusted"
    and ok: "avr_status (verify_locked A db (ap_stream_id p) now trusted) = AV_VERIFIED"
    and p: "AuditAppendPlan_valid (ae_digest A) p" "ap_occurred_at p \<le> now" "now < ap_deadline p"
    and idem: "\<not> contains_idempotency db (ap_stream_id p) (ap_idempotency_digest p)"
    and pred: "predecessor_check A db p (int (length rs)) = Inr ()"
    and fit: "ae_size A (ae_json A (next_record A db p now)) \<le> ae_max_bytes A"
    and inj: "inj_on (ae_digest A) (AuditRecord_content ` insert (next_record A db p now) (stored_records A db))"
  obtains db' where "append_locked A db p now trusted = Inr (next_record A db p now, db')"
proof -
  let ?r = "build_record A p now (int (length rs) + 1) (head_digest_of A rs)"
  have chain: "chain_of A db (ap_stream_id p) rs" using rs by (simp add: stream_inv_def)
  have nl: "\<not> limits_exceeded A db (ap_stream_id p)" using ok tv verify_verified_iff [OF tv] by blast
  have tv0: "trusted_valid A None" by (simp add: trusted_valid_def)
  have ok0: "avr_status (verify_locked A db (ap_stream_id p) now None) = AV_VERIFIED"
    by (subst verify_verified_iff [OF tv0]) (use nl chain in auto)
  note v = verify_counts [OF ok tv chain] and v0 = verify_counts [OF ok0 tv0 chain]
  have nr: "next_record A db p now = ?r" by (simp add: next_record_def v0)
  have seal: "ar_record_digest ?r = ae_digest A (AuditRecord_content ?r)"
    by (simp add: build_record_def Let_def AuditRecord_content_def)
  have valid: "AuditRecord_valid (ae_digest A) ?r"
    using p(1,2) seal head_digest_is_digest [OF hex chain] hex
    by (simp add: AuditRecord_valid_def AuditAppendPlan_valid_def sealed_by_def hex_valued_def)
      (simp add: build_record_def Let_def)
  obtain db' where ins: "insert_record A db ?r (ap_idempotency_digest p) = Inr db'"
    using insert_record_accepts [OF inv, of ?r rs "ap_idempotency_digest p"] rs idem seal inj nr by auto
  have "append_locked A db p now trusted = Inr (?r, db')"
    by (rule append_locked_fresh [OF ok idem p(3)]) (use pred valid ins fit nr in \<open>simp_all add: v\<close>)
  with nr that show thesis by metis
qed

lemma append_locked_accepts:
  assumes inv: "audit_inv A db" and rs: "stream_inv A db (ap_stream_id p) rs" and hex: "hex_valued (ae_digest A)"
    and tv: "trusted_valid A trusted" and anc: "opt_all (anchored A (ap_stream_id p) now rs) trusted"
    and lim: "int (length rs) \<le> ae_max_records A" and fit: "fits A"
    and p: "AuditAppendPlan_valid (ae_digest A) p" "ap_occurred_at p \<le> now" "now < ap_deadline p"
    and idem: "\<not> contains_idempotency db (ap_stream_id p) (ap_idempotency_digest p)"
    and eng: "\<And>r. r \<in> set rs \<Longrightarrow> sb_engagement_id (ar_bindings r) = sb_engagement_id (ap_bindings p)"
    and inj: "inj_on (ae_digest A) (AuditRecord_content ` insert (next_record A db p now) (stored_records A db))"
  obtains db' where "append_locked A db p now trusted = Inr (next_record A db p now, db')"
proof -
  have chain: "chain_of A db (ap_stream_id p) rs" using rs by (simp add: stream_inv_def)
  have nl: "\<not> limits_exceeded A db (ap_stream_id p)" using audit_inv_limits [OF inv rs] lim by simp
  have ok: "avr_status (verify_locked A db (ap_stream_id p) now trusted) = AV_VERIFIED"
    by (subst verify_verified_iff [OF tv]) (use nl chain anc in blast)
  have tv0: "trusted_valid A None" by (simp add: trusted_valid_def)
  have ok0: "avr_status (verify_locked A db (ap_stream_id p) now None) = AV_VERIFIED"
    by (subst verify_verified_iff [OF tv0]) (use nl chain in auto)
  have nr: "next_record A db p now = build_record A p now (int (length rs) + 1) (head_digest_of A rs)"
    by (simp add: next_record_def verify_counts [OF ok0 tv0 chain])
  have "AuditRecord_valid (ae_digest A) (next_record A db p now)"
    using p(1,2) head_digest_is_digest [OF hex chain] hex unfolding nr
    by (simp add: AuditRecord_valid_def AuditAppendPlan_valid_def sealed_by_def hex_valued_def)
      (simp add: build_record_def Let_def AuditRecord_content_def)
  then have "ae_size A (ae_json A (next_record A db p now)) \<le> ae_max_bytes A" using fit by (simp add: fits_def)
  with append_locked_succeeds [OF inv rs hex tv ok p idem predecessor_check_ok [OF rs eng] _ inj] that show thesis
    by blast
qed

end
