(* ===== verification/Audit_Properties.thy ===== *)
theory Audit_Properties
  imports Audit_Acceptance Examples
begin

text \<open>
  The properties of the audit chain, stated over arbitrary (possibly manipulated) databases where the
  guarantee is against an adversary, and over the databases the store itself can reach where it
  is about the store's own behaviour; each with a closed example.
\<close>

section \<open>Example values\<close>

text \<open>Two appends to an empty store that admits \<open>m\<close> records per stream.\<close>

definition demo_stream :: digest where
  "demo_stream = hex_digits 64 99"

definition demo_r0 :: AuditRecord where
  "demo_r0 = build_record (demo_audit 2) (demo_plan 0) 1500 1 (AUDIT_GENESIS_DIGEST demo_digest)"

definition demo_r1 :: AuditRecord where
  "demo_r1 = build_record (demo_audit 2) (demo_plan 1) 1600 2 (ar_record_digest demo_r0)"

definition demo_db1 :: "AuditRecord audit_db" where
  "demo_db1 = \<lparr>db_records = [row_of_record (demo_audit 2) demo_r0 (hex_digits 64 70)],
     db_heads = [demo_stream \<mapsto> (1, ar_record_digest demo_r0)]\<rparr>"

definition demo_db2 :: "AuditRecord audit_db" where
  "demo_db2 = \<lparr>db_records = [row_of_record (demo_audit 2) demo_r0 (hex_digits 64 70),
       row_of_record (demo_audit 2) demo_r1 (hex_digits 64 71)],
     db_heads = [demo_stream \<mapsto> (2, ar_record_digest demo_r1)]\<rparr>"

lemma demo_audit_simps [simp]:
  "ae_digest (demo_audit m) = demo_digest" "ae_json (demo_audit m) r = r"
  "ae_parse (demo_audit m) r = Some r" "ae_size (demo_audit m) r = 512"
  "ae_max_records (demo_audit m) = m" "ae_max_bytes (demo_audit m) = 65536"
  by (simp_all add: demo_audit_def)

lemma demo_any_limit:
  "row_of_record (demo_audit m) r d = row_of_record (demo_audit 2) r d"
  "build_record (demo_audit m) p t n d = build_record (demo_audit 2) p t n d"
  by (simp_all add: row_of_record_def build_record_def)

lemma demo_r0_any: "build_record (demo_audit m) (demo_plan 0) 1500 1 (AUDIT_GENESIS_DIGEST demo_digest) = demo_r0"
  unfolding demo_r0_def by (rule demo_any_limit)

lemma demo_r1_any: "build_record (demo_audit m) (demo_plan 1) 1600 2 (ar_record_digest demo_r0) = demo_r1"
  unfolding demo_r1_def by (rule demo_any_limit)

lemma demo_codec: "codec_ok (demo_audit m)"
  by (simp add: codec_ok_def)

lemma demo_plan_valid: "AuditAppendPlan_valid demo_digest (demo_plan 0)" "AuditAppendPlan_valid demo_digest (demo_plan 1)"
  by code_simp+

lemma demo_stream_digest [simp]: "is_digest demo_stream"
  by (simp add: demo_stream_def hex_digits_digest)

lemma demo_hex: "hex_valued (ae_digest (demo_audit m))"
  by (simp add: hex_valued_def demo_digest_def hex_digits_digest)

lemma demo_plan_times: "ap_occurred_at (demo_plan k) = 1000"
  by (simp add: demo_plan_def Let_def)

lemma demo_plan_fields:
  "ap_stream_id (demo_plan k) = demo_stream" "ap_idempotency_digest (demo_plan k) = hex_digits 64 (70 + k)"
  "ap_deadline (demo_plan k) = 2000" "ap_bindings (demo_plan k) = demo_bindings"
  by (simp_all add: demo_plan_def Let_def demo_stream_def)

lemma demo_records_valid: "AuditRecord_valid demo_digest demo_r0" "AuditRecord_valid demo_digest demo_r1"
  by code_simp+

lemma demo_fields:
  "ar_stream_id demo_r0 = demo_stream" "ar_sequence demo_r0 = 1" "ar_bindings demo_r0 = demo_bindings"
  "ar_stream_id demo_r1 = demo_stream" "ar_sequence demo_r1 = 2" "ar_bindings demo_r1 = demo_bindings"
  "ar_previous_digest demo_r1 = ar_record_digest demo_r0"
  by (simp_all add: demo_r0_def demo_r1_def demo_plan_fields)

lemma demo_digests_differ: "ar_record_digest demo_r0 \<noteq> ar_record_digest demo_r1"
  "hex_digits 64 70 \<noteq> hex_digits 64 71" "AuditRecord_content demo_r0 \<noteq> AuditRecord_content demo_r1"
  by code_simp+

lemma demo_append0:
  assumes "1 \<le> m"
  shows "append_audit (demo_audit m) empty_audit (demo_plan 0) 1500 None = (Inr demo_r0, demo_db1)"
proof -
  have v: "avr_status (verify_locked (demo_audit m) empty_audit demo_stream 1500 None) = AV_VERIFIED"
    "avr_record_count (verify_locked (demo_audit m) empty_audit demo_stream 1500 None) = 0"
    "avr_head_digest (verify_locked (demo_audit m) empty_audit demo_stream 1500 None) =
       AUDIT_GENESIS_DIGEST demo_digest"
    using assms by (simp_all add: verify_locked_def limits_exceeded_def stream_rows_def empty_audit_def
        head_binds_def head_digest_of_def)
  have "append_locked (demo_audit m) empty_audit (demo_plan 0) 1500 None = Inr (demo_r0, demo_db1)"
  proof (rule append_locked_fresh)
    show "insert_record (demo_audit m) empty_audit demo_r0 (ap_idempotency_digest (demo_plan 0)) = Inr demo_db1"
      by (simp add: insert_record_def insert_conflict_def empty_audit_def demo_db1_def demo_plan_fields demo_fields
          row_of_record_def)
  qed (use v demo_records_valid in \<open>simp_all add: demo_plan_fields demo_r0_any predecessor_check_def
      contains_idempotency_def empty_audit_def\<close>)
  then show ?thesis by (simp add: append_audit_Inr_iff demo_plan_valid trusted_valid_def)
qed

lemma demo_reachable1: "1 \<le> m \<Longrightarrow> audit_reachable (demo_audit m) demo_db1"
  by (rule audit_reachable_append [OF audit_reachable_empty demo_append0])

lemma demo_rows1 [simp]:
  "stream_rows demo_db1 demo_stream = [row_of_record (demo_audit 2) demo_r0 (hex_digits 64 70)]"
  by (simp add: stream_rows_def demo_db1_def row_of_record_def demo_fields)

lemma demo_rows2 [simp]:
  "stream_rows demo_db2 demo_stream = [row_of_record (demo_audit 2) demo_r0 (hex_digits 64 70),
     row_of_record (demo_audit 2) demo_r1 (hex_digits 64 71)]"
  by (simp add: stream_rows_def demo_db2_def row_of_record_def demo_fields)

lemma demo_chain1: "chain_of (demo_audit m) demo_db1 demo_stream [demo_r0]"
proof -
  have "ar_previous_digest demo_r0 = AUDIT_GENESIS_DIGEST demo_digest" by (simp add: demo_r0_def)
  moreover have "db_heads demo_db1 demo_stream = Some (1, ar_record_digest demo_r0)"
    by (simp add: demo_db1_def)
  ultimately show ?thesis
    using demo_records_valid by (simp add: chain_of_def row_holds_def decode_record_def row_binds_def
        row_of_record_def demo_fields head_binds_def head_digest_of_def)
qed

lemma demo_records1: "db_records demo_db1 = [row_of_record (demo_audit 2) demo_r0 (hex_digits 64 70)]"
  by (simp add: demo_db1_def)

lemma demo_append1:
  assumes "1 \<le> m"
  shows "append_audit (demo_audit m) demo_db1 (demo_plan 1) 1600 None = (Inr demo_r1, demo_db2)"
proof -
  have ok: "avr_status (verify_locked (demo_audit m) demo_db1 demo_stream 1600 None) = AV_VERIFIED"
    using assms by (intro reachable_verified demo_codec demo_reachable1) simp_all
  have v: "avr_record_count (verify_locked (demo_audit m) demo_db1 demo_stream 1600 None) = 1"
    "avr_head_digest (verify_locked (demo_audit m) demo_db1 demo_stream 1600 None) = ar_record_digest demo_r0"
    using verify_counts [OF ok _ demo_chain1] by (simp_all add: trusted_valid_def head_digest_of_def)
  have "append_locked (demo_audit m) demo_db1 (demo_plan 1) 1600 None = Inr (demo_r1, demo_db2)"
  proof (rule append_locked_fresh)
    show "insert_record (demo_audit m) demo_db1 demo_r1 (ap_idempotency_digest (demo_plan 1)) = Inr demo_db2"
      using demo_digests_differ by (simp add: insert_record_def insert_conflict_def demo_db1_def demo_db2_def
          demo_plan_fields demo_fields row_of_record_def)
    show "predecessor_check (demo_audit m) demo_db1 (demo_plan 1) (avr_record_count
       (verify_locked (demo_audit m) demo_db1 (ap_stream_id (demo_plan 1)) 1600 None)) = Inr ()"
      using demo_records_valid by (simp add: v demo_plan_fields predecessor_check_def demo_records1
          row_of_record_def demo_fields decode_record_def)
  qed (use ok v demo_records_valid demo_digests_differ in \<open>simp_all add: demo_plan_fields demo_r1_any
      contains_idempotency_def demo_db1_def row_of_record_def\<close>)
  then show ?thesis by (simp add: append_audit_Inr_iff demo_plan_valid trusted_valid_def)
qed

lemma demo_reachable2: "1 \<le> m \<Longrightarrow> audit_reachable (demo_audit m) demo_db2"
  by (rule audit_reachable_append [OF demo_reachable1 demo_append1])

section \<open>Checkpoints\<close>

lemma chain_of_decode_take:
  "chain_of A db sid rs \<Longrightarrow> decode_all A (take n (stream_rows db sid)) = Some (take n rs)"
proof -
  have "list_all2 (row_holds A) rows rs \<Longrightarrow> decode_all A (take n rows) = Some (take n rs)" for rows
    by (induction rows rs arbitrary: n rule: list_all2_induct) (auto simp: row_holds_def take_Cons split: nat.splits)
  then show "chain_of A db sid rs \<Longrightarrow> decode_all A (take n (stream_rows db sid)) = Some (take n rs)"
    by (simp add: chain_of_def)
qed

lemma verify_anchored:
  assumes "verify A db sid now (Some c) = Inr v" and "avr_status v = AV_VERIFIED"
  obtains rs where "chain_of A db sid rs" and "anchored A sid now rs c" and "0 \<le> cp_sequence c"
    and "AuditCheckpoint_valid (ae_digest A) c"
proof -
  from assms(1) have tv: "trusted_valid A (Some c)" and v: "v = verify_locked A db sid now (Some c)"
    by (auto simp: verify_def split: if_splits)
  from tv have "0 \<le> cp_sequence c" "AuditCheckpoint_valid (ae_digest A) c"
    by (auto simp: trusted_valid_def AuditCheckpoint_valid_def)
  with assms(2) v that show ?thesis using verify_verified_iff [OF tv] by auto
qed

lemma checkpoint_holds_later:
  assumes "codec_ok A" and "audit_reachable A db" and "checkpoint A db sid t = Inr c"
    and "steps (audit_step A) db n db'" and "t \<le> now"
    and "int (length (stream_rows db' sid)) \<le> ae_max_records A"
  shows "\<exists>v. verify A db' sid now (Some c) = Inr v \<and> avr_status v = AV_VERIFIED \<and>
             avr_record_count v = int (length (stream_rows db' sid))"
proof -
  from assms(1,2) have inv: "audit_inv A db" by (simp add: audit_reachable_inv)
  then have inv': "audit_inv A db'" using audit_inv_steps assms(1,4) by blast
  from checkpoint_Inr [OF assms(3)] obtain rs where c: "AuditCheckpoint_valid (ae_digest A) c"
    and rs: "chain_of A db sid rs" "anchored A sid t rs c" and sid: "is_digest sid" by blast
  from inv obtain rs0 where "stream_inv A db sid rs0" by (auto simp: audit_inv_def)
  with rs(1) have "stream_inv A db sid rs" by (metis chain_of_unique stream_inv_def)
  with audit_steps_extend [OF assms(4,1)] obtain xs where xs: "stream_inv A db' sid (rs @ xs)" by blast
  have tv: "trusted_valid A (Some c)" using c by (simp add: trusted_valid_def)
  have ok: "avr_status (verify_locked A db' sid now (Some c)) = AV_VERIFIED"
    using xs anchored_extend [OF rs(2) assms(5)] audit_inv_limits [OF inv' xs] stream_inv_length [OF xs]
      assms(6) by (subst verify_verified_iff [OF tv]) (auto simp: stream_inv_def)
  with verify_counts(1) [OF ok tv, of "rs @ xs"] xs stream_inv_length [OF xs] tv sid show ?thesis
    by (simp add: verify_def stream_inv_def)
qed

text \<open>C17. A checkpoint is never a false alarm: after the store issued checkpoint \<open>c\<close> of a stream in a state
  it can reach, any further successful or failing appends leave a database that verifies against \<open>c\<close>
  at every later time, as long as the stream is within the configured record limit.\<close>

theorem checkpoint_never_false_alarm:
  assumes "codec_ok A" and "audit_reachable A db" and "checkpoint A db sid t = Inr c"
    and "steps (audit_step A) db n db'" and "t \<le> now"
    and "int (length (stream_rows db' sid)) \<le> ae_max_records A"
  shows "\<exists>v. verify A db' sid now (Some c) = Inr v \<and> avr_status v = AV_VERIFIED \<and>
             avr_record_count v = int (length (stream_rows db' sid))"
  using assms by (rule checkpoint_holds_later)

definition demo_c1 :: AuditCheckpoint where
  "demo_c1 = (let c = \<lparr>cp_checkpoint_id = [], cp_contract_digest = AUDIT_CHAIN_CONTRACT_DIGEST demo_digest,
     cp_stream_id = demo_stream, cp_sequence = 1, cp_head_digest = ar_record_digest demo_r0,
     cp_issued_at = 1550\<rparr> in c\<lparr>cp_checkpoint_id := demo_digest (AuditCheckpoint_content c)\<rparr>)"

lemma demo_c1_valid: "AuditCheckpoint_valid demo_digest demo_c1"
  by code_simp

lemma demo_verified1: "1 \<le> m \<Longrightarrow> avr_status (verify_locked (demo_audit m) demo_db1 demo_stream t None) = AV_VERIFIED"
  by (intro reachable_verified demo_codec demo_reachable1) simp_all

lemma demo_checkpoint: "checkpoint (demo_audit 2) demo_db1 demo_stream 1550 = Inr demo_c1"
proof -
  have ok: "avr_status (verify_locked (demo_audit 2) demo_db1 demo_stream 1550 None) = AV_VERIFIED"
    by (simp add: demo_verified1)
  with verify_counts [OF ok _ demo_chain1] demo_c1_valid show ?thesis
    by (simp add: checkpoint_def verify_def trusted_valid_def head_digest_of_def Let_def demo_c1_def)
qed

lemma demo_steps12: "steps (audit_step (demo_audit 2)) demo_db1 1 demo_db2"
  using steps_step [OF steps_refl, of "audit_step (demo_audit 2)"] audit_step.appended [OF demo_append1 [of 2]] by fastforce

theorem checkpoint_never_false_alarm_witness:
  "\<exists>v. verify (demo_audit 2) demo_db2 demo_stream 1700 (Some demo_c1) = Inr v \<and> avr_status v = AV_VERIFIED \<and>
       avr_record_count v = int (length (stream_rows demo_db2 demo_stream))"
  by (rule checkpoint_never_false_alarm [OF demo_codec demo_reachable1 demo_checkpoint demo_steps12]) simp_all

text \<open>C2. Tamper evidence: whatever was done to two copies of the database, if both verify against the same
  checkpoint, the prefix of the stream that the checkpoint covers decodes to the same records in both,
  unless the digest collides on the records they hold.\<close>

theorem checkpointed_prefix_tamper_evident:
  assumes "verify A db sid now (Some c) = Inr v" and "avr_status v = AV_VERIFIED"
    and "verify A db' sid now' (Some c) = Inr v'" and "avr_status v' = AV_VERIFIED"
    and "inj_on (ae_digest A) (AuditRecord_content ` (stored_records A db \<union> stored_records A db'))"
  shows "\<exists>rs. decode_all A (take (nat (cp_sequence c)) (stream_rows db sid)) = Some rs \<and>
              decode_all A (take (nat (cp_sequence c)) (stream_rows db' sid)) = Some rs \<and>
              int (length rs) = cp_sequence c"
proof -
  from assms(1,2) obtain rs where rs: "chain_of A db sid rs" "anchored A sid now rs c" and c: "0 \<le> cp_sequence c"
    by (rule verify_anchored)
  from assms(3,4) obtain rs' where rs': "chain_of A db' sid rs'" "anchored A sid now' rs' c"
    by (rule verify_anchored)
  have "inj_on (ae_digest A) (AuditRecord_content ` (set rs \<union> set rs'))"
    using assms(5) chain_of_stored [OF rs(1)] chain_of_stored [OF rs'(1)] by (blast intro: inj_on_subset)
  then have same: "take (nat (cp_sequence c)) rs = take (nat (cp_sequence c)) rs'"
    by (rule anchored_prefix_unique [OF rs(1) rs'(1) rs(2) rs'(2) c])
  have "int (length (take (nat (cp_sequence c)) rs)) = cp_sequence c"
    using rs(2) c by (auto simp: anchored_def min_def)
  with same chain_of_decode_take [OF rs(1)] chain_of_decode_take [OF rs'(1)] show ?thesis by metis
qed

lemma demo_stored: "stored_records (demo_audit m) demo_db1 = {demo_r0}"
  "stored_records (demo_audit m) demo_db2 = {demo_r0, demo_r1}"
  using demo_records_valid
  by (auto simp: stored_records_def demo_db1_def demo_db2_def row_of_record_def decode_record_def)

lemma demo_seal_r0: "demo_digest (AuditRecord_content demo_r0) = ar_record_digest demo_r0"
  "demo_digest (AuditRecord_content demo_r1) = ar_record_digest demo_r1"
  using demo_records_valid by (simp_all add: AuditRecord_valid_def sealed_by_def)

theorem checkpointed_prefix_tamper_evident_witness:
  "\<exists>rs. decode_all (demo_audit 2) (take 1 (stream_rows demo_db1 demo_stream)) = Some rs \<and>
        decode_all (demo_audit 2) (take 1 (stream_rows demo_db2 demo_stream)) = Some rs \<and> int (length rs) = 1"
proof -
  let ?V = "\<lambda>db. verify_locked (demo_audit 2) db demo_stream 1700 (Some demo_c1)"
  have n: "nat (cp_sequence demo_c1) = 1" "cp_sequence demo_c1 = 1" by (simp_all add: demo_c1_def Let_def)
  have tv: "trusted_valid (demo_audit 2) (Some demo_c1)" by (simp add: trusted_valid_def demo_c1_valid)
  have v: "verify (demo_audit 2) db demo_stream 1700 (Some demo_c1) = Inr (?V db)" for db
    using tv by (simp add: verify_def)
  have v1: "avr_status (?V demo_db1) = AV_VERIFIED"
    using checkpoint_holds_later [OF demo_codec demo_reachable1 demo_checkpoint steps_refl, of 1700] v by simp
  have v2: "avr_status (?V demo_db2) = AV_VERIFIED"
    using checkpoint_holds_later [OF demo_codec demo_reachable1 demo_checkpoint demo_steps12, of 1700] v by simp
  have "inj_on (ae_digest (demo_audit 2)) (AuditRecord_content `
      (stored_records (demo_audit 2) demo_db1 \<union> stored_records (demo_audit 2) demo_db2))"
    using demo_digests_differ by (simp add: demo_stored inj_on_def demo_seal_r0)
  from checkpointed_prefix_tamper_evident [OF v v1 v v2 this] show ?thesis unfolding n(1) unfolding n(2) .
qed

section \<open>Appending\<close>

text \<open>Append extends the chain: on a store state it can reach, a successful append under a new
  idempotency key adds exactly one row, whose record carries the plan's transition, the next consecutive
  sequence number and the digest of the previous last record (or of the genesis), and no row of any
  other stream changes.\<close>

theorem append_extends_stream:
  assumes "codec_ok A" and "audit_reachable A db" and "append_audit A db p now trusted = (Inr r, db')"
    and "\<not> contains_idempotency db (ap_stream_id p) (ap_idempotency_digest p)"
  shows "\<exists>rs. decode_all A (stream_rows db (ap_stream_id p)) = Some rs \<and>
           decode_all A (stream_rows db' (ap_stream_id p)) = Some (rs @ [r]) \<and>
           ar_sequence r = int (length rs) + 1 \<and> ar_previous_digest r = head_digest_of A rs \<and>
           same_transition r p \<and> ar_plan_id r = ap_plan_id p \<and> ar_sealed_at r = now \<and>
           (\<forall>sid. sid \<noteq> ap_stream_id p \<longrightarrow> stream_rows db' sid = stream_rows db sid)"
proof -
  from audit_reachable_inv [OF assms(2,1)] have "audit_inv A db" .
  from this assms(1,3,4) obtain rs where rs: "stream_inv A db (ap_stream_id p) rs"
    "stream_inv A db' (ap_stream_id p) (rs @ [r])"
    and r: "r = build_record A p now (int (length rs) + 1) (head_digest_of A rs)"
    and ins: "insert_record A db r (ap_idempotency_digest p) = Inr db'"
    by (rule append_not_contained)
  have "stream_rows db' sid = stream_rows db sid" if "sid \<noteq> ap_stream_id p" for sid
    using that by (simp add: stream_rows_def insert_record_rows [OF ins] r build_record_def row_of_record_def Let_def)
  with rs show ?thesis
    by (intro exI [of _ rs]) (simp add: stream_inv_def chain_of_decode_all r build_record_def Let_def same_transition_def)
qed

lemma demo_not_contained: "\<not> contains_idempotency demo_db1 demo_stream (hex_digits 64 71)"
  using demo_digests_differ by (simp add: contains_idempotency_def demo_records1 row_of_record_def)

theorem append_extends_stream_witness:
  "\<exists>rs. decode_all (demo_audit 2) (stream_rows demo_db1 demo_stream) = Some rs \<and>
     decode_all (demo_audit 2) (stream_rows demo_db2 demo_stream) = Some (rs @ [demo_r1])"
  using append_extends_stream [OF demo_codec demo_reachable1 demo_append1, of 2] demo_not_contained
  by (auto simp: demo_plan_fields)

definition replays :: "'j audit_env \<Rightarrow> 'j audit_db \<Rightarrow> AuditAppendPlan \<Rightarrow> AuditRecord \<Rightarrow> bool" where
  "replays A db p r \<longleftrightarrow>
     (\<exists>row. List.find (\<lambda>r. row_stream_id r = ap_stream_id p \<and>
          row_idempotency_digest r = ap_idempotency_digest p) (db_records db) = Some row \<and>
        decode_record A (row_record_json row) = Some r \<and>
        (row_plan_id row = ap_plan_id p \<or> same_transition r p))"

lemma append_replays:
  assumes "codec_ok A" and "append_locked A db p now trusted = Inr (r, db')"
  shows "replays A db' p r"
proof (cases "List.find (\<lambda>r. row_stream_id r = ap_stream_id p \<and>
    row_idempotency_digest r = ap_idempotency_digest p) (db_records db)")
  case (Some row)
  with assms(2) show ?thesis
    by (auto simp: append_locked_def replays_def Let_def split: if_splits option.splits)
next
  case None
  from assms(2) show ?thesis
  proof (cases rule: append_locked_cases)
    case (replay row)
    with None show ?thesis by (auto simp: find_None_iff)
  next
    case (fresh v)
    have "decode_record A (ae_json A r) = Some r"
      using assms(1) fresh(7) by (simp add: codec_ok_def decode_record_def)
    then show ?thesis
      using None by (simp add: replays_def insert_record_rows [OF fresh(9)] find_append)
        (simp add: row_of_record_def fresh(6))
  qed
qed

lemma append_rows: "append_audit A db p now trusted = (res, db') \<Longrightarrow> \<exists>xs. db_records db' = db_records db @ xs"
proof (cases res)
  case (Inr r)
  assume "append_audit A db p now trusted = (res, db')"
  with Inr have "append_locked A db p now trusted = Inr (r, db')" by (simp add: append_audit_Inr_iff)
  then show ?thesis by (cases rule: append_locked_cases) (auto dest: insert_record_rows)
qed (auto dest: append_audit_error_unchanged)

lemma steps_replays: "steps (audit_step A) db n db' \<Longrightarrow> replays A db p r \<Longrightarrow> replays A db' p r"
proof (induction rule: steps.induct)
  case (steps_step s n t u)
  then obtain xs where "db_records u = db_records t @ xs"
    by (auto elim!: audit_step.cases dest: append_rows)
  with steps_step show ?case by (auto simp: replays_def find_append)
qed simp

lemma replays_append:
  "replays A db p r \<Longrightarrow> avr_status (verify_locked A db (ap_stream_id p) now trusted) = AV_VERIFIED \<Longrightarrow>
   append_locked A db p now trusted = Inr (r, db)"
  by (auto simp: replays_def append_locked_def Let_def)

text \<open>Replay: once a plan has been appended, submitting it again after any further appends, at any
  time (also past its deadline) and with any checkpoint against which its stream verifies, returns the
  record sealed the first time and changes nothing.\<close>

theorem append_replay_idempotent:
  assumes "codec_ok A" and "append_audit A db p t0 trusted0 = (Inr r, db1)"
    and "steps (audit_step A) db1 n db2"
    and "verify A db2 (ap_stream_id p) now trusted = Inr v" and "avr_status v = AV_VERIFIED"
  shows "append_audit A db2 p now trusted = (Inr r, db2)"
proof -
  from assms(2) have "append_locked A db p t0 trusted0 = Inr (r, db1)" and p: "AuditAppendPlan_valid (ae_digest A) p"
    by (auto simp: append_audit_Inr_iff)
  then have "replays A db2 p r" using append_replays steps_replays assms(1,3) by blast
  with assms(4,5) p show ?thesis
    by (auto simp: append_audit_Inr_iff verify_def replays_append split: if_splits)
qed

lemma demo_verify2: "verify (demo_audit 2) demo_db2 demo_stream t None =
    Inr (verify_locked (demo_audit 2) demo_db2 demo_stream t None)"
  "avr_status (verify_locked (demo_audit 2) demo_db2 demo_stream t None) = AV_VERIFIED"
  by (simp add: verify_def trusted_valid_def)
    (intro reachable_verified demo_codec demo_reachable2, simp_all)

theorem append_replay_idempotent_witness:
  "append_audit (demo_audit 2) demo_db2 (demo_plan 0) 9999 None = (Inr demo_r0, demo_db2)"
  using append_replay_idempotent [OF demo_codec demo_append0 demo_steps12, of 9999 None]
  by (simp add: demo_plan_fields demo_verify2)

lemma linked_sequences: "linked sid n prev rs \<Longrightarrow> map ar_sequence rs = map (\<lambda>k. int k + n) [0..<length rs]"
proof (induction rs arbitrary: n prev)
  case (Cons r rs)
  then have "map ar_sequence rs = map (\<lambda>k. int k + (n + 1)) [0..<length rs]"
    using Cons.IH [of "n + 1" "ar_record_digest r"] by simp
  moreover have "map (\<lambda>k. int k + n) [0..<length (r # rs)] = n # map (\<lambda>k. int k + (n + 1)) [0..<length rs]"
    by (simp add: upt_conv_Cons map_Suc_upt [symmetric] del: upt_Suc map_Suc_upt)
  ultimately show ?case using Cons.prems by simp
qed simp

lemma stream_inv_sequences:
  "stream_inv A db sid rs \<Longrightarrow>
   map row_sequence (stream_rows db sid) = map (\<lambda>k. int k + 1) [0..<length (stream_rows db sid)]"
  using stream_inv_length [of A db sid rs] linked_sequences [of sid 1]
  by (auto simp: stream_inv_def chain_of_def)

lemma demo_verify2c: "verify (demo_audit 2) demo_db2 demo_stream 1700 (Some demo_c1) =
    Inr (verify_locked (demo_audit 2) demo_db2 demo_stream 1700 (Some demo_c1))"
  "avr_status (verify_locked (demo_audit 2) demo_db2 demo_stream 1700 (Some demo_c1)) = AV_VERIFIED"
  using checkpoint_holds_later [OF demo_codec demo_reachable1 demo_checkpoint demo_steps12, of 1700]
  by (simp_all add: verify_def trusted_valid_def demo_c1_valid)

lemma filter_enumerated:
  assumes "map f xs = map (\<lambda>k. int k + 1) [0..<length xs]" and "1 \<le> s"
  shows "filter (\<lambda>x. s \<le> f x) xs = drop (nat (s - 1)) xs"
  using assms(1)
proof (induction xs rule: rev_induct)
  case (snoc x xs)
  then have "map f xs = map (\<lambda>k. int k + 1) [0..<length xs]" "f x = int (length xs) + 1" by auto
  with snoc assms(2) show ?case by auto
qed simp

text \<open>Projections: on a reachable store whose stream verifies against the trusted checkpoint, the
  projection query returns exactly the projections of the records with sequence numbers
  \<open>start \<dots> start + limit - 1\<close>, in order.\<close>

theorem projections_window:
  assumes "codec_ok A" and "audit_reachable A db"
    and "verify A db sid now (Some c) = Inr v" and "avr_status v = AV_VERIFIED"
    and "1 \<le> start" and "1 \<le> limit" and "limit \<le> 1000"
  shows "\<exists>rs. decode_all A (stream_rows db sid) = Some rs \<and>
     projections A db sid c now start limit =
       Inr (map project_record (take (nat limit) (drop (nat (start - 1)) rs)))"
proof -
  from audit_reachable_inv [OF assms(2,1)] obtain rs where rs: "stream_inv A db sid rs"
    by (auto simp: audit_inv_def)
  then have seqs: "map row_sequence (stream_rows db sid) = map (\<lambda>k. int k + 1) [0..<length (stream_rows db sid)]"
    by (simp add: stream_inv_sequences)
  have "list_all2 (row_holds A) rows qs \<Longrightarrow> decode_all A rows = Some qs" for rows qs
    by (induction rows qs rule: list_all2_induct) (auto simp: row_holds_def)
  then have "decode_all A (take (nat limit) (drop (nat (start - 1)) (stream_rows db sid))) =
      Some (take (nat limit) (drop (nat (start - 1)) rs))"
    using rs by (simp add: stream_inv_def chain_of_def list_all2_takeI list_all2_dropI)
  then show ?thesis
    using rs assms by (intro exI [of _ rs])
      (simp add: projections_def filter_enumerated [OF seqs] stream_inv_def chain_of_decode_all result_simps)
qed

theorem projections_window_witness:
  "\<exists>rs. decode_all (demo_audit 2) (stream_rows demo_db2 demo_stream) = Some rs \<and>
     projections (demo_audit 2) demo_db2 demo_stream demo_c1 1700 2 5 =
       Inr (map project_record (take 5 (drop 1 rs)))"
  using projections_window [OF demo_codec demo_reachable2 demo_verify2c(1,2), of 2 5] by simp

section \<open>Two limits of the verification\<close>

lemma limit_corrupt:
  "limits_exceeded A db sid \<Longrightarrow> avr_status (verify_locked A db sid now trusted) = AV_CORRUPTION_DETECTED"
  "limits_exceeded A db sid \<Longrightarrow>
    avr_failure_code (verify_locked A db sid now trusted) = Some ''local_chain_limits_exceeded''"
  by (simp_all add: verify_locked_def seal_verification_def)

lemma full_stream_refuses:
  assumes "limits_exceeded A db sid" and "is_digest sid"
  shows "case verify A db sid now trusted of
           Inl e \<Rightarrow> \<not> trusted_valid A trusted
         | Inr v \<Rightarrow> avr_status v = AV_CORRUPTION_DETECTED \<and> avr_failure_code v = Some ''local_chain_limits_exceeded''"
    and "checkpoint A db sid now = Inl (AuditIntegrityError ''audit checkpoint refused: local_chain_limits_exceeded'')"
    and "ap_stream_id p = sid \<Longrightarrow> append_audit A db p now trusted =
      (Inl (if AuditAppendPlan_valid (ae_digest A) p \<and> trusted_valid A trusted
            then AuditIntegrityError ''audit chain refused append: local_chain_limits_exceeded''
            else AuditValueError), db)"
  using assms limit_corrupt [OF assms(1)]
  by (auto simp: verify_def trusted_valid_def checkpoint_def append_audit_def append_locked_def failure_text_def
      result_simps)

text \<open>C28. The append does not respect the limit that verification enforces. On a stream of a reachable database
  that holds the maximal number of records and verifies against the caller's checkpoint, a valid plan under a new
  key, within its deadline and of the stream's engagement, is appended (its record being of admissible size and its
  digest not colliding with that of a stored record). From then on, whatever appends to any stream follow, every
  verification of the stream at any time and against any valid checkpoint or none reports corruption, no checkpoint
  is issued for it, and every append to it, of any plan against any checkpoint, is refused and changes nothing.\<close>

theorem append_at_limit_bricks_stream:
  assumes "codec_ok A" and "hex_valued (ae_digest A)" and "audit_reachable A db"
    and "ap_stream_id p = sid" and "int (length (stream_rows db sid)) = ae_max_records A"
    and "verify A db sid t trusted0 = Inr v0" and "avr_status v0 = AV_VERIFIED"
    and "AuditAppendPlan_valid (ae_digest A) p" and "ap_occurred_at p \<le> t" and "t < ap_deadline p"
    and "\<not> contains_idempotency db sid (ap_idempotency_digest p)"
    and "predecessor_check A db p (ae_max_records A) = Inr ()"
    and "ae_size A (ae_json A (next_record A db p t)) \<le> ae_max_bytes A"
    and "inj_on (ae_digest A) (AuditRecord_content ` insert (next_record A db p t) (stored_records A db))"
  shows "\<exists>db'. append_audit A db p t trusted0 = (Inr (next_record A db p t), db') \<and>
    (\<forall>n db2 now trusted p'. steps (audit_step A) db' n db2 \<longrightarrow>
       (case verify A db2 sid now trusted of
          Inl e \<Rightarrow> \<not> trusted_valid A trusted
        | Inr v \<Rightarrow> avr_status v = AV_CORRUPTION_DETECTED \<and>
                   avr_failure_code v = Some ''local_chain_limits_exceeded'') \<and>
       checkpoint A db2 sid now =
         Inl (AuditIntegrityError ''audit checkpoint refused: local_chain_limits_exceeded'') \<and>
       (ap_stream_id p' = sid \<longrightarrow> append_audit A db2 p' now trusted =
         (Inl (if AuditAppendPlan_valid (ae_digest A) p' \<and> trusted_valid A trusted
               then AuditIntegrityError ''audit chain refused append: local_chain_limits_exceeded''
               else AuditValueError), db2)))"
proof -
  from audit_reachable_inv [OF assms(3,1)] have inv: "audit_inv A db" .
  then obtain rs where rs: "stream_inv A db (ap_stream_id p) rs" by (auto simp: audit_inv_def)
  have len: "int (length rs) = ae_max_records A" using stream_inv_length [OF rs] assms(4,5) by simp
  from assms(6,7) have tv: "trusted_valid A trusted0"
    and ok: "avr_status (verify_locked A db (ap_stream_id p) t trusted0) = AV_VERIFIED"
    using assms(4) by (auto simp: verify_def split: if_splits)
  obtain db' where "append_locked A db p t trusted0 = Inr (next_record A db p t, db')"
    by (rule append_locked_succeeds [OF inv rs assms(2) tv ok assms(8-10) _ _ assms(13,14)])
      (use assms(4,11,12) len in simp_all)
  with tv assms(8) have app: "append_audit A db p t trusted0 = (Inr (next_record A db p t), db')"
    by (simp add: append_audit_Inr_iff)
  have inv': "stream_inv A db' sid (rs @ [next_record A db p t])"
    using append_not_contained [OF inv assms(1) app] assms(4,11) rs chain_of_unique unfolding stream_inv_def by metis
  have dig: "is_digest sid" using assms(4,8) by (simp add: AuditAppendPlan_valid_def)
  have "limits_exceeded A db2 sid" if later: "steps (audit_step A) db' n db2" for n db2
  proof -
    obtain xs where "stream_inv A db2 sid ((rs @ [next_record A db p t]) @ xs)"
      using audit_steps_extend [OF later assms(1) inv'] by blast
    from stream_inv_length [OF this] len show ?thesis by (simp add: limits_exceeded_def)
  qed
  with app full_stream_refuses [OF _ dig] show ?thesis by blast
qed

theorem append_at_limit_bricks_stream_witness:
  "\<exists>r db'. append_audit (demo_audit 1) demo_db1 (demo_plan 1) 1600 None = (Inr r, db') \<and>
     append_audit (demo_audit 1) db' (demo_plan 0) 1700 (Some demo_c1) =
       (Inl (AuditIntegrityError ''audit chain refused append: local_chain_limits_exceeded''), db') \<and>
     checkpoint (demo_audit 1) db' demo_stream 1800 =
       Inl (AuditIntegrityError ''audit checkpoint refused: local_chain_limits_exceeded'')"
proof -
  let ?A = "demo_audit 1"
  have v: "verify ?A demo_db1 demo_stream 1600 None = Inr (verify_locked ?A demo_db1 demo_stream 1600 None)"
    by (simp add: verify_def trusted_valid_def demo_stream_digest)
  note v1 = demo_verified1 [of 1 1600, simplified]
  have nr: "next_record ?A demo_db1 (demo_plan 1) 1600 = demo_r1"
    using verify_counts [OF v1 _ demo_chain1] 
    by (simp add: next_record_def demo_plan_fields trusted_valid_def head_digest_of_def demo_r1_any)
  have p1: "predecessor_check ?A demo_db1 (demo_plan 1) (ae_max_records ?A) = Inr ()"
    using demo_records_valid by (simp add: demo_plan_fields predecessor_check_def demo_records1
        row_of_record_def demo_fields decode_record_def)
  have inj: "inj_on (ae_digest ?A) (AuditRecord_content `
      insert (next_record ?A demo_db1 (demo_plan 1) 1600) (stored_records ?A demo_db1))"
    using demo_digests_differ by (auto simp: nr demo_stored inj_on_def demo_seal_r0)
  have "\<not> contains_idempotency demo_db1 demo_stream (ap_idempotency_digest (demo_plan 1))"
    using demo_digests_differ
    by (simp add: contains_idempotency_def demo_records1 row_of_record_def demo_plan_fields)
  from append_at_limit_bricks_stream [OF demo_codec demo_hex _ _ _ v v1 _ _ _ this p1 _ inj] demo_reachable1 [of 1]
  obtain db' where db': "append_audit ?A demo_db1 (demo_plan 1) 1600 None = (Inr (next_record ?A demo_db1 (demo_plan 1) 1600), db')"
    and later: "\<And>now trusted p'. checkpoint ?A db' demo_stream now =
         Inl (AuditIntegrityError ''audit checkpoint refused: local_chain_limits_exceeded'') \<and>
       (ap_stream_id p' = demo_stream \<longrightarrow> append_audit ?A db' p' now trusted =
         (Inl (if AuditAppendPlan_valid demo_digest p' \<and> trusted_valid ?A trusted
               then AuditIntegrityError ''audit chain refused append: local_chain_limits_exceeded''
               else AuditValueError), db'))"
    using steps_refl by (fastforce simp: demo_plan_fields demo_plan_valid demo_plan_times)
  from db' later [of 1700 "demo_plan 0" "Some demo_c1"] later [of 1800] show ?thesis
    by (auto simp: demo_plan_fields demo_plan_valid trusted_valid_def demo_c1_valid)
qed

text \<open>Verification does not read the idempotency column: rewriting it in any way leaves every
  verification result as it was, although the replay detection of the next append relies on it.\<close>

theorem verification_ignores_idempotency_column:
  "verify A (db\<lparr>db_records := map (retag f) (db_records db)\<rparr>) sid now trusted = verify A db sid now trusted"
proof -
  have "limits_exceeded A (db\<lparr>db_records := map (retag f) (db_records db)\<rparr>) sid = limits_exceeded A db sid"
    by (simp add: limits_exceeded_def stream_rows_retag list_ex_iff)
  moreover have "head_binds (db\<lparr>db_records := map (retag f) (db_records db)\<rparr>) sid rs = head_binds db sid rs" for rs
    by (simp add: head_binds_def)
  ultimately show ?thesis
    by (simp add: verify_def verify_locked_def stream_rows_retag scan_rows_retag)
qed

end
