(* ===== verification/Redaction.thy ===== *)
theory Redaction
  imports Domain Urls
begin

text \<open>
  \<^verbatim>\<open>src/src/vulnloom/evidence/redaction.py\<close>: the redaction of texts and of structured values, and the
  bounded buffer that redacts fragmented output once. A redactor is its sensitive variants, in the
  order in which they are replaced, and its substitution passes; a pass is what one
  \<^verbatim>\<open>pattern.sub\<close> of the \<^verbatim>\<open>re\<close> module does to a text. Strict UTF-8 decoding and the encoded
  length are the fields \<open>co_decode\<close> and \<open>co_size\<close> of a \<open>codec\<close>. Bytes do not occur in the structured
  values of the model, so that branch of \<^verbatim>\<open>value\<close> has no counterpart.
\<close>

section \<open>Texts\<close>

record redactor =
  rd_variants :: "string list"
  rd_passes :: "(string \<Rightarrow> string) list"

definition PLACEHOLDER :: string where
  "PLACEHOLDER = ''[REDACTED]''"

text \<open>\<^verbatim>\<open>str.replace\<close> for a non-empty pattern: leftmost matches, without overlap.\<close>

function replace_all :: "string \<Rightarrow> string \<Rightarrow> string \<Rightarrow> string" where
  "replace_all sub rep s =
     (if s = [] then []
      else if sub \<noteq> [] \<and> take (length sub) s = sub then rep @ replace_all sub rep (drop (length sub) s)
      else hd s # replace_all sub rep (tl s))"
  by pat_completeness auto
termination
  by (relation "measure (\<lambda>(sub, rep, s). length s)") auto

declare replace_all.simps [simp del]

definition redact_text :: "redactor \<Rightarrow> string \<Rightarrow> string" where
  "redact_text R value =
     fold (\<lambda>pass result. pass result) (rd_passes R)
       (fold (\<lambda>sensitive result. replace_all sensitive PLACEHOLDER result) (rd_variants R) value)"

definition is_safe_text :: "redactor \<Rightarrow> string \<Rightarrow> bool" where
  "is_safe_text R value \<longleftrightarrow> redact_text R value = value"

section \<open>Structured values\<close>

definition with_sep :: "string \<Rightarrow> string \<Rightarrow> string list" where
  "with_sep a b = [a @ b, a @ ''_'' @ b, a @ ''-'' @ b]"

text \<open>The names that \<^verbatim>\<open>_secret_keys\<close> matches; \<^verbatim>\<open>$\<close> also matches before a final newline.\<close>

definition secret_names :: "string list" where
  "secret_names =
     [''authorization'', ''proxy-authorization'', ''cookie'', ''set-cookie'', ''token'', ''access_token'',
      ''refresh_token''] @ with_sep ''api'' ''key'' @ [''x-api-key'', ''secret''] @
     with_sep ''client'' ''secret'' @ [''password'', ''passwd''] @ with_sep ''private'' ''key'' @
     [''credential'', ''session''] @ with_sep ''session'' ''id'' @ [''csrf''] @ with_sep ''csrf'' ''token''"

definition chomp :: "string \<Rightarrow> string" where
  "chomp s = (if s \<noteq> [] \<and> last s = CHR 0x0A then butlast s else s)"

definition secret_key :: "string \<Rightarrow> bool" where
  "secret_key k \<longleftrightarrow> lower (chomp k) \<in> set secret_names"

fun redact_value :: "redactor \<Rightarrow> pyval \<Rightarrow> pyval" where
  "redact_value R (PDict kvs) =
     PDict (map (\<lambda>kv. (fst kv, if secret_key (fst kv) then PStr PLACEHOLDER else redact_value R (snd kv))) kvs)"
| "redact_value R (PStr s) = PStr (redact_text R s)"
| "redact_value R (PEnum s) = PStr (redact_text R s)"
| "redact_value R (PList xs) = PList (map (redact_value R) xs)"
| "redact_value R v = v"

section \<open>What redaction leaves\<close>

text \<open>What a substitution does to a text: it keeps gaps of it and puts a placeholder for each segment between
  them. This is what \<^verbatim>\<open>pattern.sub\<close> is documented to do, as each pattern of the source replaces its match
  by its first group, which the match begins with, and the placeholder.\<close>

inductive redacts :: "string \<Rightarrow> string \<Rightarrow> bool" where
  redacts_rest: "redacts gap gap"
| redacts_segment: "redacts s t \<Longrightarrow> redacts (gap @ segment @ s) (gap @ PLACEHOLDER @ t)"

definition substitutes :: "(string \<Rightarrow> string) \<Rightarrow> bool" where
  "substitutes pass \<longleftrightarrow> (\<forall>s. redacts s (pass s))"

text \<open>A variant that can neither lie in a placeholder nor overlap one.\<close>

definition apart :: "string \<Rightarrow> bool" where
  "apart v \<longleftrightarrow> v \<noteq> [] \<and> \<not> sublist v PLACEHOLDER \<and> \<not> sublist PLACEHOLDER v \<and>
     list_all (\<lambda>x. x = [] \<or> \<not> prefix x v) (suffixes PLACEHOLDER) \<and>
     list_all (\<lambda>x. x = [] \<or> \<not> suffix x v) (prefixes PLACEHOLDER)"

lemma apart_suffix: "apart v \<Longrightarrow> suffix x PLACEHOLDER \<Longrightarrow> prefix x v \<Longrightarrow> x = []"
  by (auto simp: apart_def list_all_iff in_set_suffixes)

lemma apart_prefix: "apart v \<Longrightarrow> prefix x PLACEHOLDER \<Longrightarrow> suffix x v \<Longrightarrow> x = []"
  by (auto simp: apart_def list_all_iff in_set_prefixes)

lemma apart_around:
  assumes "apart v" and "sublist v (gap @ PLACEHOLDER @ t)"
  shows "sublist v gap \<or> sublist v t"
proof -
  note no = assms(1) [unfolded apart_def]
  have after: "sublist v t" if "sublist v (PLACEHOLDER @ t)"
  proof -
    from that no consider "sublist v t" | x y where "v = x @ y" "suffix x PLACEHOLDER" "prefix y t"
      unfolding sublist_append [of v PLACEHOLDER t] by blast
    then show ?thesis
    proof cases
      case 2
      then have "x = []" using apart_suffix [OF assms(1)] by simp
      with 2 show ?thesis by (simp add: prefix_imp_sublist)
    qed
  qed
  from assms(2) consider "sublist v gap" | "sublist v (PLACEHOLDER @ t)"
    | x y where "v = x @ y" "suffix x gap" "prefix y (PLACEHOLDER @ t)"
    unfolding sublist_append [of v gap "PLACEHOLDER @ t"] by blast
  then show ?thesis
  proof cases
    case 3
    from 3(3) consider "prefix y PLACEHOLDER" | z where "y = PLACEHOLDER @ z" by (auto simp: prefix_append)
    then show ?thesis
    proof cases
      case 1
      then have "y = []" using apart_prefix [OF assms(1)] 3(1) by (simp add: suffixI)
      with 3 show ?thesis by (simp add: suffix_imp_sublist)
    next
      case 2
      then have "sublist PLACEHOLDER v" using 3(1) by simp
      with no show ?thesis by simp
    qed
  qed (use after in simp_all)
qed

lemma redacts_absent: "redacts s t \<Longrightarrow> apart v \<Longrightarrow> \<not> sublist v s \<Longrightarrow> \<not> sublist v t"
proof (induction rule: redacts.induct)
  case (redacts_segment s t gap segment)
  then have "\<not> sublist v gap" "\<not> sublist v t" by (simp_all add: sublist_append)
  with apart_around [OF redacts_segment.prems(1)] show ?case by blast
qed

lemma redacts_Cons: "redacts s t \<Longrightarrow> redacts (c # s) (c # t)"
proof (induction rule: redacts.induct)
  case (redacts_segment s t gap segment)
  then show ?case using redacts.redacts_segment [of s t "c # gap" segment] by simp
qed (rule redacts_rest)

lemma replace_all_redacts: "redacts s (replace_all v PLACEHOLDER s)"
proof (induction v PLACEHOLDER s rule: replace_all.induct)
  case (1 v s)
  show ?case
  proof (cases "s = []")
    case True
    then show ?thesis by (simp add: replace_all.simps redacts_rest)
  next
    case ne: False
    show ?thesis
    proof (cases "v \<noteq> [] \<and> take (length v) s = v")
      case True
      then have "redacts (v @ drop (length v) s) (PLACEHOLDER @ replace_all v PLACEHOLDER (drop (length v) s))"
        using redacts_segment [OF 1(1) [OF ne], of "[]" v] by simp
      moreover have "v @ drop (length v) s = s" using True append_take_drop_id [of "length v" s] by simp
      ultimately show ?thesis using True ne by (simp add: replace_all.simps [of v _ s])
    next
      case False
      with 1(2) [OF ne] have "redacts (hd s # tl s) (hd s # replace_all v PLACEHOLDER (tl s))" by (intro redacts_Cons) blast
      with False ne show ?thesis by (subst replace_all.simps) auto
    qed
  qed
qed

lemma replace_all_absent:
  assumes "apart v"
  shows "\<not> sublist v (replace_all v PLACEHOLDER s)"
proof -
  have split: "\<not> sublist v (gap @ rest)" if "\<not> sublist v gap" "rest = [] \<or> (\<exists>t. rest = PLACEHOLDER @ t \<and> \<not> sublist v t)" for gap rest
    using that apart_around [OF assms] by auto
  have "\<exists>gap rest. replace_all v PLACEHOLDER s = gap @ rest \<and> prefix gap s \<and> \<not> sublist v gap \<and>
      (rest = [] \<or> (\<exists>t. rest = PLACEHOLDER @ t \<and> \<not> sublist v t))"
    using assms split
  proof (induction v PLACEHOLDER s rule: replace_all.induct)
    case (1 v s)
    have v: "v \<noteq> []" using 1(3) by (simp add: apart_def)
    show ?case
    proof (cases "s = [] \<or> take (length v) s = v")
      case True
      with v 1 show ?thesis
        by (subst replace_all.simps) (force intro: exI [of _ "[]"])
    next
      case False
      then obtain c s' where s: "s = c # s'" by (cases s) auto
      from 1(2) [OF _ _ 1(3,4)] False v s obtain gap rest where
        g: "replace_all v PLACEHOLDER s' = gap @ rest" "prefix gap s'" "\<not> sublist v gap"
          "rest = [] \<or> (\<exists>t. rest = PLACEHOLDER @ t \<and> \<not> sublist v t)"
        by auto
      have "\<not> sublist v (c # gap)"
      proof
        assume "sublist v (c # gap)"
        then have "prefix v (c # gap)" using g(3) by (simp add: sublist_Cons_right)
        moreover have "prefix (c # gap) s" using g(2) s by simp
        ultimately have "prefix v s" by (rule prefix_order.trans)
        with False show False by (auto simp: prefix_def)
      qed
      with g False s v have "replace_all v PLACEHOLDER s = (c # gap) @ rest \<and> prefix (c # gap) s \<and>
          \<not> sublist v (c # gap) \<and> (rest = [] \<or> (\<exists>t. rest = PLACEHOLDER @ t \<and> \<not> sublist v t))"
        by (subst replace_all.simps) auto
      then show ?thesis by blast
    qed
  qed
  with split show ?thesis by metis
qed

text \<open>The whole of \<^verbatim>\<open>text\<close>: successive substitutions, after which no variant apart from the placeholder is left.\<close>

definition redacted :: "string \<Rightarrow> string \<Rightarrow> bool" where
  "redacted s t \<longleftrightarrow> redacts\<^sup>*\<^sup>* s t"

lemma redacted_refl: "redacted s s"
  by (simp add: redacted_def)

lemma redacted_step: "redacted s t \<Longrightarrow> redacts t u \<Longrightarrow> redacted s u"
  by (simp add: redacted_def)

lemma redacted_absent: "redacted s t \<Longrightarrow> apart v \<Longrightarrow> \<not> sublist v s \<Longrightarrow> \<not> sublist v t"
  unfolding redacted_def by (induction rule: rtranclp_induct) (auto dest: redacts_absent)

lemma redacted_fold:
  "list_all substitutes fs \<Longrightarrow> redacted s t \<Longrightarrow> redacted s (fold (\<lambda>f result. f result) fs t)"
  by (induction fs arbitrary: t) (auto simp: substitutes_def intro: redacted_step)

lemma literal_substitutes: "substitutes (replace_all v PLACEHOLDER)"
  by (simp add: substitutes_def replace_all_redacts)

lemma fold_literal: "fold (\<lambda>v result. replace_all v PLACEHOLDER result) vs s = fold (\<lambda>f result. f result) (map (\<lambda>v. replace_all v PLACEHOLDER) vs) s"
  by (simp add: fold_map comp_def)

lemma redact_text_redacted: "list_all substitutes (rd_passes R) \<Longrightarrow> redacted s (redact_text R s)"
  unfolding redact_text_def fold_literal
  by (intro redacted_fold redacted_refl) (auto simp: list_all_iff literal_substitutes)

lemma fold_literal_absent:
  "v \<in> set vs \<Longrightarrow> apart v \<Longrightarrow> \<not> sublist v (fold (\<lambda>v result. replace_all v PLACEHOLDER result) vs s)"
proof (induction vs rule: rev_induct)
  case (snoc w vs)
  then show ?case using replace_all_absent redacts_absent [OF replace_all_redacts] by (cases "v = w") auto
qed simp

lemma redact_text_absent:
  assumes "list_all substitutes (rd_passes R)" and "v \<in> set (rd_variants R)" and "apart v"
  shows "\<not> sublist v (redact_text R s)"
  unfolding redact_text_def
  by (rule redacted_absent [OF redacted_fold [OF assms(1) redacted_refl] assms(3) fold_literal_absent [OF assms(2,3)]])

text \<open>In a redacted value, no entry under a secret name keeps its value and no text holds a sensitive variant, at any
  depth that redaction reaches: the values of dictionaries and the members of sequences. Dictionary keys and the
  members of sets are left as they are by the source.\<close>

fun clean :: "redactor \<Rightarrow> pyval \<Rightarrow> bool" where
  "clean R (PDict kvs) \<longleftrightarrow>
     list_all (\<lambda>kv. if secret_key (fst kv) then snd kv = PStr PLACEHOLDER else clean R (snd kv)) kvs"
| "clean R (PStr s) \<longleftrightarrow> list_all (\<lambda>v. apart v \<longrightarrow> \<not> sublist v s) (rd_variants R)"
| "clean R (PEnum s) \<longleftrightarrow> False"
| "clean R (PList xs) \<longleftrightarrow> list_all (clean R) xs"
| "clean R v \<longleftrightarrow> True"

lemma redact_value_clean: "list_all substitutes (rd_passes R) \<Longrightarrow> clean R (redact_value R v)"
  by (induction R v rule: redact_value.induct) (auto simp: list_all_iff redact_text_absent [unfolded list_all_iff])

text \<open>The rest is kept: the same dictionaries with the same keys, the same sequences, the same texts but for
  the segments that a placeholder stands for.\<close>

fun same_shape :: "pyval \<Rightarrow> pyval \<Rightarrow> bool" where
  "same_shape (PDict kvs) w \<longleftrightarrow>
     (\<exists>kvs'. w = PDict kvs' \<and> list_all2 (\<lambda>kv kv'. fst kv = fst kv' \<and> (secret_key (fst kv) \<or> same_shape (snd kv) (snd kv'))) kvs kvs')"
| "same_shape (PList xs) w \<longleftrightarrow> (\<exists>ys. w = PList ys \<and> list_all2 same_shape xs ys)"
| "same_shape (PStr s) w \<longleftrightarrow> (\<exists>t. w = PStr t \<and> redacted s t)"
| "same_shape (PEnum s) w \<longleftrightarrow> (\<exists>t. w = PStr t \<and> redacted s t)"
| "same_shape v w \<longleftrightarrow> w = v"

lemma redact_value_shape: "list_all substitutes (rd_passes R) \<Longrightarrow> same_shape v (redact_value R v)"
proof (induction R v rule: redact_value.induct)
  case (1 R kvs)
  then show ?case by (auto simp: list_all2_conv_all_nth)
next
  case (4 R xs)
  then show ?case by (auto simp: list_all2_conv_all_nth)
qed (simp_all add: redact_text_redacted)

section \<open>The bounded buffer\<close>

datatype redaction_error = SensitiveDataRejected string | RedactionValueError string

record codec =
  co_decode :: "8 word list \<Rightarrow> string option"
  co_size :: "string \<Rightarrow> int"

record redaction_buffer =
  rb_max_input_bytes :: int
  rb_max_output_bytes :: int
  rb_buffer :: "8 word list"
  rb_finalized :: bool

text \<open>\<^verbatim>\<open>__init__\<close>; an absent output limit is the input limit.\<close>

definition new_buffer :: "int \<Rightarrow> int option \<Rightarrow> redaction_error + redaction_buffer" where
  "new_buffer max_input max_output =
     (if max_input \<le> 0 \<or> (case max_output of None \<Rightarrow> False | Some n \<Rightarrow> n \<le> 0)
      then Inl (RedactionValueError ''redaction buffer limits must be positive'')
      else Inr \<lparr>rb_max_input_bytes = max_input,
                rb_max_output_bytes = (case max_output of None \<Rightarrow> max_input | Some n \<Rightarrow> n),
                rb_buffer = [], rb_finalized = False\<rparr>)"

definition close_buffer :: "redaction_buffer \<Rightarrow> redaction_buffer" where
  "close_buffer b = b\<lparr>rb_finalized := True, rb_buffer := []\<rparr>"

text \<open>The loop of \<^verbatim>\<open>feed\<close>; a chunk that is not \<^verbatim>\<open>bytes\<close> is \<open>None\<close>. Either failure closes the
  buffer before it raises.\<close>

fun feed_chunks :: "redaction_buffer \<Rightarrow> 8 word list option list \<Rightarrow> redaction_buffer \<times> (redaction_error + unit)" where
  "feed_chunks b [] = (b, Inr ())"
| "feed_chunks b (None # chunks) =
     (close_buffer b, Inl (SensitiveDataRejected ''redaction chunks must be bytes''))"
| "feed_chunks b (Some chunk # chunks) =
     (if int (length (rb_buffer b)) + int (length chunk) > rb_max_input_bytes b
      then (close_buffer b, Inl (SensitiveDataRejected ''redaction input exceeds the byte limit''))
      else feed_chunks (b\<lparr>rb_buffer := rb_buffer b @ chunk\<rparr>) chunks)"

definition feed :: "redaction_buffer \<Rightarrow> 8 word list option list \<Rightarrow> redaction_buffer \<times> (redaction_error + unit)" where
  "feed b chunks =
     (if rb_finalized b
      then (b, Inl (SensitiveDataRejected ''redaction buffer is already finalized''))
      else feed_chunks b chunks)"

definition finalize :: "codec \<Rightarrow> redactor \<Rightarrow> redaction_buffer \<Rightarrow> redaction_buffer \<times> (redaction_error + string)" where
  "finalize C R b =
     (if rb_finalized b
      then (b, Inl (SensitiveDataRejected ''redaction buffer is already finalized''))
      else
        (close_buffer b,
         case co_decode C (rb_buffer b) of
           None \<Rightarrow> Inl (SensitiveDataRejected ''redaction input is not valid UTF-8'')
         | Some decoded \<Rightarrow>
             (let redacted = redact_text R decoded in
              if co_size C redacted > rb_max_output_bytes b
              then Inl (SensitiveDataRejected ''redacted output exceeds the byte limit'')
              else Inr redacted)))"

lemma feed_chunks_ok_iff:
  assumes "int (length (rb_buffer b)) \<le> rb_max_input_bytes b"
  shows "feed_chunks b chunks = (b', Inr ()) \<longleftrightarrow>
     list_all (\<lambda>c. c \<noteq> None) chunks \<and>
     int (length (rb_buffer b)) + int (length (concat (map the chunks))) \<le> rb_max_input_bytes b \<and>
     b' = b\<lparr>rb_buffer := rb_buffer b @ concat (map the chunks)\<rparr>"
  using assms by (induction b chunks rule: feed_chunks.induct) auto

lemma feed_chunks_failed:
  "feed_chunks b chunks = (b', Inl e) \<Longrightarrow> b' = close_buffer (b\<lparr>rb_buffer := rb_buffer b'\<rparr>)"
  by (induction b chunks rule: feed_chunks.induct) (auto simp: close_buffer_def split: if_splits)

section \<open>Properties\<close>

text \<open>C30. Structured redaction, for passes that substitute placeholders for segments of a text: in the result no
  entry under a secret name keeps its value and no text contains any sensitive variant of the redactor that cannot
  overlap a placeholder, at any depth of dictionary values and sequences; dictionaries keep their keys, sequences
  their length, and each text is the original one with segments replaced by placeholders.\<close>

theorem redaction_complete:
  assumes "list_all substitutes (rd_passes R)"
  shows "clean R (redact_value R v) \<and> same_shape v (redact_value R v)"
  using assms by (simp add: redact_value_clean redact_value_shape)

definition demo_secrets :: redactor where
  "demo_secrets = \<lparr>rd_variants = [''hunter2!'', ''c2VjcmV0''], rd_passes = [replace_all ''sk-0123456789ab'' PLACEHOLDER]\<rparr>"

definition demo_payload :: pyval where
  "demo_payload = PDict [(''note'', PList [PStr ''pw=hunter2!;sk-0123456789ab'', PInt 7]), (''Api_Key'', PInt 12345)]"

lemma demo_payload_redacted:
  "redact_value demo_secrets demo_payload =
     PDict [(''note'', PList [PStr ''pw=[REDACTED];[REDACTED]'', PInt 7]), (''Api_Key'', PStr PLACEHOLDER)]"
  by code_simp

theorem redaction_complete_witness:
  "clean demo_secrets (redact_value demo_secrets demo_payload) \<and>
   same_shape demo_payload (redact_value demo_secrets demo_payload) \<and>
   redact_value demo_secrets demo_payload =
     PDict [(''note'', PList [PStr ''pw=[REDACTED];[REDACTED]'', PInt 7]), (''Api_Key'', PStr PLACEHOLDER)] \<and>
   list_all apart (rd_variants demo_secrets)"
proof -
  have "list_all substitutes (rd_passes demo_secrets)" by (simp add: demo_secrets_def literal_substitutes)
  from redaction_complete [OF this] have "clean demo_secrets (redact_value demo_secrets demo_payload) \<and>
    same_shape demo_payload (redact_value demo_secrets demo_payload)" .
  moreover have "list_all apart (rd_variants demo_secrets)" by code_simp
  ultimately show ?thesis using demo_payload_redacted by blast
qed

text \<open>The buffer redacts once over the whole input: when chunks are fed to a new buffer and finalised, the output is
  the redaction of the decoded concatenation of all chunks, however the input was split; the limits held; and
  afterwards the buffer holds nothing and refuses every further call.\<close>

theorem buffer_redacts_whole_input:
  assumes "new_buffer max_input max_output = Inr b" and "feed b chunks = (b', Inr ())"
    and "finalize C R b' = (b'', Inr out)"
  shows "\<exists>decoded. co_decode C (concat (map the chunks)) = Some decoded \<and> out = redact_text R decoded \<and>
           int (length (concat (map the chunks))) \<le> max_input \<and>
           co_size C out \<le> (case max_output of None \<Rightarrow> max_input | Some n \<Rightarrow> n) \<and>
           rb_buffer b'' = [] \<and> \<not> is_ok (snd (feed b'' more_chunks)) \<and> \<not> is_ok (snd (finalize C R b''))"
proof -
  from assms(1) have b: "rb_buffer b = []" "\<not> rb_finalized b" "rb_max_input_bytes b = max_input" "0 < max_input"
    "rb_max_output_bytes b = (case max_output of None \<Rightarrow> max_input | Some n \<Rightarrow> n)"
    by (auto simp: new_buffer_def split: if_splits)
  from assms(2) b have b': "b' = b\<lparr>rb_buffer := concat (map the chunks)\<rparr>"
    "int (length (concat (map the chunks))) \<le> max_input"
    by (simp_all add: feed_def feed_chunks_ok_iff)
  from assms(3) b b' show ?thesis
    by (auto simp: finalize_def feed_def close_buffer_def Let_def split: option.splits if_splits)
qed

definition demo_codec_bytes :: codec where
  "demo_codec_bytes = \<lparr>co_decode = (\<lambda>bs. Some (map (\<lambda>w. char_of (unat w)) bs)), co_size = (\<lambda>s. int (length s))\<rparr>"

definition demo_redactor :: redactor where
  "demo_redactor = \<lparr>rd_variants = [''hunter2!''], rd_passes = []\<rparr>"

definition demo_bytes :: "string \<Rightarrow> 8 word list option" where
  "demo_bytes s = Some (map (\<lambda>c. of_nat (of_char c)) s)"

theorem buffer_redacts_whole_input_witness:
  "\<exists>b b' b''. new_buffer 64 None = Inr b \<and> feed b [demo_bytes ''pw=hun'', demo_bytes ''ter2!;''] = (b', Inr ()) \<and>
     finalize demo_codec_bytes demo_redactor b' = (b'', Inr ''pw=[REDACTED];'') \<and> rb_buffer b'' = []"
proof -
  let ?cs = "[demo_bytes ''pw=hun'', demo_bytes ''ter2!;'']"
  let ?b = "\<lparr>rb_max_input_bytes = 64, rb_max_output_bytes = 64, rb_buffer = [], rb_finalized = False\<rparr>"
  let ?b' = "?b\<lparr>rb_buffer := concat (map the ?cs)\<rparr>"
  let ?b'' = "?b\<lparr>rb_finalized := True\<rparr>"
  have n: "new_buffer 64 None = Inr ?b" by code_simp
  have f: "feed ?b ?cs = (?b', Inr ())" by code_simp
  have z: "finalize demo_codec_bytes demo_redactor ?b' = (?b'', Inr ''pw=[REDACTED];'')" by code_simp
  from buffer_redacts_whole_input [OF n f z] n f z show ?thesis by blast
qed

end
