(* ===== verification/Event_Log.thy ===== *)
theory Event_Log
  imports Audit_Chain_Facts Redaction
begin

text \<open>
  The transactional event log of \<^verbatim>\<open>src/src/vulnloom/storage/events.py\<close>. The table \<^verbatim>\<open>domain_events\<close> is the list of
  its rows in the order of the autoincremented sequence. The \<^verbatim>\<open>payload_json\<close> column is the JSON document as a
  \<open>jval\<close>: \<open>to_json\<close> is \<^verbatim>\<open>json.dumps(..., sort_keys=True)\<close>, undefined where it raises \<^verbatim>\<open>TypeError\<close>, and
  \<open>py_of_json\<close> is \<^verbatim>\<open>json.loads\<close>. The identifier and time columns hold the printed UUID and ISO time, which
  the model keeps as the values they print. A call returns its result and the database afterwards;
  a failing transaction is rolled back, so the database is then the one before.
\<close>

section \<open>JSON documents\<close>

fun to_json :: "pyval \<Rightarrow> jval option" where
  "to_json PNone = Some JNull"
| "to_json (PBool b) = Some (JBool b)"
| "to_json (PInt i) = Some (JInt i)"
| "to_json (PFloat r) = Some (JFloat r)"
| "to_json (PStr s) = Some (JStr s)"
| "to_json (PEnum s) = Some (JStr s)"
| "to_json (PList xs) = map_option JArr (those (map to_json xs))"
| "to_json (PDict kvs) =
     map_option (\<lambda>js. JObj (sort_key fst js)) (those (map (\<lambda>kv. map_option (Pair (fst kv)) (to_json (snd kv))) kvs))"
| "to_json v = None"

fun py_of_json :: "jval \<Rightarrow> pyval" where
  "py_of_json JNull = PNone"
| "py_of_json (JBool b) = PBool b"
| "py_of_json (JInt i) = PInt i"
| "py_of_json (JFloat r) = PFloat r"
| "py_of_json (JStr s) = PStr s"
| "py_of_json (JArr xs) = PList (map py_of_json xs)"
| "py_of_json (JObj kvs) = PDict (map (\<lambda>kv. (fst kv, py_of_json (snd kv))) kvs)"

text \<open>Python's \<^verbatim>\<open>==\<close> on values read from JSON: numbers and booleans compare by value, dictionaries
  without regard to order. A value that JSON cannot hold equals none that it can.\<close>

fun jnorm :: "jval \<Rightarrow> jval" where
  "jnorm JNull = JNull"
| "jnorm (JBool b) = JFloat (of_bool b)"
| "jnorm (JInt i) = JFloat (of_int i)"
| "jnorm (JFloat r) = JFloat r"
| "jnorm (JStr s) = JStr s"
| "jnorm (JArr xs) = JArr (map jnorm xs)"
| "jnorm (JObj kvs) = JObj (sort_key fst (map (\<lambda>kv. (fst kv, jnorm (snd kv))) kvs))"

definition py_equal :: "pyval \<Rightarrow> pyval \<Rightarrow> bool" where
  "py_equal v w \<longleftrightarrow>
     (case (to_json v, to_json w) of (Some a, Some b) \<Rightarrow> jnorm a = jnorm b | _ \<Rightarrow> False)"

section \<open>Events\<close>

record Event =
  evt_id :: uuid
  evt_engagement_id :: uuid
  evt_type :: string
  evt_aggregate_id :: string
  evt_payload :: "(string \<times> pyval) list"
  evt_occurred_at :: instant
  evt_idempotency_key :: string

definition Event_valid :: "Event \<Rightarrow> bool" where
  "Event_valid e \<longleftrightarrow> evt_type e \<noteq> [] \<and> evt_aggregate_id e \<noteq> [] \<and> evt_idempotency_key e \<noteq> []"

definition Event_dump :: "Event \<Rightarrow> pyval" where
  "Event_dump e = PDict
     [(''event_id'', PUuid (evt_id e)), (''engagement_id'', PUuid (evt_engagement_id e)),
      (''event_type'', PStr (evt_type e)), (''aggregate_id'', PStr (evt_aggregate_id e)),
      (''payload'', PDict (evt_payload e)), (''occurred_at'', PTime (evt_occurred_at e)),
      (''idempotency_key'', PStr (evt_idempotency_key e))]"

definition CONTROL_PLANE_AUDIT_EVENT_TYPE :: string where
  "CONTROL_PLANE_AUDIT_EVENT_TYPE = ''control_plane.event_committed''"

definition control_plane_audit_stream_id :: "(pyval \<Rightarrow> digest) \<Rightarrow> uuid \<Rightarrow> digest" where
  "control_plane_audit_stream_id H engagement_id = H (PDict
     [(''audit_stream'', PStr ''control-plane-events-v1''), (''engagement_id'', PUuid engagement_id)])"

definition idempotency_content :: "Event \<Rightarrow> pyval" where
  "idempotency_content e = PDict
     [(''contract'', PStr ''control-plane-event-idempotency-v1''),
      (''engagement_id'', PUuid (evt_engagement_id e)),
      (''idempotency_key'', PStr (evt_idempotency_key e))]"

definition event_idempotency_digest :: "(pyval \<Rightarrow> digest) \<Rightarrow> Event \<Rightarrow> digest" where
  "event_idempotency_digest H e = H (idempotency_content e)"

definition event_transition_digest :: "(pyval \<Rightarrow> digest) \<Rightarrow> Event \<Rightarrow> digest \<Rightarrow> digest" where
  "event_transition_digest H e idem = H (PDict
     [(''contract'', PStr ''control-plane-event-transition-v1''), (''event'', Event_dump e),
      (''idempotency_digest'', PStr idem)])"

definition event_aggregate_digest :: "(pyval \<Rightarrow> digest) \<Rightarrow> Event \<Rightarrow> digest" where
  "event_aggregate_digest H e = H (PDict
     [(''engagement_id'', PUuid (evt_engagement_id e)), (''aggregate_id'', PStr (evt_aggregate_id e))])"

section \<open>The store\<close>

datatype event_error =
    EventValueError string
  | EventTypeError
  | EventSqliteIntegrityError
  | IdempotencyConflict
  | AtomicAuditRecoveryRequired string
  | EventAuditError audit_error

record event_row =
  er_event_id :: uuid
  er_engagement_id :: uuid
  er_event_type :: string
  er_aggregate_id :: string
  er_payload_json :: jval
  er_occurred_at :: instant
  er_idempotency_key :: string

record 'j event_env =
  ee_audit :: "'j audit_env"
  ee_redactor :: redactor

record 'j event_db =
  ed_events :: "event_row list"
  ed_audit :: "'j audit_db"

definition empty_event_db :: "'j event_db" where
  "empty_event_db = \<lparr>ed_events = [], ed_audit = empty_audit\<rparr>"

abbreviation event_digest :: "'j event_env \<Rightarrow> pyval \<Rightarrow> digest" where
  "event_digest E \<equiv> ae_digest (ee_audit E)"

text \<open>\<^verbatim>\<open>_from_row\<close>: \<open>None\<close> is the \<^verbatim>\<open>ValueError\<close> of the model's validation.\<close>

definition from_row :: "event_row \<Rightarrow> Event option" where
  "from_row row =
     (case py_of_json (er_payload_json row) of
        PDict kvs \<Rightarrow>
          (let e = \<lparr>evt_id = er_event_id row, evt_engagement_id = er_engagement_id row,
                    evt_type = er_event_type row, evt_aggregate_id = er_aggregate_id row,
                    evt_payload = kvs, evt_occurred_at = er_occurred_at row,
                    evt_idempotency_key = er_idempotency_key row\<rparr>
           in if Event_valid e then Some e else None)
      | _ \<Rightarrow> None)"

definition row_of_event :: "Event \<Rightarrow> jval \<Rightarrow> event_row" where
  "row_of_event e encoded =
     \<lparr>er_event_id = evt_id e, er_engagement_id = evt_engagement_id e, er_event_type = evt_type e,
      er_aggregate_id = evt_aggregate_id e, er_payload_json = encoded,
      er_occurred_at = evt_occurred_at e, er_idempotency_key = evt_idempotency_key e\<rparr>"

text \<open>The redacted copy of an event. Redacting a dictionary gives a dictionary with the same keys.\<close>

definition safe_event :: "redactor \<Rightarrow> Event \<Rightarrow> Event" where
  "safe_event R e =
     e\<lparr>evt_payload := (case redact_value R (PDict (evt_payload e)) of PDict kvs \<Rightarrow> kvs | _ \<Rightarrow> [])\<rparr>"

text \<open>The two uniqueness constraints of the table.\<close>

definition event_conflict :: "event_row list \<Rightarrow> Event \<Rightarrow> bool" where
  "event_conflict rows e \<longleftrightarrow>
     list_ex (\<lambda>r. er_event_id r = evt_id e \<or> er_idempotency_key r = evt_idempotency_key e) rows"

definition find_event :: "event_row list \<Rightarrow> string \<Rightarrow> event_row option" where
  "find_event rows key = List.find (\<lambda>r. er_idempotency_key r = key) rows"

text \<open>\<^verbatim>\<open>_assert_idempotent\<close>, which \<^verbatim>\<open>append\<close> repeats inline\<close>

definition same_event :: "Event \<Rightarrow> Event \<Rightarrow> bool" where
  "same_event existing requested \<longleftrightarrow>
     \<not> (evt_engagement_id existing \<noteq> evt_engagement_id requested \<or> evt_type existing \<noteq> evt_type requested \<or>
        evt_aggregate_id existing \<noteq> evt_aggregate_id requested \<or>
        \<not> py_equal (PDict (evt_payload existing)) (PDict (evt_payload requested)))"

text \<open>\<^verbatim>\<open>append\<close>\<close>

definition append_event ::
  "'j event_env \<Rightarrow> 'j event_db \<Rightarrow> Event \<Rightarrow> (event_error + Event \<times> bool) \<times> 'j event_db" where
  "append_event E db event =
     (let safe = safe_event (ee_redactor E) event in
      case to_json (PDict (evt_payload safe)) of
        None \<Rightarrow> (Inl EventTypeError, db)
      | Some encoded \<Rightarrow>
          if \<not> event_conflict (ed_events db) safe
          then (Inr (safe, True), db\<lparr>ed_events := ed_events db @ [row_of_event safe encoded]\<rparr>)
          else (case find_event (ed_events db) (evt_idempotency_key event) of
                  None \<Rightarrow> (Inl EventSqliteIntegrityError, db)
                | Some row \<Rightarrow>
                    (case from_row row of
                       None \<Rightarrow> (Inl (EventValueError ''stored event''), db)
                     | Some existing \<Rightarrow>
                         if same_event existing safe then (Inr (existing, False), db)
                         else (Inl IdempotencyConflict, db))))"

text \<open>\<^verbatim>\<open>_audit_plan\<close>\<close>

definition audit_plan ::
  "(pyval \<Rightarrow> digest) \<Rightarrow> Event \<Rightarrow> AuditStateBindings \<Rightarrow> instant \<Rightarrow> event_error + AuditAppendPlan" where
  "audit_plan H e bindings deadline =
     (let idem = event_idempotency_digest H e in
      case AuditAppendPlan_create H
        \<lparr>ap_plan_id = [], ap_contract_digest = [],
         ap_stream_id = control_plane_audit_stream_id H (evt_engagement_id e),
         ap_event_type = CONTROL_PLANE_AUDIT_EVENT_TYPE, ap_aggregate_id = event_aggregate_digest H e,
         ap_transition_digest = event_transition_digest H e idem, ap_bindings = bindings,
         ap_outcome = AO_COMMITTED, ap_cleanup_verified = True, ap_occurred_at = evt_occurred_at e,
         ap_deadline = deadline, ap_idempotency_digest = idem\<rparr>
      of None \<Rightarrow> Inl (EventValueError ''audit append plan'') | Some p \<Rightarrow> Inr p)"

text \<open>\<^verbatim>\<open>append_in_transaction\<close> and \<^verbatim>\<open>verify_in_transaction\<close> of the audit store\<close>

definition append_in_transaction ::
  "'j audit_env \<Rightarrow> 'j audit_db \<Rightarrow> AuditAppendPlan \<Rightarrow> instant \<Rightarrow> AuditCheckpoint
   \<Rightarrow> event_error + AuditRecord \<times> 'j audit_db" where
  "append_in_transaction A db p now trusted =
     (if \<not> AuditAppendPlan_valid (ae_digest A) p \<or> \<not> AuditCheckpoint_valid (ae_digest A) trusted
      then Inl (EventAuditError AuditValueError)
      else case append_locked A db p now (Some trusted) of
        Inl e \<Rightarrow> Inl (EventAuditError e) | Inr r \<Rightarrow> Inr r)"

definition verify_in_transaction ::
  "'j audit_env \<Rightarrow> 'j audit_db \<Rightarrow> digest \<Rightarrow> instant \<Rightarrow> AuditCheckpoint
   \<Rightarrow> event_error + AuditVerificationResult" where
  "verify_in_transaction A db sid now trusted =
     (if \<not> AuditCheckpoint_valid (ae_digest A) trusted then Inl (EventAuditError AuditValueError)
      else Inr (verify_locked A db sid now (Some trusted)))"

section \<open>Event and audit pairs\<close>

definition engagement_rows :: "'j event_db \<Rightarrow> uuid \<Rightarrow> event_row list" where
  "engagement_rows db engagement_id = filter (\<lambda>r. er_engagement_id r = engagement_id) (ed_events db)"

text \<open>The dictionary of decoded records by idempotency digest, as its items in insertion order.\<close>

definition record_items :: "'j audit_env \<Rightarrow> 'j audit_row list \<Rightarrow> (digest \<times> AuditRecord) list option" where
  "record_items A rows =
     those (map (\<lambda>row. map_option (Pair (row_idempotency_digest row)) (decode_record A (row_record_json row))) rows)"

definition lookup_record :: "(digest \<times> AuditRecord) list \<Rightarrow> digest \<Rightarrow> AuditRecord option" where
  "lookup_record items d = map_of (rev items) d"

definition pair_bound :: "(pyval \<Rightarrow> digest) \<Rightarrow> uuid \<Rightarrow> (digest \<times> AuditRecord) list \<Rightarrow> Event \<Rightarrow> bool" where
  "pair_bound H engagement_id items e \<longleftrightarrow>
     (case lookup_record items (event_idempotency_digest H e) of
        None \<Rightarrow> False
      | Some r \<Rightarrow>
          ar_event_type r = CONTROL_PLANE_AUDIT_EVENT_TYPE \<and>
          sb_engagement_id (ar_bindings r) = engagement_id \<and>
          ar_aggregate_id r = event_aggregate_digest H e \<and>
          ar_transition_digest r = event_transition_digest H e (event_idempotency_digest H e))"

text \<open>\<^verbatim>\<open>_assert_authoritative_pairs_locked\<close>\<close>

definition assert_authoritative_pairs ::
  "'j event_env \<Rightarrow> 'j event_db \<Rightarrow> uuid \<Rightarrow> digest \<Rightarrow> event_error + Event list" where
  "assert_authoritative_pairs E db engagement_id stream_id =
     (case (those (map from_row (engagement_rows db engagement_id)),
            record_items (ee_audit E) (stream_rows (ed_audit db) stream_id)) of
        (Some events, Some items) \<Rightarrow>
          if length events \<noteq> length (remdups (map fst items))
          then Inl (AtomicAuditRecoveryRequired ''authoritative event/audit pair count differs'')
          else if list_ex (\<lambda>e. \<not> pair_bound (event_digest E) engagement_id items e) events
          then Inl (AtomicAuditRecoveryRequired ''authoritative event/audit binding differs'')
          else Inr events
      | _ \<Rightarrow> Inl (AtomicAuditRecoveryRequired ''authoritative event/audit pair cannot be decoded''))"

section \<open>Authoritative operations\<close>

text \<open>The body of the transaction of \<^verbatim>\<open>append_authoritative\<close>, on the redacted event.\<close>

definition append_authoritative_locked ::
  "'j event_env \<Rightarrow> 'j event_db \<Rightarrow> Event \<Rightarrow> AuditStateBindings \<Rightarrow> AuditCheckpoint \<Rightarrow> instant \<Rightarrow> instant
   \<Rightarrow> event_error + (Event \<times> AuditRecord \<times> bool) \<times> 'j event_db" where
  "append_authoritative_locked E db safe bindings trusted deadline now =
     (let H = event_digest E;
          stream_id = control_plane_audit_stream_id H (evt_engagement_id safe)
      in bind_result (verify_in_transaction (ee_audit E) (ed_audit db) stream_id now trusted) (\<lambda>v.
      if avr_status v \<noteq> AV_VERIFIED
      then Inl (EventAuditError (AuditIntegrityError (''authoritative event refused: '' @ failure_text v)))
      else bind_result (assert_authoritative_pairs E db (evt_engagement_id safe) stream_id) (\<lambda>_.
      let existing_row = find_event (ed_events db) (evt_idempotency_key safe);
          audit_exists = contains_idempotency (ed_audit db) stream_id (event_idempotency_digest H safe)
      in if (existing_row \<noteq> None) \<noteq> audit_exists
      then Inl (AtomicAuditRecoveryRequired ''authoritative event/audit pair is incomplete'')
      else case existing_row of
        Some row \<Rightarrow>
          (case from_row row of
             None \<Rightarrow> Inl (EventValueError ''stored event'')
           | Some existing \<Rightarrow>
               if \<not> same_event existing safe then Inl IdempotencyConflict
               else bind_result (audit_plan H existing bindings
                      (evt_occurred_at existing + (deadline - evt_occurred_at safe))) (\<lambda>p.
                 bind_result (append_in_transaction (ee_audit E) (ed_audit db) p now trusted) (\<lambda>(r, adb).
                 Inr ((existing, r, False), db\<lparr>ed_audit := adb\<rparr>))))
      | None \<Rightarrow>
          bind_result (audit_plan H safe bindings deadline) (\<lambda>p.
          case to_json (PDict (evt_payload safe)) of
            None \<Rightarrow> Inl EventTypeError
          | Some encoded \<Rightarrow>
              if event_conflict (ed_events db) safe then Inl EventSqliteIntegrityError
              else bind_result (append_in_transaction (ee_audit E) (ed_audit db) p now trusted) (\<lambda>(r, adb).
                Inr ((safe, r, True),
                  db\<lparr>ed_events := ed_events db @ [row_of_event safe encoded], ed_audit := adb\<rparr>))))))"

definition append_authoritative ::
  "'j event_env \<Rightarrow> 'j event_db \<Rightarrow> Event \<Rightarrow> AuditStateBindings \<Rightarrow> AuditCheckpoint \<Rightarrow> instant \<Rightarrow> instant
   \<Rightarrow> (event_error + Event \<times> AuditRecord \<times> bool) \<times> 'j event_db" where
  "append_authoritative E db event bindings trusted deadline now =
     (if \<not> Event_valid event \<or> \<not> AuditStateBindings_valid bindings
      then (Inl (EventValueError ''invalid event or bindings''), db)
      else if sb_engagement_id bindings \<noteq> evt_engagement_id event
      then (Inl (EventValueError ''audit bindings must match the event Engagement''), db)
      else case append_authoritative_locked E db (safe_event (ee_redactor E) event) bindings trusted deadline now of
        Inl e \<Rightarrow> (Inl e, db)
      | Inr (x, db') \<Rightarrow> (Inr x, db'))"

definition list_authoritative_for_engagement ::
  "'j event_env \<Rightarrow> 'j event_db \<Rightarrow> uuid \<Rightarrow> AuditCheckpoint \<Rightarrow> instant \<Rightarrow> event_error + Event list" where
  "list_authoritative_for_engagement E db engagement_id trusted now =
     (let stream_id = control_plane_audit_stream_id (event_digest E) engagement_id in
      bind_result (verify_in_transaction (ee_audit E) (ed_audit db) stream_id now trusted) (\<lambda>v.
      if avr_status v \<noteq> AV_VERIFIED
      then Inl (EventAuditError (AuditIntegrityError (''authoritative event query refused: '' @ failure_text v)))
      else assert_authoritative_pairs E db engagement_id stream_id))"

definition list_for_engagement :: "'j event_db \<Rightarrow> uuid \<Rightarrow> event_error + Event list" where
  "list_for_engagement db engagement_id =
     (case those (map from_row (engagement_rows db engagement_id)) of
        None \<Rightarrow> Inl (EventValueError ''stored event'') | Some events \<Rightarrow> Inr events)"

definition authoritative_state_is_empty :: "'j event_env \<Rightarrow> 'j event_db \<Rightarrow> uuid \<Rightarrow> bool" where
  "authoritative_state_is_empty E db engagement_id \<longleftrightarrow>
     (let stream_id = control_plane_audit_stream_id (event_digest E) engagement_id in
      length (engagement_rows db engagement_id) = 0 \<and>
      length (stream_rows (ed_audit db) stream_id) = 0 \<and> db_heads (ed_audit db) stream_id = None)"

end
