(* ===== verification/Event_Log_Facts.thy ===== *)
theory Event_Log_Facts
  imports Event_Log
begin

text \<open>
  Facts on the event log: the JSON round trip of payloads, the two ways an authoritative append succeeds,
  and the invariant that every event row is paired with the audit row that seals it.
\<close>

section \<open>JSON documents\<close>

lemma those_map: "those (map f xs) = (if \<exists>x\<in>set xs. f x = None then None else Some (map (\<lambda>x. the (f x)) xs))"
  by (induction xs) (auto split: option.splits)

lemma those_items:
  "those (map (\<lambda>kv. map_option (Pair (fst kv)) (f (snd kv))) kvs) =
     (if \<exists>kv\<in>set kvs. f (snd kv) = None then None else Some (map (\<lambda>kv. (fst kv, the (f (snd kv)))) kvs))"
  by (induction kvs) (auto split: option.splits)

lemma to_json_PDict:
  "to_json (PDict kvs) =
     (if \<exists>kv\<in>set kvs. to_json (snd kv) = None then None
      else Some (JObj (sort_key fst (map (\<lambda>kv. (fst kv, the (to_json (snd kv)))) kvs))))"
  by (simp add: those_items)

lemma to_json_PList:
  "to_json (PList xs) =
     (if \<exists>x\<in>set xs. to_json x = None then None else Some (JArr (map (\<lambda>x. the (to_json x)) xs)))"
  by (auto simp: those_map)

fun enum_free :: "pyval \<Rightarrow> bool" where
  "enum_free (PEnum s) \<longleftrightarrow> False"
| "enum_free (PList xs) \<longleftrightarrow> list_all enum_free xs"
| "enum_free (PDict kvs) \<longleftrightarrow> list_all (\<lambda>kv. enum_free (snd kv)) kvs"
| "enum_free v \<longleftrightarrow> True"

lemma redact_value_enum_free: "enum_free (redact_value R v)"
  by (induction R v rule: redact_value.induct) (auto simp: list_all_iff)

lemma py_of_json_to_json: "enum_free v \<Longrightarrow> to_json v = Some j \<Longrightarrow> py_of_json j = sort_dicts v"
proof (induction v arbitrary: j rule: to_json.induct)
  case (7 xs)
  then have "\<forall>x\<in>set xs. py_of_json (the (to_json x)) = sort_dicts x"
    by (fastforce simp: list_all_iff simp del: to_json.simps simp: to_json_PList split: if_splits)
  with 7 show ?case
    by (auto simp: to_json_PList simp del: to_json.simps split: if_splits)
next
  case (8 kvs)
  then have "\<forall>kv\<in>set kvs. py_of_json (the (to_json (snd kv))) = sort_dicts (snd kv)"
    by (fastforce simp: list_all_iff simp del: to_json.simps simp: to_json_PDict split: if_splits)
  then have "map (\<lambda>kv. (fst kv, py_of_json (the (to_json (snd kv))))) kvs =
      map (\<lambda>kv. (fst kv, sort_dicts (snd kv))) kvs" by auto
  moreover from 8 have "j = JObj (sort_key fst (map (\<lambda>kv. (fst kv, the (to_json (snd kv)))) kvs))"
    by (simp add: to_json_PDict del: to_json.simps split: if_splits)
  ultimately show ?case
    using sort_key_fst_map [of py_of_json "map (\<lambda>kv. (fst kv, the (to_json (snd kv)))) kvs"]
    by (simp only: py_of_json.simps sort_dicts.simps map_map comp_def fst_conv snd_conv)
qed auto

lemma to_json_sort_dicts: "to_json (sort_dicts v) = to_json v"
proof (induction v rule: sort_dicts.induct)
  case (1 kvs)
  let ?f = "\<lambda>kv. (fst kv, the (to_json (snd kv)))"
  have none: "(\<exists>kv\<in>set (sort_key fst (map (\<lambda>kv. (fst kv, sort_dicts (snd kv))) kvs)). to_json (snd kv) = None) \<longleftrightarrow>
      (\<exists>kv\<in>set kvs. to_json (snd kv) = None)"
    using "1.IH" by auto
  have "map (\<lambda>kv. (fst kv, the (to_json (sort_dicts (snd kv))))) kvs = map ?f kvs"
    using "1.IH" by (intro map_cong) auto
  then have "sort_key fst (map ?f (sort_key fst (map (\<lambda>kv. (fst kv, sort_dicts (snd kv))) kvs))) =
      sort_key fst (map ?f kvs)"
    using sort_key_fst_absorb [of "\<lambda>v. the (to_json v)" "map (\<lambda>kv. (fst kv, sort_dicts (snd kv))) kvs"]
    by (simp only: map_map comp_def fst_conv snd_conv)
  then show ?case
    unfolding sort_dicts.simps to_json_PDict none by (simp only:)
next
  case (3 xs)
  then have "map (\<lambda>x. to_json (sort_dicts x)) xs = map to_json xs" by auto
  then show ?case by (simp only: sort_dicts.simps to_json.simps map_map comp_def)
qed simp_all

lemma py_equal_stored:
  assumes "enum_free v" and "to_json v = Some j"
  shows "py_equal (py_of_json j) v"
  using py_of_json_to_json [OF assms] assms(2) by (simp add: py_equal_def to_json_sort_dicts)

lemma sort_dicts_PDict: "sort_dicts (PDict kvs) = PDict (sort_key fst (map (\<lambda>kv. (fst kv, sort_dicts (snd kv))) kvs))"
  by simp

section \<open>Stored events\<close>

text \<open>The event that is read back from the row of a redacted event.\<close>

definition stored_form :: "Event \<Rightarrow> Event" where
  "stored_form e = e\<lparr>evt_payload := sort_key fst (map (\<lambda>kv. (fst kv, sort_dicts (snd kv))) (evt_payload e))\<rparr>"

lemma stored_form_simps [simp]:
  "evt_id (stored_form e) = evt_id e" "evt_engagement_id (stored_form e) = evt_engagement_id e"
  "evt_type (stored_form e) = evt_type e" "evt_aggregate_id (stored_form e) = evt_aggregate_id e"
  "evt_occurred_at (stored_form e) = evt_occurred_at e"
  "evt_idempotency_key (stored_form e) = evt_idempotency_key e"
  "PDict (evt_payload (stored_form e)) = sort_dicts (PDict (evt_payload e))"
  by (simp_all add: stored_form_def)

lemma safe_event_simps [simp]:
  "evt_id (safe_event R e) = evt_id e" "evt_engagement_id (safe_event R e) = evt_engagement_id e"
  "evt_type (safe_event R e) = evt_type e" "evt_aggregate_id (safe_event R e) = evt_aggregate_id e"
  "evt_occurred_at (safe_event R e) = evt_occurred_at e"
  "evt_idempotency_key (safe_event R e) = evt_idempotency_key e"
  "PDict (evt_payload (safe_event R e)) = redact_value R (PDict (evt_payload e))"
  by (simp_all add: safe_event_def)

lemma Event_valid_safe [simp]: "Event_valid (safe_event R e) = Event_valid e"
  by (simp add: Event_valid_def)

lemma from_row_of_event:
  assumes "enum_free (PDict (evt_payload e))" and "to_json (PDict (evt_payload e)) = Some j" and "Event_valid e"
  shows "from_row (row_of_event e j) = Some (stored_form e)"
  using py_of_json_to_json [OF assms(1,2)] assms(3)
  by (simp add: from_row_def row_of_event_def stored_form_def Event_valid_def)

lemma same_event_stored:
  assumes "enum_free (PDict (evt_payload e))" and "to_json (PDict (evt_payload e)) = Some j"
  shows "same_event (stored_form e) e"
  using py_equal_stored [OF assms] py_of_json_to_json [OF assms] unfolding same_event_def by simp

lemma digests_stored_form:
  assumes "order_independent H"
  shows "event_idempotency_digest H (stored_form e) = event_idempotency_digest H e"
    and "event_transition_digest H (stored_form e) d = event_transition_digest H e d"
    and "event_aggregate_digest H (stored_form e) = event_aggregate_digest H e"
proof -
  show "event_idempotency_digest H (stored_form e) = event_idempotency_digest H e"
    by (simp add: event_idempotency_digest_def idempotency_content_def)
  show "event_aggregate_digest H (stored_form e) = event_aggregate_digest H e"
    by (simp add: event_aggregate_digest_def)
  have "sort_dicts (Event_dump (stored_form e)) = sort_dicts (Event_dump e)"
    using sort_dicts_idem [of "PDict (evt_payload e)"]
    unfolding Event_dump_def stored_form_simps by (simp del: sort_dicts.simps(1) add: sort_dicts_PDict)
  then show "event_transition_digest H (stored_form e) d = event_transition_digest H e d"
    unfolding event_transition_digest_def by (intro order_independentD [OF assms]) simp
qed

section \<open>Authoritative appends\<close>

text \<open>An event row and the audit row that seals it.\<close>

definition paired :: "'j event_env \<Rightarrow> uuid \<Rightarrow> event_row \<Rightarrow> 'j audit_row \<Rightarrow> bool" where
  "paired E g row arow \<longleftrightarrow>
     (\<exists>e r. from_row row = Some e \<and> decode_record (ee_audit E) (row_record_json arow) = Some r \<and>
        evt_engagement_id e = g \<and> er_idempotency_key row = evt_idempotency_key e \<and>
        row_idempotency_digest arow = event_idempotency_digest (event_digest E) e \<and>
        ar_event_type r = CONTROL_PLANE_AUDIT_EVENT_TYPE \<and> sb_engagement_id (ar_bindings r) = g \<and>
        ar_aggregate_id r = event_aggregate_digest (event_digest E) e \<and>
        ar_transition_digest r =
          event_transition_digest (event_digest E) e (event_idempotency_digest (event_digest E) e))"

abbreviation event_stream :: "'j event_env \<Rightarrow> uuid \<Rightarrow> digest" where
  "event_stream E g \<equiv> control_plane_audit_stream_id (event_digest E) g"

definition event_inv :: "'j event_env \<Rightarrow> uuid set \<Rightarrow> 'j event_db \<Rightarrow> bool" where
  "event_inv E G db \<longleftrightarrow>
     audit_inv (ee_audit E) (ed_audit db) \<and> distinct (map er_idempotency_key (ed_events db)) \<and>
     (\<forall>g\<in>G. list_all2 (paired E g) (engagement_rows db g) (stream_rows (ed_audit db) (event_stream E g)) \<and>
        distinct (map row_idempotency_digest (stream_rows (ed_audit db) (event_stream E g))))"

lemma append_in_transaction_Inr_iff:
  "append_in_transaction A db p now trusted = Inr (r, db') \<longleftrightarrow>
     AuditAppendPlan_valid (ae_digest A) p \<and> AuditCheckpoint_valid (ae_digest A) trusted \<and>
     append_locked A db p now (Some trusted) = Inr (r, db')"
  by (auto simp: append_in_transaction_def split: sum.splits)

lemma audit_plan_Inr:
  assumes "audit_plan H e bindings deadline = Inr p"
  shows "AuditAppendPlan_valid H p" "ap_stream_id p = control_plane_audit_stream_id H (evt_engagement_id e)"
    "ap_event_type p = CONTROL_PLANE_AUDIT_EVENT_TYPE" "ap_aggregate_id p = event_aggregate_digest H e"
    "ap_transition_digest p = event_transition_digest H e (event_idempotency_digest H e)"
    "ap_bindings p = bindings" "ap_idempotency_digest p = event_idempotency_digest H e"
    "ap_occurred_at p = evt_occurred_at e" "ap_deadline p = deadline"
  using assms
  by (auto simp: audit_plan_def AuditAppendPlan_create_def Let_def split: if_splits option.splits)

text \<open>The two ways an authoritative append succeeds.\<close>

lemma append_authoritative_locked_cases:
  assumes "append_authoritative_locked E db safe bindings trusted deadline now = Inr ((e, r, fresh), db')"
  obtains (replayed) row where "\<not> fresh" and "db' = db"
      and "find_event (ed_events db) (evt_idempotency_key safe) = Some row" and "from_row row = Some e"
      and "same_event e safe"
  | (appended) p encoded adb where "fresh" and "e = safe"
      and "audit_plan (event_digest E) safe bindings deadline = Inr p"
      and "to_json (PDict (evt_payload safe)) = Some encoded" and "\<not> event_conflict (ed_events db) safe"
      and "\<not> contains_idempotency (ed_audit db) (ap_stream_id p) (ap_idempotency_digest p)"
      and "AuditCheckpoint_valid (event_digest E) trusted"
      and "append_locked (ee_audit E) (ed_audit db) p now (Some trusted) = Inr (r, adb)"
      and "db' = db\<lparr>ed_events := ed_events db @ [row_of_event safe encoded], ed_audit := adb\<rparr>"
proof (cases "find_event (ed_events db) (evt_idempotency_key safe)")
  case None
  from assms None obtain p encoded adb where
    p: "audit_plan (event_digest E) safe bindings deadline = Inr p"
    and "to_json (PDict (evt_payload safe)) = Some encoded" "\<not> event_conflict (ed_events db) safe"
    and "append_in_transaction (ee_audit E) (ed_audit db) p now trusted = Inr (r, adb)"
    and "\<not> contains_idempotency (ed_audit db) (event_stream E (evt_engagement_id safe))
           (event_idempotency_digest (event_digest E) safe)"
    and "fresh" "e = safe"
    and "db' = db\<lparr>ed_events := ed_events db @ [row_of_event safe encoded], ed_audit := adb\<rparr>"
    by (auto simp: append_authoritative_locked_def Let_def result_simps split: if_splits option.splits)
  then show thesis
    by (intro appended [of p encoded adb]) (auto simp: append_in_transaction_Inr_iff audit_plan_Inr [OF p])
next
  case (Some row)
  from assms Some obtain p adb where row: "from_row row = Some e" "same_event e safe" "\<not> fresh"
    and p: "audit_plan (event_digest E) e bindings (evt_occurred_at e + (deadline - evt_occurred_at safe)) = Inr p"
    and app: "append_in_transaction (ee_audit E) (ed_audit db) p now trusted = Inr (r, adb)"
    and contains: "contains_idempotency (ed_audit db) (event_stream E (evt_engagement_id safe))
           (event_idempotency_digest (event_digest E) safe)"
    and db': "db' = db\<lparr>ed_audit := adb\<rparr>"
    by (auto simp: append_authoritative_locked_def Let_def result_simps split: if_splits option.splits)
  have "er_idempotency_key row = evt_idempotency_key safe"
    using Some by (auto simp: find_event_def find_Some_iff)
  moreover have "evt_idempotency_key e = er_idempotency_key row"
    using row(1) by (auto simp: from_row_def Let_def split: pyval.splits if_splits)
  ultimately have same: "evt_engagement_id e = evt_engagement_id safe"
    "evt_idempotency_key e = evt_idempotency_key safe"
    using row(2) by (auto simp: same_event_def)
  from app have "append_locked (ee_audit E) (ed_audit db) p now (Some trusted) = Inr (r, adb)"
    by (simp add: append_in_transaction_Inr_iff)
  then have "adb = ed_audit db"
  proof (cases rule: append_locked_cases)
    case (fresh v)
    with contains same show ?thesis
      by (simp add: audit_plan_Inr [OF p] event_idempotency_digest_def idempotency_content_def)
  qed
  with db' Some row show thesis by (intro replayed) auto
qed

lemma build_record_event_simps [simp]:
  "ar_event_type (build_record A p now n d) = ap_event_type p"
  "ar_aggregate_id (build_record A p now n d) = ap_aggregate_id p"
  "ar_transition_digest (build_record A p now n d) = ap_transition_digest p"
  by (simp_all add: build_record_def Let_def)

lemma paired_append:
  assumes "order_independent (event_digest E)"
    and "audit_plan (event_digest E) safe bindings deadline = Inr p"
    and "to_json (PDict (evt_payload safe)) = Some encoded" and "enum_free (PDict (evt_payload safe))"
    and "Event_valid safe" and "sb_engagement_id bindings = evt_engagement_id safe"
    and "r = build_record (ee_audit E) p now n d"
    and "decode_record (ee_audit E) (ae_json (ee_audit E) r) = Some r"
  shows "paired E (evt_engagement_id safe) (row_of_event safe encoded)
           (row_of_record (ee_audit E) r (ap_idempotency_digest p))"
proof -
  have "from_row (row_of_event safe encoded) = Some (stored_form safe)"
    using assms(3-5) by (intro from_row_of_event)
  then show ?thesis
    unfolding paired_def using assms(6-8)
    by (intro exI [of _ "stored_form safe"] exI [of _ r])
      (simp add: row_of_record_def row_of_event_def audit_plan_Inr [OF assms(2)] digests_stored_form [OF assms(1)])
qed

lemma event_inv_append:
  assumes inv: "event_inv E G db" and codec: "codec_ok (ee_audit E)" and ord: "order_independent (event_digest E)"
    and inj: "inj_on (event_stream E) G" and g: "evt_engagement_id safe \<in> G"
    and safe: "Event_valid safe" "enum_free (PDict (evt_payload safe))"
    and b: "sb_engagement_id bindings = evt_engagement_id safe"
    and app: "append_authoritative_locked E db safe bindings trusted deadline now = Inr ((e, r, fresh), db')"
  shows "event_inv E G db'"
  using app
proof (cases rule: append_authoritative_locked_cases)
  case (appended p encoded adb)
  let ?A = "ee_audit E" and ?g = "evt_engagement_id safe"
  note p = audit_plan_Inr [OF appended(3)]
  have ainv: "audit_inv ?A (ed_audit db)" using inv by (simp add: event_inv_def)
  have aapp: "append_audit ?A (ed_audit db) p now (Some trusted) = (Inr r, adb)"
    using appended(7,8) p(1) by (simp add: append_audit_Inr_iff trusted_valid_def)
  obtain rs where rs: "stream_inv ?A (ed_audit db) (ap_stream_id p) rs" "stream_inv ?A adb (ap_stream_id p) (rs @ [r])"
    and r: "r = build_record ?A p now (int (length rs) + 1) (head_digest_of ?A rs)"
    and ins: "insert_record ?A (ed_audit db) r (ap_idempotency_digest p) = Inr adb"
    by (rule append_not_contained [OF ainv codec aapp appended(6)])
  have rows: "stream_rows adb (ap_stream_id p) =
      stream_rows (ed_audit db) (ap_stream_id p) @ [row_of_record ?A r (ap_idempotency_digest p)]"
    by (rule stream_rows_insert_record [OF ins rs(1)]) (simp_all add: r)
  have "list_all2 (row_holds ?A) (stream_rows adb (ap_stream_id p)) (rs @ [r])"
    using rs(2) by (simp add: stream_inv_def chain_of_def)
  then have "row_holds ?A (row_of_record ?A r (ap_idempotency_digest p)) r"
    using rows by (auto simp: list_all2_append1 list_all2_Cons1)
  then have "decode_record ?A (ae_json ?A r) = Some r" by (simp add: row_holds_def row_of_record_def)
  then have pair: "paired E ?g (row_of_event safe encoded) (row_of_record ?A r (ap_idempotency_digest p))"
    using paired_append [OF ord appended(3,4) safe(2,1) b r] by simp
  have fresh_idem: "ap_idempotency_digest p \<notin> row_idempotency_digest ` set (stream_rows (ed_audit db) (ap_stream_id p))"
    using appended(6) by (auto simp: contains_idempotency_def list_ex_iff set_stream_rows)
  have other: "stream_rows adb (event_stream E g') = stream_rows (ed_audit db) (event_stream E g')"
    if "g' \<in> G" "g' \<noteq> ?g" for g'
    using that inj g insert_record_other_stream(1) [OF ins, of "event_stream E g'"]
    by (auto simp: r p(2) dest: inj_onD)
  have "list_all2 (paired E g') (engagement_rows db' g') (stream_rows adb (event_stream E g')) \<and>
      distinct (map row_idempotency_digest (stream_rows adb (event_stream E g')))" if "g' \<in> G" for g'
  proof (cases "g' = ?g")
    case True
    have "engagement_rows db' ?g = engagement_rows db ?g @ [row_of_event safe encoded]"
      by (simp add: appended(9) engagement_rows_def row_of_event_def)
    with True inv that pair rows fresh_idem show ?thesis
      by (auto simp: event_inv_def p(2) row_of_record_def intro!: list_all2_appendI)
  next
    case False
    then have "engagement_rows db' g' = engagement_rows db g'"
      by (auto simp: appended(9) engagement_rows_def row_of_event_def)
    with False inv that other show ?thesis by (simp add: event_inv_def)
  qed
  moreover have "audit_inv ?A adb" by (rule audit_inv_append [OF ainv codec aapp])
  moreover have "evt_idempotency_key safe \<notin> er_idempotency_key ` set (ed_events db)"
    using appended(5) by (auto simp: event_conflict_def list_ex_iff)
  ultimately show ?thesis
    using inv by (simp add: event_inv_def appended(9) row_of_event_def)
qed (use inv in simp)

text \<open>The states that a deployment reaches which writes only through the authoritative operation, for
  engagements in \<open>G\<close>.\<close>

inductive event_step :: "'j event_env \<Rightarrow> uuid set \<Rightarrow> 'j event_db \<Rightarrow> 'j event_db \<Rightarrow> bool" for E G where
  committed: "append_authoritative E db e bindings trusted deadline now = (res, db') \<Longrightarrow>
    evt_engagement_id e \<in> G \<Longrightarrow> event_step E G db db'"

definition event_reachable :: "'j event_env \<Rightarrow> uuid set \<Rightarrow> 'j event_db \<Rightarrow> bool" where
  "event_reachable E G db \<longleftrightarrow> (\<exists>n. steps (event_step E G) empty_event_db n db)"

lemma append_authoritative_Inr_iff:
  "append_authoritative E db event bindings trusted deadline now = (Inr x, db') \<longleftrightarrow>
     Event_valid event \<and> AuditStateBindings_valid bindings \<and> sb_engagement_id bindings = evt_engagement_id event \<and>
     append_authoritative_locked E db (safe_event (ee_redactor E) event) bindings trusted deadline now = Inr (x, db')"
  by (auto simp: append_authoritative_def split: sum.splits)

lemma append_authoritative_error_unchanged:
  "append_authoritative E db event bindings trusted deadline now = (Inl err, db') \<Longrightarrow> db' = db"
  by (auto simp: append_authoritative_def split: if_splits sum.splits)

lemma safe_event_enum_free: "enum_free (PDict (evt_payload (safe_event R e)))"
  unfolding safe_event_simps by (rule redact_value_enum_free)

lemma event_inv_empty: "event_inv E G empty_event_db"
  using audit_inv_empty by (auto simp: event_inv_def empty_event_db_def engagement_rows_def stream_rows_def empty_audit_def)

lemma event_inv_step:
  assumes "event_inv E G db" and "codec_ok (ee_audit E)" and "order_independent (event_digest E)"
    and "inj_on (event_stream E) G" and "event_step E G db db'"
  shows "event_inv E G db'"
  using assms(5)
proof cases
  case (committed e bindings trusted deadline now res)
  show ?thesis
  proof (cases res)
    case (Inl err)
    with committed assms(1) show ?thesis by (auto dest: append_authoritative_error_unchanged)
  next
    case (Inr x)
    obtain e' r fresh where x: "x = (e', r, fresh)" by (cases x) auto
    from committed Inr have e: "Event_valid e" "sb_engagement_id bindings = evt_engagement_id e"
      and app: "append_authoritative_locked E db (safe_event (ee_redactor E) e) bindings trusted deadline now =
        Inr ((e', r, fresh), db')"
      by (auto simp: append_authoritative_Inr_iff x)
    show ?thesis
      by (rule event_inv_append [OF assms(1-4) _ _ _ _ app])
        (use committed e in \<open>simp_all only: redact_value_enum_free safe_event_simps Event_valid_safe\<close>)
  qed
qed

lemma event_reachable_inv:
  assumes "event_reachable E G db" and "codec_ok (ee_audit E)" and "order_independent (event_digest E)"
    and "inj_on (event_stream E) G"
  shows "event_inv E G db"
proof -
  from assms(1) obtain n where "steps (event_step E G) empty_event_db n db" by (auto simp: event_reachable_def)
  then show ?thesis
    using event_inv_empty event_inv_step [OF _ assms(2-4)] steps_invariant [of "event_step E G" empty_event_db n db "event_inv E G"]
    by blast
qed

lemma event_reachable_append:
  assumes "event_reachable E G db" and "append_authoritative E db e bindings trusted deadline now = (res, db')"
    and "evt_engagement_id e \<in> G"
  shows "event_reachable E G db'"
  using assms unfolding event_reachable_def by (meson event_step.committed steps_step)

lemma event_reachable_empty: "event_reachable E G empty_event_db"
  unfolding event_reachable_def by (blast intro: steps_refl)

text \<open>Paired rows pass the pair assertion.\<close>

lemma paired_items:
  assumes "list_all2 (paired E g) rows arows" and "distinct (map row_idempotency_digest arows)"
  obtains events items where "those (map from_row rows) = Some events" and "record_items (ee_audit E) arows = Some items"
    and "map fst items = map row_idempotency_digest arows" and "length events = length items"
    and "list_all (pair_bound (event_digest E) g items) events"
proof -
  let ?A = "ee_audit E" and ?H = "event_digest E"
  let ?events = "map (\<lambda>row. the (from_row row)) rows"
  let ?items = "map (\<lambda>row. (row_idempotency_digest row, the (decode_record ?A (row_record_json row)))) arows"
  have len: "length rows = length arows" using assms(1) by (rule list_all2_lengthD)
  have ex: "\<exists>arow\<in>set arows. paired E g row arow" if "row \<in> set rows" for row
    using assms(1) that by (metis in_set_conv_nth list_all2_conv_all_nth)
  have dec: "\<exists>r. decode_record ?A (row_record_json arow) = Some r" if "arow \<in> set arows" for arow
    using assms(1) that by (auto simp: list_all2_conv_all_nth in_set_conv_nth paired_def)
  have events: "those (map from_row rows) = Some ?events"
    using ex by (fastforce simp: those_map paired_def)
  have "record_items ?A arows = Some ?items" using dec
    by (induction arows) (fastforce simp: record_items_def)+
  moreover have "list_all (pair_bound ?H g ?items) ?events"
  proof (clarsimp simp: list_all_iff)
    fix row assume "row \<in> set rows"
    then obtain arow e r where a: "arow \<in> set arows" "from_row row = Some e"
      "decode_record ?A (row_record_json arow) = Some r"
      "row_idempotency_digest arow = event_idempotency_digest ?H e"
      "ar_event_type r = CONTROL_PLANE_AUDIT_EVENT_TYPE" "sb_engagement_id (ar_bindings r) = g"
      "ar_aggregate_id r = event_aggregate_digest ?H e"
      "ar_transition_digest r = event_transition_digest ?H e (event_idempotency_digest ?H e)"
      using ex unfolding paired_def by blast
    have "(row_idempotency_digest arow, r) \<in> set (rev ?items)" using a(1,3) by force
    moreover have "distinct (map fst (rev ?items))"
      using assms(2) by (simp add: rev_map [symmetric] comp_def)
    ultimately have "lookup_record ?items (event_idempotency_digest ?H e) = Some r"
      unfolding lookup_record_def a(4) [symmetric] by (rule map_of_is_SomeI [rotated])
    with a show "pair_bound ?H g ?items (the (from_row row))" by (simp add: pair_bound_def)
  qed
  ultimately show thesis using events len by (intro that [of ?events ?items]) (simp_all add: comp_def)
qed

lemma event_inv_pairs:
  assumes "event_inv E G db" and "g \<in> G"
  obtains events where "assert_authoritative_pairs E db g (event_stream E g) = Inr events"
    and "list_for_engagement db g = Inr events"
    and "length events = length (stream_rows (ed_audit db) (event_stream E g))"
proof -
  from assms have l: "list_all2 (paired E g) (engagement_rows db g) (stream_rows (ed_audit db) (event_stream E g))"
    and d: "distinct (map row_idempotency_digest (stream_rows (ed_audit db) (event_stream E g)))"
    by (auto simp: event_inv_def)
  obtain events items where ei: "those (map from_row (engagement_rows db g)) = Some events"
    "record_items (ee_audit E) (stream_rows (ed_audit db) (event_stream E g)) = Some items"
    "map fst items = map row_idempotency_digest (stream_rows (ed_audit db) (event_stream E g))"
    "length events = length items" "list_all (pair_bound (event_digest E) g items) events"
    by (rule paired_items [OF l d])
  have n: "length items = length (stream_rows (ed_audit db) (event_stream E g))"
    using ei(3) by (metis length_map)
  then have "length events = length (remdups (map fst items))"
    using d ei(3,4) by (simp add: distinct_remdups_id)
  with n show thesis
    using ei by (intro that [of events])
      (auto simp: assert_authoritative_pairs_def list_for_engagement_def list_ex_iff list_all_iff)
qed

end
