(* ===== verification/Checkpoint_Custody.thy ===== *)
theory Checkpoint_Custody
  imports Event_Log_Facts Audit_Acceptance
begin

text \<open>
  \<^verbatim>\<open>src/src/vulnloom/storage/checkpoints.py\<close>: the custody of trusted checkpoints in files and the event store
  that keeps its checkpoint there. A checkpoint file is what \<^verbatim>\<open>lstat\<close> and \<^verbatim>\<open>read\<close> give of it; its text
  is kept as the parsed checkpoint (\<open>None\<close> when it does not parse). The calls hold the stream's
  exclusive file lock, so each is one atomic step on the directory; that a write completes
  or raises, and that a lock or a directory can be opened, are the operating system's part.
\<close>

section \<open>The custody directory\<close>

datatype custody_error = AuditCheckpointCustodyError string | CustodyValueError

record custody_file =
  cf_regular :: bool
  cf_group_or_other :: bool
  cf_size :: int
  cf_content :: "AuditCheckpoint option"

type_synonym custody = "digest \<rightharpoonup> custody_file"

record custody_env =
  ce_digest :: "pyval \<Rightarrow> digest"
  ce_size :: "AuditCheckpoint \<Rightarrow> int"

definition MAX_CHECKPOINT_BYTES :: int where
  "MAX_CHECKPOINT_BYTES = 16 * 1024"

definition load :: "custody_env \<Rightarrow> custody \<Rightarrow> digest \<Rightarrow> custody_error + AuditCheckpoint option" where
  "load C dir stream_id =
     (if \<not> is_digest stream_id
      then Inl (AuditCheckpointCustodyError ''checkpoint stream id must be a digest'')
      else case dir stream_id of
        None \<Rightarrow> Inr None
      | Some f \<Rightarrow>
          if \<not> cf_regular f
          then Inl (AuditCheckpointCustodyError ''checkpoint must be a regular file'')
          else if cf_group_or_other f
          then Inl (AuditCheckpointCustodyError ''checkpoint file must not grant group or other permissions'')
          else if cf_size f > MAX_CHECKPOINT_BYTES
          then Inl (AuditCheckpointCustodyError ''checkpoint exceeds the custody size limit'')
          else (case cf_content f of
                  None \<Rightarrow> Inl (AuditCheckpointCustodyError ''checkpoint is malformed'')
                | Some c \<Rightarrow>
                    if \<not> AuditCheckpoint_valid (ce_digest C) c
                    then Inl (AuditCheckpointCustodyError ''checkpoint is malformed'')
                    else if cp_stream_id c \<noteq> stream_id
                    then Inl (AuditCheckpointCustodyError ''checkpoint stream binding differs'')
                    else Inr (Some c)))"

text \<open>\<^verbatim>\<open>_replace_locked\<close>: the payload goes to a temporary file which then replaces the old one.\<close>

definition replace_locked :: "custody_env \<Rightarrow> custody \<Rightarrow> AuditCheckpoint \<Rightarrow> custody_error + custody" where
  "replace_locked C dir c =
     (if ce_size C c > MAX_CHECKPOINT_BYTES
      then Inl (AuditCheckpointCustodyError ''checkpoint exceeds the custody size limit'')
      else Inr (dir(cp_stream_id c \<mapsto>
        \<lparr>cf_regular = True, cf_group_or_other = False, cf_size = ce_size C c, cf_content = Some c\<rparr>)))"

definition initialize ::
  "custody_env \<Rightarrow> custody \<Rightarrow> AuditCheckpoint \<Rightarrow> custody_error + AuditCheckpoint \<times> custody" where
  "initialize C dir c =
     (if \<not> AuditCheckpoint_valid (ce_digest C) c then Inl CustodyValueError
      else if cp_sequence c \<noteq> 0
      then Inl (AuditCheckpointCustodyError ''checkpoint custody can initialize only an empty stream'')
      else bind_result (load C dir (cp_stream_id c)) (\<lambda>existing.
        case existing of
          Some s \<Rightarrow>
            if cp_sequence s = cp_sequence c \<and> cp_head_digest s = cp_head_digest c then Inr (s, dir)
            else Inl (AuditCheckpointCustodyError ''checkpoint stream was initialized with different trust'')
        | None \<Rightarrow> bind_result (replace_locked C dir c) (\<lambda>dir'. Inr (c, dir'))))"

definition advance ::
  "custody_env \<Rightarrow> custody \<Rightarrow> AuditCheckpoint \<Rightarrow> AuditCheckpoint \<Rightarrow> custody_error + AuditCheckpoint \<times> custody" where
  "advance C dir expected c =
     (if \<not> AuditCheckpoint_valid (ce_digest C) expected \<or> \<not> AuditCheckpoint_valid (ce_digest C) c
      then Inl CustodyValueError
      else if cp_stream_id c \<noteq> cp_stream_id expected
      then Inl (AuditCheckpointCustodyError ''checkpoint stream cannot change'')
      else bind_result (load C dir (cp_stream_id c)) (\<lambda>stored.
        case stored of
          None \<Rightarrow> Inl (AuditCheckpointCustodyError ''checkpoint trust is not initialized'')
        | Some s \<Rightarrow>
            if cp_sequence s = cp_sequence c \<and> cp_head_digest s = cp_head_digest c then Inr (s, dir)
            else if cp_checkpoint_id s \<noteq> cp_checkpoint_id expected
            then Inl (AuditCheckpointCustodyError ''checkpoint compare-and-swap predecessor differs'')
            else if cp_sequence c \<le> cp_sequence s
            then Inl (AuditCheckpointCustodyError ''checkpoint cannot roll back or fork'')
            else if cp_issued_at c < cp_issued_at s
            then Inl (AuditCheckpointCustodyError ''checkpoint time cannot move backwards'')
            else bind_result (replace_locked C dir c) (\<lambda>dir'. Inr (c, dir'))))"

section \<open>The checkpointed event store\<close>

datatype store_error = CustodyFailed custody_error | EventFailed event_error | AuditFailed audit_error

fun lift_error :: "('a \<Rightarrow> store_error) \<Rightarrow> 'a + 'b \<Rightarrow> store_error + 'b" where
  "lift_error f (Inl e) = Inl (f e)"
| "lift_error f (Inr x) = Inr x"

lemma lift_error_Inr_iff [result_simps]: "lift_error f r = Inr x \<longleftrightarrow> r = Inr x"
  by (cases r) auto

record 'j store_state =
  ss_db :: "'j event_db"
  ss_custody :: custody

record 'j store_env =
  se_events :: "'j event_env"
  se_size :: "AuditCheckpoint \<Rightarrow> int"

definition custody_of :: "'j store_env \<Rightarrow> custody_env" where
  "custody_of S = \<lparr>ce_digest = event_digest (se_events S), ce_size = se_size S\<rparr>"

text \<open>\<^verbatim>\<open>_trusted_checkpoint\<close>\<close>

definition trusted_checkpoint ::
  "'j store_env \<Rightarrow> 'j store_state \<Rightarrow> uuid \<Rightarrow> instant \<Rightarrow> store_error + AuditCheckpoint \<times> custody" where
  "trusted_checkpoint S st engagement_id now =
     (let E = se_events S;
          stream_id = control_plane_audit_stream_id (event_digest E) engagement_id
      in bind_result (lift_error CustodyFailed (load (custody_of S) (ss_custody st) stream_id)) (\<lambda>existing.
      case existing of
        Some c \<Rightarrow> Inr (c, ss_custody st)
      | None \<Rightarrow>
          if \<not> authoritative_state_is_empty E (ss_db st) engagement_id
          then Inl (CustodyFailed (AuditCheckpointCustodyError
                 ''checkpoint is missing for non-empty authoritative state; migrate or restore''))
          else bind_result (lift_error AuditFailed
                 (checkpoint (ee_audit E) (ed_audit (ss_db st)) stream_id now)) (\<lambda>genesis.
               lift_error CustodyFailed (initialize (custody_of S) (ss_custody st) genesis))))"

text \<open>\<^verbatim>\<open>append\<close>. The event is committed before the checkpoint is advanced, so the state afterwards is part
  of every result: a failure after the commit keeps the event.\<close>

definition checkpointed_append ::
  "'j store_env \<Rightarrow> 'j store_state \<Rightarrow> Event \<Rightarrow> AuditStateBindings \<Rightarrow> instant \<Rightarrow> instant
   \<Rightarrow> (store_error + Event \<times> AuditRecord \<times> bool) \<times> 'j store_state" where
  "checkpointed_append S st event bindings deadline now =
     (let E = se_events S in
      case trusted_checkpoint S st (evt_engagement_id event) now of
        Inl e \<Rightarrow> (Inl e, st)
      | Inr (c, dir) \<Rightarrow>
          (case append_authoritative E (ss_db st) event bindings c deadline now of
             (Inl e, db) \<Rightarrow> (Inl (EventFailed e), \<lparr>ss_db = db, ss_custody = dir\<rparr>)
           | (Inr x, db) \<Rightarrow>
               (case checkpoint (ee_audit E) (ed_audit db)
                       (control_plane_audit_stream_id (event_digest E) (evt_engagement_id event)) now of
                  Inl e \<Rightarrow> (Inl (AuditFailed e), \<lparr>ss_db = db, ss_custody = dir\<rparr>)
                | Inr latest \<Rightarrow>
                    (case advance (custody_of S) dir c latest of
                       Inl e \<Rightarrow> (Inl (CustodyFailed e), \<lparr>ss_db = db, ss_custody = dir\<rparr>)
                     | Inr (_, dir') \<Rightarrow> (Inr x, \<lparr>ss_db = db, ss_custody = dir'\<rparr>)))))"

text \<open>\<^verbatim>\<open>list_for_engagement\<close>\<close>

definition checkpointed_list ::
  "'j store_env \<Rightarrow> 'j store_state \<Rightarrow> uuid \<Rightarrow> instant \<Rightarrow> (store_error + Event list) \<times> 'j store_state" where
  "checkpointed_list S st engagement_id now =
     (let E = se_events S in
      case trusted_checkpoint S st engagement_id now of
        Inl e \<Rightarrow> (Inl e, st)
      | Inr (c, dir) \<Rightarrow>
          (case list_authoritative_for_engagement E (ss_db st) engagement_id c now of
             Inl e \<Rightarrow> (Inl (EventFailed e), st\<lparr>ss_custody := dir\<rparr>)
           | Inr events \<Rightarrow>
               (case checkpoint (ee_audit E) (ed_audit (ss_db st))
                       (control_plane_audit_stream_id (event_digest E) engagement_id) now of
                  Inl e \<Rightarrow> (Inl (AuditFailed e), st\<lparr>ss_custody := dir\<rparr>)
                | Inr latest \<Rightarrow>
                    (case advance (custody_of S) dir c latest of
                       Inl e \<Rightarrow> (Inl (CustodyFailed e), st\<lparr>ss_custody := dir\<rparr>)
                     | Inr (_, dir') \<Rightarrow> (Inr events, st\<lparr>ss_custody := dir'\<rparr>)))))"

section \<open>Custody is monotone\<close>

lemma load_Some_iff:
  "load C dir sid = Inr (Some c) \<longleftrightarrow>
     is_digest sid \<and> AuditCheckpoint_valid (ce_digest C) c \<and> cp_stream_id c = sid \<and>
     (\<exists>f. dir sid = Some f \<and> cf_regular f \<and> \<not> cf_group_or_other f \<and> cf_size f \<le> MAX_CHECKPOINT_BYTES \<and>
        cf_content f = Some c)"
  by (auto simp: load_def split: option.splits if_splits)

lemma load_None_iff: "load C dir sid = Inr None \<longleftrightarrow> is_digest sid \<and> dir sid = None"
  by (auto simp: load_def split: option.splits if_splits)

lemma replace_locked_load:
  assumes "replace_locked C dir c = Inr dir'" and "AuditCheckpoint_valid (ce_digest C) c"
  shows "load C dir' sid = (if sid = cp_stream_id c then Inr (Some c) else load C dir sid)"
  using assms by (auto simp: replace_locked_def load_def AuditCheckpoint_valid_def split: if_splits)

inductive custody_step :: "custody_env \<Rightarrow> custody \<Rightarrow> custody \<Rightarrow> bool" for C where
  initialized: "initialize C dir c = Inr (c', dir') \<Longrightarrow> custody_step C dir dir'"
| advanced: "advance C dir expected c = Inr (c', dir') \<Longrightarrow> custody_step C dir dir'"

text \<open>What a later trusted checkpoint is to an earlier one.\<close>

definition newer_or_same :: "AuditCheckpoint \<Rightarrow> AuditCheckpoint \<Rightarrow> bool" where
  "newer_or_same c c' \<longleftrightarrow>
     c' = c \<or> (cp_sequence c < cp_sequence c' \<and> cp_issued_at c \<le> cp_issued_at c' \<and> cp_stream_id c' = cp_stream_id c)"

lemma newer_or_same_trans: "newer_or_same a b \<Longrightarrow> newer_or_same b c \<Longrightarrow> newer_or_same a c"
  by (auto simp: newer_or_same_def)

lemma initialize_Inr_cases:
  assumes "initialize C dir c = Inr (c', dir')"
  obtains (kept) "dir' = dir" and "load C dir (cp_stream_id c) = Inr (Some c')"
  | (written) "c' = c" and "load C dir (cp_stream_id c) = Inr None" and "replace_locked C dir c = Inr dir'"
      and "AuditCheckpoint_valid (ce_digest C) c" and "cp_sequence c = 0"
proof -
  from assms obtain x where "load C dir (cp_stream_id c) = Inr x"
    by (auto simp: initialize_def result_simps split: if_splits)
  with assms kept written show thesis
    by (cases x) (auto simp: initialize_def result_simps split: if_splits)
qed

lemma advance_Inr_cases:
  assumes "advance C dir expected c = Inr (c', dir')"
  obtains (kept) "dir' = dir" and "load C dir (cp_stream_id c) = Inr (Some c')"
      and "cp_sequence c' = cp_sequence c" and "cp_head_digest c' = cp_head_digest c"
  | (written) s where "c' = c" and "load C dir (cp_stream_id c) = Inr (Some s)"
      and "replace_locked C dir c = Inr dir'" and "AuditCheckpoint_valid (ce_digest C) c"
      and "cp_checkpoint_id s = cp_checkpoint_id expected"
      and "cp_sequence s < cp_sequence c" and "cp_issued_at s \<le> cp_issued_at c"
  using assms by (auto simp: advance_def result_simps split: if_splits option.splits)

lemma custody_step_newer:
  assumes "custody_step C dir dir'" and "load C dir sid = Inr (Some c)"
  shows "\<exists>c'. load C dir' sid = Inr (Some c') \<and> newer_or_same c c'"
  using assms(1)
proof cases
  case (initialized d d')
  from initialized show ?thesis
  proof (cases rule: initialize_Inr_cases)
    case kept
    with assms(2) show ?thesis by (auto simp: newer_or_same_def)
  next
    case written
    with assms(2) show ?thesis
      by (auto simp: replace_locked_load newer_or_same_def)
  qed
next
  case (advanced e d d')
  from advanced show ?thesis
  proof (cases rule: advance_Inr_cases)
    case kept
    with assms(2) show ?thesis by (auto simp: newer_or_same_def)
  next
    case (written s)
    with assms(2) show ?thesis
      by (cases "sid = cp_stream_id d") (auto simp: replace_locked_load newer_or_same_def load_Some_iff)
  qed
qed

lemma custody_steps_newer:
  assumes "steps (custody_step C) dir n dir'" and "load C dir sid = Inr (Some c)"
  shows "\<exists>c'. load C dir' sid = Inr (Some c') \<and> newer_or_same c c'"
  using assms
proof (induction rule: steps.induct)
  case (steps_step s n t u)
  then show ?case using custody_step_newer newer_or_same_trans by blast
qed (auto simp: newer_or_same_def)

section \<open>The invariant of the checkpointed store\<close>

text \<open>What the store relies on of its parameters: documents decode to what was encoded, the digest is a SHA-256 hex
  digest of the canonical text and separates the streams of the engagements in use, checkpoints fit
  their files, and the record limit is not negative.\<close>

definition store_env_ok :: "'j store_env \<Rightarrow> uuid set \<Rightarrow> bool" where
  "store_env_ok S G \<longleftrightarrow>
     codec_ok (ee_audit (se_events S)) \<and> order_independent (event_digest (se_events S)) \<and>
     hex_valued (event_digest (se_events S)) \<and> inj_on (event_stream (se_events S)) G \<and>
     (\<forall>c. se_size S c \<le> MAX_CHECKPOINT_BYTES) \<and> 0 \<le> ae_max_records (ee_audit (se_events S))"

lemma checkpoint_total:
  assumes "hex_valued (ae_digest A)" and "audit_inv A db" and "stream_inv A db sid rs" and "is_digest sid"
    and "int (length rs) \<le> ae_max_records A"
  obtains c where "checkpoint A db sid now = Inr c" and "cp_sequence c = int (length rs)"
    and "cp_head_digest c = head_digest_of A rs" and "cp_issued_at c = now" and "cp_stream_id c = sid"
proof -
  have chain: "chain_of A db sid rs" using assms(3) by (simp add: stream_inv_def)
  have tv: "trusted_valid A None" by (simp add: trusted_valid_def)
  have ok: "avr_status (verify_locked A db sid now None) = AV_VERIFIED"
    using audit_inv_limits [OF assms(2,3)] assms(5) chain
    by (subst verify_verified_iff [OF tv]) auto
  note v = verify_counts [OF ok tv chain]
  let ?c = "\<lparr>cp_checkpoint_id = [], cp_contract_digest = AUDIT_CHAIN_CONTRACT_DIGEST (ae_digest A),
     cp_stream_id = sid, cp_sequence = int (length rs), cp_head_digest = head_digest_of A rs, cp_issued_at = now\<rparr>"
  let ?c' = "?c\<lparr>cp_checkpoint_id := ae_digest A (AuditCheckpoint_content ?c)\<rparr>"
  have "AuditCheckpoint_valid (ae_digest A) ?c'"
    using assms(4) head_digest_is_digest [OF assms(1) chain]
    by (auto simp: AuditCheckpoint_valid_def sealed_by_def AuditCheckpoint_content_def head_digest_of_def)
  then have "checkpoint A db sid now = Inr ?c'"
    using ok v tv assms(4) by (simp add: checkpoint_def verify_def Let_def)
  then show thesis by (rule that) simp_all
qed

definition trusted_prefix :: "'j store_env \<Rightarrow> instant \<Rightarrow> 'j event_db \<Rightarrow> custody \<Rightarrow> uuid \<Rightarrow> AuditCheckpoint \<Rightarrow> bool" where
  "trusted_prefix S clock db dir g c \<longleftrightarrow>
     (let E = se_events S in
      load (custody_of S) dir (event_stream E g) = Inr (Some c) \<and>
      (\<exists>rs. stream_inv (ee_audit E) (ed_audit db) (event_stream E g) rs \<and>
         anchored (ee_audit E) (event_stream E g) clock rs c))"

definition store_inv :: "'j store_env \<Rightarrow> uuid set \<Rightarrow> instant \<Rightarrow> 'j store_state \<Rightarrow> bool" where
  "store_inv S G clock st \<longleftrightarrow>
     event_inv (se_events S) G (ss_db st) \<and>
     (\<forall>g\<in>G. (ss_custody st (event_stream (se_events S) g) = None \<and>
               authoritative_state_is_empty (se_events S) (ss_db st) g) \<or>
             (\<exists>c. trusted_prefix S clock (ss_db st) (ss_custody st) g c))"

lemma trusted_prefix_later: "trusted_prefix S clock db dir g c \<Longrightarrow> clock \<le> now \<Longrightarrow> trusted_prefix S now db dir g c"
  by (auto simp: trusted_prefix_def Let_def anchored_def)

lemma trusted_prefix_extend:
  assumes "trusted_prefix S clock db dir g c" and "codec_ok (ee_audit (se_events S))"
    and "ed_audit db' = ed_audit db \<or> audit_step (ee_audit (se_events S)) (ed_audit db) (ed_audit db')"
  shows "trusted_prefix S clock db' dir g c"
proof -
  from assms(1) obtain rs where c: "load (custody_of S) dir (event_stream (se_events S) g) = Inr (Some c)"
    and rs: "stream_inv (ee_audit (se_events S)) (ed_audit db) (event_stream (se_events S) g) rs"
    and anc: "anchored (ee_audit (se_events S)) (event_stream (se_events S) g) clock rs c"
    by (auto simp: trusted_prefix_def Let_def)
  obtain xs where "stream_inv (ee_audit (se_events S)) (ed_audit db') (event_stream (se_events S) g) (rs @ xs)"
    using assms(3) audit_step_extends [OF _ assms(2) rs] rs by (metis append_Nil2)
  with c anchored_extend [OF anc, of clock xs] show ?thesis by (auto simp: trusted_prefix_def Let_def)
qed

lemma append_authoritative_audit_step:
  assumes "append_authoritative E db e bindings trusted deadline now = (res, db')"
  shows "ed_audit db' = ed_audit db \<or> audit_step (ee_audit E) (ed_audit db) (ed_audit db')"
proof (cases res)
  case (Inl err)
  with assms show ?thesis by (auto dest: append_authoritative_error_unchanged)
next
  case (Inr x)
  obtain e' r fresh where x: "x = (e', r, fresh)" by (cases x) auto
  from assms Inr have "append_authoritative_locked E db (safe_event (ee_redactor E) e) bindings trusted deadline now =
      Inr ((e', r, fresh), db')" by (simp add: append_authoritative_Inr_iff x)
  then show ?thesis
  proof (cases rule: append_authoritative_locked_cases)
    case (appended p encoded adb)
    then have "append_audit (ee_audit E) (ed_audit db) p now (Some trusted) = (Inr r, adb)"
      using audit_plan_Inr(1) by (fastforce simp: append_audit_Inr_iff trusted_valid_def)
    then show ?thesis using appended by (auto intro: audit_step.appended)
  qed simp
qed

lemma append_authoritative_other:
  assumes "append_authoritative E db e bindings trusted deadline now = (res, db')"
    and "event_stream E g \<noteq> event_stream E (evt_engagement_id e)"
  shows "authoritative_state_is_empty E db' g = authoritative_state_is_empty E db g"
proof (cases res)
  case (Inl err)
  with assms show ?thesis by (auto dest: append_authoritative_error_unchanged)
next
  case (Inr x)
  obtain e' r fresh where x: "x = (e', r, fresh)" by (cases x) auto
  from assms Inr have "append_authoritative_locked E db (safe_event (ee_redactor E) e) bindings trusted deadline now =
      Inr ((e', r, fresh), db')" by (simp add: append_authoritative_Inr_iff x)
  then show ?thesis
  proof (cases rule: append_authoritative_locked_cases)
    case (appended p encoded adb)
    note p = audit_plan_Inr [OF appended(3)]
    have "append_locked (ee_audit E) (ed_audit db) p now (Some trusted) = Inr (r, adb)" by (fact appended(8))
    then have "stream_rows adb (event_stream E g) = stream_rows (ed_audit db) (event_stream E g) \<and>
        db_heads adb (event_stream E g) = db_heads (ed_audit db) (event_stream E g)"
    proof (cases rule: append_locked_cases)
      case (fresh v)
      then show ?thesis
        using insert_record_other_stream [OF fresh(9), of "event_stream E g"] assms(2) by (simp add: p(2))
    qed simp
    moreover have "engagement_rows db' g = engagement_rows db g"
      using assms(2) by (auto simp: appended(9) engagement_rows_def row_of_event_def)
    ultimately show ?thesis by (simp add: authoritative_state_is_empty_def appended(9))
  qed simp
qed

lemma custody_of_simps [simp]: "ce_digest (custody_of S) = event_digest (se_events S)" "ce_size (custody_of S) = se_size S"
  by (simp_all add: custody_of_def)

lemma event_stream_digest: "store_env_ok S G \<Longrightarrow> is_digest (event_stream (se_events S) g)"
  by (simp add: store_env_ok_def hex_valued_def control_plane_audit_stream_id_def)

lemma empty_state_stream:
  assumes "authoritative_state_is_empty E db g"
  shows "stream_inv (ee_audit E) (ed_audit db) (event_stream E g) []"
  using assms by (simp add: authoritative_state_is_empty_def stream_inv_def chain_of_def head_binds_def
      one_engagement_def Let_def)

lemma store_inv_later: "store_inv S G clock st \<Longrightarrow> clock \<le> now \<Longrightarrow> store_inv S G now st"
  unfolding store_inv_def using trusted_prefix_later by blast

lemma store_inv_custody:
  assumes "store_inv S G clock st" and "g \<in> G"
  obtains (none) "ss_custody st (event_stream (se_events S) g) = None"
      "authoritative_state_is_empty (se_events S) (ss_db st) g"
    | (some) c where "trusted_prefix S clock (ss_db st) (ss_custody st) g c"
  using assms by (auto simp: store_inv_def)

text \<open>The trusted checkpoint is always available, and using it changes the custody of its own stream only.\<close>

lemma trusted_checkpoint_total:
  assumes ok: "store_env_ok S G" and inv: "store_inv S G now st" and g: "g \<in> G"
  obtains c dir where "trusted_checkpoint S st g now = Inr (c, dir)" and "trusted_prefix S now (ss_db st) dir g c"
    and "\<And>sid. sid \<noteq> event_stream (se_events S) g \<Longrightarrow> dir sid = ss_custody st sid"
proof -
  let ?E = "se_events S" and ?C = "custody_of S"
  let ?A = "ee_audit ?E" and ?sid = "event_stream ?E g"
  have dig: "is_digest ?sid" using ok by (rule event_stream_digest)
  from inv g show thesis
  proof (cases rule: store_inv_custody)
    case (some c)
    then show thesis
      by (intro that [of c "ss_custody st"]) (simp_all add: trusted_checkpoint_def trusted_prefix_def Let_def)
  next
    case none
    have ainv: "audit_inv ?A (ed_audit (ss_db st))" using inv by (simp add: store_inv_def event_inv_def)
    have empty: "stream_inv ?A (ed_audit (ss_db st)) ?sid []" using none(2) by (rule empty_state_stream)
    from ok have hex: "hex_valued (ae_digest ?A)" and lim: "int (length ([]::AuditRecord list)) \<le> ae_max_records ?A"
      by (simp_all add: store_env_ok_def)
    obtain c where c: "checkpoint ?A (ed_audit (ss_db st)) ?sid now = Inr c" "cp_sequence c = int (length ([]::AuditRecord list))"
      "cp_head_digest c = head_digest_of ?A []" "cp_issued_at c = now" "cp_stream_id c = ?sid"
      by (rule checkpoint_total [OF hex ainv empty dig lim])
    have valid: "AuditCheckpoint_valid (ce_digest ?C) c" using checkpoint_Inr(1) [OF c(1)] by simp
    have load: "load ?C (ss_custody st) ?sid = Inr None" using none(1) dig by (simp add: load_None_iff)
    obtain dir where dir: "replace_locked ?C (ss_custody st) c = Inr dir"
      using ok by (simp add: replace_locked_def store_env_ok_def not_less [symmetric])
    have "initialize ?C (ss_custody st) c = Inr (c, dir)"
      using valid load dir c by (simp add: initialize_def)
    then have "trusted_checkpoint S st g now = Inr (c, dir)"
      using load none(2) c(1) by (simp add: trusted_checkpoint_def Let_def)
    moreover have "trusted_prefix S now (ss_db st) dir g c"
      using empty c replace_locked_load [OF dir valid, of ?sid]
      by (auto simp: trusted_prefix_def Let_def anchored_def)
    moreover have "dir sid = ss_custody st sid" if "sid \<noteq> ?sid" for sid
      using that dir c(5) by (auto simp: replace_locked_def split: if_splits)
    ultimately show thesis by (rule that)
  qed
qed

text \<open>Advancing from the trusted checkpoint to a checkpoint of the grown stream always succeeds.\<close>

lemma advance_total:
  assumes ok: "store_env_ok S G" and c: "trusted_prefix S now db dir g c"
    and latest: "checkpoint (ee_audit (se_events S)) (ed_audit db) (event_stream (se_events S) g) now = Inr latest"
  obtains c' dir' where "advance (custody_of S) dir c latest = Inr (c', dir')" and "trusted_prefix S now db dir' g c'"
    and "\<And>sid. sid \<noteq> event_stream (se_events S) g \<Longrightarrow> dir' sid = dir sid"
proof -
  let ?E = "se_events S" and ?C = "custody_of S"
  let ?A = "ee_audit ?E" and ?sid = "event_stream ?E g"
  from c obtain rs where load: "load ?C dir ?sid = Inr (Some c)"
    and rs: "stream_inv ?A (ed_audit db) ?sid rs" "anchored ?A ?sid now rs c"
    by (auto simp: trusted_prefix_def Let_def)
  from checkpoint_Inr [OF latest] obtain rs' where valid: "AuditCheckpoint_valid (ae_digest ?A) latest"
    and rs': "chain_of ?A (ed_audit db) ?sid rs'" "cp_sequence latest = int (length rs')"
      "anchored ?A ?sid now rs' latest" by blast
  have same: "rs' = rs" using rs(1) rs'(1) by (metis chain_of_unique stream_inv_def)
  have l: "cp_stream_id latest = ?sid" "cp_issued_at latest = now" "cp_head_digest latest = head_digest_of ?A rs"
    using rs'(2,3) same latest by (auto simp: anchored_def checkpoint_def result_simps Let_def split: if_splits)
  have vc: "AuditCheckpoint_valid (ae_digest ?A) c" and sc: "cp_stream_id c = ?sid" using load by (simp_all add: load_Some_iff)
  show thesis
  proof (cases "cp_sequence c = cp_sequence latest")
    case True
    then have "cp_head_digest c = cp_head_digest latest"
      using rs(2) rs'(2) same l by (simp add: anchored_def)
    then have "advance ?C dir c latest = Inr (c, dir)"
      using True vc valid sc l load by (simp add: advance_def)
    then show thesis by (rule that) (use c in simp_all)
  next
    case False
    then have less: "cp_sequence c < cp_sequence latest" using rs(2) rs'(2) same by (simp add: anchored_def)
    obtain dir' where dir': "replace_locked ?C dir latest = Inr dir'"
      using ok by (simp add: replace_locked_def store_env_ok_def not_less [symmetric])
    have "advance ?C dir c latest = Inr (latest, dir')"
      using less vc valid sc l load dir' rs(2) by (simp add: advance_def anchored_def)
    moreover have "trusted_prefix S now db dir' g latest"
      using rs(1) rs'(3) same l(1) replace_locked_load [OF dir', of ?sid] valid
      by (auto simp: trusted_prefix_def Let_def)
    moreover have "dir' sid = dir sid" if "sid \<noteq> ?sid" for sid
      using that dir' l(1) by (auto simp: replace_locked_def split: if_splits)
    ultimately show thesis by (rule that)
  qed
qed

text \<open>Changing only the custody of one stream, or appending to it, keeps the invariant.\<close>

lemma store_inv_update:
  assumes ok: "store_env_ok S G" and inv: "store_inv S G now st" and g: "g \<in> G"
    and db: "event_inv (se_events S) G db'"
      "ed_audit db' = ed_audit (ss_db st) \<or> audit_step (ee_audit (se_events S)) (ed_audit (ss_db st)) (ed_audit db')"
    and empty: "\<And>g'. g' \<in> G \<Longrightarrow> g' \<noteq> g \<Longrightarrow> authoritative_state_is_empty (se_events S) db' g' =
       authoritative_state_is_empty (se_events S) (ss_db st) g'"
    and c: "trusted_prefix S now db' dir' g c"
    and dir: "\<And>sid. sid \<noteq> event_stream (se_events S) g \<Longrightarrow> dir' sid = ss_custody st sid"
  shows "store_inv S G now \<lparr>ss_db = db', ss_custody = dir'\<rparr>"
proof -
  let ?E = "se_events S"
  have codec: "codec_ok (ee_audit ?E)" and inj: "inj_on (event_stream ?E) G"
    using ok by (simp_all add: store_env_ok_def)
  have "(dir' (event_stream ?E g') = None \<and> authoritative_state_is_empty ?E db' g') \<or>
      (\<exists>c'. trusted_prefix S now db' dir' g' c')" if g': "g' \<in> G" for g'
  proof (cases "g' = g")
    case True
    with c show ?thesis by blast
  next
    case False
    then have sid: "event_stream ?E g' \<noteq> event_stream ?E g" using inj g g' by (auto dest: inj_onD)
    with dir have same: "dir' (event_stream ?E g') = ss_custody st (event_stream ?E g')" by simp
    then have load: "load (custody_of S) dir' (event_stream ?E g') = load (custody_of S) (ss_custody st) (event_stream ?E g')"
      by (simp add: load_def)
    from inv g' show ?thesis
    proof (cases rule: store_inv_custody)
      case none
      with same empty [OF g' False] show ?thesis by simp
    next
      case (some c')
      then have "trusted_prefix S now db' (ss_custody st) g' c'" using trusted_prefix_extend codec db(2) by blast
      with load show ?thesis by (auto simp: trusted_prefix_def Let_def)
    qed
  qed
  with db(1) show ?thesis by (simp add: store_inv_def)
qed

lemma store_inv_append:
  assumes ok: "store_env_ok S G" and inv: "store_inv S G now st" and g: "evt_engagement_id event \<in> G"
    and app: "checkpointed_append S st event bindings deadline now = (res, st')"
  shows "store_inv S G now st'"
proof -
  let ?E = "se_events S" and ?g = "evt_engagement_id event"
  from ok have codec: "codec_ok (ee_audit ?E)" and ord: "order_independent (event_digest ?E)"
    and inj: "inj_on (event_stream ?E) G" by (simp_all add: store_env_ok_def)
  obtain c dir where tc: "trusted_checkpoint S st ?g now = Inr (c, dir)" and c: "trusted_prefix S now (ss_db st) dir ?g c"
    and dir: "\<And>sid. sid \<noteq> event_stream ?E ?g \<Longrightarrow> dir sid = ss_custody st sid"
    by (rule trusted_checkpoint_total [OF ok inv g]) blast
  obtain r db' where aa: "append_authoritative ?E (ss_db st) event bindings c deadline now = (r, db')" by fastforce
  have "event_inv ?E G (ss_db st)" using inv by (simp add: store_inv_def)
  then have einv: "event_inv ?E G db'"
    by (rule event_inv_step [OF _ codec ord inj event_step.committed [OF aa g]])
  note step = append_authoritative_audit_step [OF aa]
  have empty: "authoritative_state_is_empty ?E db' g' = authoritative_state_is_empty ?E (ss_db st) g'"
    if "g' \<in> G" "g' \<noteq> ?g" for g'
    using that g inj by (intro append_authoritative_other [OF aa]) (auto dest: inj_onD)
  have c': "trusted_prefix S now db' dir ?g c" by (rule trusted_prefix_extend [OF c codec step])
  note keep = store_inv_update [OF ok inv g einv step empty]
  have mid: "store_inv S G now \<lparr>ss_db = db', ss_custody = dir\<rparr>" by (rule keep [OF _ _ c' dir])
  show ?thesis
  proof (cases r)
    case (Inl e)
    with app tc aa mid show ?thesis by (auto simp: checkpointed_append_def Let_def)
  next
    case (Inr x)
    show ?thesis
    proof (cases "checkpoint (ee_audit ?E) (ed_audit db') (event_stream ?E ?g) now")
      case (Inl e)
      with app tc aa mid \<open>r = Inr x\<close> show ?thesis by (auto simp: checkpointed_append_def Let_def)
    next
      case (Inr latest)
      obtain c2 dir2 where adv: "advance (custody_of S) dir c latest = Inr (c2, dir2)"
        and c2: "trusted_prefix S now db' dir2 ?g c2"
        and d2: "\<And>sid. sid \<noteq> event_stream ?E ?g \<Longrightarrow> dir2 sid = dir sid"
        by (rule advance_total [OF ok c' Inr]) blast
      have "store_inv S G now \<lparr>ss_db = db', ss_custody = dir2\<rparr>" by (rule keep [OF _ _ c2]) (simp_all add: d2 dir)
      with app tc aa Inr \<open>r = Inr x\<close> adv show ?thesis by (auto simp: checkpointed_append_def Let_def)
    qed
  qed
qed

lemma checkpointed_list_outcome:
  assumes ok: "store_env_ok S G" and inv: "store_inv S G now st" and g: "g \<in> G"
    and lst: "checkpointed_list S st g now = (res, st')"
  shows "store_inv S G now st'"
    and "int (length (stream_rows (ed_audit (ss_db st)) (event_stream (se_events S) g))) \<le>
           ae_max_records (ee_audit (se_events S)) \<Longrightarrow>
         \<exists>events. res = Inr events \<and> list_for_engagement (ss_db st) g = Inr events \<and> ss_db st' = ss_db st"
proof -
  let ?E = "se_events S"
  let ?A = "ee_audit ?E" and ?sid = "event_stream ?E g"
  from ok have hex: "hex_valued (ae_digest ?A)" by (simp add: store_env_ok_def)
  obtain c dir where tc: "trusted_checkpoint S st g now = Inr (c, dir)" and c: "trusted_prefix S now (ss_db st) dir g c"
    and dir: "\<And>sid. sid \<noteq> ?sid \<Longrightarrow> dir sid = ss_custody st sid"
    by (rule trusted_checkpoint_total [OF ok inv g]) blast
  have einv: "event_inv ?E G (ss_db st)" using inv by (simp add: store_inv_def)
  note keep = store_inv_update [OF ok inv g einv]
  have upd: "st\<lparr>ss_custody := d\<rparr> = \<lparr>ss_db = ss_db st, ss_custody = d\<rparr>" for d by (cases st) simp
  have mid: "store_inv S G now (st\<lparr>ss_custody := dir\<rparr>)"
    using keep [OF _ _ c dir] by (simp add: upd)
  have adv: "\<exists>c2 dir2. advance (custody_of S) dir c latest = Inr (c2, dir2) \<and>
      store_inv S G now (st\<lparr>ss_custody := dir2\<rparr>)"
    if latest: "checkpoint ?A (ed_audit (ss_db st)) ?sid now = Inr latest" for latest
  proof -
    obtain c2 dir2 where adv: "advance (custody_of S) dir c latest = Inr (c2, dir2)"
      and c2: "trusted_prefix S now (ss_db st) dir2 g c2"
      and d2: "\<And>sid. sid \<noteq> ?sid \<Longrightarrow> dir2 sid = dir sid"
      by (rule advance_total [OF ok c latest]) blast
    have "store_inv S G now \<lparr>ss_db = ss_db st, ss_custody = dir2\<rparr>" by (rule keep [OF _ _ c2]) (simp_all add: d2 dir)
    with adv show ?thesis by (auto simp: upd)
  qed
  show "store_inv S G now st'"
    using lst tc mid adv
    by (auto simp: checkpointed_list_def Let_def split: sum.splits)
  assume lim: "int (length (stream_rows (ed_audit (ss_db st)) ?sid)) \<le> ae_max_records ?A"
  from c obtain rs where rs: "stream_inv ?A (ed_audit (ss_db st)) ?sid rs" "anchored ?A ?sid now rs c"
    and vc: "AuditCheckpoint_valid (ae_digest ?A) c"
    by (auto simp: trusted_prefix_def Let_def load_Some_iff)
  have ainv: "audit_inv ?A (ed_audit (ss_db st))" using einv by (simp add: event_inv_def)
  have lim': "int (length rs) \<le> ae_max_records ?A" using lim stream_inv_length [OF rs(1)] by simp
  have tv: "trusted_valid ?A (Some c)" using vc by (simp add: trusted_valid_def)
  have ver: "avr_status (verify_locked ?A (ed_audit (ss_db st)) ?sid now (Some c)) = AV_VERIFIED"
    using rs audit_inv_limits [OF ainv rs(1)] lim'
    by (subst verify_verified_iff [OF tv]) (auto simp: stream_inv_def)
  obtain events where ev: "assert_authoritative_pairs ?E (ss_db st) g ?sid = Inr events"
    "list_for_engagement (ss_db st) g = Inr events"
    by (rule event_inv_pairs [OF einv g])
  obtain latest where "checkpoint ?A (ed_audit (ss_db st)) ?sid now = Inr latest"
    by (rule checkpoint_total [OF hex ainv rs(1) event_stream_digest [OF ok] lim'])
  with adv obtain c2 dir2 where "checkpoint ?A (ed_audit (ss_db st)) ?sid now = Inr latest"
    "advance (custody_of S) dir c latest = Inr (c2, dir2)" by blast
  with lst tc ver vc ev show "\<exists>events. res = Inr events \<and> list_for_engagement (ss_db st) g = Inr events \<and> ss_db st' = ss_db st"
    by (auto simp: checkpointed_list_def Let_def list_authoritative_for_engagement_def verify_in_transaction_def)
qed

text \<open>Runs of the store, with the time of the last call.\<close>

inductive store_step :: "'j store_env \<Rightarrow> uuid set \<Rightarrow> instant \<times> 'j store_state \<Rightarrow> instant \<times> 'j store_state \<Rightarrow> bool"
  for S G where
  append_call: "clock \<le> now \<Longrightarrow> evt_engagement_id event \<in> G \<Longrightarrow>
    checkpointed_append S st event bindings deadline now = (res, st') \<Longrightarrow> store_step S G (clock, st) (now, st')"
| list_call: "clock \<le> now \<Longrightarrow> g \<in> G \<Longrightarrow>
    checkpointed_list S st g now = (res', st') \<Longrightarrow> store_step S G (clock, st) (now, st')"

definition store_reachable :: "'j store_env \<Rightarrow> uuid set \<Rightarrow> instant \<times> 'j store_state \<Rightarrow> bool" where
  "store_reachable S G cst \<longleftrightarrow>
     (\<exists>n t. steps (store_step S G) (t, \<lparr>ss_db = empty_event_db, ss_custody = Map.empty\<rparr>) n cst)"

lemma store_inv_initial: "store_inv S G t \<lparr>ss_db = empty_event_db, ss_custody = Map.empty\<rparr>"
  using event_inv_empty [of "se_events S" G]
  by (simp add: store_inv_def authoritative_state_is_empty_def empty_event_db_def engagement_rows_def
      stream_rows_def empty_audit_def Let_def)

lemma store_inv_step:
  "store_env_ok S G \<Longrightarrow> store_inv S G (fst a) (snd a) \<Longrightarrow> store_step S G a b \<Longrightarrow> store_inv S G (fst b) (snd b)"
  by (erule store_step.cases)
    (auto intro: store_inv_append checkpointed_list_outcome(1) dest: store_inv_later)

lemma store_reachable_inv:
  assumes "store_reachable S G (clock, st)" and "store_env_ok S G"
  shows "store_inv S G clock st"
proof -
  from assms(1) obtain n t where
    "steps (store_step S G) (t, \<lparr>ss_db = empty_event_db, ss_custody = Map.empty\<rparr>) n (clock, st)"
    by (auto simp: store_reachable_def)
  from steps_invariant [OF this, of "\<lambda>a. store_inv S G (fst a) (snd a)"] store_inv_step [OF assms(2)]
  show ?thesis by (simp add: store_inv_initial)
qed

end
