(* ===== verification/Event_Acceptance.thy ===== *)
theory Event_Acceptance
  imports Checkpoint_Custody
begin

text \<open>
  The conditions under which an authoritative append is accepted: from the invariant of the event log, a new and
  well-formed event within its deadline always finds a verified chain, a complete set of pairs and a free
  place in both tables, unless the digest collides.
\<close>

section \<open>An authoritative append is accepted\<close>

definition stored_events :: "'j event_db \<Rightarrow> Event set" where
  "stored_events db = {e. \<exists>row\<in>set (ed_events db). from_row row = Some e}"

text \<open>An event that the store has room and reason to accept at a given time.\<close>

definition acceptable :: "'j event_env \<Rightarrow> 'j event_db \<Rightarrow> Event \<Rightarrow> AuditStateBindings \<Rightarrow> instant \<Rightarrow> instant \<Rightarrow> bool" where
  "acceptable E db event bindings deadline now \<longleftrightarrow>
     Event_valid event \<and> AuditStateBindings_valid bindings \<and> sb_engagement_id bindings = evt_engagement_id event \<and>
     evt_occurred_at event \<le> now \<and> now < deadline \<and> deadline - evt_occurred_at event \<le> seconds 300 \<and>
     to_json (redact_value (ee_redactor E) (PDict (evt_payload event))) \<noteq> None \<and>
     \<not> event_conflict (ed_events db) event \<and>
     int (length (stream_rows (ed_audit db) (event_stream E (evt_engagement_id event)))) < ae_max_records (ee_audit E)"

lemma audit_plan_accepts:
  assumes "hex_valued H" and "AuditStateBindings_valid bindings"
    and "evt_occurred_at e < deadline" and "deadline - evt_occurred_at e \<le> seconds 300"
  obtains p where "audit_plan H e bindings deadline = Inr p"
proof -
  have "is_reason_code CONTROL_PLANE_AUDIT_EVENT_TYPE" by code_simp
  then have "is_ok (audit_plan H e bindings deadline)"
    using assms by (auto simp: audit_plan_def AuditAppendPlan_create_def AuditAppendPlan_valid_def Let_def hex_valued_def
        control_plane_audit_stream_id_def event_aggregate_digest_def event_transition_digest_def
        event_idempotency_digest_def sealed_by_def AuditAppendPlan_content_def)
  then show thesis using that by (cases "audit_plan H e bindings deadline") auto
qed

lemma event_inv_engagement:
  assumes "event_inv E G db" and "g \<in> G" and "stream_inv (ee_audit E) (ed_audit db) (event_stream E g) rs"
    and "r \<in> set rs"
  shows "sb_engagement_id (ar_bindings r) = g"
proof -
  from assms(4) obtain k where k: "k < length rs" "r = rs ! k" by (auto simp: in_set_conv_nth)
  let ?rows = "stream_rows (ed_audit db) (event_stream E g)"
  have "list_all2 (row_holds (ee_audit E)) ?rows rs" using assms(3) by (simp add: stream_inv_def chain_of_def)
  with k have hold: "row_holds (ee_audit E) (?rows ! k) r" and "k < length ?rows"
    by (auto simp: list_all2_conv_all_nth)
  moreover from assms(1,2) have "list_all2 (paired E g) (engagement_rows db g) ?rows" by (simp add: event_inv_def)
  ultimately have "paired E g (engagement_rows db g ! k) (?rows ! k)" by (auto simp: list_all2_conv_all_nth)
  with hold show ?thesis by (auto simp: paired_def row_holds_def)
qed

lemma event_inv_absent_idempotency:
  assumes "event_inv E G db" and "evt_engagement_id e \<in> G"
    and "\<And>row. row \<in> set (engagement_rows db (evt_engagement_id e)) \<Longrightarrow> er_idempotency_key row \<noteq> evt_idempotency_key e"
    and "inj_on (event_digest E) (idempotency_content ` insert e (stored_events db))"
  shows "\<not> contains_idempotency (ed_audit db) (event_stream E (evt_engagement_id e))
           (event_idempotency_digest (event_digest E) e)"
proof
  let ?g = "evt_engagement_id e"
  let ?rows = "stream_rows (ed_audit db) (event_stream E ?g)"
  assume "contains_idempotency (ed_audit db) (event_stream E ?g) (event_idempotency_digest (event_digest E) e)"
  then obtain arow where arow: "arow \<in> set ?rows" "row_idempotency_digest arow = event_idempotency_digest (event_digest E) e"
    by (auto simp: contains_idempotency_def list_ex_iff set_stream_rows)
  from assms(1,2) have "list_all2 (paired E ?g) (engagement_rows db ?g) ?rows" by (simp add: event_inv_def)
  with arow(1) obtain row where row: "row \<in> set (engagement_rows db ?g)" "paired E ?g row arow"
    by (metis in_set_conv_nth list_all2_conv_all_nth)
  then obtain e' where e': "from_row row = Some e'" "er_idempotency_key row = evt_idempotency_key e'"
    "event_idempotency_digest (event_digest E) e' = event_idempotency_digest (event_digest E) e"
    using arow(2) by (auto simp: paired_def)
  have "row \<in> set (ed_events db)" using row(1) by (simp add: engagement_rows_def)
  then have "e' \<in> stored_events db" using e'(1) by (auto simp: stored_events_def)
  then have "idempotency_content e' = idempotency_content e"
    using e'(3) by (intro inj_onD [OF assms(4)]) (auto simp: event_idempotency_digest_def)
  then have "er_idempotency_key row = evt_idempotency_key e" using e'(2) by (simp add: idempotency_content_def)
  with assms(3) row(1) show False by blast
qed

lemma append_authoritative_accepts:
  assumes ok: "codec_ok (ee_audit E)" "hex_valued (event_digest E)" "fits (ee_audit E)"
    and inv: "event_inv E G db" and g: "evt_engagement_id event \<in> G"
    and acc: "acceptable E db event bindings deadline now"
    and inj: "inj_on (event_digest E) (idempotency_content ` insert event (stored_events db))"
      "\<And>p. audit_plan (event_digest E) (safe_event (ee_redactor E) event) bindings deadline = Inr p \<Longrightarrow>
        inj_on (event_digest E) (AuditRecord_content ` insert (next_record (ee_audit E) (ed_audit db) p now)
          (stored_records (ee_audit E) (ed_audit db)))"
    and c: "AuditCheckpoint_valid (event_digest E) c"
      "stream_inv (ee_audit E) (ed_audit db) (event_stream E (evt_engagement_id event)) rs"
      "anchored (ee_audit E) (event_stream E (evt_engagement_id event)) now rs c"
  obtains r encoded adb where
    "append_authoritative E db event bindings c deadline now =
       (Inr (safe_event (ee_redactor E) event, r, True),
        db\<lparr>ed_events := ed_events db @ [row_of_event (safe_event (ee_redactor E) event) encoded], ed_audit := adb\<rparr>)"
    and "to_json (PDict (evt_payload (safe_event (ee_redactor E) event))) = Some encoded"
    and "length (stream_rows adb (event_stream E (evt_engagement_id event))) =
           Suc (length (stream_rows (ed_audit db) (event_stream E (evt_engagement_id event))))"
proof -
  let ?A = "ee_audit E" and ?H = "event_digest E" and ?g = "evt_engagement_id event"
    and ?safe = "safe_event (ee_redactor E) event"
  have ainv: "audit_inv ?A (ed_audit db)" using inv by (simp add: event_inv_def)
  have lim: "int (length rs) \<le> ae_max_records ?A"
    using acc stream_inv_length [OF c(2)] by (simp add: acceptable_def)
  obtain encoded where enc: "to_json (PDict (evt_payload ?safe)) = Some encoded"
    using acc by (auto simp: acceptable_def simp del: to_json.simps)
  obtain p where p: "audit_plan ?H ?safe bindings deadline = Inr p"
    by (rule audit_plan_accepts [OF ok(2), of bindings ?safe deadline]) (use acc in \<open>simp_all add: acceptable_def\<close>)
  note pf = audit_plan_Inr [OF p]
  have conflict: "\<not> event_conflict (ed_events db) ?safe" "\<not> event_conflict (ed_events db) event"
    using acc by (simp_all add: acceptable_def event_conflict_def)
  have idem: "\<not> contains_idempotency (ed_audit db) (event_stream E ?g) (event_idempotency_digest ?H ?safe)"
    using event_inv_absent_idempotency [OF inv g _ inj(1)] conflict(2)
    by (auto simp: event_idempotency_digest_def idempotency_content_def engagement_rows_def event_conflict_def list_ex_iff)
  have tv: "trusted_valid ?A (Some c)" using c(1) by (simp add: trusted_valid_def)
  have ver: "avr_status (verify_locked ?A (ed_audit db) (event_stream E ?g) now (Some c)) = AV_VERIFIED"
    using c audit_inv_limits [OF ainv c(2)] lim
    by (subst verify_verified_iff [OF tv]) (auto simp: stream_inv_def)
  obtain events where pairs: "assert_authoritative_pairs E db ?g (event_stream E ?g) = Inr events"
    by (rule event_inv_pairs [OF inv g])
  have nofind: "find_event (ed_events db) (evt_idempotency_key event) = None"
    using conflict(2) by (auto simp: find_event_def find_None_iff event_conflict_def list_ex_iff)
  obtain adb where app: "append_locked ?A (ed_audit db) p now (Some c) = Inr (next_record ?A (ed_audit db) p now, adb)"
    by (rule append_locked_accepts [OF ainv _ ok(2) tv, of p rs now])
      (use c lim ok(3) pf acc idem inj(2) [OF p] event_inv_engagement [OF inv g c(2)]
        in \<open>simp_all add: acceptable_def\<close>)
  let ?r = "next_record ?A (ed_audit db) p now"
  have locked: "append_authoritative_locked E db ?safe bindings c deadline now =
      Inr ((?safe, ?r, True), db\<lparr>ed_events := ed_events db @ [row_of_event ?safe encoded], ed_audit := adb\<rparr>)"
    using c(1) ver pairs nofind idem p enc conflict(1) app pf(1)
    by (simp add: append_authoritative_locked_def verify_in_transaction_def append_in_transaction_def Let_def
        del: to_json.simps)
  have aapp: "append_audit ?A (ed_audit db) p now (Some c) = (Inr ?r, adb)"
    using app pf(1) tv by (simp add: append_audit_Inr_iff)
  have idem': "\<not> contains_idempotency (ed_audit db) (ap_stream_id p) (ap_idempotency_digest p)"
    using idem by (simp add: pf)
  obtain rs' where rs': "stream_inv ?A (ed_audit db) (ap_stream_id p) rs'"
    "stream_inv ?A adb (ap_stream_id p) (rs' @ [?r])"
    by (rule append_not_contained [OF ainv ok(1) aapp idem'])
  have len: "length (stream_rows adb (event_stream E ?g)) = Suc (length (stream_rows (ed_audit db) (event_stream E ?g)))"
    using stream_inv_length [OF rs'(1)] stream_inv_length [OF rs'(2)] by (simp add: pf)
  have "append_authoritative E db event bindings c deadline now =
      (Inr (?safe, ?r, True), db\<lparr>ed_events := ed_events db @ [row_of_event ?safe encoded], ed_audit := adb\<rparr>)"
    using acc locked by (simp add: append_authoritative_Inr_iff acceptable_def)
  then show thesis using enc len by (rule that)
qed
end
