(* ===== verification/Event_Properties.thy ===== *)
theory Event_Properties
  imports Event_Acceptance Examples
begin

text \<open>
  The properties of the event log and of the checkpointed store, over the databases that a deployment can reach,
  each with a closed example.
\<close>

section \<open>Example values\<close>

definition sorted_digest :: "pyval \<Rightarrow> digest" where
  "sorted_digest v = demo_digest (sort_dicts v)"

definition demo_events :: "AuditRecord event_env" where
  "demo_events = \<lparr>ee_audit = (demo_audit 2)\<lparr>ae_digest := sorted_digest\<rparr>,
     ee_redactor = \<lparr>rd_variants = [], rd_passes = []\<rparr>\<rparr>"

definition demo_store :: "AuditRecord store_env" where
  "demo_store = \<lparr>se_events = demo_events, se_size = (\<lambda>c. 512)\<rparr>"

definition demo_event :: "uuid \<Rightarrow> Event" where
  "demo_event g = \<lparr>evt_id = 91, evt_engagement_id = g, evt_type = ''scan'', evt_aggregate_id = ''a'',
     evt_payload = [(''token'', PStr ''t0''), (''n'', PInt 3)], evt_occurred_at = 1000,
     evt_idempotency_key = ''k1''\<rparr>"

definition initial_store :: "'j store_state" where
  "initial_store = \<lparr>ss_db = empty_event_db, ss_custody = Map.empty\<rparr>"

definition demo_store1 :: "AuditRecord store_state" where
  "demo_store1 = snd (checkpointed_append demo_store initial_store (demo_event 7) demo_bindings 2000 1500)"

lemma demo_streams_differ: "event_stream demo_events 7 \<noteq> event_stream demo_events 9"
  by code_simp

lemma demo_store_ok: "store_env_ok demo_store {7, 9}"
  using demo_streams_differ by (auto simp: store_env_ok_def demo_store_def demo_events_def demo_audit_def codec_ok_def order_independent_def
      hex_valued_def sorted_digest_def demo_digest_def hex_digits_digest sort_dicts_idem MAX_CHECKPOINT_BYTES_def)

lemma demo_bindings_valid: "AuditStateBindings_valid demo_bindings"
  by code_simp

lemma demo_fits: "fits (ee_audit demo_events)"
  by (simp add: fits_def demo_events_def demo_audit_def)

lemma demo_acceptable: "acceptable demo_events empty_event_db (demo_event 7) demo_bindings 2000 1500"
proof -
  have "to_json (redact_value (ee_redactor demo_events) (PDict (evt_payload (demo_event 7)))) =
      Some (JObj [(''n'', JInt 3), (''token'', JStr ''[REDACTED]'')])" by code_simp
  moreover have "Event_valid (demo_event 7)" "sb_engagement_id demo_bindings = 7" by code_simp+
  ultimately show ?thesis
    using demo_bindings_valid
    by (simp add: acceptable_def event_conflict_def empty_event_db_def empty_audit_def stream_rows_def demo_event_def
        demo_events_def demo_audit_def)
qed

lemma initial_reachable: "store_reachable S G (t, initial_store)"
  unfolding store_reachable_def initial_store_def by (blast intro: steps_refl)

lemma those_snoc: "those (xs @ [Some y]) = map_option (\<lambda>ys. ys @ [y]) (those xs)"
  by (induction xs) (auto split: option.splits simp: option.map_comp comp_def)

section \<open>The checkpointed store\<close>

lemma store_accepts:
  assumes "store_reachable S G (clock, st)" and "store_env_ok S G" and "fits (ee_audit (se_events S))"
    and "clock \<le> now" and "evt_engagement_id event \<in> G"
    and "acceptable (se_events S) (ss_db st) event bindings deadline now"
    and "inj_on (event_digest (se_events S)) (idempotency_content ` insert event (stored_events (ss_db st)))"
    and "\<And>p. audit_plan (event_digest (se_events S)) (safe_event (ee_redactor (se_events S)) event) bindings deadline = Inr p \<Longrightarrow>
        inj_on (event_digest (se_events S)) (AuditRecord_content `
          insert (next_record (ee_audit (se_events S)) (ed_audit (ss_db st)) p now)
            (stored_records (ee_audit (se_events S)) (ed_audit (ss_db st))))"
  shows "\<exists>r st' old. checkpointed_append S st event bindings deadline now =
           (Inr (safe_event (ee_redactor (se_events S)) event, r, True), st') \<and>
         list_for_engagement (ss_db st) (evt_engagement_id event) = Inr old \<and>
         list_for_engagement (ss_db st') (evt_engagement_id event) =
           Inr (old @ [stored_form (safe_event (ee_redactor (se_events S)) event)]) \<and>
         (\<exists>encoded. ed_events (ss_db st') = ed_events (ss_db st) @
            [row_of_event (safe_event (ee_redactor (se_events S)) event) encoded])"
proof -
  let ?E = "se_events S" and ?g = "evt_engagement_id event" and ?safe = "safe_event (ee_redactor (se_events S)) event"
  let ?A = "ee_audit ?E" and ?sid = "event_stream ?E ?g"
  note ok = assms(2) and g = assms(5)
  have inv: "store_inv S G now st"
    using store_inv_later [OF store_reachable_inv [OF assms(1,2)] assms(4)] .
  then have einv: "event_inv ?E G (ss_db st)" by (simp add: store_inv_def)
  from ok have env: "codec_ok ?A" "hex_valued (event_digest ?E)" "order_independent (event_digest ?E)"
    "inj_on (event_stream ?E) G" by (simp_all add: store_env_ok_def)
  obtain c dir where tc: "trusted_checkpoint S st ?g now = Inr (c, dir)"
    and c: "trusted_prefix S now (ss_db st) dir ?g c" by (rule trusted_checkpoint_total [OF ok inv g]) blast
  from c obtain rs where rs: "stream_inv ?A (ed_audit (ss_db st)) ?sid rs" "anchored ?A ?sid now rs c"
    and vc: "AuditCheckpoint_valid (event_digest ?E) c"
    by (auto simp: trusted_prefix_def Let_def load_Some_iff)
  obtain r encoded adb where app: "append_authoritative ?E (ss_db st) event bindings c deadline now =
       (Inr (?safe, r, True), (ss_db st)\<lparr>ed_events := ed_events (ss_db st) @ [row_of_event ?safe encoded], ed_audit := adb\<rparr>)"
    and enc: "to_json (PDict (evt_payload ?safe)) = Some encoded"
    and len: "length (stream_rows adb ?sid) = Suc (length (stream_rows (ed_audit (ss_db st)) ?sid))"
    by (rule append_authoritative_accepts [OF env(1,2) assms(3) einv g assms(6,7,8) vc rs]) blast
  let ?db = "(ss_db st)\<lparr>ed_events := ed_events (ss_db st) @ [row_of_event ?safe encoded], ed_audit := adb\<rparr>"
  have einv': "event_inv ?E G ?db"
    by (rule event_inv_step [OF einv env(1,3,4) event_step.committed [OF app g]])
  then have ainv: "audit_inv ?A adb" by (simp add: event_inv_def)
  then obtain rs' where rs': "stream_inv ?A adb ?sid rs'" by (auto simp: audit_inv_def)
  have "int (length rs') \<le> ae_max_records ?A"
    using assms(6) stream_inv_length [OF rs'] len by (simp add: acceptable_def)
  then obtain latest where latest: "checkpoint ?A (ed_audit ?db) ?sid now = Inr latest"
    using checkpoint_total [OF env(2) ainv rs' event_stream_digest [OF ok]] by (metis event_db.simps(2) event_db.update_convs(1,2) event_db.surjective)
  have c': "trusted_prefix S now ?db dir ?g c"
    by (rule trusted_prefix_extend [OF c env(1) append_authoritative_audit_step [OF app]])
  obtain c2 dir2 where adv: "advance (custody_of S) dir c latest = Inr (c2, dir2)"
    by (rule advance_total [OF ok c' latest]) blast
  have "checkpointed_append S st event bindings deadline now =
      (Inr (?safe, r, True), \<lparr>ss_db = ?db, ss_custody = dir2\<rparr>)"
    using tc app latest adv by (simp add: checkpointed_append_def Let_def)
  moreover obtain old where old: "list_for_engagement (ss_db st) ?g = Inr old"
    by (rule event_inv_pairs [OF einv g])
  moreover have "from_row (row_of_event ?safe encoded) = Some (stored_form ?safe)"
    using assms(6) by (intro from_row_of_event safe_event_enum_free enc) (simp add: acceptable_def)
  then have "list_for_engagement ?db ?g = Inr (old @ [stored_form ?safe])"
    using old by (auto simp: list_for_engagement_def engagement_rows_def those_snoc split: option.splits)
      (simp_all add: row_of_event_def)
  ultimately show ?thesis by fastforce
qed


lemma demo_no_records: "stored_records A (ed_audit empty_event_db) = {}" "stored_events empty_event_db = {}"
  by (simp_all add: stored_records_def stored_events_def empty_event_db_def empty_audit_def)

lemma initial_db: "ss_db initial_store = empty_event_db"
  by (simp add: initial_store_def)

lemma demo_engagement: "evt_engagement_id (demo_event g) = g" "se_events demo_store = demo_events"
  by (simp_all add: demo_event_def demo_store_def)

lemma demo_premises:
  "fits (ee_audit (se_events demo_store))" "evt_engagement_id (demo_event 7) \<in> {7, 9}"
  "acceptable (se_events demo_store) (ss_db initial_store) (demo_event 7) demo_bindings 2000 1500"
  "inj_on H (idempotency_content ` insert (demo_event 7) (stored_events (ss_db initial_store)))"
  "inj_on H (AuditRecord_content ` insert r (stored_records A (ed_audit (ss_db initial_store))))"
  by (simp_all add: demo_engagement demo_fits demo_no_records initial_db demo_acceptable)


text \<open>The store never locks itself out: in every reachable state, whatever calls succeeded or failed before
  (including appends whose checkpoint could not be advanced), listing an engagement within the record limit
  succeeds, returns every stored event of the engagement in order and leaves the database as it is.\<close>

theorem store_never_locks_out:
  assumes "store_reachable S G (clock, st)" and "store_env_ok S G" and "g \<in> G" and "clock \<le> now"
    and "int (length (stream_rows (ed_audit (ss_db st)) (event_stream (se_events S) g))) \<le>
           ae_max_records (ee_audit (se_events S))"
  shows "\<exists>events st'. checkpointed_list S st g now = (Inr events, st') \<and>
           list_for_engagement (ss_db st) g = Inr events \<and> ss_db st' = ss_db st"
proof -
  have inv: "store_inv S G now st"
    using store_inv_later [OF store_reachable_inv [OF assms(1,2)] assms(4)] .
  obtain res st' where "checkpointed_list S st g now = (res, st')" by fastforce
  with checkpointed_list_outcome(2) [OF assms(2) inv assms(3) _ assms(5)] show ?thesis by blast
qed

lemma demo_store1_reachable: "store_reachable demo_store {7, 9} (1500, demo_store1)"
proof -
  obtain res where "checkpointed_append demo_store initial_store (demo_event 7) demo_bindings 2000 1500 = (res, demo_store1)"
    unfolding demo_store1_def by (metis prod.collapse)
  then have "store_step demo_store {7, 9} (0, initial_store) (1500, demo_store1)"
    by (intro store_step.append_call [of 0 1500 "demo_event 7"]) (simp_all add: demo_engagement)
  then have "steps (store_step demo_store {7, 9}) (0, initial_store) (Suc 0) (1500, demo_store1)"
    by (rule steps_step [OF steps_refl])
  then show ?thesis unfolding store_reachable_def initial_store_def by blast
qed

lemma demo_append_outcome:
  "\<exists>encoded. ed_events (ss_db demo_store1) = [row_of_event (safe_event (ee_redactor demo_events) (demo_event 7)) encoded]"
  "list_for_engagement (ss_db demo_store1) 7 = Inr [stored_form (safe_event (ee_redactor demo_events) (demo_event 7))]"
proof -
  obtain r st' old where app: "checkpointed_append demo_store initial_store (demo_event 7) demo_bindings 2000 1500 =
       (Inr (safe_event (ee_redactor demo_events) (demo_event 7), r, True), st')"
    and old: "list_for_engagement (ss_db (initial_store :: AuditRecord store_state)) 7 = Inr old"
    and new: "list_for_engagement (ss_db st') 7 = Inr (old @ [stored_form (safe_event (ee_redactor demo_events) (demo_event 7))])"
    and ev: "\<exists>encoded. ed_events (ss_db st') = ed_events (ss_db (initial_store :: AuditRecord store_state)) @
      [row_of_event (safe_event (ee_redactor demo_events) (demo_event 7)) encoded]"
    using store_accepts [OF initial_reachable [of _ _ 0] demo_store_ok demo_premises(1) _ demo_premises(2-5)]
    by (auto simp: demo_engagement)
  have st': "st' = demo_store1" using app by (simp add: demo_store1_def)
  have "old = []" using old by (simp add: list_for_engagement_def initial_db engagement_rows_def empty_event_db_def)
  with new st' show "list_for_engagement (ss_db demo_store1) 7 =
      Inr [stored_form (safe_event (ee_redactor demo_events) (demo_event 7))]" by simp
  show "\<exists>encoded. ed_events (ss_db demo_store1) = [row_of_event (safe_event (ee_redactor demo_events) (demo_event 7)) encoded]"
    using ev st' by (simp add: initial_db empty_event_db_def)
qed

lemma demo_store1_events:
  "\<exists>encoded. ed_events (ss_db demo_store1) = [row_of_event (safe_event (ee_redactor demo_events) (demo_event 7)) encoded] \<and>
     from_row (row_of_event (safe_event (ee_redactor demo_events) (demo_event 7)) encoded) =
       Some (stored_form (safe_event (ee_redactor demo_events) (demo_event 7)))"
proof -
  obtain encoded where ev: "ed_events (ss_db demo_store1) = [row_of_event (safe_event (ee_redactor demo_events) (demo_event 7)) encoded]"
    using demo_append_outcome(1) by blast
  moreover have "er_engagement_id (row_of_event (safe_event (ee_redactor demo_events) (demo_event 7)) encoded) = 7"
    by (simp add: row_of_event_def demo_engagement)
  ultimately show ?thesis
    using demo_append_outcome(2) by (auto simp: list_for_engagement_def engagement_rows_def split: option.splits)
qed

lemma demo_store1_rows: "length (stream_rows (ed_audit (ss_db demo_store1)) (event_stream demo_events 7)) = 1"
proof -
  have inv: "event_inv demo_events {7, 9} (ss_db demo_store1)"
    using store_reachable_inv [OF demo_store1_reachable demo_store_ok] by (simp add: store_inv_def demo_engagement)
  obtain evs where "list_for_engagement (ss_db demo_store1) 7 = Inr evs"
    "length evs = length (stream_rows (ed_audit (ss_db demo_store1)) (event_stream demo_events 7))"
    by (rule event_inv_pairs [OF inv, of 7]) auto
  with demo_append_outcome(2) show ?thesis by simp
qed

theorem store_never_locks_out_witness:
  "\<exists>events st'. checkpointed_list demo_store demo_store1 7 1600 = (Inr events, st') \<and>
     list_for_engagement (ss_db demo_store1) 7 = Inr events \<and> ss_db st' = ss_db demo_store1"
proof -
  have E: "se_events demo_store = demo_events" "ae_max_records (ee_audit demo_events) = 2"
    by (simp_all add: demo_store_def demo_events_def demo_audit_def)
  show ?thesis
    using store_never_locks_out [OF demo_store1_reachable demo_store_ok, of 7 1600] by (simp add: E demo_store1_rows)
qed

text \<open>Custody is monotone: over any sequence of initialisations and advances, the trusted checkpoint of a stream is
  never lost; it stays the same or is replaced by one of a strictly longer prefix that was not issued earlier.\<close>

theorem custody_monotone:
  assumes "steps (custody_step C) dir n dir'" and "load C dir sid = Inr (Some c)"
  shows "\<exists>c'. load C dir' sid = Inr (Some c') \<and>
    (c' = c \<or> (cp_sequence c < cp_sequence c' \<and> cp_issued_at c \<le> cp_issued_at c' \<and> cp_stream_id c' = cp_stream_id c))"
  using custody_steps_newer [OF assms] by (simp add: newer_or_same_def)


definition demo_custody :: custody_env where
  "demo_custody = \<lparr>ce_digest = demo_digest, ce_size = (\<lambda>c. 512)\<rparr>"

definition demo_cp :: "int \<Rightarrow> digest \<Rightarrow> instant \<Rightarrow> AuditCheckpoint" where
  "demo_cp n d t = (let c = \<lparr>cp_checkpoint_id = [], cp_contract_digest = AUDIT_CHAIN_CONTRACT_DIGEST demo_digest,
     cp_stream_id = hex_digits 64 99, cp_sequence = n, cp_head_digest = d, cp_issued_at = t\<rparr>
     in c\<lparr>cp_checkpoint_id := demo_digest (AuditCheckpoint_content c)\<rparr>)"

abbreviation demo_cp0 :: AuditCheckpoint where "demo_cp0 \<equiv> demo_cp 0 (AUDIT_GENESIS_DIGEST demo_digest) 100"
abbreviation demo_cp1 :: AuditCheckpoint where "demo_cp1 \<equiv> demo_cp 1 (hex_digits 64 12) 200"

definition demo_file :: "AuditCheckpoint \<Rightarrow> custody_file" where
  "demo_file c = \<lparr>cf_regular = True, cf_group_or_other = False, cf_size = 512, cf_content = Some c\<rparr>"

lemma demo_cp_valid: "AuditCheckpoint_valid demo_digest demo_cp0" "AuditCheckpoint_valid demo_digest demo_cp1"
  by code_simp+

lemma demo_cp_stream: "cp_stream_id (demo_cp n d t) = hex_digits 64 99" "cp_sequence (demo_cp n d t) = n"
  "cp_issued_at (demo_cp n d t) = t"
  by (simp_all add: demo_cp_def Let_def)

lemma demo_load: "AuditCheckpoint_valid demo_digest c \<Longrightarrow> cp_stream_id c = hex_digits 64 99 \<Longrightarrow>
    load demo_custody [hex_digits 64 99 \<mapsto> demo_file c] (hex_digits 64 99) = Inr (Some c)"
  by (simp add: load_Some_iff demo_custody_def demo_file_def hex_digits_digest MAX_CHECKPOINT_BYTES_def)

lemma demo_advance:
  "advance demo_custody [hex_digits 64 99 \<mapsto> demo_file demo_cp0] demo_cp0 demo_cp1 =
     Inr (demo_cp1, [hex_digits 64 99 \<mapsto> demo_file demo_cp1])"
  using demo_load [OF demo_cp_valid(1)] demo_cp_valid
  by (simp add: advance_def demo_cp_stream)
    (simp add: demo_custody_def replace_locked_def demo_cp_stream demo_file_def MAX_CHECKPOINT_BYTES_def)

theorem custody_monotone_witness:
  "\<exists>c'. load demo_custody [hex_digits 64 99 \<mapsto> demo_file demo_cp1] (hex_digits 64 99) = Inr (Some c') \<and>
     (c' = demo_cp0 \<or> (0 < cp_sequence c' \<and> 100 \<le> cp_issued_at c' \<and> cp_stream_id c' = hex_digits 64 99))"
proof -
  have "steps (custody_step demo_custody) [hex_digits 64 99 \<mapsto> demo_file demo_cp0] (Suc 0) [hex_digits 64 99 \<mapsto> demo_file demo_cp1]"
    by (rule steps_step [OF steps_refl]) (rule custody_step.advanced [OF demo_advance])
  from custody_monotone [OF this demo_load [OF demo_cp_valid(1)]] show ?thesis by (simp add: demo_cp_stream)
qed

section \<open>The event log\<close>

text \<open>Appends are idempotent: after an event was appended or found, appending an event with the same key, engagement,
  type, aggregate and payload, whatever its identifier and time, returns the stored event as not new and changes
  nothing; the stored event is the redacted one with its dictionaries in key order.\<close>

theorem append_event_idempotent:
  assumes "append_event E db e = (Inr (x, new), db')" and "Event_valid e"
  shows "append_event E db' (e\<lparr>evt_id := i, evt_occurred_at := t\<rparr>) =
           (Inr (if new then stored_form x else x, False), db')"
proof -
  let ?safe = "safe_event (ee_redactor E) e"
  let ?safe' = "safe_event (ee_redactor E) (e\<lparr>evt_id := i, evt_occurred_at := t\<rparr>)"
  have s': "?safe' = ?safe\<lparr>evt_id := i, evt_occurred_at := t\<rparr>" by (simp add: safe_event_def)
  from assms(1) obtain encoded where enc: "to_json (PDict (evt_payload ?safe)) = Some encoded"
    by (auto simp: append_event_def Let_def simp del: to_json.simps split: option.splits)
  have same: "same_event y ?safe' = same_event y ?safe" for y by (simp add: s' same_event_def)
  have found: "append_event E db' (e\<lparr>evt_id := i, evt_occurred_at := t\<rparr>) = (Inr (y, False), db')"
    if "find_event (ed_events db') (evt_idempotency_key e) = Some row" "from_row row = Some y" "same_event y ?safe" for row y
  proof -
    have "event_conflict (ed_events db') ?safe'"
      using that(1) nth_mem by (fastforce simp: find_event_def find_Some_iff event_conflict_def list_ex_iff s')
    moreover have "to_json (PDict (evt_payload ?safe')) = Some encoded" using enc by (simp add: s' del: to_json.simps)
    ultimately show ?thesis using that by (simp add: append_event_def Let_def same del: to_json.simps)
  qed
  show ?thesis
  proof (cases "event_conflict (ed_events db) ?safe")
    case False
    then have x: "x = ?safe" "new" and db': "ed_events db' = ed_events db @ [row_of_event ?safe encoded]"
      using assms(1) enc by (auto simp: append_event_def Let_def simp del: to_json.simps)
    have "find_event (ed_events db') (evt_idempotency_key e) = Some (row_of_event ?safe encoded)"
      using False unfolding db' find_event_def
      by (auto simp: find_append find_None_iff event_conflict_def list_ex_iff row_of_event_def split: option.splits)
        (auto simp: find_Some_iff)
    then show ?thesis
      using found [OF _ from_row_of_event [OF safe_event_enum_free enc]] same_event_stored [OF safe_event_enum_free enc]
        assms(2) x by simp
  next
    case True
    then obtain row where "find_event (ed_events db) (evt_idempotency_key e) = Some row" "from_row row = Some x"
      "same_event x ?safe" "\<not> new" "db' = db"
      using assms(1) enc by (auto simp: append_event_def Let_def simp del: to_json.simps split: option.splits if_splits)
    then show ?thesis using found by simp
  qed
qed

theorem append_event_idempotent_witness:
  "append_event demo_events (snd (append_event demo_events empty_event_db (demo_event 7))) ((demo_event 7)\<lparr>evt_id := 5, evt_occurred_at := 6\<rparr>) =
     (Inr (stored_form (safe_event (ee_redactor demo_events) (demo_event 7)), False),
      snd (append_event demo_events empty_event_db (demo_event 7)))"
proof -
  have "fst (append_event demo_events (empty_event_db :: AuditRecord event_db) (demo_event 7)) =
      Inr (safe_event (ee_redactor demo_events) (demo_event 7), True)"
    using demo_acceptable
    by (auto simp: acceptable_def append_event_def Let_def event_conflict_def empty_event_db_def
        simp del: to_json.simps split: option.splits)
  then have app: "append_event demo_events (empty_event_db :: AuditRecord event_db) (demo_event 7) =
      (Inr (safe_event (ee_redactor demo_events) (demo_event 7), True),
       snd (append_event demo_events empty_event_db (demo_event 7)))" by (simp add: prod_eq_iff)
  have "Event_valid (demo_event 7)" by code_simp
  from append_event_idempotent [OF app this, of 6 5] show ?thesis by simp
qed

text \<open>Events and audit records are committed together: whatever the outcome of an authoritative append, either
  nothing changed, or exactly one event row and one audit row were added, and the audit record decodes from its row,
  carries the event's key digest and seals the redacted event.\<close>

theorem authoritative_append_atomic:
  "case append_authoritative E db e bindings trusted deadline now of
     (Inl err, db') \<Rightarrow> db' = db
   | (Inr (x, r, new), db') \<Rightarrow>
       if \<not> new then db' = db
       else \<exists>encoded arow. x = safe_event (ee_redactor E) e \<and>
          to_json (PDict (evt_payload x)) = Some encoded \<and>
          ed_events db' = ed_events db @ [row_of_event x encoded] \<and>
          db_records (ed_audit db') = db_records (ed_audit db) @ [arow] \<and>
          arow = row_of_record (ee_audit E) r (event_idempotency_digest (event_digest E) x) \<and>
          ar_stream_id r = event_stream E (evt_engagement_id e) \<and>
          ar_transition_digest r =
            event_transition_digest (event_digest E) x (event_idempotency_digest (event_digest E) x) \<and>
          AuditRecord_valid (event_digest E) r"
proof -
  obtain res db' where app: "append_authoritative E db e bindings trusted deadline now = (res, db')" by fastforce
  show ?thesis
  proof (cases res)
    case (Inl err)
    with app append_authoritative_error_unchanged show ?thesis by fastforce
  next
    case (Inr y)
    obtain x r new where y: "y = (x, r, new)" by (cases y) auto
    from app Inr have "append_authoritative_locked E db (safe_event (ee_redactor E) e) bindings trusted deadline now =
        Inr ((x, r, new), db')" by (simp add: append_authoritative_Inr_iff y)
    then show ?thesis
    proof (cases rule: append_authoritative_locked_cases)
      case (replayed row)
      with app Inr y show ?thesis by simp
    next
      case (appended p encoded adb)
      note p = audit_plan_Inr [OF appended(3)]
      from appended(8) show ?thesis
      proof (cases rule: append_locked_cases)
        case (replay row)
        with appended(6) show ?thesis by (auto simp: contains_idempotency_def list_ex_iff)
      next
        case (fresh v)
        let ?row = "row_of_record (ee_audit E) r (event_idempotency_digest (event_digest E) x)"
        have "ar_stream_id r = event_stream E (evt_engagement_id e)"
          "ar_transition_digest r = event_transition_digest (event_digest E) x (event_idempotency_digest (event_digest E) x)"
          using fresh(6) p appended(2) by simp_all
        moreover have "db_records adb = db_records (ed_audit db) @ [?row]"
          using insert_record_rows [OF fresh(9)] p appended(2) by simp
        ultimately show ?thesis
          using app Inr y appended fresh(7) by (auto simp del: to_json.simps intro: exI [of _ encoded])
      qed
    qed
  qed
qed

text \<open>Reusing a key across engagements is misreported: when a stored event of another engagement has the key, a valid
  event is refused with the error that asks for the restoration of a verified copy, although both
  tables are complete, and not with the idempotency conflict.\<close>

theorem cross_engagement_key_misreported:
  assumes "store_reachable S G (clock, st)" and "store_env_ok S G" and "clock \<le> now"
    and "evt_engagement_id e \<in> G" and "row \<in> set (ed_events (ss_db st))"
    and "er_idempotency_key row = evt_idempotency_key e" and "er_engagement_id row \<noteq> evt_engagement_id e"
    and "Event_valid e" and "AuditStateBindings_valid bindings" and "sb_engagement_id bindings = evt_engagement_id e"
    and "int (length (stream_rows (ed_audit (ss_db st)) (event_stream (se_events S) (evt_engagement_id e)))) \<le>
           ae_max_records (ee_audit (se_events S))"
    and "inj_on (event_digest (se_events S)) (idempotency_content ` insert e (stored_events (ss_db st)))"
  shows "fst (checkpointed_append S st e bindings deadline now) =
    Inl (EventFailed (AtomicAuditRecoveryRequired ''authoritative event/audit pair is incomplete''))"
proof -
  let ?E = "se_events S" and ?g = "evt_engagement_id e" and ?db = "ss_db st"
  let ?A = "ee_audit ?E" and ?safe = "safe_event (ee_redactor ?E) e"
  have inv: "store_inv S G now st"
    using store_inv_later [OF store_reachable_inv [OF assms(1,2)] assms(3)] .
  then have einv: "event_inv ?E G ?db" by (simp add: store_inv_def)
  obtain c dir where tc: "trusted_checkpoint S st ?g now = Inr (c, dir)"
    and c: "trusted_prefix S now ?db dir ?g c" by (rule trusted_checkpoint_total [OF assms(2) inv assms(4)]) blast
  from c obtain rs where rs: "stream_inv ?A (ed_audit ?db) (event_stream ?E ?g) rs" "anchored ?A (event_stream ?E ?g) now rs c"
    and vc: "AuditCheckpoint_valid (event_digest ?E) c"
    by (auto simp: trusted_prefix_def Let_def load_Some_iff)
  have ainv: "audit_inv ?A (ed_audit ?db)" and keys: "distinct (map er_idempotency_key (ed_events ?db))"
    using einv by (simp_all add: event_inv_def)
  have tv: "trusted_valid ?A (Some c)" using vc by (simp add: trusted_valid_def)
  have ver: "avr_status (verify_locked ?A (ed_audit ?db) (event_stream ?E ?g) now (Some c)) = AV_VERIFIED"
    using rs audit_inv_limits [OF ainv rs(1)] assms(11) stream_inv_length [OF rs(1)]
    by (subst verify_verified_iff [OF tv]) (auto simp: stream_inv_def)
  obtain events where pairs: "assert_authoritative_pairs ?E ?db ?g (event_stream ?E ?g) = Inr events"
    by (rule event_inv_pairs [OF einv assms(4)])
  have "er_idempotency_key row' \<noteq> evt_idempotency_key e" if "row' \<in> set (engagement_rows ?db ?g)" for row'
  proof
    assume "er_idempotency_key row' = evt_idempotency_key e"
    moreover have "row' \<in> set (ed_events ?db)" "er_engagement_id row' = ?g"
      using that by (auto simp: engagement_rows_def)
    moreover have "inj_on er_idempotency_key (set (ed_events ?db))" using keys by (simp add: distinct_map)
    ultimately have "row' = row" using assms(5,6) by (metis inj_onD)
    with \<open>er_engagement_id row' = ?g\<close> assms(7) show False by simp
  qed
  then have "\<not> contains_idempotency (ed_audit ?db) (event_stream ?E ?g) (event_idempotency_digest (event_digest ?E) ?safe)"
    using event_inv_absent_idempotency [OF einv assms(4) _ assms(12)]
    by (simp add: event_idempotency_digest_def idempotency_content_def)
  moreover have "find_event (ed_events ?db) (evt_idempotency_key e) \<noteq> None"
    using assms(5,6) by (auto simp: find_event_def find_None_iff)
  ultimately show ?thesis
    using tc ver vc pairs assms(8-10)
    by (simp add: checkpointed_append_def append_authoritative_def append_authoritative_locked_def
        verify_in_transaction_def Let_def)
qed

definition other_bindings :: AuditStateBindings where
  "other_bindings = demo_bindings\<lparr>sb_engagement_id := 9\<rparr>"

lemma other_bindings_valid: "AuditStateBindings_valid other_bindings" "Event_valid (demo_event 9)"
  by code_simp+

lemma demo_stored1: "stored_events (ss_db demo_store1) = {stored_form (safe_event (ee_redactor demo_events) (demo_event 7))}"
  "\<exists>row. row \<in> set (ed_events (ss_db demo_store1)) \<and> er_idempotency_key row = ''k1'' \<and> er_engagement_id row = 7"
  "engagement_rows (ss_db demo_store1) 9 = []"
proof -
  from demo_store1_events obtain encoded where
    ev: "ed_events (ss_db demo_store1) = [row_of_event (safe_event (ee_redactor demo_events) (demo_event 7)) encoded]"
    and row: "from_row (row_of_event (safe_event (ee_redactor demo_events) (demo_event 7)) encoded) =
      Some (stored_form (safe_event (ee_redactor demo_events) (demo_event 7)))" by blast
  then show "stored_events (ss_db demo_store1) = {stored_form (safe_event (ee_redactor demo_events) (demo_event 7))}"
    by (simp add: stored_events_def)
  show "\<exists>row. row \<in> set (ed_events (ss_db demo_store1)) \<and> er_idempotency_key row = ''k1'' \<and> er_engagement_id row = 7"
    unfolding ev by (simp add: row_of_event_def) (simp add: demo_event_def)
  show "engagement_rows (ss_db demo_store1) 9 = []"
    unfolding engagement_rows_def ev by (simp add: row_of_event_def demo_engagement)
qed

lemma demo_keys_differ:
  "sorted_digest (idempotency_content (demo_event 9)) \<noteq> sorted_digest (idempotency_content (demo_event 7))"
  by code_simp

theorem cross_engagement_key_misreported_witness:
  "fst (checkpointed_append demo_store demo_store1 (demo_event 9) other_bindings 2000 1600) =
     Inl (EventFailed (AtomicAuditRecoveryRequired ''authoritative event/audit pair is incomplete''))"
proof -
  obtain row where row: "row \<in> set (ed_events (ss_db demo_store1))" "er_idempotency_key row = ''k1''" "er_engagement_id row = 7"
    using demo_stored1(2) by blast
  have "event_inv demo_events {7, 9} (ss_db demo_store1)"
    using store_reachable_inv [OF demo_store1_reachable demo_store_ok] by (simp add: store_inv_def demo_engagement)
  then have rows: "stream_rows (ed_audit (ss_db demo_store1)) (event_stream demo_events 9) = []"
    using demo_stored1(3) by (simp add: event_inv_def)
  have c: "idempotency_content (stored_form (safe_event R (demo_event 7))) = idempotency_content (demo_event 7)" for R
    by (simp add: idempotency_content_def)
  have H: "ae_digest (ee_audit demo_events) = sorted_digest" "0 \<le> ae_max_records (ee_audit demo_events)"
    by (simp_all add: demo_events_def demo_audit_def)
  have inj: "inj_on (event_digest (se_events demo_store)) (idempotency_content ` insert (demo_event 9) (stored_events (ss_db demo_store1)))"
    using demo_keys_differ by (simp add: demo_engagement demo_stored1(1) c H inj_on_def)
  have key: "evt_idempotency_key (demo_event 9) = ''k1''" "sb_engagement_id other_bindings = 9"
    by (simp_all add: demo_event_def other_bindings_def)
  show ?thesis
    by (rule cross_engagement_key_misreported [OF demo_store1_reachable demo_store_ok _ _ row(1) _ _ _ _ _ _ inj])
      (simp_all add: row demo_engagement key other_bindings_valid rows [unfolded H] H)
qed

end
