(* ===== verification/Red_Team_Models.thy ===== *)
theory Red_Team_Models
  imports Domain Urls
begin

text \<open>
  The contracts of \<^verbatim>\<open>src/src/vulnloom/red_team/models.py\<close> and the workflow dimensions of
  \<^verbatim>\<open>src/src/vulnloom/workflows/models.py\<close>: each Pydantic model as a record, its declared constraints and
  validators as \<open>X_valid\<close>, the dump its identifier is the digest of as \<open>X_content\<close>, and \<^verbatim>\<open>create\<close> as
  \<open>X_create\<close> (\<open>None\<close> is the raised \<^verbatim>\<open>ValueError\<close>).
\<close>

section \<open>Workflow dimensions\<close>

datatype WorkflowKind = SOURCE_HUNT | PRE_RELEASE_ACCEPTANCE | PRODUCTION_TESTING | AUTHORIZED_RED_TEAM
datatype Visibility = BLACK_BOX | GREY_BOX | WHITE_BOX | HYBRID
datatype ExecutionProfile = EP_BENCHMARK | EP_PRODUCTION_SAFE | EP_PRE_RELEASE | EP_RED_TEAM
datatype AutonomyLevel = AL_MANUAL | AL_ASSISTED | AL_BOUNDED_EXECUTION | AL_ADAPTIVE_FLOW | AL_GOAL_DRIVEN_CAMPAIGN

fun workflow_value :: "WorkflowKind \<Rightarrow> string" where
  "workflow_value SOURCE_HUNT = ''source_hunt''"
| "workflow_value PRE_RELEASE_ACCEPTANCE = ''pre_release_acceptance''"
| "workflow_value PRODUCTION_TESTING = ''production_testing''"
| "workflow_value AUTHORIZED_RED_TEAM = ''authorized_red_team''"

fun visibility_value :: "Visibility \<Rightarrow> string" where
  "visibility_value BLACK_BOX = ''black_box''"
| "visibility_value GREY_BOX = ''grey_box''"
| "visibility_value WHITE_BOX = ''white_box''"
| "visibility_value HYBRID = ''hybrid''"

fun profile_value :: "ExecutionProfile \<Rightarrow> string" where
  "profile_value EP_BENCHMARK = ''benchmark''"
| "profile_value EP_PRODUCTION_SAFE = ''production_safe''"
| "profile_value EP_PRE_RELEASE = ''pre_release''"
| "profile_value EP_RED_TEAM = ''red_team''"

fun autonomy_value :: "AutonomyLevel \<Rightarrow> string" where
  "autonomy_value AL_MANUAL = ''a0_manual''"
| "autonomy_value AL_ASSISTED = ''a1_assisted''"
| "autonomy_value AL_BOUNDED_EXECUTION = ''a2_bounded_execution''"
| "autonomy_value AL_ADAPTIVE_FLOW = ''a3_adaptive_flow''"
| "autonomy_value AL_GOAL_DRIVEN_CAMPAIGN = ''a4_goal_driven_campaign''"

record WorkflowMode =
  wm_workflow :: WorkflowKind
  wm_visibility :: Visibility
  wm_execution_profile :: ExecutionProfile
  wm_autonomy :: AutonomyLevel

text \<open>\<^verbatim>\<open>WorkflowMode.compatible\<close>\<close>

definition WorkflowMode_valid :: "WorkflowMode \<Rightarrow> bool" where
  "WorkflowMode_valid m \<longleftrightarrow>
     \<not> (wm_workflow m = AUTHORIZED_RED_TEAM \<and>
        (wm_execution_profile m \<noteq> EP_RED_TEAM \<or> wm_visibility m \<notin> {BLACK_BOX, GREY_BOX})) \<and>
     \<not> (wm_workflow m = SOURCE_HUNT \<and>
        (wm_visibility m \<notin> {WHITE_BOX, HYBRID} \<or> wm_execution_profile m \<notin> {EP_BENCHMARK, EP_PRE_RELEASE})) \<and>
     \<not> (wm_workflow m = PRODUCTION_TESTING \<and> wm_execution_profile m \<noteq> EP_PRODUCTION_SAFE) \<and>
     \<not> (wm_workflow m = PRE_RELEASE_ACCEPTANCE \<and> wm_execution_profile m \<noteq> EP_PRE_RELEASE)"

definition WorkflowMode_dump :: "WorkflowMode \<Rightarrow> pyval" where
  "WorkflowMode_dump m = PDict
     [(''workflow'', PEnum (workflow_value (wm_workflow m))),
      (''visibility'', PEnum (visibility_value (wm_visibility m))),
      (''execution_profile'', PEnum (profile_value (wm_execution_profile m))),
      (''autonomy'', PEnum (autonomy_value (wm_autonomy m)))]"

section \<open>Enumerations\<close>

datatype RedTeamPhase = RECON | INITIAL_ACCESS | VALIDATION | POST_EXPLOITATION

datatype ImpactClass =
    Imp_READ_ONLY | Imp_STATE_CHANGE | Imp_REAL_CREDENTIAL | Imp_EXTERNAL_CALLBACK | Imp_LATERAL_MOVEMENT
  | Imp_PERSISTENCE

datatype RedTeamFlowStatus =
    Flow_PLANNED | Flow_RUNNING | Flow_COMPLETED | Flow_CANCELLED | Flow_TIMED_OUT | Flow_FAILED | Flow_KILLED

datatype ReconOutcome = Rec_SUCCEEDED | Rec_REJECTED | Rec_TIMED_OUT | Rec_FAILED

datatype ServiceTlsVersion = TLS_1_2 | TLS_1_3

fun phase_value :: "RedTeamPhase \<Rightarrow> string" where
  "phase_value RECON = ''recon''"
| "phase_value INITIAL_ACCESS = ''initial_access''"
| "phase_value VALIDATION = ''validation''"
| "phase_value POST_EXPLOITATION = ''post_exploitation''"

fun impact_value :: "ImpactClass \<Rightarrow> string" where
  "impact_value Imp_READ_ONLY = ''read_only''"
| "impact_value Imp_STATE_CHANGE = ''state_change''"
| "impact_value Imp_REAL_CREDENTIAL = ''real_credential''"
| "impact_value Imp_EXTERNAL_CALLBACK = ''external_callback''"
| "impact_value Imp_LATERAL_MOVEMENT = ''lateral_movement''"
| "impact_value Imp_PERSISTENCE = ''persistence''"

fun flow_status_value :: "RedTeamFlowStatus \<Rightarrow> string" where
  "flow_status_value Flow_PLANNED = ''planned''"
| "flow_status_value Flow_RUNNING = ''running''"
| "flow_status_value Flow_COMPLETED = ''completed''"
| "flow_status_value Flow_CANCELLED = ''cancelled''"
| "flow_status_value Flow_TIMED_OUT = ''timed_out''"
| "flow_status_value Flow_FAILED = ''failed''"
| "flow_status_value Flow_KILLED = ''killed''"

fun recon_outcome_value :: "ReconOutcome \<Rightarrow> string" where
  "recon_outcome_value Rec_SUCCEEDED = ''succeeded''"
| "recon_outcome_value Rec_REJECTED = ''rejected''"
| "recon_outcome_value Rec_TIMED_OUT = ''timed_out''"
| "recon_outcome_value Rec_FAILED = ''failed''"

fun tls_version_value :: "ServiceTlsVersion \<Rightarrow> string" where
  "tls_version_value TLS_1_2 = ''TLSv1.2''"
| "tls_version_value TLS_1_3 = ''TLSv1.3''"

section \<open>Snapshots\<close>

record AttackSurfaceSnapshot =
  as_snapshot_id :: digest
  as_plan_id :: digest
  as_action_id :: digest
  as_target_id :: uuid
  as_scope_id :: uuid
  as_scope_version :: int
  as_requested_url_digest :: digest
  as_final_url_digest :: digest
  as_status_code :: int
  as_peer_ip :: string
  as_redirect_count :: int
  as_evidence_refs :: "digest list"
  as_policy_record_digests :: "digest list"
  as_captured_at :: instant

definition AttackSurfaceSnapshot_content :: "AttackSurfaceSnapshot \<Rightarrow> pyval" where
  "AttackSurfaceSnapshot_content s = PDict
     [(''plan_id'', PStr (as_plan_id s)), (''action_id'', PStr (as_action_id s)),
      (''target_id'', PUuid (as_target_id s)), (''scope_id'', PUuid (as_scope_id s)),
      (''scope_version'', PInt (as_scope_version s)),
      (''requested_url_digest'', PStr (as_requested_url_digest s)),
      (''final_url_digest'', PStr (as_final_url_digest s)), (''status_code'', PInt (as_status_code s)),
      (''peer_ip'', PStr (as_peer_ip s)), (''redirect_count'', PInt (as_redirect_count s)),
      (''evidence_refs'', p_strs (as_evidence_refs s)),
      (''policy_record_digests'', p_strs (as_policy_record_digests s)),
      (''captured_at'', PTime (as_captured_at s))]"

definition AttackSurfaceSnapshot_valid :: "(pyval \<Rightarrow> digest) \<Rightarrow> AttackSurfaceSnapshot \<Rightarrow> bool" where
  "AttackSurfaceSnapshot_valid H s \<longleftrightarrow>
     list_all is_digest [as_plan_id s, as_action_id s, as_requested_url_digest s, as_final_url_digest s] \<and>
     1 \<le> as_scope_version s \<and> 100 \<le> as_status_code s \<and> as_status_code s \<le> 599 \<and>
     1 \<le> length (as_peer_ip s) \<and> length (as_peer_ip s) \<le> 64 \<and>
     0 \<le> as_redirect_count s \<and> as_redirect_count s \<le> 5 \<and>
     1 \<le> length (as_evidence_refs s) \<and> length (as_evidence_refs s) \<le> 6 \<and> list_all is_digest (as_evidence_refs s) \<and>
     1 \<le> length (as_policy_record_digests s) \<and> length (as_policy_record_digests s) \<le> 6 \<and>
     list_all is_digest (as_policy_record_digests s) \<and>
     sealed_by H AttackSurfaceSnapshot_content as_snapshot_id s"

record ServiceIdentitySnapshot =
  si_snapshot_id :: digest
  si_plan_id :: digest
  si_action_id :: digest
  si_target_id :: uuid
  si_scope_id :: uuid
  si_scope_version :: int
  si_endpoint_url_digest :: digest
  si_peer_ip :: string
  si_tls_version :: ServiceTlsVersion
  si_cipher_suite :: string
  si_cipher_bits :: int
  si_leaf_certificate_sha256 :: digest
  si_evidence_refs :: "digest list"
  si_policy_record_digests :: "digest list"
  si_captured_at :: instant

definition ServiceIdentitySnapshot_content :: "ServiceIdentitySnapshot \<Rightarrow> pyval" where
  "ServiceIdentitySnapshot_content s = PDict
     [(''plan_id'', PStr (si_plan_id s)), (''action_id'', PStr (si_action_id s)),
      (''target_id'', PUuid (si_target_id s)), (''scope_id'', PUuid (si_scope_id s)),
      (''scope_version'', PInt (si_scope_version s)),
      (''endpoint_url_digest'', PStr (si_endpoint_url_digest s)), (''peer_ip'', PStr (si_peer_ip s)),
      (''tls_version'', PEnum (tls_version_value (si_tls_version s))),
      (''cipher_suite'', PStr (si_cipher_suite s)), (''cipher_bits'', PInt (si_cipher_bits s)),
      (''leaf_certificate_sha256'', PStr (si_leaf_certificate_sha256 s)),
      (''evidence_refs'', p_strs (si_evidence_refs s)),
      (''policy_record_digests'', p_strs (si_policy_record_digests s)),
      (''captured_at'', PTime (si_captured_at s))]"

text \<open>\<^verbatim>\<open>^[A-Z0-9_-]{1,128}$\<close>\<close>

definition is_cipher_suite :: "string \<Rightarrow> bool" where
  "is_cipher_suite s \<longleftrightarrow> 1 \<le> length s \<and> length s \<le> 128 \<and>
     list_all (\<lambda>c. c \<in> set ''ABCDEFGHIJKLMNOPQRSTUVWXYZ0123456789_-'') s"

definition ServiceIdentitySnapshot_valid :: "(pyval \<Rightarrow> digest) \<Rightarrow> ServiceIdentitySnapshot \<Rightarrow> bool" where
  "ServiceIdentitySnapshot_valid H s \<longleftrightarrow>
     list_all is_digest [si_plan_id s, si_action_id s, si_endpoint_url_digest s, si_leaf_certificate_sha256 s] \<and>
     1 \<le> si_scope_version s \<and> 1 \<le> length (si_peer_ip s) \<and> length (si_peer_ip s) \<le> 64 \<and>
     is_cipher_suite (si_cipher_suite s) \<and> 112 \<le> si_cipher_bits s \<and> si_cipher_bits s \<le> 1024 \<and>
     length (si_evidence_refs s) = 1 \<and> list_all is_digest (si_evidence_refs s) \<and>
     length (si_policy_record_digests s) = 1 \<and> list_all is_digest (si_policy_record_digests s) \<and>
     sealed_by H ServiceIdentitySnapshot_content si_snapshot_id s"

record WebResponseSnapshot =
  wr_snapshot_id :: digest
  wr_plan_id :: digest
  wr_action_id :: digest
  wr_target_id :: uuid
  wr_scope_id :: uuid
  wr_scope_version :: int
  wr_requested_url_digest :: digest
  wr_final_url_digest :: digest
  wr_status_code :: int
  wr_peer_ip :: string
  wr_response_bytes :: int
  wr_response_body_sha256 :: digest
  wr_evidence_refs :: "digest list"
  wr_policy_record_digests :: "digest list"
  wr_captured_at :: instant

text \<open>The field \<^verbatim>\<open>method\<close> has the single value \<^verbatim>\<open>GET\<close>.\<close>

definition WebResponseSnapshot_content :: "WebResponseSnapshot \<Rightarrow> pyval" where
  "WebResponseSnapshot_content s = PDict
     [(''plan_id'', PStr (wr_plan_id s)), (''action_id'', PStr (wr_action_id s)),
      (''target_id'', PUuid (wr_target_id s)), (''scope_id'', PUuid (wr_scope_id s)),
      (''scope_version'', PInt (wr_scope_version s)),
      (''requested_url_digest'', PStr (wr_requested_url_digest s)),
      (''final_url_digest'', PStr (wr_final_url_digest s)), (''method'', PStr ''GET''),
      (''status_code'', PInt (wr_status_code s)), (''peer_ip'', PStr (wr_peer_ip s)),
      (''response_bytes'', PInt (wr_response_bytes s)),
      (''response_body_sha256'', PStr (wr_response_body_sha256 s)),
      (''evidence_refs'', p_strs (wr_evidence_refs s)),
      (''policy_record_digests'', p_strs (wr_policy_record_digests s)),
      (''captured_at'', PTime (wr_captured_at s))]"

definition WebResponseSnapshot_valid :: "(pyval \<Rightarrow> digest) \<Rightarrow> WebResponseSnapshot \<Rightarrow> bool" where
  "WebResponseSnapshot_valid H s \<longleftrightarrow>
     list_all is_digest [wr_plan_id s, wr_action_id s, wr_requested_url_digest s, wr_final_url_digest s,
       wr_response_body_sha256 s] \<and>
     1 \<le> wr_scope_version s \<and> 100 \<le> wr_status_code s \<and> wr_status_code s \<le> 599 \<and>
     1 \<le> length (wr_peer_ip s) \<and> length (wr_peer_ip s) \<le> 64 \<and>
     0 \<le> wr_response_bytes s \<and> wr_response_bytes s \<le> 64 * 1024 \<and>
     length (wr_evidence_refs s) = 1 \<and> list_all is_digest (wr_evidence_refs s) \<and>
     length (wr_policy_record_digests s) = 1 \<and> list_all is_digest (wr_policy_record_digests s) \<and>
     \<not> (wr_requested_url_digest s \<noteq> wr_final_url_digest s \<or>
        \<not> sealed_by H WebResponseSnapshot_content wr_snapshot_id s)"

section \<open>Targets, rules and plans\<close>

text \<open>\<^verbatim>\<open>value.split("/")\<close>\<close>

fun split_slash :: "string \<Rightarrow> string list" where
  "split_slash [] = [[]]"
| "split_slash (c # cs) =
     (if c = CHR ''/'' then [] # split_slash cs
      else (case split_slash cs of [] \<Rightarrow> [[c]] | s # ss \<Rightarrow> (c # s) # ss))"

record AuthorizedWebTarget =
  wt_target_id :: uuid
  wt_url :: string

text \<open>\<^verbatim>\<open>urlunsplit((scheme, netloc, path, "", ""))\<close> for a non-empty network location.\<close>

definition urlunsplit_base :: "string \<Rightarrow> string \<Rightarrow> string \<Rightarrow> string" where
  "urlunsplit_base scheme netloc path =
     scheme @ ''://'' @ netloc @ (if path \<noteq> [] \<and> hd path \<noteq> CHR ''/'' then CHR ''/'' # path else path)"

text \<open>\<^verbatim>\<open>AuthorizedWebTarget.normalized_url\<close>: the canonical form, when the URL is admitted.\<close>

definition canonical_base_url :: "split_url \<Rightarrow> string option" where
  "canonical_base_url parsed =
     (let scheme = lower (su_scheme parsed) in
      if scheme \<notin> {''http'', ''https''} \<or> url_hostname parsed = None \<or>
         url_username parsed \<noteq> None \<or> url_password parsed \<noteq> None \<or>
         su_query parsed \<noteq> [] \<or> su_fragment parsed \<noteq> []
      then None
      else case url_port parsed of
        Inl _ \<Rightarrow> None
      | Inr port \<Rightarrow>
          (let default = (if scheme = ''https'' then 443 else 80);
               host = lower (the (url_hostname parsed));
               rendered = (if CHR '':'' \<in> set host then ''['' @ host @ '']'' else host);
               netloc = (case port of
                   None \<Rightarrow> rendered
                 | Some n \<Rightarrow> if n \<noteq> default then rendered @ '':'' @ dumps_int n else rendered);
               path = (if su_path parsed = [] then ''/'' else su_path parsed)
           in Some (urlunsplit_base scheme netloc path)))"

definition AuthorizedWebTarget_valid :: "url_env \<Rightarrow> AuthorizedWebTarget \<Rightarrow> bool" where
  "AuthorizedWebTarget_valid U t \<longleftrightarrow>
     1 \<le> length (wt_url t) \<and> length (wt_url t) \<le> 2048 \<and>
     (case urlsplit U (wt_url t) of
        Inl _ \<Rightarrow> False
      | Inr parsed \<Rightarrow>
          is_ascii_str (wt_url t) \<and> list_all (\<lambda>c. 32 < char_code c) (wt_url t) \<and>
          canonical_base_url parsed = Some (wt_url t))"

definition AuthorizedWebTarget_dump :: "AuthorizedWebTarget \<Rightarrow> pyval" where
  "AuthorizedWebTarget_dump t = PDict [(''target_id'', PUuid (wt_target_id t)), (''url'', PStr (wt_url t))]"

record RedTeamStopConditions =
  stop_at :: instant
  max_actions :: int
  max_consecutive_failures :: int

definition RedTeamStopConditions_valid :: "RedTeamStopConditions \<Rightarrow> bool" where
  "RedTeamStopConditions_valid s \<longleftrightarrow>
     1 \<le> max_actions s \<and> max_actions s \<le> 10000 \<and>
     1 \<le> max_consecutive_failures s \<and> max_consecutive_failures s \<le> 20"

definition RedTeamStopConditions_dump :: "RedTeamStopConditions \<Rightarrow> pyval" where
  "RedTeamStopConditions_dump s = PDict
     [(''stop_at'', PTime (stop_at s)), (''max_actions'', PInt (max_actions s)),
      (''max_consecutive_failures'', PInt (max_consecutive_failures s))]"

record RulesOfEngagement =
  roe_id :: digest
  roe_scope_id :: uuid
  roe_scope_version :: int
  roe_target_id :: uuid
  roe_phases :: "RedTeamPhase list"
  roe_allowed_test_classes :: "string list"
  allowed_impacts :: "ImpactClass list"
  approval_required_impacts :: "ImpactClass list"
  prohibited_impacts :: "ImpactClass list"
  stop_conditions :: RedTeamStopConditions
  emergency_contact_ref :: string

definition RulesOfEngagement_content :: "RulesOfEngagement \<Rightarrow> pyval" where
  "RulesOfEngagement_content r = PDict
     [(''scope_id'', PUuid (roe_scope_id r)), (''scope_version'', PInt (roe_scope_version r)),
      (''target_id'', PUuid (roe_target_id r)),
      (''phases'', PList (map (\<lambda>p. PEnum (phase_value p)) (roe_phases r))),
      (''allowed_test_classes'', p_strs (roe_allowed_test_classes r)),
      (''allowed_impacts'', PList (map (\<lambda>i. PEnum (impact_value i)) (allowed_impacts r))),
      (''approval_required_impacts'', PList (map (\<lambda>i. PEnum (impact_value i)) (approval_required_impacts r))),
      (''prohibited_impacts'', PList (map (\<lambda>i. PEnum (impact_value i)) (prohibited_impacts r))),
      (''stop_conditions'', RedTeamStopConditions_dump (stop_conditions r)),
      (''emergency_contact_ref'', PStr (emergency_contact_ref r))]"

text \<open>\<^verbatim>\<open>^contact:[a-zA-Z0-9._-]{1,200}$\<close> and the like\<close>

definition is_reference :: "string \<Rightarrow> string \<Rightarrow> bool" where
  "is_reference pre s \<longleftrightarrow>
     take (length pre) s = pre \<and> 1 \<le> length (drop (length pre) s) \<and>
     length (drop (length pre) s) \<le> 200 \<and>
     list_all (\<lambda>c. is_ascii_alpha c \<or> is_digit_char c \<or> c \<in> set ''._-'') (drop (length pre) s)"

definition RulesOfEngagement_valid :: "(pyval \<Rightarrow> digest) \<Rightarrow> RulesOfEngagement \<Rightarrow> bool" where
  "RulesOfEngagement_valid H r \<longleftrightarrow>
     1 \<le> roe_scope_version r \<and> roe_phases r \<noteq> [] \<and>
     1 \<le> length (roe_allowed_test_classes r) \<and> length (roe_allowed_test_classes r) \<le> 128 \<and>
     allowed_impacts r \<noteq> [] \<and> RedTeamStopConditions_valid (stop_conditions r) \<and>
     is_reference ''contact:'' (emergency_contact_ref r) \<and>
     distinct (roe_phases r) \<and>
     sorted_set (roe_allowed_test_classes r) = roe_allowed_test_classes r \<and>
     set (allowed_impacts r) \<inter> set (approval_required_impacts r) = {} \<and>
     set (allowed_impacts r) \<inter> set (prohibited_impacts r) = {} \<and>
     set (approval_required_impacts r) \<inter> set (prohibited_impacts r) = {} \<and>
     sealed_by H RulesOfEngagement_content roe_id r"

definition RulesOfEngagement_dump :: "RulesOfEngagement \<Rightarrow> pyval" where
  "RulesOfEngagement_dump r =
     (case RulesOfEngagement_content r of PDict kvs \<Rightarrow> PDict ((''roe_id'', PStr (roe_id r)) # kvs) | v \<Rightarrow> v)"

record RedTeamFlowPlan =
  fp_plan_id :: digest
  fp_mode :: WorkflowMode
  fp_target :: AuthorizedWebTarget
  fp_rules :: RulesOfEngagement
  fp_created_at :: instant
  fp_deadline :: instant
  fp_idempotency_key :: string

definition RedTeamFlowPlan_content :: "RedTeamFlowPlan \<Rightarrow> pyval" where
  "RedTeamFlowPlan_content p = PDict
     [(''mode'', WorkflowMode_dump (fp_mode p)), (''target'', AuthorizedWebTarget_dump (fp_target p)),
      (''rules'', RulesOfEngagement_dump (fp_rules p)), (''created_at'', PTime (fp_created_at p)),
      (''deadline'', PTime (fp_deadline p)), (''idempotency_key'', PStr (fp_idempotency_key p))]"

definition RedTeamFlowPlan_valid :: "(pyval \<Rightarrow> digest) \<Rightarrow> url_env \<Rightarrow> RedTeamFlowPlan \<Rightarrow> bool" where
  "RedTeamFlowPlan_valid H U p \<longleftrightarrow>
     WorkflowMode_valid (fp_mode p) \<and> AuthorizedWebTarget_valid U (fp_target p) \<and>
     RulesOfEngagement_valid H (fp_rules p) \<and>
     1 \<le> length (fp_idempotency_key p) \<and> length (fp_idempotency_key p) \<le> 256 \<and>
     \<not> (wm_workflow (fp_mode p) \<noteq> AUTHORIZED_RED_TEAM \<or> wm_execution_profile (fp_mode p) \<noteq> EP_RED_TEAM \<or>
        wm_visibility (fp_mode p) \<notin> {BLACK_BOX, GREY_BOX} \<or> wm_autonomy (fp_mode p) \<noteq> AL_BOUNDED_EXECUTION) \<and>
     wt_target_id (fp_target p) = roe_target_id (fp_rules p) \<and>
     fp_created_at p < fp_deadline p \<and> fp_deadline p \<le> stop_at (stop_conditions (fp_rules p)) \<and>
     sealed_by H RedTeamFlowPlan_content fp_plan_id p"

section \<open>Checkpoints and observations\<close>

record RedTeamCheckpoint =
  fc_checkpoint_id :: digest
  fc_plan_id :: digest
  fc_revision :: int
  fc_status :: RedTeamFlowStatus
  fc_actions_used :: int
  fc_consecutive_failures :: int
  fc_observation_ids :: "digest list"
  fc_stop_reason :: "string option"
  fc_updated_at :: instant

definition RedTeamCheckpoint_content :: "RedTeamCheckpoint \<Rightarrow> pyval" where
  "RedTeamCheckpoint_content c = PDict
     [(''plan_id'', PStr (fc_plan_id c)), (''revision'', PInt (fc_revision c)),
      (''status'', PEnum (flow_status_value (fc_status c))), (''actions_used'', PInt (fc_actions_used c)),
      (''consecutive_failures'', PInt (fc_consecutive_failures c)),
      (''observation_ids'', p_strs (fc_observation_ids c)), (''stop_reason'', p_opt PStr (fc_stop_reason c)),
      (''updated_at'', PTime (fc_updated_at c))]"

definition RedTeamCheckpoint_valid :: "(pyval \<Rightarrow> digest) \<Rightarrow> RedTeamCheckpoint \<Rightarrow> bool" where
  "RedTeamCheckpoint_valid H c \<longleftrightarrow>
     is_digest (fc_plan_id c) \<and> 0 \<le> fc_revision c \<and> 0 \<le> fc_actions_used c \<and> 0 \<le> fc_consecutive_failures c \<and>
     list_all is_digest (fc_observation_ids c) \<and> opt_all is_reason_code (fc_stop_reason c) \<and>
     (fc_status c \<in> {Flow_COMPLETED, Flow_CANCELLED, Flow_TIMED_OUT, Flow_FAILED, Flow_KILLED}) =
       (fc_stop_reason c \<noteq> None) \<and>
     distinct (fc_observation_ids c) \<and>
     sealed_by H RedTeamCheckpoint_content fc_checkpoint_id c"

definition RedTeamCheckpoint_create :: "(pyval \<Rightarrow> digest) \<Rightarrow> RedTeamCheckpoint \<Rightarrow> RedTeamCheckpoint option" where
  "RedTeamCheckpoint_create H v =
     (let c = v\<lparr>fc_checkpoint_id := H (RedTeamCheckpoint_content v)\<rparr>
      in if RedTeamCheckpoint_valid H c then Some c else None)"

record RedTeamReconObservation =
  ro_observation_id :: digest
  ro_action_id :: digest
  ro_outcome :: ReconOutcome
  ro_status_code :: "int option"
  ro_reason_code :: string
  ro_cleanup_complete :: bool
  ro_sensitive_data_redacted :: bool
  ro_attack_surface :: "AttackSurfaceSnapshot option"
  ro_service_identity :: "ServiceIdentitySnapshot option"
  ro_web_response :: "WebResponseSnapshot option"
  ro_observed_at :: instant

definition with_id :: "string \<Rightarrow> digest \<Rightarrow> pyval \<Rightarrow> pyval" where
  "with_id name i content = (case content of PDict kvs \<Rightarrow> PDict ((name, PStr i) # kvs) | v \<Rightarrow> v)"

definition RedTeamReconObservation_content :: "RedTeamReconObservation \<Rightarrow> pyval" where
  "RedTeamReconObservation_content r = PDict
     [(''action_id'', PStr (ro_action_id r)), (''outcome'', PEnum (recon_outcome_value (ro_outcome r))),
      (''status_code'', p_opt PInt (ro_status_code r)), (''reason_code'', PStr (ro_reason_code r)),
      (''cleanup_complete'', PBool (ro_cleanup_complete r)),
      (''sensitive_data_redacted'', PBool (ro_sensitive_data_redacted r)),
      (''attack_surface'', p_opt (\<lambda>s. with_id ''snapshot_id'' (as_snapshot_id s) (AttackSurfaceSnapshot_content s))
         (ro_attack_surface r)),
      (''service_identity'', p_opt (\<lambda>s. with_id ''snapshot_id'' (si_snapshot_id s) (ServiceIdentitySnapshot_content s))
         (ro_service_identity r)),
      (''web_response'', p_opt (\<lambda>s. with_id ''snapshot_id'' (wr_snapshot_id s) (WebResponseSnapshot_content s))
         (ro_web_response r)),
      (''observed_at'', PTime (ro_observed_at r))]"

definition RedTeamReconObservation_valid :: "(pyval \<Rightarrow> digest) \<Rightarrow> RedTeamReconObservation \<Rightarrow> bool" where
  "RedTeamReconObservation_valid H r \<longleftrightarrow>
     is_digest (ro_observation_id r) \<and> is_digest (ro_action_id r) \<and> is_reason_code (ro_reason_code r) \<and>
     opt_all (\<lambda>n. 100 \<le> n \<and> n \<le> 599) (ro_status_code r) \<and>
     opt_all (AttackSurfaceSnapshot_valid H) (ro_attack_surface r) \<and>
     opt_all (ServiceIdentitySnapshot_valid H) (ro_service_identity r) \<and>
     opt_all (WebResponseSnapshot_valid H) (ro_web_response r) \<and>
     \<not> (ro_outcome r = Rec_SUCCEEDED \<and> \<not> ro_cleanup_complete r) \<and>
     ro_sensitive_data_redacted r \<and>
     opt_all (\<lambda>s. \<not> (ro_outcome r \<noteq> Rec_SUCCEEDED \<or> ro_status_code r \<noteq> Some (as_status_code s) \<or>
        ro_action_id r \<noteq> as_action_id s)) (ro_attack_surface r) \<and>
     opt_all (\<lambda>s. \<not> (ro_outcome r \<noteq> Rec_SUCCEEDED \<or> ro_status_code r \<noteq> None \<or>
        ro_action_id r \<noteq> si_action_id s)) (ro_service_identity r) \<and>
     opt_all (\<lambda>s. \<not> (ro_outcome r \<noteq> Rec_SUCCEEDED \<or> ro_status_code r \<noteq> Some (wr_status_code s) \<or>
        ro_action_id r \<noteq> wr_action_id s)) (ro_web_response r) \<and>
     (of_bool (ro_attack_surface r \<noteq> None) + of_bool (ro_service_identity r \<noteq> None) +
        of_bool (ro_web_response r \<noteq> None) :: nat) \<le> 1 \<and>
     sealed_by H RedTeamReconObservation_content ro_observation_id r"

end
