(* ===== verification/Red_Team_Flow.thy ===== *)
theory Red_Team_Flow
  imports Red_Team_Models
begin

text \<open>
  The Red Team flow of \<^verbatim>\<open>src/src/vulnloom/red_team/state_machine.py\<close>: its transitions on checkpoints, and the facts
  that runs of it rest on. \<open>H\<close> is the canonical digest; a transition that would build an invalid
  checkpoint raises \<open>FlowValueError\<close>.
\<close>

section \<open>Transitions\<close>

datatype flow_error = RedTeamTransitionRejected string | FlowValueError

definition TERMINAL_STATUSES :: "RedTeamFlowStatus list" where
  "TERMINAL_STATUSES = [Flow_COMPLETED, Flow_CANCELLED, Flow_TIMED_OUT, Flow_FAILED, Flow_KILLED]"

text \<open>\<^verbatim>\<open>_next\<close>; \<open>upd\<close> applies the keyword updates to the copied values.\<close>

definition flow_next ::
  "(pyval \<Rightarrow> digest) \<Rightarrow> RedTeamCheckpoint \<Rightarrow> RedTeamFlowStatus \<Rightarrow> string option \<Rightarrow> instant
   \<Rightarrow> (RedTeamCheckpoint \<Rightarrow> RedTeamCheckpoint) \<Rightarrow> flow_error + RedTeamCheckpoint" where
  "flow_next H c status stop_reason now upd =
     (case RedTeamCheckpoint_create H (upd
        \<lparr>fc_checkpoint_id = [], fc_plan_id = fc_plan_id c, fc_revision = fc_revision c + 1, fc_status = status,
         fc_actions_used = fc_actions_used c, fc_consecutive_failures = fc_consecutive_failures c,
         fc_observation_ids = fc_observation_ids c, fc_stop_reason = stop_reason, fc_updated_at = now\<rparr>)
      of None \<Rightarrow> Inl FlowValueError | Some c' \<Rightarrow> Inr c')"

definition flow_terminal ::
  "(pyval \<Rightarrow> digest) \<Rightarrow> RedTeamCheckpoint \<Rightarrow> RedTeamFlowStatus \<Rightarrow> string \<Rightarrow> instant
   \<Rightarrow> (RedTeamCheckpoint \<Rightarrow> RedTeamCheckpoint) \<Rightarrow> flow_error + RedTeamCheckpoint" where
  "flow_terminal H c status reason now upd = flow_next H c status (Some reason) now upd"

definition flow_current :: "RedTeamFlowPlan \<Rightarrow> RedTeamCheckpoint \<Rightarrow> flow_error + unit" where
  "flow_current p c =
     (if fc_plan_id c \<noteq> fp_plan_id p
      then Inl (RedTeamTransitionRejected ''Red Team checkpoint does not belong to plan'') else Inr ())"

definition flow_running :: "RedTeamFlowPlan \<Rightarrow> RedTeamCheckpoint \<Rightarrow> instant \<Rightarrow> flow_error + unit" where
  "flow_running p c now =
     bind_result (flow_current p c) (\<lambda>_.
       if fc_status c \<noteq> Flow_RUNNING then Inl (RedTeamTransitionRejected ''Red Team Flow is not running'')
       else if fp_deadline p \<le> now then Inl (RedTeamTransitionRejected ''Red Team Flow deadline elapsed'')
       else Inr ())"

definition start_flow ::
  "(pyval \<Rightarrow> digest) \<Rightarrow> RedTeamFlowPlan \<Rightarrow> RedTeamCheckpoint \<Rightarrow> instant \<Rightarrow> flow_error + RedTeamCheckpoint" where
  "start_flow H p c now =
     bind_result (flow_current p c) (\<lambda>_.
       if fc_status c \<noteq> Flow_PLANNED then Inl (RedTeamTransitionRejected ''Red Team Flow is not planned'')
       else if fp_deadline p \<le> now then flow_terminal H c Flow_TIMED_OUT ''deadline_reached'' now id
       else flow_next H c Flow_RUNNING None now id)"

definition record_observation ::
  "(pyval \<Rightarrow> digest) \<Rightarrow> RedTeamFlowPlan \<Rightarrow> RedTeamCheckpoint \<Rightarrow> RedTeamReconObservation \<Rightarrow> instant
   \<Rightarrow> flow_error + RedTeamCheckpoint" where
  "record_observation H p c obs now =
     bind_result (flow_running p c now) (\<lambda>_.
       if ro_observation_id obs \<in> set (fc_observation_ids c)
       then Inl (RedTeamTransitionRejected ''Red Team observation is already recorded'')
       else
         let used = fc_actions_used c + 1;
             failures = (if ro_outcome obs = Rec_SUCCEEDED then 0 else fc_consecutive_failures c + 1);
             values = (\<lambda>v. v\<lparr>fc_actions_used := used, fc_consecutive_failures := failures,
               fc_observation_ids := fc_observation_ids c @ [ro_observation_id obs]\<rparr>);
             limits = stop_conditions (fp_rules p)
         in if \<not> ro_cleanup_complete obs
            then flow_terminal H c Flow_FAILED ''cleanup_unproven'' now values
            else if ro_outcome obs = Rec_TIMED_OUT
            then flow_terminal H c Flow_TIMED_OUT ''action_timed_out'' now values
            else if max_consecutive_failures limits \<le> failures
            then flow_terminal H c Flow_FAILED ''failure_limit_reached'' now values
            else if max_actions limits \<le> used
            then flow_terminal H c Flow_COMPLETED ''action_budget_reached'' now values
            else flow_next H c Flow_RUNNING None now values)"

definition cancel_flow ::
  "(pyval \<Rightarrow> digest) \<Rightarrow> RedTeamFlowPlan \<Rightarrow> RedTeamCheckpoint \<Rightarrow> instant \<Rightarrow> flow_error + RedTeamCheckpoint" where
  "cancel_flow H p c now =
     bind_result (flow_current p c) (\<lambda>_.
       if fc_status c \<in> set TERMINAL_STATUSES
       then Inl (RedTeamTransitionRejected ''Red Team Flow is already terminal'')
       else flow_terminal H c Flow_CANCELLED ''operator_cancelled'' now id)"

definition activate_kill_switch ::
  "(pyval \<Rightarrow> digest) \<Rightarrow> RedTeamFlowPlan \<Rightarrow> RedTeamCheckpoint \<Rightarrow> instant \<Rightarrow> flow_error + RedTeamCheckpoint" where
  "activate_kill_switch H p c now =
     bind_result (flow_current p c) (\<lambda>_.
       if fc_status c \<in> set TERMINAL_STATUSES
       then Inl (RedTeamTransitionRejected ''Red Team Flow is already terminal'')
       else flow_terminal H c Flow_KILLED ''kill_switch_activated'' now id)"

definition expire_flow ::
  "(pyval \<Rightarrow> digest) \<Rightarrow> RedTeamFlowPlan \<Rightarrow> RedTeamCheckpoint \<Rightarrow> instant \<Rightarrow> flow_error + RedTeamCheckpoint" where
  "expire_flow H p c now =
     bind_result (flow_current p c) (\<lambda>_.
       if fc_status c \<in> set TERMINAL_STATUSES then Inr c
       else if now < fp_deadline p
       then Inl (RedTeamTransitionRejected ''Red Team Flow deadline has not elapsed'')
       else flow_terminal H c Flow_TIMED_OUT ''deadline_reached'' now id)"

text \<open>The checkpoint that \<^verbatim>\<open>RedTeamService.create_and_start\<close> stores before it starts the flow.\<close>

definition planned_flow :: "(pyval \<Rightarrow> digest) \<Rightarrow> RedTeamFlowPlan \<Rightarrow> instant \<Rightarrow> RedTeamCheckpoint option" where
  "planned_flow H p now = RedTeamCheckpoint_create H
     \<lparr>fc_checkpoint_id = [], fc_plan_id = fp_plan_id p, fc_revision = 0, fc_status = Flow_PLANNED,
      fc_actions_used = 0, fc_consecutive_failures = 0, fc_observation_ids = [], fc_stop_reason = None,
      fc_updated_at = now\<rparr>"

section \<open>Runs\<close>

text \<open>One step is one accepted transition to a new checkpoint (\<^verbatim>\<open>expire_flow\<close> returns a terminal checkpoint
  unchanged, which is no step).\<close>

inductive flow_step :: "(pyval \<Rightarrow> digest) \<Rightarrow> RedTeamFlowPlan \<Rightarrow> RedTeamCheckpoint \<Rightarrow> RedTeamCheckpoint \<Rightarrow> bool"
  for H p where
  started: "start_flow H p c now = Inr c' \<Longrightarrow> flow_step H p c c'"
| observed: "record_observation H p c obs now = Inr c' \<Longrightarrow> flow_step H p c c'"
| cancelled: "cancel_flow H p c now = Inr c' \<Longrightarrow> flow_step H p c c'"
| killed: "activate_kill_switch H p c now = Inr c' \<Longrightarrow> flow_step H p c c'"
| expired: "expire_flow H p c now = Inr c' \<Longrightarrow> fc_status c \<notin> set TERMINAL_STATUSES \<Longrightarrow> flow_step H p c c'"

lemmas flow_operation_defs = start_flow_def record_observation_def cancel_flow_def activate_kill_switch_def
  expire_flow_def flow_terminal_def flow_running_def flow_current_def

lemma flow_next_Inr_iff:
  "flow_next H c status reason now upd = Inr c' \<longleftrightarrow>
     (let v = upd \<lparr>fc_checkpoint_id = [], fc_plan_id = fc_plan_id c, fc_revision = fc_revision c + 1,
         fc_status = status, fc_actions_used = fc_actions_used c,
         fc_consecutive_failures = fc_consecutive_failures c, fc_observation_ids = fc_observation_ids c,
         fc_stop_reason = reason, fc_updated_at = now\<rparr>
      in c' = v\<lparr>fc_checkpoint_id := H (RedTeamCheckpoint_content v)\<rparr> \<and> RedTeamCheckpoint_valid H c')"
  by (auto simp: flow_next_def RedTeamCheckpoint_create_def Let_def split: if_splits)

text \<open>What one step does, whichever operation it was.\<close>

definition flow_effect :: "RedTeamFlowPlan \<Rightarrow> RedTeamCheckpoint \<Rightarrow> RedTeamCheckpoint \<Rightarrow> bool" where
  "flow_effect p c c' \<longleftrightarrow>
     fc_plan_id c = fp_plan_id p \<and> fc_plan_id c' = fc_plan_id c \<and> fc_revision c' = fc_revision c + 1 \<and>
     ((fc_status c = Flow_PLANNED \<and> fc_status c' = Flow_RUNNING \<and> fc_actions_used c' = fc_actions_used c \<and>
         fc_observation_ids c' = fc_observation_ids c \<and> fc_consecutive_failures c' = fc_consecutive_failures c)
      \<or> (fc_status c \<notin> set TERMINAL_STATUSES \<and> fc_status c' \<in> {Flow_CANCELLED, Flow_KILLED, Flow_TIMED_OUT} \<and>
         fc_actions_used c' = fc_actions_used c \<and> fc_observation_ids c' = fc_observation_ids c)
      \<or> (fc_status c = Flow_RUNNING \<and> fc_actions_used c' = fc_actions_used c + 1 \<and>
         (\<exists>i. i \<notin> set (fc_observation_ids c) \<and> fc_observation_ids c' = fc_observation_ids c @ [i]) \<and>
         (fc_status c' \<in> {Flow_FAILED, Flow_TIMED_OUT, Flow_COMPLETED} \<or>
          (fc_status c' = Flow_RUNNING \<and>
           fc_actions_used c' < max_actions (stop_conditions (fp_rules p)) \<and>
           fc_consecutive_failures c' < max_consecutive_failures (stop_conditions (fp_rules p))))))"

lemma flow_step_effect: "flow_step H p c c' \<Longrightarrow> flow_effect p c c' \<and> RedTeamCheckpoint_valid H c'"
proof (induction rule: flow_step.induct)
  case (started c now c')
  then show ?case
    by (auto simp: flow_operation_defs flow_next_Inr_iff Let_def result_simps flow_effect_def TERMINAL_STATUSES_def
        split: if_splits)
next
  case (observed c obs now c')
  then show ?case
    by (auto simp: flow_operation_defs flow_next_Inr_iff Let_def result_simps flow_effect_def TERMINAL_STATUSES_def
        split: if_splits)
qed (auto simp: flow_operation_defs flow_next_Inr_iff Let_def result_simps flow_effect_def split: if_splits)

interpretation flow: revision_machine "flow_step H p" fc_revision fc_plan_id "\<lambda>c. fc_status c \<in> set TERMINAL_STATUSES"
proof
  fix c c' :: RedTeamCheckpoint assume "flow_step H p c c'"
  then have "flow_effect p c c'" by (simp add: flow_step_effect)
  then show "fc_revision c' = fc_revision c + 1" "fc_plan_id c' = fc_plan_id c" by (auto simp: flow_effect_def)
next
  fix c c' :: RedTeamCheckpoint assume "fc_status c \<in> set TERMINAL_STATUSES"
  then show "\<not> flow_step H p c c'"
    by (auto dest!: flow_step_effect simp: flow_effect_def TERMINAL_STATUSES_def)
qed

section \<open>Budgets\<close>

text \<open>The state of a flow that has kept its budgets.\<close>

definition flow_inv :: "RedTeamFlowPlan \<Rightarrow> RedTeamCheckpoint \<Rightarrow> bool" where
  "flow_inv p c \<longleftrightarrow>
     fc_actions_used c = int (length (fc_observation_ids c)) \<and> distinct (fc_observation_ids c) \<and>
     fc_actions_used c \<le> max_actions (stop_conditions (fp_rules p)) \<and>
     (fc_status c \<in> {Flow_PLANNED, Flow_RUNNING} \<longrightarrow>
        fc_actions_used c < max_actions (stop_conditions (fp_rules p)) \<and>
        (fc_status c = Flow_PLANNED \<longrightarrow> fc_actions_used c = 0))"

lemma flow_effect_cases:
  assumes "flow_effect p c c'"
  obtains (start) "fc_status c = Flow_PLANNED" "fc_status c' = Flow_RUNNING" "fc_actions_used c' = fc_actions_used c"
      "fc_observation_ids c' = fc_observation_ids c"
  | (stop) "fc_status c \<notin> set TERMINAL_STATUSES" "fc_status c' \<in> set TERMINAL_STATUSES"
      "fc_actions_used c' = fc_actions_used c" "fc_observation_ids c' = fc_observation_ids c"
  | (observe) i where "fc_status c = Flow_RUNNING" "fc_actions_used c' = fc_actions_used c + 1"
      "i \<notin> set (fc_observation_ids c)" "fc_observation_ids c' = fc_observation_ids c @ [i]"
      "fc_status c' \<in> set TERMINAL_STATUSES \<or>
       (fc_status c' = Flow_RUNNING \<and> fc_actions_used c' < max_actions (stop_conditions (fp_rules p)))"
  using assms unfolding flow_effect_def TERMINAL_STATUSES_def by auto

lemma flow_inv_step:
  assumes "flow_inv p c" and "flow_step H p c c'"
  shows "flow_inv p c'"
proof -
  from assms(2) have "flow_effect p c c'" by (simp add: flow_step_effect)
  then show ?thesis
  proof (cases rule: flow_effect_cases)
    case start
    with assms(1) show ?thesis by (simp add: flow_inv_def)
  next
    case stop
    with assms(1) show ?thesis by (auto simp: flow_inv_def TERMINAL_STATUSES_def)
  next
    case (observe i)
    with assms(1) show ?thesis by (auto simp: flow_inv_def TERMINAL_STATUSES_def)
  qed
qed

text \<open>How many steps a flow can still take.\<close>

definition flow_fuel :: "RedTeamFlowPlan \<Rightarrow> RedTeamCheckpoint \<Rightarrow> int" where
  "flow_fuel p c =
     (if fc_status c \<in> set TERMINAL_STATUSES then 0
      else max_actions (stop_conditions (fp_rules p)) - fc_actions_used c +
        (if fc_status c = Flow_PLANNED then 1 else 0))"

lemma flow_fuel_step:
  assumes "flow_inv p c" and "flow_step H p c c'"
  shows "flow_fuel p c' < flow_fuel p c \<and> 0 \<le> flow_fuel p c'"
proof -
  from assms(2) have "flow_effect p c c'" by (simp add: flow_step_effect)
  then show ?thesis
  proof (cases rule: flow_effect_cases)
    case start
    with assms(1) show ?thesis by (simp add: flow_inv_def flow_fuel_def TERMINAL_STATUSES_def)
  next
    case stop
    then have "fc_status c \<in> {Flow_PLANNED, Flow_RUNNING}"
      by (cases "fc_status c") (simp_all add: TERMINAL_STATUSES_def)
    with stop assms(1) show ?thesis by (auto simp: flow_inv_def flow_fuel_def)
  next
    case (observe i)
    with assms(1) show ?thesis by (auto simp: flow_inv_def flow_fuel_def TERMINAL_STATUSES_def)
  qed
qed

interpretation flow_budget: budgeted_machine "flow_step H p" "flow_inv p" "flow_fuel p"
proof
  fix c c' :: RedTeamCheckpoint assume c: "flow_inv p c"
  show "0 \<le> flow_fuel p c"
    using c by (cases "fc_status c") (auto simp: flow_inv_def flow_fuel_def TERMINAL_STATUSES_def)
  assume "flow_step H p c c'"
  with c show "flow_inv p c'" "flow_fuel p c' < flow_fuel p c"
    by (auto intro: flow_inv_step dest: flow_fuel_step)
qed

lemma planned_flow_inv:
  assumes "planned_flow H p t = Some c" and "1 \<le> max_actions (stop_conditions (fp_rules p))"
  shows "flow_inv p c" "flow_fuel p c = max_actions (stop_conditions (fp_rules p)) + 1"
    "fc_revision c = 0" "fc_plan_id c = fp_plan_id p"
  using assms
  by (auto simp: planned_flow_def RedTeamCheckpoint_create_def Let_def flow_inv_def flow_fuel_def TERMINAL_STATUSES_def
      split: if_splits)

text \<open>A stop of a live flow is never refused by the checkpoint's own validator.\<close>

lemma flow_stop_accepted:
  assumes "RedTeamCheckpoint_valid H c" and "st \<in> set TERMINAL_STATUSES" and "is_reason_code reason"
  obtains c' where "flow_terminal H c st reason now id = Inr c'" "fc_status c' = st" "fc_stop_reason c' = Some reason"
    "fc_observation_ids c' = fc_observation_ids c" "fc_actions_used c' = fc_actions_used c"
proof -
  let ?v = "\<lparr>fc_checkpoint_id = [], fc_plan_id = fc_plan_id c, fc_revision = fc_revision c + 1, fc_status = st,
     fc_actions_used = fc_actions_used c, fc_consecutive_failures = fc_consecutive_failures c,
     fc_observation_ids = fc_observation_ids c, fc_stop_reason = Some reason, fc_updated_at = now\<rparr>"
  have "RedTeamCheckpoint_valid H (?v\<lparr>fc_checkpoint_id := H (RedTeamCheckpoint_content ?v)\<rparr>)"
    using assms by (auto simp: RedTeamCheckpoint_valid_def sealed_by_def RedTeamCheckpoint_content_def TERMINAL_STATUSES_def)
  then show thesis
    by (intro that [of "?v\<lparr>fc_checkpoint_id := H (RedTeamCheckpoint_content ?v)\<rparr>"])
      (auto simp: flow_terminal_def flow_next_Inr_iff Let_def)
qed

end
