(* ===== verification/Attack_Chain.thy ===== *)
theory Attack_Chain
  imports Red_Team_Models
begin

text \<open>
  The approval-bound attack chain: the contracts of \<^verbatim>\<open>src/src/vulnloom/red_team/attack_models.py\<close> and the pure
  transitions of \<^verbatim>\<open>src/src/vulnloom/red_team/attack_state_machine.py\<close>. \<open>H\<close> is the canonical digest; building an
  invalid checkpoint raises \<open>ChainValueError\<close>, and a prerequisite without a node raises \<open>ChainKeyError\<close>.
\<close>

section \<open>Contracts\<close>

datatype AttackObjectiveKind = ESTABLISH_TEST_SESSION | PROVE_PROTECTED_RESOURCE_ACCESS

datatype AttackActionKind = INITIAL_ACCESS_ATTEMPT | VERIFY_TEST_SESSION | VERIFY_OBJECTIVE | CLEANUP_TEST_SESSION

datatype AttackImpact = AI_READ_ONLY | AI_STATE_CHANGE

datatype AttackChainStatus =
    Chain_PLANNED | Chain_RUNNING | Chain_CLEANUP_REQUIRED | Chain_GOAL_REACHED | Chain_FAILED | Chain_TIMED_OUT
  | Chain_KILLED

datatype AttackNodeStatus = Node_PENDING | Node_SUCCEEDED | Node_FAILED | Node_TIMED_OUT

datatype AttackActionOutcome = Out_SUCCEEDED | Out_REJECTED | Out_FAILED | Out_TIMED_OUT

fun objective_kind_value :: "AttackObjectiveKind \<Rightarrow> string" where
  "objective_kind_value ESTABLISH_TEST_SESSION = ''establish_test_session''"
| "objective_kind_value PROVE_PROTECTED_RESOURCE_ACCESS = ''prove_protected_resource_access''"

fun action_kind_value :: "AttackActionKind \<Rightarrow> string" where
  "action_kind_value INITIAL_ACCESS_ATTEMPT = ''initial_access_attempt''"
| "action_kind_value VERIFY_TEST_SESSION = ''verify_test_session''"
| "action_kind_value VERIFY_OBJECTIVE = ''verify_objective''"
| "action_kind_value CLEANUP_TEST_SESSION = ''cleanup_test_session''"

fun attack_impact_value :: "AttackImpact \<Rightarrow> string" where
  "attack_impact_value AI_READ_ONLY = ''read_only''"
| "attack_impact_value AI_STATE_CHANGE = ''state_change''"

fun chain_status_value :: "AttackChainStatus \<Rightarrow> string" where
  "chain_status_value Chain_PLANNED = ''planned''"
| "chain_status_value Chain_RUNNING = ''running''"
| "chain_status_value Chain_CLEANUP_REQUIRED = ''cleanup_required''"
| "chain_status_value Chain_GOAL_REACHED = ''goal_reached''"
| "chain_status_value Chain_FAILED = ''failed''"
| "chain_status_value Chain_TIMED_OUT = ''timed_out''"
| "chain_status_value Chain_KILLED = ''killed''"

fun node_status_value :: "AttackNodeStatus \<Rightarrow> string" where
  "node_status_value Node_PENDING = ''pending''"
| "node_status_value Node_SUCCEEDED = ''succeeded''"
| "node_status_value Node_FAILED = ''failed''"
| "node_status_value Node_TIMED_OUT = ''timed_out''"

fun action_outcome_value :: "AttackActionOutcome \<Rightarrow> string" where
  "action_outcome_value Out_SUCCEEDED = ''succeeded''"
| "action_outcome_value Out_REJECTED = ''rejected''"
| "action_outcome_value Out_FAILED = ''failed''"
| "action_outcome_value Out_TIMED_OUT = ''timed_out''"

record AttackObjective =
  ob_objective_id :: digest
  ob_kind :: AttackObjectiveKind
  ob_evidence_requirement :: string

definition AttackObjective_content :: "AttackObjective \<Rightarrow> pyval" where
  "AttackObjective_content x = PDict
     [(''kind'', PEnum (objective_kind_value (ob_kind x))), (''evidence_requirement'', PStr (ob_evidence_requirement x))]"

definition AttackObjective_valid :: "(pyval \<Rightarrow> digest) \<Rightarrow> AttackObjective \<Rightarrow> bool" where
  "AttackObjective_valid H x \<longleftrightarrow>
     is_reason_code (ob_evidence_requirement x) \<and> sealed_by H AttackObjective_content ob_objective_id x"

record AttackAction =
  aa_action_id :: digest
  aa_flow_plan_id :: digest
  aa_scope_id :: uuid
  aa_scope_version :: int
  aa_ordinal :: int
  aa_kind :: AttackActionKind
  aa_phase :: RedTeamPhase
  aa_target_id :: uuid
  aa_target_path :: string
  aa_test_class :: string
  aa_impact :: AttackImpact
  aa_prerequisite_action_ids :: "digest list"
  aa_objective_id :: digest

definition AttackAction_content :: "AttackAction \<Rightarrow> pyval" where
  "AttackAction_content a = PDict
     [(''flow_plan_id'', PStr (aa_flow_plan_id a)), (''scope_id'', PUuid (aa_scope_id a)),
      (''scope_version'', PInt (aa_scope_version a)), (''ordinal'', PInt (aa_ordinal a)),
      (''kind'', PEnum (action_kind_value (aa_kind a))), (''phase'', PEnum (phase_value (aa_phase a))),
      (''target_id'', PUuid (aa_target_id a)), (''target_path'', PStr (aa_target_path a)),
      (''test_class'', PStr (aa_test_class a)), (''impact'', PEnum (attack_impact_value (aa_impact a))),
      (''prerequisite_action_ids'', p_strs (aa_prerequisite_action_ids a)),
      (''objective_id'', PStr (aa_objective_id a))]"

text \<open>\<^verbatim>\<open>AttackAction.exact_safe_path\<close>\<close>

definition exact_safe_path :: "string \<Rightarrow> bool" where
  "exact_safe_path v \<longleftrightarrow>
     \<not> (take 1 v \<noteq> ''/'' \<or> sublist ''//'' v \<or> list_ex (\<lambda>c. c \<in> {CHR ''?'', CHR ''#'', CHR 0x25, CHR 0x5C, CHR 0x00}) v \<or>
        list_ex (\<lambda>s. s \<in> {''.'', ''..''}) (split_slash v) \<or> \<not> is_ascii_str v \<or>
        list_ex (\<lambda>c. char_code c \<le> 32) v)"

fun expected_phase :: "AttackActionKind \<Rightarrow> RedTeamPhase" where
  "expected_phase INITIAL_ACCESS_ATTEMPT = INITIAL_ACCESS"
| "expected_phase VERIFY_TEST_SESSION = POST_EXPLOITATION"
| "expected_phase VERIFY_OBJECTIVE = POST_EXPLOITATION"
| "expected_phase CLEANUP_TEST_SESSION = POST_EXPLOITATION"

definition AttackAction_valid :: "(pyval \<Rightarrow> digest) \<Rightarrow> AttackAction \<Rightarrow> bool" where
  "AttackAction_valid H a \<longleftrightarrow>
     is_digest (aa_flow_plan_id a) \<and> 1 \<le> aa_scope_version a \<and> 1 \<le> aa_ordinal a \<and> aa_ordinal a \<le> 32 \<and>
     1 \<le> length (aa_target_path a) \<and> length (aa_target_path a) \<le> 1024 \<and> exact_safe_path (aa_target_path a) \<and>
     is_reason_code (aa_test_class a) \<and> length (aa_prerequisite_action_ids a) \<le> 8 \<and>
     list_all is_digest (aa_prerequisite_action_ids a) \<and> is_digest (aa_objective_id a) \<and>
     aa_phase a = expected_phase (aa_kind a) \<and>
     (if aa_kind a \<in> {INITIAL_ACCESS_ATTEMPT, CLEANUP_TEST_SESSION} then aa_impact a = AI_STATE_CHANGE
      else aa_impact a = AI_READ_ONLY) \<and>
     distinct (aa_prerequisite_action_ids a) \<and>
     sealed_by H AttackAction_content aa_action_id a"

record AttackGraph =
  ag_graph_id :: digest
  ag_flow_plan_id :: digest
  ag_target_id :: uuid
  ag_scope_id :: uuid
  ag_scope_version :: int
  ag_objective :: AttackObjective
  ag_actions :: "AttackAction list"

definition AttackGraph_content :: "AttackGraph \<Rightarrow> pyval" where
  "AttackGraph_content g = PDict
     [(''flow_plan_id'', PStr (ag_flow_plan_id g)), (''target_id'', PUuid (ag_target_id g)),
      (''scope_id'', PUuid (ag_scope_id g)), (''scope_version'', PInt (ag_scope_version g)),
      (''objective'', with_id ''objective_id'' (ob_objective_id (ag_objective g)) (AttackObjective_content (ag_objective g))),
      (''actions'', PList (map (\<lambda>a. with_id ''action_id'' (aa_action_id a) (AttackAction_content a)) (ag_actions g)))]"

text \<open>The loop over the actions, with the set of the identifiers seen so far.\<close>

fun graph_topology :: "AttackGraph \<Rightarrow> digest list \<Rightarrow> AttackAction list \<Rightarrow> bool" where
  "graph_topology g ids [] \<longleftrightarrow> True"
| "graph_topology g ids (a # as) \<longleftrightarrow>
     \<not> (aa_flow_plan_id a \<noteq> ag_flow_plan_id g \<or> aa_scope_id a \<noteq> ag_scope_id g \<or>
        aa_scope_version a \<noteq> ag_scope_version g \<or> aa_target_id a \<noteq> ag_target_id g \<or>
        aa_objective_id a \<noteq> ob_objective_id (ag_objective g) \<or>
        \<not> set (aa_prerequisite_action_ids a) \<subseteq> set ids) \<and>
     graph_topology g (aa_action_id a # ids) as"

definition actions_of_kind :: "AttackActionKind \<Rightarrow> AttackGraph \<Rightarrow> AttackAction list" where
  "actions_of_kind k g = filter (\<lambda>a. aa_kind a = k) (ag_actions g)"

definition AttackGraph_valid :: "(pyval \<Rightarrow> digest) \<Rightarrow> AttackGraph \<Rightarrow> bool" where
  "AttackGraph_valid H g \<longleftrightarrow>
     is_digest (ag_flow_plan_id g) \<and> 1 \<le> ag_scope_version g \<and> AttackObjective_valid H (ag_objective g) \<and>
     list_all (AttackAction_valid H) (ag_actions g) \<and>
     3 \<le> length (ag_actions g) \<and> length (ag_actions g) \<le> 32 \<and>
     map aa_ordinal (ag_actions g) = map int [1..<Suc (length (ag_actions g))] \<and>
     graph_topology g [] (ag_actions g) \<and>
     aa_kind (hd (ag_actions g)) = INITIAL_ACCESS_ATTEMPT \<and>
     \<not> list_ex (\<lambda>a. aa_kind a = INITIAL_ACCESS_ATTEMPT) (tl (ag_actions g)) \<and>
     \<not> list_ex (\<lambda>a. aa_prerequisite_action_ids a = []) (tl (ag_actions g)) \<and>
     length (actions_of_kind VERIFY_OBJECTIVE g) = 1 \<and>
     length (actions_of_kind CLEANUP_TEST_SESSION g) = 1 \<and>
     hd (actions_of_kind CLEANUP_TEST_SESSION g) = last (ag_actions g) \<and>
     aa_action_id (hd (actions_of_kind VERIFY_OBJECTIVE g)) \<in>
       set (aa_prerequisite_action_ids (hd (actions_of_kind CLEANUP_TEST_SESSION g))) \<and>
     sealed_by H AttackGraph_content ag_graph_id g"

record AttackChainPlan =
  cpl_chain_plan_id :: digest
  cpl_graph :: AttackGraph
  cpl_expected_flow_checkpoint_id :: digest
  cpl_created_at :: instant
  cpl_deadline :: instant
  cpl_cleanup_deadline :: instant
  cpl_max_failures :: int
  cpl_idempotency_key :: string

definition AttackChainPlan_content :: "AttackChainPlan \<Rightarrow> pyval" where
  "AttackChainPlan_content p = PDict
     [(''graph'', with_id ''graph_id'' (ag_graph_id (cpl_graph p)) (AttackGraph_content (cpl_graph p))),
      (''expected_flow_checkpoint_id'', PStr (cpl_expected_flow_checkpoint_id p)),
      (''created_at'', PTime (cpl_created_at p)), (''deadline'', PTime (cpl_deadline p)),
      (''cleanup_deadline'', PTime (cpl_cleanup_deadline p)), (''max_failures'', PInt (cpl_max_failures p)),
      (''idempotency_key'', PStr (cpl_idempotency_key p))]"

definition AttackChainPlan_valid :: "(pyval \<Rightarrow> digest) \<Rightarrow> AttackChainPlan \<Rightarrow> bool" where
  "AttackChainPlan_valid H p \<longleftrightarrow>
     AttackGraph_valid H (cpl_graph p) \<and> is_digest (cpl_expected_flow_checkpoint_id p) \<and>
     1 \<le> cpl_max_failures p \<and> cpl_max_failures p \<le> 3 \<and>
     1 \<le> length (cpl_idempotency_key p) \<and> length (cpl_idempotency_key p) \<le> 256 \<and>
     cpl_created_at p < cpl_deadline p \<and> cpl_deadline p < cpl_cleanup_deadline p \<and>
     cpl_cleanup_deadline p - cpl_deadline p \<le> seconds 300 \<and> CHR 0x00 \<notin> set (cpl_idempotency_key p) \<and>
     sealed_by H AttackChainPlan_content cpl_chain_plan_id p"

record AttackNodeProgress =
  np_action_id :: digest
  np_status :: AttackNodeStatus
  np_observation_id :: "digest option"

definition AttackNodeProgress_valid :: "AttackNodeProgress \<Rightarrow> bool" where
  "AttackNodeProgress_valid n \<longleftrightarrow>
     is_digest (np_action_id n) \<and> opt_all is_digest (np_observation_id n) \<and>
     (np_status n = Node_PENDING) = (np_observation_id n = None)"

record AttackChainCheckpoint =
  cc_checkpoint_id :: digest
  cc_chain_plan_id :: digest
  cc_revision :: int
  cc_status :: AttackChainStatus
  cc_nodes :: "AttackNodeProgress list"
  cc_objective_observation_id :: "digest option"
  cc_deferred_outcome :: "AttackActionOutcome option"
  cc_failures :: int
  cc_stop_reason :: "string option"
  cc_updated_at :: instant

definition AttackNodeProgress_dump :: "AttackNodeProgress \<Rightarrow> pyval" where
  "AttackNodeProgress_dump n = PDict
     [(''action_id'', PStr (np_action_id n)), (''status'', PEnum (node_status_value (np_status n))),
      (''observation_id'', p_opt PStr (np_observation_id n))]"

definition AttackChainCheckpoint_content :: "AttackChainCheckpoint \<Rightarrow> pyval" where
  "AttackChainCheckpoint_content c = PDict
     [(''chain_plan_id'', PStr (cc_chain_plan_id c)), (''revision'', PInt (cc_revision c)),
      (''status'', PEnum (chain_status_value (cc_status c))),
      (''nodes'', PList (map AttackNodeProgress_dump (cc_nodes c))),
      (''objective_observation_id'', p_opt PStr (cc_objective_observation_id c)),
      (''deferred_outcome'', p_opt (\<lambda>x. PEnum (action_outcome_value x)) (cc_deferred_outcome c)),
      (''failures'', PInt (cc_failures c)), (''stop_reason'', p_opt PStr (cc_stop_reason c)),
      (''updated_at'', PTime (cc_updated_at c))]"

text \<open>\<^verbatim>\<open>AttackChainCheckpoint.sealed\<close>. A later node with the same observation identifier replaces an earlier one in
  the dictionary \<^verbatim>\<open>observed\<close>.\<close>

definition observed_node :: "AttackChainCheckpoint \<Rightarrow> digest \<Rightarrow> AttackNodeProgress option" where
  "observed_node c i = List.find (\<lambda>n. np_observation_id n = Some i) (rev (cc_nodes c))"

definition recorded_failures :: "AttackNodeProgress list \<Rightarrow> int" where
  "recorded_failures ns = int (length (filter (\<lambda>n. np_status n \<in> {Node_FAILED, Node_TIMED_OUT}) ns))"

definition chain_terminal :: "AttackChainStatus \<Rightarrow> bool" where
  "chain_terminal s \<longleftrightarrow> s \<in> {Chain_GOAL_REACHED, Chain_FAILED, Chain_TIMED_OUT, Chain_KILLED}"

definition AttackChainCheckpoint_valid :: "(pyval \<Rightarrow> digest) \<Rightarrow> AttackChainCheckpoint \<Rightarrow> bool" where
  "AttackChainCheckpoint_valid H c \<longleftrightarrow>
     is_digest (cc_chain_plan_id c) \<and> 0 \<le> cc_revision c \<and> list_all AttackNodeProgress_valid (cc_nodes c) \<and>
     opt_all is_digest (cc_objective_observation_id c) \<and> 0 \<le> cc_failures c \<and>
     opt_all is_reason_code (cc_stop_reason c) \<and>
     chain_terminal (cc_status c) = (cc_stop_reason c \<noteq> None) \<and>
     (cc_status c = Chain_CLEANUP_REQUIRED) = (cc_deferred_outcome c \<noteq> None) \<and>
     \<not> (cc_status c = Chain_GOAL_REACHED \<and> cc_objective_observation_id c = None) \<and>
     distinct (map np_action_id (cc_nodes c)) \<and>
     opt_all (\<lambda>i. case observed_node c i of None \<Rightarrow> False | Some n \<Rightarrow> np_status n = Node_SUCCEEDED)
       (cc_objective_observation_id c) \<and>
     cc_failures c = recorded_failures (cc_nodes c) \<and>
     \<not> (cc_status c = Chain_PLANNED \<and>
        (cc_revision c \<noteq> 0 \<or> cc_failures c \<noteq> 0 \<or> cc_objective_observation_id c \<noteq> None \<or>
         list_ex (\<lambda>n. np_status n \<noteq> Node_PENDING) (cc_nodes c))) \<and>
     \<not> (cc_status c = Chain_CLEANUP_REQUIRED \<and> \<not> list_ex (\<lambda>n. np_status n = Node_PENDING) (cc_nodes c)) \<and>
     \<not> (cc_status c = Chain_GOAL_REACHED \<and>
        (cc_failures c \<noteq> 0 \<or> list_ex (\<lambda>n. np_status n \<noteq> Node_SUCCEEDED) (cc_nodes c))) \<and>
     sealed_by H AttackChainCheckpoint_content cc_checkpoint_id c"

definition AttackChainCheckpoint_create ::
  "(pyval \<Rightarrow> digest) \<Rightarrow> AttackChainCheckpoint \<Rightarrow> AttackChainCheckpoint option" where
  "AttackChainCheckpoint_create H v =
     (let c = v\<lparr>cc_checkpoint_id := H (AttackChainCheckpoint_content v)\<rparr>
      in if AttackChainCheckpoint_valid H c then Some c else None)"

record AttackActionObservation =
  ao_observation_id :: digest
  ao_command_id :: digest
  ao_action_id :: digest
  ao_outcome :: AttackActionOutcome
  ao_reason_code :: string
  ao_evidence_refs :: "digest list"
  ao_goal_reached :: bool
  ao_cleanup_complete :: bool
  ao_sensitive_data_redacted :: bool
  ao_observed_at :: instant

definition AttackActionObservation_content :: "AttackActionObservation \<Rightarrow> pyval" where
  "AttackActionObservation_content x = PDict
     [(''command_id'', PStr (ao_command_id x)), (''action_id'', PStr (ao_action_id x)),
      (''outcome'', PEnum (action_outcome_value (ao_outcome x))), (''reason_code'', PStr (ao_reason_code x)),
      (''evidence_refs'', p_strs (ao_evidence_refs x)), (''goal_reached'', PBool (ao_goal_reached x)),
      (''cleanup_complete'', PBool (ao_cleanup_complete x)),
      (''sensitive_data_redacted'', PBool (ao_sensitive_data_redacted x)),
      (''observed_at'', PTime (ao_observed_at x))]"

definition AttackActionObservation_valid :: "(pyval \<Rightarrow> digest) \<Rightarrow> AttackActionObservation \<Rightarrow> bool" where
  "AttackActionObservation_valid H x \<longleftrightarrow>
     is_digest (ao_observation_id x) \<and> is_digest (ao_command_id x) \<and> is_digest (ao_action_id x) \<and>
     is_reason_code (ao_reason_code x) \<and> length (ao_evidence_refs x) \<le> 8 \<and> list_all is_digest (ao_evidence_refs x) \<and>
     ao_sensitive_data_redacted x \<and>
     \<not> (ao_outcome x = Out_SUCCEEDED \<and> (\<not> ao_cleanup_complete x \<or> ao_evidence_refs x = [])) \<and>
     \<not> (ao_goal_reached x \<and> ao_outcome x \<noteq> Out_SUCCEEDED) \<and>
     sealed_by H AttackActionObservation_content ao_observation_id x"

section \<open>Transitions\<close>

datatype chain_error = AttackChainTransitionRejected string | ChainValueError | ChainKeyError

text \<open>\<^verbatim>\<open>_next\<close>; \<open>upd\<close> applies the keyword updates to the copied values.\<close>

definition chain_next ::
  "(pyval \<Rightarrow> digest) \<Rightarrow> AttackChainCheckpoint \<Rightarrow> AttackChainStatus \<Rightarrow> string option \<Rightarrow> instant
   \<Rightarrow> (AttackChainCheckpoint \<Rightarrow> AttackChainCheckpoint) \<Rightarrow> chain_error + AttackChainCheckpoint" where
  "chain_next H c status stop_reason now upd =
     (case AttackChainCheckpoint_create H ((upd
        \<lparr>cc_checkpoint_id = [], cc_chain_plan_id = cc_chain_plan_id c, cc_revision = 0, cc_status = status,
         cc_nodes = cc_nodes c, cc_objective_observation_id = cc_objective_observation_id c,
         cc_deferred_outcome = cc_deferred_outcome c, cc_failures = cc_failures c, cc_stop_reason = None,
         cc_updated_at = now\<rparr>)\<lparr>cc_revision := cc_revision c + 1, cc_stop_reason := stop_reason\<rparr>)
      of None \<Rightarrow> Inl ChainValueError | Some c' \<Rightarrow> Inr c')"

definition chain_current :: "AttackChainPlan \<Rightarrow> AttackChainCheckpoint \<Rightarrow> chain_error + unit" where
  "chain_current p c =
     (if cc_chain_plan_id c \<noteq> cpl_chain_plan_id p
      then Inl (AttackChainTransitionRejected ''Attack Chain checkpoint is misbound'') else Inr ())"

definition chain_running ::
  "AttackChainPlan \<Rightarrow> AttackChainCheckpoint \<Rightarrow> AttackAction \<Rightarrow> instant \<Rightarrow> chain_error + unit" where
  "chain_running p c a now =
     bind_result (chain_current p c) (\<lambda>_.
       if cc_status c \<notin> {Chain_RUNNING, Chain_CLEANUP_REQUIRED}
       then Inl (AttackChainTransitionRejected ''Attack Chain is not running'')
       else if (if aa_kind a = CLEANUP_TEST_SESSION then cpl_cleanup_deadline p else cpl_deadline p) \<le> now
       then Inl (AttackChainTransitionRejected ''Attack Chain deadline elapsed'')
       else Inr ())"

definition start_attack_chain ::
  "(pyval \<Rightarrow> digest) \<Rightarrow> AttackChainPlan \<Rightarrow> AttackChainCheckpoint \<Rightarrow> instant \<Rightarrow> chain_error + AttackChainCheckpoint" where
  "start_attack_chain H p c now =
     bind_result (chain_current p c) (\<lambda>_.
       if cc_status c \<noteq> Chain_PLANNED then Inl (AttackChainTransitionRejected ''Attack Chain is not planned'')
       else if cpl_deadline p \<le> now then chain_next H c Chain_TIMED_OUT (Some ''deadline_reached'') now id
       else chain_next H c Chain_RUNNING None now id)"

fun node_status_of :: "AttackActionOutcome \<Rightarrow> AttackNodeStatus" where
  "node_status_of Out_SUCCEEDED = Node_SUCCEEDED"
| "node_status_of Out_REJECTED = Node_FAILED"
| "node_status_of Out_FAILED = Node_FAILED"
| "node_status_of Out_TIMED_OUT = Node_TIMED_OUT"

text \<open>\<^verbatim>\<open>progress_by_id\<close>\<close>

definition progress_of :: "AttackChainCheckpoint \<Rightarrow> digest \<Rightarrow> AttackNodeProgress option" where
  "progress_of c i = dict_by np_action_id (cc_nodes c) i"

text \<open>\<^verbatim>\<open>any(progress_by_id[item].status is not SUCCEEDED ...)\<close>: a missing key raises before any later item
  is looked at.\<close>

fun prerequisites_incomplete :: "AttackChainCheckpoint \<Rightarrow> digest list \<Rightarrow> chain_error + bool" where
  "prerequisites_incomplete c [] = Inr False"
| "prerequisites_incomplete c (i # is) =
     (case progress_of c i of
        None \<Rightarrow> Inl ChainKeyError
      | Some n \<Rightarrow> if np_status n \<noteq> Node_SUCCEEDED then Inr True else prerequisites_incomplete c is)"

definition mark_node :: "digest \<Rightarrow> AttackNodeStatus \<Rightarrow> digest \<Rightarrow> AttackNodeProgress list \<Rightarrow> AttackNodeProgress list" where
  "mark_node i st obs ns =
     map (\<lambda>n. if np_action_id n = i
        then \<lparr>np_action_id = np_action_id n, np_status = st, np_observation_id = Some obs\<rparr> else n) ns"

text \<open>The part of \<^verbatim>\<open>record_attack_observation\<close> after its guards.\<close>

definition apply_observation ::
  "(pyval \<Rightarrow> digest) \<Rightarrow> AttackChainPlan \<Rightarrow> AttackChainCheckpoint \<Rightarrow> AttackAction \<Rightarrow> AttackActionObservation \<Rightarrow> instant
   \<Rightarrow> chain_error + AttackChainCheckpoint" where
  "apply_observation H p c a x now =
     (let nodes = mark_node (aa_action_id a) (node_status_of (ao_outcome x)) (ao_observation_id x) (cc_nodes c);
          failures = cc_failures c + (if ao_outcome x \<noteq> Out_SUCCEEDED then 1 else 0);
          is_cleanup = (aa_kind a = CLEANUP_TEST_SESSION);
          is_goal = (aa_kind a = VERIFY_OBJECTIVE);
          updates = (\<lambda>v. v\<lparr>cc_nodes := nodes, cc_failures := failures,
            cc_deferred_outcome := (if is_cleanup then None else cc_deferred_outcome v)\<rparr>)
      in if ao_outcome x \<noteq> Out_SUCCEEDED \<and> \<not> is_cleanup
      then chain_next H c Chain_CLEANUP_REQUIRED None now
             (\<lambda>v. (updates v)\<lparr>cc_deferred_outcome := Some (ao_outcome x)\<rparr>)
      else if \<not> ao_cleanup_complete x
      then chain_next H c Chain_FAILED (Some ''cleanup_unproven'') now updates
      else if ao_outcome x \<noteq> Out_SUCCEEDED
      then chain_next H c Chain_FAILED
             (Some (if cpl_max_failures p \<le> failures then ''failure_limit_reached'' else ''action_failed'')) now updates
      else if ao_goal_reached x \<noteq> is_goal
      then Inl (AttackChainTransitionRejected ''Attack Objective evidence is inconsistent'')
      else
        let updates' = (\<lambda>v. if is_goal then (updates v)\<lparr>cc_objective_observation_id := Some (ao_observation_id x)\<rparr>
                            else updates v)
        in if is_cleanup
        then (case cc_deferred_outcome c of
                Some d \<Rightarrow>
                  chain_next H c (if d = Out_TIMED_OUT then Chain_TIMED_OUT else Chain_FAILED)
                    (Some (if d = Out_TIMED_OUT then ''action_timed_out_after_cleanup''
                           else ''action_failed_after_cleanup'')) now updates'
              | None \<Rightarrow>
                  if cc_objective_observation_id c = None
                  then Inl (AttackChainTransitionRejected ''Attack Chain Cleanup lacks objective evidence'')
                  else chain_next H c Chain_GOAL_REACHED
                         (Some ''objective_evidence_and_cleanup_recorded'') now updates')
        else chain_next H c Chain_RUNNING None now updates')"

definition record_attack_observation ::
  "(pyval \<Rightarrow> digest) \<Rightarrow> AttackChainPlan \<Rightarrow> AttackChainCheckpoint \<Rightarrow> AttackAction \<Rightarrow> AttackActionObservation \<Rightarrow> instant
   \<Rightarrow> chain_error + AttackChainCheckpoint" where
  "record_attack_observation H p c a x now =
     bind_result (chain_running p c a now) (\<lambda>_.
       if (case progress_of c (aa_action_id a) of None \<Rightarrow> True | Some n \<Rightarrow> np_status n \<noteq> Node_PENDING)
       then Inl (AttackChainTransitionRejected ''Attack Action is not pending'')
       else
         let compensating = (cc_status c = Chain_CLEANUP_REQUIRED \<and> aa_kind a = CLEANUP_TEST_SESSION)
         in bind_result (if compensating then Inr False
                         else prerequisites_incomplete c (aa_prerequisite_action_ids a)) (\<lambda>incomplete.
            if incomplete then Inl (AttackChainTransitionRejected ''Attack Action prerequisites are incomplete'')
            else if ao_action_id x \<noteq> aa_action_id a
            then Inl (AttackChainTransitionRejected ''Attack Action observation is misbound'')
            else apply_observation H p c a x now))"

definition stop_attack_chain ::
  "(pyval \<Rightarrow> digest) \<Rightarrow> AttackChainPlan \<Rightarrow> AttackChainCheckpoint \<Rightarrow> string \<Rightarrow> instant \<Rightarrow> bool
   \<Rightarrow> chain_error + AttackChainCheckpoint" where
  "stop_attack_chain H p c reason now cleanup_required =
     bind_result (chain_current p c) (\<lambda>_.
       if cc_status c \<notin> {Chain_RUNNING, Chain_CLEANUP_REQUIRED} then Inr c
       else if cleanup_required
       then chain_next H c Chain_CLEANUP_REQUIRED None now (\<lambda>v. v\<lparr>cc_deferred_outcome := Some Out_REJECTED\<rparr>)
       else chain_next H c Chain_KILLED (Some reason) now (\<lambda>v. v\<lparr>cc_deferred_outcome := None\<rparr>))"

end
