(* ===== verification/Attack_Chain_Facts.thy ===== *)
theory Attack_Chain_Facts
  imports Attack_Chain
begin

text \<open>
  Runs of an attack chain: the checkpoint a chain starts from, one step per accepted transition, what each
  kind of step does, and the invariant that reachable checkpoints satisfy.
\<close>

section \<open>Steps\<close>

text \<open>The checkpoint that \<^verbatim>\<open>AttackChainService.create_and_start\<close> stores before it starts the chain.\<close>

definition planned_checkpoint ::
  "(pyval \<Rightarrow> digest) \<Rightarrow> AttackChainPlan \<Rightarrow> instant \<Rightarrow> AttackChainCheckpoint option" where
  "planned_checkpoint H p now = AttackChainCheckpoint_create H
     \<lparr>cc_checkpoint_id = [], cc_chain_plan_id = cpl_chain_plan_id p, cc_revision = 0, cc_status = Chain_PLANNED,
      cc_nodes = map (\<lambda>a. \<lparr>np_action_id = aa_action_id a, np_status = Node_PENDING, np_observation_id = None\<rparr>)
        (ag_actions (cpl_graph p)),
      cc_objective_observation_id = None, cc_deferred_outcome = None, cc_failures = 0, cc_stop_reason = None,
      cc_updated_at = now\<rparr>"

text \<open>One accepted transition to a new checkpoint. Only actions of the sealed graph and validated observations
  reach the transition (\<^verbatim>\<open>AttackChainService.execute\<close>); \<^verbatim>\<open>stop_attack_chain\<close> returns a
  checkpoint that is not running unchanged, which is no step.\<close>

inductive chain_step ::
  "(pyval \<Rightarrow> digest) \<Rightarrow> AttackChainPlan \<Rightarrow> AttackChainCheckpoint \<Rightarrow> AttackChainCheckpoint \<Rightarrow> bool" for H p where
  chain_started: "start_attack_chain H p c now = Inr c' \<Longrightarrow> chain_step H p c c'"
| chain_observed:
    "record_attack_observation H p c a x now = Inr c' \<Longrightarrow> a \<in> set (ag_actions (cpl_graph p)) \<Longrightarrow>
     AttackActionObservation_valid H x \<Longrightarrow> chain_step H p c c'"
| chain_stopped:
    "stop_attack_chain H p c reason now cleanup = Inr c' \<Longrightarrow>
     cc_status c \<in> {Chain_RUNNING, Chain_CLEANUP_REQUIRED} \<Longrightarrow> chain_step H p c c'"

lemma chain_next_Inr:
  assumes "chain_next H c status reason now upd = Inr c'"
  defines "v \<equiv> (upd
        \<lparr>cc_checkpoint_id = [], cc_chain_plan_id = cc_chain_plan_id c, cc_revision = 0, cc_status = status,
         cc_nodes = cc_nodes c, cc_objective_observation_id = cc_objective_observation_id c,
         cc_deferred_outcome = cc_deferred_outcome c, cc_failures = cc_failures c, cc_stop_reason = None,
         cc_updated_at = now\<rparr>)\<lparr>cc_revision := cc_revision c + 1, cc_stop_reason := reason\<rparr>"
  shows "c' = v\<lparr>cc_checkpoint_id := H (AttackChainCheckpoint_content v)\<rparr>" "AttackChainCheckpoint_valid H c'"
  using assms by (auto simp: chain_next_def AttackChainCheckpoint_create_def Let_def split: if_splits)

lemma prerequisites_succeeded:
  "prerequisites_incomplete c is = Inr False \<Longrightarrow> i \<in> set is \<Longrightarrow>
   \<exists>n. progress_of c i = Some n \<and> np_status n = Node_SUCCEEDED"
  by (induction "is") (auto split: option.splits if_splits)

definition observe_node ::
  "AttackAction \<Rightarrow> AttackActionObservation \<Rightarrow> AttackNodeProgress list \<Rightarrow> AttackNodeProgress list" where
  "observe_node a x ns = mark_node (aa_action_id a) (node_status_of (ao_outcome x)) (ao_observation_id x) ns"

definition prerequisites_done :: "AttackChainCheckpoint \<Rightarrow> AttackAction \<Rightarrow> bool" where
  "prerequisites_done c a \<longleftrightarrow>
     (\<forall>i \<in> set (aa_prerequisite_action_ids a). \<exists>n. progress_of c i = Some n \<and> np_status n = Node_SUCCEEDED)"

text \<open>What one recorded observation does.\<close>

definition observed_effect ::
  "AttackChainCheckpoint \<Rightarrow> AttackAction \<Rightarrow> AttackActionObservation \<Rightarrow> AttackChainCheckpoint \<Rightarrow> bool" where
  "observed_effect c a x c' \<longleftrightarrow>
     cc_nodes c' = observe_node a x (cc_nodes c) \<and>
     (if aa_kind a = CLEANUP_TEST_SESSION
      then cc_status c' \<in> {Chain_FAILED, Chain_TIMED_OUT, Chain_GOAL_REACHED} \<and>
           cc_objective_observation_id c' = cc_objective_observation_id c \<and>
           (cc_status c' = Chain_GOAL_REACHED \<longrightarrow> prerequisites_done c a \<and> ao_outcome x = Out_SUCCEEDED)
      else prerequisites_done c a \<and>
           (if ao_outcome x = Out_SUCCEEDED
            then cc_status c' = Chain_RUNNING \<and>
                 cc_objective_observation_id c' =
                   (if aa_kind a = VERIFY_OBJECTIVE then Some (ao_observation_id x) else cc_objective_observation_id c)
            else cc_status c' = Chain_CLEANUP_REQUIRED \<and> cc_deferred_outcome c' = Some (ao_outcome x) \<and>
                 cc_objective_observation_id c' = cc_objective_observation_id c))"

lemma apply_observation_effect:
  assumes ok: "apply_observation H p c a x now = Inr c'"
    and valid: "AttackActionObservation_valid H x"
    and pre: "aa_kind a \<noteq> CLEANUP_TEST_SESSION \<or> cc_deferred_outcome c = None \<Longrightarrow> prerequisites_done c a"
  shows "observed_effect c a x c'"
proof -
  have "ao_outcome x = Out_SUCCEEDED \<Longrightarrow> ao_cleanup_complete x"
    using valid by (simp add: AttackActionObservation_valid_def)
  then show ?thesis
    using ok pre
    by (auto simp: apply_observation_def Let_def observed_effect_def observe_node_def split: if_splits option.splits
        dest!: chain_next_Inr(1))
qed

lemma chain_step_cases:
  assumes "chain_step H p c c'" and "AttackChainCheckpoint_valid H c"
  obtains
    (start) "cc_status c = Chain_PLANNED" "cc_status c' \<in> {Chain_RUNNING, Chain_TIMED_OUT}" "cc_nodes c' = cc_nodes c"
    "cc_objective_observation_id c' = cc_objective_observation_id c"
  | (observe) a x n where "a \<in> set (ag_actions (cpl_graph p))" "AttackActionObservation_valid H x"
    "cc_status c \<in> {Chain_RUNNING, Chain_CLEANUP_REQUIRED}" "progress_of c (aa_action_id a) = Some n"
    "np_status n = Node_PENDING" "observed_effect c a x c'"
  | (stop) "cc_status c \<in> {Chain_RUNNING, Chain_CLEANUP_REQUIRED}" "cc_status c' \<in> {Chain_CLEANUP_REQUIRED, Chain_KILLED}"
    "cc_nodes c' = cc_nodes c" "cc_objective_observation_id c' = cc_objective_observation_id c"
  using assms(1)
proof (cases rule: chain_step.cases)
  case (chain_started now)
  then show thesis
    by (intro that(1)) (auto simp: start_attack_chain_def result_simps split: if_splits dest!: chain_next_Inr(1))
next
  case (chain_observed a x now)
  have deferred: "(cc_status c = Chain_CLEANUP_REQUIRED) = (cc_deferred_outcome c \<noteq> None)"
    using assms(2) by (simp add: AttackChainCheckpoint_valid_def)
  from chain_observed(1) obtain n where n: "progress_of c (aa_action_id a) = Some n" "np_status n = Node_PENDING"
      and running: "cc_status c \<in> {Chain_RUNNING, Chain_CLEANUP_REQUIRED}"
      and pre: "aa_kind a \<noteq> CLEANUP_TEST_SESSION \<or> cc_status c \<noteq> Chain_CLEANUP_REQUIRED \<Longrightarrow>
        prerequisites_incomplete c (aa_prerequisite_action_ids a) = Inr False"
      and app: "apply_observation H p c a x now = Inr c'"
    by (auto simp: record_attack_observation_def chain_running_def Let_def result_simps split: if_splits option.splits)
  have "observed_effect c a x c'"
    using apply_observation_effect [OF app chain_observed(3)] pre deferred prerequisites_succeeded
    by (auto simp: prerequisites_done_def)
  with chain_observed n running show thesis by (intro that(2))
next
  case (chain_stopped reason now cleanup)
  then show thesis
    by (intro that(3)) (auto simp: stop_attack_chain_def result_simps split: if_splits dest!: chain_next_Inr(1))
qed

lemma chain_step_next:
  assumes "chain_step H p c c'"
  obtains status reason now upd where "chain_next H c status reason now upd = Inr c'"
    "\<And>v. cc_chain_plan_id (upd v) = cc_chain_plan_id v" "cc_chain_plan_id c = cpl_chain_plan_id p"
    "\<not> chain_terminal (cc_status c)"
  using assms
proof (cases rule: chain_step.cases)
  case (chain_started now)
  then show thesis
    by (auto simp: start_attack_chain_def chain_current_def chain_terminal_def result_simps split: if_splits intro: that)
next
  case (chain_observed a x now)
  then show thesis
    by (auto simp: record_attack_observation_def apply_observation_def chain_running_def chain_current_def
        chain_terminal_def Let_def result_simps split: if_splits option.splits intro: that)
next
  case (chain_stopped reason now cleanup)
  then show thesis
    by (auto simp: stop_attack_chain_def chain_current_def chain_terminal_def result_simps split: if_splits intro: that)
qed

lemma chain_step_valid: "chain_step H p c c' \<Longrightarrow> AttackChainCheckpoint_valid H c'"
  by (erule chain_step_next) (rule chain_next_Inr(2))

interpretation chain: revision_machine "chain_step H p" cc_revision cc_chain_plan_id "\<lambda>c. chain_terminal (cc_status c)"
proof
  fix c c' :: AttackChainCheckpoint assume "chain_step H p c c'"
  then show "cc_revision c' = cc_revision c + 1" "cc_chain_plan_id c' = cc_chain_plan_id c"
    by (auto elim!: chain_step_next dest!: chain_next_Inr(1))
next
  fix c c' :: AttackChainCheckpoint assume "chain_terminal (cc_status c)"
  then show "\<not> chain_step H p c c'" by (auto elim: chain_step_next)
qed


section \<open>The invariant of a chain\<close>

definition node_state :: "AttackChainCheckpoint \<Rightarrow> AttackAction \<Rightarrow> AttackNodeStatus option" where
  "node_state c a = map_option np_status (progress_of c (aa_action_id a))"

text \<open>The cleanup action is pending exactly as long as the chain runs, and no chain that observed an action
  ends (unless it is killed) before the cleanup was observed; any other action is observed only after its
  prerequisites have succeeded.\<close>

definition action_inv :: "AttackChainCheckpoint \<Rightarrow> AttackAction \<Rightarrow> bool" where
  "action_inv c a \<longleftrightarrow>
     (if aa_kind a = CLEANUP_TEST_SESSION
      then (\<not> chain_terminal (cc_status c) \<longrightarrow> node_state c a = Some Node_PENDING) \<and>
           (cc_status c \<in> {Chain_FAILED, Chain_TIMED_OUT, Chain_GOAL_REACHED} \<and>
            list_ex (\<lambda>n. np_status n \<noteq> Node_PENDING) (cc_nodes c) \<longrightarrow> node_state c a \<noteq> Some Node_PENDING)
      else node_state c a \<noteq> Some Node_PENDING \<longrightarrow> prerequisites_done c a)"

definition objective_inv :: "AttackChainPlan \<Rightarrow> AttackChainCheckpoint \<Rightarrow> bool" where
  "objective_inv p c \<longleftrightarrow>
     (\<forall>i. cc_objective_observation_id c = Some i \<longrightarrow>
        (\<exists>a \<in> set (ag_actions (cpl_graph p)). \<exists>n. aa_kind a = VERIFY_OBJECTIVE \<and>
           progress_of c (aa_action_id a) = Some n \<and> np_status n = Node_SUCCEEDED \<and> np_observation_id n = Some i))"

definition chain_inv :: "(pyval \<Rightarrow> digest) \<Rightarrow> AttackChainPlan \<Rightarrow> AttackChainCheckpoint \<Rightarrow> bool" where
  "chain_inv H p c \<longleftrightarrow>
     AttackChainCheckpoint_valid H c \<and> map np_action_id (cc_nodes c) = map aa_action_id (ag_actions (cpl_graph p)) \<and>
     (\<forall>a \<in> set (ag_actions (cpl_graph p)). action_inv c a) \<and> objective_inv p c"

lemma progress_observed:
  assumes "cc_nodes c' = observe_node a x (cc_nodes c)"
  shows "progress_of c' i =
    (if i = aa_action_id a
     then map_option (\<lambda>n. \<lparr>np_action_id = i, np_status = node_status_of (ao_outcome x),
            np_observation_id = Some (ao_observation_id x)\<rparr>) (progress_of c i)
     else progress_of c i)"
proof -
  have "progress_of c' i = map_option (\<lambda>n. if np_action_id n = aa_action_id a
      then \<lparr>np_action_id = np_action_id n, np_status = node_status_of (ao_outcome x),
            np_observation_id = Some (ao_observation_id x)\<rparr> else n) (progress_of c i)"
    unfolding progress_of_def assms observe_node_def mark_node_def by (rule dict_by_map) simp
  moreover have "np_action_id n = i" if "progress_of c i = Some n" for n
    using that by (auto simp: progress_of_def dest!: dict_by_Some)
  ultimately show ?thesis by (cases "progress_of c i") auto
qed

lemma outcome_not_pending [simp]: "node_status_of y \<noteq> Node_PENDING"
  by (cases y) auto

text \<open>A node that has been observed is never touched again.\<close>

definition progress_kept :: "AttackChainCheckpoint \<Rightarrow> AttackChainCheckpoint \<Rightarrow> bool" where
  "progress_kept c c' \<longleftrightarrow>
     (\<forall>i n. progress_of c i = Some n \<and> np_status n \<noteq> Node_PENDING \<longrightarrow> progress_of c' i = Some n)"

lemma chain_step_progress:
  assumes "chain_step H p c c'" and "AttackChainCheckpoint_valid H c"
  shows "progress_kept c c'"
  using assms
proof (cases rule: chain_step_cases)
  case (observe a x n)
  then show ?thesis by (auto simp: observed_effect_def progress_observed progress_kept_def)
qed (simp_all add: progress_kept_def progress_of_def)

lemma prerequisites_kept: "prerequisites_done c a \<Longrightarrow> progress_kept c c' \<Longrightarrow> prerequisites_done c' a"
  by (fastforce simp: prerequisites_done_def progress_kept_def)

lemma graph_one_cleanup:
  assumes "AttackGraph_valid H g" and "a \<in> set (ag_actions g)" "b \<in> set (ag_actions g)"
    and "aa_kind a = CLEANUP_TEST_SESSION" "aa_kind b = CLEANUP_TEST_SESSION"
  shows "b = a"
proof -
  from assms(1) have "length (actions_of_kind CLEANUP_TEST_SESSION g) = 1" by (simp add: AttackGraph_valid_def)
  then obtain z where "actions_of_kind CLEANUP_TEST_SESSION g = [z]" by (auto simp: length_Suc_conv)
  moreover have "a \<in> set (actions_of_kind CLEANUP_TEST_SESSION g)" "b \<in> set (actions_of_kind CLEANUP_TEST_SESSION g)"
    using assms by (auto simp: actions_of_kind_def)
  ultimately show ?thesis by simp
qed

lemma valid_nodes_distinct: "AttackChainCheckpoint_valid H c \<Longrightarrow> distinct (map np_action_id (cc_nodes c))"
  by (simp add: AttackChainCheckpoint_valid_def)

lemma planned_all_pending:
  "AttackChainCheckpoint_valid H c \<Longrightarrow> cc_status c = Chain_PLANNED \<Longrightarrow>
   \<not> list_ex (\<lambda>n. np_status n \<noteq> Node_PENDING) (cc_nodes c)"
  by (simp add: AttackChainCheckpoint_valid_def)

lemma chain_inv_same_nodes:
  assumes inv: "chain_inv H p c" and valid: "AttackChainCheckpoint_valid H c'"
    and same: "cc_nodes c' = cc_nodes c" "cc_objective_observation_id c' = cc_objective_observation_id c"
    and live: "\<not> chain_terminal (cc_status c)"
    and quiet: "cc_status c' \<in> {Chain_FAILED, Chain_TIMED_OUT, Chain_GOAL_REACHED} \<longrightarrow>
      \<not> list_ex (\<lambda>n. np_status n \<noteq> Node_PENDING) (cc_nodes c)"
  shows "chain_inv H p c'"
proof -
  have prog: "progress_of c' = progress_of c" by (rule ext) (simp add: progress_of_def same)
  then have eq: "node_state c' = node_state c" "prerequisites_done c' = prerequisites_done c"
    by (auto simp: node_state_def prerequisites_done_def fun_eq_iff)
  have "action_inv c' a" if "action_inv c a" for a
    using that live quiet by (auto simp: action_inv_def eq same split: if_splits)
  then show ?thesis
    using inv valid by (simp add: chain_inv_def objective_inv_def prog same)
qed

lemma chain_inv_observed:
  assumes inv: "chain_inv H p c" and a: "a \<in> set (ag_actions (cpl_graph p))"
    and valid': "AttackChainCheckpoint_valid H c'" and kept: "progress_kept c c'"
    and live: "\<not> chain_terminal (cc_status c)" and n: "progress_of c (aa_action_id a) = Some n"
    and effect: "observed_effect c a x c'"
    and one: "\<And>b. b \<in> set (ag_actions (cpl_graph p)) \<Longrightarrow> aa_kind a = CLEANUP_TEST_SESSION \<Longrightarrow>
      aa_kind b = CLEANUP_TEST_SESSION \<Longrightarrow> b = a"
  shows "chain_inv H p c'"
proof -
  from inv have ids: "map np_action_id (cc_nodes c) = map aa_action_id (ag_actions (cpl_graph p))"
    and acts: "\<forall>b \<in> set (ag_actions (cpl_graph p)). action_inv c b" and obj: "objective_inv p c"
    by (simp_all add: chain_inv_def)
  have "distinct (map np_action_id (cc_nodes c))"
    using inv by (intro valid_nodes_distinct [of H]) (simp add: chain_inv_def)
  then have dist: "distinct (map aa_action_id (ag_actions (cpl_graph p)))" by (simp only: ids)
  have same_id: "b = a" if "b \<in> set (ag_actions (cpl_graph p))" "aa_action_id b = aa_action_id a" for b
    using dist that a by (simp add: distinct_map inj_on_def)
  have nodes: "cc_nodes c' = observe_node a x (cc_nodes c)" using effect by (simp add: observed_effect_def)
  have state: "node_state c' b =
      (if b = a then Some (node_status_of (ao_outcome x)) else node_state c b)"
    if "b \<in> set (ag_actions (cpl_graph p))" for b
    using same_id [OF that] n by (auto simp: node_state_def progress_observed [OF nodes])
  have "map np_action_id (cc_nodes c') = map np_action_id (cc_nodes c)"
    by (auto simp: nodes observe_node_def mark_node_def)
  moreover have "action_inv c' b" if b: "b \<in> set (ag_actions (cpl_graph p))" for b
  proof (cases "aa_kind b = CLEANUP_TEST_SESSION")
    case True
    have "aa_kind a = CLEANUP_TEST_SESSION \<Longrightarrow> b = a" using one [OF b] True by simp
    then show ?thesis
      using True effect acts b live by (auto simp: action_inv_def state [OF b] observed_effect_def chain_terminal_def split: if_splits)
  next
    case False
    then show ?thesis
      using acts b effect kept by (auto simp: action_inv_def state [OF b] observed_effect_def split: if_splits
        intro: prerequisites_kept)
  qed
  moreover have "objective_inv p c'"
  proof (cases "cc_objective_observation_id c' = cc_objective_observation_id c")
    case True
    then show ?thesis using obj kept unfolding objective_inv_def progress_kept_def by (metis AttackNodeStatus.distinct(1))
  next
    case False
    then have "aa_kind a = VERIFY_OBJECTIVE" "ao_outcome x = Out_SUCCEEDED"
        "cc_objective_observation_id c' = Some (ao_observation_id x)"
      using effect by (auto simp: observed_effect_def split: if_splits)
    then show ?thesis using a n by (force simp: objective_inv_def progress_observed [OF nodes])
  qed
  ultimately show ?thesis using valid' ids by (simp add: chain_inv_def)
qed

lemma chain_inv_step:
  assumes inv: "chain_inv H p c" and step: "chain_step H p c c'" and graph: "AttackGraph_valid H' (cpl_graph p)"
  shows "chain_inv H p c'"
proof -
  from inv have valid: "AttackChainCheckpoint_valid H c" by (simp add: chain_inv_def)
  note valid' = chain_step_valid [OF step]
  from step have live: "\<not> chain_terminal (cc_status c)" by (auto elim: chain_step_next)
  from step valid show ?thesis
  proof (cases rule: chain_step_cases)
    case start
    then show ?thesis
      using live planned_all_pending [OF valid] by (intro chain_inv_same_nodes [OF inv valid']) auto
  next
    case (observe a x n)
    show ?thesis
      using observe chain_step_progress [OF step valid] live graph_one_cleanup [OF graph]
      by (intro chain_inv_observed [OF inv _ valid', of a n x]) auto
  next
    case stop
    then show ?thesis using live by (intro chain_inv_same_nodes [OF inv valid']) auto
  qed
qed

lemma progress_exists:
  assumes "map np_action_id (cc_nodes c) = map aa_action_id (ag_actions (cpl_graph p))"
    and "a \<in> set (ag_actions (cpl_graph p))"
  obtains n where "progress_of c (aa_action_id a) = Some n" "n \<in> set (cc_nodes c)" "np_action_id n = aa_action_id a"
proof -
  have "set (map np_action_id (cc_nodes c)) = set (map aa_action_id (ag_actions (cpl_graph p)))"
    using assms(1) by simp
  then have "aa_action_id a \<in> np_action_id ` set (cc_nodes c)" using assms(2) by auto
  then obtain n where "progress_of c (aa_action_id a) = Some n"
    by (metis dict_by_None not_None_eq progress_of_def)
  then show thesis by (intro that) (auto simp: progress_of_def dest: dict_by_Some)
qed

lemma chain_inv_planned:
  assumes "planned_checkpoint H p t = Some c"
  shows "chain_inv H p c"
proof -
  have nodes: "cc_nodes c = map (\<lambda>a. \<lparr>np_action_id = aa_action_id a, np_status = Node_PENDING,
        np_observation_id = None\<rparr>) (ag_actions (cpl_graph p))"
    and valid: "AttackChainCheckpoint_valid H c" and rest: "cc_status c = Chain_PLANNED"
      "cc_objective_observation_id c = None"
    using assms by (auto simp: planned_checkpoint_def AttackChainCheckpoint_create_def Let_def split: if_splits)
  have "node_state c a = Some Node_PENDING" if a: "a \<in> set (ag_actions (cpl_graph p))" for a
  proof -
    have "map np_action_id (cc_nodes c) = map aa_action_id (ag_actions (cpl_graph p))" by (simp add: nodes)
    then obtain n where n: "progress_of c (aa_action_id a) = Some n" and "n \<in> set (cc_nodes c)"
      using a by (rule progress_exists)
    from this(2) show ?thesis using n by (auto simp: node_state_def nodes)
  qed
  then have "action_inv c a" if "a \<in> set (ag_actions (cpl_graph p))" for a
    using that rest by (simp add: action_inv_def)
  then show ?thesis using valid rest nodes by (simp add: chain_inv_def objective_inv_def comp_def)
qed

lemma chain_inv_reachable:
  assumes "planned_checkpoint H p t = Some c0" and "AttackGraph_valid H' (cpl_graph p)"
    and "steps (chain_step H p) c0 n c"
  shows "chain_inv H p c"
  using steps_invariant [OF assms(3), of "chain_inv H p"] chain_inv_planned [OF assms(1)] chain_inv_step assms(2) by blast

lemma progress_kept_steps:
  assumes "steps (chain_step H p) c n c'" and "AttackChainCheckpoint_valid H c"
  shows "progress_kept c c' \<and> AttackChainCheckpoint_valid H c'"
  using assms
proof (induction rule: steps.induct)
  case (steps_step s n t u)
  then show ?case using chain_step_progress [of H p t u] chain_step_valid [of H p t u]
    by (auto simp: progress_kept_def)
qed (simp add: progress_kept_def)

lemma goal_all_succeeded:
  assumes valid: "AttackChainCheckpoint_valid H c"
    and ids: "map np_action_id (cc_nodes c) = map aa_action_id (ag_actions (cpl_graph p))"
    and goal: "cc_status c = Chain_GOAL_REACHED"
  shows "\<forall>a \<in> set (ag_actions (cpl_graph p)). node_state c a = Some Node_SUCCEEDED"
proof
  fix a assume "a \<in> set (ag_actions (cpl_graph p))"
  with ids obtain n where n: "progress_of c (aa_action_id a) = Some n" "n \<in> set (cc_nodes c)"
    by (rule progress_exists)
  have "\<forall>n \<in> set (cc_nodes c). np_status n = Node_SUCCEEDED"
    using valid goal by (auto simp: AttackChainCheckpoint_valid_def list_ex_iff)
  with n show "node_state c a = Some Node_SUCCEEDED" by (simp add: node_state_def)
qed

section \<open>The compensating cleanup\<close>

text \<open>Observing a pending node with a success keeps whatever observation the objective cites.\<close>

lemma observed_node_kept:
  assumes obs: "observed_node c i = Some n" "np_status n = Node_SUCCEEDED"
    and pending: "\<And>m. m \<in> set (cc_nodes c) \<Longrightarrow> np_action_id m = aa_action_id a \<Longrightarrow> np_observation_id m = None"
    and nodes: "cc_nodes c' = observe_node a x (cc_nodes c)" and ok: "ao_outcome x = Out_SUCCEEDED"
  shows "\<exists>m. observed_node c' i = Some m \<and> np_status m = Node_SUCCEEDED"
proof -
  let ?f = "\<lambda>n. if np_action_id n = aa_action_id a
        then \<lparr>np_action_id = np_action_id n, np_status = Node_SUCCEEDED, np_observation_id = Some (ao_observation_id x)\<rparr>
        else n"
  have f: "cc_nodes c' = map ?f (cc_nodes c)" using ok by (simp add: nodes observe_node_def mark_node_def)
  have "\<exists>m. List.find (\<lambda>n. np_observation_id n = Some i) (map ?f ns) = Some m \<and> np_status m = Node_SUCCEEDED"
    if "List.find (\<lambda>n. np_observation_id n = Some i) ns = Some n"
      "\<forall>m \<in> set ns. np_action_id m = aa_action_id a \<longrightarrow> np_observation_id m = None" for ns
    using that obs(2) by (induction ns) (auto split: if_splits)
  from this [of "rev (cc_nodes c)"] show ?thesis
    using obs(1) pending by (simp add: observed_node_def f rev_map)
qed

lemma failures_kept:
  assumes "\<And>m. m \<in> set (cc_nodes c) \<Longrightarrow> np_action_id m = aa_action_id a \<Longrightarrow> np_status m = Node_PENDING"
    and "ao_outcome x = Out_SUCCEEDED"
  shows "recorded_failures (observe_node a x (cc_nodes c)) = recorded_failures (cc_nodes c)"
proof -
  have "length (filter (\<lambda>n. np_status n \<in> {Node_FAILED, Node_TIMED_OUT}) (observe_node a x ns)) =
      length (filter (\<lambda>n. np_status n \<in> {Node_FAILED, Node_TIMED_OUT}) ns)"
    if "\<forall>m \<in> set ns. np_action_id m = aa_action_id a \<longrightarrow> np_status m = Node_PENDING" for ns
    using that assms(2) by (induction ns) (auto simp: observe_node_def mark_node_def)
  then show ?thesis using assms(1) by (simp add: recorded_failures_def)
qed

text \<open>The successor that a successful observation of a pending node leads to passes the checkpoint's validator.\<close>

lemma cleanup_successor_valid:
  assumes valid: "AttackChainCheckpoint_valid H c" and x: "AttackActionObservation_valid H x" "ao_outcome x = Out_SUCCEEDED"
    and pending: "\<And>m. m \<in> set (cc_nodes c) \<Longrightarrow> np_action_id m = aa_action_id a \<Longrightarrow> np_status m = Node_PENDING"
    and st: "st \<in> {Chain_FAILED, Chain_TIMED_OUT}" "is_reason_code reason"
    and c': "c' = v\<lparr>cc_checkpoint_id := H (AttackChainCheckpoint_content v)\<rparr>"
    and v: "v = \<lparr>cc_checkpoint_id = [], cc_chain_plan_id = cc_chain_plan_id c, cc_revision = cc_revision c + 1,
      cc_status = st, cc_nodes = observe_node a x (cc_nodes c),
      cc_objective_observation_id = cc_objective_observation_id c, cc_deferred_outcome = None,
      cc_failures = cc_failures c, cc_stop_reason = Some reason, cc_updated_at = now\<rparr>"
  shows "AttackChainCheckpoint_valid H c'"
proof -
  have nodes_ok: "list_all AttackNodeProgress_valid (cc_nodes c)"
    and obj: "opt_all (\<lambda>i. case observed_node c i of None \<Rightarrow> False | Some n \<Rightarrow> np_status n = Node_SUCCEEDED)
       (cc_objective_observation_id c)"
    and rest: "is_digest (cc_chain_plan_id c)" "0 \<le> cc_revision c" "opt_all is_digest (cc_objective_observation_id c)"
      "0 \<le> cc_failures c" "cc_failures c = recorded_failures (cc_nodes c)" "distinct (map np_action_id (cc_nodes c))"
    using valid unfolding AttackChainCheckpoint_valid_def by blast+
  have unobserved: "np_observation_id m = None"
    if "m \<in> set (cc_nodes c)" "np_action_id m = aa_action_id a" for m
    using nodes_ok pending [OF that] that by (auto simp: list_all_iff AttackNodeProgress_valid_def)
  have nodes': "cc_nodes c' = observe_node a x (cc_nodes c)" by (simp add: c' v)
  have "opt_all (\<lambda>i. case observed_node c' i of None \<Rightarrow> False | Some n \<Rightarrow> np_status n = Node_SUCCEEDED)
       (cc_objective_observation_id c)"
  proof (cases "cc_objective_observation_id c")
    case (Some i)
    with obj obtain n where n: "observed_node c i = Some n" "np_status n = Node_SUCCEEDED"
      by (auto split: option.splits)
    show ?thesis using observed_node_kept [OF n unobserved nodes' x(2)] Some by auto
  qed simp
  moreover have "list_all AttackNodeProgress_valid (observe_node a x (cc_nodes c))"
    using nodes_ok x by (auto simp: observe_node_def mark_node_def list_all_iff AttackNodeProgress_valid_def
        AttackActionObservation_valid_def)
  moreover have "map np_action_id (observe_node a x (cc_nodes c)) = map np_action_id (cc_nodes c)"
    by (auto simp: observe_node_def mark_node_def)
  moreover have "sealed_by H AttackChainCheckpoint_content cc_checkpoint_id c'"
    by (simp add: c' sealed_by_def AttackChainCheckpoint_content_def)
  moreover have "recorded_failures (observe_node a x (cc_nodes c)) = cc_failures c"
    using failures_kept [of c a x] pending x(2) rest(5) by simp
  moreover have "cc_chain_plan_id c' = cc_chain_plan_id c" "cc_revision c' = cc_revision c + 1" "cc_status c' = st"
    "cc_objective_observation_id c' = cc_objective_observation_id c" "cc_deferred_outcome c' = None"
    "cc_failures c' = cc_failures c" "cc_stop_reason c' = Some reason"
    by (simp_all add: c' v)
  ultimately show ?thesis
    using rest st nodes' by (auto simp: AttackChainCheckpoint_valid_def chain_terminal_def)
qed

lemma compensating_cleanup:
  assumes inv: "chain_inv H p c" and owner: "cc_chain_plan_id c = cpl_chain_plan_id p"
    and status: "cc_status c = Chain_CLEANUP_REQUIRED"
    and a: "a \<in> set (ag_actions (cpl_graph p))" "aa_kind a = CLEANUP_TEST_SESSION"
    and x: "AttackActionObservation_valid H x" "ao_action_id x = aa_action_id a" "ao_outcome x = Out_SUCCEEDED"
      "\<not> ao_goal_reached x"
    and now: "now < cpl_cleanup_deadline p"
  shows "\<exists>c'. record_attack_observation H p c a x now = Inr c' \<and> cc_status c' \<in> {Chain_FAILED, Chain_TIMED_OUT} \<and>
    node_state c' a = Some Node_SUCCEEDED"
proof -
  from inv have valid: "AttackChainCheckpoint_valid H c"
    and ids: "map np_action_id (cc_nodes c) = map aa_action_id (ag_actions (cpl_graph p))"
    and act: "action_inv c a" using a by (simp_all add: chain_inv_def)
  obtain n where n: "progress_of c (aa_action_id a) = Some n" using ids a(1) by (rule progress_exists)
  have np: "np_status n = Node_PENDING"
    using act a(2) status n by (simp add: action_inv_def chain_terminal_def node_state_def)
  have pending: "np_status m = Node_PENDING" if "m \<in> set (cc_nodes c)" "np_action_id m = aa_action_id a" for m
    using dict_by_distinct [OF valid_nodes_distinct [OF valid] that(1)] that(2) n np by (simp add: progress_of_def)
  from valid status obtain d where d: "cc_deferred_outcome c = Some d" by (auto simp: AttackChainCheckpoint_valid_def)
  define st where "st = (if d = Out_TIMED_OUT then Chain_TIMED_OUT else Chain_FAILED)"
  define reason where "reason =
    (if d = Out_TIMED_OUT then ''action_timed_out_after_cleanup'' else ''action_failed_after_cleanup'')"
  define v where "v = \<lparr>cc_checkpoint_id = [], cc_chain_plan_id = cc_chain_plan_id c, cc_revision = cc_revision c + 1,
      cc_status = st, cc_nodes = observe_node a x (cc_nodes c),
      cc_objective_observation_id = cc_objective_observation_id c, cc_deferred_outcome = None,
      cc_failures = cc_failures c, cc_stop_reason = Some reason, cc_updated_at = now\<rparr>"
  define c' where "c' = v\<lparr>cc_checkpoint_id := H (AttackChainCheckpoint_content v)\<rparr>"
  have "is_reason_code ''action_timed_out_after_cleanup''" "is_reason_code ''action_failed_after_cleanup''" by code_simp+
  then have valid': "AttackChainCheckpoint_valid H c'"
    by (intro cleanup_successor_valid [OF valid x(1,3), where a = a and st = st and reason = reason and v = v and now = now])
      (auto intro: pending simp: st_def reason_def c'_def v_def)
  have done_ok: "ao_cleanup_complete x" using x by (simp add: AttackActionObservation_valid_def)
  have "apply_observation H p c a x now = Inr c'"
    using valid' x d a done_ok
    by (simp add: apply_observation_def Let_def chain_next_def AttackChainCheckpoint_create_def observe_node_def
        st_def reason_def v_def c'_def)
  then have "record_attack_observation H p c a x now = Inr c'"
    using n np status a x now owner
    by (simp add: record_attack_observation_def chain_running_def chain_current_def Let_def)
  moreover have "node_state c' a = Some Node_SUCCEEDED"
    using n x progress_observed [of c' a x c] by (simp add: node_state_def c'_def v_def)
  ultimately show ?thesis by (auto simp: c'_def v_def st_def)
qed

end
