(* ===== verification/Red_Team_Properties.thy ===== *)
theory Red_Team_Properties
  imports Red_Team_Flow Attack_Chain_Facts Examples
begin

text \<open>
  The properties of the Red Team control plane: the budgets and the kill switch of a flow, and the order,
  the evidence and the cleanup of an attack chain, each with a concrete run.
\<close>

section \<open>Concrete plans\<close>

definition demo_mode :: WorkflowMode where
  "demo_mode = \<lparr>wm_workflow = AUTHORIZED_RED_TEAM, wm_visibility = BLACK_BOX, wm_execution_profile = EP_RED_TEAM,
     wm_autonomy = AL_BOUNDED_EXECUTION\<rparr>"

definition demo_rules :: RulesOfEngagement where
  "demo_rules = \<lparr>roe_id = hex_digits 64 11, roe_scope_id = 8, roe_scope_version = 1, roe_target_id = 9,
     roe_phases = [RECON], roe_allowed_test_classes = [''read_only''], allowed_impacts = [Imp_READ_ONLY],
     approval_required_impacts = [], prohibited_impacts = [],
     stop_conditions = \<lparr>stop_at = 9000, max_actions = 2, max_consecutive_failures = 2\<rparr>,
     emergency_contact_ref = ''contact:ops''\<rparr>"

definition demo_flow_plan :: RedTeamFlowPlan where
  "demo_flow_plan = \<lparr>fp_plan_id = hex_digits 64 12, fp_mode = demo_mode, fp_target = \<lparr>wt_target_id = 9, wt_url = ''https://shop.test/''\<rparr>, fp_rules = demo_rules,
     fp_created_at = 0, fp_deadline = 9000, fp_idempotency_key = ''k''\<rparr>"

definition demo_recon :: "int \<Rightarrow> RedTeamReconObservation" where
  "demo_recon k = \<lparr>ro_observation_id = hex_digits 64 k, ro_action_id = hex_digits 64 13, ro_outcome = Rec_SUCCEEDED,
     ro_status_code = Some 200, ro_reason_code = ''ok'', ro_cleanup_complete = True, ro_sensitive_data_redacted = True,
     ro_attack_surface = None, ro_service_identity = None, ro_web_response = None, ro_observed_at = 10\<rparr>"

definition demo_flow0 :: RedTeamCheckpoint where
  "demo_flow0 = (let v = \<lparr>fc_checkpoint_id = [], fc_plan_id = hex_digits 64 12, fc_revision = 0,
      fc_status = Flow_PLANNED, fc_actions_used = 0, fc_consecutive_failures = 0, fc_observation_ids = [],
      fc_stop_reason = None, fc_updated_at = 0\<rparr>
    in v\<lparr>fc_checkpoint_id := demo_digest (RedTeamCheckpoint_content v)\<rparr>)"

definition demo_flow1 :: RedTeamCheckpoint where
  "demo_flow1 = (let v = demo_flow0\<lparr>fc_revision := 1, fc_status := Flow_RUNNING, fc_updated_at := 5\<rparr>
    in v\<lparr>fc_checkpoint_id := demo_digest (RedTeamCheckpoint_content v)\<rparr>)"

definition demo_flow2 :: RedTeamCheckpoint where
  "demo_flow2 = (let v = demo_flow1\<lparr>fc_revision := 2, fc_actions_used := 1, fc_observation_ids := [hex_digits 64 1],
      fc_updated_at := 10\<rparr>
    in v\<lparr>fc_checkpoint_id := demo_digest (RedTeamCheckpoint_content v)\<rparr>)"

lemma demo_flow_run:
  "planned_flow demo_digest demo_flow_plan 0 = Some demo_flow0"
  "start_flow demo_digest demo_flow_plan demo_flow0 5 = Inr demo_flow1"
  "record_observation demo_digest demo_flow_plan demo_flow1 (demo_recon 1) 10 = Inr demo_flow2"
  by code_simp+

lemma demo_flow_steps: "steps (flow_step demo_digest demo_flow_plan) demo_flow0 2 demo_flow2"
proof -
  have "steps (flow_step demo_digest demo_flow_plan) demo_flow0 (Suc (Suc 0)) demo_flow2"
    by (rule steps_step [OF steps_step [OF steps_refl]])
      (rule flow_step.started [OF demo_flow_run(2)], rule flow_step.observed [OF demo_flow_run(3)])
  then show ?thesis by (simp add: numeral_2_eq_2)
qed

text \<open>A small digest that tells the actions of one graph apart by their ordinals.\<close>

definition chain_digest :: "pyval \<Rightarrow> digest" where
  "chain_digest v = (case v of PDict kvs \<Rightarrow>
       (case map_of kvs ''ordinal'' of Some (PInt k) \<Rightarrow> pad_digest k | _ \<Rightarrow> pad_digest 0) | _ \<Rightarrow> pad_digest 0)"

definition demo_objective :: AttackObjective where
  "demo_objective = (let v = \<lparr>ob_objective_id = [], ob_kind = ESTABLISH_TEST_SESSION, ob_evidence_requirement = ''session''\<rparr>
     in v\<lparr>ob_objective_id := chain_digest (AttackObjective_content v)\<rparr>)"

definition demo_action :: "int \<Rightarrow> AttackActionKind \<Rightarrow> digest list \<Rightarrow> AttackAction" where
  "demo_action k kind pre = (let v = \<lparr>aa_action_id = [], aa_flow_plan_id = pad_digest 12, aa_scope_id = 8,
       aa_scope_version = 1, aa_ordinal = k, aa_kind = kind, aa_phase = expected_phase kind, aa_target_id = 9,
       aa_target_path = ''/login'', aa_test_class = ''session'',
       aa_impact = (if kind \<in> {INITIAL_ACCESS_ATTEMPT, CLEANUP_TEST_SESSION} then AI_STATE_CHANGE else AI_READ_ONLY),
       aa_prerequisite_action_ids = pre, aa_objective_id = ob_objective_id demo_objective\<rparr>
     in v\<lparr>aa_action_id := chain_digest (AttackAction_content v)\<rparr>)"

definition demo_access :: AttackAction where
  "demo_access = demo_action 1 INITIAL_ACCESS_ATTEMPT []"

definition demo_verify :: AttackAction where
  "demo_verify = demo_action 2 VERIFY_OBJECTIVE [aa_action_id demo_access]"

definition demo_cleanup :: AttackAction where
  "demo_cleanup = demo_action 3 CLEANUP_TEST_SESSION [aa_action_id demo_verify]"

definition demo_graph :: AttackGraph where
  "demo_graph = (let v = \<lparr>ag_graph_id = [], ag_flow_plan_id = pad_digest 12, ag_target_id = 9, ag_scope_id = 8,
       ag_scope_version = 1, ag_objective = demo_objective, ag_actions = [demo_access, demo_verify, demo_cleanup]\<rparr>
     in v\<lparr>ag_graph_id := chain_digest (AttackGraph_content v)\<rparr>)"

definition demo_chain_plan :: AttackChainPlan where
  "demo_chain_plan = (let v = \<lparr>cpl_chain_plan_id = [], cpl_graph = demo_graph,
       cpl_expected_flow_checkpoint_id = pad_digest 14, cpl_created_at = 0, cpl_deadline = 100,
       cpl_cleanup_deadline = 200, cpl_max_failures = 2, cpl_idempotency_key = ''k''\<rparr>
     in v\<lparr>cpl_chain_plan_id := chain_digest (AttackChainPlan_content v)\<rparr>)"

definition demo_seen :: "AttackAction \<Rightarrow> AttackActionOutcome \<Rightarrow> AttackActionObservation" where
  "demo_seen a out = (let v = \<lparr>ao_observation_id = [], ao_command_id = pad_digest 15, ao_action_id = aa_action_id a,
       ao_outcome = out, ao_reason_code = ''seen'', ao_evidence_refs = [pad_digest 13],
       ao_goal_reached = (aa_kind a = VERIFY_OBJECTIVE \<and> out = Out_SUCCEEDED), ao_cleanup_complete = True,
       ao_sensitive_data_redacted = True, ao_observed_at = 20\<rparr>
     in v\<lparr>ao_observation_id := chain_digest (AttackActionObservation_content v)\<rparr>)"

definition demo_chain :: "nat \<Rightarrow> AttackChainStatus \<Rightarrow> AttackNodeProgress list \<Rightarrow> digest option \<Rightarrow>
    AttackActionOutcome option \<Rightarrow> int \<Rightarrow> string option \<Rightarrow> instant \<Rightarrow> AttackChainCheckpoint" where
  "demo_chain r st ns ob d f why t = (let v = \<lparr>cc_checkpoint_id = [], cc_chain_plan_id = cpl_chain_plan_id demo_chain_plan,
       cc_revision = int r, cc_status = st, cc_nodes = ns, cc_objective_observation_id = ob, cc_deferred_outcome = d,
       cc_failures = f, cc_stop_reason = why, cc_updated_at = t\<rparr>
     in v\<lparr>cc_checkpoint_id := chain_digest (AttackChainCheckpoint_content v)\<rparr>)"

definition waiting :: "AttackAction \<Rightarrow> AttackNodeProgress" where
  "waiting a = \<lparr>np_action_id = aa_action_id a, np_status = Node_PENDING, np_observation_id = None\<rparr>"

definition seen :: "AttackAction \<Rightarrow> AttackActionOutcome \<Rightarrow> AttackNodeProgress" where
  "seen a out = \<lparr>np_action_id = aa_action_id a, np_status = node_status_of out,
     np_observation_id = Some (ao_observation_id (demo_seen a out))\<rparr>"

definition demo_chain0 :: AttackChainCheckpoint where
  "demo_chain0 = demo_chain 0 Chain_PLANNED [waiting demo_access, waiting demo_verify, waiting demo_cleanup] None None 0 None 0"

definition demo_chain1 :: AttackChainCheckpoint where
  "demo_chain1 = demo_chain 1 Chain_RUNNING [waiting demo_access, waiting demo_verify, waiting demo_cleanup] None None 0 None 5"

definition demo_chain2 :: AttackChainCheckpoint where
  "demo_chain2 = demo_chain 2 Chain_RUNNING [seen demo_access Out_SUCCEEDED, waiting demo_verify, waiting demo_cleanup]
     None None 0 None 20"

definition demo_chain3 :: AttackChainCheckpoint where
  "demo_chain3 = demo_chain 3 Chain_RUNNING
     [seen demo_access Out_SUCCEEDED, seen demo_verify Out_SUCCEEDED, waiting demo_cleanup]
     (Some (ao_observation_id (demo_seen demo_verify Out_SUCCEEDED))) None 0 None 30"

definition demo_chain4 :: AttackChainCheckpoint where
  "demo_chain4 = demo_chain 4 Chain_GOAL_REACHED
     [seen demo_access Out_SUCCEEDED, seen demo_verify Out_SUCCEEDED, seen demo_cleanup Out_SUCCEEDED]
     (Some (ao_observation_id (demo_seen demo_verify Out_SUCCEEDED))) None 0
     (Some ''objective_evidence_and_cleanup_recorded'') 40"

definition demo_chain2f :: AttackChainCheckpoint where
  "demo_chain2f = demo_chain 2 Chain_CLEANUP_REQUIRED
     [seen demo_access Out_TIMED_OUT, waiting demo_verify, waiting demo_cleanup] None (Some Out_TIMED_OUT) 1 None 20"

lemma demo_graph_valid: "AttackGraph_valid chain_digest demo_graph"
  by code_simp

lemma demo_chain_run:
  "planned_checkpoint chain_digest demo_chain_plan 0 = Some demo_chain0"
  "start_attack_chain chain_digest demo_chain_plan demo_chain0 5 = Inr demo_chain1"
  "record_attack_observation chain_digest demo_chain_plan demo_chain1 demo_access (demo_seen demo_access Out_SUCCEEDED) 20 =
     Inr demo_chain2"
  "record_attack_observation chain_digest demo_chain_plan demo_chain2 demo_verify (demo_seen demo_verify Out_SUCCEEDED) 30 =
     Inr demo_chain3"
  "record_attack_observation chain_digest demo_chain_plan demo_chain3 demo_cleanup (demo_seen demo_cleanup Out_SUCCEEDED) 40 =
     Inr demo_chain4"
  "record_attack_observation chain_digest demo_chain_plan demo_chain1 demo_access (demo_seen demo_access Out_TIMED_OUT) 20 =
     Inr demo_chain2f"
  by code_simp+

lemma demo_seen_valid:
  "AttackActionObservation_valid chain_digest (demo_seen demo_access Out_SUCCEEDED)"
  "AttackActionObservation_valid chain_digest (demo_seen demo_verify Out_SUCCEEDED)"
  "AttackActionObservation_valid chain_digest (demo_seen demo_cleanup Out_SUCCEEDED)"
  "AttackActionObservation_valid chain_digest (demo_seen demo_access Out_TIMED_OUT)"
  by code_simp+

lemma demo_chain_actions: "ag_actions (cpl_graph demo_chain_plan) = [demo_access, demo_verify, demo_cleanup]"
  "AttackGraph_valid chain_digest (cpl_graph demo_chain_plan)"
  using demo_graph_valid by (simp_all add: demo_chain_plan_def Let_def demo_graph_def)

lemma demo_chain_step:
  "chain_step chain_digest demo_chain_plan demo_chain0 demo_chain1"
  "chain_step chain_digest demo_chain_plan demo_chain1 demo_chain2"
  "chain_step chain_digest demo_chain_plan demo_chain1 demo_chain2f"
  "chain_step chain_digest demo_chain_plan demo_chain2 demo_chain3"
  "chain_step chain_digest demo_chain_plan demo_chain3 demo_chain4"
  by (rule chain_started [OF demo_chain_run(2)], rule chain_observed [OF demo_chain_run(3)],
      simp_all add: demo_chain_actions demo_seen_valid)
    (rule chain_observed [OF demo_chain_run(6)] chain_observed [OF demo_chain_run(4)] chain_observed [OF demo_chain_run(5)],
      simp_all add: demo_chain_actions demo_seen_valid)+

lemma demo_chain_steps:
  "steps (chain_step chain_digest demo_chain_plan) demo_chain0 (Suc (Suc 0)) demo_chain2"
  "steps (chain_step chain_digest demo_chain_plan) demo_chain0 (Suc (Suc 0)) demo_chain2f"
  "steps (chain_step chain_digest demo_chain_plan) demo_chain0 (Suc (Suc (Suc (Suc 0)))) demo_chain4"
  "steps (chain_step chain_digest demo_chain_plan) demo_chain2 (Suc (Suc 0)) demo_chain4"
  by (blast intro: steps_refl steps_step demo_chain_step)+

lemma demo_chain_facts:
  "aa_kind demo_verify \<noteq> CLEANUP_TEST_SESSION" "aa_kind demo_cleanup = CLEANUP_TEST_SESSION"
  "node_state demo_chain4 demo_verify \<noteq> Some Node_PENDING"
  "aa_action_id demo_access \<in> set (aa_prerequisite_action_ids demo_verify)"
  "cc_status demo_chain4 = Chain_GOAL_REACHED" "cc_status demo_chain2f = Chain_CLEANUP_REQUIRED"
  "list_ex (\<lambda>m. np_status m \<noteq> Node_PENDING) (cc_nodes demo_chain4)"
  "\<not> chain_terminal (cc_status demo_chain2f)"
  "ao_action_id (demo_seen demo_cleanup Out_SUCCEEDED) = aa_action_id demo_cleanup"
  "ao_outcome (demo_seen demo_cleanup Out_SUCCEEDED) = Out_SUCCEEDED"
  "\<not> ao_goal_reached (demo_seen demo_cleanup Out_SUCCEEDED)" "150 < cpl_cleanup_deadline demo_chain_plan"
  "progress_of demo_chain2 (aa_action_id demo_access) = Some (seen demo_access Out_SUCCEEDED)"
  "np_status (seen demo_access Out_SUCCEEDED) \<noteq> Node_PENDING"
  "AttackChainCheckpoint_valid chain_digest demo_chain2"
  by code_simp+

section \<open>Flows\<close>

text \<open>A flow keeps its action budget and ends: from the checkpoint a flow is created with, however its
  transitions are interleaved, at most max_actions + 1 are ever accepted; the number of actions used is the number of
  recorded observations, which never exceeds max_actions, and no observation is counted twice; the revision counts
  the transitions and the checkpoint stays bound to the plan.\<close>

theorem flow_keeps_budget:
  assumes "planned_flow H p t = Some c0" and "1 \<le> max_actions (stop_conditions (fp_rules p))"
    and "steps (flow_step H p) c0 n c"
  shows "int n \<le> max_actions (stop_conditions (fp_rules p)) + 1 \<and>
    fc_actions_used c = int (length (fc_observation_ids c)) \<and>
    fc_actions_used c \<le> max_actions (stop_conditions (fp_rules p)) \<and> distinct (fc_observation_ids c) \<and>
    fc_revision c = int n \<and> fc_plan_id c = fp_plan_id p"
proof (intro conjI)
  note init = planned_flow_inv [OF assms(1,2)]
  show "int n \<le> max_actions (stop_conditions (fp_rules p)) + 1"
    using flow_budget.steps_bounded [OF assms(3) init(1)] init(2) by simp
  have "flow_inv p c" using flow_budget.steps_fuel [OF assms(3) init(1)] by simp
  then show "fc_actions_used c = int (length (fc_observation_ids c))"
    "fc_actions_used c \<le> max_actions (stop_conditions (fp_rules p))" "distinct (fc_observation_ids c)"
    by (simp_all add: flow_inv_def)
  show "fc_revision c = int n" "fc_plan_id c = fp_plan_id p"
    using flow.steps_revision [OF assms(3)] flow.steps_owner [OF assms(3)] init by simp_all
qed

theorem flow_keeps_budget_witness:
  "int 2 \<le> max_actions (stop_conditions (fp_rules demo_flow_plan)) + 1 \<and>
   fc_actions_used demo_flow2 = int (length (fc_observation_ids demo_flow2)) \<and>
   fc_actions_used demo_flow2 \<le> 2 \<and> distinct (fc_observation_ids demo_flow2) \<and> fc_revision demo_flow2 = 2"
proof -
  have "max_actions (stop_conditions (fp_rules demo_flow_plan)) = 2" by code_simp
  then show ?thesis
    using flow_keeps_budget [OF demo_flow_run(1) _ demo_flow_steps] by simp
qed

text \<open>The kill switch always works: in every valid checkpoint of the plan that is not terminal, at any time, it is
  accepted, keeps the recorded observations and leaves a checkpoint from which no transition is accepted.\<close>

theorem kill_switch_final:
  assumes "RedTeamCheckpoint_valid H c" and "fc_plan_id c = fp_plan_id p" and "fc_status c \<notin> set TERMINAL_STATUSES"
  shows "\<exists>c'. activate_kill_switch H p c now = Inr c' \<and> fc_status c' = Flow_KILLED \<and>
    fc_observation_ids c' = fc_observation_ids c \<and> (\<forall>c''. \<not> flow_step H p c' c'')"
proof -
  have "is_reason_code ''kill_switch_activated''" by code_simp
  moreover have "Flow_KILLED \<in> set TERMINAL_STATUSES" by (simp add: TERMINAL_STATUSES_def)
  ultimately obtain c' where "flow_terminal H c Flow_KILLED ''kill_switch_activated'' now id = Inr c'"
      "fc_status c' = Flow_KILLED" "fc_observation_ids c' = fc_observation_ids c"
    using flow_stop_accepted [OF assms(1)] by metis
  then show ?thesis
    using assms(2,3) flow.terminal_stuck [of c'] \<open>Flow_KILLED \<in> _\<close>
    by (auto simp: activate_kill_switch_def flow_current_def)
qed

theorem kill_switch_final_witness:
  "\<exists>c'. activate_kill_switch demo_digest demo_flow_plan demo_flow2 77 = Inr c' \<and> fc_status c' = Flow_KILLED \<and>
    fc_observation_ids c' = fc_observation_ids demo_flow2 \<and> (\<forall>c''. \<not> flow_step demo_digest demo_flow_plan c' c'')"
proof -
  have "RedTeamCheckpoint_valid demo_digest demo_flow2" "fc_plan_id demo_flow2 = fp_plan_id demo_flow_plan"
    "fc_status demo_flow2 \<notin> set TERMINAL_STATUSES"
    by code_simp+
  then show ?thesis by (rule kill_switch_final)
qed

section \<open>Attack chains\<close>

text \<open>Attack actions run in the sealed order: in every checkpoint a chain can reach, an action other than the
  cleanup has been observed only if each of its prerequisites was observed to succeed.\<close>

theorem attack_actions_ordered:
  assumes "planned_checkpoint H p t = Some c0" and "AttackGraph_valid H (cpl_graph p)"
    and "steps (chain_step H p) c0 n c"
    and "a \<in> set (ag_actions (cpl_graph p))" and "aa_kind a \<noteq> CLEANUP_TEST_SESSION"
    and "node_state c a \<noteq> Some Node_PENDING" and "i \<in> set (aa_prerequisite_action_ids a)"
  shows "\<exists>n. progress_of c i = Some n \<and> np_status n = Node_SUCCEEDED"
  using chain_inv_reachable [OF assms(1-3)] assms(4-)
  by (auto simp: chain_inv_def action_inv_def prerequisites_done_def)

theorem attack_actions_ordered_witness:
  "\<exists>n. progress_of demo_chain4 (aa_action_id demo_access) = Some n \<and> np_status n = Node_SUCCEEDED"
  by (rule attack_actions_ordered [OF demo_chain_run(1) demo_chain_actions(2) demo_chain_steps(3), of demo_verify])
    (simp_all add: demo_chain_actions demo_chain_facts)

text \<open>C32. No test session is left behind: while a chain runs, its cleanup action is still to come, and a chain in
  which any action was observed can end failed, timed out or with its goal reached only after its cleanup action was
  observed.\<close>

theorem attack_chain_cleans_up:
  assumes "planned_checkpoint H p t = Some c0" and "AttackGraph_valid H (cpl_graph p)"
    and "steps (chain_step H p) c0 n c"
    and "a \<in> set (ag_actions (cpl_graph p))" and "aa_kind a = CLEANUP_TEST_SESSION"
  shows "(\<not> chain_terminal (cc_status c) \<longrightarrow> node_state c a = Some Node_PENDING) \<and>
    (cc_status c \<in> {Chain_FAILED, Chain_TIMED_OUT, Chain_GOAL_REACHED} \<and>
     list_ex (\<lambda>m. np_status m \<noteq> Node_PENDING) (cc_nodes c) \<longrightarrow> node_state c a \<noteq> Some Node_PENDING)"
  using chain_inv_reachable [OF assms(1-3)] assms(4-) by (auto simp: chain_inv_def action_inv_def)

theorem attack_chain_cleans_up_witness:
  "node_state demo_chain2f demo_cleanup = Some Node_PENDING \<and> node_state demo_chain4 demo_cleanup \<noteq> Some Node_PENDING"
proof -
  have cleanup: "demo_cleanup \<in> set (ag_actions (cpl_graph demo_chain_plan))" by (simp add: demo_chain_actions)
  note inst = attack_chain_cleans_up [OF demo_chain_run(1) demo_chain_actions(2) _ cleanup demo_chain_facts(2)]
  show ?thesis
    using inst [OF demo_chain_steps(2)] inst [OF demo_chain_steps(3)] demo_chain_facts(5,7,8) by blast
qed

text \<open>A reached goal is backed by evidence: when a chain reports its goal, every action of the sealed graph has
  succeeded and the evidence it cites is the observation of an objective verification of the graph.\<close>

theorem attack_goal_backed:
  assumes "planned_checkpoint H p t = Some c0" and "AttackGraph_valid H (cpl_graph p)"
    and "steps (chain_step H p) c0 n c" and "cc_status c = Chain_GOAL_REACHED"
  shows "(\<exists>i. cc_objective_observation_id c = Some i \<and>
      (\<exists>a \<in> set (ag_actions (cpl_graph p)). \<exists>m. aa_kind a = VERIFY_OBJECTIVE \<and>
         progress_of c (aa_action_id a) = Some m \<and> np_observation_id m = Some i)) \<and>
    (\<forall>a \<in> set (ag_actions (cpl_graph p)). node_state c a = Some Node_SUCCEEDED)"
proof (rule conjI)
  from chain_inv_reachable [OF assms(1-3)] have valid: "AttackChainCheckpoint_valid H c"
    and ids: "map np_action_id (cc_nodes c) = map aa_action_id (ag_actions (cpl_graph p))"
    and obj: "objective_inv p c"
    by (simp_all add: chain_inv_def)
  from valid assms(4) obtain i where "cc_objective_observation_id c = Some i"
    by (auto simp: AttackChainCheckpoint_valid_def)
  with obj show "\<exists>i. cc_objective_observation_id c = Some i \<and>
      (\<exists>a \<in> set (ag_actions (cpl_graph p)). \<exists>m. aa_kind a = VERIFY_OBJECTIVE \<and>
         progress_of c (aa_action_id a) = Some m \<and> np_observation_id m = Some i)"
    by (fastforce simp: objective_inv_def)
  show "\<forall>a \<in> set (ag_actions (cpl_graph p)). node_state c a = Some Node_SUCCEEDED"
    by (rule goal_all_succeeded [OF valid ids assms(4)])
qed

theorem attack_goal_backed_witness:
  "node_state demo_chain4 demo_access = Some Node_SUCCEEDED \<and> node_state demo_chain4 demo_verify = Some Node_SUCCEEDED \<and>
   node_state demo_chain4 demo_cleanup = Some Node_SUCCEEDED"
  using attack_goal_backed [OF demo_chain_run(1) demo_chain_actions(2) demo_chain_steps(3) demo_chain_facts(5)]
  by (simp add: demo_chain_actions)

text \<open>An observation is final: once an action of a valid chain has been observed, no later transition changes its
  status or its observation, and every later checkpoint is valid, belongs to the same plan and has a higher revision.\<close>

theorem attack_observation_final:
  assumes "AttackChainCheckpoint_valid H c" and "steps (chain_step H p) c n c'"
    and "progress_of c i = Some m" and "np_status m \<noteq> Node_PENDING"
  shows "progress_of c' i = Some m \<and> AttackChainCheckpoint_valid H c' \<and>
    cc_chain_plan_id c' = cc_chain_plan_id c \<and> cc_revision c' = cc_revision c + int n"
  using progress_kept_steps [OF assms(2,1)] assms(3,4) chain.steps_owner [OF assms(2)] chain.steps_revision [OF assms(2)]
  by (auto simp: progress_kept_def)

theorem attack_observation_final_witness:
  "progress_of demo_chain4 (aa_action_id demo_access) = Some (seen demo_access Out_SUCCEEDED)"
  using attack_observation_final [OF demo_chain_facts(15) demo_chain_steps(4) demo_chain_facts(13,14)] by blast

text \<open>The compensating cleanup is always accepted: in every reachable checkpoint that requires cleanup, before the
  cleanup deadline, a validated successful observation of the cleanup action is recorded and ends the chain as
  failed or timed out, whatever its prerequisites did.\<close>

theorem compensating_cleanup_accepted:
  assumes "planned_checkpoint H p t = Some c0" and "AttackGraph_valid H (cpl_graph p)"
    and "steps (chain_step H p) c0 n c" and "cc_status c = Chain_CLEANUP_REQUIRED"
    and "a \<in> set (ag_actions (cpl_graph p))" and "aa_kind a = CLEANUP_TEST_SESSION"
    and "AttackActionObservation_valid H x" and "ao_action_id x = aa_action_id a" and "ao_outcome x = Out_SUCCEEDED"
    and "\<not> ao_goal_reached x" and "now < cpl_cleanup_deadline p"
  shows "\<exists>c'. record_attack_observation H p c a x now = Inr c' \<and> cc_status c' \<in> {Chain_FAILED, Chain_TIMED_OUT} \<and>
    node_state c' a = Some Node_SUCCEEDED"
proof -
  have "cc_chain_plan_id c = cpl_chain_plan_id p"
    using chain.steps_owner [OF assms(3)] assms(1)
    by (auto simp: planned_checkpoint_def AttackChainCheckpoint_create_def Let_def split: if_splits)
  then show ?thesis
    by (rule compensating_cleanup [OF chain_inv_reachable [OF assms(1-3)] _ assms(4-)])
qed

theorem compensating_cleanup_accepted_witness:
  "\<exists>c'. record_attack_observation chain_digest demo_chain_plan demo_chain2f demo_cleanup
       (demo_seen demo_cleanup Out_SUCCEEDED) 150 = Inr c' \<and> cc_status c' \<in> {Chain_FAILED, Chain_TIMED_OUT} \<and>
     node_state c' demo_cleanup = Some Node_SUCCEEDED"
  by (rule compensating_cleanup_accepted [OF demo_chain_run(1) demo_chain_actions(2) demo_chain_steps(2)])
    (simp_all add: demo_chain_actions demo_chain_facts demo_seen_valid)

end
