(* ===== verification/Endpoint_Models.thy ===== *)
theory Endpoint_Models
  imports Red_Team_Models
begin

text \<open>
  The contracts of operator-sealed endpoint checks, \<^verbatim>\<open>src/src/vulnloom/red_team/seed_models.py\<close>. \<open>H\<close> is the
  canonical digest, \<open>S\<close> the SHA-256 hex digest of a text's UTF-8 encoding, \<open>U\<close> the parts of \<^verbatim>\<open>urlsplit\<close> that are
  not modelled. A float is a rational number.
\<close>

section \<open>Enumerations\<close>

datatype EndpointReconReservationState = Res_ACTIVE | Res_CONSUMED | Res_CANCELLED | Res_EXPIRED

datatype EndpointReconOutcomeKind = Eo_SUCCEEDED | Eo_REJECTED | Eo_TIMED_OUT | Eo_FAILED

fun endpoint_outcome_value :: "EndpointReconOutcomeKind \<Rightarrow> string" where
  "endpoint_outcome_value Eo_SUCCEEDED = ''succeeded''"
| "endpoint_outcome_value Eo_REJECTED = ''rejected''"
| "endpoint_outcome_value Eo_TIMED_OUT = ''timed_out''"
| "endpoint_outcome_value Eo_FAILED = ''failed''"

section \<open>Seeds\<close>

record EndpointSeed =
  sd_seed_id :: digest
  sd_path :: string
  sd_path_digest :: digest

text \<open>\<^verbatim>\<open>EndpointSeed.canonical_absolute_path\<close>; an error of \<^verbatim>\<open>urlsplit\<close> is a \<^verbatim>\<open>ValueError\<close> as well.\<close>

definition canonical_absolute_path :: "url_env \<Rightarrow> string \<Rightarrow> bool" where
  "canonical_absolute_path U v \<longleftrightarrow>
     (case urlsplit U v of
        Inl _ \<Rightarrow> False
      | Inr parsed \<Rightarrow>
          \<not> (\<not> is_ascii_str v \<or> take 1 v \<noteq> ''/'' \<or> su_scheme parsed \<noteq> [] \<or> su_netloc parsed \<noteq> [] \<or>
             su_query parsed \<noteq> [] \<or> su_fragment parsed \<noteq> [] \<or> CHR 0x25 \<in> set v \<or> CHR 0x5C \<in> set v \<or>
             sublist ''//'' v \<or> list_ex (\<lambda>c. char_code c \<le> 32 \<or> char_code c = 127) v \<or>
             list_ex (\<lambda>s. s \<in> {''.'', ''..''}) (split_slash v)))"

definition EndpointSeed_valid :: "(pyval \<Rightarrow> digest) \<Rightarrow> url_env \<Rightarrow> EndpointSeed \<Rightarrow> bool" where
  "EndpointSeed_valid H U s \<longleftrightarrow>
     1 \<le> length (sd_path s) \<and> length (sd_path s) \<le> 1024 \<and> canonical_absolute_path U (sd_path s) \<and>
     sd_path_digest s = H (PStr (sd_path s)) \<and>
     sd_seed_id s = H (PDict [(''path_digest'', PStr (H (PStr (sd_path s))))])"

definition EndpointSeed_create :: "(pyval \<Rightarrow> digest) \<Rightarrow> url_env \<Rightarrow> string \<Rightarrow> EndpointSeed option" where
  "EndpointSeed_create H U path =
     (let path_digest = H (PStr path);
          s = \<lparr>sd_seed_id = H (PDict [(''path_digest'', PStr path_digest)]), sd_path = path, sd_path_digest = path_digest\<rparr>
      in if EndpointSeed_valid H U s then Some s else None)"

definition EndpointSeed_dump :: "EndpointSeed \<Rightarrow> pyval" where
  "EndpointSeed_dump s = PDict
     [(''seed_id'', PStr (sd_seed_id s)), (''path'', PStr (sd_path s)), (''path_digest'', PStr (sd_path_digest s))]"

record EndpointSeedSet =
  ss_seed_set_id :: digest
  ss_flow_plan_id :: digest
  ss_source_checkpoint_id :: digest
  ss_target_id :: uuid
  ss_scope_id :: uuid
  ss_scope_version :: int
  ss_operator_ref :: string
  ss_seeds :: "EndpointSeed list"
  ss_sealed_at :: instant
  ss_expires_at :: instant
  ss_idempotency_key :: string

definition EndpointSeedSet_content :: "EndpointSeedSet \<Rightarrow> pyval" where
  "EndpointSeedSet_content x = PDict
     [(''flow_plan_id'', PStr (ss_flow_plan_id x)), (''source_checkpoint_id'', PStr (ss_source_checkpoint_id x)),
      (''target_id'', PUuid (ss_target_id x)), (''scope_id'', PUuid (ss_scope_id x)),
      (''scope_version'', PInt (ss_scope_version x)), (''operator_ref'', PStr (ss_operator_ref x)),
      (''seeds'', PList (map EndpointSeed_dump (ss_seeds x))), (''sealed_at'', PTime (ss_sealed_at x)),
      (''expires_at'', PTime (ss_expires_at x)), (''idempotency_key'', PStr (ss_idempotency_key x))]"

definition EndpointSeedSet_valid :: "(pyval \<Rightarrow> digest) \<Rightarrow> url_env \<Rightarrow> EndpointSeedSet \<Rightarrow> bool" where
  "EndpointSeedSet_valid H U x \<longleftrightarrow>
     is_digest (ss_flow_plan_id x) \<and> is_digest (ss_source_checkpoint_id x) \<and> 1 \<le> ss_scope_version x \<and>
     is_reference ''operator:'' (ss_operator_ref x) \<and>
     1 \<le> length (ss_seeds x) \<and> length (ss_seeds x) \<le> 1000 \<and> list_all (EndpointSeed_valid H U) (ss_seeds x) \<and>
     1 \<le> length (ss_idempotency_key x) \<and> length (ss_idempotency_key x) \<le> 256 \<and>
     \<not> (map sd_path (ss_seeds x) \<noteq> sorted_set (map sd_path (ss_seeds x)) \<or> ss_expires_at x \<le> ss_sealed_at x) \<and>
     sealed_by H EndpointSeedSet_content ss_seed_set_id x"

section \<open>Plans\<close>

record EndpointReconLimits =
  el_max_steps :: int
  el_max_requests :: int
  el_per_request_seconds :: rat
  el_total_seconds :: rat
  el_max_attempts :: int

definition EndpointReconLimits_valid :: "EndpointReconLimits \<Rightarrow> bool" where
  "EndpointReconLimits_valid l \<longleftrightarrow>
     1 \<le> el_max_steps l \<and> el_max_steps l \<le> 1000 \<and> 1 \<le> el_max_requests l \<and> el_max_requests l \<le> 1000 \<and>
     0 < el_per_request_seconds l \<and> el_per_request_seconds l \<le> 30 \<and>
     0 < el_total_seconds l \<and> el_total_seconds l \<le> 300 \<and>
     1 \<le> el_max_attempts l \<and> el_max_attempts l \<le> 3 \<and>
     \<not> el_total_seconds l < el_per_request_seconds l"

definition EndpointReconLimits_dump :: "EndpointReconLimits \<Rightarrow> pyval" where
  "EndpointReconLimits_dump l = PDict
     [(''max_steps'', PInt (el_max_steps l)), (''max_requests'', PInt (el_max_requests l)),
      (''per_request_seconds'', PFloat (el_per_request_seconds l)), (''total_seconds'', PFloat (el_total_seconds l)),
      (''max_attempts'', PInt (el_max_attempts l))]"

datatype EndpointMethod = Meth_HEAD | Meth_GET

fun method_text :: "EndpointMethod \<Rightarrow> string" where
  "method_text Meth_HEAD = ''HEAD''"
| "method_text Meth_GET = ''GET''"

text \<open>\<^verbatim>\<open>follow_redirects: Literal[False]\<close> has one value only.\<close>

record EndpointReconStep =
  st_step_id :: digest
  st_seed_id :: digest
  st_ordinal :: int
  st_target_url :: string
  st_target_url_digest :: digest
  st_method :: EndpointMethod

definition step_identity :: "EndpointReconStep \<Rightarrow> digest \<Rightarrow> pyval" where
  "step_identity s url_digest = PDict
     [(''seed_id'', PStr (st_seed_id s)), (''ordinal'', PInt (st_ordinal s)),
      (''target_url_digest'', PStr url_digest), (''method'', PStr (method_text (st_method s))),
      (''follow_redirects'', PBool False)]"

definition EndpointReconStep_valid :: "(pyval \<Rightarrow> digest) \<Rightarrow> (string \<Rightarrow> digest) \<Rightarrow> EndpointReconStep \<Rightarrow> bool" where
  "EndpointReconStep_valid H S s \<longleftrightarrow>
     is_digest (st_seed_id s) \<and> 1 \<le> st_ordinal s \<and> st_ordinal s \<le> 1000 \<and>
     1 \<le> length (st_target_url s) \<and> length (st_target_url s) \<le> 2048 \<and>
     st_target_url_digest s = S (st_target_url s) \<and>
     st_step_id s = H (step_identity s (S (st_target_url s)))"

definition EndpointReconStep_create ::
  "(pyval \<Rightarrow> digest) \<Rightarrow> (string \<Rightarrow> digest) \<Rightarrow> EndpointReconStep \<Rightarrow> EndpointReconStep option" where
  "EndpointReconStep_create H S v =
     (let d = S (st_target_url v);
          s = v\<lparr>st_step_id := H (step_identity v d), st_target_url_digest := d\<rparr>
      in if EndpointReconStep_valid H S s then Some s else None)"

definition EndpointReconStep_dump :: "EndpointReconStep \<Rightarrow> pyval" where
  "EndpointReconStep_dump s = PDict
     [(''step_id'', PStr (st_step_id s)), (''seed_id'', PStr (st_seed_id s)), (''ordinal'', PInt (st_ordinal s)),
      (''target_url'', PStr (st_target_url s)), (''target_url_digest'', PStr (st_target_url_digest s)),
      (''method'', PStr (method_text (st_method s))), (''follow_redirects'', PBool False)]"

record EndpointReconPlan =
  ep_plan_id :: digest
  ep_seed_set_id :: digest
  ep_flow_plan_id :: digest
  ep_source_checkpoint_id :: digest
  ep_target_id :: uuid
  ep_scope_id :: uuid
  ep_scope_version :: int
  ep_test_class :: string
  ep_steps :: "EndpointReconStep list"
  ep_limits :: EndpointReconLimits
  ep_created_at :: instant
  ep_deadline :: instant
  ep_idempotency_key :: string

definition EndpointReconPlan_content :: "EndpointReconPlan \<Rightarrow> pyval" where
  "EndpointReconPlan_content p = PDict
     [(''seed_set_id'', PStr (ep_seed_set_id p)), (''flow_plan_id'', PStr (ep_flow_plan_id p)),
      (''source_checkpoint_id'', PStr (ep_source_checkpoint_id p)), (''target_id'', PUuid (ep_target_id p)),
      (''scope_id'', PUuid (ep_scope_id p)), (''scope_version'', PInt (ep_scope_version p)),
      (''test_class'', PStr (ep_test_class p)), (''steps'', PList (map EndpointReconStep_dump (ep_steps p))),
      (''limits'', EndpointReconLimits_dump (ep_limits p)), (''created_at'', PTime (ep_created_at p)),
      (''deadline'', PTime (ep_deadline p)), (''idempotency_key'', PStr (ep_idempotency_key p))]"

definition EndpointReconPlan_valid :: "(pyval \<Rightarrow> digest) \<Rightarrow> (string \<Rightarrow> digest) \<Rightarrow> EndpointReconPlan \<Rightarrow> bool" where
  "EndpointReconPlan_valid H S p \<longleftrightarrow>
     is_digest (ep_seed_set_id p) \<and> is_digest (ep_flow_plan_id p) \<and> is_digest (ep_source_checkpoint_id p) \<and>
     1 \<le> ep_scope_version p \<and> is_reason_code (ep_test_class p) \<and>
     1 \<le> length (ep_steps p) \<and> length (ep_steps p) \<le> 1000 \<and> list_all (EndpointReconStep_valid H S) (ep_steps p) \<and>
     EndpointReconLimits_valid (ep_limits p) \<and>
     1 \<le> length (ep_idempotency_key p) \<and> length (ep_idempotency_key p) \<le> 256 \<and>
     \<not> (map st_ordinal (ep_steps p) \<noteq> map int [1..<Suc (length (ep_steps p))] \<or>
        \<not> distinct (map st_seed_id (ep_steps p)) \<or> length (remdups (map st_method (ep_steps p))) \<noteq> 1 \<or>
        min (el_max_steps (ep_limits p)) (el_max_requests (ep_limits p)) < int (length (ep_steps p)) \<or>
        ep_deadline p \<le> ep_created_at p) \<and>
     sealed_by H EndpointReconPlan_content ep_plan_id p"

section \<open>Results\<close>

record EndpointReconStepResult =
  er_step_id :: digest
  er_target_url_digest :: digest
  er_outcome :: EndpointReconOutcomeKind
  er_status_code :: "int option"
  er_reason_code :: string
  er_evidence_refs :: "digest list"
  er_web_response_snapshot_id :: "digest option"
  er_response_bytes :: "int option"
  er_response_body_sha256 :: "digest option"
  er_cleanup_complete :: bool
  er_completed_at :: instant

text \<open>\<^verbatim>\<open>EndpointReconStepResult.coherent\<close>: \<^verbatim>\<open>if self.status_code\<close> is also false for 0, which the field's bounds
  exclude.\<close>

definition EndpointReconStepResult_valid :: "EndpointReconStepResult \<Rightarrow> bool" where
  "EndpointReconStepResult_valid r \<longleftrightarrow>
     is_digest (er_step_id r) \<and> is_digest (er_target_url_digest r) \<and>
     opt_all (\<lambda>n. 100 \<le> n \<and> n \<le> 599) (er_status_code r) \<and> is_reason_code (er_reason_code r) \<and>
     length (er_evidence_refs r) \<le> 1 \<and> list_all is_digest (er_evidence_refs r) \<and>
     opt_all is_digest (er_web_response_snapshot_id r) \<and>
     opt_all (\<lambda>n. 0 \<le> n \<and> n \<le> 64 * 1024) (er_response_bytes r) \<and> opt_all is_digest (er_response_body_sha256 r) \<and>
     \<not> (er_outcome r = Eo_SUCCEEDED \<and> (er_status_code r = None \<or> \<not> er_cleanup_complete r)) \<and>
     \<not> (er_outcome r \<noteq> Eo_SUCCEEDED \<and> er_status_code r \<noteq> None) \<and>
     (let present = [er_web_response_snapshot_id r \<noteq> None, er_response_bytes r \<noteq> None, er_response_body_sha256 r \<noteq> None]
      in \<not> (list_ex id present \<noteq> list_all id present \<or> (er_outcome r \<noteq> Eo_SUCCEEDED \<and> list_ex id present)))"

record EndpointReconOutcome =
  eo_plan_id :: digest
  eo_seed_set_id :: digest
  eo_outcome :: EndpointReconOutcomeKind
  eo_results :: "EndpointReconStepResult list"
  eo_requests_used :: int
  eo_attempt :: int
  eo_cleanup_complete :: bool
  eo_completed_at :: instant

definition EndpointReconOutcome_valid :: "EndpointReconOutcome \<Rightarrow> bool" where
  "EndpointReconOutcome_valid x \<longleftrightarrow>
     is_digest (eo_plan_id x) \<and> is_digest (eo_seed_set_id x) \<and>
     1 \<le> length (eo_results x) \<and> length (eo_results x) \<le> 1000 \<and> list_all EndpointReconStepResult_valid (eo_results x) \<and>
     1 \<le> eo_requests_used x \<and> eo_requests_used x \<le> 1000 \<and> 1 \<le> eo_attempt x \<and> eo_attempt x \<le> 3 \<and>
     \<not> (\<not> distinct (map er_step_id (eo_results x)) \<or> eo_requests_used x \<noteq> int (length (eo_results x))) \<and>
     eo_outcome x = er_outcome (last (eo_results x)) \<and>
     eo_cleanup_complete x = list_all er_cleanup_complete (eo_results x)"

section \<open>Reservations\<close>

record EndpointReconReservation =
  rv_plan_id :: digest
  rv_state :: EndpointReconReservationState
  rv_reserved_requests :: int
  rv_consumed_requests :: int
  rv_created_at :: instant
  rv_updated_at :: instant
  rv_terminal_reason :: "string option"

definition EndpointReconReservation_valid :: "EndpointReconReservation \<Rightarrow> bool" where
  "EndpointReconReservation_valid r \<longleftrightarrow>
     is_digest (rv_plan_id r) \<and> 1 \<le> rv_reserved_requests r \<and> rv_reserved_requests r \<le> 1000 \<and>
     0 \<le> rv_consumed_requests r \<and> rv_consumed_requests r \<le> 1000 \<and> opt_all is_reason_code (rv_terminal_reason r) \<and>
     \<not> (rv_reserved_requests r < rv_consumed_requests r \<or> rv_updated_at r < rv_created_at r \<or>
        (rv_state r \<noteq> Res_ACTIVE) \<noteq> (rv_terminal_reason r \<noteq> None) \<or>
        (rv_state r = Res_ACTIVE \<and> rv_reserved_requests r \<le> rv_consumed_requests r) \<or>
        (rv_state r = Res_CONSUMED \<and> rv_consumed_requests r \<noteq> rv_reserved_requests r) \<or>
        (rv_state r \<in> {Res_CANCELLED, Res_EXPIRED} \<and> rv_reserved_requests r \<le> rv_consumed_requests r))"

end
