(* ===== verification/Endpoint_Schedule.thy ===== *)
theory Endpoint_Schedule
  imports Endpoint_Models
begin

text \<open>
  Recurring endpoint checks: the contracts of \<^verbatim>\<open>src/src/vulnloom/red_team/schedule_models.py\<close>, the pure transitions of
  \<^verbatim>\<open>src/src/vulnloom/red_team/schedule_state_machine.py\<close>, and the arithmetic of
  due times. Instants are microseconds; \<^verbatim>\<open>_next_due\<close> divides seconds as floats, which agrees with the integer division of
  microseconds for instants less than 2^33 seconds (272 years) apart.
\<close>

section \<open>Schedules, checkpoints and runs\<close>

datatype EndpointScheduleState = Sched_ACTIVE | Sched_PAUSED | Sched_CANCELLED | Sched_EXPIRED

datatype EndpointScheduleRunState = Run_STARTED | Run_MATERIALIZED | Run_TIMED_OUT | Run_FAILED

fun schedule_state_value :: "EndpointScheduleState \<Rightarrow> string" where
  "schedule_state_value Sched_ACTIVE = ''active''"
| "schedule_state_value Sched_PAUSED = ''paused''"
| "schedule_state_value Sched_CANCELLED = ''cancelled''"
| "schedule_state_value Sched_EXPIRED = ''expired''"

record EndpointCheckSchedule =
  es_schedule_id :: digest
  es_scope_id :: uuid
  es_scope_version :: int
  es_target_url :: string
  es_visibility :: Visibility
  es_test_class :: string
  es_operator_ref :: string
  es_emergency_contact_ref :: string
  es_paths :: "string list"
  es_interval_seconds :: int
  es_run_ttl_seconds :: int
  es_max_consecutive_failures :: int
  es_recon_limits :: EndpointReconLimits
  es_active_from :: instant
  es_active_until :: instant
  es_created_at :: instant
  es_idempotency_key :: string

definition EndpointCheckSchedule_content :: "EndpointCheckSchedule \<Rightarrow> pyval" where
  "EndpointCheckSchedule_content x = PDict
     [(''scope_id'', PUuid (es_scope_id x)), (''scope_version'', PInt (es_scope_version x)),
      (''target_url'', PStr (es_target_url x)), (''visibility'', PEnum (visibility_value (es_visibility x))),
      (''test_class'', PStr (es_test_class x)), (''operator_ref'', PStr (es_operator_ref x)),
      (''emergency_contact_ref'', PStr (es_emergency_contact_ref x)), (''paths'', p_strs (es_paths x)),
      (''interval_seconds'', PInt (es_interval_seconds x)), (''run_ttl_seconds'', PInt (es_run_ttl_seconds x)),
      (''max_consecutive_failures'', PInt (es_max_consecutive_failures x)),
      (''recon_limits'', EndpointReconLimits_dump (es_recon_limits x)), (''active_from'', PTime (es_active_from x)),
      (''active_until'', PTime (es_active_until x)), (''created_at'', PTime (es_created_at x)),
      (''idempotency_key'', PStr (es_idempotency_key x))]"

definition EndpointCheckSchedule_valid :: "(pyval \<Rightarrow> digest) \<Rightarrow> url_env \<Rightarrow> EndpointCheckSchedule \<Rightarrow> bool" where
  "EndpointCheckSchedule_valid H U x \<longleftrightarrow>
     is_digest (es_schedule_id x) \<and> 1 \<le> es_scope_version x \<and>
     1 \<le> length (es_target_url x) \<and> length (es_target_url x) \<le> 2048 \<and>
     AuthorizedWebTarget_valid U \<lparr>wt_target_id = 0, wt_url = es_target_url x\<rparr> \<and>
     is_reason_code (es_test_class x) \<and> is_reference ''operator:'' (es_operator_ref x) \<and>
     is_reference ''contact:'' (es_emergency_contact_ref x) \<and>
     1 \<le> length (es_paths x) \<and> length (es_paths x) \<le> 100 \<and>
     list_all (\<lambda>path. EndpointSeed_create H U path \<noteq> None) (es_paths x) \<and> es_paths x = sorted_set (es_paths x) \<and>
     60 \<le> es_interval_seconds x \<and> es_interval_seconds x \<le> 2592000 \<and>
     1 \<le> es_run_ttl_seconds x \<and> es_run_ttl_seconds x \<le> 300 \<and>
     1 \<le> es_max_consecutive_failures x \<and> es_max_consecutive_failures x \<le> 3 \<and>
     EndpointReconLimits_valid (es_recon_limits x) \<and>
     1 \<le> length (es_idempotency_key x) \<and> length (es_idempotency_key x) \<le> 256 \<and>
     \<not> (es_visibility x \<notin> {BLACK_BOX, GREY_BOX} \<or> es_test_class x \<noteq> ''read_only'' \<or>
        es_active_from x < es_created_at x \<or> es_active_until x \<le> es_active_from x \<or>
        min (el_max_steps (es_recon_limits x)) (el_max_requests (es_recon_limits x)) < int (length (es_paths x)) \<or>
        rat_of_int (es_run_ttl_seconds x) < el_total_seconds (es_recon_limits x)) \<and>
     sealed_by H EndpointCheckSchedule_content es_schedule_id x"

record EndpointScheduleCheckpoint =
  sk_checkpoint_id :: digest
  sk_schedule_id :: digest
  sk_revision :: int
  sk_state :: EndpointScheduleState
  sk_next_due_at :: instant
  sk_active_run_id :: "digest option"
  sk_last_run_id :: "digest option"
  sk_reason_code :: "string option"
  sk_updated_at :: instant

definition EndpointScheduleCheckpoint_content :: "EndpointScheduleCheckpoint \<Rightarrow> pyval" where
  "EndpointScheduleCheckpoint_content c = PDict
     [(''schedule_id'', PStr (sk_schedule_id c)), (''revision'', PInt (sk_revision c)),
      (''state'', PEnum (schedule_state_value (sk_state c))), (''next_due_at'', PTime (sk_next_due_at c)),
      (''active_run_id'', p_opt PStr (sk_active_run_id c)), (''last_run_id'', p_opt PStr (sk_last_run_id c)),
      (''reason_code'', p_opt PStr (sk_reason_code c)), (''updated_at'', PTime (sk_updated_at c))]"

definition EndpointScheduleCheckpoint_valid :: "(pyval \<Rightarrow> digest) \<Rightarrow> EndpointScheduleCheckpoint \<Rightarrow> bool" where
  "EndpointScheduleCheckpoint_valid H c \<longleftrightarrow>
     is_digest (sk_schedule_id c) \<and> 0 \<le> sk_revision c \<and> opt_all is_digest (sk_active_run_id c) \<and>
     opt_all is_digest (sk_last_run_id c) \<and> opt_all is_reason_code (sk_reason_code c) \<and>
     \<not> ((sk_state c = Sched_ACTIVE) \<noteq> (sk_reason_code c = None) \<or>
        (sk_active_run_id c \<noteq> None \<and> sk_state c \<noteq> Sched_ACTIVE)) \<and>
     sealed_by H EndpointScheduleCheckpoint_content sk_checkpoint_id c"

definition EndpointScheduleCheckpoint_create ::
  "(pyval \<Rightarrow> digest) \<Rightarrow> EndpointScheduleCheckpoint \<Rightarrow> EndpointScheduleCheckpoint option" where
  "EndpointScheduleCheckpoint_create H v =
     (let c = v\<lparr>sk_checkpoint_id := H (EndpointScheduleCheckpoint_content v)\<rparr>
      in if EndpointScheduleCheckpoint_valid H c then Some c else None)"

record EndpointScheduleRun =
  sr_schedule_run_id :: digest
  sr_schedule_id :: digest
  sr_scheduled_for :: instant
  sr_state :: EndpointScheduleRunState
  sr_attempt :: int
  sr_started_at :: instant
  sr_deadline :: instant
  sr_flow_plan_id :: "digest option"
  sr_seed_set_id :: "digest option"
  sr_endpoint_recon_plan_id :: "digest option"
  sr_cleanup_complete :: "bool option"
  sr_terminal_reason :: "string option"
  sr_completed_at :: "instant option"

definition run_identity :: "(pyval \<Rightarrow> digest) \<Rightarrow> digest \<Rightarrow> instant \<Rightarrow> digest" where
  "run_identity H schedule_id scheduled_for =
     H (PDict [(''schedule_id'', PStr schedule_id), (''scheduled_for'', PTime scheduled_for)])"

text \<open>\<^verbatim>\<open>EndpointScheduleRun.sealed\<close>: of the last two comparisons with \<^verbatim>\<open>completed_at\<close>, the second is reached only when
  it is set.\<close>

definition EndpointScheduleRun_valid :: "(pyval \<Rightarrow> digest) \<Rightarrow> EndpointScheduleRun \<Rightarrow> bool" where
  "EndpointScheduleRun_valid H r \<longleftrightarrow>
     is_digest (sr_schedule_id r) \<and> 1 \<le> sr_attempt r \<and> sr_attempt r \<le> 3 \<and>
     opt_all is_digest (sr_flow_plan_id r) \<and> opt_all is_digest (sr_seed_set_id r) \<and>
     opt_all is_digest (sr_endpoint_recon_plan_id r) \<and> opt_all is_reason_code (sr_terminal_reason r) \<and>
     (let ids = [sr_flow_plan_id r, sr_seed_set_id r, sr_endpoint_recon_plan_id r];
          terminal = (sr_state r \<noteq> Run_STARTED)
      in \<not> (sr_deadline r \<le> sr_started_at r \<or> sr_started_at r < sr_scheduled_for r \<or>
            terminal \<noteq> (sr_completed_at r \<noteq> None) \<or> terminal \<noteq> (sr_terminal_reason r \<noteq> None) \<or>
            terminal \<noteq> (sr_cleanup_complete r \<noteq> None) \<or>
            (sr_state r = Run_MATERIALIZED \<and>
              (list_ex (\<lambda>i. i = None) ids \<or> sr_cleanup_complete r \<noteq> Some True)) \<or>
            (sr_state r = Run_STARTED \<and> list_ex (\<lambda>i. i \<noteq> None) ids) \<or>
            \<not> opt_all (\<lambda>t. sr_started_at r \<le> t) (sr_completed_at r) \<or>
            (sr_state r = Run_TIMED_OUT \<and> \<not> opt_all (\<lambda>t. sr_deadline r \<le> t) (sr_completed_at r)) \<or>
            (sr_state r = Run_FAILED \<and> sr_attempt r \<noteq> 3))) \<and>
     sr_schedule_run_id r = run_identity H (sr_schedule_id r) (sr_scheduled_for r)"

definition EndpointScheduleRun_create ::
  "(pyval \<Rightarrow> digest) \<Rightarrow> EndpointScheduleRun \<Rightarrow> EndpointScheduleRun option" where
  "EndpointScheduleRun_create H v =
     (let r = v\<lparr>sr_schedule_run_id := run_identity H (sr_schedule_id v) (sr_scheduled_for v)\<rparr>
      in if EndpointScheduleRun_valid H r then Some r else None)"

section \<open>Transitions\<close>

datatype schedule_error = EndpointScheduleTransitionRejected string | ScheduleValueError

definition schedule_created :: "'a option \<Rightarrow> schedule_error + 'a" where
  "schedule_created x = (case x of None \<Rightarrow> Inl ScheduleValueError | Some y \<Rightarrow> Inr y)"

text \<open>\<^verbatim>\<open>_next\<close> and \<^verbatim>\<open>_replace_run\<close>; \<open>upd\<close> applies the keyword changes to the copied values.\<close>

definition schedule_next ::
  "(pyval \<Rightarrow> digest) \<Rightarrow> EndpointScheduleCheckpoint \<Rightarrow> instant
   \<Rightarrow> (EndpointScheduleCheckpoint \<Rightarrow> EndpointScheduleCheckpoint) \<Rightarrow> schedule_error + EndpointScheduleCheckpoint" where
  "schedule_next H c now upd =
     schedule_created (EndpointScheduleCheckpoint_create H
       ((upd c)\<lparr>sk_checkpoint_id := [], sk_revision := sk_revision c + 1, sk_updated_at := now\<rparr>))"

definition replace_run ::
  "(pyval \<Rightarrow> digest) \<Rightarrow> EndpointScheduleRun \<Rightarrow> (EndpointScheduleRun \<Rightarrow> EndpointScheduleRun)
   \<Rightarrow> schedule_error + EndpointScheduleRun" where
  "replace_run H r upd = schedule_created (EndpointScheduleRun_create H (upd r))"

definition schedule_identity :: "EndpointCheckSchedule \<Rightarrow> EndpointScheduleCheckpoint \<Rightarrow> schedule_error + unit" where
  "schedule_identity s c =
     (if sk_schedule_id c \<noteq> es_schedule_id s
      then Inl (EndpointScheduleTransitionRejected ''Endpoint Schedule checkpoint is foreign'') else Inr ())"

definition schedule_current ::
  "EndpointCheckSchedule \<Rightarrow> EndpointScheduleCheckpoint \<Rightarrow> instant \<Rightarrow> bool \<Rightarrow> schedule_error + unit" where
  "schedule_current s c now allow_window_end =
     bind_result (schedule_identity s c) (\<lambda>_.
       if now < sk_updated_at c \<or> now < es_active_from s
       then Inl (EndpointScheduleTransitionRejected ''Endpoint Schedule time is invalid'')
       else if \<not> allow_window_end \<and> es_active_until s \<le> now
       then Inl (EndpointScheduleTransitionRejected ''Endpoint Schedule window elapsed'')
       else Inr ())"

definition active_run ::
  "EndpointCheckSchedule \<Rightarrow> EndpointScheduleCheckpoint \<Rightarrow> EndpointScheduleRun \<Rightarrow> instant \<Rightarrow> bool
   \<Rightarrow> schedule_error + unit" where
  "active_run s c r now allow_deadline =
     bind_result (schedule_current s c now allow_deadline) (\<lambda>_.
       if sk_active_run_id c \<noteq> Some (sr_schedule_run_id r) \<or> sr_schedule_id r \<noteq> es_schedule_id s \<or>
          sr_state r \<noteq> Run_STARTED \<or> (\<not> allow_deadline \<and> sr_deadline r \<le> now)
       then Inl (EndpointScheduleTransitionRejected ''Endpoint Schedule active run is inconsistent'')
       else Inr ())"

definition next_due :: "EndpointCheckSchedule \<Rightarrow> instant \<Rightarrow> instant \<Rightarrow> instant" where
  "next_due s previous_due now =
     (let elapsed = max 0 (now - previous_due);
          slots = elapsed div seconds (es_interval_seconds s) + 1
      in previous_due + seconds (es_interval_seconds s * slots))"

definition start_endpoint_schedule ::
  "(pyval \<Rightarrow> digest) \<Rightarrow> EndpointCheckSchedule \<Rightarrow> schedule_error + EndpointScheduleCheckpoint" where
  "start_endpoint_schedule H s =
     schedule_created (EndpointScheduleCheckpoint_create H
       \<lparr>sk_checkpoint_id = [], sk_schedule_id = es_schedule_id s, sk_revision = 0, sk_state = Sched_ACTIVE,
        sk_next_due_at = es_active_from s, sk_active_run_id = None, sk_last_run_id = None, sk_reason_code = None,
        sk_updated_at = es_created_at s\<rparr>)"

definition claim_endpoint_schedule_run ::
  "(pyval \<Rightarrow> digest) \<Rightarrow> EndpointCheckSchedule \<Rightarrow> EndpointScheduleCheckpoint \<Rightarrow> instant
   \<Rightarrow> schedule_error + (EndpointScheduleCheckpoint \<times> EndpointScheduleRun)" where
  "claim_endpoint_schedule_run H s c now =
     bind_result (schedule_current s c now False) (\<lambda>_.
       if sk_state c \<noteq> Sched_ACTIVE
       then Inl (EndpointScheduleTransitionRejected ''Endpoint Schedule is not active'')
       else if sk_active_run_id c \<noteq> None
       then Inl (EndpointScheduleTransitionRejected ''Endpoint Schedule already has an active run'')
       else if now < sk_next_due_at c
       then Inl (EndpointScheduleTransitionRejected ''Endpoint Schedule is not due'')
       else bind_result (schedule_created (EndpointScheduleRun_create H
              \<lparr>sr_schedule_run_id = [], sr_schedule_id = es_schedule_id s, sr_scheduled_for = sk_next_due_at c,
               sr_state = Run_STARTED, sr_attempt = 1, sr_started_at = now,
               sr_deadline = min (now + seconds (es_run_ttl_seconds s)) (es_active_until s),
               sr_flow_plan_id = None, sr_seed_set_id = None, sr_endpoint_recon_plan_id = None,
               sr_cleanup_complete = None, sr_terminal_reason = None, sr_completed_at = None\<rparr>)) (\<lambda>run.
            bind_result (schedule_next H c now (\<lambda>v. v\<lparr>sk_active_run_id := Some (sr_schedule_run_id run)\<rparr>)) (\<lambda>c'.
            Inr (c', run))))"

definition recover_endpoint_schedule_run ::
  "(pyval \<Rightarrow> digest) \<Rightarrow> EndpointScheduleRun \<Rightarrow> instant \<Rightarrow> schedule_error + EndpointScheduleRun" where
  "recover_endpoint_schedule_run H r now =
     (if sr_state r \<noteq> Run_STARTED
      then Inl (EndpointScheduleTransitionRejected ''Endpoint Schedule Run is not awaiting recovery'')
      else if now < sr_started_at r \<or> sr_deadline r \<le> now
      then Inl (EndpointScheduleTransitionRejected ''Endpoint Schedule Run recovery window elapsed'')
      else if 3 \<le> sr_attempt r
      then Inl (EndpointScheduleTransitionRejected ''Endpoint Schedule Run recovery attempts are exhausted'')
      else replace_run H r (\<lambda>v. v\<lparr>sr_attempt := sr_attempt r + 1\<rparr>))"

text \<open>\<^verbatim>\<open>_finish\<close>\<close>

definition finish_run ::
  "(pyval \<Rightarrow> digest) \<Rightarrow> EndpointCheckSchedule \<Rightarrow> EndpointScheduleCheckpoint \<Rightarrow> EndpointScheduleRun \<Rightarrow> instant
   \<Rightarrow> string option \<Rightarrow> schedule_error + (EndpointScheduleCheckpoint \<times> EndpointScheduleRun)" where
  "finish_run H s c r now pause_reason =
     bind_result (schedule_next H c now (\<lambda>v. v\<lparr>
        sk_state := (if pause_reason \<noteq> None then Sched_PAUSED else Sched_ACTIVE),
        sk_next_due_at := next_due s (sr_scheduled_for r) now, sk_active_run_id := None,
        sk_last_run_id := Some (sr_schedule_run_id r), sk_reason_code := pause_reason\<rparr>)) (\<lambda>c'. Inr (c', r))"

definition materialize_endpoint_schedule_run ::
  "(pyval \<Rightarrow> digest) \<Rightarrow> EndpointCheckSchedule \<Rightarrow> EndpointScheduleCheckpoint \<Rightarrow> EndpointScheduleRun
   \<Rightarrow> digest \<Rightarrow> digest \<Rightarrow> digest \<Rightarrow> instant \<Rightarrow> schedule_error + (EndpointScheduleCheckpoint \<times> EndpointScheduleRun)" where
  "materialize_endpoint_schedule_run H s c r flow_plan_id seed_set_id endpoint_recon_plan_id now =
     bind_result (active_run s c r now False) (\<lambda>_.
     bind_result (replace_run H r (\<lambda>v. v\<lparr>sr_state := Run_MATERIALIZED, sr_flow_plan_id := Some flow_plan_id,
        sr_seed_set_id := Some seed_set_id, sr_endpoint_recon_plan_id := Some endpoint_recon_plan_id,
        sr_cleanup_complete := Some True, sr_terminal_reason := Some ''flow_materialized'',
        sr_completed_at := Some now\<rparr>)) (\<lambda>r'.
     finish_run H s c r' now None))"

definition timeout_endpoint_schedule_run ::
  "(pyval \<Rightarrow> digest) \<Rightarrow> EndpointCheckSchedule \<Rightarrow> EndpointScheduleCheckpoint \<Rightarrow> EndpointScheduleRun
   \<Rightarrow> bool \<Rightarrow> instant \<Rightarrow> schedule_error + (EndpointScheduleCheckpoint \<times> EndpointScheduleRun)" where
  "timeout_endpoint_schedule_run H s c r cleanup_complete now =
     (if now < sr_deadline r
      then Inl (EndpointScheduleTransitionRejected ''Endpoint Schedule Run deadline has not elapsed'')
      else
        bind_result (active_run s c r now True) (\<lambda>_.
        bind_result (replace_run H r (\<lambda>v. v\<lparr>sr_state := Run_TIMED_OUT, sr_cleanup_complete := Some cleanup_complete,
           sr_terminal_reason := Some ''materialization_timed_out'', sr_completed_at := Some now\<rparr>)) (\<lambda>r'.
        finish_run H s c r' now (if cleanup_complete then None else Some ''cleanup_unproven''))))"

definition fail_endpoint_schedule_run ::
  "(pyval \<Rightarrow> digest) \<Rightarrow> EndpointCheckSchedule \<Rightarrow> EndpointScheduleCheckpoint \<Rightarrow> EndpointScheduleRun
   \<Rightarrow> bool \<Rightarrow> instant \<Rightarrow> schedule_error + (EndpointScheduleCheckpoint \<times> EndpointScheduleRun)" where
  "fail_endpoint_schedule_run H s c r cleanup_complete now =
     bind_result (active_run s c r now True) (\<lambda>_.
     bind_result (replace_run H r (\<lambda>v. v\<lparr>sr_state := Run_FAILED, sr_cleanup_complete := Some cleanup_complete,
        sr_terminal_reason := Some ''materialization_attempts_exhausted'', sr_completed_at := Some now\<rparr>)) (\<lambda>r'.
     finish_run H s c r' now (Some ''materialization_attempts_exhausted'')))"

definition pause_endpoint_schedule ::
  "(pyval \<Rightarrow> digest) \<Rightarrow> EndpointCheckSchedule \<Rightarrow> EndpointScheduleCheckpoint \<Rightarrow> instant
   \<Rightarrow> schedule_error + EndpointScheduleCheckpoint" where
  "pause_endpoint_schedule H s c now =
     bind_result (schedule_current s c now False) (\<lambda>_.
       if sk_state c = Sched_PAUSED then Inr c
       else if sk_state c \<noteq> Sched_ACTIVE \<or> sk_active_run_id c \<noteq> None
       then Inl (EndpointScheduleTransitionRejected ''Endpoint Schedule cannot be paused'')
       else schedule_next H c now (\<lambda>v. v\<lparr>sk_state := Sched_PAUSED, sk_reason_code := Some ''operator_paused''\<rparr>))"

definition resume_endpoint_schedule ::
  "(pyval \<Rightarrow> digest) \<Rightarrow> EndpointCheckSchedule \<Rightarrow> EndpointScheduleCheckpoint \<Rightarrow> instant
   \<Rightarrow> schedule_error + EndpointScheduleCheckpoint" where
  "resume_endpoint_schedule H s c now =
     bind_result (schedule_current s c now False) (\<lambda>_.
       if sk_state c = Sched_ACTIVE then Inr c
       else if sk_state c \<noteq> Sched_PAUSED
       then Inl (EndpointScheduleTransitionRejected ''Endpoint Schedule is not paused'')
       else schedule_next H c now (\<lambda>v. v\<lparr>sk_state := Sched_ACTIVE,
              sk_next_due_at := next_due s (sk_next_due_at c) now, sk_reason_code := None\<rparr>))"

definition cancel_endpoint_schedule ::
  "(pyval \<Rightarrow> digest) \<Rightarrow> EndpointCheckSchedule \<Rightarrow> EndpointScheduleCheckpoint \<Rightarrow> instant
   \<Rightarrow> schedule_error + EndpointScheduleCheckpoint" where
  "cancel_endpoint_schedule H s c now =
     bind_result (schedule_current s c now True) (\<lambda>_.
       if sk_state c \<in> {Sched_CANCELLED, Sched_EXPIRED} then Inr c
       else if sk_active_run_id c \<noteq> None
       then Inl (EndpointScheduleTransitionRejected ''Endpoint Schedule has an active run'')
       else schedule_next H c now (\<lambda>v. v\<lparr>sk_state := Sched_CANCELLED, sk_reason_code := Some ''operator_cancelled''\<rparr>))"

definition expire_endpoint_schedule ::
  "(pyval \<Rightarrow> digest) \<Rightarrow> EndpointCheckSchedule \<Rightarrow> EndpointScheduleCheckpoint \<Rightarrow> instant
   \<Rightarrow> schedule_error + EndpointScheduleCheckpoint" where
  "expire_endpoint_schedule H s c now =
     (if now < sk_updated_at c
      then Inl (EndpointScheduleTransitionRejected ''Endpoint Schedule time is invalid'')
      else if now < es_active_until s
      then Inl (EndpointScheduleTransitionRejected ''Endpoint Schedule window has not elapsed'')
      else bind_result (schedule_identity s c) (\<lambda>_.
        if sk_state c = Sched_EXPIRED then Inr c
        else if sk_active_run_id c \<noteq> None
        then Inl (EndpointScheduleTransitionRejected ''Endpoint Schedule has an active run'')
        else if sk_state c = Sched_CANCELLED
        then Inl (EndpointScheduleTransitionRejected ''Endpoint Schedule is cancelled'')
        else schedule_next H c now (\<lambda>v. v\<lparr>sk_state := Sched_EXPIRED,
               sk_reason_code := Some ''schedule_window_elapsed''\<rparr>)))"

section \<open>Due times\<close>

definition on_grid :: "EndpointCheckSchedule \<Rightarrow> instant \<Rightarrow> bool" where
  "on_grid s t \<longleftrightarrow> es_active_from s \<le> t \<and> (t - es_active_from s) mod seconds (es_interval_seconds s) = 0"

lemma next_due_bounds:
  assumes "0 < es_interval_seconds s"
  shows "now < next_due s t now" "t + seconds (es_interval_seconds s) \<le> next_due s t now"
    "next_due s t now \<le> max now t + seconds (es_interval_seconds s)"
    "(next_due s t now - t) mod seconds (es_interval_seconds s) = 0"
proof -
  define I where "I = seconds (es_interval_seconds s)"
  define e where "e = max 0 (now - t)"
  have I: "0 < I" using assms by (simp add: I_def)
  have due: "next_due s t now = t + I * (e div I) + I"
    by (simp add: next_due_def I_def e_def Let_def algebra_simps)
  have "0 \<le> e div I" using I by (simp add: e_def pos_imp_zdiv_nonneg_iff)
  then have pos: "0 \<le> I * (e div I)" using I by simp
  have le: "I * (e div I) \<le> e" using mult_div_mod_eq [of I e] pos_mod_sign [OF I, of e] by linarith
  have lt: "e < I * (e div I) + I" using mult_div_mod_eq [of I e] pos_mod_bound [OF I, of e] by linarith
  show "now < next_due s t now" using due lt by (simp add: e_def)
  show "t + seconds (es_interval_seconds s) \<le> next_due s t now" using due pos by (simp add: I_def)
  show "next_due s t now \<le> max now t + seconds (es_interval_seconds s)"
    using due le by (auto simp: I_def e_def max_def split: if_splits)
  have "next_due s t now - t = I * (e div I + 1)" using due by (simp add: algebra_simps)
  then show "(next_due s t now - t) mod seconds (es_interval_seconds s) = 0" by (simp add: I_def)
qed

lemma on_grid_next:
  assumes "0 < es_interval_seconds s" and "on_grid s t"
  shows "on_grid s (next_due s t now)"
proof -
  define I where "I = seconds (es_interval_seconds s)"
  have "I dvd (next_due s t now - t) + (t - es_active_from s)"
    using next_due_bounds(4) [OF assms(1), of t now] assms(2)
    by (intro dvd_add) (simp_all add: I_def on_grid_def mod_eq_0_iff_dvd)
  then have "(next_due s t now - es_active_from s) mod I = 0" by (simp add: mod_eq_0_iff_dvd)
  then show ?thesis
    using next_due_bounds(2) [OF assms(1), of t now] assms by (auto simp: on_grid_def I_def)
qed

text \<open>No slot of the grid lies strictly between the later of the old due time and now, and the new due time.\<close>

lemma next_due_least:
  assumes "0 < es_interval_seconds s" and "on_grid s t" and "on_grid s u" and "now < u" "t < u"
  shows "next_due s t now \<le> u"
proof (rule ccontr)
  define I where "I = seconds (es_interval_seconds s)"
  have I: "0 < I" using assms(1) by (simp add: I_def)
  note n = next_due_bounds [OF assms(1), of t now, folded I_def]
  assume "\<not> next_due s t now \<le> u"
  then have d: "0 < next_due s t now - u" by simp
  have "on_grid s (next_due s t now)" by (rule on_grid_next [OF assms(1,2)])
  then have "I dvd next_due s t now - es_active_from s" "I dvd u - es_active_from s"
    using assms(3) by (auto simp: on_grid_def I_def)
  then have "I dvd (next_due s t now - es_active_from s) - (u - es_active_from s)" by (rule dvd_diff)
  then have "I dvd next_due s t now - u" by simp
  then have "I \<le> next_due s t now - u" using d zdvd_imp_le by blast
  with n(3) assms(4,5) show False by (auto simp: max_def split: if_splits)
qed

end
