(* ===== verification/Schedule_Store.thy ===== *)
theory Schedule_Store
  imports Endpoint_Schedule
begin

text \<open>
  The transactional store of recurring checks, \<^verbatim>\<open>src/src/vulnloom/red_team/schedule_store.py\<close>: its three tables as lists
  in insertion order, its operations, and the invariant that every sequence of them keeps. A row holds the model its JSON
  payload encodes, whose fields also fill the row's other columns. Each operation is one transaction, so an exception
  leaves the tables as they were.
\<close>

section \<open>Tables\<close>

record schedule_db =
  sdb_schedules :: "EndpointCheckSchedule list"
  sdb_checkpoints :: "EndpointScheduleCheckpoint list"
  sdb_runs :: "EndpointScheduleRun list"

definition empty_schedules :: schedule_db where
  "empty_schedules = \<lparr>sdb_schedules = [], sdb_checkpoints = [], sdb_runs = []\<rparr>"

datatype schedule_store_error =
    EndpointScheduleStoreRejected string | EndpointScheduleRecoveryRequired string
  | ScheduleFailed schedule_error | ScheduleIntegrityError

record EndpointScheduleClaim =
  cl_checkpoint :: EndpointScheduleCheckpoint
  cl_run :: EndpointScheduleRun
  cl_created :: bool

definition lift_schedule :: "schedule_error + 'a \<Rightarrow> schedule_store_error + 'a" where
  "lift_schedule r = (case r of Inl e \<Rightarrow> Inl (ScheduleFailed e) | Inr x \<Rightarrow> Inr x)"

section \<open>Reading\<close>

definition stored_schedule :: "schedule_db \<Rightarrow> digest \<Rightarrow> schedule_store_error + EndpointCheckSchedule" where
  "stored_schedule db i =
     (case List.find (\<lambda>s. es_schedule_id s = i) (sdb_schedules db) of
        None \<Rightarrow> Inl (EndpointScheduleStoreRejected ''Endpoint Schedule is unavailable'')
      | Some s \<Rightarrow> Inr s)"

definition schedule_by_key :: "schedule_db \<Rightarrow> string \<Rightarrow> EndpointCheckSchedule option" where
  "schedule_by_key db k = List.find (\<lambda>s. es_idempotency_key s = k) (sdb_schedules db)"

definition latest_checkpoint :: "schedule_db \<Rightarrow> digest \<Rightarrow> schedule_store_error + EndpointScheduleCheckpoint" where
  "latest_checkpoint db i =
     (case highest_revision sk_revision (filter (\<lambda>c. sk_schedule_id c = i) (sdb_checkpoints db)) of
        None \<Rightarrow> Inl (EndpointScheduleStoreRejected ''Endpoint Schedule checkpoint is unavailable'')
      | Some c \<Rightarrow> Inr c)"

definition stored_run :: "schedule_db \<Rightarrow> digest \<Rightarrow> schedule_store_error + EndpointScheduleRun" where
  "stored_run db i =
     (case List.find (\<lambda>r. sr_schedule_run_id r = i) (sdb_runs db) of
        None \<Rightarrow> Inl (EndpointScheduleStoreRejected ''Endpoint Schedule Run is unavailable'')
      | Some r \<Rightarrow> Inr r)"

definition assert_latest :: "schedule_db \<Rightarrow> EndpointScheduleCheckpoint \<Rightarrow> schedule_store_error + unit" where
  "assert_latest db c =
     bind_result (latest_checkpoint db (sk_schedule_id c)) (\<lambda>d.
       if d \<noteq> c then Inl (EndpointScheduleStoreRejected ''Endpoint Schedule checkpoint is stale'') else Inr ())"

definition assert_transition ::
  "EndpointScheduleCheckpoint \<Rightarrow> EndpointScheduleCheckpoint \<Rightarrow> schedule_store_error + unit" where
  "assert_transition c c' =
     (if sk_schedule_id c' \<noteq> sk_schedule_id c \<or> sk_revision c' \<noteq> sk_revision c + 1 \<or> sk_updated_at c' < sk_updated_at c
      then Inl (EndpointScheduleStoreRejected ''Endpoint Schedule checkpoint transition is invalid'') else Inr ())"

section \<open>Writing\<close>

text \<open>\<^verbatim>\<open>_insert_checkpoint\<close>: the primary key (schedule, revision) and the unique checkpoint identifier, and the foreign key
  to the schedule.\<close>

definition insert_checkpoint ::
  "schedule_db \<Rightarrow> EndpointScheduleCheckpoint \<Rightarrow> schedule_store_error + schedule_db" where
  "insert_checkpoint db c =
     (if list_ex (\<lambda>d. (sk_schedule_id d = sk_schedule_id c \<and> sk_revision d = sk_revision c) \<or>
                      sk_checkpoint_id d = sk_checkpoint_id c) (sdb_checkpoints db) \<or>
         \<not> list_ex (\<lambda>s. es_schedule_id s = sk_schedule_id c) (sdb_schedules db)
      then Inl ScheduleIntegrityError
      else Inr (db\<lparr>sdb_checkpoints := sdb_checkpoints db @ [c]\<rparr>))"

definition insert_run :: "schedule_db \<Rightarrow> EndpointScheduleRun \<Rightarrow> schedule_store_error + schedule_db" where
  "insert_run db r =
     (if list_ex (\<lambda>q. sr_schedule_run_id q = sr_schedule_run_id r \<or>
                      (sr_schedule_id q = sr_schedule_id r \<and> sr_scheduled_for q = sr_scheduled_for r)) (sdb_runs db) \<or>
         \<not> list_ex (\<lambda>s. es_schedule_id s = sr_schedule_id r) (sdb_schedules db)
      then Inl ScheduleIntegrityError
      else Inr (db\<lparr>sdb_runs := sdb_runs db @ [r]\<rparr>))"

text \<open>\<^verbatim>\<open>UPDATE ... WHERE schedule_run_id=? AND state='started' AND attempt=?\<close> and its \<^verbatim>\<open>rowcount\<close>\<close>

definition matches_started :: "digest \<Rightarrow> int \<Rightarrow> EndpointScheduleRun \<Rightarrow> bool" where
  "matches_started i attempt r \<longleftrightarrow> sr_schedule_run_id r = i \<and> sr_state r = Run_STARTED \<and> sr_attempt r = attempt"

definition update_run :: "schedule_db \<Rightarrow> digest \<Rightarrow> int \<Rightarrow> EndpointScheduleRun \<Rightarrow> schedule_db \<times> nat" where
  "update_run db i attempt r =
     (db\<lparr>sdb_runs := map (\<lambda>q. if matches_started i attempt q then r else q) (sdb_runs db)\<rparr>,
      length (filter (matches_started i attempt) (sdb_runs db)))"

text \<open>A \<^verbatim>\<open>sqlite3.IntegrityError\<close> that the operation turns into a rejection.\<close>

definition raced :: "string \<Rightarrow> schedule_store_error + 'a \<Rightarrow> schedule_store_error + 'a" where
  "raced msg r = (case r of Inl ScheduleIntegrityError \<Rightarrow> Inl (EndpointScheduleStoreRejected msg) | _ \<Rightarrow> r)"

definition create_schedule ::
  "(pyval \<Rightarrow> digest) \<Rightarrow> schedule_db \<Rightarrow> EndpointCheckSchedule
   \<Rightarrow> schedule_store_error + (EndpointCheckSchedule \<times> EndpointScheduleCheckpoint \<times> schedule_db)" where
  "create_schedule H db s =
     bind_result (lift_schedule (start_endpoint_schedule H s)) (\<lambda>initial.
     raced ''Endpoint Schedule creation raced''
       (case List.find (\<lambda>t. es_schedule_id t = es_schedule_id s \<or> es_idempotency_key t = es_idempotency_key s)
               (sdb_schedules db) of
          Some existing \<Rightarrow>
            if existing \<noteq> s
            then Inl (EndpointScheduleStoreRejected ''Endpoint Schedule identity was reused for different content'')
            else bind_result (latest_checkpoint db (es_schedule_id existing)) (\<lambda>c. Inr (existing, c, db))
        | None \<Rightarrow>
            bind_result (insert_checkpoint (db\<lparr>sdb_schedules := sdb_schedules db @ [s]\<rparr>) initial) (\<lambda>db'.
            Inr (s, initial, db'))))"

text \<open>The transaction of \<^verbatim>\<open>claim\<close>, for the checkpoint and the run that the pure transition returned.\<close>

definition claim_transaction ::
  "schedule_db \<Rightarrow> EndpointCheckSchedule \<Rightarrow> EndpointScheduleCheckpoint \<Rightarrow> EndpointScheduleCheckpoint \<Rightarrow> EndpointScheduleRun
   \<Rightarrow> schedule_store_error + (EndpointScheduleClaim \<times> schedule_db)" where
  "claim_transaction db s c advanced run =
     bind_result (stored_schedule db (es_schedule_id s)) (\<lambda>stored.
       if stored \<noteq> s
       then Inl (EndpointScheduleStoreRejected ''Endpoint Schedule authoritative record changed'')
       else
         bind_result (assert_latest db c) (\<lambda>_.
         case List.find (\<lambda>q. sr_schedule_run_id q = sr_schedule_run_id run \<or>
                (sr_schedule_id q = es_schedule_id s \<and> sr_scheduled_for q = sr_scheduled_for run)) (sdb_runs db) of
           Some existing \<Rightarrow>
             if sr_schedule_run_id existing \<noteq> sr_schedule_run_id run
             then Inl (EndpointScheduleStoreRejected ''Endpoint Schedule slot identity conflict'')
             else if sr_state existing = Run_STARTED
             then Inl (EndpointScheduleRecoveryRequired ''Endpoint Schedule Run requires explicit recovery'')
             else bind_result (latest_checkpoint db (es_schedule_id s)) (\<lambda>d.
                  Inr (\<lparr>cl_checkpoint = d, cl_run = existing, cl_created = False\<rparr>, db))
         | None \<Rightarrow>
             bind_result (insert_run db run) (\<lambda>db1.
             bind_result (insert_checkpoint db1 advanced) (\<lambda>db2.
             Inr (\<lparr>cl_checkpoint = advanced, cl_run = run, cl_created = True\<rparr>, db2)))))"

definition claim ::
  "(pyval \<Rightarrow> digest) \<Rightarrow> schedule_db \<Rightarrow> EndpointCheckSchedule \<Rightarrow> EndpointScheduleCheckpoint \<Rightarrow> instant
   \<Rightarrow> schedule_store_error + (EndpointScheduleClaim \<times> schedule_db)" where
  "claim H db s c now =
     bind_result (lift_schedule (claim_endpoint_schedule_run H s c now)) (\<lambda>(advanced, run).
     raced ''Endpoint Schedule Run claim raced'' (claim_transaction db s c advanced run))"

definition recover_run ::
  "(pyval \<Rightarrow> digest) \<Rightarrow> schedule_db \<Rightarrow> digest \<Rightarrow> instant
   \<Rightarrow> schedule_store_error + (EndpointScheduleClaim \<times> schedule_db)" where
  "recover_run H db i now =
     bind_result (stored_run db i) (\<lambda>run.
     bind_result (latest_checkpoint db (sr_schedule_id run)) (\<lambda>c.
       if sk_active_run_id c \<noteq> Some (sr_schedule_run_id run)
       then Inl (EndpointScheduleRecoveryRequired ''Endpoint Schedule active run binding is invalid'')
       else bind_result (lift_schedule (recover_endpoint_schedule_run H run now)) (\<lambda>recovered.
         let (db', changed) = update_run db i (sr_attempt run) recovered
         in if changed \<noteq> 1
            then Inl (EndpointScheduleRecoveryRequired ''Endpoint Schedule Run recovery raced'')
            else Inr (\<lparr>cl_checkpoint = c, cl_run = recovered, cl_created = True\<rparr>, db'))))"

text \<open>\<^verbatim>\<open>_finish\<close>\<close>

definition finish_stored ::
  "schedule_db \<Rightarrow> EndpointScheduleCheckpoint \<Rightarrow> EndpointScheduleCheckpoint \<Rightarrow> EndpointScheduleRun \<Rightarrow> EndpointScheduleRun
   \<Rightarrow> schedule_store_error + (EndpointScheduleClaim \<times> schedule_db)" where
  "finish_stored db previous c before after =
     bind_result (assert_transition previous c) (\<lambda>_.
       if sk_active_run_id previous \<noteq> Some (sr_schedule_run_id before) \<or>
          sr_schedule_run_id after \<noteq> sr_schedule_run_id before \<or> sk_active_run_id c \<noteq> None \<or>
          sk_last_run_id c \<noteq> Some (sr_schedule_run_id after)
       then Inl (EndpointScheduleStoreRejected ''Endpoint Schedule Run completion binding is invalid'')
       else bind_result (assert_latest db previous) (\<lambda>_.
         let (db', changed) = update_run db (sr_schedule_run_id after) (sr_attempt before) after
         in if changed \<noteq> 1
            then Inl (EndpointScheduleRecoveryRequired ''Endpoint Schedule Run completion raced'')
            else bind_result (insert_checkpoint db' c) (\<lambda>db''.
                 Inr (\<lparr>cl_checkpoint = c, cl_run = after, cl_created = True\<rparr>, db''))))"

definition materialize ::
  "(pyval \<Rightarrow> digest) \<Rightarrow> schedule_db \<Rightarrow> EndpointCheckSchedule \<Rightarrow> EndpointScheduleCheckpoint \<Rightarrow> EndpointScheduleRun
   \<Rightarrow> digest \<Rightarrow> digest \<Rightarrow> digest \<Rightarrow> instant \<Rightarrow> schedule_store_error + (EndpointScheduleClaim \<times> schedule_db)" where
  "materialize H db s c r flow_plan_id seed_set_id endpoint_recon_plan_id now =
     bind_result (lift_schedule
       (materialize_endpoint_schedule_run H s c r flow_plan_id seed_set_id endpoint_recon_plan_id now))
       (\<lambda>(advanced, completed). finish_stored db c advanced r completed)"

definition timeout ::
  "(pyval \<Rightarrow> digest) \<Rightarrow> schedule_db \<Rightarrow> EndpointCheckSchedule \<Rightarrow> EndpointScheduleCheckpoint \<Rightarrow> EndpointScheduleRun
   \<Rightarrow> bool \<Rightarrow> instant \<Rightarrow> schedule_store_error + (EndpointScheduleClaim \<times> schedule_db)" where
  "timeout H db s c r cleanup_complete now =
     bind_result (lift_schedule (timeout_endpoint_schedule_run H s c r cleanup_complete now))
       (\<lambda>(advanced, completed). finish_stored db c advanced r completed)"

definition fail_run ::
  "(pyval \<Rightarrow> digest) \<Rightarrow> schedule_db \<Rightarrow> EndpointCheckSchedule \<Rightarrow> EndpointScheduleCheckpoint \<Rightarrow> EndpointScheduleRun
   \<Rightarrow> bool \<Rightarrow> instant \<Rightarrow> schedule_store_error + (EndpointScheduleClaim \<times> schedule_db)" where
  "fail_run H db s c r cleanup_complete now =
     bind_result (lift_schedule (fail_endpoint_schedule_run H s c r cleanup_complete now))
       (\<lambda>(advanced, completed). finish_stored db c advanced r completed)"

definition advance_schedule ::
  "schedule_db \<Rightarrow> EndpointScheduleCheckpoint \<Rightarrow> EndpointScheduleCheckpoint
   \<Rightarrow> schedule_store_error + (EndpointScheduleCheckpoint \<times> schedule_db)" where
  "advance_schedule db previous c =
     bind_result (assert_transition previous c) (\<lambda>_.
     bind_result (assert_latest db previous) (\<lambda>_.
     bind_result (insert_checkpoint db c) (\<lambda>db'. Inr (c, db'))))"

end
