(* ===== verification/Schedule_Facts.thy ===== *)
theory Schedule_Facts
  imports Schedule_Store
begin

text \<open>
  What every sequence of store operations keeps: for each schedule, the latest checkpoint and the runs fit together (at
  most one run is started, and the checkpoint names it; every run has its own slot of the grid, before the next due time).
  The pure transitions keep the fit of one checkpoint and its runs; the store operations change one schedule at a time.
\<close>

section \<open>One schedule\<close>

definition run_fits ::
  "(pyval \<Rightarrow> digest) \<Rightarrow> EndpointCheckSchedule \<Rightarrow> EndpointScheduleCheckpoint \<Rightarrow> EndpointScheduleRun \<Rightarrow> bool" where
  "run_fits H s c r \<longleftrightarrow>
     EndpointScheduleRun_valid H r \<and> sr_schedule_id r = es_schedule_id s \<and> on_grid s (sr_scheduled_for r) \<and>
     sr_scheduled_for r < es_active_until s \<and>
     (if sr_state r = Run_STARTED
      then sk_active_run_id c = Some (sr_schedule_run_id r) \<and> sr_scheduled_for r = sk_next_due_at c
      else sr_scheduled_for r < sk_next_due_at c)"

definition schedule_ok ::
  "(pyval \<Rightarrow> digest) \<Rightarrow> EndpointCheckSchedule \<Rightarrow> EndpointScheduleCheckpoint \<Rightarrow> EndpointScheduleRun list \<Rightarrow> bool" where
  "schedule_ok H s c rs \<longleftrightarrow>
     0 < es_interval_seconds s \<and> EndpointScheduleCheckpoint_valid H c \<and> sk_schedule_id c = es_schedule_id s \<and>
     on_grid s (sk_next_due_at c) \<and> distinct (map sr_schedule_run_id rs) \<and> distinct (map sr_scheduled_for rs) \<and>
     (\<forall>r \<in> set rs. run_fits H s c r) \<and>
     (\<forall>i. sk_active_run_id c = Some i \<longrightarrow> (\<exists>r \<in> set rs. sr_schedule_run_id r = i \<and> sr_state r = Run_STARTED))"

lemma schedule_next_Inr:
  assumes "schedule_next H c now upd = Inr c'"
  shows "EndpointScheduleCheckpoint_valid H c'" "sk_revision c' = sk_revision c + 1" "sk_updated_at c' = now"
    "sk_schedule_id c' = sk_schedule_id (upd c)" "sk_state c' = sk_state (upd c)"
    "sk_next_due_at c' = sk_next_due_at (upd c)" "sk_active_run_id c' = sk_active_run_id (upd c)"
    "sk_last_run_id c' = sk_last_run_id (upd c)"
  using assms
  by (auto simp: schedule_next_def schedule_created_def EndpointScheduleCheckpoint_create_def Let_def
      split: option.splits if_splits)

lemma replace_run_Inr:
  assumes "replace_run H r upd = Inr r'"
  shows "r' = (upd r)\<lparr>sr_schedule_run_id := run_identity H (sr_schedule_id (upd r)) (sr_scheduled_for (upd r))\<rparr>"
    "EndpointScheduleRun_valid H r'"
  using assms
  by (auto simp: replace_run_def schedule_created_def EndpointScheduleRun_create_def Let_def split: option.splits if_splits)

lemma run_valid_identity:
  "EndpointScheduleRun_valid H r \<Longrightarrow> sr_schedule_run_id r = run_identity H (sr_schedule_id r) (sr_scheduled_for r)"
  by (simp add: EndpointScheduleRun_valid_def)

lemma started_is_active:
  assumes "schedule_ok H s c rs" and "q \<in> set rs" "sr_state q = Run_STARTED" and "r \<in> set rs"
    and "sk_active_run_id c = Some (sr_schedule_run_id r)"
  shows "q = r"
proof -
  have "sr_schedule_run_id q = sr_schedule_run_id r" using assms by (auto simp: schedule_ok_def run_fits_def)
  then show ?thesis using assms(1,2,4) by (auto simp: schedule_ok_def distinct_map dest: inj_onD)
qed

text \<open>A claim adds the run of the slot that is due.\<close>

lemma claim_Inr:
  assumes "claim_endpoint_schedule_run H s c now = Inr (c', r)"
  shows "sk_active_run_id c = None" "sk_next_due_at c \<le> now" "now < es_active_until s" "sk_state c = Sched_ACTIVE"
    "sk_schedule_id c = es_schedule_id s" "sk_updated_at c \<le> now"
    "EndpointScheduleRun_valid H r" "sr_state r = Run_STARTED" "sr_schedule_id r = es_schedule_id s"
    "sr_scheduled_for r = sk_next_due_at c" "sr_attempt r = 1" "sr_started_at r = now"
    "schedule_next H c now (\<lambda>v. v\<lparr>sk_active_run_id := Some (sr_schedule_run_id r)\<rparr>) = Inr c'"
  using assms
  by (auto simp: claim_endpoint_schedule_run_def schedule_current_def schedule_identity_def result_simps
      schedule_created_def EndpointScheduleRun_create_def Let_def split: if_splits option.splits)

lemma claim_keeps:
  assumes ok: "schedule_ok H s c rs" and claim: "claim_endpoint_schedule_run H s c now = Inr (c', r)"
    and new: "sr_schedule_run_id r \<notin> sr_schedule_run_id ` set rs"
  shows "schedule_ok H s c' (rs @ [r])"
proof -
  note k = claim_Inr [OF claim]
  have done_before: "sr_state q \<noteq> Run_STARTED \<and> sr_scheduled_for q < sk_next_due_at c" if "q \<in> set rs" for q
    using ok that k(1) by (auto simp: schedule_ok_def run_fits_def split: if_splits)
  have due: "sk_next_due_at c' = sk_next_due_at c" "sk_active_run_id c' = Some (sr_schedule_run_id r)"
    "sk_schedule_id c' = sk_schedule_id c" "EndpointScheduleCheckpoint_valid H c'"
    using schedule_next_Inr [OF k(13)] by simp_all
  have "run_fits H s c' q" if "q \<in> set rs" for q
    using ok that done_before [OF that] due by (auto simp: schedule_ok_def run_fits_def)
  moreover have "run_fits H s c' r"
    using ok k due by (auto simp: schedule_ok_def run_fits_def)
  ultimately show ?thesis
    using ok new done_before k due by (force simp: schedule_ok_def)
qed

text \<open>A recovery replaces the active run by one with the next attempt.\<close>

definition replace_matching :: "digest \<Rightarrow> int \<Rightarrow> EndpointScheduleRun \<Rightarrow> EndpointScheduleRun list \<Rightarrow> EndpointScheduleRun list" where
  "replace_matching i a r' rs = map (\<lambda>q. if matches_started i a q then r' else q) rs"

lemma replace_matching_set:
  assumes "distinct (map sr_schedule_run_id rs)" and "r \<in> set rs" "sr_state r = Run_STARTED"
  shows "set (replace_matching (sr_schedule_run_id r) (sr_attempt r) r' rs) = insert r' (set rs - {r})"
proof -
  have "matches_started (sr_schedule_run_id r) (sr_attempt r) q \<longleftrightarrow> q = r" if "q \<in> set rs" for q
    using assms that by (auto simp: matches_started_def distinct_map dest: inj_onD)
  then show ?thesis using assms(2) by (auto simp: replace_matching_def image_iff)
qed

lemma replace_matching_map:
  assumes "f r' = f r" and "distinct (map sr_schedule_run_id rs)" and "r \<in> set rs"
  shows "map f (replace_matching (sr_schedule_run_id r) a r' rs) = map f rs"
proof -
  have "q = r" if "q \<in> set rs" "sr_schedule_run_id q = sr_schedule_run_id r" for q
    using assms that by (auto simp: distinct_map dest: inj_onD)
  then show ?thesis using assms(1) by (auto simp: replace_matching_def matches_started_def)
qed

text \<open>Replacing the active run by a version of it keeps the fit, whether the run goes on or has ended.\<close>

lemma replace_keeps:
  assumes ok: "schedule_ok H s c rs" and r: "r \<in> set rs" "sr_state r = Run_STARTED"
    and same: "sr_scheduled_for r' = sr_scheduled_for r" "sr_schedule_id r' = sr_schedule_id r"
    and valid: "EndpointScheduleRun_valid H r'" "EndpointScheduleCheckpoint_valid H c'"
    and c': "sk_schedule_id c' = sk_schedule_id c" "on_grid s (sk_next_due_at c')"
    and fit: "if sr_state r' = Run_STARTED
      then sk_active_run_id c' = sk_active_run_id c \<and> sk_next_due_at c' = sk_next_due_at c
      else sk_active_run_id c' = None \<and> sk_next_due_at c < sk_next_due_at c'"
  shows "schedule_ok H s c' (replace_matching (sr_schedule_run_id r) (sr_attempt r) r' rs)"
proof -
  let ?rs' = "replace_matching (sr_schedule_run_id r) (sr_attempt r) r' rs"
  have dist: "distinct (map sr_schedule_run_id rs)" and slots: "distinct (map sr_scheduled_for rs)"
    and fits: "\<And>q. q \<in> set rs \<Longrightarrow> run_fits H s c q" and int: "0 < es_interval_seconds s"
    and sid: "sk_schedule_id c = es_schedule_id s"
    using ok by (auto simp: schedule_ok_def)
  note rfit = fits [OF r(1)]
  have id: "sr_schedule_run_id r' = sr_schedule_run_id r"
    using rfit same run_valid_identity [OF valid(1)] by (auto simp: run_fits_def dest: run_valid_identity)
  have active: "sk_active_run_id c = Some (sr_schedule_run_id r)" "sr_scheduled_for r = sk_next_due_at c"
    using rfit r(2) by (auto simp: run_fits_def)
  have set': "set ?rs' = insert r' (set rs - {r})" by (rule replace_matching_set [OF dist r])
  have others: "sr_state q \<noteq> Run_STARTED \<and> sr_scheduled_for q < sk_next_due_at c" if "q \<in> set rs" "q \<noteq> r" for q
    using started_is_active [OF ok that(1) _ r(1) active(1)] that fits [OF that(1)] by (auto simp: run_fits_def split: if_splits)
  have "sk_next_due_at c \<le> sk_next_due_at c'" using fit by (auto split: if_splits)
  then have "run_fits H s c' q" if "q \<in> set rs" "q \<noteq> r" for q
    using others [OF that] fits [OF that(1)] by (auto simp: run_fits_def)
  moreover have "run_fits H s c' r'"
    using rfit same valid fit active id by (auto simp: run_fits_def split: if_splits)
  ultimately have "\<forall>q \<in> set ?rs'. run_fits H s c' q" unfolding set' by blast
  moreover have "\<exists>q \<in> set ?rs'. sr_schedule_run_id q = i \<and> sr_state q = Run_STARTED" if "sk_active_run_id c' = Some i" for i
    using that fit active id unfolding set' by (auto split: if_splits)
  moreover have "map sr_schedule_run_id ?rs' = map sr_schedule_run_id rs"
    by (rule replace_matching_map [OF id dist r(1)])
  moreover have "map sr_scheduled_for ?rs' = map sr_scheduled_for rs"
    by (rule replace_matching_map [OF same(1) dist r(1)])
  ultimately show ?thesis using dist slots int sid c' valid by (simp add: schedule_ok_def)
qed

lemma recover_keeps:
  assumes ok: "schedule_ok H s c rs" and r: "r \<in> set rs" and rec: "recover_endpoint_schedule_run H r now = Inr r'"
  shows "schedule_ok H s c (replace_matching (sr_schedule_run_id r) (sr_attempt r) r' rs)"
    "sr_schedule_id r' = sr_schedule_id r" "sr_state r = Run_STARTED"
proof -
  have started: "sr_state r = Run_STARTED" and rep: "replace_run H r (\<lambda>v. v\<lparr>sr_attempt := sr_attempt r + 1\<rparr>) = Inr r'"
    using rec by (auto simp: recover_endpoint_schedule_run_def split: if_splits)
  note r' = replace_run_Inr [OF rep]
  show "sr_schedule_id r' = sr_schedule_id r" "sr_state r = Run_STARTED" using r'(1) started by simp_all
  show "schedule_ok H s c (replace_matching (sr_schedule_run_id r) (sr_attempt r) r' rs)"
    using ok started by (intro replace_keeps [OF ok r started _ _ r'(2)]) (simp_all add: r'(1) schedule_ok_def)
qed

text \<open>What the three ways to complete a run have in common.\<close>

definition completes ::
  "(pyval \<Rightarrow> digest) \<Rightarrow> EndpointCheckSchedule \<Rightarrow> EndpointScheduleCheckpoint \<Rightarrow> EndpointScheduleRun \<Rightarrow> instant
   \<Rightarrow> EndpointScheduleCheckpoint \<Rightarrow> EndpointScheduleRun \<Rightarrow> bool" where
  "completes H s c r now c' r' \<longleftrightarrow>
     sk_active_run_id c = Some (sr_schedule_run_id r) \<and> sr_state r = Run_STARTED \<and> sk_schedule_id c = es_schedule_id s \<and>
     EndpointScheduleRun_valid H r' \<and> sr_state r' \<noteq> Run_STARTED \<and> sr_scheduled_for r' = sr_scheduled_for r \<and>
     sr_schedule_id r' = sr_schedule_id r \<and> sr_attempt r' = sr_attempt r \<and> sr_completed_at r' = Some now \<and>
     EndpointScheduleCheckpoint_valid H c' \<and> sk_schedule_id c' = sk_schedule_id c \<and>
     sk_revision c' = sk_revision c + 1 \<and> sk_active_run_id c' = None \<and>
     sk_next_due_at c' = next_due s (sr_scheduled_for r) now"

lemma finish_run_Inr:
  assumes "finish_run H s c r now reason = Inr (c', r')"
  shows "r' = r" "EndpointScheduleCheckpoint_valid H c'" "sk_schedule_id c' = sk_schedule_id c"
    "sk_revision c' = sk_revision c + 1" "sk_active_run_id c' = None" "sk_next_due_at c' = next_due s (sr_scheduled_for r) now"
  using assms by (auto simp: finish_run_def result_simps dest: schedule_next_Inr)

lemma completesI:
  assumes act: "active_run s c r now b = Inr u" and rep: "replace_run H r upd = Inr r1"
    and fin: "finish_run H s c r1 now reason = Inr (c', r')"
    and upd: "sr_scheduled_for (upd r) = sr_scheduled_for r" "sr_schedule_id (upd r) = sr_schedule_id r"
      "sr_attempt (upd r) = sr_attempt r" "sr_state (upd r) \<noteq> Run_STARTED" "sr_completed_at (upd r) = Some now"
  shows "completes H s c r now c' r'"
proof -
  have "sk_active_run_id c = Some (sr_schedule_run_id r)" "sr_state r = Run_STARTED" "sk_schedule_id c = es_schedule_id s"
    using act by (auto simp: active_run_def schedule_current_def schedule_identity_def result_simps split: if_splits)
  moreover have "EndpointScheduleRun_valid H r1" "sr_scheduled_for r1 = sr_scheduled_for r"
    "sr_schedule_id r1 = sr_schedule_id r" "sr_attempt r1 = sr_attempt r" "sr_state r1 \<noteq> Run_STARTED"
    "sr_completed_at r1 = Some now"
    using replace_run_Inr [OF rep] upd by auto
  ultimately show ?thesis using finish_run_Inr [OF fin] by (simp add: completes_def)
qed

lemma materialize_completes:
  "materialize_endpoint_schedule_run H s c r f g e now = Inr (c', r') \<Longrightarrow> completes H s c r now c' r'"
  unfolding materialize_endpoint_schedule_run_def bind_result_Inr_iff by (elim exE conjE, erule (2) completesI) simp_all

lemma timeout_completes:
  "timeout_endpoint_schedule_run H s c r b now = Inr (c', r') \<Longrightarrow> completes H s c r now c' r'"
  unfolding timeout_endpoint_schedule_run_def if_raise_Inr_iff bind_result_Inr_iff
  by (elim exE conjE, erule (2) completesI) simp_all

lemma fail_completes:
  "fail_endpoint_schedule_run H s c r b now = Inr (c', r') \<Longrightarrow> completes H s c r now c' r'"
  unfolding fail_endpoint_schedule_run_def bind_result_Inr_iff by (elim exE conjE, erule (2) completesI) simp_all

lemma completes_keeps:
  assumes ok: "schedule_ok H s c rs" and r: "r \<in> set rs" and comp: "completes H s c r now c' r'"
  shows "schedule_ok H s c' (replace_matching (sr_schedule_run_id r) (sr_attempt r) r' rs)"
proof -
  have started: "sr_state r = Run_STARTED" using comp by (simp add: completes_def)
  have int: "0 < es_interval_seconds s" and fit: "run_fits H s c r" using ok r by (auto simp: schedule_ok_def)
  then have slot: "sr_scheduled_for r = sk_next_due_at c" "on_grid s (sr_scheduled_for r)"
    using started by (auto simp: run_fits_def)
  then have "sk_next_due_at c < next_due s (sr_scheduled_for r) now"
    using next_due_bounds(2) [OF int, of "sr_scheduled_for r" now] int by simp
  then show ?thesis
    using comp on_grid_next [OF int slot(2)]
    by (intro replace_keeps [OF ok r started]) (auto simp: completes_def)
qed

text \<open>Pausing, resuming, cancelling and expiring.\<close>

inductive control_transition ::
  "(pyval \<Rightarrow> digest) \<Rightarrow> EndpointCheckSchedule \<Rightarrow> EndpointScheduleCheckpoint \<Rightarrow> instant \<Rightarrow> EndpointScheduleCheckpoint \<Rightarrow> bool"
  for H s c now c' where
  pause: "pause_endpoint_schedule H s c now = Inr c' \<Longrightarrow> control_transition H s c now c'"
| resume: "resume_endpoint_schedule H s c now = Inr c' \<Longrightarrow> control_transition H s c now c'"
| cancel: "cancel_endpoint_schedule H s c now = Inr c' \<Longrightarrow> control_transition H s c now c'"
| expire: "expire_endpoint_schedule H s c now = Inr c' \<Longrightarrow> control_transition H s c now c'"

lemma control_cases:
  assumes "control_transition H s c now c'" and "EndpointScheduleCheckpoint_valid H c"
  obtains "c' = c"
  | "sk_active_run_id c = None" "sk_active_run_id c' = None" "sk_schedule_id c' = sk_schedule_id c"
    "sk_revision c' = sk_revision c + 1" "EndpointScheduleCheckpoint_valid H c'"
    "sk_next_due_at c' \<in> {sk_next_due_at c, next_due s (sk_next_due_at c) now}"
  using assms
  by (cases; fastforce simp: pause_endpoint_schedule_def resume_endpoint_schedule_def cancel_endpoint_schedule_def
      expire_endpoint_schedule_def EndpointScheduleCheckpoint_valid_def result_simps split: if_splits dest: schedule_next_Inr)

lemma control_keeps:
  assumes ok: "schedule_ok H s c rs" and step: "control_transition H s c now c'"
  shows "schedule_ok H s c' rs"
proof -
  have valid: "EndpointScheduleCheckpoint_valid H c" and int: "0 < es_interval_seconds s"
    and grid: "on_grid s (sk_next_due_at c)" using ok by (auto simp: schedule_ok_def)
  from step valid show ?thesis
  proof (cases rule: control_cases)
    case 2
    have "sk_next_due_at c \<le> sk_next_due_at c'"
      using 2(6) next_due_bounds(2) [OF int, of "sk_next_due_at c" now] int by auto
    moreover have "on_grid s (sk_next_due_at c')" using 2(6) on_grid_next [OF int grid] grid by auto
    ultimately show ?thesis
      using ok 2 by (force simp: schedule_ok_def run_fits_def split: if_splits)
  qed (use ok in simp)
qed

section \<open>The store\<close>

definition runs_of :: "schedule_db \<Rightarrow> digest \<Rightarrow> EndpointScheduleRun list" where
  "runs_of db i = filter (\<lambda>r. sr_schedule_id r = i) (sdb_runs db)"

definition store_ok :: "(pyval \<Rightarrow> digest) \<Rightarrow> url_env \<Rightarrow> schedule_db \<Rightarrow> bool" where
  "store_ok H U db \<longleftrightarrow>
     distinct (map es_schedule_id (sdb_schedules db)) \<and> distinct (map sr_schedule_run_id (sdb_runs db)) \<and>
     (\<forall>c \<in> set (sdb_checkpoints db). sk_schedule_id c \<in> es_schedule_id ` set (sdb_schedules db)) \<and>
     (\<forall>r \<in> set (sdb_runs db). sr_schedule_id r \<in> es_schedule_id ` set (sdb_schedules db)) \<and>
     (\<forall>s \<in> set (sdb_schedules db). EndpointCheckSchedule_valid H U s \<and>
        (\<exists>c. latest_checkpoint db (es_schedule_id s) = Inr c \<and> schedule_ok H s c (runs_of db (es_schedule_id s))))"

lemma latest_mem: "latest_checkpoint db i = Inr c \<Longrightarrow> c \<in> set (sdb_checkpoints db) \<and> sk_schedule_id c = i"
  by (auto simp: latest_checkpoint_def split: option.splits dest: highest_revision_mem)

lemma latest_after_insert:
  assumes "insert_checkpoint db c' = Inr db'" and "latest_checkpoint db (sk_schedule_id c') = Inr c"
    and "sk_revision c < sk_revision c'"
  shows "latest_checkpoint db' j = (if j = sk_schedule_id c' then Inr c' else latest_checkpoint db j)"
    "sdb_checkpoints db' = sdb_checkpoints db @ [c']" "sdb_schedules db' = sdb_schedules db" "sdb_runs db' = sdb_runs db"
  using assms by (auto simp: insert_checkpoint_def latest_checkpoint_def highest_revision_snoc split: if_splits option.splits)

lemma latest_same_checkpoints: "sdb_checkpoints db' = sdb_checkpoints db \<Longrightarrow> latest_checkpoint db' i = latest_checkpoint db i"
  by (simp add: latest_checkpoint_def)

text \<open>An operation on one schedule leaves the others alone.\<close>

lemma store_ok_change:
  assumes ok: "store_ok H U db" and s: "s \<in> set (sdb_schedules db)"
    and schedules: "sdb_schedules db' = sdb_schedules db"
    and latest: "\<And>j. latest_checkpoint db' j = (if j = es_schedule_id s then Inr c' else latest_checkpoint db j)"
    and cps: "set (sdb_checkpoints db') \<subseteq> insert c' (set (sdb_checkpoints db))" "sk_schedule_id c' = es_schedule_id s"
    and runs: "\<And>j. runs_of db' j = (if j = es_schedule_id s then rs' else runs_of db j)"
    and ids: "distinct (map sr_schedule_run_id (sdb_runs db'))"
    and fk: "sr_schedule_id ` set (sdb_runs db') \<subseteq> insert (es_schedule_id s) (sr_schedule_id ` set (sdb_runs db))"
    and fit: "schedule_ok H s c' rs'"
  shows "store_ok H U db'"
proof -
  have "latest_checkpoint db' (es_schedule_id t) = Inr c' \<and> schedule_ok H t c' (runs_of db' (es_schedule_id t))"
    if "t \<in> set (sdb_schedules db)" "es_schedule_id t = es_schedule_id s" for t
  proof -
    have "t = s" using ok s that by (auto simp: store_ok_def distinct_map dest: inj_onD)
    then show ?thesis using latest runs fit by simp
  qed
  then have "\<exists>c. latest_checkpoint db' (es_schedule_id t) = Inr c \<and> schedule_ok H t c (runs_of db' (es_schedule_id t))"
    if "t \<in> set (sdb_schedules db)" for t
    using ok that latest runs by (cases "es_schedule_id t = es_schedule_id s") (auto simp: store_ok_def)
  moreover have "\<forall>c \<in> set (sdb_checkpoints db'). sk_schedule_id c \<in> es_schedule_id ` set (sdb_schedules db)"
    using ok cps s by (auto simp: store_ok_def)
  moreover have "\<forall>r \<in> set (sdb_runs db'). sr_schedule_id r \<in> es_schedule_id ` set (sdb_schedules db)"
    using ok fk s by (auto simp: store_ok_def)
  ultimately show ?thesis using ok schedules ids by (simp add: store_ok_def)
qed

lemma runs_of_update:
  assumes "distinct (map sr_schedule_run_id (sdb_runs db))" and r: "r \<in> set (sdb_runs db)"
    and "sr_schedule_id r' = sr_schedule_id r" and "update_run db (sr_schedule_run_id r) (sr_attempt r) r' = (db', n)"
  shows "runs_of db' j = (if j = sr_schedule_id r
      then replace_matching (sr_schedule_run_id r) (sr_attempt r) r' (runs_of db j) else runs_of db j)"
    "sdb_checkpoints db' = sdb_checkpoints db" "sdb_schedules db' = sdb_schedules db"
    "sdb_runs db' = replace_matching (sr_schedule_run_id r) (sr_attempt r) r' (sdb_runs db)"
proof -
  have same: "q = r" if "q \<in> set (sdb_runs db)" "matches_started (sr_schedule_run_id r) (sr_attempt r) q" for q
    using assms that by (auto simp: matches_started_def distinct_map dest: inj_onD)
  have "filter (\<lambda>q. sr_schedule_id q = j) (replace_matching (sr_schedule_run_id r) (sr_attempt r) r' rs) =
      (if j = sr_schedule_id r then replace_matching (sr_schedule_run_id r) (sr_attempt r) r' (filter (\<lambda>q. sr_schedule_id q = j) rs)
       else filter (\<lambda>q. sr_schedule_id q = j) rs)" if "set rs \<subseteq> set (sdb_runs db)" for rs
    using that by (induction rs) (use same assms(3) in \<open>auto simp: replace_matching_def\<close>)
  then show "runs_of db' j = (if j = sr_schedule_id r
      then replace_matching (sr_schedule_run_id r) (sr_attempt r) r' (runs_of db j) else runs_of db j)"
    using assms(4) by (auto simp: update_run_def runs_of_def replace_matching_def)
qed (use assms(4) in \<open>auto simp: update_run_def replace_matching_def\<close>)

text \<open>One successful operation. The schedule, and a run to be completed, are the stored ones; the checkpoint may be any
  copy a caller holds.\<close>

inductive schedule_op :: "(pyval \<Rightarrow> digest) \<Rightarrow> url_env \<Rightarrow> schedule_db \<Rightarrow> schedule_db \<Rightarrow> bool" for H U db db' where
  op_create: "create_schedule H db s = Inr (s', c, db') \<Longrightarrow> EndpointCheckSchedule_valid H U s \<Longrightarrow> schedule_op H U db db'"
| op_claim: "claim H db s c now = Inr (k, db') \<Longrightarrow> schedule_op H U db db'"
| op_recover: "recover_run H db i now = Inr (k, db') \<Longrightarrow> schedule_op H U db db'"
| op_materialize: "materialize H db s c r f g e now = Inr (k, db') \<Longrightarrow> s \<in> set (sdb_schedules db) \<Longrightarrow>
    r \<in> set (sdb_runs db) \<Longrightarrow> schedule_op H U db db'"
| op_timeout: "timeout H db s c r b now = Inr (k, db') \<Longrightarrow> s \<in> set (sdb_schedules db) \<Longrightarrow>
    r \<in> set (sdb_runs db) \<Longrightarrow> schedule_op H U db db'"
| op_fail: "fail_run H db s c r b now = Inr (k, db') \<Longrightarrow> s \<in> set (sdb_schedules db) \<Longrightarrow>
    r \<in> set (sdb_runs db) \<Longrightarrow> schedule_op H U db db'"
| op_advance: "control_transition H s c now c' \<Longrightarrow> advance_schedule db c c' = Inr (d, db') \<Longrightarrow>
    s \<in> set (sdb_schedules db) \<Longrightarrow> schedule_op H U db db'"

lemma lift_schedule_Inr [result_simps]: "lift_schedule r = Inr x \<longleftrightarrow> r = Inr x"
  by (cases r) (auto simp: lift_schedule_def)

lemma assert_latest_Inr: "assert_latest db c = Inr u \<longleftrightarrow> latest_checkpoint db (sk_schedule_id c) = Inr c"
  by (auto simp: assert_latest_def result_simps)

lemma store_ok_fit:
  assumes "store_ok H U db" and "s \<in> set (sdb_schedules db)" and "latest_checkpoint db (es_schedule_id s) = Inr c"
  shows "schedule_ok H s c (runs_of db (es_schedule_id s))"
  using assms by (force simp: store_ok_def)

lemma finish_store_ok:
  assumes ok: "store_ok H U db" and s: "s \<in> set (sdb_schedules db)" and r: "r \<in> set (sdb_runs db)"
    and comp: "completes H s c r now c' r'" and fin: "finish_stored db c c' r r' = Inr (k, db')"
  shows "store_ok H U db'"
proof -
  from fin obtain db1 where latest: "latest_checkpoint db (sk_schedule_id c) = Inr c"
    and id: "sr_schedule_run_id r' = sr_schedule_run_id r"
    and up: "update_run db (sr_schedule_run_id r) (sr_attempt r) r' = (db1, 1)" and ins: "insert_checkpoint db1 c' = Inr db'"
    by (auto simp: finish_stored_def assert_latest_Inr result_simps split: if_splits prod.splits)
  have c: "sk_schedule_id c = es_schedule_id s" "sk_schedule_id c' = es_schedule_id s"
    "sk_revision c < sk_revision c'" "sr_schedule_id r' = sr_schedule_id r"
    "sk_active_run_id c = Some (sr_schedule_run_id r)"
    using comp by (auto simp: completes_def)
  note fit = store_ok_fit [OF ok s latest [unfolded c(1)]]
  from ok have dist: "distinct (map sr_schedule_run_id (sdb_runs db))" by (simp add: store_ok_def)
  from fit c(5) obtain q where q: "q \<in> set (runs_of db (es_schedule_id s))" "sr_schedule_run_id q = sr_schedule_run_id r"
    by (auto simp: schedule_ok_def)
  then have "q = r" using dist r by (auto simp: runs_of_def distinct_map dest: inj_onD)
  then have rin: "r \<in> set (runs_of db (es_schedule_id s))" and sid: "sr_schedule_id r = es_schedule_id s"
    using q by (auto simp: runs_of_def)
  note u = runs_of_update [OF dist r c(4) up, unfolded sid]
  have "latest_checkpoint db1 (sk_schedule_id c') = Inr c" using latest u(2) c by (simp add: latest_checkpoint_def)
  note l = latest_after_insert [OF ins this c(3)]
  show ?thesis
  proof (rule store_ok_change [OF ok s, where c' = c' and
        rs' = "replace_matching (sr_schedule_run_id r) (sr_attempt r) r' (runs_of db (es_schedule_id s))"])
    show "latest_checkpoint db' j = (if j = es_schedule_id s then Inr c' else latest_checkpoint db j)" for j
      using l(1) c u(2) by (simp add: latest_checkpoint_def)
    show "runs_of db' j = (if j = es_schedule_id s
        then replace_matching (sr_schedule_run_id r) (sr_attempt r) r' (runs_of db (es_schedule_id s)) else runs_of db j)" for j
      using u(1) [of j] l(4) by (simp add: runs_of_def)
    show "distinct (map sr_schedule_run_id (sdb_runs db'))"
      using dist l(4) u(4) replace_matching_map [OF id dist r] by simp
    show "sr_schedule_id ` set (sdb_runs db') \<subseteq> insert (es_schedule_id s) (sr_schedule_id ` set (sdb_runs db))"
      using l(4) u(4) sid c(4) by (auto simp: replace_matching_def)
    show "schedule_ok H s c' (replace_matching (sr_schedule_run_id r) (sr_attempt r) r' (runs_of db (es_schedule_id s)))"
      by (rule completes_keeps [OF fit rin comp])
  qed (use l u c in auto)
qed

lemma recover_store_ok:
  assumes ok: "store_ok H U db" and rec: "recover_run H db i now = Inr (k, db')"
  shows "store_ok H U db'"
proof -
  from rec obtain r c r' where r: "stored_run db i = Inr r" and latest: "latest_checkpoint db (sr_schedule_id r) = Inr c"
    and rr: "recover_endpoint_schedule_run H r now = Inr r'" and up: "update_run db i (sr_attempt r) r' = (db', 1)"
    by (auto simp: recover_run_def case_prod_beta prod_eq_iff Let_def result_simps split: if_splits)
  have rmem: "r \<in> set (sdb_runs db)" and i: "i = sr_schedule_run_id r"
    using r by (auto simp: stored_run_def find_Some_iff split: option.splits)
  from ok rmem obtain s where s: "s \<in> set (sdb_schedules db)" "es_schedule_id s = sr_schedule_id r"
    by (auto simp: store_ok_def)
  note fit = store_ok_fit [OF ok s(1) latest [folded s(2)]]
  have rin: "r \<in> set (runs_of db (es_schedule_id s))" using rmem s by (simp add: runs_of_def)
  note k = recover_keeps [OF fit rin rr]
  from ok have dist: "distinct (map sr_schedule_run_id (sdb_runs db))" by (simp add: store_ok_def)
  note u = runs_of_update [OF dist rmem k(2) up [unfolded i], folded s(2)]
  have rid: "sr_schedule_run_id r' = sr_schedule_run_id r"
  proof -
    have "replace_run H r (\<lambda>v. v\<lparr>sr_attempt := sr_attempt r + 1\<rparr>) = Inr r'"
      using rr by (auto simp: recover_endpoint_schedule_run_def split: if_splits)
    moreover have "EndpointScheduleRun_valid H r" using fit rin by (auto simp: schedule_ok_def run_fits_def)
    ultimately show ?thesis using run_valid_identity [of H r] by (auto dest: replace_run_Inr(1))
  qed
  show ?thesis
  proof (rule store_ok_change [OF ok s(1), where c' = c and
        rs' = "replace_matching (sr_schedule_run_id r) (sr_attempt r) r' (runs_of db (es_schedule_id s))"])
    show "latest_checkpoint db' j = (if j = es_schedule_id s then Inr c else latest_checkpoint db j)" for j
      using latest u(2) s by (simp add: latest_checkpoint_def)
    show "sk_schedule_id c = es_schedule_id s" using latest_mem [OF latest] s by simp
    show "distinct (map sr_schedule_run_id (sdb_runs db'))"
      using dist u(4) replace_matching_map [OF rid dist rmem] by simp
    show "sr_schedule_id ` set (sdb_runs db') \<subseteq> insert (es_schedule_id s) (sr_schedule_id ` set (sdb_runs db))"
      using u(4) s k(2) by (auto simp: replace_matching_def)
  qed (use u k(1) in auto)
qed

lemma advance_store_ok:
  assumes ok: "store_ok H U db" and s: "s \<in> set (sdb_schedules db)" and ctl: "control_transition H s c now c'"
    and adv: "advance_schedule db c c' = Inr (d, db')"
  shows "store_ok H U db'"
proof -
  from adv have latest: "latest_checkpoint db (sk_schedule_id c) = Inr c" and ins: "insert_checkpoint db c' = Inr db'"
    and rev: "sk_revision c < sk_revision c'" "sk_schedule_id c' = sk_schedule_id c"
    by (auto simp: advance_schedule_def assert_latest_Inr assert_transition_def result_simps split: if_splits)
  have sid: "sk_schedule_id c = es_schedule_id s"
    using ctl by cases (auto simp: pause_endpoint_schedule_def resume_endpoint_schedule_def cancel_endpoint_schedule_def
      expire_endpoint_schedule_def schedule_current_def schedule_identity_def result_simps split: if_splits)
  note fit = store_ok_fit [OF ok s latest [unfolded sid]]
  note l = latest_after_insert [OF ins latest [folded rev(2)] rev(1)]
  show ?thesis
  proof (rule store_ok_change [OF ok s, where c' = c' and rs' = "runs_of db (es_schedule_id s)"])
    show "schedule_ok H s c' (runs_of db (es_schedule_id s))" by (rule control_keeps [OF fit ctl])
    show "latest_checkpoint db' j = (if j = es_schedule_id s then Inr c' else latest_checkpoint db j)" for j
      using l(1) rev sid by simp
  qed (use l rev sid ok in \<open>auto simp: runs_of_def store_ok_def\<close>)
qed

lemma raced_Inr [result_simps]: "raced msg r = Inr x \<longleftrightarrow> r = Inr x"
  by (auto simp: raced_def split: sum.splits schedule_store_error.splits)

lemma claim_transaction_cases:
  assumes "claim_transaction db s c c' r = Inr (k, db')"
  obtains (replayed) "db' = db" "\<not> cl_created k" "cl_run k \<in> set (sdb_runs db)"
      "sr_schedule_run_id (cl_run k) = sr_schedule_run_id r"
  | (inserted) db1 where "\<forall>q \<in> set (sdb_runs db). sr_schedule_run_id q \<noteq> sr_schedule_run_id r"
      "db1 = db\<lparr>sdb_runs := sdb_runs db @ [r]\<rparr>" "insert_checkpoint db1 c' = Inr db'"
      "k = \<lparr>cl_checkpoint = c', cl_run = r, cl_created = True\<rparr>"
proof (cases "List.find (\<lambda>q. sr_schedule_run_id q = sr_schedule_run_id r \<or>
         (sr_schedule_id q = es_schedule_id s \<and> sr_scheduled_for q = sr_scheduled_for r)) (sdb_runs db)")
  case None
  have "\<forall>q \<in> set (sdb_runs db). sr_schedule_run_id q \<noteq> sr_schedule_run_id r" using None by (auto simp: find_None_iff)
  moreover obtain db1 where "insert_run db r = Inr db1" "insert_checkpoint db1 c' = Inr db'"
      "k = \<lparr>cl_checkpoint = c', cl_run = r, cl_created = True\<rparr>"
    using assms None by (auto simp: claim_transaction_def result_simps)
  ultimately show ?thesis by (intro inserted) (auto simp: insert_run_def split: if_splits)
next
  case (Some q)
  then have "q \<in> set (sdb_runs db)" by (auto simp: find_Some_iff)
  with Some show ?thesis
    using assms by (intro replayed) (auto simp: claim_transaction_def result_simps split: if_splits)
qed

lemma claim_transaction_guards:
  assumes "claim_transaction db s c c' r = Inr x"
  shows "s \<in> set (sdb_schedules db)" "latest_checkpoint db (sk_schedule_id c) = Inr c"
proof -
  from assms have st: "stored_schedule db (es_schedule_id s) = Inr s" and as: "assert_latest db c = Inr ()"
    by (auto simp: claim_transaction_def result_simps)
  show "s \<in> set (sdb_schedules db)" using st by (auto simp: stored_schedule_def find_Some_iff split: option.splits)
  show "latest_checkpoint db (sk_schedule_id c) = Inr c" using as by (simp add: assert_latest_Inr)
qed

lemma claim_store_ok:
  assumes ok: "store_ok H U db" and cl: "claim H db s c now = Inr (k, db')"
  shows "store_ok H U db'"
proof -
  from cl obtain c' r where pure: "claim_endpoint_schedule_run H s c now = Inr (c', r)"
    and tx: "claim_transaction db s c c' r = Inr (k, db')"
    by (auto simp: claim_def result_simps)
  note s = claim_transaction_guards(1) [OF tx] and latest = claim_transaction_guards(2) [OF tx]
  note p = claim_Inr [OF pure]
  have c': "sk_schedule_id c' = es_schedule_id s" "sk_revision c < sk_revision c'"
    using schedule_next_Inr [OF p(13)] p(5) by auto
  note fit = store_ok_fit [OF ok s latest [unfolded p(5)]]
  from tx show ?thesis
  proof (cases rule: claim_transaction_cases)
    case replayed
    then show ?thesis using ok by simp
  next
    case (inserted db1)
    note new = inserted(1) and db1 = inserted(2)
    have "latest_checkpoint db1 (sk_schedule_id c') = Inr c" using latest c' p(5) by (simp add: db1 latest_checkpoint_def)
    note l = latest_after_insert [OF inserted(3) this c'(2)]
    have "sr_schedule_run_id r \<notin> sr_schedule_run_id ` set (runs_of db (es_schedule_id s))"
      using new by (auto simp: runs_of_def)
    note keep = claim_keeps [OF fit pure this]
    show ?thesis
    proof (rule store_ok_change [OF ok s, where c' = c' and rs' = "runs_of db (es_schedule_id s) @ [r]"])
      show "latest_checkpoint db' j = (if j = es_schedule_id s then Inr c' else latest_checkpoint db j)" for j
        using l(1) c' by (simp add: db1 latest_checkpoint_def)
      show "runs_of db' j = (if j = es_schedule_id s then runs_of db (es_schedule_id s) @ [r] else runs_of db j)" for j
        using l(4) p(9) by (simp add: runs_of_def db1)
      show "distinct (map sr_schedule_run_id (sdb_runs db'))"
        using l(4) new ok by (auto simp: db1 store_ok_def)
    qed (use l c' p keep in \<open>auto simp: db1\<close>)
  qed
qed

lemma start_ok:
  assumes "start_endpoint_schedule H s = Inr c" and "EndpointCheckSchedule_valid H U s"
  shows "schedule_ok H s c []" "sk_schedule_id c = es_schedule_id s" "sk_revision c = 0"
  using assms
  by (auto simp: start_endpoint_schedule_def schedule_created_def EndpointScheduleCheckpoint_create_def Let_def schedule_ok_def
      on_grid_def EndpointCheckSchedule_valid_def split: if_splits option.splits)

lemma create_store_ok:
  assumes ok: "store_ok H U db" and valid: "EndpointCheckSchedule_valid H U s"
    and cr: "create_schedule H db s = Inr (s', c, db')"
  shows "store_ok H U db'"
proof (cases "db' = db")
  case False
  with cr obtain i where start: "start_endpoint_schedule H s = Inr i"
    and none: "\<forall>t \<in> set (sdb_schedules db). es_schedule_id t \<noteq> es_schedule_id s"
    and db': "db' = db\<lparr>sdb_schedules := sdb_schedules db @ [s], sdb_checkpoints := sdb_checkpoints db @ [i]\<rparr>"
    by (auto simp: create_schedule_def insert_checkpoint_def find_None_iff result_simps split: if_splits option.splits)
  note i = start_ok [OF start valid]
  have no_cp: "filter (\<lambda>c. sk_schedule_id c = es_schedule_id s) (sdb_checkpoints db) = []"
    and no_run: "runs_of db (es_schedule_id s) = []"
    using ok none by (auto simp: store_ok_def runs_of_def filter_empty_conv)
  have latest: "latest_checkpoint db' j = (if j = es_schedule_id s then Inr i else latest_checkpoint db j)" for j
    using i(2) no_cp by (auto simp: latest_checkpoint_def db')
  have runs: "runs_of db' j = runs_of db j" for j by (simp add: runs_of_def db')
  have "\<exists>c. latest_checkpoint db' (es_schedule_id t) = Inr c \<and> schedule_ok H t c (runs_of db' (es_schedule_id t))"
    if "t \<in> set (sdb_schedules db)" for t
    using ok that latest runs none by (auto simp: store_ok_def)
  moreover have "\<exists>c. latest_checkpoint db' (es_schedule_id s) = Inr c \<and> schedule_ok H s c (runs_of db' (es_schedule_id s))"
    using latest runs no_run i(1) by simp
  ultimately show ?thesis using ok none valid i(2) by (auto simp: store_ok_def db')
qed (use ok in simp)

lemma schedule_op_ok:
  assumes "schedule_op H U db db'" and "store_ok H U db"
  shows "store_ok H U db'"
  using assms(1)
proof cases
  case (op_materialize s c r f g e now k)
  then show ?thesis
    using finish_store_ok [OF assms(2)] by (auto simp: materialize_def result_simps dest!: materialize_completes)
next
  case (op_timeout s c r b now k)
  then show ?thesis
    using finish_store_ok [OF assms(2)] by (auto simp: timeout_def result_simps dest!: timeout_completes)
next
  case (op_fail s c r b now k)
  then show ?thesis
    using finish_store_ok [OF assms(2)] by (auto simp: fail_run_def result_simps dest!: fail_completes)
qed (auto intro: create_store_ok [OF assms(2)] claim_store_ok [OF assms(2)] recover_store_ok [OF assms(2)]
    advance_store_ok [OF assms(2)])

lemma empty_store_ok: "store_ok H U empty_schedules"
  by (simp add: store_ok_def empty_schedules_def)

lemma reachable_store_ok: "steps (schedule_op H U) empty_schedules n db \<Longrightarrow> store_ok H U db"
  by (erule steps_invariant [where P = "store_ok H U"]) (auto intro: empty_store_ok schedule_op_ok)

end
