(* ===== verification/Endpoint_Reservation.thy ===== *)
theory Endpoint_Reservation
  imports Endpoint_Models
begin

text \<open>
  The action-budget reservation of an endpoint plan: the transitions of
  \<^verbatim>\<open>src/src/vulnloom/red_team/seed_state_machine.py\<close>, and the budget that runs of it keep.
\<close>

section \<open>Transitions\<close>

datatype reservation_error = EndpointReconReservationTransitionRejected string | ReservationValueError

text \<open>\<^verbatim>\<open>EndpointReconReservation.model_validate(values)\<close>\<close>

definition validate_reservation :: "EndpointReconReservation \<Rightarrow> reservation_error + EndpointReconReservation" where
  "validate_reservation r = (if EndpointReconReservation_valid r then Inr r else Inl ReservationValueError)"

definition replace_reservation ::
  "EndpointReconReservation \<Rightarrow> (EndpointReconReservation \<Rightarrow> EndpointReconReservation)
   \<Rightarrow> reservation_error + EndpointReconReservation" where
  "replace_reservation r upd = validate_reservation (upd r)"

definition reserve_endpoint_recon :: "EndpointReconPlan \<Rightarrow> reservation_error + EndpointReconReservation" where
  "reserve_endpoint_recon p = validate_reservation
     \<lparr>rv_plan_id = ep_plan_id p, rv_state = Res_ACTIVE, rv_reserved_requests = int (length (ep_steps p)),
      rv_consumed_requests = 0, rv_created_at = ep_created_at p, rv_updated_at = ep_created_at p,
      rv_terminal_reason = None\<rparr>"

definition monotonic_time :: "EndpointReconReservation \<Rightarrow> instant \<Rightarrow> reservation_error + unit" where
  "monotonic_time r now =
     (if now < rv_updated_at r
      then Inl (EndpointReconReservationTransitionRejected ''Endpoint Recon reservation time cannot move backwards'')
      else Inr ())"

definition consume_endpoint_recon_request ::
  "EndpointReconReservation \<Rightarrow> instant \<Rightarrow> reservation_error + EndpointReconReservation" where
  "consume_endpoint_recon_request r now =
     bind_result (monotonic_time r now) (\<lambda>_.
       if rv_state r \<noteq> Res_ACTIVE
       then Inl (EndpointReconReservationTransitionRejected ''only an active Endpoint Recon reservation can be consumed'')
       else
         let consumed = rv_consumed_requests r + 1;
             terminal = (consumed = rv_reserved_requests r)
         in if rv_reserved_requests r < consumed
         then Inl (EndpointReconReservationTransitionRejected ''Endpoint Recon reservation is exhausted'')
         else replace_reservation r (\<lambda>v. v\<lparr>rv_state := (if terminal then Res_CONSUMED else Res_ACTIVE),
                rv_consumed_requests := consumed, rv_updated_at := now,
                rv_terminal_reason := (if terminal then Some ''all_steps_consumed'' else None)\<rparr>))"

definition cancel_endpoint_recon ::
  "EndpointReconReservation \<Rightarrow> instant \<Rightarrow> string \<Rightarrow> reservation_error + EndpointReconReservation" where
  "cancel_endpoint_recon r now reason =
     bind_result (monotonic_time r now) (\<lambda>_.
       if rv_state r = Res_CANCELLED then Inr r
       else if rv_state r \<noteq> Res_ACTIVE
       then Inl (EndpointReconReservationTransitionRejected ''only an active Endpoint Recon reservation can be cancelled'')
       else replace_reservation r (\<lambda>v. v\<lparr>rv_state := Res_CANCELLED, rv_updated_at := now,
              rv_terminal_reason := Some reason\<rparr>))"

definition expire_endpoint_recon ::
  "EndpointReconReservation \<Rightarrow> instant \<Rightarrow> reservation_error + EndpointReconReservation" where
  "expire_endpoint_recon r now =
     bind_result (monotonic_time r now) (\<lambda>_.
       if rv_state r = Res_EXPIRED then Inr r
       else if rv_state r \<noteq> Res_ACTIVE
       then Inl (EndpointReconReservationTransitionRejected ''only an active Endpoint Recon reservation can expire'')
       else replace_reservation r (\<lambda>v. v\<lparr>rv_state := Res_EXPIRED, rv_updated_at := now,
              rv_terminal_reason := Some ''reservation_expired''\<rparr>))"

section \<open>Runs\<close>

text \<open>One step is one accepted transition of an active reservation (\<^verbatim>\<open>cancel\<close> and \<^verbatim>\<open>expire\<close> return a reservation that
  already is what they ask for, which is no step).\<close>

inductive reservation_step :: "EndpointReconReservation \<Rightarrow> EndpointReconReservation \<Rightarrow> bool" where
  consumed: "consume_endpoint_recon_request r now = Inr r' \<Longrightarrow> reservation_step r r'"
| cancelled: "cancel_endpoint_recon r now reason = Inr r' \<Longrightarrow> rv_state r = Res_ACTIVE \<Longrightarrow> reservation_step r r'"
| expired: "expire_endpoint_recon r now = Inr r' \<Longrightarrow> rv_state r = Res_ACTIVE \<Longrightarrow> reservation_step r r'"

lemmas reservation_defs = replace_reservation_def validate_reservation_def monotonic_time_def
  consume_endpoint_recon_request_def cancel_endpoint_recon_def expire_endpoint_recon_def

lemma reservation_step_effect:
  assumes "reservation_step r r'"
  shows "rv_state r = Res_ACTIVE" "EndpointReconReservation_valid r'" "rv_plan_id r' = rv_plan_id r"
    "rv_reserved_requests r' = rv_reserved_requests r" "rv_updated_at r \<le> rv_updated_at r'"
    "(rv_state r' \<in> {Res_CANCELLED, Res_EXPIRED} \<and> rv_consumed_requests r' = rv_consumed_requests r) \<or>
     (rv_consumed_requests r' = rv_consumed_requests r + 1 \<and>
      rv_state r' = (if rv_consumed_requests r' = rv_reserved_requests r then Res_CONSUMED else Res_ACTIVE))"
  using assms by (cases; auto simp: reservation_defs result_simps Let_def split: if_splits)+

definition reservation_fuel :: "EndpointReconReservation \<Rightarrow> int" where
  "reservation_fuel r = (if rv_state r = Res_ACTIVE then rv_reserved_requests r - rv_consumed_requests r else 0)"

lemma active_has_budget:
  "EndpointReconReservation_valid r \<Longrightarrow> rv_state r = Res_ACTIVE \<Longrightarrow> rv_consumed_requests r < rv_reserved_requests r"
  by (auto simp: EndpointReconReservation_valid_def)

interpretation reservation: budgeted_machine reservation_step EndpointReconReservation_valid reservation_fuel
proof
  fix r r' :: EndpointReconReservation assume r: "EndpointReconReservation_valid r"
  show "0 \<le> reservation_fuel r" using active_has_budget [OF r] by (auto simp: reservation_fuel_def)
  assume step: "reservation_step r r'"
  show "EndpointReconReservation_valid r'" by (rule reservation_step_effect(2) [OF step])
  show "reservation_fuel r' < reservation_fuel r"
    using reservation_step_effect [OF step] active_has_budget [OF r] by (auto simp: reservation_fuel_def split: if_splits)
qed

lemma reservation_steps_keep:
  "steps reservation_step r n r' \<Longrightarrow> rv_plan_id r' = rv_plan_id r \<and> rv_reserved_requests r' = rv_reserved_requests r \<and>
     rv_updated_at r \<le> rv_updated_at r'"
proof (induction rule: steps.induct)
  case (steps_step s n t u)
  then show ?case using reservation_step_effect(3,4,5) [of t u] by auto
qed simp

text \<open>A reserved request is never refused before the budget is used up.\<close>

lemma consume_accepted:
  assumes "EndpointReconReservation_valid r" and "rv_state r = Res_ACTIVE" and "rv_updated_at r \<le> now"
  obtains r' where "consume_endpoint_recon_request r now = Inr r'" "rv_updated_at r' = now"
    "EndpointReconReservation_valid r'" "rv_consumed_requests r' = rv_consumed_requests r + 1"
    "rv_reserved_requests r' = rv_reserved_requests r"
    "rv_state r' = (if rv_consumed_requests r + 1 = rv_reserved_requests r then Res_CONSUMED else Res_ACTIVE)"
proof -
  define terminal where "terminal = (rv_consumed_requests r + 1 = rv_reserved_requests r)"
  define r' where "r' = r\<lparr>rv_state := (if terminal then Res_CONSUMED else Res_ACTIVE),
      rv_consumed_requests := rv_consumed_requests r + 1, rv_updated_at := now,
      rv_terminal_reason := (if terminal then Some ''all_steps_consumed'' else None)\<rparr>"
  note lt = active_has_budget [OF assms(1,2)]
  have "is_reason_code ''all_steps_consumed''" by code_simp
  then have "EndpointReconReservation_valid r'"
    using assms lt by (auto simp: EndpointReconReservation_valid_def r'_def terminal_def)
  moreover have "consume_endpoint_recon_request r now = Inr r'"
    using assms lt \<open>EndpointReconReservation_valid r'\<close>
    by (simp add: consume_endpoint_recon_request_def monotonic_time_def replace_reservation_def validate_reservation_def
        Let_def r'_def terminal_def)
  ultimately show thesis by (intro that [of r']) (auto simp: r'_def terminal_def)
qed

text \<open>Consuming requests at the given times, one after the other.\<close>

fun consume_all :: "EndpointReconReservation \<Rightarrow> instant list \<Rightarrow> reservation_error + EndpointReconReservation" where
  "consume_all r [] = Inr r"
| "consume_all r (t # ts) = bind_result (consume_endpoint_recon_request r t) (\<lambda>r'. consume_all r' ts)"

lemma consume_all_append: "consume_all r (ts @ us) = bind_result (consume_all r ts) (\<lambda>r'. consume_all r' us)"
proof (induction ts arbitrary: r)
  case (Cons t ts)
  then show ?case by (cases "consume_endpoint_recon_request r t") simp_all
qed simp

lemma consume_all_accepted:
  assumes "EndpointReconReservation_valid r" and "rv_state r = Res_ACTIVE" and "sorted (rv_updated_at r # ts)"
    and "int (length ts) \<le> rv_reserved_requests r - rv_consumed_requests r"
  shows "\<exists>r'. consume_all r ts = Inr r' \<and> rv_consumed_requests r' = rv_consumed_requests r + int (length ts) \<and>
    rv_state r' = (if int (length ts) = rv_reserved_requests r - rv_consumed_requests r then Res_CONSUMED else Res_ACTIVE)"
  using assms
proof (induction ts arbitrary: r)
  case Nil
  then show ?case using active_has_budget [of r] by auto
next
  case (Cons t ts)
  from Cons.prems obtain r1 where r1: "consume_endpoint_recon_request r t = Inr r1" "rv_updated_at r1 = t"
      "EndpointReconReservation_valid r1" "rv_consumed_requests r1 = rv_consumed_requests r + 1"
      "rv_reserved_requests r1 = rv_reserved_requests r"
      "rv_state r1 = (if rv_consumed_requests r + 1 = rv_reserved_requests r then Res_CONSUMED else Res_ACTIVE)"
    by (elim consume_accepted [of r t]) auto
  show ?case
  proof (cases "ts = []")
    case True
    with r1 show ?thesis by auto
  next
    case False
    then have "rv_state r1 = Res_ACTIVE" using r1(6) Cons.prems(4) by (cases ts) auto
    then have "\<exists>r'. consume_all r1 ts = Inr r' \<and> rv_consumed_requests r' = rv_consumed_requests r1 + int (length ts) \<and>
        rv_state r' = (if int (length ts) = rv_reserved_requests r1 - rv_consumed_requests r1 then Res_CONSUMED else Res_ACTIVE)"
      using Cons.prems r1 by (intro Cons.IH) auto
    then show ?thesis using r1 by auto
  qed
qed

end
