(* ===== verification/Schedule_Properties.thy ===== *)
theory Schedule_Properties
  imports Schedule_Facts Endpoint_Reservation Examples
begin

text \<open>
  The properties of recurring endpoint checks and of the request reservations of their plans, each with a concrete
  example.
\<close>

section \<open>Concrete schedules\<close>

definition sched_digest :: "pyval \<Rightarrow> digest" where
  "sched_digest v = (case v of PDict kvs \<Rightarrow>
       (case map_of kvs ''revision'' of Some (PInt k) \<Rightarrow> pad_digest k | _ \<Rightarrow> pad_digest 15) | _ \<Rightarrow> pad_digest 14)"

definition demo_limits :: EndpointReconLimits where
  "demo_limits = \<lparr>el_max_steps = 10, el_max_requests = 10, el_per_request_seconds = 5, el_total_seconds = 30,
     el_max_attempts = 3\<rparr>"

definition demo_schedule :: EndpointCheckSchedule where
  "demo_schedule = (let v = \<lparr>es_schedule_id = [], es_scope_id = 8, es_scope_version = 1,
       es_target_url = ''https://shop.test/'', es_visibility = BLACK_BOX, es_test_class = ''read_only'',
       es_operator_ref = ''operator:alice'', es_emergency_contact_ref = ''contact:ops'', es_paths = [''/health''],
       es_interval_seconds = 60, es_run_ttl_seconds = 30, es_max_consecutive_failures = 2, es_recon_limits = demo_limits,
       es_active_from = seconds 100, es_active_until = seconds 1000, es_created_at = seconds 100,
       es_idempotency_key = ''k''\<rparr>
     in v\<lparr>es_schedule_id := sched_digest (EndpointCheckSchedule_content v)\<rparr>)"

definition demo_due :: EndpointScheduleCheckpoint where
  "demo_due = (let v = \<lparr>sk_checkpoint_id = [], sk_schedule_id = es_schedule_id demo_schedule, sk_revision = 0,
       sk_state = Sched_ACTIVE, sk_next_due_at = seconds 100, sk_active_run_id = None, sk_last_run_id = None,
       sk_reason_code = None, sk_updated_at = seconds 100\<rparr>
     in v\<lparr>sk_checkpoint_id := sched_digest (EndpointScheduleCheckpoint_content v)\<rparr>)"

definition demo_run :: EndpointScheduleRun where
  "demo_run = \<lparr>sr_schedule_run_id = run_identity sched_digest (es_schedule_id demo_schedule) (seconds 100),
     sr_schedule_id = es_schedule_id demo_schedule, sr_scheduled_for = seconds 100, sr_state = Run_STARTED, sr_attempt = 1,
     sr_started_at = seconds 105, sr_deadline = seconds 135, sr_flow_plan_id = None, sr_seed_set_id = None,
     sr_endpoint_recon_plan_id = None, sr_cleanup_complete = None, sr_terminal_reason = None, sr_completed_at = None\<rparr>"

definition demo_claimed :: EndpointScheduleCheckpoint where
  "demo_claimed = (let v = demo_due\<lparr>sk_checkpoint_id := [], sk_revision := 1,
       sk_active_run_id := Some (sr_schedule_run_id demo_run), sk_updated_at := seconds 105\<rparr>
     in v\<lparr>sk_checkpoint_id := sched_digest (EndpointScheduleCheckpoint_content v)\<rparr>)"

definition demo_paused :: EndpointScheduleCheckpoint where
  "demo_paused = (let v = demo_due\<lparr>sk_checkpoint_id := [], sk_revision := 1, sk_state := Sched_PAUSED,
       sk_next_due_at := seconds 160, sk_reason_code := Some ''operator_paused'', sk_updated_at := seconds 110\<rparr>
     in v\<lparr>sk_checkpoint_id := sched_digest (EndpointScheduleCheckpoint_content v)\<rparr>)"

definition demo_sdb1 :: schedule_db where
  "demo_sdb1 = \<lparr>sdb_schedules = [demo_schedule], sdb_checkpoints = [demo_due], sdb_runs = []\<rparr>"

definition demo_sdb2 :: schedule_db where
  "demo_sdb2 = \<lparr>sdb_schedules = [demo_schedule], sdb_checkpoints = [demo_due, demo_claimed], sdb_runs = [demo_run]\<rparr>"

definition demo_url_env :: url_env where
  "demo_url_env = \<lparr>ue_bracket_ok = (\<lambda>_. False), ue_nfkc_ok = (\<lambda>_. True)\<rparr>"

definition demo_endpoint_plan :: EndpointReconPlan where
  "demo_endpoint_plan = \<lparr>ep_plan_id = pad_digest 1, ep_seed_set_id = pad_digest 2, ep_flow_plan_id = pad_digest 3,
     ep_source_checkpoint_id = pad_digest 4, ep_target_id = 9, ep_scope_id = 8, ep_scope_version = 1,
     ep_test_class = ''read_only'',
     ep_steps = map (\<lambda>k. \<lparr>st_step_id = pad_digest k, st_seed_id = pad_digest k, st_ordinal = k,
        st_target_url = ''https://shop.test/'', st_target_url_digest = pad_digest 5, st_method = Meth_HEAD\<rparr>) [1, 2],
     ep_limits = demo_limits, ep_created_at = 10, ep_deadline = 100, ep_idempotency_key = ''k''\<rparr>"

definition demo_reservation :: EndpointReconReservation where
  "demo_reservation = \<lparr>rv_plan_id = pad_digest 1, rv_state = Res_ACTIVE, rv_reserved_requests = 2,
     rv_consumed_requests = 0, rv_created_at = 10, rv_updated_at = 10, rv_terminal_reason = None\<rparr>"

lemma sched_digest_hex: "hex_valued sched_digest"
  by (auto simp: hex_valued_def sched_digest_def pad_digest_digest split: pyval.split option.split)

lemma demo_schedule_valid: "EndpointCheckSchedule_valid sched_digest demo_url_env demo_schedule"
  by code_simp

lemma demo_create: "create_schedule sched_digest empty_schedules demo_schedule = Inr (demo_schedule, demo_due, demo_sdb1)"
  by code_simp

lemma demo_claim: "claim sched_digest demo_sdb1 demo_schedule demo_due (seconds 105) =
    Inr (\<lparr>cl_checkpoint = demo_claimed, cl_run = demo_run, cl_created = True\<rparr>, demo_sdb2)"
  by code_simp

lemma demo_sdb2_reachable: "steps (schedule_op sched_digest demo_url_env) empty_schedules (Suc (Suc 0)) demo_sdb2"
  by (rule steps_step [OF steps_step [OF steps_refl]])
    (rule op_create [OF demo_create demo_schedule_valid], rule op_claim [OF demo_claim])

lemma demo_schedule_facts:
  "EndpointScheduleCheckpoint_valid sched_digest demo_due" "EndpointScheduleCheckpoint_valid sched_digest demo_paused"
  "sk_schedule_id demo_due = es_schedule_id demo_schedule" "sk_schedule_id demo_paused = es_schedule_id demo_schedule"
  "runs_of demo_sdb2 (es_schedule_id demo_schedule) = [demo_run]" "demo_schedule \<in> set (sdb_schedules demo_sdb2)"
  "latest_checkpoint demo_sdb2 (es_schedule_id demo_schedule) = Inr demo_claimed"
  "reserve_endpoint_recon demo_endpoint_plan = Inr demo_reservation"
  by code_simp+

lemma demo_schedule_fields:
  "es_interval_seconds demo_schedule = 60" "es_active_from demo_schedule = seconds 100"
  "es_active_until demo_schedule = seconds 1000" "sk_state demo_due = Sched_ACTIVE" "sk_active_run_id demo_due = None"
  "sk_next_due_at demo_due = seconds 100" "sk_updated_at demo_due = seconds 100" "sk_state demo_paused = Sched_PAUSED"
  "sk_next_due_at demo_paused = seconds 160" "sk_updated_at demo_paused = seconds 110"
  "sr_state demo_run = Run_STARTED" "sr_deadline demo_run = seconds 135" "sk_updated_at demo_claimed = seconds 105"
  "sr_scheduled_for demo_run = seconds 100"
  "ep_created_at demo_endpoint_plan = 10" "length (ep_steps demo_endpoint_plan) = 2"
  by code_simp+

section \<open>Accepted transitions\<close>

text \<open>A change of the state, the due time, the runs and the reason of a valid checkpoint is accepted when they fit.\<close>

lemma schedule_next_total:
  assumes valid: "EndpointScheduleCheckpoint_valid H c"
    and upd: "sk_schedule_id (upd c) = sk_schedule_id c" "opt_all is_digest (sk_active_run_id (upd c))"
      "opt_all is_digest (sk_last_run_id (upd c))" "opt_all is_reason_code (sk_reason_code (upd c))"
      "(sk_state (upd c) = Sched_ACTIVE) = (sk_reason_code (upd c) = None)"
      "sk_active_run_id (upd c) = None \<or> sk_state (upd c) = Sched_ACTIVE"
  obtains c' where "schedule_next H c now upd = Inr c'"
proof -
  have "\<exists>c'. schedule_next H c now upd = Inr c'"
    using assms
    by (simp add: schedule_next_def schedule_created_def EndpointScheduleCheckpoint_create_def Let_def
        EndpointScheduleCheckpoint_valid_def sealed_by_def EndpointScheduleCheckpoint_content_def)
  then show thesis using that by blast
qed

lemma claimed_run_valid:
  assumes "is_digest (es_schedule_id s)" and "sk_next_due_at c \<le> now" and "now < es_active_until s"
    and "1 \<le> es_run_ttl_seconds s"
  shows "EndpointScheduleRun_valid H \<lparr>sr_schedule_run_id = run_identity H (es_schedule_id s) (sk_next_due_at c),
      sr_schedule_id = es_schedule_id s, sr_scheduled_for = sk_next_due_at c,
      sr_state = Run_STARTED, sr_attempt = 1, sr_started_at = now,
      sr_deadline = min (now + seconds (es_run_ttl_seconds s)) (es_active_until s),
      sr_flow_plan_id = None, sr_seed_set_id = None, sr_endpoint_recon_plan_id = None,
      sr_cleanup_complete = None, sr_terminal_reason = None, sr_completed_at = None\<rparr>"
  using assms by (simp add: EndpointScheduleRun_valid_def Let_def)

lemma claim_accepted:
  assumes hex: "hex_valued H" and s: "EndpointCheckSchedule_valid H U s" and c: "EndpointScheduleCheckpoint_valid H c"
    "sk_schedule_id c = es_schedule_id s"
    and ready: "sk_state c = Sched_ACTIVE" "sk_active_run_id c = None" "sk_next_due_at c \<le> now" "sk_updated_at c \<le> now"
      "es_active_from s \<le> now" "now < es_active_until s"
  shows "is_ok (claim_endpoint_schedule_run H s c now)"
proof -
  have "is_digest (es_schedule_id s)" "1 \<le> es_run_ttl_seconds s" using s by (simp_all add: EndpointCheckSchedule_valid_def)
  note valid = claimed_run_valid [OF this(1) ready(3,6) this(2), of H]
  have "is_digest (run_identity H (es_schedule_id s) (sk_next_due_at c))"
    using hex by (simp add: hex_valued_def run_identity_def)
  then obtain c' where "schedule_next H c now
      (\<lambda>v. v\<lparr>sk_active_run_id := Some (run_identity H (es_schedule_id s) (sk_next_due_at c))\<rparr>) = Inr c'"
    using c ready
    by (elim schedule_next_total [OF c(1), where upd = "\<lambda>v. v\<lparr>sk_active_run_id :=
        Some (run_identity H (es_schedule_id s) (sk_next_due_at c))\<rparr>" and now = now, rotated -1])
      (auto simp: EndpointScheduleCheckpoint_valid_def)
  with valid c ready show ?thesis
    by (simp add: claim_endpoint_schedule_run_def schedule_current_def schedule_identity_def schedule_created_def
        EndpointScheduleRun_create_def Let_def)
qed

lemma timeout_accepted:
  assumes hex: "hex_valued H" and ok: "schedule_ok H s c rs" and r: "r \<in> set rs" "sr_state r = Run_STARTED"
    and now: "sr_deadline r \<le> now" "sk_updated_at c \<le> now"
  shows "\<exists>c' r'. timeout_endpoint_schedule_run H s c r cleanup now = Inr (c', r') \<and> sr_state r' = Run_TIMED_OUT \<and>
    sk_active_run_id c' = None \<and> sk_state c' = (if cleanup then Sched_ACTIVE else Sched_PAUSED)"
proof -
  have fit: "run_fits H s c r" and valid: "EndpointScheduleCheckpoint_valid H c" and sid: "sk_schedule_id c = es_schedule_id s"
    using ok r by (auto simp: schedule_ok_def)
  have act: "sk_active_run_id c = Some (sr_schedule_run_id r)" and rsid: "sr_schedule_id r = es_schedule_id s"
    and rv: "EndpointScheduleRun_valid H r" and grid: "es_active_from s \<le> sr_scheduled_for r"
    using fit r by (auto simp: run_fits_def on_grid_def)
  have times: "sr_scheduled_for r \<le> sr_started_at r" "sr_started_at r < sr_deadline r"
    using rv by (simp_all add: EndpointScheduleRun_valid_def Let_def)
  define r' where "r' = r\<lparr>sr_state := Run_TIMED_OUT, sr_cleanup_complete := Some cleanup,
      sr_terminal_reason := Some ''materialization_timed_out'', sr_completed_at := Some now\<rparr>"
  have "is_reason_code ''materialization_timed_out''" "is_reason_code ''cleanup_unproven''" by code_simp+
  note codes = this
  have r'v: "EndpointScheduleRun_valid H r'"
    using rv r(2) now times codes by (simp add: EndpointScheduleRun_valid_def Let_def r'_def)
  have id: "sr_schedule_run_id r = run_identity H (sr_schedule_id r) (sr_scheduled_for r)" by (rule run_valid_identity [OF rv])
  have rep: "replace_run H r (\<lambda>v. v\<lparr>sr_state := Run_TIMED_OUT, sr_cleanup_complete := Some cleanup,
      sr_terminal_reason := Some ''materialization_timed_out'', sr_completed_at := Some now\<rparr>) = Inr r'"
  proof -
    have "r'\<lparr>sr_schedule_run_id := run_identity H (sr_schedule_id r') (sr_scheduled_for r')\<rparr> = r'"
      using id by (simp add: r'_def)
    then show ?thesis
      using r'v by (simp add: replace_run_def schedule_created_def EndpointScheduleRun_create_def Let_def r'_def)
  qed
  let ?reason = "if cleanup then None else Some ''cleanup_unproven''"
  let ?upd = "\<lambda>v. v\<lparr>sk_state := (if ?reason \<noteq> None then Sched_PAUSED else Sched_ACTIVE),
        sk_next_due_at := next_due s (sr_scheduled_for r') now, sk_active_run_id := None,
        sk_last_run_id := Some (sr_schedule_run_id r'), sk_reason_code := ?reason\<rparr>"
  have "is_digest (sr_schedule_run_id r')" using hex id by (simp add: r'_def hex_valued_def run_identity_def)
  then obtain c' where c': "schedule_next H c now ?upd = Inr c'"
    using codes by (elim schedule_next_total [OF valid, where upd = ?upd and now = now, rotated -1]) auto
  have "timeout_endpoint_schedule_run H s c r cleanup now = Inr (c', r')"
    using rep c' now sid act rsid r(2) times grid
    by (simp add: timeout_endpoint_schedule_run_def active_run_def schedule_current_def schedule_identity_def finish_run_def)
  then show ?thesis using schedule_next_Inr [OF c'] by (auto simp: r'_def)
qed

lemma one_started:
  assumes "schedule_ok H s c rs"
  shows "length (filter (\<lambda>r. sr_state r = Run_STARTED) rs) \<le> 1"
proof -
  let ?fs = "filter (\<lambda>r. sr_state r = Run_STARTED) rs"
  have "q = r" if "q \<in> set ?fs" "r \<in> set ?fs" for q r
  proof -
    have "run_fits H s c r" using that assms by (auto simp: schedule_ok_def)
    then have "sk_active_run_id c = Some (sr_schedule_run_id r)" using that by (simp add: run_fits_def)
    then show ?thesis using started_is_active [OF assms, of q r] that by auto
  qed
  then have "card (set ?fs) \<le> 1" by (simp only: One_nat_def card_le_Suc0_iff_eq [OF List.finite_set]) blast
  moreover have "distinct ?fs" using assms by (simp add: schedule_ok_def distinct_map)
  ultimately show ?thesis by (simp only: distinct_card)
qed

lemma grid_count:
  assumes int: "0 < es_interval_seconds s" and "distinct ts" and ts: "\<forall>t \<in> set ts. on_grid s t \<and> t < e"
    and e: "es_active_from s < e"
  shows "int (length ts) * seconds (es_interval_seconds s) < e - es_active_from s + seconds (es_interval_seconds s)"
proof -
  define I where "I = seconds (es_interval_seconds s)"
  define k where "k t = (t - es_active_from s) div I" for t
  define K where "K = (e - es_active_from s - 1) div I"
  have I: "0 < I" using int by (simp add: I_def)
  have k: "t - es_active_from s = I * k t" if "t \<in> set ts" for t
    using ts that mult_div_mod_eq [of I "t - es_active_from s"] by (auto simp: k_def on_grid_def I_def)
  have inj: "inj_on k (set ts)"
  proof (rule inj_onI)
    fix t u assume "t \<in> set ts" "u \<in> set ts" "k t = k u"
    then show "t = u" using k [of t] k [of u] by simp
  qed
  have sub: "k ` set ts \<subseteq> {0..K}"
  proof
    fix x assume "x \<in> k ` set ts"
    then obtain t where t: "t \<in> set ts" "x = k t" by auto
    have "0 \<le> t - es_active_from s" "t - es_active_from s \<le> e - es_active_from s - 1" using ts t(1) by (auto simp: on_grid_def)
    then show "x \<in> {0..K}"
      using I by (auto simp: t(2) k_def K_def pos_imp_zdiv_nonneg_iff intro: zdiv_mono1)
  qed
  have K0: "0 \<le> K" using e I by (simp add: K_def pos_imp_zdiv_nonneg_iff)
  have "I * K \<le> e - es_active_from s - 1"
    using mult_div_mod_eq [of I "e - es_active_from s - 1"] pos_mod_sign [OF I, of "e - es_active_from s - 1"]
    unfolding K_def by linarith
  note K = K0 this
  have "length ts = card (k ` set ts)" using inj assms(2) by (simp add: card_image distinct_card)
  also have "\<dots> \<le> card {0..K}" by (rule card_mono [OF _ sub]) simp
  finally have "int (length ts) \<le> K + 1" using K by simp
  then have "int (length ts) * I \<le> (K + 1) * I" using I by (intro mult_right_mono) auto
  also have "\<dots> < e - es_active_from s + I" using K by (simp add: algebra_simps)
  finally show ?thesis by (simp add: I_def)
qed

section \<open>Due times\<close>

text \<open>The next due time is the next slot: for a due time on the schedule's grid, the new due time is the least slot of
  the grid that lies after both the old due time and now, so no two runs share a slot and a slot is skipped only when it
  has passed.\<close>

theorem next_due_is_next_slot:
  assumes "0 < es_interval_seconds s" and "on_grid s t"
  shows "on_grid s (next_due s t now) \<and> now < next_due s t now \<and> t < next_due s t now \<and>
    (\<forall>u. on_grid s u \<and> now < u \<and> t < u \<longrightarrow> next_due s t now \<le> u)"
  using on_grid_next [OF assms] next_due_bounds(1,2) [OF assms(1), of now t] next_due_bounds(2) [OF assms(1), of t now]
    next_due_least [OF assms] next_due_bounds(1) [OF assms(1), of now t] assms(1)
  by (auto simp: next_due_bounds(1))

theorem next_due_is_next_slot_witness:
  "on_grid demo_schedule (next_due demo_schedule (seconds 100) (seconds 230)) \<and>
   seconds 230 < next_due demo_schedule (seconds 100) (seconds 230) \<and>
   next_due demo_schedule (seconds 100) (seconds 230) \<le> seconds 280"
proof -
  have "0 < es_interval_seconds demo_schedule" "on_grid demo_schedule (seconds 100)" "on_grid demo_schedule (seconds 280)"
    by (simp_all add: on_grid_def demo_schedule_fields)
  then show ?thesis using next_due_is_next_slot [of demo_schedule "seconds 100"] by auto
qed

section \<open>Runs\<close>

text \<open>C33. Every slot runs at most once: in every store reachable by any sequence of successful operations, whichever
  callers issued them, the runs of a schedule occupy distinct slots of its grid inside its window, at most one of them is
  started and the latest checkpoint names it, and there are at most as many runs as the window has slots.\<close>

theorem one_run_per_slot:
  assumes "steps (schedule_op H U) empty_schedules n db" and "s \<in> set (sdb_schedules db)"
  shows "distinct (map sr_scheduled_for (runs_of db (es_schedule_id s))) \<and>
    (\<forall>r \<in> set (runs_of db (es_schedule_id s)). on_grid s (sr_scheduled_for r) \<and> sr_scheduled_for r < es_active_until s \<and>
       (sr_state r = Run_STARTED \<longrightarrow>
         (\<exists>c. latest_checkpoint db (es_schedule_id s) = Inr c \<and> sk_active_run_id c = Some (sr_schedule_run_id r)))) \<and>
    int (length (filter (\<lambda>r. sr_state r = Run_STARTED) (runs_of db (es_schedule_id s)))) \<le> 1 \<and>
    int (length (runs_of db (es_schedule_id s))) * seconds (es_interval_seconds s) <
      es_active_until s - es_active_from s + seconds (es_interval_seconds s)"
proof -
  from reachable_store_ok [OF assms(1)] assms(2) obtain c where valid: "EndpointCheckSchedule_valid H U s"
    and c: "latest_checkpoint db (es_schedule_id s) = Inr c" "schedule_ok H s c (runs_of db (es_schedule_id s))"
    by (auto simp: store_ok_def)
  then have fits: "run_fits H s c r" if "r \<in> set (runs_of db (es_schedule_id s))" for r
    using that by (simp add: schedule_ok_def)
  have dist: "distinct (map sr_scheduled_for (runs_of db (es_schedule_id s)))" using c by (simp add: schedule_ok_def)
  have runs: "\<forall>r \<in> set (runs_of db (es_schedule_id s)). on_grid s (sr_scheduled_for r) \<and> sr_scheduled_for r < es_active_until s \<and>
       (sr_state r = Run_STARTED \<longrightarrow>
         (\<exists>c. latest_checkpoint db (es_schedule_id s) = Inr c \<and> sk_active_run_id c = Some (sr_schedule_run_id r)))"
    using fits c(1) by (auto simp: run_fits_def)
  have "0 < es_interval_seconds s" "es_active_from s < es_active_until s"
    using valid by (simp_all add: EndpointCheckSchedule_valid_def)
  then have "int (length (runs_of db (es_schedule_id s))) * seconds (es_interval_seconds s) <
      es_active_until s - es_active_from s + seconds (es_interval_seconds s)"
    using grid_count [of s "map sr_scheduled_for (runs_of db (es_schedule_id s))" "es_active_until s"] dist fits
    by (simp add: run_fits_def)
  with dist runs one_started [OF c(2)] show ?thesis by simp
qed

theorem one_run_per_slot_witness:
  "distinct (map sr_scheduled_for (runs_of demo_sdb2 (es_schedule_id demo_schedule))) \<and>
   on_grid demo_schedule (sr_scheduled_for demo_run) \<and>
   (\<exists>c. latest_checkpoint demo_sdb2 (es_schedule_id demo_schedule) = Inr c \<and>
      sk_active_run_id c = Some (sr_schedule_run_id demo_run)) \<and>
   int (length (runs_of demo_sdb2 (es_schedule_id demo_schedule))) * seconds (es_interval_seconds demo_schedule) <
     es_active_until demo_schedule - es_active_from demo_schedule + seconds (es_interval_seconds demo_schedule)"
  using one_run_per_slot [OF demo_sdb2_reachable demo_schedule_facts(6)]
  by (simp only: demo_schedule_facts(5) list.set insert_iff demo_schedule_fields(11) simp_thms)

text \<open>A claim can be won only once: when one caller has claimed the slot that is due, every other caller that still
  holds the checkpoint it was claimed from is refused, at any time.\<close>

theorem claim_won_once:
  assumes "claim H db s c now = Inr (k, db')" and "cl_created k"
  shows "\<exists>e. claim H db' s c later = Inl e"
proof -
  from assms(1) obtain c' r where pure: "claim_endpoint_schedule_run H s c now = Inr (c', r)"
    and tx: "claim_transaction db s c c' r = Inr (k, db')"
    by (auto simp: claim_def result_simps)
  note p = claim_Inr [OF pure]
  have c': "sk_schedule_id c' = sk_schedule_id c" "sk_revision c' = sk_revision c + 1"
    using schedule_next_Inr [OF p(13)] by auto
  have "latest_checkpoint db' (sk_schedule_id c) = Inr c'"
    using tx
  proof (cases rule: claim_transaction_cases)
    case replayed
    then show ?thesis using assms(2) by simp
  next
    case (inserted db1)
    have "latest_checkpoint db1 (sk_schedule_id c') = Inr c"
      using claim_transaction_guards(2) [OF tx] c' by (simp add: inserted(2) latest_checkpoint_def)
    then show ?thesis using latest_after_insert(1) [OF inserted(3), of c] c' by simp
  qed
  then have "latest_checkpoint db' (sk_schedule_id c) \<noteq> Inr c" using c'(2) by auto
  then have "claim H db' s c later \<noteq> Inr x" for x
    by (auto simp: claim_def result_simps dest!: claim_transaction_guards(2))
  then show ?thesis by (cases "claim H db' s c later") auto
qed

theorem claim_won_once_witness:
  "\<exists>e. claim sched_digest demo_sdb2 demo_schedule demo_due (seconds 106) = Inl e"
  by (rule claim_won_once [OF demo_claim]) simp

text \<open>A slot that is due can be claimed: with digests of the right shape, a valid checkpoint of a valid schedule is
  accepted by the claim exactly when the schedule is active, has no active run, is due, and its window is open.\<close>

theorem claim_accepted_iff:
  assumes "hex_valued H" and "EndpointCheckSchedule_valid H U s" and "EndpointScheduleCheckpoint_valid H c"
    and "sk_schedule_id c = es_schedule_id s"
  shows "is_ok (claim_endpoint_schedule_run H s c now) \<longleftrightarrow>
    sk_state c = Sched_ACTIVE \<and> sk_active_run_id c = None \<and> sk_next_due_at c \<le> now \<and> sk_updated_at c \<le> now \<and>
    es_active_from s \<le> now \<and> now < es_active_until s"
proof
  assume "is_ok (claim_endpoint_schedule_run H s c now)"
  then show "sk_state c = Sched_ACTIVE \<and> sk_active_run_id c = None \<and> sk_next_due_at c \<le> now \<and> sk_updated_at c \<le> now \<and>
    es_active_from s \<le> now \<and> now < es_active_until s"
    by (auto simp: claim_endpoint_schedule_run_def schedule_current_def result_simps split: if_splits)
qed (use claim_accepted [OF assms] in blast)

theorem claim_accepted_iff_witness:
  "is_ok (claim_endpoint_schedule_run sched_digest demo_schedule demo_due (seconds 105)) \<and>
   \<not> is_ok (claim_endpoint_schedule_run sched_digest demo_schedule demo_due (seconds 99))"
  using claim_accepted_iff [OF sched_digest_hex demo_schedule_valid demo_schedule_facts(1,3)]
  by (simp add: demo_schedule_fields)

text \<open>A started run can always be closed: in every reachable store, once the deadline of the active run has passed, its
  time-out is accepted, whatever its attempt and even after the window of the schedule has ended, and leaves the schedule
  without an active run.\<close>

theorem started_run_can_time_out:
  assumes "hex_valued H" and "steps (schedule_op H U) empty_schedules n db" and "s \<in> set (sdb_schedules db)"
    and "latest_checkpoint db (es_schedule_id s) = Inr c" and "r \<in> set (runs_of db (es_schedule_id s))"
    and "sr_state r = Run_STARTED" and "sr_deadline r \<le> now" and "sk_updated_at c \<le> now"
  shows "\<exists>c' r'. timeout_endpoint_schedule_run H s c r cleanup now = Inr (c', r') \<and> sr_state r' = Run_TIMED_OUT \<and>
    sk_active_run_id c' = None \<and> sk_state c' = (if cleanup then Sched_ACTIVE else Sched_PAUSED)"
  by (rule timeout_accepted [OF assms(1) store_ok_fit [OF reachable_store_ok [OF assms(2)] assms(3,4)] assms(5-8)])

theorem started_run_can_time_out_witness:
  "\<exists>c' r'. timeout_endpoint_schedule_run sched_digest demo_schedule demo_claimed demo_run False (seconds 2000) = Inr (c', r') \<and>
     sr_state r' = Run_TIMED_OUT \<and> sk_active_run_id c' = None \<and> sk_state c' = (if False then Sched_ACTIVE else Sched_PAUSED)"
  by (rule started_run_can_time_out [OF sched_digest_hex demo_sdb2_reachable demo_schedule_facts(6,7)])
    (simp_all add: demo_schedule_facts(5) demo_schedule_fields)

text \<open>Resuming skips a slot that has not passed: a schedule paused and resumed before its next due time is not due at
  that time any more but a full interval later.\<close>

theorem resume_skips_pending_slot:
  assumes "EndpointScheduleCheckpoint_valid H c" and "sk_schedule_id c = es_schedule_id s" and "sk_state c = Sched_PAUSED"
    and "sk_updated_at c \<le> now" "es_active_from s \<le> now" "now < es_active_until s" "now < sk_next_due_at c"
  shows "\<exists>c'. resume_endpoint_schedule H s c now = Inr c' \<and> sk_state c' = Sched_ACTIVE \<and>
    sk_next_due_at c' = sk_next_due_at c + seconds (es_interval_seconds s)"
proof -
  let ?upd = "\<lambda>v. v\<lparr>sk_state := Sched_ACTIVE, sk_next_due_at := next_due s (sk_next_due_at c) now, sk_reason_code := None\<rparr>"
  obtain c' where c': "schedule_next H c now ?upd = Inr c'"
    using assms(1,3)
    by (elim schedule_next_total [OF assms(1), where upd = ?upd and now = now, rotated -1])
      (auto simp: EndpointScheduleCheckpoint_valid_def)
  have "next_due s (sk_next_due_at c) now = sk_next_due_at c + seconds (es_interval_seconds s)"
    using assms(7) by (simp add: next_due_def)
  then show ?thesis
    using c' schedule_next_Inr [OF c'] assms
    by (auto simp: resume_endpoint_schedule_def schedule_current_def schedule_identity_def)
qed

theorem resume_skips_pending_slot_witness:
  "\<exists>c'. resume_endpoint_schedule sched_digest demo_schedule demo_paused (seconds 120) = Inr c' \<and>
     sk_state c' = Sched_ACTIVE \<and> sk_next_due_at c' = sk_next_due_at demo_paused + seconds (es_interval_seconds demo_schedule)"
  by (rule resume_skips_pending_slot [OF demo_schedule_facts(2,4)]) (simp_all add: demo_schedule_fields)

section \<open>Reservations\<close>

text \<open>A reservation ends within its budget: from the reservation of a plan, at most as many transitions are accepted as
  the plan has steps; the reserved number never changes, the consumed number never exceeds it, and the reservation stays
  valid and bound to the plan.\<close>

theorem reservation_within_budget:
  assumes "reserve_endpoint_recon p = Inr r0" and "steps reservation_step r0 n r"
  shows "n \<le> length (ep_steps p) \<and> rv_reserved_requests r = int (length (ep_steps p)) \<and>
    rv_consumed_requests r \<le> rv_reserved_requests r \<and> rv_plan_id r = ep_plan_id p \<and> EndpointReconReservation_valid r"
proof (intro conjI)
  have r0: "EndpointReconReservation_valid r0" "reservation_fuel r0 = int (length (ep_steps p))"
    "rv_reserved_requests r0 = int (length (ep_steps p))" "rv_plan_id r0 = ep_plan_id p"
    using assms(1) by (auto simp: reserve_endpoint_recon_def validate_reservation_def reservation_fuel_def split: if_splits)
  show "n \<le> length (ep_steps p)" using reservation.steps_bounded [OF assms(2) r0(1)] r0(2) by simp
  show "EndpointReconReservation_valid r" using reservation.steps_fuel [OF assms(2) r0(1)] by simp
  then show "rv_consumed_requests r \<le> rv_reserved_requests r" by (simp add: EndpointReconReservation_valid_def)
  show "rv_reserved_requests r = int (length (ep_steps p))" "rv_plan_id r = ep_plan_id p"
    using reservation_steps_keep [OF assms(2)] r0 by simp_all
qed

theorem reservation_within_budget_witness:
  "rv_reserved_requests demo_reservation = int (length (ep_steps demo_endpoint_plan)) \<and>
   EndpointReconReservation_valid demo_reservation"
  using reservation_within_budget [OF demo_schedule_facts(8) steps_refl] by blast

text \<open>A reservation grants exactly its budget: consuming the requests of a plan one by one, at times that do not run
  backwards, is accepted as long as the plan has steps left and is then refused; the reservation is consumed exactly when
  all steps are.\<close>

theorem reservation_grants_budget:
  assumes "reserve_endpoint_recon p = Inr r0" and "sorted (ep_created_at p # ts)"
  shows "if length ts \<le> length (ep_steps p)
    then \<exists>r. consume_all r0 ts = Inr r \<and> rv_consumed_requests r = int (length ts) \<and>
      (rv_state r = Res_CONSUMED \<longleftrightarrow> length ts = length (ep_steps p))
    else \<exists>e. consume_all r0 ts = Inl e"
proof -
  have r0: "EndpointReconReservation_valid r0" "rv_state r0 = Res_ACTIVE" "rv_consumed_requests r0 = 0"
    "rv_reserved_requests r0 = int (length (ep_steps p))" "rv_updated_at r0 = ep_created_at p"
    using assms(1) by (auto simp: reserve_endpoint_recon_def validate_reservation_def split: if_splits)
  have granted: "\<exists>r. consume_all r0 us = Inr r \<and> rv_consumed_requests r = int (length us) \<and>
      (rv_state r = Res_CONSUMED \<longleftrightarrow> length us = length (ep_steps p))"
    if "length us \<le> length (ep_steps p)" "sorted (ep_created_at p # us)" for us
    using consume_all_accepted [OF r0(1,2), of us] that r0 by (auto split: if_splits)
  show ?thesis
  proof (cases "length ts \<le> length (ep_steps p)")
    case True
    then show ?thesis using granted assms(2) by auto
  next
    case False
    define n where "n = length (ep_steps p)"
    have "sorted (ep_created_at p # take n ts)" using assms(2) by (auto simp: sorted_wrt_take dest: in_set_takeD)
    then obtain r where r: "consume_all r0 (take n ts) = Inr r" "rv_state r = Res_CONSUMED"
      using granted [of "take n ts"] False by (auto simp: n_def)
    obtain t rest where "drop n ts = t # rest" using False by (cases "drop n ts") (auto simp: n_def)
    then have "ts = take n ts @ t # rest" by (metis append_take_drop_id)
    then have "consume_all r0 ts = bind_result (consume_all r0 (take n ts)) (\<lambda>r. consume_all r (t # rest))"
      by (metis consume_all_append)
    also have "\<dots> = consume_all r (t # rest)" by (simp add: r)
    finally have "\<exists>e. consume_all r0 ts = Inl e"
      using r(2) by (auto simp: consume_endpoint_recon_request_def monotonic_time_def)
    with False show ?thesis by simp
  qed
qed

theorem reservation_grants_budget_witness:
  "(\<exists>r. consume_all demo_reservation [20, 30] = Inr r \<and> rv_consumed_requests r = 2 \<and> rv_state r = Res_CONSUMED) \<and>
   (\<exists>e. consume_all demo_reservation [20, 30, 40] = Inl e)"
proof
  show "\<exists>r. consume_all demo_reservation [20, 30] = Inr r \<and> rv_consumed_requests r = 2 \<and> rv_state r = Res_CONSUMED"
    using reservation_grants_budget [OF demo_schedule_facts(8), of "[20, 30]"]
    by (simp only: demo_schedule_fields) simp
  show "\<exists>e. consume_all demo_reservation [20, 30, 40] = Inl e"
    using reservation_grants_budget [OF demo_schedule_facts(8), of "[20, 30, 40]"]
    by (simp only: demo_schedule_fields) simp
qed

end
