(* ===== verification/Replan_Models.thy ===== *)
theory Replan_Models
  imports Red_Team_Flow
begin

text \<open>
  The reconnaissance actions and commands of \<^verbatim>\<open>src/src/vulnloom/red_team/models.py\<close> and the replanning contracts of
  \<^verbatim>\<open>src/src/vulnloom/red_team/replan_models.py\<close>, in the same form as the contracts of \<open>Red_Team_Models\<close>.
\<close>

section \<open>Actions and commands\<close>

datatype RedTeamActionKind = DNS_LOOKUP | TLS_INSPECT | HTTP_HEAD | HTTP_GET

fun red_team_kind_value :: "RedTeamActionKind \<Rightarrow> string" where
  "red_team_kind_value DNS_LOOKUP = ''dns_lookup''"
| "red_team_kind_value TLS_INSPECT = ''tls_inspect''"
| "red_team_kind_value HTTP_HEAD = ''http_head''"
| "red_team_kind_value HTTP_GET = ''http_get''"

record RedTeamReconAction =
  ra_action_id :: digest
  ra_plan_id :: digest
  ra_expected_checkpoint_id :: digest
  ra_kind :: RedTeamActionKind
  ra_target_url :: string
  ra_test_class :: string
  ra_impact :: ImpactClass
  ra_created_at :: instant
  ra_deadline :: instant
  ra_idempotency_key :: string

definition RedTeamReconAction_content :: "RedTeamReconAction \<Rightarrow> pyval" where
  "RedTeamReconAction_content a = PDict
     [(''plan_id'', PStr (ra_plan_id a)), (''expected_checkpoint_id'', PStr (ra_expected_checkpoint_id a)),
      (''kind'', PEnum (red_team_kind_value (ra_kind a))), (''target_url'', PStr (ra_target_url a)),
      (''test_class'', PStr (ra_test_class a)), (''impact'', PEnum (impact_value (ra_impact a))),
      (''created_at'', PTime (ra_created_at a)), (''deadline'', PTime (ra_deadline a)),
      (''idempotency_key'', PStr (ra_idempotency_key a))]"

definition RedTeamReconAction_valid :: "(pyval \<Rightarrow> digest) \<Rightarrow> RedTeamReconAction \<Rightarrow> bool" where
  "RedTeamReconAction_valid H a \<longleftrightarrow>
     list_all is_digest [ra_action_id a, ra_plan_id a, ra_expected_checkpoint_id a] \<and>
     1 \<le> length (ra_target_url a) \<and> length (ra_target_url a) \<le> 2048 \<and>
     1 \<le> length (ra_test_class a) \<and> length (ra_test_class a) \<le> 128 \<and>
     1 \<le> length (ra_idempotency_key a) \<and> length (ra_idempotency_key a) \<le> 256 \<and>
     ra_impact a = Imp_READ_ONLY \<and> ra_created_at a < ra_deadline a \<and>
     sealed_by H RedTeamReconAction_content ra_action_id a"

definition RedTeamReconAction_create :: "(pyval \<Rightarrow> digest) \<Rightarrow> RedTeamReconAction \<Rightarrow> RedTeamReconAction option" where
  "RedTeamReconAction_create H v =
     (let a = v\<lparr>ra_action_id := H (RedTeamReconAction_content v)\<rparr>
      in if RedTeamReconAction_valid H a then Some a else None)"

record RedTeamReconCommand =
  cm_command_id :: digest
  cm_action :: RedTeamReconAction
  cm_attempt :: int

definition RedTeamReconCommand_content :: "RedTeamReconCommand \<Rightarrow> pyval" where
  "RedTeamReconCommand_content c = PDict
     [(''action'', with_id ''action_id'' (ra_action_id (cm_action c)) (RedTeamReconAction_content (cm_action c))),
      (''attempt'', PInt (cm_attempt c))]"

definition RedTeamReconCommand_valid :: "(pyval \<Rightarrow> digest) \<Rightarrow> RedTeamReconCommand \<Rightarrow> bool" where
  "RedTeamReconCommand_valid H c \<longleftrightarrow>
     is_digest (cm_command_id c) \<and> RedTeamReconAction_valid H (cm_action c) \<and> 1 \<le> cm_attempt c \<and> cm_attempt c \<le> 3 \<and>
     sealed_by H RedTeamReconCommand_content cm_command_id c"

definition RedTeamReconCommand_create :: "(pyval \<Rightarrow> digest) \<Rightarrow> RedTeamReconCommand \<Rightarrow> RedTeamReconCommand option" where
  "RedTeamReconCommand_create H v =
     (let c = v\<lparr>cm_command_id := H (RedTeamReconCommand_content v)\<rparr>
      in if RedTeamReconCommand_valid H c then Some c else None)"

section \<open>Replanning\<close>

record RedTeamReplanToolView =
  tv_tool_view_id :: digest
  tv_flow_plan_id :: digest
  tv_checkpoint_id :: digest
  tv_target_id :: uuid
  tv_target_url_digest :: digest
  tv_scope_id :: uuid
  tv_scope_version :: int
  tv_observation_ids :: "digest list"
  tv_allowed_action_kinds :: "RedTeamActionKind list"
  tv_allowed_test_classes :: "string list"
  tv_remaining_actions :: int
  tv_issued_at :: instant
  tv_expires_at :: instant

definition RedTeamReplanToolView_content :: "RedTeamReplanToolView \<Rightarrow> pyval" where
  "RedTeamReplanToolView_content v = PDict
     [(''flow_plan_id'', PStr (tv_flow_plan_id v)), (''checkpoint_id'', PStr (tv_checkpoint_id v)),
      (''target_id'', PUuid (tv_target_id v)), (''target_url_digest'', PStr (tv_target_url_digest v)),
      (''scope_id'', PUuid (tv_scope_id v)), (''scope_version'', PInt (tv_scope_version v)),
      (''observation_ids'', p_strs (tv_observation_ids v)),
      (''allowed_action_kinds'', PList (map (\<lambda>k. PEnum (red_team_kind_value k)) (tv_allowed_action_kinds v))),
      (''allowed_test_classes'', p_strs (tv_allowed_test_classes v)),
      (''remaining_actions'', PInt (tv_remaining_actions v)), (''issued_at'', PTime (tv_issued_at v)),
      (''expires_at'', PTime (tv_expires_at v))]"

definition RedTeamReplanToolView_valid :: "(pyval \<Rightarrow> digest) \<Rightarrow> RedTeamReplanToolView \<Rightarrow> bool" where
  "RedTeamReplanToolView_valid H v \<longleftrightarrow>
     list_all is_digest [tv_tool_view_id v, tv_flow_plan_id v, tv_checkpoint_id v, tv_target_url_digest v] \<and>
     1 \<le> tv_scope_version v \<and> 1 \<le> length (tv_observation_ids v) \<and> list_all is_digest (tv_observation_ids v) \<and>
     1 \<le> length (tv_allowed_action_kinds v) \<and> length (tv_allowed_action_kinds v) \<le> 3 \<and>
     1 \<le> length (tv_allowed_test_classes v) \<and> length (tv_allowed_test_classes v) \<le> 128 \<and>
     1 \<le> tv_remaining_actions v \<and> tv_issued_at v < tv_expires_at v \<and>
     sorted_set (tv_observation_ids v) = tv_observation_ids v \<and>
     sort_key red_team_kind_value (remdups (tv_allowed_action_kinds v)) = tv_allowed_action_kinds v \<and>
     sorted_set (tv_allowed_test_classes v) = tv_allowed_test_classes v \<and>
     sealed_by H RedTeamReplanToolView_content tv_tool_view_id v"

record RedTeamReplanProposal =
  rp_proposal_id :: digest
  rp_tool_view_id :: digest
  rp_source_observation_ids :: "digest list"
  rp_action_kind :: RedTeamActionKind
  rp_test_class :: string
  rp_rationale_digest :: digest
  rp_ttl_seconds :: int
  rp_proposed_at :: instant
  rp_idempotency_key :: string

definition RedTeamReplanProposal_content :: "RedTeamReplanProposal \<Rightarrow> pyval" where
  "RedTeamReplanProposal_content p = PDict
     [(''tool_view_id'', PStr (rp_tool_view_id p)),
      (''source_observation_ids'', p_strs (rp_source_observation_ids p)),
      (''action_kind'', PEnum (red_team_kind_value (rp_action_kind p))), (''test_class'', PStr (rp_test_class p)),
      (''rationale_digest'', PStr (rp_rationale_digest p)), (''ttl_seconds'', PInt (rp_ttl_seconds p)),
      (''proposed_at'', PTime (rp_proposed_at p)), (''idempotency_key'', PStr (rp_idempotency_key p))]"

definition RedTeamReplanProposal_valid :: "(pyval \<Rightarrow> digest) \<Rightarrow> RedTeamReplanProposal \<Rightarrow> bool" where
  "RedTeamReplanProposal_valid H p \<longleftrightarrow>
     list_all is_digest [rp_proposal_id p, rp_tool_view_id p, rp_rationale_digest p] \<and>
     1 \<le> length (rp_source_observation_ids p) \<and> list_all is_digest (rp_source_observation_ids p) \<and>
     1 \<le> length (rp_test_class p) \<and> length (rp_test_class p) \<le> 128 \<and>
     1 \<le> rp_ttl_seconds p \<and> rp_ttl_seconds p \<le> 300 \<and>
     1 \<le> length (rp_idempotency_key p) \<and> length (rp_idempotency_key p) \<le> 256 \<and>
     sorted_set (rp_source_observation_ids p) = rp_source_observation_ids p \<and>
     sealed_by H RedTeamReplanProposal_content rp_proposal_id p"

record RedTeamReplanAdmission =
  ad_admission_id :: digest
  ad_proposal_id :: digest
  ad_tool_view_id :: digest
  ad_flow_plan_id :: digest
  ad_source_checkpoint_id :: digest
  ad_source_observation_ids :: "digest list"
  ad_command :: RedTeamReconCommand
  ad_policy_request_digest :: digest
  ad_required_approval_action :: ApprovalAction
  ad_required_approval_digest :: digest
  ad_admitted_at :: instant

definition RedTeamReplanAdmission_content :: "RedTeamReplanAdmission \<Rightarrow> pyval" where
  "RedTeamReplanAdmission_content a = PDict
     [(''proposal_id'', PStr (ad_proposal_id a)), (''tool_view_id'', PStr (ad_tool_view_id a)),
      (''flow_plan_id'', PStr (ad_flow_plan_id a)), (''source_checkpoint_id'', PStr (ad_source_checkpoint_id a)),
      (''source_observation_ids'', p_strs (ad_source_observation_ids a)),
      (''command'', with_id ''command_id'' (cm_command_id (ad_command a)) (RedTeamReconCommand_content (ad_command a))),
      (''policy_request_digest'', PStr (ad_policy_request_digest a)),
      (''required_approval_action'', PEnum (approval_action_value (ad_required_approval_action a))),
      (''required_approval_digest'', PStr (ad_required_approval_digest a)),
      (''admitted_at'', PTime (ad_admitted_at a))]"

definition RedTeamReplanAdmission_valid :: "(pyval \<Rightarrow> digest) \<Rightarrow> RedTeamReplanAdmission \<Rightarrow> bool" where
  "RedTeamReplanAdmission_valid H a \<longleftrightarrow>
     list_all is_digest [ad_admission_id a, ad_proposal_id a, ad_tool_view_id a, ad_flow_plan_id a,
       ad_source_checkpoint_id a, ad_policy_request_digest a, ad_required_approval_digest a] \<and>
     list_all is_digest (ad_source_observation_ids a) \<and> RedTeamReconCommand_valid H (ad_command a) \<and>
     \<not> (ra_plan_id (cm_action (ad_command a)) \<noteq> ad_flow_plan_id a \<or>
        ra_expected_checkpoint_id (cm_action (ad_command a)) \<noteq> ad_source_checkpoint_id a \<or>
        ad_required_approval_action a \<noteq> EXECUTE_RED_TEAM_ACTION \<or>
        ad_required_approval_digest a \<noteq> ra_action_id (cm_action (ad_command a))) \<and>
     sealed_by H RedTeamReplanAdmission_content ad_admission_id a"

record RedTeamReplanExecutionReceipt =
  rr_receipt_id :: digest
  rr_admission_id :: digest
  rr_flow_plan_id :: digest
  rr_source_checkpoint_id :: digest
  rr_result_checkpoint_id :: digest
  rr_action_id :: digest
  rr_observation_id :: digest
  rr_approval_id :: uuid
  rr_approval_action :: ApprovalAction
  rr_approval_digest :: digest
  rr_completed_at :: instant
  rr_cleanup_complete :: bool
  rr_sensitive_data_redacted :: bool
  rr_execution_authority_granted :: bool

definition RedTeamReplanExecutionReceipt_content :: "RedTeamReplanExecutionReceipt \<Rightarrow> pyval" where
  "RedTeamReplanExecutionReceipt_content r = PDict
     [(''admission_id'', PStr (rr_admission_id r)), (''flow_plan_id'', PStr (rr_flow_plan_id r)),
      (''source_checkpoint_id'', PStr (rr_source_checkpoint_id r)),
      (''result_checkpoint_id'', PStr (rr_result_checkpoint_id r)), (''action_id'', PStr (rr_action_id r)),
      (''observation_id'', PStr (rr_observation_id r)), (''approval_id'', PUuid (rr_approval_id r)),
      (''approval_action'', PEnum (approval_action_value (rr_approval_action r))),
      (''approval_digest'', PStr (rr_approval_digest r)), (''completed_at'', PTime (rr_completed_at r)),
      (''cleanup_complete'', PBool (rr_cleanup_complete r)),
      (''sensitive_data_redacted'', PBool (rr_sensitive_data_redacted r)),
      (''execution_authority_granted'', PBool (rr_execution_authority_granted r))]"

definition RedTeamReplanExecutionReceipt_valid ::
  "(pyval \<Rightarrow> digest) \<Rightarrow> RedTeamReplanExecutionReceipt \<Rightarrow> bool" where
  "RedTeamReplanExecutionReceipt_valid H r \<longleftrightarrow>
     list_all is_digest [rr_admission_id r, rr_flow_plan_id r, rr_source_checkpoint_id r, rr_result_checkpoint_id r,
       rr_action_id r, rr_observation_id r, rr_approval_digest r, rr_receipt_id r] \<and>
     \<not> (rr_approval_action r \<noteq> EXECUTE_RED_TEAM_ACTION \<or> \<not> rr_cleanup_complete r \<or>
        \<not> rr_sensitive_data_redacted r \<or> rr_execution_authority_granted r \<or>
        \<not> sealed_by H RedTeamReplanExecutionReceipt_content rr_receipt_id r)"

end
