(* ===== verification/Red_Team_Store.thy ===== *)
theory Red_Team_Store
  imports Replan_Models
begin

text \<open>
  The transactional store of Red Team flows, \<^verbatim>\<open>src/src/vulnloom/red_team/store.py\<close>: plans, checkpoints, action
  attempts, observations, action budget reserved by other workflows, and replanning. A row holds the model its JSON payload
  encodes, whose fields also fill the row's other columns; comparing two payloads compares the models. Each operation is
  one transaction, so an exception leaves the tables as they were.
\<close>

section \<open>Tables\<close>

datatype action_state = Action_STARTED | Action_COMPLETED
datatype admission_state = Adm_RESERVED | Adm_CONSUMED | Adm_CANCELLED | Adm_EXPIRED

record action_row =
  ar_action :: RedTeamReconAction
  ar_attempt :: int
  ar_command_id :: digest
  ar_state :: action_state
  ar_observation_id :: "digest option"

record external_row =
  xr_reservation_id :: digest
  xr_plan_id :: digest
  xr_source_checkpoint_id :: digest
  xr_action_count :: int

text \<open>The column \<^verbatim>\<open>proposal_id\<close> is filled from the proposal, the others from the admission.\<close>

record admission_row =
  mr_proposal_id :: digest
  mr_state :: admission_state
  mr_admission :: RedTeamReplanAdmission

record flow_db =
  fdb_plans :: "RedTeamFlowPlan list"
  fdb_checkpoints :: "RedTeamCheckpoint list"
  fdb_actions :: "action_row list"
  fdb_observations :: "RedTeamReconObservation list"
  fdb_external :: "external_row list"
  fdb_tool_views :: "RedTeamReplanToolView list"
  fdb_proposals :: "RedTeamReplanProposal list"
  fdb_admissions :: "admission_row list"
  fdb_receipts :: "RedTeamReplanExecutionReceipt list"

definition empty_flows :: flow_db where
  "empty_flows = \<lparr>fdb_plans = [], fdb_checkpoints = [], fdb_actions = [], fdb_observations = [], fdb_external = [],
     fdb_tool_views = [], fdb_proposals = [], fdb_admissions = [], fdb_receipts = []\<rparr>"

datatype flow_store_error =
    RedTeamStoreRejected string | RedTeamRecoveryRequired string | FlowIntegrityError

definition or_reject :: "string \<Rightarrow> 'a option \<Rightarrow> flow_store_error + 'a" where
  "or_reject msg x = (case x of None \<Rightarrow> Inl (RedTeamStoreRejected msg) | Some y \<Rightarrow> Inr y)"

text \<open>A \<^verbatim>\<open>sqlite3.IntegrityError\<close> that the operation turns into a rejection.\<close>

definition integrity :: "string \<Rightarrow> flow_store_error + 'a \<Rightarrow> flow_store_error + 'a" where
  "integrity msg r = (case r of Inl FlowIntegrityError \<Rightarrow> Inl (RedTeamStoreRejected msg) | _ \<Rightarrow> r)"

section \<open>Reading\<close>

abbreviation action_id_of :: "action_row \<Rightarrow> digest" where
  "action_id_of r \<equiv> ra_action_id (ar_action r)"

abbreviation admitted_action :: "admission_row \<Rightarrow> RedTeamReconAction" where
  "admitted_action m \<equiv> cm_action (ad_command (mr_admission m))"

definition flow_plan :: "flow_db \<Rightarrow> digest \<Rightarrow> flow_store_error + RedTeamFlowPlan" where
  "flow_plan db i = or_reject ''Red Team plan is unavailable'' (List.find (\<lambda>p. fp_plan_id p = i) (fdb_plans db))"

definition flow_plan_by_key :: "flow_db \<Rightarrow> string \<Rightarrow> RedTeamFlowPlan option" where
  "flow_plan_by_key db k = List.find (\<lambda>p. fp_idempotency_key p = k) (fdb_plans db)"

definition latest_flow :: "flow_db \<Rightarrow> digest \<Rightarrow> flow_store_error + RedTeamCheckpoint" where
  "latest_flow db i = or_reject ''Red Team checkpoint is unavailable''
     (highest_revision fc_revision (filter (\<lambda>c. fc_plan_id c = i) (fdb_checkpoints db)))"

definition flow_checkpoint :: "flow_db \<Rightarrow> digest \<Rightarrow> flow_store_error + RedTeamCheckpoint" where
  "flow_checkpoint db i = or_reject ''Red Team checkpoint is unavailable''
     (List.find (\<lambda>c. fc_checkpoint_id c = i) (fdb_checkpoints db))"

definition checkpoint_revision :: "flow_db \<Rightarrow> digest \<Rightarrow> int \<Rightarrow> flow_store_error + RedTeamCheckpoint" where
  "checkpoint_revision db i n = or_reject ''Red Team checkpoint revision is unavailable''
     (List.find (\<lambda>c. fc_plan_id c = i \<and> fc_revision c = n) (fdb_checkpoints db))"

definition flow_observation :: "flow_db \<Rightarrow> digest option \<Rightarrow> flow_store_error + RedTeamReconObservation" where
  "flow_observation db i = or_reject ''Red Team observation is unavailable''
     (List.find (\<lambda>v. Some (ro_observation_id v) = i) (fdb_observations db))"

definition flow_action :: "flow_db \<Rightarrow> digest \<Rightarrow> flow_store_error + RedTeamReconAction" where
  "flow_action db i =
     (case List.find (\<lambda>r. action_id_of r = i) (fdb_actions db) of
        None \<Rightarrow> Inl (RedTeamStoreRejected ''Red Team completed action is unavailable'')
      | Some r \<Rightarrow>
          if ar_state r \<noteq> Action_COMPLETED \<or> ar_observation_id r = None
          then Inl (RedTeamStoreRejected ''Red Team completed action is unavailable'')
          else Inr (ar_action r))"

definition assert_latest_flow :: "flow_db \<Rightarrow> RedTeamCheckpoint \<Rightarrow> flow_store_error + unit" where
  "assert_latest_flow db c =
     bind_result (latest_flow db (fc_plan_id c)) (\<lambda>d.
       if fc_checkpoint_id d \<noteq> fc_checkpoint_id c then Inl (RedTeamStoreRejected ''Red Team checkpoint is stale'')
       else Inr ())"

definition assert_latest_id :: "flow_db \<Rightarrow> digest \<Rightarrow> digest \<Rightarrow> flow_store_error + unit" where
  "assert_latest_id db i k =
     (case highest_revision fc_revision (filter (\<lambda>c. fc_plan_id c = i) (fdb_checkpoints db)) of
        None \<Rightarrow> Inl (RedTeamStoreRejected ''Red Team action checkpoint is stale'')
      | Some d \<Rightarrow>
          if fc_checkpoint_id d \<noteq> k then Inl (RedTeamStoreRejected ''Red Team action checkpoint is stale'') else Inr ())"

section \<open>Budgets\<close>

definition reserved_actions :: "flow_db \<Rightarrow> digest \<Rightarrow> int" where
  "reserved_actions db i = sum_list (map xr_action_count (filter (\<lambda>x. xr_plan_id x = i) (fdb_external db)))"

definition started_in :: "digest \<Rightarrow> action_row \<Rightarrow> bool" where
  "started_in i r \<longleftrightarrow> ra_plan_id (ar_action r) = i \<and> ar_state r = Action_STARTED"

definition started_actions :: "flow_db \<Rightarrow> digest \<Rightarrow> int" where
  "started_actions db i = int (length (filter (started_in i) (fdb_actions db)))"

definition reserved_in :: "digest \<Rightarrow> admission_row \<Rightarrow> bool" where
  "reserved_in i m \<longleftrightarrow> ad_flow_plan_id (mr_admission m) = i \<and> mr_state m = Adm_RESERVED"

definition reserved_replan_actions :: "flow_db \<Rightarrow> digest \<Rightarrow> int" where
  "reserved_replan_actions db i = int (length (filter (reserved_in i) (fdb_admissions db)))"

definition remaining_action_budget :: "flow_db \<Rightarrow> digest \<Rightarrow> flow_store_error + int" where
  "remaining_action_budget db i =
     bind_result (flow_plan db i) (\<lambda>p.
     bind_result (latest_flow db i) (\<lambda>c.
       let used = fc_actions_used c + started_actions db i + reserved_actions db i + reserved_replan_actions db i
       in Inr (max 0 (max_actions (stop_conditions (fp_rules p)) - used))))"

definition has_unfinished_work :: "flow_db \<Rightarrow> digest \<Rightarrow> bool" where
  "has_unfinished_work db i \<longleftrightarrow>
     started_actions db i \<noteq> 0 \<or> reserved_replan_actions db i \<noteq> 0 \<or>
     length (filter (\<lambda>x. xr_plan_id x = i) (fdb_external db)) \<noteq> 0"

section \<open>Plans and checkpoints\<close>

definition has_plan :: "flow_db \<Rightarrow> digest \<Rightarrow> bool" where
  "has_plan db i \<longleftrightarrow> list_ex (\<lambda>p. fp_plan_id p = i) (fdb_plans db)"

text \<open>\<^verbatim>\<open>_insert_checkpoint\<close>: the primary key (plan, revision), the unique checkpoint identifier, the foreign key.\<close>

definition insert_flow_checkpoint :: "flow_db \<Rightarrow> RedTeamCheckpoint \<Rightarrow> flow_store_error + flow_db" where
  "insert_flow_checkpoint db c =
     (if list_ex (\<lambda>d. (fc_plan_id d = fc_plan_id c \<and> fc_revision d = fc_revision c) \<or>
                      fc_checkpoint_id d = fc_checkpoint_id c) (fdb_checkpoints db) \<or> \<not> has_plan db (fc_plan_id c)
      then Inl FlowIntegrityError
      else Inr (db\<lparr>fdb_checkpoints := fdb_checkpoints db @ [c]\<rparr>))"

definition create_plan ::
  "flow_db \<Rightarrow> RedTeamFlowPlan \<Rightarrow> RedTeamCheckpoint \<Rightarrow> flow_store_error + (RedTeamCheckpoint \<times> flow_db)" where
  "create_plan db p c =
     integrity ''Red Team plan transaction rejected''
       (case List.find (\<lambda>q. fp_idempotency_key q = fp_idempotency_key p) (fdb_plans db) of
          Some q \<Rightarrow>
            if fp_plan_id q \<noteq> fp_plan_id p \<or> q \<noteq> p
            then Inl (RedTeamStoreRejected ''Red Team idempotency collision'')
            else bind_result (latest_flow db (fp_plan_id p)) (\<lambda>d. Inr (d, db))
        | None \<Rightarrow>
            if has_plan db (fp_plan_id p) then Inl FlowIntegrityError
            else bind_result (insert_flow_checkpoint (db\<lparr>fdb_plans := fdb_plans db @ [p]\<rparr>) c) (\<lambda>db'. Inr (c, db')))"

definition advance_flow ::
  "flow_db \<Rightarrow> RedTeamCheckpoint \<Rightarrow> RedTeamCheckpoint \<Rightarrow> flow_store_error + (RedTeamCheckpoint \<times> flow_db)" where
  "advance_flow db previous c =
     (if fc_revision c \<noteq> fc_revision previous + 1
      then Inl (RedTeamStoreRejected ''Red Team checkpoint sequence is invalid'')
      else bind_result (assert_latest_flow db previous) (\<lambda>_.
           bind_result (insert_flow_checkpoint db c) (\<lambda>db'. Inr (c, db'))))"

section \<open>Action attempts\<close>

definition same_action :: "RedTeamReconAction \<Rightarrow> action_row \<Rightarrow> bool" where
  "same_action a r \<longleftrightarrow> action_id_of r = ra_action_id a \<or> ra_idempotency_key (ar_action r) = ra_idempotency_key a"

text \<open>\<^verbatim>\<open>UPDATE red_team_actions SET attempt=?,command_id=? WHERE action_id=? AND state='started' AND attempt=?\<close>: the new table
  and the row count. The command identifier is unique.\<close>

definition retry_row :: "RedTeamReconCommand \<Rightarrow> int \<Rightarrow> action_row \<Rightarrow> action_row" where
  "retry_row cmd attempt r =
     (if action_id_of r = ra_action_id (cm_action cmd) \<and> ar_state r = Action_STARTED \<and> ar_attempt r = attempt
      then r\<lparr>ar_attempt := cm_attempt cmd, ar_command_id := cm_command_id cmd\<rparr> else r)"

definition retry_action :: "flow_db \<Rightarrow> RedTeamReconCommand \<Rightarrow> int \<Rightarrow> flow_store_error + (flow_db \<times> nat)" where
  "retry_action db cmd attempt =
     (let rows = map (retry_row cmd attempt) (fdb_actions db);
          changed = length (filter (\<lambda>r. action_id_of r = ra_action_id (cm_action cmd) \<and> ar_state r = Action_STARTED \<and>
                                        ar_attempt r = attempt) (fdb_actions db))
      in if \<not> distinct (map ar_command_id rows) then Inl FlowIntegrityError
         else Inr (db\<lparr>fdb_actions := rows\<rparr>, changed))"

definition insert_action :: "flow_db \<Rightarrow> RedTeamReconCommand \<Rightarrow> flow_store_error + flow_db" where
  "insert_action db cmd =
     (let a = cm_action cmd
      in if list_ex (\<lambda>r. action_id_of r = ra_action_id a \<or> ra_idempotency_key (ar_action r) = ra_idempotency_key a \<or>
                         ar_command_id r = cm_command_id cmd \<or> started_in (ra_plan_id a) r) (fdb_actions db) \<or>
            \<not> has_plan db (ra_plan_id a)
         then Inl FlowIntegrityError
         else Inr (db\<lparr>fdb_actions := fdb_actions db @
                [\<lparr>ar_action = a, ar_attempt = cm_attempt cmd, ar_command_id = cm_command_id cmd,
                  ar_state = Action_STARTED, ar_observation_id = None\<rparr>]\<rparr>))"

text \<open>\<^verbatim>\<open>UPDATE red_team_replan_admissions SET state=? WHERE admission_id=? AND state='reserved'\<close> and its row count.\<close>

definition holds_reservation :: "digest \<Rightarrow> admission_row \<Rightarrow> bool" where
  "holds_reservation i m \<longleftrightarrow> ad_admission_id (mr_admission m) = i \<and> mr_state m = Adm_RESERVED"

definition set_admission_state :: "flow_db \<Rightarrow> digest \<Rightarrow> admission_state \<Rightarrow> flow_db \<times> nat" where
  "set_admission_state db i st =
     (db\<lparr>fdb_admissions := map (\<lambda>m. if holds_reservation i m then m\<lparr>mr_state := st\<rparr> else m) (fdb_admissions db)\<rparr>,
      length (filter (holds_reservation i) (fdb_admissions db)))"

text \<open>\<^verbatim>\<open>claim_action\<close> when a row for the action exists.\<close>

definition claim_known ::
  "flow_db \<Rightarrow> RedTeamReconCommand \<Rightarrow> action_row \<Rightarrow> flow_store_error + (RedTeamReconObservation option \<times> flow_db)" where
  "claim_known db cmd r =
     (if action_id_of r \<noteq> ra_action_id (cm_action cmd) \<or> ar_action r \<noteq> cm_action cmd
      then Inl (RedTeamStoreRejected ''Red Team action identity conflict'')
      else if ar_state r = Action_COMPLETED
      then bind_result (flow_observation db (ar_observation_id r)) (\<lambda>v. Inr (Some v, db))
      else if cm_attempt cmd \<noteq> ar_attempt r + 1
      then Inl (RedTeamRecoveryRequired ''Red Team action requires next bounded attempt'')
      else bind_result (retry_action db cmd (ar_attempt r)) (\<lambda>(db', changed).
           if changed \<noteq> 1 then Inl (RedTeamRecoveryRequired ''Red Team action recovery raced'') else Inr (None, db')))"

text \<open>The part of the first claim after the checkpoint and the plan were read; \<open>replan\<close> is the admission of this action.\<close>

definition replan_available :: "RedTeamReconAction \<Rightarrow> admission_row option \<Rightarrow> bool" where
  "replan_available a replan \<longleftrightarrow> opt_all (\<lambda>m. mr_state m = Adm_RESERVED \<and> admitted_action m = a) replan"

definition start_claimed ::
  "flow_db \<Rightarrow> RedTeamReconCommand \<Rightarrow> admission_row option
   \<Rightarrow> flow_store_error + (RedTeamReconObservation option \<times> flow_db)" where
  "start_claimed db cmd replan =
     bind_result (insert_action db cmd) (\<lambda>db'.
       case replan of
         None \<Rightarrow> Inr (None, db')
       | Some m \<Rightarrow>
           (let (db'', changed) = set_admission_state db' (ad_admission_id (mr_admission m)) Adm_CONSUMED
            in if changed \<noteq> 1 then Inl (RedTeamStoreRejected ''Red Team replan reservation consumption raced'')
               else Inr (None, db'')))"

definition claim_first ::
  "flow_db \<Rightarrow> RedTeamReconCommand \<Rightarrow> flow_store_error + (RedTeamReconObservation option \<times> flow_db)" where
  "claim_first db cmd =
     (let a = cm_action cmd; i = ra_plan_id a
      in if cm_attempt cmd \<noteq> 1
         then Inl (RedTeamRecoveryRequired ''Red Team first action attempt must be one'')
         else bind_result (assert_latest_id db i (ra_expected_checkpoint_id a)) (\<lambda>_.
              bind_result (latest_flow db i) (\<lambda>c.
              bind_result (flow_plan db i) (\<lambda>p.
                let replan = List.find (\<lambda>m. ra_action_id (admitted_action m) = ra_action_id a) (fdb_admissions db)
                in if \<not> replan_available a replan
                   then Inl (RedTeamStoreRejected ''Red Team replan reservation is unavailable'')
                   else if max_actions (stop_conditions (fp_rules p)) <
                      fc_actions_used c + started_actions db i + reserved_actions db i + reserved_replan_actions db i +
                      (if replan \<noteq> None then 0 else 1)
                   then Inl (RedTeamStoreRejected ''Red Team action budget is reserved by another workflow'')
                   else start_claimed db cmd replan))))"

definition claim_action ::
  "flow_db \<Rightarrow> RedTeamReconCommand \<Rightarrow> flow_store_error + (RedTeamReconObservation option \<times> flow_db)" where
  "claim_action db cmd =
     integrity ''Red Team action claim rejected''
       (case List.find (same_action (cm_action cmd)) (fdb_actions db) of
          Some r \<Rightarrow> claim_known db cmd r
        | None \<Rightarrow> claim_first db cmd)"

definition completed_action ::
  "flow_db \<Rightarrow> RedTeamReconCommand \<Rightarrow> flow_store_error + RedTeamReconObservation option" where
  "completed_action db cmd =
     (case List.find (same_action (cm_action cmd)) (fdb_actions db) of
        None \<Rightarrow> Inr None
      | Some r \<Rightarrow>
          if action_id_of r \<noteq> ra_action_id (cm_action cmd) \<or> ar_action r \<noteq> cm_action cmd
          then Inl (RedTeamStoreRejected ''Red Team action identity conflict'')
          else if ar_state r = Action_COMPLETED
          then bind_result (flow_observation db (ar_observation_id r)) (\<lambda>v. Inr (Some v))
          else Inr None)"

text \<open>\<^verbatim>\<open>UPDATE ... SET state='completed',observation_id=? WHERE action_id=? AND command_id=? AND attempt=? AND state='started'\<close>\<close>

definition claimed_by :: "RedTeamReconCommand \<Rightarrow> action_row \<Rightarrow> bool" where
  "claimed_by cmd r \<longleftrightarrow>
     action_id_of r = ra_action_id (cm_action cmd) \<and> ar_command_id r = cm_command_id cmd \<and>
     ar_attempt r = cm_attempt cmd \<and> ar_state r = Action_STARTED"

definition complete_row :: "RedTeamReconCommand \<Rightarrow> digest \<Rightarrow> action_row \<Rightarrow> action_row" where
  "complete_row cmd i r =
     (if claimed_by cmd r then r\<lparr>ar_state := Action_COMPLETED, ar_observation_id := Some i\<rparr> else r)"

definition insert_observation :: "flow_db \<Rightarrow> RedTeamReconObservation \<Rightarrow> flow_store_error + flow_db" where
  "insert_observation db v =
     (if list_ex (\<lambda>w. ro_observation_id w = ro_observation_id v \<or> ro_action_id w = ro_action_id v) (fdb_observations db) \<or>
         \<not> list_ex (\<lambda>r. action_id_of r = ro_action_id v) (fdb_actions db)
      then Inl FlowIntegrityError
      else Inr (db\<lparr>fdb_observations := fdb_observations db @ [v]\<rparr>))"

definition complete_action ::
  "flow_db \<Rightarrow> RedTeamReconCommand \<Rightarrow> RedTeamCheckpoint \<Rightarrow> RedTeamCheckpoint \<Rightarrow> RedTeamReconObservation
   \<Rightarrow> flow_store_error + (RedTeamCheckpoint \<times> flow_db)" where
  "complete_action db cmd previous c v =
     integrity ''Red Team action completion rejected''
       (bind_result (assert_latest_flow db previous) (\<lambda>_.
          if length (filter (claimed_by cmd) (fdb_actions db)) \<noteq> 1
          then Inl (RedTeamRecoveryRequired ''Red Team action claim is unavailable'')
          else
            bind_result (insert_observation
              (db\<lparr>fdb_actions := map (complete_row cmd (ro_observation_id v)) (fdb_actions db)\<rparr>) v) (\<lambda>db1.
            bind_result (insert_flow_checkpoint db1 c) (\<lambda>db2. Inr (c, db2)))))"

section \<open>Budget reserved by other workflows\<close>

definition reserve_external_actions ::
  "flow_db \<Rightarrow> digest \<Rightarrow> digest \<Rightarrow> digest \<Rightarrow> int \<Rightarrow> flow_store_error + flow_db" where
  "reserve_external_actions db i source_checkpoint_id reservation_id n =
     (if n \<le> 0 then Inl (RedTeamStoreRejected ''Red Team external reservation is invalid'')
      else integrity ''Red Team external reservation rejected''
        (case List.find (\<lambda>x. xr_reservation_id x = reservation_id) (fdb_external db) of
           Some x \<Rightarrow>
             if (xr_plan_id x, xr_source_checkpoint_id x, xr_action_count x) \<noteq> (i, source_checkpoint_id, n)
             then Inl (RedTeamStoreRejected ''Red Team external reservation identity conflict'')
             else Inr db
         | None \<Rightarrow>
             bind_result (latest_flow db i) (\<lambda>c.
               if fc_checkpoint_id c \<noteq> source_checkpoint_id \<or> fc_status c \<noteq> Flow_RUNNING
               then Inl (RedTeamStoreRejected ''Red Team external reservation checkpoint is stale'')
               else bind_result (flow_plan db i) (\<lambda>p.
                 if max_actions (stop_conditions (fp_rules p)) <
                    fc_actions_used c + started_actions db i + reserved_actions db i + n
                 then Inl (RedTeamStoreRejected ''Red Team external action budget is exhausted'')
                 else Inr (db\<lparr>fdb_external := fdb_external db @
                   [\<lparr>xr_reservation_id = reservation_id, xr_plan_id = i, xr_source_checkpoint_id = source_checkpoint_id,
                     xr_action_count = n\<rparr>]\<rparr>)))))"

section \<open>Replanning\<close>

definition put_replan_tool_view ::
  "flow_db \<Rightarrow> RedTeamReplanToolView \<Rightarrow> flow_store_error + (RedTeamReplanToolView \<times> flow_db)" where
  "put_replan_tool_view db v =
     (case List.find (\<lambda>w. tv_tool_view_id w = tv_tool_view_id v) (fdb_tool_views db) of
        Some w \<Rightarrow>
          if w \<noteq> v then Inl (RedTeamStoreRejected ''Red Team replan Tool View collision'') else Inr (w, db)
      | None \<Rightarrow>
          if \<not> has_plan db (tv_flow_plan_id v) then Inl FlowIntegrityError
          else Inr (v, db\<lparr>fdb_tool_views := fdb_tool_views db @ [v]\<rparr>))"

definition replan_tool_view :: "flow_db \<Rightarrow> digest \<Rightarrow> flow_store_error + RedTeamReplanToolView" where
  "replan_tool_view db i = or_reject ''Red Team replan Tool View is unavailable''
     (List.find (\<lambda>w. tv_tool_view_id w = i) (fdb_tool_views db))"

definition stored_proposal :: "flow_db \<Rightarrow> RedTeamReplanProposal \<Rightarrow> RedTeamReplanProposal option" where
  "stored_proposal db p =
     List.find (\<lambda>q. rp_proposal_id q = rp_proposal_id p \<or> rp_idempotency_key q = rp_idempotency_key p) (fdb_proposals db)"

definition admission_of_proposal :: "flow_db \<Rightarrow> RedTeamReplanProposal \<Rightarrow> admission_row option" where
  "admission_of_proposal db p = List.find (\<lambda>m. mr_proposal_id m = rp_proposal_id p) (fdb_admissions db)"

definition replan_admission_for_proposal ::
  "flow_db \<Rightarrow> RedTeamReplanProposal \<Rightarrow> flow_store_error + RedTeamReplanAdmission option" where
  "replan_admission_for_proposal db p =
     (case stored_proposal db p of
        None \<Rightarrow> Inr None
      | Some q \<Rightarrow>
          if rp_proposal_id q \<noteq> rp_proposal_id p \<or> q \<noteq> p
          then Inl (RedTeamStoreRejected ''Red Team replan proposal collision'')
          else bind_result (or_reject ''Red Team replan admission is incomplete'' (admission_of_proposal db p))
                 (\<lambda>m. Inr (Some (mr_admission m))))"

definition insert_admission ::
  "flow_db \<Rightarrow> RedTeamReplanProposal \<Rightarrow> RedTeamReplanAdmission \<Rightarrow> flow_store_error + flow_db" where
  "insert_admission db p a =
     (if list_ex (\<lambda>m. ad_admission_id (mr_admission m) = ad_admission_id a \<or> mr_proposal_id m = rp_proposal_id p \<or>
                      ra_action_id (admitted_action m) = ra_action_id (cm_action (ad_command a))) (fdb_admissions db) \<or>
         \<not> has_plan db (ad_flow_plan_id a)
      then Inl FlowIntegrityError
      else Inr (db\<lparr>fdb_proposals := fdb_proposals db @ [p],
                   fdb_admissions := fdb_admissions db @
                     [\<lparr>mr_proposal_id = rp_proposal_id p, mr_state = Adm_RESERVED, mr_admission = a\<rparr>]\<rparr>))"

definition admit_replan ::
  "flow_db \<Rightarrow> RedTeamReplanProposal \<Rightarrow> RedTeamReplanAdmission
   \<Rightarrow> flow_store_error + (RedTeamReplanAdmission \<times> flow_db)" where
  "admit_replan db p a =
     integrity ''Red Team replan admission transaction rejected''
       (case stored_proposal db p of
          Some q \<Rightarrow>
            if rp_proposal_id q \<noteq> rp_proposal_id p \<or> q \<noteq> p
            then Inl (RedTeamStoreRejected ''Red Team replan proposal collision'')
            else bind_result (or_reject ''Red Team replan admission is incomplete'' (admission_of_proposal db p)) (\<lambda>m.
                 if mr_admission m \<noteq> a
                 then Inl (RedTeamStoreRejected ''Red Team replan admission collision'')
                 else Inr (mr_admission m, db))
        | None \<Rightarrow>
            bind_result (latest_flow db (ad_flow_plan_id a)) (\<lambda>c.
              if fc_checkpoint_id c \<noteq> ad_source_checkpoint_id a \<or> fc_status c \<noteq> Flow_RUNNING
              then Inl (RedTeamStoreRejected ''Red Team replan budget or checkpoint is stale'')
              else bind_result (remaining_action_budget db (ad_flow_plan_id a)) (\<lambda>n.
                if n < 1 then Inl (RedTeamStoreRejected ''Red Team replan budget or checkpoint is stale'')
                else bind_result (insert_admission db p a) (\<lambda>db'. Inr (a, db')))))"

definition find_admission :: "flow_db \<Rightarrow> digest \<Rightarrow> flow_store_error + admission_row" where
  "find_admission db i = or_reject ''Red Team replan admission is unavailable''
     (List.find (\<lambda>m. ad_admission_id (mr_admission m) = i) (fdb_admissions db))"

definition replan_admission :: "flow_db \<Rightarrow> digest \<Rightarrow> flow_store_error + RedTeamReplanAdmission" where
  "replan_admission db i = bind_result (find_admission db i) (\<lambda>m. Inr (mr_admission m))"

definition replan_admission_state :: "flow_db \<Rightarrow> digest \<Rightarrow> flow_store_error + admission_state" where
  "replan_admission_state db i = bind_result (find_admission db i) (\<lambda>m. Inr (mr_state m))"

definition release_state :: "string \<Rightarrow> admission_state option" where
  "release_state s =
     (if s = ''cancelled'' then Some Adm_CANCELLED else if s = ''expired'' then Some Adm_EXPIRED else None)"

definition release_replan_admission :: "flow_db \<Rightarrow> digest \<Rightarrow> string \<Rightarrow> flow_store_error + flow_db" where
  "release_replan_admission db i state =
     (case release_state state of
        None \<Rightarrow> Inl (RedTeamStoreRejected ''Red Team replan release state is invalid'')
      | Some st \<Rightarrow>
          (let (db', changed) = set_admission_state db i st
           in if changed \<noteq> 1
              then Inl (RedTeamStoreRejected ''Red Team replan reservation is not releasable'') else Inr db'))"

definition put_replan_execution_receipt ::
  "flow_db \<Rightarrow> RedTeamReplanExecutionReceipt \<Rightarrow> flow_store_error + (RedTeamReplanExecutionReceipt \<times> flow_db)" where
  "put_replan_execution_receipt db r =
     integrity ''Red Team replan Execution Receipt transaction rejected''
       (case List.find (\<lambda>q. rr_admission_id q = rr_admission_id r \<or> rr_action_id q = rr_action_id r) (fdb_receipts db) of
          Some q \<Rightarrow>
            if rr_receipt_id q \<noteq> rr_receipt_id r \<or> q \<noteq> r
            then Inl (RedTeamStoreRejected ''Red Team replan Execution Receipt collision'') else Inr (q, db)
        | None \<Rightarrow>
            bind_result (replan_admission_state db (rr_admission_id r)) (\<lambda>st.
              if st \<noteq> Adm_CONSUMED
              then Inl (RedTeamStoreRejected ''Red Team replan Execution Receipt requires consumed admission'')
              else if list_ex (\<lambda>q. rr_receipt_id q = rr_receipt_id r) (fdb_receipts db) \<or>
                      \<not> list_ex (\<lambda>q. action_id_of q = rr_action_id r) (fdb_actions db)
              then Inl FlowIntegrityError
              else Inr (r, db\<lparr>fdb_receipts := fdb_receipts db @ [r]\<rparr>)))"

definition replan_execution_receipt :: "flow_db \<Rightarrow> digest \<Rightarrow> flow_store_error + RedTeamReplanExecutionReceipt" where
  "replan_execution_receipt db i = or_reject ''Red Team replan Execution Receipt is unavailable''
     (List.find (\<lambda>q. rr_receipt_id q = i) (fdb_receipts db))"

definition replan_execution_receipt_for_admission :: "flow_db \<Rightarrow> digest \<Rightarrow> RedTeamReplanExecutionReceipt option" where
  "replan_execution_receipt_for_admission db i = List.find (\<lambda>q. rr_admission_id q = i) (fdb_receipts db)"

end
