(* ===== verification/Red_Team_Store_Facts.thy ===== *)
theory Red_Team_Store_Facts
  imports Red_Team_Store "HOL-Library.Multiset"
begin

text \<open>
  What every sequence of store operations keeps: the latest checkpoint of each plan accounts for exactly the completed
  actions of the plan, at most one action is started, and what is used, started and reserved by other workflows fits
  into the action budget.
\<close>

section \<open>Tables with one matching row\<close>

lemma one_match:
  assumes "length (filter P xs) = 1"
  obtains ys r zs where "xs = ys @ r # zs" "P r" "\<forall>y \<in> set ys. \<not> P y" "\<forall>z \<in> set zs. \<not> P z"
proof -
  obtain r where r: "filter P xs = [r]" using assms by (auto simp: length_Suc_conv)
  then obtain ys zs where "xs = ys @ r # zs" "\<forall>y \<in> set ys. \<not> P y" "P r" "filter P zs = []"
    by (auto simp: filter_eq_Cons_iff)
  then show thesis using that by (auto simp: filter_empty_conv)
qed

lemma update_one:
  assumes "xs = ys @ r # zs" "P r" "\<forall>y \<in> set ys. \<not> P y" "\<forall>z \<in> set zs. \<not> P z"
  shows "map (\<lambda>x. if P x then f x else x) xs = ys @ f r # zs"
proof -
  have "map (\<lambda>x. if P x then f x else x) ys = ys" "map (\<lambda>x. if P x then f x else x) zs = zs"
    using assms by (auto intro!: map_idI)
  then show ?thesis using assms by simp
qed

lemma or_reject_Inr [result_simps]: "or_reject msg x = Inr y \<longleftrightarrow> x = Some y"
  by (auto simp: or_reject_def split: option.splits)

lemma integrity_Inr [result_simps]: "integrity msg r = Inr x \<longleftrightarrow> r = Inr x"
  by (auto simp: integrity_def split: sum.splits flow_store_error.splits)

lemma find_only:
  assumes "x \<in> set xs" "P x" "\<And>y. y \<in> set xs \<Longrightarrow> P y \<Longrightarrow> y = x"
  shows "List.find P xs = Some x"
proof (cases "List.find P xs")
  case None
  with assms(1,2) show ?thesis by (auto simp: find_None_iff)
next
  case (Some y)
  then have "y \<in> set xs" "P y" by (auto simp: find_Some_iff)
  with Some assms(3) show ?thesis by simp
qed

section \<open>Callers of the store\<close>

text \<open>The transitions that \<^verbatim>\<open>RedTeamService\<close> hands to \<^verbatim>\<open>advance\<close>.\<close>

inductive flow_control :: "(pyval \<Rightarrow> digest) \<Rightarrow> RedTeamFlowPlan \<Rightarrow> RedTeamCheckpoint \<Rightarrow> RedTeamCheckpoint \<Rightarrow> bool"
  for H p where
  "start_flow H p c now = Inr c' \<Longrightarrow> flow_control H p c c'"
| "cancel_flow H p c now = Inr c' \<Longrightarrow> flow_control H p c c'"
| "activate_kill_switch H p c now = Inr c' \<Longrightarrow> flow_control H p c c'"
| "expire_flow H p c now = Inr c' \<Longrightarrow> fc_status c \<notin> set TERMINAL_STATUSES \<Longrightarrow> flow_control H p c c'"

lemma flow_control_step:
  assumes "flow_control H p c c'"
  shows "flow_step H p c c'" "fc_observation_ids c' = fc_observation_ids c" "fc_actions_used c' = fc_actions_used c"
proof -
  show "flow_step H p c c'" using assms by (auto elim!: flow_control.cases intro: flow_step.intros)
  from assms show "fc_observation_ids c' = fc_observation_ids c" "fc_actions_used c' = fc_actions_used c"
    by (auto elim!: flow_control.cases simp: flow_operation_defs flow_next_Inr_iff Let_def result_simps split: if_splits)
qed

lemma record_observation_effect:
  assumes "record_observation H p c v now = Inr c'"
  shows "flow_step H p c c'" "fc_observation_ids c' = fc_observation_ids c @ [ro_observation_id v]"
    "fc_actions_used c' = fc_actions_used c + 1" "fc_plan_id c = fp_plan_id p"
proof -
  show "flow_step H p c c'" using assms by (rule flow_step.observed)
  from assms show "fc_observation_ids c' = fc_observation_ids c @ [ro_observation_id v]"
    "fc_actions_used c' = fc_actions_used c + 1" "fc_plan_id c = fp_plan_id p"
    by (auto simp: flow_operation_defs flow_next_Inr_iff Let_def result_simps split: if_splits)
qed

text \<open>
  One operation of a caller. Plans and checkpoints that a caller passes on were read from the store before; an action is
  completed by a caller whose claim of it was granted before. The label is the action whose execution the operation granted
  to its caller.
\<close>

inductive flow_op ::
  "(pyval \<Rightarrow> digest) \<Rightarrow> url_env \<Rightarrow> flow_db \<Rightarrow> digest option \<Rightarrow> flow_db \<Rightarrow> bool" for H U db where
  created: "RedTeamFlowPlan_valid H U p \<Longrightarrow> planned_flow H p now = Some c \<Longrightarrow> create_plan db p c = Inr (d, db') \<Longrightarrow>
    flow_op H U db None db'"
| advanced: "p \<in> set (fdb_plans db) \<Longrightarrow> c \<in> set (fdb_checkpoints db) \<Longrightarrow> fc_plan_id c = fp_plan_id p \<Longrightarrow>
    flow_control H p c c' \<Longrightarrow> advance_flow db c c' = Inr (d, db') \<Longrightarrow> flow_op H U db None db'"
| replayed: "RedTeamReconCommand_valid H cmd \<Longrightarrow> claim_action db cmd = Inr (Some v, db') \<Longrightarrow> flow_op H U db None db'"
| granted: "RedTeamReconCommand_valid H cmd \<Longrightarrow> claim_action db cmd = Inr (None, db') \<Longrightarrow>
    flow_op H U db (Some (ra_action_id (cm_action cmd))) db'"
| finished: "p \<in> set (fdb_plans db) \<Longrightarrow> c \<in> set (fdb_checkpoints db) \<Longrightarrow> fp_plan_id p = ra_plan_id (cm_action cmd) \<Longrightarrow>
    r \<in> set (fdb_actions db) \<Longrightarrow> ar_action r = cm_action cmd \<Longrightarrow> ro_action_id v = ra_action_id (cm_action cmd) \<Longrightarrow>
    record_observation H p c v now = Inr c' \<Longrightarrow> complete_action db cmd c c' v = Inr (d, db') \<Longrightarrow>
    flow_op H U db None db'"
| external: "reserve_external_actions db i k rid n = Inr db' \<Longrightarrow> flow_op H U db None db'"
| viewed: "put_replan_tool_view db w = Inr (x, db') \<Longrightarrow> flow_op H U db None db'"
| admitted: "RedTeamReplanAdmission_valid H a \<Longrightarrow> admit_replan db q a = Inr (x, db') \<Longrightarrow> flow_op H U db None db'"
| released: "release_replan_admission db i s = Inr db' \<Longrightarrow> flow_op H U db None db'"
| receipted: "put_replan_execution_receipt db y = Inr (x, db') \<Longrightarrow> flow_op H U db None db'"

text \<open>A history of the store: the actions granted so far, the last first.\<close>

inductive engagement :: "(pyval \<Rightarrow> digest) \<Rightarrow> url_env \<Rightarrow> digest list \<Rightarrow> flow_db \<Rightarrow> bool" for H U where
  engagement_empty: "engagement H U [] empty_flows"
| engagement_op: "engagement H U gs db \<Longrightarrow> flow_op H U db g db' \<Longrightarrow>
    engagement H U (case g of None \<Rightarrow> gs | Some a \<Rightarrow> a # gs) db'"

section \<open>The invariant\<close>

definition completed_in :: "digest \<Rightarrow> action_row \<Rightarrow> bool" where
  "completed_in i r \<longleftrightarrow> ra_plan_id (ar_action r) = i \<and> ar_state r = Action_COMPLETED"

definition observed_ids :: "flow_db \<Rightarrow> digest \<Rightarrow> digest multiset" where
  "observed_ids db i = mset (map (\<lambda>r. the (ar_observation_id r)) (filter (completed_in i) (fdb_actions db)))"

definition plan_accounts :: "(pyval \<Rightarrow> digest) \<Rightarrow> flow_db \<Rightarrow> RedTeamFlowPlan \<Rightarrow> RedTeamCheckpoint \<Rightarrow> bool" where
  "plan_accounts H db p c \<longleftrightarrow>
     latest_flow db (fp_plan_id p) = Inr c \<and> flow_inv p c \<and> RedTeamCheckpoint_valid H c \<and>
     mset (fc_observation_ids c) = observed_ids db (fp_plan_id p) \<and>
     fc_actions_used c + started_actions db (fp_plan_id p) + reserved_actions db (fp_plan_id p)
       \<le> max_actions (stop_conditions (fp_rules p))"

definition row_ok :: "flow_db \<Rightarrow> action_row \<Rightarrow> bool" where
  "row_ok db r \<longleftrightarrow>
     has_plan db (ra_plan_id (ar_action r)) \<and> 1 \<le> ar_attempt r \<and> ar_attempt r \<le> 3 \<and>
     (ar_state r = Action_COMPLETED \<longrightarrow>
        (\<exists>v \<in> set (fdb_observations db). ar_observation_id r = Some (ro_observation_id v) \<and> ro_action_id v = action_id_of r))"

definition flow_store_ok :: "(pyval \<Rightarrow> digest) \<Rightarrow> url_env \<Rightarrow> flow_db \<Rightarrow> bool" where
  "flow_store_ok H U db \<longleftrightarrow>
     distinct (map fp_plan_id (fdb_plans db)) \<and> distinct (map fc_checkpoint_id (fdb_checkpoints db)) \<and>
     distinct (map action_id_of (fdb_actions db)) \<and>
     distinct (map (\<lambda>r. ra_idempotency_key (ar_action r)) (fdb_actions db)) \<and>
     distinct (map ro_observation_id (fdb_observations db)) \<and>
     (\<forall>c \<in> set (fdb_checkpoints db). has_plan db (fc_plan_id c)) \<and>
     (\<forall>r \<in> set (fdb_actions db). row_ok db r) \<and>
     (\<forall>i. started_actions db i \<le> 1) \<and>
     (\<forall>x \<in> set (fdb_external db). has_plan db (xr_plan_id x)) \<and>
     (\<forall>m \<in> set (fdb_admissions db). RedTeamReplanAdmission_valid H (mr_admission m)) \<and>
     (\<forall>p \<in> set (fdb_plans db). RedTeamFlowPlan_valid H U p \<and> (\<exists>c. plan_accounts H db p c))"

lemma empty_flows_ok: "flow_store_ok H U empty_flows"
  by (simp add: flow_store_ok_def empty_flows_def started_actions_def)

lemma flow_store_okD:
  assumes "flow_store_ok H U db"
  shows "distinct (map fp_plan_id (fdb_plans db))" "distinct (map fc_checkpoint_id (fdb_checkpoints db))"
    "distinct (map action_id_of (fdb_actions db))" "r \<in> set (fdb_actions db) \<Longrightarrow> row_ok db r"
    "m \<in> set (fdb_admissions db) \<Longrightarrow> RedTeamReplanAdmission_valid H (mr_admission m)"
    "p \<in> set (fdb_plans db) \<Longrightarrow> \<exists>c. plan_accounts H db p c"
  using assms by (auto simp: flow_store_ok_def)

section \<open>What each operation does\<close>

lemma latest_flow_mem: "latest_flow db i = Inr c \<Longrightarrow> c \<in> set (fdb_checkpoints db) \<and> fc_plan_id c = i"
  by (auto simp: latest_flow_def result_simps dest!: highest_revision_mem)

lemma latest_after_flow_insert:
  assumes "insert_flow_checkpoint db c' = Inr db'" and "latest_flow db (fc_plan_id c') = Inr c"
    and "fc_revision c < fc_revision c'"
  shows "latest_flow db' j = (if j = fc_plan_id c' then Inr c' else latest_flow db j)"
  using assms by (auto simp: insert_flow_checkpoint_def latest_flow_def result_simps highest_revision_snoc or_reject_def
      split: if_splits option.splits)

lemma insert_flow_checkpoint_Inr:
  "insert_flow_checkpoint db c = Inr db' \<longleftrightarrow>
     db' = db\<lparr>fdb_checkpoints := fdb_checkpoints db @ [c]\<rparr> \<and> has_plan db (fc_plan_id c) \<and>
     fc_checkpoint_id c \<notin> fc_checkpoint_id ` set (fdb_checkpoints db) \<and>
     \<not> (\<exists>d \<in> set (fdb_checkpoints db). fc_plan_id d = fc_plan_id c \<and> fc_revision d = fc_revision c)"
  by (force simp: insert_flow_checkpoint_def list_ex_iff image_iff)

lemma assert_latest_flow_Inr:
  assumes "assert_latest_flow db c = Inr u" and "distinct (map fc_checkpoint_id (fdb_checkpoints db))"
    and "c \<in> set (fdb_checkpoints db)"
  shows "latest_flow db (fc_plan_id c) = Inr c"
proof -
  obtain d where d: "latest_flow db (fc_plan_id c) = Inr d" "fc_checkpoint_id d = fc_checkpoint_id c"
    using assms(1) by (auto simp: assert_latest_flow_def result_simps)
  then have "d = c" using assms(2,3) latest_flow_mem [OF d(1)] by (auto simp: distinct_map dest: inj_onD)
  with d show ?thesis by simp
qed

lemma has_plan_iff: "has_plan db i \<longleftrightarrow> (\<exists>p \<in> set (fdb_plans db). fp_plan_id p = i)"
  by (simp add: has_plan_def list_ex_iff)

lemma flow_plan_Inr: "flow_plan db i = Inr p \<Longrightarrow> p \<in> set (fdb_plans db) \<and> fp_plan_id p = i"
  by (auto simp: flow_plan_def result_simps find_Some_iff)

lemma claim_replay:
  assumes "claim_action db cmd = Inr (Some v, db')"
  shows "db' = db"
  using assms
  by (auto simp: claim_action_def claim_known_def claim_first_def start_claimed_def result_simps Let_def
      split: option.splits if_splits prod.splits)

definition grant_row :: "RedTeamReconCommand \<Rightarrow> action_row" where
  "grant_row cmd = \<lparr>ar_action = cm_action cmd, ar_attempt = cm_attempt cmd, ar_command_id = cm_command_id cmd,
     ar_state = Action_STARTED, ar_observation_id = None\<rparr>"

lemma claim_known_grant:
  assumes "claim_known db cmd r = Inr (None, db')"
  obtains ys q zs where "ar_action r = cm_action cmd" "ar_state r = Action_STARTED" "cm_attempt cmd = ar_attempt r + 1"
    "fdb_actions db = ys @ q # zs" "action_id_of q = ra_action_id (cm_action cmd)" "ar_state q = Action_STARTED"
    "ar_attempt q = ar_attempt r"
    "db' = db\<lparr>fdb_actions := ys @ q\<lparr>ar_attempt := cm_attempt cmd, ar_command_id := cm_command_id cmd\<rparr> # zs\<rparr>"
proof -
  define P where "P = (\<lambda>q. action_id_of q = ra_action_id (cm_action cmd) \<and> ar_state q = Action_STARTED \<and>
     ar_attempt q = ar_attempt r)"
  define f where "f = (\<lambda>q :: action_row. q\<lparr>ar_attempt := cm_attempt cmd, ar_command_id := cm_command_id cmd\<rparr>)"
  have rows: "retry_row cmd (ar_attempt r) = (\<lambda>q. if P q then f q else q)"
    by (simp add: fun_eq_iff retry_row_def P_def f_def)
  have known: "ar_action r = cm_action cmd" "ar_state r = Action_STARTED" "cm_attempt cmd = ar_attempt r + 1"
    "length (filter P (fdb_actions db)) = 1"
    "db' = db\<lparr>fdb_actions := map (\<lambda>q. if P q then f q else q) (fdb_actions db)\<rparr>"
    using assms unfolding claim_known_def retry_action_def Let_def P_def [symmetric] rows
    by (auto simp: result_simps split: if_splits) (cases "ar_state r"; simp)
  from one_match [OF known(4)] obtain ys q zs
    where q: "fdb_actions db = ys @ q # zs" "P q" "\<forall>y \<in> set ys. \<not> P y" "\<forall>z \<in> set zs. \<not> P z" .
  show thesis
    using known(1-3) q(1,2) known(5) unfolding update_one [OF q] by (intro that) (simp_all add: P_def f_def)
qed

lemma insert_action_Inr:
  "insert_action db cmd = Inr db' \<longleftrightarrow>
     db' = db\<lparr>fdb_actions := fdb_actions db @ [grant_row cmd]\<rparr> \<and> has_plan db (ra_plan_id (cm_action cmd)) \<and>
     ra_action_id (cm_action cmd) \<notin> action_id_of ` set (fdb_actions db) \<and>
     ra_idempotency_key (cm_action cmd) \<notin> (\<lambda>r. ra_idempotency_key (ar_action r)) ` set (fdb_actions db) \<and>
     cm_command_id cmd \<notin> ar_command_id ` set (fdb_actions db) \<and>
     filter (started_in (ra_plan_id (cm_action cmd))) (fdb_actions db) = []"
  by (force simp: insert_action_def grant_row_def list_ex_iff Let_def filter_empty_conv image_iff)

text \<open>The admission a first claim uses up, if the action was admitted by a replan.\<close>

definition admission_for :: "flow_db \<Rightarrow> RedTeamReconAction \<Rightarrow> admission_row option" where
  "admission_for db a = List.find (\<lambda>m. ra_action_id (admitted_action m) = ra_action_id a) (fdb_admissions db)"

definition consume_for :: "flow_db \<Rightarrow> RedTeamReconAction \<Rightarrow> flow_db" where
  "consume_for db a =
     (case admission_for db a of
        None \<Rightarrow> db | Some m \<Rightarrow> fst (set_admission_state db (ad_admission_id (mr_admission m)) Adm_CONSUMED))"

lemma claim_first_grant:
  assumes "claim_first db cmd = Inr (res, db')"
  obtains c p where "res = None" "cm_attempt cmd = 1" "latest_flow db (ra_plan_id (cm_action cmd)) = Inr c"
    "flow_plan db (ra_plan_id (cm_action cmd)) = Inr p"
    "replan_available (cm_action cmd) (admission_for db (cm_action cmd))"
    "fc_actions_used c + started_actions db (ra_plan_id (cm_action cmd)) + reserved_actions db (ra_plan_id (cm_action cmd)) +
       reserved_replan_actions db (ra_plan_id (cm_action cmd)) + (if admission_for db (cm_action cmd) \<noteq> None then 0 else 1)
       \<le> max_actions (stop_conditions (fp_rules p))"
    "insert_action db cmd = Inr (db\<lparr>fdb_actions := fdb_actions db @ [grant_row cmd]\<rparr>)"
    "db' = (consume_for db (cm_action cmd))\<lparr>fdb_actions := fdb_actions db @ [grant_row cmd]\<rparr>"
  using assms unfolding claim_first_def admission_for_def [symmetric] Let_def
  by (auto simp: result_simps start_claimed_def insert_action_Inr consume_for_def set_admission_state_def
      split: option.splits if_splits)

lemma claim_granted_cases:
  assumes "claim_action db cmd = Inr (None, db')"
  obtains (first) "claim_first db cmd = Inr (None, db')"
  | (retry) r where "r \<in> set (fdb_actions db)" "claim_known db cmd r = Inr (None, db')"
  using assms
  by (cases "List.find (same_action (cm_action cmd)) (fdb_actions db)")
    (auto simp: claim_action_def result_simps find_Some_iff, blast intro: nth_mem)

lemma release_Inr:
  assumes "release_replan_admission db i s = Inr db'"
  obtains st where "db' = fst (set_admission_state db i st)"
  using assms
  by (auto simp: release_replan_admission_def result_simps Let_def split: option.splits if_splits prod.splits)
    (metis fst_conv)

lemma complete_action_cases:
  assumes op: "complete_action db cmd c c' v = Inr (d, db')"
  obtains ys q zs where "assert_latest_flow db c = Inr ()" "fdb_actions db = ys @ q # zs" "claimed_by cmd q"
    "db' = db\<lparr>fdb_actions := ys @ q\<lparr>ar_state := Action_COMPLETED, ar_observation_id := Some (ro_observation_id v)\<rparr> # zs,
       fdb_observations := fdb_observations db @ [v], fdb_checkpoints := fdb_checkpoints db @ [c']\<rparr>"
    "insert_flow_checkpoint db c' = Inr (db\<lparr>fdb_checkpoints := fdb_checkpoints db @ [c']\<rparr>)"
    "ro_observation_id v \<notin> ro_observation_id ` set (fdb_observations db)"
proof -
  define f where "f = (\<lambda>q :: action_row. q\<lparr>ar_state := Action_COMPLETED, ar_observation_id := Some (ro_observation_id v)\<rparr>)"
  have rows: "complete_row cmd (ro_observation_id v) = (\<lambda>q. if claimed_by cmd q then f q else q)"
    by (simp add: fun_eq_iff complete_row_def f_def)
  from op have k: "assert_latest_flow db c = Inr ()" "length (filter (claimed_by cmd) (fdb_actions db)) = 1"
    "db' = db\<lparr>fdb_actions := map (\<lambda>q. if claimed_by cmd q then f q else q) (fdb_actions db),
       fdb_observations := fdb_observations db @ [v], fdb_checkpoints := fdb_checkpoints db @ [c']\<rparr>"
    "insert_flow_checkpoint db c' = Inr (db\<lparr>fdb_checkpoints := fdb_checkpoints db @ [c']\<rparr>)"
    "ro_observation_id v \<notin> ro_observation_id ` set (fdb_observations db)"
    unfolding complete_action_def rows
    by (auto simp: result_simps insert_observation_def insert_flow_checkpoint_Inr has_plan_def list_ex_iff split: if_splits)
  from one_match [OF k(2)] obtain ys q zs where q: "fdb_actions db = ys @ q # zs" "claimed_by cmd q"
    "\<forall>y \<in> set ys. \<not> claimed_by cmd y" "\<forall>z \<in> set zs. \<not> claimed_by cmd z" .
  show thesis using k q(1,2) unfolding update_one [OF q] by (intro that) (simp_all add: f_def)
qed

text \<open>Which operations touch the table of actions.\<close>

lemma flow_op_actions_cases:
  assumes "flow_op H U db g db'"
  obtains (same) "g = None" "fdb_actions db' = fdb_actions db"
  | (first) cmd where "g = Some (ra_action_id (cm_action cmd))" "claim_first db cmd = Inr (None, db')"
  | (retry) cmd r where "g = Some (ra_action_id (cm_action cmd))" "r \<in> set (fdb_actions db)"
      "claim_known db cmd r = Inr (None, db')"
  | (finish) cmd c c' v d where "g = None" "complete_action db cmd c c' v = Inr (d, db')"
  using assms
proof (cases rule: flow_op.cases)
  case (granted cmd)
  then show thesis using first retry by (auto elim: claim_granted_cases)
next
  case (finished p c cmd r v now c' d)
  then show thesis using finish by blast
next
  case (replayed cmd v)
  then show thesis using same claim_replay [of db cmd v db'] by simp
next
  case (released i s)
  from released(2) show thesis
    by (rule release_Inr) (use same released(1) in \<open>simp add: set_admission_state_def\<close>)
qed (rule same;
      auto simp: create_plan_def advance_flow_def insert_flow_checkpoint_Inr reserve_external_actions_def
        put_replan_tool_view_def admit_replan_def insert_admission_def put_replan_execution_receipt_def result_simps
        split: option.splits if_splits)+

text \<open>Plans, checkpoints and observations are never removed.\<close>

lemma flow_op_grows:
  assumes "flow_op H U db g db'"
  shows "set (fdb_plans db) \<subseteq> set (fdb_plans db') \<and> set (fdb_checkpoints db) \<subseteq> set (fdb_checkpoints db') \<and>
    set (fdb_observations db) \<subseteq> set (fdb_observations db')"
  using assms
proof (cases rule: flow_op.cases)
  case (granted cmd)
  from granted(3) show ?thesis
  proof (cases rule: claim_granted_cases)
    case first
    then show ?thesis
      by (cases rule: claim_first_grant) (simp add: consume_for_def set_admission_state_def split: option.split)
  next
    case (retry r)
    from retry(2) show ?thesis by (cases rule: claim_known_grant) simp
  qed
next
  case (finished p c cmd r v now c' d)
  from \<open>complete_action db cmd c c' v = Inr (d, db')\<close> show ?thesis by (cases rule: complete_action_cases) auto
next
  case (replayed cmd v)
  then show ?thesis using claim_replay [of db cmd v db'] by simp
next
  case (released i s)
  from released(2) show ?thesis by (rule release_Inr) (simp add: set_admission_state_def)
qed (auto simp: create_plan_def advance_flow_def insert_flow_checkpoint_Inr reserve_external_actions_def
        put_replan_tool_view_def admit_replan_def insert_admission_def put_replan_execution_receipt_def result_simps
        split: option.splits if_splits)

lemmas plans_stay = flow_op_grows [THEN conjunct1]
  and checkpoints_stay = flow_op_grows [THEN conjunct2, THEN conjunct1]
  and observations_stay = flow_op_grows [THEN conjunct2, THEN conjunct2]

section \<open>Every operation keeps the invariant\<close>

definition rows_of :: "flow_db \<Rightarrow> digest \<Rightarrow> action_row list" where
  "rows_of db i = filter (\<lambda>r. ra_plan_id (ar_action r) = i) (fdb_actions db)"

lemma started_rows: "started_actions db i = int (length (filter (\<lambda>r. ar_state r = Action_STARTED) (rows_of db i)))"
  unfolding started_actions_def rows_of_def filter_filter by (simp add: started_in_def [abs_def] conj_commute)

lemma observed_rows:
  "observed_ids db i = mset (map (\<lambda>r. the (ar_observation_id r)) (filter (\<lambda>r. ar_state r = Action_COMPLETED) (rows_of db i)))"
  unfolding observed_ids_def rows_of_def filter_filter by (simp add: completed_in_def [abs_def] conj_commute)

lemma plan_accounts_frame:
  assumes "plan_accounts H db p c" and "latest_flow db' (fp_plan_id p) = latest_flow db (fp_plan_id p)"
    and "started_actions db' (fp_plan_id p) = started_actions db (fp_plan_id p)"
    and "observed_ids db' (fp_plan_id p) = observed_ids db (fp_plan_id p)"
    and "reserved_actions db' (fp_plan_id p) = reserved_actions db (fp_plan_id p)"
  shows "plan_accounts H db' p c"
  using assms by (simp add: plan_accounts_def)

lemma row_ok_mono:
  assumes "row_ok db r" and "set (fdb_plans db) \<subseteq> set (fdb_plans db')"
    and "set (fdb_observations db) \<subseteq> set (fdb_observations db')"
  shows "row_ok db' r"
  using assms by (auto simp: row_ok_def has_plan_iff)

text \<open>The tables a budget depends on are the same.\<close>

definition same_flow :: "flow_db \<Rightarrow> flow_db \<Rightarrow> bool" where
  "same_flow db db' \<longleftrightarrow>
     fdb_plans db' = fdb_plans db \<and> fdb_checkpoints db' = fdb_checkpoints db \<and> fdb_actions db' = fdb_actions db \<and>
     fdb_observations db' = fdb_observations db \<and> fdb_external db' = fdb_external db"

lemma same_flow_accounts: "same_flow db db' \<Longrightarrow> plan_accounts H db p c \<Longrightarrow> plan_accounts H db' p c"
  by (erule plan_accounts_frame)
    (simp_all add: same_flow_def latest_flow_def started_actions_def observed_ids_def reserved_actions_def)

lemma same_flow_ok:
  assumes "flow_store_ok H U db" and "same_flow db db'"
    and "\<And>m. m \<in> set (fdb_admissions db') \<Longrightarrow> RedTeamReplanAdmission_valid H (mr_admission m)"
  shows "flow_store_ok H U db'"
proof -
  have "\<exists>c. plan_accounts H db' p c" if "p \<in> set (fdb_plans db')" for p
    using flow_store_okD(6) [OF assms(1), of p] that assms(2) same_flow_accounts [OF assms(2)]
    by (auto simp: same_flow_def)
  then show ?thesis
    using assms by (auto simp: flow_store_ok_def same_flow_def started_actions_def row_ok_def has_plan_def)
qed

lemma created_ok:
  assumes ok: "flow_store_ok H U db" and "RedTeamFlowPlan_valid H U p" and plan: "planned_flow H p now = Some c"
    and op: "create_plan db p c = Inr (d, db')"
  shows "flow_store_ok H U db'"
proof (cases "List.find (\<lambda>q. fp_idempotency_key q = fp_idempotency_key p) (fdb_plans db)")
  case (Some q)
  with op have "db' = db" by (auto simp: create_plan_def result_simps split: if_splits)
  with ok show ?thesis by simp
next
  case None
  let ?i = "fp_plan_id p"
  have max: "1 \<le> max_actions (stop_conditions (fp_rules p))"
    using assms(2) by (simp add: RedTeamFlowPlan_valid_def RulesOfEngagement_valid_def RedTeamStopConditions_valid_def)
  note c = planned_flow_inv [OF plan max]
  have cv: "RedTeamCheckpoint_valid H c" "fc_observation_ids c = []" "fc_actions_used c = 0"
    using plan by (auto simp: planned_flow_def RedTeamCheckpoint_create_def Let_def split: if_splits)
  from op None have new: "\<not> has_plan db ?i"
    and ins: "insert_flow_checkpoint (db\<lparr>fdb_plans := fdb_plans db @ [p]\<rparr>) c = Inr db'"
    by (auto simp: create_plan_def result_simps split: if_splits)
  from ins have db': "db' = db\<lparr>fdb_plans := fdb_plans db @ [p], fdb_checkpoints := fdb_checkpoints db @ [c]\<rparr>"
    and fresh: "fc_checkpoint_id c \<notin> fc_checkpoint_id ` set (fdb_checkpoints db)"
    by (auto simp: insert_flow_checkpoint_Inr)
  have none: "filter (\<lambda>d. fc_plan_id d = ?i) (fdb_checkpoints db) = []" "rows_of db ?i = []"
    "filter (\<lambda>x. xr_plan_id x = ?i) (fdb_external db) = []"
    using ok new by (auto simp: flow_store_ok_def rows_of_def row_ok_def filter_empty_conv)
  have latest: "latest_flow db' j = (if j = ?i then Inr c else latest_flow db j)" for j
    using none(1) c(4) by (auto simp: db' latest_flow_def or_reject_def highest_revision_snoc)
  have rows: "rows_of db' = rows_of db" "reserved_actions db' = reserved_actions db"
    by (simp_all add: db' rows_of_def reserved_actions_def fun_eq_iff)
  have "plan_accounts H db' p c"
    using c cv max none
    by (simp add: plan_accounts_def latest started_rows observed_rows rows) (simp add: reserved_actions_def)
  moreover have "\<exists>c. plan_accounts H db' q c" if q: "q \<in> set (fdb_plans db)" for q
  proof -
    have "fp_plan_id q \<noteq> ?i" using new q by (auto simp: has_plan_iff)
    obtain e where "plan_accounts H db q e" using flow_store_okD(6) [OF ok q] by blast
    then have "plan_accounts H db' q e"
      by (rule plan_accounts_frame) (simp_all add: latest rows started_rows observed_rows \<open>fp_plan_id q \<noteq> ?i\<close>)
    then show ?thesis ..
  qed
  moreover have "\<forall>i. started_actions db' i \<le> 1" using ok by (simp add: flow_store_ok_def started_rows rows)
  moreover have "\<forall>r \<in> set (fdb_actions db'). row_ok db' r"
    using ok by (auto simp: flow_store_ok_def db' intro: row_ok_mono)
  ultimately show ?thesis
    using ok assms(2) new fresh c(4) unfolding flow_store_ok_def by (auto simp: db' has_plan_iff)
qed

lemma same_plan:
  "flow_store_ok H U db \<Longrightarrow> p \<in> set (fdb_plans db) \<Longrightarrow> q \<in> set (fdb_plans db) \<Longrightarrow> fp_plan_id q = fp_plan_id p \<Longrightarrow> q = p"
  by (auto dest!: flow_store_okD(1) simp: distinct_map dest: inj_onD)

text \<open>An operation that concerns one plan leaves the accounts of the others alone.\<close>

definition elsewhere_same :: "digest \<Rightarrow> flow_db \<Rightarrow> flow_db \<Rightarrow> bool" where
  "elsewhere_same i db db' \<longleftrightarrow>
     (\<forall>j. j \<noteq> i \<longrightarrow> latest_flow db' j = latest_flow db j \<and> started_actions db' j = started_actions db j \<and>
        observed_ids db' j = observed_ids db j \<and> reserved_actions db' j = reserved_actions db j)"

lemma one_plan_ok:
  assumes ok: "flow_store_ok H U db" and plans: "fdb_plans db' = fdb_plans db" and p: "p \<in> set (fdb_plans db)"
    and acc: "plan_accounts H db' p c'" and else: "elsewhere_same (fp_plan_id p) db db'"
    and started: "started_actions db' (fp_plan_id p) \<le> 1"
    and rest: "distinct (map fc_checkpoint_id (fdb_checkpoints db'))" "distinct (map action_id_of (fdb_actions db'))"
      "distinct (map (\<lambda>r. ra_idempotency_key (ar_action r)) (fdb_actions db'))"
      "distinct (map ro_observation_id (fdb_observations db'))"
      "\<forall>c \<in> set (fdb_checkpoints db'). has_plan db' (fc_plan_id c)" "\<forall>r \<in> set (fdb_actions db'). row_ok db' r"
      "\<forall>x \<in> set (fdb_external db'). has_plan db' (xr_plan_id x)"
      "\<forall>m \<in> set (fdb_admissions db'). RedTeamReplanAdmission_valid H (mr_admission m)"
  shows "flow_store_ok H U db'"
proof -
  have "\<exists>c. plan_accounts H db' q c" if q: "q \<in> set (fdb_plans db)" for q
  proof (cases "fp_plan_id q = fp_plan_id p")
    case True
    then have "q = p" using same_plan [OF ok p q] by simp
    with acc show ?thesis by auto
  next
    case False
    obtain e where "plan_accounts H db q e" using flow_store_okD(6) [OF ok q] by blast
    then have "plan_accounts H db' q e"
      by (rule plan_accounts_frame) (use False else in \<open>simp_all add: elsewhere_same_def\<close>)
    then show ?thesis ..
  qed
  moreover have "started_actions db' i \<le> 1" for i
    using started else ok by (cases "i = fp_plan_id p") (auto simp: elsewhere_same_def flow_store_ok_def)
  ultimately show ?thesis using ok plans rest by (simp add: flow_store_ok_def)
qed

text \<open>The plan, and the account of its latest checkpoint, that a caller's checkpoint belongs to.\<close>

lemma account_of_latest:
  assumes ok: "flow_store_ok H U db" and "p \<in> set (fdb_plans db)" and "latest_flow db (fp_plan_id p) = Inr c"
  shows "plan_accounts H db p c"
  using flow_store_okD(6) [OF ok assms(2)] assms(3) by (auto simp: plan_accounts_def)

lemma advanced_effect:
  assumes ok: "flow_store_ok H U db" and p: "p \<in> set (fdb_plans db)" "fc_plan_id c = fp_plan_id p"
    and c: "c \<in> set (fdb_checkpoints db)" and control: "flow_control H p c c'"
    and op: "advance_flow db c c' = Inr (d, db')"
  shows "plan_accounts H db p c" "insert_flow_checkpoint db c' = Inr db'"
    "latest_flow db' j = (if j = fp_plan_id p then Inr c' else latest_flow db j)"
    "rows_of db' = rows_of db" "reserved_actions db' = reserved_actions db"
proof -
  let ?i = "fp_plan_id p"
  have ins: "insert_flow_checkpoint db c' = Inr db'" and rev: "fc_revision c' = fc_revision c + 1"
    and "assert_latest_flow db c = Inr ()"
    using op by (auto simp: advance_flow_def result_simps split: if_splits)
  with assert_latest_flow_Inr flow_store_okD(2) [OF ok] c p(2) have lc: "latest_flow db ?i = Inr c" by metis
  then show "plan_accounts H db p c" by (rule account_of_latest [OF ok p(1)])
  have "fc_plan_id c' = ?i" using flow.step_owner [OF flow_control_step(1) [OF control]] p(2) by simp
  then show "latest_flow db' j = (if j = ?i then Inr c' else latest_flow db j)"
    using latest_after_flow_insert [OF ins] lc rev by simp
  show "insert_flow_checkpoint db c' = Inr db'" by (rule ins)
  then show "rows_of db' = rows_of db" "reserved_actions db' = reserved_actions db"
    by (simp_all add: insert_flow_checkpoint_Inr rows_of_def reserved_actions_def fun_eq_iff)
qed

lemma advanced_ok:
  assumes ok: "flow_store_ok H U db" and p: "p \<in> set (fdb_plans db)" "fc_plan_id c = fp_plan_id p"
    and c: "c \<in> set (fdb_checkpoints db)" and control: "flow_control H p c c'"
    and op: "advance_flow db c c' = Inr (d, db')"
  shows "flow_store_ok H U db'"
proof -
  note eff = advanced_effect [OF assms]
  note step = flow_control_step [OF control]
  from eff(2) have db': "db' = db\<lparr>fdb_checkpoints := fdb_checkpoints db @ [c']\<rparr>"
    and fresh: "fc_checkpoint_id c' \<notin> fc_checkpoint_id ` set (fdb_checkpoints db)" "has_plan db (fc_plan_id c')"
    by (auto simp: insert_flow_checkpoint_Inr)
  have "flow_inv p c'" using eff(1) step(1) by (auto simp: plan_accounts_def intro: flow_inv_step)
  then have "plan_accounts H db' p c'"
    using eff(1) step flow_step_effect [OF step(1)]
    by (simp add: plan_accounts_def eff(3-) started_rows observed_rows)
  moreover have "elsewhere_same (fp_plan_id p) db db'"
    by (simp add: elsewhere_same_def eff(3-) started_rows observed_rows)
  moreover have "\<forall>r \<in> set (fdb_actions db'). row_ok db' r"
    using ok by (auto simp: flow_store_ok_def db' intro: row_ok_mono)
  ultimately show ?thesis
    using ok p(1) fresh
    by (intro one_plan_ok [OF ok _ p(1)]) (auto simp: flow_store_ok_def db' has_plan_def started_actions_def)
qed

lemma external_effect:
  assumes "reserve_external_actions db i k rid n = Inr db'" and "db' \<noteq> db"
  obtains c p where "0 < n" "latest_flow db i = Inr c" "flow_plan db i = Inr p"
    "fc_actions_used c + started_actions db i + reserved_actions db i + n \<le> max_actions (stop_conditions (fp_rules p))"
    "db' = db\<lparr>fdb_external := fdb_external db @ [\<lparr>xr_reservation_id = rid, xr_plan_id = i, xr_source_checkpoint_id = k,
       xr_action_count = n\<rparr>]\<rparr>"
    "latest_flow db' = latest_flow db" "rows_of db' = rows_of db"
    "reserved_actions db' = (reserved_actions db)(i := reserved_actions db i + n)"
  using assms
  by (auto simp: reserve_external_actions_def result_simps latest_flow_def rows_of_def reserved_actions_def fun_eq_iff
      split: if_splits option.splits)

lemma external_ok:
  assumes ok: "flow_store_ok H U db" and op: "reserve_external_actions db i k rid n = Inr db'"
  shows "flow_store_ok H U db'"
proof (cases "db' = db")
  case True
  with ok show ?thesis by simp
next
  case False
  with op show ?thesis
  proof (cases rule: external_effect)
    case (1 c p)
    from flow_plan_Inr [OF 1(3)] have p: "p \<in> set (fdb_plans db)" "fp_plan_id p = i" by auto
    have "plan_accounts H db p c" using account_of_latest [OF ok p(1)] 1(2) p(2) by simp
    then have "plan_accounts H db' p c"
      using 1(4) p(2) by (simp add: plan_accounts_def 1(6-) started_rows observed_rows)
    moreover have "elsewhere_same (fp_plan_id p) db db'"
      by (simp add: elsewhere_same_def 1(6-) p(2) started_rows observed_rows)
    moreover have "\<forall>r \<in> set (fdb_actions db'). row_ok db' r"
      using ok by (auto simp: flow_store_ok_def 1(5) intro: row_ok_mono)
    ultimately show ?thesis
      using ok p
      by (intro one_plan_ok [OF ok _ p(1)]) (auto simp: flow_store_ok_def 1(5) has_plan_iff started_actions_def)
  qed
qed

lemma set_admission_state_same:
  "same_flow db (fst (set_admission_state db i st))"
  "m \<in> set (fdb_admissions (fst (set_admission_state db i st))) \<Longrightarrow> \<exists>k \<in> set (fdb_admissions db). mr_admission m = mr_admission k"
  by (auto simp: same_flow_def set_admission_state_def split: if_splits)

lemma admission_state_ok:
  assumes ok: "flow_store_ok H U db"
  shows "flow_store_ok H U (fst (set_admission_state db i st))"
proof (rule same_flow_ok [OF ok set_admission_state_same(1)])
  fix m assume "m \<in> set (fdb_admissions (fst (set_admission_state db i st)))"
  then obtain k where "k \<in> set (fdb_admissions db)" "mr_admission m = mr_admission k"
    using set_admission_state_same(2) by blast
  then show "RedTeamReplanAdmission_valid H (mr_admission m)" using flow_store_okD(5) [OF ok] by simp
qed

lemma released_ok:
  assumes ok: "flow_store_ok H U db" and op: "release_replan_admission db i s = Inr db'"
  shows "flow_store_ok H U db'"
  using op by (rule release_Inr) (simp add: admission_state_ok [OF ok])

lemma admitted_ok:
  assumes ok: "flow_store_ok H U db" and "RedTeamReplanAdmission_valid H a" and op: "admit_replan db q a = Inr (x, db')"
  shows "flow_store_ok H U db'"
proof -
  from op have "same_flow db db'" "fdb_admissions db' = fdb_admissions db \<or>
      (\<exists>i. fdb_admissions db' = fdb_admissions db @ [\<lparr>mr_proposal_id = i, mr_state = Adm_RESERVED, mr_admission = a\<rparr>])"
    by (auto simp: admit_replan_def insert_admission_def result_simps same_flow_def split: option.splits if_splits)
  with ok assms(2) show ?thesis by (intro same_flow_ok [OF ok]) (auto simp: flow_store_ok_def)
qed

lemma documents_ok:
  assumes ok: "flow_store_ok H U db"
    and op: "put_replan_tool_view db w = Inr (x, db') \<or> put_replan_execution_receipt db r = Inr (y, db')"
  shows "flow_store_ok H U db'"
proof (rule same_flow_ok [OF ok])
  have *: "same_flow db db' \<and> fdb_admissions db' = fdb_admissions db"
    using op by (auto simp: put_replan_tool_view_def put_replan_execution_receipt_def result_simps same_flow_def
        split: option.splits if_splits)
  then show "same_flow db db'" ..
  show "RedTeamReplanAdmission_valid H (mr_admission m)" if "m \<in> set (fdb_admissions db')" for m
    using * that flow_store_okD(5) [OF ok, of m] by simp
qed

text \<open>Claims and completions.\<close>

lemma consume_for_ok: "flow_store_ok H U db \<Longrightarrow> flow_store_ok H U (consume_for db a) \<and> same_flow db (consume_for db a)"
  by (cases "admission_for db a")
    (simp_all add: consume_for_def admission_state_ok set_admission_state_same(1), simp add: same_flow_def)

lemma reserved_replan_pos:
  assumes ok: "flow_store_ok H U db" and m: "admission_for db a = Some m" and "replan_available a (Some m)"
  shows "1 \<le> reserved_replan_actions db (ra_plan_id a)"
proof -
  from m have mem: "m \<in> set (fdb_admissions db)" by (auto simp: admission_for_def find_Some_iff)
  with flow_store_okD(5) [OF ok] have "RedTeamReplanAdmission_valid H (mr_admission m)" by blast
  with assms(3) have "reserved_in (ra_plan_id a) m"
    by (auto simp: RedTeamReplanAdmission_valid_def replan_available_def reserved_in_def)
  with mem have "filter (reserved_in (ra_plan_id a)) (fdb_admissions db) \<noteq> []" by (auto simp: filter_empty_conv)
  then show ?thesis unfolding reserved_replan_actions_def by (cases "filter (reserved_in (ra_plan_id a)) (fdb_admissions db)") auto
qed

lemma inserted_effect:
  assumes "insert_action db cmd = Inr db'"
  shows "latest_flow db' = latest_flow db" "reserved_actions db' = reserved_actions db" "observed_ids db' = observed_ids db"
    "started_actions db (ra_plan_id (cm_action cmd)) = 0"
    "started_actions db' = (started_actions db)(ra_plan_id (cm_action cmd) := 1)"
  using assms
  by (auto simp: insert_action_Inr latest_flow_def reserved_actions_def observed_ids_def completed_in_def grant_row_def
      started_actions_def started_in_def fun_eq_iff)

lemma inserted_ok:
  assumes ok: "flow_store_ok H U db" and valid: "RedTeamReconCommand_valid H cmd"
    and p: "p \<in> set (fdb_plans db)" "fp_plan_id p = ra_plan_id (cm_action cmd)"
    and lc: "latest_flow db (fp_plan_id p) = Inr c"
    and room: "fc_actions_used c + started_actions db (fp_plan_id p) + reserved_actions db (fp_plan_id p) + 1
        \<le> max_actions (stop_conditions (fp_rules p))"
    and ins: "insert_action db cmd = Inr db'"
  shows "flow_store_ok H U db'"
proof -
  note eff = inserted_effect [OF ins, folded p(2)]
  from ins have db': "db' = db\<lparr>fdb_actions := fdb_actions db @ [grant_row cmd]\<rparr>"
    and fresh: "ra_action_id (cm_action cmd) \<notin> action_id_of ` set (fdb_actions db)"
      "ra_idempotency_key (cm_action cmd) \<notin> (\<lambda>r. ra_idempotency_key (ar_action r)) ` set (fdb_actions db)"
    and has: "has_plan db (ra_plan_id (cm_action cmd))"
    by (auto simp: insert_action_Inr)
  have row: "row_ok db' (grant_row cmd)"
    using has valid by (simp add: row_ok_def grant_row_def RedTeamReconCommand_valid_def db' has_plan_def)
  have "plan_accounts H db' p c"
    using account_of_latest [OF ok p(1) lc] room by (simp add: plan_accounts_def eff)
  moreover have "elsewhere_same (fp_plan_id p) db db'" by (simp add: elsewhere_same_def eff)
  moreover have "started_actions db' (fp_plan_id p) \<le> 1" by (simp add: eff)
  moreover have "\<forall>r \<in> set (fdb_actions db'). row_ok db' r"
    using ok row by (auto simp: flow_store_ok_def db' intro: row_ok_mono)
  ultimately show ?thesis
    using ok fresh
    by (intro one_plan_ok [OF ok _ p(1)]) (auto simp: flow_store_ok_def db' has_plan_def grant_row_def)
qed

lemma same_flow_simps:
  assumes "same_flow db db'"
  shows "latest_flow db' i = latest_flow db i" "started_actions db' i = started_actions db i"
    "reserved_actions db' i = reserved_actions db i" "fdb_actions db' = fdb_actions db" "fdb_plans db' = fdb_plans db"
    "has_plan db' i = has_plan db i"
  using assms by (simp_all add: same_flow_def latest_flow_def started_actions_def reserved_actions_def has_plan_def)

text \<open>A first claim is an insertion into the store whose admission was used up, and there is room for it.\<close>

lemma first_granted_effect:
  assumes ok: "flow_store_ok H U db" and op: "claim_first db cmd = Inr (res, db')"
  obtains c p where "p \<in> set (fdb_plans db)" "fp_plan_id p = ra_plan_id (cm_action cmd)"
    "latest_flow db (fp_plan_id p) = Inr c"
    "fc_actions_used c + started_actions db (fp_plan_id p) + reserved_actions db (fp_plan_id p) + 1
       \<le> max_actions (stop_conditions (fp_rules p))"
    "insert_action (consume_for db (cm_action cmd)) cmd = Inr db'"
  using op
proof (cases rule: claim_first_grant)
  case (1 c p)
  let ?i = "ra_plan_id (cm_action cmd)"
  note p = flow_plan_Inr [OF 1(4)]
  note same = same_flow_simps [OF conjunct2 [OF consume_for_ok [OF ok]], of "cm_action cmd"]
  have "fc_actions_used c + started_actions db ?i + reserved_actions db ?i + 1 \<le> max_actions (stop_conditions (fp_rules p))"
  proof (cases "admission_for db (cm_action cmd)")
    case None
    with 1(6) show ?thesis by (simp add: reserved_replan_actions_def)
  next
    case (Some m)
    then show ?thesis using reserved_replan_pos [OF ok Some] 1(5,6) by simp
  qed
  moreover have "insert_action (consume_for db (cm_action cmd)) cmd = Inr db'"
    using 1(7,8) by (simp add: insert_action_Inr same)
  ultimately show thesis using p 1(3) by (intro that [of p c]) simp_all
qed

lemma first_granted_ok:
  assumes ok: "flow_store_ok H U db" and valid: "RedTeamReconCommand_valid H cmd"
    and op: "claim_first db cmd = Inr (res, db')"
  shows "flow_store_ok H U db'"
  using ok op
proof (cases rule: first_granted_effect)
  case (1 c p)
  note ok' = consume_for_ok [OF ok, of "cm_action cmd"]
  show ?thesis
    by (rule inserted_ok [OF conjunct1 [OF ok'] valid, of p c])
      (use 1 in \<open>simp_all add: same_flow_simps [OF conjunct2 [OF ok']]\<close>)
qed

lemma same_row:
  assumes "flow_store_ok H U db" and "q \<in> set (fdb_actions db)" "r \<in> set (fdb_actions db)"
    and "action_id_of q = action_id_of r"
  shows "q = r"
  using flow_store_okD(3) [OF assms(1)] assms(2-) by (auto simp: distinct_map dest: inj_onD)

lemma retry_granted_ok:
  assumes ok: "flow_store_ok H U db" and valid: "RedTeamReconCommand_valid H cmd"
    and r: "r \<in> set (fdb_actions db)" and op: "claim_known db cmd r = Inr (None, db')"
  shows "flow_store_ok H U db'"
  using op
proof (cases rule: claim_known_grant)
  case (1 ys q zs)
  let ?q = "q\<lparr>ar_attempt := cm_attempt cmd, ar_command_id := cm_command_id cmd\<rparr>"
  have qr: "q = r" using same_row [OF ok _ r, of q] 1 by simp
  have same: "latest_flow db' = latest_flow db" "reserved_actions db' = reserved_actions db"
    "observed_ids db' = observed_ids db" "started_actions db' = started_actions db"
    using 1(4,6,8) by (simp_all add: latest_flow_def reserved_actions_def observed_ids_def completed_in_def started_actions_def
        started_in_def fun_eq_iff)
  have acc: "\<exists>c. plan_accounts H db' p c" if "p \<in> set (fdb_plans db)" for p
    using flow_store_okD(6) [OF ok that] unfolding plan_accounts_def same .
  have old: "row_ok db' x" if "x \<in> set (fdb_actions db)" for x
    using flow_store_okD(4) [OF ok that] by (rule row_ok_mono) (simp_all add: 1(8))
  have "row_ok db' ?q"
    using old [OF r] valid 1(2) unfolding qr by (simp add: row_ok_def RedTeamReconCommand_valid_def)
  with old have "\<forall>x \<in> set (fdb_actions db'). row_ok db' x" using 1(4,8) by auto
  moreover have "fdb_plans db' = fdb_plans db" "fdb_checkpoints db' = fdb_checkpoints db" "fdb_external db' = fdb_external db"
    "fdb_observations db' = fdb_observations db" "fdb_admissions db' = fdb_admissions db" "has_plan db' = has_plan db"
    "map action_id_of (fdb_actions db') = map action_id_of (fdb_actions db)"
    "map (\<lambda>r. ra_idempotency_key (ar_action r)) (fdb_actions db') = map (\<lambda>r. ra_idempotency_key (ar_action r)) (fdb_actions db)"
    using 1(4) by (simp_all add: 1(8) has_plan_def fun_eq_iff)
  ultimately show ?thesis using ok acc by (simp add: flow_store_ok_def same)
qed

lemma granted_ok:
  assumes ok: "flow_store_ok H U db" and valid: "RedTeamReconCommand_valid H cmd"
    and op: "claim_action db cmd = Inr (None, db')"
  shows "flow_store_ok H U db'"
  using op by (cases rule: claim_granted_cases) (blast intro: first_granted_ok [OF ok valid] retry_granted_ok [OF ok valid])+

lemma finished_effect:
  assumes ok: "flow_store_ok H U db" and p: "p \<in> set (fdb_plans db)" "fp_plan_id p = ra_plan_id (cm_action cmd)"
    and c: "c \<in> set (fdb_checkpoints db)" and r: "r \<in> set (fdb_actions db)" "ar_action r = cm_action cmd"
    and obs: "record_observation H p c v now = Inr c'" and op: "complete_action db cmd c c' v = Inr (d, db')"
    and i: "i = fp_plan_id p"
  shows "plan_accounts H db p c \<and> latest_flow db' = (latest_flow db)(i := Inr c') \<and>
    reserved_actions db' = reserved_actions db \<and>
    started_actions db' = (started_actions db)(i := started_actions db i - 1) \<and>
    observed_ids db' = (observed_ids db)(i := add_mset (ro_observation_id v) (observed_ids db i))"
  using op
proof (cases rule: complete_action_cases)
  case (1 ys q zs)
  note step = record_observation_effect [OF obs]
  have lc: "latest_flow db i = Inr c"
    using assert_latest_flow_Inr [OF 1(1) flow_store_okD(2) [OF ok] c] step(4) i by simp
  have q: "ar_action q = cm_action cmd" "ar_state q = Action_STARTED"
    using same_row [OF ok _ r(1), of q] 1(2,3) r(2) by (auto simp: claimed_by_def)
  have c': "fc_plan_id c' = i" "fc_revision c < fc_revision c'"
    using flow.step_owner [OF step(1)] flow.step_revision [OF step(1)] step(4) i by simp_all
  have "latest_flow db' = (latest_flow db)(i := Inr c')"
    using latest_after_flow_insert [OF 1(5)] lc c' by (simp add: 1(4) latest_flow_def fun_eq_iff)
  moreover have "started_actions db' = (started_actions db)(i := started_actions db i - 1)"
    using p(2) q i by (simp add: 1(2,4) started_actions_def started_in_def fun_eq_iff)
  moreover have "observed_ids db' = (observed_ids db)(i := add_mset (ro_observation_id v) (observed_ids db i))"
    using p(2) q i by (simp add: 1(2,4) observed_ids_def completed_in_def fun_eq_iff)
  ultimately show ?thesis
    using account_of_latest [OF ok p(1)] lc i by (simp add: 1(4) reserved_actions_def fun_eq_iff)
qed

lemma finished_ok:
  assumes ok: "flow_store_ok H U db" and p: "p \<in> set (fdb_plans db)" "fp_plan_id p = ra_plan_id (cm_action cmd)"
    and c: "c \<in> set (fdb_checkpoints db)" and r: "r \<in> set (fdb_actions db)" "ar_action r = cm_action cmd"
    and v: "ro_action_id v = ra_action_id (cm_action cmd)"
    and obs: "record_observation H p c v now = Inr c'" and op: "complete_action db cmd c c' v = Inr (d, db')"
  shows "flow_store_ok H U db'"
  using op
proof (cases rule: complete_action_cases)
  case (1 ys q zs)
  let ?q = "q\<lparr>ar_state := Action_COMPLETED, ar_observation_id := Some (ro_observation_id v)\<rparr>"
  note step = record_observation_effect [OF obs]
  note eff = finished_effect [OF ok p c r obs op refl]
  have "flow_inv p c'" using eff step(1) by (auto simp: plan_accounts_def intro: flow_inv_step)
  then have "plan_accounts H db' p c'"
    using eff step flow_step_effect [OF step(1)] by (simp add: plan_accounts_def)
  moreover have "elsewhere_same (fp_plan_id p) db db'" by (simp add: elsewhere_same_def eff)
  moreover have "started_actions db (fp_plan_id p) \<le> 1" using ok by (simp add: flow_store_ok_def)
  then have "started_actions db' (fp_plan_id p) \<le> 1" by (simp add: eff)
  moreover have "row_ok db' x" if "x \<in> set (fdb_actions db)" for x
    using flow_store_okD(4) [OF ok that] by (rule row_ok_mono) (auto simp: 1(4))
  moreover have "row_ok db' ?q"
    using flow_store_okD(4) [OF ok, of q] 1(2,3) v by (auto simp: row_ok_def 1(4) has_plan_def claimed_by_def)
  ultimately show ?thesis
    using ok 1(5,6)
    by (intro one_plan_ok [OF ok _ p(1)]) (auto simp: flow_store_ok_def 1(2,4) has_plan_def insert_flow_checkpoint_Inr)
qed

lemma flow_op_ok: "flow_op H U db g db' \<Longrightarrow> flow_store_ok H U db \<Longrightarrow> flow_store_ok H U db'"
proof (induction rule: flow_op.induct)
  case (replayed cmd v db')
  then show ?case using claim_replay by blast
qed (blast intro: created_ok advanced_ok granted_ok finished_ok external_ok admitted_ok released_ok documents_ok)+

lemma engagement_ok: "engagement H U gs db \<Longrightarrow> flow_store_ok H U db"
  by (induction rule: engagement.induct) (auto simp: empty_flows_ok flow_op_ok)

section \<open>Grants\<close>

text \<open>The number of times an action was granted is the attempt of its row.\<close>

definition attempts :: "flow_db \<Rightarrow> (digest \<times> int) list" where
  "attempts db = map (\<lambda>r. (action_id_of r, ar_attempt r)) (fdb_actions db)"

definition grants_counted :: "digest list \<Rightarrow> flow_db \<Rightarrow> bool" where
  "grants_counted gs db \<longleftrightarrow>
     (\<forall>r \<in> set (fdb_actions db). int (count_list gs (action_id_of r)) = ar_attempt r) \<and>
     (\<forall>a. a \<notin> action_id_of ` set (fdb_actions db) \<longrightarrow> count_list gs a = 0)"

lemma grants_counted_attempts:
  "grants_counted gs db \<longleftrightarrow>
     (\<forall>(a, n) \<in> set (attempts db). int (count_list gs a) = n) \<and> (\<forall>a. a \<notin> fst ` set (attempts db) \<longrightarrow> count_list gs a = 0)"
  by (simp add: grants_counted_def attempts_def image_image)

lemma silent_attempts:
  assumes "flow_op H U db g db'" and "g = None"
  shows "attempts db' = attempts db"
  using assms(1)
proof (cases rule: flow_op_actions_cases)
  case (finish cmd c c' v d)
  from finish(2) show ?thesis by (cases rule: complete_action_cases) (simp add: attempts_def)
qed (use assms(2) in \<open>simp_all add: attempts_def\<close>)

lemma granted_attempts:
  assumes ok: "flow_store_ok H U db" and op: "claim_action db cmd = Inr (None, db')"
    and counted: "grants_counted gs db"
  shows "grants_counted (ra_action_id (cm_action cmd) # gs) db'"
  using op
proof (cases rule: claim_granted_cases)
  case first
  then show ?thesis
  proof (cases rule: claim_first_grant)
    case (1 c p)
    then show ?thesis using counted by (auto simp: grants_counted_def insert_action_Inr grant_row_def)
  qed
next
  case (retry r)
  from retry(2) show ?thesis
  proof (cases rule: claim_known_grant)
    case (1 ys q zs)
    have "q = r" using same_row [OF ok _ retry(1), of q] 1 by simp
    moreover have "distinct (map action_id_of (ys @ q # zs))" using flow_store_okD(3) [OF ok] 1(4) by simp
    ultimately show ?thesis using counted 1 by (auto simp: grants_counted_def image_iff)
  qed
qed

lemma engagement_grants: "engagement H U gs db \<Longrightarrow> grants_counted gs db"
proof (induction rule: engagement.induct)
  case engagement_empty
  show ?case by (simp add: grants_counted_def empty_flows_def)
next
  case (engagement_op gs db g db')
  show ?case
  proof (cases g)
    case None
    then show ?thesis using silent_attempts [OF engagement_op(2)] engagement_op(3) by (simp add: grants_counted_attempts)
  next
    case (Some a)
    with engagement_op(2) obtain cmd where "a = ra_action_id (cm_action cmd)" "claim_action db cmd = Inr (None, db')"
      by (auto elim: flow_op.cases)
    then show ?thesis using granted_attempts [OF engagement_ok [OF engagement_op(1)]] engagement_op(3) Some by simp
  qed
qed

text \<open>A completed action is never granted again: its claim returns the stored observation.\<close>

lemma completed_replays:
  assumes ok: "flow_store_ok H U db" and r: "r \<in> set (fdb_actions db)" "ar_state r = Action_COMPLETED"
    and cmd: "cm_action cmd = ar_action r"
  obtains v where "claim_action db cmd = Inr (Some v, db)" "v \<in> set (fdb_observations db)"
    "ro_action_id v = action_id_of r" "ar_observation_id r = Some (ro_observation_id v)"
proof -
  have "x = r" if "x \<in> set (fdb_actions db)" "same_action (ar_action r) x" for x
    using that ok r(1) by (auto simp: same_action_def flow_store_ok_def distinct_map dest: inj_onD)
  then have "List.find (same_action (ar_action r)) (fdb_actions db) = Some r"
    using r(1) by (intro find_only) (auto simp: same_action_def)
  moreover obtain v where v: "v \<in> set (fdb_observations db)" "ar_observation_id r = Some (ro_observation_id v)"
      "ro_action_id v = action_id_of r"
    using flow_store_okD(4) [OF ok r(1)] r(2) by (auto simp: row_ok_def)
  moreover have "List.find (\<lambda>w. ro_observation_id w = ro_observation_id v) (fdb_observations db) = Some v"
    using ok v(1) by (intro find_only) (auto simp: flow_store_ok_def distinct_map dest: inj_onD)
  ultimately show thesis
    using r(2) cmd by (intro that [of v]) (simp_all add: claim_action_def claim_known_def flow_observation_def or_reject_def
        integrity_def)
qed

lemma completed_stays:
  assumes op: "flow_op H U db g db'" and ok: "flow_store_ok H U db"
    and r: "r \<in> set (fdb_actions db)" "ar_state r = Action_COMPLETED"
  shows "r \<in> set (fdb_actions db') \<and> g \<noteq> Some (action_id_of r)"
  using op
proof (cases rule: flow_op_actions_cases)
  case same
  with r show ?thesis by simp
next
  case (first cmd)
  from first(2) show ?thesis
    by (cases rule: claim_first_grant) (use r first(1) in \<open>auto simp: insert_action_Inr\<close>)
next
  case (retry cmd x)
  from retry(3) show ?thesis
  proof (cases rule: claim_known_grant)
    case (1 ys q zs)
    moreover have "r \<noteq> q" using r(2) 1(6) by auto
    moreover from this have "action_id_of r \<noteq> action_id_of q" using same_row [OF ok r(1), of q] 1(4) by auto
    ultimately show ?thesis using r retry(1) by auto
  qed
next
  case (finish cmd c c' v d)
  from finish(2) show ?thesis
    by (cases rule: complete_action_cases) (use r finish(1) in \<open>auto simp: claimed_by_def\<close>)
qed

end
