(* ===== verification/Budget_Ledger.thy ===== *)
theory Budget_Ledger
  imports Red_Team_Store_Facts
begin

text \<open>
  What the store promises about the action budget of a plan, as an abstract ledger with three entries: the actions
  that were used, whether one is running, and the actions set aside for other workflows. The store of \<open>Red_Team_Store\<close>, with all its tables
  and operations, is shown to implement the ledger.
\<close>

section \<open>The ledger\<close>

record ledger =
  lg_used :: int
  lg_running :: bool
  lg_reserved :: int

definition committed :: "ledger \<Rightarrow> int" where
  "committed l = lg_used l + of_bool (lg_running l) + lg_reserved l"

inductive ledger_step :: "int \<Rightarrow> ledger \<Rightarrow> ledger \<Rightarrow> bool" for limit where
  idle: "ledger_step limit l l"
| start: "\<not> lg_running l \<Longrightarrow> committed l < limit \<Longrightarrow> ledger_step limit l (l\<lparr>lg_running := True\<rparr>)"
| finish: "lg_running l \<Longrightarrow> ledger_step limit l (l\<lparr>lg_running := False, lg_used := lg_used l + 1\<rparr>)"
| reserve: "0 < n \<Longrightarrow> committed l + n \<le> limit \<Longrightarrow> ledger_step limit l (l\<lparr>lg_reserved := lg_reserved l + n\<rparr>)"

lemma ledger_step_monotone:
  assumes "ledger_step limit l l'"
  shows "lg_used l \<le> lg_used l'" "lg_reserved l \<le> lg_reserved l'" "committed l \<le> committed l'"
  using assms by (auto elim!: ledger_step.cases simp: committed_def)

lemma ledger_step_within: "ledger_step limit l l' \<Longrightarrow> committed l \<le> limit \<Longrightarrow> committed l' \<le> limit"
  by (auto elim!: ledger_step.cases simp: committed_def)

section \<open>The store implements the ledger\<close>

definition used_actions :: "flow_db \<Rightarrow> digest \<Rightarrow> int" where
  "used_actions db i = (case latest_flow db i of Inl _ \<Rightarrow> 0 | Inr c \<Rightarrow> fc_actions_used c)"

definition ledger_of :: "digest \<Rightarrow> flow_db \<Rightarrow> ledger" where
  "ledger_of i db = \<lparr>lg_used = used_actions db i, lg_running = (started_actions db i \<noteq> 0), lg_reserved = reserved_actions db i\<rparr>"

lemma ledger_idle:
  assumes "latest_flow db' i = latest_flow db i" "started_actions db' i = started_actions db i"
    "reserved_actions db' i = reserved_actions db i"
  shows "ledger_step limit (ledger_of i db) (ledger_of i db')"
  using assms by (simp add: ledger_of_def used_actions_def ledger_step.idle)

lemma same_flow_ledger: "same_flow db db' \<Longrightarrow> ledger_step limit (ledger_of i db) (ledger_of i db')"
  by (rule ledger_idle) (simp_all add: same_flow_simps)

lemma started_actions_bool:
  "flow_store_ok H U db \<Longrightarrow> started_actions db i = of_bool (started_actions db i \<noteq> 0)"
proof -
  assume "flow_store_ok H U db"
  then have "started_actions db i \<le> 1" by (simp add: flow_store_ok_def)
  moreover have "0 \<le> started_actions db i" by (simp add: started_actions_def)
  ultimately show ?thesis by auto
qed

lemma created_ledger:
  assumes p: "p \<in> set (fdb_plans db)" and op: "create_plan db q c = Inr (d, db')" and plan: "planned_flow H q now = Some c"
  shows "ledger_step limit (ledger_of (fp_plan_id p) db) (ledger_of (fp_plan_id p) db')"
proof (cases "db' = db")
  case True
  then show ?thesis by (simp add: ledger_step.idle)
next
  case False
  with op have "\<not> has_plan db (fp_plan_id q)"
    and db': "db' = db\<lparr>fdb_plans := fdb_plans db @ [q], fdb_checkpoints := fdb_checkpoints db @ [c]\<rparr>"
    by (auto simp: create_plan_def result_simps insert_flow_checkpoint_Inr split: option.splits if_splits)
  moreover have "fc_plan_id c = fp_plan_id q"
    using plan by (auto simp: planned_flow_def RedTeamCheckpoint_create_def Let_def split: if_splits)
  ultimately have "fc_plan_id c \<noteq> fp_plan_id p" using p by (auto simp: has_plan_iff)
  then show ?thesis
    by (intro ledger_idle) (simp_all add: db' latest_flow_def started_actions_def reserved_actions_def)
qed

lemma granted_ledger:
  assumes ok: "flow_store_ok H U db" and p: "p \<in> set (fdb_plans db)" and op: "claim_action db cmd = Inr (None, db')"
  shows "ledger_step (max_actions (stop_conditions (fp_rules p))) (ledger_of (fp_plan_id p) db) (ledger_of (fp_plan_id p) db')"
  using op
proof (cases rule: claim_granted_cases)
  case (retry r)
  from retry(2) show ?thesis
  proof (cases rule: claim_known_grant)
    case (1 ys q zs)
    then show ?thesis
      by (intro ledger_idle) (simp_all add: latest_flow_def reserved_actions_def started_actions_def started_in_def)
  qed
next
  case first
  with ok show ?thesis
  proof (cases rule: first_granted_effect)
    case (1 c q)
    note same = same_flow_simps [OF conjunct2 [OF consume_for_ok [OF ok, of "cm_action cmd"]]]
    note eff = inserted_effect [OF 1(5)]
    show ?thesis
    proof (cases "fp_plan_id p = ra_plan_id (cm_action cmd)")
      case True
      then have "q = p" using same_plan [OF ok p 1(1)] 1(2) by simp
      then have "ledger_of (fp_plan_id p) db' = (ledger_of (fp_plan_id p) db)\<lparr>lg_running := True\<rparr>"
        "\<not> lg_running (ledger_of (fp_plan_id p) db)"
        "committed (ledger_of (fp_plan_id p) db) < max_actions (stop_conditions (fp_rules p))"
        using True 1(3,4) eff same by (simp_all add: ledger_of_def used_actions_def committed_def)
      then show ?thesis by (simp add: ledger_step.start)
    next
      case False
      then show ?thesis by (intro ledger_idle) (simp_all add: eff same)
    qed
  qed
qed

lemma finished_ledger:
  assumes ok: "flow_store_ok H U db" and q: "q \<in> set (fdb_plans db)" "fp_plan_id q = ra_plan_id (cm_action cmd)"
    and c: "c \<in> set (fdb_checkpoints db)" and r: "r \<in> set (fdb_actions db)" "ar_action r = cm_action cmd"
    and obs: "record_observation H q c v now = Inr c'" and op: "complete_action db cmd c c' v = Inr (d, db')"
  shows "ledger_step limit (ledger_of i db) (ledger_of i db')"
proof (cases "i = fp_plan_id q")
  case True
  note eff = finished_effect [OF ok q c r obs op True]
  from op have "1 \<le> started_actions db i"
  proof (cases rule: complete_action_cases)
    case (1 ys x zs)
    then have "ar_action x = cm_action cmd" using same_row [OF ok _ r(1), of x] r(2) by (simp add: claimed_by_def)
    with 1 q(2) True show ?thesis by (simp add: started_actions_def started_in_def claimed_by_def)
  qed
  moreover have "started_actions db i \<le> 1" using ok by (simp add: flow_store_ok_def)
  ultimately have "ledger_of i db' = (ledger_of i db)\<lparr>lg_running := False, lg_used := lg_used (ledger_of i db) + 1\<rparr>"
    "lg_running (ledger_of i db)"
    using eff record_observation_effect [OF obs] True by (simp_all add: ledger_of_def used_actions_def plan_accounts_def)
  then show ?thesis by (simp add: ledger_step.finish)
next
  case False
  with finished_effect [OF ok q c r obs op refl] show ?thesis by (intro ledger_idle) simp_all
qed

lemma external_ledger:
  assumes ok: "flow_store_ok H U db" and p: "p \<in> set (fdb_plans db)"
    and op: "reserve_external_actions db i k rid n = Inr db'"
  shows "ledger_step (max_actions (stop_conditions (fp_rules p))) (ledger_of (fp_plan_id p) db) (ledger_of (fp_plan_id p) db')"
proof (cases "db' = db")
  case True
  then show ?thesis by (simp add: ledger_step.idle)
next
  case False
  with op show ?thesis
  proof (cases rule: external_effect)
    case (1 c q)
    show ?thesis
    proof (cases "fp_plan_id p = i")
      case True
      then have "q = p" using same_plan [OF ok p] flow_plan_Inr [OF 1(3)] by simp
      then have "ledger_of (fp_plan_id p) db' =
          (ledger_of (fp_plan_id p) db)\<lparr>lg_reserved := lg_reserved (ledger_of (fp_plan_id p) db) + n\<rparr>"
        "committed (ledger_of (fp_plan_id p) db) + n \<le> max_actions (stop_conditions (fp_rules p))"
        using True 1 started_actions_bool [OF ok, of i]
        by (simp_all add: ledger_of_def used_actions_def committed_def started_rows)
      then show ?thesis using 1(1) by (simp add: ledger_step.reserve)
    next
      case False
      then show ?thesis by (intro ledger_idle) (simp_all add: 1(6-) started_rows)
    qed
  qed
qed

lemma flow_op_ledger:
  assumes op: "flow_op H U db g db'" and ok: "flow_store_ok H U db" and p: "p \<in> set (fdb_plans db)"
  shows "ledger_step (max_actions (stop_conditions (fp_rules p))) (ledger_of (fp_plan_id p) db) (ledger_of (fp_plan_id p) db')"
  using op
proof (cases rule: flow_op.cases)
  case (advanced q c c' d)
  note eff = advanced_effect [OF ok advanced(2,4,3,5,6)]
  have "used_actions db' (fp_plan_id p) = used_actions db (fp_plan_id p)"
    using eff(1,3) flow_control_step(3) [OF advanced(5)] by (simp add: used_actions_def plan_accounts_def)
  then show ?thesis by (simp add: ledger_of_def eff(4,5) started_rows ledger_step.idle)
next
  case (released i s)
  from released(2) show ?thesis by (rule release_Inr) (simp add: same_flow_ledger set_admission_state_same(1))
next
  case (replayed cmd v)
  then have "db' = db" using claim_replay by blast
  then show ?thesis by (simp add: ledger_step.idle)
next
  case (admitted a q x)
  then have "same_flow db db'"
    by (auto simp: admit_replan_def insert_admission_def result_simps same_flow_def split: option.splits if_splits)
  then show ?thesis by (rule same_flow_ledger)
next
  case (viewed w x)
  then have "same_flow db db'" by (auto simp: put_replan_tool_view_def same_flow_def split: option.splits if_splits)
  then show ?thesis by (rule same_flow_ledger)
next
  case (receipted y x)
  then have "same_flow db db'"
    by (auto simp: put_replan_execution_receipt_def result_simps same_flow_def split: option.splits if_splits)
  then show ?thesis by (rule same_flow_ledger)
qed (use ok p in \<open>blast intro: created_ledger granted_ledger finished_ledger external_ledger\<close>)+

interpretation flow_ledger: implementation "\<lambda>db db'. \<exists>g. flow_op H U db g db'"
  "\<lambda>db. flow_store_ok H U db \<and> p \<in> set (fdb_plans db)" "ledger_of (fp_plan_id p)"
  "ledger_step (max_actions (stop_conditions (fp_rules p)))"
  by unfold_locales (auto dest: flow_op_ok flow_op_ledger plans_stay)

end
