(* ===== verification/Red_Team_Service.thy ===== *)
theory Red_Team_Service
  imports Budget_Ledger Policy
begin

text \<open>
  The application service of \<^verbatim>\<open>src/src/vulnloom/red_team/service.py\<close>: sealing a plan for a target in scope, creating and
  starting a flow, preparing a reconnaissance command, executing it through an adapter, and stopping a flow. It composes the
  policy engine, the transitions of \<open>Red_Team_Flow\<close> and the store. The adapter is a parameter: it returns an observation or
  fails. An execution may fail after its action was claimed, so its result carries the store it leaves behind.
  \<open>N\<close> is \<^verbatim>\<open>uuid5\<close> in the URL namespace.
\<close>

section \<open>Errors and adapters\<close>

datatype adapter_error = RedTeamAdapterInterrupted | AdapterFailed

datatype service_error =
    RedTeamRejected string | ServiceValueError | ServiceStore flow_store_error | ServiceFlow flow_error
  | ServicePolicy url_error | ServiceAdapter adapter_error

type_synonym recon_adapter = "RedTeamReconAction \<Rightarrow> instant \<Rightarrow> adapter_error + RedTeamReconObservation"

definition from_store :: "flow_store_error + 'a \<Rightarrow> service_error + 'a" where
  "from_store r = (case r of Inl e \<Rightarrow> Inl (ServiceStore e) | Inr x \<Rightarrow> Inr x)"

definition from_flow :: "flow_error + 'a \<Rightarrow> service_error + 'a" where
  "from_flow r = (case r of Inl e \<Rightarrow> Inl (ServiceFlow e) | Inr x \<Rightarrow> Inr x)"

definition from_create :: "'a option \<Rightarrow> service_error + 'a" where
  "from_create x = (case x of None \<Rightarrow> Inl ServiceValueError | Some y \<Rightarrow> Inr y)"

definition RedTeamReconObservation_create ::
  "(pyval \<Rightarrow> digest) \<Rightarrow> RedTeamReconObservation \<Rightarrow> RedTeamReconObservation option" where
  "RedTeamReconObservation_create H v =
     (let r = v\<lparr>ro_observation_id := H (RedTeamReconObservation_content v)\<rparr>
      in if RedTeamReconObservation_valid H r then Some r else None)"

record OfflineReconScenario =
  sn_outcome :: ReconOutcome
  sn_status_code :: "int option"
  sn_reason_code :: string
  sn_cleanup_complete :: bool
  sn_interrupt :: bool

text \<open>\<^verbatim>\<open>OfflineRedTeamReconAdapter.execute\<close>; its call counter is not modelled.\<close>

definition offline_execute :: "(pyval \<Rightarrow> digest) \<Rightarrow> OfflineReconScenario \<Rightarrow> recon_adapter" where
  "offline_execute H sn a now =
     (if sn_interrupt sn then Inl RedTeamAdapterInterrupted
      else case RedTeamReconObservation_create H
        \<lparr>ro_observation_id = [], ro_action_id = ra_action_id a, ro_outcome = sn_outcome sn, ro_status_code = sn_status_code sn,
         ro_reason_code = sn_reason_code sn, ro_cleanup_complete = sn_cleanup_complete sn, ro_sensitive_data_redacted = True,
         ro_attack_surface = None, ro_service_identity = None, ro_web_response = None, ro_observed_at = now\<rparr>
      of None \<Rightarrow> Inl AdapterFailed | Some v \<Rightarrow> Inr v)"

section \<open>Checks\<close>

text \<open>\<^verbatim>\<open>_scope\<close>\<close>

definition require_scope :: "Scope \<Rightarrow> instant \<Rightarrow> service_error + unit" where
  "require_scope s now =
     (if sc_state s \<noteq> Scope_APPROVED \<or> \<not> in_validity_window s now
      then Inl (RedTeamRejected ''Red Team requires a currently approved Scope'') else Inr ())"

definition flow_request :: "Scope \<Rightarrow> uuid \<Rightarrow> string \<Rightarrow> instant \<Rightarrow> string \<Rightarrow> string option \<Rightarrow> ActionRequest" where
  "flow_request s target action now url test_class =
     \<lparr>req_engagement_id = sc_engagement_id s, req_target_id = Some target, req_action = action, requested_at = now,
      repository_url = None, repository_commit = None, req_url = Some url, req_test_class = test_class,
      mutates_state = False, uses_real_credentials = False, external_callback = False, submits_report = False,
      runs_untrusted_build = False, authorization_context_digest = None\<rparr>"

definition require_allow ::
  "(pyval \<Rightarrow> digest) \<Rightarrow> url_env \<Rightarrow> Scope \<Rightarrow> ActionRequest \<Rightarrow> string \<Rightarrow> service_error + unit" where
  "require_allow H U s r msg =
     (case decide H U s r [] of
        Inl e \<Rightarrow> Inl (ServicePolicy e)
      | Inr d \<Rightarrow> if effect d \<noteq> ALLOW then Inl (RedTeamRejected msg) else Inr ())"

text \<open>\<^verbatim>\<open>_scope_binding\<close>\<close>

definition CHAIN_PROHIBITED :: "ImpactClass list" where
  "CHAIN_PROHIBITED = [Imp_REAL_CREDENTIAL, Imp_EXTERNAL_CALLBACK, Imp_LATERAL_MOVEMENT, Imp_PERSISTENCE]"

definition scope_binding :: "RedTeamFlowPlan \<Rightarrow> Scope \<Rightarrow> service_error + unit" where
  "scope_binding p s =
     (let rules = fp_rules p;
          recon_only = (roe_phases rules = [RECON]);
          attack_chain = (roe_phases rules = [RECON, INITIAL_ACCESS, POST_EXPLOITATION]);
          expected_prohibited = (if recon_only then Imp_STATE_CHANGE # CHAIN_PROHIBITED else CHAIN_PROHIBITED);
          expected_approval_impacts = (if recon_only then [] else [Imp_STATE_CHANGE])
      in if roe_scope_id rules \<noteq> scope_id s \<or> roe_scope_version rules \<noteq> sc_version s \<or> valid_until s < fp_deadline p \<or>
            valid_until s < stop_at (stop_conditions rules) \<or> \<not> (recon_only \<or> attack_chain) \<or>
            allowed_impacts rules \<noteq> [Imp_READ_ONLY] \<or> approval_required_impacts rules \<noteq> expected_approval_impacts \<or>
            set (prohibited_impacts rules) \<noteq> set expected_prohibited \<or>
            \<not> set (roe_allowed_test_classes rules) \<subseteq> set (allowed_test_classes s)
         then Inl (RedTeamRejected ''Red Team plan no longer matches Scope'') else Inr ())"

text \<open>\<^verbatim>\<open>_preflight_plan\<close>; the first test class exists in every valid plan.\<close>

definition preflight_plan ::
  "(pyval \<Rightarrow> digest) \<Rightarrow> url_env \<Rightarrow> RedTeamFlowPlan \<Rightarrow> Scope \<Rightarrow> instant \<Rightarrow> service_error + unit" where
  "preflight_plan H U p s now =
     bind_result (require_scope s now) (\<lambda>_.
     bind_result (scope_binding p s) (\<lambda>_.
       if fp_deadline p \<le> now then Inl (RedTeamRejected ''Red Team plan no longer matches Scope'')
       else require_allow H U s
         (flow_request s (wt_target_id (fp_target p)) ''red_team.flow.start'' now (wt_url (fp_target p))
            (Some (hd (roe_allowed_test_classes (fp_rules p)))))
         ''Red Team plan target is outside approved Scope''))"

text \<open>\<^verbatim>\<open>_preflight_running\<close>\<close>

definition preflight_running ::
  "(pyval \<Rightarrow> digest) \<Rightarrow> url_env \<Rightarrow> flow_db \<Rightarrow> RedTeamFlowPlan \<Rightarrow> RedTeamCheckpoint \<Rightarrow> Scope \<Rightarrow> instant
   \<Rightarrow> service_error + unit" where
  "preflight_running H U db p c s now =
     bind_result (preflight_plan H U p s now) (\<lambda>_.
     bind_result (from_store (latest_flow db (fp_plan_id p))) (\<lambda>authoritative.
       if authoritative \<noteq> c \<or> fc_status c \<noteq> Flow_RUNNING
       then Inl (RedTeamRejected ''Red Team checkpoint is stale or not running'') else Inr ()))"

section \<open>Preparing a flow\<close>

definition RulesOfEngagement_create :: "(pyval \<Rightarrow> digest) \<Rightarrow> RulesOfEngagement \<Rightarrow> RulesOfEngagement option" where
  "RulesOfEngagement_create H v =
     (let r = v\<lparr>roe_id := H (RulesOfEngagement_content v)\<rparr> in if RulesOfEngagement_valid H r then Some r else None)"

definition RedTeamFlowPlan_create ::
  "(pyval \<Rightarrow> digest) \<Rightarrow> url_env \<Rightarrow> RedTeamFlowPlan \<Rightarrow> RedTeamFlowPlan option" where
  "RedTeamFlowPlan_create H U v =
     (let p = v\<lparr>fp_plan_id := H (RedTeamFlowPlan_content v)\<rparr> in if RedTeamFlowPlan_valid H U p then Some p else None)"

text \<open>What \<^verbatim>\<open>prepare\<close> and \<^verbatim>\<open>prepare_attack_flow\<close> have in common; they differ in the policy action, the phases and the impact
  classes.\<close>

definition prepare_flow ::
  "(pyval \<Rightarrow> digest) \<Rightarrow> url_env \<Rightarrow> (string \<Rightarrow> uuid) \<Rightarrow> string \<Rightarrow> RedTeamPhase list \<Rightarrow> ImpactClass list \<Rightarrow> ImpactClass list
   \<Rightarrow> Scope \<Rightarrow> string \<Rightarrow> Visibility \<Rightarrow> string list \<Rightarrow> int \<Rightarrow> int \<Rightarrow> string \<Rightarrow> instant \<Rightarrow> instant \<Rightarrow> string
   \<Rightarrow> service_error + RedTeamFlowPlan" where
  "prepare_flow H U N action phases approval prohibited s target_url visibility classes max_acts max_fails contact now
     deadline key =
     bind_result (require_scope s now) (\<lambda>_.
       let target = \<lparr>wt_target_id = N (''vulnloom:red-team-target:'' @ uuid_str (scope_id s) @ '':'' @ target_url),
                     wt_url = target_url\<rparr>
       in if \<not> AuthorizedWebTarget_valid U target then Inl ServiceValueError
          else if classes = [] \<or> sorted_set classes \<noteq> classes \<or> \<not> set classes \<subseteq> set (allowed_test_classes s)
          then Inl (RedTeamRejected ''Red Team test classes exceed approved Scope'')
          else
            bind_result (require_allow H U s (flow_request s (wt_target_id target) action now target_url (Some (hd classes)))
              ''Red Team target is outside approved Scope'') (\<lambda>_.
            let stop = min deadline (valid_until s)
            in bind_result (from_create (RulesOfEngagement_create H
                 \<lparr>roe_id = [], roe_scope_id = scope_id s, roe_scope_version = sc_version s,
                  roe_target_id = wt_target_id target, roe_phases = phases, roe_allowed_test_classes = classes,
                  allowed_impacts = [Imp_READ_ONLY], approval_required_impacts = approval, prohibited_impacts = prohibited,
                  stop_conditions = \<lparr>stop_at = stop, max_actions = max_acts, max_consecutive_failures = max_fails\<rparr>,
                  emergency_contact_ref = contact\<rparr>)) (\<lambda>rules.
               from_create (RedTeamFlowPlan_create H U
                 \<lparr>fp_plan_id = [], fp_mode = \<lparr>wm_workflow = AUTHORIZED_RED_TEAM, wm_visibility = visibility,
                    wm_execution_profile = EP_RED_TEAM, wm_autonomy = AL_BOUNDED_EXECUTION\<rparr>,
                  fp_target = target, fp_rules = rules, fp_created_at = now, fp_deadline = stop,
                  fp_idempotency_key = key\<rparr>))))"

definition prepare ::
  "(pyval \<Rightarrow> digest) \<Rightarrow> url_env \<Rightarrow> (string \<Rightarrow> uuid) \<Rightarrow> Scope \<Rightarrow> string \<Rightarrow> Visibility \<Rightarrow> string list \<Rightarrow> int \<Rightarrow> int
   \<Rightarrow> string \<Rightarrow> instant \<Rightarrow> instant \<Rightarrow> string \<Rightarrow> service_error + RedTeamFlowPlan" where
  "prepare H U N = prepare_flow H U N ''red_team.flow.prepare'' [RECON] [] (Imp_STATE_CHANGE # CHAIN_PROHIBITED)"

definition prepare_attack_flow ::
  "(pyval \<Rightarrow> digest) \<Rightarrow> url_env \<Rightarrow> (string \<Rightarrow> uuid) \<Rightarrow> Scope \<Rightarrow> string \<Rightarrow> Visibility \<Rightarrow> string list \<Rightarrow> int \<Rightarrow> int
   \<Rightarrow> string \<Rightarrow> instant \<Rightarrow> instant \<Rightarrow> string \<Rightarrow> service_error + RedTeamFlowPlan" where
  "prepare_attack_flow H U N = prepare_flow H U N ''red_team.attack_flow.prepare''
     [RECON, INITIAL_ACCESS, POST_EXPLOITATION] [Imp_STATE_CHANGE] CHAIN_PROHIBITED"

section \<open>Running a flow\<close>

text \<open>\<^verbatim>\<open>create_and_start\<close> stores the planned checkpoint in one transaction and the next in another, so the store it leaves
  behind is part of the result.\<close>

definition advance_stored ::
  "flow_db \<Rightarrow> RedTeamCheckpoint \<Rightarrow> flow_error + RedTeamCheckpoint
   \<Rightarrow> (service_error + RedTeamCheckpoint) \<times> flow_db" where
  "advance_stored db c r =
     (case bind_result (from_flow r) (\<lambda>c'. from_store (advance_flow db c c')) of
        Inl e \<Rightarrow> (Inl e, db) | Inr (d, db') \<Rightarrow> (Inr d, db'))"

definition create_and_start ::
  "(pyval \<Rightarrow> digest) \<Rightarrow> url_env \<Rightarrow> flow_db \<Rightarrow> RedTeamFlowPlan \<Rightarrow> Scope \<Rightarrow> instant
   \<Rightarrow> (service_error + RedTeamCheckpoint) \<times> flow_db" where
  "create_and_start H U db p s now =
     (case preflight_plan H U p s now of
        Inl e \<Rightarrow> (Inl e, db)
      | Inr _ \<Rightarrow>
          (case flow_plan_by_key db (fp_idempotency_key p) of
             Some existing \<Rightarrow>
               if existing \<noteq> p then (Inl (RedTeamRejected ''Red Team idempotency collision''), db)
               else (case latest_flow db (fp_plan_id p) of
                       Inl e \<Rightarrow> (Inl (ServiceStore e), db)
                     | Inr c \<Rightarrow>
                         if fc_status c = Flow_PLANNED then advance_stored db c (start_flow H p c now) else (Inr c, db))
           | None \<Rightarrow>
               (case planned_flow H p now of
                  None \<Rightarrow> (Inl ServiceValueError, db)
                | Some planned \<Rightarrow>
                    (case create_plan db p planned of
                       Inl e \<Rightarrow> (Inl (ServiceStore e), db)
                     | Inr (d, db') \<Rightarrow> advance_stored db' planned (start_flow H p planned now)))))"

definition prepare_recon ::
  "(pyval \<Rightarrow> digest) \<Rightarrow> url_env \<Rightarrow> flow_db \<Rightarrow> RedTeamFlowPlan \<Rightarrow> RedTeamCheckpoint \<Rightarrow> Scope \<Rightarrow> RedTeamActionKind \<Rightarrow> string
   \<Rightarrow> instant \<Rightarrow> int \<Rightarrow> string \<Rightarrow> int \<Rightarrow> service_error + RedTeamReconCommand" where
  "prepare_recon H U db p c s kind test_class now ttl_seconds key attempt =
     bind_result (preflight_running H U db p c s now) (\<lambda>_.
       if kind = HTTP_GET then Inl (RedTeamRejected ''HTTP GET requires an operator-sealed Endpoint plan'')
       else if test_class \<notin> set (roe_allowed_test_classes (fp_rules p))
       then Inl (RedTeamRejected ''Red Team Recon test class is not authorized'')
       else if \<not> (0 < ttl_seconds \<and> ttl_seconds \<le> 300) then Inl (RedTeamRejected ''Red Team Recon TTL is invalid'')
       else bind_result (from_create (RedTeamReconAction_create H
              \<lparr>ra_action_id = [], ra_plan_id = fp_plan_id p, ra_expected_checkpoint_id = fc_checkpoint_id c, ra_kind = kind,
               ra_target_url = wt_url (fp_target p), ra_test_class = test_class, ra_impact = Imp_READ_ONLY,
               ra_created_at = now, ra_deadline = min (now + seconds ttl_seconds) (fp_deadline p),
               ra_idempotency_key = key\<rparr>)) (\<lambda>a.
            from_create (RedTeamReconCommand_create H \<lparr>cm_command_id = [], cm_action = a, cm_attempt = attempt\<rparr>)))"

text \<open>The checks of \<^verbatim>\<open>_execute_bound_recon\<close> before the claim: a stored observation to replay, or the plan and the running
  checkpoint that the claim is made for.\<close>

datatype recon_check = Replay RedTeamCheckpoint RedTeamReconObservation | Proceed RedTeamFlowPlan RedTeamCheckpoint

definition check_recon ::
  "(pyval \<Rightarrow> digest) \<Rightarrow> url_env \<Rightarrow> flow_db \<Rightarrow> RedTeamReconCommand \<Rightarrow> Scope \<Rightarrow> instant \<Rightarrow> string \<Rightarrow> service_error + recon_check" where
  "check_recon H U db cmd s now expected_target_url =
     (let a = cm_action cmd
      in bind_result (from_store (flow_plan db (ra_plan_id a))) (\<lambda>p.
         bind_result (from_store (latest_flow db (fp_plan_id p))) (\<lambda>c.
         bind_result (scope_binding p s) (\<lambda>_.
           if ra_target_url a \<noteq> expected_target_url \<or> ra_test_class a \<notin> set (roe_allowed_test_classes (fp_rules p)) \<or>
              fp_deadline p < ra_deadline a
           then Inl (RedTeamRejected ''Red Team Recon action binding is invalid'')
           else bind_result (from_store (completed_action db cmd)) (\<lambda>replay.
             case replay of
               Some v \<Rightarrow> Inr (Replay c v)
             | None \<Rightarrow>
                 bind_result (preflight_running H U db p c s now) (\<lambda>_.
                   if ra_expected_checkpoint_id a \<noteq> fc_checkpoint_id c \<or> ra_deadline a \<le> now
                   then Inl (RedTeamRejected ''Red Team Recon action binding is invalid'')
                   else bind_result (require_allow H U s
                          (flow_request s (wt_target_id (fp_target p)) (''red_team.recon.'' @ red_team_kind_value (ra_kind a)) now
                             (ra_target_url a) (Some (ra_test_class a)))
                          ''Red Team Recon was denied by Scope policy'') (\<lambda>_. Inr (Proceed p c))))))))"

text \<open>The checks of the observation that the adapter returned.\<close>

definition observation_provenance ::
  "RedTeamFlowPlan \<Rightarrow> Scope \<Rightarrow> RedTeamReconAction \<Rightarrow> RedTeamReconObservation \<Rightarrow> bool" where
  "observation_provenance p s a v \<longleftrightarrow>
     \<not> (ro_action_id v \<noteq> ra_action_id a \<or>
        \<not> (ra_created_at a \<le> ro_observed_at v \<and> ro_observed_at v < ra_deadline a) \<or>
        (ra_kind a \<in> {HTTP_HEAD, HTTP_GET} \<and> ro_outcome v = Rec_SUCCEEDED \<and>
         (ro_status_code v = None \<or> ro_service_identity v \<noteq> None \<or>
          (ra_kind a = HTTP_HEAD \<and> ro_web_response v \<noteq> None) \<or>
          (ra_kind a = HTTP_GET \<and>
           (case ro_web_response v of
              None \<Rightarrow> True
            | Some w \<Rightarrow>
                ro_attack_surface v \<noteq> None \<or> wr_plan_id w \<noteq> fp_plan_id p \<or> wr_target_id w \<noteq> wt_target_id (fp_target p) \<or>
                wr_scope_id w \<noteq> scope_id s \<or> wr_scope_version w \<noteq> sc_version s \<or>
                wr_requested_url_digest w \<noteq> wr_final_url_digest w)))) \<or>
        (ra_kind a = TLS_INSPECT \<and> ro_outcome v = Rec_SUCCEEDED \<and>
         (ro_status_code v \<noteq> None \<or> ro_service_identity v = None \<or> ro_attack_surface v \<noteq> None)))"

text \<open>The observation of an execution: what the adapter returned, or the failure that closes the third interrupted attempt.\<close>

definition adapter_outcome ::
  "(pyval \<Rightarrow> digest) \<Rightarrow> recon_adapter \<Rightarrow> RedTeamReconCommand \<Rightarrow> instant \<Rightarrow> service_error + RedTeamReconObservation" where
  "adapter_outcome H adapter cmd now =
     (case adapter (cm_action cmd) now of
        Inr v \<Rightarrow> Inr v
      | Inl RedTeamAdapterInterrupted \<Rightarrow>
          if cm_attempt cmd < 3 then Inl (ServiceAdapter RedTeamAdapterInterrupted)
          else from_create (RedTeamReconObservation_create H
            \<lparr>ro_observation_id = [], ro_action_id = ra_action_id (cm_action cmd), ro_outcome = Rec_FAILED,
             ro_status_code = None, ro_reason_code = ''adapter_attempts_exhausted'', ro_cleanup_complete = False,
             ro_sensitive_data_redacted = True, ro_attack_surface = None, ro_service_identity = None,
             ro_web_response = None, ro_observed_at = now\<rparr>)
      | Inl e \<Rightarrow> Inl (ServiceAdapter e))"

definition finish_recon ::
  "(pyval \<Rightarrow> digest) \<Rightarrow> flow_db \<Rightarrow> RedTeamFlowPlan \<Rightarrow> RedTeamCheckpoint \<Rightarrow> Scope \<Rightarrow> RedTeamReconCommand
   \<Rightarrow> RedTeamReconObservation \<Rightarrow> service_error + ((RedTeamCheckpoint \<times> RedTeamReconObservation) \<times> flow_db)" where
  "finish_recon H db p c s cmd v =
     (if \<not> observation_provenance p s (cm_action cmd) v
      then Inl (RedTeamRejected ''Red Team Recon observation provenance is invalid'')
      else bind_result (from_flow (record_observation H p c v (ro_observed_at v))) (\<lambda>advanced.
           bind_result (from_store (complete_action db cmd c advanced v)) (\<lambda>(d, db'). Inr ((d, v), db'))))"

definition execute_bound_recon ::
  "(pyval \<Rightarrow> digest) \<Rightarrow> url_env \<Rightarrow> recon_adapter \<Rightarrow> flow_db \<Rightarrow> RedTeamReconCommand \<Rightarrow> Scope \<Rightarrow> instant \<Rightarrow> string
   \<Rightarrow> (service_error + RedTeamCheckpoint \<times> RedTeamReconObservation) \<times> flow_db" where
  "execute_bound_recon H U adapter db cmd s now expected_target_url =
     (case check_recon H U db cmd s now expected_target_url of
        Inl e \<Rightarrow> (Inl e, db)
      | Inr (Replay c v) \<Rightarrow> (Inr (c, v), db)
      | Inr (Proceed p c) \<Rightarrow>
          (case claim_action db cmd of
             Inl e \<Rightarrow> (Inl (ServiceStore e), db)
           | Inr (Some v, db') \<Rightarrow>
               (case latest_flow db' (fp_plan_id p) of
                  Inl e \<Rightarrow> (Inl (ServiceStore e), db') | Inr d \<Rightarrow> (Inr (d, v), db'))
           | Inr (None, db') \<Rightarrow>
               (case bind_result (adapter_outcome H adapter cmd now) (finish_recon H db' p c s cmd) of
                  Inl e \<Rightarrow> (Inl e, db') | Inr (r, db'') \<Rightarrow> (Inr r, db''))))"

definition execute_recon ::
  "(pyval \<Rightarrow> digest) \<Rightarrow> url_env \<Rightarrow> recon_adapter \<Rightarrow> flow_db \<Rightarrow> RedTeamReconCommand \<Rightarrow> Scope \<Rightarrow> instant
   \<Rightarrow> (service_error + RedTeamCheckpoint \<times> RedTeamReconObservation) \<times> flow_db" where
  "execute_recon H U adapter db cmd s now =
     (if ra_kind (cm_action cmd) = HTTP_GET
      then (Inl (RedTeamRejected ''HTTP GET requires an operator-sealed Endpoint plan''), db)
      else case flow_plan db (ra_plan_id (cm_action cmd)) of
        Inl e \<Rightarrow> (Inl (ServiceStore e), db)
      | Inr p \<Rightarrow> execute_bound_recon H U adapter db cmd s now (wt_url (fp_target p)))"

section \<open>Stopping a flow\<close>

definition cancel ::
  "(pyval \<Rightarrow> digest) \<Rightarrow> flow_db \<Rightarrow> RedTeamFlowPlan \<Rightarrow> RedTeamCheckpoint \<Rightarrow> Scope \<Rightarrow> instant
   \<Rightarrow> (service_error + RedTeamCheckpoint) \<times> flow_db" where
  "cancel H db p c s now =
     (case scope_binding p s of Inl e \<Rightarrow> (Inl e, db) | Inr _ \<Rightarrow> advance_stored db c (cancel_flow H p c now))"

definition kill ::
  "(pyval \<Rightarrow> digest) \<Rightarrow> flow_db \<Rightarrow> RedTeamFlowPlan \<Rightarrow> RedTeamCheckpoint \<Rightarrow> Scope \<Rightarrow> instant
   \<Rightarrow> (service_error + RedTeamCheckpoint) \<times> flow_db" where
  "kill H db p c s now =
     (case scope_binding p s of Inl e \<Rightarrow> (Inl e, db) | Inr _ \<Rightarrow> advance_stored db c (activate_kill_switch H p c now))"

definition expire ::
  "(pyval \<Rightarrow> digest) \<Rightarrow> flow_db \<Rightarrow> RedTeamFlowPlan \<Rightarrow> RedTeamCheckpoint \<Rightarrow> instant
   \<Rightarrow> (service_error + RedTeamCheckpoint) \<times> flow_db" where
  "expire H db p c now =
     (case expire_flow H p c now of
        Inl e \<Rightarrow> (Inl (ServiceFlow e), db)
      | Inr expired \<Rightarrow> if expired = c then (Inr c, db) else advance_stored db c (Inr expired))"

end
