(* ===== verification/Red_Team_Service_Facts.thy ===== *)
theory Red_Team_Service_Facts
  imports Red_Team_Service
begin

text \<open>
  What the service adds to the store: every call leaves a store that its own operations can reach, and an action is granted to an
  adapter only inside the approved Scope and only while its flow is running.
\<close>

section \<open>Lifted results\<close>

lemma from_store_Inr [result_simps]: "from_store r = Inr x \<longleftrightarrow> r = Inr x"
  by (auto simp: from_store_def split: sum.splits)

lemma from_flow_Inr [result_simps]: "from_flow r = Inr x \<longleftrightarrow> r = Inr x"
  by (auto simp: from_flow_def split: sum.splits)

lemma from_create_Inr [result_simps]: "from_create r = Inr x \<longleftrightarrow> r = Some x"
  by (auto simp: from_create_def split: option.splits)

lemma require_allow_Inr:
  "require_allow H U s r msg = Inr u \<longleftrightarrow>
     within_boundary s r \<and> (\<forall>x. req_url r = Some x \<longrightarrow> url_in_scope U s x) \<and> approvals_granted H s r []"
  unfolding decide_ALLOW_iff [symmetric]
  by (auto simp: require_allow_def split: sum.splits)

section \<open>What the checks establish\<close>

lemma check_recon_proceed:
  assumes "check_recon H U db cmd s now url = Inr (Proceed p c)"
  shows "p \<in> set (fdb_plans db)" "fp_plan_id p = ra_plan_id (cm_action cmd)" "latest_flow db (fp_plan_id p) = Inr c"
    "fc_status c = Flow_RUNNING" "ra_expected_checkpoint_id (cm_action cmd) = fc_checkpoint_id c"
    "roe_scope_id (fp_rules p) = scope_id s" "roe_scope_version (fp_rules p) = sc_version s"
    "sc_state s = Scope_APPROVED" "in_validity_window s now" "now < fp_deadline p" "now < ra_deadline (cm_action cmd)"
    "ra_target_url (cm_action cmd) = url" "url_in_scope U s url"
    "ra_test_class (cm_action cmd) \<in> set (roe_allowed_test_classes (fp_rules p))"
    "set (roe_allowed_test_classes (fp_rules p)) \<subseteq> set (allowed_test_classes s)"
    "approval_requirements s = []"
proof -
  note k = assms [unfolded check_recon_def Let_def result_simps]
  from k obtain u where fp: "flow_plan db (ra_plan_id (cm_action cmd)) = Inr p" and lc: "latest_flow db (fp_plan_id p) = Inr c"
    and b: "scope_binding p s = Inr u" and run: "preflight_running H U db p c s now = Inr ()"
    and rest: "ra_expected_checkpoint_id (cm_action cmd) = fc_checkpoint_id c" "now < ra_deadline (cm_action cmd)"
      "ra_target_url (cm_action cmd) = url" "ra_test_class (cm_action cmd) \<in> set (roe_allowed_test_classes (fp_rules p))"
    and allow: "require_allow H U s
          (flow_request s (wt_target_id (fp_target p)) (''red_team.recon.'' @ red_team_kind_value (ra_kind (cm_action cmd))) now
             (ra_target_url (cm_action cmd)) (Some (ra_test_class (cm_action cmd))))
          ''Red Team Recon was denied by Scope policy'' = Inr ()"
    by (auto simp: result_simps split: option.splits if_splits)
  show "p \<in> set (fdb_plans db)" "fp_plan_id p = ra_plan_id (cm_action cmd)" using flow_plan_Inr [OF fp] by simp_all
  show "latest_flow db (fp_plan_id p) = Inr c" by (rule lc)
  show "fc_status c = Flow_RUNNING" "sc_state s = Scope_APPROVED" "in_validity_window s now" "now < fp_deadline p"
    using run by (auto simp: preflight_running_def preflight_plan_def require_scope_def result_simps split: if_splits)
  show "roe_scope_id (fp_rules p) = scope_id s" "roe_scope_version (fp_rules p) = sc_version s"
    "set (roe_allowed_test_classes (fp_rules p)) \<subseteq> set (allowed_test_classes s)"
    using b by (auto simp: scope_binding_def Let_def split: if_splits)
  show "url_in_scope U s url" "approval_requirements s = []"
    using allow rest(3) unfolding require_allow_Inr
    by (auto simp: flow_request_def approvals_granted_def required_approvals_def)
  show "ra_expected_checkpoint_id (cm_action cmd) = fc_checkpoint_id c" "now < ra_deadline (cm_action cmd)"
      "ra_target_url (cm_action cmd) = url" "ra_test_class (cm_action cmd) \<in> set (roe_allowed_test_classes (fp_rules p))"
    by (rule rest)+
qed

section \<open>Reachable stores\<close>

abbreviation some_op :: "(pyval \<Rightarrow> digest) \<Rightarrow> url_env \<Rightarrow> flow_db \<Rightarrow> flow_db \<Rightarrow> bool" where
  "some_op H U db db' \<equiv> \<exists>g. flow_op H U db g db'"

lemma engagement_steps:
  assumes "steps (some_op H U) db n db'" and "engagement H U gs db"
  shows "\<exists>gs'. engagement H U gs' db'"
  using assms by (induction rule: steps.induct) (auto intro: engagement_op)

lemma steps_keep_checkpoints: "steps (some_op H U) db n db' \<Longrightarrow> set (fdb_checkpoints db) \<subseteq> set (fdb_checkpoints db')"
  by (induction rule: steps.induct) (auto dest: checkpoints_stay)

lemma advance_stored_steps:
  assumes "advance_stored db c r = (res, db')" and "\<And>c'. r = Inr c' \<Longrightarrow> flow_control H p c c'"
    and "p \<in> set (fdb_plans db)" "c \<in> set (fdb_checkpoints db)" "fc_plan_id c = fp_plan_id p"
  shows "db' = db \<or> some_op H U db db'"
  using assms by (fastforce simp: advance_stored_def result_simps from_flow_def from_store_def split: sum.splits
      intro: flow_op.advanced)

lemma granted_row:
  assumes ok: "flow_store_ok H U db" and op: "claim_action db cmd = Inr (None, db')"
  obtains r where "r \<in> set (fdb_actions db')" "ar_action r = cm_action cmd"
  using op
proof (cases rule: claim_granted_cases)
  case first
  then show thesis by (cases rule: claim_first_grant) (rule that [of "grant_row cmd"]; simp add: grant_row_def)
next
  case (retry r)
  from retry(2) show thesis
  proof (cases rule: claim_known_grant)
    case (1 ys q zs)
    have "q = r" using same_row [OF ok _ retry(1), of q] 1 by simp
    with 1 show thesis
      by (intro that [of "q\<lparr>ar_attempt := cm_attempt cmd, ar_command_id := cm_command_id cmd\<rparr>"]) simp_all
  qed
qed

text \<open>One call of \<^verbatim>\<open>_execute_bound_recon\<close> is a claim and, when the adapter delivers, a completion.\<close>

lemma finish_recon_Inr:
  assumes "finish_recon H db p c s cmd v = Inr (r, db')"
  obtains c' d where "observation_provenance p s (cm_action cmd) v" "record_observation H p c v (ro_observed_at v) = Inr c'"
    "complete_action db cmd c c' v = Inr (d, db')"
  using assms by (auto simp: finish_recon_def result_simps split: if_splits)

lemma execute_bound_recon_cases:
  assumes "execute_bound_recon H U adapter db cmd s now url = (res, db')"
  obtains (quiet) "db' = db"
  | (begun) p c where "check_recon H U db cmd s now url = Inr (Proceed p c)" "claim_action db cmd = Inr (None, db')"
  | (closed) p c db1 v r where "check_recon H U db cmd s now url = Inr (Proceed p c)"
      "claim_action db cmd = Inr (None, db1)" "adapter_outcome H adapter cmd now = Inr v"
      "finish_recon H db1 p c s cmd v = Inr (r, db')" "res = Inr r"
  using assms
  by (auto simp: execute_bound_recon_def result_simps
      split: sum.splits recon_check.splits prod.splits option.splits dest: claim_replay)

lemma execute_bound_recon_steps:
  assumes reach: "engagement H U gs db" and valid: "RedTeamReconCommand_valid H cmd"
    and call: "execute_bound_recon H U adapter db cmd s now url = (res, db')"
  shows "\<exists>gs'. engagement H U gs' db'"
  using call
proof (cases rule: execute_bound_recon_cases)
  case quiet
  with reach show ?thesis by blast
next
  case (begun p c)
  then show ?thesis using engagement_op [OF reach flow_op.granted [OF valid]] by blast
next
  case (closed p c db1 v r)
  note chk = check_recon_proceed [OF closed(1)]
  note op1 = flow_op.granted [OF valid closed(2)]
  obtain row where row: "row \<in> set (fdb_actions db1)" "ar_action row = cm_action cmd"
    using granted_row [OF engagement_ok [OF reach] closed(2)] .
  have p: "p \<in> set (fdb_plans db1)" and c: "c \<in> set (fdb_checkpoints db1)"
    using chk(1) plans_stay [OF op1] latest_flow_mem [OF chk(3)] checkpoints_stay [OF op1] by auto
  from closed(4) show ?thesis
  proof (rule finish_recon_Inr)
    fix c' d assume k: "observation_provenance p s (cm_action cmd) v"
      "record_observation H p c v (ro_observed_at v) = Inr c'" "complete_action db1 cmd c c' v = Inr (d, db')"
    then have "ro_action_id v = ra_action_id (cm_action cmd)" by (simp add: observation_provenance_def)
    from flow_op.finished [OF p c chk(2) row this k(2,3)] engagement_op [OF reach op1] show ?thesis
      using engagement_op by blast
  qed
qed

end
