(* ===== verification/Engagement_Properties.thy ===== *)
theory Engagement_Properties
  imports Red_Team_Service_Facts Examples
begin

text \<open>
  The properties of a Red Team engagement as the service and its store run it, each with a concrete run.
\<close>

section \<open>Recorded observations\<close>

definition recorded :: "flow_db \<Rightarrow> RedTeamReconAction \<Rightarrow> RedTeamReconObservation \<Rightarrow> bool" where
  "recorded db a v \<longleftrightarrow>
     (\<exists>r \<in> set (fdb_actions db). ar_action r = a \<and> ar_state r = Action_COMPLETED \<and>
        ar_observation_id r = Some (ro_observation_id v)) \<and> v \<in> set (fdb_observations db)"

lemma recorded_stays:
  assumes "steps (some_op H U) db n db'" and "engagement H U gs db" and "recorded db a v"
  shows "recorded db' a v"
  using assms
proof (induction rule: steps.induct)
  case (steps_step db n db1 db2)
  then obtain g where op: "flow_op H U db1 g db2" by blast
  obtain gs1 where "engagement H U gs1 db1" using engagement_steps steps_step.hyps(1) steps_step.prems(1) by blast
  with steps_step op show ?case
    using completed_stays [OF op engagement_ok] observations_stay [OF op] by (fastforce simp: recorded_def)
qed simp

lemma recorded_replayed:
  assumes ok: "flow_store_ok H U db" and rec: "recorded db (cm_action cmd) v"
  shows "claim_action db cmd = Inr (Some v, db)"
proof -
  from rec obtain r where r: "r \<in> set (fdb_actions db)" "ar_action r = cm_action cmd" "ar_state r = Action_COMPLETED"
      "ar_observation_id r = Some (ro_observation_id v)" and v: "v \<in> set (fdb_observations db)"
    by (auto simp: recorded_def)
  from completed_replays [OF ok r(1,3), of cmd] r(2) obtain w where
    w: "claim_action db cmd = Inr (Some w, db)" "w \<in> set (fdb_observations db)" "ar_observation_id r = Some (ro_observation_id w)"
    by metis
  then have "w = v" using ok v r(4) by (auto simp: flow_store_ok_def distinct_map dest: inj_onD)
  with w show ?thesis by simp
qed

lemma completed_action_recorded:
  assumes "completed_action db cmd = Inr (Some v)"
  shows "recorded db (cm_action cmd) v"
proof -
  from assms obtain r where r: "List.find (same_action (cm_action cmd)) (fdb_actions db) = Some r"
    "ar_action r = cm_action cmd" "ar_state r = Action_COMPLETED" "flow_observation db (ar_observation_id r) = Inr v"
    by (auto simp: completed_action_def result_simps split: option.splits if_splits)
  then have "r \<in> set (fdb_actions db)" by (auto simp: find_Some_iff)
  moreover have "v \<in> set (fdb_observations db)" "ar_observation_id r = Some (ro_observation_id v)"
    using r(4) by (auto simp: flow_observation_def result_simps find_Some_iff)
  ultimately show ?thesis using r by (auto simp: recorded_def)
qed

lemma claim_replay_recorded:
  assumes "claim_action db cmd = Inr (Some v, db')"
  shows "recorded db (cm_action cmd) v"
proof -
  have "completed_action db cmd = Inr (Some v)"
    using assms by (auto simp: claim_action_def claim_known_def claim_first_def start_claimed_def completed_action_def
        result_simps Let_def split: option.splits if_splits prod.splits)
  then show ?thesis by (rule completed_action_recorded)
qed

lemma complete_action_recorded:
  assumes ok: "flow_store_ok H U db" and r: "r \<in> set (fdb_actions db)" "ar_action r = cm_action cmd"
    and op: "complete_action db cmd c c' v = Inr (d, db')"
  shows "recorded db' (cm_action cmd) v"
  using op
proof (cases rule: complete_action_cases)
  case (1 ys q zs)
  have "ar_action q = cm_action cmd" using same_row [OF ok _ r(1), of q] 1(2,3) r(2) by (simp add: claimed_by_def)
  then show ?thesis by (simp add: recorded_def 1(4))
qed

lemma executed_recorded:
  assumes reach: "engagement H U gs db" and valid: "RedTeamReconCommand_valid H cmd"
    and call: "execute_bound_recon H U adapter db cmd s now url = (Inr (d, v), db')"
  shows "recorded db' (cm_action cmd) v"
proof -
  from call consider "completed_action db cmd = Inr (Some v)" "db' = db"
    | "claim_action db cmd = Inr (Some v, db')"
    | p c db1 where "claim_action db cmd = Inr (None, db1)" "finish_recon H db1 p c s cmd v = Inr ((d, v), db')"
    by (auto simp: execute_bound_recon_def check_recon_def finish_recon_def Let_def result_simps
        split: sum.splits recon_check.splits prod.splits option.splits if_splits)
  then show ?thesis
  proof cases
    case 1
    then show ?thesis by (simp add: completed_action_recorded)
  next
    case 2
    then show ?thesis using claim_replay [OF 2] claim_replay_recorded [OF 2] by simp
  next
    case (3 p c db1)
    note ok1 = granted_ok [OF engagement_ok [OF reach] valid 3(1)]
    obtain r where "r \<in> set (fdb_actions db1)" "ar_action r = cm_action cmd"
      using granted_row [OF engagement_ok [OF reach] 3(1)] .
    with 3(2) show ?thesis by (auto elim!: finish_recon_Inr intro: complete_action_recorded [OF ok1])
  qed
qed

section \<open>Claims against the flow\<close>

lemma command_ids_distinct: "engagement H U gs db \<Longrightarrow> distinct (map ar_command_id (fdb_actions db))"
proof (induction rule: engagement.induct)
  case engagement_empty
  show ?case by (simp add: empty_flows_def)
next
  case (engagement_op gs db g db')
  from engagement_op(2) show ?case
  proof (cases rule: flow_op_actions_cases)
    case same
    with engagement_op(3) show ?thesis by simp
  next
    case (first cmd)
    from first(2) show ?thesis
      by (cases rule: claim_first_grant) (use engagement_op(3) in \<open>auto simp: insert_action_Inr grant_row_def\<close>)
  next
    case (retry cmd r)
    from retry(3) show ?thesis
      by (auto simp: claim_known_def retry_action_def Let_def result_simps split: if_splits)
  next
    case (finish cmd c c' v d)
    from finish(2) show ?thesis by (cases rule: complete_action_cases) (use engagement_op(3) in auto)
  qed
qed

text \<open>A first claim is bound to the latest checkpoint.\<close>

lemma first_claim_latest:
  assumes ok: "flow_store_ok H U db" and claim: "claim_action db cmd = Inr (None, db')" and "cm_attempt cmd = 1"
    and c: "c \<in> set (fdb_checkpoints db)" "fc_plan_id c = ra_plan_id (cm_action cmd)"
      "fc_checkpoint_id c = ra_expected_checkpoint_id (cm_action cmd)"
  shows "latest_flow db (ra_plan_id (cm_action cmd)) = Inr c" "claim_first db cmd = Inr (None, db')"
proof -
  from claim show first: "claim_first db cmd = Inr (None, db')"
  proof (cases rule: claim_granted_cases)
    case (retry r)
    then have "cm_attempt cmd = ar_attempt r + 1" by (auto elim: claim_known_grant)
    with assms(3) flow_store_okD(4) [OF ok retry(1)] show ?thesis by (simp add: row_ok_def)
  qed
  then obtain d where d: "latest_flow db (ra_plan_id (cm_action cmd)) = Inr d"
      "fc_checkpoint_id d = ra_expected_checkpoint_id (cm_action cmd)"
    by (auto simp: claim_first_def Let_def result_simps assert_latest_id_def latest_flow_def split: if_splits option.splits)
  then have "d = c"
    using latest_flow_mem [OF d(1)] c inj_onD [of fc_checkpoint_id "set (fdb_checkpoints db)" d c] flow_store_okD(2) [OF ok]
    by (simp add: distinct_map)
  with d show "latest_flow db (ra_plan_id (cm_action cmd)) = Inr c" by simp
qed

text \<open>A retry is bound to its row only.\<close>

lemma retry_claim_granted:
  assumes reach: "engagement H U gs db" and r: "r \<in> set (fdb_actions db)" "ar_state r = Action_STARTED" "ar_action r = cm_action cmd"
    and att: "cm_attempt cmd = ar_attempt r + 1" and fresh: "cm_command_id cmd \<notin> ar_command_id ` set (fdb_actions db)"
  shows "\<exists>db'. claim_action db cmd = Inr (None, db')"
proof -
  note ok = engagement_ok [OF reach]
  have only: "x = r" if "x \<in> set (fdb_actions db)" "same_action (ar_action r) x" for x
    using that ok r(1) by (auto simp: same_action_def flow_store_ok_def distinct_map dest: inj_onD)
  have find: "List.find (same_action (cm_action cmd)) (fdb_actions db) = Some r"
    unfolding r(3) [symmetric] by (rule find_only [OF r(1) _ only]) (simp_all add: same_action_def)
  obtain ys zs where split: "fdb_actions db = ys @ r # zs" using r(1) by (meson split_list)
  have others: "action_id_of x \<noteq> action_id_of r" if "x \<in> set ys \<union> set zs" for x
    using flow_store_okD(3) [OF ok] that unfolding split by (auto simp: image_iff)
  have ids: "map (retry_row cmd (ar_attempt r)) (fdb_actions db) =
      ys @ r\<lparr>ar_attempt := cm_attempt cmd, ar_command_id := cm_command_id cmd\<rparr> # zs"
    using others r(2,3) unfolding split by (auto simp: retry_row_def intro!: map_idI)
  have one: "filter (\<lambda>x. action_id_of x = ra_action_id (cm_action cmd) \<and> ar_state x = Action_STARTED \<and>
      ar_attempt x = ar_attempt r) (fdb_actions db) = [r]"
    using others r(2,3) unfolding split by (auto simp: filter_empty_conv)
  have "distinct (map ar_command_id (map (retry_row cmd (ar_attempt r)) (fdb_actions db)))"
    using command_ids_distinct [OF reach] fresh unfolding ids by (auto simp: split)
  then show ?thesis
    using find r att one by (simp add: claim_action_def claim_known_def retry_action_def Let_def integrity_def)
qed

text \<open>What an admission and a reservation change, and when a claim exceeds the budget.\<close>

lemma insert_admission_effect:
  assumes "insert_admission db q a = Inr db'"
  shows "latest_flow db' = latest_flow db" "flow_plan db' = flow_plan db" "started_actions db' = started_actions db"
    "reserved_actions db' = reserved_actions db" "fdb_external db' = fdb_external db" "fdb_actions db' = fdb_actions db"
    "reserved_replan_actions db' (ad_flow_plan_id a) = reserved_replan_actions db (ad_flow_plan_id a) + 1"
    "admission_for db' (cm_action (ad_command a)) =
       Some \<lparr>mr_proposal_id = rp_proposal_id q, mr_state = Adm_RESERVED, mr_admission = a\<rparr>"
  using assms
  by (auto simp: insert_admission_def latest_flow_def flow_plan_def started_actions_def reserved_actions_def
      reserved_replan_actions_def reserved_in_def fun_eq_iff admission_for_def find_append list_ex_iff
      split: if_splits option.splits dest!: find_Some_iff [THEN iffD1])

lemma claim_over_budget:
  assumes "List.find (same_action (cm_action cmd)) (fdb_actions db) = None" and "cm_attempt cmd = 1"
    and "latest_flow db i = Inr c" "fc_checkpoint_id c = ra_expected_checkpoint_id (cm_action cmd)"
    and "flow_plan db i = Inr p" "i = ra_plan_id (cm_action cmd)"
    and "replan_available (cm_action cmd) (admission_for db (cm_action cmd))"
    and "max_actions (stop_conditions (fp_rules p)) <
      fc_actions_used c + started_actions db i + reserved_actions db i + reserved_replan_actions db i"
  shows "claim_action db cmd = Inl (RedTeamStoreRejected ''Red Team action budget is reserved by another workflow'')"
proof -
  have "assert_latest_id db i (ra_expected_checkpoint_id (cm_action cmd)) = Inr ()"
    using assms(3,4) by (auto simp: assert_latest_id_def latest_flow_def or_reject_def split: option.splits)
  with assms show ?thesis
    unfolding claim_action_def claim_first_def admission_for_def Let_def by (simp add: integrity_def)
qed

section \<open>Concrete runs\<close>

text \<open>A digest that tells checkpoints apart by revision and commands by attempt, a plan for one action, and its flow.\<close>

definition rt_digest :: "pyval \<Rightarrow> digest" where
  "rt_digest v = (case v of PDict kvs \<Rightarrow>
       (case map_of kvs ''revision'' of Some (PInt k) \<Rightarrow> pad_digest k
        | _ \<Rightarrow> (case map_of kvs ''attempt'' of Some (PInt k) \<Rightarrow> pad_digest k | _ \<Rightarrow> pad_digest 0)) | _ \<Rightarrow> pad_digest 0)"

definition rt_env :: url_env where
  "rt_env = \<lparr>ue_bracket_ok = (\<lambda>_. False), ue_nfkc_ok = (\<lambda>_. True)\<rparr>"

definition rt_scope :: Scope where
  "rt_scope = \<lparr>scope_id = 8, sc_engagement_id = 7, sc_version = 1, sc_authority_reference = ''ref'', valid_from = 0,
     valid_until = 10000, repositories = [], sc_artifacts = [],
     network_targets = [\<lparr>nt_host = ''shop.test'', nt_ports = [443], nt_schemes = [''https'']\<rparr>], allowed_identities = [],
     allowed_test_classes = [''read_only''], denied_actions = [], rate_limits = [], approval_requirements = [],
     sc_state = Scope_APPROVED, sc_approved_by = Some ''owner'', sc_approved_at = Some 0\<rparr>"

definition rt_plan :: RedTeamFlowPlan where
  "rt_plan = \<lparr>fp_plan_id = pad_digest 0, fp_mode = \<lparr>wm_workflow = AUTHORIZED_RED_TEAM, wm_visibility = BLACK_BOX,
       wm_execution_profile = EP_RED_TEAM, wm_autonomy = AL_BOUNDED_EXECUTION\<rparr>,
     fp_target = \<lparr>wt_target_id = 9, wt_url = ''https://shop.test/''\<rparr>,
     fp_rules = \<lparr>roe_id = pad_digest 0, roe_scope_id = 8, roe_scope_version = 1, roe_target_id = 9, roe_phases = [RECON],
       roe_allowed_test_classes = [''read_only''], allowed_impacts = [Imp_READ_ONLY], approval_required_impacts = [],
       prohibited_impacts = Imp_STATE_CHANGE # CHAIN_PROHIBITED,
       stop_conditions = \<lparr>stop_at = 9000, max_actions = 1, max_consecutive_failures = 2\<rparr>,
       emergency_contact_ref = ''contact:ops''\<rparr>,
     fp_created_at = 0, fp_deadline = 9000, fp_idempotency_key = ''k''\<rparr>"

definition rt_checkpoint :: "int \<Rightarrow> RedTeamFlowStatus \<Rightarrow> digest list \<Rightarrow> string option \<Rightarrow> instant \<Rightarrow> RedTeamCheckpoint" where
  "rt_checkpoint k st seen why t = \<lparr>fc_checkpoint_id = pad_digest k, fc_plan_id = pad_digest 0, fc_revision = k,
     fc_status = st, fc_actions_used = int (length seen), fc_consecutive_failures = 0, fc_observation_ids = seen,
     fc_stop_reason = why, fc_updated_at = t\<rparr>"

definition rt_action :: RedTeamReconAction where
  "rt_action = \<lparr>ra_action_id = pad_digest 0, ra_plan_id = pad_digest 0, ra_expected_checkpoint_id = pad_digest 1,
     ra_kind = HTTP_HEAD, ra_target_url = ''https://shop.test/'', ra_test_class = ''read_only'', ra_impact = Imp_READ_ONLY,
     ra_created_at = 10, ra_deadline = 1000, ra_idempotency_key = ''a''\<rparr>"

definition rt_command :: "int \<Rightarrow> RedTeamReconCommand" where
  "rt_command n = \<lparr>cm_command_id = pad_digest n, cm_action = rt_action, cm_attempt = n\<rparr>"

definition rt_seen :: RedTeamReconObservation where
  "rt_seen = \<lparr>ro_observation_id = pad_digest 0, ro_action_id = pad_digest 0, ro_outcome = Rec_SUCCEEDED,
     ro_status_code = Some 204, ro_reason_code = ''ok'', ro_cleanup_complete = True, ro_sensitive_data_redacted = True,
     ro_attack_surface = None, ro_service_identity = None, ro_web_response = None, ro_observed_at = 20\<rparr>"

definition rt_adapter :: recon_adapter where
  "rt_adapter a now = Inr rt_seen"

definition rt_started :: flow_db where
  "rt_started = empty_flows\<lparr>fdb_plans := [rt_plan],
     fdb_checkpoints := [rt_checkpoint 0 Flow_PLANNED [] None 0, rt_checkpoint 1 Flow_RUNNING [] None 5]\<rparr>"

definition rt_claimed :: flow_db where
  "rt_claimed = rt_started\<lparr>fdb_actions := [grant_row (rt_command 1)]\<rparr>"

definition rt_finished :: flow_db where
  "rt_finished = rt_started\<lparr>
     fdb_actions := [(grant_row (rt_command 1))\<lparr>ar_state := Action_COMPLETED, ar_observation_id := Some (pad_digest 0)\<rparr>],
     fdb_observations := [rt_seen],
     fdb_checkpoints := fdb_checkpoints rt_started @
       [rt_checkpoint 2 Flow_COMPLETED [pad_digest 0] (Some ''action_budget_reached'') 20]\<rparr>"

lemma rt_plan_valid: "RedTeamFlowPlan_valid rt_digest rt_env rt_plan"
  by code_simp

lemma rt_command_valid: "RedTeamReconCommand_valid rt_digest (rt_command 1)" "RedTeamReconCommand_valid rt_digest (rt_command 2)"
  by code_simp+

lemma rt_flow:
  "planned_flow rt_digest rt_plan 0 = Some (rt_checkpoint 0 Flow_PLANNED [] None 0)"
  "start_flow rt_digest rt_plan (rt_checkpoint 0 Flow_PLANNED [] None 0) 5 = Inr (rt_checkpoint 1 Flow_RUNNING [] None 5)"
  "create_plan empty_flows rt_plan (rt_checkpoint 0 Flow_PLANNED [] None 0) =
     Inr (rt_checkpoint 0 Flow_PLANNED [] None 0,
       empty_flows\<lparr>fdb_plans := [rt_plan], fdb_checkpoints := [rt_checkpoint 0 Flow_PLANNED [] None 0]\<rparr>)"
  "advance_flow (empty_flows\<lparr>fdb_plans := [rt_plan], fdb_checkpoints := [rt_checkpoint 0 Flow_PLANNED [] None 0]\<rparr>)
     (rt_checkpoint 0 Flow_PLANNED [] None 0) (rt_checkpoint 1 Flow_RUNNING [] None 5) =
     Inr (rt_checkpoint 1 Flow_RUNNING [] None 5, rt_started)"
  by code_simp+

lemma rt_check: "check_recon rt_digest rt_env rt_started (rt_command 1) rt_scope 20 ''https://shop.test/'' =
    Inr (Proceed rt_plan (rt_checkpoint 1 Flow_RUNNING [] None 5))"
  by code_simp

lemma rt_claim: "claim_action rt_started (rt_command 1) = Inr (None, rt_claimed)"
  by code_simp

lemma rt_execute: "execute_bound_recon rt_digest rt_env rt_adapter rt_started (rt_command 1) rt_scope 20 ''https://shop.test/'' =
    (Inr (rt_checkpoint 2 Flow_COMPLETED [pad_digest 0] (Some ''action_budget_reached'') 20, rt_seen), rt_finished)"
  by code_simp

definition rt_killed :: RedTeamCheckpoint where
  "rt_killed = rt_checkpoint 2 Flow_KILLED [] (Some ''kill_switch_activated'') 30"

lemma rt_retry:
  "check_recon rt_digest rt_env rt_claimed (rt_command 2) rt_scope 25 ''https://shop.test/'' =
     Inr (Proceed rt_plan (rt_checkpoint 1 Flow_RUNNING [] None 5))"
  "kill rt_digest rt_claimed rt_plan (rt_checkpoint 1 Flow_RUNNING [] None 5) rt_scope 30 =
     (Inr rt_killed, rt_claimed\<lparr>fdb_checkpoints := fdb_checkpoints rt_started @ [rt_killed]\<rparr>)"
  by code_simp+

definition rt_proposal :: RedTeamReplanProposal where
  "rt_proposal = \<lparr>rp_proposal_id = pad_digest 0, rp_tool_view_id = pad_digest 0, rp_source_observation_ids = [pad_digest 0],
     rp_action_kind = HTTP_HEAD, rp_test_class = ''read_only'', rp_rationale_digest = pad_digest 0, rp_ttl_seconds = 60,
     rp_proposed_at = 10, rp_idempotency_key = ''q''\<rparr>"

definition rt_admission :: RedTeamReplanAdmission where
  "rt_admission = \<lparr>ad_admission_id = pad_digest 0, ad_proposal_id = pad_digest 0, ad_tool_view_id = pad_digest 0,
     ad_flow_plan_id = pad_digest 0, ad_source_checkpoint_id = pad_digest 1, ad_source_observation_ids = [pad_digest 0],
     ad_command = rt_command 1, ad_policy_request_digest = pad_digest 0,
     ad_required_approval_action = EXECUTE_RED_TEAM_ACTION, ad_required_approval_digest = pad_digest 0, ad_admitted_at = 12\<rparr>"

definition rt_admitted :: flow_db where
  "rt_admitted = rt_started\<lparr>fdb_proposals := [rt_proposal],
     fdb_admissions := [\<lparr>mr_proposal_id = pad_digest 0, mr_state = Adm_RESERVED, mr_admission = rt_admission\<rparr>]\<rparr>"

lemma rt_admit:
  "RedTeamReplanAdmission_valid rt_digest rt_admission"
  "stored_proposal rt_started rt_proposal = None"
  "remaining_action_budget rt_started (ad_flow_plan_id rt_admission) = Inr 1"
  "admit_replan rt_started rt_proposal rt_admission = Inr (rt_admission, rt_admitted)"
  by code_simp+

lemma rt_started_reachable: "engagement rt_digest rt_env [] rt_started"
proof -
  let ?db = "empty_flows\<lparr>fdb_plans := [rt_plan], fdb_checkpoints := [rt_checkpoint 0 Flow_PLANNED [] None 0]\<rparr>"
  have "flow_op rt_digest rt_env empty_flows None ?db"
    by (rule flow_op.created [OF rt_plan_valid rt_flow(1,3)])
  from engagement_op [OF engagement_empty this] have reach: "engagement rt_digest rt_env [] ?db" by simp
  have "flow_op rt_digest rt_env ?db None rt_started"
    by (rule flow_op.advanced [OF _ _ _ flow_control.intros(1) [OF rt_flow(2)] rt_flow(4)])
      (simp_all add: rt_plan_def rt_checkpoint_def)
  from engagement_op [OF reach this] show ?thesis by simp
qed

lemma rt_claimed_reachable: "engagement rt_digest rt_env [pad_digest 0] rt_claimed"
  using engagement_op [OF rt_started_reachable flow_op.granted [OF rt_command_valid(1) rt_claim]]
  by (simp add: rt_command_def rt_action_def)

lemma rt_plan_in: "rt_plan \<in> set (fdb_plans rt_started)" "rt_plan \<in> set (fdb_plans rt_claimed)"
  by (simp_all add: rt_claimed_def rt_started_def)

section \<open>The properties\<close>

text \<open>C7. In every reachable store the latest checkpoint of a plan accounts for exactly the completed actions of the
  plan: it counts them and lists their observations. At most one action is started, and used, started and
  externally reserved actions together stay within the plan's action budget.\<close>

theorem engagement_accounts:
  assumes "engagement H U gs db" and "p \<in> set (fdb_plans db)"
  shows "\<exists>c. latest_flow db (fp_plan_id p) = Inr c \<and>
    fc_actions_used c = int (length (filter (completed_in (fp_plan_id p)) (fdb_actions db))) \<and>
    mset (fc_observation_ids c) = observed_ids db (fp_plan_id p) \<and>
    started_actions db (fp_plan_id p) \<le> 1 \<and>
    fc_actions_used c + started_actions db (fp_plan_id p) + reserved_actions db (fp_plan_id p)
      \<le> max_actions (stop_conditions (fp_rules p))"
proof -
  note ok = engagement_ok [OF assms(1)]
  obtain c where c: "plan_accounts H db p c" using flow_store_okD(6) [OF ok assms(2)] by blast
  then have "size (mset (fc_observation_ids c)) = size (observed_ids db (fp_plan_id p))" by (simp add: plan_accounts_def)
  then have "length (fc_observation_ids c) = length (filter (completed_in (fp_plan_id p)) (fdb_actions db))"
    unfolding observed_ids_def size_mset length_map .
  moreover have "started_actions db (fp_plan_id p) \<le> 1" using ok by (simp add: flow_store_ok_def)
  ultimately show ?thesis using c by (intro exI [of _ c]) (simp add: plan_accounts_def flow_inv_def)
qed

theorem engagement_accounts_witness:
  "\<exists>c. latest_flow rt_claimed (fp_plan_id rt_plan) = Inr c \<and>
    fc_actions_used c = int (length (filter (completed_in (fp_plan_id rt_plan)) (fdb_actions rt_claimed))) \<and>
    mset (fc_observation_ids c) = observed_ids rt_claimed (fp_plan_id rt_plan) \<and>
    started_actions rt_claimed (fp_plan_id rt_plan) \<le> 1 \<and>
    fc_actions_used c + started_actions rt_claimed (fp_plan_id rt_plan) + reserved_actions rt_claimed (fp_plan_id rt_plan)
      \<le> max_actions (stop_conditions (fp_rules rt_plan))"
  by (rule engagement_accounts [OF rt_claimed_reachable rt_plan_in(2)])

text \<open>C20. Whatever the callers do, one action is granted for execution at most three times, and once it is completed it is
  never granted again and its row never changes.\<close>

theorem action_grants_bounded:
  assumes "engagement H U gs db"
  shows "count_list gs a \<le> 3 \<and>
    (flow_op H U db g db' \<and> r \<in> set (fdb_actions db) \<and> ar_state r = Action_COMPLETED \<longrightarrow>
       g \<noteq> Some (action_id_of r) \<and> r \<in> set (fdb_actions db'))"
proof
  note ok = engagement_ok [OF assms] and counted = engagement_grants [OF assms]
  show "count_list gs a \<le> 3"
  proof (cases "a \<in> action_id_of ` set (fdb_actions db)")
    case True
    then obtain r where r: "r \<in> set (fdb_actions db)" "a = action_id_of r" by blast
    then have "int (count_list gs a) = ar_attempt r" using counted by (simp add: grants_counted_def)
    then show ?thesis using flow_store_okD(4) [OF ok r(1)] by (simp add: row_ok_def)
  next
    case False
    then show ?thesis using counted by (simp add: grants_counted_def)
  qed
  show "flow_op H U db g db' \<and> r \<in> set (fdb_actions db) \<and> ar_state r = Action_COMPLETED \<longrightarrow>
       g \<noteq> Some (action_id_of r) \<and> r \<in> set (fdb_actions db')"
    using completed_stays [OF _ ok] by blast
qed

theorem action_grants_bounded_witness: "count_list [pad_digest 0] (pad_digest 0) \<le> 3"
  using action_grants_bounded [OF rt_claimed_reachable, of "pad_digest 0"] by blast

text \<open>C21. What an execution returned is what every later claim of the action reads back: after any further operations, a
  command for the same action returns the recorded observation and changes nothing.\<close>

theorem executed_observation_read_back:
  assumes "engagement H U gs db" and "RedTeamReconCommand_valid H cmd"
    and "execute_bound_recon H U adapter db cmd s now url = (Inr (d, v), db1)"
    and "steps (some_op H U) db1 n db2" and "cm_action again = cm_action cmd"
  shows "claim_action db2 again = Inr (Some v, db2)"
proof -
  obtain gs1 where reach1: "engagement H U gs1 db1" using execute_bound_recon_steps [OF assms(1-3)] by blast
  obtain gs2 where reach2: "engagement H U gs2 db2" using engagement_steps [OF assms(4) reach1] by blast
  have "recorded db2 (cm_action again) v"
    using recorded_stays [OF assms(4) reach1 executed_recorded [OF assms(1-3)]] assms(5) by simp
  then show ?thesis by (rule recorded_replayed [OF engagement_ok [OF reach2]])
qed

theorem executed_observation_read_back_witness: "claim_action rt_finished (rt_command 2) = Inr (Some rt_seen, rt_finished)"
  by (rule executed_observation_read_back [OF rt_started_reachable rt_command_valid(1) rt_execute steps_refl])
    (simp add: rt_command_def)

text \<open>C16. The store implements the abstract budget ledger: seen through the ledger of a plan, every run of store operations from
  a reachable store is a run of the ledger, in which starting and reserving need room and finishing moves a
  running action to the used ones.\<close>

theorem store_implements_ledger:
  assumes "engagement H U gs db" and "p \<in> set (fdb_plans db)" and "steps (some_op H U) db n db'"
  shows "steps (ledger_step (max_actions (stop_conditions (fp_rules p)))) (ledger_of (fp_plan_id p) db) n
    (ledger_of (fp_plan_id p) db')"
  using flow_ledger.steps_simulated [OF assms(3), of p] engagement_ok [OF assms(1)] assms(2) by simp

theorem store_implements_ledger_witness:
  "steps (ledger_step (max_actions (stop_conditions (fp_rules rt_plan)))) (ledger_of (fp_plan_id rt_plan) rt_started) (Suc 0)
     (ledger_of (fp_plan_id rt_plan) rt_claimed)"
proof (rule store_implements_ledger [OF rt_started_reachable rt_plan_in(1)])
  show "steps (some_op rt_digest rt_env) rt_started (Suc 0) rt_claimed"
    by (rule steps_step [OF steps_refl]) (use flow_op.granted [OF rt_command_valid(1) rt_claim] in blast)
qed

text \<open>C8. A first attempt reaches its adapter only under authority: when the service's checks passed in a reachable store and
  the claim was granted after any further operations by others, the Scope is approved, current and the one the plan
  was sealed for, the URL and the test class are in it, neither deadline has passed, and the flow is still running at the
  very checkpoint the checks saw, with an action left in the budget.\<close>

theorem first_grant_authorised:
  assumes "engagement H U gs db" and "check_recon H U db cmd s now url = Inr (Proceed p c)" and "cm_attempt cmd = 1"
    and "steps (some_op H U) db n db1" and "claim_action db1 cmd = Inr (None, db2)"
  shows "sc_state s = Scope_APPROVED \<and> in_validity_window s now \<and> roe_scope_id (fp_rules p) = scope_id s \<and>
    roe_scope_version (fp_rules p) = sc_version s \<and> url_in_scope U s (ra_target_url (cm_action cmd)) \<and>
    ra_test_class (cm_action cmd) \<in> set (allowed_test_classes s) \<and> now < fp_deadline p \<and> now < ra_deadline (cm_action cmd) \<and>
    latest_flow db1 (fp_plan_id p) = Inr c \<and> fc_status c = Flow_RUNNING \<and>
    fc_actions_used c + reserved_actions db1 (fp_plan_id p) < max_actions (stop_conditions (fp_rules p))"
proof -
  note chk = check_recon_proceed [OF assms(2)]
  obtain gs1 where "engagement H U gs1 db1" using engagement_steps [OF assms(4,1)] by blast
  then have ok: "flow_store_ok H U db1" by (rule engagement_ok)
  have c: "c \<in> set (fdb_checkpoints db1)" "fc_plan_id c = ra_plan_id (cm_action cmd)"
    using latest_flow_mem [OF chk(3)] steps_keep_checkpoints [OF assms(4)] chk(2) by auto
  note first = first_claim_latest [OF ok assms(5,3) c chk(5) [symmetric]]
  from first_granted_effect [OF ok first(2)] obtain d q where
    q: "q \<in> set (fdb_plans db1)" "fp_plan_id q = ra_plan_id (cm_action cmd)" "latest_flow db1 (fp_plan_id q) = Inr d"
      "fc_actions_used d + started_actions db1 (fp_plan_id q) + reserved_actions db1 (fp_plan_id q) + 1
         \<le> max_actions (stop_conditions (fp_rules q))" .
  have "p \<in> set (fdb_plans db1)"
    using assms(4) chk(1) steps_invariant [of "some_op H U" db n db1 "\<lambda>d. p \<in> set (fdb_plans d)"] plans_stay by blast
  then have "q = p" using same_plan [OF ok] q(1,2) chk(2) by metis
  moreover have "0 \<le> started_actions db1 (fp_plan_id p)" by (simp add: started_actions_def)
  ultimately show ?thesis using chk first(1) q by auto
qed

theorem first_grant_authorised_witness:
  "url_in_scope rt_env rt_scope (ra_target_url (cm_action (rt_command 1))) \<and>
   latest_flow rt_started (fp_plan_id rt_plan) = Inr (rt_checkpoint 1 Flow_RUNNING [] None 5)"
  using first_grant_authorised [OF rt_started_reachable rt_check _ steps_refl rt_claim] by (simp add: rt_command_def)

text \<open>C35. A retry is not bound to the flow: when the service's checks passed and the kill switch is stored before the
  claim, the claim of a further attempt is still granted, and its adapter runs in a killed flow.\<close>

theorem retry_granted_after_kill:
  assumes "engagement H U gs db" and "check_recon H U db cmd s now url = Inr (Proceed p c)"
    and "kill H db p c s now' = (Inr c', db1)"
    and "r \<in> set (fdb_actions db)" "ar_state r = Action_STARTED" "ar_action r = cm_action cmd"
    and "cm_attempt cmd = ar_attempt r + 1" and "cm_command_id cmd \<notin> ar_command_id ` set (fdb_actions db)"
  shows "latest_flow db1 (fp_plan_id p) = Inr c' \<and> fc_status c' = Flow_KILLED \<and> (\<exists>db2. claim_action db1 cmd = Inr (None, db2))"
proof -
  note chk = check_recon_proceed [OF assms(2)] and ok = engagement_ok [OF assms(1)]
  have k: "activate_kill_switch H p c now' = Inr c'" "advance_flow db c c' = Inr (c', db1)"
    using assms(3) by (auto simp: kill_def advance_stored_def advance_flow_def result_simps split: sum.splits if_splits)
  have ctl: "flow_control H p c c'" by (rule flow_control.intros(3) [OF k(1)])
  have c: "c \<in> set (fdb_checkpoints db)" "fc_plan_id c = fp_plan_id p" using latest_flow_mem [OF chk(3)] by auto
  note eff = advanced_effect [OF ok chk(1) c(2,1) ctl k(2)]
  have "fc_status c' = Flow_KILLED"
    using k(1) by (auto simp: flow_operation_defs flow_next_Inr_iff Let_def result_simps split: if_splits)
  moreover have "fdb_actions db1 = fdb_actions db" using eff(2) by (auto simp: insert_flow_checkpoint_Inr)
  moreover have "engagement H U gs db1"
    using engagement_op [OF assms(1) flow_op.advanced [OF chk(1) c ctl k(2)]] by simp
  ultimately show ?thesis using eff(3) retry_claim_granted [of H U gs db1 r cmd] assms(4-) by auto
qed

text \<open>A reservation for another workflow can take the budget of an admitted replan: when an admission used up the last
  action of the budget, reserving one more action for another workflow still succeeds, and from then on the claim of the
  admitted action is refused.\<close>

theorem external_reservation_starves_replan:
  assumes "engagement H U gs db" and "RedTeamReplanAdmission_valid H a" and "stored_proposal db q = None"
    and "remaining_action_budget db (ad_flow_plan_id a) = Inr 1" and "admit_replan db q a = Inr (x, db1)"
    and "rid \<notin> xr_reservation_id ` set (fdb_external db)" and "cm_attempt (ad_command a) = 1"
    and "List.find (same_action (cm_action (ad_command a))) (fdb_actions db) = None"
  shows "remaining_action_budget db1 (ad_flow_plan_id a) = Inr 0 \<and>
    (\<exists>db2. reserve_external_actions db1 (ad_flow_plan_id a) (ad_source_checkpoint_id a) rid 1 = Inr db2 \<and>
       claim_action db2 (ad_command a) =
         Inl (RedTeamStoreRejected ''Red Team action budget is reserved by another workflow''))"
proof -
  let ?i = "ad_flow_plan_id a" and ?a = "cm_action (ad_command a)"
  have bind: "ra_plan_id ?a = ?i" "ra_expected_checkpoint_id ?a = ad_source_checkpoint_id a"
    using assms(2) by (auto simp: RedTeamReplanAdmission_valid_def)
  from assms(3,5) obtain c where c: "latest_flow db ?i = Inr c" "fc_checkpoint_id c = ad_source_checkpoint_id a"
      "fc_status c = Flow_RUNNING" and ins: "insert_admission db q a = Inr db1"
    by (auto simp: admit_replan_def result_simps split: if_splits)
  from assms(4) c(1) obtain p where p: "flow_plan db ?i = Inr p"
    and last: "max_actions (stop_conditions (fp_rules p)) =
      fc_actions_used c + started_actions db ?i + reserved_actions db ?i + reserved_replan_actions db ?i + 1"
    by (auto simp: remaining_action_budget_def result_simps Let_def max_def split: if_splits)
  note adm = insert_admission_effect [OF ins]
  define db2 where "db2 = db1\<lparr>fdb_external := fdb_external db @ [\<lparr>xr_reservation_id = rid, xr_plan_id = ?i,
    xr_source_checkpoint_id = ad_source_checkpoint_id a, xr_action_count = 1\<rparr>]\<rparr>"
  have same2: "latest_flow db2 = latest_flow db1" "flow_plan db2 = flow_plan db1" "started_actions db2 = started_actions db1"
      "reserved_actions db2 ?i = reserved_actions db1 ?i + 1" "reserved_replan_actions db2 = reserved_replan_actions db1"
      "fdb_actions db2 = fdb_actions db1" "admission_for db2 = admission_for db1"
    by (simp_all add: db2_def adm(5,6) latest_flow_def flow_plan_def started_actions_def reserved_actions_def
        reserved_replan_actions_def admission_for_def fun_eq_iff)
  have "List.find (\<lambda>z. xr_reservation_id z = rid) (fdb_external db) = None"
    using assms(6) by (auto simp: find_None_iff)
  moreover have "0 \<le> reserved_replan_actions db ?i" by (simp add: reserved_replan_actions_def)
  ultimately have "reserve_external_actions db1 ?i (ad_source_checkpoint_id a) rid 1 = Inr db2"
    using c p last by (simp add: reserve_external_actions_def adm integrity_def db2_def)
  moreover have "claim_action db2 (ad_command a) =
      Inl (RedTeamStoreRejected ''Red Team action budget is reserved by another workflow'')"
    using assms(7,8) c p last bind
    by (intro claim_over_budget [where i = ?i and c = c and p = p]) (simp_all add: same2 adm replan_available_def)
  moreover have "remaining_action_budget db1 ?i = Inr 0"
    using c p last by (simp add: remaining_action_budget_def adm Let_def)
  ultimately show ?thesis by blast
qed

theorem retry_granted_after_kill_witness:
  "\<exists>db2. claim_action (rt_claimed\<lparr>fdb_checkpoints := fdb_checkpoints rt_started @ [rt_killed]\<rparr>) (rt_command 2) = Inr (None, db2)"
proof -
  have "grant_row (rt_command 1) \<in> set (fdb_actions rt_claimed)" by (simp add: rt_claimed_def)
  moreover have "cm_command_id (rt_command 2) \<notin> ar_command_id ` set (fdb_actions rt_claimed)" by code_simp
  ultimately show ?thesis
    using retry_granted_after_kill [OF rt_claimed_reachable rt_retry, of "grant_row (rt_command 1)"]
    by (simp add: grant_row_def rt_command_def)
qed

theorem external_reservation_starves_replan_witness:
  "\<exists>db2. reserve_external_actions rt_admitted (pad_digest 0) (pad_digest 1) (pad_digest 7) 1 = Inr db2 \<and>
     claim_action db2 (rt_command 1) =
       Inl (RedTeamStoreRejected ''Red Team action budget is reserved by another workflow'')"
proof -
  have "fdb_external rt_started = []" "fdb_actions rt_started = []" by (simp_all add: rt_started_def empty_flows_def)
  then show ?thesis
    using external_reservation_starves_replan [OF rt_started_reachable rt_admit, of "pad_digest 7"]
    by (simp add: rt_admission_def rt_command_def)
qed

end
