(* ===== verification/Evidence_Store.thy ===== *)
theory Evidence_Store
  imports Redaction
begin

text \<open>
  The content-addressed store of redacted evidence, \<^verbatim>\<open>src/src/vulnloom/evidence/store.py\<close>. The directory \<^verbatim>\<open>objects\<close> is a map
  from file names to what a name stands for; a file written through a temporary name appears at once with its whole
  content. SHA-256 of bytes and the UTF-8 codec are fields of the environment.
\<close>

section \<open>Objects\<close>

type_synonym bytes = "8 word list"

text \<open>What an entry of the directory is; a symbolic link says whether its target exists.\<close>

datatype object_entry = Regular bytes | Symlink bool | Special

type_synonym objects = "digest \<rightharpoonup> object_entry"

record evidence_env =
  ee_encode :: "string \<Rightarrow> bytes"
  ee_decode :: "bytes \<Rightarrow> string option"
  ee_sha256 :: "bytes \<Rightarrow> digest"
  ee_redactor :: redactor
  ee_max_bytes :: int

datatype evidence_error =
    EvidenceValueError string | EvidenceDecodeError | EvidenceInvalid | EvidenceRedaction redaction_error

definition policy_name :: string where
  "policy_name = ''builtin-v3''"

text \<open>\<^verbatim>\<open>__init__\<close>\<close>

definition evidence_env_valid :: "evidence_env \<Rightarrow> bool" where
  "evidence_env_valid E \<longleftrightarrow> 0 < ee_max_bytes E"

section \<open>Reading\<close>

definition read_object :: "evidence_env \<Rightarrow> objects \<Rightarrow> digest \<Rightarrow> evidence_error + bytes" where
  "read_object E objs ref =
     (if length ref \<noteq> 64 \<or> list_ex (\<lambda>c. \<not> hex_char c) ref
      then Inl (EvidenceValueError ''invalid Evidence reference'')
      else case objs ref of
        Some (Regular data) \<Rightarrow>
          if ee_max_bytes E < int (length data)
          then Inl (EvidenceValueError ''Evidence object is unavailable or unsafe'')
          else if ee_sha256 E data \<noteq> ref then Inl (EvidenceValueError ''Evidence integrity check failed'')
          else Inr data
      | _ \<Rightarrow> Inl (EvidenceValueError ''Evidence object is unavailable or unsafe''))"

definition decode_object :: "evidence_env \<Rightarrow> bytes \<Rightarrow> evidence_error + string" where
  "decode_object E data = (case ee_decode E data of None \<Rightarrow> Inl EvidenceDecodeError | Some t \<Rightarrow> Inr t)"

definition read_text_ref :: "evidence_env \<Rightarrow> objects \<Rightarrow> digest \<Rightarrow> evidence_error + string" where
  "read_text_ref E objs ref = bind_result (read_object E objs ref) (decode_object E)"

definition read_text :: "evidence_env \<Rightarrow> objects \<Rightarrow> Evidence \<Rightarrow> evidence_error + string" where
  "read_text E objs e =
     (if ev_content_ref e \<noteq> ''objects/'' @ evidence_id e
      then Inl (EvidenceValueError ''Evidence content_ref does not match its object identity'')
      else read_text_ref E objs (evidence_id e))"

definition contains :: "evidence_env \<Rightarrow> objects \<Rightarrow> digest \<Rightarrow> bool" where
  "contains E objs ref \<longleftrightarrow> is_ok (read_object E objs ref)"

section \<open>Capturing\<close>

definition object_exists :: "objects \<Rightarrow> digest \<Rightarrow> bool" where
  "object_exists objs ref = (case objs ref of None \<Rightarrow> False | Some (Symlink target) \<Rightarrow> target | Some _ \<Rightarrow> True)"

record capture_values =
  cv_kind :: EvidenceKind
  cv_source_ref :: string
  cv_producer :: string
  cv_target_version :: string
  cv_summary :: string

definition capture_text ::
  "evidence_env \<Rightarrow> objects \<Rightarrow> instant \<Rightarrow> string \<Rightarrow> capture_values \<Rightarrow> (evidence_error + Evidence) \<times> objects" where
  "capture_text E objs now content v =
     (if ee_max_bytes E < int (length (ee_encode E content))
      then (Inl (EvidenceValueError ''raw Evidence exceeds the configured size limit''), objs)
      else
        let encoded = ee_encode E (redact_text (ee_redactor E) content)
        in if ee_max_bytes E < int (length encoded)
           then (Inl (EvidenceValueError ''redacted Evidence exceeds the configured size limit''), objs)
           else
             let i = ee_sha256 E encoded;
                 objs' = (if object_exists objs i then objs else objs(i \<mapsto> Regular encoded));
                 e = \<lparr>evidence_id = i, ev_kind = cv_kind v, ev_source_ref = cv_source_ref v, ev_captured_at = now,
                      ev_producer = cv_producer v, ev_target_version = cv_target_version v,
                      ev_redaction_policy = policy_name, ev_content_ref = ''objects/'' @ i,
                      ev_summary = redact_text (ee_redactor E) (cv_summary v)\<rparr>
             in (bind_result (read_object E objs' i) (\<lambda>data.
                   if data \<noteq> encoded then Inl (EvidenceValueError ''Evidence object content collision'')
                   else if Evidence_valid e then Inr e else Inl EvidenceInvalid), objs'))"

definition evidence_codec :: "evidence_env \<Rightarrow> codec" where
  "evidence_codec E = \<lparr>co_decode = ee_decode E, co_size = (\<lambda>s. int (length (ee_encode E s)))\<rparr>"

definition capture_chunks ::
  "evidence_env \<Rightarrow> objects \<Rightarrow> instant \<Rightarrow> bytes option list \<Rightarrow> capture_values
   \<Rightarrow> (evidence_error + Evidence) \<times> objects" where
  "capture_chunks E objs now chunks v =
     (case new_buffer (ee_max_bytes E) (Some (ee_max_bytes E)) of
        Inl e \<Rightarrow> (Inl (EvidenceRedaction e), objs)
      | Inr b \<Rightarrow>
          (case feed b chunks of
             (b', Inl e) \<Rightarrow> (Inl (EvidenceRedaction e), objs)
           | (b', Inr _) \<Rightarrow>
               (case snd (finalize (evidence_codec E) (ee_redactor E) b') of
                  Inl e \<Rightarrow> (Inl (EvidenceRedaction e), objs)
                | Inr content \<Rightarrow> capture_text E objs now content v)))"

section \<open>Objects stay readable\<close>

text \<open>One further capture by anyone, successful or not.\<close>

inductive captured :: "evidence_env \<Rightarrow> objects \<Rightarrow> objects \<Rightarrow> bool" for E where
  by_text: "captured E objs (snd (capture_text E objs now content v))"
| by_chunks: "captured E objs (snd (capture_chunks E objs now chunks v))"

lemma capture_text_objects:
  "snd (capture_text E objs now content v) = objs \<or>
   (\<exists>i d. \<not> object_exists objs i \<and> snd (capture_text E objs now content v) = objs(i \<mapsto> Regular d))"
  unfolding capture_text_def Let_def by (auto simp del: not_less)

lemma capture_chunks_objects:
  "snd (capture_chunks E objs now chunks v) = objs \<or>
   (\<exists>content. snd (capture_chunks E objs now chunks v) = snd (capture_text E objs now content v))"
  by (auto simp: capture_chunks_def split: sum.splits prod.splits)

lemma read_object_Inr:
  "read_object E objs ref = Inr d \<longleftrightarrow>
     is_digest ref \<and> objs ref = Some (Regular d) \<and> int (length d) \<le> ee_max_bytes E \<and> ee_sha256 E d = ref"
  by (auto simp: read_object_def is_digest_def list_ex_iff list_all_iff split: option.splits object_entry.splits if_splits)

lemma captured_keeps:
  assumes "captured E objs objs'" and "read_object E objs ref = Inr d"
  shows "read_object E objs' ref = Inr d"
proof -
  from assms(1) have "objs' = objs \<or> (\<exists>i d. \<not> object_exists objs i \<and> objs' = objs(i \<mapsto> Regular d))"
    using capture_text_objects capture_chunks_objects by (cases rule: captured.cases) metis+
  with assms(2) show ?thesis by (auto simp: read_object_Inr object_exists_def)
qed

lemma steps_keep_objects:
  assumes "steps (captured E) objs n objs'" and "read_object E objs ref = Inr d"
  shows "read_object E objs' ref = Inr d"
  using assms by (induction rule: steps.induct) (auto dest: captured_keeps)

lemma capture_text_Inr:
  assumes "capture_text E objs now content v = (Inr e, objs')"
  shows "read_object E objs' (evidence_id e) = Inr (ee_encode E (redact_text (ee_redactor E) content))"
    "ev_content_ref e = ''objects/'' @ evidence_id e"
  using assms by (auto simp: capture_text_def Let_def result_simps split: if_splits)

end
