(* ===== verification/Critic.thy ===== *)
theory Critic
  imports Candidate_Lifecycle Evidence_Store
begin

text \<open>
  The deterministic Critic: the contracts of \<^verbatim>\<open>src/src/vulnloom/critic/models.py\<close>, the checkpoints of
  \<^verbatim>\<open>src/src/vulnloom/critic/store.py\<close> and the review of \<^verbatim>\<open>src/src/vulnloom/critic/service.py\<close>. \<open>H\<close> is the canonical digest,
  \<open>N\<close> is \<^verbatim>\<open>uuid5\<close> in the URL namespace. The evidence files are read twice in one review, before and after
  the plan is claimed, so a review takes the objects as they are at either time.
\<close>

section \<open>Contracts\<close>

datatype CounterevidenceAngle = SECURITY_CONTROL | REACHABILITY | ENVIRONMENT_PARITY | VERSION_BINDING
datatype CounterevidenceDisposition = RULED_OUT | CONFIRMED | DISP_INCONCLUSIVE

fun angle_value :: "CounterevidenceAngle \<Rightarrow> string" where
  "angle_value SECURITY_CONTROL = ''security_control''"
| "angle_value REACHABILITY = ''reachability''"
| "angle_value ENVIRONMENT_PARITY = ''environment_parity''"
| "angle_value VERSION_BINDING = ''version_binding''"

fun disposition_value :: "CounterevidenceDisposition \<Rightarrow> string" where
  "disposition_value RULED_OUT = ''ruled_out''"
| "disposition_value CONFIRMED = ''confirmed''"
| "disposition_value DISP_INCONCLUSIVE = ''inconclusive''"

definition REQUIRED_ANGLES :: "CounterevidenceAngle list" where
  "REQUIRED_ANGLES = [SECURITY_CONTROL, REACHABILITY, ENVIRONMENT_PARITY, VERSION_BINDING]"

record CounterevidenceAssessment =
  as_angle :: CounterevidenceAngle
  as_disposition :: CounterevidenceDisposition
  as_refs :: "digest list"
  as_rationale_code :: string

definition CounterevidenceAssessment_valid :: "CounterevidenceAssessment \<Rightarrow> bool" where
  "CounterevidenceAssessment_valid a \<longleftrightarrow>
     list_all is_digest (as_refs a) \<and> is_reason_code (as_rationale_code a) \<and>
     \<not> (as_disposition a \<noteq> DISP_INCONCLUSIVE \<and> as_refs a = [])"

definition CounterevidenceAssessment_dump :: "CounterevidenceAssessment \<Rightarrow> pyval" where
  "CounterevidenceAssessment_dump a = PDict
     [(''angle'', PEnum (angle_value (as_angle a))), (''disposition'', PEnum (disposition_value (as_disposition a))),
      (''evidence_refs'', p_strs (as_refs a)), (''rationale_code'', PStr (as_rationale_code a))]"

record CriticPlan =
  cp_plan_id :: digest
  cp_candidate_id :: uuid
  cp_candidate_digest :: digest
  cp_validation_run_id :: uuid
  cp_validation_run_digest :: digest
  cp_evidence_bundle_id :: uuid
  cp_evidence_bundle_digest :: digest
  cp_scope_id :: uuid
  cp_scope_version :: int
  cp_validation_context_id :: digest
  cp_review_context_id :: digest
  cp_validation_producer :: string
  cp_review_producer :: string
  cp_assessments :: "CounterevidenceAssessment list"
  cp_ruleset_digest :: digest
  cp_created_at :: instant
  cp_deadline :: instant
  cp_idempotency_key :: string

definition CriticPlan_content :: "CriticPlan \<Rightarrow> pyval" where
  "CriticPlan_content p = PDict
     [(''candidate_id'', PUuid (cp_candidate_id p)), (''candidate_digest'', PStr (cp_candidate_digest p)),
      (''validation_run_id'', PUuid (cp_validation_run_id p)),
      (''validation_run_digest'', PStr (cp_validation_run_digest p)),
      (''evidence_bundle_id'', PUuid (cp_evidence_bundle_id p)),
      (''evidence_bundle_digest'', PStr (cp_evidence_bundle_digest p)),
      (''scope_id'', PUuid (cp_scope_id p)), (''scope_version'', PInt (cp_scope_version p)),
      (''validation_context_id'', PStr (cp_validation_context_id p)),
      (''review_context_id'', PStr (cp_review_context_id p)),
      (''validation_producer'', PStr (cp_validation_producer p)), (''review_producer'', PStr (cp_review_producer p)),
      (''assessments'', PList (map CounterevidenceAssessment_dump (cp_assessments p))),
      (''ruleset_digest'', PStr (cp_ruleset_digest p)), (''created_at'', PTime (cp_created_at p)),
      (''deadline'', PTime (cp_deadline p)), (''idempotency_key'', PStr (cp_idempotency_key p))]"

definition CriticPlan_valid :: "(pyval \<Rightarrow> digest) \<Rightarrow> CriticPlan \<Rightarrow> bool" where
  "CriticPlan_valid H p \<longleftrightarrow>
     list_all is_digest [cp_plan_id p, cp_candidate_digest p, cp_validation_run_digest p, cp_evidence_bundle_digest p,
       cp_validation_context_id p, cp_review_context_id p, cp_ruleset_digest p] \<and>
     1 \<le> cp_scope_version p \<and>
     1 \<le> length (cp_validation_producer p) \<and> length (cp_validation_producer p) \<le> 256 \<and>
     1 \<le> length (cp_review_producer p) \<and> length (cp_review_producer p) \<le> 256 \<and>
     list_all CounterevidenceAssessment_valid (cp_assessments p) \<and>
     1 \<le> length (cp_idempotency_key p) \<and> length (cp_idempotency_key p) \<le> 256 \<and>
     sealed_by H CriticPlan_content cp_plan_id p \<and>
     cp_ruleset_digest p = DETERMINISTIC_CRITIC_RULESET_DIGEST \<and>
     cp_validation_context_id p \<noteq> cp_review_context_id p \<and> cp_validation_producer p \<noteq> cp_review_producer p \<and>
     cp_created_at p < cp_deadline p \<and>
     \<not> (length (cp_assessments p) \<noteq> length REQUIRED_ANGLES \<or>
        set (map as_angle (cp_assessments p)) \<noteq> set REQUIRED_ANGLES)"

definition CriticPlan_create :: "(pyval \<Rightarrow> digest) \<Rightarrow> CriticPlan \<Rightarrow> CriticPlan option" where
  "CriticPlan_create H v =
     (let w = v\<lparr>cp_ruleset_digest := DETERMINISTIC_CRITIC_RULESET_DIGEST\<rparr>;
          p = w\<lparr>cp_plan_id := H (CriticPlan_content w)\<rparr>
      in if CriticPlan_valid H p then Some p else None)"

record CriticOutcome =
  co_plan_id :: digest
  co_candidate :: Candidate
  co_review :: CriticReview
  co_completed_at :: instant

section \<open>Checkpoints\<close>

text \<open>A row of \<^verbatim>\<open>critic_executions\<close>; it is in state \<^verbatim>\<open>completed\<close> when it has an outcome.\<close>

record critic_row =
  cx_plan :: CriticPlan
  cx_started_at :: instant
  cx_completed :: "(instant \<times> CriticOutcome) option"

type_synonym critic_db = "critic_row list"

datatype critic_error =
    CriticRejected string | CriticIdempotencyConflict string | CriticRecoveryRequired string | CriticValueError string
  | CriticEvidence evidence_error | CriticTransition lifecycle_error

definition has_checkpoint :: "critic_db \<Rightarrow> digest \<Rightarrow> bool" where
  "has_checkpoint db i \<longleftrightarrow> list_ex (\<lambda>r. cp_plan_id (cx_plan r) = i) db"

definition same_plan_or_key :: "CriticPlan \<Rightarrow> critic_row \<Rightarrow> bool" where
  "same_plan_or_key p r \<longleftrightarrow>
     cp_plan_id (cx_plan r) = cp_plan_id p \<or> cp_idempotency_key (cx_plan r) = cp_idempotency_key p"

text \<open>\<^verbatim>\<open>claim\<close>: \<open>None\<close> is a created claim, \<open>Some\<close> the stored outcome.\<close>

definition claim_review ::
  "critic_db \<Rightarrow> CriticPlan \<Rightarrow> instant \<Rightarrow> critic_error + (CriticOutcome option \<times> critic_db)" where
  "claim_review db p now =
     (case List.find (same_plan_or_key p) db of
        None \<Rightarrow> Inr (None, db @ [\<lparr>cx_plan = p, cx_started_at = now, cx_completed = None\<rparr>])
      | Some r \<Rightarrow>
          if cp_plan_id (cx_plan r) \<noteq> cp_plan_id p \<or> cx_plan r \<noteq> p
          then Inl (CriticIdempotencyConflict ''Critic idempotency key or plan id was reused for different content'')
          else case cx_completed r of
            None \<Rightarrow> Inl (CriticRecoveryRequired
                     ''Critic has an unfinished STARTED checkpoint; automatic replay is refused'')
          | Some (t, out) \<Rightarrow> Inr (Some out, db))"

definition started_row :: "digest \<Rightarrow> critic_row \<Rightarrow> bool" where
  "started_row i r \<longleftrightarrow> cp_plan_id (cx_plan r) = i \<and> cx_completed r = None"

definition complete_review :: "critic_db \<Rightarrow> CriticOutcome \<Rightarrow> (critic_error + unit) \<times> critic_db" where
  "complete_review db out =
     (let db' = map (\<lambda>r. if started_row (co_plan_id out) r
                         then r\<lparr>cx_completed := Some (co_completed_at out, out)\<rparr> else r) db
      in (if length (filter (started_row (co_plan_id out)) db) \<noteq> 1
          then Inl (CriticRecoveryRequired ''Critic STARTED checkpoint is unavailable'') else Inr (), db'))"

definition load_completed :: "critic_db \<Rightarrow> digest \<Rightarrow> critic_error + (CriticPlan \<times> CriticOutcome)" where
  "load_completed db i =
     (case List.find (\<lambda>r. cp_plan_id (cx_plan r) = i) db of
        None \<Rightarrow> Inl (CriticValueError ''Critic execution is unavailable'')
      | Some r \<Rightarrow>
          (case cx_completed r of
             None \<Rightarrow> Inl (CriticRecoveryRequired ''Critic has an unfinished STARTED checkpoint'')
           | Some (t, out) \<Rightarrow>
               if cp_plan_id (cx_plan r) \<noteq> i \<or> co_plan_id out \<noteq> i \<or> co_completed_at out \<noteq> t
               then Inl (CriticRecoveryRequired ''Critic completed checkpoint drifted'')
               else Inr (cx_plan r, out)))"

section \<open>The review\<close>

definition assessment_refs :: "CriticPlan \<Rightarrow> digest list" where
  "assessment_refs p = concat (map as_refs (cp_assessments p))"

text \<open>The last loop of \<^verbatim>\<open>_preflight\<close>. The set of references has no specified order; the model reads them in the order of
  their first occurrence, which only decides which of two failures is reported.\<close>

definition check_evidence ::
  "evidence_env \<Rightarrow> objects \<Rightarrow> Candidate \<Rightarrow> (digest \<rightharpoonup> Evidence) \<Rightarrow> digest \<Rightarrow> critic_error + unit" where
  "check_evidence E objs c catalog ref =
     (case catalog ref of
        None \<Rightarrow> Inl (CriticRejected ''Critic referenced Evidence missing from the supplied catalog'')
      | Some item \<Rightarrow>
          if ev_target_version item \<noteq> cand_target_version c
          then Inl (CriticRejected ''Critic Evidence is bound to another Target version'')
          else if \<not> is_ok (read_text E objs item)
          then Inl (CriticRejected ''Critic Evidence is unavailable or corrupt'') else Inr ())"

definition critic_preflight ::
  "(pyval \<Rightarrow> digest) \<Rightarrow> evidence_env \<Rightarrow> objects \<Rightarrow> Scope \<Rightarrow> Candidate \<Rightarrow> ValidationRun \<Rightarrow> EvidenceBundle \<Rightarrow> Evidence list
   \<Rightarrow> CriticPlan \<Rightarrow> instant \<Rightarrow> critic_error + (digest \<rightharpoonup> Evidence)" where
  "critic_preflight H E objs s c run b evidence p now =
     (if \<not> CriticPlan_valid H p then Inl (CriticValueError ''CriticPlan'')
      else if cand_state c \<noteq> Cand_VALIDATED
      then Inl (CriticRejected ''Critic requires a deterministically validated Candidate'')
      else if sc_state s \<noteq> Scope_APPROVED then Inl (CriticRejected ''Critic requires an approved Scope'')
      else if \<not> in_validity_window s now then Inl (CriticRejected ''Critic is outside the Scope validity window'')
      else if now < cp_created_at p \<or> cp_deadline p \<le> now then Inl (CriticRejected ''CriticPlan is not currently valid'')
      else if cand_scope_id c \<noteq> scope_id s \<or> cand_scope_version c \<noteq> sc_version s \<or> cp_scope_id p \<noteq> scope_id s \<or>
              cp_scope_version p \<noteq> sc_version s
      then Inl (CriticRejected ''Critic inputs are bound to another Scope version'')
      else if cp_candidate_id p \<noteq> candidate_id c \<or> cp_candidate_digest p \<noteq> H (Candidate_dump c) \<or>
              cp_validation_run_id p \<noteq> run_id run \<or> cp_validation_run_digest p \<noteq> H (ValidationRun_dump run) \<or>
              cp_evidence_bundle_id p \<noteq> bundle_id b \<or> cp_evidence_bundle_digest p \<noteq> H (EvidenceBundle_dump b)
      then Inl (CriticRejected ''CriticPlan provenance does not match its sealed inputs'')
      else if run_candidate_id run \<noteq> candidate_id c \<or> run_target_version run \<noteq> cand_target_version c \<or>
              run_scope_version run \<noteq> cand_scope_version c \<or> run_result run \<noteq> VR_REPRODUCED \<or> run_evidence_refs run = []
      then Inl (CriticRejected ''Critic requires a matching reproduced ValidationRun'')
      else if eb_candidate_id b \<noteq> candidate_id c \<or> eb_evidence_refs b = [] \<or>
              \<not> set (run_evidence_refs run) \<subseteq> set (eb_evidence_refs b)
      then Inl (CriticRejected ''Critic EvidenceBundle does not cover Validation Evidence'')
      else if \<not> distinct (map evidence_id evidence)
      then Inl (CriticRejected ''Critic Evidence catalog contains duplicate identities'')
      else
        let catalog = dict_by evidence_id evidence;
            required = fromkeys (eb_evidence_refs b @ assessment_refs p)
        in if list_ex (\<lambda>ref. catalog ref = None) required
           then Inl (CriticRejected ''Critic referenced Evidence missing from the supplied catalog'')
           else bind_result (all_ok (check_evidence E objs c catalog) required) (\<lambda>_. Inr catalog))"

definition confirmed_refs :: "CriticPlan \<Rightarrow> digest list" where
  "confirmed_refs p = fromkeys (concat (map as_refs (filter (\<lambda>a. as_disposition a = CONFIRMED) (cp_assessments p))))"

definition review_verdict :: "CriticPlan \<Rightarrow> CriticVerdict \<times> string" where
  "review_verdict p =
     (if confirmed_refs p \<noteq> [] then (CV_REJECTED, ''counterevidence_confirmed'')
      else if list_ex (\<lambda>a. as_disposition a = DISP_INCONCLUSIVE) (cp_assessments p)
      then (CV_INCONCLUSIVE, ''counterevidence_review_inconclusive'')
      else (CV_ACCEPTED, ''all_counterevidence_angles_ruled_out''))"

definition reviewed_candidate :: "Candidate \<Rightarrow> CriticVerdict \<Rightarrow> critic_error + Candidate" where
  "reviewed_candidate c verdict =
     (if verdict = CV_INCONCLUSIVE then Inr c
      else case bind_result (transition_candidate c Cand_CRITIC_REVIEWED) (\<lambda>c'.
             if verdict = CV_REJECTED then transition_candidate c' Cand_REJECTED else Inr c') of
        Inl e \<Rightarrow> Inl (CriticTransition e) | Inr c' \<Rightarrow> Inr c')"

text \<open>What is decided for a claimed plan.\<close>

definition critic_outcome ::
  "(string \<Rightarrow> uuid) \<Rightarrow> evidence_env \<Rightarrow> objects \<Rightarrow> Candidate \<Rightarrow> ValidationRun \<Rightarrow> EvidenceBundle \<Rightarrow> CriticPlan
   \<Rightarrow> (digest \<rightharpoonup> Evidence) \<Rightarrow> instant \<Rightarrow> critic_error + CriticOutcome" where
  "critic_outcome N E objs c run b p catalog now =
     (let (verdict, rationale) = review_verdict p
      in bind_result (all_ok (\<lambda>ref. case read_text E objs (the (catalog ref)) of
             Inl e \<Rightarrow> Inl (CriticEvidence e) | Inr _ \<Rightarrow> Inr ()) (fromkeys (assessment_refs p))) (\<lambda>_.
         let review = \<lparr>review_id = N (''vulnloom:critic-review:'' @ cp_plan_id p), rev_plan_id = cp_plan_id p,
               rev_candidate_id = candidate_id c, rev_validation_run_id = run_id run, rev_evidence_bundle_id = bundle_id b,
               rev_validation_context_id = cp_validation_context_id p, rev_review_context_id = cp_review_context_id p,
               rev_ruleset_digest = DETERMINISTIC_CRITIC_RULESET_DIGEST, rev_verdict = verdict,
               counterevidence_refs = confirmed_refs p, rev_rationale_code = rationale, reviewed_at = now\<rparr>
         in if \<not> CriticReview_valid N review then Inl (CriticValueError ''CriticReview'')
            else bind_result (reviewed_candidate c verdict) (\<lambda>c'.
                 Inr \<lparr>co_plan_id = cp_plan_id p, co_candidate = c', co_review = review, co_completed_at = now\<rparr>)))"

definition review ::
  "(pyval \<Rightarrow> digest) \<Rightarrow> (string \<Rightarrow> uuid) \<Rightarrow> evidence_env \<Rightarrow> Scope \<Rightarrow> critic_db \<Rightarrow> objects \<Rightarrow> objects \<Rightarrow> Candidate
   \<Rightarrow> ValidationRun \<Rightarrow> EvidenceBundle \<Rightarrow> Evidence list \<Rightarrow> CriticPlan \<Rightarrow> instant \<Rightarrow> (critic_error + CriticOutcome) \<times> critic_db" where
  "review H N E s db objs objs' c run b evidence p now =
     (case critic_preflight H E objs s c run b evidence p now of
        Inl e \<Rightarrow> (Inl e, db)
      | Inr catalog \<Rightarrow>
          (case claim_review db p now of
             Inl e \<Rightarrow> (Inl e, db)
           | Inr (Some out, db') \<Rightarrow> (Inr out, db')
           | Inr (None, db') \<Rightarrow>
               (case critic_outcome N E objs' c run b p catalog now of
                  Inl e \<Rightarrow> (Inl e, db')
                | Inr out \<Rightarrow>
                    (case complete_review db' out of (Inl e, db'') \<Rightarrow> (Inl e, db'') | (Inr _, db'') \<Rightarrow> (Inr out, db'')))))"

end
