(* ===== verification/Critic_Properties.thy ===== *)
theory Critic_Properties
  imports Critic Core_Properties
begin

text \<open>
  The properties of evidence and of its independent review: captured evidence reads back redacted, and the Critic's outcome
  decides promotion.
\<close>

section \<open>Concrete values\<close>

definition plain_encode :: "string \<Rightarrow> bytes" where
  "plain_encode s = map (\<lambda>c. of_nat (of_char c)) s"

definition plain_decode :: "bytes \<Rightarrow> string option" where
  "plain_decode bs = Some (map (\<lambda>w. char_of (unat w)) bs)"

definition plain_evidence :: evidence_env where
  "plain_evidence = \<lparr>ee_encode = plain_encode, ee_decode = plain_decode, ee_sha256 = (\<lambda>_. pad_digest 5),
     ee_redactor = demo_redactor, ee_max_bytes = 64\<rparr>"

definition plain_values :: capture_values where
  "plain_values = \<lparr>cv_kind = Ev_HTTP, cv_source_ref = ''run'', cv_producer = ''validator'', cv_target_version = ''v1'',
     cv_summary = ''login''\<rparr>"

definition plain_item :: Evidence where
  "plain_item = \<lparr>evidence_id = pad_digest 5, ev_kind = Ev_HTTP, ev_source_ref = ''run'', ev_captured_at = 250,
     ev_producer = ''validator'', ev_target_version = ''v1'', ev_redaction_policy = ''builtin-v3'',
     ev_content_ref = ''objects/'' @ pad_digest 5, ev_summary = ''login''\<rparr>"

definition plain_objects :: objects where
  "plain_objects = [pad_digest 5 \<mapsto> Regular (plain_encode ''pw=[REDACTED]'')]"

definition plain_candidate :: Candidate where
  "plain_candidate = demo_candidate Cand_VALIDATED"

definition plain_run :: ValidationRun where
  "plain_run = demo_run\<lparr>run_evidence_refs := [pad_digest 5]\<rparr>"

definition plain_bundle :: EvidenceBundle where
  "plain_bundle = demo_bundle\<lparr>eb_evidence_refs := [pad_digest 5]\<rparr>"

definition plain_plan :: CriticPlan where
  "plain_plan = \<lparr>cp_plan_id = pad_digest 0, cp_candidate_id = 21, cp_candidate_digest = pad_digest 0,
     cp_validation_run_id = 31, cp_validation_run_digest = pad_digest 0, cp_evidence_bundle_id = 41,
     cp_evidence_bundle_digest = pad_digest 0, cp_scope_id = 8, cp_scope_version = 1,
     cp_validation_context_id = pad_digest 1, cp_review_context_id = pad_digest 2, cp_validation_producer = ''validator'',
     cp_review_producer = ''critic'',
     cp_assessments = map (\<lambda>a. \<lparr>as_angle = a, as_disposition = RULED_OUT, as_refs = [pad_digest 5],
       as_rationale_code = ''checked''\<rparr>) REQUIRED_ANGLES,
     cp_ruleset_digest = DETERMINISTIC_CRITIC_RULESET_DIGEST, cp_created_at = 350, cp_deadline = 900,
     cp_idempotency_key = ''k''\<rparr>"

lemma plain_codec: "ee_decode plain_evidence (ee_encode plain_evidence t) = Some t"
  by (simp add: plain_evidence_def plain_decode_def plain_encode_def unat_of_nat o_def of_char_mod_256)

lemma plain_capture:
  "capture_text plain_evidence Map.empty 250 ''pw=hunter2!'' plain_values = (Inr plain_item, plain_objects)"
proof (rule prod_eqI)
  show "fst (capture_text plain_evidence Map.empty 250 ''pw=hunter2!'' plain_values) = fst (Inr plain_item, plain_objects)"
    by code_simp
  have "redact_text demo_redactor ''pw=hunter2!'' = ''pw=[REDACTED]''" by code_simp
  then show "snd (capture_text plain_evidence Map.empty 250 ''pw=hunter2!'' plain_values) = snd (Inr plain_item, plain_objects)"
    by (simp add: capture_text_def plain_evidence_def plain_encode_def plain_objects_def Let_def object_exists_def)
qed

lemma plain_review:
  obtains out db' where "review (\<lambda>_. pad_digest 0) (\<lambda>_. 51) plain_evidence demo_scope [] plain_objects plain_objects
     plain_candidate plain_run plain_bundle [plain_item] plain_plan 400 = (Inr out, db')"
proof -
  have "is_ok (fst (review (\<lambda>_. pad_digest 0) (\<lambda>_. 51) plain_evidence demo_scope [] plain_objects plain_objects
     plain_candidate plain_run plain_bundle [plain_item] plain_plan 400))" by code_simp
  then show thesis using that by (auto simp: result_simps) (metis prod.collapse)
qed

section \<open>Evidence\<close>

text \<open>C22. What was captured reads back: after any further captures the evidence of a successful capture still reads as the redacted
  text, whatever digests the captures have.\<close>

theorem captured_evidence_reads_back:
  assumes "\<And>t. ee_decode E (ee_encode E t) = Some t" and "capture_text E objs now content v = (Inr e, objs1)"
    and "steps (captured E) objs1 n objs2"
  shows "read_text E objs2 e = Inr (redact_text (ee_redactor E) content) \<and> contains E objs2 (evidence_id e)"
  using steps_keep_objects [OF assms(3) capture_text_Inr(1) [OF assms(2)]] capture_text_Inr(2) [OF assms(2)] assms(1)
  by (simp add: read_text_def read_text_ref_def decode_object_def contains_def)

theorem captured_evidence_reads_back_witness:
  "read_text plain_evidence plain_objects plain_item = Inr (redact_text demo_redactor ''pw=hunter2!'')"
  using captured_evidence_reads_back [OF plain_codec plain_capture steps_refl] by (simp add: plain_evidence_def)

section \<open>The review\<close>

lemma critic_preflight_Inr:
  assumes "critic_preflight H E objs s c run b evidence p now = Inr catalog"
  shows "CriticPlan_valid H p" "cand_state c = Cand_VALIDATED" "sc_state s = Scope_APPROVED" "in_validity_window s now"
    "cand_scope_id c = scope_id s" "cand_scope_version c = sc_version s"
    "reproduced_runs c [run] = [run]" "eb_candidate_id b = candidate_id c" "eb_evidence_refs b \<noteq> []"
    "set (run_evidence_refs run) \<subseteq> set (eb_evidence_refs b)"
  using assms by (auto simp: critic_preflight_def reproduced_runs_def split: if_splits)

lemma verdict_cases:
  assumes "CriticPlan_valid H p"
  obtains (accepted) "list_all (\<lambda>a. as_disposition a = RULED_OUT) (cp_assessments p)" "fst (review_verdict p) = CV_ACCEPTED"
  | (rejected) "list_ex (\<lambda>a. as_disposition a = CONFIRMED) (cp_assessments p)" "fst (review_verdict p) = CV_REJECTED"
  | (undecided) "\<not> list_ex (\<lambda>a. as_disposition a = CONFIRMED) (cp_assessments p)"
      "list_ex (\<lambda>a. as_disposition a = DISP_INCONCLUSIVE) (cp_assessments p)" "fst (review_verdict p) = CV_INCONCLUSIVE"
proof -
  have refs: "as_refs a \<noteq> []" if "a \<in> set (cp_assessments p)" "as_disposition a = CONFIRMED" for a
    using assms that by (auto simp: CriticPlan_valid_def CounterevidenceAssessment_valid_def list_all_iff)
  then have "confirmed_refs p \<noteq> [] \<longleftrightarrow> list_ex (\<lambda>a. as_disposition a = CONFIRMED) (cp_assessments p)"
    by (auto simp: confirmed_refs_def list_ex_iff)
  moreover have "list_all (\<lambda>a. as_disposition a = RULED_OUT) (cp_assessments p)"
    if "\<not> list_ex (\<lambda>a. as_disposition a = CONFIRMED) (cp_assessments p)"
      "\<not> list_ex (\<lambda>a. as_disposition a = DISP_INCONCLUSIVE) (cp_assessments p)"
    using that by (auto simp: list_all_iff list_ex_iff) (metis CounterevidenceDisposition.exhaust)
  ultimately show thesis
    using that by (cases "list_ex (\<lambda>a. as_disposition a = CONFIRMED) (cp_assessments p)";
      cases "list_ex (\<lambda>a. as_disposition a = DISP_INCONCLUSIVE) (cp_assessments p)") (auto simp: review_verdict_def)
qed

lemma fresh_review_Inr:
  assumes "review H N E s db objs objs' c run b evidence p now = (Inr out, db')"
    and "List.find (same_plan_or_key p) db = None"
  obtains catalog where "critic_preflight H E objs s c run b evidence p now = Inr catalog"
    "critic_outcome N E objs' c run b p catalog now = Inr out"
  using assms by (auto simp: review_def claim_review_def split: sum.splits prod.splits)

lemma critic_outcome_Inr:
  assumes "critic_outcome N E objs c run b p catalog now = Inr out"
  shows "rev_candidate_id (co_review out) = candidate_id c" "rev_validation_run_id (co_review out) = run_id run"
    "rev_evidence_bundle_id (co_review out) = bundle_id b" "reviewed_at (co_review out) = now"
    "rev_verdict (co_review out) = fst (review_verdict p)"
    "reviewed_candidate c (fst (review_verdict p)) = Inr (co_candidate out)"
  using assms by (auto simp: critic_outcome_def Let_def result_simps split: prod.splits if_splits)

text \<open>C19. The review decides promotion: after a first review, the Candidate it returns can be promoted on the reviewed run and
  bundle, as long as the Scope stays valid, exactly when every one of the four counterevidence angles was ruled out; it ends
  rejected exactly when some angle was confirmed.\<close>

theorem review_decides_promotion:
  assumes "review H N E s db objs objs' c run b evidence p now = (Inr out, db')"
    and "List.find (same_plan_or_key p) db = None" and "now \<le> later" "later < valid_until s"
    and "fv_root_cause fv \<noteq> []" "fv_impact fv \<noteq> []"
  shows "((\<exists>c' f. promote_candidate (co_candidate out) s later fv [run] b (co_review out) True = Inr (c', f)) \<longleftrightarrow>
      list_all (\<lambda>a. as_disposition a = RULED_OUT) (cp_assessments p)) \<and>
    (cand_state (co_candidate out) = Cand_REJECTED \<longleftrightarrow> list_ex (\<lambda>a. as_disposition a = CONFIRMED) (cp_assessments p)) \<and>
    set (map as_angle (cp_assessments p)) = {SECURITY_CONTROL, REACHABILITY, ENVIRONMENT_PARITY, VERSION_BINDING}"
proof -
  obtain catalog where pre: "critic_preflight H E objs s c run b evidence p now = Inr catalog"
    and out: "critic_outcome N E objs' c run b p catalog now = Inr out"
    using fresh_review_Inr [OF assms(1,2)] .
  note pre' = critic_preflight_Inr [OF pre] and out' = critic_outcome_Inr [OF out]
  have angles: "set (map as_angle (cp_assessments p)) = {SECURITY_CONTROL, REACHABILITY, ENVIRONMENT_PARITY, VERSION_BINDING}"
    using pre'(1) by (simp add: CriticPlan_valid_def REQUIRED_ANGLES_def)
  then have some: "cp_assessments p \<noteq> []" by auto
  have runs: "reproduced_runs (c\<lparr>cand_state := st\<rparr>) [run] = [run]" for st using pre'(7) by (simp add: reproduced_runs_def)
  have window: "in_validity_window s later" using pre'(4) assms(3,4) by (simp add: in_validity_window_def)
  from pre'(1) show ?thesis
  proof (cases rule: verdict_cases)
    case accepted
    then have "co_candidate out = c\<lparr>cand_state := Cand_CRITIC_REVIEWED\<rparr>"
      using out'(6) pre'(2) by (auto simp: reviewed_candidate_def result_simps split: sum.splits)
    then show ?thesis
      using accepted angles out' pre' assms(3,5,6) window runs
      by (auto simp: promote_candidate_Inr_iff accepted_def list_all_iff list_ex_iff)
  next
    case rejected
    then have "co_candidate out = c\<lparr>cand_state := Cand_REJECTED\<rparr>"
      using out'(6) pre'(2) by (auto simp: reviewed_candidate_def result_simps split: sum.splits)
    then show ?thesis
      using rejected angles by (force simp: promote_candidate_Inr_iff list_all_iff list_ex_iff)
  next
    case undecided
    then have "co_candidate out = c" using out'(6) by (simp add: reviewed_candidate_def)
    then show ?thesis
      using undecided angles pre'(2) by (force simp: promote_candidate_Inr_iff list_all_iff list_ex_iff)
  qed
qed

theorem review_decides_promotion_witness:
  "\<exists>(out :: CriticOutcome) c' f. promote_candidate (co_candidate out) demo_scope 500 demo_values [plain_run] plain_bundle (co_review out) True = Inr (c', f)"
proof -
  obtain out db' where r: "review (\<lambda>_. pad_digest 0) (\<lambda>_. 51) plain_evidence demo_scope [] plain_objects plain_objects
     plain_candidate plain_run plain_bundle [plain_item] plain_plan 400 = (Inr out, db')"
    by (rule plain_review)
  have ruled_out: "list_all (\<lambda>a. as_disposition a = RULED_OUT) (cp_assessments plain_plan)" by code_simp
  have hyps: "List.find (same_plan_or_key plain_plan) [] = None" "(400 :: int) \<le> 500" "500 < valid_until demo_scope"
      "fv_root_cause demo_values \<noteq> []" "fv_impact demo_values \<noteq> []"
    by (simp_all add: demo_scope_def demo_values_def)
  show ?thesis
    by (intro exI [of _ out] iffD2 [OF conjunct1 [OF review_decides_promotion [OF r hyps]] ruled_out])
qed

end
