(* ===== verification/Endpoint_Store.thy ===== *)
theory Endpoint_Store
  imports Endpoint_Reservation
begin

text \<open>
  The transactional store of sealed seed sets, endpoint plans with their reservations, and endpoint runs,
  \<^verbatim>\<open>src/src/vulnloom/red_team/seed_store.py\<close>: its three tables as lists in insertion order and its operations. A row holds the
  model its JSON payload encodes, whose fields also fill the row's other columns; a failed transaction leaves the
  tables as they were. The migration of tables of an older layout is not modelled.
\<close>

section \<open>Tables\<close>

datatype EndpointReconRunState = RunState_STARTED | RunState_COMPLETED

record reservation_row =
  pr_plan :: EndpointReconPlan
  pr_state :: EndpointReconReservationState
  pr_consumed :: int
  pr_updated_at :: "instant option"
  pr_terminal_reason :: "string option"

record run_row =
  rr_plan :: EndpointReconPlan
  rr_state :: EndpointReconRunState
  rr_attempt :: int
  rr_started_at :: instant
  rr_outcome :: "EndpointReconOutcome option"

record endpoint_db =
  edb_seed_sets :: "EndpointSeedSet list"
  edb_plans :: "reservation_row list"
  edb_runs :: "run_row list"

definition empty_endpoints :: endpoint_db where
  "empty_endpoints = \<lparr>edb_seed_sets = [], edb_plans = [], edb_runs = []\<rparr>"

datatype endpoint_store_error =
    EndpointSeedIdempotencyConflict string | EndpointReconRecoveryRequired string | EndpointReservation reservation_error

record EndpointReconClaim =
  ec_created :: bool
  ec_attempt :: int
  ec_outcome :: "EndpointReconOutcome option"

definition from_reservation :: "reservation_error + 'a \<Rightarrow> endpoint_store_error + 'a" where
  "from_reservation r = (case r of Inl e \<Rightarrow> Inl (EndpointReservation e) | Inr x \<Rightarrow> Inr x)"

section \<open>Seed sets\<close>

definition seal :: "endpoint_db \<Rightarrow> EndpointSeedSet \<Rightarrow> endpoint_store_error + (EndpointSeedSet \<times> endpoint_db)" where
  "seal db x =
     (case List.find (\<lambda>y. ss_seed_set_id y = ss_seed_set_id x \<or> ss_idempotency_key y = ss_idempotency_key x)
             (edb_seed_sets db) of
        Some existing \<Rightarrow>
          if existing \<noteq> x
          then Inl (EndpointSeedIdempotencyConflict ''Endpoint Seed Set identity was reused for different content'')
          else Inr (existing, db)
      | None \<Rightarrow> Inr (x, db\<lparr>edb_seed_sets := edb_seed_sets db @ [x]\<rparr>))"

definition seed_set :: "endpoint_db \<Rightarrow> digest \<Rightarrow> endpoint_store_error + EndpointSeedSet" where
  "seed_set db i =
     (case List.find (\<lambda>y. ss_seed_set_id y = i) (edb_seed_sets db) of
        None \<Rightarrow> Inl (EndpointSeedIdempotencyConflict ''Endpoint Seed Set is unavailable'')
      | Some x \<Rightarrow> Inr x)"

definition seed_set_by_key :: "endpoint_db \<Rightarrow> string \<Rightarrow> EndpointSeedSet option" where
  "seed_set_by_key db k = List.find (\<lambda>y. ss_idempotency_key y = k) (edb_seed_sets db)"

section \<open>Plans and reservations\<close>

definition row_plan_id :: "reservation_row \<Rightarrow> digest" where
  "row_plan_id q = ep_plan_id (pr_plan q)"

text \<open>\<^verbatim>\<open>SUM(request_count-consumed_count) ... WHERE flow_plan_id=? AND reservation_state='active'\<close>\<close>

definition outstanding :: "endpoint_db \<Rightarrow> digest \<Rightarrow> int" where
  "outstanding db flow =
     sum_list (map (\<lambda>q. int (length (ep_steps (pr_plan q))) - pr_consumed q)
       (filter (\<lambda>q. ep_flow_plan_id (pr_plan q) = flow \<and> pr_state q = Res_ACTIVE) (edb_plans db)))"

definition reserve_plan ::
  "endpoint_db \<Rightarrow> EndpointReconPlan \<Rightarrow> int \<Rightarrow> endpoint_store_error + (EndpointReconPlan \<times> endpoint_db)" where
  "reserve_plan db p remaining_actions =
     (case List.find (\<lambda>q. row_plan_id q = ep_plan_id p \<or> ep_idempotency_key (pr_plan q) = ep_idempotency_key p)
             (edb_plans db) of
        Some q \<Rightarrow>
          if pr_plan q \<noteq> p
          then Inl (EndpointSeedIdempotencyConflict ''Endpoint Recon plan identity was reused for different content'')
          else Inr (pr_plan q, db)
      | None \<Rightarrow>
          if remaining_actions < outstanding db (ep_flow_plan_id p) + int (length (ep_steps p))
          then Inl (EndpointSeedIdempotencyConflict ''Endpoint Recon reservations exceed the remaining action budget'')
          else Inr (p, db\<lparr>edb_plans := edb_plans db @
                 [\<lparr>pr_plan = p, pr_state = Res_ACTIVE, pr_consumed = 0, pr_updated_at = Some (ep_created_at p),
                   pr_terminal_reason = None\<rparr>]\<rparr>))"

definition endpoint_row :: "endpoint_db \<Rightarrow> digest \<Rightarrow> endpoint_store_error + reservation_row" where
  "endpoint_row db i =
     (case List.find (\<lambda>q. row_plan_id q = i) (edb_plans db) of
        None \<Rightarrow> Inl (EndpointSeedIdempotencyConflict ''Endpoint Recon plan is unavailable'')
      | Some q \<Rightarrow> Inr q)"

definition endpoint_plan :: "endpoint_db \<Rightarrow> digest \<Rightarrow> endpoint_store_error + EndpointReconPlan" where
  "endpoint_plan db i = bind_result (endpoint_row db i) (\<lambda>q. Inr (pr_plan q))"

definition endpoint_plan_by_key :: "endpoint_db \<Rightarrow> string \<Rightarrow> EndpointReconPlan option" where
  "endpoint_plan_by_key db k = map_option pr_plan (List.find (\<lambda>q. ep_idempotency_key (pr_plan q) = k) (edb_plans db))"

definition row_reservation :: "reservation_row \<Rightarrow> EndpointReconReservation" where
  "row_reservation q =
     \<lparr>rv_plan_id = row_plan_id q, rv_state = pr_state q, rv_reserved_requests = int (length (ep_steps (pr_plan q))),
      rv_consumed_requests = pr_consumed q, rv_created_at = ep_created_at (pr_plan q),
      rv_updated_at = (case pr_updated_at q of None \<Rightarrow> ep_created_at (pr_plan q) | Some t \<Rightarrow> t),
      rv_terminal_reason = pr_terminal_reason q\<rparr>"

definition reservation :: "endpoint_db \<Rightarrow> digest \<Rightarrow> endpoint_store_error + EndpointReconReservation" where
  "reservation db i =
     bind_result (endpoint_row db i) (\<lambda>q. from_reservation (validate_reservation (row_reservation q)))"

text \<open>\<^verbatim>\<open>UPDATE ... WHERE endpoint_recon_plan_id=? AND reservation_state=? AND consumed_count=?\<close>: the new table and the row
  count. \<^verbatim>\<open>_terminal_reservation\<close> does not write the consumed count, which its transitions do not change.\<close>

definition holds_state :: "digest \<Rightarrow> EndpointReconReservation \<Rightarrow> reservation_row \<Rightarrow> bool" where
  "holds_state i prior q \<longleftrightarrow>
     row_plan_id q = i \<and> pr_state q = rv_state prior \<and> pr_consumed q = rv_consumed_requests prior"

definition write_consumed :: "EndpointReconReservation \<Rightarrow> reservation_row \<Rightarrow> reservation_row" where
  "write_consumed r q =
     q\<lparr>pr_state := rv_state r, pr_consumed := rv_consumed_requests r, pr_updated_at := Some (rv_updated_at r),
       pr_terminal_reason := rv_terminal_reason r\<rparr>"

definition write_terminal :: "EndpointReconReservation \<Rightarrow> reservation_row \<Rightarrow> reservation_row" where
  "write_terminal r q =
     q\<lparr>pr_state := rv_state r, pr_updated_at := Some (rv_updated_at r), pr_terminal_reason := rv_terminal_reason r\<rparr>"

definition update_reservation ::
  "endpoint_db \<Rightarrow> digest \<Rightarrow> EndpointReconReservation \<Rightarrow> (reservation_row \<Rightarrow> reservation_row) \<Rightarrow> endpoint_db \<times> nat" where
  "update_reservation db i prior upd =
     (db\<lparr>edb_plans := map (\<lambda>q. if holds_state i prior q then upd q else q) (edb_plans db)\<rparr>,
      length (filter (holds_state i prior) (edb_plans db)))"

definition consume_request ::
  "endpoint_db \<Rightarrow> digest \<Rightarrow> instant \<Rightarrow> endpoint_store_error + (EndpointReconReservation \<times> endpoint_db)" where
  "consume_request db i now =
     bind_result (reservation db i) (\<lambda>prior.
     bind_result (from_reservation (consume_endpoint_recon_request prior now)) (\<lambda>after.
       let (db', changed) = update_reservation db i prior (write_consumed after)
       in if changed \<noteq> 1
          then Inl (EndpointReconRecoveryRequired ''Endpoint Recon reservation consumption raced'')
          else Inr (after, db')))"

definition terminal_reservation ::
  "endpoint_db \<Rightarrow> digest \<Rightarrow> (EndpointReconReservation \<Rightarrow> reservation_error + EndpointReconReservation)
   \<Rightarrow> endpoint_store_error + (EndpointReconReservation \<times> endpoint_db)" where
  "terminal_reservation db i transition =
     bind_result (reservation db i) (\<lambda>prior.
     bind_result (from_reservation (transition prior)) (\<lambda>after.
       if after = prior then Inr (prior, db)
       else
         let (db', changed) = update_reservation db i prior (write_terminal after)
         in if changed \<noteq> 1
            then Inl (EndpointReconRecoveryRequired ''Endpoint Recon reservation transition raced'')
            else Inr (after, db')))"

definition cancel_reservation ::
  "endpoint_db \<Rightarrow> digest \<Rightarrow> instant \<Rightarrow> string \<Rightarrow> endpoint_store_error + (EndpointReconReservation \<times> endpoint_db)" where
  "cancel_reservation db i now reason = terminal_reservation db i (\<lambda>r. cancel_endpoint_recon r now reason)"

definition expire_reservation ::
  "endpoint_db \<Rightarrow> digest \<Rightarrow> instant \<Rightarrow> endpoint_store_error + (EndpointReconReservation \<times> endpoint_db)" where
  "expire_reservation db i now = terminal_reservation db i (\<lambda>r. expire_endpoint_recon r now)"

section \<open>Runs\<close>

definition run_plan_id :: "run_row \<Rightarrow> digest" where
  "run_plan_id r = ep_plan_id (rr_plan r)"

definition run_of_plan :: "EndpointReconPlan \<Rightarrow> run_row \<Rightarrow> bool" where
  "run_of_plan p r \<longleftrightarrow> run_plan_id r = ep_plan_id p \<or> ep_idempotency_key (rr_plan r) = ep_idempotency_key p"

text \<open>\<^verbatim>\<open>_same\<close>\<close>

definition same_run :: "run_row \<Rightarrow> EndpointReconPlan \<Rightarrow> endpoint_store_error + unit" where
  "same_run r p =
     (if run_plan_id r \<noteq> ep_plan_id p \<or> rr_plan r \<noteq> p
      then Inl (EndpointSeedIdempotencyConflict ''Endpoint Recon identity was reused for different content'') else Inr ())"

definition require_active :: "endpoint_db \<Rightarrow> digest \<Rightarrow> endpoint_store_error + unit" where
  "require_active db i =
     bind_result (reservation db i) (\<lambda>r.
       if rv_state r \<noteq> Res_ACTIVE
       then Inl (EndpointReconRecoveryRequired ''Endpoint Recon reservation is not active'') else Inr ())"

definition claim_run ::
  "endpoint_db \<Rightarrow> EndpointReconPlan \<Rightarrow> instant \<Rightarrow> endpoint_store_error + (EndpointReconClaim \<times> endpoint_db)" where
  "claim_run db p now =
     (case List.find (run_of_plan p) (edb_runs db) of
        Some r \<Rightarrow>
          bind_result (same_run r p) (\<lambda>_.
            if rr_state r = RunState_STARTED
            then Inl (EndpointReconRecoveryRequired ''Endpoint Recon has an unfinished STARTED checkpoint'')
            else Inr (\<lparr>ec_created = False, ec_attempt = rr_attempt r, ec_outcome = rr_outcome r\<rparr>, db))
      | None \<Rightarrow>
          bind_result (require_active db (ep_plan_id p)) (\<lambda>_.
            Inr (\<lparr>ec_created = True, ec_attempt = 1, ec_outcome = None\<rparr>,
                 db\<lparr>edb_runs := edb_runs db @ [\<lparr>rr_plan = p, rr_state = RunState_STARTED, rr_attempt = 1,
                      rr_started_at = now, rr_outcome = None\<rparr>]\<rparr>)))"

text \<open>\<^verbatim>\<open>UPDATE endpoint_recon_runs ... WHERE endpoint_recon_plan_id=? AND state='started' AND attempt=?\<close> and its row count\<close>

definition started_run :: "digest \<Rightarrow> int \<Rightarrow> run_row \<Rightarrow> bool" where
  "started_run i attempt r \<longleftrightarrow> run_plan_id r = i \<and> rr_state r = RunState_STARTED \<and> rr_attempt r = attempt"

definition update_started :: "endpoint_db \<Rightarrow> digest \<Rightarrow> int \<Rightarrow> (run_row \<Rightarrow> run_row) \<Rightarrow> endpoint_db \<times> nat" where
  "update_started db i attempt upd =
     (db\<lparr>edb_runs := map (\<lambda>r. if started_run i attempt r then upd r else r) (edb_runs db)\<rparr>,
      length (filter (started_run i attempt) (edb_runs db)))"

definition recover_started ::
  "endpoint_db \<Rightarrow> EndpointReconPlan \<Rightarrow> instant \<Rightarrow> endpoint_store_error + (EndpointReconClaim \<times> endpoint_db)" where
  "recover_started db p now =
     bind_result (require_active db (ep_plan_id p)) (\<lambda>_.
       case List.find (run_of_plan p) (edb_runs db) of
         None \<Rightarrow> Inl (EndpointReconRecoveryRequired ''Endpoint Recon checkpoint is unavailable'')
       | Some r \<Rightarrow>
           bind_result (same_run r p) (\<lambda>_.
             if rr_state r \<noteq> RunState_STARTED
             then Inl (EndpointReconRecoveryRequired ''Endpoint Recon is not awaiting recovery'')
             else if el_max_attempts (ep_limits p) \<le> rr_attempt r
             then Inl (EndpointReconRecoveryRequired ''Endpoint Recon recovery attempts are exhausted'')
             else
               let attempt = rr_attempt r + 1;
                   (db', changed) = update_started db (ep_plan_id p) (rr_attempt r)
                     (\<lambda>r. r\<lparr>rr_attempt := attempt, rr_started_at := now\<rparr>)
               in if changed \<noteq> 1 then Inl (EndpointReconRecoveryRequired ''Endpoint Recon recovery raced'')
                  else Inr (\<lparr>ec_created = True, ec_attempt = attempt, ec_outcome = None\<rparr>, db')))"

definition complete_run :: "endpoint_db \<Rightarrow> EndpointReconOutcome \<Rightarrow> (endpoint_store_error + unit) \<times> endpoint_db" where
  "complete_run db x =
     (let (db', changed) = update_started db (eo_plan_id x) (eo_attempt x)
            (\<lambda>r. r\<lparr>rr_state := RunState_COMPLETED, rr_outcome := Some x\<rparr>)
      in (if changed \<noteq> 1 then Inl (EndpointReconRecoveryRequired ''Endpoint Recon STARTED checkpoint is unavailable'')
          else Inr (), db'))"

definition run_state :: "endpoint_db \<Rightarrow> digest \<Rightarrow> (EndpointReconRunState \<times> int) option" where
  "run_state db i = map_option (\<lambda>r. (rr_state r, rr_attempt r)) (List.find (\<lambda>r. run_plan_id r = i) (edb_runs db))"

definition run_outcome :: "endpoint_db \<Rightarrow> digest \<Rightarrow> endpoint_store_error + EndpointReconOutcome" where
  "run_outcome db i =
     (case List.find (\<lambda>r. run_plan_id r = i) (edb_runs db) of
        None \<Rightarrow> Inl (EndpointReconRecoveryRequired ''Completed Endpoint Recon is unavailable'')
      | Some r \<Rightarrow>
          (case rr_outcome r of
             Some x \<Rightarrow>
               if rr_state r \<noteq> RunState_COMPLETED
               then Inl (EndpointReconRecoveryRequired ''Completed Endpoint Recon is unavailable'') else Inr x
           | None \<Rightarrow> Inl (EndpointReconRecoveryRequired ''Completed Endpoint Recon is unavailable'')))"

end
