(* ===== verification/Endpoint_Service.thy ===== *)
theory Endpoint_Service
  imports Endpoint_Store Red_Team_Service Evidence_Store
begin

text \<open>
  The service for operator-sealed endpoint checks, \<^verbatim>\<open>src/src/vulnloom/red_team/seed_service.py\<close>, with the two operations of
  \<^verbatim>\<open>src/src/vulnloom/red_team/service.py\<close> it calls: sealing a seed set, preparing and reserving a plan, running the plan against an
  adapter of its own or step by step through the flow service, and recovering an interrupted run. It works on two stores, that of the
  flow and that of the endpoint plans, which no common transaction protects: an operation that fails returns the stores it
  leaves behind. The evidence directory may change while a run is under way, so it is given per step. The monotonic clock is a
  function from the number of earlier readings to seconds.
\<close>

section \<open>Errors and adapters\<close>

text \<open>\<open>EndpointRejectedBy\<close> is \<^verbatim>\<open>EndpointReconRejected(str(exc))\<close> for an error of the store.\<close>

datatype endpoint_error =
    EndpointReconRejected string | EndpointRejectedBy endpoint_store_error | EndpointReconTimedOut
  | EndpointReconAdapterInterrupted | EndpointAdapterFailed | EndpointValueError
  | EndpointStoreError endpoint_store_error | EndpointFlowStore flow_store_error | EndpointFlow service_error

type_synonym endpoint_adapter =
  "EndpointReconStep \<Rightarrow> instant \<Rightarrow> instant \<Rightarrow> endpoint_error + EndpointReconStepResult"

definition of_store :: "endpoint_store_error + 'a \<Rightarrow> endpoint_error + 'a" where
  "of_store r = (case r of Inl e \<Rightarrow> Inl (EndpointStoreError e) | Inr x \<Rightarrow> Inr x)"

definition of_flow_store :: "flow_store_error + 'a \<Rightarrow> endpoint_error + 'a" where
  "of_flow_store r = (case r of Inl e \<Rightarrow> Inl (EndpointFlowStore e) | Inr x \<Rightarrow> Inr x)"

definition of_service :: "service_error + 'a \<Rightarrow> endpoint_error + 'a" where
  "of_service r = (case r of Inl e \<Rightarrow> Inl (EndpointFlow e) | Inr x \<Rightarrow> Inr x)"

definition of_create :: "'a option \<Rightarrow> endpoint_error + 'a" where
  "of_create x = (case x of None \<Rightarrow> Inl EndpointValueError | Some y \<Rightarrow> Inr y)"

definition rejected_by :: "endpoint_store_error + 'a \<Rightarrow> endpoint_error + 'a" where
  "rejected_by r = (case r of Inl e \<Rightarrow> Inl (EndpointRejectedBy e) | Inr x \<Rightarrow> Inr x)"

definition validated :: "('a \<Rightarrow> bool) \<Rightarrow> 'a \<Rightarrow> endpoint_error + 'a" where
  "validated P x = (if P x then Inr x else Inl EndpointValueError)"

definition EndpointSeedSet_create ::
  "(pyval \<Rightarrow> digest) \<Rightarrow> url_env \<Rightarrow> EndpointSeedSet \<Rightarrow> EndpointSeedSet option" where
  "EndpointSeedSet_create H U v =
     (let x = v\<lparr>ss_seed_set_id := H (EndpointSeedSet_content v)\<rparr> in if EndpointSeedSet_valid H U x then Some x else None)"

definition EndpointReconPlan_create ::
  "(pyval \<Rightarrow> digest) \<Rightarrow> (string \<Rightarrow> digest) \<Rightarrow> EndpointReconPlan \<Rightarrow> EndpointReconPlan option" where
  "EndpointReconPlan_create H S v =
     (let p = v\<lparr>ep_plan_id := H (EndpointReconPlan_content v)\<rparr> in if EndpointReconPlan_valid H S p then Some p else None)"

record OfflineEndpointReconScenario =
  os_outcome :: EndpointReconOutcomeKind
  os_status_code :: "int option"
  os_reason_code :: string
  os_cleanup_complete :: bool
  os_interrupt :: bool

text \<open>\<^verbatim>\<open>OfflineEndpointReconAdapter.execute\<close>; its call counter is not modelled.\<close>

definition offline_endpoint_execute :: "OfflineEndpointReconScenario \<Rightarrow> endpoint_adapter" where
  "offline_endpoint_execute sn step now deadline =
     (if os_interrupt sn then Inl EndpointReconAdapterInterrupted
      else validated EndpointReconStepResult_valid
        \<lparr>er_step_id = st_step_id step, er_target_url_digest = st_target_url_digest step, er_outcome = os_outcome sn,
         er_status_code = (if os_outcome sn = Eo_SUCCEEDED then os_status_code sn else None),
         er_reason_code = os_reason_code sn, er_evidence_refs = [], er_web_response_snapshot_id = None,
         er_response_bytes = None, er_response_body_sha256 = None, er_cleanup_complete = os_cleanup_complete sn,
         er_completed_at = now\<rparr>)"

section \<open>Checks\<close>

text \<open>\<^verbatim>\<open>_running\<close>\<close>

definition endpoint_running ::
  "flow_db \<Rightarrow> RedTeamFlowPlan \<Rightarrow> RedTeamCheckpoint \<Rightarrow> Scope \<Rightarrow> instant \<Rightarrow> endpoint_error + unit" where
  "endpoint_running fdb flow c s now =
     (if sc_state s \<noteq> Scope_APPROVED \<or> \<not> in_validity_window s now
      then Inl (EndpointReconRejected ''Endpoint Recon requires a current approved Scope'')
      else
        bind_result (of_flow_store (flow_plan fdb (fp_plan_id flow))) (\<lambda>stored.
          if stored \<noteq> flow then Inl (EndpointReconRejected ''Endpoint Recon requires the current running Flow'')
          else
            bind_result (of_flow_store (latest_flow fdb (fp_plan_id flow))) (\<lambda>latest.
              let rules = fp_rules flow
              in if latest \<noteq> c \<or> fc_status c \<noteq> Flow_RUNNING \<or> roe_scope_id rules \<noteq> scope_id s \<or>
                    roe_scope_version rules \<noteq> sc_version s \<or> valid_until s < fp_deadline flow \<or>
                    valid_until s < stop_at (stop_conditions rules) \<or> roe_phases rules \<noteq> [RECON] \<or>
                    allowed_impacts rules \<noteq> [Imp_READ_ONLY] \<or> approval_required_impacts rules \<noteq> [] \<or>
                    set (prohibited_impacts rules) \<noteq> set (Imp_STATE_CHANGE # CHAIN_PROHIBITED) \<or>
                    \<not> set (roe_allowed_test_classes rules) \<subseteq> set (allowed_test_classes s) \<or> fp_deadline flow \<le> now
                 then Inl (EndpointReconRejected ''Endpoint Recon requires the current running Flow'')
                 else Inr ())))"

text \<open>\<^verbatim>\<open>_authorize_exact\<close>; \<^verbatim>\<open>test_class or ...\<close> also replaces an empty test class.\<close>

definition rstrip_slash :: "string \<Rightarrow> string" where
  "rstrip_slash v = rev (dropWhile (\<lambda>ch. ch = CHR ''/'') (rev v))"

definition authorize_exact ::
  "(pyval \<Rightarrow> digest) \<Rightarrow> url_env \<Rightarrow> RedTeamFlowPlan \<Rightarrow> Scope \<Rightarrow> string \<Rightarrow> instant \<Rightarrow> string option \<Rightarrow> EndpointMethod
   \<Rightarrow> endpoint_error + string" where
  "authorize_exact H U flow s path now test_class method =
     (case urlsplit U (wt_url (fp_target flow)) of
        Inl e \<Rightarrow> Inl (EndpointFlow (ServicePolicy e))
      | Inr base \<Rightarrow>
          let base_path = rstrip_slash (su_path base);
              url = urlunsplit_base (su_scheme base) (su_netloc base) path;
              chosen = (case test_class of
                          Some t \<Rightarrow> if t = [] then hd (roe_allowed_test_classes (fp_rules flow)) else t
                        | None \<Rightarrow> hd (roe_allowed_test_classes (fp_rules flow)))
          in if base_path \<noteq> [] \<and> path \<noteq> base_path \<and> \<not> prefix (base_path @ ''/'') path
             then Inl (EndpointReconRejected ''Endpoint seed escapes the Flow target base path'')
             else case decide H U s (flow_request s (wt_target_id (fp_target flow))
                         (''red_team.recon.http_'' @ lower (method_text method)) now url (Some chosen)) [] of
               Inl e \<Rightarrow> Inl (EndpointFlow (ServicePolicy e))
             | Inr d \<Rightarrow>
                 if effect d \<noteq> ALLOW then Inl (EndpointReconRejected ''Endpoint seed is outside approved Scope'')
                 else Inr url)"

text \<open>\<^verbatim>\<open>_seed_binding\<close>\<close>

definition seed_binding ::
  "flow_db \<Rightarrow> EndpointSeedSet \<Rightarrow> RedTeamFlowPlan \<Rightarrow> RedTeamCheckpoint \<Rightarrow> Scope \<Rightarrow> instant \<Rightarrow> endpoint_error + unit" where
  "seed_binding fdb x flow c s now =
     bind_result (endpoint_running fdb flow c s now) (\<lambda>_.
       if ss_flow_plan_id x \<noteq> fp_plan_id flow \<or> ss_source_checkpoint_id x \<noteq> fc_checkpoint_id c \<or>
          ss_target_id x \<noteq> wt_target_id (fp_target flow) \<or> ss_scope_id x \<noteq> scope_id s \<or>
          ss_scope_version x \<noteq> sc_version s \<or> ss_expires_at x \<le> now
       then Inl (EndpointReconRejected ''Endpoint Seed Set binding is stale'') else Inr ())"

text \<open>The loop over \<^verbatim>\<open>zip(seed_set.seeds, plan.steps, strict=True)\<close>, which raises at its end when the lengths differ.\<close>

definition exact_targets ::
  "(pyval \<Rightarrow> digest) \<Rightarrow> url_env \<Rightarrow> RedTeamFlowPlan \<Rightarrow> Scope \<Rightarrow> instant \<Rightarrow> EndpointSeedSet \<Rightarrow> EndpointReconPlan
   \<Rightarrow> endpoint_error + unit" where
  "exact_targets H U flow s now x p =
     bind_result (all_ok (\<lambda>(seed, step).
         bind_result (authorize_exact H U flow s (sd_path seed) now (Some (ep_test_class p)) (st_method step)) (\<lambda>url.
           if st_target_url step \<noteq> url then Inl (EndpointReconRejected ''Endpoint Recon exact target binding is invalid'')
           else Inr ())) (zip (ss_seeds x) (ep_steps p))) (\<lambda>_.
       if length (ss_seeds x) \<noteq> length (ep_steps p) then Inl EndpointValueError else Inr ())"

text \<open>\<^verbatim>\<open>_plan_binding\<close>\<close>

definition plan_binding ::
  "(pyval \<Rightarrow> digest) \<Rightarrow> url_env \<Rightarrow> flow_db \<Rightarrow> endpoint_db \<Rightarrow> EndpointReconPlan \<Rightarrow> Scope \<Rightarrow> instant \<Rightarrow> endpoint_error + unit" where
  "plan_binding H U fdb edb p s now =
     bind_result (of_store (seed_set edb (ep_seed_set_id p))) (\<lambda>x.
     bind_result (of_flow_store (flow_plan fdb (ep_flow_plan_id p))) (\<lambda>flow.
     bind_result (of_flow_store (latest_flow fdb (fp_plan_id flow))) (\<lambda>c.
     bind_result (seed_binding fdb x flow c s now) (\<lambda>_.
       if ep_source_checkpoint_id p \<noteq> fc_checkpoint_id c \<or> ep_target_id p \<noteq> wt_target_id (fp_target flow) \<or>
          ep_scope_id p \<noteq> scope_id s \<or> ep_scope_version p \<noteq> sc_version s \<or>
          ep_test_class p \<notin> set (roe_allowed_test_classes (fp_rules flow)) \<or>
          map st_seed_id (ep_steps p) \<noteq> map sd_seed_id (ss_seeds x) \<or>
          min (ss_expires_at x) (min (fp_deadline flow) (valid_until s)) < ep_deadline p \<or>
          \<not> (ep_created_at p \<le> now \<and> now < ep_deadline p)
       then Inl (EndpointReconRejected ''Endpoint Recon plan binding is invalid'')
       else exact_targets H U flow s now x p))))"

text \<open>\<^verbatim>\<open>_flow_execution_binding\<close>\<close>

definition flow_execution_binding ::
  "(pyval \<Rightarrow> digest) \<Rightarrow> url_env \<Rightarrow> flow_db \<Rightarrow> endpoint_db \<Rightarrow> EndpointReconPlan \<Rightarrow> Scope \<Rightarrow> instant \<Rightarrow> bool
   \<Rightarrow> endpoint_error + unit" where
  "flow_execution_binding H U fdb edb p s now recover =
     bind_result (of_store (seed_set edb (ep_seed_set_id p))) (\<lambda>x.
     bind_result (of_flow_store (flow_plan fdb (ep_flow_plan_id p))) (\<lambda>flow.
     bind_result (of_flow_store (flow_checkpoint fdb (ep_source_checkpoint_id p))) (\<lambda>source.
     bind_result (of_flow_store (latest_flow fdb (fp_plan_id flow))) (\<lambda>latest.
     bind_result (of_store (reservation edb (ep_plan_id p))) (\<lambda>r.
     bind_result (of_store (endpoint_plan edb (ep_plan_id p))) (\<lambda>stored.
       if stored \<noteq> p \<or> ss_flow_plan_id x \<noteq> fp_plan_id flow \<or> fc_plan_id source \<noteq> fp_plan_id flow \<or>
          ss_source_checkpoint_id x \<noteq> fc_checkpoint_id source \<or> ep_target_id p \<noteq> wt_target_id (fp_target flow) \<or>
          ep_scope_id p \<noteq> scope_id s \<or> ep_scope_version p \<noteq> sc_version s \<or> sc_state s \<noteq> Scope_APPROVED \<or>
          \<not> in_validity_window s now \<or> \<not> (ep_created_at p \<le> now \<and> now < ep_deadline p) \<or> rv_state r \<noteq> Res_ACTIVE \<or>
          (\<not> recover \<and> latest \<noteq> source)
       then Inl (EndpointReconRejected ''Endpoint Recon Flow execution binding is invalid'')
       else exact_targets H U flow s now x p))))))"

section \<open>Seed sets and plans\<close>

fun create_seeds :: "(pyval \<Rightarrow> digest) \<Rightarrow> url_env \<Rightarrow> string list \<Rightarrow> endpoint_error + EndpointSeed list" where
  "create_seeds H U [] = Inr []"
| "create_seeds H U (path # paths) =
     bind_result (of_create (EndpointSeed_create H U path)) (\<lambda>x.
     bind_result (create_seeds H U paths) (\<lambda>xs. Inr (x # xs)))"

definition build_seed_set ::
  "(pyval \<Rightarrow> digest) \<Rightarrow> url_env \<Rightarrow> flow_db \<Rightarrow> RedTeamFlowPlan \<Rightarrow> RedTeamCheckpoint \<Rightarrow> Scope \<Rightarrow> string \<Rightarrow> string list
   \<Rightarrow> instant \<Rightarrow> instant \<Rightarrow> string \<Rightarrow> endpoint_error + EndpointSeedSet" where
  "build_seed_set H U fdb flow c s operator_ref paths now expires key =
     bind_result (endpoint_running fdb flow c s now) (\<lambda>_.
       if \<not> distinct paths then Inl (EndpointReconRejected ''Endpoint Seed Set contains duplicate paths'')
       else
         bind_result (create_seeds H U paths) (\<lambda>created.
         let seeds = sort_key sd_path created
         in if min (fp_deadline flow) (valid_until s) < expires
            then Inl (EndpointReconRejected ''Endpoint Seed Set exceeds its authorization lifetime'')
            else
              bind_result (all_ok (\<lambda>seed.
                  bind_result (authorize_exact H U flow s (sd_path seed) now None Meth_HEAD) (\<lambda>_. Inr ())) seeds) (\<lambda>_.
              of_create (EndpointSeedSet_create H U
                \<lparr>ss_seed_set_id = [], ss_flow_plan_id = fp_plan_id flow, ss_source_checkpoint_id = fc_checkpoint_id c,
                 ss_target_id = wt_target_id (fp_target flow), ss_scope_id = scope_id s, ss_scope_version = sc_version s,
                 ss_operator_ref = operator_ref, ss_seeds = seeds, ss_sealed_at = now, ss_expires_at = expires,
                 ss_idempotency_key = key\<rparr>))))"

definition seal_seed_set ::
  "(pyval \<Rightarrow> digest) \<Rightarrow> url_env \<Rightarrow> flow_db \<Rightarrow> endpoint_db \<Rightarrow> RedTeamFlowPlan \<Rightarrow> RedTeamCheckpoint \<Rightarrow> Scope \<Rightarrow> string
   \<Rightarrow> string list \<Rightarrow> instant \<Rightarrow> instant \<Rightarrow> string \<Rightarrow> endpoint_error + (EndpointSeedSet \<times> endpoint_db)" where
  "seal_seed_set H U fdb edb flow c s operator_ref paths now expires key =
     bind_result (build_seed_set H U fdb flow c s operator_ref paths now expires key) (\<lambda>x. rejected_by (seal edb x))"

text \<open>\<^verbatim>\<open>timedelta(seconds=...)\<close> of a float, in microseconds: rounded to the nearest, ties to even.\<close>

definition float_seconds :: "rat \<Rightarrow> int" where
  "float_seconds x =
     (let y = 1000000 * x; n = \<lfloor>y\<rfloor>; d = y - of_int n
      in if d < 1 / 2 \<or> (d = 1 / 2 \<and> even n) then n else n + 1)"

fun prepare_steps ::
  "(pyval \<Rightarrow> digest) \<Rightarrow> (string \<Rightarrow> digest) \<Rightarrow> url_env \<Rightarrow> RedTeamFlowPlan \<Rightarrow> Scope \<Rightarrow> instant \<Rightarrow> string \<Rightarrow> EndpointMethod \<Rightarrow> int
   \<Rightarrow> EndpointSeed list \<Rightarrow> endpoint_error + EndpointReconStep list" where
  "prepare_steps H S U flow s now test_class method ordinal [] = Inr []"
| "prepare_steps H S U flow s now test_class method ordinal (seed # seeds) =
     bind_result (authorize_exact H U flow s (sd_path seed) now (Some test_class) method) (\<lambda>url.
     bind_result (of_create (EndpointReconStep_create H S
       \<lparr>st_step_id = [], st_seed_id = sd_seed_id seed, st_ordinal = ordinal, st_target_url = url,
        st_target_url_digest = [], st_method = method\<rparr>)) (\<lambda>step.
     bind_result (prepare_steps H S U flow s now test_class method (ordinal + 1) seeds) (\<lambda>steps. Inr (step # steps))))"

text \<open>\<^verbatim>\<open>EndpointReconService.prepare\<close>; the type of \<open>method\<close> excludes the methods the code rejects.\<close>

definition prepare_endpoint_plan ::
  "(pyval \<Rightarrow> digest) \<Rightarrow> (string \<Rightarrow> digest) \<Rightarrow> url_env \<Rightarrow> flow_db \<Rightarrow> endpoint_db \<Rightarrow> digest \<Rightarrow> Scope \<Rightarrow> string \<Rightarrow> EndpointReconLimits
   \<Rightarrow> EndpointMethod \<Rightarrow> instant \<Rightarrow> instant \<Rightarrow> string \<Rightarrow> endpoint_error + (EndpointReconPlan \<times> endpoint_db)" where
  "prepare_endpoint_plan H S U fdb edb seed_set_id s test_class limits method now deadline key =
     bind_result (of_store (seed_set edb seed_set_id)) (\<lambda>x.
     bind_result (of_flow_store (flow_plan fdb (ss_flow_plan_id x))) (\<lambda>flow.
     bind_result (of_flow_store (latest_flow fdb (fp_plan_id flow))) (\<lambda>c.
     bind_result (seed_binding fdb x flow c s now) (\<lambda>_.
       let remaining = max_actions (stop_conditions (fp_rules flow)) - fc_actions_used c;
           stop = min deadline (min (now + float_seconds (el_total_seconds limits))
                    (min (ss_expires_at x) (min (fp_deadline flow) (valid_until s))))
       in if test_class \<notin> set (roe_allowed_test_classes (fp_rules flow))
          then Inl (EndpointReconRejected ''Endpoint Recon test class is not authorized'')
          else if min (el_max_steps limits) (min (el_max_requests limits) remaining) < int (length (ss_seeds x))
          then Inl (EndpointReconRejected ''Endpoint Recon exceeds the remaining action budget'')
          else if stop \<le> now then Inl (EndpointReconRejected ''Endpoint Recon deadline is exhausted'')
          else
            bind_result (prepare_steps H S U flow s now test_class method 1 (ss_seeds x)) (\<lambda>steps.
            bind_result (of_create (EndpointReconPlan_create H S
              \<lparr>ep_plan_id = [], ep_seed_set_id = ss_seed_set_id x, ep_flow_plan_id = fp_plan_id flow,
               ep_source_checkpoint_id = fc_checkpoint_id c, ep_target_id = wt_target_id (fp_target flow),
               ep_scope_id = scope_id s, ep_scope_version = sc_version s, ep_test_class = test_class, ep_steps = steps,
               ep_limits = limits, ep_created_at = now, ep_deadline = stop, ep_idempotency_key = key\<rparr>)) (\<lambda>p.
            rejected_by (reserve_plan edb p remaining)))))))"

definition cancel_endpoint_reservation ::
  "endpoint_db \<Rightarrow> digest \<Rightarrow> string \<Rightarrow> instant \<Rightarrow> endpoint_error + (EndpointReconReservation \<times> endpoint_db)" where
  "cancel_endpoint_reservation edb i operator_ref now =
     bind_result (of_store (endpoint_plan edb i)) (\<lambda>p.
     bind_result (of_store (seed_set edb (ep_seed_set_id p))) (\<lambda>x.
       if operator_ref \<noteq> ss_operator_ref x \<or> now < ep_created_at p
       then Inl (EndpointReconRejected ''Endpoint Recon cancellation operator binding is invalid'')
       else if map_option fst (run_state edb i) = Some RunState_STARTED
       then Inl (EndpointReconRejected ''Endpoint Recon cancellation requires recovery of its started action'')
       else rejected_by (cancel_reservation edb i now ''operator_cancelled'')))"

definition expire_endpoint_reservation ::
  "endpoint_db \<Rightarrow> digest \<Rightarrow> instant \<Rightarrow> endpoint_error + (EndpointReconReservation \<times> endpoint_db)" where
  "expire_endpoint_reservation edb i now =
     bind_result (of_store (endpoint_plan edb i)) (\<lambda>p.
       if now < ep_deadline p then Inl (EndpointReconRejected ''Endpoint Recon reservation is not expired'')
       else rejected_by (expire_reservation edb i now))"

section \<open>Running through the flow service\<close>

text \<open>\<^verbatim>\<open>RedTeamService.prepare_endpoint_recon\<close> and \<^verbatim>\<open>RedTeamService.execute_endpoint_recon\<close>\<close>

definition step_kind :: "EndpointReconStep \<Rightarrow> RedTeamActionKind" where
  "step_kind step = (if st_method step = Meth_HEAD then HTTP_HEAD else HTTP_GET)"

definition step_key :: "EndpointReconPlan \<Rightarrow> EndpointReconStep \<Rightarrow> string" where
  "step_key p step = ''endpoint-recon:'' @ ep_plan_id p @ '':'' @ st_step_id step"

text \<open>The first two disjuncts of both binding checks: whether the stored plan is this one and its reservation active.\<close>

definition active_plan :: "endpoint_db \<Rightarrow> EndpointReconPlan \<Rightarrow> endpoint_error + bool" where
  "active_plan edb p =
     bind_result (of_store (endpoint_plan edb (ep_plan_id p))) (\<lambda>stored.
       if stored \<noteq> p then Inr False
       else bind_result (of_store (reservation edb (ep_plan_id p))) (\<lambda>r. Inr (rv_state r = Res_ACTIVE)))"

definition prepare_endpoint_recon ::
  "(pyval \<Rightarrow> digest) \<Rightarrow> endpoint_db \<Rightarrow> RedTeamFlowPlan \<Rightarrow> RedTeamCheckpoint \<Rightarrow> EndpointReconPlan \<Rightarrow> EndpointReconStep \<Rightarrow> Scope
   \<Rightarrow> int \<Rightarrow> instant \<Rightarrow> endpoint_error + RedTeamReconCommand" where
  "prepare_endpoint_recon H edb flow c p step s attempt now =
     bind_result (of_service (scope_binding flow s)) (\<lambda>_.
     bind_result (active_plan edb p) (\<lambda>active.
       if \<not> active \<or> ep_flow_plan_id p \<noteq> fp_plan_id flow \<or> ep_target_id p \<noteq> wt_target_id (fp_target flow) \<or>
          ep_scope_id p \<noteq> scope_id s \<or> ep_scope_version p \<noteq> sc_version s \<or>
          ep_test_class p \<notin> set (roe_allowed_test_classes (fp_rules flow)) \<or> step \<notin> set (ep_steps p) \<or>
          fc_plan_id c \<noteq> fp_plan_id flow \<or> \<not> (ep_created_at p \<le> now \<and> now < ep_deadline p)
       then Inl (EndpointFlow (RedTeamRejected ''Endpoint Recon command binding is invalid''))
       else
         bind_result (of_service (from_create (RedTeamReconAction_create H
           \<lparr>ra_action_id = [], ra_plan_id = fp_plan_id flow, ra_expected_checkpoint_id = fc_checkpoint_id c,
            ra_kind = step_kind step, ra_target_url = st_target_url step, ra_test_class = ep_test_class p,
            ra_impact = Imp_READ_ONLY, ra_created_at = ep_created_at p, ra_deadline = ep_deadline p,
            ra_idempotency_key = step_key p step\<rparr>))) (\<lambda>a.
         of_service (from_create (RedTeamReconCommand_create H \<lparr>cm_command_id = [], cm_action = a, cm_attempt = attempt\<rparr>)))))"

definition execute_endpoint_recon ::
  "(pyval \<Rightarrow> digest) \<Rightarrow> url_env \<Rightarrow> recon_adapter \<Rightarrow> flow_db \<Rightarrow> endpoint_db \<Rightarrow> RedTeamReconCommand \<Rightarrow> EndpointReconPlan
   \<Rightarrow> EndpointReconStep \<Rightarrow> Scope \<Rightarrow> instant
   \<Rightarrow> (endpoint_error + RedTeamCheckpoint \<times> RedTeamReconObservation) \<times> flow_db" where
  "execute_endpoint_recon H U adapter fdb edb cmd p step s now =
     (let a = cm_action cmd
      in case active_plan edb p of
           Inl e \<Rightarrow> (Inl e, fdb)
         | Inr active \<Rightarrow>
             if \<not> active \<or> ep_flow_plan_id p \<noteq> ra_plan_id a \<or> step \<notin> set (ep_steps p) \<or> ra_kind a \<noteq> step_kind step \<or>
                ra_target_url a \<noteq> st_target_url step \<or> ra_test_class a \<noteq> ep_test_class p \<or>
                ra_created_at a \<noteq> ep_created_at p \<or> ra_deadline a \<noteq> ep_deadline p \<or>
                ra_idempotency_key a \<noteq> step_key p step
             then (Inl (EndpointFlow (RedTeamRejected ''Endpoint Recon action binding is invalid'')), fdb)
             else case execute_bound_recon H U adapter fdb cmd s now (st_target_url step) of
               (Inl e, fdb') \<Rightarrow> (Inl (EndpointFlow e), fdb') | (Inr x, fdb') \<Rightarrow> (Inr x, fdb'))"

text \<open>\<^verbatim>\<open>_step_result\<close>; a response snapshot has the single method GET.\<close>

fun outcome_of_recon :: "ReconOutcome \<Rightarrow> EndpointReconOutcomeKind" where
  "outcome_of_recon Rec_SUCCEEDED = Eo_SUCCEEDED"
| "outcome_of_recon Rec_REJECTED = Eo_REJECTED"
| "outcome_of_recon Rec_TIMED_OUT = Eo_TIMED_OUT"
| "outcome_of_recon Rec_FAILED = Eo_FAILED"

definition snapshot_facts ::
  "EndpointReconStep \<Rightarrow> RedTeamReconObservation \<Rightarrow> (digest \<times> digest \<times> digest list) option" where
  "snapshot_facts step v =
     (if st_method step = Meth_HEAD
      then map_option (\<lambda>a. (as_requested_url_digest a, as_final_url_digest a, as_evidence_refs a)) (ro_attack_surface v)
      else map_option (\<lambda>w. (wr_requested_url_digest w, wr_final_url_digest w, wr_evidence_refs w)) (ro_web_response v))"

definition invalid_success :: "EndpointReconStep \<Rightarrow> RedTeamReconObservation \<Rightarrow> bool" where
  "invalid_success step v \<longleftrightarrow>
     ro_outcome v = Rec_SUCCEEDED \<and>
     (case snapshot_facts step v of
        None \<Rightarrow> True
      | Some (requested, final_digest, refs) \<Rightarrow>
          requested \<noteq> st_target_url_digest step \<or> final_digest \<noteq> st_target_url_digest step \<or> refs = [] \<or> 1 < length refs \<or>
          (st_method step = Meth_HEAD \<and> \<not> opt_all (\<lambda>a. as_redirect_count a = 0) (ro_attack_surface v)))"

definition step_result ::
  "evidence_env \<Rightarrow> objects \<Rightarrow> EndpointReconStep \<Rightarrow> RedTeamReconObservation \<Rightarrow> endpoint_error + EndpointReconStepResult" where
  "step_result E objs step v =
     (let evidence_refs = (case snapshot_facts step v of None \<Rightarrow> [] | Some (_, _, refs) \<Rightarrow> refs);
          base = \<lparr>er_step_id = st_step_id step, er_target_url_digest = st_target_url_digest step,
                  er_outcome = outcome_of_recon (ro_outcome v), er_status_code = ro_status_code v,
                  er_reason_code = ro_reason_code v, er_evidence_refs = evidence_refs,
                  er_web_response_snapshot_id = map_option wr_snapshot_id (ro_web_response v),
                  er_response_bytes = map_option wr_response_bytes (ro_web_response v),
                  er_response_body_sha256 = map_option wr_response_body_sha256 (ro_web_response v),
                  er_cleanup_complete = ro_cleanup_complete v, er_completed_at = ro_observed_at v\<rparr>;
          failed = (\<lambda>reason. base\<lparr>er_outcome := Eo_FAILED, er_status_code := None, er_reason_code := reason,
                  er_evidence_refs := [], er_web_response_snapshot_id := None, er_response_bytes := None,
                  er_response_body_sha256 := None\<rparr>)
      in validated EndpointReconStepResult_valid
           (if invalid_success step v then failed ''endpoint_observation_invalid''
            else if list_ex (\<lambda>ref. \<not> contains E objs ref) evidence_refs then failed ''endpoint_evidence_missing''
            else base))"

text \<open>After a step, its request is consumed unless an earlier attempt already did so.\<close>

definition settle_request ::
  "endpoint_db \<Rightarrow> EndpointReconPlan \<Rightarrow> nat \<Rightarrow> RedTeamReconObservation
   \<Rightarrow> endpoint_error + (EndpointReconReservation \<times> endpoint_db)" where
  "settle_request edb p index v =
     bind_result (of_store (reservation edb (ep_plan_id p))) (\<lambda>r.
       if rv_consumed_requests r < int index + 1
       then if rv_consumed_requests r \<noteq> int index
            then Inl (EndpointReconRejected ''Endpoint Recon reservation progress is inconsistent'')
            else of_store (consume_request edb (ep_plan_id p) (ro_observed_at v))
       else Inr (r, edb))"

text \<open>One step of the run: the observation and the result of the step, or the error.\<close>

definition run_step ::
  "(pyval \<Rightarrow> digest) \<Rightarrow> url_env \<Rightarrow> recon_adapter \<Rightarrow> evidence_env \<Rightarrow> objects \<Rightarrow> EndpointReconPlan \<Rightarrow> RedTeamFlowPlan
   \<Rightarrow> RedTeamCheckpoint \<Rightarrow> Scope \<Rightarrow> instant \<Rightarrow> int \<Rightarrow> nat \<Rightarrow> EndpointReconStep \<Rightarrow> digest list \<Rightarrow> flow_db \<Rightarrow> endpoint_db
   \<Rightarrow> (endpoint_error + EndpointReconStepResult \<times> digest) \<times> flow_db \<times> endpoint_db" where
  "run_step H U adapter E objs p flow source s now attempt index step ids fdb edb =
     (case checkpoint_revision fdb (fp_plan_id flow) (fc_revision source + int index) of
        Inl _ \<Rightarrow> (Inl (EndpointReconRejected ''Endpoint Recon checkpoint lineage is incomplete''), fdb, edb)
      | Inr expected \<Rightarrow>
          if fc_observation_ids expected \<noteq> fc_observation_ids source @ ids
          then (Inl (EndpointReconRejected ''Endpoint Recon checkpoint lineage contains another action''), fdb, edb)
          else case prepare_endpoint_recon H edb flow expected p step s attempt now of
            Inl e \<Rightarrow> (Inl e, fdb, edb)
          | Inr cmd \<Rightarrow>
              (case execute_endpoint_recon H U adapter fdb edb cmd p step s now of
                 (Inl e, fdb') \<Rightarrow> (Inl e, fdb', edb)
               | (Inr (_, v), fdb') \<Rightarrow>
                   (case settle_request edb p index v of
                      Inl e \<Rightarrow> (Inl e, fdb', edb)
                    | Inr (r, edb') \<Rightarrow>
                        (case step_result E objs step v of
                           Inl e \<Rightarrow> (Inl e, fdb', edb')
                         | Inr result \<Rightarrow>
                             if er_outcome result \<noteq> Eo_SUCCEEDED \<and> rv_state r = Res_ACTIVE
                             then (case cancel_reservation edb' (ep_plan_id p) (ro_observed_at v) ''execution_stopped'' of
                                     Inl e \<Rightarrow> (Inl (EndpointStoreError e), fdb', edb')
                                   | Inr (_, edb'') \<Rightarrow> (Inr (result, ro_observation_id v), fdb', edb''))
                             else (Inr (result, ro_observation_id v), fdb', edb')))))"

fun run_loop ::
  "(pyval \<Rightarrow> digest) \<Rightarrow> url_env \<Rightarrow> recon_adapter \<Rightarrow> evidence_env \<Rightarrow> (nat \<Rightarrow> objects) \<Rightarrow> EndpointReconPlan \<Rightarrow> RedTeamFlowPlan
   \<Rightarrow> RedTeamCheckpoint \<Rightarrow> Scope \<Rightarrow> instant \<Rightarrow> int \<Rightarrow> EndpointReconStep list \<Rightarrow> EndpointReconStepResult list \<Rightarrow> digest list
   \<Rightarrow> flow_db \<Rightarrow> endpoint_db
   \<Rightarrow> (endpoint_error + EndpointReconStepResult list \<times> digest list) \<times> flow_db \<times> endpoint_db" where
  "run_loop H U adapter E objs p flow source s now attempt [] results ids fdb edb = (Inr (results, ids), fdb, edb)"
| "run_loop H U adapter E objs p flow source s now attempt (step # rest) results ids fdb edb =
     (case run_step H U adapter E (objs (length results)) p flow source s now attempt (length results) step ids fdb edb of
        (Inl e, fdb', edb') \<Rightarrow> (Inl e, fdb', edb')
      | (Inr (result, i), fdb', edb') \<Rightarrow>
          if er_outcome result \<noteq> Eo_SUCCEEDED then (Inr (results @ [result], ids @ [i]), fdb', edb')
          else run_loop H U adapter E objs p flow source s now attempt rest (results @ [result]) (ids @ [i]) fdb' edb')"

text \<open>The outcome both kinds of runs report.\<close>

definition outcome_of_results ::
  "EndpointReconPlan \<Rightarrow> int \<Rightarrow> EndpointReconStepResult list \<Rightarrow> endpoint_error + EndpointReconOutcome" where
  "outcome_of_results p attempt results =
     (if results = [] then Inl EndpointValueError
      else validated EndpointReconOutcome_valid
        \<lparr>eo_plan_id = ep_plan_id p, eo_seed_set_id = ep_seed_set_id p, eo_outcome = er_outcome (last results),
         eo_results = results, eo_requests_used = int (length results), eo_attempt = attempt,
         eo_cleanup_complete = list_all er_cleanup_complete results, eo_completed_at = er_completed_at (last results)\<rparr>)"

text \<open>\<^verbatim>\<open>_verify_flow_results\<close>\<close>

definition verify_flow_results ::
  "evidence_env \<Rightarrow> objects \<Rightarrow> flow_db \<Rightarrow> EndpointReconPlan \<Rightarrow> EndpointReconStepResult list \<Rightarrow> digest list
   \<Rightarrow> endpoint_error + unit" where
  "verify_flow_results E objs fdb p results ids =
     bind_result (of_flow_store (flow_checkpoint fdb (ep_source_checkpoint_id p))) (\<lambda>source.
     bind_result (of_flow_store (latest_flow fdb (ep_flow_plan_id p))) (\<lambda>latest.
       if fc_revision latest \<noteq> fc_revision source + int (length results) \<or>
          fc_actions_used latest \<noteq> fc_actions_used source + int (length results) \<or>
          fc_observation_ids latest \<noteq> fc_observation_ids source @ ids
       then Inl (EndpointReconRejected ''Endpoint Recon Flow ledger consumption is inconsistent'')
       else all_ok (\<lambda>(step, result, i).
              bind_result (of_flow_store (flow_observation fdb (Some i))) (\<lambda>v.
              bind_result (step_result E objs step v) (\<lambda>again.
                if again \<noteq> result then Inl (EndpointReconRejected ''Endpoint Recon authoritative observation changed'')
                else Inr ()))) (zip (ep_steps p) (zip results ids))))"

text \<open>\<^verbatim>\<open>_run_via_flow\<close>; \<open>objs k\<close> is the evidence directory when the result of step \<open>k\<close> is built, \<open>objs'\<close> when the results are verified.\<close>

definition run_via_flow ::
  "(pyval \<Rightarrow> digest) \<Rightarrow> url_env \<Rightarrow> recon_adapter \<Rightarrow> evidence_env \<Rightarrow> (nat \<Rightarrow> objects) \<Rightarrow> objects \<Rightarrow> EndpointReconPlan \<Rightarrow> Scope
   \<Rightarrow> instant \<Rightarrow> int \<Rightarrow> flow_db \<Rightarrow> endpoint_db \<Rightarrow> (endpoint_error + EndpointReconOutcome) \<times> flow_db \<times> endpoint_db" where
  "run_via_flow H U adapter E objs objs' p s now attempt fdb edb =
     (case bind_result (of_flow_store (flow_plan fdb (ep_flow_plan_id p))) (\<lambda>flow.
           bind_result (of_flow_store (flow_checkpoint fdb (ep_source_checkpoint_id p))) (\<lambda>source. Inr (flow, source))) of
        Inl e \<Rightarrow> (Inl e, fdb, edb)
      | Inr (flow, source) \<Rightarrow>
          (case run_loop H U adapter E objs p flow source s now attempt (ep_steps p) [] [] fdb edb of
             (Inl e, fdb', edb') \<Rightarrow> (Inl e, fdb', edb')
           | (Inr (results, ids), fdb', edb') \<Rightarrow>
               (case bind_result (outcome_of_results p attempt results) (\<lambda>out.
                     bind_result (verify_flow_results E objs' fdb' p results ids) (\<lambda>_. Inr out)) of
                  Inl e \<Rightarrow> (Inl e, fdb', edb')
                | Inr out \<Rightarrow>
                    (case complete_run edb' out of
                       (Inl e, edb'') \<Rightarrow> (Inl (EndpointStoreError e), fdb', edb'')
                     | (Inr _, edb'') \<Rightarrow> (Inr out, fdb', edb'')))))"

definition execute_via_flow ::
  "(pyval \<Rightarrow> digest) \<Rightarrow> url_env \<Rightarrow> recon_adapter \<Rightarrow> evidence_env \<Rightarrow> (nat \<Rightarrow> objects) \<Rightarrow> objects \<Rightarrow> EndpointReconPlan \<Rightarrow> Scope
   \<Rightarrow> instant \<Rightarrow> flow_db \<Rightarrow> endpoint_db \<Rightarrow> (endpoint_error + EndpointReconOutcome) \<times> flow_db \<times> endpoint_db" where
  "execute_via_flow H U adapter E objs objs' p s now fdb edb =
     (if map_option fst (run_state edb (ep_plan_id p)) = Some RunState_COMPLETED
      then (bind_result (of_store (run_outcome edb (ep_plan_id p))) (\<lambda>out.
              if eo_plan_id out \<noteq> ep_plan_id p
              then Inl (EndpointReconRejected ''Endpoint Recon completed outcome binding is invalid'') else Inr out),
            fdb, edb)
      else case bind_result (flow_execution_binding H U fdb edb p s now False) (\<lambda>_. of_store (claim_run edb p now)) of
        Inl e \<Rightarrow> (Inl e, fdb, edb)
      | Inr (c, edb') \<Rightarrow>
          (case ec_outcome c of
             Some out \<Rightarrow> (Inr out, fdb, edb')
           | None \<Rightarrow> run_via_flow H U adapter E objs objs' p s now (ec_attempt c) fdb edb'))"

definition recover_via_flow ::
  "(pyval \<Rightarrow> digest) \<Rightarrow> url_env \<Rightarrow> recon_adapter \<Rightarrow> evidence_env \<Rightarrow> (nat \<Rightarrow> objects) \<Rightarrow> objects \<Rightarrow> EndpointReconPlan \<Rightarrow> Scope
   \<Rightarrow> instant \<Rightarrow> flow_db \<Rightarrow> endpoint_db \<Rightarrow> (endpoint_error + EndpointReconOutcome) \<times> flow_db \<times> endpoint_db" where
  "recover_via_flow H U adapter E objs objs' p s now fdb edb =
     (case bind_result (flow_execution_binding H U fdb edb p s now True) (\<lambda>_. of_store (recover_started edb p now)) of
        Inl e \<Rightarrow> (Inl e, fdb, edb)
      | Inr (c, edb') \<Rightarrow> run_via_flow H U adapter E objs objs' p s now (ec_attempt c) fdb edb')"

section \<open>Running through an adapter of its own\<close>

definition dispatch ::
  "endpoint_adapter \<Rightarrow> EndpointReconPlan \<Rightarrow> int \<Rightarrow> instant \<Rightarrow> EndpointReconStep \<Rightarrow> endpoint_error + EndpointReconStepResult" where
  "dispatch adapter p attempt now step =
     (case adapter step now (min (ep_deadline p) (now + float_seconds (el_per_request_seconds (ep_limits p)))) of
        Inr result \<Rightarrow> Inr result
      | Inl EndpointReconAdapterInterrupted \<Rightarrow>
          if attempt < el_max_attempts (ep_limits p) then Inl EndpointReconAdapterInterrupted
          else validated EndpointReconStepResult_valid
            \<lparr>er_step_id = st_step_id step, er_target_url_digest = st_target_url_digest step, er_outcome = Eo_FAILED,
             er_status_code = None, er_reason_code = ''adapter_attempts_exhausted'', er_evidence_refs = [],
             er_web_response_snapshot_id = None, er_response_bytes = None, er_response_body_sha256 = None,
             er_cleanup_complete = False, er_completed_at = now\<rparr>
      | Inl e \<Rightarrow> Inl e)"

definition timed_result ::
  "EndpointReconPlan \<Rightarrow> EndpointReconStep \<Rightarrow> rat \<Rightarrow> EndpointReconStepResult \<Rightarrow> endpoint_error + EndpointReconStepResult" where
  "timed_result p step elapsed result =
     (if el_per_request_seconds (ep_limits p) \<le> elapsed
      then validated EndpointReconStepResult_valid
        \<lparr>er_step_id = st_step_id step, er_target_url_digest = st_target_url_digest step, er_outcome = Eo_TIMED_OUT,
         er_status_code = None, er_reason_code = ''per_request_deadline_exceeded'', er_evidence_refs = [],
         er_web_response_snapshot_id = None, er_response_bytes = None, er_response_body_sha256 = None,
         er_cleanup_complete = er_cleanup_complete result, er_completed_at = er_completed_at result\<rparr>
      else Inr result)"

definition result_provenance ::
  "evidence_env \<Rightarrow> objects \<Rightarrow> EndpointReconPlan \<Rightarrow> EndpointReconStep \<Rightarrow> EndpointReconStepResult \<Rightarrow> bool" where
  "result_provenance E objs p step r \<longleftrightarrow>
     \<not> (er_step_id r \<noteq> st_step_id step \<or> er_target_url_digest r \<noteq> st_target_url_digest step \<or>
        \<not> (ep_created_at p \<le> er_completed_at r \<and> er_completed_at r < ep_deadline p) \<or>
        list_ex (\<lambda>ref. \<not> contains E objs ref) (er_evidence_refs r) \<or>
        (er_outcome r = Eo_SUCCEEDED \<and> st_method step = Meth_GET \<and>
         (er_web_response_snapshot_id r = None \<or> er_response_bytes r = None \<or> er_response_body_sha256 r = None \<or>
          length (er_evidence_refs r) \<noteq> 1)) \<or>
        (st_method step = Meth_HEAD \<and>
         (er_web_response_snapshot_id r \<noteq> None \<or> er_response_bytes r \<noteq> None \<or> er_response_body_sha256 r \<noteq> None)))"

text \<open>The loop of \<^verbatim>\<open>_run\<close>. Before the loop the clock is read once, and three times in every completed round.\<close>

fun direct_loop ::
  "endpoint_adapter \<Rightarrow> (nat \<Rightarrow> rat) \<Rightarrow> evidence_env \<Rightarrow> (nat \<Rightarrow> objects) \<Rightarrow> EndpointReconPlan \<Rightarrow> instant \<Rightarrow> int
   \<Rightarrow> EndpointReconStep list \<Rightarrow> EndpointReconStepResult list \<Rightarrow> endpoint_error + EndpointReconStepResult list" where
  "direct_loop adapter clk E objs p now attempt [] results = Inr results"
| "direct_loop adapter clk E objs p now attempt (step # rest) results =
     (let k = 3 * length results
      in if el_max_requests (ep_limits p) \<le> int (length results) \<or> ep_deadline p \<le> now \<or>
            el_total_seconds (ep_limits p) \<le> clk (k + 1) - clk 0
         then Inl EndpointReconTimedOut
         else
           bind_result (dispatch adapter p attempt now step) (\<lambda>dispatched.
           bind_result (timed_result p step (clk (k + 3) - clk (k + 2)) dispatched) (\<lambda>result.
             if \<not> result_provenance E (objs (length results)) p step result
             then Inl (EndpointReconRejected ''Endpoint Recon result provenance is invalid'')
             else if er_outcome result \<noteq> Eo_SUCCEEDED then Inr (results @ [result])
             else direct_loop adapter clk E objs p now attempt rest (results @ [result]))))"

text \<open>\<^verbatim>\<open>_run\<close>: an adapter that fails leaves the run started.\<close>

definition run_direct ::
  "(pyval \<Rightarrow> digest) \<Rightarrow> url_env \<Rightarrow> endpoint_adapter \<Rightarrow> (nat \<Rightarrow> rat) \<Rightarrow> evidence_env \<Rightarrow> (nat \<Rightarrow> objects) \<Rightarrow> flow_db \<Rightarrow> EndpointReconPlan
   \<Rightarrow> Scope \<Rightarrow> instant \<Rightarrow> int \<Rightarrow> endpoint_db \<Rightarrow> (endpoint_error + EndpointReconOutcome) \<times> endpoint_db" where
  "run_direct H U adapter clk E objs fdb p s now attempt edb =
     (case bind_result (direct_loop adapter clk E objs p now attempt (ep_steps p) []) (\<lambda>results.
           bind_result (outcome_of_results p attempt results) (\<lambda>out.
           bind_result (plan_binding H U fdb edb p s (eo_completed_at out)) (\<lambda>_. Inr out))) of
        Inl e \<Rightarrow> (Inl e, edb)
      | Inr out \<Rightarrow>
          (case complete_run edb out of
             (Inl e, edb') \<Rightarrow> (Inl (EndpointStoreError e), edb') | (Inr _, edb') \<Rightarrow> (Inr out, edb')))"

text \<open>\<^verbatim>\<open>execute\<close> and \<^verbatim>\<open>recover\<close>, with \<^verbatim>\<open>_claim\<close>\<close>

definition claim_endpoint ::
  "(pyval \<Rightarrow> digest) \<Rightarrow> url_env \<Rightarrow> flow_db \<Rightarrow> endpoint_db \<Rightarrow> EndpointReconPlan \<Rightarrow> Scope \<Rightarrow> instant \<Rightarrow> bool
   \<Rightarrow> endpoint_error + (EndpointReconClaim \<times> endpoint_db)" where
  "claim_endpoint H U fdb edb p s now recover =
     bind_result (plan_binding H U fdb edb p s now) (\<lambda>_.
       of_store (if recover then recover_started edb p now else claim_run edb p now))"

definition execute_endpoint ::
  "(pyval \<Rightarrow> digest) \<Rightarrow> url_env \<Rightarrow> endpoint_adapter \<Rightarrow> (nat \<Rightarrow> rat) \<Rightarrow> evidence_env \<Rightarrow> (nat \<Rightarrow> objects) \<Rightarrow> flow_db \<Rightarrow> EndpointReconPlan
   \<Rightarrow> Scope \<Rightarrow> instant \<Rightarrow> endpoint_db \<Rightarrow> (endpoint_error + EndpointReconOutcome) \<times> endpoint_db" where
  "execute_endpoint H U adapter clk E objs fdb p s now edb =
     (case claim_endpoint H U fdb edb p s now False of
        Inl e \<Rightarrow> (Inl e, edb)
      | Inr (c, edb') \<Rightarrow>
          (case ec_outcome c of
             Some out \<Rightarrow> (Inr out, edb')
           | None \<Rightarrow> run_direct H U adapter clk E objs fdb p s now (ec_attempt c) edb'))"

definition recover_endpoint ::
  "(pyval \<Rightarrow> digest) \<Rightarrow> url_env \<Rightarrow> endpoint_adapter \<Rightarrow> (nat \<Rightarrow> rat) \<Rightarrow> evidence_env \<Rightarrow> (nat \<Rightarrow> objects) \<Rightarrow> flow_db \<Rightarrow> EndpointReconPlan
   \<Rightarrow> Scope \<Rightarrow> instant \<Rightarrow> endpoint_db \<Rightarrow> (endpoint_error + EndpointReconOutcome) \<times> endpoint_db" where
  "recover_endpoint H U adapter clk E objs fdb p s now edb =
     (case claim_endpoint H U fdb edb p s now True of
        Inl e \<Rightarrow> (Inl e, edb)
      | Inr (c, edb') \<Rightarrow> run_direct H U adapter clk E objs fdb p s now (ec_attempt c) edb')"

end
