(* ===== verification/Endpoint_Store_Facts.thy ===== *)
theory Endpoint_Store_Facts
  imports Endpoint_Store
begin

text \<open>
  Histories of the endpoint store: one relation for all its operations, the invariant they keep, and that the reservation of a plan,
  read back from the store, moves only by the transitions of \<open>Endpoint_Reservation\<close>.
\<close>

section \<open>Histories\<close>

inductive endpoint_op :: "(pyval \<Rightarrow> digest) \<Rightarrow> (string \<Rightarrow> digest) \<Rightarrow> endpoint_db \<Rightarrow> endpoint_db \<Rightarrow> bool" for H S db db' where
  sealed: "seal db x = Inr (y, db') \<Longrightarrow> endpoint_op H S db db'"
| reserved: "EndpointReconPlan_valid H S p \<Longrightarrow> reserve_plan db p remaining = Inr (q, db') \<Longrightarrow> endpoint_op H S db db'"
| consumed: "consume_request db i now = Inr (r, db') \<Longrightarrow> endpoint_op H S db db'"
| cancelled: "cancel_reservation db i now reason = Inr (r, db') \<Longrightarrow> endpoint_op H S db db'"
| expired: "expire_reservation db i now = Inr (r, db') \<Longrightarrow> endpoint_op H S db db'"
| claimed: "claim_run db p now = Inr (c, db') \<Longrightarrow> endpoint_op H S db db'"
| recovered: "recover_started db p now = Inr (c, db') \<Longrightarrow> endpoint_op H S db db'"
| completed: "complete_run db x = (e, db') \<Longrightarrow> endpoint_op H S db db'"

definition endpoint_store_ok :: "endpoint_db \<Rightarrow> bool" where
  "endpoint_store_ok db \<longleftrightarrow>
     distinct (map row_plan_id (edb_plans db)) \<and>
     list_all (\<lambda>q. EndpointReconReservation_valid (row_reservation q)) (edb_plans db) \<and>
     distinct (map run_plan_id (edb_runs db)) \<and> list_all (\<lambda>r. 1 \<le> rr_attempt r) (edb_runs db)"

lemma empty_endpoints_ok: "endpoint_store_ok empty_endpoints"
  by (simp add: endpoint_store_ok_def empty_endpoints_def)

section \<open>The reservation of a plan\<close>

lemma from_reservation_Inr [result_simps]: "from_reservation r = Inr x \<longleftrightarrow> r = Inr x"
  by (simp add: from_reservation_def split: sum.splits)

lemma reservation_Inr:
  "reservation db i = Inr r \<longleftrightarrow>
     (\<exists>q. List.find (\<lambda>q. row_plan_id q = i) (edb_plans db) = Some q \<and> row_reservation q = r \<and> EndpointReconReservation_valid r)"
  by (auto simp: reservation_def endpoint_row_def validate_reservation_def from_reservation_def split: option.splits if_splits)

definition booked :: "digest \<Rightarrow> endpoint_db \<Rightarrow> EndpointReconReservation option" where
  "booked i db = map_option row_reservation (List.find (\<lambda>q. row_plan_id q = i) (edb_plans db))"

lemma booked_reservation: "endpoint_store_ok db \<Longrightarrow> reservation db i = Inr r \<longleftrightarrow> booked i db = Some r"
  by (auto simp: reservation_Inr booked_def endpoint_store_ok_def list_all_iff dest: find_SomeD)

text \<open>The abstract book of one plan: a reservation is opened once and then follows its state machine.\<close>

inductive book_step :: "EndpointReconReservation option \<Rightarrow> EndpointReconReservation option \<Rightarrow> bool" where
  idle: "book_step b b"
| opened: "reserve_endpoint_recon p = Inr r \<Longrightarrow> book_step None (Some r)"
| moved: "reservation_step r r' \<Longrightarrow> book_step (Some r) (Some r')"

lemma booked_same: "edb_plans db' = edb_plans db \<Longrightarrow> book_step (booked i db) (booked i db')"
  by (simp add: booked_def book_step.idle)

lemma same_plans_ok:
  "endpoint_store_ok db \<Longrightarrow> edb_plans db' = edb_plans db \<Longrightarrow> edb_runs db' = edb_runs db \<Longrightarrow> endpoint_store_ok db'"
  by (simp add: endpoint_store_ok_def)

subsection \<open>Updating one row\<close>

lemma reservation_step_record:
  assumes "reservation_step r r'"
  shows "r' = r\<lparr>rv_state := rv_state r', rv_consumed_requests := rv_consumed_requests r', rv_updated_at := rv_updated_at r',
     rv_terminal_reason := rv_terminal_reason r'\<rparr>"
  using assms by cases (auto simp: reservation_defs result_simps Let_def split: if_splits)

lemma row_reservation_write:
  assumes "reservation_step (row_reservation q) r"
  shows "row_reservation (write_consumed r q) = r"
    and "rv_consumed_requests r = pr_consumed q \<Longrightarrow> row_reservation (write_terminal r q) = r"
  using reservation_step_record [OF assms]
  by (simp_all add: row_reservation_def write_consumed_def write_terminal_def row_plan_id_def)

lemma write_keeps_plan [simp]:
  "row_plan_id (write_consumed r q) = row_plan_id q" "row_plan_id (write_terminal r q) = row_plan_id q"
  by (simp_all add: row_plan_id_def write_consumed_def write_terminal_def)

text \<open>The row of a plan in the invariant is the only one that an update of its state can touch.\<close>

lemma find_update_row:
  assumes "\<And>q. row_plan_id (upd q) = row_plan_id q"
  shows "List.find (\<lambda>q. row_plan_id q = j) (map (\<lambda>q. if P q then upd q else q) qs) =
    map_option (\<lambda>q. if P q then upd q else q) (List.find (\<lambda>q. row_plan_id q = j) qs)"
  using assms by (induction qs) auto

lemma update_reservation_effect:
  assumes ok: "endpoint_store_ok db" and q: "List.find (\<lambda>q. row_plan_id q = i) (edb_plans db) = Some q"
    and step: "reservation_step (row_reservation q) r"
    and upd: "\<And>q. row_plan_id (upd q) = row_plan_id q" "row_reservation (upd q) = r"
    and db': "db' = fst (update_reservation db i (row_reservation q) upd)"
  shows "endpoint_store_ok db'" "book_step (booked j db) (booked j db')"
proof -
  have q_in: "q \<in> set (edb_plans db)" "row_plan_id q = i" using q by (auto dest: find_SomeD)
  have only: "x = q" if "x \<in> set (edb_plans db)" "holds_state i (row_reservation q) x" for x
    using ok that q_in by (auto simp: endpoint_store_ok_def holds_state_def distinct_map dest: inj_onD)
  have hit: "holds_state i (row_reservation q) q" using q_in(2) by (simp add: holds_state_def row_reservation_def)
  have ids: "map row_plan_id (edb_plans db') = map row_plan_id (edb_plans db)"
    using upd(1) by (simp add: db' update_reservation_def)
  have runs: "edb_runs db' = edb_runs db" by (simp add: db' update_reservation_def)
  have "EndpointReconReservation_valid (row_reservation x)" if "x \<in> set (edb_plans db')" for x
    using that ok only upd(2) reservation_step_effect(2) [OF step]
    by (auto simp: db' update_reservation_def endpoint_store_ok_def list_all_iff split: if_splits)
  then show "endpoint_store_ok db'"
    using ok ids by (simp add: endpoint_store_ok_def list_all_iff runs)
  have "booked j db' = (if j = i then Some r else booked j db)"
    using q hit upd(2) find_update_row [of upd, OF upd(1), of j "holds_state i (row_reservation q)" "edb_plans db"]
    by (auto simp: booked_def db' update_reservation_def holds_state_def option.map_comp comp_def intro!: option.map_cong
        dest!: find_SomeD)
  then show "book_step (booked j db) (booked j db')"
    using q step by (auto simp: booked_def intro: book_step.intros)
qed

section \<open>The invariant\<close>

lemma reserve_plan_cases:
  assumes "hex_valued H" and "EndpointReconPlan_valid H S p" and "reserve_plan db p remaining = Inr (x, db')"
  obtains "db' = db"
  | q where "db' = db\<lparr>edb_plans := edb_plans db @ [q]\<rparr>" "reserve_endpoint_recon p = Inr (row_reservation q)"
      "row_plan_id q = ep_plan_id p" "ep_plan_id p \<notin> set (map row_plan_id (edb_plans db))"
proof (cases "List.find (\<lambda>q. row_plan_id q = ep_plan_id p \<or> ep_idempotency_key (pr_plan q) = ep_idempotency_key p) (edb_plans db)")
  case (Some q)
  then show thesis using assms(3) that(1) by (auto simp: reserve_plan_def split: if_splits)
next
  case None
  let ?q = "\<lparr>pr_plan = p, pr_state = Res_ACTIVE, pr_consumed = 0, pr_updated_at = Some (ep_created_at p), pr_terminal_reason = None\<rparr>"
  have "is_digest (ep_plan_id p)" using assms(1,2) by (simp add: EndpointReconPlan_valid_def sealed_by_def hex_valued_def)
  then have "reserve_endpoint_recon p = Inr (row_reservation ?q)"
    using assms(2) by (auto simp: reserve_endpoint_recon_def validate_reservation_def row_reservation_def row_plan_id_def
        EndpointReconReservation_valid_def EndpointReconPlan_valid_def)
  moreover have "db' = db\<lparr>edb_plans := edb_plans db @ [?q]\<rparr>"
    using assms(3) None by (auto simp: reserve_plan_def split: if_splits)
  moreover have "ep_plan_id p \<notin> set (map row_plan_id (edb_plans db))" using None by (auto simp: find_None_iff)
  ultimately show thesis using that(2) [of ?q] by (simp add: row_plan_id_def)
qed

lemma reserve_plan_effect:
  assumes "hex_valued H" and ok: "endpoint_store_ok db" and "EndpointReconPlan_valid H S p"
    and "reserve_plan db p remaining = Inr (x, db')"
  shows "endpoint_store_ok db' \<and> book_step (booked j db) (booked j db')"
  using assms(1,3,4)
proof (cases rule: reserve_plan_cases)
  case (2 q)
  then have "EndpointReconReservation_valid (row_reservation q)"
    by (auto simp: reserve_endpoint_recon_def validate_reservation_def split: if_splits)
  moreover have "booked j db' = (if j = ep_plan_id p then Some (row_reservation q) else booked j db)"
    using 2 by (auto simp: booked_def find_append find_None_iff split: option.splits dest!: find_SomeD) (metis imageI)+
  moreover have "booked (ep_plan_id p) db = None" using 2(4) by (force simp: booked_def find_None_iff)
  ultimately show ?thesis
    using 2 ok by (auto simp: endpoint_store_ok_def intro: book_step.intros)
qed (use ok in \<open>simp add: book_step.idle\<close>)

lemma consume_request_effect:
  assumes "endpoint_store_ok db" and "consume_request db i now = Inr (r, db')"
  shows "endpoint_store_ok db' \<and> book_step (booked j db) (booked j db')"
proof -
  obtain q where q: "List.find (\<lambda>q. row_plan_id q = i) (edb_plans db) = Some q"
    and r: "consume_endpoint_recon_request (row_reservation q) now = Inr r"
    and db': "db' = fst (update_reservation db i (row_reservation q) (write_consumed r))"
    using assms(2) by (auto simp: consume_request_def reservation_Inr result_simps case_prod_beta split: if_splits)
  note step = reservation_step.consumed [OF r]
  show ?thesis
    using update_reservation_effect [OF assms(1) q step _ row_reservation_write(1) [OF step] db'] by simp
qed

lemma terminal_reservation_effect:
  assumes "endpoint_store_ok db" and "terminal_reservation db i t = Inr (r, db')"
    and t: "\<And>b a. t b = Inr a \<Longrightarrow> a \<noteq> b \<Longrightarrow> reservation_step b a \<and> rv_consumed_requests a = rv_consumed_requests b"
  shows "endpoint_store_ok db' \<and> book_step (booked j db) (booked j db')"
proof (cases "db' = db")
  case False
  then obtain q where q: "List.find (\<lambda>q. row_plan_id q = i) (edb_plans db) = Some q"
    and r: "t (row_reservation q) = Inr r" "r \<noteq> row_reservation q"
    and db': "db' = fst (update_reservation db i (row_reservation q) (write_terminal r))"
    using assms(2) by (auto simp: terminal_reservation_def reservation_Inr result_simps Let_def case_prod_beta split: if_splits)
  have step: "reservation_step (row_reservation q) r" and "rv_consumed_requests r = pr_consumed q"
    using t [OF r] by (simp_all add: row_reservation_def)
  then show ?thesis
    using update_reservation_effect [OF assms(1) q step _ row_reservation_write(2) [OF step] db'] by simp
qed (use assms(1) in \<open>simp add: book_step.idle\<close>)

lemma cancel_step:
  "cancel_endpoint_recon b now reason = Inr a \<Longrightarrow> a \<noteq> b \<Longrightarrow>
     reservation_step b a \<and> rv_consumed_requests a = rv_consumed_requests b"
  using reservation_step.cancelled [of b now reason a] by (auto simp: reservation_defs result_simps split: if_splits)

lemma expire_step:
  "expire_endpoint_recon b now = Inr a \<Longrightarrow> a \<noteq> b \<Longrightarrow>
     reservation_step b a \<and> rv_consumed_requests a = rv_consumed_requests b"
  using reservation_step.expired [of b now a] by (auto simp: reservation_defs result_simps split: if_splits)

lemma update_started_ids:
  assumes "\<And>r. rr_plan (upd r) = rr_plan r"
  shows "map run_plan_id (edb_runs (fst (update_started db i n upd))) = map run_plan_id (edb_runs db)"
    "edb_plans (fst (update_started db i n upd)) = edb_plans db"
  using assms by (auto simp: update_started_def run_plan_id_def)

lemma runs_effect:
  assumes "claim_run db p now = Inr (c, db') \<or> recover_started db p now = Inr (c, db') \<or> complete_run db x = (e, db')"
  shows "edb_plans db' = edb_plans db"
    "map run_plan_id (edb_runs db') = map run_plan_id (edb_runs db) \<or>
     (\<exists>k. k \<notin> set (map run_plan_id (edb_runs db)) \<and> map run_plan_id (edb_runs db') = map run_plan_id (edb_runs db) @ [k])" (is ?ids)
proof -
  have "edb_plans db' = edb_plans db \<and> ?ids" if "claim_run db p now = Inr (c, db')"
  proof (cases "List.find (run_of_plan p) (edb_runs db)")
    case None
    then have "ep_plan_id p \<notin> set (map run_plan_id (edb_runs db))" by (auto simp: find_None_iff run_of_plan_def)
    then show ?thesis using that None by (auto simp: claim_run_def result_simps run_plan_id_def)
  next
    case (Some r)
    then show ?thesis using that by (auto simp: claim_run_def result_simps split: if_splits)
  qed
  moreover have "edb_plans db' = edb_plans db \<and> ?ids" if "recover_started db p now = Inr (c, db')"
    using that update_started_ids [of _ db]
    by (auto simp: recover_started_def result_simps Let_def case_prod_beta split: option.splits if_splits)
  moreover have "edb_plans db' = edb_plans db \<and> ?ids" if "complete_run db x = (e, db')"
    using that update_started_ids [of _ db] by (auto simp: complete_run_def Let_def case_prod_beta)
  ultimately show "edb_plans db' = edb_plans db" ?ids using assms by blast+
qed

lemma runs_attempts:
  assumes "list_all (\<lambda>r. 1 \<le> rr_attempt r) (edb_runs db)"
    and "claim_run db p now = Inr (c, db') \<or> recover_started db p now = Inr (c, db') \<or> complete_run db x = (e, db')"
  shows "list_all (\<lambda>r. 1 \<le> rr_attempt r) (edb_runs db')"
  using assms
  by (auto simp: claim_run_def recover_started_def complete_run_def update_started_def result_simps Let_def list_all_iff
      split: option.splits if_splits dest!: find_SomeD) (meson order_trans zero_le_one)+

lemma runs_keep_ok:
  assumes "endpoint_store_ok db"
    and "claim_run db p now = Inr (c, db') \<or> recover_started db p now = Inr (c, db') \<or> complete_run db x = (e, db')"
  shows "endpoint_store_ok db' \<and> book_step (booked j db) (booked j db')"
  using runs_effect [OF assms(2)] runs_attempts [OF _ assms(2)] assms(1) booked_same by (auto simp: endpoint_store_ok_def)

lemma endpoint_op_effect:
  assumes "hex_valued H" and "endpoint_store_ok db" and "endpoint_op H S db db'"
  shows "endpoint_store_ok db' \<and> book_step (booked j db) (booked j db')"
  using assms(3)
proof cases
  case (sealed x y)
  then have "edb_plans db' = edb_plans db" "edb_runs db' = edb_runs db" by (auto simp: seal_def split: option.splits if_splits)
  then show ?thesis using assms(2) booked_same same_plans_ok by simp
next
  case (reserved p remaining q)
  then show ?thesis using reserve_plan_effect [OF assms(1,2)] by blast
next
  case (consumed i now r)
  then show ?thesis using consume_request_effect [OF assms(2)] by blast
next
  case (cancelled i now reason r)
  then show ?thesis
    unfolding cancel_reservation_def by (rule terminal_reservation_effect [OF assms(2)]) (rule cancel_step)
next
  case (expired i now r)
  then show ?thesis
    unfolding expire_reservation_def by (rule terminal_reservation_effect [OF assms(2)]) (rule expire_step)
next
  case (claimed p now c)
  then show ?thesis using runs_keep_ok [OF assms(2)] by blast
next
  case (recovered p now c)
  then show ?thesis using runs_keep_ok [OF assms(2)] by blast
next
  case (completed x e)
  then show ?thesis using runs_keep_ok [OF assms(2)] by blast
qed

interpretation reservation_book: implementation "endpoint_op H S" "\<lambda>db. hex_valued H \<and> endpoint_store_ok db" "booked i" book_step
  by unfold_locales (auto dest: endpoint_op_effect)

lemma reachable_endpoints_ok:
  assumes "hex_valued H" and "steps (endpoint_op H S) empty_endpoints n db"
  shows "endpoint_store_ok db"
  using reservation_book.steps_simulated [OF assms(2)] assms(1) empty_endpoints_ok by blast

lemma book_steps_moved:
  assumes "steps book_step (Some r) m b"
  shows "\<exists>k r'. k \<le> m \<and> b = Some r' \<and> steps reservation_step r k r'"
  using assms
proof (induction "Some r" m b rule: steps.induct)
  case (steps_step n t u)
  then obtain k r' where k: "k \<le> n" "t = Some r'" "steps reservation_step r k r'" by blast
  from steps_step(3) k show ?case
    by cases (auto intro: le_SucI steps.steps_step)
qed (blast intro: steps_refl)

end
