(* ===== verification/Endpoint_Service_Facts.thy ===== *)
theory Endpoint_Service_Facts
  imports Endpoint_Service Endpoint_Store_Facts Red_Team_Service_Facts
begin

text \<open>
  What a run through the flow service can do to the flow's store. An attempt after the first one never starts an action: it
  replays finished actions, retries started ones, and is refused for the others.
\<close>

section \<open>Started actions\<close>

definition begun :: "flow_db \<Rightarrow> RedTeamReconAction list" where
  "begun db = map ar_action (fdb_actions db)"

lemma retry_begun: "map ar_action (map (retry_row cmd n) rows) = map ar_action rows"
  by (simp add: retry_row_def)

lemma complete_begun: "map ar_action (map (complete_row cmd i) rows) = map ar_action rows"
  by (simp add: complete_row_def)

lemma found_begun: "List.find P (fdb_actions db) = Some r \<Longrightarrow> ar_action r \<in> set (begun db)"
  by (auto simp: begun_def dest: find_SomeD)

lemma completed_action_begun: "completed_action db cmd = Inr (Some v) \<Longrightarrow> cm_action cmd \<in> set (begun db)"
  by (auto simp: completed_action_def result_simps split: option.splits if_splits dest: found_begun)

lemma claim_action_begun:
  assumes "claim_action db cmd = Inr (x, db')" and "cm_attempt cmd \<noteq> 1"
  shows "begun db' = begun db \<and> cm_action cmd \<in> set (begun db)"
proof (cases "List.find (same_action (cm_action cmd)) (fdb_actions db)")
  case None
  then show ?thesis using assms by (simp add: claim_action_def claim_first_def integrity_Inr)
next
  case (Some r)
  then have known: "claim_known db cmd r = Inr (x, db')" using assms(1) by (simp add: claim_action_def integrity_Inr)
  then have "ar_action r = cm_action cmd" "begun db' = begun db"
    by (auto simp: claim_known_def retry_action_def begun_def result_simps Let_def retry_begun simp del: map_map
        split: if_splits)
  then show ?thesis using found_begun [OF Some] by simp
qed

lemma complete_action_begun: "complete_action db cmd c d v = Inr (x, db') \<Longrightarrow> begun db' = begun db"
  by (auto simp: complete_action_def insert_observation_def insert_flow_checkpoint_def integrity_Inr result_simps begun_def
      complete_begun simp del: map_map split: if_splits)

lemma check_recon_replay: "check_recon H U db cmd s now url = Inr (Replay c v) \<Longrightarrow> completed_action db cmd = Inr (Some v)"
  by (auto simp: check_recon_def Let_def result_simps from_store_Inr split: if_splits option.splits)

lemma finish_recon_begun: "finish_recon H db p c s cmd v = Inr (x, db') \<Longrightarrow> begun db' = begun db"
  by (auto simp: finish_recon_def result_simps from_store_Inr dest: complete_action_begun split: if_splits)

lemma later_attempt_begun:
  assumes "execute_bound_recon H U adapter db cmd s now url = (x, db')" and "cm_attempt cmd \<noteq> 1"
  shows "begun db' = begun db \<and> (is_ok x \<longrightarrow> cm_action cmd \<in> set (begun db))"
  using assms(1) claim_action_begun [OF _ assms(2), of db]
  by (auto simp: execute_bound_recon_def bind_result_Inr_iff
      split: sum.splits recon_check.splits option.splits prod.splits
      dest!: finish_recon_begun completed_action_begun check_recon_replay)

section \<open>Runs through the flow service\<close>

lemma of_service_Inr [result_simps]: "of_service r = Inr x \<longleftrightarrow> r = Inr x"
  by (simp add: of_service_def split: sum.splits)

lemma of_store_Inr [result_simps]: "of_store r = Inr x \<longleftrightarrow> r = Inr x"
  by (simp add: of_store_def split: sum.splits)

lemma of_flow_store_Inr [result_simps]: "of_flow_store r = Inr x \<longleftrightarrow> r = Inr x"
  by (simp add: of_flow_store_def split: sum.splits)

definition step_begun :: "flow_db \<Rightarrow> EndpointReconPlan \<Rightarrow> EndpointReconStep \<Rightarrow> bool" where
  "step_begun fdb p step \<longleftrightarrow> list_ex (\<lambda>a. ra_idempotency_key a = step_key p step) (begun fdb)"

lemma prepare_endpoint_recon_Inr:
  assumes "prepare_endpoint_recon H edb flow c p step s attempt now = Inr cmd"
  shows "cm_attempt cmd = attempt" "ra_idempotency_key (cm_action cmd) = step_key p step"
  using assms by (auto simp: prepare_endpoint_recon_def RedTeamReconAction_create_def RedTeamReconCommand_create_def Let_def
      result_simps from_create_Inr split: if_splits)

lemma execute_endpoint_recon_begun:
  assumes "execute_endpoint_recon H U adapter fdb edb cmd p step s now = (x, fdb')" and "cm_attempt cmd \<noteq> 1"
  shows "begun fdb' = begun fdb \<and> (is_ok x \<longrightarrow> cm_action cmd \<in> set (begun fdb))"
  using assms(1) later_attempt_begun [OF _ assms(2), of H U adapter fdb s now "st_target_url step"]
  by (auto simp: execute_endpoint_recon_def Let_def split: sum.splits if_splits prod.splits)

lemma run_step_begun:
  assumes "run_step H U adapter E objs p flow source s now attempt k step ids fdb edb = (x, fdb', edb')" and "attempt \<noteq> 1"
  shows "begun fdb' = begun fdb \<and> (is_ok x \<longrightarrow> step_begun fdb p step)"
proof -
  have exec: "begun db = begun fdb \<and> (is_ok y \<longrightarrow> step_begun fdb p step)"
    if "prepare_endpoint_recon H edb flow c p step s attempt now = Inr cmd"
      "execute_endpoint_recon H U adapter fdb edb cmd p step s now = (y, db)" for edb c cmd y db
    using execute_endpoint_recon_begun [OF that(2)] prepare_endpoint_recon_Inr [OF that(1)] assms(2)
    by (auto simp: step_begun_def list_ex_iff)
  show ?thesis
    using assms(1) unfolding run_step_def
    by (auto split: sum.splits if_splits prod.splits dest!: exec)
qed

lemma run_loop_begun:
  assumes "run_loop H U adapter E objs p flow source s now attempt todo results ids fdb edb = (x, fdb', edb')" and "attempt \<noteq> 1"
  shows "begun fdb' = begun fdb \<and>
    (\<forall>rs is. x = Inr (rs, is) \<longrightarrow> list_all (step_begun fdb p) todo \<or> er_outcome (last rs) \<noteq> Eo_SUCCEEDED)"
  using assms
proof (induction todo arbitrary: results ids fdb edb)
  case (Cons step rest)
  obtain y fdb1 edb1 where step: "run_step H U adapter E (objs (length results)) p flow source s now attempt (length results)
      step ids fdb edb = (y, fdb1, edb1)" by (cases rule: prod_cases3)
  note begun = run_step_begun [OF step Cons.prems(2)]
  show ?case
  proof (cases y)
    case (Inl e)
    then show ?thesis using Cons.prems(1) step begun by auto
  next
    case (Inr z)
    obtain result i where z: "z = (result, i)" by (cases z)
    show ?thesis
    proof (cases "er_outcome result = Eo_SUCCEEDED")
      case True
      then have "run_loop H U adapter E objs p flow source s now attempt rest (results @ [result]) (ids @ [i]) fdb1 edb1 = (x, fdb', edb')"
        using Cons.prems(1) step Inr z by simp
      from Cons.IH [OF this Cons.prems(2)] begun Inr show ?thesis
        by (auto simp: step_begun_def)
    next
      case False
      then show ?thesis using Cons.prems(1) step Inr z begun by auto
    qed
  qed
qed simp

lemma outcome_of_results_Inr:
  "outcome_of_results p attempt results = Inr out \<Longrightarrow> results \<noteq> [] \<and> eo_outcome out = er_outcome (last results)"
  by (auto simp: outcome_of_results_def validated_def split: if_splits)

lemma run_via_flow_begun:
  assumes "run_via_flow H U adapter E objs objs' p s now attempt fdb edb = (x, fdb', edb')" and "attempt \<noteq> 1"
  shows "begun fdb' = begun fdb \<and>
    (\<forall>out. x = Inr out \<longrightarrow> list_all (step_begun fdb p) (ep_steps p) \<or> eo_outcome out \<noteq> Eo_SUCCEEDED)"
proof -
  have loop: "begun db = begun fdb \<and> (\<forall>rs is. y = Inr (rs, is) \<longrightarrow>
      list_all (step_begun fdb p) (ep_steps p) \<or> er_outcome (last rs) \<noteq> Eo_SUCCEEDED)"
    if "run_loop H U adapter E objs p flow source s now attempt (ep_steps p) [] [] fdb edb = (y, db, edb1)" for flow source y db edb1
    using run_loop_begun [OF that assms(2)] .
  show ?thesis
    using assms(1) unfolding run_via_flow_def
    by (auto simp: result_simps split: sum.splits prod.splits dest!: loop outcome_of_results_Inr)
qed

lemma recover_started_attempt:
  assumes "endpoint_store_ok edb" and "recover_started edb p now = Inr (c, edb')"
  shows "ec_attempt c \<noteq> 1"
  using assms by (force simp: recover_started_def endpoint_store_ok_def list_all_iff result_simps Let_def case_prod_beta
      split: option.splits if_splits dest!: find_SomeD)

lemma recover_via_flow_begun:
  assumes "endpoint_store_ok edb" and "recover_via_flow H U adapter E objs objs' p s now fdb edb = (x, fdb', edb')"
  shows "begun fdb' = begun fdb \<and>
    (\<forall>out. x = Inr out \<longrightarrow> list_all (step_begun fdb p) (ep_steps p) \<or> eo_outcome out \<noteq> Eo_SUCCEEDED)"
  using assms(2) run_via_flow_begun [OF _ recover_started_attempt [OF assms(1)]]
  by (auto simp: recover_via_flow_def result_simps split: sum.splits prod.splits)

end
