(* ===== verification/Endpoint_Properties.thy ===== *)
theory Endpoint_Properties
  imports Endpoint_Service_Facts Engagement_Properties Critic_Properties
begin

text \<open>
  Properties of the endpoint store and service: the store keeps the reservation of every plan on its state machine,
  and the recovery of an interrupted run cannot start the steps that the interruption left unstarted.
\<close>

section \<open>A concrete run\<close>

text \<open>A flow with three actions and an endpoint plan of two steps, whose first step is interrupted.\<close>

definition int_entry :: "(string \<times> pyval) list \<Rightarrow> string \<Rightarrow> int option" where
  "int_entry kvs k = (case map_of kvs k of Some (PInt n) \<Rightarrow> Some n | _ \<Rightarrow> None)"

definition str_entry :: "(string \<times> pyval) list \<Rightarrow> string \<Rightarrow> string option" where
  "str_entry kvs k = (case map_of kvs k of Some (PStr t) \<Rightarrow> Some t | _ \<Rightarrow> None)"

definition ep_entries :: "(string \<times> pyval) list \<Rightarrow> digest list" where
  "ep_entries kvs = concat (map (case_option [] (\<lambda>d. [d]))
     [str_entry kvs ''path_digest'', str_entry kvs ''action_id'',
      map_option (\<lambda>k. pad_digest (8 + k)) (int_entry kvs ''ordinal''),
      map_option (\<lambda>u. pad_digest (int (length u) mod 16)) (str_entry kvs ''target_url''),
      map_option pad_digest (int_entry kvs ''revision''), map_option pad_digest (int_entry kvs ''attempt'')])"

definition ep_digest :: "pyval \<Rightarrow> digest" where
  "ep_digest v =
     (let d = (case v of
          PStr t \<Rightarrow> pad_digest (int (length t))
        | PDict kvs \<Rightarrow> hd (ep_entries kvs @ [pad_digest 0])
        | _ \<Rightarrow> pad_digest 0)
      in if is_digest d then d else pad_digest 0)"

definition ep_text_digest :: "string \<Rightarrow> digest" where
  "ep_text_digest t = pad_digest (int (length t) mod 16)"

definition ep_flow :: RedTeamFlowPlan where
  "ep_flow = rt_plan\<lparr>fp_rules := (fp_rules rt_plan)\<lparr>
     stop_conditions := \<lparr>stop_at = 9000, max_actions = 3, max_consecutive_failures = 2\<rparr>\<rparr>\<rparr>"

definition ep_started :: flow_db where
  "ep_started = rt_started\<lparr>fdb_plans := [ep_flow]\<rparr>"

definition ep_seeds :: EndpointSeedSet where
  "ep_seeds = \<lparr>ss_seed_set_id = pad_digest 0, ss_flow_plan_id = pad_digest 0, ss_source_checkpoint_id = pad_digest 1,
     ss_target_id = 9, ss_scope_id = 8, ss_scope_version = 1, ss_operator_ref = ''operator:ops'',
     ss_seeds = [\<lparr>sd_seed_id = pad_digest 2, sd_path = ''/a'', sd_path_digest = pad_digest 2\<rparr>,
                 \<lparr>sd_seed_id = pad_digest 3, sd_path = ''/bb'', sd_path_digest = pad_digest 3\<rparr>],
     ss_sealed_at = 10, ss_expires_at = 5000, ss_idempotency_key = ''seeds''\<rparr>"

definition ep_step :: "int \<Rightarrow> string \<Rightarrow> EndpointReconStep" where
  "ep_step k url = \<lparr>st_step_id = pad_digest (8 + k), st_seed_id = pad_digest (1 + k), st_ordinal = k, st_target_url = url,
     st_target_url_digest = ep_text_digest url, st_method = Meth_HEAD\<rparr>"

definition ep_plan :: EndpointReconPlan where
  "ep_plan = \<lparr>ep_plan_id = pad_digest 0, ep_seed_set_id = pad_digest 0, ep_flow_plan_id = pad_digest 0,
     ep_source_checkpoint_id = pad_digest 1, ep_target_id = 9, ep_scope_id = 8, ep_scope_version = 1, ep_test_class = ''read_only'',
     ep_steps = [ep_step 1 ''https://shop.test/a'', ep_step 2 ''https://shop.test/bb''],
     ep_limits = \<lparr>el_max_steps = 2, el_max_requests = 2, el_per_request_seconds = 1, el_total_seconds = 60, el_max_attempts = 3\<rparr>,
     ep_created_at = 12, ep_deadline = 4000, ep_idempotency_key = ''plan''\<rparr>"

definition ep_sealed :: endpoint_db where
  "ep_sealed = empty_endpoints\<lparr>edb_seed_sets := [ep_seeds]\<rparr>"

definition ep_reserved :: endpoint_db where
  "ep_reserved = ep_sealed\<lparr>edb_plans := [\<lparr>pr_plan = ep_plan, pr_state = Res_ACTIVE, pr_consumed = 0, pr_updated_at = Some 12,
     pr_terminal_reason = None\<rparr>]\<rparr>"

definition ep_running :: "int \<Rightarrow> instant \<Rightarrow> endpoint_db" where
  "ep_running n t = ep_reserved\<lparr>edb_runs := [\<lparr>rr_plan = ep_plan, rr_state = RunState_STARTED, rr_attempt = n, rr_started_at = t,
     rr_outcome = None\<rparr>]\<rparr>"

definition ep_action :: RedTeamReconAction where
  "ep_action = \<lparr>ra_action_id = ep_text_digest ''https://shop.test/a'', ra_plan_id = pad_digest 0,
     ra_expected_checkpoint_id = pad_digest 1, ra_kind = HTTP_HEAD, ra_target_url = ''https://shop.test/a'',
     ra_test_class = ''read_only'', ra_impact = Imp_READ_ONLY, ra_created_at = 12, ra_deadline = 4000,
     ra_idempotency_key = step_key ep_plan (ep_step 1 ''https://shop.test/a'')\<rparr>"

definition ep_command :: "int \<Rightarrow> RedTeamReconCommand" where
  "ep_command n = \<lparr>cm_command_id = pad_digest n, cm_action = ep_action, cm_attempt = n\<rparr>"

definition ep_interrupted :: flow_db where
  "ep_interrupted = ep_started\<lparr>fdb_actions := [grant_row (ep_command 1)]\<rparr>"

definition ep_seen :: recon_adapter where
  "ep_seen a now = Inr \<lparr>ro_observation_id = ra_action_id a, ro_action_id = ra_action_id a, ro_outcome = Rec_SUCCEEDED,
     ro_status_code = Some 204, ro_reason_code = ''ok'', ro_cleanup_complete = True, ro_sensitive_data_redacted = True,
     ro_attack_surface = Some \<lparr>as_snapshot_id = ra_action_id a, as_plan_id = ra_plan_id a, as_action_id = ra_action_id a,
       as_target_id = 9, as_scope_id = 8, as_scope_version = 1, as_requested_url_digest = ep_text_digest (ra_target_url a),
       as_final_url_digest = ep_text_digest (ra_target_url a), as_status_code = 204, as_peer_ip = ''10.0.0.7'',
       as_redirect_count = 0, as_evidence_refs = [pad_digest 5], as_policy_record_digests = [pad_digest 0],
       as_captured_at = now\<rparr>,
     ro_service_identity = None, ro_web_response = None, ro_observed_at = now\<rparr>"

lemma ep_digest_hex: "hex_valued ep_digest"
  by (simp add: hex_valued_def ep_digest_def Let_def pad_digest_digest)

lemma ep_plan_valid: "EndpointReconPlan_valid ep_digest ep_text_digest ep_plan"
  by code_simp

lemma ep_operations:
  "seal empty_endpoints ep_seeds = Inr (ep_seeds, ep_sealed)"
  "reserve_plan ep_sealed ep_plan 3 = Inr (ep_plan, ep_reserved)"
  "claim_run ep_reserved ep_plan 20 = Inr (\<lparr>ec_created = True, ec_attempt = 1, ec_outcome = None\<rparr>, ep_running 1 20)"
  by code_simp+

lemmas ep_step_op = steps_step [where step = "endpoint_op ep_digest ep_text_digest"]

lemma ep_reserved_reachable: "steps (endpoint_op ep_digest ep_text_digest) empty_endpoints 2 ep_reserved"
  using ep_step_op [OF ep_step_op [OF steps_refl endpoint_op.sealed [OF ep_operations(1)]]
      endpoint_op.reserved [OF ep_plan_valid ep_operations(2)]]
  by (simp add: numeral_2_eq_2)

lemma ep_running_reachable: "steps (endpoint_op ep_digest ep_text_digest) empty_endpoints 3 (ep_running 1 20)"
  using ep_step_op [OF ep_reserved_reachable endpoint_op.claimed [OF ep_operations(3)]] by simp

text \<open>The flow's store after the first step was claimed and its adapter was interrupted.\<close>

lemma ep_first_step:
  "claim_action ep_started (ep_command 1) = Inr (None, ep_interrupted)"
  "\<not> step_begun ep_interrupted ep_plan (ep_step 2 ''https://shop.test/bb'')"
  by code_simp+

section \<open>The properties\<close>

text \<open>C18. The store implements the reservation machine: from any reachable store, whatever operations follow on any plans and runs, the
  reservation of a plan read back from its row is the old one moved by accepted reservation transitions only, at most one per
  store operation, so it never reserves more than its plan's steps nor consumes more than it reserved.\<close>

theorem reservations_follow_machine:
  assumes "hex_valued H" and "steps (endpoint_op H S) empty_endpoints n db" and "reservation db i = Inr r"
    and "steps (endpoint_op H S) db m db'"
  shows "\<exists>k r'. reservation db' i = Inr r' \<and> k \<le> m \<and> steps reservation_step r k r' \<and>
    rv_reserved_requests r' = rv_reserved_requests r \<and> rv_consumed_requests r' \<le> rv_reserved_requests r"
proof -
  have ok: "endpoint_store_ok db" by (rule reachable_endpoints_ok [OF assms(1,2)])
  then have start: "booked i db = Some r" using assms(3) booked_reservation by blast
  have "endpoint_store_ok db'" and "steps book_step (Some r) m (booked i db')"
    using reservation_book.steps_simulated [OF assms(4)] assms(1) ok start by metis+
  then obtain k r' where k: "k \<le> m" "booked i db' = Some r'" "steps reservation_step r k r'" "reservation db' i = Inr r'"
    using book_steps_moved booked_reservation by blast
  then have "rv_consumed_requests r' \<le> rv_reserved_requests r'"
    by (auto simp: reservation_Inr EndpointReconReservation_valid_def)
  then show ?thesis using k reservation_steps_keep [OF k(3)] by auto
qed

theorem reservations_follow_machine_witness:
  "\<exists>k r'. reservation (ep_running 1 20) (pad_digest 0) = Inr r' \<and> k \<le> 1 \<and>
     steps reservation_step (row_reservation (hd (edb_plans ep_reserved))) k r' \<and>
     rv_reserved_requests r' = rv_reserved_requests (row_reservation (hd (edb_plans ep_reserved))) \<and>
     rv_consumed_requests r' \<le> rv_reserved_requests (row_reservation (hd (edb_plans ep_reserved)))"
proof (rule reservations_follow_machine [OF ep_digest_hex ep_reserved_reachable])
  show "reservation ep_reserved (pad_digest 0) = Inr (row_reservation (hd (edb_plans ep_reserved)))" by code_simp
  show "steps (endpoint_op ep_digest ep_text_digest) ep_reserved 1 (ep_running 1 20)"
    using ep_step_op [OF steps_refl endpoint_op.claimed [OF ep_operations(3)]] by simp
qed

text \<open>C34. Recovery cannot finish a run of several steps: when a step of the plan has no action in the flow's store, that is, the run was
  interrupted at an earlier step, no recovery reports success, whatever the adapter answers, and it leaves the step without an
  action, so that the next recovery is in the same position.\<close>

theorem unstarted_step_blocks_recovery:
  assumes "hex_valued H" and "steps (endpoint_op H S) empty_endpoints n edb"
    and "step \<in> set (ep_steps p)" and "\<not> step_begun fdb p step"
    and "recover_via_flow H U adapter E objs objs' p s now fdb edb = (x, fdb', edb')"
  shows "(case x of Inl _ \<Rightarrow> True | Inr out \<Rightarrow> eo_outcome out \<noteq> Eo_SUCCEEDED) \<and> \<not> step_begun fdb' p step"
  using recover_via_flow_begun [OF reachable_endpoints_ok [OF assms(1,2)] assms(5)] assms(3,4)
  by (auto simp: step_begun_def list_all_iff split: sum.splits)

theorem unstarted_step_blocks_recovery_witness:
  "\<exists>x fdb edb. recover_via_flow ep_digest rt_env ep_seen plain_evidence (\<lambda>_. plain_objects) plain_objects ep_plan rt_scope 30
       ep_interrupted (ep_running 1 20) = (x, fdb, edb) \<and>
     (case x of Inl _ \<Rightarrow> True | Inr out \<Rightarrow> eo_outcome out \<noteq> Eo_SUCCEEDED) \<and>
     \<not> step_begun fdb ep_plan (ep_step 2 ''https://shop.test/bb'')"
proof -
  obtain x fdb edb where r: "recover_via_flow ep_digest rt_env ep_seen plain_evidence (\<lambda>_. plain_objects) plain_objects ep_plan
      rt_scope 30 ep_interrupted (ep_running 1 20) = (x, fdb, edb)" by (rule prod_cases3)
  have "ep_step 2 ''https://shop.test/bb'' \<in> set (ep_steps ep_plan)" by (simp add: ep_plan_def)
  from unstarted_step_blocks_recovery [OF ep_digest_hex ep_running_reachable this ep_first_step(2) r] r show ?thesis by blast
qed

end
