(* ===== verification/Replan_Service.thy ===== *)
theory Replan_Service
  imports Red_Team_Service
begin

text \<open>
  Observation-driven replanning, \<^verbatim>\<open>src/src/vulnloom/red_team/replan_service.py\<close>: issuing the finite view a proposer may choose from,
  admitting a proposal as a reserved action, executing the admitted action under an exact approval, and releasing an
  admission.
\<close>

section \<open>Errors and sealed values\<close>

datatype replan_error =
    RedTeamReplanRejected string | ReplanService service_error | ReplanStore flow_store_error | ReplanValueError

text \<open>\<^verbatim>\<open>except ValueError\<close>: every error the guarded calls raise is one.\<close>

definition rejecting :: "string \<Rightarrow> 'e + 'a \<Rightarrow> replan_error + 'a" where
  "rejecting msg r = (case r of Inl _ \<Rightarrow> Inl (RedTeamReplanRejected msg) | Inr x \<Rightarrow> Inr x)"

definition by_store :: "flow_store_error + 'a \<Rightarrow> replan_error + 'a" where
  "by_store r = (case r of Inl e \<Rightarrow> Inl (ReplanStore e) | Inr x \<Rightarrow> Inr x)"

definition by_service :: "service_error + 'a \<Rightarrow> replan_error + 'a" where
  "by_service r = (case r of Inl e \<Rightarrow> Inl (ReplanService e) | Inr x \<Rightarrow> Inr x)"

definition by_create :: "'a option \<Rightarrow> replan_error + 'a" where
  "by_create x = (case x of None \<Rightarrow> Inl ReplanValueError | Some y \<Rightarrow> Inr y)"

definition RedTeamReplanToolView_create ::
  "(pyval \<Rightarrow> digest) \<Rightarrow> RedTeamReplanToolView \<Rightarrow> RedTeamReplanToolView option" where
  "RedTeamReplanToolView_create H v =
     (let w = v\<lparr>tv_tool_view_id := H (RedTeamReplanToolView_content v)\<rparr>
      in if RedTeamReplanToolView_valid H w then Some w else None)"

definition RedTeamReplanAdmission_create ::
  "(pyval \<Rightarrow> digest) \<Rightarrow> RedTeamReplanAdmission \<Rightarrow> RedTeamReplanAdmission option" where
  "RedTeamReplanAdmission_create H v =
     (let a = v\<lparr>ad_admission_id := H (RedTeamReplanAdmission_content v)\<rparr>
      in if RedTeamReplanAdmission_valid H a then Some a else None)"

definition RedTeamReplanExecutionReceipt_create ::
  "(pyval \<Rightarrow> digest) \<Rightarrow> RedTeamReplanExecutionReceipt \<Rightarrow> RedTeamReplanExecutionReceipt option" where
  "RedTeamReplanExecutionReceipt_create H v =
     (let r = v\<lparr>rr_receipt_id := H (RedTeamReplanExecutionReceipt_content v)\<rparr>
      in if RedTeamReplanExecutionReceipt_valid H r then Some r else None)"

section \<open>Views and admissions\<close>

definition verify_observations :: "flow_db \<Rightarrow> digest \<Rightarrow> digest list \<Rightarrow> replan_error + unit" where
  "verify_observations db i ids =
     all_ok (\<lambda>k.
       bind_result (by_store (flow_observation db (Some k))) (\<lambda>v.
       bind_result (by_store (flow_action db (ro_action_id v))) (\<lambda>a.
         if ra_plan_id a \<noteq> i \<or> ra_action_id a \<noteq> ro_action_id v
         then Inl (RedTeamReplanRejected ''Red Team replan Observation provenance drifted'') else Inr ()))) ids"

definition replan_kinds :: "RedTeamFlowPlan \<Rightarrow> RedTeamActionKind list" where
  "replan_kinds p =
     sort_key red_team_kind_value (HTTP_HEAD # (if prefix ''https://'' (wt_url (fp_target p)) then [TLS_INSPECT] else []))"

definition issue_tool_view ::
  "(pyval \<Rightarrow> digest) \<Rightarrow> url_env \<Rightarrow> flow_db \<Rightarrow> digest \<Rightarrow> Scope \<Rightarrow> instant \<Rightarrow> int
   \<Rightarrow> replan_error + (RedTeamReplanToolView \<times> flow_db)" where
  "issue_tool_view H U db i s now ttl_seconds =
     (if \<not> (0 < ttl_seconds \<and> ttl_seconds \<le> 300)
      then Inl (RedTeamReplanRejected ''Red Team replan Tool View TTL is invalid'')
      else
        bind_result (by_store (flow_plan db i)) (\<lambda>p.
        bind_result (by_store (latest_flow db i)) (\<lambda>c.
        bind_result (by_service (preflight_running H U db p c s now)) (\<lambda>_.
          if fc_observation_ids c = []
          then Inl (RedTeamReplanRejected ''Red Team replanning requires an Observation'')
          else
            bind_result (verify_observations db (fp_plan_id p) (fc_observation_ids c)) (\<lambda>_.
            bind_result (by_store (remaining_action_budget db (fp_plan_id p))) (\<lambda>remaining.
              if remaining < 1 then Inl (RedTeamReplanRejected ''Red Team replan action budget is exhausted'')
              else
                bind_result (by_create (RedTeamReplanToolView_create H
                  \<lparr>tv_tool_view_id = [], tv_flow_plan_id = fp_plan_id p, tv_checkpoint_id = fc_checkpoint_id c,
                   tv_target_id = wt_target_id (fp_target p), tv_target_url_digest = H (PStr (wt_url (fp_target p))),
                   tv_scope_id = scope_id s, tv_scope_version = sc_version s,
                   tv_observation_ids = sort (fc_observation_ids c), tv_allowed_action_kinds = replan_kinds p,
                   tv_allowed_test_classes = roe_allowed_test_classes (fp_rules p), tv_remaining_actions = remaining,
                   tv_issued_at = now, tv_expires_at = min (now + seconds ttl_seconds) (fp_deadline p)\<rparr>)) (\<lambda>view.
                by_store (put_replan_tool_view db view))))))))"

definition replan_request :: "Scope \<Rightarrow> RedTeamFlowPlan \<Rightarrow> RedTeamReconAction \<Rightarrow> instant \<Rightarrow> ActionRequest" where
  "replan_request s p a now =
     flow_request s (wt_target_id (fp_target p)) (''red_team.replan.'' @ red_team_kind_value (ra_kind a)) now (ra_target_url a)
       (Some (ra_test_class a))"

definition policy_decision ::
  "(pyval \<Rightarrow> digest) \<Rightarrow> url_env \<Rightarrow> Scope \<Rightarrow> ActionRequest \<Rightarrow> ApprovalRequest list \<Rightarrow> replan_error + Decision" where
  "policy_decision H U s r approvals =
     (case decide H U s r approvals of Inl e \<Rightarrow> Inl (ReplanService (ServicePolicy e)) | Inr d \<Rightarrow> Inr d)"

text \<open>The authority of an admission: the existing admission of the proposal, or its view, plan and latest checkpoint.\<close>

datatype replan_authority = Existing RedTeamReplanAdmission | Fresh RedTeamReplanToolView RedTeamFlowPlan RedTeamCheckpoint

definition find_authority ::
  "flow_db \<Rightarrow> RedTeamReplanProposal \<Rightarrow> Scope \<Rightarrow> service_error + replan_authority" where
  "find_authority db q s =
     bind_result (from_store (replan_admission_for_proposal db q)) (\<lambda>found.
       case found of
         Some a \<Rightarrow>
           bind_result (from_store (flow_plan db (ad_flow_plan_id a))) (\<lambda>p.
           bind_result (scope_binding p s) (\<lambda>_. Inr (Existing a)))
       | None \<Rightarrow>
           bind_result (from_store (replan_tool_view db (rp_tool_view_id q))) (\<lambda>view.
           bind_result (from_store (flow_plan db (tv_flow_plan_id view))) (\<lambda>p.
           bind_result (from_store (latest_flow db (fp_plan_id p))) (\<lambda>c. Inr (Fresh view p c)))))"

definition admit ::
  "(pyval \<Rightarrow> digest) \<Rightarrow> url_env \<Rightarrow> flow_db \<Rightarrow> RedTeamReplanProposal \<Rightarrow> Scope \<Rightarrow> instant
   \<Rightarrow> replan_error + (RedTeamReplanAdmission \<times> flow_db)" where
  "admit H U db q s now =
     bind_result (rejecting ''Red Team replan authority is unavailable'' (find_authority db q s)) (\<lambda>authority.
       case authority of
         Existing a \<Rightarrow> Inr (a, db)
       | Fresh view p c \<Rightarrow>
           bind_result (by_service (preflight_running H U db p c s now)) (\<lambda>_.
             if fc_checkpoint_id c \<noteq> tv_checkpoint_id view \<or>
                \<not> (tv_issued_at view \<le> rp_proposed_at q \<and> rp_proposed_at q \<le> now \<and> now < tv_expires_at view) \<or>
                rp_source_observation_ids q \<noteq> tv_observation_ids view \<or>
                rp_action_kind q \<notin> set (tv_allowed_action_kinds view) \<or>
                rp_test_class q \<notin> set (tv_allowed_test_classes view) \<or> tv_target_id view \<noteq> wt_target_id (fp_target p) \<or>
                tv_target_url_digest view \<noteq> H (PStr (wt_url (fp_target p))) \<or> tv_scope_id view \<noteq> scope_id s \<or>
                tv_scope_version view \<noteq> sc_version s
             then Inl (RedTeamReplanRejected ''Red Team replan proposal exceeds its Tool View'')
             else
               bind_result (verify_observations db (fp_plan_id p) (rp_source_observation_ids q)) (\<lambda>_.
               bind_result (by_create (RedTeamReconAction_create H
                 \<lparr>ra_action_id = [], ra_plan_id = fp_plan_id p, ra_expected_checkpoint_id = fc_checkpoint_id c,
                  ra_kind = rp_action_kind q, ra_target_url = wt_url (fp_target p), ra_test_class = rp_test_class q,
                  ra_impact = Imp_READ_ONLY, ra_created_at = now,
                  ra_deadline = min (now + seconds (rp_ttl_seconds q)) (tv_expires_at view),
                  ra_idempotency_key = ''red-team:replan:'' @ rp_idempotency_key q\<rparr>)) (\<lambda>a.
               bind_result (policy_decision H U s (replan_request s p a now) []) (\<lambda>d.
                   if effect d \<noteq> ALLOW
                   then Inl (RedTeamReplanRejected ''Red Team replanned action was denied by policy'')
                   else
                     bind_result (by_create (RedTeamReconCommand_create H
                       \<lparr>cm_command_id = [], cm_action = a, cm_attempt = 1\<rparr>)) (\<lambda>cmd.
                     bind_result (by_create (RedTeamReplanAdmission_create H
                       \<lparr>ad_admission_id = [], ad_proposal_id = rp_proposal_id q, ad_tool_view_id = tv_tool_view_id view,
                        ad_flow_plan_id = fp_plan_id p, ad_source_checkpoint_id = fc_checkpoint_id c,
                        ad_source_observation_ids = rp_source_observation_ids q, ad_command = cmd,
                        ad_policy_request_digest = request_digest H (replan_request s p a now),
                        ad_required_approval_action = EXECUTE_RED_TEAM_ACTION,
                        ad_required_approval_digest = ra_action_id a, ad_admitted_at = now\<rparr>)) (\<lambda>admission.
                     rejecting ''Red Team replan admission was rejected'' (admit_replan db q admission))))))))"

section \<open>Execution\<close>

text \<open>The checks of \<^verbatim>\<open>execute\<close> before the flow service is called.\<close>

definition check_replan ::
  "(pyval \<Rightarrow> digest) \<Rightarrow> url_env \<Rightarrow> flow_db \<Rightarrow> RedTeamReplanAdmission \<Rightarrow> RedTeamReconCommand \<Rightarrow> ApprovalRequest \<Rightarrow> Scope \<Rightarrow> instant
   \<Rightarrow> replan_error + unit" where
  "check_replan H U db a cmd approval s now =
     bind_result (rejecting ''Red Team replan admission is unavailable'' (replan_admission db (ad_admission_id a))) (\<lambda>stored.
       if stored \<noteq> a \<or> cm_action cmd \<noteq> cm_action (ad_command a) \<or> cm_attempt cmd < cm_attempt (ad_command a) \<or>
          appr_engagement_id approval \<noteq> sc_engagement_id s
       then Inl (RedTeamReplanRejected ''Red Team replanned execution binding is invalid'')
       else
         bind_result (by_store (flow_plan db (ad_flow_plan_id a))) (\<lambda>p.
           if appr_target_id approval \<noteq> Some (wt_target_id (fp_target p)) \<or>
              \<not> is_valid_for approval EXECUTE_RED_TEAM_ACTION (ad_required_approval_digest a) now \<or>
              policy_version approval \<noteq> sc_version s \<or> appr_decided_by approval = None \<or> appr_decided_at approval = None
           then Inl (RedTeamReplanRejected ''Red Team replanned action lacks exact Approval'')
           else
             let r = replan_request s p (cm_action cmd) (ad_admitted_at a)
             in if request_digest H r \<noteq> ad_policy_request_digest a
                then Inl (RedTeamReplanRejected ''Red Team replanned policy binding drifted'')
                else bind_result (policy_decision H U s r [approval]) (\<lambda>d.
                    if effect d \<noteq> ALLOW then Inl (RedTeamReplanRejected ''Red Team replanned policy binding drifted'')
                    else bind_result (by_store (replan_admission_state db (ad_admission_id a))) (\<lambda>st.
                      if st \<notin> {Adm_RESERVED, Adm_CONSUMED}
                      then Inl (RedTeamReplanRejected ''Red Team replanned policy binding drifted'') else Inr ()))))"

text \<open>What follows a successful execution: the receipt that exists is compared, or a new one is stored.\<close>

definition settle_receipt ::
  "(pyval \<Rightarrow> digest) \<Rightarrow> flow_db \<Rightarrow> RedTeamReplanAdmission \<Rightarrow> RedTeamReconCommand \<Rightarrow> ApprovalRequest \<Rightarrow> instant \<Rightarrow> RedTeamCheckpoint
   \<Rightarrow> RedTeamReconObservation \<Rightarrow> replan_error + flow_db" where
  "settle_receipt H db a cmd approval now c v =
     (case replan_execution_receipt_for_admission db (ad_admission_id a) of
        Some r \<Rightarrow>
          if rr_flow_plan_id r \<noteq> ad_flow_plan_id a \<or> rr_source_checkpoint_id r \<noteq> ad_source_checkpoint_id a \<or>
             rr_result_checkpoint_id r \<noteq> fc_checkpoint_id c \<or> rr_action_id r \<noteq> ra_action_id (cm_action cmd) \<or>
             rr_observation_id r \<noteq> ro_observation_id v
          then Inl (RedTeamReplanRejected ''completed Red Team replan Execution Receipt drifted'') else Inr db
      | None \<Rightarrow>
          bind_result (by_create (RedTeamReplanExecutionReceipt_create H
            \<lparr>rr_receipt_id = [], rr_admission_id = ad_admission_id a, rr_flow_plan_id = ad_flow_plan_id a,
             rr_source_checkpoint_id = ad_source_checkpoint_id a, rr_result_checkpoint_id = fc_checkpoint_id c,
             rr_action_id = ra_action_id (cm_action cmd), rr_observation_id = ro_observation_id v,
             rr_approval_id = approval_id approval, rr_approval_action = appr_action approval,
             rr_approval_digest = action_digest approval, rr_completed_at = now,
             rr_cleanup_complete = ro_cleanup_complete v, rr_sensitive_data_redacted = ro_sensitive_data_redacted v,
             rr_execution_authority_granted = False\<rparr>)) (\<lambda>r.
          bind_result (rejecting ''Red Team replan Execution Receipt was not persisted''
            (put_replan_execution_receipt db r)) (\<lambda>(_, db'). Inr db')))"

definition execute_replan ::
  "(pyval \<Rightarrow> digest) \<Rightarrow> url_env \<Rightarrow> recon_adapter \<Rightarrow> flow_db \<Rightarrow> RedTeamReplanAdmission \<Rightarrow> RedTeamReconCommand \<Rightarrow> ApprovalRequest
   \<Rightarrow> Scope \<Rightarrow> instant \<Rightarrow> (replan_error + RedTeamCheckpoint \<times> RedTeamReconObservation) \<times> flow_db" where
  "execute_replan H U adapter db a cmd approval s now =
     (case check_replan H U db a cmd approval s now of
        Inl e \<Rightarrow> (Inl e, db)
      | Inr _ \<Rightarrow>
          (case execute_recon H U adapter db cmd s now of
             (Inl (RedTeamRejected msg), db') \<Rightarrow> (Inl (RedTeamReplanRejected msg), db')
           | (Inl e, db') \<Rightarrow> (Inl (ReplanService e), db')
           | (Inr (c, v), db') \<Rightarrow>
               if \<not> ro_cleanup_complete v \<or> \<not> ro_sensitive_data_redacted v then (Inr (c, v), db')
               else (case settle_receipt H db' a cmd approval now c v of
                       Inl e \<Rightarrow> (Inl e, db') | Inr db'' \<Rightarrow> (Inr (c, v), db''))))"

section \<open>Release\<close>

definition release ::
  "flow_db \<Rightarrow> RedTeamReplanAdmission \<Rightarrow> Scope \<Rightarrow> instant \<Rightarrow> string \<Rightarrow> replan_error + flow_db" where
  "release db a s now state =
     bind_result (rejecting ''Red Team replan admission is unavailable''
       (bind_result (replan_admission db (ad_admission_id a)) (\<lambda>stored.
        bind_result (flow_plan db (ad_flow_plan_id a)) (\<lambda>p. Inr (stored, p))))) (\<lambda>(stored, p).
     bind_result (by_service (scope_binding p s)) (\<lambda>_.
       if stored \<noteq> a \<or> now < ad_admitted_at a
       then Inl (RedTeamReplanRejected ''Red Team replan release binding is invalid'')
       else rejecting ''Red Team replan admission is not releasable''
              (release_replan_admission db (ad_admission_id a) state)))"

definition cancel_replan :: "flow_db \<Rightarrow> RedTeamReplanAdmission \<Rightarrow> Scope \<Rightarrow> instant \<Rightarrow> replan_error + flow_db" where
  "cancel_replan db a s now = release db a s now ''cancelled''"

definition expire_replan :: "flow_db \<Rightarrow> RedTeamReplanAdmission \<Rightarrow> Scope \<Rightarrow> instant \<Rightarrow> replan_error + flow_db" where
  "expire_replan db a s now =
     (if now < ra_deadline (cm_action (ad_command a))
      then Inl (RedTeamReplanRejected ''Red Team replan admission has not expired'')
      else release db a s now ''expired'')"

end
