(* ===== verification/Replan_Properties.thy ===== *)
theory Replan_Properties
  imports Replan_Service Engagement_Properties
begin

text \<open>
  The authority behind a replanned action: the adapter of an execution is consulted only for the stored admission, under an exact
  and current approval, inside the approved Scope and while the flow is running.
\<close>

lemma rejecting_Inr [result_simps]: "rejecting msg r = Inr x \<longleftrightarrow> r = Inr x"
  by (simp add: rejecting_def split: sum.splits)

lemma by_store_Inr [result_simps]: "by_store r = Inr x \<longleftrightarrow> r = Inr x"
  by (simp add: by_store_def split: sum.splits)

lemma check_replan_Inr:
  assumes "check_replan H U db a cmd approval s now = Inr u"
  shows "replan_admission db (ad_admission_id a) = Inr a" "cm_action cmd = cm_action (ad_command a)"
    "appr_engagement_id approval = sc_engagement_id s" "policy_version approval = sc_version s"
    "is_valid_for approval EXECUTE_RED_TEAM_ACTION (ad_required_approval_digest a) now"
    "appr_decided_by approval \<noteq> None" "appr_decided_at approval \<noteq> None"
    "replan_admission_state db (ad_admission_id a) \<in> {Inr Adm_RESERVED, Inr Adm_CONSUMED}"
    "\<exists>p. flow_plan db (ad_flow_plan_id a) = Inr p \<and> appr_target_id approval = Some (wt_target_id (fp_target p))"
  using assms by (auto simp: check_replan_def Let_def result_simps split: if_splits sum.splits)

text \<open>An adapter matters only behind the checks of the flow service.\<close>

lemma adapter_consulted:
  assumes "execute_recon H U f db cmd s now \<noteq> execute_recon H U g db cmd s now"
  obtains p c where "check_recon H U db cmd s now (wt_url (fp_target p)) = Inr (Proceed p c)"
proof -
  obtain p where p: "flow_plan db (ra_plan_id (cm_action cmd)) = Inr p"
    "execute_bound_recon H U f db cmd s now (wt_url (fp_target p)) \<noteq> execute_bound_recon H U g db cmd s now (wt_url (fp_target p))"
    using assms by (auto simp: execute_recon_def split: if_splits sum.splits)
  obtain q c where "check_recon H U db cmd s now (wt_url (fp_target p)) = Inr (Proceed q c)"
    using p(2) by (auto simp: execute_bound_recon_def split: sum.splits recon_check.splits)
  moreover from this p(1) have "q = p" by (auto simp: check_recon_def Let_def result_simps split: if_splits option.splits)
  ultimately show thesis using that by blast
qed

text \<open>C9. A replanned action touches its target only under exact authority: when the outcome of an execution depends on what the
  adapter does, the admission is the stored one and still reserved or consumed, the command carries the admitted action, a
  granted, current and decided approval names exactly this action, its target, the engagement and the Scope's version, and the Scope is
  approved, valid and contains the URL, with the flow running and both deadlines ahead.\<close>

theorem replanned_action_approved:
  assumes "RedTeamReplanAdmission_valid H a"
    and "execute_replan H U f db a cmd approval s now \<noteq> execute_replan H U g db a cmd approval s now"
  shows "replan_admission db (ad_admission_id a) = Inr a \<and> cm_action cmd = cm_action (ad_command a) \<and>
    replan_admission_state db (ad_admission_id a) \<in> {Inr Adm_RESERVED, Inr Adm_CONSUMED} \<and>
    appr_status approval = Appr_GRANTED \<and> appr_action approval = EXECUTE_RED_TEAM_ACTION \<and>
    action_digest approval = ra_action_id (cm_action cmd) \<and> now < expires_at approval \<and>
    appr_engagement_id approval = sc_engagement_id s \<and> policy_version approval = sc_version s \<and>
    appr_decided_by approval \<noteq> None \<and> sc_state s = Scope_APPROVED \<and> in_validity_window s now \<and>
    (\<exists>p c. flow_plan db (ad_flow_plan_id a) = Inr p \<and> appr_target_id approval = Some (wt_target_id (fp_target p)) \<and>
       latest_flow db (fp_plan_id p) = Inr c \<and> fc_status c = Flow_RUNNING \<and>
       ra_target_url (cm_action cmd) = wt_url (fp_target p) \<and> url_in_scope U s (wt_url (fp_target p)) \<and>
       now < fp_deadline p \<and> now < ra_deadline (cm_action cmd))"
proof -
  have chk: "check_replan H U db a cmd approval s now = Inr ()"
    using assms(2) by (cases "check_replan H U db a cmd approval s now") (simp_all add: execute_replan_def)
  have differ: "execute_recon H U f db cmd s now \<noteq> execute_recon H U g db cmd s now"
  proof
    assume same: "execute_recon H U f db cmd s now = execute_recon H U g db cmd s now"
    show False using assms(2) unfolding execute_replan_def same by (rule notE) (rule refl)
  qed
  obtain p c where run: "check_recon H U db cmd s now (wt_url (fp_target p)) = Inr (Proceed p c)"
    using adapter_consulted [OF differ] .
  note guard = check_replan_Inr [OF chk] and proceed = check_recon_proceed [OF run]
  have a: "ra_plan_id (cm_action cmd) = ad_flow_plan_id a" "ad_required_approval_digest a = ra_action_id (cm_action cmd)"
    using assms(1) guard(2) by (auto simp: RedTeamReplanAdmission_valid_def)
  have p: "flow_plan db (ad_flow_plan_id a) = Inr p"
    using run a(1) by (auto simp: check_recon_def Let_def result_simps split: if_splits option.splits)
  have approval: "appr_status approval = Appr_GRANTED" "appr_action approval = EXECUTE_RED_TEAM_ACTION"
    "action_digest approval = ra_action_id (cm_action cmd)" "now < expires_at approval"
    using guard(5) a(2) by (auto simp: is_valid_for_def)
  have "appr_target_id approval = Some (wt_target_id (fp_target p))" using guard(9) p by auto
  then show ?thesis using guard(1-4,6,8) approval p proceed by auto
qed

definition rt_approval :: ApprovalRequest where
  "rt_approval = \<lparr>approval_id = 72, appr_engagement_id = 7, appr_target_id = Some 9, appr_action = EXECUTE_RED_TEAM_ACTION,
     action_digest = pad_digest 0, appr_expected_side_effects = [], appr_evidence_summary = ''replan'', policy_version = 1,
     expires_at = 500, appr_status = Appr_GRANTED, appr_decided_by = Some ''owner'', appr_decided_at = Some 15\<rparr>"

lemma rt_replans:
  "is_ok (fst (execute_replan rt_digest rt_env rt_adapter rt_admitted rt_admission (rt_command 1) rt_approval rt_scope 20))"
  "\<not> is_ok (fst (execute_replan rt_digest rt_env (\<lambda>_ _. Inl AdapterFailed) rt_admitted rt_admission (rt_command 1) rt_approval rt_scope 20))"
  by code_simp+

theorem replanned_action_approved_witness:
  "action_digest rt_approval = ra_action_id (cm_action (rt_command 1)) \<and> (20 :: int) < expires_at rt_approval \<and>
   replan_admission rt_admitted (ad_admission_id rt_admission) = Inr rt_admission"
proof -
  have "execute_replan rt_digest rt_env rt_adapter rt_admitted rt_admission (rt_command 1) rt_approval rt_scope 20 \<noteq>
    execute_replan rt_digest rt_env (\<lambda>_ _. Inl AdapterFailed) rt_admitted rt_admission (rt_command 1) rt_approval rt_scope 20"
    using rt_replans by metis
  from replanned_action_approved [OF rt_admit(1) this] show ?thesis by blast
qed

end
