(* ===== verification/Attack_Store.thy ===== *)
theory Attack_Store
  imports Attack_Chain_Facts
begin

text \<open>
  Commands, authorizations and audit records of the attack chain (the remaining contracts of
  \<^verbatim>\<open>src/src/vulnloom/red_team/attack_models.py\<close>) and the transactional store of the chains,
  \<^verbatim>\<open>src/src/vulnloom/red_team/attack_store.py\<close>. A row holds the model its JSON payload encodes, whose fields also fill the
  row's other columns; each operation is one transaction, so an exception leaves the tables as they were.
\<close>

section \<open>Contracts\<close>

datatype AttackAuditDecision = Audit_ALLOWED | Audit_REJECTED

fun audit_decision_value :: "AttackAuditDecision \<Rightarrow> string" where
  "audit_decision_value Audit_ALLOWED = ''allowed''"
| "audit_decision_value Audit_REJECTED = ''rejected''"

record AttackActionAuthorization =
  az_authorization_id :: digest
  az_chain_plan_id :: digest
  az_action_id :: digest
  az_execution_approval_action :: ApprovalAction
  az_execution_approval_digest :: digest
  az_policy_action_digest :: digest
  az_required_policy_approvals :: "ApprovalAction list"

definition AttackActionAuthorization_content :: "AttackActionAuthorization \<Rightarrow> pyval" where
  "AttackActionAuthorization_content z = PDict
     [(''chain_plan_id'', PStr (az_chain_plan_id z)), (''action_id'', PStr (az_action_id z)),
      (''execution_approval_action'', PEnum (approval_action_value (az_execution_approval_action z))),
      (''execution_approval_digest'', PStr (az_execution_approval_digest z)),
      (''policy_action_digest'', PStr (az_policy_action_digest z)),
      (''required_policy_approvals'',
       PList (map (\<lambda>x. PEnum (approval_action_value x)) (az_required_policy_approvals z)))]"

definition AttackActionAuthorization_valid :: "(pyval \<Rightarrow> digest) \<Rightarrow> AttackActionAuthorization \<Rightarrow> bool" where
  "AttackActionAuthorization_valid H z \<longleftrightarrow>
     is_digest (az_chain_plan_id z) \<and> is_digest (az_action_id z) \<and> is_digest (az_execution_approval_digest z) \<and>
     is_digest (az_policy_action_digest z) \<and>
     \<not> (az_execution_approval_action z \<noteq> EXECUTE_RED_TEAM_ACTION \<or> az_execution_approval_digest z \<noteq> az_action_id z \<or>
        sort_key approval_action_value (remdups (az_required_policy_approvals z)) \<noteq> az_required_policy_approvals z) \<and>
     sealed_by H AttackActionAuthorization_content az_authorization_id z"

definition AttackActionAuthorization_create ::
  "(pyval \<Rightarrow> digest) \<Rightarrow> AttackActionAuthorization \<Rightarrow> AttackActionAuthorization option" where
  "AttackActionAuthorization_create H v =
     (let z = v\<lparr>az_authorization_id := H (AttackActionAuthorization_content v)\<rparr>
      in if AttackActionAuthorization_valid H z then Some z else None)"

record AttackActionCommand =
  ac_command_id :: digest
  ac_chain_plan_id :: digest
  ac_expected_checkpoint_id :: digest
  ac_action_id :: digest
  ac_attempt :: int

definition AttackActionCommand_content :: "AttackActionCommand \<Rightarrow> pyval" where
  "AttackActionCommand_content m = PDict
     [(''chain_plan_id'', PStr (ac_chain_plan_id m)), (''expected_checkpoint_id'', PStr (ac_expected_checkpoint_id m)),
      (''action_id'', PStr (ac_action_id m)), (''attempt'', PInt (ac_attempt m))]"

definition AttackActionCommand_valid :: "(pyval \<Rightarrow> digest) \<Rightarrow> AttackActionCommand \<Rightarrow> bool" where
  "AttackActionCommand_valid H m \<longleftrightarrow>
     is_digest (ac_chain_plan_id m) \<and> is_digest (ac_expected_checkpoint_id m) \<and> is_digest (ac_action_id m) \<and>
     1 \<le> ac_attempt m \<and> ac_attempt m \<le> 2 \<and> sealed_by H AttackActionCommand_content ac_command_id m"

definition AttackActionCommand_create :: "(pyval \<Rightarrow> digest) \<Rightarrow> AttackActionCommand \<Rightarrow> AttackActionCommand option" where
  "AttackActionCommand_create H v =
     (let m = v\<lparr>ac_command_id := H (AttackActionCommand_content v)\<rparr>
      in if AttackActionCommand_valid H m then Some m else None)"

definition AttackActionObservation_create ::
  "(pyval \<Rightarrow> digest) \<Rightarrow> AttackActionObservation \<Rightarrow> AttackActionObservation option" where
  "AttackActionObservation_create H v =
     (let x = v\<lparr>ao_observation_id := H (AttackActionObservation_content v)\<rparr>
      in if AttackActionObservation_valid H x then Some x else None)"

definition AttackChainPlan_create :: "(pyval \<Rightarrow> digest) \<Rightarrow> AttackChainPlan \<Rightarrow> AttackChainPlan option" where
  "AttackChainPlan_create H v =
     (let p = v\<lparr>cpl_chain_plan_id := H (AttackChainPlan_content v)\<rparr>
      in if AttackChainPlan_valid H p then Some p else None)"

record AttackActionAuditRecord =
  ax_audit_id :: digest
  ax_chain_plan_id :: digest
  ax_action_id :: digest
  ax_checkpoint_id :: digest
  ax_decision :: AttackAuditDecision
  ax_reason_code :: string
  ax_approval_ids :: "uuid list"
  ax_recorded_at :: instant

definition AttackActionAuditRecord_content :: "AttackActionAuditRecord \<Rightarrow> pyval" where
  "AttackActionAuditRecord_content x = PDict
     [(''chain_plan_id'', PStr (ax_chain_plan_id x)), (''action_id'', PStr (ax_action_id x)),
      (''checkpoint_id'', PStr (ax_checkpoint_id x)), (''decision'', PEnum (audit_decision_value (ax_decision x))),
      (''reason_code'', PStr (ax_reason_code x)), (''approval_ids'', PList (map PUuid (ax_approval_ids x))),
      (''recorded_at'', PTime (ax_recorded_at x))]"

definition AttackActionAuditRecord_valid :: "(pyval \<Rightarrow> digest) \<Rightarrow> AttackActionAuditRecord \<Rightarrow> bool" where
  "AttackActionAuditRecord_valid H x \<longleftrightarrow>
     is_digest (ax_chain_plan_id x) \<and> is_digest (ax_action_id x) \<and> is_digest (ax_checkpoint_id x) \<and>
     is_reason_code (ax_reason_code x) \<and> sealed_by H AttackActionAuditRecord_content ax_audit_id x"

definition AttackActionAuditRecord_create ::
  "(pyval \<Rightarrow> digest) \<Rightarrow> AttackActionAuditRecord \<Rightarrow> AttackActionAuditRecord option" where
  "AttackActionAuditRecord_create H v =
     (let x = v\<lparr>ax_audit_id := H (AttackActionAuditRecord_content v)\<rparr>
      in if AttackActionAuditRecord_valid H x then Some x else None)"

section \<open>Tables\<close>

datatype attempt_state = Attempt_STARTED | Attempt_COMPLETED | Attempt_ABANDONED

text \<open>The columns \<^verbatim>\<open>attempt\<close> and \<^verbatim>\<open>command_id\<close> are always written together with \<^verbatim>\<open>command_json\<close>.\<close>

record attempt_row =
  at_command :: AttackActionCommand
  at_state :: attempt_state
  at_observation_id :: "digest option"

record chain_reservation =
  cr_chain_plan_id :: digest
  cr_flow_plan_id :: digest
  cr_flow_checkpoint_id :: digest
  cr_action_count :: int

record chain_observation_row =
  co_chain_plan_id :: digest
  co_observation :: AttackActionObservation

record chain_db =
  cdb_plans :: "AttackChainPlan list"
  cdb_checkpoints :: "AttackChainCheckpoint list"
  cdb_reservations :: "chain_reservation list"
  cdb_attempts :: "attempt_row list"
  cdb_observations :: "chain_observation_row list"
  cdb_audits :: "AttackActionAuditRecord list"

definition empty_chains :: chain_db where
  "empty_chains = \<lparr>cdb_plans = [], cdb_checkpoints = [], cdb_reservations = [], cdb_attempts = [], cdb_observations = [],
     cdb_audits = []\<rparr>"

datatype chain_store_error =
    AttackChainStoreRejected string | AttackChainRecoveryRequired string | ChainIntegrityError

definition or_refuse :: "string \<Rightarrow> 'a option \<Rightarrow> chain_store_error + 'a" where
  "or_refuse msg x = (case x of None \<Rightarrow> Inl (AttackChainStoreRejected msg) | Some y \<Rightarrow> Inr y)"

text \<open>A \<^verbatim>\<open>sqlite3.IntegrityError\<close> that the operation turns into a rejection.\<close>

definition chain_integrity :: "string \<Rightarrow> chain_store_error + 'a \<Rightarrow> chain_store_error + 'a" where
  "chain_integrity msg r = (case r of Inl ChainIntegrityError \<Rightarrow> Inl (AttackChainStoreRejected msg) | _ \<Rightarrow> r)"

section \<open>Reading\<close>

definition chain_plan :: "chain_db \<Rightarrow> digest \<Rightarrow> chain_store_error + AttackChainPlan" where
  "chain_plan db i = or_refuse ''Attack Chain Plan is unavailable''
     (List.find (\<lambda>p. cpl_chain_plan_id p = i) (cdb_plans db))"

definition chain_latest :: "chain_db \<Rightarrow> digest \<Rightarrow> chain_store_error + AttackChainCheckpoint" where
  "chain_latest db i = or_refuse ''Attack Chain checkpoint is unavailable''
     (highest_revision cc_revision (filter (\<lambda>c. cc_chain_plan_id c = i) (cdb_checkpoints db)))"

definition chain_observation :: "chain_db \<Rightarrow> digest option \<Rightarrow> chain_store_error + AttackActionObservation" where
  "chain_observation db i = or_refuse ''Attack Action observation is unavailable''
     (map_option co_observation (List.find (\<lambda>w. Some (ao_observation_id (co_observation w)) = i) (cdb_observations db)))"

definition chain_audits :: "chain_db \<Rightarrow> digest \<Rightarrow> AttackActionAuditRecord list" where
  "chain_audits db i = filter (\<lambda>x. ax_chain_plan_id x = i) (cdb_audits db)"

definition chain_assert_latest :: "chain_db \<Rightarrow> AttackChainCheckpoint \<Rightarrow> chain_store_error + unit" where
  "chain_assert_latest db c =
     bind_result (chain_latest db (cc_chain_plan_id c)) (\<lambda>d.
       if cc_checkpoint_id d \<noteq> cc_checkpoint_id c then Inl (AttackChainStoreRejected ''Attack Chain checkpoint is stale'')
       else Inr ())"

definition chain_reserved :: "chain_db \<Rightarrow> digest \<Rightarrow> int" where
  "chain_reserved db i = sum_list (map cr_action_count (filter (\<lambda>r. cr_flow_plan_id r = i) (cdb_reservations db)))"

definition attempt_started :: "digest \<Rightarrow> attempt_row \<Rightarrow> bool" where
  "attempt_started i r \<longleftrightarrow> ac_chain_plan_id (at_command r) = i \<and> at_state r = Attempt_STARTED"

definition has_started_action :: "chain_db \<Rightarrow> digest \<Rightarrow> bool" where
  "has_started_action db i \<longleftrightarrow> list_ex (attempt_started i) (cdb_attempts db)"

section \<open>Chains and their checkpoints\<close>

definition has_chain :: "chain_db \<Rightarrow> digest \<Rightarrow> bool" where
  "has_chain db i \<longleftrightarrow> list_ex (\<lambda>p. cpl_chain_plan_id p = i) (cdb_plans db)"

text \<open>\<^verbatim>\<open>_insert_checkpoint\<close>: the primary key (chain, revision), the unique checkpoint identifier, the foreign key.\<close>

definition insert_chain_checkpoint :: "chain_db \<Rightarrow> AttackChainCheckpoint \<Rightarrow> chain_store_error + chain_db" where
  "insert_chain_checkpoint db c =
     (if list_ex (\<lambda>d. (cc_chain_plan_id d = cc_chain_plan_id c \<and> cc_revision d = cc_revision c) \<or>
                      cc_checkpoint_id d = cc_checkpoint_id c) (cdb_checkpoints db) \<or> \<not> has_chain db (cc_chain_plan_id c)
      then Inl ChainIntegrityError
      else Inr (db\<lparr>cdb_checkpoints := cdb_checkpoints db @ [c]\<rparr>))"

definition graph_size :: "AttackChainPlan \<Rightarrow> int" where
  "graph_size p = int (length (ag_actions (cpl_graph p)))"

definition chain_reservation_of :: "AttackChainPlan \<Rightarrow> chain_reservation" where
  "chain_reservation_of p =
     \<lparr>cr_chain_plan_id = cpl_chain_plan_id p, cr_flow_plan_id = ag_flow_plan_id (cpl_graph p),
      cr_flow_checkpoint_id = cpl_expected_flow_checkpoint_id p, cr_action_count = graph_size p\<rparr>"

text \<open>The insertions of \<^verbatim>\<open>create\<close>: the plan, its reservation (whose count must be positive) and its first checkpoint.\<close>

definition insert_chain ::
  "chain_db \<Rightarrow> AttackChainPlan \<Rightarrow> AttackChainCheckpoint \<Rightarrow> chain_store_error + (AttackChainCheckpoint \<times> chain_db)" where
  "insert_chain db p c =
     (if has_chain db (cpl_chain_plan_id p) \<or>
         list_ex (\<lambda>r. cr_chain_plan_id r = cpl_chain_plan_id p) (cdb_reservations db) \<or> \<not> 0 < graph_size p
      then Inl ChainIntegrityError
      else bind_result (insert_chain_checkpoint
             (db\<lparr>cdb_plans := cdb_plans db @ [p], cdb_reservations := cdb_reservations db @ [chain_reservation_of p]\<rparr>) c)
             (\<lambda>db'. Inr (c, db')))"

definition create_chain ::
  "chain_db \<Rightarrow> AttackChainPlan \<Rightarrow> AttackChainCheckpoint \<Rightarrow> int \<Rightarrow> int
   \<Rightarrow> chain_store_error + (AttackChainCheckpoint \<times> chain_db)" where
  "create_chain db p c flow_actions_used flow_max_actions =
     (if \<not> (0 \<le> flow_actions_used \<and> flow_actions_used \<le> flow_max_actions)
      then Inl (AttackChainStoreRejected ''Attack Chain Flow budget is invalid'')
      else chain_integrity ''Attack Chain creation rejected''
        (case List.find (\<lambda>q. cpl_idempotency_key q = cpl_idempotency_key p) (cdb_plans db) of
           Some q \<Rightarrow>
             if cpl_chain_plan_id q \<noteq> cpl_chain_plan_id p \<or> q \<noteq> p
             then Inl (AttackChainStoreRejected ''Attack Chain idempotency collision'')
             else if List.find (\<lambda>r. cr_chain_plan_id r = cpl_chain_plan_id p) (cdb_reservations db) \<noteq>
                     Some (chain_reservation_of p)
             then Inl (AttackChainStoreRejected ''Attack Chain budget reservation is unavailable'')
             else bind_result (chain_latest db (cpl_chain_plan_id p)) (\<lambda>d. Inr (d, db))
         | None \<Rightarrow>
             if flow_max_actions < flow_actions_used + chain_reserved db (ag_flow_plan_id (cpl_graph p)) + graph_size p
             then Inl (AttackChainStoreRejected ''Attack Chain Flow budget is exhausted'')
             else insert_chain db p c))"

definition abandon_row :: "digest \<Rightarrow> attempt_row \<Rightarrow> attempt_row" where
  "abandon_row i r = (if attempt_started i r then r\<lparr>at_state := Attempt_ABANDONED\<rparr> else r)"

definition advance_chain ::
  "chain_db \<Rightarrow> AttackChainCheckpoint \<Rightarrow> AttackChainCheckpoint \<Rightarrow> bool
   \<Rightarrow> chain_store_error + (AttackChainCheckpoint \<times> chain_db)" where
  "advance_chain db previous c abandon_started_actions =
     (if cc_revision c \<noteq> cc_revision previous + 1
      then Inl (AttackChainStoreRejected ''Attack Chain revision is invalid'')
      else bind_result (chain_assert_latest db previous) (\<lambda>_.
           bind_result (insert_chain_checkpoint
             (if abandon_started_actions
              then db\<lparr>cdb_attempts := map (abandon_row (cc_chain_plan_id previous)) (cdb_attempts db)\<rparr> else db) c)
             (\<lambda>db'. Inr (c, db'))))"

section \<open>Attempts\<close>

definition attempt_of :: "AttackActionCommand \<Rightarrow> attempt_row \<Rightarrow> bool" where
  "attempt_of m r \<longleftrightarrow>
     ac_chain_plan_id (at_command r) = ac_chain_plan_id m \<and> ac_action_id (at_command r) = ac_action_id m"

text \<open>\<^verbatim>\<open>stored.model_copy(update={"attempt": ..., "command_id": ...})\<close>\<close>

definition recovered :: "AttackActionCommand \<Rightarrow> AttackActionCommand \<Rightarrow> AttackActionCommand" where
  "recovered stored m = stored\<lparr>ac_attempt := ac_attempt m, ac_command_id := ac_command_id m\<rparr>"

text \<open>\<^verbatim>\<open>UPDATE ... WHERE chain_plan_id=? AND action_id=? AND state='started' AND attempt=?\<close>; the command identifier is unique.\<close>

definition retries :: "AttackActionCommand \<Rightarrow> int \<Rightarrow> attempt_row \<Rightarrow> bool" where
  "retries m attempt r \<longleftrightarrow> attempt_of m r \<and> at_state r = Attempt_STARTED \<and> ac_attempt (at_command r) = attempt"

definition retry_attempt :: "chain_db \<Rightarrow> AttackActionCommand \<Rightarrow> int \<Rightarrow> chain_store_error + (chain_db \<times> nat)" where
  "retry_attempt db m attempt =
     (let rows = map (\<lambda>r. if retries m attempt r then r\<lparr>at_command := m\<rparr> else r) (cdb_attempts db)
      in if \<not> distinct (map (\<lambda>r. ac_command_id (at_command r)) rows) then Inl ChainIntegrityError
         else Inr (db\<lparr>cdb_attempts := rows\<rparr>, length (filter (retries m attempt) (cdb_attempts db))))"

text \<open>The first attempt: the primary key, the unique command, at most one started action of a chain, the foreign key.\<close>

definition insert_attempt :: "chain_db \<Rightarrow> AttackActionCommand \<Rightarrow> chain_store_error + chain_db" where
  "insert_attempt db m =
     (if list_ex (\<lambda>r. attempt_of m r \<or> ac_command_id (at_command r) = ac_command_id m \<or>
                      attempt_started (ac_chain_plan_id m) r) (cdb_attempts db) \<or> \<not> has_chain db (ac_chain_plan_id m)
      then Inl ChainIntegrityError
      else Inr (db\<lparr>cdb_attempts := cdb_attempts db @
        [\<lparr>at_command = m, at_state = Attempt_STARTED, at_observation_id = None\<rparr>]\<rparr>))"

definition claim_attempt ::
  "chain_db \<Rightarrow> AttackActionCommand \<Rightarrow> chain_store_error + (AttackActionObservation option \<times> chain_db)" where
  "claim_attempt db m =
     (case List.find (attempt_of m) (cdb_attempts db) of
        Some r \<Rightarrow>
          if recovered (at_command r) m \<noteq> m then Inl (AttackChainStoreRejected ''Attack Action identity conflict'')
          else if at_state r = Attempt_COMPLETED
          then bind_result (chain_observation db (at_observation_id r)) (\<lambda>x. Inr (Some x, db))
          else if ac_attempt m \<noteq> ac_attempt (at_command r) + 1
          then Inl (AttackChainRecoveryRequired ''Attack Action requires the next bounded attempt'')
          else bind_result (retry_attempt db m (ac_attempt (at_command r))) (\<lambda>(db', changed).
               if changed \<noteq> 1 then Inl (AttackChainRecoveryRequired ''Attack Action recovery raced'') else Inr (None, db'))
      | None \<Rightarrow>
          if ac_attempt m \<noteq> 1
          then Inl (AttackChainRecoveryRequired ''Attack Action first attempt must be one'')
          else bind_result (insert_attempt db m) (\<lambda>db'. Inr (None, db')))"

definition completed_attempt ::
  "chain_db \<Rightarrow> AttackActionCommand \<Rightarrow> chain_store_error + AttackActionObservation option" where
  "completed_attempt db m =
     (case List.find (attempt_of m) (cdb_attempts db) of
        None \<Rightarrow> Inr None
      | Some r \<Rightarrow>
          if recovered (at_command r) m \<noteq> m then Inl (AttackChainStoreRejected ''Attack Action identity conflict'')
          else if at_state r = Attempt_COMPLETED
          then bind_result (chain_observation db (at_observation_id r)) (\<lambda>x. Inr (Some x))
          else Inr None)"

text \<open>\<^verbatim>\<open>UPDATE ... SET state='completed' WHERE chain_plan_id=? AND action_id=? AND command_id=? AND attempt=? AND state='started'\<close>\<close>

definition attempt_claimed :: "AttackActionCommand \<Rightarrow> attempt_row \<Rightarrow> bool" where
  "attempt_claimed m r \<longleftrightarrow>
     attempt_of m r \<and> ac_command_id (at_command r) = ac_command_id m \<and> ac_attempt (at_command r) = ac_attempt m \<and>
     at_state r = Attempt_STARTED"

definition complete_attempt_row :: "AttackActionCommand \<Rightarrow> digest \<Rightarrow> attempt_row \<Rightarrow> attempt_row" where
  "complete_attempt_row m i r =
     (if attempt_claimed m r then r\<lparr>at_state := Attempt_COMPLETED, at_observation_id := Some i\<rparr> else r)"

definition insert_chain_observation ::
  "chain_db \<Rightarrow> digest \<Rightarrow> AttackActionObservation \<Rightarrow> chain_store_error + chain_db" where
  "insert_chain_observation db i x =
     (if list_ex (\<lambda>w. ao_observation_id (co_observation w) = ao_observation_id x \<or>
                      (co_chain_plan_id w = i \<and> ao_action_id (co_observation w) = ao_action_id x)) (cdb_observations db) \<or>
         \<not> list_ex (\<lambda>r. ac_chain_plan_id (at_command r) = i \<and> ac_action_id (at_command r) = ao_action_id x)
             (cdb_attempts db)
      then Inl ChainIntegrityError
      else Inr (db\<lparr>cdb_observations := cdb_observations db @ [\<lparr>co_chain_plan_id = i, co_observation = x\<rparr>]\<rparr>))"

definition complete_attempt ::
  "chain_db \<Rightarrow> AttackActionCommand \<Rightarrow> AttackChainCheckpoint \<Rightarrow> AttackChainCheckpoint \<Rightarrow> AttackActionObservation
   \<Rightarrow> chain_store_error + (AttackChainCheckpoint \<times> chain_db)" where
  "complete_attempt db m previous c x =
     chain_integrity ''Attack Action completion rejected''
       (bind_result (chain_assert_latest db previous) (\<lambda>_.
          if length (filter (attempt_claimed m) (cdb_attempts db)) \<noteq> 1
          then Inl (AttackChainRecoveryRequired ''Attack Action claim is unavailable'')
          else
            bind_result (insert_chain_observation
              (db\<lparr>cdb_attempts := map (complete_attempt_row m (ao_observation_id x)) (cdb_attempts db)\<rparr>)
              (ac_chain_plan_id m) x) (\<lambda>db1.
            bind_result (insert_chain_checkpoint db1 c) (\<lambda>db2. Inr (c, db2)))))"

section \<open>Audit trail\<close>

text \<open>\<^verbatim>\<open>INSERT OR IGNORE\<close> skips a record whose identifier is there; a missing chain violates the foreign key all the same.\<close>

definition append_chain_audit :: "chain_db \<Rightarrow> AttackActionAuditRecord \<Rightarrow> chain_store_error + chain_db" where
  "append_chain_audit db x =
     chain_integrity ''Attack Action audit rejected''
       (if list_ex (\<lambda>y. ax_audit_id y = ax_audit_id x) (cdb_audits db) then Inr db
        else if \<not> has_chain db (ax_chain_plan_id x) then Inl ChainIntegrityError
        else Inr (db\<lparr>cdb_audits := cdb_audits db @ [x]\<rparr>))"

end
