(* ===== verification/Attack_Service.thy ===== *)
theory Attack_Service
  imports Attack_Store Red_Team_Service
begin

text \<open>
  The application service of attack chains, \<^verbatim>\<open>src/src/vulnloom/red_team/attack_service.py\<close>: preparing a chain inside its
  flow, reserving its action budget and starting it, and executing one action under an exact execution approval and the
  policy. The flow store is only read, except for the reservation of \<^verbatim>\<open>create_and_start\<close>. Every operation returns its
  outcome together with the stores as they are afterwards, since a rejected execution is still audited and may stop the chain.
\<close>

section \<open>Errors and adapters\<close>

datatype attack_adapter_error = AttackActionAdapterInterrupted | AttackAdapterFailed

datatype attack_error =
    AttackChainRejected string | AttackStore chain_store_error | AttackFlowStore flow_store_error
  | AttackTransition chain_error | AttackPolicy url_error | AttackAdapter attack_adapter_error
  | AttackValueError | AttackKeyError

type_synonym attack_adapter =
  "AttackActionCommand \<Rightarrow> AttackAction \<Rightarrow> ApprovalRequest list \<Rightarrow> instant \<Rightarrow> attack_adapter_error + AttackActionObservation"

definition in_chain :: "chain_store_error + 'a \<Rightarrow> attack_error + 'a" where
  "in_chain r = (case r of Inl e \<Rightarrow> Inl (AttackStore e) | Inr x \<Rightarrow> Inr x)"

definition in_flow :: "flow_store_error + 'a \<Rightarrow> attack_error + 'a" where
  "in_flow r = (case r of Inl e \<Rightarrow> Inl (AttackFlowStore e) | Inr x \<Rightarrow> Inr x)"

definition in_transition :: "chain_error + 'a \<Rightarrow> attack_error + 'a" where
  "in_transition r = (case r of Inl e \<Rightarrow> Inl (AttackTransition e) | Inr x \<Rightarrow> Inr x)"

definition in_policy :: "url_error + 'a \<Rightarrow> attack_error + 'a" where
  "in_policy r = (case r of Inl e \<Rightarrow> Inl (AttackPolicy e) | Inr x \<Rightarrow> Inr x)"

definition sealed_or_raise :: "'a option \<Rightarrow> attack_error + 'a" where
  "sealed_or_raise x = (case x of None \<Rightarrow> Inl AttackValueError | Some y \<Rightarrow> Inr y)"

record OfflineAttackScenario =
  oa_outcome :: AttackActionOutcome
  oa_reason_code :: string
  oa_cleanup_complete :: bool
  oa_interrupt :: bool

text \<open>\<^verbatim>\<open>OfflineAttackActionAdapter.execute\<close>; its call counter is not modelled.\<close>

definition offline_attack :: "(pyval \<Rightarrow> digest) \<Rightarrow> OfflineAttackScenario \<Rightarrow> attack_adapter" where
  "offline_attack H sn m a approvals now =
     (if oa_interrupt sn then Inl AttackActionAdapterInterrupted
      else
        let succeeded = (oa_outcome sn = Out_SUCCEEDED)
        in case AttackActionObservation_create H
          \<lparr>ao_observation_id = [], ao_command_id = ac_command_id m, ao_action_id = aa_action_id a,
           ao_outcome = oa_outcome sn, ao_reason_code = oa_reason_code sn,
           ao_evidence_refs = (if succeeded then [replicate 64 CHR ''e''] else []),
           ao_goal_reached = (succeeded \<and> aa_kind a = VERIFY_OBJECTIVE), ao_cleanup_complete = oa_cleanup_complete sn,
           ao_sensitive_data_redacted = True, ao_observed_at = now\<rparr>
        of None \<Rightarrow> Inl AttackAdapterFailed | Some x \<Rightarrow> Inr x)"

section \<open>Flow boundary\<close>

definition flow_boundary_broken ::
  "RedTeamFlowPlan \<Rightarrow> RedTeamCheckpoint \<Rightarrow> digest \<Rightarrow> AttackGraph \<Rightarrow> Scope \<Rightarrow> instant \<Rightarrow> bool" where
  "flow_boundary_broken fp c flow_checkpoint_id g s now \<longleftrightarrow>
     sc_state s \<noteq> Scope_APPROVED \<or> \<not> in_validity_window s now \<or> roe_scope_id (fp_rules fp) \<noteq> scope_id s \<or>
     roe_scope_version (fp_rules fp) \<noteq> sc_version s \<or> fc_checkpoint_id c \<noteq> flow_checkpoint_id \<or>
     fc_status c \<noteq> Flow_RUNNING \<or> fp_deadline fp \<le> now \<or>
     approval_required_impacts (fp_rules fp) \<noteq> [Imp_STATE_CHANGE] \<or>
     set (prohibited_impacts (fp_rules fp)) \<noteq> set CHAIN_PROHIBITED \<or> ag_flow_plan_id g \<noteq> fp_plan_id fp \<or>
     ag_target_id g \<noteq> wt_target_id (fp_target fp) \<or> ag_scope_id g \<noteq> scope_id s \<or> ag_scope_version g \<noteq> sc_version s"

definition flow_preflight ::
  "flow_db \<Rightarrow> RedTeamFlowPlan \<Rightarrow> digest \<Rightarrow> AttackGraph \<Rightarrow> Scope \<Rightarrow> instant \<Rightarrow> attack_error + RedTeamCheckpoint" where
  "flow_preflight fdb fp flow_checkpoint_id g s now =
     bind_result (in_flow (latest_flow fdb (fp_plan_id fp))) (\<lambda>c.
       if flow_boundary_broken fp c flow_checkpoint_id g s now
       then Inl (AttackChainRejected ''Attack Chain Flow boundary is invalid or stopped'') else Inr c)"

text \<open>What the compensating cleanup still requires of a flow that has stopped.\<close>

definition cleanup_boundary_broken ::
  "RedTeamFlowPlan \<Rightarrow> RedTeamCheckpoint \<Rightarrow> RedTeamCheckpoint \<Rightarrow> AttackGraph \<Rightarrow> Scope \<Rightarrow> bool" where
  "cleanup_boundary_broken fp expected latest g s \<longleftrightarrow>
     fc_plan_id expected \<noteq> fp_plan_id fp \<or> fc_status latest \<notin> {Flow_RUNNING, Flow_CANCELLED, Flow_KILLED} \<or>
     fc_revision latest < fc_revision expected \<or> fc_actions_used latest < fc_actions_used expected \<or>
     take (length (fc_observation_ids expected)) (fc_observation_ids latest) \<noteq> fc_observation_ids expected \<or>
     roe_scope_id (fp_rules fp) \<noteq> scope_id s \<or> roe_scope_version (fp_rules fp) \<noteq> sc_version s \<or>
     ag_flow_plan_id g \<noteq> fp_plan_id fp \<or> ag_target_id g \<noteq> wt_target_id (fp_target fp) \<or>
     ag_scope_id g \<noteq> scope_id s \<or> ag_scope_version g \<noteq> sc_version s"

definition action_flow_preflight ::
  "flow_db \<Rightarrow> RedTeamFlowPlan \<Rightarrow> AttackChainPlan \<Rightarrow> AttackChainCheckpoint \<Rightarrow> AttackAction \<Rightarrow> Scope \<Rightarrow> instant
   \<Rightarrow> attack_error + RedTeamCheckpoint" where
  "action_flow_preflight fdb fp p c a s now =
     (case flow_preflight fdb fp (cpl_expected_flow_checkpoint_id p) (cpl_graph p) s now of
        Inl (AttackChainRejected msg) \<Rightarrow>
          if aa_kind a \<noteq> CLEANUP_TEST_SESSION \<or> cc_status c \<noteq> Chain_CLEANUP_REQUIRED \<or>
             cpl_cleanup_deadline p \<le> now \<or> sc_state s \<noteq> Scope_APPROVED \<or> \<not> in_validity_window s now
          then Inl (AttackChainRejected msg)
          else
            bind_result (in_flow (flow_checkpoint fdb (cpl_expected_flow_checkpoint_id p))) (\<lambda>expected.
            bind_result (in_flow (latest_flow fdb (fp_plan_id fp))) (\<lambda>latest.
              if cleanup_boundary_broken fp expected latest (cpl_graph p) s
              then Inl (AttackChainRejected ''Attack Chain Cleanup boundary is invalid after Flow stop'')
              else Inr latest))
      | r \<Rightarrow> r)"

section \<open>Preparing and starting a chain\<close>

definition prepare_attack ::
  "(pyval \<Rightarrow> digest) \<Rightarrow> flow_db \<Rightarrow> RedTeamFlowPlan \<Rightarrow> digest \<Rightarrow> AttackGraph \<Rightarrow> Scope \<Rightarrow> instant \<Rightarrow> instant \<Rightarrow> instant option
   \<Rightarrow> string \<Rightarrow> attack_error + AttackChainPlan" where
  "prepare_attack H fdb fp flow_checkpoint_id g s now deadline cleanup_deadline key =
     bind_result (flow_preflight fdb fp flow_checkpoint_id g s now) (\<lambda>c.
       let cleanup_stop = (case cleanup_deadline of
             Some t \<Rightarrow> t | None \<Rightarrow> min (min (deadline + seconds 60) (fp_deadline fp)) (valid_until s))
       in if ag_flow_plan_id g \<noteq> fp_plan_id fp \<or> ag_target_id g \<noteq> wt_target_id (fp_target fp) \<or>
             ag_scope_id g \<noteq> scope_id s \<or> ag_scope_version g \<noteq> sc_version s \<or>
             max_actions (stop_conditions (fp_rules fp)) < fc_actions_used c + int (length (ag_actions g)) \<or>
             list_ex (\<lambda>a. aa_test_class a \<notin> set (roe_allowed_test_classes (fp_rules fp))) (ag_actions g) \<or>
             fp_deadline fp < deadline \<or> cleanup_stop \<le> deadline \<or> fp_deadline fp < cleanup_stop \<or>
             valid_until s < cleanup_stop
          then Inl (AttackChainRejected ''Attack Graph exceeds its sealed Flow boundary'')
          else sealed_or_raise (AttackChainPlan_create H
            \<lparr>cpl_chain_plan_id = [], cpl_graph = g, cpl_expected_flow_checkpoint_id = flow_checkpoint_id,
             cpl_created_at = now, cpl_deadline = deadline, cpl_cleanup_deadline = cleanup_stop, cpl_max_failures = 1,
             cpl_idempotency_key = key\<rparr>))"

text \<open>The part of \<^verbatim>\<open>create_and_start\<close> after the reservation in the flow store.\<close>

definition start_created ::
  "(pyval \<Rightarrow> digest) \<Rightarrow> flow_db \<Rightarrow> chain_db \<Rightarrow> RedTeamFlowPlan \<Rightarrow> AttackChainPlan \<Rightarrow> AttackChainCheckpoint \<Rightarrow> instant
   \<Rightarrow> (attack_error + AttackChainCheckpoint) \<times> chain_db" where
  "start_created H fdb db fp p planned now =
     (case bind_result (in_flow (latest_flow fdb (fp_plan_id fp))) (\<lambda>c.
             in_chain (create_chain db p planned (fc_actions_used c) (max_actions (stop_conditions (fp_rules fp))))) of
        Inl e \<Rightarrow> (Inl e, db)
      | Inr (current, db') \<Rightarrow>
          if cc_status current \<noteq> Chain_PLANNED then (Inr current, db')
          else (case bind_result (in_transition (start_attack_chain H p current now)) (\<lambda>running.
                  in_chain (advance_chain db' current running False)) of
                  Inl e \<Rightarrow> (Inl e, db') | Inr (running, db'') \<Rightarrow> (Inr running, db'')))"

definition create_and_start_attack ::
  "(pyval \<Rightarrow> digest) \<Rightarrow> flow_db \<Rightarrow> chain_db \<Rightarrow> AttackChainPlan \<Rightarrow> Scope \<Rightarrow> instant
   \<Rightarrow> (attack_error + AttackChainCheckpoint) \<times> flow_db \<times> chain_db" where
  "create_and_start_attack H fdb db p s now =
     (case bind_result (in_flow (flow_plan fdb (ag_flow_plan_id (cpl_graph p)))) (\<lambda>fp.
           bind_result (flow_preflight fdb fp (cpl_expected_flow_checkpoint_id p) (cpl_graph p) s now) (\<lambda>_.
           bind_result (sealed_or_raise (planned_checkpoint H p now)) (\<lambda>planned.
           bind_result (in_flow (reserve_external_actions fdb (fp_plan_id fp) (cpl_expected_flow_checkpoint_id p)
             (cpl_chain_plan_id p) (graph_size p))) (\<lambda>fdb'. Inr (fp, planned, fdb'))))) of
        Inl e \<Rightarrow> (Inl e, fdb, db)
      | Inr (fp, planned, fdb') \<Rightarrow>
          (case start_created H fdb' db fp p planned now of (r, db') \<Rightarrow> (r, fdb', db')))"

section \<open>Authorization\<close>

text \<open>\<^verbatim>\<open>_policy_request\<close>. A flow target has a network location.\<close>

definition attack_request ::
  "url_env \<Rightarrow> flow_db \<Rightarrow> AttackChainPlan \<Rightarrow> AttackAction \<Rightarrow> Scope \<Rightarrow> instant \<Rightarrow> attack_error + ActionRequest" where
  "attack_request U fdb p a s now =
     bind_result (in_flow (flow_plan fdb (ag_flow_plan_id (cpl_graph p)))) (\<lambda>fp.
     bind_result (in_policy (urlsplit U (wt_url (fp_target fp)))) (\<lambda>base.
       Inr ((flow_request s (ag_target_id (cpl_graph p)) ''http.request'' now
               (urlunsplit_base (su_scheme base) (su_netloc base) (aa_target_path a)) (Some (aa_test_class a)))
            \<lparr>mutates_state := (aa_impact a = AI_STATE_CHANGE)\<rparr>)))"

definition required_policy :: "Scope \<Rightarrow> AttackAction \<Rightarrow> ApprovalAction list" where
  "required_policy s a =
     sort_key approval_action_value (remdups (approval_requirements s @
       (if aa_impact a = AI_STATE_CHANGE then [MUTATE_TARGET_STATE] else [])))"

definition attack_authorization ::
  "(pyval \<Rightarrow> digest) \<Rightarrow> url_env \<Rightarrow> flow_db \<Rightarrow> chain_db \<Rightarrow> AttackChainPlan \<Rightarrow> AttackAction \<Rightarrow> Scope \<Rightarrow> instant
   \<Rightarrow> attack_error + AttackActionAuthorization" where
  "attack_authorization H U fdb db p a s now =
     bind_result (in_flow (flow_plan fdb (ag_flow_plan_id (cpl_graph p)))) (\<lambda>fp.
     bind_result (in_chain (chain_latest db (cpl_chain_plan_id p))) (\<lambda>c.
     bind_result (action_flow_preflight fdb fp p c a s now) (\<lambda>_.
       if a \<notin> set (ag_actions (cpl_graph p))
       then Inl (AttackChainRejected ''Attack Action is absent from the sealed graph'')
       else
         bind_result (attack_request U fdb p a s now) (\<lambda>r.
         sealed_or_raise (AttackActionAuthorization_create H
           \<lparr>az_authorization_id = [], az_chain_plan_id = cpl_chain_plan_id p, az_action_id = aa_action_id a,
            az_execution_approval_action = EXECUTE_RED_TEAM_ACTION, az_execution_approval_digest = aa_action_id a,
            az_policy_action_digest = request_digest H r, az_required_policy_approvals = required_policy s a\<rparr>)))))"

definition attack_command ::
  "(pyval \<Rightarrow> digest) \<Rightarrow> AttackChainPlan \<Rightarrow> AttackChainCheckpoint \<Rightarrow> AttackAction \<Rightarrow> int
   \<Rightarrow> attack_error + AttackActionCommand" where
  "attack_command H p c a attempt =
     (if cc_chain_plan_id c \<noteq> cpl_chain_plan_id p \<or> a \<notin> set (ag_actions (cpl_graph p))
      then Inl (AttackChainRejected ''Attack Action command binding is invalid'')
      else sealed_or_raise (AttackActionCommand_create H
        \<lparr>ac_command_id = [], ac_chain_plan_id = cpl_chain_plan_id p, ac_expected_checkpoint_id = cc_checkpoint_id c,
         ac_action_id = aa_action_id a, ac_attempt = attempt\<rparr>))"

section \<open>Checks before an execution\<close>

definition action_cutoff :: "AttackChainPlan \<Rightarrow> AttackAction \<Rightarrow> instant" where
  "action_cutoff p a = (if aa_kind a = CLEANUP_TEST_SESSION then cpl_cleanup_deadline p else cpl_deadline p)"

text \<open>\<^verbatim>\<open>any(... progress[item.action_id].status.value == "succeeded" ...)\<close>: the lookup only happens for state-changing
  actions other than the cleanup, and a missing node raises.\<close>

fun changed_target :: "AttackChainCheckpoint \<Rightarrow> AttackAction list \<Rightarrow> attack_error + bool" where
  "changed_target c [] = Inr False"
| "changed_target c (a # as) =
     (if aa_impact a = AI_STATE_CHANGE \<and> aa_kind a \<noteq> CLEANUP_TEST_SESSION
      then (case progress_of c (aa_action_id a) of
              None \<Rightarrow> Inl AttackKeyError
            | Some n \<Rightarrow> if np_status n = Node_SUCCEEDED then Inr True else changed_target c as)
      else changed_target c as)"

text \<open>\<^verbatim>\<open>any(item.ordinal < action.ordinal and progress[item.action_id].status.value == "pending" ...)\<close>\<close>

fun earlier_pending :: "AttackChainCheckpoint \<Rightarrow> AttackAction \<Rightarrow> AttackAction list \<Rightarrow> attack_error + bool" where
  "earlier_pending c a [] = Inr False"
| "earlier_pending c a (b # bs) =
     (if aa_ordinal b < aa_ordinal a
      then (case progress_of c (aa_action_id b) of
              None \<Rightarrow> Inl AttackKeyError
            | Some n \<Rightarrow> if np_status n = Node_PENDING then Inr True else earlier_pending c a bs)
      else earlier_pending c a bs)"

text \<open>\<^verbatim>\<open>any(progress[item].status.value != "succeeded" for item in action.prerequisite_action_ids)\<close>\<close>

definition missing_prerequisites :: "AttackChainCheckpoint \<Rightarrow> AttackAction \<Rightarrow> attack_error + bool" where
  "missing_prerequisites c a =
     (case prerequisites_incomplete c (aa_prerequisite_action_ids a) of Inl _ \<Rightarrow> Inl AttackKeyError | Inr b \<Rightarrow> Inr b)"

text \<open>The checks of \<^verbatim>\<open>_execute_preflight\<close> once the flow boundary holds.\<close>

definition chain_ready ::
  "AttackChainPlan \<Rightarrow> AttackChainCheckpoint \<Rightarrow> AttackActionCommand \<Rightarrow> AttackAction \<Rightarrow> instant \<Rightarrow> attack_error + unit" where
  "chain_ready p c m a now =
     (if cc_status c \<notin> {Chain_RUNNING, Chain_CLEANUP_REQUIRED} \<or> ac_expected_checkpoint_id m \<noteq> cc_checkpoint_id c \<or>
         action_cutoff p a \<le> now
      then Inl (AttackChainRejected ''Attack Chain checkpoint is stale or terminal'')
      else
        let compensating = (cc_status c = Chain_CLEANUP_REQUIRED \<and> aa_kind a = CLEANUP_TEST_SESSION)
        in if cc_status c = Chain_CLEANUP_REQUIRED \<and> \<not> compensating
           then Inl (AttackChainRejected ''Attack Chain requires its sealed Cleanup action'')
           else if compensating then Inr ()
           else
             bind_result (missing_prerequisites c a) (\<lambda>missing.
               if missing then Inl (AttackChainRejected ''Attack Action prerequisites are incomplete'')
               else bind_result (earlier_pending c a (ag_actions (cpl_graph p))) (\<lambda>earlier.
                 if earlier then Inl (AttackChainRejected ''Attack Action sequence cannot be skipped'') else Inr ())))"

text \<open>The handler for a rejected flow boundary: the chain is stopped, or sent to its cleanup when the target may have been
  changed, and started actions are abandoned. The rejection is raised again unless the handler itself raises.\<close>

definition stop_reason_of :: "RedTeamCheckpoint \<Rightarrow> string" where
  "stop_reason_of latest =
     (if fc_status latest = Flow_KILLED then ''flow_kill_switch_activated'' else ''flow_boundary_changed'')"

definition stop_for_flow ::
  "(pyval \<Rightarrow> digest) \<Rightarrow> flow_db \<Rightarrow> chain_db \<Rightarrow> RedTeamFlowPlan \<Rightarrow> AttackChainPlan \<Rightarrow> AttackChainCheckpoint \<Rightarrow> instant
   \<Rightarrow> attack_error + chain_db" where
  "stop_for_flow H fdb db fp p c now =
     bind_result (in_flow (latest_flow fdb (fp_plan_id fp))) (\<lambda>latest.
     bind_result (changed_target c (ag_actions (cpl_graph p))) (\<lambda>changed.
       let started = has_started_action db (cpl_chain_plan_id p)
       in bind_result (in_transition (stop_attack_chain H p c (stop_reason_of latest) now (changed \<or> started))) (\<lambda>stopped.
            if stopped = c then Inr db
            else bind_result (in_chain (advance_chain db c stopped started)) (\<lambda>(_, db'). Inr db'))))"

definition execute_preflight ::
  "(pyval \<Rightarrow> digest) \<Rightarrow> flow_db \<Rightarrow> chain_db \<Rightarrow> AttackChainPlan \<Rightarrow> AttackChainCheckpoint \<Rightarrow> AttackActionCommand \<Rightarrow> AttackAction
   \<Rightarrow> Scope \<Rightarrow> instant \<Rightarrow> (attack_error + unit) \<times> chain_db" where
  "execute_preflight H fdb db p c m a s now =
     (case flow_plan fdb (ag_flow_plan_id (cpl_graph p)) of
        Inl e \<Rightarrow> (Inl (AttackFlowStore e), db)
      | Inr fp \<Rightarrow>
          (case action_flow_preflight fdb fp p c a s now of
             Inr _ \<Rightarrow> (chain_ready p c m a now, db)
           | Inl (AttackChainRejected msg) \<Rightarrow>
               (case stop_for_flow H fdb db fp p c now of
                  Inl e \<Rightarrow> (Inl e, db) | Inr db' \<Rightarrow> (Inl (AttackChainRejected msg), db'))
           | Inl e \<Rightarrow> (Inl e, db)))"

text \<open>The execution approval: the first approval that binds this engagement, target, policy version and action.\<close>

definition execution_approval ::
  "AttackChainPlan \<Rightarrow> AttackAction \<Rightarrow> Scope \<Rightarrow> instant \<Rightarrow> ApprovalRequest \<Rightarrow> bool" where
  "execution_approval p a s now x \<longleftrightarrow>
     appr_engagement_id x = sc_engagement_id s \<and> appr_target_id x = Some (ag_target_id (cpl_graph p)) \<and>
     policy_version x = sc_version s \<and> is_valid_for x EXECUTE_RED_TEAM_ACTION (aa_action_id a) now"

definition approve_action ::
  "(pyval \<Rightarrow> digest) \<Rightarrow> url_env \<Rightarrow> flow_db \<Rightarrow> chain_db \<Rightarrow> AttackChainPlan \<Rightarrow> AttackAction \<Rightarrow> Scope \<Rightarrow> ApprovalRequest list
   \<Rightarrow> instant \<Rightarrow> attack_error + unit" where
  "approve_action H U fdb db p a s approvals now =
     bind_result (attack_authorization H U fdb db p a s now) (\<lambda>z.
       case List.find (execution_approval p a s now) approvals of
         None \<Rightarrow> Inl (AttackChainRejected ''Attack Action lacks its exact execution Approval'')
       | Some _ \<Rightarrow>
           bind_result (attack_request U fdb p a s now) (\<lambda>r.
             if request_digest H r \<noteq> az_policy_action_digest z
             then Inl (AttackChainRejected ''Attack Action policy digest drifted'')
             else bind_result (in_policy (decide H U s r approvals)) (\<lambda>d.
               if effect d \<noteq> ALLOW
               then Inl (AttackChainRejected ''Attack Action lacks required policy Approval'') else Inr ())))"

section \<open>Audit\<close>

text \<open>\<^verbatim>\<open>_reason\<close>; \<^verbatim>\<open>in\<close> on strings is the sublist relation.\<close>

definition attack_reason :: "string \<Rightarrow> string" where
  "attack_reason msg =
     (if sublist ''execution Approval'' msg then ''execution_approval_missing''
      else if sublist ''policy Approval'' msg then ''policy_approval_missing''
      else if sublist ''prerequisites'' msg \<or> sublist ''sequence'' msg then ''prerequisite_incomplete''
      else if sublist ''stale or terminal'' msg then ''checkpoint_invalid''
      else ''flow_boundary_rejected'')"

definition audit_attack ::
  "(pyval \<Rightarrow> digest) \<Rightarrow> chain_db \<Rightarrow> AttackChainPlan \<Rightarrow> AttackChainCheckpoint \<Rightarrow> AttackAction \<Rightarrow> AttackAuditDecision \<Rightarrow> string
   \<Rightarrow> ApprovalRequest list \<Rightarrow> instant \<Rightarrow> attack_error + chain_db" where
  "audit_attack H db p c a decision reason approvals now =
     bind_result (sealed_or_raise (AttackActionAuditRecord_create H
       \<lparr>ax_audit_id = [], ax_chain_plan_id = cpl_chain_plan_id p, ax_action_id = aa_action_id a,
        ax_checkpoint_id = cc_checkpoint_id c, ax_decision = decision, ax_reason_code = reason,
        ax_approval_ids = sort_key uuid_str (map approval_id approvals), ax_recorded_at = now\<rparr>)) (\<lambda>x.
     in_chain (append_chain_audit db x))"

section \<open>Execution\<close>

definition failed_attempt ::
  "(pyval \<Rightarrow> digest) \<Rightarrow> AttackActionCommand \<Rightarrow> AttackAction \<Rightarrow> string \<Rightarrow> instant \<Rightarrow> attack_error + AttackActionObservation" where
  "failed_attempt H m a reason now = sealed_or_raise (AttackActionObservation_create H
     \<lparr>ao_observation_id = [], ao_command_id = ac_command_id m, ao_action_id = aa_action_id a, ao_outcome = Out_FAILED,
      ao_reason_code = reason, ao_evidence_refs = [], ao_goal_reached = False, ao_cleanup_complete = False,
      ao_sensitive_data_redacted = True, ao_observed_at = now\<rparr>)"

definition provenance_invalid ::
  "AttackChainPlan \<Rightarrow> AttackActionCommand \<Rightarrow> AttackAction \<Rightarrow> AttackActionObservation \<Rightarrow> bool" where
  "provenance_invalid p m a x \<longleftrightarrow>
     ao_command_id x \<noteq> ac_command_id m \<or> ao_action_id x \<noteq> aa_action_id a \<or>
     \<not> (cpl_created_at p \<le> ao_observed_at x \<and> ao_observed_at x < action_cutoff p a) \<or>
     ao_goal_reached x \<noteq> (aa_kind a = VERIFY_OBJECTIVE \<and> ao_outcome x = Out_SUCCEEDED)"

text \<open>The observation of an attempt: what the adapter returned when its provenance holds; the second attempt is closed as
  failed.\<close>

definition attempt_observation ::
  "(pyval \<Rightarrow> digest) \<Rightarrow> attack_adapter \<Rightarrow> AttackChainPlan \<Rightarrow> AttackActionCommand \<Rightarrow> AttackAction \<Rightarrow> ApprovalRequest list
   \<Rightarrow> instant \<Rightarrow> attack_error + AttackActionObservation" where
  "attempt_observation H adapter p m a approvals now =
     bind_result
       (case adapter m a approvals now of
          Inr x \<Rightarrow> Inr x
        | Inl AttackActionAdapterInterrupted \<Rightarrow>
            if ac_attempt m < 2 then Inl (AttackAdapter AttackActionAdapterInterrupted)
            else failed_attempt H m a ''adapter_attempts_exhausted'' now
        | Inl e \<Rightarrow> Inl (AttackAdapter e)) (\<lambda>x.
       if \<not> provenance_invalid p m a x then Inr x
       else if ac_attempt m < 2 then Inl (AttackAdapter AttackActionAdapterInterrupted)
       else failed_attempt H m a ''observation_provenance_invalid'' now)"

definition finish_attack ::
  "(pyval \<Rightarrow> digest) \<Rightarrow> chain_db \<Rightarrow> AttackChainPlan \<Rightarrow> AttackChainCheckpoint \<Rightarrow> AttackActionCommand \<Rightarrow> AttackAction
   \<Rightarrow> AttackActionObservation \<Rightarrow> attack_error + ((AttackChainCheckpoint \<times> AttackActionObservation) \<times> chain_db)" where
  "finish_attack H db p c m a x =
     bind_result (in_transition (record_attack_observation H p c a x (ao_observed_at x))) (\<lambda>advanced.
     bind_result (in_chain (complete_attempt db m c advanced x)) (\<lambda>(d, db'). Inr ((d, x), db')))"

text \<open>What follows the audited approval: the claim, the adapter and the completion.\<close>

definition run_attack ::
  "(pyval \<Rightarrow> digest) \<Rightarrow> attack_adapter \<Rightarrow> chain_db \<Rightarrow> AttackChainPlan \<Rightarrow> AttackChainCheckpoint \<Rightarrow> AttackActionCommand
   \<Rightarrow> AttackAction \<Rightarrow> ApprovalRequest list \<Rightarrow> instant
   \<Rightarrow> (attack_error + AttackChainCheckpoint \<times> AttackActionObservation) \<times> chain_db" where
  "run_attack H adapter db p c m a approvals now =
     (case claim_attempt db m of
        Inl e \<Rightarrow> (Inl (AttackStore e), db)
      | Inr (Some x, db') \<Rightarrow>
          (case chain_latest db' (cpl_chain_plan_id p) of
             Inl e \<Rightarrow> (Inl (AttackStore e), db') | Inr d \<Rightarrow> (Inr (d, x), db'))
      | Inr (None, db') \<Rightarrow>
          (case bind_result (attempt_observation H adapter p m a approvals now) (finish_attack H db' p c m a) of
             Inl e \<Rightarrow> (Inl e, db') | Inr (r, db'') \<Rightarrow> (Inr r, db'')))"

text \<open>The guarded part of \<^verbatim>\<open>execute\<close>: the preflight and the approvals.\<close>

definition admit_attack ::
  "(pyval \<Rightarrow> digest) \<Rightarrow> url_env \<Rightarrow> flow_db \<Rightarrow> chain_db \<Rightarrow> AttackChainPlan \<Rightarrow> AttackChainCheckpoint \<Rightarrow> AttackActionCommand
   \<Rightarrow> AttackAction \<Rightarrow> Scope \<Rightarrow> ApprovalRequest list \<Rightarrow> instant \<Rightarrow> (attack_error + unit) \<times> chain_db" where
  "admit_attack H U fdb db p c m a s approvals now =
     (case execute_preflight H fdb db p c m a s now of
        (Inl e, db') \<Rightarrow> (Inl e, db')
      | (Inr _, db') \<Rightarrow> (approve_action H U fdb db' p a s approvals now, db'))"

definition guard_attack ::
  "(pyval \<Rightarrow> digest) \<Rightarrow> url_env \<Rightarrow> flow_db \<Rightarrow> attack_adapter \<Rightarrow> chain_db \<Rightarrow> AttackChainPlan \<Rightarrow> AttackChainCheckpoint
   \<Rightarrow> AttackActionCommand \<Rightarrow> AttackAction \<Rightarrow> Scope \<Rightarrow> ApprovalRequest list \<Rightarrow> instant
   \<Rightarrow> (attack_error + AttackChainCheckpoint \<times> AttackActionObservation) \<times> chain_db" where
  "guard_attack H U fdb adapter db p c m a s approvals now =
     (case admit_attack H U fdb db p c m a s approvals now of
        (Inl (AttackChainRejected msg), db') \<Rightarrow>
          (case audit_attack H db' p c a Audit_REJECTED (attack_reason msg) approvals now of
             Inl e \<Rightarrow> (Inl e, db') | Inr db'' \<Rightarrow> (Inl (AttackChainRejected msg), db''))
      | (Inl e, db') \<Rightarrow> (Inl e, db')
      | (Inr _, db') \<Rightarrow>
          (case audit_attack H db' p c a Audit_ALLOWED ''approval_and_policy_satisfied'' approvals now of
             Inl e \<Rightarrow> (Inl e, db') | Inr db'' \<Rightarrow> run_attack H adapter db'' p c m a approvals now))"

text \<open>The part of \<^verbatim>\<open>execute\<close> that reads the chain; a completed command is answered from the store.\<close>

datatype attack_start =
    Attack_Replay AttackChainCheckpoint AttackActionObservation
  | Attack_Begin AttackChainPlan AttackChainCheckpoint AttackAction

definition open_attack :: "chain_db \<Rightarrow> AttackActionCommand \<Rightarrow> attack_error + attack_start" where
  "open_attack db m =
     bind_result (in_chain (chain_plan db (ac_chain_plan_id m))) (\<lambda>p.
     bind_result (in_chain (chain_latest db (cpl_chain_plan_id p))) (\<lambda>c.
       case List.find (\<lambda>a. aa_action_id a = ac_action_id m) (ag_actions (cpl_graph p)) of
         None \<Rightarrow> Inl (AttackChainRejected ''Attack Action is absent from the sealed graph'')
       | Some a \<Rightarrow>
           bind_result (in_chain (completed_attempt db m)) (\<lambda>replay.
             case replay of Some x \<Rightarrow> Inr (Attack_Replay c x) | None \<Rightarrow> Inr (Attack_Begin p c a))))"

definition execute_attack ::
  "(pyval \<Rightarrow> digest) \<Rightarrow> url_env \<Rightarrow> attack_adapter \<Rightarrow> flow_db \<Rightarrow> chain_db \<Rightarrow> AttackActionCommand \<Rightarrow> Scope \<Rightarrow> ApprovalRequest list
   \<Rightarrow> instant \<Rightarrow> (attack_error + AttackChainCheckpoint \<times> AttackActionObservation) \<times> chain_db" where
  "execute_attack H U adapter fdb db m s approvals now =
     (case open_attack db m of
        Inl e \<Rightarrow> (Inl e, db)
      | Inr (Attack_Replay c x) \<Rightarrow> (Inr (c, x), db)
      | Inr (Attack_Begin p c a) \<Rightarrow> guard_attack H U fdb adapter db p c m a s approvals now)"

end
