(* ===== verification/Attack_Store_Facts.thy ===== *)
theory Attack_Store_Facts
  imports Attack_Store
begin

text \<open>
  What the attack-chain store guarantees: the form of every table, the settlement of attempts, and the agreement of the
  stored checkpoints with the chain machine, all kept by every transaction in whatever order the transactions of several
  callers are interleaved.
\<close>

section \<open>Transactions\<close>

text \<open>
  One committed transaction. A checkpoint that a caller advances is one it has read from the store, possibly before
  transactions of others; only validated contracts reach the store.
\<close>

inductive chain_txn :: "(pyval \<Rightarrow> digest) \<Rightarrow> chain_db \<Rightarrow> chain_db \<Rightarrow> bool" for H where
  txn_create:
    "create_chain db p c used limit = Inr (d, db') \<Longrightarrow> AttackChainPlan_valid H p \<Longrightarrow> planned_checkpoint H p now = Some c \<Longrightarrow>
     chain_txn H db db'"
| txn_start:
    "advance_chain db c c' False = Inr (d, db') \<Longrightarrow> start_attack_chain H p c now = Inr c' \<Longrightarrow>
     p \<in> set (cdb_plans db) \<Longrightarrow> c \<in> set (cdb_checkpoints db) \<Longrightarrow> chain_txn H db db'"
| txn_stop:
    "advance_chain db c c' abandon = Inr (d, db') \<Longrightarrow> stop_attack_chain H p c reason now cleanup = Inr c' \<Longrightarrow>
     p \<in> set (cdb_plans db) \<Longrightarrow> c \<in> set (cdb_checkpoints db) \<Longrightarrow> chain_txn H db db'"
| txn_claim:
    "claim_attempt db m = Inr (r, db') \<Longrightarrow> AttackActionCommand_valid H m \<Longrightarrow> chain_txn H db db'"
| txn_complete:
    "complete_attempt db m c c' x = Inr (d, db') \<Longrightarrow> record_attack_observation H p c a x now = Inr c' \<Longrightarrow>
     p \<in> set (cdb_plans db) \<Longrightarrow> c \<in> set (cdb_checkpoints db) \<Longrightarrow> a \<in> set (ag_actions (cpl_graph p)) \<Longrightarrow>
     ac_chain_plan_id m = cpl_chain_plan_id p \<Longrightarrow> ac_action_id m = aa_action_id a \<Longrightarrow>
     ao_command_id x = ac_command_id m \<Longrightarrow> AttackActionObservation_valid H x \<Longrightarrow> chain_txn H db db'"
| txn_audit:
    "append_chain_audit db x = Inr db' \<Longrightarrow> AttackActionAuditRecord_valid H x \<Longrightarrow> chain_txn H db db'"

section \<open>The invariant\<close>

text \<open>Every row holds a contract that passes its validator.\<close>

definition chain_rows_valid :: "(pyval \<Rightarrow> digest) \<Rightarrow> chain_db \<Rightarrow> bool" where
  "chain_rows_valid H db \<longleftrightarrow>
     list_all (AttackChainPlan_valid H) (cdb_plans db) \<and> list_all (AttackChainCheckpoint_valid H) (cdb_checkpoints db) \<and>
     list_all (\<lambda>r. AttackActionCommand_valid H (at_command r)) (cdb_attempts db) \<and>
     list_all (\<lambda>w. AttackActionObservation_valid H (co_observation w)) (cdb_observations db) \<and>
     list_all (AttackActionAuditRecord_valid H) (cdb_audits db)"

definition attempt_key :: "attempt_row \<Rightarrow> digest \<times> digest" where
  "attempt_key r = (ac_chain_plan_id (at_command r), ac_action_id (at_command r))"

definition chain_keys_unique :: "chain_db \<Rightarrow> bool" where
  "chain_keys_unique db \<longleftrightarrow>
     distinct (map cpl_chain_plan_id (cdb_plans db)) \<and> distinct (map cpl_idempotency_key (cdb_plans db)) \<and>
     cdb_reservations db = map chain_reservation_of (cdb_plans db) \<and>
     distinct (map cc_checkpoint_id (cdb_checkpoints db)) \<and>
     list_all (\<lambda>c. has_chain db (cc_chain_plan_id c)) (cdb_checkpoints db)"

definition attempts_unique :: "chain_db \<Rightarrow> bool" where
  "attempts_unique db \<longleftrightarrow>
     distinct (map attempt_key (cdb_attempts db)) \<and>
     distinct (map (\<lambda>r. ac_command_id (at_command r)) (cdb_attempts db)) \<and>
     (\<forall>i. length (filter (attempt_started i) (cdb_attempts db)) \<le> 1)"

text \<open>A completed attempt, and no other, cites an observation, which is stored for its chain, action and command.\<close>

definition attempt_settled :: "chain_db \<Rightarrow> attempt_row \<Rightarrow> bool" where
  "attempt_settled db r \<longleftrightarrow>
     (case at_observation_id r of
        None \<Rightarrow> at_state r \<noteq> Attempt_COMPLETED
      | Some i \<Rightarrow> at_state r = Attempt_COMPLETED \<and>
          (\<exists>w \<in> set (cdb_observations db). co_chain_plan_id w = ac_chain_plan_id (at_command r) \<and>
             ao_observation_id (co_observation w) = i \<and> ao_action_id (co_observation w) = ac_action_id (at_command r) \<and>
             ao_command_id (co_observation w) = ac_command_id (at_command r)))"

text \<open>A stored observation belongs to a completed attempt.\<close>

definition observation_settled :: "chain_db \<Rightarrow> chain_observation_row \<Rightarrow> bool" where
  "observation_settled db w \<longleftrightarrow>
     (\<exists>r \<in> set (cdb_attempts db). ac_chain_plan_id (at_command r) = co_chain_plan_id w \<and>
        ac_action_id (at_command r) = ao_action_id (co_observation w) \<and> at_state r = Attempt_COMPLETED)"

text \<open>An observed node of a checkpoint cites a stored observation of its action that has the node's outcome.\<close>

definition node_backed :: "chain_db \<Rightarrow> digest \<Rightarrow> AttackNodeProgress \<Rightarrow> bool" where
  "node_backed db i n \<longleftrightarrow>
     (case np_observation_id n of
        None \<Rightarrow> True
      | Some k \<Rightarrow>
          (\<exists>w \<in> set (cdb_observations db). co_chain_plan_id w = i \<and> ao_observation_id (co_observation w) = k \<and>
             ao_action_id (co_observation w) = np_action_id n \<and>
             np_status n = node_status_of (ao_outcome (co_observation w))))"

definition chain_reached :: "(pyval \<Rightarrow> digest) \<Rightarrow> AttackChainPlan \<Rightarrow> AttackChainCheckpoint \<Rightarrow> bool" where
  "chain_reached H p c \<longleftrightarrow> (\<exists>t c0 n. planned_checkpoint H p t = Some c0 \<and> steps (chain_step H p) c0 n c)"

definition chain_tracked :: "(pyval \<Rightarrow> digest) \<Rightarrow> chain_db \<Rightarrow> AttackChainPlan \<Rightarrow> bool" where
  "chain_tracked H db p \<longleftrightarrow>
     (\<exists>c. chain_latest db (cpl_chain_plan_id p) = Inr c \<and> chain_reached H p c \<and>
          list_all (node_backed db (cpl_chain_plan_id p)) (cc_nodes c))"

definition chain_store_ok :: "(pyval \<Rightarrow> digest) \<Rightarrow> chain_db \<Rightarrow> bool" where
  "chain_store_ok H db \<longleftrightarrow>
     chain_rows_valid H db \<and> chain_keys_unique db \<and> attempts_unique db \<and>
     list_all (attempt_settled db) (cdb_attempts db) \<and> list_all (observation_settled db) (cdb_observations db) \<and>
     list_all (chain_tracked H db) (cdb_plans db)"

lemma chain_store_ok_empty: "chain_store_ok H empty_chains"
  by (simp add: chain_store_ok_def empty_chains_def chain_rows_valid_def chain_keys_unique_def attempts_unique_def)

section \<open>Operations\<close>

lemma or_refuse_Inr [result_simps]: "or_refuse msg x = Inr y \<longleftrightarrow> x = Some y"
  by (auto simp: or_refuse_def split: option.splits)

lemma chain_integrity_Inr [result_simps]: "chain_integrity msg r = Inr y \<longleftrightarrow> r = Inr y"
  by (auto simp: chain_integrity_def split: sum.splits chain_store_error.splits)

lemma insert_chain_checkpoint_Inr [result_simps]:
  "insert_chain_checkpoint db c = Inr db' \<longleftrightarrow>
     db' = db\<lparr>cdb_checkpoints := cdb_checkpoints db @ [c]\<rparr> \<and> has_chain db (cc_chain_plan_id c) \<and>
     (\<forall>d \<in> set (cdb_checkpoints db). cc_checkpoint_id d \<noteq> cc_checkpoint_id c \<and>
        (cc_chain_plan_id d = cc_chain_plan_id c \<longrightarrow> cc_revision d \<noteq> cc_revision c))"
  by (auto simp: insert_chain_checkpoint_def list_ex_iff)

lemma chain_latest_mem: "chain_latest db i = Inr c \<Longrightarrow> c \<in> set (cdb_checkpoints db) \<and> cc_chain_plan_id c = i"
  by (auto simp: chain_latest_def result_simps dest: highest_revision_mem)

text \<open>A caller's checkpoint that passes the staleness check is the latest one itself.\<close>

lemma assert_latest_is_latest:
  assumes "chain_keys_unique db" and "c \<in> set (cdb_checkpoints db)" and "chain_assert_latest db c = Inr u"
  shows "chain_latest db (cc_chain_plan_id c) = Inr c"
proof -
  from assms(3) obtain d where d: "chain_latest db (cc_chain_plan_id c) = Inr d" "cc_checkpoint_id d = cc_checkpoint_id c"
    by (auto simp: chain_assert_latest_def result_simps)
  with assms(1,2) have "d = c"
    using chain_latest_mem [OF d(1)] by (auto simp: chain_keys_unique_def distinct_map dest: inj_onD)
  with d show ?thesis by simp
qed

lemma chain_latest_snoc:
  assumes "cdb_checkpoints db' = cdb_checkpoints db @ [c]"
  shows "chain_latest db' i =
    (if cc_chain_plan_id c = i
     then (case chain_latest db i of
             Inr d \<Rightarrow> Inr (if cc_revision c \<le> cc_revision d then d else c) | Inl _ \<Rightarrow> Inr c)
     else chain_latest db i)"
  using assms by (auto simp: chain_latest_def highest_revision_snoc or_refuse_def split: option.splits)

lemma chain_latest_same: "cdb_checkpoints db' = cdb_checkpoints db \<Longrightarrow> chain_latest db' i = chain_latest db i"
  by (simp add: chain_latest_def)

lemma has_chain_same: "cdb_plans db' = cdb_plans db \<Longrightarrow> has_chain db' i = has_chain db i"
  by (simp add: has_chain_def)

lemma node_backed_mono:
  "set (cdb_observations db) \<subseteq> set (cdb_observations db') \<Longrightarrow> node_backed db i n \<Longrightarrow> node_backed db' i n"
  by (auto simp: node_backed_def split: option.splits)

lemma attempt_settled_mono:
  "set (cdb_observations db) \<subseteq> set (cdb_observations db') \<Longrightarrow> attempt_settled db r \<Longrightarrow> attempt_settled db' r"
  unfolding attempt_settled_def by (auto split: option.splits)

lemma chain_tracked_mono:
  assumes "chain_tracked H db p" and "set (cdb_observations db) \<subseteq> set (cdb_observations db')"
    and "chain_latest db' (cpl_chain_plan_id p) = chain_latest db (cpl_chain_plan_id p)"
  shows "chain_tracked H db' p"
  using assms node_backed_mono unfolding chain_tracked_def list_all_iff by metis


lemma chain_rows_untouched:
  assumes "cdb_checkpoints db' = cdb_checkpoints db" and "cdb_observations db' = cdb_observations db"
  shows "chain_tracked H db' p = chain_tracked H db p" and "attempt_settled db' r = attempt_settled db r"
proof -
  have "node_backed db' = node_backed db" by (intro ext) (unfold node_backed_def assms(2), rule refl)
  then show "chain_tracked H db' p = chain_tracked H db p"
    by (simp add: chain_tracked_def chain_latest_same [OF assms(1)])
qed (unfold attempt_settled_def assms(2), rule refl)

lemma recorded_nodes:
  assumes "record_attack_observation H p c a x now = Inr c'"
  shows "cc_nodes c' = observe_node a x (cc_nodes c) \<and> ao_action_id x = aa_action_id a"
  using assms
  by (auto simp: record_attack_observation_def apply_observation_def observe_node_def Let_def result_simps
      split: if_splits option.splits dest!: chain_next_Inr(1))

section \<open>Creating a chain\<close>

lemma create_chain_Inr:
  assumes "create_chain db p c used limit = Inr (d, db')"
  obtains "db' = db" "p \<in> set (cdb_plans db)" "chain_latest db (cpl_chain_plan_id p) = Inr d"
  | (new) "d = c" "insert_chain db p c = Inr (c, db')"
    "\<And>q. q \<in> set (cdb_plans db) \<Longrightarrow> cpl_idempotency_key q \<noteq> cpl_idempotency_key p"
    "used + chain_reserved db (ag_flow_plan_id (cpl_graph p)) + graph_size p \<le> limit"
proof (cases "List.find (\<lambda>q. cpl_idempotency_key q = cpl_idempotency_key p) (cdb_plans db)")
  case None
  from None assms have "insert_chain db p c = Inr (d, db')"
      "used + chain_reserved db (ag_flow_plan_id (cpl_graph p)) + graph_size p \<le> limit"
    by (auto simp: create_chain_def result_simps split: if_splits)
  moreover from this(1) have "d = c" by (auto simp: insert_chain_def result_simps split: if_splits)
  ultimately show thesis using None by (intro that(2)) (auto simp: find_None_iff)
next
  case (Some q)
  then show thesis
    using assms find_SomeD [OF Some] by (intro that(1)) (auto simp: create_chain_def result_simps split: if_splits)
qed

lemma planned_fields:
  assumes "planned_checkpoint H p t = Some c"
  shows "cc_chain_plan_id c = cpl_chain_plan_id p" "AttackChainCheckpoint_valid H c"
    "\<And>n. n \<in> set (cc_nodes c) \<Longrightarrow> np_observation_id n = None"
  using assms by (auto simp: planned_checkpoint_def AttackChainCheckpoint_create_def Let_def split: if_splits)

lemma create_chain_keeps:
  assumes ok: "chain_store_ok H db" and create: "create_chain db p c used limit = Inr (d, db')"
    and p: "AttackChainPlan_valid H p" and c: "planned_checkpoint H p t = Some c"
  shows "chain_store_ok H db'"
  using create
proof (cases rule: create_chain_Inr)
  case 1
  then show ?thesis using ok by simp
next
  case new
  let ?i = "cpl_chain_plan_id p"
  from new(2) have db': "db' = db\<lparr>cdb_plans := cdb_plans db @ [p],
        cdb_reservations := cdb_reservations db @ [chain_reservation_of p], cdb_checkpoints := cdb_checkpoints db @ [c]\<rparr>"
    and fresh: "\<not> has_chain db ?i" "\<forall>e \<in> set (cdb_checkpoints db). cc_checkpoint_id e \<noteq> cc_checkpoint_id c"
    by (auto simp: insert_chain_def result_simps split: if_splits)
  from ok have rows: "chain_rows_valid H db" and keys: "chain_keys_unique db" and attempts: "attempts_unique db"
    "list_all (attempt_settled db) (cdb_attempts db)" "list_all (observation_settled db) (cdb_observations db)"
    and tracked: "list_all (chain_tracked H db) (cdb_plans db)"
    by (simp_all add: chain_store_ok_def)
  have none: "filter (\<lambda>e. cc_chain_plan_id e = ?i) (cdb_checkpoints db) = []"
    using keys fresh(1) by (auto simp: chain_keys_unique_def list_all_iff filter_empty_conv)
  have "chain_latest db' ?i = Inr c"
    using none planned_fields(1) [OF c] by (simp add: chain_latest_def db' or_refuse_def)
  moreover have "chain_reached H p c" using c unfolding chain_reached_def by (blast intro: steps_refl)
  moreover have "list_all (node_backed db' ?i) (cc_nodes c)"
    using planned_fields(3) [OF c] by (simp add: list_all_iff node_backed_def)
  ultimately have "chain_tracked H db' p" by (auto simp: chain_tracked_def)
  moreover have "chain_tracked H db' q" if q: "q \<in> set (cdb_plans db)" for q
  proof (rule chain_tracked_mono)
    show "chain_tracked H db q" using tracked q by (simp add: list_all_iff)
    have "cpl_chain_plan_id q \<noteq> ?i" using fresh(1) q by (auto simp: has_chain_def list_ex_iff)
    then show "chain_latest db' (cpl_chain_plan_id q) = chain_latest db (cpl_chain_plan_id q)"
      using planned_fields(1) [OF c] by (simp add: chain_latest_def db')
  qed (simp add: db')
  ultimately have "list_all (chain_tracked H db') (cdb_plans db')" by (simp add: list_all_iff db')
  moreover have "chain_rows_valid H db'"
    using rows p planned_fields(2) [OF c] by (simp add: chain_rows_valid_def db')
  moreover have "cpl_idempotency_key p \<notin> cpl_idempotency_key ` set (cdb_plans db)" using new(3) by force
  then have "chain_keys_unique db'"
    using keys fresh planned_fields(1) [OF c]
    by (auto simp: chain_keys_unique_def db' has_chain_def list_ex_iff list_all_iff)
  moreover have "attempts_unique db'" using attempts(1) by (simp add: attempts_unique_def db')
  moreover have "list_all (attempt_settled db') (cdb_attempts db')"
    using attempts(2) attempt_settled_mono [of db db'] by (auto simp: db' list_all_iff)
  moreover have "list_all (observation_settled db') (cdb_observations db')"
    using attempts(3) by (simp add: db' list_all_iff observation_settled_def)
  ultimately show ?thesis by (simp add: chain_store_ok_def)
qed

section \<open>Advancing a chain\<close>

text \<open>A transaction that replaces the latest checkpoint by a successor of the chain machine.\<close>

lemma successor_keeps:
  assumes ok: "chain_store_ok H db" and latest: "chain_latest db (cpl_chain_plan_id p) = Inr c"
    and step: "chain_step H p c c'" and p: "p \<in> set (cdb_plans db)"
    and db': "cdb_plans db' = cdb_plans db" "cdb_reservations db' = cdb_reservations db" "cdb_audits db' = cdb_audits db"
      "cdb_checkpoints db' = cdb_checkpoints db @ [c']"
    and fresh: "\<forall>e \<in> set (cdb_checkpoints db). cc_checkpoint_id e \<noteq> cc_checkpoint_id c'"
    and obs: "set (cdb_observations db) \<subseteq> set (cdb_observations db')"
      "\<forall>w \<in> set (cdb_observations db'). AttackActionObservation_valid H (co_observation w)"
    and nodes: "list_all (node_backed db' (cpl_chain_plan_id p)) (cc_nodes c')"
    and attempts: "attempts_unique db'" "list_all (attempt_settled db') (cdb_attempts db')"
      "list_all (observation_settled db') (cdb_observations db')"
      "list_all (\<lambda>r. AttackActionCommand_valid H (at_command r)) (cdb_attempts db')"
  shows "chain_store_ok H db'"
proof -
  let ?i = "cpl_chain_plan_id p"
  from ok have rows: "chain_rows_valid H db" and keys: "chain_keys_unique db"
    and tracked: "list_all (chain_tracked H db) (cdb_plans db)" by (simp_all add: chain_store_ok_def)
  from latest have c: "cc_chain_plan_id c = ?i" by (rule chain_latest_mem [THEN conjunct2])
  from step have c': "cc_chain_plan_id c' = ?i" "cc_revision c' = cc_revision c + 1" "AttackChainCheckpoint_valid H c'"
    using chain.step_owner chain.step_revision chain_step_valid c by auto
  have new: "chain_latest db' ?i = Inr c'" using latest c' by (simp add: chain_latest_snoc [OF db'(4)])
  have "chain_reached H p c" using tracked p latest by (auto simp: chain_tracked_def list_all_iff)
  with step have "chain_reached H p c'" unfolding chain_reached_def by (blast intro: steps_step)
  then have "chain_tracked H db' p" using new nodes by (auto simp: chain_tracked_def)
  moreover have "chain_tracked H db' q" if q: "q \<in> set (cdb_plans db)" "q \<noteq> p" for q
  proof (rule chain_tracked_mono [OF _ obs(1)])
    show "chain_tracked H db q" using tracked q by (simp add: list_all_iff)
    have "cpl_chain_plan_id q \<noteq> ?i" using keys p q by (auto simp: chain_keys_unique_def distinct_map dest: inj_onD)
    then show "chain_latest db' (cpl_chain_plan_id q) = chain_latest db (cpl_chain_plan_id q)"
      using c' by (simp add: chain_latest_snoc [OF db'(4)])
  qed
  ultimately have "list_all (chain_tracked H db') (cdb_plans db')" by (auto simp: list_all_iff db')
  moreover have "chain_rows_valid H db'"
    using rows c'(3) obs(2) attempts(4) by (auto simp: chain_rows_valid_def db' list_all_iff)
  moreover have "has_chain db ?i" using p by (auto simp: has_chain_def list_ex_iff)
  then have "chain_keys_unique db'"
    using keys c'(1) fresh has_chain_same [OF db'(1)] by (auto simp: chain_keys_unique_def db' list_all_iff)
  ultimately show ?thesis using attempts by (simp add: chain_store_ok_def)
qed

lemma advance_chain_Inr:
  assumes "advance_chain db c c' abandon = Inr (d, db')"
  shows "d = c' \<and> chain_assert_latest db c = Inr () \<and> cc_revision c' = cc_revision c + 1 \<and>
    db' = db\<lparr>cdb_attempts := (if abandon then map (abandon_row (cc_chain_plan_id c)) (cdb_attempts db) else cdb_attempts db),
             cdb_checkpoints := cdb_checkpoints db @ [c']\<rparr> \<and>
    (\<forall>e \<in> set (cdb_checkpoints db). cc_checkpoint_id e \<noteq> cc_checkpoint_id c')"
  using assms by (auto simp: advance_chain_def result_simps split: if_splits)

lemma abandon_row_fields [simp]:
  "at_command (abandon_row i r) = at_command r" "at_observation_id (abandon_row i r) = at_observation_id r"
  by (simp_all add: abandon_row_def)

lemma length_filter_map_le:
  "(\<And>x. P (f x) \<Longrightarrow> P x) \<Longrightarrow> length (filter P (map f xs)) \<le> length (filter P xs)"
  by (induction xs) (auto intro: le_SucI)

lemma attempts_unique_map:
  assumes "attempts_unique db" and "cdb_attempts db' = map f (cdb_attempts db)"
    and "\<And>r. at_command (f r) = at_command r" and "\<And>r i. attempt_started i (f r) \<Longrightarrow> attempt_started i r"
  shows "attempts_unique db'"
proof -
  have "attempt_key \<circ> f = attempt_key" "(\<lambda>r. ac_command_id (at_command r)) \<circ> f = (\<lambda>r. ac_command_id (at_command r))"
    using assms(3) by (auto simp: attempt_key_def)
  moreover have "length (filter (attempt_started i) (map f (cdb_attempts db))) \<le> 1" for i
    using length_filter_map_le [of "attempt_started i" f "cdb_attempts db"] assms(1,4)
    by (meson attempts_unique_def le_trans)
  ultimately show ?thesis using assms(1,2) by (auto simp: attempts_unique_def)
qed

lemma advance_chain_keeps:
  assumes ok: "chain_store_ok H db" and adv: "advance_chain db c c' abandon = Inr (d, db')"
    and step: "chain_step H p c c'" and nodes: "cc_nodes c' = cc_nodes c"
    and p: "p \<in> set (cdb_plans db)" and c: "c \<in> set (cdb_checkpoints db)"
  shows "chain_store_ok H db'"
proof -
  from ok have keys: "chain_keys_unique db" and attempts: "attempts_unique db"
    and settled: "list_all (attempt_settled db) (cdb_attempts db)"
    and tracked: "chain_tracked H db p" using p by (simp_all add: chain_store_ok_def list_all_iff)
  note adv' = advance_chain_Inr [OF adv]
  have owner: "cc_chain_plan_id c = cpl_chain_plan_id p" using step by (auto elim: chain_step_next)
  with adv' have latest: "chain_latest db (cpl_chain_plan_id p) = Inr c"
    using assert_latest_is_latest [OF keys c] by simp
  show ?thesis
  proof (rule successor_keeps [OF ok latest step p])
    show "list_all (node_backed db' (cpl_chain_plan_id p)) (cc_nodes c')"
      using tracked latest adv' nodes node_backed_mono [of db db'] by (auto simp: chain_tracked_def list_all_iff)
    show "attempts_unique db'"
    proof (rule attempts_unique_map [OF attempts])
      show "cdb_attempts db' = map (if abandon then abandon_row (cc_chain_plan_id c) else id) (cdb_attempts db)"
        using adv' by simp
    qed (auto simp: attempt_started_def abandon_row_def split: if_splits)
    show "list_all (attempt_settled db') (cdb_attempts db')"
      using settled adv' by (auto simp: list_all_iff attempt_settled_def abandon_row_def attempt_started_def split: option.splits)
    show "list_all (observation_settled db') (cdb_observations db')"
      using ok adv' by (fastforce simp: chain_store_ok_def list_all_iff observation_settled_def abandon_row_def attempt_started_def)
  qed (use adv' ok in \<open>auto simp: chain_store_ok_def chain_rows_valid_def list_all_iff\<close>)
qed

section \<open>Claiming and completing an attempt\<close>

lemma claim_attempt_Inr:
  assumes "claim_attempt db m = Inr (r, db')"
  obtains
    (replay) x where "r = Some x" "db' = db"
  | (retry) q where "r = None" "q \<in> set (cdb_attempts db)" "attempt_of m q"
    "\<exists>q' \<in> set (cdb_attempts db). retries m (ac_attempt (at_command q)) q'"
    "recovered (at_command q) m = m" "ac_attempt m = ac_attempt (at_command q) + 1"
    "db' = db\<lparr>cdb_attempts := map (\<lambda>r. if retries m (ac_attempt (at_command q)) r then r\<lparr>at_command := m\<rparr> else r)
                (cdb_attempts db)\<rparr>"
    "distinct (map (\<lambda>r. ac_command_id (at_command r)) (cdb_attempts db'))"
  | (first) "r = None" "ac_attempt m = 1" "\<forall>q \<in> set (cdb_attempts db). \<not> attempt_of m q"
    "db' = db\<lparr>cdb_attempts := cdb_attempts db @ [\<lparr>at_command = m, at_state = Attempt_STARTED, at_observation_id = None\<rparr>]\<rparr>"
    "\<forall>q \<in> set (cdb_attempts db). ac_command_id (at_command q) \<noteq> ac_command_id m \<and> \<not> attempt_started (ac_chain_plan_id m) q"
    "has_chain db (ac_chain_plan_id m)"
proof (cases "List.find (attempt_of m) (cdb_attempts db)")
  case None
  then show thesis
    using assms by (intro that(3)) (auto simp: claim_attempt_def insert_attempt_def result_simps list_ex_iff split: if_splits)
next
  case (Some q)
  note q = find_SomeD [OF Some]
  let ?P = "retries m (ac_attempt (at_command q))"
  show thesis
  proof (cases "at_state q = Attempt_COMPLETED")
    case True
    then show thesis using assms Some by (auto simp: claim_attempt_def result_simps split: if_splits intro: that(1))
  next
    case False
    with assms Some have same: "recovered (at_command q) m = m" "ac_attempt m = ac_attempt (at_command q) + 1" "r = None"
      and retry: "retry_attempt db m (ac_attempt (at_command q)) = Inr (db', 1)"
      by (auto simp: claim_attempt_def result_simps split: if_splits)
    from retry have one: "length (filter ?P (cdb_attempts db)) = 1"
      and db': "db' = db\<lparr>cdb_attempts := map (\<lambda>r. if ?P r then r\<lparr>at_command := m\<rparr> else r) (cdb_attempts db)\<rparr>"
      and dist: "distinct (map (\<lambda>r. ac_command_id (at_command r)) (cdb_attempts db'))"
      by (auto simp: retry_attempt_def Let_def split: if_splits)
    from one have "\<exists>q' \<in> set (cdb_attempts db). ?P q'"
      by (metis One_nat_def filter_empty_conv length_0_conv nat.distinct(1))
    then show thesis using same db' dist q by (intro that(2) [of q]) auto
  qed
qed

lemma claim_attempt_keeps:
  assumes ok: "chain_store_ok H db" and claim: "claim_attempt db m = Inr (r, db')" and m: "AttackActionCommand_valid H m"
  shows "chain_store_ok H db'"
proof -
  from ok have attempts: "attempts_unique db" and settled: "list_all (attempt_settled db) (cdb_attempts db)"
    and commands: "list_all (\<lambda>r. AttackActionCommand_valid H (at_command r)) (cdb_attempts db)"
    by (simp_all add: chain_store_ok_def chain_rows_valid_def)
  have only: "chain_store_ok H db'"
    if "db' = db\<lparr>cdb_attempts := rows\<rparr>" "attempts_unique db'" "list_all (attempt_settled db') rows"
      "list_all (observation_settled db') (cdb_observations db)"
      "list_all (\<lambda>r. AttackActionCommand_valid H (at_command r)) rows" for rows
  proof -
    have "chain_tracked H db' p = chain_tracked H db p" for p
      by (rule chain_rows_untouched) (simp_all add: that(1))
    then show ?thesis
      using ok that by (simp add: chain_store_ok_def chain_rows_valid_def chain_keys_unique_def has_chain_def list_all_iff)
  qed
  from claim show ?thesis
  proof (cases rule: claim_attempt_Inr)
    case replay
    then show ?thesis using ok by simp
  next
    case (retry q)
    let ?f = "\<lambda>r. if retries m (ac_attempt (at_command q)) r then r\<lparr>at_command := m\<rparr> else r"
    have "map attempt_key (cdb_attempts db') = map attempt_key (cdb_attempts db)"
      by (auto simp: retry(7) attempt_key_def retries_def attempt_of_def)
    moreover have "length (filter (attempt_started i) (cdb_attempts db')) \<le> 1" for i
    proof -
      have "length (filter (attempt_started i) (map ?f (cdb_attempts db))) \<le> length (filter (attempt_started i) (cdb_attempts db))"
        by (rule length_filter_map_le) (auto simp: attempt_started_def retries_def attempt_of_def split: if_splits)
      moreover have "length (filter (attempt_started i) (cdb_attempts db)) \<le> 1"
        using attempts by (simp add: attempts_unique_def)
      ultimately show ?thesis by (simp add: retry(7))
    qed
    ultimately have "attempts_unique db'" using attempts retry(8) by (simp add: attempts_unique_def)
    moreover have "list_all (attempt_settled db') (map ?f (cdb_attempts db))"
      using settled by (auto simp: list_all_iff attempt_settled_def retries_def retry(7) split: option.splits)
    moreover have "list_all (observation_settled db') (cdb_observations db)"
      using ok by (fastforce simp: chain_store_ok_def list_all_iff observation_settled_def retries_def retry(7))
    moreover have "list_all (\<lambda>r. AttackActionCommand_valid H (at_command r)) (map ?f (cdb_attempts db))"
      using commands m by (auto simp: list_all_iff)
    ultimately show ?thesis using retry(7) by (intro only)
  next
    case first
    let ?new = "\<lparr>at_command = m, at_state = Attempt_STARTED, at_observation_id = None\<rparr>"
    have "length (filter (attempt_started i) (cdb_attempts db')) \<le> 1" for i
    proof (cases "i = ac_chain_plan_id m")
      case True
      then have "filter (attempt_started i) (cdb_attempts db) = []" using first(5) by (simp add: filter_empty_conv)
      then show ?thesis by (simp add: first(4))
    next
      case False
      then show ?thesis using attempts by (simp add: first(4) attempts_unique_def attempt_started_def)
    qed
    moreover have "attempt_key ?new \<notin> attempt_key ` set (cdb_attempts db)"
      using first(3) by (auto simp: attempt_key_def attempt_of_def)
    ultimately have "attempts_unique db'"
      using attempts first(5) by (force simp: attempts_unique_def first(4))
    moreover have "list_all (attempt_settled db') (cdb_attempts db @ [?new])"
      using settled by (auto simp: list_all_iff attempt_settled_def first(4) split: option.splits)
    moreover have "list_all (observation_settled db') (cdb_observations db)"
      using ok by (auto simp: chain_store_ok_def list_all_iff observation_settled_def first(4))
    moreover have "list_all (\<lambda>r. AttackActionCommand_valid H (at_command r)) (cdb_attempts db @ [?new])"
      using commands m by simp
    ultimately show ?thesis using first(4) by (intro only)
  qed
qed

lemma complete_attempt_Inr:
  assumes "complete_attempt db m c c' x = Inr (d, db')"
  shows "d = c' \<and> chain_assert_latest db c = Inr () \<and> length (filter (attempt_claimed m) (cdb_attempts db)) = 1 \<and>
    db' = db\<lparr>cdb_attempts := map (complete_attempt_row m (ao_observation_id x)) (cdb_attempts db),
             cdb_observations := cdb_observations db @ [\<lparr>co_chain_plan_id = ac_chain_plan_id m, co_observation = x\<rparr>],
             cdb_checkpoints := cdb_checkpoints db @ [c']\<rparr> \<and>
    (\<forall>e \<in> set (cdb_checkpoints db). cc_checkpoint_id e \<noteq> cc_checkpoint_id c')"
  using assms by (auto simp: complete_attempt_def insert_chain_observation_def result_simps split: if_splits)

lemma complete_attempt_keeps:
  assumes ok: "chain_store_ok H db" and fin: "complete_attempt db m c c' x = Inr (d, db')"
    and rec: "record_attack_observation H p c a x now = Inr c'"
    and p: "p \<in> set (cdb_plans db)" and c: "c \<in> set (cdb_checkpoints db)" and a: "a \<in> set (ag_actions (cpl_graph p))"
    and m: "ac_chain_plan_id m = cpl_chain_plan_id p" "ac_action_id m = aa_action_id a" "ao_command_id x = ac_command_id m"
    and x: "AttackActionObservation_valid H x"
  shows "chain_store_ok H db'"
proof -
  let ?w = "\<lparr>co_chain_plan_id = ac_chain_plan_id m, co_observation = x\<rparr>"
  from ok have keys: "chain_keys_unique db" and attempts: "attempts_unique db"
    and settled: "list_all (attempt_settled db) (cdb_attempts db)"
    and tracked: "chain_tracked H db p" using p by (simp_all add: chain_store_ok_def list_all_iff)
  note fin' = complete_attempt_Inr [OF fin]
  then have db': "cdb_attempts db' = map (complete_attempt_row m (ao_observation_id x)) (cdb_attempts db)"
      "cdb_observations db' = cdb_observations db @ [?w]" by simp_all
  have step: "chain_step H p c c'" using chain_observed [OF rec a x] .
  have owner: "cc_chain_plan_id c = cpl_chain_plan_id p" using step by (auto elim: chain_step_next)
  with fin' have latest: "chain_latest db (cpl_chain_plan_id p) = Inr c"
    using assert_latest_is_latest [OF keys c] by simp
  note nodes = recorded_nodes [OF rec]
  have backed: "list_all (node_backed db (cpl_chain_plan_id p)) (cc_nodes c)"
    using tracked latest by (simp add: chain_tracked_def)
  show ?thesis
  proof (rule successor_keeps [OF ok latest step p])
    have "node_backed db' (cpl_chain_plan_id p) n'" if "n' \<in> set (cc_nodes c')" for n'
      using that nodes backed node_backed_mono [of db db'] m(1)
      by (auto simp: observe_node_def mark_node_def list_all_iff db' node_backed_def split: if_splits option.splits)
    then show "list_all (node_backed db' (cpl_chain_plan_id p)) (cc_nodes c')" by (simp add: list_all_iff)
    show "attempts_unique db'"
      by (rule attempts_unique_map [OF attempts db'(1)])
        (auto simp: attempt_started_def complete_attempt_row_def split: if_splits)
    have "attempt_settled db' (complete_attempt_row m (ao_observation_id x) r)" if r: "r \<in> set (cdb_attempts db)" for r
    proof (cases "attempt_claimed m r")
      case True
      then show ?thesis
        using m nodes by (auto simp: attempt_settled_def complete_attempt_row_def db'(2) attempt_claimed_def attempt_of_def)
    next
      case False
      then show ?thesis
        using settled r attempt_settled_mono [of db db' r] by (auto simp: complete_attempt_row_def list_all_iff db'(2))
    qed
    then show "list_all (attempt_settled db') (cdb_attempts db')" by (simp add: db'(1) list_all_iff)
    from fin' obtain r where r: "r \<in> set (cdb_attempts db)" "attempt_claimed m r"
      by (metis One_nat_def filter_empty_conv length_0_conv nat.distinct(1))
    then have "observation_settled db' ?w"
      using m nodes unfolding observation_settled_def db'(1)
      by (intro bexI [of _ "complete_attempt_row m (ao_observation_id x) r"])
        (auto simp: complete_attempt_row_def attempt_claimed_def attempt_of_def)
    moreover have "observation_settled db' w" if "w \<in> set (cdb_observations db)" for w
      using ok that by (fastforce simp: chain_store_ok_def list_all_iff observation_settled_def db'(1) complete_attempt_row_def
          attempt_claimed_def)
    ultimately show "list_all (observation_settled db') (cdb_observations db')" by (simp add: db'(2) list_all_iff)
  qed (use fin' ok x in \<open>auto simp: chain_store_ok_def chain_rows_valid_def list_all_iff complete_attempt_row_def\<close>)
qed

lemma append_chain_audit_keeps:
  assumes "chain_store_ok H db" and "append_chain_audit db x = Inr db'" and "AttackActionAuditRecord_valid H x"
  shows "chain_store_ok H db'"
proof -
  from assms(2) consider "db' = db" | "db' = db\<lparr>cdb_audits := cdb_audits db @ [x]\<rparr>"
    by (auto simp: append_chain_audit_def result_simps split: if_splits)
  then show ?thesis
  proof cases
    case 2
    have "chain_tracked H db' p = chain_tracked H db p" "attempt_settled db' r = attempt_settled db r" for p r
      by (rule chain_rows_untouched; simp add: 2)+
    moreover have "observation_settled db' w = observation_settled db w" for w by (simp add: observation_settled_def 2)
    ultimately show ?thesis
      using assms 2 by (simp add: chain_store_ok_def chain_rows_valid_def chain_keys_unique_def attempts_unique_def
          has_chain_def list_all_iff)
  qed (use assms in simp)
qed

section \<open>Every transaction\<close>

lemma stop_is_step:
  assumes "stop_attack_chain H p c reason now cleanup = Inr c'" and "cc_revision c' = cc_revision c + 1"
  shows "chain_step H p c c' \<and> cc_nodes c' = cc_nodes c"
proof -
  have live: "cc_status c \<in> {Chain_RUNNING, Chain_CLEANUP_REQUIRED}"
    using assms by (auto simp: stop_attack_chain_def result_simps split: if_splits)
  moreover have "cc_nodes c' = cc_nodes c"
    using assms live by (auto simp: stop_attack_chain_def result_simps split: if_splits dest!: chain_next_Inr(1))
  ultimately show ?thesis using assms(1) by (auto intro: chain_stopped)
qed

lemma start_keeps_nodes:
  "start_attack_chain H p c now = Inr c' \<Longrightarrow> cc_nodes c' = cc_nodes c"
  by (auto simp: start_attack_chain_def result_simps split: if_splits dest!: chain_next_Inr(1))

lemma chain_txn_keeps:
  assumes "chain_store_ok H db" and "chain_txn H db db'"
  shows "chain_store_ok H db'"
  using assms(2)
proof cases
  case (txn_create p c used limit d now)
  then show ?thesis using create_chain_keeps [OF assms(1)] by blast
next
  case (txn_start c c' d p now)
  then show ?thesis using advance_chain_keeps [OF assms(1)] chain_started start_keeps_nodes by blast
next
  case (txn_stop c c' abandon d p reason now cleanup)
  then show ?thesis
    using advance_chain_keeps [OF assms(1)] stop_is_step advance_chain_Inr [of db c c' abandon d db'] by metis
next
  case (txn_claim m r)
  then show ?thesis using claim_attempt_keeps [OF assms(1)] by blast
next
  case (txn_complete m c c' x d p a now)
  then show ?thesis using complete_attempt_keeps [OF assms(1)] by blast
next
  case (txn_audit x)
  then show ?thesis using append_chain_audit_keeps [OF assms(1)] by blast
qed

section \<open>The store implements the chain machine\<close>

text \<open>What a chain's checkpoint may do between two reads: nothing, appear as a planned chain, or take one step.\<close>

inductive chain_view_step ::
  "(pyval \<Rightarrow> digest) \<Rightarrow> AttackChainPlan \<Rightarrow> AttackChainCheckpoint option \<Rightarrow> AttackChainCheckpoint option \<Rightarrow> bool"
  for H p where
  view_same: "chain_view_step H p v v"
| view_planned: "planned_checkpoint H p now = Some c \<Longrightarrow> chain_view_step H p None (Some c)"
| view_step: "chain_step H p c c' \<Longrightarrow> chain_view_step H p (Some c) (Some c')"

definition chain_view :: "AttackChainPlan \<Rightarrow> chain_db \<Rightarrow> AttackChainCheckpoint option" where
  "chain_view p db =
     (if p \<in> set (cdb_plans db)
      then (case chain_latest db (cpl_chain_plan_id p) of Inl _ \<Rightarrow> None | Inr c \<Rightarrow> Some c) else None)"

lemma chain_view_same:
  "cdb_plans db' = cdb_plans db \<Longrightarrow> cdb_checkpoints db' = cdb_checkpoints db \<Longrightarrow> chain_view p db' = chain_view p db"
  by (simp add: chain_view_def chain_latest_same [of db' db])

lemma chain_view_successor:
  assumes ok: "chain_store_ok H db" and latest: "chain_latest db (cpl_chain_plan_id q) = Inr c"
    and step: "chain_step H q c c'" and q: "q \<in> set (cdb_plans db)"
    and db': "cdb_plans db' = cdb_plans db" "cdb_checkpoints db' = cdb_checkpoints db @ [c']"
  shows "chain_view_step H p (chain_view p db) (chain_view p db')"
proof (cases "p = q")
  case True
  have "cc_chain_plan_id c' = cpl_chain_plan_id q" "cc_revision c' = cc_revision c + 1"
    using chain.step_owner [OF step] chain.step_revision [OF step] chain_latest_mem [OF latest] by auto
  then have "chain_latest db' (cpl_chain_plan_id q) = Inr c'" using latest by (simp add: chain_latest_snoc [OF db'(2)])
  then show ?thesis using True latest q step by (simp add: chain_view_def db' view_step)
next
  case False
  have "cc_chain_plan_id c' = cpl_chain_plan_id q"
    using chain.step_owner [OF step] chain_latest_mem [OF latest] by simp
  moreover have "cpl_chain_plan_id p \<noteq> cpl_chain_plan_id q" if "p \<in> set (cdb_plans db)"
    using ok q that False by (auto simp: chain_store_ok_def chain_keys_unique_def distinct_map dest: inj_onD)
  ultimately have "chain_view p db' = chain_view p db"
    by (auto simp: chain_view_def db' chain_latest_snoc [OF db'(2)])
  then show ?thesis by (simp add: view_same)
qed

lemma create_chain_view:
  assumes ok: "chain_store_ok H db" and create: "create_chain db q c used limit = Inr (d, db')"
    and c: "planned_checkpoint H q t = Some c"
  shows "chain_view_step H p (chain_view p db) (chain_view p db')"
  using create
proof (cases rule: create_chain_Inr)
  case 1
  then show ?thesis by (simp add: view_same)
next
  case new
  let ?i = "cpl_chain_plan_id q"
  from new(2) have db': "cdb_plans db' = cdb_plans db @ [q]" "cdb_checkpoints db' = cdb_checkpoints db @ [c]"
    and fresh: "\<not> has_chain db ?i"
    by (auto simp: insert_chain_def result_simps split: if_splits)
  have none: "filter (\<lambda>e. cc_chain_plan_id e = ?i) (cdb_checkpoints db) = []"
    using ok fresh by (auto simp: chain_store_ok_def chain_keys_unique_def list_all_iff filter_empty_conv)
  show ?thesis
  proof (cases "p = q")
    case True
    have "chain_latest db' ?i = Inr c"
      using none planned_fields(1) [OF c] by (simp add: chain_latest_def db' or_refuse_def)
    moreover have "q \<notin> set (cdb_plans db)" using fresh by (auto simp: has_chain_def list_ex_iff)
    ultimately show ?thesis using c True by (simp add: chain_view_def db' view_planned)
  next
    case False
    have "chain_latest db' (cpl_chain_plan_id p) = chain_latest db (cpl_chain_plan_id p)" if "p \<in> set (cdb_plans db)"
    proof -
      have "cpl_chain_plan_id p \<noteq> ?i" using fresh that by (auto simp: has_chain_def list_ex_iff)
      then show ?thesis using planned_fields(1) [OF c] by (simp add: chain_latest_def db')
    qed
    then have "chain_view p db' = chain_view p db" using False by (simp add: chain_view_def db')
    then show ?thesis by (simp add: view_same)
  qed
qed

lemma advance_chain_view:
  assumes ok: "chain_store_ok H db" and adv: "advance_chain db c c' abandon = Inr (d, db')"
    and step: "chain_step H q c c'" and q: "q \<in> set (cdb_plans db)" and c: "c \<in> set (cdb_checkpoints db)"
  shows "chain_view_step H p (chain_view p db) (chain_view p db')"
proof -
  note adv' = advance_chain_Inr [OF adv]
  have "cc_chain_plan_id c = cpl_chain_plan_id q" using step by (auto elim: chain_step_next)
  then have "chain_latest db (cpl_chain_plan_id q) = Inr c"
    using assert_latest_is_latest [OF _ c] adv' ok by (simp add: chain_store_ok_def)
  then show ?thesis using adv' by (intro chain_view_successor [OF ok _ step q]) auto
qed

lemma complete_attempt_view:
  assumes ok: "chain_store_ok H db" and fin: "complete_attempt db m c c' x = Inr (d, db')"
    and step: "chain_step H q c c'" and q: "q \<in> set (cdb_plans db)" and c: "c \<in> set (cdb_checkpoints db)"
  shows "chain_view_step H p (chain_view p db) (chain_view p db')"
proof -
  note fin' = complete_attempt_Inr [OF fin]
  have "cc_chain_plan_id c = cpl_chain_plan_id q" using step by (auto elim: chain_step_next)
  then have "chain_latest db (cpl_chain_plan_id q) = Inr c"
    using assert_latest_is_latest [OF _ c] fin' ok by (simp add: chain_store_ok_def)
  then show ?thesis using fin' by (intro chain_view_successor [OF ok _ step q]) auto
qed

lemma claim_attempt_tables:
  assumes "claim_attempt db m = Inr (r, db')"
  shows "cdb_plans db' = cdb_plans db" "cdb_checkpoints db' = cdb_checkpoints db" "cdb_observations db' = cdb_observations db"
    "cdb_audits db' = cdb_audits db"
  using assms by (cases rule: claim_attempt_Inr; simp)+

lemma append_chain_audit_tables:
  assumes "append_chain_audit db x = Inr db'"
  shows "cdb_plans db' = cdb_plans db" "cdb_checkpoints db' = cdb_checkpoints db" "cdb_observations db' = cdb_observations db"
    "cdb_attempts db' = cdb_attempts db" "\<exists>y \<in> set (cdb_audits db'). ax_audit_id y = ax_audit_id x"
  using assms by (auto simp: append_chain_audit_def result_simps list_ex_iff split: if_splits)

interpretation chain_store: implementation "chain_txn H" "chain_store_ok H" "chain_view p" "chain_view_step H p"
proof
  fix db db' assume ok: "chain_store_ok H db" and txn: "chain_txn H db db'"
  show "chain_store_ok H db'" using ok txn by (rule chain_txn_keeps)
  from txn show "chain_view_step H p (chain_view p db) (chain_view p db')"
  proof cases
    case (txn_create q c used limit d now)
    then show ?thesis using create_chain_view [OF ok] by blast
  next
    case (txn_start c c' d q now)
    then show ?thesis using advance_chain_view [OF ok] chain_started by blast
  next
    case (txn_stop c c' abandon d q reason now cleanup)
    then have "chain_step H q c c'" using stop_is_step advance_chain_Inr by metis
    then show ?thesis using txn_stop advance_chain_view [OF ok] by blast
  next
    case (txn_claim m r)
    then show ?thesis using claim_attempt_tables chain_view_same view_same by metis
  next
    case (txn_complete m c c' x d q a now)
    then show ?thesis using complete_attempt_view [OF ok] chain_observed by blast
  next
    case (txn_audit x)
    then show ?thesis using append_chain_audit_tables(1,2) chain_view_same view_same by metis
  qed
qed

section \<open>What the invariant gives\<close>

lemma tracked_chain_inv:
  assumes "chain_store_ok H db" and "p \<in> set (cdb_plans db)"
  obtains c where "chain_latest db (cpl_chain_plan_id p) = Inr c" "chain_inv H p c" "chain_reached H p c"
    "list_all (node_backed db (cpl_chain_plan_id p)) (cc_nodes c)"
proof -
  from assms obtain c where c: "chain_latest db (cpl_chain_plan_id p) = Inr c" "chain_reached H p c"
      "list_all (node_backed db (cpl_chain_plan_id p)) (cc_nodes c)"
    by (auto simp: chain_store_ok_def list_all_iff chain_tracked_def)
  have "AttackGraph_valid H (cpl_graph p)"
    using assms by (auto simp: chain_store_ok_def chain_rows_valid_def list_all_iff AttackChainPlan_valid_def)
  with c(2) have "chain_inv H p c" unfolding chain_reached_def using chain_inv_reachable by blast
  with c show thesis by (intro that)
qed

text \<open>The evidence behind a chain that reports its goal.\<close>

definition action_evidence :: "chain_db \<Rightarrow> AttackChainPlan \<Rightarrow> AttackAction \<Rightarrow> AttackActionObservation \<Rightarrow> bool" where
  "action_evidence db p a x \<longleftrightarrow>
     \<lparr>co_chain_plan_id = cpl_chain_plan_id p, co_observation = x\<rparr> \<in> set (cdb_observations db) \<and>
     ao_action_id x = aa_action_id a \<and> ao_outcome x = Out_SUCCEEDED \<and> ao_evidence_refs x \<noteq> [] \<and> ao_cleanup_complete x"

lemma goal_evidence:
  assumes ok: "chain_store_ok H db" and p: "p \<in> set (cdb_plans db)"
    and c: "chain_latest db (cpl_chain_plan_id p) = Inr c" and goal: "cc_status c = Chain_GOAL_REACHED"
    and a: "a \<in> set (ag_actions (cpl_graph p))"
  shows "\<exists>x. action_evidence db p a x"
proof -
  from ok p obtain d where "chain_latest db (cpl_chain_plan_id p) = Inr d" "chain_inv H p d"
      "list_all (node_backed db (cpl_chain_plan_id p)) (cc_nodes d)"
    by (rule tracked_chain_inv)
  with c have inv: "chain_inv H p c" and backed: "list_all (node_backed db (cpl_chain_plan_id p)) (cc_nodes c)" by auto
  from inv have valid: "AttackChainCheckpoint_valid H c"
    and ids: "map np_action_id (cc_nodes c) = map aa_action_id (ag_actions (cpl_graph p))" by (simp_all add: chain_inv_def)
  from ids a obtain n where n: "n \<in> set (cc_nodes c)" "np_action_id n = aa_action_id a" by (rule progress_exists)
  have status: "np_status n = Node_SUCCEEDED" "AttackNodeProgress_valid n"
    using valid goal n(1) by (auto simp: AttackChainCheckpoint_valid_def list_ex_iff list_all_iff)
  then obtain k where "np_observation_id n = Some k" by (auto simp: AttackNodeProgress_valid_def)
  moreover have "node_backed db (cpl_chain_plan_id p) n" using backed n(1) by (simp add: list_all_iff)
  ultimately obtain w where w: "w \<in> set (cdb_observations db)" "co_chain_plan_id w = cpl_chain_plan_id p"
      "ao_action_id (co_observation w) = aa_action_id a" "node_status_of (ao_outcome (co_observation w)) = Node_SUCCEEDED"
    using status n(2) by (auto simp: node_backed_def)
  from w(4) have out: "ao_outcome (co_observation w) = Out_SUCCEEDED" by (cases "ao_outcome (co_observation w)") auto
  have "AttackActionObservation_valid H (co_observation w)"
    using ok w(1) by (simp add: chain_store_ok_def chain_rows_valid_def list_all_iff)
  with out have "ao_evidence_refs (co_observation w) \<noteq> []" "ao_cleanup_complete (co_observation w)"
    by (auto simp: AttackActionObservation_valid_def)
  moreover have "w = \<lparr>co_chain_plan_id = cpl_chain_plan_id p, co_observation = co_observation w\<rparr>" using w(2) by simp
  ultimately show ?thesis using w out unfolding action_evidence_def by metis
qed

end
