(* ===== verification/Attack_Service_Facts.thy ===== *)
theory Attack_Service_Facts
  imports Attack_Service Attack_Store_Facts
begin

text \<open>
  Facts about the attack service: every call is a run of store transactions, an execution consults its adapter only for an
  approved and audited action, and how rejected calls treat the cleanup of a chain.
\<close>

section \<open>Results\<close>

lemma attack_lift_Inr [result_simps]:
  "in_chain r = Inr x \<longleftrightarrow> r = Inr x" "in_flow r' = Inr y \<longleftrightarrow> r' = Inr y" "in_transition r2 = Inr z \<longleftrightarrow> r2 = Inr z"
  "in_policy r3 = Inr v \<longleftrightarrow> r3 = Inr v" "sealed_or_raise w = Inr u \<longleftrightarrow> w = Some u"
  by (auto simp: in_chain_def in_flow_def in_transition_def in_policy_def sealed_or_raise_def split: sum.splits option.splits)

lemma attack_lift_rejected [result_simps]:
  "in_chain r \<noteq> Inl (AttackChainRejected msg)" "in_flow r' \<noteq> Inl (AttackChainRejected msg)"
  "in_transition r2 \<noteq> Inl (AttackChainRejected msg)" "in_policy r3 \<noteq> Inl (AttackChainRejected msg)"
  "sealed_or_raise w \<noteq> Inl (AttackChainRejected msg)"
  by (auto simp: in_chain_def in_flow_def in_transition_def in_policy_def sealed_or_raise_def split: sum.splits option.splits)

lemma open_attack_Begin:
  assumes "open_attack db m = Inr (Attack_Begin p c a)"
  shows "p \<in> set (cdb_plans db)" "cpl_chain_plan_id p = ac_chain_plan_id m" "chain_latest db (ac_chain_plan_id m) = Inr c"
    "a \<in> set (ag_actions (cpl_graph p))" "aa_action_id a = ac_action_id m" "completed_attempt db m = Inr None"
proof -
  from assms show "completed_attempt db m = Inr None"
    by (auto simp: open_attack_def result_simps split: option.splits)
  from assms have plan: "chain_plan db (ac_chain_plan_id m) = Inr p"
    and latest: "chain_latest db (cpl_chain_plan_id p) = Inr c"
    and action: "List.find (\<lambda>a. aa_action_id a = ac_action_id m) (ag_actions (cpl_graph p)) = Some a"
    by (auto simp: open_attack_def result_simps split: option.splits)
  from plan show p: "p \<in> set (cdb_plans db)" "cpl_chain_plan_id p = ac_chain_plan_id m"
    by (auto simp: chain_plan_def result_simps dest: find_SomeD)
  from latest p(2) show "chain_latest db (ac_chain_plan_id m) = Inr c" by simp
  from find_SomeD [OF action] show "a \<in> set (ag_actions (cpl_graph p))" "aa_action_id a = ac_action_id m" by simp_all
qed

section \<open>Calls as runs of transactions\<close>

definition chain_run :: "(pyval \<Rightarrow> digest) \<Rightarrow> chain_db \<Rightarrow> chain_db \<Rightarrow> bool" where
  "chain_run H db db' \<longleftrightarrow> (\<exists>n. steps (chain_txn H) db n db')"

lemma chain_run_refl [intro, simp]: "chain_run H db db"
  unfolding chain_run_def by (blast intro: steps_refl)

lemma chain_run_txn: "chain_run H db db' \<Longrightarrow> chain_txn H db' db'' \<Longrightarrow> chain_run H db db''"
  unfolding chain_run_def by (blast intro: steps_step)

lemma chain_run_trans: "chain_run H db db' \<Longrightarrow> chain_run H db' db'' \<Longrightarrow> chain_run H db db''"
proof -
  have "chain_run H db db''" if "steps (chain_txn H) db' n db''" "chain_run H db db'" for n
    using that by (induction rule: steps.induct) (auto intro: chain_run_txn)
  then show "chain_run H db db' \<Longrightarrow> chain_run H db' db'' \<Longrightarrow> chain_run H db db''"
    by (auto simp: chain_run_def [of H db' db''])
qed

lemma chain_run_ok: "chain_run H db db' \<Longrightarrow> chain_store_ok H db \<Longrightarrow> chain_store_ok H db'"
  unfolding chain_run_def using chain_store.steps_simulated by blast

text \<open>An adapter returns contracts that passed their validator.\<close>

definition sound_adapter :: "(pyval \<Rightarrow> digest) \<Rightarrow> attack_adapter \<Rightarrow> bool" where
  "sound_adapter H adapter \<longleftrightarrow>
     (\<forall>m a approvals now x. adapter m a approvals now = Inr x \<longrightarrow> AttackActionObservation_valid H x)"

lemma observation_created: "AttackActionObservation_create H v = Some x \<Longrightarrow> AttackActionObservation_valid H x"
  by (auto simp: AttackActionObservation_create_def Let_def split: if_splits)

lemma offline_attack_sound: "sound_adapter H (offline_attack H sn)"
  unfolding sound_adapter_def
  by (auto simp: offline_attack_def Let_def dest: observation_created split: if_splits option.splits)

lemma failed_attempt_Inr:
  assumes "failed_attempt H m a reason now = Inr x"
  shows "AttackActionObservation_valid H x" "ao_command_id x = ac_command_id m" "ao_action_id x = aa_action_id a"
    "ao_outcome x = Out_FAILED" "ao_observed_at x = now"
  using assms by (auto simp: failed_attempt_def result_simps AttackActionObservation_create_def Let_def split: if_splits)

lemma attempt_observation_Inr:
  assumes "attempt_observation H adapter p m a approvals now = Inr x" and "sound_adapter H adapter"
  shows "AttackActionObservation_valid H x" "ao_command_id x = ac_command_id m"
proof -
  from assms(1) obtain y where y: "adapter m a approvals now = Inr y \<or> (\<exists>reason. failed_attempt H m a reason now = Inr y)"
      "(\<not> provenance_invalid p m a y \<and> x = y) \<or> (\<exists>reason. failed_attempt H m a reason now = Inr x)"
    by (auto simp: attempt_observation_def result_simps split: sum.splits attack_adapter_error.splits if_splits)
  from y(1) assms(2) have "AttackActionObservation_valid H y"
    by (auto simp: sound_adapter_def dest: failed_attempt_Inr)
  with y(2) show "AttackActionObservation_valid H x" "ao_command_id x = ac_command_id m"
    by (auto simp: provenance_invalid_def dest: failed_attempt_Inr)
qed

lemma audit_attack_Inr:
  assumes "audit_attack H db p c a decision reason approvals now = Inr db'"
  obtains x where "AttackActionAuditRecord_valid H x" "append_chain_audit db x = Inr db'"
    "ax_chain_plan_id x = cpl_chain_plan_id p" "ax_action_id x = aa_action_id a" "ax_checkpoint_id x = cc_checkpoint_id c"
    "ax_decision x = decision" "ax_reason_code x = reason" "ax_recorded_at x = now"
  using assms by (auto simp: audit_attack_def result_simps AttackActionAuditRecord_create_def Let_def split: if_splits intro: that)

lemma stop_for_flow_run:
  assumes "stop_for_flow H fdb db fp p c now = Inr db'" and "p \<in> set (cdb_plans db)" and "c \<in> set (cdb_checkpoints db)"
  shows "chain_run H db db'" "cdb_plans db' = cdb_plans db" "set (cdb_checkpoints db) \<subseteq> set (cdb_checkpoints db')"
proof -
  from assms(1) consider "db' = db" | d stopped started reason cleanup where
      "advance_chain db c stopped started = Inr (d, db')" "stop_attack_chain H p c reason now cleanup = Inr stopped"
    by (auto simp: stop_for_flow_def result_simps Let_def split: if_splits)
  then have "chain_run H db db' \<and> cdb_plans db' = cdb_plans db \<and> set (cdb_checkpoints db) \<subseteq> set (cdb_checkpoints db')"
  proof cases
    case 2
    have "chain_txn H db db'" using txn_stop [OF 2 assms(2,3)] .
    then show ?thesis using advance_chain_Inr [OF 2(1)] by (auto intro: chain_run_txn)
  qed simp
  then show "chain_run H db db'" "cdb_plans db' = cdb_plans db" "set (cdb_checkpoints db) \<subseteq> set (cdb_checkpoints db')"
    by simp_all
qed

lemma admit_attack_run:
  assumes "admit_attack H U fdb db p c m a s approvals now = (r, db')"
    and "p \<in> set (cdb_plans db)" and "c \<in> set (cdb_checkpoints db)"
  shows "chain_run H db db'" "cdb_plans db' = cdb_plans db" "c \<in> set (cdb_checkpoints db')" "r = Inr u \<Longrightarrow> db' = db"
proof -
  obtain r1 db1 where pre: "execute_preflight H fdb db p c m a s now = (r1, db1)" by fastforce
  have db': "db' = db1" using assms(1) pre by (auto simp: admit_attack_def split: sum.splits)
  from pre consider "db1 = db" | fp where "stop_for_flow H fdb db fp p c now = Inr db1" "is_ok r1 = False"
    by (auto simp: execute_preflight_def split: sum.splits attack_error.splits)
  then have "chain_run H db db1 \<and> cdb_plans db1 = cdb_plans db \<and> c \<in> set (cdb_checkpoints db1)"
  proof cases
    case (2 fp)
    then show ?thesis using stop_for_flow_run [OF 2(1) assms(2,3)] assms(3) by auto
  qed (use assms(3) in simp)
  then show "chain_run H db db'" "cdb_plans db' = cdb_plans db" "c \<in> set (cdb_checkpoints db')" by (simp_all add: db')
  show "r = Inr u \<Longrightarrow> db' = db"
    using assms(1) pre by (auto simp: admit_attack_def execute_preflight_def split: sum.splits attack_error.splits)
qed

lemma run_attack_run:
  assumes run: "run_attack H adapter db p c m a approvals now = (r, db')"
    and p: "p \<in> set (cdb_plans db)" and c: "c \<in> set (cdb_checkpoints db)" and a: "a \<in> set (ag_actions (cpl_graph p))"
    and m: "ac_chain_plan_id m = cpl_chain_plan_id p" "ac_action_id m = aa_action_id a" "AttackActionCommand_valid H m"
    and adapter: "sound_adapter H adapter"
  shows "chain_run H db db'"
proof (cases "claim_attempt db m")
  case (Inl e)
  then show ?thesis using run by (simp add: run_attack_def)
next
  case (Inr q)
  then obtain o' db1 where claim: "claim_attempt db m = Inr (o', db1)" by (cases q) auto
  then have first: "chain_run H db db1" using txn_claim m(3) chain_run_txn by blast
  note same = claim_attempt_tables [OF claim]
  from run claim consider "db' = db1" | y where "o' = None"
      "bind_result (attempt_observation H adapter p m a approvals now) (finish_attack H db1 p c m a) = Inr (y, db')"
    by (auto simp: run_attack_def split: option.splits sum.splits)
  then show ?thesis
  proof cases
    case 2
    then obtain x where x: "attempt_observation H adapter p m a approvals now = Inr x"
        "finish_attack H db1 p c m a x = Inr (y, db')" by (auto simp: result_simps)
    then obtain c' d where "record_attack_observation H p c a x (ao_observed_at x) = Inr c'"
        "complete_attempt db1 m c c' x = Inr (d, db')" by (auto simp: finish_attack_def result_simps)
    then have "chain_txn H db1 db'"
      using txn_complete [of db1 m c c' x d db' H p a] attempt_observation_Inr [OF x(1) adapter] p c a m same by simp
    then show ?thesis using first chain_run_txn by blast
  qed (use first in simp)
qed

lemma guard_attack_run:
  assumes run: "guard_attack H U fdb adapter db p c m a s approvals now = (r, db')"
    and p: "p \<in> set (cdb_plans db)" and c: "c \<in> set (cdb_checkpoints db)" and a: "a \<in> set (ag_actions (cpl_graph p))"
    and m: "ac_chain_plan_id m = cpl_chain_plan_id p" "ac_action_id m = aa_action_id a" "AttackActionCommand_valid H m"
    and adapter: "sound_adapter H adapter"
  shows "chain_run H db db'"
proof -
  obtain r1 db1 where adm: "admit_attack H U fdb db p c m a s approvals now = (r1, db1)" by fastforce
  note pre = admit_attack_run [OF adm p c]
  have audited: "chain_run H db db2" "cdb_plans db2 = cdb_plans db1" "cdb_checkpoints db2 = cdb_checkpoints db1"
    if "audit_attack H db1 p c a decision reason approvals now = Inr db2" for decision reason db2
    using that pre(1) by (auto elim!: audit_attack_Inr intro: chain_run_txn txn_audit dest: append_chain_audit_tables)
  from run adm consider "db' = db1"
    | decision reason where "audit_attack H db1 p c a decision reason approvals now = Inr db'"
    | decision reason db2 where "audit_attack H db1 p c a decision reason approvals now = Inr db2"
        "run_attack H adapter db2 p c m a approvals now = (r, db')"
    by (auto simp: guard_attack_def split: sum.splits attack_error.splits)
  then show ?thesis
  proof cases
    case 3
    have "chain_run H db2 db'"
      using run_attack_run [OF 3(2) _ _ a m adapter] audited(2,3) [OF 3(1)] pre p by simp
    then show ?thesis using audited(1) [OF 3(1)] chain_run_trans by blast
  qed (use pre audited in auto)
qed

lemma execute_attack_run:
  assumes "execute_attack H U adapter fdb db m s approvals now = (r, db')" and "AttackActionCommand_valid H m"
    and "sound_adapter H adapter"
  shows "chain_run H db db'"
proof -
  from assms(1) consider "db' = db" | p c a where "open_attack db m = Inr (Attack_Begin p c a)"
      "guard_attack H U fdb adapter db p c m a s approvals now = (r, db')"
    by (auto simp: execute_attack_def split: sum.splits attack_start.splits)
  then show ?thesis
  proof cases
    case 2
    note begun = open_attack_Begin [OF 2(1)]
    show ?thesis
      using guard_attack_run [OF 2(2)] begun chain_latest_mem [OF begun(3)] assms(2,3) by auto
  qed simp
qed

lemma create_and_start_attack_run:
  assumes run: "create_and_start_attack H fdb db p s now = (r, fdb', db')" and p: "AttackChainPlan_valid H p"
    and ok: "chain_store_ok H db"
  shows "chain_run H db db'"
proof -
  from run consider "db' = db" | fp planned where "planned_checkpoint H p now = Some planned"
      "start_created H fdb' db fp p planned now = (r, db')"
    by (auto simp: create_and_start_attack_def result_simps split: sum.splits prod.splits)
  then show ?thesis
  proof cases
    case 2
    from 2(2) consider "db' = db" | current db1 used limit where "create_chain db p planned used limit = Inr (current, db1)"
        "db' = db1 \<or> (\<exists>running d. start_attack_chain H p current now = Inr running \<and>
           advance_chain db1 current running False = Inr (d, db'))"
      by (auto simp: start_created_def result_simps split: sum.splits if_splits prod.splits)
    then show ?thesis
    proof cases
      case (2 current db1 used limit)
      have first: "chain_run H db db1" using txn_create [OF 2(1) p] \<open>planned_checkpoint H p now = Some planned\<close> chain_run_txn by blast
      have "p \<in> set (cdb_plans db1) \<and> current \<in> set (cdb_checkpoints db1)"
        using 2(1)
      proof (cases rule: create_chain_Inr)
        case 1
        then show ?thesis using chain_latest_mem by auto
      next
        case new
        then show ?thesis by (auto simp: insert_chain_def result_simps split: if_splits)
      qed
      with 2(2) first show ?thesis by (blast intro: chain_run_txn txn_start)
    qed simp
  qed simp
qed

section \<open>Runs of the service\<close>

text \<open>
  The calls that change the chain store, under any state of the flow store, any scope and approvals, any adapter that returns
  validated observations, and any outcome.
\<close>

inductive attack_call :: "(pyval \<Rightarrow> digest) \<Rightarrow> url_env \<Rightarrow> chain_db \<Rightarrow> chain_db \<Rightarrow> bool" for H U where
  call_create: "create_and_start_attack H fdb db p s now = (r, fdb', db') \<Longrightarrow> AttackChainPlan_valid H p \<Longrightarrow> attack_call H U db db'"
| call_execute: "execute_attack H U adapter fdb db m s approvals now = (r, db') \<Longrightarrow> AttackActionCommand_valid H m \<Longrightarrow>
    sound_adapter H adapter \<Longrightarrow> attack_call H U db db'"

lemma attack_call_run: "attack_call H U db db' \<Longrightarrow> chain_store_ok H db \<Longrightarrow> chain_run H db db'"
  by (induction rule: attack_call.induct) (auto intro: create_and_start_attack_run execute_attack_run)

lemma attack_calls_ok: "steps (attack_call H U) db n db' \<Longrightarrow> chain_store_ok H db \<Longrightarrow> chain_store_ok H db' \<and> chain_run H db db'"
proof (induction rule: steps.induct)
  case (steps_step db n db1 db2)
  then show ?case using attack_call_run chain_run_ok chain_run_trans by blast
qed simp

section \<open>What an execution requires\<close>

lemma execute_attack_begin:
  "open_attack db m = Inr (Attack_Begin p c a) \<Longrightarrow>
   execute_attack H U adapter fdb db m s approvals now = guard_attack H U fdb adapter db p c m a s approvals now"
  by (simp add: execute_attack_def)

lemma attack_adapter_consulted:
  assumes "execute_attack H U adapter fdb db m s approvals now \<noteq> execute_attack H U adapter' fdb db m s approvals now"
  obtains p c a db1 db2 where "open_attack db m = Inr (Attack_Begin p c a)"
    "admit_attack H U fdb db p c m a s approvals now = (Inr (), db)"
    "audit_attack H db p c a Audit_ALLOWED ''approval_and_policy_satisfied'' approvals now = Inr db1"
    "claim_attempt db1 m = Inr (None, db2)"
proof -
  from assms obtain p c a where begun: "open_attack db m = Inr (Attack_Begin p c a)"
    by (auto simp: execute_attack_def split: sum.splits attack_start.splits)
  note start = open_attack_Begin [OF begun]
  obtain r db' where adm: "admit_attack H U fdb db p c m a s approvals now = (r, db')" by fastforce
  note differ = assms [unfolded execute_attack_begin [OF begun] guard_attack_def adm prod.case]
  from differ have ok: "r = Inr ()" by (auto split: sum.splits attack_error.splits)
  then have db': "db' = db" using admit_attack_run(4) [OF adm start(1)] chain_latest_mem [OF start(3)] by blast
  note differ = differ [unfolded ok db' sum.case]
  from differ obtain db1 where audit: "audit_attack H db p c a Audit_ALLOWED ''approval_and_policy_satisfied'' approvals now = Inr db1"
    by (auto split: sum.splits)
  note differ = differ [unfolded audit sum.case run_attack_def]
  from differ obtain db2 where claim: "claim_attempt db1 m = Inr (None, db2)"
    by (auto split: sum.splits option.splits)
  show thesis using that begun adm ok db' audit claim by blast
qed

lemma admit_attack_Inr:
  assumes "admit_attack H U fdb db p c m a s approvals now = (Inr u, db')"
  obtains fp f r d x where "flow_plan fdb (ag_flow_plan_id (cpl_graph p)) = Inr fp"
    "action_flow_preflight fdb fp p c a s now = Inr f" "chain_ready p c m a now = Inr ()"
    "x \<in> set approvals" "execution_approval p a s now x"
    "attack_request U fdb p a s now = Inr r" "decide H U s r approvals = Inr d" "effect d = ALLOW"
proof -
  from assms have pre: "execute_preflight H fdb db p c m a s now = (Inr (), db')"
    and app: "approve_action H U fdb db' p a s approvals now = Inr u"
    by (auto simp: admit_attack_def split: prod.splits sum.splits)
  from pre obtain fp f where "flow_plan fdb (ag_flow_plan_id (cpl_graph p)) = Inr fp"
      "action_flow_preflight fdb fp p c a s now = Inr f" "chain_ready p c m a now = Inr ()"
    by (auto simp: execute_preflight_def split: sum.splits attack_error.splits)
  moreover from app obtain x r d where "List.find (execution_approval p a s now) approvals = Some x"
      "attack_request U fdb p a s now = Inr r" "decide H U s r approvals = Inr d" "effect d = ALLOW"
    by (auto simp: approve_action_def result_simps split: option.splits)
  moreover from find_SomeD [OF this(1)] have "x \<in> set approvals" "execution_approval p a s now x" by simp_all
  ultimately show thesis by (intro that)
qed

lemma chain_ready_Inr:
  assumes "chain_ready p c m a now = Inr ()"
  shows "cc_status c \<in> {Chain_RUNNING, Chain_CLEANUP_REQUIRED}" "ac_expected_checkpoint_id m = cc_checkpoint_id c"
    "now < action_cutoff p a" "cc_status c = Chain_CLEANUP_REQUIRED \<Longrightarrow> aa_kind a = CLEANUP_TEST_SESSION"
    "cc_status c = Chain_RUNNING \<Longrightarrow> prerequisites_done c a"
proof -
  have split: "\<And>b. missing_prerequisites c a = Inr b \<longleftrightarrow> prerequisites_incomplete c (aa_prerequisite_action_ids a) = Inr b"
    by (simp add: missing_prerequisites_def split: sum.splits)
  show "cc_status c \<in> {Chain_RUNNING, Chain_CLEANUP_REQUIRED}" "ac_expected_checkpoint_id m = cc_checkpoint_id c"
    "now < action_cutoff p a" "cc_status c = Chain_CLEANUP_REQUIRED \<Longrightarrow> aa_kind a = CLEANUP_TEST_SESSION"
    using assms by (auto simp: chain_ready_def Let_def split: if_splits)
  assume "cc_status c = Chain_RUNNING"
  with assms have "prerequisites_incomplete c (aa_prerequisite_action_ids a) = Inr False"
    by (auto simp: chain_ready_def Let_def result_simps split split: if_splits)
  then show "prerequisites_done c a" unfolding prerequisites_done_def using prerequisites_succeeded by blast
qed

lemma action_flow_preflight_Inr:
  assumes "action_flow_preflight fdb fp p c a s now = Inr f"
  shows "sc_state s = Scope_APPROVED" "in_validity_window s now" "latest_flow fdb (fp_plan_id fp) = Inr f"
    "aa_kind a \<noteq> CLEANUP_TEST_SESSION \<or> cc_status c \<noteq> Chain_CLEANUP_REQUIRED \<Longrightarrow>
       \<not> flow_boundary_broken fp f (cpl_expected_flow_checkpoint_id p) (cpl_graph p) s now"
  using assms
  by (auto simp: action_flow_preflight_def flow_preflight_def result_simps flow_boundary_broken_def
      split: sum.splits attack_error.splits if_splits)

text \<open>What a granted execution leaves in the store, whatever its adapter does.\<close>

lemma run_attack_kept:
  assumes run: "run_attack H adapter db p c m a approvals now = (r, db')" and claim: "claim_attempt db m = Inr (None, db1)"
  shows "cdb_audits db' = cdb_audits db"
    "\<exists>q \<in> set (cdb_attempts db'). at_command q = m \<and> at_state q \<in> {Attempt_STARTED, Attempt_COMPLETED}"
proof -
  have row: "\<exists>q \<in> set (cdb_attempts db1). at_command q = m \<and> at_state q = Attempt_STARTED"
    using claim
  proof (cases rule: claim_attempt_Inr)
    case (retry q)
    then obtain q' where "q' \<in> set (cdb_attempts db)" "retries m (ac_attempt (at_command q)) q'" by blast
    then show ?thesis
      unfolding retry(7) by (intro bexI [of _ "q'\<lparr>at_command := m\<rparr>"]) (auto simp: retries_def image_iff intro!: bexI [of _ q'])
  qed simp_all
  from run claim consider "db' = db1" | c' x d where "complete_attempt db1 m c c' x = Inr (d, db')"
    by (auto simp: run_attack_def finish_attack_def result_simps split: sum.splits)
  then have "cdb_audits db' = cdb_audits db \<and>
    (\<exists>q \<in> set (cdb_attempts db'). at_command q = m \<and> at_state q \<in> {Attempt_STARTED, Attempt_COMPLETED})"
  proof cases
    case (2 c' x d)
    note fin = complete_attempt_Inr [OF 2]
    from row obtain q where q: "q \<in> set (cdb_attempts db1)" "at_command q = m" "at_state q = Attempt_STARTED" by blast
    then have "complete_attempt_row m (ao_observation_id x) q \<in> set (cdb_attempts db')" using fin by simp
    moreover have "at_command (complete_attempt_row m (ao_observation_id x) q) = m"
      "at_state (complete_attempt_row m (ao_observation_id x) q) \<in> {Attempt_STARTED, Attempt_COMPLETED}"
      using q by (simp_all add: complete_attempt_row_def)
    ultimately show ?thesis using fin claim_attempt_tables(4) [OF claim] by auto
  qed (use row claim_attempt_tables(4) [OF claim] in auto)
  then show "cdb_audits db' = cdb_audits db"
    "\<exists>q \<in> set (cdb_attempts db'). at_command q = m \<and> at_state q \<in> {Attempt_STARTED, Attempt_COMPLETED}" by simp_all
qed

section \<open>Rejected calls\<close>

text \<open>A call whose flow boundary is rejected stops the chain before any approval is looked at; the audit that follows changes
  nothing else.\<close>

lemma rejected_call:
  assumes begun: "open_attack db m = Inr (Attack_Begin p c a)"
    and flow: "flow_plan fdb (ag_flow_plan_id (cpl_graph p)) = Inr fp"
    and pre: "action_flow_preflight fdb fp p c a s now = Inl (AttackChainRejected msg)"
    and stop: "stop_for_flow H fdb db fp p c now = Inr db1"
    and run: "execute_attack H U adapter fdb db m s approvals now = (r, db')"
  shows "\<not> is_ok r \<and> cdb_plans db' = cdb_plans db1 \<and> cdb_checkpoints db' = cdb_checkpoints db1 \<and>
    cdb_attempts db' = cdb_attempts db1 \<and> cdb_observations db' = cdb_observations db1"
proof -
  have "execute_preflight H fdb db p c m a s now = (Inl (AttackChainRejected msg), db1)"
    by (simp add: execute_preflight_def flow pre stop)
  then have adm: "admit_attack H U fdb db p c m a s approvals now = (Inl (AttackChainRejected msg), db1)"
    by (simp add: admit_attack_def)
  from run consider "db' = db1" "\<not> is_ok r"
    | "audit_attack H db1 p c a Audit_REJECTED (attack_reason msg) approvals now = Inr db'" "\<not> is_ok r"
    by (auto simp: execute_attack_begin [OF begun] guard_attack_def adm split: sum.splits)
  then show ?thesis
    by cases (auto elim!: audit_attack_Inr dest: append_chain_audit_tables)
qed

lemma flow_boundary_rejected:
  assumes "latest_flow fdb (fp_plan_id fp) = Inr f"
    and "flow_boundary_broken fp f (cpl_expected_flow_checkpoint_id p) (cpl_graph p) s now"
    and "aa_kind a \<noteq> CLEANUP_TEST_SESSION \<or> cc_status c \<noteq> Chain_CLEANUP_REQUIRED"
  shows "action_flow_preflight fdb fp p c a s now =
    Inl (AttackChainRejected ''Attack Chain Flow boundary is invalid or stopped'')"
  using assms by (auto simp: action_flow_preflight_def flow_preflight_def in_flow_def)

lemma stop_fields:
  assumes "stop_attack_chain H p c reason now cleanup = Inr c'"
    and "cc_status c \<in> {Chain_RUNNING, Chain_CLEANUP_REQUIRED}"
  shows "cc_status c' = (if cleanup then Chain_CLEANUP_REQUIRED else Chain_KILLED)" "cc_nodes c' = cc_nodes c"
    "cc_chain_plan_id c' = cc_chain_plan_id c" "cc_revision c' = cc_revision c + 1" "c' \<noteq> c"
    "cc_chain_plan_id c = cpl_chain_plan_id p"
proof -
  show "cc_status c' = (if cleanup then Chain_CLEANUP_REQUIRED else Chain_KILLED)" "cc_nodes c' = cc_nodes c"
    "cc_chain_plan_id c' = cc_chain_plan_id c" and revision: "cc_revision c' = cc_revision c + 1"
    using assms by (auto simp: stop_attack_chain_def result_simps split: if_splits dest!: chain_next_Inr(1))
  from revision show "c' \<noteq> c" by auto
  show "cc_chain_plan_id c = cpl_chain_plan_id p"
    using assms by (auto simp: stop_attack_chain_def chain_current_def result_simps split: if_splits)
qed

lemma latest_is_highest:
  assumes "chain_latest db i = Inr c" and "d \<in> set (cdb_checkpoints db)" and "cc_chain_plan_id d = i"
  shows "cc_revision d \<le> cc_revision c"
proof -
  have none: "highest_revision rev_of cs = None \<Longrightarrow> cs = []" for rev_of and cs :: "AttackChainCheckpoint list"
    by (cases cs) (auto split: option.splits if_splits)
  have "rev_of d \<le> rev_of c" if "highest_revision rev_of cs = Some c" "d \<in> set cs" for rev_of cs
    and c d :: AttackChainCheckpoint
    using that by (induction cs arbitrary: c) (auto split: option.splits if_splits dest: none)
  from this [of cc_revision "filter (\<lambda>c. cc_chain_plan_id c = i) (cdb_checkpoints db)" c d] assms show ?thesis
    by (auto simp: chain_latest_def result_simps)
qed

text \<open>The effect of one call that the flow boundary rejects, for a checkpoint that is live and a successor whose digest is
  new.\<close>

lemma rejected_call_stops:
  assumes begun: "open_attack db m = Inr (Attack_Begin p c a)"
    and live: "cc_status c \<in> {Chain_RUNNING, Chain_CLEANUP_REQUIRED}"
    and flow: "flow_plan fdb (ag_flow_plan_id (cpl_graph p)) = Inr fp" "latest_flow fdb (fp_plan_id fp) = Inr f"
    and broken: "flow_boundary_broken fp f (cpl_expected_flow_checkpoint_id p) (cpl_graph p) s now"
    and kind: "aa_kind a \<noteq> CLEANUP_TEST_SESSION \<or> cc_status c \<noteq> Chain_CLEANUP_REQUIRED"
    and changed: "changed_target c (ag_actions (cpl_graph p)) = Inr changed"
    and stop: "stop_attack_chain H p c (stop_reason_of f) now (changed \<or> has_started_action db (cpl_chain_plan_id p)) = Inr c'"
    and fresh: "cc_checkpoint_id c' \<notin> cc_checkpoint_id ` set (cdb_checkpoints db)"
    and run: "execute_attack H U adapter fdb db m s approvals now = (r, db')"
  shows "\<not> is_ok r \<and> cdb_plans db' = cdb_plans db \<and> cdb_checkpoints db' = cdb_checkpoints db @ [c'] \<and>
    cdb_observations db' = cdb_observations db \<and>
    cdb_attempts db' = (if has_started_action db (cpl_chain_plan_id p)
      then map (abandon_row (cpl_chain_plan_id p)) (cdb_attempts db) else cdb_attempts db)"
proof -
  let ?started = "has_started_action db (cpl_chain_plan_id p)"
  let ?db1 = "db\<lparr>cdb_attempts := (if ?started then map (abandon_row (cpl_chain_plan_id p)) (cdb_attempts db) else cdb_attempts db),
      cdb_checkpoints := cdb_checkpoints db @ [c']\<rparr>"
  note start = open_attack_Begin [OF begun]
  note c' = stop_fields [OF stop live]
  have "has_chain db (cpl_chain_plan_id p)" using start(1) by (auto simp: has_chain_def list_ex_iff)
  moreover have "cc_checkpoint_id d \<noteq> cc_checkpoint_id c' \<and>
      (cc_chain_plan_id d = cc_chain_plan_id c' \<longrightarrow> cc_revision d \<noteq> cc_revision c')" if "d \<in> set (cdb_checkpoints db)" for d
    using c'(3,4,6) fresh latest_is_highest [OF start(3) that] start(2) that by (auto simp: image_iff dest: sym)
  ultimately have "insert_chain_checkpoint (if ?started
      then db\<lparr>cdb_attempts := map (abandon_row (cpl_chain_plan_id p)) (cdb_attempts db)\<rparr> else db) c' = Inr ?db1"
    using c'(3,6) by (cases ?started) (simp_all add: result_simps has_chain_def)
  moreover have "chain_latest db (cc_chain_plan_id c) = Inr c" using start(2,3) c'(6) by simp
  ultimately have "advance_chain db c c' ?started = Inr (c', ?db1)"
    using c'(4,6) by (cases ?started) (simp_all add: advance_chain_def chain_assert_latest_def)
  then have "stop_for_flow H fdb db fp p c now = Inr ?db1"
    using flow stop changed c'(5) by (simp add: stop_for_flow_def in_flow_def in_transition_def in_chain_def)
  from rejected_call [OF begun flow(1) flow_boundary_rejected [OF flow(2) broken kind] this run]
  show ?thesis by simp
qed

section \<open>Abandoned attempts\<close>

lemma abandoned_kept:
  assumes "chain_txn H db db'" and "q \<in> set (cdb_attempts db)" and "at_state q = Attempt_ABANDONED"
  shows "q \<in> set (cdb_attempts db')"
  using assms(1)
proof cases
  case (txn_create p c used limit d now)
  from txn_create(1) show ?thesis
    by (cases rule: create_chain_Inr) (use assms(2) in \<open>auto simp: insert_chain_def result_simps split: if_splits\<close>)
next
  case (txn_start c c' d p now)
  then show ?thesis using assms(2) by (auto dest!: advance_chain_Inr)
next
  case (txn_stop c c' abandon d p reason now cleanup)
  have "abandon_row i q = q" for i using assms(3) by (simp add: abandon_row_def attempt_started_def)
  then have "q \<in> set (map (abandon_row i) (cdb_attempts db))" for i using assms(2) by (metis image_eqI set_map)
  then show ?thesis using advance_chain_Inr [OF txn_stop(1)] assms(2) by auto
next
  case (txn_claim m r)
  from txn_claim(1) show ?thesis
  proof (cases rule: claim_attempt_Inr)
    case (retry q')
    have "\<not> retries m n q" for n using assms(3) by (simp add: retries_def)
    then show ?thesis unfolding retry(7) using assms(2) by force
  qed (use assms(2) in simp_all)
next
  case (txn_complete m c c' x d p a now)
  have "complete_attempt_row m i q = q" for i using assms(3) by (simp add: complete_attempt_row_def attempt_claimed_def)
  then have "q \<in> set (map (complete_attempt_row m i) (cdb_attempts db))" for i using assms(2) by (metis image_eqI set_map)
  then show ?thesis using complete_attempt_Inr [OF txn_complete(1)] by simp
next
  case (txn_audit x)
  then show ?thesis using assms(2) by (simp add: append_chain_audit_tables(4))
qed

lemma plans_kept:
  assumes "chain_txn H db db'"
  shows "set (cdb_plans db) \<subseteq> set (cdb_plans db')"
  using assms
proof cases
  case (txn_create p c used limit d now)
  from txn_create(1) show ?thesis
    by (cases rule: create_chain_Inr) (auto simp: insert_chain_def result_simps split: if_splits)
qed (auto dest!: advance_chain_Inr complete_attempt_Inr dest: claim_attempt_tables append_chain_audit_tables)

lemma run_keeps:
  assumes "chain_run H db db'" and "q \<in> set (cdb_attempts db)" and "at_state q = Attempt_ABANDONED"
    and "p \<in> set (cdb_plans db)"
  shows "q \<in> set (cdb_attempts db') \<and> p \<in> set (cdb_plans db')"
proof -
  have "q \<in> set (cdb_attempts db') \<and> p \<in> set (cdb_plans db')" if "steps (chain_txn H) db n db'" for n
    using that assms(2-4) by (induction rule: steps.induct) (auto dest: abandoned_kept plans_kept)
  then show ?thesis using assms(1) by (auto simp: chain_run_def)
qed

lemma abandoned_pending:
  assumes ok: "chain_store_ok H db" and p: "p \<in> set (cdb_plans db)" and a: "a \<in> set (ag_actions (cpl_graph p))"
    and q: "q \<in> set (cdb_attempts db)" "at_state q = Attempt_ABANDONED" "attempt_key q = (cpl_chain_plan_id p, aa_action_id a)"
  obtains c where "chain_latest db (cpl_chain_plan_id p) = Inr c" "chain_inv H p c" "node_state c a = Some Node_PENDING"
proof -
  from ok p obtain c where c: "chain_latest db (cpl_chain_plan_id p) = Inr c" "chain_inv H p c"
      "list_all (node_backed db (cpl_chain_plan_id p)) (cc_nodes c)"
    by (rule tracked_chain_inv)
  then have ids: "map np_action_id (cc_nodes c) = map aa_action_id (ag_actions (cpl_graph p))"
    and valid: "AttackChainCheckpoint_valid H c" by (simp_all add: chain_inv_def)
  obtain n where n: "progress_of c (aa_action_id a) = Some n" "n \<in> set (cc_nodes c)" "np_action_id n = aa_action_id a"
    using ids a by (rule progress_exists)
  have "np_observation_id n = None"
  proof (rule ccontr)
    assume "np_observation_id n \<noteq> None"
    then obtain k where k: "np_observation_id n = Some k" by blast
    have "node_backed db (cpl_chain_plan_id p) n" using c(3) n(2) by (simp add: list_all_iff)
    with k obtain w where w: "w \<in> set (cdb_observations db)" "co_chain_plan_id w = cpl_chain_plan_id p"
        "ao_action_id (co_observation w) = aa_action_id a" using n(3) by (auto simp: node_backed_def)
    have "observation_settled db w" using ok w(1) by (simp add: chain_store_ok_def list_all_iff)
    then obtain r where r: "r \<in> set (cdb_attempts db)" "attempt_key r = attempt_key q" "at_state r = Attempt_COMPLETED"
      using w(2,3) q(3) unfolding observation_settled_def attempt_key_def by fastforce
    then have "r = q" using ok q(1) by (auto simp: chain_store_ok_def attempts_unique_def distinct_map dest: inj_onD)
    with r(3) q(2) show False by simp
  qed
  moreover have "AttackNodeProgress_valid n"
    using valid n(2) by (auto simp: AttackChainCheckpoint_valid_def list_all_iff)
  ultimately have "node_state c a = Some Node_PENDING" using n(1) by (simp add: node_state_def AttackNodeProgress_valid_def)
  with c show thesis by (intro that)
qed

end
