(* ===== verification/Attack_Examples.thy ===== *)
theory Attack_Examples
  imports Attack_Service_Facts Replan_Properties
begin

text \<open>
  A concrete attack chain of three actions, the stores it runs through when it is created, started and executed to its goal, its
  flow, and the evaluations on which the closed examples of the chain properties rest.
\<close>

section \<open>Concrete chains\<close>

text \<open>A digest that tells the actions of one graph, the revisions of one chain, and the commands and observations of an action
  apart.\<close>

definition int_field :: "(string \<times> pyval) list \<Rightarrow> string \<Rightarrow> int option" where
  "int_field kvs k = (case map_of kvs k of Some (PInt n) \<Rightarrow> Some n | _ \<Rightarrow> None)"

definition last_field :: "(string \<times> pyval) list \<Rightarrow> string \<Rightarrow> string" where
  "last_field kvs k = (case map_of kvs k of Some (PStr t) \<Rightarrow> [last t] | _ \<Rightarrow> ''0'')"

definition ak_digest :: "pyval \<Rightarrow> digest" where
  "ak_digest v = (case v of PDict kvs \<Rightarrow>
       (case int_field kvs ''ordinal'' of Some k \<Rightarrow> pad_digest k | None \<Rightarrow>
       (case int_field kvs ''revision'' of Some k \<Rightarrow> pad_digest (k + 4) | None \<Rightarrow>
       (case int_field kvs ''attempt'' of
          Some k \<Rightarrow> replicate 63 (if k = 1 then CHR ''c'' else CHR ''d'') @ last_field kvs ''action_id''
        | None \<Rightarrow> replicate 63 (CHR ''b'') @ last_field kvs ''action_id'')))
     | _ \<Rightarrow> pad_digest 0)"

definition ak_none :: digest where
  "ak_none = replicate 63 (CHR ''b'') @ ''0''"

definition ak_action :: "int \<Rightarrow> AttackActionKind \<Rightarrow> digest list \<Rightarrow> AttackAction" where
  "ak_action k kind pre = \<lparr>aa_action_id = pad_digest k, aa_flow_plan_id = pad_digest 12, aa_scope_id = 8,
     aa_scope_version = 1, aa_ordinal = k, aa_kind = kind, aa_phase = expected_phase kind, aa_target_id = 9,
     aa_target_path = ''/login'', aa_test_class = ''read_only'',
     aa_impact = (if kind \<in> {INITIAL_ACCESS_ATTEMPT, CLEANUP_TEST_SESSION} then AI_STATE_CHANGE else AI_READ_ONLY),
     aa_prerequisite_action_ids = pre, aa_objective_id = ak_none\<rparr>"

definition ak_access :: AttackAction where "ak_access = ak_action 1 INITIAL_ACCESS_ATTEMPT []"
definition ak_verify :: AttackAction where "ak_verify = ak_action 2 VERIFY_OBJECTIVE [pad_digest 1]"
definition ak_cleanup :: AttackAction where "ak_cleanup = ak_action 3 CLEANUP_TEST_SESSION [pad_digest 2]"

definition ak_plan :: AttackChainPlan where
  "ak_plan = \<lparr>cpl_chain_plan_id = ak_none,
     cpl_graph = \<lparr>ag_graph_id = ak_none, ag_flow_plan_id = pad_digest 12, ag_target_id = 9, ag_scope_id = 8,
       ag_scope_version = 1, ag_objective = \<lparr>ob_objective_id = ak_none, ob_kind = ESTABLISH_TEST_SESSION,
         ob_evidence_requirement = ''session''\<rparr>, ag_actions = [ak_access, ak_verify, ak_cleanup]\<rparr>,
     cpl_expected_flow_checkpoint_id = pad_digest 1, cpl_created_at = 0, cpl_deadline = 100, cpl_cleanup_deadline = 200,
     cpl_max_failures = 1, cpl_idempotency_key = ''k''\<rparr>"

definition ak_node :: "AttackAction \<Rightarrow> AttackNodeProgress" where
  "ak_node a = \<lparr>np_action_id = aa_action_id a, np_status = Node_PENDING, np_observation_id = None\<rparr>"

definition ak_seen :: "AttackAction \<Rightarrow> AttackActionObservation" where
  "ak_seen a = \<lparr>ao_observation_id = replicate 63 (CHR ''b'') @ [last (aa_action_id a)],
     ao_command_id = replicate 63 (CHR ''c'') @ [last (aa_action_id a)], ao_action_id = aa_action_id a,
     ao_outcome = Out_SUCCEEDED, ao_reason_code = ''seen'', ao_evidence_refs = [pad_digest 13],
     ao_goal_reached = (aa_kind a = VERIFY_OBJECTIVE), ao_cleanup_complete = True, ao_sensitive_data_redacted = True,
     ao_observed_at = 20\<rparr>"

definition ak_done :: "AttackAction \<Rightarrow> AttackNodeProgress" where
  "ak_done a = \<lparr>np_action_id = aa_action_id a, np_status = Node_SUCCEEDED,
     np_observation_id = Some (ao_observation_id (ak_seen a))\<rparr>"

definition ak_chain :: "int \<Rightarrow> AttackChainStatus \<Rightarrow> AttackNodeProgress list \<Rightarrow> digest option \<Rightarrow> AttackActionOutcome option
    \<Rightarrow> string option \<Rightarrow> instant \<Rightarrow> AttackChainCheckpoint" where
  "ak_chain r st ns ob d why t = \<lparr>cc_checkpoint_id = pad_digest (r + 4), cc_chain_plan_id = ak_none, cc_revision = r,
     cc_status = st, cc_nodes = ns, cc_objective_observation_id = ob, cc_deferred_outcome = d, cc_failures = 0,
     cc_stop_reason = why, cc_updated_at = t\<rparr>"

definition ak_waiting :: "AttackNodeProgress list" where
  "ak_waiting = [ak_node ak_access, ak_node ak_verify, ak_node ak_cleanup]"

definition ak_chain0 :: AttackChainCheckpoint where
  "ak_chain0 = ak_chain 0 Chain_PLANNED ak_waiting None None None 5"

definition ak_chain1 :: AttackChainCheckpoint where
  "ak_chain1 = ak_chain 1 Chain_RUNNING ak_waiting None None None 5"

definition ak_chain2 :: AttackChainCheckpoint where
  "ak_chain2 = ak_chain 2 Chain_RUNNING [ak_done ak_access, ak_node ak_verify, ak_node ak_cleanup] None None None 20"

definition ak_chain3 :: AttackChainCheckpoint where
  "ak_chain3 = ak_chain 3 Chain_RUNNING [ak_done ak_access, ak_done ak_verify, ak_node ak_cleanup]
     (Some (ao_observation_id (ak_seen ak_verify))) None None 20"

definition ak_chain4 :: AttackChainCheckpoint where
  "ak_chain4 = ak_chain 4 Chain_GOAL_REACHED [ak_done ak_access, ak_done ak_verify, ak_done ak_cleanup]
     (Some (ao_observation_id (ak_seen ak_verify))) None (Some ''objective_evidence_and_cleanup_recorded'') 20"

definition ak_command :: "AttackAction \<Rightarrow> AttackChainCheckpoint \<Rightarrow> AttackActionCommand" where
  "ak_command a c = \<lparr>ac_command_id = replicate 63 (CHR ''c'') @ [last (aa_action_id a)], ac_chain_plan_id = ak_none,
     ac_expected_checkpoint_id = cc_checkpoint_id c, ac_action_id = aa_action_id a, ac_attempt = 1\<rparr>"

definition ak_row :: "AttackAction \<Rightarrow> AttackChainCheckpoint \<Rightarrow> attempt_state \<Rightarrow> attempt_row" where
  "ak_row a c st = \<lparr>at_command = ak_command a c, at_state = st,
     at_observation_id = (if st = Attempt_COMPLETED then Some (ao_observation_id (ak_seen a)) else None)\<rparr>"

text \<open>The stores of a chain that is created, started, and whose actions are claimed and completed one after the other.\<close>

definition ak_db :: "AttackChainCheckpoint list \<Rightarrow> attempt_row list \<Rightarrow> AttackAction list \<Rightarrow> chain_db" where
  "ak_db cs rows obs = \<lparr>cdb_plans = [ak_plan], cdb_checkpoints = cs, cdb_reservations = [chain_reservation_of ak_plan],
     cdb_attempts = rows,
     cdb_observations = map (\<lambda>a. \<lparr>co_chain_plan_id = ak_none, co_observation = ak_seen a\<rparr>) obs, cdb_audits = []\<rparr>"

definition ak_created :: chain_db where "ak_created = ak_db [ak_chain0] [] []"
definition ak_running :: chain_db where "ak_running = ak_db [ak_chain0, ak_chain1] [] []"

definition ak_claimed :: chain_db where
  "ak_claimed = ak_db [ak_chain0, ak_chain1] [ak_row ak_access ak_chain1 Attempt_STARTED] []"

definition ak_accessed :: chain_db where
  "ak_accessed = ak_db [ak_chain0, ak_chain1, ak_chain2] [ak_row ak_access ak_chain1 Attempt_COMPLETED] [ak_access]"

definition ak_verifying :: chain_db where
  "ak_verifying = ak_db [ak_chain0, ak_chain1, ak_chain2]
     [ak_row ak_access ak_chain1 Attempt_COMPLETED, ak_row ak_verify ak_chain2 Attempt_STARTED] [ak_access]"

definition ak_verified :: chain_db where
  "ak_verified = ak_db [ak_chain0, ak_chain1, ak_chain2, ak_chain3]
     [ak_row ak_access ak_chain1 Attempt_COMPLETED, ak_row ak_verify ak_chain2 Attempt_COMPLETED] [ak_access, ak_verify]"

definition ak_cleaning :: chain_db where
  "ak_cleaning = ak_db [ak_chain0, ak_chain1, ak_chain2, ak_chain3]
     [ak_row ak_access ak_chain1 Attempt_COMPLETED, ak_row ak_verify ak_chain2 Attempt_COMPLETED,
      ak_row ak_cleanup ak_chain3 Attempt_STARTED] [ak_access, ak_verify]"

definition ak_finished :: chain_db where
  "ak_finished = ak_db [ak_chain0, ak_chain1, ak_chain2, ak_chain3, ak_chain4]
     [ak_row ak_access ak_chain1 Attempt_COMPLETED, ak_row ak_verify ak_chain2 Attempt_COMPLETED,
      ak_row ak_cleanup ak_chain3 Attempt_COMPLETED] [ak_access, ak_verify, ak_cleanup]"

lemmas ak_txns = txn_create txn_start txn_claim txn_complete

lemma ak_plan_valid: "AttackChainPlan_valid ak_digest ak_plan"
  by code_simp

lemma ak_planned: "planned_checkpoint ak_digest ak_plan 5 = Some ak_chain0"
  by code_simp

lemma ak_moves:
  "start_attack_chain ak_digest ak_plan ak_chain0 5 = Inr ak_chain1"
  "record_attack_observation ak_digest ak_plan ak_chain1 ak_access (ak_seen ak_access) 20 = Inr ak_chain2"
  "record_attack_observation ak_digest ak_plan ak_chain2 ak_verify (ak_seen ak_verify) 20 = Inr ak_chain3"
  "record_attack_observation ak_digest ak_plan ak_chain3 ak_cleanup (ak_seen ak_cleanup) 20 = Inr ak_chain4"
  by code_simp+

lemma ak_valid:
  "AttackActionCommand_valid ak_digest (ak_command ak_access ak_chain1)"
  "AttackActionCommand_valid ak_digest (ak_command ak_verify ak_chain2)"
  "AttackActionCommand_valid ak_digest (ak_command ak_cleanup ak_chain3)"
  "AttackActionObservation_valid ak_digest (ak_seen ak_access)"
  "AttackActionObservation_valid ak_digest (ak_seen ak_verify)"
  "AttackActionObservation_valid ak_digest (ak_seen ak_cleanup)"
  by code_simp+

lemma ak_stores:
  "create_chain empty_chains ak_plan ak_chain0 0 5 = Inr (ak_chain0, ak_created)"
  "advance_chain ak_created ak_chain0 ak_chain1 False = Inr (ak_chain1, ak_running)"
  "claim_attempt ak_running (ak_command ak_access ak_chain1) = Inr (None, ak_claimed)"
  "complete_attempt ak_claimed (ak_command ak_access ak_chain1) ak_chain1 ak_chain2 (ak_seen ak_access) = Inr (ak_chain2, ak_accessed)"
  by code_simp+

lemma ak_stores_later:
  "claim_attempt ak_accessed (ak_command ak_verify ak_chain2) = Inr (None, ak_verifying)"
  "complete_attempt ak_verifying (ak_command ak_verify ak_chain2) ak_chain2 ak_chain3 (ak_seen ak_verify) = Inr (ak_chain3, ak_verified)"
  "claim_attempt ak_verified (ak_command ak_cleanup ak_chain3) = Inr (None, ak_cleaning)"
  "complete_attempt ak_cleaning (ak_command ak_cleanup ak_chain3) ak_chain3 ak_chain4 (ak_seen ak_cleanup) = Inr (ak_chain4, ak_finished)"
  by code_simp+

lemma ak_members:
  "ak_plan \<in> set (cdb_plans ak_created)" "ak_chain0 \<in> set (cdb_checkpoints ak_created)"
  "ak_plan \<in> set (cdb_plans ak_claimed)" "ak_chain1 \<in> set (cdb_checkpoints ak_claimed)"
  "ak_plan \<in> set (cdb_plans ak_verifying)" "ak_chain2 \<in> set (cdb_checkpoints ak_verifying)"
  "ak_plan \<in> set (cdb_plans ak_cleaning)" "ak_chain3 \<in> set (cdb_checkpoints ak_cleaning)"
  "ak_plan \<in> set (cdb_plans ak_finished)"
  by (simp_all add: ak_created_def ak_claimed_def ak_verifying_def ak_cleaning_def ak_finished_def ak_db_def)

lemma ak_actions: "ag_actions (cpl_graph ak_plan) = [ak_access, ak_verify, ak_cleanup]"
  by (simp add: ak_plan_def)

lemma ak_bindings:
  "ac_chain_plan_id (ak_command a c) = cpl_chain_plan_id ak_plan" "ac_action_id (ak_command a c) = aa_action_id a"
  "ao_command_id (ak_seen a) = ac_command_id (ak_command a c)"
  by (simp_all add: ak_command_def ak_plan_def ak_seen_def)

lemma ak_steps:
  "chain_txn ak_digest empty_chains ak_created" "chain_txn ak_digest ak_created ak_running"
  "chain_txn ak_digest ak_running ak_claimed" "chain_txn ak_digest ak_claimed ak_accessed"
  "chain_txn ak_digest ak_accessed ak_verifying" "chain_txn ak_digest ak_verifying ak_verified"
  "chain_txn ak_digest ak_verified ak_cleaning" "chain_txn ak_digest ak_cleaning ak_finished"
         apply (rule txn_create [OF ak_stores(1) ak_plan_valid ak_planned])
        apply (rule txn_start [OF ak_stores(2) ak_moves(1) ak_members(1,2)])
       apply (rule txn_claim [OF ak_stores(3) ak_valid(1)])
      apply (rule txn_complete [OF ak_stores(4) ak_moves(2) ak_members(3,4) _ ak_bindings(1,2) ak_bindings(3) ak_valid(4)],
        simp add: ak_actions)
     apply (rule txn_claim [OF ak_stores_later(1) ak_valid(2)])
    apply (rule txn_complete [OF ak_stores_later(2) ak_moves(3) ak_members(5,6) _ ak_bindings(1,2) ak_bindings(3) ak_valid(5)],
      simp add: ak_actions)
   apply (rule txn_claim [OF ak_stores_later(3) ak_valid(3)])
  apply (rule txn_complete [OF ak_stores_later(4) ak_moves(4) ak_members(7,8) _ ak_bindings(1,2) ak_bindings(3) ak_valid(6)],
    simp add: ak_actions)
  done

lemma ak_runs:
  "steps (chain_txn ak_digest) empty_chains (Suc (Suc (Suc 0))) ak_claimed"
  "steps (chain_txn ak_digest) empty_chains (Suc (Suc (Suc (Suc (Suc (Suc (Suc 0))))))) ak_cleaning"
  "steps (chain_txn ak_digest) empty_chains (Suc (Suc (Suc (Suc (Suc (Suc (Suc (Suc 0)))))))) ak_finished"
  by (blast intro: steps_refl steps_step ak_steps)+

definition ak_flow :: RedTeamFlowPlan where
  "ak_flow = \<lparr>fp_plan_id = pad_digest 12, fp_mode = \<lparr>wm_workflow = AUTHORIZED_RED_TEAM, wm_visibility = BLACK_BOX,
       wm_execution_profile = EP_RED_TEAM, wm_autonomy = AL_BOUNDED_EXECUTION\<rparr>,
     fp_target = \<lparr>wt_target_id = 9, wt_url = ''https://shop.test/''\<rparr>,
     fp_rules = \<lparr>roe_id = pad_digest 0, roe_scope_id = 8, roe_scope_version = 1, roe_target_id = 9,
       roe_phases = [RECON, INITIAL_ACCESS, POST_EXPLOITATION], roe_allowed_test_classes = [''read_only''],
       allowed_impacts = [Imp_READ_ONLY], approval_required_impacts = [Imp_STATE_CHANGE],
       prohibited_impacts = CHAIN_PROHIBITED,
       stop_conditions = \<lparr>stop_at = 9000, max_actions = 5, max_consecutive_failures = 2\<rparr>,
       emergency_contact_ref = ''contact:ops''\<rparr>,
     fp_created_at = 0, fp_deadline = 9000, fp_idempotency_key = ''k''\<rparr>"

definition ak_flow_at :: "int \<Rightarrow> RedTeamFlowStatus \<Rightarrow> string option \<Rightarrow> RedTeamCheckpoint" where
  "ak_flow_at k st why = \<lparr>fc_checkpoint_id = pad_digest k, fc_plan_id = pad_digest 12, fc_revision = k, fc_status = st,
     fc_actions_used = 0, fc_consecutive_failures = 0, fc_observation_ids = [], fc_stop_reason = why, fc_updated_at = k\<rparr>"

definition ak_flows :: flow_db where
  "ak_flows = empty_flows\<lparr>fdb_plans := [ak_flow], fdb_checkpoints := [ak_flow_at 1 Flow_RUNNING None]\<rparr>"

definition ak_killed :: flow_db where
  "ak_killed = empty_flows\<lparr>fdb_plans := [ak_flow], fdb_checkpoints := [ak_flow_at 1 Flow_RUNNING None,
     ak_flow_at 2 Flow_KILLED (Some ''kill_switch_activated'')]\<rparr>"

definition ak_approval :: "ApprovalAction \<Rightarrow> digest \<Rightarrow> ApprovalRequest" where
  "ak_approval act dig = rt_approval\<lparr>appr_action := act, action_digest := dig\<rparr>"

definition ak_approvals :: "ApprovalRequest list" where
  "ak_approvals = [ak_approval EXECUTE_RED_TEAM_ACTION (pad_digest 1), ak_approval MUTATE_TARGET_STATE ak_none]"

lemma ak_created_by_service:
  "create_and_start_attack ak_digest ak_flows empty_chains ak_plan rt_scope 5 =
     (Inr ak_chain1, ak_flows\<lparr>fdb_external := [\<lparr>xr_reservation_id = ak_none, xr_plan_id = pad_digest 12,
        xr_source_checkpoint_id = pad_digest 1, xr_action_count = 3\<rparr>]\<rparr>, ak_running)"
  by code_simp

lemma ak_executions:
  "is_ok (fst (execute_attack ak_digest rt_env (\<lambda>_ a _ _. Inr (ak_seen a)) ak_flows ak_running (ak_command ak_access ak_chain1)
     rt_scope ak_approvals 20))"
  "\<not> is_ok (fst (execute_attack ak_digest rt_env (\<lambda>_ _ _ _. Inl AttackAdapterFailed) ak_flows ak_running
     (ak_command ak_access ak_chain1) rt_scope ak_approvals 20))"
  by code_simp+

lemma ak_finished_latest:
  "chain_latest ak_finished (cpl_chain_plan_id ak_plan) = Inr ak_chain4" "cc_status ak_chain4 = Chain_GOAL_REACHED"
  by code_simp+

text \<open>The chain after its flow was killed: it owes its cleanup, or was killed itself, before and after the other actions.\<close>

definition ak_owing :: AttackChainCheckpoint where
  "ak_owing = ak_chain 2 Chain_CLEANUP_REQUIRED ak_waiting None (Some Out_REJECTED) None 30"

definition ak_dead :: AttackChainCheckpoint where
  "ak_dead = ak_chain 3 Chain_KILLED ak_waiting None None (Some ''flow_kill_switch_activated'') 31"

definition ak_stuck :: AttackChainCheckpoint where
  "ak_stuck = ak_chain 4 Chain_CLEANUP_REQUIRED [ak_done ak_access, ak_done ak_verify, ak_node ak_cleanup]
     (Some (ao_observation_id (ak_seen ak_verify))) (Some Out_REJECTED) None 30"

definition ak_silent :: attack_adapter where
  "ak_silent m a approvals now = Inl AttackActionAdapterInterrupted"

lemma ak_silent_sound: "sound_adapter H ak_silent"
  by (simp add: sound_adapter_def ak_silent_def)

lemma ak_flow_killed:
  "flow_plan ak_killed (ag_flow_plan_id (cpl_graph ak_plan)) = Inr ak_flow"
  "latest_flow ak_killed (fp_plan_id ak_flow) = Inr (ak_flow_at 2 Flow_KILLED (Some ''kill_switch_activated''))"
  "flow_boundary_broken ak_flow (ak_flow_at 2 Flow_KILLED (Some ''kill_switch_activated''))
     (cpl_expected_flow_checkpoint_id ak_plan) (cpl_graph ak_plan) rt_scope 30"
  "flow_boundary_broken ak_flow (ak_flow_at 2 Flow_KILLED (Some ''kill_switch_activated''))
     (cpl_expected_flow_checkpoint_id ak_plan) (cpl_graph ak_plan) rt_scope 31"
  by code_simp+

lemma ak_access_interrupted:
  "open_attack ak_claimed (ak_command ak_access ak_chain1) = Inr (Attack_Begin ak_plan ak_chain1 ak_access)"
  "cc_status ak_chain1 = Chain_RUNNING" "aa_kind ak_access \<noteq> CLEANUP_TEST_SESSION"
  "has_started_action ak_claimed (cpl_chain_plan_id ak_plan)"
  "changed_target ak_chain1 (ag_actions (cpl_graph ak_plan)) = Inr False"
  "stop_attack_chain ak_digest ak_plan ak_chain1 (stop_reason_of (ak_flow_at 2 Flow_KILLED (Some ''kill_switch_activated'')))
     30 True = Inr ak_owing"
  "stop_attack_chain ak_digest ak_plan ak_owing (stop_reason_of (ak_flow_at 2 Flow_KILLED (Some ''kill_switch_activated'')))
     31 False = Inr ak_dead"
  "cc_checkpoint_id ak_owing \<notin> cc_checkpoint_id ` set (cdb_checkpoints ak_claimed)"
  "cc_checkpoint_id ak_dead \<notin> insert (cc_checkpoint_id ak_owing) (cc_checkpoint_id ` set (cdb_checkpoints ak_claimed))"
  by code_simp+

lemma ak_cleanup_interrupted:
  "open_attack ak_cleaning (ak_command ak_cleanup ak_chain3) = Inr (Attack_Begin ak_plan ak_chain3 ak_cleanup)"
  "cc_status ak_chain3 = Chain_RUNNING" "aa_kind ak_cleanup = CLEANUP_TEST_SESSION"
  "changed_target ak_chain3 (ag_actions (cpl_graph ak_plan)) = Inr True"
  "stop_attack_chain ak_digest ak_plan ak_chain3 (stop_reason_of (ak_flow_at 2 Flow_KILLED (Some ''kill_switch_activated'')))
     30 True = Inr ak_stuck"
  "cc_checkpoint_id ak_stuck \<notin> cc_checkpoint_id ` set (cdb_checkpoints ak_cleaning)"
  "AttackActionCommand_valid ak_digest (ak_command ak_cleanup ak_stuck)"
  by code_simp+

lemma ak_cleanup_row:
  "ak_row ak_cleanup ak_chain3 Attempt_STARTED \<in> set (cdb_attempts ak_cleaning)"
  "attempt_key (ak_row ak_cleanup ak_chain3 Attempt_STARTED) = (cpl_chain_plan_id ak_plan, aa_action_id ak_cleanup)"
  "at_state (ak_row ak_cleanup ak_chain3 Attempt_STARTED) = Attempt_STARTED"
  by (simp_all add: ak_cleaning_def ak_db_def attempt_key_def ak_row_def ak_command_def ak_plan_def)

end
