(* ===== verification/Attack_Properties.thy ===== *)
theory Attack_Properties
  imports Attack_Examples
begin

text \<open>
  The properties of attack chains as they are stored and executed: the authority behind every consulted adapter, the form and the
  evidence of the store in every reachable state, its agreement with the chain machine, and two ways in which a rejected call
  loses the cleanup a chain owes its target.
\<close>

section \<open>Authority\<close>

text \<open>C10. An attack action touches its target only under exact authority: when the outcome of an execution depends on the
  adapter, the action belongs to the stored plan, the command names the latest checkpoint, which is running or owes its
  cleanup, the cutoff lies ahead, the Scope is approved and current, an approval in force names exactly this action, the
  target, the engagement and the Scope's version, and the policy allows the concrete request. Unless the action is the cleanup,
  the flow is running at the checkpoint the plan was sealed for and all prerequisites have succeeded. By then the store
  holds the claim of the command and an audit record under the identifier of an approval of this action.\<close>

theorem attack_action_approved:
  assumes "execute_attack H U f fdb db m s approvals now \<noteq> execute_attack H U g fdb db m s approvals now"
  shows "\<exists>p c a fp fc x r d y. p \<in> set (cdb_plans db) \<and> chain_latest db (ac_chain_plan_id m) = Inr c \<and>
    a \<in> set (ag_actions (cpl_graph p)) \<and> aa_action_id a = ac_action_id m \<and>
    cc_status c \<in> {Chain_RUNNING, Chain_CLEANUP_REQUIRED} \<and> ac_expected_checkpoint_id m = cc_checkpoint_id c \<and>
    now < action_cutoff p a \<and> sc_state s = Scope_APPROVED \<and> in_validity_window s now \<and>
    x \<in> set approvals \<and> appr_engagement_id x = sc_engagement_id s \<and> appr_target_id x = Some (ag_target_id (cpl_graph p)) \<and>
    policy_version x = sc_version s \<and> is_valid_for x EXECUTE_RED_TEAM_ACTION (aa_action_id a) now \<and>
    attack_request U fdb p a s now = Inr r \<and> decide H U s r approvals = Inr d \<and> effect d = ALLOW \<and>
    flow_plan fdb (ag_flow_plan_id (cpl_graph p)) = Inr fp \<and>
    (aa_kind a = CLEANUP_TEST_SESSION \<or>
       (latest_flow fdb (fp_plan_id fp) = Inr fc \<and> fc_status fc = Flow_RUNNING \<and> ag_flow_plan_id (cpl_graph p) = fp_plan_id fp \<and>
        fc_checkpoint_id fc = cpl_expected_flow_checkpoint_id p \<and> now < fp_deadline fp \<and> prerequisites_done c a)) \<and>
    AttackActionAuditRecord_valid H y \<and> ax_decision y = Audit_ALLOWED \<and> ax_action_id y = aa_action_id a \<and>
    ax_checkpoint_id y = cc_checkpoint_id c \<and>
    ax_audit_id y \<in> ax_audit_id ` set (cdb_audits (snd (execute_attack H U f fdb db m s approvals now))) \<and>
    (\<exists>q \<in> set (cdb_attempts (snd (execute_attack H U f fdb db m s approvals now))).
       at_command q = m \<and> at_state q \<in> {Attempt_STARTED, Attempt_COMPLETED})"
proof -
  obtain p c a db1 db2 where begun: "open_attack db m = Inr (Attack_Begin p c a)"
    and adm: "admit_attack H U fdb db p c m a s approvals now = (Inr (), db)"
    and audit: "audit_attack H db p c a Audit_ALLOWED ''approval_and_policy_satisfied'' approvals now = Inr db1"
    and claim: "claim_attempt db1 m = Inr (None, db2)"
    using attack_adapter_consulted [OF assms] .
  obtain fp fc r d x where plan: "flow_plan fdb (ag_flow_plan_id (cpl_graph p)) = Inr fp"
    and flow: "action_flow_preflight fdb fp p c a s now = Inr fc"
    and ready: "chain_ready p c m a now = Inr ()"
    and x: "x \<in> set approvals" "execution_approval p a s now x"
    and policy: "attack_request U fdb p a s now = Inr r" "decide H U s r approvals = Inr d" "effect d = ALLOW"
    using admit_attack_Inr [OF adm] .
  obtain y where y: "AttackActionAuditRecord_valid H y" "append_chain_audit db y = Inr db1" "ax_action_id y = aa_action_id a"
      "ax_checkpoint_id y = cc_checkpoint_id c" "ax_decision y = Audit_ALLOWED"
    using audit_attack_Inr [OF audit] .
  have run: "execute_attack H U f fdb db m s approvals now = run_attack H f db1 p c m a approvals now"
    by (simp add: execute_attack_begin [OF begun] guard_attack_def adm audit)
  obtain r' db' where res: "run_attack H f db1 p c m a approvals now = (r', db')" by fastforce
  have "ax_audit_id y \<in> ax_audit_id ` set (cdb_audits db')"
    using append_chain_audit_tables(5) [OF y(2)] unfolding run_attack_kept(1) [OF res claim] by (metis imageI)
  moreover have "aa_kind a = CLEANUP_TEST_SESSION \<or>
      (latest_flow fdb (fp_plan_id fp) = Inr fc \<and> fc_status fc = Flow_RUNNING \<and> ag_flow_plan_id (cpl_graph p) = fp_plan_id fp \<and>
       fc_checkpoint_id fc = cpl_expected_flow_checkpoint_id p \<and> now < fp_deadline fp \<and> prerequisites_done c a)"
  proof (cases "aa_kind a = CLEANUP_TEST_SESSION")
    case False
    then have "cc_status c = Chain_RUNNING" using chain_ready_Inr(1,4) [OF ready] by auto
    moreover from this have "prerequisites_done c a" by (rule chain_ready_Inr(5) [OF ready])
    ultimately show ?thesis
      using action_flow_preflight_Inr(3,4) [OF flow] by (auto simp: flow_boundary_broken_def)
  qed simp
  moreover have "\<exists>q \<in> set (cdb_attempts db'). at_command q = m \<and> at_state q \<in> {Attempt_STARTED, Attempt_COMPLETED}"
    using run_attack_kept(2) [OF res claim] .
  moreover note open_attack_Begin(1,3-5) [OF begun] chain_ready_Inr(1-3) [OF ready] action_flow_preflight_Inr(1,2) [OF flow]
    x(1) x(2) [unfolded execution_approval_def] policy plan y(1,3-5)
  ultimately show ?thesis
    unfolding run res snd_conv
    apply -
    apply (rule exI [of _ p], rule exI [of _ c], rule exI [of _ a], rule exI [of _ fp], rule exI [of _ fc])
    apply (rule exI [of _ x], rule exI [of _ r], rule exI [of _ d], rule exI [of _ y])
    apply (elim conjE)
    apply (intro conjI; assumption)
    done
qed

theorem attack_action_approved_witness:
  "\<exists>x. x \<in> set ak_approvals \<and> is_valid_for x EXECUTE_RED_TEAM_ACTION (ac_action_id (ak_command ak_access ak_chain1)) 20"
proof -
  have "execute_attack ak_digest rt_env (\<lambda>_ a _ _. Inr (ak_seen a)) ak_flows ak_running (ak_command ak_access ak_chain1)
      rt_scope ak_approvals 20 \<noteq> execute_attack ak_digest rt_env (\<lambda>_ _ _ _. Inl AttackAdapterFailed) ak_flows ak_running
      (ak_command ak_access ak_chain1) rt_scope ak_approvals 20"
    using ak_executions by metis
  from attack_action_approved [OF this] show ?thesis by metis
qed

section \<open>The store\<close>

text \<open>C11. In every store that any interleaving of transactions builds up, every row is a contract that passes its validator,
  plans, keys, checkpoints, attempts and commands are unique, every plan has its reservation, at most one action of a chain is
  started, and exactly the completed attempts cite an observation, which is stored for their chain, action and command.\<close>

theorem attack_store_typed:
  assumes "steps (chain_txn H) empty_chains n db"
  shows "(\<forall>p \<in> set (cdb_plans db). AttackChainPlan_valid H p) \<and>
    (\<forall>c \<in> set (cdb_checkpoints db). AttackChainCheckpoint_valid H c \<and> has_chain db (cc_chain_plan_id c)) \<and>
    (\<forall>r \<in> set (cdb_attempts db). AttackActionCommand_valid H (at_command r) \<and> attempt_settled db r) \<and>
    (\<forall>w \<in> set (cdb_observations db). AttackActionObservation_valid H (co_observation w) \<and> observation_settled db w) \<and>
    (\<forall>x \<in> set (cdb_audits db). AttackActionAuditRecord_valid H x) \<and>
    cdb_reservations db = map chain_reservation_of (cdb_plans db) \<and>
    distinct (map cpl_chain_plan_id (cdb_plans db)) \<and> distinct (map cpl_idempotency_key (cdb_plans db)) \<and>
    distinct (map cc_checkpoint_id (cdb_checkpoints db)) \<and> distinct (map attempt_key (cdb_attempts db)) \<and>
    distinct (map (\<lambda>r. ac_command_id (at_command r)) (cdb_attempts db)) \<and>
    (\<forall>i. length (filter (attempt_started i) (cdb_attempts db)) \<le> 1)"
proof -
  have "chain_store_ok H db" using chain_store.steps_simulated [OF assms] chain_store_ok_empty by blast
  then show ?thesis
    by (simp add: chain_store_ok_def chain_rows_valid_def chain_keys_unique_def attempts_unique_def list_all_iff)
qed

theorem attack_store_typed_witness:
  "distinct (map attempt_key (cdb_attempts ak_finished)) \<and>
   length (filter (attempt_started ak_none) (cdb_attempts ak_finished)) \<le> 1"
  using attack_store_typed [OF ak_runs(3)] by blast

text \<open>C12. Whatever calls of the service are made, with whatever flow stores, scopes, approvals, adapters and outcomes, the
  checkpoint of a chain read back from the store moves as the chain machine does: it appears as the planned checkpoint and
  then takes only accepted transitions.\<close>

theorem attack_calls_follow_machine:
  assumes "steps (attack_call H U) empty_chains n db"
  shows "\<exists>k. steps (chain_view_step H p) None k (chain_view p db)"
proof -
  have "chain_run H empty_chains db" using attack_calls_ok [OF assms chain_store_ok_empty] by blast
  then obtain k where "steps (chain_txn H) empty_chains k db" by (auto simp: chain_run_def)
  from chain_store.steps_simulated [OF this chain_store_ok_empty, of p]
  have "steps (chain_view_step H p) (chain_view p empty_chains) k (chain_view p db)" by simp
  moreover have "chain_view p empty_chains = None" by (simp add: chain_view_def empty_chains_def)
  ultimately show ?thesis by auto
qed

theorem attack_calls_follow_machine_witness:
  "\<exists>k. steps (chain_view_step ak_digest ak_plan) None k (chain_view ak_plan ak_running)"
proof -
  have "attack_call ak_digest rt_env empty_chains ak_running" by (rule call_create [OF ak_created_by_service ak_plan_valid])
  then have "steps (attack_call ak_digest rt_env) empty_chains (Suc 0) ak_running" by (blast intro: steps_refl steps_step)
  then show ?thesis by (rule attack_calls_follow_machine)
qed

text \<open>C15. A goal that the store reports is backed by it: when the latest checkpoint of a chain says that the goal was reached,
  every action of its graph, the cleanup included, has a stored successful observation with evidence and proven
  cleanup, written for this chain by a completed attempt.\<close>

theorem attack_goal_evidence_stored:
  assumes "steps (chain_txn H) empty_chains n db" and "p \<in> set (cdb_plans db)"
    and "chain_latest db (cpl_chain_plan_id p) = Inr c" and "cc_status c = Chain_GOAL_REACHED"
    and "a \<in> set (ag_actions (cpl_graph p))"
  shows "\<exists>x. \<lparr>co_chain_plan_id = cpl_chain_plan_id p, co_observation = x\<rparr> \<in> set (cdb_observations db) \<and>
    ao_action_id x = aa_action_id a \<and> ao_outcome x = Out_SUCCEEDED \<and> ao_evidence_refs x \<noteq> [] \<and> ao_cleanup_complete x \<and>
    (\<exists>r \<in> set (cdb_attempts db). attempt_key r = (cpl_chain_plan_id p, aa_action_id a) \<and> at_state r = Attempt_COMPLETED)"
proof -
  have ok: "chain_store_ok H db" using chain_store.steps_simulated [OF assms(1)] chain_store_ok_empty by blast
  obtain x where x: "action_evidence db p a x" using goal_evidence [OF ok assms(2-5)] by blast
  then have "observation_settled db \<lparr>co_chain_plan_id = cpl_chain_plan_id p, co_observation = x\<rparr>"
    using ok by (simp add: chain_store_ok_def list_all_iff action_evidence_def)
  with x show ?thesis unfolding action_evidence_def observation_settled_def attempt_key_def by auto
qed

theorem attack_goal_evidence_stored_witness:
  "\<exists>x :: AttackActionObservation. ao_action_id x = aa_action_id ak_cleanup \<and> ao_evidence_refs x \<noteq> [] \<and> ao_cleanup_complete x"
proof -
  have "ak_cleanup \<in> set (ag_actions (cpl_graph ak_plan))" by (simp add: ak_actions)
  from attack_goal_evidence_stored [OF ak_runs(3) ak_members(9) ak_finished_latest this] show ?thesis by metis
qed

section \<open>Lost cleanups\<close>

text \<open>After a stop the same command still begins at the new checkpoint, and nothing is left started.\<close>

lemma begin_after_stop:
  assumes begun: "open_attack db m = Inr (Attack_Begin p c a)" and latest: "chain_latest db' (ac_chain_plan_id m) = Inr c'"
    and db': "cdb_plans db' = cdb_plans db" "cdb_attempts db' = map (abandon_row (ac_chain_plan_id m)) (cdb_attempts db)"
  shows "open_attack db' m = Inr (Attack_Begin p c' a) \<and> \<not> has_started_action db' (ac_chain_plan_id m)"
proof -
  have same: "attempt_of m (abandon_row i r) = attempt_of m r" for i r by (simp add: attempt_of_def)
  have "List.find (attempt_of m) (map (abandon_row i) rows) = map_option (abandon_row i) (List.find (attempt_of m) rows)" for i rows
    by (induction rows) (auto simp: same)
  then have "completed_attempt db' m = Inr None"
    using open_attack_Begin(6) [OF begun]
    by (auto simp: completed_attempt_def db' abandon_row_def result_simps split: option.splits if_splits)
  moreover have "chain_plan db' (ac_chain_plan_id m) = chain_plan db (ac_chain_plan_id m)" by (simp add: chain_plan_def db')
  ultimately have "open_attack db' m = Inr (Attack_Begin p c' a)"
    using begun latest open_attack_Begin(2) [OF begun]
    by (auto simp: open_attack_def result_simps split: option.splits)
  moreover have "\<not> has_started_action db' (ac_chain_plan_id m)"
    by (auto simp: has_started_action_def db' list_ex_iff attempt_started_def abandon_row_def)
  ultimately show ?thesis by simp
qed

lemma changed_target_cong: "cc_nodes c = cc_nodes c' \<Longrightarrow> changed_target c as = changed_target c' as"
  by (induction "as") (auto simp: progress_of_def split: option.splits)

lemma latest_appended:
  assumes "chain_latest db i = Inr c" and "cdb_checkpoints db' = cdb_checkpoints db @ [c']"
    and "cc_chain_plan_id c' = i" and "cc_revision c' = cc_revision c + 1"
  shows "chain_latest db' i = Inr c'"
  using assms by (simp add: chain_latest_snoc [OF assms(2)])

text \<open>C36. Repeating a rejected call drops a cleanup that is owed: let a chain be running with a started action whose outcome is
  unknown and no state change recorded yet, and let its flow have been stopped. The first call of any other action than the cleanup is
  rejected, abandons the attempt and sends the chain to its cleanup, as it should; calling once more, with no approval at
  all, is rejected too, but finds neither a started attempt nor a recorded change and kills the chain, so that the
  cleanup can never run (for checkpoints whose digests are new).\<close>

theorem repeated_rejection_drops_cleanup:
  assumes begun: "open_attack db m = Inr (Attack_Begin p c a)" and running: "cc_status c = Chain_RUNNING"
    and kind: "aa_kind a \<noteq> CLEANUP_TEST_SESSION" and started: "has_started_action db (cpl_chain_plan_id p)"
    and unchanged: "changed_target c (ag_actions (cpl_graph p)) = Inr False"
    and flow: "flow_plan fdb (ag_flow_plan_id (cpl_graph p)) = Inr fp" "latest_flow fdb (fp_plan_id fp) = Inr fc"
    and broken: "flow_boundary_broken fp fc (cpl_expected_flow_checkpoint_id p) (cpl_graph p) s t1"
      "flow_boundary_broken fp fc (cpl_expected_flow_checkpoint_id p) (cpl_graph p) s t2"
    and stops: "stop_attack_chain H p c (stop_reason_of fc) t1 True = Inr c1"
      "stop_attack_chain H p c1 (stop_reason_of fc) t2 False = Inr c2"
    and fresh: "cc_checkpoint_id c1 \<notin> cc_checkpoint_id ` set (cdb_checkpoints db)"
      "cc_checkpoint_id c2 \<notin> insert (cc_checkpoint_id c1) (cc_checkpoint_id ` set (cdb_checkpoints db))"
    and runs: "execute_attack H U f fdb db m s approvals t1 = (r1, db1)" "execute_attack H U f fdb db1 m s [] t2 = (r2, db2)"
  shows "\<not> is_ok r1 \<and> chain_latest db1 (cpl_chain_plan_id p) = Inr c1 \<and> cc_status c1 = Chain_CLEANUP_REQUIRED \<and>
    \<not> is_ok r2 \<and> chain_latest db2 (cpl_chain_plan_id p) = Inr c2 \<and> cc_status c2 = Chain_KILLED \<and>
    cdb_observations db2 = cdb_observations db \<and> \<not> has_started_action db2 (cpl_chain_plan_id p)"
proof -
  let ?i = "cpl_chain_plan_id p"
  note start = open_attack_Begin [OF begun]
  have latest: "chain_latest db ?i = Inr c" using start(2,3) by simp
  have owner: "cc_chain_plan_id c = ?i" using stop_fields(6) [OF stops(1)] running by simp
  have c1: "cc_status c1 = Chain_CLEANUP_REQUIRED" "cc_nodes c1 = cc_nodes c" "cc_chain_plan_id c1 = ?i"
    "cc_revision c1 = cc_revision c + 1" using stop_fields(1-4) [OF stops(1)] running owner by simp_all
  have c2: "cc_status c2 = Chain_KILLED" "cc_chain_plan_id c2 = ?i" "cc_revision c2 = cc_revision c1 + 1"
    using stop_fields(1,3,4) [OF stops(2)] c1 by simp_all
  have one: "\<not> is_ok r1 \<and> cdb_plans db1 = cdb_plans db \<and> cdb_checkpoints db1 = cdb_checkpoints db @ [c1] \<and>
      cdb_observations db1 = cdb_observations db \<and> cdb_attempts db1 = map (abandon_row ?i) (cdb_attempts db)"
  proof -
    have "cc_status c \<in> {Chain_RUNNING, Chain_CLEANUP_REQUIRED}"
      "aa_kind a \<noteq> CLEANUP_TEST_SESSION \<or> cc_status c \<noteq> Chain_CLEANUP_REQUIRED"
      "stop_attack_chain H p c (stop_reason_of fc) t1 (False \<or> has_started_action db ?i) = Inr c1"
      using running kind stops(1) started by simp_all
    from rejected_call_stops [OF begun this(1) flow broken(1) this(2) unchanged this(3) fresh(1) runs(1),
        unfolded if_P [OF started]] show ?thesis .
  qed
  have latest1: "chain_latest db1 ?i = Inr c1" using latest_appended [OF latest _ c1(3,4)] one by blast
  have begun1: "open_attack db1 m = Inr (Attack_Begin p c1 a)" and idle: "\<not> has_started_action db1 ?i"
    using begin_after_stop [OF begun, of db1 c1] latest1 one start(2) by simp_all
  have "changed_target c1 (ag_actions (cpl_graph p)) = Inr False" using unchanged changed_target_cong [OF c1(2)] by simp
  then have two: "\<not> is_ok r2 \<and> cdb_plans db2 = cdb_plans db1 \<and> cdb_checkpoints db2 = cdb_checkpoints db1 @ [c2] \<and>
      cdb_observations db2 = cdb_observations db1 \<and> cdb_attempts db2 = cdb_attempts db1"
  proof -
    assume quiet: "changed_target c1 (ag_actions (cpl_graph p)) = Inr False"
    have "cc_status c1 \<in> {Chain_RUNNING, Chain_CLEANUP_REQUIRED}"
      "aa_kind a \<noteq> CLEANUP_TEST_SESSION \<or> cc_status c1 \<noteq> Chain_CLEANUP_REQUIRED"
      "stop_attack_chain H p c1 (stop_reason_of fc) t2 (False \<or> has_started_action db1 ?i) = Inr c2"
      using c1(1) kind stops(2) idle by simp_all
    moreover have "cc_checkpoint_id c2 \<notin> cc_checkpoint_id ` set (cdb_checkpoints db1)"
      using fresh(2) one by (metis Un_insert_right image_insert list.set(1,2) set_append sup_bot_right)
    ultimately have "\<not> is_ok r2 \<and> cdb_plans db2 = cdb_plans db1 \<and> cdb_checkpoints db2 = cdb_checkpoints db1 @ [c2] \<and>
      cdb_observations db2 = cdb_observations db1 \<and> cdb_attempts db2 = (if has_started_action db1 ?i
      then map (abandon_row ?i) (cdb_attempts db1) else cdb_attempts db1)"
      using rejected_call_stops [OF begun1 _ flow broken(2) _ quiet _ _ runs(2)] by blast
    from this [unfolded if_not_P [OF idle]] show ?thesis .
  qed
  have "chain_latest db2 ?i = Inr c2" using latest_appended [OF latest1 _ c2(2,3)] two by blast
  moreover have "\<not> has_started_action db2 ?i" using idle two by (simp add: has_started_action_def)
  ultimately show ?thesis using one two latest1 c1(1) c2(1) by simp
qed

theorem repeated_rejection_drops_cleanup_witness:
  "chain_latest (snd (execute_attack ak_digest rt_env ak_silent ak_killed
     (snd (execute_attack ak_digest rt_env ak_silent ak_killed ak_claimed (ak_command ak_access ak_chain1) rt_scope [] 30))
     (ak_command ak_access ak_chain1) rt_scope [] 31)) (cpl_chain_plan_id ak_plan) = Inr ak_dead"
  using repeated_rejection_drops_cleanup [OF ak_access_interrupted(1-5) ak_flow_killed ak_access_interrupted(6-9)
      surjective_pairing surjective_pairing] by blast

text \<open>C37. A cleanup that is in flight when its flow stops is lost: let the cleanup of a running chain be started, and let a call of
  it be rejected because the flow has been stopped meanwhile. The call abandons the attempt and sends the chain to its
  cleanup, but the abandoned row blocks the action for good: after any further calls of the service, whatever they are, its node is
  still pending and the chain has not reached its goal (for a checkpoint whose digest is new).\<close>

theorem abandoned_cleanup_is_lost:
  assumes ok: "chain_store_ok H db" and begun: "open_attack db m = Inr (Attack_Begin p c a)"
    and running: "cc_status c = Chain_RUNNING" and kind: "aa_kind a = CLEANUP_TEST_SESSION"
    and row: "q \<in> set (cdb_attempts db)" "attempt_key q = (cpl_chain_plan_id p, aa_action_id a)" "at_state q = Attempt_STARTED"
    and changed: "changed_target c (ag_actions (cpl_graph p)) = Inr changed"
    and flow: "flow_plan fdb (ag_flow_plan_id (cpl_graph p)) = Inr fp" "latest_flow fdb (fp_plan_id fp) = Inr fc"
      "flow_boundary_broken fp fc (cpl_expected_flow_checkpoint_id p) (cpl_graph p) s now"
    and stop: "stop_attack_chain H p c (stop_reason_of fc) now True = Inr c1"
    and fresh: "cc_checkpoint_id c1 \<notin> cc_checkpoint_id ` set (cdb_checkpoints db)"
    and run: "execute_attack H U f fdb db m s approvals now = (r, db1)"
    and sound: "AttackActionCommand_valid H m" "sound_adapter H f"
    and later: "steps (attack_call H V) db1 n db2"
  shows "\<not> is_ok r \<and> chain_latest db1 (cpl_chain_plan_id p) = Inr c1 \<and> cc_status c1 = Chain_CLEANUP_REQUIRED \<and>
    (\<exists>c2. chain_latest db2 (cpl_chain_plan_id p) = Inr c2 \<and> node_state c2 a = Some Node_PENDING \<and>
       cc_status c2 \<noteq> Chain_GOAL_REACHED)"
proof -
  let ?i = "cpl_chain_plan_id p"
  note start = open_attack_Begin [OF begun]
  have latest: "chain_latest db ?i = Inr c" using start(2,3) by simp
  have owner: "cc_chain_plan_id c = ?i" using stop_fields(6) [OF stop] running by simp
  have c1: "cc_status c1 = Chain_CLEANUP_REQUIRED" "cc_chain_plan_id c1 = ?i" "cc_revision c1 = cc_revision c + 1"
    using stop_fields(1,3,4) [OF stop] running owner by simp_all
  have started: "attempt_started ?i q" using row by (simp add: attempt_started_def attempt_key_def)
  then have "has_started_action db ?i" using row(1) by (auto simp: has_started_action_def list_ex_iff)
  then have one: "\<not> is_ok r \<and> cdb_plans db1 = cdb_plans db \<and> cdb_checkpoints db1 = cdb_checkpoints db @ [c1] \<and>
      cdb_attempts db1 = map (abandon_row ?i) (cdb_attempts db)"
  proof -
    assume begun_started: "has_started_action db ?i"
    have "cc_status c \<in> {Chain_RUNNING, Chain_CLEANUP_REQUIRED}"
      "aa_kind a \<noteq> CLEANUP_TEST_SESSION \<or> cc_status c \<noteq> Chain_CLEANUP_REQUIRED"
      "stop_attack_chain H p c (stop_reason_of fc) now (changed \<or> has_started_action db ?i) = Inr c1"
      using running stop begun_started by simp_all
    from rejected_call_stops [OF begun this(1) flow this(2) changed this(3) fresh run, unfolded if_P [OF begun_started]]
    show ?thesis by blast
  qed
  let ?q = "abandon_row ?i q"
  have q: "?q \<in> set (cdb_attempts db1)" "at_state ?q = Attempt_ABANDONED" "attempt_key ?q = (?i, aa_action_id a)"
    using one row started by (auto simp: abandon_row_def attempt_key_def)
  have ok1: "chain_store_ok H db1" using chain_run_ok [OF execute_attack_run [OF run sound] ok] .
  from attack_calls_ok [OF later this] have ok2: "chain_store_ok H db2" and run2: "chain_run H db1 db2" by simp_all
  have p1: "p \<in> set (cdb_plans db1)" using one start(1) by simp
  have kept: "?q \<in> set (cdb_attempts db2)" "p \<in> set (cdb_plans db2)" using run_keeps [OF run2 q(1,2) p1] by simp_all
  obtain c2 where c2: "chain_latest db2 ?i = Inr c2" "chain_inv H p c2" "node_state c2 a = Some Node_PENDING"
    using abandoned_pending [OF ok2 kept(2) start(4) kept(1) q(2,3)] .
  have "cc_status c2 \<noteq> Chain_GOAL_REACHED"
  proof
    assume goal: "cc_status c2 = Chain_GOAL_REACHED"
    from c2(2) have "AttackChainCheckpoint_valid H c2"
      "map np_action_id (cc_nodes c2) = map aa_action_id (ag_actions (cpl_graph p))" by (simp_all add: chain_inv_def)
    from goal_all_succeeded [OF this goal] start(4) c2(3) show False by auto
  qed
  moreover have "chain_latest db1 ?i = Inr c1" using latest_appended [OF latest _ c1(2,3)] one by blast
  ultimately show ?thesis using one c1(1) c2 by blast
qed

theorem abandoned_cleanup_is_lost_witness:
  "\<exists>db c. attack_call ak_digest rt_env db (snd (execute_attack ak_digest rt_env ak_silent ak_killed db
       (ak_command ak_cleanup ak_stuck) rt_scope [] 40)) \<and>
     chain_latest (snd (execute_attack ak_digest rt_env ak_silent ak_killed db (ak_command ak_cleanup ak_stuck) rt_scope [] 40))
       (cpl_chain_plan_id ak_plan) = Inr c \<and> node_state c ak_cleanup = Some Node_PENDING"
proof -
  let ?db = "snd (execute_attack ak_digest rt_env ak_silent ak_killed ak_cleaning (ak_command ak_cleanup ak_chain3) rt_scope [] 30)"
  have ok: "chain_store_ok ak_digest ak_cleaning"
    using chain_store.steps_simulated [OF ak_runs(2) chain_store_ok_empty] by blast
  have call: "attack_call ak_digest rt_env ?db (snd (execute_attack ak_digest rt_env ak_silent ak_killed ?db
      (ak_command ak_cleanup ak_stuck) rt_scope [] 40))"
    by (rule call_execute [OF surjective_pairing ak_cleanup_interrupted(7) ak_silent_sound])
  then have later: "steps (attack_call ak_digest rt_env) ?db (Suc 0) (snd (execute_attack ak_digest rt_env ak_silent ak_killed ?db
      (ak_command ak_cleanup ak_stuck) rt_scope [] 40))" by (blast intro: steps_refl steps_step)
  show ?thesis
    using call abandoned_cleanup_is_lost [OF ok ak_cleanup_interrupted(1-3) ak_cleanup_row ak_cleanup_interrupted(4)
        ak_flow_killed(1-3) ak_cleanup_interrupted(5,6) surjective_pairing ak_valid(3) ak_silent_sound later] by blast
qed

end
