(* ===== verification/Ip_Address.thy ===== *)
theory Ip_Address
  imports Urls Digests
begin

text \<open>
  \<^verbatim>\<open>ipaddress.ip_address\<close> of the standard library, as far as the tool broker uses it: the strict text forms of IPv4
  and IPv6 addresses, the canonical text \<^verbatim>\<open>str(address)\<close>, and the four special ranges. The releases of the library
  differ in two points on an IPv4-mapped IPv6 address (\<^verbatim>\<open>::ffff:a.b.c.d\<close>): whether the four tests look at the embedded
  IPv4 address, and whether the text is written with dots. They are the fields of \<open>ip_lib\<close>.
\<close>

record ip_lib =
  il_delegates_mapped :: bool
  il_dotted_mapped :: bool

datatype ip_address = IPv4 "32 word" | IPv6 "128 word" "string option"

fun split_on :: "char \<Rightarrow> string \<Rightarrow> string list" where
  "split_on d [] = [[]]"
| "split_on d (c # cs) =
     (if c = d then [] # split_on d cs
      else (case split_on d cs of [] \<Rightarrow> [[c]] | s # ss \<Rightarrow> (c # s) # ss))"

lemma split_on_not_Nil [simp]: "split_on d s \<noteq> []"
  by (induction s) (auto split: list.splits)

lemma join_split_on: "join_with [d] (split_on d s) = s"
proof (induction s)
  case (Cons c cs)
  obtain x xs where xs: "split_on d cs = x # xs" by (cases "split_on d cs") auto
  with Cons show ?case by (cases xs) auto
qed simp

section \<open>Parsing\<close>

definition parse_octet :: "string \<Rightarrow> int option" where
  "parse_octet s =
     (if s = [] \<or> \<not> list_all is_digit_char s \<or> 3 < length s \<or> (s \<noteq> ''0'' \<and> hd s = CHR ''0'')
         \<or> 255 < decimal_value s
      then None else Some (decimal_value s))"

fun parse_all :: "('a \<Rightarrow> int option) \<Rightarrow> int \<Rightarrow> int \<Rightarrow> 'a list \<Rightarrow> int option" where
  "parse_all f base acc [] = Some acc"
| "parse_all f base acc (x # xs) =
     (case f x of None \<Rightarrow> None | Some v \<Rightarrow> parse_all f base (base * acc + v) xs)"

definition parse_ipv4 :: "string \<Rightarrow> int option" where
  "parse_ipv4 s =
     (if length (split_on (CHR ''.'') s) \<noteq> 4 then None
      else parse_all parse_octet 256 0 (split_on (CHR ''.'') s))"

definition hex_value :: "char \<Rightarrow> int" where
  "hex_value c = int (if is_digit_char c then char_code c - 48 else char_code (ascii_lower c) - 87)"

definition parse_hextet :: "string \<Rightarrow> int option" where
  "parse_hextet s =
     (if s = [] \<or> \<not> list_all (\<lambda>c. hex_char (ascii_lower c)) s \<or> 4 < length s then None
      else Some (foldl (\<lambda>n c. 16 * n + hex_value c) 0 s))"

text \<open>\<^verbatim>\<open>'%x' % n\<close>\<close>

definition hex_text :: "int \<Rightarrow> string" where
  "hex_text n = (let s = dropWhile (\<lambda>c. c = CHR ''0'') (hex_digits 8 n) in if s = [] then ''0'' else s)"

text \<open>The parts between the colons, an IPv4-style suffix converted to two hextets.\<close>

definition colon_parts :: "string \<Rightarrow> string list option" where
  "colon_parts s =
     (let ps = split_on (CHR '':'') s in
      if length ps < 3 then None
      else if CHR ''.'' \<in> set (last ps)
      then (case parse_ipv4 (last ps) of
              None \<Rightarrow> None
            | Some v \<Rightarrow> Some (butlast ps @ [hex_text (v div 65536), hex_text (v mod 65536)]))
      else Some ps)"

text \<open>The positions, other than the first and the last, of an empty part.\<close>

definition skip_positions :: "string list \<Rightarrow> nat list" where
  "skip_positions ps = filter (\<lambda>i. ps ! i = []) [1..<length ps - 1]"

definition parse_ipv6 :: "string \<Rightarrow> int option" where
  "parse_ipv6 s =
     (case colon_parts s of
        None \<Rightarrow> None
      | Some ps \<Rightarrow>
          if 9 < length ps then None
          else
            (case skip_positions ps of
               [] \<Rightarrow> if length ps \<noteq> 8 then None else parse_all parse_hextet 65536 0 ps
             | [i] \<Rightarrow>
                 (let hi = (if hd ps = [] then i - 1 else i);
                      lo = (if last ps = [] then length ps - i - 2 else length ps - i - 1)
                  in if (hd ps = [] \<and> hi \<noteq> 0) \<or> (last ps = [] \<and> lo \<noteq> 0) \<or> 8 < hi + lo + 1 then None
                     else (case parse_all parse_hextet 65536 0 (take hi ps) of
                             None \<Rightarrow> None
                           | Some v \<Rightarrow>
                               parse_all parse_hextet 65536 (v * 65536 ^ (8 - (hi + lo))) (drop (length ps - lo) ps)))
             | _ \<Rightarrow> None))"

text \<open>\<^verbatim>\<open>ip_address(text)\<close>: \<open>None\<close> is the \<^verbatim>\<open>ValueError\<close>.\<close>

definition ip_parse :: "string \<Rightarrow> ip_address option" where
  "ip_parse s =
     (case parse_ipv4 s of
        Some v \<Rightarrow> Some (IPv4 (word_of_int v))
      | None \<Rightarrow>
          if CHR ''/'' \<in> set s then None
          else
            (let (addr, pct, zone) = partition_at (CHR 0x25) s in
             if pct \<and> (zone = [] \<or> CHR 0x25 \<in> set zone) then None
             else (case parse_ipv6 addr of
                     None \<Rightarrow> None
                   | Some v \<Rightarrow> Some (IPv6 (word_of_int v) (if pct then Some zone else None)))))"

section \<open>Canonical text\<close>

definition ipv4_text :: "int \<Rightarrow> string" where
  "ipv4_text v =
     join_with ''.'' (map dec_digits [v div 16777216 mod 256, v div 65536 mod 256, v div 256 mod 256, v mod 256])"

text \<open>The leftmost longest run of zero hextets, as its start and length.\<close>

fun zero_run :: "nat \<Rightarrow> nat \<Rightarrow> nat \<Rightarrow> nat \<Rightarrow> string list \<Rightarrow> nat \<times> nat" where
  "zero_run i n best blen [] = (best, blen)"
| "zero_run i n best blen (h # hs) =
     (if h = ''0''
      then (if blen < n + 1 then zero_run (i + 1) (n + 1) (i - n) (n + 1) hs
            else zero_run (i + 1) (n + 1) best blen hs)
      else zero_run (i + 1) 0 best blen hs)"

definition compress_hextets :: "string list \<Rightarrow> string list" where
  "compress_hextets hs =
     (let (start, len) = zero_run 0 0 0 0 hs in
      if len \<le> 1 then hs
      else (if start = 0 then [[]] else []) @ take start hs @ [[]] @ drop (start + len) hs @
           (if start + len = length hs then [[]] else []))"

definition hextets :: "int \<Rightarrow> int list" where
  "hextets v = map (\<lambda>k. v div 65536 ^ k mod 65536) [7, 6, 5, 4, 3, 2, 1, 0]"

definition ipv6_text :: "int \<Rightarrow> string" where
  "ipv6_text v = join_with '':'' (compress_hextets (map hex_text (hextets v)))"

definition mapped_ipv4 :: "128 word \<Rightarrow> (32 word) option" where
  "mapped_ipv4 w =
     (if uint w div 2 ^ 32 = 65535 then Some (word_of_int (uint w mod 2 ^ 32)) else None)"

definition ip_text :: "ip_lib \<Rightarrow> ip_address \<Rightarrow> string" where
  "ip_text L a =
     (case a of
        IPv4 w \<Rightarrow> ipv4_text (uint w)
      | IPv6 w zone \<Rightarrow>
          (case mapped_ipv4 w of
             Some m \<Rightarrow> if il_dotted_mapped L then ''::ffff:'' @ ipv4_text (uint m) else ipv6_text (uint w)
           | None \<Rightarrow> ipv6_text (uint w)) @
          (case zone of None \<Rightarrow> [] | Some z \<Rightarrow> CHR 0x25 # z))"

section \<open>Special ranges\<close>

definition special_ipv4 :: "32 word \<Rightarrow> bool" where
  "special_ipv4 w \<longleftrightarrow>
     (let v = uint w in
      v div 2 ^ 24 = 127 \<or> v div 2 ^ 16 = 43518 \<or> v div 2 ^ 28 = 14 \<or> v = 0)"

definition special_ipv6 :: "128 word \<Rightarrow> bool" where
  "special_ipv6 w \<longleftrightarrow>
     (let v = uint w in v = 1 \<or> v div 2 ^ 118 = 1018 \<or> v div 2 ^ 120 = 255 \<or> v = 0)"

text \<open>\<^verbatim>\<open>is_loopback or is_link_local or is_multicast or is_unspecified\<close>\<close>

definition ip_special :: "ip_lib \<Rightarrow> ip_address \<Rightarrow> bool" where
  "ip_special L a =
     (case a of
        IPv4 w \<Rightarrow> special_ipv4 w
      | IPv6 w zone \<Rightarrow>
          (case mapped_ipv4 w of
             Some m \<Rightarrow> if il_delegates_mapped L then special_ipv4 m else special_ipv6 w
           | None \<Rightarrow> special_ipv6 w))"

end
