(* ===== verification/Url_Resolve.thy ===== *)
theory Url_Resolve
  imports Ip_Address
begin

text \<open>
  The rest of \<^verbatim>\<open>urllib.parse\<close> that the tool broker uses: \<^verbatim>\<open>urlunsplit\<close> and \<^verbatim>\<open>urljoin\<close> for an http or https base with a
  network location, and the names \<^verbatim>\<open>parse_qsl\<close> returns. A percent-encoded byte above 127 decodes to one character here, so a
  letter outside ASCII whose case variant is an ASCII letter is not found by a case-insensitive pattern.
\<close>

fun occurs_in :: "string \<Rightarrow> string \<Rightarrow> bool" where
  "occurs_in w [] \<longleftrightarrow> w = []"
| "occurs_in w (c # cs) \<longleftrightarrow> take (length w) (c # cs) = w \<or> occurs_in w cs"

text \<open>\<^verbatim>\<open>re.compile("(?:w1|w2|...)", re.IGNORECASE).search(s)\<close> for lower-case words\<close>

definition any_word_in :: "string list \<Rightarrow> string \<Rightarrow> bool" where
  "any_word_in ws s \<longleftrightarrow> list_ex (\<lambda>w. occurs_in w (lower s)) ws"

section \<open>Queries\<close>

fun unquote :: "string \<Rightarrow> string" where
  "unquote (c # a # b # r) =
     (if c = CHR 0x25 \<and> hex_char (ascii_lower a) \<and> hex_char (ascii_lower b)
      then char_of (nat (16 * hex_value a + hex_value b)) # unquote r
      else c # unquote (a # b # r))"
| "unquote [c, d] = [c, d]"
| "unquote [c] = [c]"
| "unquote [] = []"

definition unquote_plus :: "string \<Rightarrow> string" where
  "unquote_plus s = unquote (map (\<lambda>c. if c = CHR ''+'' then CHR '' '' else c) s)"

text \<open>\<^verbatim>\<open>[name for name, _ in parse_qsl(query)]\<close>: fields without a value are dropped.\<close>

definition query_names :: "string \<Rightarrow> string list" where
  "query_names q =
     (if q = [] then []
      else concat (map (\<lambda>field.
             (let (name, _, value) = partition_at (CHR ''='') field in
              if field = [] \<or> value = [] then [] else [unquote_plus name])) (split_on (CHR ''&'') q)))"

section \<open>Joining\<close>

definition urlunsplit :: "string \<Rightarrow> string \<Rightarrow> string \<Rightarrow> string \<Rightarrow> string \<Rightarrow> string" where
  "urlunsplit scheme netloc path query fragment =
     scheme @ ''://'' @ netloc @ (if path \<noteq> [] \<and> hd path \<noteq> CHR ''/'' then CHR ''/'' # path else path) @
     (if query = [] then [] else CHR ''?'' # query) @ (if fragment = [] then [] else CHR ''#'' # fragment)"

definition split_params :: "string \<Rightarrow> string \<times> string" where
  "split_params path =
     (let (dir, slash, file) = rpartition_at (CHR ''/'') path;
          (file', semi, params) = partition_at (CHR '';'') file
      in if semi then (dir @ (if slash then ''/'' else []) @ file', params) else (path, []))"

definition with_params :: "string \<Rightarrow> string \<Rightarrow> string" where
  "with_params path params = (if params = [] then path else path @ '';'' @ params)"

fun resolve_segments :: "string list \<Rightarrow> string list \<Rightarrow> string list" where
  "resolve_segments acc [] = acc"
| "resolve_segments acc (s # ss) =
     (if s = ''..'' then resolve_segments (butlast acc) ss
      else if s = ''.'' then resolve_segments acc ss
      else resolve_segments (acc @ [s]) ss)"

definition join_path :: "string \<Rightarrow> string \<Rightarrow> string" where
  "join_path base_path path =
     (let parts = split_on (CHR ''/'') base_path;
          base_parts = (if last parts \<noteq> [] then butlast parts else parts);
          all = base_parts @ split_on (CHR ''/'') path;
          segments =
            (if take 1 path = ''/'' then split_on (CHR ''/'') path
             else take 1 all @ filter (\<lambda>s. s \<noteq> []) (butlast (drop 1 all)) @
                  (if length all \<le> 1 then [] else [last all]));
          resolved = resolve_segments [] segments;
          final = (if last segments \<in> {''.'', ''..''} then resolved @ [[]] else resolved);
          joined = join_with ''/'' final
      in if joined = [] then ''/'' else joined)"

definition urljoin :: "url_env \<Rightarrow> string \<Rightarrow> string \<Rightarrow> url_error + string" where
  "urljoin U base url =
     (if url = [] then Inr base
      else
        bind_result (urlsplit U base) (\<lambda>b.
        bind_result (urlsplit U url) (\<lambda>u.
          let scheme = (if su_scheme u = [] then su_scheme b else su_scheme u);
              (bpath, bparams) = split_params (su_path b);
              (path, params) = split_params (su_path u)
          in if scheme \<noteq> su_scheme b then Inr url
             else if su_netloc u \<noteq> []
             then Inr (urlunsplit scheme (su_netloc u) (with_params path params) (su_query u) (su_fragment u))
             else if path = [] \<and> params = []
             then Inr (urlunsplit scheme (su_netloc b) (with_params bpath bparams)
                    (if su_query u = [] then su_query b else su_query u) (su_fragment u))
             else Inr (urlunsplit scheme (su_netloc b) (with_params (join_path bpath path) params)
                    (su_query u) (su_fragment u)))))"

end
