(* ===== verification/Runner_Models.thy ===== *)
theory Runner_Models
  imports Domain Url_Resolve
begin

text \<open>
  The contracts between the control plane and a sandbox runner: \<^verbatim>\<open>src/src/vulnloom/domain/protocol.py\<close>,
  \<^verbatim>\<open>runners/models.py\<close>, \<^verbatim>\<open>runners/environment.py\<close> and the seccomp contract of \<^verbatim>\<open>runners/seccomp.py\<close>. \<open>X_valid\<close> is what
  Pydantic checks; a model whose validators also rewrite a field has an \<open>X_validate\<close> that returns the
  rewritten record, or nothing. A float is a rational number, a frozenset a list, an environment the list of its items.
\<close>

section \<open>The worker protocol\<close>

datatype WorkerRole =
    Role_SCOPE_INTERPRETER | Role_SOURCE_MAPPER | Role_HYPOTHESIS | Role_ANALYZER | Role_VALIDATOR
  | Role_CRITIC | Role_REPORTER | Role_RED_TEAM_OPERATOR

fun worker_role_value :: "WorkerRole \<Rightarrow> string" where
  "worker_role_value Role_SCOPE_INTERPRETER = ''scope_interpreter''"
| "worker_role_value Role_SOURCE_MAPPER = ''source_mapper''"
| "worker_role_value Role_HYPOTHESIS = ''hypothesis''"
| "worker_role_value Role_ANALYZER = ''analyzer''"
| "worker_role_value Role_VALIDATOR = ''validator''"
| "worker_role_value Role_CRITIC = ''critic''"
| "worker_role_value Role_REPORTER = ''reporter''"
| "worker_role_value Role_RED_TEAM_OPERATOR = ''red_team_operator''"

record TaskBudget =
  tb_wall_seconds :: int
  tb_model_tokens :: int
  tb_tool_calls :: int

definition TaskBudget_valid :: "TaskBudget \<Rightarrow> bool" where
  "TaskBudget_valid b \<longleftrightarrow>
     0 < tb_wall_seconds b \<and> tb_wall_seconds b \<le> 86400 \<and> 0 \<le> tb_model_tokens b \<and> 0 \<le> tb_tool_calls b"

definition TaskBudget_dump :: "TaskBudget \<Rightarrow> pyval" where
  "TaskBudget_dump b = PDict [(''wall_seconds'', PInt (tb_wall_seconds b)),
     (''model_tokens'', PInt (tb_model_tokens b)), (''tool_calls'', PInt (tb_tool_calls b))]"

record TaskEnvelope =
  te_task_id :: uuid
  te_engagement_id :: uuid
  te_target_id :: uuid
  te_target_version :: string
  te_scope_id :: uuid
  te_worker_role :: WorkerRole
  te_scope_version :: int
  te_policy_digest :: digest
  te_sandbox_profile_digest :: digest
  te_tool_registry_digest :: digest
  te_input_refs :: "string list"
  te_allowed_tools :: "string list"
  te_budget :: TaskBudget
  te_deadline :: instant
  te_idempotency_key :: string

text \<open>The pattern of a tool id, \<^verbatim>\<open>^[a-z][a-z0-9_.-]{0,127}$\<close>, is the one of a reason code.\<close>

definition TaskEnvelope_valid :: "TaskEnvelope \<Rightarrow> bool" where
  "TaskEnvelope_valid t \<longleftrightarrow>
     te_target_version t \<noteq> [] \<and> 1 \<le> te_scope_version t \<and> is_digest (te_policy_digest t) \<and>
     is_digest (te_sandbox_profile_digest t) \<and> is_digest (te_tool_registry_digest t) \<and>
     list_all is_reason_code (te_allowed_tools t) \<and> TaskBudget_valid (te_budget t) \<and>
     te_idempotency_key t \<noteq> []"

definition TaskEnvelope_dump :: "TaskEnvelope \<Rightarrow> pyval" where
  "TaskEnvelope_dump t = PDict
     [(''task_id'', PUuid (te_task_id t)), (''engagement_id'', PUuid (te_engagement_id t)),
      (''target_id'', PUuid (te_target_id t)), (''target_version'', PStr (te_target_version t)),
      (''scope_id'', PUuid (te_scope_id t)), (''worker_role'', PEnum (worker_role_value (te_worker_role t))),
      (''scope_version'', PInt (te_scope_version t)), (''policy_digest'', PStr (te_policy_digest t)),
      (''sandbox_profile_digest'', PStr (te_sandbox_profile_digest t)),
      (''tool_registry_digest'', PStr (te_tool_registry_digest t)), (''input_refs'', p_strs (te_input_refs t)),
      (''allowed_tools'', PSet (map PStr (te_allowed_tools t))), (''budget'', TaskBudget_dump (te_budget t)),
      (''deadline'', PTime (te_deadline t)), (''idempotency_key'', PStr (te_idempotency_key t))]"

section \<open>Sandbox profiles\<close>

datatype SandboxProfileKind = Profile_STATIC | Profile_VALIDATION | Profile_REPORT | Profile_POST_EXPLOITATION

fun profile_kind_value :: "SandboxProfileKind \<Rightarrow> string" where
  "profile_kind_value Profile_STATIC = ''static''"
| "profile_kind_value Profile_VALIDATION = ''validation''"
| "profile_kind_value Profile_REPORT = ''report''"
| "profile_kind_value Profile_POST_EXPLOITATION = ''post_exploitation''"

datatype NetworkMode = Net_NONE | Net_TARGET_ONLY

fun network_mode_value :: "NetworkMode \<Rightarrow> string" where
  "network_mode_value Net_NONE = ''none''"
| "network_mode_value Net_TARGET_ONLY = ''target_only''"

datatype MountKind = Mount_SNAPSHOT | Mount_ANALYZER_DATA | Mount_EVIDENCE | Mount_OUTPUT | Mount_TEMP

fun mount_kind_value :: "MountKind \<Rightarrow> string" where
  "mount_kind_value Mount_SNAPSHOT = ''snapshot''"
| "mount_kind_value Mount_ANALYZER_DATA = ''analyzer_data''"
| "mount_kind_value Mount_EVIDENCE = ''evidence''"
| "mount_kind_value Mount_OUTPUT = ''output''"
| "mount_kind_value Mount_TEMP = ''temp''"

fun MOUNT_DESTINATIONS :: "MountKind \<Rightarrow> string" where
  "MOUNT_DESTINATIONS Mount_SNAPSHOT = ''/workspace/source''"
| "MOUNT_DESTINATIONS Mount_ANALYZER_DATA = ''/workspace/analyzer-data''"
| "MOUNT_DESTINATIONS Mount_EVIDENCE = ''/workspace/evidence''"
| "MOUNT_DESTINATIONS Mount_OUTPUT = ''/workspace/output''"
| "MOUNT_DESTINATIONS Mount_TEMP = ''/tmp''"

record SandboxMount =
  sm_kind :: MountKind
  sm_destination :: string
  sm_object_id :: "digest option"
  sm_read_only :: bool

definition content_mount :: "MountKind \<Rightarrow> bool" where
  "content_mount k \<longleftrightarrow> k \<in> {Mount_SNAPSHOT, Mount_ANALYZER_DATA, Mount_EVIDENCE}"

definition SandboxMount_valid :: "SandboxMount \<Rightarrow> bool" where
  "SandboxMount_valid m \<longleftrightarrow>
     opt_all is_digest (sm_object_id m) \<and> sm_destination m = MOUNT_DESTINATIONS (sm_kind m) \<and>
     \<not> (content_mount (sm_kind m) \<and> (sm_object_id m = None \<or> \<not> sm_read_only m)) \<and>
     \<not> (\<not> content_mount (sm_kind m) \<and> (sm_object_id m \<noteq> None \<or> sm_read_only m))"

definition SandboxMount_dump :: "SandboxMount \<Rightarrow> pyval" where
  "SandboxMount_dump m = PDict
     [(''kind'', PEnum (mount_kind_value (sm_kind m))), (''destination'', PStr (sm_destination m)),
      (''object_id'', p_opt PStr (sm_object_id m)), (''read_only'', PBool (sm_read_only m))]"

record NetworkGrant =
  ng_host :: string
  ng_ports :: "int list"
  ng_schemes :: "string list"

definition is_space :: "char \<Rightarrow> bool" where
  "is_space c \<longleftrightarrow> char_code c \<in> {9, 10, 11, 12, 13, 28, 29, 30, 31, 32, 133, 160}"

definition strip :: "string \<Rightarrow> string" where
  "strip s = rev (dropWhile is_space (rev (dropWhile is_space s)))"

text \<open>The field constraints, then \<^verbatim>\<open>normalized_host\<close> and \<^verbatim>\<open>supported_schemes\<close>, which store the lower-case forms.\<close>

definition NetworkGrant_validate :: "NetworkGrant \<Rightarrow> NetworkGrant option" where
  "NetworkGrant_validate g =
     (if ng_host g = [] \<or> 253 < length (ng_host g) \<or> ng_ports g = [] \<or>
         \<not> list_all (\<lambda>p. 1 \<le> p \<and> p \<le> 65535) (ng_ports g) \<or>
         lower (strip (ng_host g)) \<noteq> lower (ng_host g) \<or>
         list_ex (\<lambda>c. c \<in> set ''/@?#'') (lower (strip (ng_host g))) \<or>
         ng_schemes g = [] \<or> \<not> set (map lower (ng_schemes g)) \<subseteq> {''http'', ''https''}
      then None
      else Some (g\<lparr>ng_host := lower (strip (ng_host g)), ng_schemes := map lower (ng_schemes g)\<rparr>))"

definition NetworkGrant_dump :: "NetworkGrant \<Rightarrow> pyval" where
  "NetworkGrant_dump g = PDict [(''host'', PStr (ng_host g)), (''ports'', PSet (map PInt (ng_ports g))),
     (''schemes'', PSet (map PStr (ng_schemes g)))]"

record SandboxLimits =
  sl_wall_seconds :: int
  sl_cpu_millis :: int
  sl_memory_bytes :: int
  sl_pids :: int
  sl_open_files :: int
  sl_file_bytes :: int
  sl_tmp_bytes :: int

definition SandboxLimits_valid :: "SandboxLimits \<Rightarrow> bool" where
  "SandboxLimits_valid l \<longleftrightarrow>
     0 < sl_wall_seconds l \<and> sl_wall_seconds l \<le> 3600 \<and> 0 < sl_cpu_millis l \<and> sl_cpu_millis l \<le> 16 * 3600000 \<and>
     16 * 1024 * 1024 \<le> sl_memory_bytes l \<and> sl_memory_bytes l \<le> 16 * 1024 * 1024 * 1024 \<and>
     0 < sl_pids l \<and> sl_pids l \<le> 4096 \<and> 0 < sl_open_files l \<and> sl_open_files l \<le> 65536 \<and>
     0 < sl_file_bytes l \<and> sl_file_bytes l \<le> 10 * 1024 * 1024 * 1024 \<and>
     0 < sl_tmp_bytes l \<and> sl_tmp_bytes l \<le> 10 * 1024 * 1024 * 1024"

definition SandboxLimits_dump :: "SandboxLimits \<Rightarrow> pyval" where
  "SandboxLimits_dump l = PDict
     [(''wall_seconds'', PInt (sl_wall_seconds l)), (''cpu_millis'', PInt (sl_cpu_millis l)),
      (''memory_bytes'', PInt (sl_memory_bytes l)), (''pids'', PInt (sl_pids l)),
      (''open_files'', PInt (sl_open_files l)), (''file_bytes'', PInt (sl_file_bytes l)),
      (''tmp_bytes'', PInt (sl_tmp_bytes l))]"

text \<open>\<^verbatim>\<open>WORKER_SECCOMP_CONTRACT.contract_id\<close>: the digest of \<^verbatim>\<open>runners/contracts/worker-seccomp-v1.json\<close>, as
  \<^verbatim>\<open>load_worker_seccomp_contract\<close> computes it when the module is imported.\<close>

definition WORKER_SECCOMP_CONTRACT_ID :: "(pyval \<Rightarrow> digest) \<Rightarrow> digest" where
  "WORKER_SECCOMP_CONTRACT_ID H = H (PDict
     [(''schema_version'', PInt 1), (''name'', PStr ''docker-builtin-worker-v1''), (''mode'', PStr ''runtime_default''),
      (''engine_versions'', PList [PStr ''29.7.2'']),
      (''required_engine_security_option'', PStr ''name=seccomp,profile=builtin''),
      (''forbidden_container_security_options'', PList [PStr ''seccomp=unconfined'']),
      (''required_linux_seccomp_mode'', PInt 2)])"

record SandboxProfile =
  sp_kind :: SandboxProfileKind
  sp_image_digest :: string
  sp_seccomp_contract_digest :: digest
  sp_run_as_uid :: int
  sp_run_as_gid :: int
  sp_read_only_root :: bool
  sp_no_new_privileges :: bool
  sp_capabilities :: "string list"
  sp_network_mode :: NetworkMode
  sp_network_grants :: "NetworkGrant list"
  sp_mounts :: "SandboxMount list"
  sp_writable_paths :: "string list"
  sp_allowed_tools :: "string list"
  sp_execute_target_code :: bool
  sp_max_attempts :: int
  sp_limits :: SandboxLimits

definition is_image_digest :: "string \<Rightarrow> bool" where
  "is_image_digest s \<longleftrightarrow> take 7 s = ''sha256:'' \<and> is_digest (drop 7 s)"

definition mount_kinds :: "SandboxProfile \<Rightarrow> MountKind set" where
  "mount_kinds p = set (map sm_kind (sp_mounts p))"

text \<open>\<^verbatim>\<open>enforce_security_invariants\<close>, in two parts: hardening and network, then the mounts and tools of each kind.\<close>

definition profile_hardened :: "(pyval \<Rightarrow> digest) \<Rightarrow> SandboxProfile \<Rightarrow> bool" where
  "profile_hardened H p \<longleftrightarrow>
     sp_seccomp_contract_digest p = WORKER_SECCOMP_CONTRACT_ID H \<and>
     sp_read_only_root p \<and> sp_no_new_privileges p \<and> sp_capabilities p = [] \<and>
     set (sp_writable_paths p) = {''/tmp'', ''/workspace/output''} \<and>
     distinct (map sm_kind (sp_mounts p)) \<and>
     {Mount_OUTPUT, Mount_TEMP} \<subseteq> mount_kinds p \<and>
     \<not> (sp_network_mode p = Net_NONE \<and> sp_network_grants p \<noteq> []) \<and>
     \<not> (sp_network_mode p = Net_TARGET_ONLY \<and> sp_network_grants p = []) \<and>
     \<not> (sp_kind p \<in> {Profile_STATIC, Profile_REPORT, Profile_POST_EXPLOITATION} \<and>
        (sp_network_mode p \<noteq> Net_NONE \<or> sp_execute_target_code p))"

definition source_kinds :: "MountKind set" where
  "source_kinds = {Mount_SNAPSHOT, Mount_OUTPUT, Mount_TEMP}"

definition report_kinds :: "MountKind set" where
  "report_kinds = {Mount_EVIDENCE, Mount_OUTPUT, Mount_TEMP}"

definition profile_slots :: "SandboxProfile \<Rightarrow> bool" where
  "profile_slots p \<longleftrightarrow>
     \<not> (sp_kind p = Profile_STATIC \<and> mount_kinds p \<noteq> source_kinds \<and>
        mount_kinds p \<noteq> insert Mount_ANALYZER_DATA source_kinds) \<and>
     \<not> (Mount_ANALYZER_DATA \<in> mount_kinds p \<and>
        (length (remdups (sp_allowed_tools p)) \<noteq> 1 \<or> take 9 (hd (sp_allowed_tools p)) \<noteq> ''analyzer.'')) \<and>
     \<not> (sp_kind p = Profile_VALIDATION \<and> (mount_kinds p \<noteq> source_kinds \<or> \<not> sp_execute_target_code p)) \<and>
     \<not> (sp_kind p = Profile_REPORT \<and> mount_kinds p \<noteq> report_kinds) \<and>
     \<not> (sp_kind p = Profile_POST_EXPLOITATION \<and> mount_kinds p \<noteq> report_kinds) \<and>
     \<not> (sp_kind p = Profile_POST_EXPLOITATION \<and>
        set (sp_allowed_tools p) \<noteq> {''red_team.evidence_read'', ''red_team.result_write''})"

definition SandboxProfile_fields :: "SandboxProfile \<Rightarrow> bool" where
  "SandboxProfile_fields p \<longleftrightarrow>
     is_image_digest (sp_image_digest p) \<and> is_digest (sp_seccomp_contract_digest p) \<and>
     0 < sp_run_as_uid p \<and> sp_run_as_uid p \<le> 2 ^ 31 - 1 \<and> 0 < sp_run_as_gid p \<and> sp_run_as_gid p \<le> 2 ^ 31 - 1 \<and>
     list_all SandboxMount_valid (sp_mounts p) \<and> list_all is_reason_code (sp_allowed_tools p) \<and>
     1 \<le> sp_max_attempts p \<and> sp_max_attempts p \<le> 3 \<and> SandboxLimits_valid (sp_limits p)"

fun validate_all :: "('a \<Rightarrow> 'b option) \<Rightarrow> 'a list \<Rightarrow> 'b list option" where
  "validate_all f [] = Some []"
| "validate_all f (x # xs) =
     (case f x of
        None \<Rightarrow> None
      | Some y \<Rightarrow> (case validate_all f xs of None \<Rightarrow> None | Some ys \<Rightarrow> Some (y # ys)))"

definition SandboxProfile_validate :: "(pyval \<Rightarrow> digest) \<Rightarrow> SandboxProfile \<Rightarrow> SandboxProfile option" where
  "SandboxProfile_validate H p =
     (case validate_all NetworkGrant_validate (sp_network_grants p) of
        None \<Rightarrow> None
      | Some gs \<Rightarrow>
          (let q = p\<lparr>sp_network_grants := gs\<rparr> in
           if SandboxProfile_fields q \<and> profile_hardened H q \<and> profile_slots q then Some q else None))"

definition SandboxProfile_dump :: "SandboxProfile \<Rightarrow> pyval" where
  "SandboxProfile_dump p = PDict
     [(''kind'', PEnum (profile_kind_value (sp_kind p))), (''image_digest'', PStr (sp_image_digest p)),
      (''seccomp_contract_digest'', PStr (sp_seccomp_contract_digest p)), (''run_as_uid'', PInt (sp_run_as_uid p)),
      (''run_as_gid'', PInt (sp_run_as_gid p)), (''read_only_root'', PBool (sp_read_only_root p)),
      (''no_new_privileges'', PBool (sp_no_new_privileges p)),
      (''capabilities'', PSet (map PStr (sp_capabilities p))),
      (''network_mode'', PEnum (network_mode_value (sp_network_mode p))),
      (''network_grants'', PList (map NetworkGrant_dump (sp_network_grants p))),
      (''mounts'', PList (map SandboxMount_dump (sp_mounts p))),
      (''writable_paths'', PSet (map PStr (sp_writable_paths p))),
      (''allowed_tools'', PSet (map PStr (sp_allowed_tools p))),
      (''execute_target_code'', PBool (sp_execute_target_code p)), (''max_attempts'', PInt (sp_max_attempts p)),
      (''limits'', SandboxLimits_dump (sp_limits p))]"

definition sandbox_profile_digest :: "(pyval \<Rightarrow> digest) \<Rightarrow> SandboxProfile \<Rightarrow> digest" where
  "sandbox_profile_digest H p = H (SandboxProfile_dump p)"

section \<open>Worker environments\<close>

datatype environment_error = UnsafeEnvironmentName string | UnsafeEnvironmentValue

definition ENV_SENSITIVE :: "string list" where
  "ENV_SENSITIVE =
     [''token'', ''secret'', ''password'', ''passwd'', ''cookie'', ''auth'', ''apikey'', ''api_key'', ''privatekey'',
      ''private_key'', ''aws_'', ''azure_'', ''google_'', ''github_'', ''gitlab_'', ''docker_'', ''ssh_'']"

definition env_name_ok :: "string \<Rightarrow> bool" where
  "env_name_ok s \<longleftrightarrow>
     (case s of [] \<Rightarrow> False
      | c # cs \<Rightarrow> c \<in> set ''ABCDEFGHIJKLMNOPQRSTUVWXYZ_'' \<and>
          list_all (\<lambda>d. d \<in> set ''ABCDEFGHIJKLMNOPQRSTUVWXYZ_0123456789'') cs)"

text \<open>\<^verbatim>\<open>len(s.encode())\<close> for characters below 256\<close>

definition utf8_length :: "string \<Rightarrow> int" where
  "utf8_length s = sum_list (map (\<lambda>c. if char_code c < 128 then 1 else 2) s)"

fun add_environment ::
  "int \<Rightarrow> (string \<times> string) list \<Rightarrow> (string \<times> string) list \<Rightarrow> environment_error + (string \<times> string) list" where
  "add_environment bytes output [] = Inr output"
| "add_environment bytes output ((n, v) # kvs) =
     (let bytes' = bytes + int (length n) + utf8_length v + 1 in
      if n \<in> set (map fst output) then Inl (UnsafeEnvironmentName n)
      else if any_word_in ENV_SENSITIVE n then Inl (UnsafeEnvironmentName n)
      else if \<not> env_name_ok n then Inl (UnsafeEnvironmentName n)
      else if CHR 0x00 \<in> set v \<or> 16384 < utf8_length v \<or> 65536 < bytes' then Inl UnsafeEnvironmentValue
      else add_environment bytes' (output @ [(n, v)]) kvs)"

definition build_worker_environment ::
  "(string \<times> string) list \<Rightarrow> environment_error + (string \<times> string) list" where
  "build_worker_environment explicit =
     add_environment 0 [(''LANG'', ''C.UTF-8''), (''LC_ALL'', ''C.UTF-8'')] explicit"

section \<open>Run requests\<close>

datatype WorkingDirectory = Work_SOURCE | Work_OUTPUT | Work_TEMP

fun working_directory_value :: "WorkingDirectory \<Rightarrow> string" where
  "working_directory_value Work_SOURCE = ''source''"
| "working_directory_value Work_OUTPUT = ''output''"
| "working_directory_value Work_TEMP = ''temp''"

record ToolInvocation =
  ti_tool_id :: string
  ti_arguments :: "string list"
  ti_working_directory :: WorkingDirectory

definition ToolInvocation_valid :: "ToolInvocation \<Rightarrow> bool" where
  "ToolInvocation_valid i \<longleftrightarrow>
     is_reason_code (ti_tool_id i) \<and> length (ti_arguments i) \<le> 128 \<and>
     \<not> list_ex (\<lambda>a. CHR 0x00 \<in> set a \<or> 16384 < utf8_length a) (ti_arguments i)"

definition ToolInvocation_dump :: "ToolInvocation \<Rightarrow> pyval" where
  "ToolInvocation_dump i = PDict [(''tool_id'', PStr (ti_tool_id i)), (''arguments'', p_strs (ti_arguments i)),
     (''working_directory'', PEnum (working_directory_value (ti_working_directory i)))]"

definition invocation_digest :: "(pyval \<Rightarrow> digest) \<Rightarrow> ToolInvocation \<Rightarrow> digest" where
  "invocation_digest H i = H (ToolInvocation_dump i)"

record RunnerCheckpoint =
  rk_checkpoint_id :: digest
  rk_task_id :: uuid
  rk_target_id :: uuid
  rk_target_version :: string
  rk_scope_id :: uuid
  rk_scope_version :: int
  rk_policy_digest :: digest
  rk_sandbox_profile_digest :: digest
  rk_invocation_digest :: digest
  rk_attempt :: int

definition RunnerCheckpoint_valid :: "RunnerCheckpoint \<Rightarrow> bool" where
  "RunnerCheckpoint_valid k \<longleftrightarrow>
     is_digest (rk_checkpoint_id k) \<and> rk_target_version k \<noteq> [] \<and> 1 \<le> rk_scope_version k \<and>
     is_digest (rk_policy_digest k) \<and> is_digest (rk_sandbox_profile_digest k) \<and>
     is_digest (rk_invocation_digest k) \<and> 1 \<le> rk_attempt k \<and> rk_attempt k \<le> 3"

definition RunnerCheckpoint_items :: "RunnerCheckpoint \<Rightarrow> (string \<times> pyval) list" where
  "RunnerCheckpoint_items k =
     [(''task_id'', PUuid (rk_task_id k)), (''target_id'', PUuid (rk_target_id k)),
      (''target_version'', PStr (rk_target_version k)), (''scope_id'', PUuid (rk_scope_id k)),
      (''scope_version'', PInt (rk_scope_version k)), (''policy_digest'', PStr (rk_policy_digest k)),
      (''sandbox_profile_digest'', PStr (rk_sandbox_profile_digest k)),
      (''invocation_digest'', PStr (rk_invocation_digest k)), (''attempt'', PInt (rk_attempt k))]"

definition checkpoint_digest :: "(pyval \<Rightarrow> digest) \<Rightarrow> RunnerCheckpoint \<Rightarrow> digest" where
  "checkpoint_digest H k = H (PDict (RunnerCheckpoint_items k))"

record SandboxRunRequest =
  rq_run_id :: uuid
  rq_task :: TaskEnvelope
  rq_profile :: SandboxProfile
  rq_invocation :: ToolInvocation
  rq_environment :: "(string \<times> string) list"
  rq_attempt :: int
  rq_resume_from :: "RunnerCheckpoint option"
  rq_idempotency_key :: string

definition SandboxRunRequest_validate :: "(pyval \<Rightarrow> digest) \<Rightarrow> SandboxRunRequest \<Rightarrow> SandboxRunRequest option" where
  "SandboxRunRequest_validate H r =
     (case SandboxProfile_validate H (rq_profile r) of
        None \<Rightarrow> None
      | Some p \<Rightarrow>
          if TaskEnvelope_valid (rq_task r) \<and> ToolInvocation_valid (rq_invocation r) \<and>
             is_ok (build_worker_environment (rq_environment r)) \<and> 1 \<le> rq_attempt r \<and> rq_attempt r \<le> 3 \<and>
             opt_all RunnerCheckpoint_valid (rq_resume_from r) \<and>
             rq_idempotency_key r \<noteq> [] \<and> length (rq_idempotency_key r) \<le> 256
          then Some (r\<lparr>rq_profile := p\<rparr>) else None)"

definition run_request_items :: "SandboxRunRequest \<Rightarrow> (string \<times> pyval) list" where
  "run_request_items r =
     [(''task'', TaskEnvelope_dump (rq_task r)), (''profile'', SandboxProfile_dump (rq_profile r)),
      (''invocation'', ToolInvocation_dump (rq_invocation r)),
      (''environment'', PDict (map (\<lambda>kv. (fst kv, PStr (snd kv))) (rq_environment r))),
      (''attempt'', PInt (rq_attempt r)),
      (''resume_from'', p_opt (\<lambda>k. PDict ((''checkpoint_id'', PStr (rk_checkpoint_id k)) # RunnerCheckpoint_items k))
         (rq_resume_from r)),
      (''idempotency_key'', PStr (rq_idempotency_key r))]"

definition run_request_digest :: "(pyval \<Rightarrow> digest) \<Rightarrow> SandboxRunRequest \<Rightarrow> digest" where
  "run_request_digest H r = H (PDict (run_request_items r))"

section \<open>Run results\<close>

datatype SandboxRunStatus = Run_COMPLETED | Run_CHECKPOINTED | Run_FAILED | Run_TIMED_OUT | Run_CANCELLED

record SandboxUsage =
  sz_wall_seconds :: rat
  sz_cpu_millis :: int
  sz_peak_memory_bytes :: int
  sz_pids_peak :: int
  sz_open_files_peak :: int
  sz_output_bytes :: int
  sz_temporary_bytes :: int

definition SandboxUsage_valid :: "SandboxUsage \<Rightarrow> bool" where
  "SandboxUsage_valid u \<longleftrightarrow>
     0 \<le> sz_wall_seconds u \<and> 0 \<le> sz_cpu_millis u \<and> 0 \<le> sz_peak_memory_bytes u \<and> 0 \<le> sz_pids_peak u \<and>
     0 \<le> sz_open_files_peak u \<and> 0 \<le> sz_output_bytes u \<and> 0 \<le> sz_temporary_bytes u"

record SandboxOutput =
  so_object_id :: digest
  so_logical_name :: string
  so_size :: int
  so_sha256 :: digest
  so_content_ref :: string

definition SandboxOutput_valid :: "SandboxOutput \<Rightarrow> bool" where
  "SandboxOutput_valid x \<longleftrightarrow>
     is_digest (so_object_id x) \<and> so_logical_name x = ''output.json'' \<and> 0 < so_size x \<and>
     so_object_id x = so_sha256 x \<and> so_content_ref x = ''objects/'' @ so_object_id x @ ''/output.json''"

record CleanupReport =
  cr_processes_terminated :: bool
  cr_network_released :: bool
  cr_writable_layer_removed :: bool
  cr_temporary_mounts_removed :: bool

definition cleanup_complete :: "CleanupReport \<Rightarrow> bool" where
  "cleanup_complete c \<longleftrightarrow>
     cr_processes_terminated c \<and> cr_network_released c \<and> cr_writable_layer_removed c \<and> cr_temporary_mounts_removed c"

record SandboxRunResult =
  rs_run_id :: uuid
  rs_task_id :: uuid
  rs_status :: SandboxRunStatus
  rs_sandbox_profile_digest :: digest
  rs_invocation_digest :: digest
  rs_budget_used :: TaskBudget
  rs_usage :: SandboxUsage
  rs_evidence_refs :: "digest list"
  rs_outputs :: "SandboxOutput list"
  rs_checkpoint :: "RunnerCheckpoint option"
  rs_error_codes :: "string list"
  rs_cleanup :: CleanupReport

definition SandboxRunResult_valid :: "SandboxRunResult \<Rightarrow> bool" where
  "SandboxRunResult_valid r \<longleftrightarrow>
     is_digest (rs_sandbox_profile_digest r) \<and> is_digest (rs_invocation_digest r) \<and>
     TaskBudget_valid (rs_budget_used r) \<and> SandboxUsage_valid (rs_usage r) \<and>
     list_all is_digest (rs_evidence_refs r) \<and> list_all SandboxOutput_valid (rs_outputs r) \<and>
     opt_all RunnerCheckpoint_valid (rs_checkpoint r) \<and> cleanup_complete (rs_cleanup r) \<and>
     \<not> (rs_status r = Run_CHECKPOINTED \<and> rs_checkpoint r = None) \<and>
     \<not> (rs_status r \<noteq> Run_CHECKPOINTED \<and> rs_checkpoint r \<noteq> None) \<and>
     \<not> (rs_status r \<noteq> Run_COMPLETED \<and> rs_outputs r \<noteq> [])"

end
