(* ===== verification/Broker_Models.thy ===== *)
theory Broker_Models
  imports Runner_Models Policy
begin

text \<open>
  The contracts of the tool broker: \<^verbatim>\<open>src/src/vulnloom/broker/models.py\<close>, the wire contracts of \<^verbatim>\<open>broker/http.py\<close> and
  \<^verbatim>\<open>broker/tls.py\<close>, \<^verbatim>\<open>broker/implementation.py\<close> and the registry of \<^verbatim>\<open>broker/registry.py\<close>. \<open>S\<close> is SHA-256 of a
  string, \<open>H\<close> the canonical digest, \<open>U\<close> what \<^verbatim>\<open>urlsplit\<close> takes from other modules. Characters are below 256, so
  every header value is Latin-1. \<open>X_validate\<close> returns the record with the fields its validators rewrite.
\<close>

section \<open>Tools\<close>

datatype ToolCapability = Cap_HTTP_REQUEST | Cap_TLS_INSPECT

fun capability_value :: "ToolCapability \<Rightarrow> string" where
  "capability_value Cap_HTTP_REQUEST = ''http_request''"
| "capability_value Cap_TLS_INSPECT = ''tls_inspect''"

datatype SideEffectMode = Effect_READ_ONLY | Effect_CONDITIONAL

fun side_effect_value :: "SideEffectMode \<Rightarrow> string" where
  "side_effect_value Effect_READ_ONLY = ''read_only''"
| "side_effect_value Effect_CONDITIONAL = ''conditional''"

record ToolRegistration =
  tg_tool_id :: string
  tg_version :: string
  tg_capability :: ToolCapability
  tg_allowed_profiles :: "SandboxProfileKind list"
  tg_requires_network :: bool
  tg_accepts_credential_ref :: bool
  tg_side_effect_mode :: SideEffectMode
  tg_implementation_digest :: digest

definition ToolRegistration_valid :: "ToolRegistration \<Rightarrow> bool" where
  "ToolRegistration_valid r \<longleftrightarrow>
     is_reason_code (tg_tool_id r) \<and> tg_version r \<noteq> [] \<and> length (tg_version r) \<le> 64 \<and>
     is_digest (tg_implementation_digest r) \<and>
     \<not> (tg_capability r = Cap_HTTP_REQUEST \<and>
        (\<not> tg_requires_network r \<or> tg_allowed_profiles r = [] \<or>
         \<not> set (tg_allowed_profiles r) \<subseteq> {Profile_VALIDATION} \<or> tg_side_effect_mode r \<noteq> Effect_CONDITIONAL)) \<and>
     \<not> (tg_capability r = Cap_TLS_INSPECT \<and>
        (\<not> tg_requires_network r \<or> tg_allowed_profiles r = [] \<or>
         \<not> set (tg_allowed_profiles r) \<subseteq> {Profile_VALIDATION} \<or> tg_accepts_credential_ref r \<or>
         tg_side_effect_mode r \<noteq> Effect_READ_ONLY))"

definition ToolRegistration_dump :: "ToolRegistration \<Rightarrow> pyval" where
  "ToolRegistration_dump r = PDict
     [(''tool_id'', PStr (tg_tool_id r)), (''version'', PStr (tg_version r)),
      (''capability'', PEnum (capability_value (tg_capability r))),
      (''allowed_profiles'', PSet (map (\<lambda>k. PEnum (profile_kind_value k)) (tg_allowed_profiles r))),
      (''requires_network'', PBool (tg_requires_network r)),
      (''accepts_credential_ref'', PBool (tg_accepts_credential_ref r)),
      (''side_effect_mode'', PEnum (side_effect_value (tg_side_effect_mode r))),
      (''implementation_digest'', PStr (tg_implementation_digest r))]"

record ToolRegistry =
  tr_entries :: "ToolRegistration list"
  tr_digest :: digest

definition ToolRegistry_create :: "(pyval \<Rightarrow> digest) \<Rightarrow> ToolRegistration list \<Rightarrow> ToolRegistry option" where
  "ToolRegistry_create H entries =
     (if \<not> list_all ToolRegistration_valid entries \<or> \<not> distinct (map tg_tool_id entries) then None
      else Some \<lparr>tr_entries = entries,
                 tr_digest = H (PList (map ToolRegistration_dump (sort_key tg_tool_id entries)))\<rparr>)"

definition require_tool :: "ToolRegistry \<Rightarrow> string \<Rightarrow> ToolRegistration option" where
  "require_tool R i = dict_by tg_tool_id (tr_entries R) i"

definition OFFLINE_HTTP_IMPLEMENTATION_DIGEST :: "(string \<Rightarrow> digest) \<Rightarrow> digest" where
  "OFFLINE_HTTP_IMPLEMENTATION_DIGEST S = S ''vulnloom:offline-http:v1''"

definition PINNED_HTTP_IMPLEMENTATION_DIGEST :: "(string \<Rightarrow> digest) \<Rightarrow> digest" where
  "PINNED_HTTP_IMPLEMENTATION_DIGEST S = S ''vulnloom:pinned-http:v1''"

definition OFFLINE_TLS_IMPLEMENTATION_DIGEST :: "(string \<Rightarrow> digest) \<Rightarrow> digest" where
  "OFFLINE_TLS_IMPLEMENTATION_DIGEST S = S ''vulnloom:offline-tls:v1''"

definition PINNED_TLS_IMPLEMENTATION_DIGEST :: "(string \<Rightarrow> digest) \<Rightarrow> digest" where
  "PINNED_TLS_IMPLEMENTATION_DIGEST S = S ''vulnloom:pinned-tls:v1''"

definition http_tool_registry :: "(pyval \<Rightarrow> digest) \<Rightarrow> string \<Rightarrow> digest \<Rightarrow> ToolRegistry option" where
  "http_tool_registry H ver impl = ToolRegistry_create H
     [\<lparr>tg_tool_id = ''http.request'', tg_version = ver, tg_capability = Cap_HTTP_REQUEST,
       tg_allowed_profiles = [Profile_VALIDATION], tg_requires_network = True, tg_accepts_credential_ref = True,
       tg_side_effect_mode = Effect_CONDITIONAL, tg_implementation_digest = impl\<rparr>]"

definition tls_tool_registry :: "(pyval \<Rightarrow> digest) \<Rightarrow> string \<Rightarrow> digest \<Rightarrow> ToolRegistry option" where
  "tls_tool_registry H ver impl = ToolRegistry_create H
     [\<lparr>tg_tool_id = ''tls.inspect'', tg_version = ver, tg_capability = Cap_TLS_INSPECT,
       tg_allowed_profiles = [Profile_VALIDATION], tg_requires_network = True, tg_accepts_credential_ref = False,
       tg_side_effect_mode = Effect_READ_ONLY, tg_implementation_digest = impl\<rparr>]"

definition default_tool_registry :: "(pyval \<Rightarrow> digest) \<Rightarrow> (string \<Rightarrow> digest) \<Rightarrow> ToolRegistry option" where
  "default_tool_registry H S = http_tool_registry H ''1'' (OFFLINE_HTTP_IMPLEMENTATION_DIGEST S)"

definition pinned_http_tool_registry :: "(pyval \<Rightarrow> digest) \<Rightarrow> (string \<Rightarrow> digest) \<Rightarrow> ToolRegistry option" where
  "pinned_http_tool_registry H S = http_tool_registry H ''2'' (PINNED_HTTP_IMPLEMENTATION_DIGEST S)"

definition offline_tls_tool_registry :: "(pyval \<Rightarrow> digest) \<Rightarrow> (string \<Rightarrow> digest) \<Rightarrow> ToolRegistry option" where
  "offline_tls_tool_registry H S = tls_tool_registry H ''1'' (OFFLINE_TLS_IMPLEMENTATION_DIGEST S)"

definition pinned_tls_tool_registry :: "(pyval \<Rightarrow> digest) \<Rightarrow> (string \<Rightarrow> digest) \<Rightarrow> ToolRegistry option" where
  "pinned_tls_tool_registry H S = tls_tool_registry H ''2'' (PINNED_TLS_IMPLEMENTATION_DIGEST S)"

section \<open>HTTP plans\<close>

datatype HttpMethod =
    Http_GET | Http_HEAD | Http_OPTIONS | Http_POST | Http_PUT | Http_PATCH | Http_DELETE

fun http_method_value :: "HttpMethod \<Rightarrow> string" where
  "http_method_value Http_GET = ''GET''"
| "http_method_value Http_HEAD = ''HEAD''"
| "http_method_value Http_OPTIONS = ''OPTIONS''"
| "http_method_value Http_POST = ''POST''"
| "http_method_value Http_PUT = ''PUT''"
| "http_method_value Http_PATCH = ''PATCH''"
| "http_method_value Http_DELETE = ''DELETE''"

definition method_mutates_state :: "HttpMethod \<Rightarrow> bool" where
  "method_mutates_state m \<longleftrightarrow> m \<notin> {Http_GET, Http_HEAD, Http_OPTIONS}"

record HttpHeader =
  hh_name :: string
  hh_value :: string

definition SENSITIVE_HEADER :: "string list" where
  "SENSITIVE_HEADER =
     [''authorization'', ''cookie'', ''token'', ''secret'', ''apikey'', ''api-key'', ''api_key'', ''session'',
      ''credential'']"

definition header_name_char :: "char \<Rightarrow> bool" where
  "header_name_char c \<longleftrightarrow> is_ascii_alpha c \<or> is_digit_char c \<or> c \<in> set ''!#$%&*+.^_`|~-'' \<or> c = CHR 0x27"

definition FORBIDDEN_HEADERS :: "string list" where
  "FORBIDDEN_HEADERS =
     [''connection'', ''content-length'', ''host'', ''keep-alive'', ''proxy-authenticate'', ''te'', ''trailer'',
      ''transfer-encoding'', ''upgrade'']"

definition HttpHeader_validate :: "HttpHeader \<Rightarrow> HttpHeader option" where
  "HttpHeader_validate h =
     (if hh_name h = [] \<or> 128 < length (hh_name h) \<or> \<not> list_all header_name_char (hh_name h) \<or>
         any_word_in SENSITIVE_HEADER (hh_name h) \<or> lower (hh_name h) \<in> set FORBIDDEN_HEADERS \<or>
         4096 < length (hh_value h) \<or> list_ex (\<lambda>c. char_code c \<in> {0, 10, 13}) (hh_value h)
      then None else Some (h\<lparr>hh_name := lower (hh_name h)\<rparr>))"

definition HttpHeader_dump :: "HttpHeader \<Rightarrow> pyval" where
  "HttpHeader_dump h = PDict [(''name'', PStr (hh_name h)), (''value'', PStr (hh_value h))]"

record HttpLimits =
  hl_connect_seconds :: rat
  hl_read_seconds :: rat
  hl_total_seconds :: rat
  hl_max_response_bytes :: int
  hl_max_redirects :: int
  hl_max_requests :: int

definition HttpLimits_valid :: "HttpLimits \<Rightarrow> bool" where
  "HttpLimits_valid l \<longleftrightarrow>
     0 < hl_connect_seconds l \<and> hl_connect_seconds l \<le> 30 \<and> 0 < hl_read_seconds l \<and> hl_read_seconds l \<le> 60 \<and>
     0 < hl_total_seconds l \<and> hl_total_seconds l \<le> 120 \<and>
     0 < hl_max_response_bytes l \<and> hl_max_response_bytes l \<le> 20 * 1024 * 1024 \<and>
     0 \<le> hl_max_redirects l \<and> hl_max_redirects l \<le> 5 \<and> 1 \<le> hl_max_requests l \<and> hl_max_requests l \<le> 6 \<and>
     \<not> hl_max_requests l < hl_max_redirects l + 1"

definition HttpLimits_dump :: "HttpLimits \<Rightarrow> pyval" where
  "HttpLimits_dump l = PDict
     [(''connect_seconds'', PFloat (hl_connect_seconds l)), (''read_seconds'', PFloat (hl_read_seconds l)),
      (''total_seconds'', PFloat (hl_total_seconds l)), (''max_response_bytes'', PInt (hl_max_response_bytes l)),
      (''max_redirects'', PInt (hl_max_redirects l)), (''max_requests'', PInt (hl_max_requests l))]"

definition SENSITIVE_QUERY :: "string list" where
  "SENSITIVE_QUERY =
     [''token'', ''secret'', ''password'', ''passwd'', ''apikey'', ''api-key'', ''api_key'', ''auth'', ''session'',
      ''cookie'']"

text \<open>\<^verbatim>\<open>HttpRequestPlan.safe_url\<close>: the normalised URL, or nothing where it raises.\<close>

definition normalized_url :: "split_url \<Rightarrow> string option" where
  "normalized_url parsed =
     (case url_port parsed of
        Inl _ \<Rightarrow> None
      | Inr port \<Rightarrow>
          (let host = lower (the (url_hostname parsed));
               rendered = (if CHR '':'' \<in> set host then ''['' @ host @ '']'' else host);
               netloc = (case port of None \<Rightarrow> rendered | Some n \<Rightarrow> rendered @ '':'' @ dumps_int n)
           in Some (urlunsplit (lower (su_scheme parsed)) netloc
                (if su_path parsed = [] then ''/'' else su_path parsed) (su_query parsed) [])))"

definition safe_url :: "url_env \<Rightarrow> string \<Rightarrow> string option" where
  "safe_url U url =
     (if list_ex (\<lambda>c. char_code c \<le> 32) url \<or> CHR 0x5C \<in> set url then None
      else case urlsplit U url of
        Inl _ \<Rightarrow> None
      | Inr parsed \<Rightarrow>
          if lower (su_scheme parsed) \<notin> {''http'', ''https''} \<or> url_hostname parsed = None \<or>
             truthy (url_username parsed) \<or> truthy (url_password parsed) \<or> su_fragment parsed \<noteq> [] \<or>
             list_ex (any_word_in SENSITIVE_QUERY) (query_names (su_query parsed))
          then None else normalized_url parsed)"

record HttpRequestPlan =
  hp_method :: HttpMethod
  hp_url :: string
  hp_test_class :: string
  hp_headers :: "HttpHeader list"
  hp_credential_ref :: "digest option"
  hp_body_ref :: "digest option"
  hp_body_bytes :: int
  hp_follow_redirects :: bool
  hp_limits :: HttpLimits

definition body_coherent :: "HttpMethod \<Rightarrow> digest option \<Rightarrow> int \<Rightarrow> bool" where
  "body_coherent m ref n \<longleftrightarrow>
     (ref = None \<longleftrightarrow> n = 0) \<and> \<not> (m \<in> {Http_GET, Http_HEAD, Http_OPTIONS} \<and> ref \<noteq> None)"

definition HttpRequestPlan_validate :: "url_env \<Rightarrow> HttpRequestPlan \<Rightarrow> HttpRequestPlan option" where
  "HttpRequestPlan_validate U p =
     (case (safe_url U (hp_url p), validate_all HttpHeader_validate (hp_headers p)) of
        (Some url, Some headers) \<Rightarrow>
          if hp_url p \<noteq> [] \<and> length (hp_url p) \<le> 2048 \<and> hp_test_class p \<noteq> [] \<and> length (hp_test_class p) \<le> 128 \<and>
             length (hp_headers p) \<le> 64 \<and> opt_all is_digest (hp_credential_ref p) \<and>
             opt_all is_digest (hp_body_ref p) \<and> 0 \<le> hp_body_bytes p \<and> hp_body_bytes p \<le> 20 * 1024 * 1024 \<and>
             HttpLimits_valid (hp_limits p) \<and> body_coherent (hp_method p) (hp_body_ref p) (hp_body_bytes p) \<and>
             \<not> (method_mutates_state (hp_method p) \<and> hp_follow_redirects p) \<and>
             (hp_follow_redirects p \<longleftrightarrow> 0 < hl_max_redirects (hp_limits p)) \<and>
             distinct (map hh_name headers)
          then Some (p\<lparr>hp_url := url, hp_headers := headers\<rparr>) else None
      | _ \<Rightarrow> None)"

definition HttpRequestPlan_dump :: "HttpRequestPlan \<Rightarrow> pyval" where
  "HttpRequestPlan_dump p = PDict
     [(''method'', PEnum (http_method_value (hp_method p))), (''url'', PStr (hp_url p)),
      (''test_class'', PStr (hp_test_class p)), (''headers'', PList (map HttpHeader_dump (hp_headers p))),
      (''credential_ref'', p_opt PStr (hp_credential_ref p)), (''body_ref'', p_opt PStr (hp_body_ref p)),
      (''body_bytes'', PInt (hp_body_bytes p)), (''follow_redirects'', PBool (hp_follow_redirects p)),
      (''limits'', HttpLimits_dump (hp_limits p))]"

section \<open>TLS plans\<close>

datatype TlsProtocolVersion = TLS_1_2 | TLS_1_3

record TlsInspectionLimits =
  tl_connect_seconds :: rat
  tl_handshake_seconds :: rat
  tl_total_seconds :: rat

definition TlsInspectionLimits_valid :: "TlsInspectionLimits \<Rightarrow> bool" where
  "TlsInspectionLimits_valid l \<longleftrightarrow>
     0 < tl_connect_seconds l \<and> tl_connect_seconds l \<le> 30 \<and> 0 < tl_handshake_seconds l \<and>
     tl_handshake_seconds l \<le> 30 \<and> 0 < tl_total_seconds l \<and> tl_total_seconds l \<le> 60"

record TlsInspectionPlan =
  tp_url :: string
  tp_test_class :: string
  tp_limits :: TlsInspectionLimits

definition safe_https_url :: "url_env \<Rightarrow> string \<Rightarrow> string option" where
  "safe_https_url U url =
     (case safe_url U url of
        None \<Rightarrow> None
      | Some n \<Rightarrow>
          (case urlsplit U n of
             Inl _ \<Rightarrow> None
           | Inr parsed \<Rightarrow> if su_scheme parsed \<noteq> ''https'' \<or> su_query parsed \<noteq> [] then None else Some n))"

definition TlsInspectionPlan_validate :: "url_env \<Rightarrow> TlsInspectionPlan \<Rightarrow> TlsInspectionPlan option" where
  "TlsInspectionPlan_validate U p =
     (case safe_https_url U (tp_url p) of
        None \<Rightarrow> None
      | Some url \<Rightarrow>
          if tp_url p \<noteq> [] \<and> length (tp_url p) \<le> 2048 \<and> tp_test_class p \<noteq> [] \<and> length (tp_test_class p) \<le> 128 \<and>
             TlsInspectionLimits_valid (tp_limits p)
          then Some (p\<lparr>tp_url := url\<rparr>) else None)"

definition TlsInspectionPlan_dump :: "TlsInspectionPlan \<Rightarrow> pyval" where
  "TlsInspectionPlan_dump p = PDict
     [(''url'', PStr (tp_url p)), (''test_class'', PStr (tp_test_class p)),
      (''limits'', PDict [(''connect_seconds'', PFloat (tl_connect_seconds (tp_limits p))),
         (''handshake_seconds'', PFloat (tl_handshake_seconds (tp_limits p))),
         (''total_seconds'', PFloat (tl_total_seconds (tp_limits p)))])]"

section \<open>Calls\<close>

record BrokerCall =
  bc_call_id :: uuid
  bc_task :: TaskEnvelope
  bc_profile :: SandboxProfile
  bc_tool_id :: string
  bc_http :: "HttpRequestPlan option"
  bc_tls :: "TlsInspectionPlan option"
  bc_idempotency_key :: string

fun validate_opt :: "('a \<Rightarrow> 'b option) \<Rightarrow> 'a option \<Rightarrow> 'b option option" where
  "validate_opt f None = Some None"
| "validate_opt f (Some x) = map_option Some (f x)"

definition BrokerCall_validate :: "(pyval \<Rightarrow> digest) \<Rightarrow> url_env \<Rightarrow> BrokerCall \<Rightarrow> BrokerCall option" where
  "BrokerCall_validate H U c =
     (case (SandboxProfile_validate H (bc_profile c), validate_opt (HttpRequestPlan_validate U) (bc_http c),
            validate_opt (TlsInspectionPlan_validate U) (bc_tls c)) of
        (Some p, Some http, Some tls) \<Rightarrow>
          if TaskEnvelope_valid (bc_task c) \<and> is_reason_code (bc_tool_id c) \<and> bc_idempotency_key c \<noteq> [] \<and>
             length (bc_idempotency_key c) \<le> 256 \<and> (http = None) \<noteq> (tls = None)
          then Some (c\<lparr>bc_profile := p, bc_http := http, bc_tls := tls\<rparr>) else None
      | _ \<Rightarrow> None)"

definition BrokerCall_items :: "BrokerCall \<Rightarrow> (string \<times> pyval) list" where
  "BrokerCall_items c =
     [(''task'', TaskEnvelope_dump (bc_task c)), (''profile'', SandboxProfile_dump (bc_profile c)),
      (''tool_id'', PStr (bc_tool_id c)), (''http'', p_opt HttpRequestPlan_dump (bc_http c)),
      (''tls'', p_opt TlsInspectionPlan_dump (bc_tls c)), (''idempotency_key'', PStr (bc_idempotency_key c))]"

definition broker_call_digest :: "(pyval \<Rightarrow> digest) \<Rightarrow> BrokerCall \<Rightarrow> digest" where
  "broker_call_digest H c = H (PDict (BrokerCall_items c))"

definition url_digest :: "(string \<Rightarrow> digest) \<Rightarrow> string \<Rightarrow> digest" where
  "url_digest S url = S url"

section \<open>Wire requests and replies\<close>

text \<open>The headers of a wire request are models already, which Pydantic does not validate again.\<close>

record HttpWireRequest =
  hw_method :: HttpMethod
  hw_url :: string
  hw_pinned_ip :: string
  hw_headers :: "HttpHeader list"
  hw_credential_ref :: "digest option"
  hw_body_ref :: "digest option"
  hw_body_bytes :: int
  hw_connect_seconds :: rat
  hw_read_seconds :: rat
  hw_max_response_bytes :: int

definition HttpWireRequest_valid :: "HttpWireRequest \<Rightarrow> bool" where
  "HttpWireRequest_valid w \<longleftrightarrow>
     length (hw_headers w) \<le> 64 \<and>
     opt_all is_digest (hw_credential_ref w) \<and> opt_all is_digest (hw_body_ref w) \<and>
     0 \<le> hw_body_bytes w \<and> hw_body_bytes w \<le> 20 * 1024 * 1024 \<and> 0 < hw_connect_seconds w \<and>
     hw_connect_seconds w \<le> 30 \<and> 0 < hw_read_seconds w \<and> hw_read_seconds w \<le> 60 \<and>
     0 < hw_max_response_bytes w \<and> hw_max_response_bytes w \<le> 20 * 1024 * 1024 \<and>
     body_coherent (hw_method w) (hw_body_ref w) (hw_body_bytes w) \<and> distinct (map hh_name (hw_headers w))"

record OfflineHttpHop =
  oh_status_code :: int
  oh_peer_ip :: string
  oh_response_bytes :: int
  oh_response_body_sha256 :: digest
  oh_evidence_ref :: digest
  oh_elapsed_seconds :: rat
  oh_location :: "string option"

definition redirect_status :: "int \<Rightarrow> bool" where
  "redirect_status n \<longleftrightarrow> n \<in> {301, 302, 303, 307, 308}"

definition OfflineHttpHop_valid :: "OfflineHttpHop \<Rightarrow> bool" where
  "OfflineHttpHop_valid h \<longleftrightarrow>
     100 \<le> oh_status_code h \<and> oh_status_code h \<le> 599 \<and> oh_peer_ip h \<noteq> [] \<and> 0 \<le> oh_response_bytes h \<and>
     is_digest (oh_response_body_sha256 h) \<and> is_digest (oh_evidence_ref h) \<and> 0 \<le> oh_elapsed_seconds h \<and>
     opt_all (\<lambda>l. length l \<le> 2048) (oh_location h) \<and>
     (redirect_status (oh_status_code h) \<longleftrightarrow> oh_location h \<noteq> None)"

record TlsWireRequest =
  tw_url :: string
  tw_pinned_ip :: string
  tw_connect_seconds :: rat
  tw_handshake_seconds :: rat
  tw_total_seconds :: rat

record OfflineTlsHandshake =
  ot_peer_ip :: string
  ot_tls_version :: TlsProtocolVersion
  ot_cipher_suite :: string
  ot_cipher_bits :: int
  ot_leaf_certificate_sha256 :: digest
  ot_evidence_ref :: digest
  ot_elapsed_seconds :: rat

definition is_tls_cipher :: "string \<Rightarrow> bool" where
  "is_tls_cipher s \<longleftrightarrow>
     1 \<le> length s \<and> length s \<le> 128 \<and> list_all (\<lambda>c. c \<in> set ''ABCDEFGHIJKLMNOPQRSTUVWXYZ0123456789_-'') s"

definition OfflineTlsHandshake_valid :: "OfflineTlsHandshake \<Rightarrow> bool" where
  "OfflineTlsHandshake_valid h \<longleftrightarrow>
     ot_peer_ip h \<noteq> [] \<and> length (ot_peer_ip h) \<le> 64 \<and> is_tls_cipher (ot_cipher_suite h) \<and>
     112 \<le> ot_cipher_bits h \<and> ot_cipher_bits h \<le> 1024 \<and> is_digest (ot_leaf_certificate_sha256 h) \<and>
     is_digest (ot_evidence_ref h) \<and> 0 \<le> ot_elapsed_seconds h"

section \<open>Results\<close>

record PolicyRecord =
  pl_action_digest :: digest
  pl_effect :: DecisionEffect
  pl_reasons :: "string list"
  pl_obligations :: "string list"
  pl_policy_digest :: digest

record RedirectRecord =
  rx_status_code :: int
  rx_from_url_digest :: digest
  rx_to_url_digest :: digest
  rx_peer_ip :: string

definition RedirectRecord_valid :: "RedirectRecord \<Rightarrow> bool" where
  "RedirectRecord_valid r \<longleftrightarrow>
     300 \<le> rx_status_code r \<and> rx_status_code r \<le> 399 \<and> is_digest (rx_from_url_digest r) \<and>
     is_digest (rx_to_url_digest r) \<and> rx_peer_ip r \<noteq> []"

record HttpToolResult =
  ht_status_code :: int
  ht_final_url_digest :: digest
  ht_peer_ip :: string
  ht_response_bytes :: int
  ht_response_body_sha256 :: digest
  ht_redirects :: "RedirectRecord list"
  ht_evidence_refs :: "digest list"

definition HttpToolResult_valid :: "HttpToolResult \<Rightarrow> bool" where
  "HttpToolResult_valid r \<longleftrightarrow>
     100 \<le> ht_status_code r \<and> ht_status_code r \<le> 599 \<and> is_digest (ht_final_url_digest r) \<and> ht_peer_ip r \<noteq> [] \<and>
     0 \<le> ht_response_bytes r \<and> is_digest (ht_response_body_sha256 r) \<and> list_all RedirectRecord_valid (ht_redirects r) \<and>
     list_all is_digest (ht_evidence_refs r)"

record TlsToolResult =
  tt_endpoint_url_digest :: digest
  tt_peer_ip :: string
  tt_tls_version :: TlsProtocolVersion
  tt_cipher_suite :: string
  tt_cipher_bits :: int
  tt_leaf_certificate_sha256 :: digest
  tt_evidence_refs :: "digest list"

definition TlsToolResult_valid :: "TlsToolResult \<Rightarrow> bool" where
  "TlsToolResult_valid r \<longleftrightarrow>
     is_digest (tt_endpoint_url_digest r) \<and> tt_peer_ip r \<noteq> [] \<and> length (tt_peer_ip r) \<le> 64 \<and>
     is_tls_cipher (tt_cipher_suite r) \<and> 112 \<le> tt_cipher_bits r \<and> tt_cipher_bits r \<le> 1024 \<and>
     is_digest (tt_leaf_certificate_sha256 r) \<and> list_all is_digest (tt_evidence_refs r) \<and>
     length (tt_evidence_refs r) = 1"

datatype BrokerStatus = Bro_COMPLETED | Bro_DENIED | Bro_APPROVAL_REQUIRED | Bro_TIMED_OUT | Bro_FAILED

record BrokerResult =
  br_call_id :: uuid
  br_task_id :: uuid
  br_tool_id :: string
  br_status :: BrokerStatus
  br_registry_digest :: digest
  br_call_digest :: digest
  br_tool_calls_used :: int
  br_policy_records :: "PolicyRecord list"
  br_http :: "HttpToolResult option"
  br_tls :: "TlsToolResult option"
  br_error_codes :: "string list"
  br_completed_at :: instant

definition PolicyRecord_valid :: "PolicyRecord \<Rightarrow> bool" where
  "PolicyRecord_valid r \<longleftrightarrow> is_digest (pl_action_digest r) \<and> is_digest (pl_policy_digest r)"

text \<open>\<^verbatim>\<open>result_shape_matches_status\<close> and the field constraints.\<close>

definition output_count :: "BrokerResult \<Rightarrow> nat" where
  "output_count r = (if br_http r = None then 0 else 1) + (if br_tls r = None then 0 else 1)"

definition BrokerResult_valid :: "BrokerResult \<Rightarrow> bool" where
  "BrokerResult_valid r \<longleftrightarrow>
     is_reason_code (br_tool_id r) \<and> is_digest (br_registry_digest r) \<and> is_digest (br_call_digest r) \<and>
     0 \<le> br_tool_calls_used r \<and> list_all PolicyRecord_valid (br_policy_records r) \<and>
     opt_all HttpToolResult_valid (br_http r) \<and> opt_all TlsToolResult_valid (br_tls r) \<and>
     \<not> (br_status r = Bro_COMPLETED \<and> output_count r \<noteq> 1) \<and>
     \<not> (br_status r \<noteq> Bro_COMPLETED \<and> output_count r \<noteq> 0)"

end
