(* ===== verification/Broker_Service.thy ===== *)
theory Broker_Service
  imports Broker_Models
begin

text \<open>
  The tool broker, \<^verbatim>\<open>src/src/vulnloom/broker/service.py\<close>, with the offline adapters of \<^verbatim>\<open>broker/http.py\<close> and
  \<^verbatim>\<open>broker/tls.py\<close>. A \<open>broker\<close> is what \<^verbatim>\<open>ToolBroker.__init__\<close> fixes; a \<open>broker_state\<close> is the dictionary of stored results and
  the history of what the adapters were asked. The resolver and the transports are functions of that history, so they may
  answer differently every time. A datetime's \<^verbatim>\<open>timestamp()\<close> is its number of microseconds divided by a million.
\<close>

section \<open>Adapters and state\<close>

datatype net_event = Resolve string | Send HttpWireRequest | Inspect TlsWireRequest

text \<open>What a transport does: the exceptions the broker names, and every other one, which escapes it.\<close>

datatype http_reply =
    Hop OfflineHttpHop | Http_PEER_MISMATCH | Http_RESPONSE_LIMIT | Http_TIMEOUT | Http_FAILED | Http_ESCAPES

datatype tls_reply =
    Handshake OfflineTlsHandshake | Tls_PEER_MISMATCH | Tls_TIMEOUT | Tls_FAILED | Tls_ESCAPES

text \<open>\<open>None\<close> for an exception of the resolver.\<close>

record adapters =
  ad_resolve :: "net_event list \<Rightarrow> string \<Rightarrow> string list option"
  ad_send :: "net_event list \<Rightarrow> HttpWireRequest \<Rightarrow> http_reply"
  ad_inspect :: "net_event list \<Rightarrow> TlsWireRequest \<Rightarrow> tls_reply"

text \<open>An absent transport and one without an \<^verbatim>\<open>implementation_digest\<close> are both \<open>None\<close>: neither equals a digest.\<close>

record broker =
  bk_scope :: Scope
  bk_registry :: ToolRegistry
  bk_resolver_digest :: "digest option"
  bk_http_digest :: "digest option"
  bk_tls_digest :: "digest option"
  bk_blocked_ips :: "string list"
  bk_allowed_ips :: "string list option"
  bk_adapters :: adapters

record broker_state =
  bs_results :: "string \<rightharpoonup> digest \<times> BrokerResult"
  bs_events :: "net_event list"

datatype broker_error =
    BrokerRejected string
  | BrokerIdempotencyConflict
  | BrokerUrlError url_error
  | BrokerResolverRaised
  | BrokerTransportRaised
  | BrokerContractInvalid

section \<open>Construction\<close>

definition KNOWN_METADATA_IPS :: "string list" where
  "KNOWN_METADATA_IPS = [''169.254.169.254'', ''169.254.170.2'', ''100.100.100.200'', ''fd00:ec2::254'']"

definition normalize_ips :: "ip_lib \<Rightarrow> string list \<Rightarrow> string list option" where
  "normalize_ips L xs = validate_all (\<lambda>x. map_option (ip_text L) (ip_parse x)) xs"

definition ToolBroker_create ::
  "ip_lib \<Rightarrow> Scope \<Rightarrow> ToolRegistry \<Rightarrow> digest option \<Rightarrow> digest option \<Rightarrow> digest option \<Rightarrow> string list \<Rightarrow> string list option
   \<Rightarrow> adapters \<Rightarrow> broker option" where
  "ToolBroker_create L s R resolver_impl http_impl tls_impl blocked allowed A =
     (case (normalize_ips L (blocked @ KNOWN_METADATA_IPS), validate_opt (normalize_ips L) allowed) of
        (Some b, Some a) \<Rightarrow>
          if a = Some [] then None
          else Some \<lparr>bk_scope = s, bk_registry = R, bk_resolver_digest = resolver_impl, bk_http_digest = http_impl,
                     bk_tls_digest = tls_impl, bk_blocked_ips = b, bk_allowed_ips = a, bk_adapters = A\<rparr>
      | _ \<Rightarrow> None)"

definition empty_broker_state :: broker_state where
  "empty_broker_state = \<lparr>bs_results = Map.empty, bs_events = []\<rparr>"

section \<open>Preflight\<close>

definition call_transport_digest :: "broker \<Rightarrow> BrokerCall \<Rightarrow> digest option" where
  "call_transport_digest B c = (if bc_http c \<noteq> None then bk_http_digest B else bk_tls_digest B)"

definition preflight_call ::
  "(pyval \<Rightarrow> digest) \<Rightarrow> broker \<Rightarrow> BrokerCall \<Rightarrow> broker_error + ToolRegistration" where
  "preflight_call H B c =
     (let t = bc_task c; p = bc_profile c; s = bk_scope B in
      case require_tool (bk_registry B) (bc_tool_id c) of
        None \<Rightarrow> Inl (BrokerRejected ''tool is absent from the trusted registry'')
      | Some r \<Rightarrow>
          if te_sandbox_profile_digest t \<noteq> sandbox_profile_digest H p
          then Inl (BrokerRejected ''TaskEnvelope is bound to another SandboxProfile'')
          else if te_scope_id t \<noteq> scope_id s \<or> te_scope_version t \<noteq> sc_version s
          then Inl (BrokerRejected ''TaskEnvelope is bound to another Scope version'')
          else if te_engagement_id t \<noteq> sc_engagement_id s
          then Inl (BrokerRejected ''TaskEnvelope is bound to another Engagement'')
          else if te_policy_digest t \<noteq> policy_digest H s
          then Inl (BrokerRejected ''TaskEnvelope policy digest does not match current Scope policy'')
          else if te_tool_registry_digest t \<noteq> tr_digest (bk_registry B)
          then Inl (BrokerRejected ''TaskEnvelope is bound to another Tool Registry'')
          else if bc_tool_id c \<notin> set (te_allowed_tools t) \<or> bc_tool_id c \<notin> set (sp_allowed_tools p)
          then Inl (BrokerRejected ''tool is not allowed by both TaskEnvelope and SandboxProfile'')
          else if sp_kind p \<notin> set (tg_allowed_profiles r)
          then Inl (BrokerRejected ''tool registration does not allow this SandboxProfile kind'')
          else if tg_capability r \<noteq> (if bc_http c \<noteq> None then Cap_HTTP_REQUEST else Cap_TLS_INSPECT)
          then Inl (BrokerRejected ''typed call does not match its tool registration'')
          else if call_transport_digest B c \<noteq> Some (tg_implementation_digest r) \<or>
                  bk_resolver_digest B \<noteq> Some (tg_implementation_digest r)
          then Inl (BrokerRejected ''network adapters do not match the bound Tool Registry'')
          else if te_worker_role t \<noteq> Role_VALIDATOR
          then Inl (BrokerRejected ''typed HTTP calls are restricted to Validator Workers'')
          else if tg_requires_network r \<and> (sp_kind p \<noteq> Profile_VALIDATION \<or> sp_network_mode p \<noteq> Net_TARGET_ONLY)
          then Inl (BrokerRejected ''network tool requires a target-only Validation Profile'')
          else if tb_tool_calls (te_budget t) < 1
          then Inl (BrokerRejected ''TaskEnvelope has no tool-call budget'')
          else Inr r)"

definition validate_call ::
  "(pyval \<Rightarrow> digest) \<Rightarrow> url_env \<Rightarrow> broker \<Rightarrow> BrokerCall \<Rightarrow> broker_error + BrokerCall \<times> ToolRegistration" where
  "validate_call H U B c =
     (case BrokerCall_validate H U c of
        None \<Rightarrow> Inl (BrokerRejected ''Broker call failed boundary validation'')
      | Some c' \<Rightarrow> bind_result (preflight_call H B c') (\<lambda>r. Inr (c', r)))"

section \<open>Addresses\<close>

text \<open>The body of the loop of \<^verbatim>\<open>_validated_addresses\<close>: the text of an address, unless it is forbidden.\<close>

definition admit_address :: "ip_lib \<Rightarrow> broker \<Rightarrow> string \<Rightarrow> string option" where
  "admit_address L B value =
     (case ip_parse value of
        None \<Rightarrow> None
      | Some a \<Rightarrow>
          (let text = ip_text L a in
           if text \<in> set (bk_blocked_ips B) \<or>
              (case bk_allowed_ips B of None \<Rightarrow> False | Some xs \<Rightarrow> text \<notin> set xs) \<or> ip_special L a
           then None else Some text))"

definition validated_addresses :: "ip_lib \<Rightarrow> broker \<Rightarrow> string list \<Rightarrow> string list option" where
  "validated_addresses L B addresses =
     (if 32 < length addresses then None
      else case validate_all (admit_address L B) addresses of
             None \<Rightarrow> None
           | Some xs \<Rightarrow> if xs = [] then None else Some (sorted_set xs))"

section \<open>One exchange\<close>

definition http_action :: "BrokerCall \<Rightarrow> HttpRequestPlan \<Rightarrow> string \<Rightarrow> instant \<Rightarrow> ActionRequest" where
  "http_action c h url now =
     \<lparr>req_engagement_id = te_engagement_id (bc_task c), req_target_id = Some (te_target_id (bc_task c)),
      req_action = bc_tool_id c, requested_at = now, repository_url = None, repository_commit = None,
      req_url = Some url, req_test_class = Some (hp_test_class h),
      mutates_state = method_mutates_state (hp_method h), uses_real_credentials = hp_credential_ref h \<noteq> None,
      external_callback = False, submits_report = False, runs_untrusted_build = False,
      authorization_context_digest = None\<rparr>"

definition policy_record :: "(pyval \<Rightarrow> digest) \<Rightarrow> ActionRequest \<Rightarrow> Decision \<Rightarrow> PolicyRecord" where
  "policy_record H a d =
     \<lparr>pl_action_digest = request_digest H a, pl_effect = effect d, pl_reasons = reasons d,
      pl_obligations = obligations d, pl_policy_digest = dec_policy_digest d\<rparr>"

definition refusal_status :: "Decision \<Rightarrow> BrokerStatus" where
  "refusal_status d = (if effect d = APPROVAL_REQUIRED then Bro_APPROVAL_REQUIRED else Bro_DENIED)"

definition network_granted :: "SandboxProfile \<Rightarrow> string option \<Rightarrow> string \<Rightarrow> int \<Rightarrow> bool" where
  "network_granted p host scheme port \<longleftrightarrow>
     list_ex (\<lambda>g. host = Some (ng_host g) \<and> port \<in> set (ng_ports g) \<and> scheme \<in> set (ng_schemes g))
       (sp_network_grants p)"

datatype gate = Gate_RAISE broker_error | Gate_STOP string | Gate_PIN string

definition or_default :: "int option \<Rightarrow> int \<Rightarrow> int" where
  "or_default p n = (case p of None \<Rightarrow> n | Some k \<Rightarrow> if k = 0 then n else k)"

text \<open>The checks between the policy decision and the transport, with the events they cause: the grant of the profile, then
  the resolution and the pinned address.\<close>

definition network_gate ::
  "ip_lib \<Rightarrow> url_env \<Rightarrow> broker \<Rightarrow> SandboxProfile \<Rightarrow> (string \<Rightarrow> int) \<Rightarrow> net_event list \<Rightarrow> string
   \<Rightarrow> gate \<times> net_event list" where
  "network_gate L U B p dflt events url =
     (case urlsplit U url of
        Inl e \<Rightarrow> (Gate_RAISE (BrokerUrlError e), events)
      | Inr parsed \<Rightarrow>
          (case url_port parsed of
             Inl e \<Rightarrow> (Gate_RAISE (BrokerUrlError e), events)
           | Inr port \<Rightarrow>
               if \<not> network_granted p (url_hostname parsed) (su_scheme parsed) (or_default port (dflt (su_scheme parsed)))
               then (Gate_STOP ''sandbox_network_grant_not_satisfied'', events)
               else
                 (let host = (case url_hostname parsed of None \<Rightarrow> [] | Some h \<Rightarrow> h);
                      events' = events @ [Resolve host]
                  in case ad_resolve (bk_adapters B) events host of
                       None \<Rightarrow> (Gate_RAISE BrokerResolverRaised, events')
                     | Some addresses \<Rightarrow>
                         if addresses = [] then (Gate_STOP ''dns_resolution_failed'', events')
                         else (case validated_addresses L B addresses of
                                 None \<Rightarrow> (Gate_STOP ''resolved_address_forbidden'', events')
                               | Some ips \<Rightarrow> (Gate_PIN (hd ips), events')))))"

definition wire_request :: "HttpRequestPlan \<Rightarrow> string \<Rightarrow> string \<Rightarrow> HttpWireRequest" where
  "wire_request h url ip =
     \<lparr>hw_method = hp_method h, hw_url = url, hw_pinned_ip = ip, hw_headers = hp_headers h,
      hw_credential_ref = hp_credential_ref h, hw_body_ref = hp_body_ref h, hw_body_bytes = hp_body_bytes h,
      hw_connect_seconds = hl_connect_seconds (hp_limits h), hw_read_seconds = hl_read_seconds (hp_limits h),
      hw_max_response_bytes = hl_max_response_bytes (hp_limits h)\<rparr>"

section \<open>The redirect loop\<close>

text \<open>The local variables of \<^verbatim>\<open>_execute_http\<close>, and what one pass through the loop comes to.\<close>

record hop_state =
  hs_current :: string
  hs_records :: "PolicyRecord list"
  hs_redirects :: "RedirectRecord list"
  hs_evidence :: "digest list"
  hs_elapsed :: rat
  hs_bytes :: int
  hs_requests :: int
  hs_events :: "net_event list"

datatype outcome =
    Stopped BrokerStatus string
  | Http_done HttpToolResult
  | Tls_done TlsToolResult

datatype progress = Raised broker_error | Finished outcome | Again hop_state

definition past_deadline :: "instant \<Rightarrow> rat \<Rightarrow> instant \<Rightarrow> bool" where
  "past_deadline now elapsed deadline \<longleftrightarrow>
     rat_of_int deadline / 1000000 \<le> rat_of_int now / 1000000 + elapsed"

text \<open>After the transport has answered with a hop.\<close>

definition follow_hop ::
  "(string \<Rightarrow> digest) \<Rightarrow> url_env \<Rightarrow> BrokerCall \<Rightarrow> HttpRequestPlan \<Rightarrow> instant \<Rightarrow> hop_state \<Rightarrow> string \<Rightarrow> OfflineHttpHop
   \<Rightarrow> hop_state \<times> progress" where
  "follow_hop S U c h now st ip hop =
     (let l = hp_limits h;
          st1 = st\<lparr>hs_elapsed := hs_elapsed st + oh_elapsed_seconds hop, hs_bytes := hs_bytes st + oh_response_bytes hop\<rparr>
      in if oh_peer_ip hop \<noteq> ip then (st1, Finished (Stopped Bro_DENIED ''http_peer_ip_mismatch''))
         else if hl_total_seconds l < hs_elapsed st1 \<or> past_deadline now (hs_elapsed st1) (te_deadline (bc_task c))
         then (st1, Finished (Stopped Bro_TIMED_OUT ''http_total_timeout''))
         else if hl_max_response_bytes l < hs_bytes st1
         then (st1, Finished (Stopped Bro_FAILED ''http_response_size_exceeded''))
         else
           let st2 = st1\<lparr>hs_evidence := hs_evidence st1 @ [oh_evidence_ref hop]\<rparr> in
           case oh_location hop of
             None \<Rightarrow>
               (let res = \<lparr>ht_status_code = oh_status_code hop, ht_final_url_digest = url_digest S (hs_current st2),
                           ht_peer_ip = oh_peer_ip hop, ht_response_bytes = hs_bytes st2,
                           ht_response_body_sha256 = oh_response_body_sha256 hop, ht_redirects = hs_redirects st2,
                           ht_evidence_refs = hs_evidence st2\<rparr>
                in (st2, if HttpToolResult_valid res then Finished (Http_done res) else Raised BrokerContractInvalid))
           | Some location \<Rightarrow>
               if hp_credential_ref h \<noteq> None
               then (st2, Finished (Stopped Bro_DENIED ''credentialed_redirect_forbidden''))
               else if \<not> hp_follow_redirects h \<or> hl_max_redirects l \<le> int (length (hs_redirects st2))
               then (st2, Finished (Stopped Bro_DENIED ''http_redirect_not_allowed''))
               else
                 (case (case urljoin U (hs_current st2) location of Inl _ \<Rightarrow> None | Inr u \<Rightarrow> safe_url U u) of
                    None \<Rightarrow> (st2, Finished (Stopped Bro_DENIED ''http_redirect_url_invalid''))
                  | Some target \<Rightarrow>
                      (let rec = \<lparr>rx_status_code = oh_status_code hop,
                                  rx_from_url_digest = url_digest S (hs_current st2),
                                  rx_to_url_digest = url_digest S target, rx_peer_ip = oh_peer_ip hop\<rparr>
                       in if RedirectRecord_valid rec
                          then (st2, Again (st2\<lparr>hs_redirects := hs_redirects st2 @ [rec], hs_current := target\<rparr>))
                          else (st2, Raised BrokerContractInvalid))))"

text \<open>The transport's exceptions; the broker catches the ones it names, \<^verbatim>\<open>OSError\<close> and \<^verbatim>\<open>RuntimeError\<close>.\<close>

fun reply_progress :: "http_reply \<Rightarrow> progress" where
  "reply_progress Http_PEER_MISMATCH = Finished (Stopped Bro_DENIED ''http_peer_ip_mismatch'')"
| "reply_progress Http_RESPONSE_LIMIT = Finished (Stopped Bro_FAILED ''http_response_size_exceeded'')"
| "reply_progress Http_TIMEOUT = Finished (Stopped Bro_TIMED_OUT ''http_transport_timeout'')"
| "reply_progress Http_FAILED = Finished (Stopped Bro_FAILED ''http_transport_failed'')"
| "reply_progress _ = Raised BrokerTransportRaised"

definition default_http_port :: "string \<Rightarrow> int" where
  "default_http_port scheme = (if scheme = ''https'' then 443 else 80)"

definition send_hop ::
  "(string \<Rightarrow> digest) \<Rightarrow> url_env \<Rightarrow> broker \<Rightarrow> BrokerCall \<Rightarrow> HttpRequestPlan \<Rightarrow> instant \<Rightarrow> hop_state \<Rightarrow> string
   \<Rightarrow> hop_state \<times> progress" where
  "send_hop S U B c h now st ip =
     (let w = wire_request h (hs_current st) ip;
          st1 = st\<lparr>hs_requests := hs_requests st + 1\<rparr>
      in if \<not> HttpWireRequest_valid w then (st1, Raised BrokerTransportRaised)
         else
           let st2 = st1\<lparr>hs_events := hs_events st1 @ [Send w]\<rparr> in
           case ad_send (bk_adapters B) (hs_events st) w of
             Hop hop \<Rightarrow> follow_hop S U c h now st2 ip hop
           | reply \<Rightarrow> (st2, reply_progress reply))"

definition http_step ::
  "(pyval \<Rightarrow> digest) \<Rightarrow> (string \<Rightarrow> digest) \<Rightarrow> ip_lib \<Rightarrow> url_env \<Rightarrow> broker \<Rightarrow> BrokerCall \<Rightarrow> HttpRequestPlan
   \<Rightarrow> ApprovalRequest list \<Rightarrow> instant \<Rightarrow> hop_state \<Rightarrow> hop_state \<times> progress" where
  "http_step H S L U B c h approvals now st =
     (let a = http_action c h (hs_current st) now in
      case decide H U (bk_scope B) a approvals of
        Inl e \<Rightarrow> (st, Raised (BrokerUrlError e))
      | Inr d \<Rightarrow>
          (let st1 = st\<lparr>hs_records := hs_records st @ [policy_record H a d]\<rparr> in
           if effect d \<noteq> ALLOW
           then (st1, Finished (Stopped (refusal_status d) ''scope_policy_not_satisfied''))
           else
             (case network_gate L U B (bc_profile c) default_http_port (hs_events st1) (hs_current st1) of
                (Gate_RAISE e, events) \<Rightarrow> (st1\<lparr>hs_events := events\<rparr>, Raised e)
              | (Gate_STOP code, events) \<Rightarrow> (st1\<lparr>hs_events := events\<rparr>, Finished (Stopped Bro_DENIED code))
              | (Gate_PIN ip, events) \<Rightarrow> send_hop S U B c h now (st1\<lparr>hs_events := events\<rparr>) ip)))"

definition request_budget :: "BrokerCall \<Rightarrow> HttpRequestPlan \<Rightarrow> int" where
  "request_budget c h = min (hl_max_requests (hp_limits h)) (tb_tool_calls (te_budget (bc_task c)))"

text \<open>A further pass is made only after a request was sent, so the loop ends.\<close>

lemma follow_hop_Again: "follow_hop S U c h now st ip hop = (st1, Again st2) \<Longrightarrow> hs_requests st2 = hs_requests st"
  by (auto simp: follow_hop_def Let_def split: if_splits option.splits)

lemma reply_progress_not_Again [simp]: "reply_progress r \<noteq> Again st"
  by (cases r) simp_all

lemma send_hop_Again: "send_hop S U B c h now st ip = (st1, Again st2) \<Longrightarrow> hs_requests st2 = hs_requests st + 1"
  by (auto simp: send_hop_def Let_def dest: follow_hop_Again split: if_splits http_reply.splits)

lemma http_step_Again:
  "http_step H S L U B c h approvals now st = (st1, Again st2) \<Longrightarrow> hs_requests st2 = hs_requests st + 1"
  by (auto simp: http_step_def Let_def dest!: send_hop_Again split: sum.splits if_splits prod.splits gate.splits)

function http_loop ::
  "(pyval \<Rightarrow> digest) \<Rightarrow> (string \<Rightarrow> digest) \<Rightarrow> ip_lib \<Rightarrow> url_env \<Rightarrow> broker \<Rightarrow> BrokerCall \<Rightarrow> HttpRequestPlan
   \<Rightarrow> ApprovalRequest list \<Rightarrow> instant \<Rightarrow> hop_state \<Rightarrow> hop_state \<times> (broker_error + outcome)" where
  "http_loop H S L U B c h approvals now st =
     (if request_budget c h \<le> hs_requests st
      then (st, Inr (Stopped Bro_FAILED ''http_request_budget_exhausted''))
      else (case http_step H S L U B c h approvals now st of
              (st1, Raised e) \<Rightarrow> (st1, Inl e)
            | (st1, Finished out) \<Rightarrow> (st1, Inr out)
            | (st1, Again st2) \<Rightarrow> http_loop H S L U B c h approvals now st2))"
  by pat_completeness auto
termination
  by (relation "measure (\<lambda>(H, S, L, U, B, c, h, approvals, now, st). nat (request_budget c h - hs_requests st))")
     (auto dest!: http_step_Again [OF sym])

declare http_loop.simps [simp del]

section \<open>TLS\<close>

definition tls_action :: "BrokerCall \<Rightarrow> TlsInspectionPlan \<Rightarrow> instant \<Rightarrow> ActionRequest" where
  "tls_action c t now =
     \<lparr>req_engagement_id = te_engagement_id (bc_task c), req_target_id = Some (te_target_id (bc_task c)),
      req_action = bc_tool_id c, requested_at = now, repository_url = None, repository_commit = None,
      req_url = Some (tp_url t), req_test_class = Some (tp_test_class t), mutates_state = False,
      uses_real_credentials = False, external_callback = False, submits_report = False, runs_untrusted_build = False,
      authorization_context_digest = None\<rparr>"

definition tls_request :: "TlsInspectionPlan \<Rightarrow> string \<Rightarrow> TlsWireRequest" where
  "tls_request t ip =
     \<lparr>tw_url = tp_url t, tw_pinned_ip = ip, tw_connect_seconds = tl_connect_seconds (tp_limits t),
      tw_handshake_seconds = tl_handshake_seconds (tp_limits t), tw_total_seconds = tl_total_seconds (tp_limits t)\<rparr>"

definition TlsWireRequest_valid :: "TlsWireRequest \<Rightarrow> bool" where
  "TlsWireRequest_valid w \<longleftrightarrow>
     0 < tw_connect_seconds w \<and> tw_connect_seconds w \<le> 30 \<and> 0 < tw_handshake_seconds w \<and>
     tw_handshake_seconds w \<le> 30 \<and> 0 < tw_total_seconds w \<and> tw_total_seconds w \<le> 60"

definition tls_result ::
  "(string \<Rightarrow> digest) \<Rightarrow> TlsInspectionPlan \<Rightarrow> instant \<Rightarrow> instant \<Rightarrow> string \<Rightarrow> OfflineTlsHandshake \<Rightarrow> broker_error + outcome" where
  "tls_result S t now deadline ip k =
     (if ot_peer_ip k \<noteq> ip then Inr (Stopped Bro_DENIED ''tls_peer_ip_mismatch'')
      else if tl_total_seconds (tp_limits t) < ot_elapsed_seconds k \<or> past_deadline now (ot_elapsed_seconds k) deadline
      then Inr (Stopped Bro_TIMED_OUT ''tls_total_timeout'')
      else
        let res = \<lparr>tt_endpoint_url_digest = url_digest S (tp_url t), tt_peer_ip = ot_peer_ip k,
                   tt_tls_version = ot_tls_version k, tt_cipher_suite = ot_cipher_suite k,
                   tt_cipher_bits = ot_cipher_bits k, tt_leaf_certificate_sha256 = ot_leaf_certificate_sha256 k,
                   tt_evidence_refs = [ot_evidence_ref k]\<rparr>
        in if TlsToolResult_valid res then Inr (Tls_done res) else Inl BrokerContractInvalid)"

text \<open>\<^verbatim>\<open>ValueError\<close>, and with it a request that fails its validation, is caught here.\<close>

definition inspect_endpoint ::
  "(string \<Rightarrow> digest) \<Rightarrow> broker \<Rightarrow> BrokerCall \<Rightarrow> TlsInspectionPlan \<Rightarrow> instant \<Rightarrow> net_event list \<Rightarrow> string
   \<Rightarrow> net_event list \<times> (broker_error + outcome)" where
  "inspect_endpoint S B c t now events ip =
     (let w = tls_request t ip in
      if \<not> TlsWireRequest_valid w then (events, Inr (Stopped Bro_FAILED ''tls_transport_failed''))
      else (events @ [Inspect w],
            case ad_inspect (bk_adapters B) events w of
              Handshake k \<Rightarrow> tls_result S t now (te_deadline (bc_task c)) ip k
            | Tls_PEER_MISMATCH \<Rightarrow> Inr (Stopped Bro_DENIED ''tls_peer_ip_mismatch'')
            | Tls_TIMEOUT \<Rightarrow> Inr (Stopped Bro_TIMED_OUT ''tls_transport_timeout'')
            | Tls_FAILED \<Rightarrow> Inr (Stopped Bro_FAILED ''tls_transport_failed'')
            | Tls_ESCAPES \<Rightarrow> Inl BrokerTransportRaised))"

section \<open>Storing and executing\<close>

definition outcome_status :: "outcome \<Rightarrow> BrokerStatus" where
  "outcome_status out = (case out of Stopped s code \<Rightarrow> s | _ \<Rightarrow> Bro_COMPLETED)"

text \<open>\<^verbatim>\<open>_store\<close>\<close>

definition store_result ::
  "broker \<Rightarrow> broker_state \<Rightarrow> BrokerCall \<Rightarrow> digest \<Rightarrow> instant \<Rightarrow> PolicyRecord list \<Rightarrow> int \<Rightarrow> outcome
   \<Rightarrow> (broker_error + BrokerResult) \<times> broker_state" where
  "store_result B bs c dig now records used out =
     (let res = \<lparr>br_call_id = bc_call_id c, br_task_id = te_task_id (bc_task c), br_tool_id = bc_tool_id c,
                 br_status = outcome_status out, br_registry_digest = tr_digest (bk_registry B),
                 br_call_digest = dig, br_tool_calls_used = used, br_policy_records = records,
                 br_http = (case out of Http_done r \<Rightarrow> Some r | _ \<Rightarrow> None),
                 br_tls = (case out of Tls_done r \<Rightarrow> Some r | _ \<Rightarrow> None),
                 br_error_codes = (case out of Stopped s code \<Rightarrow> [code] | _ \<Rightarrow> []), br_completed_at = now\<rparr>
      in if BrokerResult_valid res
         then (Inr res, bs\<lparr>bs_results := (bs_results bs)(bc_idempotency_key c \<mapsto> (dig, res))\<rparr>)
         else (Inl BrokerContractInvalid, bs))"

definition execute_http ::
  "(pyval \<Rightarrow> digest) \<Rightarrow> (string \<Rightarrow> digest) \<Rightarrow> ip_lib \<Rightarrow> url_env \<Rightarrow> broker \<Rightarrow> broker_state \<Rightarrow> BrokerCall
   \<Rightarrow> HttpRequestPlan \<Rightarrow> digest \<Rightarrow> instant \<Rightarrow> ApprovalRequest list \<Rightarrow> (broker_error + BrokerResult) \<times> broker_state" where
  "execute_http H S L U B bs c h dig now approvals =
     (case http_loop H S L U B c h approvals now
        \<lparr>hs_current = hp_url h, hs_records = [], hs_redirects = [], hs_evidence = [], hs_elapsed = 0, hs_bytes = 0,
         hs_requests = 0, hs_events = bs_events bs\<rparr> of
        (st, r) \<Rightarrow>
          (let bs' = bs\<lparr>bs_events := hs_events st\<rparr> in
           case r of
             Inl e \<Rightarrow> (Inl e, bs')
           | Inr out \<Rightarrow> store_result B bs' c dig now (hs_records st) (hs_requests st) out))"

definition execute_tls ::
  "(pyval \<Rightarrow> digest) \<Rightarrow> (string \<Rightarrow> digest) \<Rightarrow> ip_lib \<Rightarrow> url_env \<Rightarrow> broker \<Rightarrow> broker_state \<Rightarrow> BrokerCall
   \<Rightarrow> TlsInspectionPlan \<Rightarrow> digest \<Rightarrow> instant \<Rightarrow> ApprovalRequest list \<Rightarrow> (broker_error + BrokerResult) \<times> broker_state" where
  "execute_tls H S L U B bs c t dig now approvals =
     (let a = tls_action c t now in
      case decide H U (bk_scope B) a approvals of
        Inl e \<Rightarrow> (Inl (BrokerUrlError e), bs)
      | Inr d \<Rightarrow>
          (let records = [policy_record H a d] in
           if effect d \<noteq> ALLOW
           then store_result B bs c dig now records 0 (Stopped (refusal_status d) ''scope_policy_not_satisfied'')
           else
             (case network_gate L U B (bc_profile c) (\<lambda>_. 443) (bs_events bs) (tp_url t) of
                (Gate_RAISE e, events) \<Rightarrow> (Inl e, bs\<lparr>bs_events := events\<rparr>)
              | (Gate_STOP code, events) \<Rightarrow>
                  store_result B (bs\<lparr>bs_events := events\<rparr>) c dig now records 0 (Stopped Bro_DENIED code)
              | (Gate_PIN ip, events) \<Rightarrow>
                  (case inspect_endpoint S B c t now events ip of
                     (events', Inl e) \<Rightarrow> (Inl e, bs\<lparr>bs_events := events'\<rparr>)
                   | (events', Inr out) \<Rightarrow> store_result B (bs\<lparr>bs_events := events'\<rparr>) c dig now records 1 out))))"

definition run_call ::
  "(pyval \<Rightarrow> digest) \<Rightarrow> (string \<Rightarrow> digest) \<Rightarrow> ip_lib \<Rightarrow> url_env \<Rightarrow> broker \<Rightarrow> broker_state \<Rightarrow> BrokerCall
   \<Rightarrow> ToolRegistration \<Rightarrow> instant \<Rightarrow> ApprovalRequest list \<Rightarrow> (broker_error + BrokerResult) \<times> broker_state" where
  "run_call H S L U B bs c r now approvals =
     (let dig = broker_call_digest H c in
      if te_deadline (bc_task c) \<le> now
      then store_result B bs c dig now [] 0 (Stopped Bro_TIMED_OUT ''task_deadline_exceeded'')
      else case bc_http c of
             Some h \<Rightarrow>
               if hp_credential_ref h \<noteq> None \<and> \<not> tg_accepts_credential_ref r
               then (Inl (BrokerRejected ''registered tool does not accept credential references''), bs)
               else execute_http H S L U B bs c h dig now approvals
           | None \<Rightarrow> execute_tls H S L U B bs c (the (bc_tls c)) dig now approvals)"

definition execute_call ::
  "(pyval \<Rightarrow> digest) \<Rightarrow> (string \<Rightarrow> digest) \<Rightarrow> ip_lib \<Rightarrow> url_env \<Rightarrow> broker \<Rightarrow> broker_state \<Rightarrow> BrokerCall \<Rightarrow> instant
   \<Rightarrow> ApprovalRequest list \<Rightarrow> (broker_error + BrokerResult) \<times> broker_state" where
  "execute_call H S L U B bs c0 now approvals =
     (case validate_call H U B c0 of
        Inl e \<Rightarrow> (Inl e, bs)
      | Inr (c, r) \<Rightarrow>
          (case bs_results bs (bc_idempotency_key c) of
             Some (dig, res) \<Rightarrow>
               if dig \<noteq> broker_call_digest H c then (Inl BrokerIdempotencyConflict, bs) else (Inr res, bs)
           | None \<Rightarrow> run_call H S L U B bs c r now approvals))"

section \<open>Offline adapters\<close>

definition static_resolve :: "ip_lib \<Rightarrow> (string \<times> string list) list \<Rightarrow> string \<Rightarrow> string list" where
  "static_resolve L records host =
     (case ip_parse (lower host) of
        Some a \<Rightarrow> [ip_text L a]
      | None \<Rightarrow> (case dict_by (\<lambda>kv. lower (fst kv)) records (lower host) of None \<Rightarrow> [] | Some kv \<Rightarrow> snd kv))"

definition offline_send :: "(string \<times> OfflineHttpHop) list \<Rightarrow> HttpWireRequest \<Rightarrow> http_reply" where
  "offline_send hops w = (case map_of hops (hw_url w) of None \<Rightarrow> Http_FAILED | Some hop \<Rightarrow> Hop hop)"

definition offline_inspect :: "(string \<times> OfflineTlsHandshake) list \<Rightarrow> TlsWireRequest \<Rightarrow> tls_reply" where
  "offline_inspect ks w = (case map_of ks (tw_url w) of None \<Rightarrow> Tls_FAILED | Some k \<Rightarrow> Handshake k)"

definition offline_adapters ::
  "ip_lib \<Rightarrow> (string \<times> string list) list \<Rightarrow> (string \<times> OfflineHttpHop) list \<Rightarrow> (string \<times> OfflineTlsHandshake) list
   \<Rightarrow> adapters" where
  "offline_adapters L records hops ks =
     \<lparr>ad_resolve = (\<lambda>events host. Some (static_resolve L records host)),
      ad_send = (\<lambda>events w. offline_send hops w), ad_inspect = (\<lambda>events w. offline_inspect ks w)\<rparr>"

end
