(* ===== verification/Replay_Cache.thy ===== *)
theory Replay_Cache
  imports Prelude
begin

text \<open>
  The contract of a service that answers a request once and replays the answer afterwards. The broker and the offline
  sandbox runner keep a dictionary from idempotency keys to the digest of the request and its answer; both meet it.
  \<open>exec s x c\<close> is one call with the arguments \<open>x\<close> (the time, the approvals), \<open>admitted c\<close> says that the request passes
  the checks made before the dictionary is consulted.
\<close>

text \<open>Any number of calls, by anyone.\<close>

inductive served :: "('s \<Rightarrow> 'x \<Rightarrow> 'c \<Rightarrow> ('e + 'r) \<times> 's) \<Rightarrow> 's \<Rightarrow> 's \<Rightarrow> bool" for exec where
  served_call: "exec s x c = (r, s') \<Longrightarrow> served exec s s'"

locale replaying_service =
  fixes exec :: "'s \<Rightarrow> 'x \<Rightarrow> 'c \<Rightarrow> ('e + 'r) \<times> 's"
    and cache :: "'s \<Rightarrow> string \<rightharpoonup> digest \<times> 'r"
    and admitted :: "'c \<Rightarrow> bool"
    and key :: "'c \<Rightarrow> string"
    and request_digest :: "'c \<Rightarrow> digest"
    and conflict :: 'e
  assumes refused: "\<not> admitted c \<Longrightarrow> exec s x c = (r, s') \<Longrightarrow> s' = s \<and> \<not> is_ok r"
    and known: "admitted c \<Longrightarrow> cache s (key c) = Some (d, y) \<Longrightarrow>
      exec s x c = (if d \<noteq> request_digest c then Inl conflict else Inr y, s)"
    and fresh: "admitted c \<Longrightarrow> cache s (key c) = None \<Longrightarrow> exec s x c = (r, s') \<Longrightarrow>
      cache s' = (case r of Inl e \<Rightarrow> cache s | Inr y \<Rightarrow> (cache s)(key c \<mapsto> (request_digest c, y)))"
begin

lemma answer_is_stored:
  assumes "exec s x c = (Inr y, s')"
  shows "cache s' (key c) = Some (request_digest c, y)"
proof -
  from assms refused have a: "admitted c" by (metis is_ok.simps(2))
  show ?thesis
  proof (cases "cache s (key c)")
    case None
    from fresh [OF a None assms] show ?thesis by simp
  next
    case (Some e)
    with known [OF a, of s "fst e" "snd e" x] assms show ?thesis by (cases e) (auto split: if_splits)
  qed
qed

lemma entry_kept:
  assumes "exec s x c = (r, s')" and "cache s k = Some e"
  shows "cache s' k = Some e"
proof (cases "admitted c")
  case False
  with refused assms show ?thesis by blast
next
  case True
  show ?thesis
  proof (cases "cache s (key c)")
    case None
    from fresh [OF True None assms(1)] None assms(2) show ?thesis by (auto split: sum.splits)
  next
    case (Some f)
    with known [OF True, of s "fst f" "snd f" x] assms show ?thesis by auto
  qed
qed

lemma entry_kept_by_runs: "steps (served exec) s n t \<Longrightarrow> cache s k = Some e \<Longrightarrow> cache t k = Some e"
  by (induction rule: steps.induct) (auto elim!: served.cases dest: entry_kept)

text \<open>Once a request has been answered, the same request gets the same answer for ever, and a different request under its key
  is a conflict; neither changes anything.\<close>

lemma answered_once:
  assumes "exec s x c = (Inr y, s1)" and "steps (served exec) s1 n t" and "admitted c'" and "key c' = key c"
  shows "exec t x' c' = (if request_digest c \<noteq> request_digest c' then Inl conflict else Inr y, t)"
proof -
  from answer_is_stored [OF assms(1)] assms(2) have "cache t (key c) = Some (request_digest c, y)"
    by (rule entry_kept_by_runs [rotated])
  with known [OF assms(3), of t "request_digest c" y x'] assms(4) show ?thesis by simp
qed

text \<open>A request that failed is not remembered: the next attempt is a first one.\<close>

lemma failure_is_forgotten:
  assumes "exec s x c = (Inl e, s')" and "cache s (key c) = None"
  shows "cache s' (key c) = None"
proof (cases "admitted c")
  case True
  from fresh [OF True assms(2,1)] assms(2) show ?thesis by simp
qed (use refused assms in blast)

end

end
