(* ===== verification/Broker_Facts.thy ===== *)
theory Broker_Facts
  imports Broker_Service Replay_Cache
begin

text \<open>
  What the broker guarantees: the wire contacts an execution makes are authorised and pinned, their number is bounded by
  the budget, results keep the shape of their status, and the dictionary of results is a replay cache.
\<close>

section \<open>Validated calls\<close>

definition plan_ok :: "HttpRequestPlan \<Rightarrow> bool" where
  "plan_ok h \<longleftrightarrow>
     length (hp_headers h) \<le> 64 \<and> opt_all is_digest (hp_credential_ref h) \<and> opt_all is_digest (hp_body_ref h) \<and>
     0 \<le> hp_body_bytes h \<and> hp_body_bytes h \<le> 20 * 1024 * 1024 \<and> HttpLimits_valid (hp_limits h) \<and>
     body_coherent (hp_method h) (hp_body_ref h) (hp_body_bytes h) \<and>
     \<not> (method_mutates_state (hp_method h) \<and> hp_follow_redirects h) \<and>
     (hp_follow_redirects h \<longleftrightarrow> 0 < hl_max_redirects (hp_limits h)) \<and> distinct (map hh_name (hp_headers h))"

lemma validate_all_length: "validate_all f xs = Some ys \<Longrightarrow> length ys = length xs"
  by (induction xs arbitrary: ys) (auto split: option.splits)

lemma validate_all_mem: "validate_all f xs = Some ys \<Longrightarrow> y \<in> set ys \<Longrightarrow> \<exists>x \<in> set xs. f x = Some y"
  by (induction xs arbitrary: ys) (auto split: option.splits)

lemma validated_plan_ok: "HttpRequestPlan_validate U p = Some h \<Longrightarrow> plan_ok h"
  by (auto simp: HttpRequestPlan_validate_def plan_ok_def dest!: validate_all_length split: option.splits if_splits)

lemma BrokerCall_validate_SomeD:
  assumes "BrokerCall_validate H U c0 = Some c"
  shows "bc_idempotency_key c = bc_idempotency_key c0" "bc_call_id c = bc_call_id c0" "bc_task c = bc_task c0"
    "bc_tool_id c = bc_tool_id c0" "TaskEnvelope_valid (bc_task c)" "is_reason_code (bc_tool_id c)"
    "bc_http c = Some h \<Longrightarrow> plan_ok h" "(bc_http c = None) \<noteq> (bc_tls c = None)"
    "bc_http c = Some h \<Longrightarrow> \<exists>h0. bc_http c0 = Some h0 \<and> HttpRequestPlan_validate U h0 = Some h"
    "bc_tls c = Some t \<Longrightarrow> \<exists>t0. bc_tls c0 = Some t0 \<and> TlsInspectionPlan_validate U t0 = Some t"
proof -
  from assms obtain p http tls where v: "validate_opt (HttpRequestPlan_validate U) (bc_http c0) = Some http"
      "validate_opt (TlsInspectionPlan_validate U) (bc_tls c0) = Some tls"
    and c: "c = c0\<lparr>bc_profile := p, bc_http := http, bc_tls := tls\<rparr>"
      "TaskEnvelope_valid (bc_task c0)" "is_reason_code (bc_tool_id c0)" "(http = None) \<noteq> (tls = None)"
    by (auto simp: BrokerCall_validate_def split: option.splits if_splits)
  show "bc_idempotency_key c = bc_idempotency_key c0" "bc_call_id c = bc_call_id c0" "bc_task c = bc_task c0"
    "bc_tool_id c = bc_tool_id c0" "TaskEnvelope_valid (bc_task c)" "is_reason_code (bc_tool_id c)"
    "(bc_http c = None) \<noteq> (bc_tls c = None)"
    using c by simp_all
  from v(1) c(1) show http: "bc_http c = Some h \<Longrightarrow> \<exists>h0. bc_http c0 = Some h0 \<and> HttpRequestPlan_validate U h0 = Some h"
    by (cases "bc_http c0") auto
  then show "bc_http c = Some h \<Longrightarrow> plan_ok h" using validated_plan_ok by blast
  from v(2) c(1) show "bc_tls c = Some t \<Longrightarrow> \<exists>t0. bc_tls c0 = Some t0 \<and> TlsInspectionPlan_validate U t0 = Some t"
    by (cases "bc_tls c0") auto
qed

lemma validate_call_InrD:
  "validate_call H U B c0 = Inr (c, r) \<Longrightarrow> BrokerCall_validate H U c0 = Some c \<and> preflight_call H B c = Inr r"
  by (auto simp: validate_call_def result_simps split: option.splits)

lemma preflight_call_InrD:
  assumes "preflight_call H B c = Inr r"
  shows "1 \<le> tb_tool_calls (te_budget (bc_task c))" "te_worker_role (bc_task c) = Role_VALIDATOR"
    "te_engagement_id (bc_task c) = sc_engagement_id (bk_scope B)"
    "bc_tool_id c \<in> set (te_allowed_tools (bc_task c))" "bc_tool_id c \<in> set (sp_allowed_tools (bc_profile c))"
    "te_sandbox_profile_digest (bc_task c) = sandbox_profile_digest H (bc_profile c)"
    "sp_kind (bc_profile c) \<in> set (tg_allowed_profiles r)"
    "te_policy_digest (bc_task c) = policy_digest H (bk_scope B)"
    "require_tool (bk_registry B) (bc_tool_id c) = Some r"
    "tg_capability r = (if bc_http c \<noteq> None then Cap_HTTP_REQUEST else Cap_TLS_INSPECT)"
  using assms by (simp_all add: preflight_call_def Let_def split: option.splits if_splits)

lemma plan_ok_wire: "plan_ok h \<Longrightarrow> HttpWireRequest_valid (wire_request h url ip)"
  by (auto simp: plan_ok_def HttpWireRequest_valid_def wire_request_def HttpLimits_valid_def)

section \<open>Histories of contacts\<close>

fun is_contact :: "net_event \<Rightarrow> bool" where
  "is_contact (Resolve h) = False"
| "is_contact _ = True"

definition contacts :: "net_event list \<Rightarrow> nat" where
  "contacts es = length (filter is_contact es)"

lemma contacts_simps [simp]:
  "contacts [] = 0" "contacts (e # es) = (if is_contact e then 1 else 0) + contacts es"
  "contacts (es @ fs) = contacts es + contacts fs"
  by (simp_all add: contacts_def)

text \<open>Every event after \<open>base\<close> satisfies \<open>P\<close> with the history before it.\<close>

fun all_events :: "(net_event list \<Rightarrow> net_event \<Rightarrow> bool) \<Rightarrow> net_event list \<Rightarrow> net_event list \<Rightarrow> bool" where
  "all_events P base [] \<longleftrightarrow> True"
| "all_events P base (e # es) \<longleftrightarrow> P base e \<and> all_events P (base @ [e]) es"

lemma all_events_append [simp]:
  "all_events P base (es @ fs) \<longleftrightarrow> all_events P base es \<and> all_events P (base @ es) fs"
  by (induction es arbitrary: base) auto

lemma all_events_nth:
  "all_events P base es \<Longrightarrow> n < length es \<Longrightarrow> P (base @ take n es) (es ! n)"
proof (induction es arbitrary: base n)
  case (Cons e es)
  then show ?case using Cons.IH [of "base @ [e]" "n - 1"] by (cases n) auto
qed simp

section \<open>Authorised contacts\<close>

text \<open>
  The specification of one contact. The action it stands for is inside the Scope with all its approvals; the profile grants
  the endpoint of its URL; and the address it is pinned to is admitted and among the answers of the resolver, which was
  asked for the URL's host immediately before.
\<close>

definition endpoint_granted :: "url_env \<Rightarrow> SandboxProfile \<Rightarrow> (string \<Rightarrow> int) \<Rightarrow> string \<Rightarrow> string \<Rightarrow> bool" where
  "endpoint_granted U p dflt url host \<longleftrightarrow>
     (\<exists>parsed port. urlsplit U url = Inr parsed \<and> url_port parsed = Inr port \<and>
        host = (case url_hostname parsed of None \<Rightarrow> [] | Some h \<Rightarrow> h) \<and>
        network_granted p (url_hostname parsed) (su_scheme parsed) (or_default port (dflt (su_scheme parsed))))"

definition pinned_by :: "ip_lib \<Rightarrow> broker \<Rightarrow> net_event list \<Rightarrow> string \<Rightarrow> string \<Rightarrow> bool" where
  "pinned_by L B history host ip \<longleftrightarrow>
     (\<exists>before addresses. history = before @ [Resolve host] \<and> ad_resolve (bk_adapters B) before host = Some addresses \<and>
        (\<exists>v \<in> set addresses. admit_address L B v = Some ip))"

definition action_authorised :: "(pyval \<Rightarrow> digest) \<Rightarrow> url_env \<Rightarrow> Scope \<Rightarrow> ActionRequest \<Rightarrow> ApprovalRequest list \<Rightarrow> bool" where
  "action_authorised H U s a approvals \<longleftrightarrow>
     within_boundary s a \<and> (\<forall>u. req_url a = Some u \<longrightarrow> url_in_scope U s u) \<and> approvals_granted H s a approvals"

fun authorised_event ::
  "(pyval \<Rightarrow> digest) \<Rightarrow> ip_lib \<Rightarrow> url_env \<Rightarrow> broker \<Rightarrow> BrokerCall \<Rightarrow> ApprovalRequest list \<Rightarrow> instant \<Rightarrow> net_event list
   \<Rightarrow> net_event \<Rightarrow> bool" where
  "authorised_event H L U B c approvals now history (Resolve host) \<longleftrightarrow> True"
| "authorised_event H L U B c approvals now history (Send w) \<longleftrightarrow>
     (\<exists>h host. bc_http c = Some h \<and> w = wire_request h (hw_url w) (hw_pinned_ip w) \<and>
        action_authorised H U (bk_scope B) (http_action c h (hw_url w) now) approvals \<and>
        endpoint_granted U (bc_profile c) default_http_port (hw_url w) host \<and>
        pinned_by L B history host (hw_pinned_ip w))"
| "authorised_event H L U B c approvals now history (Inspect w) \<longleftrightarrow>
     (\<exists>t host. bc_http c = None \<and> bc_tls c = Some t \<and> w = tls_request t (tw_pinned_ip w) \<and>
        action_authorised H U (bk_scope B) (tls_action c t now) approvals \<and>
        endpoint_granted U (bc_profile c) (\<lambda>_. 443) (tw_url w) host \<and>
        pinned_by L B history host (tw_pinned_ip w))"

lemma ALLOW_authorised: "decide H U s a approvals = Inr d \<Longrightarrow> effect d = ALLOW \<Longrightarrow> action_authorised H U s a approvals"
  using decide_ALLOW_iff [of H U s a approvals] by (auto simp: action_authorised_def)

lemma hd_sorted_set: "xs \<noteq> [] \<Longrightarrow> hd (sorted_set xs) \<in> set xs"
proof -
  assume "xs \<noteq> []"
  then have "sorted_set xs \<noteq> []" by (metis set_empty set_remdups set_sort sorted_set_def)
  then have "hd (sorted_set xs) \<in> set (sorted_set xs)" by simp
  then show ?thesis by (simp add: sorted_set_def)
qed

lemma validated_addresses_hd:
  "validated_addresses L B addresses = Some ips \<Longrightarrow> \<exists>v \<in> set addresses. admit_address L B v = Some (hd ips)"
  by (auto simp: validated_addresses_def dest!: hd_sorted_set validate_all_mem split: if_splits option.splits)

lemma network_gate_events:
  "network_gate L U B p dflt events url = (g, events') \<Longrightarrow> events' = events \<or> (\<exists>host. events' = events @ [Resolve host])"
  by (auto simp: network_gate_def Let_def split: sum.splits if_splits option.splits)

lemma network_gate_PIN:
  assumes "network_gate L U B p dflt events url = (Gate_PIN ip, events')"
  obtains host where "endpoint_granted U p dflt url host" "pinned_by L B events' host ip" "events' = events @ [Resolve host]"
  using assms
  by (auto simp: network_gate_def Let_def endpoint_granted_def pinned_by_def dest: validated_addresses_hd
      split: sum.splits if_splits option.splits)

section \<open>The loop\<close>

lemma follow_hop_frame:
  assumes "follow_hop S U c h now st ip hop = (st1, pr)"
  shows "hs_events st1 = hs_events st" "hs_requests st1 = hs_requests st" "hs_records st1 = hs_records st"
    "hs_current st1 = hs_current st"
    "pr = Again st2 \<Longrightarrow> hs_events st2 = hs_events st \<and> hs_requests st2 = hs_requests st \<and> hs_records st2 = hs_records st"
  using assms by (auto simp: follow_hop_def Let_def split: if_splits option.splits)

lemma send_hop_frame:
  assumes "send_hop S U B c h now st ip = (st1, pr)" and "plan_ok h"
  shows "hs_events st1 = hs_events st @ [Send (wire_request h (hs_current st) ip)]"
    "hs_requests st1 = hs_requests st + 1" "hs_records st1 = hs_records st"
    "pr = Again st2 \<Longrightarrow> hs_events st2 = hs_events st1 \<and> hs_requests st2 = hs_requests st1 \<and> hs_records st2 = hs_records st1"
proof -
  let ?w = "wire_request h (hs_current st) ip"
  let ?s = "st\<lparr>hs_requests := hs_requests st + 1, hs_events := hs_events st @ [Send ?w]\<rparr>"
  let ?reply = "ad_send (bk_adapters B) (hs_events st) ?w"
  from assms(1) plan_ok_wire [OF assms(2)]
  have run: "(case ?reply of Hop hop \<Rightarrow> follow_hop S U c h now ?s ip hop | reply \<Rightarrow> (?s, reply_progress reply)) = (st1, pr)"
    by (simp add: send_hop_def Let_def)
  consider hop where "follow_hop S U c h now ?s ip hop = (st1, pr)" | "st1 = ?s" "pr = reply_progress ?reply"
    using run by (cases ?reply) auto
  then have "hs_events st1 = hs_events ?s \<and> hs_requests st1 = hs_requests ?s \<and> hs_records st1 = hs_records ?s \<and>
    (pr = Again st2 \<longrightarrow> hs_events st2 = hs_events ?s \<and> hs_requests st2 = hs_requests ?s \<and> hs_records st2 = hs_records ?s)"
  proof cases
    case 1
    show ?thesis using follow_hop_frame [OF 1] by simp
  qed simp
  then show "hs_events st1 = hs_events st @ [Send (wire_request h (hs_current st) ip)]"
    "hs_requests st1 = hs_requests st + 1" "hs_records st1 = hs_records st"
    "pr = Again st2 \<Longrightarrow> hs_events st2 = hs_events st1 \<and> hs_requests st2 = hs_requests st1 \<and> hs_records st2 = hs_records st1"
    by simp_all
qed

lemma http_step_frame:
  assumes step: "http_step H S L U B c h approvals now st = (st1, pr)" and h: "bc_http c = Some h" "plan_ok h"
  obtains extra where "hs_events st1 = hs_events st @ extra"
    "all_events (authorised_event H L U B c approvals now) (hs_events st) extra"
    "hs_requests st1 = hs_requests st + int (contacts extra)" "contacts extra \<le> 1"
    "\<And>st2. pr = Again st2 \<Longrightarrow> hs_events st2 = hs_events st1 \<and> hs_requests st2 = hs_requests st1"
proof (cases "decide H U (bk_scope B) (http_action c h (hs_current st) now) approvals")
  case (Inl e)
  with step have "st1 = st" "pr = Raised (BrokerUrlError e)" by (simp_all add: http_step_def)
  then show thesis using that [of "[]"] by simp
next
  case (Inr d)
  note d = this
  let ?a = "http_action c h (hs_current st) now"
  let ?s = "st\<lparr>hs_records := hs_records st @ [policy_record H ?a d]\<rparr>"
  show thesis
  proof (cases "effect d = ALLOW")
    case False
    with step d have "st1 = ?s" "pr = Finished (Stopped (refusal_status d) ''scope_policy_not_satisfied'')"
      by (simp_all add: http_step_def Let_def)
    then show thesis using that [of "[]"] by simp
  next
    case True
    obtain g events where g: "network_gate L U B (bc_profile c) default_http_port (hs_events st) (hs_current st) = (g, events)"
      by (cases "network_gate L U B (bc_profile c) default_http_port (hs_events st) (hs_current st)")
    from network_gate_events [OF g] obtain es where es: "events = hs_events st @ es" "contacts es = 0"
        "all_events (authorised_event H L U B c approvals now) (hs_events st) es"
      by fastforce
    show thesis
    proof (cases g)
      case (Gate_RAISE e)
      with step d True g have "st1 = ?s\<lparr>hs_events := events\<rparr>" "pr = Raised e" by (simp_all add: http_step_def Let_def)
      then show thesis using that [of es] es by simp
    next
      case (Gate_STOP code)
      with step d True g have "st1 = ?s\<lparr>hs_events := events\<rparr>" "pr = Finished (Stopped Bro_DENIED code)"
        by (simp_all add: http_step_def Let_def)
      then show thesis using that [of es] es by simp
    next
      case (Gate_PIN ip)
      with step d True g have sh: "send_hop S U B c h now (?s\<lparr>hs_events := events\<rparr>) ip = (st1, pr)"
        by (simp add: http_step_def Let_def)
      let ?w = "wire_request h (hs_current st) ip"
      from g Gate_PIN obtain host where host: "endpoint_granted U (bc_profile c) default_http_port (hs_current st) host"
          "pinned_by L B events host ip" by (auto elim: network_gate_PIN)
      have "authorised_event H L U B c approvals now events (Send ?w)"
        using h(1) host ALLOW_authorised [OF d True] by (auto simp: wire_request_def)
      with es have "all_events (authorised_event H L U B c approvals now) (hs_events st) (es @ [Send ?w])" by simp
      moreover have "hs_events st1 = hs_events st @ es @ [Send ?w]" "hs_requests st1 = hs_requests st + 1"
        using send_hop_frame(1,2) [OF sh h(2)] es(1) by simp_all
      ultimately show thesis using that [of "es @ [Send ?w]"] es(2) send_hop_frame(4) [OF sh h(2)] by auto
    qed
  qed
qed

lemma http_loop_unfold:
  assumes "http_loop H S L U B c h approvals now st = (st', r)"
  obtains (exhausted) "request_budget c h \<le> hs_requests st" "st' = st" "r = Inr (Stopped Bro_FAILED ''http_request_budget_exhausted'')"
  | (raised) e where "hs_requests st < request_budget c h" "http_step H S L U B c h approvals now st = (st', Raised e)" "r = Inl e"
  | (finished) out where "hs_requests st < request_budget c h" "http_step H S L U B c h approvals now st = (st', Finished out)" "r = Inr out"
  | (again) st1 st2 where "hs_requests st < request_budget c h" "http_step H S L U B c h approvals now st = (st1, Again st2)"
      "http_loop H S L U B c h approvals now st2 = (st', r)"
  using assms by (subst (asm) http_loop.simps) (auto split: if_splits prod.splits progress.splits)

lemma http_loop_frame:
  assumes "http_loop H S L U B c h approvals now st = (st', r)" and "bc_http c = Some h" "plan_ok h"
    and "hs_requests st \<le> request_budget c h"
  shows "\<exists>extra. hs_events st' = hs_events st @ extra \<and>
      all_events (authorised_event H L U B c approvals now) (hs_events st) extra \<and>
      hs_requests st' = hs_requests st + int (contacts extra) \<and> hs_requests st' \<le> request_budget c h"
  using assms
proof (induction H S L U B c h approvals now st arbitrary: st' r rule: http_loop.induct)
  case (1 H S L U B c h approvals now st)
  from "1.prems"(1) show ?case
  proof (cases rule: http_loop_unfold)
    case exhausted
    then show ?thesis using "1.prems"(4) by (intro exI [of _ "[]"]) simp
  next
    case (raised e)
    from raised(2) "1.prems"(2,3) show ?thesis by (rule http_step_frame) (use raised(1) in force)
  next
    case (finished out)
    from finished(2) "1.prems"(2,3) show ?thesis by (rule http_step_frame) (use finished(1) in force)
  next
    case (again st1 st2)
    from again(2) "1.prems"(2,3) obtain extra where e: "hs_events st2 = hs_events st @ extra"
        "all_events (authorised_event H L U B c approvals now) (hs_events st) extra"
        "hs_requests st2 = hs_requests st + int (contacts extra)" "contacts extra \<le> 1"
      by (rule http_step_frame) auto
    from again(1) e(3,4) have "hs_requests st2 \<le> request_budget c h" by simp
    then obtain extra' where "hs_events st' = hs_events st2 @ extra'"
        "all_events (authorised_event H L U B c approvals now) (hs_events st2) extra'"
        "hs_requests st' = hs_requests st2 + int (contacts extra')" "hs_requests st' \<le> request_budget c h"
      using "1.IH" [OF _ again(2) [symmetric] refl again(3)] again(1) "1.prems"(2,3) by auto
    with e show ?thesis by (intro exI [of _ "extra @ extra'"]) auto
  qed
qed

section \<open>Executions\<close>

lemma store_result_frame:
  assumes "store_result B bs c dig now records used out = (r, bs')"
  shows "bs_events bs' = bs_events bs"
    "bs_results bs' = (case r of Inl e \<Rightarrow> bs_results bs
       | Inr y \<Rightarrow> (bs_results bs)(bc_idempotency_key c \<mapsto> (dig, y)))"
    "r = Inr y \<Longrightarrow> BrokerResult_valid y \<and> br_status y = outcome_status out \<and> br_tool_calls_used y = used \<and>
       br_policy_records y = records \<and> br_call_digest y = dig \<and> br_call_id y = bc_call_id c \<and>
       br_registry_digest y = tr_digest (bk_registry B) \<and> br_completed_at y = now \<and>
       br_http y = (case out of Http_done x \<Rightarrow> Some x | _ \<Rightarrow> None) \<and>
       br_tls y = (case out of Tls_done x \<Rightarrow> Some x | _ \<Rightarrow> None)"
    "r = Inl e \<Longrightarrow> e = BrokerContractInvalid"
  using assms by (auto simp: store_result_def Let_def split: if_splits)

lemma execute_http_frame:
  assumes "execute_http H S L U B bs c h dig now approvals = (r, bs')" and "bc_http c = Some h" "plan_ok h"
    and "0 \<le> request_budget c h"
  shows "\<exists>extra. bs_events bs' = bs_events bs @ extra \<and>
      all_events (authorised_event H L U B c approvals now) (bs_events bs) extra \<and>
      int (contacts extra) \<le> request_budget c h \<and>
      (\<forall>y. r = Inr y \<longrightarrow> br_tool_calls_used y = int (contacts extra))"
proof -
  let ?s = "\<lparr>hs_current = hp_url h, hs_records = [], hs_redirects = [], hs_evidence = [], hs_elapsed = 0, hs_bytes = 0,
         hs_requests = 0, hs_events = bs_events bs\<rparr>"
  obtain st q where l: "http_loop H S L U B c h approvals now ?s = (st, q)"
    by (cases "http_loop H S L U B c h approvals now ?s")
  from http_loop_frame [OF l assms(2,3)] assms(4) obtain extra where e: "hs_events st = bs_events bs @ extra"
      "all_events (authorised_event H L U B c approvals now) (bs_events bs) extra"
      "hs_requests st = int (contacts extra)" "hs_requests st \<le> request_budget c h" by auto
  have "bs_events bs' = hs_events st \<and> (\<forall>y. r = Inr y \<longrightarrow> br_tool_calls_used y = hs_requests st)"
  proof (cases q)
    case (Inl x)
    with assms(1) l show ?thesis by (auto simp: execute_http_def Let_def)
  next
    case (Inr out)
    with assms(1) l have
      "store_result B (bs\<lparr>bs_events := hs_events st\<rparr>) c dig now (hs_records st) (hs_requests st) out = (r, bs')"
      by (simp add: execute_http_def Let_def)
    note s = store_result_frame [OF this]
    show ?thesis using s(1,3) by simp
  qed
  with e show ?thesis by (intro exI [of _ extra]) simp
qed

lemma execute_http_results:
  assumes "execute_http H S L U B bs c h dig now approvals = (r, bs')"
  shows "bs_results bs' = (case r of Inl e \<Rightarrow> bs_results bs
       | Inr y \<Rightarrow> (bs_results bs)(bc_idempotency_key c \<mapsto> (dig, y)))"
  using assms by (auto simp: execute_http_def Let_def dest!: store_result_frame(2) split: prod.splits sum.splits)

lemma tls_request_valid:
  "TlsInspectionPlan_validate U t0 = Some t \<Longrightarrow> TlsWireRequest_valid (tls_request t ip)"
  by (auto simp: TlsInspectionPlan_validate_def TlsWireRequest_valid_def tls_request_def TlsInspectionLimits_valid_def
      split: option.splits if_splits)

lemma execute_tls_results:
  assumes "execute_tls H S L U B bs c t dig now approvals = (r, bs')"
  shows "bs_results bs' = (case r of Inl e \<Rightarrow> bs_results bs
       | Inr y \<Rightarrow> (bs_results bs)(bc_idempotency_key c \<mapsto> (dig, y)))"
  using assms by (auto simp: execute_tls_def Let_def dest!: store_result_frame(2)
      split: prod.splits sum.splits gate.splits if_splits)

lemma execute_tls_frame:
  assumes run: "execute_tls H S L U B bs c t dig now approvals = (r, bs')" and c: "bc_http c = None" "bc_tls c = Some t"
    and w: "\<And>ip. TlsWireRequest_valid (tls_request t ip)"
  shows "\<exists>extra. bs_events bs' = bs_events bs @ extra \<and>
      all_events (authorised_event H L U B c approvals now) (bs_events bs) extra \<and> contacts extra \<le> 1 \<and>
      (\<forall>y. r = Inr y \<longrightarrow> br_tool_calls_used y = int (contacts extra))"
proof (cases "decide H U (bk_scope B) (tls_action c t now) approvals")
  case (Inl e)
  with run show ?thesis by (intro exI [of _ "[]"]) (auto simp: execute_tls_def)
next
  case (Inr d)
  note d = this
  let ?rec = "[policy_record H (tls_action c t now) d]"
  show ?thesis
  proof (cases "effect d = ALLOW")
    case False
    with run d have "store_result B bs c dig now ?rec 0 (Stopped (refusal_status d) ''scope_policy_not_satisfied'') = (r, bs')"
      by (simp add: execute_tls_def Let_def)
    note s = store_result_frame [OF this]
    show ?thesis using s(1,3) by (intro exI [of _ "[]"]) simp
  next
    case True
    obtain g events where g: "network_gate L U B (bc_profile c) (\<lambda>_. 443) (bs_events bs) (tp_url t) = (g, events)"
      by (cases "network_gate L U B (bc_profile c) (\<lambda>_. 443) (bs_events bs) (tp_url t)")
    from network_gate_events [OF g] obtain es where es: "events = bs_events bs @ es" "contacts es = 0"
        "all_events (authorised_event H L U B c approvals now) (bs_events bs) es"
      by fastforce
    show ?thesis
    proof (cases g)
      case (Gate_RAISE e)
      with run d True g show ?thesis using es by (intro exI [of _ es]) (auto simp: execute_tls_def Let_def)
    next
      case (Gate_STOP code)
      with run d True g have "store_result B (bs\<lparr>bs_events := events\<rparr>) c dig now ?rec 0 (Stopped Bro_DENIED code) = (r, bs')"
        by (simp add: execute_tls_def Let_def)
      note s = store_result_frame [OF this]
      show ?thesis using s(1,3) es by (intro exI [of _ es]) simp
    next
      case (Gate_PIN ip)
      let ?w = "tls_request t ip"
      obtain q where q: "inspect_endpoint S B c t now events ip = (events @ [Inspect ?w], q)"
        using w [of ip] by (simp add: inspect_endpoint_def Let_def)
      from g Gate_PIN obtain host where host: "endpoint_granted U (bc_profile c) (\<lambda>_. 443) (tp_url t) host"
          "pinned_by L B events host ip" by (auto elim: network_gate_PIN)
      have "authorised_event H L U B c approvals now events (Inspect ?w)"
        using c host ALLOW_authorised [OF d True] by (auto simp: tls_request_def)
      with es have ev: "all_events (authorised_event H L U B c approvals now) (bs_events bs) (es @ [Inspect ?w])" by simp
      have "bs_events bs' = events @ [Inspect ?w] \<and> (\<forall>y. r = Inr y \<longrightarrow> br_tool_calls_used y = 1)"
      proof (cases q)
        case (Inl e)
        with run d True g Gate_PIN q show ?thesis by (auto simp: execute_tls_def Let_def)
      next
        case (Inr out)
        with run d True g Gate_PIN q
        have "store_result B (bs\<lparr>bs_events := events @ [Inspect ?w]\<rparr>) c dig now ?rec 1 out = (r, bs')"
          by (simp add: execute_tls_def Let_def)
        note s = store_result_frame [OF this]
        show ?thesis using s(1,3) by simp
      qed
      with ev es show ?thesis by (intro exI [of _ "es @ [Inspect ?w]"]) simp
    qed
  qed
qed

section \<open>The dictionary of results\<close>

lemma run_call_results:
  assumes "run_call H S L U B bs c reg now approvals = (r, bs')"
  shows "bs_results bs' = (case r of Inl e \<Rightarrow> bs_results bs
       | Inr y \<Rightarrow> (bs_results bs)(bc_idempotency_key c \<mapsto> (broker_call_digest H c, y)))"
  using assms by (auto simp: run_call_def Let_def
      dest!: store_result_frame(2) execute_http_results execute_tls_results split: if_splits option.splits)

definition admitted_call :: "(pyval \<Rightarrow> digest) \<Rightarrow> url_env \<Rightarrow> broker \<Rightarrow> BrokerCall \<Rightarrow> bool" where
  "admitted_call H U B c \<longleftrightarrow> is_ok (validate_call H U B c)"

text \<open>The digest of a call is taken of its normalised form.\<close>

definition normalized_digest :: "(pyval \<Rightarrow> digest) \<Rightarrow> url_env \<Rightarrow> BrokerCall \<Rightarrow> digest" where
  "normalized_digest H U c = (case BrokerCall_validate H U c of None \<Rightarrow> [] | Some c' \<Rightarrow> broker_call_digest H c')"

definition broker_exec ::
  "(pyval \<Rightarrow> digest) \<Rightarrow> (string \<Rightarrow> digest) \<Rightarrow> ip_lib \<Rightarrow> url_env \<Rightarrow> broker \<Rightarrow> broker_state \<Rightarrow> instant \<times> ApprovalRequest list
   \<Rightarrow> BrokerCall \<Rightarrow> (broker_error + BrokerResult) \<times> broker_state" where
  "broker_exec H S L U B bs x c = execute_call H S L U B bs c (fst x) (snd x)"

lemma admitted_callE:
  assumes "admitted_call H U B c0"
  obtains c reg where "validate_call H U B c0 = Inr (c, reg)" "BrokerCall_validate H U c0 = Some c"
    "preflight_call H B c = Inr reg" "bc_idempotency_key c = bc_idempotency_key c0"
    "normalized_digest H U c0 = broker_call_digest H c"
proof -
  from assms obtain c reg where c: "validate_call H U B c0 = Inr (c, reg)" by (auto simp: admitted_call_def is_ok_iff)
  from validate_call_InrD [OF c] have v: "BrokerCall_validate H U c0 = Some c" "preflight_call H B c = Inr reg" by simp_all
  show thesis
    by (rule that [OF c v BrokerCall_validate_SomeD(1) [OF v(1)]]) (simp add: normalized_digest_def v(1))
qed

interpretation broker_cache: replaying_service "broker_exec H S L U B"
  "bs_results :: broker_state \<Rightarrow> string \<rightharpoonup> digest \<times> BrokerResult" "admitted_call H U B"
  "bc_idempotency_key :: BrokerCall \<Rightarrow> string" "normalized_digest H U" BrokerIdempotencyConflict
proof
  fix c :: BrokerCall and s s' :: broker_state and x r
  show "\<not> admitted_call H U B c \<Longrightarrow> broker_exec H S L U B s x c = (r, s') \<Longrightarrow> s' = s \<and> \<not> is_ok r"
    by (auto simp: admitted_call_def broker_exec_def execute_call_def split: sum.splits)
next
  fix c :: BrokerCall and s :: broker_state and x d y
  assume "admitted_call H U B c" "bs_results s (bc_idempotency_key c) = Some (d, y)"
  then show "broker_exec H S L U B s x c =
      (if d \<noteq> normalized_digest H U c then Inl BrokerIdempotencyConflict else Inr y, s)"
    by (elim admitted_callE) (simp add: broker_exec_def execute_call_def)
next
  fix c :: BrokerCall and s s' :: broker_state and x r
  assume "admitted_call H U B c" "bs_results s (bc_idempotency_key c) = None" "broker_exec H S L U B s x c = (r, s')"
  then show "bs_results s' = (case r of Inl e \<Rightarrow> bs_results s
      | Inr y \<Rightarrow> (bs_results s)(bc_idempotency_key c \<mapsto> (normalized_digest H U c, y)))"
    by (elim admitted_callE) (auto simp: broker_exec_def execute_call_def dest!: run_call_results split: sum.splits)
qed

section \<open>What an execution contacts\<close>

definition call_budget :: "BrokerCall \<Rightarrow> int" where
  "call_budget c = (case bc_http c of Some h \<Rightarrow> request_budget c h | None \<Rightarrow> 1)"

lemma execute_call_fresh:
  assumes "execute_call H S L U B bs c0 now approvals = (r, bs')" and "bs' \<noteq> bs"
  shows "\<exists>c reg. validate_call H U B c0 = Inr (c, reg) \<and> bs_results bs (bc_idempotency_key c) = None \<and>
    run_call H S L U B bs c reg now approvals = (r, bs')"
proof (cases "validate_call H U B c0")
  case (Inl e)
  with assms show ?thesis by (simp add: execute_call_def)
next
  case (Inr v)
  obtain c reg where v: "v = (c, reg)" by (cases v)
  show ?thesis
  proof (cases "bs_results bs (bc_idempotency_key c)")
    case None
    with Inr v assms(1) show ?thesis by (simp add: execute_call_def)
  next
    case (Some e)
    obtain d y where e: "e = (d, y)" by (cases e)
    from Some e Inr v assms(1) have "bs' = bs" by (simp add: execute_call_def split: if_splits)
    with assms(2) show ?thesis by contradiction
  qed
qed

lemma call_budget_bounds:
  assumes "1 \<le> tb_tool_calls (te_budget (bc_task c))" and "\<And>h. bc_http c = Some h \<Longrightarrow> plan_ok h"
  shows "call_budget c \<le> tb_tool_calls (te_budget (bc_task c)) \<and> 0 \<le> call_budget c"
proof (cases "bc_http c")
  case (Some h)
  from assms(2) [OF Some] have "1 \<le> hl_max_requests (hp_limits h)" by (simp add: plan_ok_def HttpLimits_valid_def)
  with Some assms(1) show ?thesis by (simp add: call_budget_def request_budget_def)
qed (use assms(1) in \<open>simp add: call_budget_def\<close>)

lemma execute_call_contacts:
  assumes run: "execute_call H S L U B bs c0 now approvals = (r, bs')" and "bs' \<noteq> bs"
  obtains c reg extra where "validate_call H U B c0 = Inr (c, reg)" "bs_results bs (bc_idempotency_key c0) = None"
    "bs_events bs' = bs_events bs @ extra"
    "all_events (authorised_event H L U B c approvals now) (bs_events bs) extra"
    "te_deadline (bc_task c) \<le> now \<Longrightarrow> extra = []"
    "int (contacts extra) \<le> call_budget c" "call_budget c \<le> tb_tool_calls (te_budget (bc_task c))"
    "\<And>y. r = Inr y \<Longrightarrow> br_tool_calls_used y = int (contacts extra)"
proof -
  obtain c reg where c: "validate_call H U B c0 = Inr (c, reg)"
      "bs_results bs (bc_idempotency_key c) = None" "run_call H S L U B bs c reg now approvals = (r, bs')"
    using execute_call_fresh [OF run assms(2)] by blast
  from validate_call_InrD [OF c(1)] have v: "BrokerCall_validate H U c0 = Some c" "preflight_call H B c = Inr reg" by auto
  note b = BrokerCall_validate_SomeD [OF v(1)]
  have t: "1 \<le> tb_tool_calls (te_budget (bc_task c))" by (rule preflight_call_InrD [OF v(2)])
  have budget: "call_budget c \<le> tb_tool_calls (te_budget (bc_task c))" "0 \<le> call_budget c"
    using call_budget_bounds [OF t b(7)] by simp_all
  have none: "bs_results bs (bc_idempotency_key c0) = None" using c(2) b(1) by simp
  show thesis
  proof (cases "te_deadline (bc_task c) \<le> now")
    case True
    with c(3) have "store_result B bs c (broker_call_digest H c) now [] 0 (Stopped Bro_TIMED_OUT ''task_deadline_exceeded'') = (r, bs')"
      by (simp add: run_call_def Let_def)
    note s = store_result_frame [OF this]
    show thesis by (rule that [of c reg "[]"]) (use c(1) none s(1,3) budget in auto)
  next
    case False
    show thesis
    proof (cases "bc_http c")
      case None
      then obtain t where t: "bc_tls c = Some t" using b(8) by auto
      from False None t c(3) have ex: "execute_tls H S L U B bs c t (broker_call_digest H c) now approvals = (r, bs')"
        by (simp add: run_call_def Let_def)
      have w: "TlsWireRequest_valid (tls_request t ip)" for ip using b(10) [OF t] tls_request_valid by auto
      obtain extra where "bs_events bs' = bs_events bs @ extra \<and>
        all_events (authorised_event H L U B c approvals now) (bs_events bs) extra \<and> contacts extra \<le> 1 \<and>
        (\<forall>y. r = Inr y \<longrightarrow> br_tool_calls_used y = int (contacts extra))"
        using execute_tls_frame [OF ex None t w] by (elim exE)
      then show thesis by (intro that [of c reg extra]) (use c(1) none budget False None in \<open>simp_all add: call_budget_def\<close>)
    next
      case (Some h)
      with False c(3) assms(2) have ex: "execute_http H S L U B bs c h (broker_call_digest H c) now approvals = (r, bs')"
        by (auto simp: run_call_def Let_def split: if_splits)
      have z: "0 \<le> request_budget c h" using budget(2) Some by (simp add: call_budget_def)
      obtain extra where "bs_events bs' = bs_events bs @ extra \<and>
        all_events (authorised_event H L U B c approvals now) (bs_events bs) extra \<and>
        int (contacts extra) \<le> request_budget c h \<and> (\<forall>y. r = Inr y \<longrightarrow> br_tool_calls_used y = int (contacts extra))"
        using execute_http_frame [OF ex Some b(7) [OF Some] z] by (elim exE)
      then show thesis by (intro that [of c reg extra]) (use c(1) none budget False Some in \<open>simp_all add: call_budget_def\<close>)
    qed
  qed
qed

section \<open>Completed exchanges\<close>

text \<open>What holds of the local variables whenever the loop starts a pass.\<close>

definition allowed_records :: "PolicyRecord list \<Rightarrow> bool" where
  "allowed_records ps \<longleftrightarrow> list_all (\<lambda>p. pl_effect p = ALLOW) ps"

definition hop_inv :: "HttpRequestPlan \<Rightarrow> hop_state \<Rightarrow> bool" where
  "hop_inv h st \<longleftrightarrow>
     allowed_records (hs_records st) \<and> int (length (hs_records st)) = hs_requests st \<and>
     int (length (hs_evidence st)) = hs_requests st \<and> int (length (hs_redirects st)) = hs_requests st \<and>
     hs_requests st \<le> hl_max_redirects (hp_limits h) \<and> list_all RedirectRecord_valid (hs_redirects st)"

definition http_done_ok :: "HttpRequestPlan \<Rightarrow> hop_state \<Rightarrow> HttpToolResult \<Rightarrow> bool" where
  "http_done_ok h st x \<longleftrightarrow>
     allowed_records (hs_records st) \<and> int (length (hs_records st)) = hs_requests st \<and>
     int (length (ht_evidence_refs x)) = hs_requests st \<and> int (length (ht_redirects x)) + 1 = hs_requests st \<and>
     int (length (ht_redirects x)) \<le> hl_max_redirects (hp_limits h) \<and>
     ht_response_bytes x \<le> hl_max_response_bytes (hp_limits h) \<and> HttpToolResult_valid x"

lemma follow_hop_inv:
  assumes "follow_hop S U c h now st ip hop = (st1, pr)"
    and "allowed_records (hs_records st)" "int (length (hs_records st)) = hs_requests st"
    "int (length (hs_evidence st)) + 1 = hs_requests st" "int (length (hs_redirects st)) + 1 = hs_requests st"
    "int (length (hs_redirects st)) \<le> hl_max_redirects (hp_limits h)" "list_all RedirectRecord_valid (hs_redirects st)"
  shows "pr = Again st2 \<Longrightarrow> hop_inv h st2 \<and> hp_follow_redirects h \<and> hp_credential_ref h = None"
    "pr = Finished (Http_done x) \<Longrightarrow> http_done_ok h st1 x"
    "pr \<noteq> Finished (Tls_done y)"
  using assms by (auto simp: follow_hop_def Let_def hop_inv_def http_done_ok_def not_le split: if_splits option.splits)

lemma send_hop_inv:
  assumes run: "send_hop S U B c h now st ip = (st1, pr)"
    and "allowed_records (hs_records st)" "int (length (hs_records st)) = hs_requests st + 1"
    "int (length (hs_evidence st)) = hs_requests st" "int (length (hs_redirects st)) = hs_requests st"
    "hs_requests st \<le> hl_max_redirects (hp_limits h)" "list_all RedirectRecord_valid (hs_redirects st)"
  shows "pr = Again st2 \<Longrightarrow> hop_inv h st2 \<and> hp_follow_redirects h \<and> hp_credential_ref h = None"
    "pr = Finished (Http_done x) \<Longrightarrow> http_done_ok h st1 x"
    "pr \<noteq> Finished (Tls_done y)"
proof -
  let ?w = "wire_request h (hs_current st) ip"
  let ?s = "st\<lparr>hs_requests := hs_requests st + 1, hs_events := hs_events st @ [Send ?w]\<rparr>"
  let ?reply = "ad_send (bk_adapters B) (hs_events st) ?w"
  have "reply_progress r \<noteq> Finished (Http_done x)" "reply_progress r \<noteq> Finished (Tls_done y)" for r x y
    by (cases r; simp)+
  then consider hop where "follow_hop S U c h now ?s ip hop = (st1, pr)"
    | "\<And>st2. pr \<noteq> Again st2" "\<And>x. pr \<noteq> Finished (Http_done x)" "\<And>y. pr \<noteq> Finished (Tls_done y)"
    using run by (cases ?reply) (auto simp: send_hop_def Let_def split: if_splits)
  then have "(\<forall>st2. pr = Again st2 \<longrightarrow> hop_inv h st2 \<and> hp_follow_redirects h \<and> hp_credential_ref h = None) \<and>
      (\<forall>x. pr = Finished (Http_done x) \<longrightarrow> http_done_ok h st1 x) \<and> (\<forall>y. pr \<noteq> Finished (Tls_done y))"
  proof cases
    case (1 hop)
    show ?thesis using follow_hop_inv [OF 1] assms(2-) by simp
  qed simp
  then show "pr = Again st2 \<Longrightarrow> hop_inv h st2 \<and> hp_follow_redirects h \<and> hp_credential_ref h = None"
    "pr = Finished (Http_done x) \<Longrightarrow> http_done_ok h st1 x" "pr \<noteq> Finished (Tls_done y)"
    by blast+
qed

lemma http_step_inv:
  assumes run: "http_step H S L U B c h approvals now st = (st1, pr)" and inv: "hop_inv h st"
  shows "pr = Again st2 \<Longrightarrow> hop_inv h st2 \<and> hp_follow_redirects h \<and> hp_credential_ref h = None"
    "pr = Finished (Http_done x) \<Longrightarrow> http_done_ok h st1 x"
    "pr \<noteq> Finished (Tls_done y)"
proof -
  let ?a = "http_action c h (hs_current st) now"
  have "(\<exists>d ip events. effect d = ALLOW \<and> send_hop S U B c h now
            (st\<lparr>hs_records := hs_records st @ [policy_record H ?a d], hs_events := events\<rparr>) ip = (st1, pr)) \<or>
      ((\<forall>st2. pr \<noteq> Again st2) \<and> (\<forall>x. pr \<noteq> Finished (Http_done x)) \<and> (\<forall>y. pr \<noteq> Finished (Tls_done y)))"
    using run by (auto simp: http_step_def Let_def split: sum.splits if_splits prod.splits gate.splits)
  then have "(\<forall>st2. pr = Again st2 \<longrightarrow> hop_inv h st2 \<and> hp_follow_redirects h \<and> hp_credential_ref h = None) \<and>
      (\<forall>x. pr = Finished (Http_done x) \<longrightarrow> http_done_ok h st1 x) \<and> (\<forall>y. pr \<noteq> Finished (Tls_done y))"
  proof (elim disjE exE conjE)
    fix d ip events
    assume "effect d = ALLOW" and
      s: "send_hop S U B c h now (st\<lparr>hs_records := hs_records st @ [policy_record H ?a d], hs_events := events\<rparr>) ip = (st1, pr)"
    then show ?thesis using send_hop_inv [OF s] inv
      by (simp add: hop_inv_def allowed_records_def policy_record_def)
  qed simp
  then show "pr = Again st2 \<Longrightarrow> hop_inv h st2 \<and> hp_follow_redirects h \<and> hp_credential_ref h = None"
    "pr = Finished (Http_done x) \<Longrightarrow> http_done_ok h st1 x" "pr \<noteq> Finished (Tls_done y)"
    by blast+
qed

lemma http_loop_done:
  assumes "http_loop H S L U B c h approvals now st = (st', r)" and "hop_inv h st"
  shows "(\<forall>x. r = Inr (Http_done x) \<longrightarrow> http_done_ok h st' x) \<and> (\<forall>y. r \<noteq> Inr (Tls_done y))"
  using assms
proof (induction H S L U B c h approvals now st arbitrary: st' r rule: http_loop.induct)
  case (1 H S L U B c h approvals now st)
  from "1.prems"(1) show ?case
  proof (cases rule: http_loop_unfold)
    case (finished out)
    show ?thesis using http_step_inv(2,3) [OF finished(2) "1.prems"(2)] finished(3) by auto
  next
    case (again st1 st2)
    from http_step_inv(1) [OF again(2) "1.prems"(2)] have "hop_inv h st2" by simp
    with "1.IH" [OF _ again(2) [symmetric] refl again(3)] again(1) show ?thesis by simp
  qed simp_all
qed

text \<open>Without automatic redirects, and with a credential, one pass is all there is.\<close>

lemma http_loop_single:
  assumes "http_loop H S L U B c h approvals now st = (st', r)" and "hop_inv h st" and "hs_requests st < request_budget c h"
    and "\<not> hp_follow_redirects h \<or> hp_credential_ref h \<noteq> None" and h: "bc_http c = Some h" "plan_ok h"
  shows "hs_requests st' \<le> hs_requests st + 1"
  using assms(1)
proof (cases rule: http_loop_unfold)
  case (again st1 st2)
  from http_step_inv(1) [OF again(2) assms(2)] assms(4) show ?thesis by simp
next
  case (raised e)
  from raised(2) h show ?thesis by (rule http_step_frame) simp
next
  case (finished out)
  from finished(2) h show ?thesis by (rule http_step_frame) simp
qed (use assms(3) in simp)

lemma run_call_completed:
  assumes run: "run_call H S L U B bs c reg now approvals = (Inr y, bs')" and completed: "br_status y = Bro_COMPLETED"
    and h: "bc_http c = Some h" "plan_ok h"
  shows "\<exists>x. br_http y = Some x \<and> br_tls y = None \<and> allowed_records (br_policy_records y) \<and>
      int (length (br_policy_records y)) = br_tool_calls_used y \<and>
      int (length (ht_evidence_refs x)) = br_tool_calls_used y \<and> int (length (ht_redirects x)) + 1 = br_tool_calls_used y \<and>
      int (length (ht_redirects x)) \<le> hl_max_redirects (hp_limits h) \<and>
      ht_response_bytes x \<le> hl_max_response_bytes (hp_limits h)"
proof -
  let ?s = "\<lparr>hs_current = hp_url h, hs_records = [], hs_redirects = [], hs_evidence = [], hs_elapsed = 0, hs_bytes = 0,
         hs_requests = 0, hs_events = bs_events bs\<rparr>"
  from completed have "\<not> te_deadline (bc_task c) \<le> now"
  proof (rule contrapos_pn)
    assume "te_deadline (bc_task c) \<le> now"
    with run have "store_result B bs c (broker_call_digest H c) now [] 0 (Stopped Bro_TIMED_OUT ''task_deadline_exceeded'') = (Inr y, bs')"
      by (simp add: run_call_def Let_def)
    from store_result_frame(3) [OF this] show "br_status y \<noteq> Bro_COMPLETED" by (simp add: outcome_status_def)
  qed
  with run h have ex: "execute_http H S L U B bs c h (broker_call_digest H c) now approvals = (Inr y, bs')"
    by (auto simp: run_call_def Let_def split: if_splits)
  obtain st q where l: "http_loop H S L U B c h approvals now ?s = (st, q)"
    by (cases "http_loop H S L U B c h approvals now ?s")
  from ex l obtain out where out: "q = Inr out" "store_result B (bs\<lparr>bs_events := hs_events st\<rparr>) c
      (broker_call_digest H c) now (hs_records st) (hs_requests st) out = (Inr y, bs')"
    by (auto simp: execute_http_def Let_def split: sum.splits)
  note s = store_result_frame(3) [OF out(2) refl]
  have "hop_inv h ?s" using h(2) by (simp add: hop_inv_def allowed_records_def plan_ok_def HttpLimits_valid_def)
  note d = http_loop_done [OF l this]
  show ?thesis
  proof (cases out)
    case (Stopped st code)
    then have "st = Bro_COMPLETED" using s completed by (simp add: outcome_status_def)
    with Stopped s have "br_status y = Bro_COMPLETED" "output_count y = 0" by (simp_all add: output_count_def completed)
    with s show ?thesis by (simp add: BrokerResult_valid_def)
  next
    case (Http_done x)
    with d out(1) have "http_done_ok h st x" by simp
    with s Http_done show ?thesis by (simp add: http_done_ok_def)
  next
    case (Tls_done t)
    with d out(1) show ?thesis by simp
  qed
qed

lemma execute_http_single:
  assumes ex: "execute_http H S L U B bs c h dig now approvals = (r, bs')" and h: "bc_http c = Some h" "plan_ok h"
    and b: "1 \<le> request_budget c h" and single: "\<not> hp_follow_redirects h \<or> hp_credential_ref h \<noteq> None"
  shows "contacts (bs_events bs') \<le> contacts (bs_events bs) + 1"
proof -
  let ?s = "\<lparr>hs_current = hp_url h, hs_records = [], hs_redirects = [], hs_evidence = [], hs_elapsed = 0, hs_bytes = 0,
         hs_requests = 0, hs_events = bs_events bs\<rparr>"
  obtain st q where l: "http_loop H S L U B c h approvals now ?s = (st, q)"
    by (cases "http_loop H S L U B c h approvals now ?s")
  have "hop_inv h ?s" using h(2) by (simp add: hop_inv_def allowed_records_def plan_ok_def HttpLimits_valid_def)
  with l have "hs_requests st \<le> 1" using http_loop_single [OF l _ _ single h] b by simp
  moreover obtain extra where "hs_events st = bs_events bs @ extra" "hs_requests st = int (contacts extra)"
    using http_loop_frame [OF l h] b by auto
  moreover have "bs_events bs' = hs_events st"
    using ex l by (auto simp: execute_http_def Let_def dest: store_result_frame(1) split: sum.splits)
  ultimately show ?thesis by simp
qed

lemma run_call_http:
  assumes "run_call H S L U B bs c reg now approvals = (r, bs')" and "bs_events bs' \<noteq> bs_events bs" and "bc_http c = Some h"
  shows "now < te_deadline (bc_task c) \<and> execute_http H S L U B bs c h (broker_call_digest H c) now approvals = (r, bs')"
  using assms by (auto simp: run_call_def Let_def dest: store_result_frame(1) split: if_splits)

lemma run_call_escapes:
  assumes "now < te_deadline (bc_task c)" and h: "bc_http c = Some h" "plan_ok h" and b: "1 \<le> request_budget c h"
    and "hp_credential_ref h = None"
    and d: "decide H U (bk_scope B) (http_action c h (hp_url h) now) approvals = Inr d" "effect d = ALLOW"
    and g: "network_gate L U B (bc_profile c) default_http_port (bs_events bs) (hp_url h) = (Gate_PIN ip, events)"
    and e: "ad_send (bk_adapters B) events (wire_request h (hp_url h) ip) = Http_ESCAPES"
  shows "run_call H S L U B bs c reg now approvals =
      (Inl BrokerTransportRaised, bs\<lparr>bs_events := events @ [Send (wire_request h (hp_url h) ip)]\<rparr>)"
proof -
  let ?s = "\<lparr>hs_current = hp_url h, hs_records = [], hs_redirects = [], hs_evidence = [], hs_elapsed = 0, hs_bytes = 0,
         hs_requests = 0, hs_events = bs_events bs\<rparr>"
  let ?a = "http_action c h (hp_url h) now"
  let ?s1 = "?s\<lparr>hs_records := [policy_record H ?a d], hs_requests := 1,
      hs_events := events @ [Send (wire_request h (hp_url h) ip)]\<rparr>"
  have "http_step H S L U B c h approvals now ?s = (?s1, Raised BrokerTransportRaised)"
    using d g e plan_ok_wire [OF h(2)] by (simp add: http_step_def send_hop_def Let_def)
  then have "http_loop H S L U B c h approvals now ?s = (?s1, Inl BrokerTransportRaised)"
    using b by (subst http_loop.simps) simp
  then show ?thesis using assms(1,5) h(1) by (simp add: run_call_def execute_http_def Let_def)
qed

end
