(* ===== verification/Broker_Examples.thy ===== *)
theory Broker_Examples
  imports Broker_Facts
begin

text \<open>A concrete Scope, profile, registry and broker for the closed examples. No property is about them.\<close>

definition bx_digest :: "pyval \<Rightarrow> digest" where
  "bx_digest v = hex_digits 64 (case v of PDict kvs \<Rightarrow> int (length kvs) | _ \<Rightarrow> 9)"

definition bx_sha :: "string \<Rightarrow> digest" where
  "bx_sha s = hex_digits 64 (int (length s))"

definition bx_env :: url_env where
  "bx_env = \<lparr>ue_bracket_ok = (\<lambda>_. True), ue_nfkc_ok = (\<lambda>_. True)\<rparr>"

definition bx_lib :: ip_lib where
  "bx_lib = \<lparr>il_delegates_mapped = True, il_dotted_mapped = True\<rparr>"

definition bx_scope :: Scope where
  "bx_scope =
     \<lparr>scope_id = 11, sc_engagement_id = 7, sc_version = 1, sc_authority_reference = ''ref'', valid_from = 0,
      valid_until = 9000000, repositories = [], sc_artifacts = [],
      network_targets = [\<lparr>nt_host = ''a.t'', nt_ports = [443], nt_schemes = [''https'']\<rparr>],
      allowed_identities = [], allowed_test_classes = [''w''], denied_actions = [], rate_limits = [],
      approval_requirements = [], sc_state = Scope_APPROVED, sc_approved_by = Some ''o'', sc_approved_at = Some 0\<rparr>"

definition bx_limits :: SandboxLimits where
  "bx_limits = \<lparr>sl_wall_seconds = 60, sl_cpu_millis = 1000, sl_memory_bytes = 536870912, sl_pids = 64,
     sl_open_files = 64, sl_file_bytes = 1048576, sl_tmp_bytes = 1048576\<rparr>"

definition bx_profile :: "bool \<Rightarrow> SandboxProfile" where
  "bx_profile networked =
     \<lparr>sp_kind = Profile_VALIDATION, sp_image_digest = ''sha256:'' @ hex_digits 64 1,
      sp_seccomp_contract_digest = hex_digits 64 7, sp_run_as_uid = 65532, sp_run_as_gid = 65532,
      sp_read_only_root = True, sp_no_new_privileges = True, sp_capabilities = [],
      sp_network_mode = (if networked then Net_TARGET_ONLY else Net_NONE),
      sp_network_grants = (if networked then [\<lparr>ng_host = ''a.t'', ng_ports = [443], ng_schemes = [''https'']\<rparr>] else []),
      sp_mounts = [\<lparr>sm_kind = Mount_SNAPSHOT, sm_destination = ''/workspace/source'',
          sm_object_id = Some (hex_digits 64 2), sm_read_only = True\<rparr>,
        \<lparr>sm_kind = Mount_OUTPUT, sm_destination = ''/workspace/output'', sm_object_id = None, sm_read_only = False\<rparr>,
        \<lparr>sm_kind = Mount_TEMP, sm_destination = ''/tmp'', sm_object_id = None, sm_read_only = False\<rparr>],
      sp_writable_paths = [''/tmp'', ''/workspace/output''], sp_allowed_tools = [''http.request'', ''tls.inspect'', ''t''],
      sp_execute_target_code = True, sp_max_attempts = 2, sp_limits = bx_limits\<rparr>"

definition bx_task :: TaskEnvelope where
  "bx_task =
     \<lparr>te_task_id = 31, te_engagement_id = 7, te_target_id = 22, te_target_version = ''v1'', te_scope_id = 11,
      te_worker_role = Role_VALIDATOR, te_scope_version = 1, te_policy_digest = bx_digest (Scope_dump bx_scope),
      te_sandbox_profile_digest = hex_digits 64 16, te_tool_registry_digest = hex_digits 64 9, te_input_refs = [],
      te_allowed_tools = [''http.request'', ''tls.inspect''],
      te_budget = \<lparr>tb_wall_seconds = 60, tb_model_tokens = 0, tb_tool_calls = 3\<rparr>, te_deadline = 5000000,
      te_idempotency_key = ''k''\<rparr>"

definition bx_plan :: "HttpMethod \<Rightarrow> int \<Rightarrow> HttpRequestPlan" where
  "bx_plan m redirects =
     \<lparr>hp_method = m, hp_url = ''https://a.t/x'', hp_test_class = ''w'', hp_headers = [], hp_credential_ref = None,
      hp_body_ref = None, hp_body_bytes = 0, hp_follow_redirects = 0 < redirects,
      hp_limits = \<lparr>hl_connect_seconds = 3, hl_read_seconds = 10, hl_total_seconds = 15, hl_max_response_bytes = 1000,
        hl_max_redirects = redirects, hl_max_requests = redirects + 1\<rparr>\<rparr>"

definition bx_call :: "HttpMethod \<Rightarrow> int \<Rightarrow> BrokerCall" where
  "bx_call m redirects =
     \<lparr>bc_call_id = 41, bc_task = bx_task, bc_profile = bx_profile True, bc_tool_id = ''http.request'',
      bc_http = Some (bx_plan m redirects), bc_tls = None, bc_idempotency_key = ''call''\<rparr>"

definition bx_registration :: ToolRegistration where
  "bx_registration =
     \<lparr>tg_tool_id = ''http.request'', tg_version = ''1'', tg_capability = Cap_HTTP_REQUEST,
      tg_allowed_profiles = [Profile_VALIDATION], tg_requires_network = True, tg_accepts_credential_ref = True,
      tg_side_effect_mode = Effect_CONDITIONAL, tg_implementation_digest = hex_digits 64 24\<rparr>"

definition bx_hop :: "int \<Rightarrow> string option \<Rightarrow> OfflineHttpHop" where
  "bx_hop code location =
     \<lparr>oh_status_code = code, oh_peer_ip = ''9.9.9.9'', oh_response_bytes = 10,
      oh_response_body_sha256 = hex_digits 64 51, oh_evidence_ref = hex_digits 64 (60 + code),
      oh_elapsed_seconds = 1 / 100, oh_location = location\<rparr>"

definition bx_broker :: "adapters \<Rightarrow> broker" where
  "bx_broker A =
     \<lparr>bk_scope = bx_scope, bk_registry = \<lparr>tr_entries = [bx_registration], tr_digest = hex_digits 64 9\<rparr>,
      bk_resolver_digest = Some (hex_digits 64 24), bk_http_digest = Some (hex_digits 64 24), bk_tls_digest = None,
      bk_blocked_ips = KNOWN_METADATA_IPS, bk_allowed_ips = None, bk_adapters = A\<rparr>"

definition bx_offline :: adapters where
  "bx_offline = offline_adapters bx_lib [(''a.t'', [''9.9.9.9''])]
     [(''https://a.t/x'', bx_hop 302 (Some ''/y'')), (''https://a.t/y'', bx_hop 200 None)] []"

text \<open>A transport whose exception the broker does not name, and the approval that a POST needs.\<close>

definition bx_escaping :: adapters where
  "bx_escaping = \<lparr>ad_resolve = (\<lambda>events host. Some [''9.9.9.9'']), ad_send = (\<lambda>events w. Http_ESCAPES),
     ad_inspect = (\<lambda>events w. Tls_ESCAPES)\<rparr>"

definition bx_approval :: ApprovalRequest where
  "bx_approval =
     \<lparr>approval_id = 71, appr_engagement_id = 7, appr_target_id = Some 22, appr_action = MUTATE_TARGET_STATE,
      action_digest = request_digest bx_digest (http_action (bx_call Http_POST 0) (bx_plan Http_POST 0) ''https://a.t/x'' 1000),
      appr_expected_side_effects = [], appr_evidence_summary = ''plan'', policy_version = 1, expires_at = 2000,
      appr_status = Appr_GRANTED, appr_decided_by = Some ''owner'', appr_decided_at = Some 0\<rparr>"

abbreviation bx_execute :: "adapters \<Rightarrow> broker_state \<Rightarrow> BrokerCall \<Rightarrow> (broker_error + BrokerResult) \<times> broker_state" where
  "bx_execute A bs c \<equiv> execute_call bx_digest bx_sha bx_lib bx_env (bx_broker A) bs c 1000 [bx_approval]"

lemma bx_validated:
  "validate_call bx_digest bx_env (bx_broker A) (bx_call Http_GET 1) = Inr (bx_call Http_GET 1, bx_registration)"
  "validate_call bx_digest bx_env (bx_broker A) (bx_call Http_POST 0) = Inr (bx_call Http_POST 0, bx_registration)"
  by code_simp+

definition bx_summary :: "(broker_error + BrokerResult) \<times> broker_state
    \<Rightarrow> (broker_error + BrokerStatus \<times> string list \<times> int) \<times> net_event list" where
  "bx_summary x = (map_sum id (\<lambda>y. (br_status y, br_error_codes y, br_tool_calls_used y)) (fst x), bs_events (snd x))"

lemma bx_redirected:
  "bx_summary (bx_execute bx_offline empty_broker_state (bx_call Http_GET 1)) =
     (Inr (Bro_COMPLETED, [], 2),
      [Resolve ''a.t'', Send (wire_request (bx_plan Http_GET 1) ''https://a.t/x'' ''9.9.9.9''),
       Resolve ''a.t'', Send (wire_request (bx_plan Http_GET 1) ''https://a.t/y'' ''9.9.9.9'')])"
  by code_simp

lemma bx_post_allowed:
  "map_sum id effect (decide bx_digest bx_env bx_scope (http_action (bx_call Http_POST 0) (bx_plan Http_POST 0) ''https://a.t/x'' 1000)
     [bx_approval]) = Inr ALLOW"
  by code_simp

end
