(* ===== verification/Broker_Properties.thy ===== *)
theory Broker_Properties
  imports Broker_Examples
begin

text \<open>
  The properties of the tool broker: what it lets onto the wire, how often, what it remembers, and two places where its
  guards do not do what they mean to. Each property is followed by a closed instance.
\<close>

section \<open>Contacts\<close>

text \<open>C1. Every request the broker puts on the wire is authorised: whatever an execution adds to the history of the network
  adapters was added for a call that passed every static check and was still before its deadline, and each contact stands
  for an action inside the approved Scope with all its approvals, at an endpoint the sandbox profile grants, pinned to an
  admitted address among the answers the resolver gave for that URL's host immediately before.\<close>

theorem broker_contacts_authorised:
  assumes "execute_call H S L U B bs c0 now approvals = (r, bs')" and "bs_events bs' \<noteq> bs_events bs"
  shows "\<exists>c reg extra. validate_call H U B c0 = Inr (c, reg) \<and> now < te_deadline (bc_task c) \<and>
      bs_results bs (bc_idempotency_key c0) = None \<and> bs_events bs' = bs_events bs @ extra \<and>
      all_events (authorised_event H L U B c approvals now) (bs_events bs) extra"
proof -
  from assms(2) have "bs' \<noteq> bs" by auto
  from execute_call_contacts [OF assms(1) this] obtain c reg extra where
    "validate_call H U B c0 = Inr (c, reg)" "bs_results bs (bc_idempotency_key c0) = None"
    "bs_events bs' = bs_events bs @ extra" "all_events (authorised_event H L U B c approvals now) (bs_events bs) extra"
    "te_deadline (bc_task c) \<le> now \<Longrightarrow> extra = []" by metis
  then show ?thesis using assms(2) by (intro exI [of _ c] exI [of _ reg] exI [of _ extra]) (auto simp: not_le [symmetric])
qed

lemma bx_redirected_run:
  obtains y bs' where "bx_execute bx_offline empty_broker_state (bx_call Http_GET 1) = (Inr y, bs')"
    "br_status y = Bro_COMPLETED" "br_tool_calls_used y = 2" "length (bs_events bs') = 4" "contacts (bs_events bs') = 2"
proof -
  obtain r bs' where run: "bx_execute bx_offline empty_broker_state (bx_call Http_GET 1) = (r, bs')" by fastforce
  with bx_redirected have "map_sum id (\<lambda>y. (br_status y, br_error_codes y, br_tool_calls_used y)) r = Inr (Bro_COMPLETED, [], 2)"
      "bs_events bs' = [Resolve ''a.t'', Send (wire_request (bx_plan Http_GET 1) ''https://a.t/x'' ''9.9.9.9''),
       Resolve ''a.t'', Send (wire_request (bx_plan Http_GET 1) ''https://a.t/y'' ''9.9.9.9'')]"
    by (simp_all add: bx_summary_def)
  with run show thesis by (cases r) (auto intro: that)
qed

theorem broker_contacts_authorised_witness:
  "\<exists>extra. bs_events (snd (bx_execute bx_offline empty_broker_state (bx_call Http_GET 1))) = extra \<and> length extra = 4 \<and>
     all_events (authorised_event bx_digest bx_lib bx_env (bx_broker bx_offline) (bx_call Http_GET 1) [bx_approval] 1000) [] extra"
proof -
  obtain y bs' where run: "bx_execute bx_offline empty_broker_state (bx_call Http_GET 1) = (Inr y, bs')"
      "length (bs_events bs') = 4" by (rule bx_redirected_run)
  have "bs_events bs' \<noteq> bs_events empty_broker_state" using run(2) by (auto simp: empty_broker_state_def)
  from broker_contacts_authorised [OF run(1) this] run show ?thesis
    by (auto simp: bx_validated empty_broker_state_def)
qed

text \<open>C13. Effort is bounded and accounted for: a first execution that returns a result has contacted targets exactly as often as
  the result's \<^verbatim>\<open>tool_calls_used\<close> says, at most as often as the plan's own limit allows, and never more often than the
  budget of the task; and a call that changes state or carries a credential is sent at most once.\<close>

theorem broker_contacts_bounded:
  assumes "execute_call H S L U B bs c0 now approvals = (Inr y, bs')" and "bs_results bs (bc_idempotency_key c0) = None"
  shows "\<exists>c reg. validate_call H U B c0 = Inr (c, reg) \<and>
      int (contacts (bs_events bs')) = int (contacts (bs_events bs)) + br_tool_calls_used y \<and>
      br_tool_calls_used y \<le> call_budget c \<and> br_tool_calls_used y \<le> tb_tool_calls (te_budget (bc_task c)) \<and>
      (\<nexists>h. bc_http c = Some h \<and> (method_mutates_state (hp_method h) \<or> hp_credential_ref h \<noteq> None) \<and> 1 < br_tool_calls_used y)"
proof -
  from assms have "bs_results bs' (bc_idempotency_key c0) \<noteq> None"
    using broker_cache.answer_is_stored [of H S L U B bs "(now, approvals)" c0 y bs'] by (simp add: broker_exec_def)
  with assms(2) have ne: "bs' \<noteq> bs" by auto
  from execute_call_contacts [OF assms(1) ne] obtain c reg extra where c: "validate_call H U B c0 = Inr (c, reg)"
      "bs_events bs' = bs_events bs @ extra" "int (contacts extra) \<le> call_budget c"
      "call_budget c \<le> tb_tool_calls (te_budget (bc_task c))" "br_tool_calls_used y = int (contacts extra)" by metis
  from execute_call_fresh [OF assms(1) ne] c(1) have run: "run_call H S L U B bs c reg now approvals = (Inr y, bs')" by auto
  from validate_call_InrD [OF c(1)] have v: "BrokerCall_validate H U c0 = Some c" "preflight_call H B c = Inr reg" by simp_all
  have "br_tool_calls_used y \<le> 1"
    if h: "bc_http c = Some h" "method_mutates_state (hp_method h) \<or> hp_credential_ref h \<noteq> None" for h
  proof (cases "bs_events bs' = bs_events bs")
    case True
    then show ?thesis using c(2,5) by simp
  next
    case False
    have ok: "plan_ok h" by (rule BrokerCall_validate_SomeD(7) [OF v(1) h(1)])
    from ok h(2) have "\<not> hp_follow_redirects h \<or> hp_credential_ref h \<noteq> None" by (auto simp: plan_ok_def)
    moreover have "1 \<le> request_budget c h"
      using ok preflight_call_InrD(1) [OF v(2)] by (simp add: plan_ok_def HttpLimits_valid_def request_budget_def)
    ultimately have "contacts (bs_events bs') \<le> contacts (bs_events bs) + 1"
      using execute_http_single run_call_http [OF run False h(1)] h(1) ok by blast
    then show ?thesis using c(2,5) by simp
  qed
  then have "\<nexists>h. bc_http c = Some h \<and> (method_mutates_state (hp_method h) \<or> hp_credential_ref h \<noteq> None) \<and>
      1 < br_tool_calls_used y" by force
  with c show ?thesis by auto
qed

theorem broker_contacts_bounded_witness:
  "\<exists>y bs'. bx_execute bx_offline empty_broker_state (bx_call Http_GET 1) = (Inr y, bs') \<and>
     contacts (bs_events bs') = 2 \<and> br_tool_calls_used y = 2 \<and> br_tool_calls_used y \<le> call_budget (bx_call Http_GET 1)"
proof -
  obtain y bs' where run: "bx_execute bx_offline empty_broker_state (bx_call Http_GET 1) = (Inr y, bs')"
      "br_tool_calls_used y = 2" "contacts (bs_events bs') = 2" by (rule bx_redirected_run)
  have "bs_results empty_broker_state (bc_idempotency_key (bx_call Http_GET 1)) = None" by (simp add: empty_broker_state_def)
  from broker_contacts_bounded [OF run(1) this] have "br_tool_calls_used y \<le> call_budget (bx_call Http_GET 1)"
    by (auto simp: bx_validated)
  with run show ?thesis by blast
qed

text \<open>C24. A completed HTTP result is backed by its exchanges: every policy decision recorded in it allowed the action, there is one
  decision and one piece of evidence for each request sent, one redirect record for each request but the last, no
  more redirects than the plan permits, and the response bytes of all hops together stay within the limit.\<close>

theorem completed_call_is_backed:
  assumes "execute_call H S L U B bs c0 now approvals = (Inr y, bs')" and "bs_results bs (bc_idempotency_key c0) = None"
    and "br_status y = Bro_COMPLETED" and "validate_call H U B c0 = Inr (c, reg)" and "bc_http c = Some h"
  shows "\<exists>x. br_http y = Some x \<and> br_tls y = None \<and> allowed_records (br_policy_records y) \<and>
      int (length (br_policy_records y)) = br_tool_calls_used y \<and>
      int (length (ht_evidence_refs x)) = br_tool_calls_used y \<and> int (length (ht_redirects x)) + 1 = br_tool_calls_used y \<and>
      int (length (ht_redirects x)) \<le> hl_max_redirects (hp_limits h) \<and>
      ht_response_bytes x \<le> hl_max_response_bytes (hp_limits h)"
proof -
  from validate_call_InrD [OF assms(4)] have v: "BrokerCall_validate H U c0 = Some c" by simp
  have "bs_results bs (bc_idempotency_key c) = None" using assms(2) BrokerCall_validate_SomeD(1) [OF v] by simp
  with assms(1,4) have "run_call H S L U B bs c reg now approvals = (Inr y, bs')" by (simp add: execute_call_def)
  from run_call_completed [OF this assms(3,5) BrokerCall_validate_SomeD(7) [OF v assms(5)]] show ?thesis .
qed

theorem completed_call_is_backed_witness:
  "\<exists>y bs' x. bx_execute bx_offline empty_broker_state (bx_call Http_GET 1) = (Inr y, bs') \<and> br_http y = Some x \<and>
     length (br_policy_records y) = 2 \<and> length (ht_evidence_refs x) = 2 \<and> length (ht_redirects x) = 1"
proof -
  obtain y bs' where run: "bx_execute bx_offline empty_broker_state (bx_call Http_GET 1) = (Inr y, bs')"
      "br_status y = Bro_COMPLETED" "br_tool_calls_used y = 2" by (rule bx_redirected_run)
  have "bs_results empty_broker_state (bc_idempotency_key (bx_call Http_GET 1)) = None" by (simp add: empty_broker_state_def)
  from completed_call_is_backed [OF run(1) this run(2) bx_validated(1), of "bx_plan Http_GET 1"] run show ?thesis
    by (auto simp: bx_call_def)
qed

section \<open>Replay\<close>

text \<open>C23. The broker answers once: after a call has been answered, and after any number of further calls by anyone, an admitted
  call under the same idempotency key gets exactly the stored answer if its normalised content has the same digest and a
  conflict otherwise, at any time and with any approvals, without touching the network or the broker's state. So an
  answer that asked for an approval stays, even when the approval has been granted since.\<close>

theorem broker_answers_once:
  assumes "execute_call H S L U B bs c now approvals = (Inr y, bs1)"
    and "steps (served (broker_exec H S L U B)) bs1 n bs2"
    and "admitted_call H U B c'" and "bc_idempotency_key c' = bc_idempotency_key c"
  shows "execute_call H S L U B bs2 c' now' approvals' =
      (if normalized_digest H U c \<noteq> normalized_digest H U c' then Inl BrokerIdempotencyConflict else Inr y, bs2)"
  using broker_cache.answered_once [of H S L U B bs "(now, approvals)" c y bs1 n bs2 c' "(now', approvals')"] assms
  by (simp add: broker_exec_def)

theorem broker_answers_once_witness:
  "\<exists>y bs1. bx_execute bx_offline empty_broker_state (bx_call Http_GET 1) = (Inr y, bs1) \<and>
     execute_call bx_digest bx_sha bx_lib bx_env (bx_broker bx_offline) bs1 (bx_call Http_GET 1) 8000000 [] = (Inr y, bs1)"
proof -
  obtain y bs1 where run: "bx_execute bx_offline empty_broker_state (bx_call Http_GET 1) = (Inr y, bs1)"
    by (rule bx_redirected_run)
  have "admitted_call bx_digest bx_env (bx_broker bx_offline) (bx_call Http_GET 1)"
    by (simp add: admitted_call_def bx_validated)
  from broker_answers_once [OF run steps.intros(1) this refl, of 8000000 "[]"] run show ?thesis by simp
qed

section \<open>Gaps\<close>

text \<open>C39. An exception the broker does not name leaves the call unanswered after it was sent. The transport may raise something
  other than the named exceptions, \<^verbatim>\<open>OSError\<close> and \<^verbatim>\<open>RuntimeError\<close>: an \<^verbatim>\<open>http.client.HTTPException\<close> on a malformed
  response, or the \<^verbatim>\<open>ValidationError\<close> of a hop whose \<^verbatim>\<open>Location\<close> is longer than 2048 characters. Then \<^verbatim>\<open>execute\<close>
  raises, no result is stored under the idempotency key, and repeating the call sends the same request again.\<close>

theorem escaped_exception_sends_again:
  assumes "validate_call H U B c0 = Inr (c, reg)" and "bs_results bs (bc_idempotency_key c0) = None"
    and "now < te_deadline (bc_task c)" and "bc_http c = Some h" and "hp_credential_ref h = None"
    and "decide H U (bk_scope B) (http_action c h (hp_url h) now) approvals = Inr d" and "effect d = ALLOW"
    and "\<And>es. network_gate L U B (bc_profile c) default_http_port es (hp_url h) = (Gate_PIN ip, es @ [Resolve host])"
    and "\<And>es. ad_send (bk_adapters B) es (wire_request h (hp_url h) ip) = Http_ESCAPES"
  shows "\<exists>bs1 bs2. execute_call H S L U B bs c0 now approvals = (Inl BrokerTransportRaised, bs1) \<and>
      execute_call H S L U B bs1 c0 now approvals = (Inl BrokerTransportRaised, bs2) \<and> bs_results bs2 = bs_results bs \<and>
      bs_events bs2 = bs_events bs @ [Resolve host, Send (wire_request h (hp_url h) ip),
        Resolve host, Send (wire_request h (hp_url h) ip)]"
proof -
  from validate_call_InrD [OF assms(1)] have v: "BrokerCall_validate H U c0 = Some c" "preflight_call H B c = Inr reg" by simp_all
  have ok: "plan_ok h" by (rule BrokerCall_validate_SomeD(7) [OF v(1) assms(4)])
  have budget: "1 \<le> request_budget c h"
    using ok preflight_call_InrD(1) [OF v(2)] by (simp add: plan_ok_def HttpLimits_valid_def request_budget_def)
  let ?es = "[Resolve host, Send (wire_request h (hp_url h) ip)]"
  have once: "execute_call H S L U B s c0 now approvals = (Inl BrokerTransportRaised, s\<lparr>bs_events := bs_events s @ ?es\<rparr>)"
    if "bs_results s (bc_idempotency_key c0) = None" for s
    using run_call_escapes [OF assms(3,4) ok budget assms(5,6,7) assms(8) assms(9)] assms(1) that
      BrokerCall_validate_SomeD(1) [OF v(1)] by (simp add: execute_call_def)
  show ?thesis using once [OF assms(2)] once [of "bs\<lparr>bs_events := bs_events bs @ ?es\<rparr>"] assms(2) by simp
qed

lemma bx_gate: "network_gate bx_lib bx_env (bx_broker bx_escaping) (bx_profile True) default_http_port es ''https://a.t/x'' =
    (Gate_PIN ''9.9.9.9'', es @ [Resolve ''a.t''])"
  by code_simp

theorem escaped_exception_sends_again_witness:
  "\<exists>bs1 bs2. bx_execute bx_escaping empty_broker_state (bx_call Http_POST 0) = (Inl BrokerTransportRaised, bs1) \<and>
     bx_execute bx_escaping bs1 (bx_call Http_POST 0) = (Inl BrokerTransportRaised, bs2) \<and>
     contacts (bs_events bs2) = 2 \<and> bs_results bs2 = Map.empty"
proof -
  obtain d where d: "decide bx_digest bx_env bx_scope (http_action (bx_call Http_POST 0) (bx_plan Http_POST 0) ''https://a.t/x'' 1000)
      [bx_approval] = Inr d" "effect d = ALLOW"
    using bx_post_allowed by (cases "decide bx_digest bx_env bx_scope
      (http_action (bx_call Http_POST 0) (bx_plan Http_POST 0) ''https://a.t/x'' 1000) [bx_approval]") auto
  have "\<exists>bs1 bs2. bx_execute bx_escaping empty_broker_state (bx_call Http_POST 0) = (Inl BrokerTransportRaised, bs1) \<and>
     bx_execute bx_escaping bs1 (bx_call Http_POST 0) = (Inl BrokerTransportRaised, bs2) \<and>
     bs_results bs2 = bs_results empty_broker_state \<and>
     bs_events bs2 = bs_events empty_broker_state @ [Resolve ''a.t'', Send (wire_request (bx_plan Http_POST 0) (hp_url (bx_plan Http_POST 0)) ''9.9.9.9''),
        Resolve ''a.t'', Send (wire_request (bx_plan Http_POST 0) (hp_url (bx_plan Http_POST 0)) ''9.9.9.9'')]"
    by (rule escaped_exception_sends_again [OF bx_validated(2), where d = d])
      (use d bx_gate in \<open>simp_all add: empty_broker_state_def bx_call_def bx_plan_def bx_task_def bx_broker_def bx_escaping_def\<close>)
  then show ?thesis by (auto simp: empty_broker_state_def)
qed

lemma known_ips_normal: "normalize_ips L KNOWN_METADATA_IPS = Some KNOWN_METADATA_IPS"
  by (cases L; cases "il_dotted_mapped L"; cases "il_delegates_mapped L"; code_simp)

text \<open>C40. The guard against metadata services compares texts, and an IPv4-mapped IPv6 address has another text: a broker built
  with the default lists refuses the metadata address 100.100.100.200 and admits \<^verbatim>\<open>::ffff:100.100.100.200\<close>, which embeds
  the very same IPv4 address, with every release of the address library.\<close>

theorem metadata_guard_misses_mapped:
  assumes "ToolBroker_create L s R resolver_impl http_impl tls_impl [] None A = Some B"
  shows "admit_address L B ''100.100.100.200'' = None \<and>
      (\<exists>v w. ip_parse ''100.100.100.200'' = Some (IPv4 v) \<and> ip_parse ''::ffff:100.100.100.200'' = Some (IPv6 w None) \<and>
         mapped_ipv4 w = Some v) \<and>
      (\<exists>t. admit_address L B ''::ffff:100.100.100.200'' = Some t)"
proof -
  from assms have B: "bk_blocked_ips B = KNOWN_METADATA_IPS" "bk_allowed_ips B = None"
    by (auto simp: ToolBroker_create_def known_ips_normal split: option.splits if_splits)
  have p: "ip_parse ''100.100.100.200'' = Some (IPv4 1684301000)"
    "ip_parse ''::ffff:100.100.100.200'' = Some (IPv6 281472366044360 None)"
    "mapped_ipv4 281472366044360 = Some 1684301000" by code_simp+
  have t: "ip_text L (IPv4 1684301000) = ''100.100.100.200''" by (cases L) code_simp
  have "ip_text \<lparr>il_delegates_mapped = a, il_dotted_mapped = b\<rparr> (IPv6 281472366044360 None) \<notin> set KNOWN_METADATA_IPS \<and>
      \<not> ip_special \<lparr>il_delegates_mapped = a, il_dotted_mapped = b\<rparr> (IPv6 281472366044360 None)" for a b
    by (cases a rule: bool.exhaust; cases b rule: bool.exhaust; hypsubst; code_simp)
  then have m: "ip_text L (IPv6 281472366044360 None) \<notin> set KNOWN_METADATA_IPS \<and> \<not> ip_special L (IPv6 281472366044360 None)"
    by (cases L) blast
  have "''100.100.100.200'' \<in> set KNOWN_METADATA_IPS" by code_simp
  then show ?thesis using B p t m by (simp add: admit_address_def Let_def)
qed

theorem metadata_guard_misses_mapped_witness:
  "\<exists>B t. ToolBroker_create bx_lib bx_scope (bk_registry (bx_broker bx_offline)) None None None [] None bx_offline = Some B \<and>
     admit_address bx_lib B ''100.100.100.200'' = None \<and> admit_address bx_lib B ''::ffff:100.100.100.200'' = Some t"
proof -
  let ?c = "ToolBroker_create bx_lib bx_scope (bk_registry (bx_broker bx_offline)) None None None [] None bx_offline"
  have "?c \<noteq> None" by (simp add: ToolBroker_create_def known_ips_normal)
  then obtain B where B: "?c = Some B" by blast
  from metadata_guard_misses_mapped [OF B] B show ?thesis by blast
qed

end
