(* ===== verification/Sandbox_Runner.thy ===== *)
theory Sandbox_Runner
  imports Runner_Models Replay_Cache
begin

text \<open>
  The preflight every sandbox runner shares (\<^verbatim>\<open>src/src/vulnloom/runners/preflight.py\<close>), the deterministic offline runner
  (\<^verbatim>\<open>runners/offline.py\<close>) and the profile factories (\<^verbatim>\<open>runners/profiles.py\<close>). The state of the runner is its dictionary of
  results. A cancellation signal is the run it is bound to and whether it was requested.
\<close>

section \<open>Preflight\<close>

datatype runner_error =
    RunnerRejected string
  | RunnerIdempotencyConflict
  | RunnerEnvironment environment_error
  | RunnerResultInvalid

fun ROLE_PROFILES :: "WorkerRole \<Rightarrow> SandboxProfileKind" where
  "ROLE_PROFILES Role_SCOPE_INTERPRETER = Profile_STATIC"
| "ROLE_PROFILES Role_SOURCE_MAPPER = Profile_STATIC"
| "ROLE_PROFILES Role_HYPOTHESIS = Profile_STATIC"
| "ROLE_PROFILES Role_ANALYZER = Profile_STATIC"
| "ROLE_PROFILES Role_VALIDATOR = Profile_VALIDATION"
| "ROLE_PROFILES Role_CRITIC = Profile_REPORT"
| "ROLE_PROFILES Role_REPORTER = Profile_REPORT"
| "ROLE_PROFILES Role_RED_TEAM_OPERATOR = Profile_POST_EXPLOITATION"

fun required_mount :: "WorkingDirectory \<Rightarrow> MountKind" where
  "required_mount Work_SOURCE = Mount_SNAPSHOT"
| "required_mount Work_OUTPUT = Mount_OUTPUT"
| "required_mount Work_TEMP = Mount_TEMP"

definition checkpoint_matches :: "(pyval \<Rightarrow> digest) \<Rightarrow> SandboxRunRequest \<Rightarrow> RunnerCheckpoint \<Rightarrow> bool" where
  "checkpoint_matches H r k \<longleftrightarrow>
     (let t = rq_task r in
      rk_task_id k = te_task_id t \<and> rk_target_id k = te_target_id t \<and> rk_target_version k = te_target_version t \<and>
      rk_scope_id k = te_scope_id t \<and> rk_scope_version k = te_scope_version t \<and>
      rk_policy_digest k = te_policy_digest t \<and>
      rk_sandbox_profile_digest k = sandbox_profile_digest H (rq_profile r) \<and>
      rk_invocation_digest k = invocation_digest H (rq_invocation r) \<and> rq_attempt r = rk_attempt k + 1)"

definition validate_run_request ::
  "(pyval \<Rightarrow> digest) \<Rightarrow> string list \<Rightarrow> SandboxRunRequest \<Rightarrow> runner_error + SandboxRunRequest" where
  "validate_run_request H registered r0 =
     (case SandboxRunRequest_validate H r0 of
        None \<Rightarrow> Inl (RunnerRejected ''sandbox run request failed boundary validation'')
      | Some r \<Rightarrow>
          let t = rq_task r; p = rq_profile r; tool = ti_tool_id (rq_invocation r) in
          if te_sandbox_profile_digest t \<noteq> sandbox_profile_digest H p
          then Inl (RunnerRejected ''TaskEnvelope is bound to another SandboxProfile'')
          else if ROLE_PROFILES (te_worker_role t) \<noteq> sp_kind p
          then Inl (RunnerRejected ''Worker role cannot use this SandboxProfile kind'')
          else if tool \<notin> set registered \<or> tool \<notin> set (te_allowed_tools t) \<or> tool \<notin> set (sp_allowed_tools p)
          then Inl (RunnerRejected ''tool is not registered and allowed by both task and profile'')
          else if tb_tool_calls (te_budget t) < 1
          then Inl (RunnerRejected ''TaskEnvelope has no tool-call budget'')
          else
            (case build_worker_environment (rq_environment r) of
               Inl e \<Rightarrow> Inl (RunnerEnvironment e)
             | Inr _ \<Rightarrow>
                 if required_mount (ti_working_directory (rq_invocation r)) \<notin> mount_kinds p
                 then Inl (RunnerRejected ''working directory is unavailable in the SandboxProfile'')
                 else if sp_max_attempts p < rq_attempt r
                 then Inl (RunnerRejected ''run attempt exceeds the SandboxProfile retry limit'')
                 else
                   (case rq_resume_from r of
                      None \<Rightarrow>
                        if rq_attempt r \<noteq> 1
                        then Inl (RunnerRejected ''non-initial attempt requires a checkpoint'') else Inr r
                    | Some k \<Rightarrow>
                        if checkpoint_digest H k \<noteq> rk_checkpoint_id k
                        then Inl (RunnerRejected ''checkpoint content digest mismatch'')
                        else if \<not> checkpoint_matches H r k
                        then Inl (RunnerRejected ''checkpoint does not match the run request'')
                        else Inr r)))"

section \<open>The offline runner\<close>

datatype OfflineOutcome = Off_COMPLETED | Off_CHECKPOINTED | Off_FAILED | Off_CANCELLED

record OfflineScenario =
  of_outcome :: OfflineOutcome
  of_usage :: SandboxUsage
  of_evidence_refs :: "digest list"

text \<open>\<^verbatim>\<open>OfflineScenario()\<close>\<close>

definition default_scenario :: OfflineScenario where
  "default_scenario =
     \<lparr>of_outcome = Off_COMPLETED,
      of_usage = \<lparr>sz_wall_seconds = 1 / 100, sz_cpu_millis = 1, sz_peak_memory_bytes = 1024, sz_pids_peak = 1,
        sz_open_files_peak = 3, sz_output_bytes = 0, sz_temporary_bytes = 0\<rparr>,
      of_evidence_refs = []\<rparr>"

definition OfflineScenario_valid :: "OfflineScenario \<Rightarrow> bool" where
  "OfflineScenario_valid x \<longleftrightarrow> SandboxUsage_valid (of_usage x) \<and> list_all is_digest (of_evidence_refs x)"

definition over_limits :: "SandboxLimits \<Rightarrow> SandboxUsage \<Rightarrow> bool" where
  "over_limits l u \<longleftrightarrow>
     sl_cpu_millis l < sz_cpu_millis u \<or> sl_memory_bytes l < sz_peak_memory_bytes u \<or> sl_pids l < sz_pids_peak u \<or>
     sl_open_files l < sz_open_files_peak u \<or> sl_file_bytes l < sz_output_bytes u \<or>
     sl_tmp_bytes l < sz_temporary_bytes u"

definition wall_limit :: "SandboxRunRequest \<Rightarrow> int" where
  "wall_limit r = min (tb_wall_seconds (te_budget (rq_task r))) (sl_wall_seconds (sp_limits (rq_profile r)))"

definition run_checkpoint :: "(pyval \<Rightarrow> digest) \<Rightarrow> SandboxRunRequest \<Rightarrow> RunnerCheckpoint" where
  "run_checkpoint H r =
     (let t = rq_task r;
          partial = \<lparr>rk_checkpoint_id = replicate 64 (CHR ''0''), rk_task_id = te_task_id t, rk_target_id = te_target_id t,
            rk_target_version = te_target_version t, rk_scope_id = te_scope_id t, rk_scope_version = te_scope_version t,
            rk_policy_digest = te_policy_digest t, rk_sandbox_profile_digest = sandbox_profile_digest H (rq_profile r),
            rk_invocation_digest = invocation_digest H (rq_invocation r), rk_attempt = rq_attempt r\<rparr>
      in partial\<lparr>rk_checkpoint_id := checkpoint_digest H partial\<rparr>)"

text \<open>The status, the error codes and the checkpoint of a run.\<close>

definition offline_run_outcome ::
  "(pyval \<Rightarrow> digest) \<Rightarrow> SandboxRunRequest \<Rightarrow> instant \<Rightarrow> OfflineScenario \<Rightarrow> bool
   \<Rightarrow> SandboxRunStatus \<times> string list \<times> RunnerCheckpoint option" where
  "offline_run_outcome H r now x cancelled =
     (if cancelled then (Run_CANCELLED, [''cancelled_by_control_plane''], None)
      else if te_deadline (rq_task r) \<le> now \<or> rat_of_int (wall_limit r) < sz_wall_seconds (of_usage x)
      then (Run_TIMED_OUT, [''wall_time_budget_exceeded''], None)
      else if over_limits (sp_limits (rq_profile r)) (of_usage x)
      then (Run_FAILED, [''sandbox_resource_limit_exceeded''], None)
      else case of_outcome x of
             Off_CANCELLED \<Rightarrow> (Run_CANCELLED, [''cancelled_by_control_plane''], None)
           | Off_FAILED \<Rightarrow> (Run_FAILED, [''offline_scenario_failed''], None)
           | Off_CHECKPOINTED \<Rightarrow>
               if sp_max_attempts (rq_profile r) \<le> rq_attempt r then (Run_FAILED, [''retry_limit_exhausted''], None)
               else (Run_CHECKPOINTED, [], Some (run_checkpoint H r))
           | Off_COMPLETED \<Rightarrow> (Run_COMPLETED, [], None))"

definition offline_result ::
  "(pyval \<Rightarrow> digest) \<Rightarrow> SandboxRunRequest \<Rightarrow> instant \<Rightarrow> OfflineScenario \<Rightarrow> bool \<Rightarrow> SandboxRunResult" where
  "offline_result H r now x cancelled =
     (let (status, errors, checkpoint) = offline_run_outcome H r now x cancelled in
      \<lparr>rs_run_id = rq_run_id r, rs_task_id = te_task_id (rq_task r), rs_status = status,
       rs_sandbox_profile_digest = sandbox_profile_digest H (rq_profile r),
       rs_invocation_digest = invocation_digest H (rq_invocation r),
       rs_budget_used = \<lparr>tb_wall_seconds = max 1 (min \<lfloor>sz_wall_seconds (of_usage x)\<rfloor> (wall_limit r)), tb_model_tokens = 0,
         tb_tool_calls = (if status = Run_TIMED_OUT \<or> cancelled then 0 else 1)\<rparr>,
       rs_usage = of_usage x, rs_evidence_refs = (if status = Run_COMPLETED then of_evidence_refs x else []),
       rs_outputs = [], rs_checkpoint = checkpoint, rs_error_codes = errors,
       rs_cleanup = \<lparr>cr_processes_terminated = True, cr_network_released = True, cr_writable_layer_removed = True,
         cr_temporary_mounts_removed = True\<rparr>\<rparr>)"

type_synonym runner_state = "string \<rightharpoonup> digest \<times> SandboxRunResult"

definition execute_offline ::
  "(pyval \<Rightarrow> digest) \<Rightarrow> string list \<Rightarrow> runner_state \<Rightarrow> SandboxRunRequest \<Rightarrow> instant \<Rightarrow> OfflineScenario option
   \<Rightarrow> (uuid \<times> bool) option \<Rightarrow> (runner_error + SandboxRunResult) \<times> runner_state" where
  "execute_offline H registered rs r0 now scenario cancellation =
     (case validate_run_request H registered r0 of
        Inl e \<Rightarrow> (Inl e, rs)
      | Inr r \<Rightarrow>
          if (case cancellation of None \<Rightarrow> False | Some (i, _) \<Rightarrow> i \<noteq> rq_run_id r)
          then (Inl (RunnerRejected ''cancellation signal is bound to another run''), rs)
          else
            (case rs (rq_idempotency_key r) of
               Some (d, y) \<Rightarrow> if d \<noteq> run_request_digest H r then (Inl RunnerIdempotencyConflict, rs) else (Inr y, rs)
             | None \<Rightarrow>
                 (let x = (case scenario of None \<Rightarrow> default_scenario | Some x \<Rightarrow> x);
                      cancelled = (case cancellation of None \<Rightarrow> False | Some (_, requested) \<Rightarrow> requested);
                      y = offline_result H r now x cancelled
                  in if SandboxRunResult_valid y
                     then (Inr y, rs(rq_idempotency_key r \<mapsto> (run_request_digest H r, y)))
                     else (Inl RunnerResultInvalid, rs))))"

section \<open>Profile factories\<close>

definition scratch_mounts :: "SandboxMount list" where
  "scratch_mounts =
     [\<lparr>sm_kind = Mount_OUTPUT, sm_destination = ''/workspace/output'', sm_object_id = None, sm_read_only = False\<rparr>,
      \<lparr>sm_kind = Mount_TEMP, sm_destination = ''/tmp'', sm_object_id = None, sm_read_only = False\<rparr>]"

definition default_limits :: "int \<Rightarrow> SandboxLimits" where
  "default_limits n =
     \<lparr>sl_wall_seconds = n, sl_cpu_millis = n * 2000, sl_memory_bytes = 512 * 1024 * 1024, sl_pids = 128,
      sl_open_files = 1024, sl_file_bytes = 64 * 1024 * 1024, sl_tmp_bytes = 256 * 1024 * 1024\<rparr>"

text \<open>The fields the factories share: the fixed user, the defaults of \<^verbatim>\<open>SandboxProfile\<close> and the given mounts.\<close>

definition base_profile ::
  "(pyval \<Rightarrow> digest) \<Rightarrow> SandboxProfileKind \<Rightarrow> string \<Rightarrow> SandboxMount list \<Rightarrow> string list \<Rightarrow> SandboxLimits \<Rightarrow> SandboxProfile" where
  "base_profile H kind img mounts tools limits =
     \<lparr>sp_kind = kind, sp_image_digest = img, sp_seccomp_contract_digest = WORKER_SECCOMP_CONTRACT_ID H,
      sp_run_as_uid = 65532, sp_run_as_gid = 65532, sp_read_only_root = True, sp_no_new_privileges = True,
      sp_capabilities = [], sp_network_mode = Net_NONE, sp_network_grants = [], sp_mounts = mounts,
      sp_writable_paths = [''/tmp'', ''/workspace/output''], sp_allowed_tools = tools, sp_execute_target_code = False,
      sp_max_attempts = 2, sp_limits = limits\<rparr>"

definition content_slot :: "MountKind \<Rightarrow> digest \<Rightarrow> SandboxMount" where
  "content_slot k i =
     \<lparr>sm_kind = k, sm_destination = MOUNT_DESTINATIONS k, sm_object_id = Some i, sm_read_only = True\<rparr>"

definition analyzer_profile ::
  "(pyval \<Rightarrow> digest) \<Rightarrow> string \<Rightarrow> digest \<Rightarrow> string \<Rightarrow> SandboxLimits \<Rightarrow> digest option \<Rightarrow> SandboxProfile" where
  "analyzer_profile H img snapshot tool limits data =
     base_profile H Profile_STATIC img
       (content_slot Mount_SNAPSHOT snapshot #
        (case data of None \<Rightarrow> [] | Some d \<Rightarrow> [content_slot Mount_ANALYZER_DATA d]) @ scratch_mounts) [tool] limits"

definition static_profile :: "(pyval \<Rightarrow> digest) \<Rightarrow> string \<Rightarrow> digest \<Rightarrow> SandboxProfile" where
  "static_profile H img snapshot =
     base_profile H Profile_STATIC img (content_slot Mount_SNAPSHOT snapshot # scratch_mounts)
       [''source.read'', ''source.search'', ''analyzer.run''] (default_limits 300)"

definition validation_profile :: "(pyval \<Rightarrow> digest) \<Rightarrow> string \<Rightarrow> digest \<Rightarrow> NetworkGrant list \<Rightarrow> SandboxProfile" where
  "validation_profile H img snapshot grants =
     (base_profile H Profile_VALIDATION img (content_slot Mount_SNAPSHOT snapshot # scratch_mounts)
        [''sandbox.test'', ''http.request''] (default_limits 600))
       \<lparr>sp_network_mode := (if grants = [] then Net_NONE else Net_TARGET_ONLY), sp_network_grants := grants,
        sp_execute_target_code := True\<rparr>"

definition report_profile :: "(pyval \<Rightarrow> digest) \<Rightarrow> string \<Rightarrow> digest \<Rightarrow> SandboxProfile" where
  "report_profile H img evidence =
     base_profile H Profile_REPORT img (content_slot Mount_EVIDENCE evidence # scratch_mounts)
       [''evidence.read'', ''report.write''] (default_limits 300)"

definition post_exploitation_profile :: "(pyval \<Rightarrow> digest) \<Rightarrow> string \<Rightarrow> digest \<Rightarrow> SandboxProfile" where
  "post_exploitation_profile H img evidence =
     base_profile H Profile_POST_EXPLOITATION img (content_slot Mount_EVIDENCE evidence # scratch_mounts)
       [''red_team.evidence_read'', ''red_team.result_write''] (default_limits 300)"

section \<open>Facts\<close>

lemma SandboxRunRequest_validate_SomeD:
  "SandboxRunRequest_validate H r0 = Some r \<Longrightarrow>
     rq_run_id r = rq_run_id r0 \<and> rq_task r = rq_task r0 \<and> rq_invocation r = rq_invocation r0 \<and>
     rq_idempotency_key r = rq_idempotency_key r0 \<and> TaskEnvelope_valid (rq_task r) \<and>
     SandboxProfile_validate H (rq_profile r0) = Some (rq_profile r)"
  by (auto simp: SandboxRunRequest_validate_def split: option.splits if_splits)

lemma validate_run_request_InrD:
  "validate_run_request H registered r0 = Inr r \<Longrightarrow>
     SandboxRunRequest_validate H r0 = Some r \<and> ROLE_PROFILES (te_worker_role (rq_task r)) = sp_kind (rq_profile r) \<and>
     ti_tool_id (rq_invocation r) \<in> set registered \<and> ti_tool_id (rq_invocation r) \<in> set (te_allowed_tools (rq_task r)) \<and>
     ti_tool_id (rq_invocation r) \<in> set (sp_allowed_tools (rq_profile r)) \<and>
     te_sandbox_profile_digest (rq_task r) = sandbox_profile_digest H (rq_profile r) \<and>
     rq_attempt r \<le> sp_max_attempts (rq_profile r)"
  by (simp add: validate_run_request_def Let_def split: option.splits if_splits sum.splits)

definition admitted_request :: "(pyval \<Rightarrow> digest) \<Rightarrow> string list \<Rightarrow> SandboxRunRequest \<Rightarrow> bool" where
  "admitted_request H registered r \<longleftrightarrow> is_ok (validate_run_request H registered r)"

definition normalized_request_digest :: "(pyval \<Rightarrow> digest) \<Rightarrow> string list \<Rightarrow> SandboxRunRequest \<Rightarrow> digest" where
  "normalized_request_digest H registered r0 =
     (case validate_run_request H registered r0 of Inl _ \<Rightarrow> [] | Inr r \<Rightarrow> run_request_digest H r)"

text \<open>A call whose cancellation signal, if there is one, is bound to the run.\<close>

definition offline_exec ::
  "(pyval \<Rightarrow> digest) \<Rightarrow> string list \<Rightarrow> runner_state \<Rightarrow> instant \<times> OfflineScenario option \<times> bool option \<Rightarrow> SandboxRunRequest
   \<Rightarrow> (runner_error + SandboxRunResult) \<times> runner_state" where
  "offline_exec H registered rs x r =
     execute_offline H registered rs r (fst x) (fst (snd x)) (map_option (\<lambda>b. (rq_run_id r, b)) (snd (snd x)))"

lemma bound_cancellation:
  "validate_run_request H registered r0 = Inr r \<Longrightarrow>
     \<not> (case map_option (\<lambda>b. (rq_run_id r0, b)) c of None \<Rightarrow> False | Some (i, _) \<Rightarrow> i \<noteq> rq_run_id r)"
  by (auto dest!: validate_run_request_InrD SandboxRunRequest_validate_SomeD split: option.splits)

interpretation offline_cache: replaying_service "offline_exec H registered" "\<lambda>s :: runner_state. s"
  "admitted_request H registered" "rq_idempotency_key :: SandboxRunRequest \<Rightarrow> string"
  "normalized_request_digest H registered" RunnerIdempotencyConflict
proof
  fix c :: SandboxRunRequest and s s' :: runner_state and x r
  show "\<not> admitted_request H registered c \<Longrightarrow> offline_exec H registered s x c = (r, s') \<Longrightarrow> s' = s \<and> \<not> is_ok r"
    by (auto simp: admitted_request_def offline_exec_def execute_offline_def split: sum.splits)
next
  fix c :: SandboxRunRequest and s :: runner_state and x d y
  assume "admitted_request H registered c" and k: "s (rq_idempotency_key c) = Some (d, y)"
  then obtain r where r: "validate_run_request H registered c = Inr r" by (auto simp: admitted_request_def is_ok_iff)
  moreover have "rq_idempotency_key r = rq_idempotency_key c"
    using validate_run_request_InrD [OF r] SandboxRunRequest_validate_SomeD by blast
  ultimately show "offline_exec H registered s x c =
      (if d \<noteq> normalized_request_digest H registered c then Inl RunnerIdempotencyConflict else Inr y, s)"
    using k bound_cancellation [OF r, of "snd (snd x)"]
    by (simp add: offline_exec_def execute_offline_def normalized_request_digest_def)
next
  fix c :: SandboxRunRequest and s s' :: runner_state and x r
  assume "admitted_request H registered c" and k: "s (rq_idempotency_key c) = None"
    and e: "offline_exec H registered s x c = (r, s')"
  then obtain q where q: "validate_run_request H registered c = Inr q" by (auto simp: admitted_request_def is_ok_iff)
  moreover have "rq_idempotency_key q = rq_idempotency_key c"
    using validate_run_request_InrD [OF q] SandboxRunRequest_validate_SomeD by blast
  ultimately show "s' = (case r of Inl e \<Rightarrow> s | Inr y \<Rightarrow> s(rq_idempotency_key c \<mapsto> (normalized_request_digest H registered c, y)))"
    using k e bound_cancellation [OF q, of "snd (snd x)"]
    by (auto simp: offline_exec_def execute_offline_def normalized_request_digest_def Let_def split: if_splits)
qed

end
