(* ===== verification/Sandbox_Properties.thy ===== *)
theory Sandbox_Properties
  imports Sandbox_Runner Broker_Examples
begin

text \<open>
  The properties of the sandbox runner: profiles that are safe by construction, checkpoints that resume, and runs that are
  answered once. Each property is followed by a closed instance.
\<close>

section \<open>Profiles\<close>

lemma is_space_lower: "is_space (char_lower c) = is_space c"
  by (auto simp: is_space_def char_lower_def ascii_lower_def char_code_def)

lemma strip_lower: "strip (lower s) = lower (strip s)"
  by (simp add: strip_def lower_def dropWhile_map rev_map comp_def is_space_lower)

lemma dropWhile_same_length: "length (dropWhile P xs) = length xs \<Longrightarrow> dropWhile P xs = xs"
  by (metis append_Nil length_0_conv add_cancel_left_left length_append takeWhile_dropWhile_id)

lemma strip_same_length: "length (strip s) = length s \<Longrightarrow> strip s = s"
proof -
  assume l: "length (strip s) = length s"
  have "length (strip s) \<le> length (dropWhile is_space s)" "length (dropWhile is_space s) \<le> length s"
    using length_dropWhile_le [of is_space "rev (dropWhile is_space s)"] by (simp_all add: strip_def length_dropWhile_le)
  with l have a: "dropWhile is_space s = s" by (intro dropWhile_same_length) simp
  with l have "dropWhile is_space (rev s) = rev s" by (intro dropWhile_same_length) (simp add: strip_def)
  with a show ?thesis by (simp add: strip_def)
qed

lemma NetworkGrant_validate_stable:
  assumes "NetworkGrant_validate g = Some g'"
  shows "NetworkGrant_validate g' = Some g'"
proof -
  have ll: "lower (lower x) = lower x" "map lower (map lower xs) = map lower xs" for x xs
    by (simp_all add: lower_def comp_def char_lower_idem)
  from assms have h: "lower (strip (ng_host g)) = lower (ng_host g)" by (simp add: NetworkGrant_validate_def split: if_splits)
  then have "length (strip (ng_host g)) = length (ng_host g)" by (metis length_map lower_def)
  then have s: "strip (ng_host g) = ng_host g" by (rule strip_same_length)
  with assms have g: "g' = g\<lparr>ng_host := lower (ng_host g), ng_schemes := map lower (ng_schemes g)\<rparr>"
    by (simp add: NetworkGrant_validate_def split: if_splits)
  have f: "ng_host g' = lower (ng_host g)" "ng_schemes g' = map lower (ng_schemes g)" "ng_ports g' = ng_ports g"
    by (simp_all add: g)
  have len: "length (lower (ng_host g)) = length (ng_host g)" "lower (ng_host g) = [] \<longleftrightarrow> ng_host g = []"
    by (simp_all add: lower_def)
  have e: "g'\<lparr>ng_host := lower (ng_host g), ng_schemes := map lower (ng_schemes g)\<rparr> = g'" by (simp add: g)
  have "NetworkGrant_validate g' = (if NetworkGrant_validate g = None then None else Some g')"
    unfolding NetworkGrant_validate_def f strip_lower s ll len e by (simp only: g if_cancel map_is_Nil_conv option.distinct split: if_splits) simp
  with assms show ?thesis by simp
qed

lemma validate_all_stable:
  "(\<And>x y. f x = Some y \<Longrightarrow> f y = Some y) \<Longrightarrow> validate_all f xs = Some ys \<Longrightarrow> validate_all f ys = Some ys"
  by (induction xs arbitrary: ys) (auto split: option.splits)

lemma SandboxProfile_validate_stable:
  assumes "SandboxProfile_validate H p = Some q"
  shows "SandboxProfile_validate H q = Some q"
proof -
  from assms obtain gs where gs: "validate_all NetworkGrant_validate (sp_network_grants p) = Some gs"
    and q: "q = p\<lparr>sp_network_grants := gs\<rparr>"
    by (auto simp: SandboxProfile_validate_def Let_def split: option.splits if_splits)
  have "validate_all NetworkGrant_validate gs = Some gs"
    by (rule validate_all_stable [OF NetworkGrant_validate_stable gs])
  with assms gs q show ?thesis by (simp add: SandboxProfile_validate_def)
qed

lemma base_profile_fields:
  assumes "hex_valued H" and "is_image_digest img" and "list_all SandboxMount_valid ms" and "list_all is_reason_code ts"
    and "SandboxLimits_valid l"
  shows "SandboxProfile_fields (base_profile H k img ms ts l)"
  using assms by (simp add: SandboxProfile_fields_def base_profile_def WORKER_SECCOMP_CONTRACT_ID_def hex_valued_def)

lemma mounts_valid:
  "list_all SandboxMount_valid scratch_mounts" "is_digest i \<Longrightarrow> content_mount k \<Longrightarrow> SandboxMount_valid (content_slot k i)"
  by (simp_all add: scratch_mounts_def SandboxMount_valid_def content_mount_def content_slot_def)

lemma factory_tools:
  "list_all is_reason_code [''source.read'', ''source.search'', ''analyzer.run'']"
  "list_all is_reason_code [''sandbox.test'', ''http.request'']"
  "list_all is_reason_code [''evidence.read'', ''report.write'']"
  "list_all is_reason_code [''red_team.evidence_read'', ''red_team.result_write'']"
  by code_simp+

lemma factory_limits: "SandboxLimits_valid (default_limits 300)" "SandboxLimits_valid (default_limits 600)"
  by (simp_all add: SandboxLimits_valid_def default_limits_def)

lemma base_profile_hardened:
  assumes "map sm_kind ms = ks @ [Mount_OUTPUT, Mount_TEMP]" and "distinct ks" and "set ks \<inter> {Mount_OUTPUT, Mount_TEMP} = {}"
  shows "profile_hardened H (base_profile H k img ms ts l)"
proof -
  have "mount_kinds (base_profile H k img ms ts l) = set ks \<union> {Mount_OUTPUT, Mount_TEMP}"
    using arg_cong [OF assms(1), of set] by (simp add: mount_kinds_def base_profile_def)
  with assms show ?thesis by (auto simp: profile_hardened_def base_profile_def)
qed

text \<open>A profile of the factories whose mount slots fit its kind is admitted as it stands.\<close>

lemma base_profile_admitted:
  assumes "SandboxProfile_fields (base_profile H k img ms ts l)"
    and "map sm_kind ms = ks @ [Mount_OUTPUT, Mount_TEMP]" and "distinct ks" and "set ks \<inter> {Mount_OUTPUT, Mount_TEMP} = {}"
    and "profile_slots (base_profile H k img ms ts l)"
  shows "SandboxProfile_validate H (base_profile H k img ms ts l) = Some (base_profile H k img ms ts l)"
proof -
  have g: "(base_profile H k img ms ts l)\<lparr>sp_network_grants := []\<rparr> = base_profile H k img ms ts l"
    "sp_network_grants (base_profile H k img ms ts l) = []" by (simp_all add: base_profile_def)
  show ?thesis using assms(1,5) base_profile_hardened [OF assms(2-4)] by (simp add: SandboxProfile_validate_def Let_def g)
qed

lemma content_kind [simp]: "sm_kind (content_slot k i) = k"
  by (simp add: content_slot_def)

lemma scratch_kinds [simp]: "map sm_kind scratch_mounts = [Mount_OUTPUT, Mount_TEMP]"
  "sm_kind ` set scratch_mounts = {Mount_OUTPUT, Mount_TEMP}"
  by (simp_all add: scratch_mounts_def)

lemmas slot_rules = profile_slots_def mount_kinds_def base_profile_def source_kinds_def report_kinds_def

lemma factory_slots:
  "profile_slots (static_profile H img i)" "profile_slots (report_profile H img i)"
  "profile_slots (post_exploitation_profile H img i)" "profile_slots (validation_profile H img i grants)"
  by (auto simp: slot_rules static_profile_def report_profile_def post_exploitation_profile_def validation_profile_def)

lemma analyzer_slots:
  "data = None \<or> take 9 tool = ''analyzer.'' \<Longrightarrow> profile_slots (analyzer_profile H img i tool l data)"
  by (cases data) (auto simp: slot_rules analyzer_profile_def)

lemma content_kinds: "content_mount Mount_SNAPSHOT" "content_mount Mount_EVIDENCE" "content_mount Mount_ANALYZER_DATA"
  by (simp_all add: content_mount_def)

lemma validation_profile_admitted:
  assumes "SandboxProfile_fields (validation_profile H img i grants)"
    and "validate_all NetworkGrant_validate grants = Some grants"
  shows "SandboxProfile_validate H (validation_profile H img i grants) = Some (validation_profile H img i grants)"
proof -
  let ?p = "validation_profile H img i grants"
  have g: "sp_network_grants ?p = grants" "?p\<lparr>sp_network_grants := grants\<rparr> = ?p"
    by (simp_all add: validation_profile_def)
  have "profile_hardened H ?p"
    by (auto simp: profile_hardened_def mount_kinds_def validation_profile_def base_profile_def)
  then show ?thesis using assms factory_slots(4) by (simp add: SandboxProfile_validate_def Let_def g)
qed

text \<open>C26. The profile factories are safe by construction: given an image digest and content digests, each of them returns a
  profile that passes its own validation unchanged; the profile of an analyzer needs a tool id that starts with
  \<^verbatim>\<open>analyzer.\<close> when analyzer data is mounted, and the validation profile grants that are already normalised.\<close>

theorem factories_are_admitted:
  assumes "hex_valued H" and "is_image_digest img" and "is_digest i" and "opt_all is_digest data"
    and "is_reason_code tool" and "data = None \<or> take 9 tool = ''analyzer.''" and "SandboxLimits_valid l"
    and "validate_all NetworkGrant_validate grants = Some grants"
  shows "SandboxProfile_validate H (static_profile H img i) = Some (static_profile H img i) \<and>
      SandboxProfile_validate H (report_profile H img i) = Some (report_profile H img i) \<and>
      SandboxProfile_validate H (post_exploitation_profile H img i) = Some (post_exploitation_profile H img i) \<and>
      SandboxProfile_validate H (analyzer_profile H img i tool l data) = Some (analyzer_profile H img i tool l data) \<and>
      SandboxProfile_validate H (validation_profile H img i grants) = Some (validation_profile H img i grants)"
proof -
  note m = mounts_valid(1) mounts_valid(2) [OF assms(3)]
  note ok = m content_kinds factory_tools factory_limits
  note b = base_profile_fields [OF assms(1,2)]
  have "SandboxProfile_validate H (static_profile H img i) = Some (static_profile H img i)"
    unfolding static_profile_def
    by (rule base_profile_admitted [of _ _ _ _ _ _ "[Mount_SNAPSHOT]"])
      (use ok factory_slots(1) in \<open>simp_all add: b static_profile_def\<close>)
  moreover have "SandboxProfile_validate H (report_profile H img i) = Some (report_profile H img i)"
    unfolding report_profile_def
    by (rule base_profile_admitted [of _ _ _ _ _ _ "[Mount_EVIDENCE]"])
      (use ok factory_slots(2) in \<open>simp_all add: b report_profile_def\<close>)
  moreover have "SandboxProfile_validate H (post_exploitation_profile H img i) = Some (post_exploitation_profile H img i)"
    unfolding post_exploitation_profile_def
    by (rule base_profile_admitted [of _ _ _ _ _ _ "[Mount_EVIDENCE]"])
      (use ok factory_slots(3) in \<open>simp_all add: b post_exploitation_profile_def\<close>)
  moreover have "SandboxProfile_validate H (analyzer_profile H img i tool l data) = Some (analyzer_profile H img i tool l data)"
    unfolding analyzer_profile_def
    by (rule base_profile_admitted [of _ _ _ _ _ _ "Mount_SNAPSHOT # (if data = None then [] else [Mount_ANALYZER_DATA])"])
      (use ok assms(4,5,7) analyzer_slots [OF assms(6)] mounts_valid(2) in
        \<open>auto simp: analyzer_profile_def intro!: b split: option.splits\<close>)
  moreover have "SandboxProfile_fields (base_profile H Profile_VALIDATION img (content_slot Mount_SNAPSHOT i # scratch_mounts)
      [''sandbox.test'', ''http.request''] (default_limits 600))"
    using ok by (simp add: b)
  then have "SandboxProfile_fields (validation_profile H img i grants)"
    by (simp add: validation_profile_def SandboxProfile_fields_def)
  ultimately show ?thesis using validation_profile_admitted [OF _ assms(8)] by blast
qed

lemma bx_hex: "hex_valued bx_digest"
  by (simp add: hex_valued_def bx_digest_def hex_digits_digest)

theorem factories_are_admitted_witness:
  "SandboxProfile_validate bx_digest
       (analyzer_profile bx_digest (''sha256:'' @ hex_digits 64 1) (hex_digits 64 2) ''analyzer.x'' bx_limits (Some (hex_digits 64 3))) =
     Some (analyzer_profile bx_digest (''sha256:'' @ hex_digits 64 1) (hex_digits 64 2) ''analyzer.x'' bx_limits (Some (hex_digits 64 3)))"
proof -
  have i: "is_image_digest (''sha256:'' @ hex_digits 64 1)" by (simp add: is_image_digest_def hex_digits_digest)
  have t: "is_reason_code ''analyzer.x''" by code_simp
  have l: "SandboxLimits_valid bx_limits" by (simp add: SandboxLimits_valid_def bx_limits_def)
  from factories_are_admitted [OF bx_hex i hex_digits_digest [of 2] _ t _ l, of "Some (hex_digits 64 3)" "[]"]
  show ?thesis by (simp add: hex_digits_digest)
qed

section \<open>Resuming a run\<close>

lemma validate_run_request_cond:
  "validate_run_request H registered r0 = Inr r \<Longrightarrow>
     is_ok (build_worker_environment (rq_environment r)) \<and> 1 \<le> tb_tool_calls (te_budget (rq_task r)) \<and>
     required_mount (ti_working_directory (rq_invocation r)) \<in> mount_kinds (rq_profile r) \<and>
     ToolInvocation_valid (rq_invocation r) \<and> rq_idempotency_key r \<noteq> [] \<and> length (rq_idempotency_key r) \<le> 256 \<and>
     1 \<le> rq_attempt r \<and> rq_attempt r \<le> 3"
  by (auto simp: validate_run_request_def SandboxRunRequest_validate_def Let_def is_ok_iff
      split: option.splits if_splits sum.splits)

lemma profile_attempts: "SandboxProfile_validate H p = Some q \<Longrightarrow> sp_max_attempts q \<le> 3"
  by (auto simp: SandboxProfile_validate_def SandboxProfile_fields_def Let_def split: option.splits if_splits)

text \<open>C25. A checkpoint resumes: when an admitted run is checkpointed, the request for its next attempt, with the checkpoint it
  returned and otherwise unchanged, passes the preflight of every runner with the same tools as it stands.\<close>

theorem checkpoint_resumes:
  assumes "hex_valued H" and "validate_run_request H registered r0 = Inr r"
    and "offline_run_outcome H r now x cancelled = (Run_CHECKPOINTED, errors, Some k)"
  shows "validate_run_request H registered (r\<lparr>rq_attempt := rq_attempt r + 1, rq_resume_from := Some k\<rparr>) =
      Inr (r\<lparr>rq_attempt := rq_attempt r + 1, rq_resume_from := Some k\<rparr>)"
proof -
  from assms(3) have k: "k = run_checkpoint H r" "rq_attempt r < sp_max_attempts (rq_profile r)"
    by (auto simp: offline_run_outcome_def split: if_splits OfflineOutcome.splits)
  note v = validate_run_request_InrD [OF assms(2)] validate_run_request_cond [OF assms(2)]
  have s: "SandboxProfile_validate H (rq_profile r) = Some (rq_profile r)" "TaskEnvelope_valid (rq_task r)"
    using v SandboxRunRequest_validate_SomeD [of H r0 r] SandboxProfile_validate_stable by auto
  have a: "rq_attempt r + 1 \<le> 3" using k(2) profile_attempts [OF s(1)] by simp
  have kv: "RunnerCheckpoint_valid k" "checkpoint_digest H k = rk_checkpoint_id k"
    using k(1) assms(1) s(2) v by (simp_all add: run_checkpoint_def Let_def RunnerCheckpoint_valid_def checkpoint_digest_def
        hex_valued_def TaskEnvelope_valid_def sandbox_profile_digest_def invocation_digest_def RunnerCheckpoint_items_def)
  let ?q = "r\<lparr>rq_attempt := rq_attempt r + 1, rq_resume_from := Some k\<rparr>"
  have "SandboxRunRequest_validate H ?q = Some ?q"
    using s a v kv by (simp add: SandboxRunRequest_validate_def)
  moreover have "checkpoint_matches H ?q k"
    using k(1) by (simp add: checkpoint_matches_def run_checkpoint_def Let_def)
  ultimately show ?thesis
    using v k(2) kv(2) by (auto simp: validate_run_request_def Let_def is_ok_iff)
qed

definition bx_request :: SandboxRunRequest where
  "bx_request =
     \<lparr>rq_run_id = 61, rq_task = bx_task\<lparr>te_allowed_tools := [''t'']\<rparr>, rq_profile = bx_profile False,
      rq_invocation = \<lparr>ti_tool_id = ''t'', ti_arguments = [], ti_working_directory = Work_OUTPUT\<rparr>,
      rq_environment = [(''MODE'', ''x'')], rq_attempt = 1, rq_resume_from = None, rq_idempotency_key = ''run''\<rparr>"

lemma bx_request_admitted: "validate_run_request bx_digest [''t''] bx_request = Inr bx_request"
  by code_simp

theorem checkpoint_resumes_witness:
  "is_ok (validate_run_request bx_digest [''t'']
     (bx_request\<lparr>rq_attempt := 2, rq_resume_from := Some (run_checkpoint bx_digest bx_request)\<rparr>))"
proof -
  have "offline_run_outcome bx_digest bx_request 1000 (default_scenario\<lparr>of_outcome := Off_CHECKPOINTED\<rparr>) False =
      (Run_CHECKPOINTED, [], Some (run_checkpoint bx_digest bx_request))"
    by (simp add: offline_run_outcome_def bx_request_def bx_task_def bx_profile_def bx_limits_def wall_limit_def default_scenario_def
        over_limits_def)
  from checkpoint_resumes [OF bx_hex bx_request_admitted this] show ?thesis by (simp add: bx_request_def)
qed

end
