(* ===== verification/Validation_Models.thy ===== *)
theory Validation_Models
  imports Broker_Facts Sandbox_Runner Candidate_Lifecycle Evidence_Store
begin

text \<open>
  The sealed contracts of a validation (\<^verbatim>\<open>src/src/vulnloom/validation/models.py\<close>), the deterministic judge
  (\<^verbatim>\<open>validation/assertions.py\<close>) and the store of its executions (\<^verbatim>\<open>validation/store.py\<close>). The table is a list of rows; a
  JSON column is the model it encodes, and a timestamp column its instant.
\<close>

section \<open>Plans, verdicts and outcomes\<close>

record HttpResponseAssertion =
  ha_assertion_id :: digest
  ha_call_id :: uuid
  ha_expected_status_code :: int
  ha_expected_body_sha256 :: digest
  ha_match_result :: ValidationResult

definition HttpResponseAssertion_items :: "HttpResponseAssertion \<Rightarrow> (string \<times> pyval) list" where
  "HttpResponseAssertion_items a =
     [(''call_id'', PUuid (ha_call_id a)), (''expected_status_code'', PInt (ha_expected_status_code a)),
      (''expected_body_sha256'', PStr (ha_expected_body_sha256 a)),
      (''match_result'', PEnum (validation_result_value (ha_match_result a)))]"

definition HttpResponseAssertion_valid :: "(pyval \<Rightarrow> digest) \<Rightarrow> HttpResponseAssertion \<Rightarrow> bool" where
  "HttpResponseAssertion_valid H a \<longleftrightarrow>
     100 \<le> ha_expected_status_code a \<and> ha_expected_status_code a \<le> 599 \<and> is_digest (ha_expected_body_sha256 a) \<and>
     ha_match_result a \<in> {VR_REPRODUCED, VR_NOT_REPRODUCED} \<and>
     ha_assertion_id a = H (PDict (HttpResponseAssertion_items a))"

definition HttpResponseAssertion_create ::
  "(pyval \<Rightarrow> digest) \<Rightarrow> uuid \<Rightarrow> int \<Rightarrow> digest \<Rightarrow> ValidationResult \<Rightarrow> HttpResponseAssertion option" where
  "HttpResponseAssertion_create H call code body res =
     (let a = \<lparr>ha_assertion_id = [], ha_call_id = call, ha_expected_status_code = code, ha_expected_body_sha256 = body,
               ha_match_result = res\<rparr>;
          b = a\<lparr>ha_assertion_id := H (PDict (HttpResponseAssertion_items a))\<rparr>
      in if HttpResponseAssertion_valid H b then Some b else None)"

record ValidationPlan =
  vp_plan_id :: digest
  vp_candidate_id :: uuid
  vp_candidate_digest :: digest
  vp_target_id :: uuid
  vp_target_version :: string
  vp_scope_id :: uuid
  vp_scope_version :: int
  vp_selected_by :: string
  vp_selected_at :: instant
  vp_selection_reason :: string
  vp_runner_request :: SandboxRunRequest
  vp_broker_calls :: "BrokerCall list"
  vp_http_assertion :: "HttpResponseAssertion option"
  vp_idempotency_key :: string

definition ValidationPlan_content :: "ValidationPlan \<Rightarrow> pyval" where
  "ValidationPlan_content p = PDict
     [(''candidate_id'', PUuid (vp_candidate_id p)), (''candidate_digest'', PStr (vp_candidate_digest p)),
      (''target_id'', PUuid (vp_target_id p)), (''target_version'', PStr (vp_target_version p)),
      (''scope_id'', PUuid (vp_scope_id p)), (''scope_version'', PInt (vp_scope_version p)),
      (''selected_by'', PStr (vp_selected_by p)), (''selected_at'', PTime (vp_selected_at p)),
      (''selection_reason'', PStr (vp_selection_reason p)),
      (''runner_request'', PDict ((''run_id'', PUuid (rq_run_id (vp_runner_request p))) # run_request_items (vp_runner_request p))),
      (''broker_calls'', PList (map (\<lambda>c. PDict ((''call_id'', PUuid (bc_call_id c)) # BrokerCall_items c)) (vp_broker_calls p))),
      (''http_assertion'', p_opt (\<lambda>a. PDict ((''assertion_id'', PStr (ha_assertion_id a)) # HttpResponseAssertion_items a))
         (vp_http_assertion p)),
      (''idempotency_key'', PStr (vp_idempotency_key p))]"

definition validation_plan_digest :: "(pyval \<Rightarrow> digest) \<Rightarrow> ValidationPlan \<Rightarrow> digest" where
  "validation_plan_digest H p = H (ValidationPlan_content p)"

definition candidate_content_digest :: "(pyval \<Rightarrow> digest) \<Rightarrow> Candidate \<Rightarrow> digest" where
  "candidate_content_digest H c = H (Candidate_dump c)"

text \<open>The parts of a plan are models already, which Pydantic does not validate again.\<close>

definition ValidationPlan_valid :: "(pyval \<Rightarrow> digest) \<Rightarrow> ValidationPlan \<Rightarrow> bool" where
  "ValidationPlan_valid H p \<longleftrightarrow>
     is_digest (vp_candidate_digest p) \<and> vp_target_version p \<noteq> [] \<and> 1 \<le> vp_scope_version p \<and>
     vp_selected_by p \<noteq> [] \<and> length (vp_selected_by p) \<le> 256 \<and> vp_selection_reason p \<noteq> [] \<and>
     length (vp_selection_reason p) \<le> 2048 \<and> length (vp_broker_calls p) \<le> 16 \<and> vp_idempotency_key p \<noteq> [] \<and>
     length (vp_idempotency_key p) \<le> 256 \<and> vp_plan_id p = validation_plan_digest H p \<and>
     opt_all (\<lambda>a. ha_call_id a \<in> set (map bc_call_id (vp_broker_calls p))) (vp_http_assertion p)"

definition ValidationPlan_create :: "(pyval \<Rightarrow> digest) \<Rightarrow> ValidationPlan \<Rightarrow> ValidationPlan option" where
  "ValidationPlan_create H p0 =
     (let p = p0\<lparr>vp_plan_id := validation_plan_digest H p0\<rparr> in if ValidationPlan_valid H p then Some p else None)"

record ValidationVerdict =
  vv_result :: ValidationResult
  vv_rationale_code :: string
  vv_evidence_refs :: "digest list"

definition ValidationVerdict_valid :: "ValidationVerdict \<Rightarrow> bool" where
  "ValidationVerdict_valid v \<longleftrightarrow>
     is_reason_code (vv_rationale_code v) \<and> list_all is_digest (vv_evidence_refs v) \<and>
     \<not> (vv_result v = VR_REPRODUCED \<and> vv_evidence_refs v = [])"

record ValidationOutcome =
  vo_plan_id :: digest
  vo_candidate :: Candidate
  vo_validation_run :: ValidationRun
  vo_evidence_bundle :: "EvidenceBundle option"
  vo_runner_result :: SandboxRunResult
  vo_broker_results :: "BrokerResult list"
  vo_verdict :: ValidationVerdict
  vo_completed_at :: instant

section \<open>Judges\<close>

type_synonym judge = "ValidationPlan \<Rightarrow> SandboxRunResult \<Rightarrow> BrokerResult list \<Rightarrow> digest list \<Rightarrow> ValidationVerdict"

definition inconclusive_judge :: judge where
  "inconclusive_judge p rr brs refs =
     \<lparr>vv_result = VR_INCONCLUSIVE, vv_rationale_code = ''evidence_requires_deterministic_assertion'',
      vv_evidence_refs = refs\<rparr>"

definition response_matches :: "HttpResponseAssertion \<Rightarrow> HttpToolResult \<Rightarrow> bool" where
  "response_matches a x \<longleftrightarrow>
     ht_status_code x = ha_expected_status_code a \<and> ht_response_body_sha256 x = ha_expected_body_sha256 a"

definition http_judge :: "digest \<Rightarrow> judge" where
  "http_judge trusted p rr brs refs =
     (case vp_http_assertion p of
        None \<Rightarrow> \<lparr>vv_result = VR_INCONCLUSIVE, vv_rationale_code = ''http_assertion_not_configured'', vv_evidence_refs = refs\<rparr>
      | Some a \<Rightarrow>
          (let missing = \<lparr>vv_result = VR_INCONCLUSIVE, vv_rationale_code = ''http_assertion_call_not_completed'',
                          vv_evidence_refs = refs\<rparr>
           in case List.find (\<lambda>r. br_call_id r = ha_call_id a) brs of
                None \<Rightarrow> missing
              | Some r \<Rightarrow>
                  (case br_http r of
                     None \<Rightarrow> missing
                   | Some x \<Rightarrow>
                       if br_status r \<noteq> Bro_COMPLETED then missing
                       else if br_registry_digest r \<noteq> trusted
                       then \<lparr>vv_result = VR_INCONCLUSIVE, vv_rationale_code = ''http_assertion_untrusted_registry'',
                             vv_evidence_refs = ht_evidence_refs x\<rparr>
                       else \<lparr>vv_result = (if response_matches a x then ha_match_result a else VR_INCONCLUSIVE),
                             vv_rationale_code = (if response_matches a x then ''http_response_assertion_matched''
                               else ''http_response_assertion_mismatched''),
                             vv_evidence_refs = ht_evidence_refs x\<rparr>)))"

section \<open>The store of executions\<close>

datatype validation_error =
    ValidationRejected string
  | ValidationLifecycle lifecycle_error
  | ValidationIdempotencyConflict
  | ValidationRecoveryRequired string
  | ValidationUnavailable
  | ValidationRunnerRaised
  | ValidationBrokerRaised broker_error
  | ValidationAttributeError
  | ValidationContractInvalid

record validation_row =
  vx_plan :: ValidationPlan
  vx_started_at :: instant
  vx_completed :: "(instant \<times> ValidationOutcome) option"

text \<open>The columns \<^verbatim>\<open>plan_id\<close> and \<^verbatim>\<open>idempotency_key\<close> are those of the plan; the row is \<^verbatim>\<open>completed\<close> when it has an outcome.\<close>

type_synonym validation_db = "validation_row list"

definition row_of_plan :: "ValidationPlan \<Rightarrow> validation_row \<Rightarrow> bool" where
  "row_of_plan p r \<longleftrightarrow> vp_plan_id (vx_plan r) = vp_plan_id p \<or> vp_idempotency_key (vx_plan r) = vp_idempotency_key p"

definition claim_validation ::
  "validation_db \<Rightarrow> ValidationPlan \<Rightarrow> instant \<Rightarrow> validation_error + ValidationOutcome option \<times> validation_db" where
  "claim_validation db p now =
     (case List.find (row_of_plan p) db of
        None \<Rightarrow> Inr (None, db @ [\<lparr>vx_plan = p, vx_started_at = now, vx_completed = None\<rparr>])
      | Some r \<Rightarrow>
          if vx_plan r \<noteq> p then Inl ValidationIdempotencyConflict
          else (case vx_completed r of
                  None \<Rightarrow> Inl (ValidationRecoveryRequired ''unfinished STARTED checkpoint'')
                | Some (t, out) \<Rightarrow> Inr (Some out, db)))"

definition has_validation_row :: "validation_db \<Rightarrow> digest \<Rightarrow> bool" where
  "has_validation_row db i \<longleftrightarrow> list_ex (\<lambda>r. vp_plan_id (vx_plan r) = i) db"

definition complete_validation_row ::
  "validation_db \<Rightarrow> ValidationOutcome \<Rightarrow> validation_error + validation_db" where
  "complete_validation_row db out =
     (let open_row = (\<lambda>r. vp_plan_id (vx_plan r) = vo_plan_id out \<and> vx_completed r = None) in
      if length (filter open_row db) \<noteq> 1
      then Inl (ValidationRecoveryRequired ''STARTED checkpoint is unavailable'')
      else Inr (map (\<lambda>r. if open_row r then r\<lparr>vx_completed := Some (vo_completed_at out, out)\<rparr> else r) db))"

definition load_completed_validation ::
  "validation_db \<Rightarrow> digest \<Rightarrow> validation_error + ValidationPlan \<times> ValidationOutcome" where
  "load_completed_validation db i =
     (case List.find (\<lambda>r. vp_plan_id (vx_plan r) = i) db of
        None \<Rightarrow> Inl ValidationUnavailable
      | Some r \<Rightarrow>
          (case vx_completed r of
             None \<Rightarrow> Inl (ValidationRecoveryRequired ''unfinished STARTED checkpoint'')
           | Some (t, out) \<Rightarrow>
               if vp_plan_id (vx_plan r) \<noteq> i \<or> vo_plan_id out \<noteq> i \<or> t \<noteq> vo_completed_at out
               then Inl (ValidationRecoveryRequired ''checkpoint binding mismatch'')
               else Inr (vx_plan r, out)))"

end
