(* ===== verification/Validation_Service.thy ===== *)
theory Validation_Service
  imports Validation_Models
begin

text \<open>
  The orchestration of one validation, \<^verbatim>\<open>src/src/vulnloom/validation/service.py\<close>. The sandbox runner is a parameter: a function from
  its own state, a request and a time to an answer, or nothing when it raises. The judge is a parameter too. The
  directory of evidence is the one found when the references are checked. \<open>fresh_run\<close> and \<open>fresh_bundle\<close> are the values
  of the \<^verbatim>\<open>uuid4\<close> default factories.
\<close>

section \<open>State\<close>

type_synonym 'r runner = "'r \<Rightarrow> SandboxRunRequest \<Rightarrow> instant \<Rightarrow> SandboxRunResult option \<times> 'r"

record 'r validation_state =
  vs_db :: validation_db
  vs_runner :: 'r
  vs_broker :: broker_state

record 'r validation_service =
  vc_scope :: Scope
  vc_runner :: "'r runner"
  vc_broker :: broker
  vc_judge :: judge

text \<open>The digests, the URL and address libraries, and the evidence store of a run.\<close>

record validation_env =
  ve_digest :: "pyval \<Rightarrow> digest"
  ve_sha :: "string \<Rightarrow> digest"
  ve_ips :: ip_lib
  ve_urls :: url_env
  ve_evidence :: evidence_env
  ve_objects :: objects

definition in_lifecycle :: "lifecycle_error + 'a \<Rightarrow> validation_error + 'a" where
  "in_lifecycle r = (case r of Inl e \<Rightarrow> Inl (ValidationLifecycle e) | Inr x \<Rightarrow> Inr x)"

section \<open>Preflight\<close>

definition provenance_mismatch :: "(pyval \<Rightarrow> digest) \<Rightarrow> Candidate \<Rightarrow> ValidationPlan \<Rightarrow> bool" where
  "provenance_mismatch H c p \<longleftrightarrow>
     vp_candidate_id p \<noteq> candidate_id c \<or> vp_candidate_digest p \<noteq> candidate_content_digest H c \<or>
     vp_target_id p \<noteq> cand_target_id c \<or> vp_target_version p \<noteq> cand_target_version c \<or>
     vp_scope_id p \<noteq> cand_scope_id c \<or> vp_scope_version p \<noteq> cand_scope_version c"

definition task_mismatch ::
  "(pyval \<Rightarrow> digest) \<Rightarrow> Scope \<Rightarrow> Candidate \<Rightarrow> ValidationPlan \<Rightarrow> TaskEnvelope \<Rightarrow> bool" where
  "task_mismatch H s c p t \<longleftrightarrow>
     te_engagement_id t \<noteq> sc_engagement_id s \<or> te_target_id t \<noteq> cand_target_id c \<or>
     te_target_version t \<noteq> cand_target_version c \<or> te_scope_id t \<noteq> scope_id s \<or> te_scope_version t \<noteq> sc_version s \<or>
     te_worker_role t \<noteq> Role_VALIDATOR \<or> te_policy_digest t \<noteq> policy_digest H s \<or>
     ''candidate:'' @ vp_candidate_digest p \<notin> set (te_input_refs t) \<or> valid_until s < te_deadline t"

definition preflight_broker_call ::
  "validation_env \<Rightarrow> broker \<Rightarrow> BrokerCall \<Rightarrow> validation_error + unit" where
  "preflight_broker_call V B c =
     (if sp_kind (bc_profile c) \<noteq> Profile_VALIDATION
      then Inl (ValidationRejected ''Broker calls require a Validation profile'')
      else case validate_call (ve_digest V) (ve_urls V) B c of
             Inl e \<Rightarrow> Inl (ValidationRejected ''Broker call failed static preflight'')
           | Inr _ \<Rightarrow> Inr ())"

definition preflight_validation ::
  "validation_env \<Rightarrow> 'r validation_service \<Rightarrow> Candidate \<Rightarrow> ValidationPlan \<Rightarrow> instant \<Rightarrow> validation_error + unit" where
  "preflight_validation V W c p now =
     (let H = ve_digest V; s = vc_scope W; q = vp_runner_request p in
      if cand_state c \<noteq> Cand_PROPOSED
      then Inl (ValidationRejected ''only a proposed Candidate can be selected for validation'')
      else if now < vp_selected_at p
      then Inl (ValidationRejected ''Candidate selection timestamp cannot be in the future'')
      else if provenance_mismatch H c p
      then Inl (ValidationRejected ''ValidationPlan provenance does not match Candidate'')
      else
        bind_result (in_lifecycle (queue_validation c s now)) (\<lambda>_.
          if list_ex (task_mismatch H s c p) (rq_task q # map bc_task (vp_broker_calls p))
          then Inl (ValidationRejected ''validation task provenance or policy binding mismatch'')
          else if sp_kind (rq_profile q) \<noteq> Profile_VALIDATION \<or> sp_network_mode (rq_profile q) \<noteq> Net_NONE \<or>
                  te_sandbox_profile_digest (rq_task q) \<noteq> sandbox_profile_digest H (rq_profile q)
          then Inl (ValidationRejected ''Runner validation must be network-isolated and profile-bound'')
          else all_ok (preflight_broker_call V (vc_broker W)) (vp_broker_calls p)))"

section \<open>Collecting results\<close>

definition runner_result_matches :: "(pyval \<Rightarrow> digest) \<Rightarrow> SandboxRunRequest \<Rightarrow> SandboxRunResult \<Rightarrow> bool" where
  "runner_result_matches H q r \<longleftrightarrow>
     rs_run_id r = rq_run_id q \<and> rs_task_id r = te_task_id (rq_task q) \<and>
     rs_sandbox_profile_digest r = sandbox_profile_digest H (rq_profile q) \<and>
     rs_invocation_digest r = invocation_digest H (rq_invocation q)"

text \<open>The loop over \<^verbatim>\<open>plan.broker_calls\<close>, which stops at the first result that is not completed.\<close>

fun run_broker_calls ::
  "validation_env \<Rightarrow> broker \<Rightarrow> instant \<Rightarrow> ApprovalRequest list \<Rightarrow> broker_state \<Rightarrow> BrokerCall list
   \<Rightarrow> (validation_error + BrokerResult list) \<times> broker_state" where
  "run_broker_calls V B now approvals bs [] = (Inr [], bs)"
| "run_broker_calls V B now approvals bs (c # cs) =
     (case execute_call (ve_digest V) (ve_sha V) (ve_ips V) (ve_urls V) B bs c now approvals of
        (Inl e, bs') \<Rightarrow> (Inl (ValidationBrokerRaised e), bs')
      | (Inr y, bs') \<Rightarrow>
          if br_status y \<noteq> Bro_COMPLETED then (Inr [y], bs')
          else (case run_broker_calls V B now approvals bs' cs of
                  (Inl e, bs'') \<Rightarrow> (Inl e, bs'')
                | (Inr ys, bs'') \<Rightarrow> (Inr (y # ys), bs'')))"

text \<open>The broker is only called after a completed run.\<close>

definition broker_phase ::
  "validation_env \<Rightarrow> broker \<Rightarrow> instant \<Rightarrow> ApprovalRequest list \<Rightarrow> broker_state \<Rightarrow> ValidationPlan \<Rightarrow> SandboxRunResult
   \<Rightarrow> (validation_error + BrokerResult list) \<times> broker_state" where
  "broker_phase V B now approvals bs p r =
     (if rs_status r = Run_COMPLETED then run_broker_calls V B now approvals bs (vp_broker_calls p) else (Inr [], bs))"

definition collected_refs :: "SandboxRunResult \<Rightarrow> BrokerResult list \<Rightarrow> digest list" where
  "collected_refs r ys =
     fromkeys (rs_evidence_refs r @ concat (map (\<lambda>y. case br_http y of None \<Rightarrow> [] | Some x \<Rightarrow> ht_evidence_refs x) ys))"

definition forced_result :: "SandboxRunResult \<Rightarrow> BrokerResult list \<Rightarrow> ValidationResult option" where
  "forced_result r ys =
     (if rs_status r = Run_TIMED_OUT \<or> list_ex (\<lambda>y. br_status y = Bro_TIMED_OUT) ys then Some VR_TIMED_OUT
      else if rs_status r \<noteq> Run_COMPLETED then Some VR_INCONCLUSIVE
      else if list_ex (\<lambda>y. br_status y \<in> {Bro_DENIED, Bro_APPROVAL_REQUIRED}) ys then Some VR_POLICY_STOPPED
      else if list_ex (\<lambda>y. br_status y = Bro_FAILED) ys then Some VR_INCONCLUSIVE
      else None)"

text \<open>\<^verbatim>\<open>_side_effects\<close>; \<^verbatim>\<open>call.http.method\<close> of a call without an HTTP plan is an \<^verbatim>\<open>AttributeError\<close>.\<close>

fun side_effects :: "BrokerCall list \<Rightarrow> BrokerResult list \<Rightarrow> validation_error + string list" where
  "side_effects (c # cs) (y # ys) =
     (if br_status y = Bro_COMPLETED
      then (case bc_http c of
              None \<Rightarrow> Inl ValidationAttributeError
            | Some h \<Rightarrow>
                bind_result (side_effects cs ys) (\<lambda>es.
                  Inr (if method_mutates_state (hp_method h)
                       then (''broker:'' @ bc_tool_id c @ '':'' @ http_method_value (hp_method h)) # es else es)))
      else side_effects cs ys)"
| "side_effects _ _ = Inr []"

text \<open>The verdict of the judge, or the one that a failed execution forces. Building an invalid verdict raises.\<close>

definition decide_verdict ::
  "judge \<Rightarrow> ValidationPlan \<Rightarrow> SandboxRunResult \<Rightarrow> BrokerResult list \<Rightarrow> digest list \<Rightarrow> validation_error + ValidationVerdict" where
  "decide_verdict J p r ys refs =
     (let forced = forced_result r ys;
          v = (case forced of
                 None \<Rightarrow> J p r ys refs
               | Some f \<Rightarrow> \<lparr>vv_result = f, vv_rationale_code = ''execution_'' @ validation_result_value f,
                            vv_evidence_refs = refs\<rparr>)
      in if \<not> ValidationVerdict_valid v then Inl ValidationContractInvalid
         else if forced = None \<and> vv_result v \<in> {VR_POLICY_STOPPED, VR_TIMED_OUT}
         then Inl (ValidationRejected ''judge cannot manufacture an execution control result'')
         else if \<not> set (vv_evidence_refs v) \<subseteq> set refs
         then Inl (ValidationRejected ''judge referenced evidence not produced by this validation'')
         else Inr v)"

definition plan_steps :: "ValidationPlan \<Rightarrow> string list" where
  "plan_steps p =
     [''plan:'' @ vp_plan_id p, ''runner:'' @ ti_tool_id (rq_invocation (vp_runner_request p))] @
     map (\<lambda>(i, c). ''broker:'' @ bc_tool_id c @ '':'' @ dumps_int (int i)) (enumerate 0 (vp_broker_calls p))"

definition validation_run ::
  "Candidate \<Rightarrow> ValidationPlan \<Rightarrow> instant \<Rightarrow> uuid \<Rightarrow> SandboxRunResult \<Rightarrow> BrokerResult list \<Rightarrow> ValidationVerdict \<Rightarrow> string list
   \<Rightarrow> ValidationRun" where
  "validation_run c p now fresh_run r ys v effects =
     \<lparr>run_id = fresh_run, run_candidate_id = candidate_id c, run_target_version = cand_target_version c,
      run_scope_version = cand_scope_version c,
      sandbox_image_digest = sp_image_digest (rq_profile (vp_runner_request p)),
      run_policy_digest = te_policy_digest (rq_task (vp_runner_request p)), run_plan = plan_steps p,
      started_at = now, finished_at = now, run_result = vv_result v, run_side_effects = effects,
      run_evidence_refs = vv_evidence_refs v,
      resource_usage =
        [(''wall_seconds'', PFloat (sz_wall_seconds (rs_usage r))), (''cpu_millis'', PInt (sz_cpu_millis (rs_usage r))),
         (''peak_memory_bytes'', PInt (sz_peak_memory_bytes (rs_usage r))), (''broker_calls'', PInt (int (length ys))),
         (''tool_calls'', PInt (tb_tool_calls (rs_budget_used r) + sum_list (map br_tool_calls_used ys)))]\<rparr>"

text \<open>From the results of the runner and the broker to the outcome, everything after the loop.\<close>

definition conclude ::
  "validation_env \<Rightarrow> judge \<Rightarrow> Candidate \<Rightarrow> Candidate \<Rightarrow> ValidationPlan \<Rightarrow> instant \<Rightarrow> uuid \<Rightarrow> uuid \<Rightarrow> SandboxRunResult
   \<Rightarrow> BrokerResult list \<Rightarrow> validation_error + ValidationOutcome" where
  "conclude V J c running p now fresh_run fresh_bundle r ys =
     (let refs = collected_refs r ys in
      if list_ex (\<lambda>i. \<not> contains (ve_evidence V) (ve_objects V) i) refs
      then Inl (ValidationRejected ''validation referenced unavailable or corrupt Evidence'')
      else
        bind_result (decide_verdict J p r ys refs) (\<lambda>v.
        bind_result (side_effects (vp_broker_calls p) ys) (\<lambda>effects.
          let run = validation_run c p now fresh_run r ys v effects in
          if \<not> ValidationRun_valid run then Inl ValidationContractInvalid
          else
            bind_result (in_lifecycle (complete_validation running run)) (\<lambda>final.
              Inr \<lparr>vo_plan_id = vp_plan_id p, vo_candidate = final, vo_validation_run = run,
                   vo_evidence_bundle =
                     (if vv_evidence_refs v \<noteq> []
                      then Some \<lparr>bundle_id = fresh_bundle, eb_candidate_id = candidate_id c,
                                 eb_evidence_refs = vv_evidence_refs v, sealed_at = now\<rparr>
                      else None),
                   vo_runner_result = r, vo_broker_results = ys, vo_verdict = v, vo_completed_at = now\<rparr>))))"

section \<open>Executing a validation\<close>

text \<open>What follows the claim. The row of the claim stays in the table whatever happens.\<close>

definition run_claimed ::
  "validation_env \<Rightarrow> 'r validation_service \<Rightarrow> Candidate \<Rightarrow> ValidationPlan \<Rightarrow> instant \<Rightarrow> uuid \<Rightarrow> uuid \<Rightarrow> ApprovalRequest list
   \<Rightarrow> 'r validation_state \<Rightarrow> (validation_error + ValidationOutcome) \<times> 'r validation_state" where
  "run_claimed V W c p now fresh_run fresh_bundle approvals st =
     (case bind_result (in_lifecycle (queue_validation c (vc_scope W) now)) (\<lambda>queued.
             in_lifecycle (transition_candidate queued Cand_VALIDATION_RUNNING)) of
        Inl e \<Rightarrow> (Inl e, st)
      | Inr running \<Rightarrow>
          (case vc_runner W (vs_runner st) (vp_runner_request p) now of
             (None, rs) \<Rightarrow> (Inl ValidationRunnerRaised, st\<lparr>vs_runner := rs\<rparr>)
           | (Some r, rs) \<Rightarrow>
               (let st1 = st\<lparr>vs_runner := rs\<rparr> in
                if \<not> runner_result_matches (ve_digest V) (vp_runner_request p) r
                then (Inl (ValidationRejected ''Runner result does not match the selected request''), st1)
                else
                  (case broker_phase V (vc_broker W) now approvals (vs_broker st) p r of
                     (Inl e, bs) \<Rightarrow> (Inl e, st1\<lparr>vs_broker := bs\<rparr>)
                   | (Inr ys, bs) \<Rightarrow>
                       (let st2 = st1\<lparr>vs_broker := bs\<rparr> in
                        case conclude V (vc_judge W) c running p now fresh_run fresh_bundle r ys of
                          Inl e \<Rightarrow> (Inl e, st2)
                        | Inr out \<Rightarrow>
                            (case complete_validation_row (vs_db st2) out of
                               Inl e \<Rightarrow> (Inl e, st2)
                             | Inr db \<Rightarrow> (Inr out, st2\<lparr>vs_db := db\<rparr>)))))))"

definition execute_validation ::
  "validation_env \<Rightarrow> 'r validation_service \<Rightarrow> Candidate \<Rightarrow> ValidationPlan \<Rightarrow> instant \<Rightarrow> uuid \<Rightarrow> uuid \<Rightarrow> ApprovalRequest list
   \<Rightarrow> 'r validation_state \<Rightarrow> (validation_error + ValidationOutcome) \<times> 'r validation_state" where
  "execute_validation V W c p now fresh_run fresh_bundle approvals st =
     (case preflight_validation V W c p now of
        Inl e \<Rightarrow> (Inl e, st)
      | Inr _ \<Rightarrow>
          (case claim_validation (vs_db st) p now of
             Inl e \<Rightarrow> (Inl e, st)
           | Inr (Some out, db) \<Rightarrow> (Inr out, st)
           | Inr (None, db) \<Rightarrow> run_claimed V W c p now fresh_run fresh_bundle approvals (st\<lparr>vs_db := db\<rparr>)))"

text \<open>The offline sandbox runner with its default scenario, as the runner of a service.\<close>

definition offline_runner :: "(pyval \<Rightarrow> digest) \<Rightarrow> string list \<Rightarrow> runner_state runner" where
  "offline_runner H registered rs q now =
     (case execute_offline H registered rs q now None None of
        (Inl e, rs') \<Rightarrow> (None, rs')
      | (Inr y, rs') \<Rightarrow> (Some y, rs'))"

end
