(* ===== verification/Validation_Facts.thy ===== *)
theory Validation_Facts
  imports Validation_Service
begin

text \<open>
  What the validation service guarantees: claims are never given up, a claimed plan is not executed again, and an outcome
  carries the verdict its execution earned.
\<close>

section \<open>The table\<close>

text \<open>Plans are stored once under their identifier and their key, and an outcome belongs to its row.\<close>

definition validation_db_ok :: "validation_db \<Rightarrow> bool" where
  "validation_db_ok db \<longleftrightarrow>
     distinct (map (\<lambda>r. vp_plan_id (vx_plan r)) db) \<and> distinct (map (\<lambda>r. vp_idempotency_key (vx_plan r)) db) \<and>
     list_all (\<lambda>r. opt_all (\<lambda>(t, out). vo_plan_id out = vp_plan_id (vx_plan r) \<and> t = vo_completed_at out) (vx_completed r)) db"

lemma claim_fresh:
  "claim_validation db p now = Inr (None, db') \<Longrightarrow>
     List.find (row_of_plan p) db = None \<and> db' = db @ [\<lparr>vx_plan = p, vx_started_at = now, vx_completed = None\<rparr>]"
  by (auto simp: claim_validation_def split: option.splits if_splits)

lemma claim_of_known:
  "List.find (row_of_plan p) db = Some r \<Longrightarrow> claim_validation db p now = Inr (o', db') \<Longrightarrow>
     vx_plan r = p \<and> db' = db \<and> (\<exists>t out. vx_completed r = Some (t, out) \<and> o' = Some out)"
  by (auto simp: claim_validation_def split: option.splits if_splits)

lemma find_row_None: "List.find (row_of_plan p) db = None \<longleftrightarrow> \<not> list_ex (row_of_plan p) db"
  by (auto simp: find_None_iff list_ex_iff)

lemma claim_keeps_ok:
  assumes "validation_db_ok db" and "claim_validation db p now = Inr (None, db')"
  shows "validation_db_ok db'"
  using assms(1) claim_fresh [OF assms(2)]
  by (auto simp: validation_db_ok_def find_row_None list_ex_iff row_of_plan_def)

lemma complete_row_plans:
  "complete_validation_row db out = Inr db' \<Longrightarrow> map vx_plan db' = map vx_plan db"
  by (auto simp: complete_validation_row_def Let_def split: if_splits)

lemma complete_keeps_ok:
  assumes "validation_db_ok db" and "complete_validation_row db out = Inr db'"
  shows "validation_db_ok db'"
proof -
  from complete_row_plans [OF assms(2)]
  have "map f (map vx_plan db') = map f (map vx_plan db)" for f :: "ValidationPlan \<Rightarrow> 'x" by simp
  then have m: "map (\<lambda>r. f (vx_plan r)) db' = map (\<lambda>r. f (vx_plan r)) db" for f :: "ValidationPlan \<Rightarrow> 'x"
    by (simp add: comp_def)
  have "list_all (\<lambda>r. opt_all (\<lambda>(t, out). vo_plan_id out = vp_plan_id (vx_plan r) \<and> t = vo_completed_at out) (vx_completed r)) db'"
    using assms by (auto simp: complete_validation_row_def validation_db_ok_def Let_def list_all_iff split: if_splits)
  with assms(1) show ?thesis unfolding validation_db_ok_def by (simp add: m)
qed

section \<open>Executions keep the claims\<close>

lemma execute_keeps_plans:
  assumes "execute_validation V W c p now fr fb approvals st = (r, st')"
  shows "(map vx_plan (vs_db st') = map vx_plan (vs_db st) \<and> st' = st) \<or>
      (List.find (row_of_plan p) (vs_db st) = None \<and> map vx_plan (vs_db st') = map vx_plan (vs_db st) @ [p])"
proof (cases "preflight_validation V W c p now")
  case (Inl e)
  with assms show ?thesis by (simp add: execute_validation_def)
next
  case pre: (Inr u)
  show ?thesis
  proof (cases "claim_validation (vs_db st) p now")
    case (Inl e)
    with assms pre show ?thesis by (simp add: execute_validation_def)
  next
    case (Inr cl)
    obtain o' db where cl: "cl = (o', db)" by (cases cl)
    show ?thesis
    proof (cases o')
      case (Some out)
      with assms pre Inr cl show ?thesis by (simp add: execute_validation_def)
    next
      case None
      with Inr cl have f: "List.find (row_of_plan p) (vs_db st) = None" "map vx_plan db = map vx_plan (vs_db st) @ [p]"
        using claim_fresh [of "vs_db st" p now db] by simp_all
      from assms pre Inr cl None have "run_claimed V W c p now fr fb approvals (st\<lparr>vs_db := db\<rparr>) = (r, st')"
        by (simp add: execute_validation_def)
      then have "map vx_plan (vs_db st') = map vx_plan db"
        by (auto simp: run_claimed_def Let_def dest!: complete_row_plans split: sum.splits prod.splits option.splits if_splits)
      with f show ?thesis by simp
    qed
  qed
qed

inductive validation_step :: "'r validation_state \<Rightarrow> 'r validation_state \<Rightarrow> bool" where
  validated_call: "execute_validation V W c p now fr fb approvals st = (r, st') \<Longrightarrow> validation_step st st'"

lemma claims_persist: "steps validation_step st n st' \<Longrightarrow> set (map vx_plan (vs_db st)) \<subseteq> set (map vx_plan (vs_db st'))"
proof (induction rule: steps.induct)
  case (steps_step s n t u)
  from steps_step(2) obtain V W c p now fr fb approvals r where
    "execute_validation V W c p now fr fb approvals t = (r, u)" by (auto elim!: validation_step.cases)
  from execute_keeps_plans [OF this] have "set (map vx_plan (vs_db t)) \<subseteq> set (map vx_plan (vs_db u))"
    by (metis set_append subset_refl sup_ge1)
  with steps_step(3) show ?case by (rule subset_trans)
qed simp

text \<open>A plan whose identifier or key is taken is answered from the table, or not at all.\<close>

lemma execute_claimed_inert:
  assumes "q \<in> set (map vx_plan (vs_db st))" and "vp_plan_id q = vp_plan_id p \<or> vp_idempotency_key q = vp_idempotency_key p"
    and "execute_validation V W c p now fr fb approvals st = (r, st')"
  shows "st' = st"
proof -
  from assms(1,2) have "List.find (row_of_plan p) (vs_db st) \<noteq> None"
    by (auto simp: find_row_None list_ex_iff row_of_plan_def)
  with execute_keeps_plans [OF assms(3)] show ?thesis by auto
qed

section \<open>What an outcome rests on\<close>

lemma run_broker_calls_stops:
  assumes "run_broker_calls V B now approvals bs cs = (Inr ys, bs')"
  shows "length ys \<le> length cs" "\<And>i. i + 1 < length ys \<Longrightarrow> br_status (ys ! i) = Bro_COMPLETED"
    "list_all (\<lambda>y. br_status y = Bro_COMPLETED) ys \<Longrightarrow> length ys = length cs"
proof -
  have "length ys \<le> length cs \<and> (\<forall>i. i + 1 < length ys \<longrightarrow> br_status (ys ! i) = Bro_COMPLETED) \<and>
    (list_all (\<lambda>y. br_status y = Bro_COMPLETED) ys \<longrightarrow> length ys = length cs)"
    using assms
  proof (induction cs arbitrary: bs ys)
    case (Cons c cs)
    from Cons.prems obtain y bs1 where y: "execute_call (ve_digest V) (ve_sha V) (ve_ips V) (ve_urls V) B bs c now approvals = (Inr y, bs1)"
      by (auto split: prod.splits sum.splits)
    show ?case
    proof (cases "br_status y = Bro_COMPLETED")
      case False
      with y Cons.prems show ?thesis by auto
    next
      case True
      with y Cons.prems obtain ys' where ys: "run_broker_calls V B now approvals bs1 cs = (Inr ys', bs')" "ys = y # ys'"
        by (auto split: prod.splits sum.splits)
      from Cons.IH [OF ys(1)] ys(2) True show ?thesis by (auto simp: nth_Cons split: nat.splits)
    qed
  qed simp
  then show "length ys \<le> length cs" "\<And>i. i + 1 < length ys \<Longrightarrow> br_status (ys ! i) = Bro_COMPLETED"
    "list_all (\<lambda>y. br_status y = Bro_COMPLETED) ys \<Longrightarrow> length ys = length cs" by auto
qed

lemma forced_result_None:
  "forced_result r ys = None \<longleftrightarrow> rs_status r = Run_COMPLETED \<and> list_all (\<lambda>y. br_status y = Bro_COMPLETED) ys"
proof -
  have "s = Bro_COMPLETED \<longleftrightarrow> s \<noteq> Bro_TIMED_OUT \<and> s \<notin> {Bro_DENIED, Bro_APPROVAL_REQUIRED} \<and> s \<noteq> Bro_FAILED" for s
    by (cases s) auto
  then show ?thesis by (auto simp: forced_result_def list_ex_iff list_all_iff)
qed

lemma side_effects_error: "side_effects cs ys = Inl e \<Longrightarrow> e = ValidationAttributeError"
  by (induction cs ys rule: side_effects.induct) (auto simp: result_simps split: if_splits option.splits)

lemma side_effects_Inl_iff:
  "(\<exists>e. side_effects cs ys = Inl e) \<longleftrightarrow> (\<exists>(c, y) \<in> set (zip cs ys). br_status y = Bro_COMPLETED \<and> bc_http c = None)"
  by (induction cs ys rule: side_effects.induct) (auto simp: result_simps split: option.splits)

lemma decide_verdict_InrD:
  assumes "decide_verdict J p r ys refs = Inr v"
  shows "set (vv_evidence_refs v) \<subseteq> set refs" "ValidationVerdict_valid v"
    "forced_result r ys = Some f \<Longrightarrow> vv_result v = f"
    "forced_result r ys = None \<Longrightarrow> v = J p r ys refs \<and> vv_result v \<notin> {VR_POLICY_STOPPED, VR_TIMED_OUT}"
  using assms by (auto simp: decide_verdict_def Let_def split: if_splits option.splits)

lemma in_lifecycle_Inr [simp]: "in_lifecycle x = Inr y \<longleftrightarrow> x = Inr y"
  by (simp add: in_lifecycle_def split: sum.splits)

lemma conclude_InrD:
  assumes "conclude V J c running p now fr fb r ys = Inr out"
  shows "\<exists>v effects. list_all (contains (ve_evidence V) (ve_objects V)) (collected_refs r ys) \<and>
      decide_verdict J p r ys (collected_refs r ys) = Inr v \<and> side_effects (vp_broker_calls p) ys = Inr effects \<and>
      vo_validation_run out = validation_run c p now fr r ys v effects \<and>
      complete_validation running (vo_validation_run out) = Inr (vo_candidate out) \<and>
      vo_runner_result out = r \<and> vo_broker_results out = ys \<and> vo_verdict out = v \<and> vo_plan_id out = vp_plan_id p"
proof -
  from assms obtain v effects final where "list_all (contains (ve_evidence V) (ve_objects V)) (collected_refs r ys)"
      "decide_verdict J p r ys (collected_refs r ys) = Inr v" "side_effects (vp_broker_calls p) ys = Inr effects"
      "complete_validation running (validation_run c p now fr r ys v effects) = Inr final"
    and out: "out = \<lparr>vo_plan_id = vp_plan_id p, vo_candidate = final, vo_validation_run = validation_run c p now fr r ys v effects,
                   vo_evidence_bundle =
                     (if vv_evidence_refs v \<noteq> []
                      then Some \<lparr>bundle_id = fb, eb_candidate_id = candidate_id c,
                                 eb_evidence_refs = vv_evidence_refs v, sealed_at = now\<rparr>
                      else None),
                   vo_runner_result = r, vo_broker_results = ys, vo_verdict = v, vo_completed_at = now\<rparr>"
    by (auto simp: conclude_def Let_def result_simps list_ex_iff list_all_iff simp del: if_split)
  then show ?thesis by simp
qed

lemma execute_outcome:
  assumes ex: "execute_validation V W c p now fr fb approvals st = (Inr out, st')"
    and fresh: "List.find (row_of_plan p) (vs_db st) = None"
  obtains rs r ys bs v effects running where "preflight_validation V W c p now = Inr ()"
    "vc_runner W (vs_runner st) (vp_runner_request p) now = (Some r, rs)"
    "runner_result_matches (ve_digest V) (vp_runner_request p) r"
    "broker_phase V (vc_broker W) now approvals (vs_broker st) p r = (Inr ys, bs)"
    "cand_state c = Cand_PROPOSED" "running = c\<lparr>cand_state := Cand_VALIDATION_RUNNING\<rparr>"
    "list_all (contains (ve_evidence V) (ve_objects V)) (collected_refs r ys)"
    "decide_verdict (vc_judge W) p r ys (collected_refs r ys) = Inr v" "side_effects (vp_broker_calls p) ys = Inr effects"
    "vo_validation_run out = validation_run c p now fr r ys v effects"
    "complete_validation running (vo_validation_run out) = Inr (vo_candidate out)"
    "vo_runner_result out = r" "vo_broker_results out = ys" "vo_verdict out = v" "vo_plan_id out = vp_plan_id p"
proof -
  let ?db = "vs_db st @ [\<lparr>vx_plan = p, vx_started_at = now, vx_completed = None\<rparr>]"
  from ex fresh have pre: "preflight_validation V W c p now = Inr ()"
    and run: "run_claimed V W c p now fr fb approvals (st\<lparr>vs_db := ?db\<rparr>) = (Inr out, st')"
    by (auto simp: execute_validation_def claim_validation_def split: sum.splits)
  from pre have proposed: "cand_state c = Cand_PROPOSED" by (simp add: preflight_validation_def Let_def split: if_splits)
  from run obtain running where tr: "bind_result (in_lifecycle (queue_validation c (vc_scope W) now)) (\<lambda>queued.
        in_lifecycle (transition_candidate queued Cand_VALIDATION_RUNNING)) = Inr running"
    by (auto simp: run_claimed_def split: sum.splits)
  then have running: "running = c\<lparr>cand_state := Cand_VALIDATION_RUNNING\<rparr>"
    by (auto simp: in_lifecycle_def queue_validation_def transition_candidate_def result_simps split: sum.splits if_splits)
  from run tr obtain r rs where r: "vc_runner W (vs_runner st) (vp_runner_request p) now = (Some r, rs)"
      "runner_result_matches (ve_digest V) (vp_runner_request p) r"
    by (auto simp: run_claimed_def Let_def split: prod.splits option.splits if_splits)
  obtain q bs where q: "broker_phase V (vc_broker W) now approvals (vs_broker st) p r = (q, bs)" by fastforce
  have ys: "\<exists>ys. q = Inr ys"
    using run by (cases q) (simp_all add: run_claimed_def Let_def tr r q)
  then obtain ys where ys: "q = Inr ys" by blast
  have co: "conclude V (vc_judge W) c running p now fr fb r ys = Inr out"
    using run by (cases "conclude V (vc_judge W) c running p now fr fb r ys")
      (auto simp: run_claimed_def Let_def tr r q [unfolded ys] split: sum.splits)
  from co obtain v effects where v: "list_all (contains (ve_evidence V) (ve_objects V)) (collected_refs r ys)"
      "decide_verdict (vc_judge W) p r ys (collected_refs r ys) = Inr v" "side_effects (vp_broker_calls p) ys = Inr effects"
      "vo_validation_run out = validation_run c p now fr r ys v effects"
      "complete_validation running (vo_validation_run out) = Inr (vo_candidate out)"
      "vo_runner_result out = r" "vo_broker_results out = ys" "vo_verdict out = v" "vo_plan_id out = vp_plan_id p"
    using conclude_InrD by blast
  show thesis by (rule that [OF pre r q [unfolded ys] proposed running v])
qed

lemma complete_validation_state:
  "complete_validation c run = Inr c' \<Longrightarrow>
     c' = c\<lparr>cand_state := (if run_result run = VR_REPRODUCED then Cand_VALIDATED else Cand_INCONCLUSIVE)\<rparr>"
  by (auto simp: complete_validation_def transition_candidate_def split: if_splits)

lemma http_judge_reproduced:
  assumes "vv_result (http_judge trusted p r ys refs) = VR_REPRODUCED"
  obtains a y x where "vp_http_assertion p = Some a" "ha_match_result a = VR_REPRODUCED" "y \<in> set ys"
    "br_call_id y = ha_call_id a" "br_status y = Bro_COMPLETED" "br_registry_digest y = trusted" "br_http y = Some x"
    "response_matches a x" "vv_evidence_refs (http_judge trusted p r ys refs) = ht_evidence_refs x"
proof -
  from assms obtain a where a: "vp_http_assertion p = Some a" by (auto simp: http_judge_def split: option.splits)
  with assms obtain y where y: "List.find (\<lambda>y. br_call_id y = ha_call_id a) ys = Some y"
    by (auto simp: http_judge_def Let_def split: option.splits)
  with assms a obtain x where x: "br_http y = Some x" by (auto simp: http_judge_def Let_def split: option.splits)
  show thesis
    by (rule that [OF a _ _ _ _ _ x]) (use assms a x y find_SomeD [OF y] in \<open>auto simp: http_judge_def Let_def split: if_splits\<close>)
qed

section \<open>Open claims\<close>

text \<open>A claim that was not completed by its own execution is never completed by another one.\<close>

definition claim_open :: "validation_db \<Rightarrow> ValidationPlan \<Rightarrow> bool" where
  "claim_open db p \<longleftrightarrow> (\<exists>r \<in> set db. vx_plan r = p \<and> vx_completed r = None)"

lemma complete_other_row:
  "complete_validation_row db out = Inr db' \<Longrightarrow> vo_plan_id out \<noteq> vp_plan_id q \<Longrightarrow> claim_open db q \<Longrightarrow> claim_open db' q"
  by (force simp: complete_validation_row_def claim_open_def Let_def split: if_splits)

lemma run_claimed_rows:
  assumes "run_claimed V W c p now fr fb approvals st = (r, st')"
  shows "vs_db st' = vs_db st \<and> \<not> is_ok r \<or>
      (\<exists>out. r = Inr out \<and> vo_plan_id out = vp_plan_id p \<and> complete_validation_row (vs_db st) out = Inr (vs_db st'))"
proof (cases r)
  case (Inl e)
  with assms have "vs_db st' = vs_db st"
    by (auto simp: run_claimed_def Let_def split: sum.splits prod.splits option.splits if_splits)
  with Inl show ?thesis by simp
next
  case (Inr out)
  with assms obtain running ys q where co: "conclude V (vc_judge W) c running p now fr fb q ys = Inr out"
      "complete_validation_row (vs_db st) out = Inr (vs_db st')"
    by (auto simp: run_claimed_def Let_def split: sum.splits prod.splits option.splits if_splits)
  from conclude_InrD [OF co(1)] co(2) Inr show ?thesis by blast
qed

lemma execute_keeps_open:
  assumes "claim_open (vs_db st) q" and "execute_validation V W c p now fr fb approvals st = (r, st')"
  shows "claim_open (vs_db st') q"
proof (cases "st' = st")
  case False
  with execute_keeps_plans [OF assms(2)] have f: "List.find (row_of_plan p) (vs_db st) = None" by blast
  with assms(1) have ne: "vp_plan_id p \<noteq> vp_plan_id q"
    by (auto simp: claim_open_def find_row_None list_ex_iff row_of_plan_def)
  let ?db = "vs_db st @ [\<lparr>vx_plan = p, vx_started_at = now, vx_completed = None\<rparr>]"
  from False assms(2) f have "run_claimed V W c p now fr fb approvals (st\<lparr>vs_db := ?db\<rparr>) = (r, st')"
    by (auto simp: execute_validation_def claim_validation_def split: sum.splits)
  from run_claimed_rows [OF this] show ?thesis
    using assms(1) ne complete_other_row [of ?db _ "vs_db st'" q] by (auto simp: claim_open_def)
qed (use assms in simp)

lemma open_claims_stay: "steps validation_step st n st' \<Longrightarrow> claim_open (vs_db st) q \<Longrightarrow> claim_open (vs_db st') q"
  by (induction rule: steps.induct) (auto elim!: validation_step.cases intro: execute_keeps_open)

text \<open>With unique identifiers, an open claim is what an execution of its plan finds.\<close>

lemma validation_ok_kept:
  assumes "validation_db_ok (vs_db st)" and "execute_validation V W c p now fr fb approvals st = (r, st')"
  shows "validation_db_ok (vs_db st')"
proof (cases "st' = st")
  case False
  with execute_keeps_plans [OF assms(2)] have f: "List.find (row_of_plan p) (vs_db st) = None" by blast
  let ?db = "vs_db st @ [\<lparr>vx_plan = p, vx_started_at = now, vx_completed = None\<rparr>]"
  have claim: "claim_validation (vs_db st) p now = Inr (None, ?db)" by (simp add: claim_validation_def f)
  from False assms(2) claim have "run_claimed V W c p now fr fb approvals (st\<lparr>vs_db := ?db\<rparr>) = (r, st')"
    by (auto simp: execute_validation_def split: sum.splits)
  from run_claimed_rows [OF this] show ?thesis
    using claim_keeps_ok [OF assms(1) claim] complete_keeps_ok [of ?db _ "vs_db st'"] by auto
qed (use assms in simp)

lemma validation_ok_reachable: "steps validation_step st n st' \<Longrightarrow> validation_db_ok (vs_db st) \<Longrightarrow> validation_db_ok (vs_db st')"
  by (induction rule: steps.induct) (auto elim!: validation_step.cases intro: validation_ok_kept)

lemma open_claim_found:
  assumes "validation_db_ok db" and "claim_open db p"
  shows "claim_validation db p now = Inl (ValidationRecoveryRequired ''unfinished STARTED checkpoint'')"
proof -
  from assms(2) obtain a where a: "a \<in> set db" "vx_plan a = p" "vx_completed a = None" by (auto simp: claim_open_def)
  then have "List.find (row_of_plan p) db \<noteq> None" by (auto simp: find_row_None list_ex_iff row_of_plan_def)
  then obtain b where b: "List.find (row_of_plan p) db = Some b" by blast
  from find_SomeD [OF b] have m: "row_of_plan p b" "b \<in> set db" by simp_all
  with assms(1) a have "b = a"
    by (auto simp: validation_db_ok_def row_of_plan_def distinct_map inj_on_def)
  with a b show ?thesis by (simp add: claim_validation_def)
qed

lemma claim_Some_completed:
  assumes "claim_validation db p now = Inr (Some out, db')"
  shows "\<exists>a \<in> set db. vx_plan a = p \<and> (\<exists>t. vx_completed a = Some (t, out))"
  using assms by (auto simp: claim_validation_def dest!: find_SomeD split: option.splits if_splits)

end
