(* ===== verification/Validation_Examples.thy ===== *)
theory Validation_Examples
  imports Validation_Facts Sandbox_Properties
begin

text \<open>A candidate, a plan with one HTTP call and its assertion, and a service over the offline runner, for the closed examples.\<close>

definition vx_location :: SourceLocation where
  "vx_location = \<lparr>loc_path = ''a.py'', loc_line = 1, loc_symbol = None\<rparr>"

definition vx_candidate :: Candidate where
  "vx_candidate =
     \<lparr>candidate_id = 51, cand_target_id = 22, cand_target_version = ''v1'', source_graph_id = hex_digits 64 3,
      cand_scope_id = 11, cand_scope_version = 1, cand_title = ''t'', cwe = ''CWE-79'', entry_point = vx_location,
      cand_sink = vx_location, code_path = [], preconditions = [], security_invariant = ''i'', cand_hypothesis = ''h'',
      signal_ids = [], cheapest_disproof = ''d'', duplicate_fingerprint = hex_digits 64 4, confidence = 1,
      cand_state = Cand_PROPOSED\<rparr>"

definition vx_task :: TaskEnvelope where
  "vx_task = bx_task\<lparr>te_input_refs := [''candidate:'' @ hex_digits 64 19]\<rparr>"

definition vx_request :: SandboxRunRequest where
  "vx_request = bx_request\<lparr>rq_task := vx_task\<lparr>te_allowed_tools := [''t'']\<rparr>\<rparr>"

definition vx_call :: BrokerCall where
  "vx_call = (bx_call Http_GET 0)\<lparr>bc_task := vx_task\<rparr>"

definition vx_assertion :: HttpResponseAssertion where
  "vx_assertion =
     \<lparr>ha_assertion_id = hex_digits 64 4, ha_call_id = 41, ha_expected_status_code = 200,
      ha_expected_body_sha256 = hex_digits 64 51, ha_match_result = VR_REPRODUCED\<rparr>"

definition vx_plan_of :: "BrokerCall \<Rightarrow> HttpResponseAssertion option \<Rightarrow> ValidationPlan" where
  "vx_plan_of c a =
     \<lparr>vp_plan_id = hex_digits 64 13, vp_candidate_id = 51, vp_candidate_digest = hex_digits 64 19, vp_target_id = 22,
      vp_target_version = ''v1'', vp_scope_id = 11, vp_scope_version = 1, vp_selected_by = ''o'', vp_selected_at = 500,
      vp_selection_reason = ''r'', vp_runner_request = vx_request, vp_broker_calls = [c], vp_http_assertion = a,
      vp_idempotency_key = ''plan''\<rparr>"

abbreviation vx_plan_http :: ValidationPlan where
  "vx_plan_http \<equiv> vx_plan_of vx_call (Some vx_assertion)"

definition vx_env :: validation_env where
  "vx_env =
     \<lparr>ve_digest = bx_digest, ve_sha = bx_sha, ve_ips = bx_lib, ve_urls = bx_env,
      ve_evidence = \<lparr>ee_encode = (\<lambda>_. []), ee_decode = (\<lambda>_. Some []), ee_sha256 = (\<lambda>_. hex_digits 64 260),
        ee_redactor = undefined, ee_max_bytes = 10\<rparr>,
      ve_objects = (\<lambda>_. Some (Regular []))\<rparr>"

definition vx_offline :: adapters where
  "vx_offline = offline_adapters bx_lib [(''a.t'', [''9.9.9.9''])] [(''https://a.t/x'', bx_hop 200 None)] []"

definition vx_service :: "broker \<Rightarrow> runner_state validation_service" where
  "vx_service B =
     \<lparr>vc_scope = bx_scope, vc_runner = offline_runner bx_digest [''t''], vc_broker = B,
      vc_judge = http_judge (hex_digits 64 9)\<rparr>"

definition vx_start :: "runner_state validation_state" where
  "vx_start = \<lparr>vs_db = [], vs_runner = Map.empty, vs_broker = empty_broker_state\<rparr>"

abbreviation vx_execute ::
  "broker \<Rightarrow> ValidationPlan \<Rightarrow> runner_state validation_state
   \<Rightarrow> (validation_error + ValidationOutcome) \<times> runner_state validation_state" where
  "vx_execute B p st \<equiv> execute_validation vx_env (vx_service B) vx_candidate p 1000 81 82 [] st"

lemma vx_plan_valid: "ValidationPlan_valid bx_digest vx_plan_http"
  by code_simp

lemma vx_preflight: "preflight_validation vx_env (vx_service (bx_broker vx_offline)) vx_candidate vx_plan_http 1000 = Inr ()"
  by code_simp

definition vx_summary ::
  "(validation_error + ValidationOutcome) \<times> runner_state validation_state
   \<Rightarrow> (validation_error + ValidationResult \<times> CandidateState \<times> digest list) \<times> nat" where
  "vx_summary x =
     (map_sum id (\<lambda>out. (vv_result (vo_verdict out), cand_state (vo_candidate out), vv_evidence_refs (vo_verdict out))) (fst x),
      contacts (bs_events (vs_broker (snd x))))"

lemma vx_reproduced:
  "vx_summary (vx_execute (bx_broker vx_offline) vx_plan_http vx_start) =
     (Inr (VR_REPRODUCED, Cand_VALIDATED, [hex_digits 64 260]), 1)"
  by code_simp

section \<open>A plan with a TLS call\<close>

definition vx_tls_call :: BrokerCall where
  "vx_tls_call =
     \<lparr>bc_call_id = 42, bc_task = vx_task, bc_profile = bx_profile True, bc_tool_id = ''tls.inspect'', bc_http = None,
      bc_tls = Some \<lparr>tp_url = ''https://a.t/'', tp_test_class = ''w'',
        tp_limits = \<lparr>tl_connect_seconds = 3, tl_handshake_seconds = 5, tl_total_seconds = 10\<rparr>\<rparr>,
      bc_idempotency_key = ''tls''\<rparr>"

definition vx_handshake :: OfflineTlsHandshake where
  "vx_handshake =
     \<lparr>ot_peer_ip = ''9.9.9.9'', ot_tls_version = TLS_1_3, ot_cipher_suite = ''TLS_AES_128_GCM_SHA256'', ot_cipher_bits = 128,
      ot_leaf_certificate_sha256 = hex_digits 64 5, ot_evidence_ref = hex_digits 64 6, ot_elapsed_seconds = 1 / 10\<rparr>"

definition vx_tls_broker :: broker where
  "vx_tls_broker = (bx_broker (offline_adapters bx_lib [(''a.t'', [''9.9.9.9''])] [] [(''https://a.t/'', vx_handshake)]))
     \<lparr>bk_registry := \<lparr>tr_entries =
        [\<lparr>tg_tool_id = ''tls.inspect'', tg_version = ''1'', tg_capability = Cap_TLS_INSPECT,
          tg_allowed_profiles = [Profile_VALIDATION], tg_requires_network = True, tg_accepts_credential_ref = False,
          tg_side_effect_mode = Effect_READ_ONLY, tg_implementation_digest = hex_digits 64 24\<rparr>],
        tr_digest = hex_digits 64 9\<rparr>, bk_tls_digest := Some (hex_digits 64 24)\<rparr>"

abbreviation vx_plan_tls :: ValidationPlan where
  "vx_plan_tls \<equiv> vx_plan_of vx_tls_call None"

definition vx_run :: SandboxRunResult where
  "vx_run = offline_result bx_digest vx_request 1000 default_scenario False"

lemma vx_tls_preflight: "preflight_validation vx_env (vx_service vx_tls_broker) vx_candidate vx_plan_tls 1000 = Inr ()"
  by code_simp

lemma vx_tls_run:
  "fst (offline_runner bx_digest [''t''] Map.empty vx_request 1000) = Some vx_run"
  "runner_result_matches bx_digest vx_request vx_run"
  by code_simp+

lemma vx_tls_phase:
  "map_sum id (\<lambda>ys. (map br_status ys, collected_refs vx_run ys,
       is_ok (decide_verdict (http_judge (hex_digits 64 9)) vx_plan_tls vx_run ys [])))
     (fst (broker_phase vx_env vx_tls_broker 1000 [] empty_broker_state vx_plan_tls vx_run)) = Inr ([Bro_COMPLETED], [], True)"
  by code_simp

end
