(* ===== verification/Validation_Properties.thy ===== *)
theory Validation_Properties
  imports Validation_Examples
begin

text \<open>
  The properties of validation: executions that happen once, outcomes and verdicts that were earned, and the calls that no
  validation survives. Each property is followed by a closed instance.
\<close>

section \<open>One execution\<close>

text \<open>C4. A validation runs at most once. After an execution that claimed its plan, whatever it returned or raised, and after any
  number of further executions by anyone, an execution of a plan with the same identifier or the same idempotency key
  changes nothing: no runner, no broker and no row is touched. It raises, or it returns the outcome that the stored
  row of exactly this plan was completed with.\<close>

theorem validation_runs_once:
  assumes "execute_validation V W c p now fr fb approvals st = (r, st1)" and "st1 \<noteq> st"
    and "steps validation_step st1 n st2" and "vp_plan_id p' = vp_plan_id p \<or> vp_idempotency_key p' = vp_idempotency_key p"
    and "execute_validation V' W' c' p' now' fr' fb' approvals' st2 = (r', st3)"
  shows "st3 = st2 \<and>
      (case r' of Inl e \<Rightarrow> True
       | Inr out \<Rightarrow> list_ex (\<lambda>row. vx_plan row = p' \<and> map_option snd (vx_completed row) = Some out) (vs_db st2))"
proof -
  from execute_keeps_plans [OF assms(1)] assms(2) have "p \<in> set (map vx_plan (vs_db st1))" by auto
  with claims_persist [OF assms(3)] have claimed: "p \<in> set (map vx_plan (vs_db st2))" by blast
  have same: "vp_plan_id p = vp_plan_id p' \<or> vp_idempotency_key p = vp_idempotency_key p'" using assms(4) by auto
  from execute_claimed_inert [OF claimed same assms(5)] have inert: "st3 = st2" .
  from claimed same have found: "List.find (row_of_plan p') (vs_db st2) \<noteq> None"
    by (auto simp: find_row_None list_ex_iff row_of_plan_def)
  have "claim_validation (vs_db st2) p' now' = Inr (Some out, vs_db st2)" if "r' = Inr out" for out
    using assms(5) that found
    by (auto simp: execute_validation_def claim_validation_def split: sum.splits option.splits prod.splits if_splits)
  with inert show ?thesis by (auto simp: list_ex_iff dest!: claim_Some_completed split: sum.splits)
qed

theorem validation_runs_once_witness:
  "\<exists>r st1 r'. vx_execute (bx_broker vx_offline) vx_plan_http vx_start = (r, st1) \<and>
     vx_execute (bx_broker bx_offline) vx_plan_http st1 = (r', st1)"
proof -
  obtain r st1 where run: "vx_execute (bx_broker vx_offline) vx_plan_http vx_start = (r, st1)" by fastforce
  from vx_reproduced run have "contacts (bs_events (vs_broker st1)) = 1" by (simp add: vx_summary_def)
  then have ne: "st1 \<noteq> vx_start" by (auto simp: vx_start_def empty_broker_state_def)
  obtain r' st3 where again: "vx_execute (bx_broker bx_offline) vx_plan_http st1 = (r', st3)" by fastforce
  from validation_runs_once [OF run ne steps_refl _ again] run again show ?thesis by auto
qed

section \<open>Outcomes\<close>



text \<open>C3. Nothing is reproduced that was not observed. With the deterministic judge, a first execution whose verdict is
  \<^verbatim>\<open>REPRODUCED\<close> carries out the plan's own assertion: the sandbox run completed, every call of the plan completed, and the
  result of the call the assertion names came from the trusted tool registry and has exactly the status code and the
  body digest that were committed to beforehand; the verdict cites the evidence of that response, which is in the store,
  and the candidate becomes validated.\<close>

theorem reproduced_is_observed:
  assumes "execute_validation V W c p now fr fb approvals st = (Inr out, st')"
    and "List.find (row_of_plan p) (vs_db st) = None"
    and "vc_judge W = http_judge trusted" and "vv_result (vo_verdict out) = VR_REPRODUCED"
  shows "rs_status (vo_runner_result out) = Run_COMPLETED \<and>
      length (vo_broker_results out) = length (vp_broker_calls p) \<and>
      list_all (\<lambda>y. br_status y = Bro_COMPLETED) (vo_broker_results out) \<and>
      (\<exists>a y x. vp_http_assertion p = Some a \<and> ha_match_result a = VR_REPRODUCED \<and> y \<in> set (vo_broker_results out) \<and>
         br_call_id y = ha_call_id a \<and> br_registry_digest y = trusted \<and> br_http y = Some x \<and>
         ht_status_code x = ha_expected_status_code a \<and> ht_response_body_sha256 x = ha_expected_body_sha256 a \<and>
         vv_evidence_refs (vo_verdict out) = ht_evidence_refs x) \<and>
      vv_evidence_refs (vo_verdict out) \<noteq> [] \<and>
      list_all (contains (ve_evidence V) (ve_objects V)) (vv_evidence_refs (vo_verdict out)) \<and>
      cand_state (vo_candidate out) = Cand_VALIDATED"
proof -
  from assms(1,2) obtain rs r ys bs v effects running where o:
    "preflight_validation V W c p now = Inr ()"
    "vc_runner W (vs_runner st) (vp_runner_request p) now = (Some r, rs)"
    "runner_result_matches (ve_digest V) (vp_runner_request p) r"
    "broker_phase V (vc_broker W) now approvals (vs_broker st) p r = (Inr ys, bs)"
    "cand_state c = Cand_PROPOSED" "running = c\<lparr>cand_state := Cand_VALIDATION_RUNNING\<rparr>"
    "list_all (contains (ve_evidence V) (ve_objects V)) (collected_refs r ys)"
    "decide_verdict (vc_judge W) p r ys (collected_refs r ys) = Inr v" "side_effects (vp_broker_calls p) ys = Inr effects"
    "vo_validation_run out = validation_run c p now fr r ys v effects"
    "complete_validation running (vo_validation_run out) = Inr (vo_candidate out)"
    "vo_runner_result out = r" "vo_broker_results out = ys" "vo_verdict out = v" "vo_plan_id out = vp_plan_id p"
    by (rule execute_outcome)
  have rep: "vv_result v = VR_REPRODUCED" using assms(4) o(14) by simp
  have unforced: "forced_result r ys = None"
  proof (rule ccontr)
    assume "forced_result r ys \<noteq> None"
    then obtain f where f: "forced_result r ys = Some f" by blast
    with decide_verdict_InrD(3) [OF o(8) f] rep show False by (auto simp: forced_result_def split: if_splits)
  qed
  from decide_verdict_InrD(4) [OF o(8) unforced] assms(3) have v: "v = http_judge trusted p r ys (collected_refs r ys)" by simp
  from rep v obtain a y x where a: "vp_http_assertion p = Some a" "ha_match_result a = VR_REPRODUCED" "y \<in> set ys"
      "br_call_id y = ha_call_id a" "br_status y = Bro_COMPLETED" "br_registry_digest y = trusted" "br_http y = Some x"
      "response_matches a x" "vv_evidence_refs v = ht_evidence_refs x"
    by (metis http_judge_reproduced)
  from unforced have done1: "rs_status r = Run_COMPLETED" "list_all (\<lambda>y. br_status y = Bro_COMPLETED) ys"
    by (simp_all add: forced_result_None)
  with o(4) have len: "length ys = length (vp_broker_calls p)"
    using run_broker_calls_stops(3) [of V "vc_broker W" now approvals "vs_broker st" "vp_broker_calls p" ys bs]
    by (simp add: broker_phase_def)
  have refs: "vv_evidence_refs v \<noteq> []" "set (vv_evidence_refs v) \<subseteq> set (collected_refs r ys)"
    using decide_verdict_InrD(1,2) [OF o(8)] rep by (auto simp: ValidationVerdict_valid_def)
  have "cand_state (vo_candidate out) = Cand_VALIDATED"
    using complete_validation_state [OF o(11)] rep by (simp add: o(10) validation_run_def)
  moreover have "list_all (contains (ve_evidence V) (ve_objects V)) (vv_evidence_refs v)"
    using o(7) refs(2) by (auto simp: list_all_iff)
  ultimately show ?thesis using a done1 len refs(1) by (auto simp: o(12-14) response_matches_def)
qed

theorem reproduced_is_observed_witness:
  "\<exists>out st' y x. vx_execute (bx_broker vx_offline) vx_plan_http vx_start = (Inr out, st') \<and>
     y \<in> set (vo_broker_results out) \<and> br_call_id y = 41 \<and> br_http y = Some x \<and> ht_status_code x = 200 \<and>
     cand_state (vo_candidate out) = Cand_VALIDATED"
proof -
  obtain r st' where run: "vx_execute (bx_broker vx_offline) vx_plan_http vx_start = (r, st')" by fastforce
  from vx_reproduced run obtain out where out: "r = Inr out" "vv_result (vo_verdict out) = VR_REPRODUCED"
    by (cases r) (auto simp: vx_summary_def)
  have "List.find (row_of_plan vx_plan_http) (vs_db vx_start) = None" by (simp add: vx_start_def)
  from reproduced_is_observed [OF run [unfolded out(1)] this _ out(2), of "hex_digits 64 9"] out run show ?thesis
    by (auto simp: vx_service_def vx_plan_of_def vx_assertion_def)
qed

section \<open>Gaps\<close>

text \<open>C38. A plan with a TLS call that completes can never be validated. A plan may contain TLS calls, and the preflight admits them,
  but \<^verbatim>\<open>_side_effects\<close> reads the HTTP method of every completed call. So when the execution comes to a verdict and one
  of its completed calls has no HTTP plan, \<^verbatim>\<open>execute\<close> raises an \<^verbatim>\<open>AttributeError\<close> after all the work has been done: the claim
  stays open, the candidate stays proposed, and every later execution of the plan, after any number of other executions,
  is refused without changing anything.\<close>

theorem completed_tls_wedges_validation:
  assumes "validation_db_ok (vs_db st)" and "List.find (row_of_plan p) (vs_db st) = None"
    and "preflight_validation V W c p now = Inr ()"
    and "vc_runner W (vs_runner st) (vp_runner_request p) now = (Some r, rs)"
    and "runner_result_matches (ve_digest V) (vp_runner_request p) r"
    and "broker_phase V (vc_broker W) now approvals (vs_broker st) p r = (Inr ys, bs)"
    and "list_all (contains (ve_evidence V) (ve_objects V)) (collected_refs r ys)"
    and "decide_verdict (vc_judge W) p r ys (collected_refs r ys) = Inr v"
    and "list_ex (\<lambda>(call, y). br_status y = Bro_COMPLETED \<and> bc_http call = None) (zip (vp_broker_calls p) ys)"
    and "execute_validation V W c p now fr fb approvals st = (res, st1)"
    and "steps validation_step st1 n st2"
    and "execute_validation V' W' c' p now' fr' fb' approvals' st2 = (res', st3)"
  shows "res = Inl ValidationAttributeError \<and> vs_broker st1 = bs \<and> vs_runner st1 = rs \<and>
      st3 = st2 \<and> (preflight_validation V' W' c' p now' = Inr () \<longrightarrow>
        res' = Inl (ValidationRecoveryRequired ''unfinished STARTED checkpoint''))"
proof -
  let ?db = "vs_db st @ [\<lparr>vx_plan = p, vx_started_at = now, vx_completed = None\<rparr>]"
  have claim: "claim_validation (vs_db st) p now = Inr (None, ?db)" by (simp add: claim_validation_def assms(2))
  from assms(3) have pre: "cand_state c = Cand_PROPOSED" "\<exists>q. queue_validation c (vc_scope W) now = Inr q"
    by (auto simp: preflight_validation_def Let_def in_lifecycle_def result_simps split: if_splits sum.splits)
  then obtain running where tr: "bind_result (in_lifecycle (queue_validation c (vc_scope W) now)) (\<lambda>queued.
        in_lifecycle (transition_candidate queued Cand_VALIDATION_RUNNING)) = Inr running"
    by (auto simp: in_lifecycle_def queue_validation_def transition_candidate_def split: if_splits)
  from assms(9) obtain e where "side_effects (vp_broker_calls p) ys = Inl e"
    using side_effects_Inl_iff [of "vp_broker_calls p" ys] by (auto simp: list_ex_iff)
  then have effects: "side_effects (vp_broker_calls p) ys = Inl ValidationAttributeError" using side_effects_error by blast
  have co: "conclude V (vc_judge W) c running p now fr fb r ys = Inl ValidationAttributeError"
    using assms(7,8) effects by (simp add: conclude_def Let_def list_ex_iff list_all_iff)
  have run: "res = Inl ValidationAttributeError" "st1 = st\<lparr>vs_db := ?db, vs_runner := rs, vs_broker := bs\<rparr>"
    using assms(10) by (simp_all add: execute_validation_def assms(3) claim run_claimed_def tr assms(4-6) co)
  then have "claim_open (vs_db st1) p" by (simp add: claim_open_def)
  moreover have "validation_db_ok (vs_db st1)" using validation_ok_kept [OF assms(1,10)] .
  ultimately have "claim_open (vs_db st2) p" "validation_db_ok (vs_db st2)"
    using open_claims_stay [OF assms(11)] validation_ok_reachable [OF assms(11)] by blast+
  then have "claim_validation (vs_db st2) p now' = Inl (ValidationRecoveryRequired ''unfinished STARTED checkpoint'')"
    by (rule open_claim_found [rotated])
  with assms(12) have "st3 = st2 \<and> (preflight_validation V' W' c' p now' = Inr () \<longrightarrow>
      res' = Inl (ValidationRecoveryRequired ''unfinished STARTED checkpoint''))"
    by (auto simp: execute_validation_def split: sum.splits)
  with run show ?thesis by simp
qed

theorem completed_tls_wedges_validation_witness:
  "\<exists>st1. vx_execute vx_tls_broker vx_plan_tls vx_start = (Inl ValidationAttributeError, st1) \<and>
     vx_execute vx_tls_broker vx_plan_tls st1 = (Inl (ValidationRecoveryRequired ''unfinished STARTED checkpoint''), st1)"
proof -
  let ?W = "vx_service vx_tls_broker"
  have f: "vp_runner_request vx_plan_tls = vx_request" "vp_broker_calls vx_plan_tls = [vx_tls_call]" "bc_http vx_tls_call = None"
    "vc_runner ?W = offline_runner bx_digest [''t'']" "vc_broker ?W = vx_tls_broker" "vc_judge ?W = http_judge (hex_digits 64 9)"
    "ve_digest vx_env = bx_digest" "vs_runner vx_start = Map.empty" "vs_broker vx_start = empty_broker_state" "vs_db vx_start = []"
    by (simp_all add: vx_plan_of_def vx_tls_call_def vx_service_def vx_env_def vx_start_def)
  obtain rs where r: "offline_runner bx_digest [''t''] Map.empty vx_request 1000 = (Some vx_run, rs)"
    using vx_tls_run(1) by (cases "offline_runner bx_digest [''t''] Map.empty vx_request 1000") simp
  obtain q bs where q: "broker_phase vx_env vx_tls_broker 1000 [] empty_broker_state vx_plan_tls vx_run = (q, bs)" by fastforce
  with vx_tls_phase obtain ys where ys: "q = Inr ys" "map br_status ys = [Bro_COMPLETED]" "collected_refs vx_run ys = []"
      "is_ok (decide_verdict (http_judge (hex_digits 64 9)) vx_plan_tls vx_run ys [])" by (cases q) auto
  then obtain y v where v: "ys = [y]" "br_status y = Bro_COMPLETED"
      "decide_verdict (http_judge (hex_digits 64 9)) vx_plan_tls vx_run ys [] = Inr v" by (auto simp: is_ok_iff)
  obtain res st1 where run: "vx_execute vx_tls_broker vx_plan_tls vx_start = (res, st1)" by fastforce
  obtain res' st3 where again: "vx_execute vx_tls_broker vx_plan_tls st1 = (res', st3)" by fastforce
  have "res = Inl ValidationAttributeError \<and> vs_broker st1 = bs \<and> vs_runner st1 = rs \<and>
      st3 = st1 \<and> (preflight_validation vx_env ?W vx_candidate vx_plan_tls 1000 = Inr () \<longrightarrow>
        res' = Inl (ValidationRecoveryRequired ''unfinished STARTED checkpoint''))"
    by (rule completed_tls_wedges_validation [OF _ _ vx_tls_preflight _ _ _ _ _ _ run steps_refl again, of vx_run rs ys bs v])
      (use r q ys v vx_tls_run(2) in \<open>simp_all add: f validation_db_ok_def\<close>)
  with run again vx_tls_preflight show ?thesis by auto
qed

end
