(* ===== verification/Spec2Isabelle.thy ===== *)
theory Spec2Isabelle
  imports Core_Properties Audit_Properties Event_Properties Red_Team_Properties Schedule_Properties
    Engagement_Properties Critic_Properties Endpoint_Properties Replan_Properties
    Attack_Properties Broker_Properties Sandbox_Properties Validation_Properties
begin

text \<open>
  A verification development for VulnLoom, an evidence-first vulnerability research platform
  (\<^verbatim>\<open>src/src/vulnloom\<close>). The platform is a control plane: it decides whether an action on an authorised
  target may run, records what ran in a tamper-evident log, and moves candidates, flows, attack chains and
  recurring checks through explicit lifecycles. The development models that control plane; everything that
  talks to a network, a container, a model provider or the file system stays outside.

  \<^bold>\<open>The program's parts and their theories.\<close>
  \<^item> \<open>Prelude\<close>: computations that may raise (\<open>'e + 'a\<close>, \<open>bind_result\<close>), the Python idioms
    (\<open>fromkeys\<close>, \<open>dict_by\<close>, \<open>sorted_set\<close>), field patterns (\<open>is_digest\<close>, \<open>is_reason_code\<close>), runs of a step relation
    (\<open>steps\<close>), and three interfaces: \<open>revision_machine\<close> (a checkpoint is replaced by one with the next revision
    and a terminal one never), \<open>budgeted_machine\<close> (every step uses up some of a budget) and \<open>implementation\<close> (every step,
    seen through an abstraction function, is one of an abstract machine).
  \<^item> \<open>Digests\<close> (\<^verbatim>\<open>domain/digests.py\<close>): Python values, canonicalisation, the JSON text that is hashed, and models
    sealed by their digest (\<open>sealed_by\<close>, locale \<open>sealed_model\<close>). SHA-256 is the parameter \<open>H\<close>. \<open>Digest_Order\<close>: values that
    differ only in iteration order (\<open>same_value\<close>) have the same canonical text.
  \<^item> \<open>Domain\<close> (\<^verbatim>\<open>domain/models.py\<close>) and \<open>Candidate_Lifecycle\<close> (\<^verbatim>\<open>domain/state_machine.py\<close>,
    \<^verbatim>\<open>red_team/campaign_candidate_state_machine.py\<close>): the contracts, and the lifecycle from a proposed Candidate to a
    promoted Finding.
  \<^item> \<open>Urls\<close> and \<open>Policy\<close> (\<^verbatim>\<open>policy/engine.py\<close>): the parts of \<^verbatim>\<open>urllib.parse\<close> the engine uses, and its decision.
  \<^item> \<open>Audit_Chain\<close>, \<open>Audit_Chain_Facts\<close> (\<^verbatim>\<open>storage/audit_chain.py\<close>): hash-chained records per stream, append,
    verification, checkpoints, projections. \<open>Audit_Acceptance\<close>: when an append is accepted.
  \<^item> \<open>Redaction\<close> (\<^verbatim>\<open>evidence/redaction.py\<close>; what a pass does to a text is \<open>redacts\<close>), \<open>Event_Log\<close>, \<open>Event_Log_Facts\<close> (\<^verbatim>\<open>storage/events.py\<close>),
    \<open>Checkpoint_Custody\<close>, \<open>Event_Acceptance\<close> (\<^verbatim>\<open>storage/checkpoints.py\<close>): events are redacted, appended together with an audit
    record in one transaction, and read back only against a trusted checkpoint kept in files.
  \<^item> \<open>Red_Team_Models\<close> (\<^verbatim>\<open>red_team/models.py\<close>, \<^verbatim>\<open>workflows/models.py\<close>), \<open>Red_Team_Flow\<close>
    (\<^verbatim>\<open>red_team/state_machine.py\<close>), \<open>Attack_Chain\<close>, \<open>Attack_Chain_Facts\<close> (\<^verbatim>\<open>red_team/attack_models.py\<close>,
    \<^verbatim>\<open>red_team/attack_state_machine.py\<close>): the flow of an authorised engagement and the attack chains inside it.
  \<^item> \<open>Endpoint_Models\<close>, \<open>Endpoint_Reservation\<close> (\<^verbatim>\<open>red_team/seed_models.py\<close>, \<^verbatim>\<open>red_team/seed_state_machine.py\<close>),
    \<open>Endpoint_Schedule\<close> (\<^verbatim>\<open>red_team/schedule_models.py\<close>, \<^verbatim>\<open>red_team/schedule_state_machine.py\<close>), \<open>Schedule_Store\<close>,
    \<open>Schedule_Facts\<close> (\<^verbatim>\<open>red_team/schedule_store.py\<close>): request reservations, recurring checks and their store.
  \<^item> \<open>Replan_Models\<close> (\<^verbatim>\<open>red_team/replan_models.py\<close> and the action and command of \<^verbatim>\<open>red_team/models.py\<close>), \<open>Red_Team_Store\<close>,
    \<open>Red_Team_Store_Facts\<close> (\<^verbatim>\<open>red_team/store.py\<close>): plans, checkpoints, actions, observations, reservations and replans in one
    database, and the histories of operations on it (\<open>engagement\<close>). \<open>Budget_Ledger\<close>: the abstract account of a plan's budget that the
    store implements. \<open>Red_Team_Service\<close>, \<open>Red_Team_Service_Facts\<close>
    (\<^verbatim>\<open>red_team/service.py\<close>): the service that composes policy, flow transitions, store and adapter. \<open>Replan_Service\<close>
    (\<^verbatim>\<open>red_team/replan_service.py\<close>): actions proposed from observations, admitted, approved and executed.
  \<^item> \<open>Endpoint_Store\<close>, \<open>Endpoint_Store_Facts\<close> (\<^verbatim>\<open>red_team/seed_store.py\<close>), \<open>Endpoint_Service\<close>,
    \<open>Endpoint_Service_Facts\<close> (\<^verbatim>\<open>red_team/seed_service.py\<close> and the two operations of \<^verbatim>\<open>red_team/service.py\<close> it calls):
    seed sets, endpoint plans with their reservations, and their runs, directly or step by step through the flow service.
  \<^item> \<open>Attack_Store\<close>, \<open>Attack_Store_Facts\<close> (\<^verbatim>\<open>red_team/attack_store.py\<close> and the commands, authorizations and audit records of
    \<^verbatim>\<open>red_team/attack_models.py\<close>), \<open>Attack_Service\<close>, \<open>Attack_Service_Facts\<close> (\<^verbatim>\<open>red_team/attack_service.py\<close>): chains with their
    attempts, observations and audit trail, the transactions of any interleaving of callers (\<open>chain_txn\<close>), and the service that
    reserves, starts and executes under exact approvals, every call of which is a run of transactions.
  \<^item> \<open>Evidence_Store\<close> (\<^verbatim>\<open>evidence/store.py\<close>): captured texts, redacted and stored under their digest. \<open>Critic\<close>
    (\<^verbatim>\<open>critic/models.py\<close>, \<^verbatim>\<open>critic/store.py\<close>, \<^verbatim>\<open>critic/service.py\<close>): the deterministic review between validation and promotion.
  \<^item> \<open>Runner_Models\<close> (\<^verbatim>\<open>domain/protocol.py\<close>, \<^verbatim>\<open>runners/models.py\<close>, \<^verbatim>\<open>runners/environment.py\<close>), \<open>Sandbox_Runner\<close>
    (\<^verbatim>\<open>runners/preflight.py\<close>, \<^verbatim>\<open>runners/offline.py\<close>, \<^verbatim>\<open>runners/profiles.py\<close>): task envelopes, hardened sandbox profiles, what is
    checked before a run, and the offline runner.
  \<^item> \<open>Ip_Address\<close>, \<open>Url_Resolve\<close>: the parts of \<^verbatim>\<open>ipaddress\<close> and \<^verbatim>\<open>urllib.parse\<close> that the broker uses. \<open>Broker_Models\<close>,
    \<open>Broker_Service\<close>, \<open>Broker_Facts\<close> (\<^verbatim>\<open>broker/models.py\<close>, \<^verbatim>\<open>registry.py\<close>, \<^verbatim>\<open>implementation.py\<close>, \<^verbatim>\<open>http.py\<close>, \<^verbatim>\<open>tls.py\<close>,
    \<^verbatim>\<open>service.py\<close>): the tool broker, the only part that contacts a target. Its state is the dictionary of stored results and the
    history of what the resolver and the transports were asked; these are functions of the history. \<open>Replay_Cache\<close>: the interface
    \<open>replaying_service\<close> (a request is answered once and replayed), met by the broker and the offline runner.
  \<^item> \<open>Validation_Models\<close> (\<^verbatim>\<open>validation/models.py\<close>, \<^verbatim>\<open>validation/assertions.py\<close>, \<^verbatim>\<open>validation/store.py\<close>), \<open>Validation_Service\<close>,
    \<open>Validation_Facts\<close> (\<^verbatim>\<open>validation/service.py\<close>): a plan is claimed once, run in the sandbox, its calls made through the broker,
    the verdict decided and the candidate moved, composed of the theories above.
  \<^item> \<open>Examples\<close>, \<open>Attack_Examples\<close>, \<open>Broker_Examples\<close>, \<open>Validation_Examples\<close>: concrete parameters and runs for the closed examples. The theories \<open>Core_Properties\<close>, \<open>Audit_Properties\<close>,
    \<open>Event_Properties\<close>, \<open>Red_Team_Properties\<close>, \<open>Schedule_Properties\<close>, \<open>Engagement_Properties\<close>, \<open>Critic_Properties\<close>,
    \<open>Endpoint_Properties\<close>, \<open>Replan_Properties\<close>, \<open>Attack_Properties\<close>, \<open>Broker_Properties\<close>, \<open>Sandbox_Properties\<close> and \<open>Validation_Properties\<close> hold the properties (one more is in \<open>Redaction\<close>), each after a text that states it.

  \<^bold>\<open>How the code corresponds to the model.\<close> A Pydantic model is a record (fields prefixed per record); its constraints and
  validators are \<open>X_valid\<close>, the dump that its identifier is the digest of is \<open>X_content\<close>, its \<^verbatim>\<open>create\<close> is \<open>X_create\<close> with
  \<open>None\<close> for the raised \<^verbatim>\<open>ValueError\<close>. An enumeration is a datatype. An operation that raises returns a sum whose left side
  is the exception; where effects outlive an exception (a claim before a failing adapter call, a file before a failing check)
  it returns the sum together with the state it leaves. A table is a list of rows in insertion order with the uniqueness constraints checked by the inserting
  operation; a transaction that raises leaves the tables as they were. A datetime is its UTC instant in microseconds.

  \<^bold>\<open>Parameters.\<close> \<open>H\<close> (SHA-256 of the canonical text), \<open>S\<close> (SHA-256 of a text), the NFKC and bracket checks of
  \<^verbatim>\<open>urlsplit\<close> (\<open>url_env\<close>), the JSON encoding of stored records and its size (\<open>audit_env\<close>), the regular-expression passes of a
  redactor, the two points in which releases of \<^verbatim>\<open>ipaddress\<close> differ (\<open>ip_lib\<close>), the broker's resolver and transports, the
  sandbox runner and the judge of a validation, the UTF-8 codec, the file attributes of custody and evidence files, \<^verbatim>\<open>uuid5\<close> (\<open>N\<close>), the adapter that touches a
  target and the monotonic clock are arguments of the definitions that use them.
  Where a property needs more of them it says so: passes that replace segments of a text by placeholders
  (\<open>substitutes\<close>), float texts without quotation marks and spaces (\<open>plain_floats\<close>), digests of the right shape (\<open>hex_valued\<close>), decoding that inverts
  encoding, or no digest collision among the values at hand; each such property has a concrete example.

  \<^bold>\<open>What is shown.\<close>
  \<^item> Policy and lifecycle: ALLOW is decided exactly for authorised actions, one approval covers one action only, more
    approvals never take rights away; promotion happens exactly on reproduced, covered, reviewed evidence, in at most five steps.
  \<^item> Audit: appends extend their stream by one linked record and are idempotent, an issued checkpoint keeps verifying,
    and two databases that verify against one checkpoint agree on the prefix it covers. The canonical digest of any value
    is independent of the iteration order of its dictionaries and sets.
  \<^item> Events: acceptable events are stored, audited and listed in every reachable state, failed calls never lock the store out,
    appends are atomic and idempotent, custody never goes back, a redacted value keeps its
    shape and holds, in its texts, no sensitive variant that cannot overlap a placeholder and, under a secret key, no value.
  \<^item> Flows and chains: budgets, the kill switch, the order of attack actions, cleanup before any end, evidence behind a
    reported goal, finality of observations, and that the compensating cleanup is always accepted.
  \<^item> Attack execution: an adapter is consulted only for the approved, allowed, audited and claimed action; every reachable chain store
    holds only valid, uniquely keyed and settled rows, implements the chain machine, and backs a reported goal with the stored
    evidence of every action.
  \<^item> Recurring checks: due times are the next slots of the grid, each slot runs at most once under any interleaving
    of store operations, a lost race is refused, a started run can always be closed, reservations grant exactly their budget.
  \<^item> Engagements: under any interleaving of store operations the checkpoints account exactly for the completed actions, the
    store refines the budget ledger, an action is granted at most three times and never after its completion, a first grant
    happens only where the policy engine allows it, a replanned action touches its target only under an exact approval,
    and an executed observation is read back for ever.
  \<^item> Evidence and review: captured evidence reads back redacted after any further captures, and a review makes a Candidate
    promotable exactly when every counterevidence angle was ruled out.
  \<^item> Endpoint runs: under any operations of the endpoint store the reservation of a plan follows the reservation machine.
  \<^item> Broker and sandbox: every contact with a target is authorised, granted, pinned and within budget, an answered call is never made
    again, a completed result is backed by its exchanges, the profile factories are admitted by construction, checkpoints resume.
  \<^item> Validation: a claimed plan runs once, results are forced exactly by what happened, and a candidate is validated only by a
    response that matches the assertion committed to beforehand.
  \<^item> Eleven places where the code does not do what it means to: an append at the record limit makes its stream unverifiable, a
    key reused across engagements is reported as a damaged store, resuming a schedule skips a slot that has not passed, a
    retry is granted after the kill switch, an external reservation takes the budget of an admitted replan, the recovery of
    an endpoint run cannot start the steps that its interruption left unstarted, repeating a rejected call kills an attack chain
    that owes its cleanup, a cleanup in flight when its flow is stopped can never be completed, a completed TLS call wedges its
    validation, an exception the broker does not name lets a sent request be sent again, and the metadata guard admits the
    IPv4-mapped form of an address it refuses.

  \<^bold>\<open>Bounds.\<close> No definition uses fuel: loops are structural recursion or \<open>function\<close> with a measure (the redirect loop of the broker
  ends because every pass that continues has sent a request of a finite budget). Python integers are unbounded
  integers, UUIDs 128-bit words, floats rationals. The due-time computation divides seconds as floats; the integer
  division of microseconds agrees with it for instants less than 272 years apart. A duration given in float seconds is rounded
  to microseconds from its exact value.

  \<^bold>\<open>Not modelled.\<close> Command lines, the live HTTP and TLS transports (\<^verbatim>\<open>broker/live_http.py\<close>, \<^verbatim>\<open>live_tls.py\<close>), the Docker runner, model providers, repository
  ingestion and syntax-tree analysis (input and output, or third-party parsers); file locking, fsync and SQLite's own
  failure modes; overflow of a datetime beyond year 9999; tampering with the tables of the Red Team stores. Characters are below 256, so a percent-encoded
  letter outside Latin-1 is not one character. Not reached: the intake, pilot and outcome-binding stores in front of validation and
  review, campaign planning, report review, and the benchmark's release gates.
\<close>

end
